(* ===== verification/Prelude.thy ===== *)
theory Prelude
  imports Main "HOL-Library.Word" "HOL-Library.List_Lexorder" "HOL-Library.Char_ord"
begin

text \<open>
  Vocabulary shared by every component.

  \<^item> Rust's \<open>String\<close> and \<open>&str\<close> are UTF-8 byte sequences; an Isabelle \<open>char\<close> is a byte, so a
    \<open>string\<close> (a list of bytes) is the same data, \<open>length\<close> is \<open>str::len\<close>, and the lexicographic
    order of \<open>List_Lexorder\<close> over \<open>Char_ord\<close> is the byte order of Rust's \<open>Ord for String\<close>.
  \<^item> \<open>u64\<close> and \<open>u32\<close> are words; \<open>sat_inc\<close> is \<open>saturating_add(1)\<close>.
  \<^item> \<open>Result<T, E>\<close> is the sum \<open>'e + 't\<close> with \<open>Inl\<close> for \<open>Err\<close>.
  \<^item> \<open>DateTime<Utc>\<close> is an integer count of nanoseconds. An operation that calls \<open>Utc::now()\<close> takes
    a clock \<open>nat \<Rightarrow> time\<close> whose n-th value is its n-th reading.
  \<^item> SHA-256 is not code of the repository: the digest is a parameter of every definition that hashes.
\<close>

named_theorems word_facts \<open>saturating arithmetic on machine words\<close>
named_theorems string_defs \<open>definitions of the byte-string helpers\<close>

type_synonym u16 = "16 word"
type_synonym u32 = "32 word"
type_synonym u64 = "64 word"
type_synonym time = int
type_synonym clock = "nat \<Rightarrow> time"

definition seconds :: "int \<Rightarrow> time" where
  "seconds n = n * 1000000000"

lemma seconds_mono [simp]: "seconds a \<le> seconds b \<longleftrightarrow> a \<le> b"
  by (simp add: seconds_def)

section \<open>Saturating increment\<close>

definition sat_inc :: "'a::len word \<Rightarrow> 'a word" where
  "sat_inc w = (if w = - 1 then w else w + 1)"

lemma unat_plus_one: "w \<noteq> - 1 \<Longrightarrow> unat (w + 1) = Suc (unat (w :: 'a::len word))"
proof -
  assume "w \<noteq> - 1"
  then have "1 + w \<noteq> 0" by (metis add_eq_0_iff2 minus_equation_iff)
  then show ?thesis by (simp add: unatSuc add.commute)
qed

lemma sat_inc_ge [word_facts, simp]: "w \<le> sat_inc w"
  by (simp add: sat_inc_def word_le_nat_alt unat_plus_one)

lemma sat_inc_gt [word_facts]: "w \<noteq> - 1 \<Longrightarrow> w < sat_inc w"
  by (simp add: sat_inc_def word_less_nat_alt unat_plus_one)

lemma sat_inc_eq_iff [word_facts, simp]: "sat_inc w = w \<longleftrightarrow> w = - 1"
  by (auto simp: sat_inc_def)

lemma unat_sat_inc [word_facts]:
  "unat (sat_inc w) = (if w = - 1 then unat w else Suc (unat w))"
  by (simp add: sat_inc_def unat_plus_one)

lemma sat_inc_neq_0 [word_facts, simp]: "sat_inc (w :: 'a::len word) \<noteq> 0"
  by (metis bot_nat_0.extremum_uniqueI nat.distinct(1) sat_inc_def unat_0 unat_plus_one
      neg_equal_0_iff_equal one_neq_zero)

section \<open>Results\<close>

definition is_ok :: "'e + 'a \<Rightarrow> bool" where
  "is_ok r \<longleftrightarrow> (case r of Inl _ \<Rightarrow> False | Inr _ \<Rightarrow> True)"

lemma is_ok_simps [simp]: "is_ok (Inr x)" "\<not> is_ok (Inl e)"
  by (simp_all add: is_ok_def)

lemma is_ok_ex: "is_ok r \<longleftrightarrow> (\<exists>x. r = Inr x)"
  by (cases r) simp_all

definition err_into :: "('e \<Rightarrow> 'f) \<Rightarrow> 'e + 'a \<Rightarrow> 'f + 'a" where
  "err_into f r = (case r of Inl e \<Rightarrow> Inl (f e) | Inr x \<Rightarrow> Inr x)"

lemma err_into_simps [simp]:
  "err_into f (Inl e) = Inl (f e)" "err_into f (Inr x) = Inr x"
  "err_into f r = Inr y \<longleftrightarrow> r = Inr y"
  by (auto simp: err_into_def split: sum.splits)

section \<open>Byte strings\<close>

abbreviation code :: "char \<Rightarrow> nat" where
  "code c \<equiv> of_char c"

abbreviation nl :: char where
  "nl \<equiv> CHR 0x0A"

definition is_ascii_digit :: "char \<Rightarrow> bool" where
  [string_defs]: "is_ascii_digit c \<longleftrightarrow> 48 \<le> code c \<and> code c \<le> 57"

definition is_ascii_lowercase :: "char \<Rightarrow> bool" where
  [string_defs]: "is_ascii_lowercase c \<longleftrightarrow> 97 \<le> code c \<and> code c \<le> 122"

definition is_ascii_uppercase :: "char \<Rightarrow> bool" where
  [string_defs]: "is_ascii_uppercase c \<longleftrightarrow> 65 \<le> code c \<and> code c \<le> 90"

definition is_ascii_hexdigit :: "char \<Rightarrow> bool" where
  [string_defs]: "is_ascii_hexdigit c \<longleftrightarrow>
     is_ascii_digit c \<or> (97 \<le> code c \<and> code c \<le> 102) \<or> (65 \<le> code c \<and> code c \<le> 70)"

definition is_ascii_whitespace :: "char \<Rightarrow> bool" where
  [string_defs]: "is_ascii_whitespace c \<longleftrightarrow> code c \<in> {9, 10, 12, 13, 32}"

definition to_ascii_lowercase :: "string \<Rightarrow> string" where
  "to_ascii_lowercase = map (\<lambda>c. if is_ascii_uppercase c then char_of (code c + 32) else c)"

definition starts_with :: "string \<Rightarrow> string \<Rightarrow> bool" where
  "starts_with s p \<longleftrightarrow> take (length p) s = p"

definition ends_with :: "string \<Rightarrow> string \<Rightarrow> bool" where
  "ends_with s p \<longleftrightarrow> length p \<le> length s \<and> drop (length s - length p) s = p"

definition strip_prefix :: "string \<Rightarrow> string \<Rightarrow> string option" where
  "strip_prefix p s = (if starts_with s p then Some (drop (length p) s) else None)"

fun str_contains :: "string \<Rightarrow> string \<Rightarrow> bool" where
  "str_contains [] p \<longleftrightarrow> p = []"
| "str_contains (c # s) p \<longleftrightarrow> starts_with (c # s) p \<or> str_contains s p"

lemma starts_with_append [simp]: "starts_with (p @ s) p"
  by (simp add: starts_with_def)

lemma starts_with_iff: "starts_with s p \<longleftrightarrow> (\<exists>t. s = p @ t)"
  by (metis append_take_drop_id starts_with_append starts_with_def)

lemma str_contains_iff: "str_contains s p \<longleftrightarrow> (\<exists>a b. s = a @ p @ b)"
proof (induction s)
  case (Cons c s)
  show ?case
  proof
    assume "str_contains (c # s) p"
    then show "\<exists>a b. c # s = a @ p @ b"
      using Cons.IH by (metis append_Cons append_Nil starts_with_iff str_contains.simps(2))
  next
    assume "\<exists>a b. c # s = a @ p @ b"
    then obtain a b where ab: "c # s = a @ p @ b" by blast
    show "str_contains (c # s) p"
    proof (cases a)
      case Nil
      with ab show ?thesis by (metis append_Nil starts_with_iff str_contains.simps(2))
    next
      case (Cons d a')
      with ab Cons.IH show ?thesis by auto
    qed
  qed
qed simp

text \<open>
  \<open>str::trim\<close> removes Unicode \<open>White_Space\<close>; \<open>ws_len\<close> is the number of bytes of the white-space
  scalar a UTF-8 string starts with, 0 when it starts with anything else.
\<close>

definition ws_len :: "string \<Rightarrow> nat" where
  "ws_len s = (case map code s of
      [] \<Rightarrow> 0
    | a # r \<Rightarrow>
       if (9 \<le> a \<and> a \<le> 13) \<or> a = 32 then 1
       else case r of
          [] \<Rightarrow> 0
        | b # r' \<Rightarrow>
           if a = 194 \<and> (b = 133 \<or> b = 160) then 2
           else case r' of
              [] \<Rightarrow> 0
            | c # _ \<Rightarrow>
               if a = 225 \<and> b = 154 \<and> c = 128 then 3
               else if a = 226 \<and> b = 128 \<and> ((128 \<le> c \<and> c \<le> 138) \<or> c = 168 \<or> c = 169 \<or> c = 175) then 3
               else if a = 226 \<and> b = 129 \<and> c = 159 then 3
               else if a = 227 \<and> b = 128 \<and> c = 128 then 3
               else 0)"

text \<open>\<open>is_blank s\<close> is \<open>s.trim().is_empty()\<close>: nothing but white space.\<close>

function is_blank :: "string \<Rightarrow> bool" where
  "is_blank s = (if s = [] then True else if ws_len s = 0 then False
                 else is_blank (drop (ws_len s) s))"
  by pat_completeness auto
termination
  by (relation "measure length") auto

declare is_blank.simps [simp del]

lemma is_blank_Nil [simp]: "is_blank []"
  by (subst is_blank.simps) simp

lemma ws_len_ascii: "33 \<le> code c \<Longrightarrow> code c < 128 \<Longrightarrow> ws_len (c # s) = 0"
  unfolding ws_len_def by (auto split: list.splits)

lemma is_blank_ascii: "33 \<le> code c \<Longrightarrow> code c < 128 \<Longrightarrow> \<not> is_blank (c # s)"
  by (subst is_blank.simps) (simp add: ws_len_ascii)

text \<open>\<open>to_string\<close> of an unsigned number.\<close>

fun show_nat :: "nat \<Rightarrow> string" where
  "show_nat n = (if n < 10 then [char_of (48 + n)]
                 else show_nat (n div 10) @ [char_of (48 + n mod 10)])"

declare show_nat.simps [simp del]

definition show_u64 :: "u64 \<Rightarrow> string" where
  "show_u64 w = show_nat (unat w)"

lemma code_digit: "a < 10 \<Longrightarrow> code (char_of (48 + a) :: char) = 48 + (a :: nat)"
  by simp

lemma show_nat_ne_Nil [simp]: "show_nat n \<noteq> []"
  by (subst show_nat.simps) simp

text \<open>Reading the digits back: \<open>to_string\<close> loses nothing.\<close>

definition read_nat :: "string \<Rightarrow> nat" where
  "read_nat = foldl (\<lambda>n c. 10 * n + (code c - 48)) 0"

lemma read_show_nat: "read_nat (show_nat n) = n"
proof (induction n rule: show_nat.induct)
  case (1 n)
  have m: "48 + n mod 10 < 256" "n < 10 \<Longrightarrow> 48 + n < 256" by presburger+
  show ?case
  proof (cases "n < 10")
    case True
    then show ?thesis using m by (simp add: show_nat.simps [of n] read_nat_def)
  next
    case False
    with 1 have "read_nat (show_nat (n div 10)) = n div 10" by simp
    with False m show ?thesis by (simp add: show_nat.simps [of n] read_nat_def)
  qed
qed

lemma show_nat_inj [simp]: "show_nat m = show_nat n \<longleftrightarrow> m = n"
  by (metis read_show_nat)

lemma show_u64_inj [simp]: "show_u64 v = show_u64 w \<longleftrightarrow> v = w"
  by (auto simp: show_u64_def intro: unsigned_word_eqI)

end
