(* ===== verification/OrdMap.thy ===== *)
theory OrdMap
  imports Prelude
begin

text \<open>
  \<open>std::collections::BTreeMap\<close> as a strictly sorted association list, so that \<open>values()\<close> and
  \<open>find\<close> see the entries in key order, as they do in the code. The contract the stores rely on is
  the locale \<open>keyed_map\<close>; its interpretation \<open>bt\<close> discharges it for the sorted lists.
\<close>

type_synonym ('k, 'v) btree = "('k \<times> 'v) list"

definition bt_wf :: "('k::linorder, 'v) btree \<Rightarrow> bool" where
  "bt_wf m \<longleftrightarrow> sorted_wrt (<) (map fst m)"

definition bt_empty :: "('k, 'v) btree" where
  "bt_empty = []"

fun bt_get :: "('k, 'v) btree \<Rightarrow> 'k \<Rightarrow> 'v option" where
  "bt_get [] k = None"
| "bt_get ((a, v) # m) k = (if a = k then Some v else bt_get m k)"

fun bt_insert :: "'k::linorder \<Rightarrow> 'v \<Rightarrow> ('k, 'v) btree \<Rightarrow> ('k, 'v) btree" where
  "bt_insert k v [] = [(k, v)]"
| "bt_insert k v ((a, w) # m) =
     (if k = a then (k, v) # m
      else if k < a then (k, v) # (a, w) # m
      else (a, w) # bt_insert k v m)"

definition bt_values :: "('k, 'v) btree \<Rightarrow> 'v list" where
  "bt_values m = map snd m"

section \<open>The contract of a keyed map\<close>

locale keyed_map =
  fixes get :: "'m \<Rightarrow> 'k \<Rightarrow> 'v option"
    and ins :: "'k \<Rightarrow> 'v \<Rightarrow> 'm \<Rightarrow> 'm"
    and entries :: "'m \<Rightarrow> ('k \<times> 'v) list"
    and ok :: "'m \<Rightarrow> bool"
  assumes get_ins: "get (ins k v m) j = (if j = k then Some v else get m j)"
    and ok_ins: "ok m \<Longrightarrow> ok (ins k v m)"
    and get_entries: "ok m \<Longrightarrow> get m k = Some v \<longleftrightarrow> (k, v) \<in> set (entries m)"
    and distinct_entries: "ok m \<Longrightarrow> distinct (map fst (entries m))"
begin

definition vals :: "'m \<Rightarrow> 'v list" where
  "vals m = map snd (entries m)"

lemma get_ins_same: "get (ins k v m) k = Some v"
  by (simp add: get_ins)

lemma get_ins_other: "j \<noteq> k \<Longrightarrow> get (ins k v m) j = get m j"
  by (simp add: get_ins)

lemma in_vals: "ok m \<Longrightarrow> v \<in> set (vals m) \<longleftrightarrow> (\<exists>k. get m k = Some v)"
  by (force simp: vals_def get_entries image_iff)

lemma in_vals_ins:
  "ok m \<Longrightarrow> w \<in> set (vals (ins k v m)) \<longleftrightarrow> w = v \<or> (\<exists>j. j \<noteq> k \<and> get m j = Some w)"
  by (auto simp: in_vals ok_ins get_ins)

lemma all_vals_ins:
  "ok m \<Longrightarrow> (\<forall>w \<in> set (vals m). P w) \<Longrightarrow> P v \<Longrightarrow> \<forall>w \<in> set (vals (ins k v m)). P w"
  by (auto simp: in_vals_ins in_vals)

lemma dom_entries: "ok m \<Longrightarrow> dom (get m) = set (map fst (entries m))"
  by (force simp: get_entries)

lemma card_dom: "ok m \<Longrightarrow> card (dom (get m)) = length (entries m)"
  by (metis distinct_card distinct_entries dom_entries length_map)

lemma ins_get_dom: "dom (get (ins k v m)) = insert k (dom (get m))"
  by (auto simp: get_ins split: if_splits)

lemma length_ins:
  assumes "ok m"
  shows "length (entries (ins k v m)) =
    (if get m k = None then Suc (length (entries m)) else length (entries m))"
proof -
  have fin: "finite (dom (get m))" using assms by (simp add: dom_entries)
  have "length (entries (ins k v m)) = card (insert k (dom (get m)))"
    by (metis assms card_dom ins_get_dom ok_ins)
  with fin assms show ?thesis by (auto simp: card_insert_if card_dom domIff)
qed

end

section \<open>Sorted association lists keep the contract\<close>

lemma bt_get_insert: "bt_get (bt_insert k v m) j = (if j = k then Some v else bt_get m j)"
  by (induction k v m rule: bt_insert.induct) auto

lemma set_bt_insert: "set (map fst (bt_insert k v m)) = insert k (set (map fst m))"
  by (induction k v m rule: bt_insert.induct) auto

lemma bt_wf_insert: "bt_wf m \<Longrightarrow> bt_wf (bt_insert k v m)"
proof (induction k v m rule: bt_insert.induct)
  case (2 k v a w m)
  have s: "fst ` set (bt_insert k v m) = insert k (fst ` set m)"
    using set_bt_insert [of k v m] by simp
  show ?case
  proof (cases "a < k")
    case True
    with 2 have "bt_wf (bt_insert k v m)" by (auto simp: bt_wf_def)
    with True 2 s show ?thesis by (auto simp: bt_wf_def)
  next
    case False
    with 2 show ?thesis by (auto simp: bt_wf_def dest: less_trans)
  qed
qed (simp add: bt_wf_def)

lemma bt_get_in: "bt_get m k = Some v \<Longrightarrow> (k, v) \<in> set m"
  by (induction m k rule: bt_get.induct) (auto split: if_splits)

lemma bt_get_iff: "bt_wf m \<Longrightarrow> bt_get m k = Some v \<longleftrightarrow> (k, v) \<in> set m"
proof (induction m k rule: bt_get.induct)
  case (2 a w m k)
  then show ?case by (cases "a = k") (auto simp: bt_wf_def)
qed simp

lemma bt_distinct: "bt_wf m \<Longrightarrow> distinct (map fst m)"
  by (simp add: bt_wf_def strict_sorted_iff)

interpretation bt: keyed_map bt_get bt_insert "\<lambda>m. m" bt_wf
  by unfold_locales (simp_all add: bt_get_insert bt_wf_insert bt_get_iff bt_distinct)

lemma bt_vals [simp]: "bt.vals = bt_values"
  by (rule ext) (simp add: bt.vals_def bt_values_def)

lemmas bt_in_values = bt.in_vals [unfolded bt_vals]
lemmas bt_in_values_insert = bt.in_vals_ins [unfolded bt_vals]

declare bt_get_insert [simp] bt_wf_insert [simp]

lemma bt_wf_empty [simp]: "bt_wf bt_empty" "bt_wf []"
  by (simp_all add: bt_wf_def bt_empty_def)

lemma bt_get_empty [simp]: "bt_get bt_empty k = None"
  by (simp add: bt_empty_def)

lemma bt_values_simps [simp]: "bt_values [] = []" "bt_values bt_empty = []"
  by (simp_all add: bt_values_def bt_empty_def)

text \<open>\<open>values().find(p)\<close>: the first entry, in key order, whose value satisfies \<open>p\<close>.\<close>

definition bt_find :: "('v \<Rightarrow> bool) \<Rightarrow> ('k, 'v) btree \<Rightarrow> 'v option" where
  "bt_find p m = List.find p (bt_values m)"

lemma bt_find_Some:
  assumes "bt_wf m" "bt_find p m = Some v"
  shows "p v \<and> (\<exists>k. bt_get m k = Some v)"
proof -
  have "p v" "v \<in> set (bt_values m)"
    using assms(2) by (auto simp: bt_find_def find_Some_iff)
  then show ?thesis using assms(1) by (simp add: bt_in_values)
qed

lemma bt_find_None:
  assumes "bt_wf m"
  shows "bt_find p m = None \<longleftrightarrow> (\<forall>k v. bt_get m k = Some v \<longrightarrow> \<not> p v)"
proof -
  have "bt_find p m = None \<longleftrightarrow> (\<forall>v \<in> set (bt_values m). \<not> p v)"
    by (auto simp: bt_find_def find_None_iff)
  then show ?thesis using assms by (auto simp: bt_in_values)
qed

text \<open>When exactly one value satisfies \<open>p\<close>, \<open>find\<close> returns it whatever the order.\<close>

lemma bt_find_unique:
  assumes "bt_wf m" "bt_get m k = Some v" "p v"
    and "\<And>j w. bt_get m j = Some w \<Longrightarrow> p w \<Longrightarrow> w = v"
  shows "bt_find p m = Some v"
proof (cases "bt_find p m")
  case None
  with assms(1) have "\<forall>k v. bt_get m k = Some v \<longrightarrow> \<not> p v" by (simp add: bt_find_None)
  with assms(2,3) show ?thesis by blast
next
  case (Some w)
  from bt_find_Some [OF assms(1) Some] obtain j where "bt_get m j = Some w" "p w" by blast
  from assms(4) [OF this] Some show ?thesis by simp
qed

end
