(* ===== verification/Hashing.thy ===== *)
theory Hashing
  imports Prelude
begin

text \<open>
  \<open>types::sha256_hex\<close> and \<open>publication::model::framed_hash\<close>. The digest itself is the \<open>sha2\<close> crate:
  a parameter \<open>D\<close> from bytes to bytes. What the code relies on is that a digest has 32 bytes
  (\<open>digest32\<close>). The framing in front of it is modelled byte for byte and is injective, so two
  different field lists never meet in the digest's input.
\<close>

type_synonym digest = "string \<Rightarrow> string"

definition digest32 :: "digest \<Rightarrow> bool" where
  "digest32 D \<longleftrightarrow> (\<forall>b. length (D b) = 32)"

definition hex_digit :: "nat \<Rightarrow> char" where
  "hex_digit n = (if n < 10 then char_of (48 + n) else char_of (87 + n))"

definition hex_byte :: "char \<Rightarrow> string" where
  "hex_byte c = [hex_digit (code c div 16), hex_digit (code c mod 16)]"

definition sha256_hex :: "digest \<Rightarrow> string \<Rightarrow> string" where
  "sha256_hex D b = concat (map hex_byte (D b))"

definition is_lower_hex :: "char \<Rightarrow> bool" where
  "is_lower_hex c \<longleftrightarrow> is_ascii_hexdigit c \<and> \<not> is_ascii_uppercase c"

lemma hex_digit_lower: "n < 16 \<Longrightarrow> is_lower_hex (hex_digit n)"
  by (auto simp: hex_digit_def is_lower_hex_def string_defs)

lemma code_lt [simp]: "code (c :: char) < 256"
  by (metis mod_less_divisor of_char_mod_256 zero_less_numeral)

lemma length_concat_hex: "length (concat (map hex_byte s)) = 2 * length s"
  by (induction s) (simp_all add: hex_byte_def)

lemma length_sha256_hex: "digest32 D \<Longrightarrow> length (sha256_hex D b) = 64"
  by (simp add: sha256_hex_def length_concat_hex digest32_def)

lemma sha256_hex_lower: "c \<in> set (sha256_hex D b) \<Longrightarrow> is_lower_hex c"
proof -
  assume "c \<in> set (sha256_hex D b)"
  then obtain x where "x \<in> set (D b)" "c \<in> set (hex_byte x)"
    by (auto simp: sha256_hex_def)
  moreover have "code x div 16 < 16" for x :: char
    using code_lt [of x] by linarith
  ultimately show ?thesis by (auto simp: hex_byte_def hex_digit_lower)
qed

section \<open>Framing\<close>

definition be_bytes :: "nat \<Rightarrow> string" where
  "be_bytes n = map (\<lambda>i. char_of (n div 256 ^ (7 - i))) [0..<8]"

definition frame :: "string list \<Rightarrow> string" where
  "frame fs = concat (map (\<lambda>f. be_bytes (length f) @ f) fs)"

definition framed_hash :: "digest \<Rightarrow> string list \<Rightarrow> string" where
  "framed_hash D fs = sha256_hex D (frame fs)"

lemma length_framed_hash: "digest32 D \<Longrightarrow> length (framed_hash D fs) = 64"
  by (simp add: framed_hash_def length_sha256_hex)

lemma length_be_bytes [simp]: "length (be_bytes n) = 8"
  by (simp add: be_bytes_def)

definition be_value :: "string \<Rightarrow> nat" where
  "be_value = foldl (\<lambda>n c. 256 * n + code c) 0"

lemma div_step: "(256::nat) * (n div (256 * d)) + n div d mod 256 = n div d"
  by (metis div_mult2_eq mult.commute mult_div_mod_eq)

lemma be_value_bytes: "n < 2 ^ 64 \<Longrightarrow> be_value (be_bytes n) = n"
proof -
  assume "n < 2 ^ 64"
  then have top: "n div 72057594037927936 mod 256 = n div 72057594037927936"
    by (simp add: div_less_iff_less_mult)
  have u: "[0..<8] = [0, 1, 2, 3, 4, 5, 6, 7 :: nat]" by (simp add: upt_rec)
  have "be_value (be_bytes n) =
     256 * (256 * (256 * (256 * (256 * (256 * (256 * (n div 72057594037927936 mod 256)
       + n div 281474976710656 mod 256) + n div 1099511627776 mod 256)
       + n div 4294967296 mod 256) + n div 16777216 mod 256) + n div 65536 mod 256)
       + n div 256 mod 256) + n mod 256"
    by (simp add: be_value_def be_bytes_def u)
  also have "\<dots> = n"
    using div_step [of n 281474976710656] div_step [of n 1099511627776]
      div_step [of n 4294967296] div_step [of n 16777216] div_step [of n 65536]
      div_step [of n 256] div_step [of n 1] top by simp
  finally show ?thesis .
qed

lemma be_bytes_inj: "m < 2 ^ 64 \<Longrightarrow> n < 2 ^ 64 \<Longrightarrow> be_bytes m = be_bytes n \<Longrightarrow> m = n"
  by (metis be_value_bytes)

definition frameable :: "string list \<Rightarrow> bool" where
  "frameable fs \<longleftrightarrow> (\<forall>f \<in> set fs. length f < 2 ^ 64)"

lemma frame_inj:
  "frameable fs \<Longrightarrow> frameable gs \<Longrightarrow> frame fs = frame gs \<longleftrightarrow> fs = gs"
proof (induction fs arbitrary: gs)
  case Nil
  then show ?case by (cases gs) (auto simp: frame_def be_bytes_def)
next
  case (Cons f fs)
  show ?case
  proof (cases gs)
    case Nil
    then show ?thesis by (auto simp: frame_def be_bytes_def)
  next
    case g: (Cons g gs')
    have "f = g \<and> fs = gs'" if eq: "frame (f # fs) = frame (g # gs')"
    proof -
      have parts: "be_bytes (length f) = be_bytes (length g)" "f @ frame fs = g @ frame gs'"
        using eq by (simp_all add: frame_def)
      then have "length f = length g"
        using Cons.prems g by (auto simp: frameable_def intro: be_bytes_inj)
      with parts have "f = g" "frame fs = frame gs'" by simp_all
      moreover have "fs = gs'"
        using Cons.IH [of gs'] Cons.prems g \<open>frame fs = frame gs'\<close> by (simp add: frameable_def)
      ultimately show ?thesis by simp
    qed
    with g show ?thesis by auto
  qed
qed

end
