(* ===== verification/ReleaseModel.thy ===== *)
theory ReleaseModel
  imports OrdMap Hashing
begin

text \<open>
  \<open>release/model.rs\<close> and \<open>release/manifest.rs\<close>: the records of a packaged release, the validation
  of packaging input, the idempotency key, and the one approved runtime profile.
  Record fields carry a prefix (\<open>ri_\<close> input, \<open>wr_\<close> release, \<open>pk_\<close> packaging, \<open>sc_\<close> scan evidence).
\<close>

datatype work_release_status =
    Wr_Packaging | Wr_Packaged | Wr_Validated | Wr_Failed | Wr_GarbageCollectable | Wr_GarbageCollected

datatype release_packaging_status =
    Pk_Prepared | Pk_Building | Pk_Pushed | Pk_Scanning | Pk_Signing | Pk_Validated | Pk_Failed
  | Pk_ReconcileRequired

text \<open>The names \<open>derive(Debug)\<close> prints.\<close>

fun packaging_status_debug :: "release_packaging_status \<Rightarrow> string" where
  "packaging_status_debug Pk_Prepared = ''Prepared''"
| "packaging_status_debug Pk_Building = ''Building''"
| "packaging_status_debug Pk_Pushed = ''Pushed''"
| "packaging_status_debug Pk_Scanning = ''Scanning''"
| "packaging_status_debug Pk_Signing = ''Signing''"
| "packaging_status_debug Pk_Validated = ''Validated''"
| "packaging_status_debug Pk_Failed = ''Failed''"
| "packaging_status_debug Pk_ReconcileRequired = ''ReconcileRequired''"

record packaging_scan_evidence =
  sc_policy_version :: string
  sc_passed :: bool
  sc_critical_vulnerabilities :: u32
  sc_high_vulnerabilities :: u32
  sc_secret_findings :: u32
  sc_report_digest :: string

record release_garbage_collection_evidence =
  gc_registry_manifest_deleted :: bool
  gc_packaging_evidence_deleted :: bool

record release_packaging_input =
  ri_project_id :: string
  ri_version_id :: string
  ri_run_id :: string
  ri_template_id :: string
  ri_template_version :: string
  ri_artifact_manifest_hash :: string
  ri_runtime_manifest_hash :: string
  ri_source_snapshot_uri :: string
  ri_runtime_profile_id :: string
  ri_base_image_digest :: string
  ri_packager_version :: string
  ri_registry_repository :: string
  ri_scan_policy_version :: string

record work_release =
  wr_id :: string
  wr_project_id :: string
  wr_version_id :: string
  wr_run_id :: string
  wr_template_id :: string
  wr_template_version :: string
  wr_artifact_manifest_hash :: string
  wr_runtime_manifest_hash :: string
  wr_source_snapshot_uri :: string
  wr_runtime_profile_id :: string
  wr_runtime_image_ref :: "string option"
  wr_runtime_image_digest :: "string option"
  wr_status :: work_release_status
  wr_created_at :: time
  wr_updated_at :: time

record release_packaging_record =
  pk_id :: string
  pk_idempotency_key :: string
  pk_project_id :: string
  pk_release_id :: string
  pk_artifact_manifest_hash :: string
  pk_runtime_manifest_hash :: string
  pk_base_image_digest :: string
  pk_packager_version :: string
  pk_registry_repository :: string
  pk_built_image_digest :: "string option"
  pk_pushed_image_digest :: "string option"
  pk_sbom_digest :: "string option"
  pk_provenance_digest :: "string option"
  pk_signature_identity :: "string option"
  pk_signature_digest :: "string option"
  pk_scan_policy_version :: string
  pk_scan_evidence :: "packaging_scan_evidence option"
  pk_status :: release_packaging_status
  pk_attempts :: u32
  pk_last_error :: "string option"
  pk_created_at :: time
  pk_updated_at :: time

section \<open>Validation\<close>

definition validate_sha256 :: "string \<Rightarrow> string \<Rightarrow> string + unit" where
  "validate_sha256 value field =
     (if length value \<noteq> 64 \<or> \<not> list_all is_lower_hex value
      then Inl (field @ '' is invalid'') else Inr ())"

definition validate_digest :: "string \<Rightarrow> string \<Rightarrow> string + unit" where
  "validate_digest value field = (case strip_prefix ''sha256:'' value of
      None \<Rightarrow> Inl (field @ '' must be sha256-pinned'')
    | Some hash \<Rightarrow> validate_sha256 hash field)"

definition packaging_idempotency_key :: "digest \<Rightarrow> release_packaging_input \<Rightarrow> string" where
  "packaging_idempotency_key D i = sha256_hex D (frame
     [ri_artifact_manifest_hash i, ri_runtime_manifest_hash i, ri_base_image_digest i,
      ri_packager_version i, ri_scan_policy_version i])"

definition release_input_fields :: "release_packaging_input \<Rightarrow> (string \<times> string) list" where
  "release_input_fields i =
    [(''projectId'', ri_project_id i), (''versionId'', ri_version_id i), (''runId'', ri_run_id i),
     (''templateId'', ri_template_id i), (''templateVersion'', ri_template_version i),
     (''sourceSnapshotUri'', ri_source_snapshot_uri i),
     (''runtimeProfileId'', ri_runtime_profile_id i),
     (''packagerVersion'', ri_packager_version i),
     (''registryRepository'', ri_registry_repository i),
     (''scanPolicyVersion'', ri_scan_policy_version i)]"

definition validate_packaging_input :: "release_packaging_input \<Rightarrow> string + unit" where
  "validate_packaging_input i =
    (case List.find (\<lambda>(field, value). is_blank value) (release_input_fields i) of
       Some (field, value) \<Rightarrow> Inl (''release packaging '' @ field @ '' must not be empty'')
     | None \<Rightarrow>
    (case validate_sha256 (ri_artifact_manifest_hash i) ''artifact manifest hash'' of
       Inl e \<Rightarrow> Inl e
     | Inr _ \<Rightarrow>
    (case validate_sha256 (ri_runtime_manifest_hash i) ''runtime manifest hash'' of
       Inl e \<Rightarrow> Inl e
     | Inr _ \<Rightarrow>
    (case validate_digest (ri_base_image_digest i) ''base image digest'' of
       Inl e \<Rightarrow> Inl e
     | Inr _ \<Rightarrow>
       if str_contains (ri_registry_repository i) ''://''
          \<or> str_contains (ri_registry_repository i) ''@''
          \<or> ends_with (ri_registry_repository i) ''/''
       then Inl ''release registry repository is invalid''
       else Inr ()))))"

section \<open>Fresh records\<close>

text \<open>\<open>format!("release-{}", &key[..32])\<close> and \<open>format!("packaging-{}", &key[..32])\<close>\<close>

definition release_id_of :: "string \<Rightarrow> string" where
  "release_id_of key = ''release-'' @ take 32 key"

definition packaging_id_of :: "string \<Rightarrow> string" where
  "packaging_id_of key = ''packaging-'' @ take 32 key"

lemma id_of_inj [simp]:
  "release_id_of a = release_id_of b \<longleftrightarrow> take 32 a = take 32 b"
  "packaging_id_of a = packaging_id_of b \<longleftrightarrow> take 32 a = take 32 b"
  by (simp_all add: release_id_of_def packaging_id_of_def)

definition release_packaging_of :: "release_packaging_input \<Rightarrow> string \<Rightarrow> time \<Rightarrow> work_release" where
  "release_packaging_of i key now =
    \<lparr>wr_id = release_id_of key, wr_project_id = ri_project_id i,
     wr_version_id = ri_version_id i, wr_run_id = ri_run_id i,
     wr_template_id = ri_template_id i, wr_template_version = ri_template_version i,
     wr_artifact_manifest_hash = ri_artifact_manifest_hash i,
     wr_runtime_manifest_hash = ri_runtime_manifest_hash i,
     wr_source_snapshot_uri = ri_source_snapshot_uri i,
     wr_runtime_profile_id = ri_runtime_profile_id i,
     wr_runtime_image_ref = None, wr_runtime_image_digest = None,
     wr_status = Wr_Packaging, wr_created_at = now, wr_updated_at = now\<rparr>"

definition packaging_record_prepared ::
    "release_packaging_input \<Rightarrow> string \<Rightarrow> string \<Rightarrow> time \<Rightarrow> release_packaging_record" where
  "packaging_record_prepared i release_id key now =
    \<lparr>pk_id = packaging_id_of key, pk_idempotency_key = key,
     pk_project_id = ri_project_id i, pk_release_id = release_id,
     pk_artifact_manifest_hash = ri_artifact_manifest_hash i,
     pk_runtime_manifest_hash = ri_runtime_manifest_hash i,
     pk_base_image_digest = ri_base_image_digest i,
     pk_packager_version = ri_packager_version i,
     pk_registry_repository = ri_registry_repository i,
     pk_built_image_digest = None, pk_pushed_image_digest = None, pk_sbom_digest = None,
     pk_provenance_digest = None, pk_signature_identity = None, pk_signature_digest = None,
     pk_scan_policy_version = ri_scan_policy_version i, pk_scan_evidence = None,
     pk_status = Pk_Prepared, pk_attempts = 0, pk_last_error = None,
     pk_created_at = now, pk_updated_at = now\<rparr>"

section \<open>The approved runtime profile\<close>

record runtime_health_spec =
  rh_path :: string
  rh_initial_delay_seconds :: u32
  rh_timeout_seconds :: u32

record runtime_resource_spec =
  rr_cpu_request :: string
  rr_memory_request :: string
  rr_cpu_limit :: string
  rr_memory_limit :: string

record runtime_replica_spec =
  rep_min :: u16
  rep_max :: u16

record runtime_manifest =
  rm_schema_version :: string
  rm_delivery_runtime :: string
  rm_container_port :: u16
  rm_health :: runtime_health_spec
  rm_resources :: runtime_resource_spec
  rm_replicas :: runtime_replica_spec
  rm_state_mode :: string
  rm_network_egress_policy :: string

definition manifest_static_web_v1 :: runtime_manifest where
  "manifest_static_web_v1 =
    \<lparr>rm_schema_version = ''runtime-manifest@1'', rm_delivery_runtime = ''static_web_v1'',
     rm_container_port = 8080,
     rm_health = \<lparr>rh_path = ''/.well-known/anydesign/healthz'',
                  rh_initial_delay_seconds = 2, rh_timeout_seconds = 2\<rparr>,
     rm_resources = \<lparr>rr_cpu_request = ''25m'', rr_memory_request = ''32Mi'',
                     rr_cpu_limit = ''250m'', rr_memory_limit = ''128Mi''\<rparr>,
     rm_replicas = \<lparr>rep_min = 1, rep_max = 1\<rparr>,
     rm_state_mode = ''stateless'', rm_network_egress_policy = ''deny_by_default''\<rparr>"

definition static_web_profile_id :: string where
  "static_web_profile_id = ''static-web-v1''"

record runtime_profile =
  rp_id :: string
  rp_manifest :: runtime_manifest
  rp_base_image_digest :: string
  rp_packager_version :: string
  rp_scan_policy_version :: string

definition validate_manifest :: "runtime_manifest \<Rightarrow> string + unit" where
  "validate_manifest m =
     (if m \<noteq> manifest_static_web_v1
      then Inl ''runtime manifest is not an approved static-web-v1 profile'' else Inr ())"

text \<open>\<open>canonical_bytes\<close> and \<open>sha256\<close>; \<open>json\<close> is \<open>serde_json::to_vec\<close>.\<close>

definition manifest_sha256 ::
    "digest \<Rightarrow> (runtime_manifest \<Rightarrow> string) \<Rightarrow> runtime_manifest \<Rightarrow> string + string" where
  "manifest_sha256 D json m = (case validate_manifest m of
      Inl e \<Rightarrow> Inl e
    | Inr _ \<Rightarrow> Inr (sha256_hex D (json m)))"

text \<open>The profile's own digest check (\<open>manifest.rs\<close>) also accepts upper-case digits.\<close>

definition validate_image_digest :: "string \<Rightarrow> string + unit" where
  "validate_image_digest value = (case strip_prefix ''sha256:'' value of
      None \<Rightarrow> Inl ''image digest must be sha256-pinned''
    | Some hash \<Rightarrow>
        if length hash \<noteq> 64 \<or> \<not> list_all is_ascii_hexdigit hash
        then Inl ''image digest is invalid'' else Inr ())"

definition validate_profile :: "runtime_profile \<Rightarrow> string + unit" where
  "validate_profile p =
    (if rp_id p \<noteq> static_web_profile_id then Inl ''runtime profile id is not approved''
     else case validate_manifest (rp_manifest p) of
            Inl e \<Rightarrow> Inl e
          | Inr _ \<Rightarrow>
       (case validate_image_digest (rp_base_image_digest p) of
          Inl e \<Rightarrow> Inl e
        | Inr _ \<Rightarrow>
          if is_blank (rp_packager_version p) \<or> is_blank (rp_scan_policy_version p)
          then Inl ''runtime profile versions must not be empty'' else Inr ()))"

definition profile_static_web_v1 :: "string \<Rightarrow> string \<Rightarrow> string \<Rightarrow> string + runtime_profile" where
  "profile_static_web_v1 base_image packager scan =
    (let profile = \<lparr>rp_id = static_web_profile_id, rp_manifest = manifest_static_web_v1,
                     rp_base_image_digest = base_image, rp_packager_version = packager,
                     rp_scan_policy_version = scan\<rparr>
     in case validate_profile profile of Inl e \<Rightarrow> Inl e | Inr _ \<Rightarrow> Inr profile)"

text \<open>\<open>RuntimeProfileRegistry\<close>: the loop of \<open>new\<close> over the profiles, then \<open>resolve\<close>.\<close>

type_synonym runtime_profile_registry = "(string, runtime_profile) btree"

fun registry_index ::
    "runtime_profile_registry \<Rightarrow> runtime_profile list \<Rightarrow> string + runtime_profile_registry" where
  "registry_index indexed [] = Inr indexed"
| "registry_index indexed (p # ps) = (case validate_profile p of
      Inl e \<Rightarrow> Inl e
    | Inr _ \<Rightarrow>
        if bt_get indexed (rp_id p) \<noteq> None then Inl ''duplicate runtime profile id''
        else registry_index (bt_insert (rp_id p) p indexed) ps)"

definition registry_new :: "runtime_profile list \<Rightarrow> string + runtime_profile_registry" where
  "registry_new ps = registry_index bt_empty ps"

definition registry_resolve :: "runtime_profile_registry \<Rightarrow> string \<Rightarrow> string + runtime_profile" where
  "registry_resolve reg profile_id = (case bt_get reg profile_id of
      Some p \<Rightarrow> Inr p
    | None \<Rightarrow> Inl (''runtime profile is not registered: '' @ profile_id))"

lemma validate_digest_length: "validate_digest d f = Inr () \<Longrightarrow> length d = 71"
  by (auto simp: validate_digest_def validate_sha256_def strip_prefix_def starts_with_def
      split: option.splits if_splits)

definition valid_digest :: "string \<Rightarrow> bool" where
  "valid_digest d \<longleftrightarrow> validate_digest d [] = Inr ()"

lemma validate_digest_iff: "validate_digest d f = Inr u \<longleftrightarrow> valid_digest d"
  by (auto simp: validate_digest_def valid_digest_def validate_sha256_def split: option.split)

end
