(* ===== verification/PublicationModel.thy ===== *)
theory PublicationModel
  imports ReleaseModel
begin

text \<open>
  \<open>publication/model.rs\<close> and \<open>types::validate_workspace_namespace\<close>: the intent a client sends, the
  operation, the runtime state of a project and the outbox event, with the validation and the hashes
  of an intent. Field prefixes: \<open>in_\<close> intent, \<open>op_\<close> operation, \<open>rt_\<close> runtime state, \<open>ob_\<close> outbox.
\<close>

definition publish_operation_schema :: string where
  "publish_operation_schema = ''publish-operation@1''"

definition work_runtime_state_schema :: string where
  "work_runtime_state_schema = ''work-runtime-state@1''"

definition publication_outbox_schema :: string where
  "publication_outbox_schema = ''publication-outbox@1''"

datatype publish_operation_kind = Kind_Publish | Kind_Update | Kind_Rollback | Kind_Unpublish

datatype publish_operation_status =
    Op_Requested | Op_Packaging | Op_ReleaseValidated | Op_DesiredStateCommitted | Op_Reconciling
  | Op_WorkloadReady | Op_TrafficSwitched | Op_ExternalProbePassed | Op_Completed | Op_Failed
  | Op_Cancelled | Op_ReconcileRequired

definition op_is_terminal :: "publish_operation_status \<Rightarrow> bool" where
  "op_is_terminal s \<longleftrightarrow> s \<in> {Op_Completed, Op_Failed, Op_Cancelled}"

datatype publish_checkpoint =
    Cp_Requested | Cp_Packaging | Cp_ReleaseValidated | Cp_DesiredStateCommitted | Cp_Reconciling
  | Cp_WorkloadReady | Cp_TrafficSwitched | Cp_ExternalProbePassed | Cp_Completed

datatype publication_desired_state = Des_Unpublished | Des_Published

datatype work_runtime_status =
    Rt_Unpublished | Rt_Publishing | Rt_Published | Rt_Updating | Rt_Unpublishing
  | Rt_PublishFailed | Rt_UpdateFailed | Rt_ReconcileRequired

datatype publication_outbox_status = Ob_Pending | Ob_Delivered

record publication_intent =
  in_project_id :: string
  in_workspace_namespace :: string
  in_kind :: publish_operation_kind
  in_release_id :: "string option"
  in_expected_current_release_id :: "string option"
  in_expected_generation :: "u64 option"
  in_runtime_profile_id :: string
  in_idempotency_key :: string

record publish_operation =
  op_schema_version :: string
  op_id :: string
  op_idempotency_key_hash :: string
  op_request_hash :: string
  op_project_id :: string
  op_release_id :: "string option"
  op_expected_current_release_id :: "string option"
  op_desired_generation :: u64
  op_kind :: publish_operation_kind
  op_status :: publish_operation_status
  op_checkpoint :: publish_checkpoint
  op_last_error :: "string option"
  op_created_at :: time
  op_updated_at :: time

record work_runtime_state =
  rt_schema_version :: string
  rt_project_id :: string
  rt_workspace_namespace :: string
  rt_desired_publication :: publication_desired_state
  rt_desired_release_id :: "string option"
  rt_current_release_id :: "string option"
  rt_previous_release_id :: "string option"
  rt_last_successful_release_id :: "string option"
  rt_desired_generation :: u64
  rt_host_slug :: string
  rt_runtime_profile_id :: string
  rt_current_deployment_name :: "string option"
  rt_previous_deployment_name :: "string option"
  rt_service_name :: string
  rt_ingress_name :: string
  rt_deployment_uid :: "string option"
  rt_deployment_resource_version :: "string option"
  rt_service_uid :: "string option"
  rt_service_resource_version :: "string option"
  rt_ingress_uid :: "string option"
  rt_ingress_resource_version :: "string option"
  rt_observed_generation :: u64
  rt_status :: work_runtime_status
  rt_last_error :: "string option"
  rt_created_at :: time
  rt_updated_at :: time

record publication_outbox_event =
  ob_schema_version :: string
  ob_id :: string
  ob_project_id :: string
  ob_operation_id :: string
  ob_desired_generation :: u64
  ob_status :: publication_outbox_status
  ob_attempts :: u32
  ob_last_error :: "string option"
  ob_next_attempt_at :: time
  ob_created_at :: time
  ob_updated_at :: time
  ob_delivered_at :: "time option"

section \<open>Validating an intent\<close>

definition validate_workspace_namespace :: "string \<Rightarrow> string + unit" where
  "validate_workspace_namespace ns =
    (if length ns < 4 \<or> length ns > 63 \<or> \<not> starts_with ns ''ws-''
     then Inl ''workspaceNamespace must be a 4-63 character Kubernetes namespace starting with ws-''
     else if \<not> is_ascii_lowercase (hd ns)
        \<or> \<not> is_ascii_lowercase (last ns) \<and> \<not> is_ascii_digit (last ns)
        \<or> \<not> list_all (\<lambda>b. is_ascii_lowercase b \<or> is_ascii_digit b \<or> b = CHR ''-'') ns
     then Inl ''workspaceNamespace must be a Kubernetes DNS label''
     else Inr ())"

text \<open>\<open>as_deref().is_none_or(str::is_empty)\<close>\<close>

definition none_or_empty :: "string option \<Rightarrow> bool" where
  "none_or_empty v \<longleftrightarrow> v = None \<or> v = Some []"

definition intent_fields :: "publication_intent \<Rightarrow> (string \<times> string) list" where
  "intent_fields i =
    [(''projectId'', in_project_id i), (''workspaceNamespace'', in_workspace_namespace i),
     (''runtimeProfileId'', in_runtime_profile_id i), (''idempotencyKey'', in_idempotency_key i)]"

definition validate_intent :: "publication_intent \<Rightarrow> string + unit" where
  "validate_intent i =
    (case validate_workspace_namespace (in_workspace_namespace i) of
       Inl e \<Rightarrow> Inl e
     | Inr _ \<Rightarrow>
    (case List.find (\<lambda>(field, value). is_blank value) (intent_fields i) of
       Some (field, value) \<Rightarrow> Inl (''publication '' @ field @ '' must not be empty'')
     | None \<Rightarrow>
     if length (in_project_id i) > 128 \<or> length (in_workspace_namespace i) > 63
        \<or> length (in_runtime_profile_id i) > 128 \<or> length (in_idempotency_key i) > 256
     then Inl ''publication intent field exceeds its length limit''
     else if in_expected_generation i = None
     then Inl ''publication expectedGeneration is required for compare-and-swap''
     else if in_kind i \<in> {Kind_Publish, Kind_Update, Kind_Rollback} \<and> none_or_empty (in_release_id i)
     then Inl ''publication releaseId is required''
     else if in_kind i = Kind_Unpublish \<and> in_release_id i \<noteq> None
     then Inl ''unpublish must not include releaseId''
     else if in_kind i \<in> {Kind_Update, Kind_Rollback} \<and> none_or_empty (in_expected_current_release_id i)
     then Inl ''update or rollback requires expectedCurrentReleaseId compare-and-swap''
     else Inr ()))"

section \<open>Hashes of an intent\<close>

definition intent_key_hash :: "digest \<Rightarrow> publication_intent \<Rightarrow> string" where
  "intent_key_hash D i = sha256_hex D (in_idempotency_key i)"

fun kind_name :: "publish_operation_kind \<Rightarrow> string" where
  "kind_name Kind_Publish = ''publish''"
| "kind_name Kind_Update = ''update''"
| "kind_name Kind_Rollback = ''rollback''"
| "kind_name Kind_Unpublish = ''unpublish''"

definition or_empty :: "string option \<Rightarrow> string" where
  "or_empty v = (case v of None \<Rightarrow> [] | Some s \<Rightarrow> s)"

definition request_fields :: "publication_intent \<Rightarrow> string list" where
  "request_fields i =
    [in_project_id i, in_workspace_namespace i, kind_name (in_kind i), or_empty (in_release_id i),
     or_empty (in_expected_current_release_id i),
     (case in_expected_generation i of None \<Rightarrow> [] | Some g \<Rightarrow> show_u64 g),
     in_runtime_profile_id i]"

definition intent_request_hash :: "digest \<Rightarrow> publication_intent \<Rightarrow> string" where
  "intent_request_hash D i = framed_hash D (request_fields i)"

definition scoped_key :: "digest \<Rightarrow> string \<Rightarrow> string \<Rightarrow> string" where
  "scoped_key D project key_hash = framed_hash D [project, key_hash]"

end
