(* ===== verification/Journal.thy ===== *)
theory Journal
  imports Prelude
begin

text \<open>
  What the release store and the publication store share: a JSON-lines journal read and appended
  as bytes, a checkpoint file replaced atomically, and start-up by replaying the journal over the
  checkpoint. The two store theories instantiate these functions with their own records, and
  interpret the locale \<open>journaled\<close> with their own sequence numbers and apply functions.
\<close>

section \<open>Lines\<close>

text \<open>\<open>bytes.split_inclusive(|b| *b == b'\n')\<close>\<close>

fun split_inclusive_nl :: "string \<Rightarrow> string list" where
  "split_inclusive_nl [] = []"
| "split_inclusive_nl (c # cs) =
     (if c = nl then [c] # split_inclusive_nl cs
      else case split_inclusive_nl cs of
             [] \<Rightarrow> [[c]]
           | l # ls \<Rightarrow> (c # l) # ls)"

text \<open>\<open>chunk.strip_suffix(b"\n").unwrap_or(chunk)\<close>\<close>

definition strip_nl :: "string \<Rightarrow> string" where
  "strip_nl l = (if l \<noteq> [] \<and> last l = nl then butlast l else l)"

text \<open>
  The loop of \<open>read_journal\<close> over the remaining chunks. \<open>torn\<close> is \<open>!bytes.ends_with(b"\n")\<close>;
  \<open>index + 1 == chunks.len()\<close> holds exactly when no chunk remains after this one.
\<close>

fun read_chunks :: "(string \<Rightarrow> string + 'c) \<Rightarrow> bool \<Rightarrow> string list \<Rightarrow> string + 'c list" where
  "read_chunks parse torn [] = Inr []"
| "read_chunks parse torn (ch # chs) =
     (let line = strip_nl ch in
      if list_all is_ascii_whitespace line then read_chunks parse torn chs
      else case parse line of
             Inr c \<Rightarrow> (case read_chunks parse torn chs of
                          Inl e \<Rightarrow> Inl e
                        | Inr cs \<Rightarrow> Inr (c # cs))
           | Inl e \<Rightarrow> if chs = [] \<and> torn then Inr [] else Inl e)"

definition read_lines :: "(string \<Rightarrow> string + 'c) \<Rightarrow> string \<Rightarrow> string + 'c list" where
  "read_lines parse bytes =
     read_chunks parse (\<not> ends_with bytes [nl]) (split_inclusive_nl bytes)"

definition journal_line :: "('c \<Rightarrow> string) \<Rightarrow> 'c \<Rightarrow> string" where
  "journal_line ser c = ser c @ [nl]"

definition journal_of :: "('c \<Rightarrow> string) \<Rightarrow> 'c list \<Rightarrow> string" where
  "journal_of ser cs = concat (map (journal_line ser) cs)"

text \<open>
  What the code relies on of \<open>serde_json\<close> for the records \<open>S\<close> of a journal: the compact text of a
  record parses back to it, holds no raw line feed and starts with a brace; no text that was cut
  short parses.
\<close>

definition codec_ok :: "'c set \<Rightarrow> ('c \<Rightarrow> string) \<Rightarrow> (string \<Rightarrow> string + 'c) \<Rightarrow> bool" where
  "codec_ok S ser parse \<longleftrightarrow>
     (\<forall>c \<in> S. parse (ser c) = Inr c \<and> nl \<notin> set (ser c) \<and> ser c \<noteq> [] \<and> hd (ser c) = CHR 0x7B
        \<and> (\<forall>n < length (ser c). \<not> is_ok (parse (take n (ser c)))))"

lemma codec_okD:
  assumes "codec_ok S ser parse" "c \<in> S"
  shows "parse (ser c) = Inr c" "nl \<notin> set (ser c)" "\<exists>t. ser c = CHR 0x7B # t"
    "ser c = p @ q \<Longrightarrow> q \<noteq> [] \<Longrightarrow> \<not> is_ok (parse p)"
proof -
  have all: "parse (ser c) = Inr c" "nl \<notin> set (ser c)" "ser c \<noteq> []" "hd (ser c) = CHR 0x7B"
    "\<And>n. n < length (ser c) \<Longrightarrow> \<not> is_ok (parse (take n (ser c)))"
    using assms by (auto simp: codec_ok_def)
  then show "parse (ser c) = Inr c" "nl \<notin> set (ser c)" by blast+
  show "\<exists>t. ser c = CHR 0x7B # t" using all(3,4) by (cases "ser c") auto
  show "ser c = p @ q \<Longrightarrow> q \<noteq> [] \<Longrightarrow> \<not> is_ok (parse p)" using all(5) [of "length p"] by simp
qed

lemma codec_ok_subset: "codec_ok S ser parse \<Longrightarrow> T \<subseteq> S \<Longrightarrow> codec_ok T ser parse"
  by (auto simp: codec_ok_def)

section \<open>Reading back what was appended\<close>

lemma split_nl_line: "nl \<notin> set l \<Longrightarrow> split_inclusive_nl (l @ nl # r) = (l @ [nl]) # split_inclusive_nl r"
  by (induction l) auto

lemma split_nl_tail: "nl \<notin> set l \<Longrightarrow> l \<noteq> [] \<Longrightarrow> split_inclusive_nl l = [l]"
proof (induction l)
  case (Cons c l)
  then show ?case by (cases l) auto
qed simp

lemma strip_nl_line [simp]: "strip_nl (l @ [nl]) = l"
  by (simp add: strip_nl_def)

lemma strip_nl_id: "nl \<notin> set l \<Longrightarrow> strip_nl l = l"
  by (cases l rule: rev_cases) (auto simp: strip_nl_def)

lemma ends_with_nl_append [simp]: "ends_with (s @ [nl]) [nl]"
  by (simp add: ends_with_def)

lemma ends_with_nl_iff: "ends_with s [nl] \<longleftrightarrow> s \<noteq> [] \<and> last s = nl"
  by (cases s rule: rev_cases) (auto simp: ends_with_def)

lemma brace_not_ws: "\<not> list_all is_ascii_whitespace (CHR 0x7B # t)"
  by (simp add: is_ascii_whitespace_def)

lemma split_journal_of:
  assumes "codec_ok S ser parse" "set cs \<subseteq> S"
  shows "split_inclusive_nl (journal_of ser cs @ r) = map (journal_line ser) cs @ split_inclusive_nl r"
  using assms(2)
  by (induction cs)
    (simp_all add: journal_of_def journal_line_def split_nl_line codec_okD [OF assms(1)])

lemma read_chunks_lines:
  assumes ok: "codec_ok S ser parse" and sub: "set cs \<subseteq> S"
  shows "read_chunks parse torn (map (journal_line ser) cs @ chs) =
    (case read_chunks parse torn chs of Inl e \<Rightarrow> Inl e | Inr ds \<Rightarrow> Inr (cs @ ds))"
  using sub
proof (induction cs)
  case Nil
  then show ?case by (simp split: sum.split)
next
  case (Cons c cs)
  then have c: "c \<in> S" by simp
  obtain t where t: "ser c = CHR 0x7B # t" using codec_okD(3) [OF ok c] by blast
  have "\<not> list_all is_ascii_whitespace (ser c)" by (simp only: t brace_not_ws) simp
  then show ?case
    using Cons c by (simp add: journal_line_def codec_okD [OF ok c] Let_def split: sum.split)
qed

lemma last_journal_of: "cs \<noteq> [] \<Longrightarrow> last (journal_of ser cs) = nl"
  by (induction cs rule: rev_induct) (simp_all add: journal_of_def journal_line_def)

lemma read_journal_of:
  assumes "codec_ok (set cs) ser parse"
  shows "read_lines parse (journal_of ser cs) = Inr cs"
  using split_journal_of [OF assms order_refl, of "[]"] read_chunks_lines [OF assms order_refl, of _ "[]"]
  by (simp add: read_lines_def)

text \<open>A record cut short by a crash, at the end of the file, is ignored.\<close>

lemma read_journal_torn:
  assumes ok: "codec_ok (insert c (set cs)) ser parse" and cut: "ser c = p @ q" "q \<noteq> []"
  shows "read_lines parse (journal_of ser cs @ p) = Inr cs"
proof (cases "p = []")
  case True
  then show ?thesis
    using read_journal_of [of cs] codec_ok_subset [OF ok subset_insertI] by simp
next
  case False
  have nop: "nl \<notin> set p" using codec_okD(2) [OF ok, of c] cut(1) by simp
  with False have last: "last (journal_of ser cs @ p) \<noteq> nl" by (metis last_appendR last_in_set)
  have "\<not> is_ok (parse p)" using codec_okD(4) [OF ok insertI1 cut] .
  then obtain e where e: "parse p = Inl e" by (cases "parse p") auto
  have sp: "split_inclusive_nl p = [p]" by (rule split_nl_tail [OF nop False])
  have "read_chunks parse True [p] = Inr []"
    using e strip_nl_id [OF nop] by (simp add: Let_def)
  then show ?thesis
    using last split_journal_of [OF ok subset_insertI, of p]
      read_chunks_lines [OF ok subset_insertI, of True "[p]"] sp False
    by (simp add: read_lines_def ends_with_nl_iff)
qed

text \<open>A record that lost only its line feed is read.\<close>

lemma read_journal_unterminated:
  assumes ok: "codec_ok (insert c (set cs)) ser parse"
  shows "read_lines parse (journal_of ser cs @ ser c) = Inr (cs @ [c])"
proof -
  have nop: "nl \<notin> set (ser c)" using codec_okD(2) [OF ok insertI1] .
  obtain t where t: "ser c = CHR 0x7B # t" using codec_okD(3) [OF ok insertI1] by blast
  then have ne: "ser c \<noteq> []" by simp
  with nop have last: "last (journal_of ser cs @ ser c) \<noteq> nl" by (metis last_appendR last_in_set)
  have nws: "\<not> list_all is_ascii_whitespace (ser c)" by (simp only: t brace_not_ws) simp
  have "read_chunks parse True [ser c] = Inr [c]"
    using nws codec_okD(1) [OF ok insertI1] strip_nl_id [OF nop] by (simp add: Let_def)
  then show ?thesis
    using last split_journal_of [OF ok subset_insertI, of "ser c"] split_nl_tail [OF nop ne]
      read_chunks_lines [OF ok subset_insertI, of True "[ser c]"]
    by (simp add: read_lines_def ends_with_nl_iff)
qed

text \<open>
  The store does not truncate such a tail: the next append continues the broken line. When the
  joined text is not a record, every later read fails.
\<close>

lemma read_journal_poisoned:
  assumes ok: "codec_ok (insert d (set cs)) ser parse" and nonl: "nl \<notin> set p"
    and bad: "parse (p @ ser d) = Inl e"
  shows "read_lines parse (journal_of ser cs @ p @ journal_line ser d) = Inl e"
proof -
  have nl': "nl \<notin> set (p @ ser d)" using nonl codec_okD(2) [OF ok insertI1] by simp
  obtain t where t: "ser d = CHR 0x7B # t" using codec_okD(3) [OF ok insertI1] by blast
  have nws: "\<not> list_all is_ascii_whitespace (p @ ser d)"
    by (simp add: t is_ascii_whitespace_def)
  have sp: "split_inclusive_nl (p @ journal_line ser d) = [(p @ ser d) @ [nl]]"
    using split_nl_line [OF nl', of "[]"] by (simp add: journal_line_def)
  have torn: "ends_with (journal_of ser cs @ p @ journal_line ser d) [nl]"
    by (simp add: ends_with_nl_iff journal_line_def)
  have "read_chunks parse False [(p @ ser d) @ [nl]] = Inl e"
    using nws bad strip_nl_line [of "p @ ser d"] by (simp add: Let_def del: append_assoc)
  then show ?thesis
    using torn split_journal_of [OF ok subset_insertI, of "p @ journal_line ser d"]
      read_chunks_lines [OF ok subset_insertI, of False "[(p @ ser d) @ [nl]]"] sp
    by (simp add: read_lines_def del: append_assoc)
qed

section \<open>Files and their failures\<close>

text \<open>
  The two files of a store directory; \<open>None\<close> is a missing file. An append writes all of the line,
  or fails after writing some of it (\<open>write_all\<close> or \<open>sync_all\<close>). Replacing the checkpoint goes
  through a temporary file and \<open>rename\<close>, so it fails either before or after the replacement.
\<close>

record store_files =
  journal_file :: "string option"
  checkpoint_file :: "string option"

datatype append_outcome = Appended | AppendFailed nat string

datatype replace_outcome = Replaced | ReplaceFailed bool string

record io_plan =
  io_append :: append_outcome
  io_mirror_journal :: "string option"
  io_checkpoint :: replace_outcome
  io_mirror_checkpoint :: "string option"

definition io_ok :: io_plan where
  "io_ok = \<lparr>io_append = Appended, io_mirror_journal = None, io_checkpoint = Replaced,
            io_mirror_checkpoint = None\<rparr>"

definition no_files :: store_files where
  "no_files = \<lparr>journal_file = None, checkpoint_file = None\<rparr>"

definition journal_bytes :: "store_files \<Rightarrow> string" where
  "journal_bytes f = (case journal_file f of None \<Rightarrow> [] | Some b \<Rightarrow> b)"

definition append_bytes :: "append_outcome \<Rightarrow> string \<Rightarrow> store_files \<Rightarrow> string option \<times> store_files" where
  "append_bytes oc line f = (case oc of
      Appended \<Rightarrow> (None, f\<lparr>journal_file := Some (journal_bytes f @ line)\<rparr>)
    | AppendFailed n e \<Rightarrow> (Some e, f\<lparr>journal_file := Some (journal_bytes f @ take n line)\<rparr>))"

definition replace_checkpoint :: "replace_outcome \<Rightarrow> string \<Rightarrow> store_files \<Rightarrow> string option \<times> store_files" where
  "replace_checkpoint oc bytes f = (case oc of
      Replaced \<Rightarrow> (None, f\<lparr>checkpoint_file := Some bytes\<rparr>)
    | ReplaceFailed done_ e \<Rightarrow>
        (Some e, if done_ then f\<lparr>checkpoint_file := Some bytes\<rparr> else f))"

lemma append_bytes_checkpoint [simp]:
  "checkpoint_file (snd (append_bytes oc line f)) = checkpoint_file f"
  by (simp add: append_bytes_def split: append_outcome.split)

lemma replace_checkpoint_journal [simp]:
  "journal_file (snd (replace_checkpoint oc b f)) = journal_file f"
  by (simp add: replace_checkpoint_def split: replace_outcome.split)

text \<open>Whatever an append does, the file is then read as all the old records, or these and the new one.\<close>

lemma append_bytes_read:
  assumes ok: "codec_ok (insert e (set es)) ser parse" and f: "journal_bytes f = journal_of ser es"
  shows "(fst (append_bytes oc (ser e @ [nl]) f) = None \<longrightarrow>
      journal_bytes (snd (append_bytes oc (ser e @ [nl]) f)) = journal_of ser (es @ [e]))
    \<and> (\<exists>fs. fs \<in> {es, es @ [e]} \<and>
      read_lines parse (journal_bytes (snd (append_bytes oc (ser e @ [nl]) f))) = Inr fs)"
proof -
  have full: "journal_of ser es @ ser e @ [nl] = journal_of ser (es @ [e])"
    by (simp add: journal_of_def journal_line_def)
  have ok': "codec_ok (set (es @ [e])) ser parse" using ok by simp
  show ?thesis
  proof (cases oc)
    case Appended
    then show ?thesis using f full read_journal_of [OF ok']
      by (simp add: append_bytes_def journal_bytes_def)
  next
    case (AppendFailed n x)
    have b: "journal_bytes (snd (append_bytes oc (ser e @ [nl]) f)) = journal_of ser es @ take n (ser e @ [nl])"
      using AppendFailed f by (simp add: append_bytes_def journal_bytes_def)
    consider "n < length (ser e)" | "n = length (ser e)" | "length (ser e) < n" by linarith
    then have "\<exists>fs. fs \<in> {es, es @ [e]} \<and>
        read_lines parse (journal_of ser es @ take n (ser e @ [nl])) = Inr fs"
    proof cases
      case 1
      then show ?thesis
        using read_journal_torn [OF ok, of "take n (ser e)" "drop n (ser e)"] by auto
    next
      case 2
      then show ?thesis using read_journal_unterminated [OF ok] by auto
    next
      case 3
      then show ?thesis using full read_journal_of [OF ok'] by auto
    qed
    with b AppendFailed show ?thesis by (simp add: append_bytes_def)
  qed
qed

section \<open>Sequence numbers and replay\<close>

fun apply_all :: "('s \<Rightarrow> 'e \<Rightarrow> 'err + 's) \<Rightarrow> 's \<Rightarrow> 'e list \<Rightarrow> 'err + 's" where
  "apply_all app s [] = Inr s"
| "apply_all app s (e # es) = (case app s e of Inl x \<Rightarrow> Inl x | Inr t \<Rightarrow> apply_all app t es)"

text \<open>The start-up loop: an event is applied when its sequence is greater than the state's.\<close>

fun replay :: "('s \<Rightarrow> u64) \<Rightarrow> ('e \<Rightarrow> u64) \<Rightarrow> ('s \<Rightarrow> 'e \<Rightarrow> 'err + 's) \<Rightarrow> 's \<Rightarrow> 'e list \<Rightarrow> 'err + 's" where
  "replay sq esq app s [] = Inr s"
| "replay sq esq app s (e # es) =
     (if sq s < esq e then (case app s e of Inl x \<Rightarrow> Inl x | Inr t \<Rightarrow> replay sq esq app t es)
      else replay sq esq app s es)"

text \<open>A journal whose sequence numbers strictly increase, starting above \<open>n\<close>.\<close>

fun ascending :: "('e \<Rightarrow> u64) \<Rightarrow> u64 \<Rightarrow> 'e list \<Rightarrow> bool" where
  "ascending esq n [] = True"
| "ascending esq n (e # es) \<longleftrightarrow> n < esq e \<and> ascending esq (esq e) es"

locale journaled =
  fixes sq :: "'s \<Rightarrow> u64"
    and esq :: "'e \<Rightarrow> u64"
    and app :: "'s \<Rightarrow> 'e \<Rightarrow> 'err + 's"
  assumes app_sq: "app s e = Inr t \<Longrightarrow> sq t = esq e"
begin

lemma replay_fresh:
  "ascending esq (sq s) es \<Longrightarrow> apply_all app s es = Inr t \<Longrightarrow> replay sq esq app s es = Inr t"
  by (induction es arbitrary: s) (auto split: sum.splits dest: app_sq)

lemma ascending_sq:
  "ascending esq (sq s) es \<Longrightarrow> apply_all app s es = Inr t \<Longrightarrow>
    sq s \<le> sq t \<and> (\<forall>e \<in> set es. esq e \<le> sq t)"
proof (induction es arbitrary: s)
  case (Cons e es)
  then obtain m where m: "app s e = Inr m" "apply_all app m es = Inr t"
    by (auto split: sum.splits)
  from app_sq [OF m(1)] Cons.prems(1) have asc: "sq s < esq e" "ascending esq (sq m) es"
    and eq: "sq m = esq e" by simp_all
  from Cons.IH [OF asc(2) m(2)] asc(1) eq show ?case by auto
qed simp

lemma apply_all_append:
  "apply_all app s (es @ fs) =
    (case apply_all app s es of Inl x \<Rightarrow> Inl x | Inr t \<Rightarrow> apply_all app t fs)"
  by (induction es arbitrary: s) (auto split: sum.split)

lemma replay_skip: "\<forall>e \<in> set es. esq e \<le> sq s \<Longrightarrow> replay sq esq app s (es @ fs) = replay sq esq app s fs"
  by (induction es) auto

lemma replay_append:
  "replay sq esq app s (es @ fs) =
    (case replay sq esq app s es of Inl x \<Rightarrow> Inl x | Inr t \<Rightarrow> replay sq esq app t fs)"
  by (induction es arbitrary: s) (auto split: sum.split)

lemma ascending_append:
  "ascending esq n (es @ fs) \<longleftrightarrow>
    ascending esq n es \<and> ascending esq (if es = [] then n else esq (last es)) fs"
  by (induction es arbitrary: n) auto

lemma apply_all_last: "apply_all app s es = Inr t \<Longrightarrow> es \<noteq> [] \<Longrightarrow> sq t = esq (last es)"
proof (induction es rule: rev_induct)
  case (snoc e es)
  then show ?case by (auto simp: apply_all_append split: sum.splits dest: app_sq)
qed simp

text \<open>
  Replaying the whole journal over the state reached after any prefix of it gives the state
  reached after all of it: the checkpoint may be any state of the past.
\<close>

lemma replay_from_prefix:
  assumes "ascending esq (sq s) (es @ fs)" "apply_all app s es = Inr m"
    and "apply_all app m fs = Inr t"
  shows "replay sq esq app m (es @ fs) = Inr t"
proof -
  have "\<forall>e \<in> set es. esq e \<le> sq m"
    using assms(1,2) ascending_sq ascending_append by blast
  moreover have "ascending esq (sq m) fs"
    using assms(1,2) apply_all_last [OF assms(2)] by (cases "es = []") (auto simp: ascending_append)
  ultimately show ?thesis using assms(3) by (simp add: replay_skip replay_fresh)
qed

lemma replay_snoc:
  assumes "ascending esq (sq s) es" "apply_all app s es = Inr t" "sq t < esq e"
  shows "ascending esq (sq s) (es @ [e])" "apply_all app s (es @ [e]) = app t e"
  using assms apply_all_last [OF assms(2)]
  by (cases "es = []"; auto simp: ascending_append apply_all_append split: sum.split)+

end

end
