(* ===== verification/PublicationStore.thy ===== *)
theory PublicationStore
  imports PublicationModel Journal
begin

text \<open>
  \<open>publication/store.rs\<close> and \<open>publication/store_reconcile.rs\<close>: the journaled store of publication
  operations, runtime states and outbox events. Every operation takes a clock (its closure reads
  \<open>clk 0\<close> and \<open>clk 1\<close>, the final stamp is \<open>clk 2\<close>) and the outcome of its file effects, and returns
  its result with the store it leaves behind. A closure of \<open>update_outbox\<close> is a function \<open>..._upd\<close>.
\<close>

datatype publication_store_error =
    Pub_InvalidInput string
  | Pub_NotFound string
  | Pub_Conflict string
  | Pub_InvalidTransition string
  | Pub_Storage string

fun pub_error_string :: "publication_store_error \<Rightarrow> string" where
  "pub_error_string (Pub_InvalidInput m) = ''invalid publication input: '' @ m"
| "pub_error_string (Pub_NotFound m) = ''publication record not found: '' @ m"
| "pub_error_string (Pub_Conflict m) = ''publication conflict: '' @ m"
| "pub_error_string (Pub_InvalidTransition m) = ''invalid publication transition: '' @ m"
| "pub_error_string (Pub_Storage m) = ''publication storage failure: '' @ m"

record publication_snapshot =
  ps_sequence :: u64
  ps_operations :: "(string, publish_operation) btree"
  ps_runtimes :: "(string, work_runtime_state) btree"
  ps_outbox :: "(string, publication_outbox_event) btree"
  ps_operation_by_idempotency :: "(string, string) btree"

record publication_commit =
  pc_sequence :: u64
  pc_operation :: publish_operation
  pc_runtime :: work_runtime_state
  pc_outbox :: publication_outbox_event

record publication_store =
  pub_files :: store_files
  pub_mem :: publication_snapshot
  pub_mirrored :: bool

record publication_codec =
  pub_ser_commit :: "publication_commit \<Rightarrow> string"
  pub_parse_commit :: "string \<Rightarrow> string + publication_commit"
  pub_ser_snapshot :: "publication_snapshot \<Rightarrow> string"
  pub_parse_snapshot :: "string \<Rightarrow> string + publication_snapshot"

definition publication_snapshot_default :: publication_snapshot where
  "publication_snapshot_default =
    \<lparr>ps_sequence = 0, ps_operations = bt_empty, ps_runtimes = bt_empty, ps_outbox = bt_empty,
     ps_operation_by_idempotency = bt_empty\<rparr>"

section \<open>Applying, validating and persisting a commit\<close>

definition pub_apply_commit_with_key ::
    "publication_snapshot \<Rightarrow> publication_commit \<Rightarrow> string
      \<Rightarrow> publication_store_error + publication_snapshot" where
  "pub_apply_commit_with_key s c key =
    (let o' = pc_operation c; r = pc_runtime c; b = pc_outbox c in
     if op_project_id o' \<noteq> rt_project_id r \<or> op_project_id o' \<noteq> ob_project_id b
        \<or> op_id o' \<noteq> ob_operation_id b
        \<or> op_desired_generation o' \<noteq> rt_desired_generation r
        \<or> op_desired_generation o' \<noteq> ob_desired_generation b
     then Inl (Pub_Storage ''publication commit linkage is invalid'')
     else Inr (s\<lparr>ps_sequence := pc_sequence c,
                ps_operation_by_idempotency :=
                  bt_insert key (op_id o') (ps_operation_by_idempotency s),
                ps_operations := bt_insert (op_id o') o' (ps_operations s),
                ps_runtimes := bt_insert (rt_project_id r) r (ps_runtimes s),
                ps_outbox := bt_insert (ob_id b) b (ps_outbox s)\<rparr>))"

definition pub_apply_commit ::
    "digest \<Rightarrow> publication_snapshot \<Rightarrow> publication_commit
      \<Rightarrow> publication_store_error + publication_snapshot" where
  "pub_apply_commit D s c = pub_apply_commit_with_key s c
     (scoped_key D (op_project_id (pc_operation c)) (op_idempotency_key_hash (pc_operation c)))"

text \<open>The three loops of \<open>validate_snapshot\<close>: the first failing element gives the error.\<close>

definition runtime_valid :: "work_runtime_state \<Rightarrow> bool" where
  "runtime_valid r \<longleftrightarrow> rt_schema_version r = work_runtime_state_schema \<and>
     rt_observed_generation r \<le> rt_desired_generation r \<and>
     (rt_desired_publication r = Des_Published \<longleftrightarrow> rt_desired_release_id r \<noteq> None)"

definition check_index_entry ::
    "digest \<Rightarrow> publication_snapshot \<Rightarrow> string \<times> string \<Rightarrow> string option" where
  "check_index_entry D s kv =
    (case bt_get (ps_operations s) (snd kv) of
       None \<Rightarrow> Some ''publication idempotency index is invalid''
     | Some o' \<Rightarrow>
         if op_schema_version o' \<noteq> publish_operation_schema
            \<or> length (op_idempotency_key_hash o') \<noteq> 64 \<or> length (op_request_hash o') \<noteq> 64
         then Some ''persisted publication operation is invalid''
         else if fst kv \<noteq> scoped_key D (op_project_id o') (op_idempotency_key_hash o')
            \<or> bt_get (ps_runtimes s) (op_project_id o') = None
         then Some ''publication snapshot is inconsistent''
         else None)"

definition check_operation :: "publication_snapshot \<Rightarrow> publish_operation \<Rightarrow> string option" where
  "check_operation s o' =
    (case bt_find (\<lambda>b. ob_operation_id b = op_id o') (ps_outbox s) of
       None \<Rightarrow> Some ''publication operation is missing its outbox record''
     | Some b \<Rightarrow>
         if ob_schema_version b \<noteq> publication_outbox_schema
         then Some ''persisted publication outbox is invalid''
         else case bt_get (ps_runtimes s) (op_project_id o') of
           None \<Rightarrow> Some ''publication operation is missing its runtime state''
         | Some r \<Rightarrow>
             if ob_desired_generation b \<noteq> op_desired_generation o'
                \<or> rt_desired_generation r < op_desired_generation o'
             then Some ''publication operation generation linkage is invalid''
             else None)"

fun first_error :: "('a \<Rightarrow> string option) \<Rightarrow> 'a list \<Rightarrow> string option" where
  "first_error f [] = None"
| "first_error f (x # xs) = (case f x of Some e \<Rightarrow> Some e | None \<Rightarrow> first_error f xs)"

definition pub_validate_snapshot ::
    "digest \<Rightarrow> publication_snapshot \<Rightarrow> publication_store_error + unit" where
  "pub_validate_snapshot D s =
    (if length (ps_operation_by_idempotency s) \<noteq> length (ps_operations s)
     then Inl (Pub_Storage ''publication idempotency index cardinality is invalid'')
     else if \<not> list_all runtime_valid (bt_values (ps_runtimes s))
     then Inl (Pub_Storage ''persisted work runtime state is invalid'')
     else case first_error (check_index_entry D s) (ps_operation_by_idempotency s) of
       Some e \<Rightarrow> Inl (Pub_Storage e)
     | None \<Rightarrow>
    (case first_error (check_operation s) (bt_values (ps_operations s)) of
       Some e \<Rightarrow> Inl (Pub_Storage e)
     | None \<Rightarrow> Inr ()))"

definition pub_sync_mirror :: "bool \<Rightarrow> string option \<Rightarrow> publication_store_error option" where
  "pub_sync_mirror mirrored fault = (if mirrored then map_option Pub_Storage fault else None)"

definition pub_append_commit ::
    "publication_codec \<Rightarrow> append_outcome \<Rightarrow> publication_commit \<Rightarrow> store_files
      \<Rightarrow> publication_store_error option \<times> store_files" where
  "pub_append_commit cd oc c f =
    (let (err, f') = append_bytes oc (pub_ser_commit cd c @ [nl]) f
     in (map_option Pub_Storage err, f'))"

definition pub_write_checkpoint ::
    "publication_codec \<Rightarrow> replace_outcome \<Rightarrow> publication_snapshot \<Rightarrow> store_files
      \<Rightarrow> publication_store_error option \<times> store_files" where
  "pub_write_checkpoint cd oc s f =
    (let (err, f') = replace_checkpoint oc (pub_ser_snapshot cd s) f
     in (map_option Pub_Storage err, f'))"

text \<open>
  \<open>persist_commit\<close>: the next snapshot is built and validated first; the memory changes only when the
  journal, the checkpoint and both mirrors were written.
\<close>

definition pub_persist_commit ::
    "digest \<Rightarrow> publication_codec \<Rightarrow> io_plan \<Rightarrow> publish_operation \<Rightarrow> work_runtime_state
      \<Rightarrow> publication_outbox_event \<Rightarrow> string \<Rightarrow> publication_store
      \<Rightarrow> (publication_store_error + unit) \<times> publication_store" where
  "pub_persist_commit D cd io o' r b key st =
    (let c = \<lparr>pc_sequence = sat_inc (ps_sequence (pub_mem st)), pc_operation = o', pc_runtime = r,
              pc_outbox = b\<rparr>
     in case pub_apply_commit_with_key (pub_mem st) c key of
          Inl e \<Rightarrow> (Inl e, st)
        | Inr s' \<Rightarrow>
       (case pub_validate_snapshot D s' of
          Inl e \<Rightarrow> (Inl e, st)
        | Inr _ \<Rightarrow>
       (let (err, f1) = pub_append_commit cd (io_append io) c (pub_files st);
            st1 = st\<lparr>pub_files := f1\<rparr>
        in case err of
             Some x \<Rightarrow> (Inl x, st1)
           | None \<Rightarrow>
          (case pub_sync_mirror (pub_mirrored st) (io_mirror_journal io) of
             Some x \<Rightarrow> (Inl x, st1)
           | None \<Rightarrow>
             let (err2, f2) = pub_write_checkpoint cd (io_checkpoint io) s' f1;
                 st2 = st\<lparr>pub_files := f2\<rparr>
             in case err2 of
                  Some x \<Rightarrow> (Inl x, st2)
                | None \<Rightarrow>
               (case pub_sync_mirror (pub_mirrored st) (io_mirror_checkpoint io) of
                  Some x \<Rightarrow> (Inl x, st2)
                | None \<Rightarrow> (Inr (), st2\<lparr>pub_mem := s'\<rparr>))))))"

definition pub_read_journal ::
    "publication_codec \<Rightarrow> store_files \<Rightarrow> publication_store_error + publication_commit list" where
  "pub_read_journal cd f = (case journal_file f of
      None \<Rightarrow> Inr []
    | Some bytes \<Rightarrow> err_into Pub_Storage (read_lines (pub_parse_commit cd) bytes))"

definition pub_read_checkpoint ::
    "publication_codec \<Rightarrow> store_files \<Rightarrow> publication_store_error + publication_snapshot" where
  "pub_read_checkpoint cd f = (case checkpoint_file f of
      None \<Rightarrow> Inl (Pub_Storage ''No such file or directory (os error 2)'')
    | Some bytes \<Rightarrow> err_into Pub_Storage (pub_parse_snapshot cd bytes))"

definition pub_open ::
    "digest \<Rightarrow> publication_codec \<Rightarrow> bool \<Rightarrow> store_files \<Rightarrow> publication_store_error + publication_store" where
  "pub_open D cd mirrored f =
    (let base = (case pub_read_checkpoint cd f of Inl _ \<Rightarrow> publication_snapshot_default | Inr s \<Rightarrow> s)
     in case pub_read_journal cd f of
          Inl e \<Rightarrow> Inl e
        | Inr cs \<Rightarrow>
       (case replay ps_sequence pc_sequence (pub_apply_commit D) base cs of
          Inl e \<Rightarrow> Inl e
        | Inr s \<Rightarrow>
       (case pub_validate_snapshot D s of
          Inl e \<Rightarrow> Inl e
        | Inr _ \<Rightarrow> Inr \<lparr>pub_files = f, pub_mem = s, pub_mirrored = mirrored\<rparr>)))"

section \<open>Committing an intent\<close>

definition validate_compare_and_set ::
    "work_runtime_state option \<Rightarrow> publication_intent \<Rightarrow> publication_store_error + unit" where
  "validate_compare_and_set current i =
    (if (case current of None \<Rightarrow> False
         | Some r \<Rightarrow> rt_workspace_namespace r \<noteq> in_workspace_namespace i)
     then Inl (Pub_Conflict ''workspace namespace is immutable for an existing publication'')
     else if (case in_expected_generation i of None \<Rightarrow> False
         | Some expected \<Rightarrow>
             (case current of None \<Rightarrow> 0 | Some r \<Rightarrow> rt_desired_generation r) \<noteq> expected)
     then Inl (Pub_Conflict ''expected generation does not match current desired generation'')
     else if in_expected_current_release_id i
             \<noteq> (case current of None \<Rightarrow> None | Some r \<Rightarrow> rt_current_release_id r)
         \<and> in_expected_current_release_id i \<noteq> None
     then Inl (Pub_Conflict ''expected current release does not match observed current release'')
     else if in_kind i = Kind_Publish
         \<and> (case current of None \<Rightarrow> False | Some r \<Rightarrow> rt_desired_publication r = Des_Published)
     then Inl (Pub_Conflict ''published work requires update or rollback intent'')
     else if in_kind i \<in> {Kind_Update, Kind_Rollback}
         \<and> (case current of None \<Rightarrow> True | Some r \<Rightarrow> rt_current_release_id r = None)
     then Inl (Pub_Conflict ''update or rollback requires an observed current release'')
     else Inr ())"

text \<open>The 16 draws of \<open>rand::random\<close> are an argument; the first unused candidate is taken.\<close>

definition host_candidate :: "digest \<Rightarrow> string \<Rightarrow> string" where
  "host_candidate D entropy = ''w-'' @ take 20 (sha256_hex D entropy)"

definition allocate_host_slug ::
    "digest \<Rightarrow> (nat \<Rightarrow> string) \<Rightarrow> publication_snapshot \<Rightarrow> publication_store_error + string" where
  "allocate_host_slug D rng s =
    (case List.find (\<lambda>c. list_all (\<lambda>r. rt_host_slug r \<noteq> c) (bt_values (ps_runtimes s)))
            (map (\<lambda>n. host_candidate D (rng n)) [0..<16]) of
       Some c \<Rightarrow> Inr c
     | None \<Rightarrow> Inl (Pub_Storage ''failed to allocate a unique publication host identity''))"

definition initial_runtime ::
    "digest \<Rightarrow> publication_intent \<Rightarrow> string \<Rightarrow> time \<Rightarrow> work_runtime_state" where
  "initial_runtime D i host_slug now =
    (let work = ''work-'' @ take 12 (framed_hash D [in_project_id i]) in
     \<lparr>rt_schema_version = work_runtime_state_schema, rt_project_id = in_project_id i,
      rt_workspace_namespace = in_workspace_namespace i, rt_desired_publication = Des_Unpublished,
      rt_desired_release_id = None, rt_current_release_id = None, rt_previous_release_id = None,
      rt_last_successful_release_id = None, rt_desired_generation = 0, rt_host_slug = host_slug,
      rt_runtime_profile_id = in_runtime_profile_id i, rt_current_deployment_name = None,
      rt_previous_deployment_name = None, rt_service_name = work, rt_ingress_name = work,
      rt_deployment_uid = None, rt_deployment_resource_version = None, rt_service_uid = None,
      rt_service_resource_version = None, rt_ingress_uid = None,
      rt_ingress_resource_version = None, rt_observed_generation = 0, rt_status = Rt_Unpublished,
      rt_last_error = None, rt_created_at = now, rt_updated_at = now\<rparr>)"

text \<open>The runtime state, operation and outbox event of a new intent.\<close>

definition intent_runtime ::
    "publication_intent \<Rightarrow> u64 \<Rightarrow> time \<Rightarrow> work_runtime_state \<Rightarrow> work_runtime_state" where
  "intent_runtime i generation now r = r
    \<lparr>rt_desired_generation := generation,
     rt_desired_release_id := in_release_id i,
     rt_desired_publication := (if in_kind i = Kind_Unpublish then Des_Unpublished else Des_Published),
     rt_runtime_profile_id := in_runtime_profile_id i,
     rt_status := (case in_kind i of Kind_Publish \<Rightarrow> Rt_Publishing | Kind_Update \<Rightarrow> Rt_Updating
                   | Kind_Rollback \<Rightarrow> Rt_Updating | Kind_Unpublish \<Rightarrow> Rt_Unpublishing),
     rt_last_error := None,
     rt_updated_at := now\<rparr>"

definition operation_id_of :: "digest \<Rightarrow> publication_intent \<Rightarrow> string" where
  "operation_id_of D i = ''operation-'' @ take 32 (scoped_key D (in_project_id i) (intent_key_hash D i))"

definition intent_operation ::
    "digest \<Rightarrow> publication_intent \<Rightarrow> u64 \<Rightarrow> time \<Rightarrow> publish_operation" where
  "intent_operation D i generation now =
    \<lparr>op_schema_version = publish_operation_schema, op_id = operation_id_of D i,
     op_idempotency_key_hash = intent_key_hash D i, op_request_hash = intent_request_hash D i,
     op_project_id = in_project_id i, op_release_id = in_release_id i,
     op_expected_current_release_id = in_expected_current_release_id i,
     op_desired_generation = generation, op_kind = in_kind i,
     op_status = Op_DesiredStateCommitted, op_checkpoint = Cp_DesiredStateCommitted,
     op_last_error = None, op_created_at = now, op_updated_at = now\<rparr>"

definition intent_outbox ::
    "digest \<Rightarrow> publication_intent \<Rightarrow> u64 \<Rightarrow> time \<Rightarrow> publication_outbox_event" where
  "intent_outbox D i generation now =
    \<lparr>ob_schema_version = publication_outbox_schema,
     ob_id = ''publication-outbox-'' @ operation_id_of D i, ob_project_id = in_project_id i,
     ob_operation_id = operation_id_of D i, ob_desired_generation = generation,
     ob_status = Ob_Pending, ob_attempts = 0, ob_last_error = None, ob_next_attempt_at = now,
     ob_created_at = now, ob_updated_at = now, ob_delivered_at = None\<rparr>"

definition pub_commit_intent ::
    "digest \<Rightarrow> publication_codec \<Rightarrow> time \<Rightarrow> (nat \<Rightarrow> string) \<Rightarrow> io_plan \<Rightarrow> publication_intent
      \<Rightarrow> publication_store
      \<Rightarrow> (publication_store_error + (publish_operation \<times> work_runtime_state)) \<times> publication_store" where
  "pub_commit_intent D cd now rng io i st =
    (case validate_intent i of
       Inl e \<Rightarrow> (Inl (Pub_InvalidInput e), st)
     | Inr _ \<Rightarrow>
       let s = pub_mem st; key = scoped_key D (in_project_id i) (intent_key_hash D i)
       in case bt_get (ps_operation_by_idempotency s) key of
            Some oid \<Rightarrow>
              (case bt_get (ps_operations s) oid of
                 None \<Rightarrow> (Inl (Pub_Storage ''idempotency index is corrupt''), st)
               | Some o' \<Rightarrow>
                 if op_request_hash o' \<noteq> intent_request_hash D i
                 then (Inl (Pub_Conflict ''Idempotency-Key is already bound to a different request body''), st)
                 else case bt_get (ps_runtimes s) (in_project_id i) of
                   None \<Rightarrow> (Inl (Pub_Storage ''operation runtime link is corrupt''), st)
                 | Some r \<Rightarrow> (Inr (o', r), st))
          | None \<Rightarrow>
              let existing = bt_get (ps_runtimes s) (in_project_id i) in
              (case validate_compare_and_set existing i of
                 Inl e \<Rightarrow> (Inl e, st)
               | Inr _ \<Rightarrow>
                 let generation = (case existing of None \<Rightarrow> 1
                        | Some r \<Rightarrow> sat_inc (rt_desired_generation r)) in
                 case allocate_host_slug D rng s of
                   Inl e \<Rightarrow> (Inl e, st)
                 | Inr slug \<Rightarrow>
                   let r0 = (case existing of None \<Rightarrow> initial_runtime D i slug now | Some r \<Rightarrow> r);
                       r = intent_runtime i generation now r0;
                       o' = intent_operation D i generation now;
                       b = intent_outbox D i generation now
                   in case pub_persist_commit D cd io o' r b key st of
                        (Inl e, st') \<Rightarrow> (Inl e, st')
                      | (Inr _, st') \<Rightarrow> (Inr (o', r), st')))"

section \<open>Updating an outbox event\<close>

definition pub_update_outbox ::
    "digest \<Rightarrow> publication_codec \<Rightarrow> time \<Rightarrow> io_plan \<Rightarrow> string
      \<Rightarrow> (publish_operation \<Rightarrow> work_runtime_state \<Rightarrow> publication_outbox_event
            \<Rightarrow> publication_store_error
                + (publish_operation \<times> work_runtime_state \<times> publication_outbox_event))
      \<Rightarrow> publication_store
      \<Rightarrow> (publication_store_error
            + (publish_operation \<times> work_runtime_state \<times> publication_outbox_event)) \<times> publication_store" where
  "pub_update_outbox D cd now io bid f st =
    (let s = pub_mem st in
     case bt_get (ps_outbox s) bid of
       None \<Rightarrow> (Inl (Pub_NotFound bid), st)
     | Some b \<Rightarrow>
    (case bt_get (ps_operations s) (ob_operation_id b) of
       None \<Rightarrow> (Inl (Pub_NotFound (ob_operation_id b)), st)
     | Some o' \<Rightarrow>
    (case bt_get (ps_runtimes s) (ob_project_id b) of
       None \<Rightarrow> (Inl (Pub_NotFound (ob_project_id b)), st)
     | Some r \<Rightarrow>
     if op_id o' \<noteq> ob_operation_id b \<or> op_project_id o' \<noteq> ob_project_id b
        \<or> op_desired_generation o' \<noteq> ob_desired_generation b
        \<or> rt_project_id r \<noteq> ob_project_id b
     then (Inl (Pub_Storage ''publication outbox linkage is invalid''), st)
     else if rt_desired_generation r \<noteq> ob_desired_generation b
     then (Inl (Pub_Conflict ''stale publication outbox cannot update a newer desired generation''), st)
     else case f o' r b of
       Inl e \<Rightarrow> (Inl e, st)
     | Inr (o1, r1, b1) \<Rightarrow>
       let o2 = o1\<lparr>op_updated_at := now\<rparr>; r2 = r1\<lparr>rt_updated_at := now\<rparr>;
           b2 = b1\<lparr>ob_updated_at := now\<rparr>;
           key = scoped_key D (op_project_id o2) (op_idempotency_key_hash o2)
       in case pub_persist_commit D cd io o2 r2 b2 key st of
            (Inl e, st') \<Rightarrow> (Inl e, st')
          | (Inr _, st') \<Rightarrow> (Inr (o2, r2, b2), st'))))"

type_synonym outbox_upd =
  "publish_operation \<Rightarrow> work_runtime_state \<Rightarrow> publication_outbox_event
    \<Rightarrow> publication_store_error + (publish_operation \<times> work_runtime_state \<times> publication_outbox_event)"

text \<open>\<open>map(|(operation, runtime, _)| (operation, runtime))\<close>\<close>

definition drop_outbox ::
    "(publication_store_error + ('a \<times> 'b \<times> 'c)) \<times> 's \<Rightarrow> (publication_store_error + ('a \<times> 'b)) \<times> 's" where
  "drop_outbox = apfst (map_sum id (\<lambda>(x, y, _). (x, y)))"

text \<open>\<open>1_i64 << attempts.min(6)\<close> seconds\<close>

definition backoff_seconds :: "u32 \<Rightarrow> int" where
  "backoff_seconds attempts = push_bit (min (unat attempts) 6) 1"

definition delivery_attempt_upd :: "clock \<Rightarrow> string option \<Rightarrow> outbox_upd" where
  "delivery_attempt_upd clk error o' r b =
    (if ob_status b = Ob_Delivered then Inr (o', r, b)
     else let b1 = b\<lparr>ob_attempts := sat_inc (ob_attempts b), ob_last_error := error\<rparr>;
              (o1, r1) = (case error of
                 None \<Rightarrow> (o', r)
               | Some e \<Rightarrow> (o'\<lparr>op_status := Op_ReconcileRequired, op_last_error := Some e\<rparr>,
                           r\<lparr>rt_status := Rt_ReconcileRequired, rt_last_error := Some e\<rparr>))
          in Inr (o1, r1,
               b1\<lparr>ob_next_attempt_at := clk 0 + seconds (backoff_seconds (ob_attempts b1))\<rparr>))"

definition pub_record_delivery_attempt ::
    "digest \<Rightarrow> publication_codec \<Rightarrow> clock \<Rightarrow> io_plan \<Rightarrow> string \<Rightarrow> string option \<Rightarrow> publication_store
      \<Rightarrow> (publication_store_error + publication_outbox_event) \<times> publication_store" where
  "pub_record_delivery_attempt D cd clk io bid error st =
    apfst (map_sum id (\<lambda>(_, _, b). b))
      (pub_update_outbox D cd (clk 2) io bid (delivery_attempt_upd clk error) st)"

definition delivered_upd :: "clock \<Rightarrow> outbox_upd" where
  "delivered_upd clk o' r b =
    Inr (o'\<lparr>op_status := Op_Reconciling, op_checkpoint := Cp_Reconciling\<rparr>, r,
         b\<lparr>ob_status := Ob_Delivered, ob_last_error := None, ob_delivered_at := Some (clk 0),
           ob_next_attempt_at := clk 1\<rparr>)"

definition pub_record_delivered ::
    "digest \<Rightarrow> publication_codec \<Rightarrow> clock \<Rightarrow> io_plan \<Rightarrow> string \<Rightarrow> publication_store
      \<Rightarrow> (publication_store_error + (publish_operation \<times> work_runtime_state)) \<times> publication_store" where
  "pub_record_delivered D cd clk io bid st =
    drop_outbox (pub_update_outbox D cd (clk 2) io bid (delivered_upd clk) st)"

end
