(* ===== verification/PublicationReconcile.thy ===== *)
theory PublicationReconcile
  imports PublicationStore
begin

text \<open>
  The queries of \<open>publication/store.rs\<close>, the replay of unfinished operations at start-up, and
  \<open>publication/store_reconcile.rs\<close>: what the controller records of one reconciliation.
\<close>

record kubernetes_resource_identity =
  ki_name :: string
  ki_uid :: string
  ki_resource_version :: string

record observed_work_runtime =
  ow_deployment :: kubernetes_resource_identity
  ow_service :: kubernetes_resource_identity
  ow_ingress :: "kubernetes_resource_identity option"
  ow_ready :: bool
  ow_release_identity_verified :: bool
  ow_external_release_identity_verified :: bool

section \<open>Queries\<close>

definition pub_operation :: "publication_store \<Rightarrow> string \<Rightarrow> publish_operation option" where
  "pub_operation st oid = bt_get (ps_operations (pub_mem st)) oid"

definition pub_runtime :: "publication_store \<Rightarrow> string \<Rightarrow> work_runtime_state option" where
  "pub_runtime st project = bt_get (ps_runtimes (pub_mem st)) project"

definition pub_runtimes :: "publication_store \<Rightarrow> work_runtime_state list" where
  "pub_runtimes st = bt_values (ps_runtimes (pub_mem st))"

definition pub_operations_for_project :: "publication_store \<Rightarrow> string \<Rightarrow> publish_operation list" where
  "pub_operations_for_project st project =
    filter (\<lambda>o'. op_project_id o' = project) (bt_values (ps_operations (pub_mem st)))"

text \<open>The code reads the clock for each event; here one reading serves the whole call.\<close>

definition pub_pending_outbox :: "time \<Rightarrow> publication_store \<Rightarrow> publication_outbox_event list" where
  "pub_pending_outbox now st =
    filter (\<lambda>b. ob_status b = Ob_Pending \<and> ob_next_attempt_at b \<le> now \<and>
        (case bt_get (ps_runtimes (pub_mem st)) (ob_project_id b) of
           None \<Rightarrow> False
         | Some r \<Rightarrow> rt_desired_generation r = ob_desired_generation b))
      (bt_values (ps_outbox (pub_mem st)))"

definition pub_nonterminal_operations :: "publication_store \<Rightarrow> publish_operation list" where
  "pub_nonterminal_operations st =
    filter (\<lambda>o'. \<not> op_is_terminal (op_status o')) (bt_values (ps_operations (pub_mem st)))"

definition runtime_release_ids :: "work_runtime_state \<Rightarrow> string list" where
  "runtime_release_ids r = List.map_filter id
     [rt_desired_release_id r, rt_current_release_id r, rt_previous_release_id r,
      rt_last_successful_release_id r]"

text \<open>The \<open>BTreeSet\<close> of protected release ids, as the list of its insertions.\<close>

definition pub_protected_release_ids :: "publication_store \<Rightarrow> string list" where
  "pub_protected_release_ids st =
    concat (map runtime_release_ids (bt_values (ps_runtimes (pub_mem st)))) @
    List.map_filter op_release_id
      (filter (\<lambda>o'. \<not> op_is_terminal (op_status o')) (bt_values (ps_operations (pub_mem st))))"

definition pub_published_reconcile_outbox :: "publication_store \<Rightarrow> publication_outbox_event list" where
  "pub_published_reconcile_outbox st =
    List.map_filter
      (\<lambda>r. bt_find (\<lambda>b. ob_project_id b = rt_project_id r
                     \<and> ob_desired_generation b = rt_desired_generation r) (ps_outbox (pub_mem st)))
      (filter (\<lambda>r. rt_desired_publication r = Des_Published) (bt_values (ps_runtimes (pub_mem st))))"

section \<open>Replaying unfinished operations\<close>

definition replay_upd :: "clock \<Rightarrow> outbox_upd" where
  "replay_upd clk o' r b =
    Inr (o'\<lparr>op_status := Op_ReconcileRequired\<rparr>, r,
         b\<lparr>ob_status := Ob_Pending, ob_delivered_at := None, ob_next_attempt_at := clk 0,
           ob_last_error := Some ''replayed nonterminal operation at startup''\<rparr>)"

definition replay_candidates :: "publication_snapshot \<Rightarrow> string list" where
  "replay_candidates s = map ob_id (filter (\<lambda>b.
      ob_status b = Ob_Delivered \<and>
      (case bt_get (ps_operations s) (ob_operation_id b) of
         None \<Rightarrow> False | Some o' \<Rightarrow> \<not> op_is_terminal (op_status o')) \<and>
      (case bt_get (ps_runtimes s) (ob_project_id b) of
         None \<Rightarrow> False
       | Some r \<Rightarrow> rt_desired_generation r = ob_desired_generation b
           \<and> rt_observed_generation r < ob_desired_generation b)) (bt_values (ps_outbox s)))"

text \<open>The \<open>n\<close>-th update has the clock \<open>clks n\<close> and the files' plan \<open>ios n\<close>.\<close>

fun replay_each ::
    "digest \<Rightarrow> publication_codec \<Rightarrow> (nat \<Rightarrow> clock) \<Rightarrow> (nat \<Rightarrow> io_plan) \<Rightarrow> nat \<Rightarrow> string list
      \<Rightarrow> publication_store \<Rightarrow> (publication_store_error + unit) \<times> publication_store" where
  "replay_each D cd clks ios n [] st = (Inr (), st)"
| "replay_each D cd clks ios n (bid # bids) st =
    (case pub_update_outbox D cd (clks n 2) (ios n) bid (replay_upd (clks n)) st of
       (Inl e, st') \<Rightarrow> (Inl e, st')
     | (Inr _, st') \<Rightarrow> replay_each D cd clks ios (Suc n) bids st')"

definition pub_replay_nonterminal_outbox ::
    "digest \<Rightarrow> publication_codec \<Rightarrow> (nat \<Rightarrow> clock) \<Rightarrow> (nat \<Rightarrow> io_plan) \<Rightarrow> publication_store
      \<Rightarrow> (publication_store_error + nat) \<times> publication_store" where
  "pub_replay_nonterminal_outbox D cd clks ios st =
    (let candidates = replay_candidates (pub_mem st) in
     case replay_each D cd clks ios 0 candidates st of
       (Inl e, st') \<Rightarrow> (Inl e, st')
     | (Inr _, st') \<Rightarrow> (Inr (length candidates), st'))"

section \<open>Recording a reconciliation\<close>

text \<open>The closure of \<open>record_workload_ready\<close>, in the order of its statements.\<close>

definition ready_release :: "string \<Rightarrow> work_runtime_state \<Rightarrow> work_runtime_state" where
  "ready_release d r =
    (if rt_current_release_id r \<noteq> Some d
     then r\<lparr>rt_previous_release_id := rt_current_release_id r\<rparr> else r)
    \<lparr>rt_current_release_id := Some d, rt_last_successful_release_id := Some d\<rparr>"

definition ready_deployment :: "observed_work_runtime \<Rightarrow> work_runtime_state \<Rightarrow> work_runtime_state" where
  "ready_deployment obs r =
    (if rt_current_deployment_name r \<noteq> Some (ki_name (ow_deployment obs))
     then r\<lparr>rt_previous_deployment_name := rt_current_deployment_name r\<rparr> else r)
    \<lparr>rt_current_deployment_name := Some (ki_name (ow_deployment obs)),
     rt_deployment_uid := Some (ki_uid (ow_deployment obs)),
     rt_deployment_resource_version := Some (ki_resource_version (ow_deployment obs))\<rparr>"

definition observe_endpoints :: "observed_work_runtime \<Rightarrow> work_runtime_state \<Rightarrow> work_runtime_state" where
  "observe_endpoints obs r =
    (let r1 = r\<lparr>rt_service_uid := Some (ki_uid (ow_service obs)),
               rt_service_resource_version := Some (ki_resource_version (ow_service obs))\<rparr>
     in case ow_ingress obs of
          None \<Rightarrow> r1
        | Some ing \<Rightarrow> r1\<lparr>rt_ingress_uid := Some (ki_uid ing),
                         rt_ingress_resource_version := Some (ki_resource_version ing)\<rparr>)"

definition ready_status :: "observed_work_runtime \<Rightarrow> work_runtime_state \<Rightarrow> work_runtime_state" where
  "ready_status obs r0 =
    (let r = r0\<lparr>rt_observed_generation := rt_desired_generation r0, rt_last_error := None\<rparr> in
     if ow_external_release_identity_verified obs then r\<lparr>rt_status := Rt_Published\<rparr>
     else if rt_status r \<noteq> Rt_Published
     then r\<lparr>rt_status := (if rt_previous_release_id r \<noteq> None then Rt_Updating else Rt_Publishing)\<rparr>
     else r)"

definition ready_operation :: "observed_work_runtime \<Rightarrow> publish_operation \<Rightarrow> publish_operation" where
  "ready_operation obs o' =
    (if ow_external_release_identity_verified obs
     then o'\<lparr>op_status := Op_Completed, op_checkpoint := Cp_Completed\<rparr>
     else if op_status o' \<notin> {Op_TrafficSwitched, Op_ExternalProbePassed, Op_Completed}
     then o'\<lparr>op_status := Op_WorkloadReady, op_checkpoint := Cp_WorkloadReady\<rparr>
     else o')\<lparr>op_last_error := None\<rparr>"

definition workload_ready_upd :: "clock \<Rightarrow> observed_work_runtime \<Rightarrow> outbox_upd" where
  "workload_ready_upd clk obs o' r b =
    (if op_desired_generation o' \<noteq> rt_desired_generation r
        \<or> op_desired_generation o' \<noteq> ob_desired_generation b
     then Inl (Pub_Conflict ''stale reconcile result cannot update a newer desired generation'')
     else case rt_desired_release_id r of
       None \<Rightarrow> Inl (Pub_InvalidTransition ''Published runtime is missing desired release'')
     | Some d \<Rightarrow>
       Inr (ready_operation obs o',
            ready_status obs (observe_endpoints obs (ready_deployment obs (ready_release d r))),
            b\<lparr>ob_status := Ob_Delivered, ob_last_error := None, ob_delivered_at := Some (clk 0),
              ob_next_attempt_at := clk 1\<rparr>))"

definition pub_record_workload_ready ::
    "digest \<Rightarrow> publication_codec \<Rightarrow> clock \<Rightarrow> io_plan \<Rightarrow> string \<Rightarrow> observed_work_runtime
      \<Rightarrow> publication_store
      \<Rightarrow> (publication_store_error + (publish_operation \<times> work_runtime_state)) \<times> publication_store" where
  "pub_record_workload_ready D cd clk io bid obs st =
    (if \<not> ow_ready obs \<or> \<not> ow_release_identity_verified obs
     then (Inl (Pub_InvalidTransition ''workload readiness and release identity evidence are required''), st)
     else if (ow_ingress obs \<noteq> None) \<noteq> ow_external_release_identity_verified obs
     then (Inl (Pub_InvalidTransition
        ''Ingress identity and external release probe evidence must advance together''), st)
     else drop_outbox (pub_update_outbox D cd (clk 2) io bid (workload_ready_upd clk obs) st))"

definition traffic_switched_upd :: "clock \<Rightarrow> observed_work_runtime \<Rightarrow> outbox_upd" where
  "traffic_switched_upd clk obs o' r b =
    (if op_desired_generation o' \<noteq> rt_desired_generation r
        \<or> op_desired_generation o' \<noteq> ob_desired_generation b
        \<or> rt_current_release_id r = rt_desired_release_id r
     then Inl (Pub_Conflict ''stale or non-switch reconcile result cannot record traffic checkpoint'')
     else Inr (o'\<lparr>op_status := Op_TrafficSwitched, op_checkpoint := Cp_TrafficSwitched,
                 op_last_error := None\<rparr>,
               (observe_endpoints obs r)\<lparr>rt_status := Rt_Updating, rt_last_error := None\<rparr>,
               b\<lparr>ob_status := Ob_Pending, ob_delivered_at := None, ob_last_error := None,
                 ob_next_attempt_at := clk 0\<rparr>))"

definition pub_record_traffic_switched ::
    "digest \<Rightarrow> publication_codec \<Rightarrow> clock \<Rightarrow> io_plan \<Rightarrow> string \<Rightarrow> observed_work_runtime
      \<Rightarrow> publication_store
      \<Rightarrow> (publication_store_error + (publish_operation \<times> work_runtime_state)) \<times> publication_store" where
  "pub_record_traffic_switched D cd clk io bid obs st =
    (if \<not> ow_ready obs \<or> \<not> ow_release_identity_verified obs
        \<or> ow_external_release_identity_verified obs
     then (Inl (Pub_InvalidTransition
        ''traffic switch requires ready target and internal identity evidence before external verification''), st)
     else drop_outbox (pub_update_outbox D cd (clk 2) io bid (traffic_switched_upd clk obs) st))"

definition unpublished_upd :: "clock \<Rightarrow> outbox_upd" where
  "unpublished_upd clk o' r b =
    (if rt_desired_publication r \<noteq> Des_Unpublished \<or> rt_desired_release_id r \<noteq> None
        \<or> op_desired_generation o' \<noteq> rt_desired_generation r
        \<or> ob_desired_generation b \<noteq> rt_desired_generation r
     then Inl (Pub_Conflict ''stale or invalid Unpublish result cannot be committed'')
     else Inr (o'\<lparr>op_status := Op_Completed, op_checkpoint := Cp_Completed, op_last_error := None\<rparr>,
               r\<lparr>rt_previous_release_id := rt_current_release_id r, rt_current_release_id := None,
                 rt_previous_deployment_name := rt_current_deployment_name r,
                 rt_current_deployment_name := None,
                 rt_deployment_uid := None, rt_deployment_resource_version := None,
                 rt_service_uid := None, rt_service_resource_version := None,
                 rt_ingress_uid := None, rt_ingress_resource_version := None,
                 rt_observed_generation := rt_desired_generation r,
                 rt_status := Rt_Unpublished, rt_last_error := None\<rparr>,
               b\<lparr>ob_status := Ob_Delivered, ob_delivered_at := Some (clk 0), ob_last_error := None,
                 ob_next_attempt_at := clk 1\<rparr>))"

definition pub_record_unpublished ::
    "digest \<Rightarrow> publication_codec \<Rightarrow> clock \<Rightarrow> io_plan \<Rightarrow> string \<Rightarrow> publication_store
      \<Rightarrow> (publication_store_error + (publish_operation \<times> work_runtime_state)) \<times> publication_store" where
  "pub_record_unpublished D cd clk io bid st =
    drop_outbox (pub_update_outbox D cd (clk 2) io bid (unpublished_upd clk) st)"

definition reconcile_failure_upd :: "clock \<Rightarrow> string \<Rightarrow> outbox_upd" where
  "reconcile_failure_upd clk error o' r b =
    Inr (o'\<lparr>op_status := Op_ReconcileRequired, op_last_error := Some error\<rparr>,
         r\<lparr>rt_status := Rt_ReconcileRequired, rt_last_error := Some error\<rparr>,
         b\<lparr>ob_status := Ob_Pending, ob_delivered_at := None, ob_last_error := Some error,
           ob_next_attempt_at := clk 0 + seconds 2\<rparr>)"

definition pub_record_reconcile_failure ::
    "digest \<Rightarrow> publication_codec \<Rightarrow> clock \<Rightarrow> io_plan \<Rightarrow> string \<Rightarrow> string \<Rightarrow> publication_store
      \<Rightarrow> (publication_store_error + unit) \<times> publication_store" where
  "pub_record_reconcile_failure D cd clk io bid error st =
    apfst (map_sum id (\<lambda>_. ()))
      (pub_update_outbox D cd (clk 2) io bid (reconcile_failure_upd clk error) st)"

definition recreation_error :: string where
  "recreation_error = ''deployment recreation authorized by UID CAS''"

definition recreation_upd :: "clock \<Rightarrow> string \<Rightarrow> outbox_upd" where
  "recreation_upd clk expected_uid o' r b =
    (if rt_deployment_uid r \<noteq> Some expected_uid
     then Inl (Pub_Conflict ''deployment identity changed before recreation authorization committed'')
     else Inr (o'\<lparr>op_status := Op_ReconcileRequired, op_last_error := Some recreation_error\<rparr>,
               r\<lparr>rt_deployment_uid := None, rt_deployment_resource_version := None,
                 rt_status := Rt_ReconcileRequired, rt_last_error := Some recreation_error\<rparr>,
               b\<lparr>ob_status := Ob_Pending, ob_delivered_at := None,
                 ob_last_error := Some recreation_error, ob_next_attempt_at := clk 0\<rparr>))"

definition pub_authorize_deployment_recreation ::
    "digest \<Rightarrow> publication_codec \<Rightarrow> clock \<Rightarrow> io_plan \<Rightarrow> string \<Rightarrow> string \<Rightarrow> publication_store
      \<Rightarrow> (publication_store_error + unit) \<times> publication_store" where
  "pub_authorize_deployment_recreation D cd clk io project expected_uid st =
    (case bt_get (ps_runtimes (pub_mem st)) project of
       None \<Rightarrow> (Inl (Pub_NotFound project), st)
     | Some r \<Rightarrow>
     if rt_deployment_uid r \<noteq> Some expected_uid
     then (Inl (Pub_Conflict
        ''deployment recreation authorization UID does not match persisted identity''), st)
     else case bt_find (\<lambda>b. ob_project_id b = project
                 \<and> ob_desired_generation b = rt_desired_generation r) (ps_outbox (pub_mem st)) of
       None \<Rightarrow> (Inl (Pub_Storage ''runtime state is missing its current operation outbox''), st)
     | Some b \<Rightarrow>
         apfst (map_sum id (\<lambda>_. ()))
           (pub_update_outbox D cd (clk 2) io (ob_id b) (recreation_upd clk expected_uid) st))"

end
