(* ===== verification/ReleaseStore.thy ===== *)
theory ReleaseStore
  imports ReleaseModel Journal
begin

text \<open>
  \<open>release/store.rs\<close>: the journaled store of releases and their packaging records. The store is a
  record of the in-memory state, the two files and whether a mirror is configured; every operation
  takes the clock reading it makes and the outcome of its file effects, and returns its result with
  the store it leaves behind, also when it fails. A closure \<open>update(|release, packaging| ...)\<close> of the
  code is a function \<open>..._upd\<close> on the pair.
\<close>

datatype release_store_error =
    Rel_InvalidInput string
  | Rel_NotFound string
  | Rel_InvalidTransition string
  | Rel_IntegrityConflict string
  | Rel_Storage string

record release_state =
  rs_sequence :: u64
  rs_releases :: "(string, work_release) btree"
  rs_packagings :: "(string, release_packaging_record) btree"
  rs_packaging_by_key :: "(string, string) btree"

record release_event =
  re_sequence :: u64
  re_release :: work_release
  re_packaging :: release_packaging_record

record release_store =
  rel_files :: store_files
  rel_mem :: release_state
  rel_mirrored :: bool

text \<open>\<open>serde_json\<close> for the two file formats.\<close>

record release_codec =
  rc_ser_event :: "release_event \<Rightarrow> string"
  rc_parse_event :: "string \<Rightarrow> string + release_event"
  rc_ser_state :: "release_state \<Rightarrow> string"
  rc_parse_state :: "string \<Rightarrow> string + release_state"

definition release_state_default :: release_state where
  "release_state_default =
    \<lparr>rs_sequence = 0, rs_releases = bt_empty, rs_packagings = bt_empty,
     rs_packaging_by_key = bt_empty\<rparr>"

section \<open>Applying and persisting an event\<close>

definition rel_apply_event :: "release_state \<Rightarrow> release_event \<Rightarrow> release_store_error + release_state" where
  "rel_apply_event s e =
    (if wr_id (re_release e) \<noteq> pk_release_id (re_packaging e)
        \<or> wr_project_id (re_release e) \<noteq> pk_project_id (re_packaging e)
     then Inl (Rel_Storage ''release event linkage is invalid'')
     else Inr (s\<lparr>rs_sequence := re_sequence e,
                rs_packaging_by_key := bt_insert (pk_idempotency_key (re_packaging e))
                   (pk_id (re_packaging e)) (rs_packaging_by_key s),
                rs_releases := bt_insert (wr_id (re_release e)) (re_release e) (rs_releases s),
                rs_packagings :=
                   bt_insert (pk_id (re_packaging e)) (re_packaging e) (rs_packagings s)\<rparr>))"

definition rel_validate_state :: "release_state \<Rightarrow> release_store_error + unit" where
  "rel_validate_state s =
    (case List.find (\<lambda>(key, pid). case bt_get (rs_packagings s) pid of
              None \<Rightarrow> True
            | Some p \<Rightarrow> pk_idempotency_key p \<noteq> key
                \<or> bt_get (rs_releases s) (pk_release_id p) = None) (rs_packaging_by_key s) of
       None \<Rightarrow> Inr ()
     | Some (key, pid) \<Rightarrow>
         if bt_get (rs_packagings s) pid = None
         then Inl (Rel_Storage ''packaging key index is invalid'')
         else Inl (Rel_Storage ''persisted release state is inconsistent''))"

definition rel_sync_mirror :: "bool \<Rightarrow> string option \<Rightarrow> release_store_error option" where
  "rel_sync_mirror mirrored fault =
    (if mirrored then map_option Rel_Storage fault else None)"

definition rel_append_event ::
    "release_codec \<Rightarrow> append_outcome \<Rightarrow> release_event \<Rightarrow> store_files
      \<Rightarrow> release_store_error option \<times> store_files" where
  "rel_append_event cd oc e f =
    (let (err, f') = append_bytes oc (rc_ser_event cd e @ [nl]) f
     in (map_option Rel_Storage err, f'))"

definition rel_write_checkpoint ::
    "release_codec \<Rightarrow> replace_outcome \<Rightarrow> release_state \<Rightarrow> store_files
      \<Rightarrow> release_store_error option \<times> store_files" where
  "rel_write_checkpoint cd oc s f =
    (let (err, f') = replace_checkpoint oc (rc_ser_state cd s) f
     in (map_option Rel_Storage err, f'))"

text \<open>
  \<open>persist_pair\<close>: the event reaches the journal and the mirror before the state changes; the state
  changes before the checkpoint is written, and keeps the change when writing it fails.
\<close>

definition rel_persist_pair ::
    "release_codec \<Rightarrow> io_plan \<Rightarrow> work_release \<Rightarrow> release_packaging_record \<Rightarrow> release_store
      \<Rightarrow> (release_store_error + unit) \<times> release_store" where
  "rel_persist_pair cd io r p st =
    (let e = \<lparr>re_sequence = sat_inc (rs_sequence (rel_mem st)), re_release = r, re_packaging = p\<rparr>;
         (err, f1) = rel_append_event cd (io_append io) e (rel_files st);
         st1 = st\<lparr>rel_files := f1\<rparr>
     in case err of
          Some x \<Rightarrow> (Inl x, st1)
        | None \<Rightarrow>
       (case rel_sync_mirror (rel_mirrored st) (io_mirror_journal io) of
          Some x \<Rightarrow> (Inl x, st1)
        | None \<Rightarrow>
       (case rel_apply_event (rel_mem st) e of
          Inl x \<Rightarrow> (Inl x, st1)
        | Inr s' \<Rightarrow>
          let (err2, f2) = rel_write_checkpoint cd (io_checkpoint io) s' f1;
              st2 = st\<lparr>rel_files := f2, rel_mem := s'\<rparr>
          in case err2 of
               Some x \<Rightarrow> (Inl x, st2)
             | None \<Rightarrow>
            (case rel_sync_mirror (rel_mirrored st) (io_mirror_checkpoint io) of
               Some x \<Rightarrow> (Inl x, st2)
             | None \<Rightarrow> (Inr (), st2)))))"

definition rel_update ::
    "release_codec \<Rightarrow> time \<Rightarrow> io_plan \<Rightarrow> string
      \<Rightarrow> (work_release \<Rightarrow> release_packaging_record
            \<Rightarrow> release_store_error + (work_release \<times> release_packaging_record))
      \<Rightarrow> release_store
      \<Rightarrow> (release_store_error + (work_release \<times> release_packaging_record)) \<times> release_store" where
  "rel_update cd now io pid f st =
    (case bt_get (rs_packagings (rel_mem st)) pid of
       None \<Rightarrow> (Inl (Rel_NotFound pid), st)
     | Some p \<Rightarrow>
    (case bt_get (rs_releases (rel_mem st)) (pk_release_id p) of
       None \<Rightarrow> (Inl (Rel_NotFound (pk_release_id p)), st)
     | Some r \<Rightarrow>
    (case f r p of
       Inl x \<Rightarrow> (Inl x, st)
     | Inr (r1, p1) \<Rightarrow>
       let r2 = r1\<lparr>wr_updated_at := now\<rparr>; p2 = p1\<lparr>pk_updated_at := now\<rparr>
       in case rel_persist_pair cd io r2 p2 st of
            (Inl x, st') \<Rightarrow> (Inl x, st')
          | (Inr _, st') \<Rightarrow> (Inr (r2, p2), st'))))"

section \<open>Start-up\<close>

definition rel_read_journal :: "release_codec \<Rightarrow> store_files \<Rightarrow> release_store_error + release_event list" where
  "rel_read_journal cd f = (case journal_file f of
      None \<Rightarrow> Inr []
    | Some bytes \<Rightarrow> err_into Rel_Storage (read_lines (rc_parse_event cd) bytes))"

definition rel_read_checkpoint :: "release_codec \<Rightarrow> store_files \<Rightarrow> release_store_error + release_state" where
  "rel_read_checkpoint cd f = (case checkpoint_file f of
      None \<Rightarrow> Inl (Rel_Storage ''No such file or directory (os error 2)'')
    | Some bytes \<Rightarrow> err_into Rel_Storage (rc_parse_state cd bytes))"

definition rel_open :: "release_codec \<Rightarrow> bool \<Rightarrow> store_files \<Rightarrow> release_store_error + release_store" where
  "rel_open cd mirrored f =
    (let base = (case rel_read_checkpoint cd f of Inl _ \<Rightarrow> release_state_default | Inr s \<Rightarrow> s)
     in case rel_read_journal cd f of
          Inl e \<Rightarrow> Inl e
        | Inr es \<Rightarrow>
       (case replay rs_sequence re_sequence rel_apply_event base es of
          Inl e \<Rightarrow> Inl e
        | Inr s \<Rightarrow>
       (case rel_validate_state s of
          Inl e \<Rightarrow> Inl e
        | Inr _ \<Rightarrow> Inr \<lparr>rel_files = f, rel_mem = s, rel_mirrored = mirrored\<rparr>)))"

section \<open>Operations\<close>

definition rel_prepare ::
    "digest \<Rightarrow> release_codec \<Rightarrow> time \<Rightarrow> io_plan \<Rightarrow> release_packaging_input \<Rightarrow> release_store
      \<Rightarrow> (release_store_error + (work_release \<times> release_packaging_record)) \<times> release_store" where
  "rel_prepare D cd now io i st =
    (case validate_packaging_input i of
       Inl e \<Rightarrow> (Inl (Rel_InvalidInput e), st)
     | Inr _ \<Rightarrow>
       let key = packaging_idempotency_key D i; s = rel_mem st
       in case bt_get (rs_packaging_by_key s) key of
            Some pid \<Rightarrow>
              (case bt_get (rs_packagings s) pid of
                 None \<Rightarrow> (Inl (Rel_Storage ''idempotency index is corrupt''), st)
               | Some p \<Rightarrow>
              (case bt_get (rs_releases s) (pk_release_id p) of
                 None \<Rightarrow> (Inl (Rel_Storage ''packaging release link is corrupt''), st)
               | Some r \<Rightarrow>
                 if wr_project_id r \<noteq> ri_project_id i
                    \<or> wr_version_id r \<noteq> ri_version_id i
                    \<or> wr_run_id r \<noteq> ri_run_id i
                    \<or> wr_template_id r \<noteq> ri_template_id i
                    \<or> wr_template_version r \<noteq> ri_template_version i
                    \<or> wr_source_snapshot_uri r \<noteq> ri_source_snapshot_uri i
                    \<or> wr_runtime_profile_id r \<noteq> ri_runtime_profile_id i
                    \<or> pk_registry_repository p \<noteq> ri_registry_repository i
                 then (Inl (Rel_IntegrityConflict
                    ''idempotency key is already bound to different release provenance''), st)
                 else (Inr (r, p), st)))
          | None \<Rightarrow>
              let r = release_packaging_of i key now;
                  p = packaging_record_prepared i (wr_id r) key now
              in case rel_persist_pair cd io r p st of
                   (Inl x, st') \<Rightarrow> (Inl x, st')
                 | (Inr _, st') \<Rightarrow> (Inr (r, p), st'))"

definition begin_build_upd ::
    "work_release \<Rightarrow> release_packaging_record
      \<Rightarrow> release_store_error + (work_release \<times> release_packaging_record)" where
  "begin_build_upd r p = (case pk_status p of
      Pk_Prepared \<Rightarrow>
        Inr (r\<lparr>wr_status := Wr_Packaging\<rparr>,
             p\<lparr>pk_status := Pk_Building, pk_attempts := sat_inc (pk_attempts p), pk_last_error := None\<rparr>)
    | Pk_Failed \<Rightarrow>
        Inr (r\<lparr>wr_status := Wr_Packaging\<rparr>,
             p\<lparr>pk_status := Pk_Building, pk_attempts := sat_inc (pk_attempts p), pk_last_error := None\<rparr>)
    | Pk_ReconcileRequired \<Rightarrow>
        let p1 = (if (case pk_scan_evidence p of None \<Rightarrow> False | Some ev \<Rightarrow> sc_passed ev)
                     \<and> pk_provenance_digest p \<noteq> None
                  then p\<lparr>pk_status := Pk_Signing\<rparr>
                  else if pk_pushed_image_digest p \<noteq> None
                  then p\<lparr>pk_status := Pk_Pushed\<rparr>
                  else p\<lparr>pk_attempts := sat_inc (pk_attempts p), pk_status := Pk_Building\<rparr>)
        in Inr (r\<lparr>wr_status := (if pk_pushed_image_digest p \<noteq> None
                              then Wr_Packaged else Wr_Packaging)\<rparr>,
                p1\<lparr>pk_last_error := None\<rparr>)
    | Pk_Building \<Rightarrow> Inr (r, p)
    | _ \<Rightarrow> Inl (Rel_InvalidTransition
            (''cannot begin build from '' @ packaging_status_debug (pk_status p))))"

definition rel_begin_build ::
    "release_codec \<Rightarrow> time \<Rightarrow> io_plan \<Rightarrow> string \<Rightarrow> release_store
      \<Rightarrow> (release_store_error + release_packaging_record) \<times> release_store" where
  "rel_begin_build cd now io pid st =
    apfst (map_sum id snd) (rel_update cd now io pid begin_build_upd st)"

definition set_once :: "string option \<Rightarrow> string \<Rightarrow> string \<Rightarrow> release_store_error + string option" where
  "set_once target value field = (case target of
      Some existing \<Rightarrow>
        if existing \<noteq> value then Inl (Rel_IntegrityConflict (field @ '' cannot change''))
        else Inr target
    | None \<Rightarrow> Inr (Some value))"

definition record_built_upd ::
    "string \<Rightarrow> work_release \<Rightarrow> release_packaging_record
      \<Rightarrow> release_store_error + (work_release \<times> release_packaging_record)" where
  "record_built_upd image_digest r p =
    (if pk_status p \<noteq> Pk_Building
     then Inl (Rel_InvalidTransition
            (''cannot record build from '' @ packaging_status_debug (pk_status p)))
     else case set_once (pk_built_image_digest p) image_digest ''built image digest'' of
            Inl e \<Rightarrow> Inl e
          | Inr b \<Rightarrow> Inr (r, p\<lparr>pk_built_image_digest := b\<rparr>))"

definition rel_record_built ::
    "release_codec \<Rightarrow> time \<Rightarrow> io_plan \<Rightarrow> string \<Rightarrow> string \<Rightarrow> release_store
      \<Rightarrow> (release_store_error + release_packaging_record) \<times> release_store" where
  "rel_record_built cd now io pid image_digest st =
    (case validate_digest image_digest ''built image digest'' of
       Inl e \<Rightarrow> (Inl (Rel_InvalidInput e), st)
     | Inr _ \<Rightarrow> apfst (map_sum id snd) (rel_update cd now io pid (record_built_upd image_digest) st))"

definition record_pushed_upd ::
    "string \<Rightarrow> work_release \<Rightarrow> release_packaging_record
      \<Rightarrow> release_store_error + (work_release \<times> release_packaging_record)" where
  "record_pushed_upd registry_digest r p =
    (if pk_status p \<noteq> Pk_Building \<and> pk_status p \<noteq> Pk_Pushed
     then Inl (Rel_InvalidTransition
            (''cannot record push from '' @ packaging_status_debug (pk_status p)))
     else if pk_built_image_digest p \<noteq> Some registry_digest
     then Inl (Rel_IntegrityConflict
            ''registry digest differs from the deterministic built digest'')
     else case set_once (pk_pushed_image_digest p) registry_digest ''pushed image digest'' of
            Inl e \<Rightarrow> Inl e
          | Inr d \<Rightarrow>
              Inr (r\<lparr>wr_status := Wr_Packaged,
                    wr_runtime_image_digest := Some registry_digest,
                    wr_runtime_image_ref := Some (pk_registry_repository p @ ''/'' @ wr_id r
                       @ ''@'' @ registry_digest)\<rparr>,
                   p\<lparr>pk_pushed_image_digest := d, pk_status := Pk_Pushed\<rparr>))"

definition rel_record_pushed ::
    "release_codec \<Rightarrow> time \<Rightarrow> io_plan \<Rightarrow> string \<Rightarrow> string \<Rightarrow> release_store
      \<Rightarrow> (release_store_error + (work_release \<times> release_packaging_record)) \<times> release_store" where
  "rel_record_pushed cd now io pid registry_digest st =
    (case validate_digest registry_digest ''registry image digest'' of
       Inl e \<Rightarrow> (Inl (Rel_InvalidInput e), st)
     | Inr _ \<Rightarrow> rel_update cd now io pid (record_pushed_upd registry_digest) st)"

definition begin_scan_upd ::
    "work_release \<Rightarrow> release_packaging_record
      \<Rightarrow> release_store_error + (work_release \<times> release_packaging_record)" where
  "begin_scan_upd r p =
    (if pk_status p \<notin> {Pk_Pushed, Pk_Scanning}
     then Inl (Rel_InvalidTransition
            (''cannot begin scan from '' @ packaging_status_debug (pk_status p)))
     else Inr (r, p\<lparr>pk_status := Pk_Scanning\<rparr>))"

definition rel_begin_scan ::
    "release_codec \<Rightarrow> time \<Rightarrow> io_plan \<Rightarrow> string \<Rightarrow> release_store
      \<Rightarrow> (release_store_error + release_packaging_record) \<times> release_store" where
  "rel_begin_scan cd now io pid st =
    apfst (map_sum id snd) (rel_update cd now io pid begin_scan_upd st)"

definition record_scan_upd ::
    "string \<Rightarrow> string \<Rightarrow> packaging_scan_evidence \<Rightarrow> work_release \<Rightarrow> release_packaging_record
      \<Rightarrow> release_store_error + (work_release \<times> release_packaging_record)" where
  "record_scan_upd sbom_digest provenance_digest evidence r p =
    (if pk_status p \<noteq> Pk_Scanning
     then Inl (Rel_InvalidTransition
            (''cannot record scan from '' @ packaging_status_debug (pk_status p)))
     else if sc_policy_version evidence \<noteq> pk_scan_policy_version p
     then Inl (Rel_IntegrityConflict
            ''scan evidence policy version differs from packaging policy'')
     else let p1 = p\<lparr>pk_sbom_digest := Some sbom_digest,
                    pk_provenance_digest := Some provenance_digest,
                    pk_scan_evidence := Some evidence\<rparr>
          in if sc_passed evidence
             then Inr (r, p1\<lparr>pk_status := Pk_Signing, pk_last_error := None\<rparr>)
             else Inr (r\<lparr>wr_status := Wr_Failed\<rparr>,
                       p1\<lparr>pk_status := Pk_Failed,
                          pk_last_error := Some ''release scan policy rejected image''\<rparr>))"

definition rel_record_scan ::
    "release_codec \<Rightarrow> time \<Rightarrow> io_plan \<Rightarrow> string \<Rightarrow> string \<Rightarrow> string \<Rightarrow> packaging_scan_evidence
      \<Rightarrow> release_store
      \<Rightarrow> (release_store_error + (work_release \<times> release_packaging_record)) \<times> release_store" where
  "rel_record_scan cd now io pid sbom_digest provenance_digest evidence st =
    (case validate_digest sbom_digest ''SBOM digest'' of
       Inl e \<Rightarrow> (Inl (Rel_InvalidInput e), st)
     | Inr _ \<Rightarrow>
    (case validate_digest provenance_digest ''provenance digest'' of
       Inl e \<Rightarrow> (Inl (Rel_InvalidInput e), st)
     | Inr _ \<Rightarrow>
    (case validate_digest (sc_report_digest evidence) ''scan report digest'' of
       Inl e \<Rightarrow> (Inl (Rel_InvalidInput e), st)
     | Inr _ \<Rightarrow>
       rel_update cd now io pid (record_scan_upd sbom_digest provenance_digest evidence) st)))"

definition record_signature_upd ::
    "string \<Rightarrow> string \<Rightarrow> work_release \<Rightarrow> release_packaging_record
      \<Rightarrow> release_store_error + (work_release \<times> release_packaging_record)" where
  "record_signature_upd signature_identity signature_digest r p =
    (if pk_status p = Pk_Validated
     then (if pk_signature_identity p = Some signature_identity
              \<and> pk_signature_digest p = Some signature_digest
           then Inr (r, p)
           else Inl (Rel_IntegrityConflict ''validated release signature cannot change''))
     else if pk_status p \<noteq> Pk_Signing
             \<or> \<not> (case pk_scan_evidence p of None \<Rightarrow> False | Some ev \<Rightarrow> sc_passed ev)
             \<or> pk_pushed_image_digest p = None
             \<or> pk_sbom_digest p = None
             \<or> pk_provenance_digest p = None
     then Inl (Rel_InvalidTransition
            ''scan, SBOM, provenance, and push evidence are required before signing'')
     else Inr (r\<lparr>wr_status := Wr_Validated\<rparr>,
               p\<lparr>pk_signature_identity := Some signature_identity,
                 pk_signature_digest := Some signature_digest,
                 pk_status := Pk_Validated, pk_last_error := None\<rparr>))"

definition rel_record_signature ::
    "release_codec \<Rightarrow> time \<Rightarrow> io_plan \<Rightarrow> string \<Rightarrow> string \<Rightarrow> string \<Rightarrow> release_store
      \<Rightarrow> (release_store_error + (work_release \<times> release_packaging_record)) \<times> release_store" where
  "rel_record_signature cd now io pid signature_identity signature_digest st =
    (if is_blank signature_identity
     then (Inl (Rel_InvalidInput ''signature identity must not be empty''), st)
     else case validate_digest signature_digest ''signature digest'' of
            Inl e \<Rightarrow> (Inl (Rel_InvalidInput e), st)
          | Inr _ \<Rightarrow>
              rel_update cd now io pid (record_signature_upd signature_identity signature_digest) st)"

definition mark_reconcile_required_upd ::
    "string \<Rightarrow> work_release \<Rightarrow> release_packaging_record
      \<Rightarrow> release_store_error + (work_release \<times> release_packaging_record)" where
  "mark_reconcile_required_upd error r p =
    (if pk_status p = Pk_Validated
     then Inl (Rel_InvalidTransition ''validated packaging cannot require reconciliation'')
     else Inr (r, p\<lparr>pk_status := Pk_ReconcileRequired, pk_last_error := Some error\<rparr>))"

definition rel_mark_reconcile_required ::
    "release_codec \<Rightarrow> time \<Rightarrow> io_plan \<Rightarrow> string \<Rightarrow> string \<Rightarrow> release_store
      \<Rightarrow> (release_store_error + release_packaging_record) \<times> release_store" where
  "rel_mark_reconcile_required cd now io pid error st =
    apfst (map_sum id snd) (rel_update cd now io pid (mark_reconcile_required_upd error) st)"

definition mark_garbage_collectable_upd ::
    "string \<Rightarrow> work_release \<Rightarrow> release_packaging_record
      \<Rightarrow> release_store_error + (work_release \<times> release_packaging_record)" where
  "mark_garbage_collectable_upd expected r p =
    (if wr_status r = Wr_GarbageCollectable \<and> pk_pushed_image_digest p = Some expected
     then Inr (r, p)
     else if wr_status r \<noteq> Wr_Failed \<or> pk_status p \<noteq> Pk_Failed
             \<or> pk_pushed_image_digest p \<noteq> Some expected
     then Inl (Rel_InvalidTransition
            ''only a failed, digest-matched release may become garbage collectable'')
     else Inr (r\<lparr>wr_status := Wr_GarbageCollectable\<rparr>, p))"

definition rel_mark_failed_garbage_collectable ::
    "release_codec \<Rightarrow> time \<Rightarrow> io_plan \<Rightarrow> string \<Rightarrow> string \<Rightarrow> release_store
      \<Rightarrow> (release_store_error + (work_release \<times> release_packaging_record)) \<times> release_store" where
  "rel_mark_failed_garbage_collectable cd now io pid expected st =
    (case validate_digest expected ''garbage collection image digest'' of
       Inl e \<Rightarrow> (Inl (Rel_InvalidInput e), st)
     | Inr _ \<Rightarrow> rel_update cd now io pid (mark_garbage_collectable_upd expected) st)"

definition record_garbage_collected_upd ::
    "string \<Rightarrow> work_release \<Rightarrow> release_packaging_record
      \<Rightarrow> release_store_error + (work_release \<times> release_packaging_record)" where
  "record_garbage_collected_upd expected r p =
    (if wr_status r = Wr_GarbageCollected \<and> pk_pushed_image_digest p = Some expected
     then Inr (r, p)
     else if wr_status r \<noteq> Wr_GarbageCollectable \<or> pk_status p \<noteq> Pk_Failed
             \<or> pk_pushed_image_digest p \<noteq> Some expected
     then Inl (Rel_InvalidTransition
            ''garbage collection completion requires a failed authorized digest'')
     else Inr (r\<lparr>wr_status := Wr_GarbageCollected\<rparr>, p))"

definition rel_record_garbage_collected ::
    "release_codec \<Rightarrow> time \<Rightarrow> io_plan \<Rightarrow> string \<Rightarrow> string \<Rightarrow> release_store
      \<Rightarrow> (release_store_error + (work_release \<times> release_packaging_record)) \<times> release_store" where
  "rel_record_garbage_collected cd now io pid expected st =
    (case validate_digest expected ''garbage collection image digest'' of
       Inl e \<Rightarrow> (Inl (Rel_InvalidInput e), st)
     | Inr _ \<Rightarrow> rel_update cd now io pid (record_garbage_collected_upd expected) st)"

section \<open>Queries\<close>

definition rel_release :: "release_store \<Rightarrow> string \<Rightarrow> work_release option" where
  "rel_release st rid = bt_get (rs_releases (rel_mem st)) rid"

definition rel_releases_for_project :: "release_store \<Rightarrow> string \<Rightarrow> work_release list" where
  "rel_releases_for_project st project =
    filter (\<lambda>r. wr_project_id r = project) (bt_values (rs_releases (rel_mem st)))"

definition rel_packaging :: "release_store \<Rightarrow> string \<Rightarrow> release_packaging_record option" where
  "rel_packaging st pid = bt_get (rs_packagings (rel_mem st)) pid"

definition rel_packaging_for_release :: "release_store \<Rightarrow> string \<Rightarrow> release_packaging_record option" where
  "rel_packaging_for_release st rid =
    bt_find (\<lambda>p. pk_release_id p = rid) (rs_packagings (rel_mem st))"

definition rel_recoverable_packagings :: "release_store \<Rightarrow> release_packaging_record list" where
  "rel_recoverable_packagings st =
    filter (\<lambda>p. pk_status p \<notin> {Pk_Validated, Pk_Failed}) (bt_values (rs_packagings (rel_mem st)))"

end
