(* ===== verification/ReleaseInvariants.thy ===== *)
theory ReleaseInvariants
  imports ReleaseStore
begin

text \<open>
  The step relation of the release store, the invariant that ties a release to its packaging record,
  and the lemmas that every operation keeps it. All operations but \<open>prepare\<close> are \<open>update\<close> with one
  of the closures collected in \<open>upd_fn\<close>, so each fact is proved once per closure and lifted.
\<close>

section \<open>Steps\<close>

text \<open>
  Record identifiers are the first 32 of the 64 hex digits of the idempotency key. That no two keys
  in use share them is collision resistance of SHA-256, a hypothesis on the step that adds a key.
\<close>

definition fresh_prefix :: "release_state \<Rightarrow> string \<Rightarrow> bool" where
  "fresh_prefix s key \<longleftrightarrow>
     (\<forall>k pid. bt_get (rs_packaging_by_key s) k = Some pid \<longrightarrow> take 32 k = take 32 key \<longrightarrow> k = key)"

inductive upd_fn ::
    "(work_release \<Rightarrow> release_packaging_record
       \<Rightarrow> release_store_error + (work_release \<times> release_packaging_record)) \<Rightarrow> bool" where
  upd_begin_build: "upd_fn begin_build_upd"
| upd_record_built: "valid_digest d \<Longrightarrow> upd_fn (record_built_upd d)"
| upd_record_pushed: "valid_digest d \<Longrightarrow> upd_fn (record_pushed_upd d)"
| upd_begin_scan: "upd_fn begin_scan_upd"
| upd_record_scan: "valid_digest sb \<Longrightarrow> valid_digest pv \<Longrightarrow> valid_digest (sc_report_digest ev)
    \<Longrightarrow> upd_fn (record_scan_upd sb pv ev)"
| upd_record_signature: "\<not> is_blank who \<Longrightarrow> valid_digest d \<Longrightarrow> upd_fn (record_signature_upd who d)"
| upd_reconcile: "upd_fn (mark_reconcile_required_upd e)"
| upd_gc_mark: "valid_digest d \<Longrightarrow> upd_fn (mark_garbage_collectable_upd d)"
| upd_gc_done: "valid_digest d \<Longrightarrow> upd_fn (record_garbage_collected_upd d)"

inductive rel_step :: "digest \<Rightarrow> release_codec \<Rightarrow> release_store \<Rightarrow> release_store \<Rightarrow> bool"
  for D cd where
  step_prepare: "fresh_prefix (rel_mem st) (packaging_idempotency_key D i)
    \<Longrightarrow> rel_step D cd st (snd (rel_prepare D cd now io i st))"
| step_begin_build: "rel_step D cd st (snd (rel_begin_build cd now io pid st))"
| step_record_built: "rel_step D cd st (snd (rel_record_built cd now io pid d st))"
| step_record_pushed: "rel_step D cd st (snd (rel_record_pushed cd now io pid d st))"
| step_begin_scan: "rel_step D cd st (snd (rel_begin_scan cd now io pid st))"
| step_record_scan: "rel_step D cd st (snd (rel_record_scan cd now io pid sb pv ev st))"
| step_record_signature: "rel_step D cd st (snd (rel_record_signature cd now io pid who d st))"
| step_reconcile: "rel_step D cd st (snd (rel_mark_reconcile_required cd now io pid e st))"
| step_gc_mark: "rel_step D cd st (snd (rel_mark_failed_garbage_collectable cd now io pid d st))"
| step_gc_done: "rel_step D cd st (snd (rel_record_garbage_collected cd now io pid d st))"

text \<open>Stores reachable from an empty directory.\<close>

inductive rel_reach :: "digest \<Rightarrow> release_codec \<Rightarrow> release_store \<Rightarrow> bool" for D cd where
  reach_open: "rel_reach D cd \<lparr>rel_files = no_files, rel_mem = release_state_default, rel_mirrored = m\<rparr>"
| reach_step: "rel_reach D cd st \<Longrightarrow> rel_step D cd st st' \<Longrightarrow> rel_reach D cd st'"

lemma rel_step_cases:
  assumes "rel_step D cd st st'"
  obtains (same) "st' = st"
  | (update) now io pid f where "upd_fn f" "st' = snd (rel_update cd now io pid f st)"
  | (prepare) now io i where "fresh_prefix (rel_mem st) (packaging_idempotency_key D i)"
      "st' = snd (rel_prepare D cd now io i st)"
  using assms
proof cases
  case (step_prepare i now io)
  then show thesis using prepare by blast
next
  case step_begin_build
  then show thesis using update [OF upd_begin_build] by (simp add: rel_begin_build_def)
next
  case (step_record_built now io pid d)
  then show thesis using same update [OF upd_record_built [of d]]
    by (auto simp: rel_record_built_def validate_digest_iff split: sum.splits)
next
  case (step_record_pushed now io pid d)
  then show thesis using same update [OF upd_record_pushed [of d]]
    by (auto simp: rel_record_pushed_def validate_digest_iff split: sum.splits)
next
  case step_begin_scan
  then show thesis using update [OF upd_begin_scan] by (simp add: rel_begin_scan_def)
next
  case (step_record_scan now io pid sb pv ev)
  then show thesis using same update [OF upd_record_scan [of sb pv ev]]
    by (auto simp: rel_record_scan_def validate_digest_iff split: sum.splits)
next
  case (step_record_signature now io pid who d)
  then show thesis using same update [OF upd_record_signature [of who d]]
    by (auto simp: rel_record_signature_def validate_digest_iff split: sum.splits if_splits)
next
  case (step_reconcile now io pid e)
  then show thesis using update [OF upd_reconcile [of e]]
    by (simp add: rel_mark_reconcile_required_def)
next
  case (step_gc_mark now io pid d)
  then show thesis using same update [OF upd_gc_mark [of d]]
    by (auto simp: rel_mark_failed_garbage_collectable_def validate_digest_iff split: sum.splits)
next
  case (step_gc_done now io pid d)
  then show thesis using same update [OF upd_gc_done [of d]]
    by (auto simp: rel_record_garbage_collected_def validate_digest_iff split: sum.splits)
qed

section \<open>What an operation does to the memory\<close>

lemma rel_append_event_mem: "rel_append_event cd oc e f = (err, f') \<Longrightarrow> err = None \<longleftrightarrow> oc = Appended"
  by (auto simp: rel_append_event_def append_bytes_def split: append_outcome.splits)

lemma rel_persist_pair_mem:
  "rel_mem (snd (rel_persist_pair cd io r p st)) = rel_mem st \<or>
   rel_apply_event (rel_mem st) \<lparr>re_sequence = sat_inc (rs_sequence (rel_mem st)), re_release = r,
     re_packaging = p\<rparr> = Inr (rel_mem (snd (rel_persist_pair cd io r p st)))"
  by (auto simp: rel_persist_pair_def Let_def split: prod.splits option.splits sum.splits)

lemma rel_persist_pair_ok:
  "fst (rel_persist_pair cd io r p st) = Inr u \<Longrightarrow>
   rel_apply_event (rel_mem st) \<lparr>re_sequence = sat_inc (rs_sequence (rel_mem st)), re_release = r,
     re_packaging = p\<rparr> = Inr (rel_mem (snd (rel_persist_pair cd io r p st)))"
  by (auto simp: rel_persist_pair_def Let_def split: prod.splits option.splits sum.splits)

lemma rel_update_mem:
  obtains (same) "rel_mem (snd (rel_update cd now io pid f st)) = rel_mem st"
  | (changed) p r r1 p1 where
      "bt_get (rs_packagings (rel_mem st)) pid = Some p"
      "bt_get (rs_releases (rel_mem st)) (pk_release_id p) = Some r"
      "f r p = Inr (r1, p1)"
      "rel_apply_event (rel_mem st) \<lparr>re_sequence = sat_inc (rs_sequence (rel_mem st)),
          re_release = r1\<lparr>wr_updated_at := now\<rparr>, re_packaging = p1\<lparr>pk_updated_at := now\<rparr>\<rparr>
        = Inr (rel_mem (snd (rel_update cd now io pid f st)))"
proof (cases "bt_get (rs_packagings (rel_mem st)) pid")
  case None
  then show thesis using same by (simp add: rel_update_def)
next
  case p: (Some p)
  show thesis
  proof (cases "bt_get (rs_releases (rel_mem st)) (pk_release_id p)")
    case None
    then show thesis using same p by (simp add: rel_update_def)
  next
    case r: (Some r)
    show thesis
    proof (cases "f r p")
      case (Inl e)
      then show thesis using same p r by (simp add: rel_update_def)
    next
      case (Inr q)
      obtain r1 p1 where q: "f r p = Inr (r1, p1)" using Inr by (cases q) simp
      let ?P = "rel_persist_pair cd io (r1\<lparr>wr_updated_at := now\<rparr>) (p1\<lparr>pk_updated_at := now\<rparr>) st"
      have "snd (rel_update cd now io pid f st) = snd ?P"
        using p r q by (auto simp: rel_update_def Let_def split: prod.splits sum.splits)
      then show thesis using same changed [OF p r q] rel_persist_pair_mem
        by (metis (no_types, lifting))
    qed
  qed
qed

section \<open>The invariant\<close>

definition wr_ident where
  "wr_ident r = (wr_id r, wr_project_id r, wr_version_id r, wr_run_id r, wr_template_id r,
     wr_template_version r, wr_artifact_manifest_hash r, wr_runtime_manifest_hash r,
     wr_source_snapshot_uri r, wr_runtime_profile_id r)"

definition pk_ident where
  "pk_ident p = (pk_id p, pk_idempotency_key p, pk_project_id p, pk_release_id p,
     pk_artifact_manifest_hash p, pk_runtime_manifest_hash p, pk_base_image_digest p,
     pk_packager_version p, pk_registry_repository p, pk_scan_policy_version p)"

definition scan_passed :: "release_packaging_record \<Rightarrow> bool" where
  "scan_passed p \<longleftrightarrow> (\<exists>ev. pk_scan_evidence p = Some ev \<and> sc_passed ev)"

definition image_ref :: "release_packaging_record \<Rightarrow> string \<Rightarrow> string" where
  "image_ref p d = pk_registry_repository p @ ''/'' @ pk_release_id p @ ''@'' @ d"

definition link_inv :: "work_release \<Rightarrow> release_packaging_record \<Rightarrow> bool" where
  "link_inv r p \<longleftrightarrow>
     wr_id r = pk_release_id p \<and> wr_project_id r = pk_project_id p \<and>
     wr_runtime_image_digest r = pk_pushed_image_digest p \<and>
     wr_runtime_image_ref r = map_option (image_ref p) (pk_pushed_image_digest p)"

definition image_inv :: "release_packaging_record \<Rightarrow> bool" where
  "image_inv p \<longleftrightarrow>
     (\<forall>d. pk_built_image_digest p = Some d \<longrightarrow> valid_digest d) \<and>
     (pk_pushed_image_digest p = None \<or> pk_pushed_image_digest p = pk_built_image_digest p)"

definition scan_inv :: "release_packaging_record \<Rightarrow> bool" where
  "scan_inv p \<longleftrightarrow>
     (pk_scan_evidence p = None \<longrightarrow> pk_provenance_digest p = None \<and> pk_sbom_digest p = None) \<and>
     (\<forall>ev. pk_scan_evidence p = Some ev \<longrightarrow>
         pk_provenance_digest p \<noteq> None \<and> pk_sbom_digest p \<noteq> None \<and>
         pk_pushed_image_digest p \<noteq> None \<and> sc_policy_version ev = pk_scan_policy_version p)"

text \<open>What each packaging status says of the release and of the evidence.\<close>

definition status_inv :: "work_release \<Rightarrow> release_packaging_record \<Rightarrow> bool" where
  "status_inv r p \<longleftrightarrow>
     (wr_status r \<in> {Wr_Failed, Wr_GarbageCollectable, Wr_GarbageCollected} \<longrightarrow>
        pk_scan_evidence p \<noteq> None \<and> \<not> scan_passed p) \<and>
     (case pk_status p of
        Pk_Prepared \<Rightarrow> wr_status r = Wr_Packaging
      | Pk_Building \<Rightarrow> wr_status r = Wr_Packaging
      | Pk_Pushed \<Rightarrow> wr_status r = Wr_Packaged \<and> pk_pushed_image_digest p \<noteq> None
      | Pk_Scanning \<Rightarrow> wr_status r = Wr_Packaged \<and> pk_pushed_image_digest p \<noteq> None
      | Pk_Signing \<Rightarrow> wr_status r = Wr_Packaged \<and> pk_pushed_image_digest p \<noteq> None \<and> scan_passed p
      | Pk_Validated \<Rightarrow> wr_status r = Wr_Validated \<and> pk_pushed_image_digest p \<noteq> None \<and>
          scan_passed p \<and> pk_signature_identity p \<noteq> None \<and> pk_signature_digest p \<noteq> None
      | Pk_Failed \<Rightarrow> wr_status r \<in> {Wr_Failed, Wr_GarbageCollectable, Wr_GarbageCollected}
      | Pk_ReconcileRequired \<Rightarrow> wr_status r \<noteq> Wr_Validated)"

definition pair_inv :: "work_release \<Rightarrow> release_packaging_record \<Rightarrow> bool" where
  "pair_inv r p \<longleftrightarrow> link_inv r p \<and> image_inv p \<and> scan_inv p \<and> status_inv r p"

text \<open>Fields the parts of the invariant do not read.\<close>

lemma scan_passed_simps [simp]:
  "scan_passed (p\<lparr>pk_status := x\<rparr>) = scan_passed p"
  "scan_passed (p\<lparr>pk_attempts := n\<rparr>) = scan_passed p"
  "scan_passed (p\<lparr>pk_last_error := e\<rparr>) = scan_passed p"
  "scan_passed (p\<lparr>pk_updated_at := t\<rparr>) = scan_passed p"
  "scan_passed (p\<lparr>pk_built_image_digest := d\<rparr>) = scan_passed p"
  "scan_passed (p\<lparr>pk_pushed_image_digest := d\<rparr>) = scan_passed p"
  "scan_passed (p\<lparr>pk_sbom_digest := d\<rparr>) = scan_passed p"
  "scan_passed (p\<lparr>pk_provenance_digest := d\<rparr>) = scan_passed p"
  "scan_passed (p\<lparr>pk_signature_identity := d\<rparr>) = scan_passed p"
  "scan_passed (p\<lparr>pk_signature_digest := d\<rparr>) = scan_passed p"
  "scan_passed (p\<lparr>pk_scan_evidence := Some ev\<rparr>) = sc_passed ev"
  by (simp_all add: scan_passed_def)

lemma image_ref_simps [simp]:
  "image_ref (p\<lparr>pk_status := x\<rparr>) = image_ref p"
  "image_ref (p\<lparr>pk_attempts := n\<rparr>) = image_ref p"
  "image_ref (p\<lparr>pk_last_error := e\<rparr>) = image_ref p"
  "image_ref (p\<lparr>pk_updated_at := t\<rparr>) = image_ref p"
  "image_ref (p\<lparr>pk_built_image_digest := d\<rparr>) = image_ref p"
  "image_ref (p\<lparr>pk_pushed_image_digest := d\<rparr>) = image_ref p"
  "image_ref (p\<lparr>pk_sbom_digest := d\<rparr>) = image_ref p"
  "image_ref (p\<lparr>pk_provenance_digest := d\<rparr>) = image_ref p"
  "image_ref (p\<lparr>pk_signature_identity := d\<rparr>) = image_ref p"
  "image_ref (p\<lparr>pk_signature_digest := d\<rparr>) = image_ref p"
  "image_ref (p\<lparr>pk_scan_evidence := v\<rparr>) = image_ref p"
  by (simp_all add: image_ref_def fun_eq_iff)

lemma scan_passed_case:
  "(case pk_scan_evidence p of None \<Rightarrow> False | Some ev \<Rightarrow> sc_passed ev) = scan_passed p"
  by (simp add: scan_passed_def split: option.split)

lemma scan_passed_image: "scan_inv p \<Longrightarrow> scan_passed p \<Longrightarrow> pk_pushed_image_digest p \<noteq> None"
  by (auto simp: scan_inv_def scan_passed_def)

lemma begin_build_updE:
  assumes "begin_build_upd r p = Inr (r', p')"
  obtains (again) "pk_status p = Pk_Building" "r' = r" "p' = p"
  | (start) "pk_status p \<in> {Pk_Prepared, Pk_Failed}" "r' = r\<lparr>wr_status := Wr_Packaging\<rparr>"
      "p' = p\<lparr>pk_status := Pk_Building, pk_attempts := sat_inc (pk_attempts p), pk_last_error := None\<rparr>"
  | (sign) "pk_status p = Pk_ReconcileRequired" "scan_passed p" "pk_provenance_digest p \<noteq> None"
      "r' = r\<lparr>wr_status := (if pk_pushed_image_digest p \<noteq> None then Wr_Packaged else Wr_Packaging)\<rparr>"
      "p' = p\<lparr>pk_status := Pk_Signing, pk_last_error := None\<rparr>"
  | (scan) "pk_status p = Pk_ReconcileRequired" "\<not> (scan_passed p \<and> pk_provenance_digest p \<noteq> None)"
      "pk_pushed_image_digest p \<noteq> None" "r' = r\<lparr>wr_status := Wr_Packaged\<rparr>"
      "p' = p\<lparr>pk_status := Pk_Pushed, pk_last_error := None\<rparr>"
  | (rebuild) "pk_status p = Pk_ReconcileRequired" "\<not> (scan_passed p \<and> pk_provenance_digest p \<noteq> None)"
      "pk_pushed_image_digest p = None" "r' = r\<lparr>wr_status := Wr_Packaging\<rparr>"
      "p' = p\<lparr>pk_attempts := sat_inc (pk_attempts p), pk_status := Pk_Building, pk_last_error := None\<rparr>"
proof -
  show thesis
    using assms unfolding begin_build_upd_def scan_passed_case Let_def
    by (cases "pk_status p"; simp split: if_splits)
      (auto intro: again start sign scan rebuild)
qed

lemmas part_defs = link_inv_def image_inv_def scan_inv_def

lemma upd_fn_parts:
  assumes "upd_fn f" "f r p = Inr (r', p')" "link_inv r p" "image_inv p" "scan_inv p" "status_inv r p"
  shows "link_inv r' p' \<and> image_inv p' \<and> scan_inv p'"
  using assms(1)
proof cases
  case upd_begin_build
  with assms(2) have "begin_build_upd r p = Inr (r', p')" by simp
  then show ?thesis using assms(3-5)
    by (cases rule: begin_build_updE) (auto simp: part_defs)
next
  case (upd_record_built d)
  with assms(2-5) show ?thesis
    by (cases "pk_built_image_digest p")
      (auto simp: record_built_upd_def set_once_def part_defs split: if_splits)
next
  case (upd_record_pushed d)
  with assms(2-5) show ?thesis
    by (cases "pk_pushed_image_digest p"; cases "pk_scan_evidence p")
      (auto simp: record_pushed_upd_def set_once_def part_defs image_ref_def split: if_splits)
next
  case upd_begin_scan
  with assms(2-5) show ?thesis by (auto simp: begin_scan_upd_def part_defs split: if_splits)
next
  case (upd_record_scan sb pv ev)
  with assms(2-6) show ?thesis
    by (cases "pk_built_image_digest p")
      (auto simp: record_scan_upd_def Let_def part_defs status_inv_def split: if_splits)
next
  case (upd_record_signature who d)
  with assms(2-5) show ?thesis
    by (auto simp: record_signature_upd_def part_defs split: if_splits)
next
  case (upd_reconcile e)
  with assms(2-5) show ?thesis
    by (auto simp: mark_reconcile_required_upd_def part_defs split: if_splits)
next
  case (upd_gc_mark d)
  with assms(2-5) show ?thesis
    by (auto simp: mark_garbage_collectable_upd_def part_defs split: if_splits)
next
  case (upd_gc_done d)
  with assms(2-5) show ?thesis
    by (auto simp: record_garbage_collected_upd_def part_defs split: if_splits)
qed

lemma upd_fn_status:
  assumes "upd_fn f" "f r p = Inr (r', p')" "scan_inv p" "status_inv r p"
  shows "status_inv r' p'"
  using assms(1)
proof cases
  case upd_begin_build
  with assms(2) have "begin_build_upd r p = Inr (r', p')" by simp
  then show ?thesis using assms(3,4) scan_passed_image [OF assms(3)]
    by (cases rule: begin_build_updE) (auto simp: status_inv_def)
next
  case (upd_record_built d)
  with assms(2,4) show ?thesis
    by (cases "pk_built_image_digest p")
      (auto simp: record_built_upd_def set_once_def status_inv_def split: if_splits)
next
  case (upd_record_pushed d)
  with assms(2,4) show ?thesis
    by (cases "pk_pushed_image_digest p")
      (auto simp: record_pushed_upd_def set_once_def status_inv_def split: if_splits)
next
  case upd_begin_scan
  with assms(2,4) show ?thesis by (auto simp: begin_scan_upd_def status_inv_def split: if_splits)
next
  case (upd_record_scan sb pv ev)
  with assms(2,4) show ?thesis
    by (auto simp: record_scan_upd_def Let_def status_inv_def split: if_splits)
next
  case (upd_record_signature who d)
  with assms(2,4) show ?thesis
    by (auto simp: record_signature_upd_def scan_passed_case status_inv_def split: if_splits)
next
  case (upd_reconcile e)
  with assms(2,4) show ?thesis
    by (cases "pk_status p") (auto simp: mark_reconcile_required_upd_def status_inv_def split: if_splits)
next
  case (upd_gc_mark d)
  with assms(2,4) show ?thesis
    by (auto simp: mark_garbage_collectable_upd_def status_inv_def split: if_splits)
next
  case (upd_gc_done d)
  with assms(2,4) show ?thesis
    by (auto simp: record_garbage_collected_upd_def status_inv_def split: if_splits)
qed

lemma upd_fn_pair_inv: "upd_fn f \<Longrightarrow> pair_inv r p \<Longrightarrow> f r p = Inr (r', p') \<Longrightarrow> pair_inv r' p'"
  using upd_fn_parts upd_fn_status unfolding pair_inv_def by blast

end
