(* ===== verification/ReleaseSafety.thy ===== *)
theory ReleaseSafety
  imports ReleaseInvariants
begin

text \<open>
  The invariant of the whole release store over every reachable state, whatever file effects fail,
  and the properties of releases that follow from it: a validated release has all its evidence and
  never changes again, digests are written once, and preparing the same input twice is idempotent.
\<close>

section \<open>Provenance never changes\<close>

lemma upd_fn_ident:
  assumes "upd_fn f" "f r p = Inr (r', p')"
  shows "wr_ident r' = wr_ident r \<and> pk_ident p' = pk_ident p"
  using assms(1)
proof cases
  case upd_begin_build
  with assms(2) have "begin_build_upd r p = Inr (r', p')" by simp
  then show ?thesis
    by (cases rule: begin_build_updE) (simp_all add: wr_ident_def pk_ident_def)
qed (use assms(2) in \<open>auto simp: record_built_upd_def record_pushed_upd_def begin_scan_upd_def
       record_scan_upd_def record_signature_upd_def mark_reconcile_required_upd_def
       mark_garbage_collectable_upd_def record_garbage_collected_upd_def Let_def
       wr_ident_def pk_ident_def split: if_splits sum.splits\<close>)

lemma ident_touch [simp]:
  "wr_ident (r\<lparr>wr_updated_at := t\<rparr>) = wr_ident r"
  "pk_ident (p\<lparr>pk_updated_at := t\<rparr>) = pk_ident p"
  by (simp_all add: wr_ident_def pk_ident_def)

lemma ident_fields:
  "pk_ident p' = pk_ident p \<Longrightarrow> pk_id p' = pk_id p \<and> pk_idempotency_key p' = pk_idempotency_key p
     \<and> pk_release_id p' = pk_release_id p \<and> pk_project_id p' = pk_project_id p"
  "wr_ident r' = wr_ident r \<Longrightarrow> wr_id r' = wr_id r \<and> wr_project_id r' = wr_project_id r"
  by (simp_all add: pk_ident_def wr_ident_def)

lemma pair_inv_touch [simp]:
  "pair_inv (r\<lparr>wr_updated_at := t\<rparr>) (p\<lparr>pk_updated_at := u\<rparr>) = pair_inv r p"
proof -
  have "link_inv (r\<lparr>wr_updated_at := t\<rparr>) (p\<lparr>pk_updated_at := u\<rparr>) = link_inv r p"
    by (simp add: link_inv_def)
  moreover have "image_inv (p\<lparr>pk_updated_at := u\<rparr>) = image_inv p" by (simp add: image_inv_def)
  moreover have "scan_inv (p\<lparr>pk_updated_at := u\<rparr>) = scan_inv p" by (simp add: scan_inv_def)
  moreover have "status_inv (r\<lparr>wr_updated_at := t\<rparr>) (p\<lparr>pk_updated_at := u\<rparr>) = status_inv r p"
    by (cases "pk_status p") (simp_all add: status_inv_def)
  ultimately show ?thesis by (simp add: pair_inv_def)
qed

lemma fresh_pair_inv:
  "pair_inv (release_packaging_of i key now)
     (packaging_record_prepared i (wr_id (release_packaging_of i key now)) key now)"
  by (simp add: pair_inv_def link_inv_def image_inv_def scan_inv_def status_inv_def scan_passed_def
      release_packaging_of_def packaging_record_prepared_def)

section \<open>The store invariant\<close>

definition packaging_ok :: "release_state \<Rightarrow> string \<Rightarrow> release_packaging_record \<Rightarrow> bool" where
  "packaging_ok s pid p \<longleftrightarrow>
     pk_id p = pid \<and> pid = packaging_id_of (pk_idempotency_key p) \<and>
     pk_release_id p = release_id_of (pk_idempotency_key p) \<and>
     bt_get (rs_packaging_by_key s) (pk_idempotency_key p) = Some pid \<and>
     (\<exists>r. bt_get (rs_releases s) (pk_release_id p) = Some r \<and> pair_inv r p)"

definition rel_inv :: "release_state \<Rightarrow> bool" where
  "rel_inv s \<longleftrightarrow>
     bt_wf (rs_releases s) \<and> bt_wf (rs_packagings s) \<and> bt_wf (rs_packaging_by_key s) \<and>
     (\<forall>pid p. bt_get (rs_packagings s) pid = Some p \<longrightarrow> packaging_ok s pid p) \<and>
     (\<forall>k pid. bt_get (rs_packaging_by_key s) k = Some pid \<longrightarrow>
        (\<exists>p. bt_get (rs_packagings s) pid = Some p \<and> pk_idempotency_key p = k)) \<and>
     (\<forall>rid r. bt_get (rs_releases s) rid = Some r \<longrightarrow>
        wr_id r = rid \<and> (\<exists>pid p. bt_get (rs_packagings s) pid = Some p \<and> pk_release_id p = rid))"

lemma rel_inv_default: "rel_inv release_state_default"
  by (simp add: rel_inv_def release_state_default_def)

lemma rel_invD:
  assumes "rel_inv s"
  shows "bt_wf (rs_releases s)" "bt_wf (rs_packagings s)" "bt_wf (rs_packaging_by_key s)"
    "bt_get (rs_packagings s) pid = Some p \<Longrightarrow> packaging_ok s pid p"
    "bt_get (rs_packaging_by_key s) k = Some pid \<Longrightarrow>
        \<exists>p. bt_get (rs_packagings s) pid = Some p \<and> pk_idempotency_key p = k"
    "bt_get (rs_releases s) rid = Some r \<Longrightarrow> wr_id r = rid"
    "bt_get (rs_releases s) rid = Some r \<Longrightarrow>
        \<exists>pid p. bt_get (rs_packagings s) pid = Some p \<and> pk_release_id p = rid"
  using assms unfolding rel_inv_def by blast+

lemma rel_inv_pair:
  assumes "rel_inv s" "bt_get (rs_packagings s) pid = Some p"
    and "bt_get (rs_releases s) (pk_release_id p) = Some r"
  shows "pair_inv r p"
  using rel_invD(4) [OF assms(1,2)] assms(3) by (auto simp: packaging_ok_def)

lemma rel_inv_key_pid:
  assumes "rel_inv s" "bt_get (rs_packaging_by_key s) k = Some pid"
  shows "pid = packaging_id_of k"
proof -
  obtain p where p: "bt_get (rs_packagings s) pid = Some p" "pk_idempotency_key p = k"
    using rel_invD(5) [OF assms] by blast
  show ?thesis using rel_invD(4) [OF assms(1) p(1)] p(2) by (simp add: packaging_ok_def)
qed

text \<open>Packagings of the same release are the same packaging.\<close>

lemma release_id_inj:
  assumes "rel_inv s" "bt_get (rs_packagings s) a = Some p" "bt_get (rs_packagings s) b = Some q"
    and "pk_release_id p = pk_release_id q"
  shows "a = b"
  using rel_invD(4) [OF assms(1,2)] rel_invD(4) [OF assms(1,3)] assms(4)
  by (simp add: packaging_ok_def)

lemma rel_apply_get:
  assumes "rel_apply_event s e = Inr s'"
  shows "bt_get (rs_packagings s') j =
      (if j = pk_id (re_packaging e) then Some (re_packaging e) else bt_get (rs_packagings s) j)"
    "bt_get (rs_releases s') j =
      (if j = wr_id (re_release e) then Some (re_release e) else bt_get (rs_releases s) j)"
    "bt_get (rs_packaging_by_key s') j =
      (if j = pk_idempotency_key (re_packaging e) then Some (pk_id (re_packaging e))
       else bt_get (rs_packaging_by_key s) j)"
    "rs_sequence s' = re_sequence e"
  using assms by (auto simp: rel_apply_event_def split: if_splits)

text \<open>Storing a pair under its own identifiers.\<close>

lemma rel_inv_store:
  assumes inv: "rel_inv s" and app: "rel_apply_event s e = Inr s'"
    and e: "re_release e = r" "re_packaging e = p"
    and pair: "pair_inv r p"
    and ids: "pk_id p = packaging_id_of (pk_idempotency_key p)"
      "pk_release_id p = release_id_of (pk_idempotency_key p)"
    and fresh: "\<And>k pid. bt_get (rs_packaging_by_key s) k = Some pid \<Longrightarrow>
      take 32 k = take 32 (pk_idempotency_key p) \<Longrightarrow> k = pk_idempotency_key p"
  shows "rel_inv s'"
proof -
  let ?k = "pk_idempotency_key p"
  have s': "s' = s\<lparr>rs_sequence := re_sequence e,
      rs_packaging_by_key := bt_insert ?k (pk_id p) (rs_packaging_by_key s),
      rs_releases := bt_insert (wr_id r) r (rs_releases s),
      rs_packagings := bt_insert (pk_id p) p (rs_packagings s)\<rparr>"
    and link: "wr_id r = pk_release_id p"
    using app e by (auto simp: rel_apply_event_def split: if_splits)
  have other: "pk_idempotency_key q \<noteq> ?k \<and> pk_release_id q \<noteq> pk_release_id p"
    if q: "bt_get (rs_packagings s) pid = Some q" "pid \<noteq> pk_id p" for pid q
  proof -
    from rel_invD(4) [OF inv q(1)] have qo: "packaging_ok s pid q" .
    then have "take 32 (pk_idempotency_key q) \<noteq> take 32 ?k"
      using q(2) ids(1) fresh by (auto simp: packaging_ok_def)
    then show ?thesis using qo ids(2) by (auto simp: packaging_ok_def)
  qed
  have key_pid: "pid = pk_id p" if "bt_get (rs_packaging_by_key s) ?k = Some pid" for pid
    using rel_inv_key_pid [OF inv that] ids(1) by simp
  have P: "packaging_ok s' pid q" if q: "bt_get (rs_packagings s') pid = Some q" for pid q
  proof (cases "pid = pk_id p")
    case True
    then show ?thesis using q s' link ids pair by (auto simp: packaging_ok_def)
  next
    case False
    with q s' have q0: "bt_get (rs_packagings s) pid = Some q" by simp
    from rel_invD(4) [OF inv q0] other [OF q0 False] show ?thesis
      using s' link by (auto simp: packaging_ok_def)
  qed
  have K: "\<exists>q. bt_get (rs_packagings s') pid = Some q \<and> pk_idempotency_key q = k"
    if k: "bt_get (rs_packaging_by_key s') k = Some pid" for k pid
  proof (cases "k = ?k")
    case True
    then show ?thesis using k s' by auto
  next
    case False
    with k s' have "bt_get (rs_packaging_by_key s) k = Some pid" by simp
    from rel_invD(5) [OF inv this] obtain q
      where q: "bt_get (rs_packagings s) pid = Some q" "pk_idempotency_key q = k" by blast
    have "pid \<noteq> pk_id p"
    proof
      assume pid: "pid = pk_id p"
      from rel_invD(4) [OF inv q(1)] q(2) have "pid = packaging_id_of k"
        "bt_get (rs_packaging_by_key s) k = Some pid" by (auto simp: packaging_ok_def)
      with pid ids(1) fresh [of k pid] False show False by auto
    qed
    with q s' show ?thesis by auto
  qed
  have R: "wr_id x = rid \<and> (\<exists>pid q. bt_get (rs_packagings s') pid = Some q \<and> pk_release_id q = rid)"
    if x: "bt_get (rs_releases s') rid = Some x" for rid x
  proof (cases "rid = wr_id r")
    case True
    then show ?thesis using x s' link by (intro conjI exI [of _ "pk_id p"]) auto
  next
    case False
    with x s' have x0: "bt_get (rs_releases s) rid = Some x" by simp
    from rel_invD(7) [OF inv x0] obtain pid q
      where q: "bt_get (rs_packagings s) pid = Some q" "pk_release_id q = rid" by blast
    have "pid \<noteq> pk_id p"
    proof
      assume pid: "pid = pk_id p"
      have "packaging_ok s pid q" by (rule rel_invD(4) [OF inv q(1)])
      with pid ids link False q(2) show False by (auto simp: packaging_ok_def)
    qed
    with q s' rel_invD(6) [OF inv x0] show ?thesis by auto
  qed
  have "bt_wf (rs_releases s')" "bt_wf (rs_packagings s')" "bt_wf (rs_packaging_by_key s')"
    using s' rel_invD(1-3) [OF inv] by simp_all
  with P K R show ?thesis unfolding rel_inv_def by blast
qed

lemma rel_inv_update:
  assumes inv: "rel_inv (rel_mem st)" and f: "upd_fn f"
  shows "rel_inv (rel_mem (snd (rel_update cd now io pid f st)))"
proof (cases rule: rel_update_mem [where cd = cd and now = now and io = io and pid = pid
      and f = f and st = st])
  case same
  with inv show ?thesis by simp
next
  case (changed p r r1 p1)
  have id1: "wr_ident r1 = wr_ident r" "pk_ident p1 = pk_ident p"
    using upd_fn_ident [OF f changed(3)] by simp_all
  have ok: "packaging_ok (rel_mem st) pid p" by (rule rel_invD(4) [OF inv changed(1)])
  have "pair_inv r1 p1"
    using upd_fn_pair_inv [OF f rel_inv_pair [OF inv changed(1,2)] changed(3)] .
  then have pair: "pair_inv (r1\<lparr>wr_updated_at := now\<rparr>) (p1\<lparr>pk_updated_at := now\<rparr>)" by simp
  have fresh: "k = pk_idempotency_key p"
    if k: "bt_get (rs_packaging_by_key (rel_mem st)) k = Some j"
      "take 32 k = take 32 (pk_idempotency_key p)" for k j
  proof -
    obtain q where q: "bt_get (rs_packagings (rel_mem st)) j = Some q" "pk_idempotency_key q = k"
      using rel_invD(5) [OF inv k(1)] by blast
    have "j = pid"
      using rel_inv_key_pid [OF inv k(1)] k(2) ok by (simp add: packaging_ok_def)
    with q changed(1) show ?thesis by simp
  qed
  show ?thesis
    using rel_inv_store [OF inv changed(4) _ _ pair] fresh ok ident_fields(1) [OF id1(2)]
    by (auto simp: packaging_ok_def)
qed

lemma rel_prepare_mem:
  obtains (same) "rel_mem (snd (rel_prepare D cd now io i st)) = rel_mem st"
  | (stored) key r p where
      "key = packaging_idempotency_key D i" "r = release_packaging_of i key now"
      "p = packaging_record_prepared i (wr_id r) key now"
      "bt_get (rs_packaging_by_key (rel_mem st)) key = None"
      "rel_apply_event (rel_mem st) \<lparr>re_sequence = sat_inc (rs_sequence (rel_mem st)),
          re_release = r, re_packaging = p\<rparr> = Inr (rel_mem (snd (rel_prepare D cd now io i st)))"
proof -
  let ?key = "packaging_idempotency_key D i"
  let ?r = "release_packaging_of i ?key now"
  let ?p = "packaging_record_prepared i (wr_id ?r) ?key now"
  show thesis
  proof (cases "is_ok (validate_packaging_input i) \<and> bt_get (rs_packaging_by_key (rel_mem st)) ?key = None")
    case True
    then have "snd (rel_prepare D cd now io i st) = snd (rel_persist_pair cd io ?r ?p st)"
      by (auto simp: rel_prepare_def Let_def is_ok_def split: sum.splits prod.splits)
    with rel_persist_pair_mem [of cd io ?r ?p st] True same stored show thesis
      by (metis (no_types, lifting))
  next
    case False
    then show thesis
      using same by (auto simp: rel_prepare_def Let_def is_ok_def split: sum.splits option.splits)
  qed
qed

lemma fresh_record_ids [simp]:
  "pk_id (packaging_record_prepared i rid key now) = packaging_id_of key"
  "pk_release_id (packaging_record_prepared i rid key now) = rid"
  "pk_idempotency_key (packaging_record_prepared i rid key now) = key"
  "wr_id (release_packaging_of i key now) = release_id_of key"
  by (simp_all add: packaging_record_prepared_def release_packaging_of_def)

lemma rel_inv_prepare:
  assumes inv: "rel_inv (rel_mem st)"
    and fresh: "fresh_prefix (rel_mem st) (packaging_idempotency_key D i)"
  shows "rel_inv (rel_mem (snd (rel_prepare D cd now io i st)))"
proof (cases rule: rel_prepare_mem [where D = D and cd = cd and now = now and io = io and i = i
      and st = st])
  case same
  with inv show ?thesis by simp
next
  case (stored key r p)
  have "pair_inv r p" using fresh_pair_inv stored(2,3) by simp
  moreover have "pk_id p = packaging_id_of (pk_idempotency_key p)"
    "pk_release_id p = release_id_of (pk_idempotency_key p)" "pk_idempotency_key p = key"
    using stored(2,3) by simp_all
  ultimately show ?thesis
    using rel_inv_store [OF inv stored(5) _ _, of r p] fresh stored(1)
    unfolding fresh_prefix_def by simp
qed

lemma rel_inv_step: "rel_inv (rel_mem st) \<Longrightarrow> rel_step D cd st st' \<Longrightarrow> rel_inv (rel_mem st')"
  by (erule rel_step_cases) (auto intro: rel_inv_update rel_inv_prepare)

lemma rel_reach_inv: "rel_reach D cd st \<Longrightarrow> rel_inv (rel_mem st)"
  by (induction rule: rel_reach.induct) (auto intro: rel_inv_default rel_inv_step)

section \<open>How one stored pair evolves\<close>

text \<open>
  In one step a stored release and its packaging stay as they are, or one closure rewrote both and
  stamped the time. Every property of transitions is this lemma and a fact about the closures.
\<close>

definition pair_at :: "release_store \<Rightarrow> string \<Rightarrow> work_release \<Rightarrow> release_packaging_record \<Rightarrow> bool" where
  "pair_at st pid r p \<longleftrightarrow>
     bt_get (rs_packagings (rel_mem st)) pid = Some p \<and>
     bt_get (rs_releases (rel_mem st)) (pk_release_id p) = Some r"

lemma rel_step_evolve:
  assumes inv: "rel_inv (rel_mem st)" and step: "rel_step D cd st st'"
    and at: "pair_at st pid r p"
  obtains (kept) "pair_at st' pid r p"
  | (changed) f now r1 p1 where "upd_fn f" "f r p = Inr (r1, p1)"
      "pair_at st' pid (r1\<lparr>wr_updated_at := now\<rparr>) (p1\<lparr>pk_updated_at := now\<rparr>)"
proof -
  note ok = rel_invD(4) [OF inv]
  have elsewhere: "pair_at st' pid r p"
    if app: "rel_apply_event (rel_mem st) e = Inr (rel_mem st')"
      and ne: "pk_id (re_packaging e) \<noteq> pid" "wr_id (re_release e) \<noteq> pk_release_id p" for e
    using rel_apply_get(1,2) [OF app] ne at by (simp add: pair_at_def)
  show thesis
  proof (cases rule: rel_step_cases [OF step])
    case 1
    with at kept show thesis by simp
  next
    case (2 now io qid f)
    show thesis
    proof (cases rule: rel_update_mem [where cd = cd and now = now and io = io and pid = qid
          and f = f and st = st])
      case same
      with at kept 2 show thesis by (simp add: pair_at_def)
    next
      case (changed q s r1 p1)
      have ident: "wr_ident r1 = wr_ident s" "pk_ident p1 = pk_ident q"
        using upd_fn_ident [OF 2(1) changed(3)] by simp_all
      have q: "pk_id q = qid" "wr_id s = pk_release_id q"
        using ok [OF changed(1)] rel_invD(6) [OF inv changed(2)] by (auto simp: packaging_ok_def)
      show thesis
      proof (cases "qid = pid")
        case True
        with at changed have "q = p" "s = r" by (auto simp: pair_at_def)
        moreover have "pair_at st' pid (r1\<lparr>wr_updated_at := now\<rparr>) (p1\<lparr>pk_updated_at := now\<rparr>)"
          using rel_apply_get(1,2) [OF changed(4)] 2(2) q True ident_fields(1) [OF ident(2)]
            ident_fields(2) [OF ident(1)] by (simp add: pair_at_def)
        ultimately show thesis using that(2) [OF 2(1)] changed(3) by blast
      next
        case False
        have "pk_release_id q \<noteq> pk_release_id p"
          using release_id_inj [OF inv changed(1)] at False by (auto simp: pair_at_def)
        then show thesis
          using elsewhere [OF changed(4) [folded 2(2)]] False q kept
            ident_fields(1) [OF ident(2)] ident_fields(2) [OF ident(1)] by simp
      qed
    qed
  next
    case (3 now io i)
    show thesis
    proof (cases rule: rel_prepare_mem [where D = D and cd = cd and now = now and io = io
          and i = i and st = st])
      case same
      with at kept 3 show thesis by (simp add: pair_at_def)
    next
      case (stored key s q)
      have p: "packaging_ok (rel_mem st) pid p" using ok at by (simp add: pair_at_def)
      have "take 32 (pk_idempotency_key p) \<noteq> take 32 key"
        using p 3(1) stored(1,4) by (auto simp: packaging_ok_def fresh_prefix_def)
      then show thesis
        using elsewhere [OF stored(5) [folded 3(2)]] kept p stored(2,3)
        by (simp add: packaging_ok_def)
    qed
  qed
qed

text \<open>A property of pairs that every closure keeps holds along every run.\<close>

lemma rel_steps_keep:
  assumes "(rel_step D cd)\<^sup>*\<^sup>* st st'" "rel_inv (rel_mem st)" "pair_at st pid r p" "Q r p"
    and "\<And>f r p r1 p1 t. upd_fn f \<Longrightarrow> f r p = Inr (r1, p1) \<Longrightarrow> Q r p
          \<Longrightarrow> Q (r1\<lparr>wr_updated_at := t\<rparr>) (p1\<lparr>pk_updated_at := t\<rparr>)"
  shows "rel_inv (rel_mem st') \<and> (\<exists>r' p'. pair_at st' pid r' p' \<and> Q r' p')"
  using assms(1)
proof (induction rule: rtranclp_induct)
  case base
  with assms(2-4) show ?case by blast
next
  case (step y z)
  then obtain r' p' where at: "pair_at y pid r' p'" "Q r' p'" and inv: "rel_inv (rel_mem y)" by blast
  from rel_step_evolve [OF inv step.hyps(2) at(1)]
  have "\<exists>r' p'. pair_at z pid r' p' \<and> Q r' p'"
  proof cases
    case 1
    with at(2) show ?thesis by blast
  next
    case (2 f now r1 p1)
    from assms(5) [OF 2(1,2) at(2)] 2(3) show ?thesis by blast
  qed
  with rel_inv_step [OF inv step.hyps(2)] show ?case by blast
qed

section \<open>What the closures leave alone\<close>

lemma upd_fn_validated:
  assumes "upd_fn f" "f r p = Inr (r', p')" "pk_status p = Pk_Validated" "wr_status r = Wr_Validated"
  shows "r' = r \<and> p' = p"
  using assms
  by cases (auto simp: begin_build_upd_def record_built_upd_def record_pushed_upd_def
       begin_scan_upd_def record_scan_upd_def record_signature_upd_def
       mark_reconcile_required_upd_def mark_garbage_collectable_upd_def
       record_garbage_collected_upd_def split: if_splits)

definition digests_kept :: "release_packaging_record \<Rightarrow> release_packaging_record \<Rightarrow> bool" where
  "digests_kept p q \<longleftrightarrow>
     (pk_built_image_digest p \<noteq> None \<longrightarrow> pk_built_image_digest q = pk_built_image_digest p) \<and>
     (pk_pushed_image_digest p \<noteq> None \<longrightarrow> pk_pushed_image_digest q = pk_pushed_image_digest p)"

lemma set_once_kept: "set_once t v n = Inr u \<Longrightarrow> t \<noteq> None \<Longrightarrow> u = t"
  by (auto simp: set_once_def split: option.splits if_splits)

lemma upd_fn_digests:
  assumes "upd_fn f" "f r p = Inr (r', p')"
  shows "digests_kept p p'"
  using assms(1)
proof cases
  case upd_begin_build
  with assms(2) have "begin_build_upd r p = Inr (r', p')" by simp
  then show ?thesis by (cases rule: begin_build_updE) (simp_all add: digests_kept_def)
qed (use assms(2) in \<open>auto simp: record_built_upd_def record_pushed_upd_def begin_scan_upd_def
       record_scan_upd_def record_signature_upd_def mark_reconcile_required_upd_def
       mark_garbage_collectable_upd_def record_garbage_collected_upd_def Let_def
       digests_kept_def dest: set_once_kept split: if_splits sum.splits\<close>)

section \<open>Operations whose file effects succeed\<close>

lemma rel_persist_ok:
  assumes "wr_id r = pk_release_id p" "wr_project_id r = pk_project_id p"
  shows "fst (rel_persist_pair cd io_ok r p st) = Inr ()"
    "rel_apply_event (rel_mem st) \<lparr>re_sequence = sat_inc (rs_sequence (rel_mem st)), re_release = r,
       re_packaging = p\<rparr> = Inr (rel_mem (snd (rel_persist_pair cd io_ok r p st)))"
  using assms
  by (simp_all add: rel_persist_pair_def rel_append_event_def append_bytes_def io_ok_def
      rel_sync_mirror_def rel_write_checkpoint_def replace_checkpoint_def rel_apply_event_def)

lemma pair_at_apply:
  assumes "rel_apply_event s e = Inr (rel_mem st)" "re_release e = r" "re_packaging e = p"
    and "pk_id p = pid"
  shows "pair_at st pid r p"
proof -
  have "wr_id r = pk_release_id p"
    using assms(1-3) by (auto simp: rel_apply_event_def split: if_splits)
  then show ?thesis using rel_apply_get(1,2) [OF assms(1)] assms(2-4) by (simp add: pair_at_def)
qed

lemma rel_update_ok:
  assumes at: "pair_at st pid r p" and f: "f r p = Inr (r1, p1)"
    and link: "wr_id r1 = pk_release_id p1" "wr_project_id r1 = pk_project_id p1" "pk_id p1 = pid"
  shows "pair_at (snd (rel_update cd now io_ok pid f st)) pid
      (r1\<lparr>wr_updated_at := now\<rparr>) (p1\<lparr>pk_updated_at := now\<rparr>)"
    "fst (rel_update cd now io_ok pid f st) = Inr (r1\<lparr>wr_updated_at := now\<rparr>, p1\<lparr>pk_updated_at := now\<rparr>)"
proof -
  let ?P = "rel_persist_pair cd io_ok (r1\<lparr>wr_updated_at := now\<rparr>) (p1\<lparr>pk_updated_at := now\<rparr>) st"
  note ok = rel_persist_ok [of "r1\<lparr>wr_updated_at := now\<rparr>" "p1\<lparr>pk_updated_at := now\<rparr>", where cd = cd and st = st]
  have P: "fst ?P = Inr ()" "rel_apply_event (rel_mem st)
      \<lparr>re_sequence = sat_inc (rs_sequence (rel_mem st)), re_release = r1\<lparr>wr_updated_at := now\<rparr>,
       re_packaging = p1\<lparr>pk_updated_at := now\<rparr>\<rparr> = Inr (rel_mem (snd ?P))"
    using ok link by simp_all
  have u: "rel_update cd now io_ok pid f st =
      (Inr (r1\<lparr>wr_updated_at := now\<rparr>, p1\<lparr>pk_updated_at := now\<rparr>), snd ?P)"
    using at f P(1) by (cases ?P) (simp add: rel_update_def pair_at_def Let_def)
  show "fst (rel_update cd now io_ok pid f st) =
      Inr (r1\<lparr>wr_updated_at := now\<rparr>, p1\<lparr>pk_updated_at := now\<rparr>)" by (simp add: u)
  show "pair_at (snd (rel_update cd now io_ok pid f st)) pid
      (r1\<lparr>wr_updated_at := now\<rparr>) (p1\<lparr>pk_updated_at := now\<rparr>)"
    unfolding u snd_conv by (rule pair_at_apply [OF P(2)]) (use link in simp_all)
qed

lemma rel_prepare_ok:
  assumes "validate_packaging_input i = Inr ()" "key = packaging_idempotency_key D i"
    and "bt_get (rs_packaging_by_key (rel_mem st)) key = None"
    and "r = release_packaging_of i key now" "p = packaging_record_prepared i (release_id_of key) key now"
  shows "pair_at (snd (rel_prepare D cd now io_ok i st)) (packaging_id_of key) r p"
    "fst (rel_prepare D cd now io_ok i st) = Inr (r, p)"
proof -
  let ?P = "rel_persist_pair cd io_ok r p st"
  have link: "wr_id r = pk_release_id p" "wr_project_id r = pk_project_id p" "pk_id p = packaging_id_of key"
    using assms(4,5) by (simp_all add: release_packaging_of_def packaging_record_prepared_def)
  note P = rel_persist_ok [OF link(1,2), where cd = cd and st = st]
  have u: "rel_prepare D cd now io_ok i st = (Inr (r, p), snd ?P)"
    using assms P(1) by (cases ?P) (simp add: rel_prepare_def Let_def)
  show "fst (rel_prepare D cd now io_ok i st) = Inr (r, p)" by (simp add: u)
  show "pair_at (snd (rel_prepare D cd now io_ok i st)) (packaging_id_of key) r p"
    unfolding u snd_conv by (rule pair_at_apply [OF P(2)]) (use link in simp_all)
qed

section \<open>Looking a pair up\<close>

lemma release_of_packaging:
  assumes "rel_inv (rel_mem st)" "bt_get (rs_packagings (rel_mem st)) pid = Some p"
  obtains r where "pair_at st pid r p" "pair_inv r p"
  using rel_invD(4) [OF assms] assms(2) by (auto simp: packaging_ok_def pair_at_def)

lemma packaging_of_release:
  assumes inv: "rel_inv (rel_mem st)" and r: "rel_release st rid = Some r"
  shows "\<exists>p pid. rel_packaging_for_release st rid = Some p \<and> pair_at st pid r p \<and> pair_inv r p"
proof -
  have r': "bt_get (rs_releases (rel_mem st)) rid = Some r" using r by (simp add: rel_release_def)
  from rel_invD(7) [OF inv r'] obtain pid p
    where p: "bt_get (rs_packagings (rel_mem st)) pid = Some p" "pk_release_id p = rid" by blast
  have only: "q = p" if "bt_get (rs_packagings (rel_mem st)) j = Some q" "pk_release_id q = rid" for j q
    using release_id_inj [OF inv that(1) p(1)] that p by simp
  have "rel_packaging_for_release st rid = Some p"
    unfolding rel_packaging_for_release_def
    by (rule bt_find_unique [OF rel_invD(2) [OF inv] p(1)]) (use p(2) only in auto)
  moreover have "pair_at st pid r p" using p r' by (simp add: pair_at_def)
  moreover have "pair_inv r p" using rel_inv_pair [OF inv p(1)] p(2) r' by simp
  ultimately show ?thesis by blast
qed

end
