(* ===== verification/ReleasePackager.thy ===== *)
theory ReleasePackager
  imports ReleaseSafety
begin

text \<open>
  \<open>release/packager.rs\<close>, \<open>release/garbage_collector.rs\<close> and \<open>release/protection.rs\<close>. The trusted
  packaging backend (builder, registry, scanner, signer) is a parameter: its methods act on a world
  of their own and may answer anything. Each store operation takes the next reading of the clock and
  the next outcome of its file effects. Reading the artifact tree (\<open>ArtifactResolver\<close>) is the
  function \<open>artifact\<close> from the request to the hash of the verified manifest.
\<close>

record release_image_build_request =
  rb_release_id :: string
  rb_project_id :: string
  rb_version_id :: string
  rb_artifact_root :: string
  rb_artifact_manifest_hash :: string
  rb_runtime_manifest :: runtime_manifest
  rb_runtime_manifest_hash :: string
  rb_base_image_digest :: string
  rb_image_repository :: string
  rb_packager_version :: string

record built_release_image =
  bi_digest :: string
  bi_layout_uri :: string
  bi_artifact_manifest_hash :: string
  bi_runtime_manifest_hash :: string

record packaging_evidence =
  pe_sbom_digest :: string
  pe_provenance_digest :: string

record release_signature_evidence =
  sg_identity :: string
  sg_signature_digest :: string

record 'w packaging_backend =
  pb_build :: "release_image_build_request \<Rightarrow> 'w \<Rightarrow> (string + built_release_image) \<times> 'w"
  pb_registry_digest :: "string \<Rightarrow> string \<Rightarrow> 'w \<Rightarrow> (string + string option) \<times> 'w"
  pb_push :: "release_image_build_request \<Rightarrow> built_release_image \<Rightarrow> 'w \<Rightarrow> (string + string) \<times> 'w"
  pb_generate_evidence :: "release_image_build_request \<Rightarrow> string \<Rightarrow> 'w \<Rightarrow> (string + packaging_evidence) \<times> 'w"
  pb_scan :: "string \<Rightarrow> packaging_evidence \<Rightarrow> string \<Rightarrow> 'w \<Rightarrow> (string + packaging_scan_evidence) \<times> 'w"
  pb_sign :: "string \<Rightarrow> string \<Rightarrow> 'w \<Rightarrow> (string + release_signature_evidence) \<times> 'w"

text \<open>\<open>impl Display for ReleaseStoreError\<close>\<close>

fun rel_error_string :: "release_store_error \<Rightarrow> string" where
  "rel_error_string (Rel_InvalidInput e) = ''invalid release input: '' @ e"
| "rel_error_string (Rel_NotFound e) = ''release record not found: '' @ e"
| "rel_error_string (Rel_InvalidTransition e) = ''invalid release transition: '' @ e"
| "rel_error_string (Rel_IntegrityConflict e) = ''release integrity conflict: '' @ e"
| "rel_error_string (Rel_Storage e) = ''release storage failure: '' @ e"

text \<open>Where a task stands: the store, the backend's world, and how many store calls it made.\<close>

record 'w packager_state =
  pg_store :: release_store
  pg_world :: 'w
  pg_tick :: nat

record packager_env =
  en_digest :: digest
  en_codec :: release_codec
  en_clock :: clock
  en_disk :: "nat \<Rightarrow> io_plan"
  en_manifest_json :: "runtime_manifest \<Rightarrow> string"
  en_artifact :: "release_image_build_request \<Rightarrow> string + string"

definition store_call ::
    "packager_env \<Rightarrow> (time \<Rightarrow> io_plan \<Rightarrow> release_store \<Rightarrow> (release_store_error + 'a) \<times> release_store)
      \<Rightarrow> 'w packager_state \<Rightarrow> (string + 'a) \<times> 'w packager_state" where
  "store_call en op s =
    (case op (en_clock en (pg_tick s)) (en_disk en (pg_tick s)) (pg_store s) of
       (r, st) \<Rightarrow> (err_into rel_error_string r, s\<lparr>pg_store := st, pg_tick := Suc (pg_tick s)\<rparr>))"

definition world_call ::
    "('w \<Rightarrow> (string + 'a) \<times> 'w) \<Rightarrow> 'w packager_state \<Rightarrow> (string + 'a) \<times> 'w packager_state" where
  "world_call op s = (case op (pg_world s) of (r, w) \<Rightarrow> (r, s\<lparr>pg_world := w\<rparr>))"

section \<open>Building, scanning, signing\<close>

text \<open>The \<open>match existing\<close>: push only when the registry has no digest for the release's tag.\<close>

definition push_unless_present ::
    "'w packaging_backend \<Rightarrow> release_image_build_request \<Rightarrow> built_release_image \<Rightarrow> string option
      \<Rightarrow> 'w packager_state \<Rightarrow> (string + string) \<times> 'w packager_state" where
  "push_unless_present be rq built existing s = (case existing of
      Some d \<Rightarrow> if d = bi_digest built then (Inr d, s)
               else (Inl ''release registry tag points to a different digest'', s)
    | None \<Rightarrow> world_call (pb_push be rq built) s)"

definition build_and_push ::
    "packager_env \<Rightarrow> 'w packaging_backend \<Rightarrow> release_image_build_request \<Rightarrow> release_packaging_record
      \<Rightarrow> 'w packager_state \<Rightarrow> (string + unit) \<times> 'w packager_state" where
  "build_and_push en be rq p s =
    (case en_artifact en rq of
       Inl e \<Rightarrow> (Inl e, s)
     | Inr manifest_hash \<Rightarrow>
     if manifest_hash \<noteq> rb_artifact_manifest_hash rq
     then (Inl ''release artifact manifest changed before packaging'', s)
     else case manifest_sha256 (en_digest en) (en_manifest_json en) (rb_runtime_manifest rq) of
       Inl e \<Rightarrow> (Inl e, s)
     | Inr runtime_hash \<Rightarrow>
     if runtime_hash \<noteq> rb_runtime_manifest_hash rq
     then (Inl ''release runtime manifest changed before packaging'', s)
     else case world_call (pb_build be rq) s of
       (Inl e, s1) \<Rightarrow> (Inl e, s1)
     | (Inr built, s1) \<Rightarrow>
     if bi_artifact_manifest_hash built \<noteq> rb_artifact_manifest_hash rq
        \<or> bi_runtime_manifest_hash built \<noteq> rb_runtime_manifest_hash rq
     then (Inl ''release builder output provenance is invalid'', s1)
     else case store_call en (\<lambda>now io. rel_record_built (en_codec en) now io (pk_id p) (bi_digest built)) s1 of
       (Inl e, s2) \<Rightarrow> (Inl e, s2)
     | (Inr _, s2) \<Rightarrow>
    (case world_call (pb_registry_digest be (rb_image_repository rq) (rb_release_id rq)) s2 of
       (Inl e, s3) \<Rightarrow> (Inl e, s3)
     | (Inr existing, s3) \<Rightarrow>
    (case push_unless_present be rq built existing s3 of
       (Inl e, s4) \<Rightarrow> (Inl e, s4)
     | (Inr pushed, s4) \<Rightarrow>
     if pushed \<noteq> bi_digest built
     then (Inl ''release registry returned a different image digest'', s4)
     else case store_call en (\<lambda>now io. rel_record_pushed (en_codec en) now io (pk_id p) pushed) s4 of
       (Inl e, s5) \<Rightarrow> (Inl e, s5)
     | (Inr _, s5) \<Rightarrow> (Inr (), s5))))"

definition packager_scan ::
    "packager_env \<Rightarrow> 'w packaging_backend \<Rightarrow> release_image_build_request \<Rightarrow> release_packaging_record
      \<Rightarrow> 'w packager_state \<Rightarrow> (string + unit) \<times> 'w packager_state" where
  "packager_scan en be rq p s =
    (case pk_pushed_image_digest p of
       None \<Rightarrow> (Inl ''release scan requires a pushed image digest'', s)
     | Some image_digest \<Rightarrow>
    (case world_call (pb_generate_evidence be rq image_digest) s of
       (Inl e, s1) \<Rightarrow> (Inl e, s1)
     | (Inr evidence, s1) \<Rightarrow>
    (case world_call (pb_scan be image_digest evidence (pk_scan_policy_version p)) s1 of
       (Inl e, s2) \<Rightarrow> (Inl e, s2)
     | (Inr scan, s2) \<Rightarrow>
    (case store_call en (\<lambda>now io. rel_record_scan (en_codec en) now io (pk_id p)
            (pe_sbom_digest evidence) (pe_provenance_digest evidence) scan) s2 of
       (Inl e, s3) \<Rightarrow> (Inl e, s3)
     | (Inr _, s3) \<Rightarrow>
       if \<not> sc_passed scan then (Inl ''release image failed scan policy'', s3) else (Inr (), s3)))))"

definition packager_sign ::
    "packager_env \<Rightarrow> 'w packaging_backend \<Rightarrow> release_packaging_record
      \<Rightarrow> 'w packager_state \<Rightarrow> (string + unit) \<times> 'w packager_state" where
  "packager_sign en be p s =
    (case pk_pushed_image_digest p of
       None \<Rightarrow> (Inl ''release signing requires a pushed image digest'', s)
     | Some image_digest \<Rightarrow>
    (case pk_provenance_digest p of
       None \<Rightarrow> (Inl ''release signing requires provenance'', s)
     | Some provenance_digest \<Rightarrow>
    (case world_call (pb_sign be image_digest provenance_digest) s of
       (Inl e, s1) \<Rightarrow> (Inl e, s1)
     | (Inr signature, s1) \<Rightarrow>
    (case store_call en (\<lambda>now io. rel_record_signature (en_codec en) now io (pk_id p)
            (sg_identity signature) (sg_signature_digest signature)) s1 of
       (Inl e, s2) \<Rightarrow> (Inl e, s2)
     | (Inr _, s2) \<Rightarrow> (Inr (), s2)))))"

section \<open>The reconciliation loop\<close>

definition build_request ::
    "string \<Rightarrow> runtime_profile \<Rightarrow> work_release \<Rightarrow> release_packaging_record \<Rightarrow> release_image_build_request" where
  "build_request root profile r p =
    \<lparr>rb_release_id = wr_id r, rb_project_id = wr_project_id r, rb_version_id = wr_version_id r,
     rb_artifact_root = root, rb_artifact_manifest_hash = wr_artifact_manifest_hash r,
     rb_runtime_manifest = rp_manifest profile, rb_runtime_manifest_hash = wr_runtime_manifest_hash r,
     rb_base_image_digest = pk_base_image_digest p, rb_image_repository = pk_registry_repository p,
     rb_packager_version = pk_packager_version p\<rparr>"

definition mark_reconcile ::
    "packager_env \<Rightarrow> string \<Rightarrow> string \<Rightarrow> 'w packager_state \<Rightarrow> (string + 'a) \<times> 'w packager_state" where
  "mark_reconcile en pid error s =
    (case store_call en (\<lambda>now io. rel_mark_reconcile_required (en_codec en) now io pid error) s of
       (Inl e, s1) \<Rightarrow> (Inl e, s1)
     | (Inr _, s1) \<Rightarrow> (Inl error, s1))"

text \<open>One iteration: \<open>Inr None\<close> goes round again, \<open>Inr (Some r)\<close> is \<open>return Ok(release)\<close>.\<close>

definition packager_iteration ::
    "packager_env \<Rightarrow> 'w packaging_backend \<Rightarrow> string \<Rightarrow> string \<Rightarrow> runtime_profile
      \<Rightarrow> 'w packager_state \<Rightarrow> (string + work_release option) \<times> 'w packager_state" where
  "packager_iteration en be pid root profile s =
    (case rel_packaging (pg_store s) pid of
       None \<Rightarrow> (Inl (''release packaging record not found: '' @ pid), s)
     | Some p \<Rightarrow>
    (case rel_release (pg_store s) (pk_release_id p) of
       None \<Rightarrow> (Inl (''work release not found: '' @ pk_release_id p), s)
     | Some r \<Rightarrow>
    (case manifest_sha256 (en_digest en) (en_manifest_json en) (rp_manifest profile) of
       Inl e \<Rightarrow> (Inl e, s)
     | Inr manifest_hash \<Rightarrow>
     if wr_runtime_profile_id r \<noteq> rp_id profile
        \<or> pk_base_image_digest p \<noteq> rp_base_image_digest profile
        \<or> pk_packager_version p \<noteq> rp_packager_version profile
        \<or> pk_scan_policy_version p \<noteq> rp_scan_policy_version profile
        \<or> pk_runtime_manifest_hash p \<noteq> manifest_hash
     then (Inl ''release packaging profile identity mismatch'', s)
     else let rq = build_request root profile r p in
       if pk_status p \<in> {Pk_Prepared, Pk_Failed, Pk_ReconcileRequired} then
         (case store_call en (\<lambda>now io. rel_begin_build (en_codec en) now io pid) s of
            (Inl e, s1) \<Rightarrow> (Inl e, s1)
          | (Inr _, s1) \<Rightarrow> (Inr None, s1))
       else if pk_status p = Pk_Building then
         (case build_and_push en be rq p s of
            (Inl e, s1) \<Rightarrow> mark_reconcile en pid e s1
          | (Inr _, s1) \<Rightarrow> (Inr None, s1))
       else if pk_status p = Pk_Pushed then
         (case store_call en (\<lambda>now io. rel_begin_scan (en_codec en) now io pid) s of
            (Inl e, s1) \<Rightarrow> (Inl e, s1)
          | (Inr _, s1) \<Rightarrow> (Inr None, s1))
       else if pk_status p = Pk_Scanning then
         (case packager_scan en be rq p s of
            (Inl e, s1) \<Rightarrow>
              (case rel_packaging (pg_store s1) pid of
                 None \<Rightarrow> (Inl e, s1)
               | Some current \<Rightarrow>
                   if pk_status current \<noteq> Pk_Failed then mark_reconcile en pid e s1 else (Inl e, s1))
          | (Inr _, s1) \<Rightarrow> (Inr None, s1))
       else if pk_status p = Pk_Signing then
         (case packager_sign en be p s of
            (Inl e, s1) \<Rightarrow> mark_reconcile en pid e s1
          | (Inr _, s1) \<Rightarrow> (Inr None, s1))
       else (Inr (Some r), s))))"

fun packager_loop ::
    "nat \<Rightarrow> packager_env \<Rightarrow> 'w packaging_backend \<Rightarrow> string \<Rightarrow> string \<Rightarrow> runtime_profile
      \<Rightarrow> 'w packager_state \<Rightarrow> (string + work_release) \<times> 'w packager_state" where
  "packager_loop 0 en be pid root profile s =
     (Inl ''release packaging reconciliation did not converge'', s)"
| "packager_loop (Suc n) en be pid root profile s =
     (case packager_iteration en be pid root profile s of
        (Inl e, s1) \<Rightarrow> (Inl e, s1)
      | (Inr (Some r), s1) \<Rightarrow> (Inr r, s1)
      | (Inr None, s1) \<Rightarrow> packager_loop n en be pid root profile s1)"

definition packager_reconcile ::
    "packager_env \<Rightarrow> 'w packaging_backend \<Rightarrow> string \<Rightarrow> string \<Rightarrow> runtime_profile
      \<Rightarrow> 'w packager_state \<Rightarrow> (string + work_release) \<times> 'w packager_state" where
  "packager_reconcile en be pid root profile s =
    (case validate_profile profile of
       Inl e \<Rightarrow> (Inl e, s)
     | Inr _ \<Rightarrow> packager_loop 8 en be pid root profile s)"

section \<open>The packaging controller\<close>

text \<open>
  One pass over the recoverable packagings; \<open>root_of\<close> is \<open>FileArtifactPublisher::version_root\<close>. The
  code drives up to four packagings at a time; here they run one after another. A packaging that
  fails, whatever the reason, counts as not reconciled and does not stop the pass.
\<close>

definition controller_item ::
    "packager_env \<Rightarrow> 'w packaging_backend \<Rightarrow> (string \<Rightarrow> string \<Rightarrow> string) \<Rightarrow> release_packaging_record
      \<Rightarrow> 'w packager_state \<Rightarrow> bool \<times> 'w packager_state" where
  "controller_item en be root_of p s =
    (case rel_release (pg_store s) (pk_release_id p) of
       None \<Rightarrow> (False, s)
     | Some r \<Rightarrow>
    (case profile_static_web_v1 (pk_base_image_digest p) (pk_packager_version p)
            (pk_scan_policy_version p) of
       Inl e \<Rightarrow> (False, s)
     | Inr profile \<Rightarrow>
    (case packager_reconcile en be (pk_id p) (root_of (wr_project_id r) (wr_version_id r)) profile s of
       (Inl e, s1) \<Rightarrow> (False, s1)
     | (Inr _, s1) \<Rightarrow> (True, s1))))"

fun controller_items ::
    "packager_env \<Rightarrow> 'w packaging_backend \<Rightarrow> (string \<Rightarrow> string \<Rightarrow> string) \<Rightarrow> release_packaging_record list
      \<Rightarrow> 'w packager_state \<Rightarrow> nat \<times> 'w packager_state" where
  "controller_items en be root_of [] s = (0, s)"
| "controller_items en be root_of (p # ps) s =
     (let (ok, s1) = controller_item en be root_of p s;
          (n, s2) = controller_items en be root_of ps s1
      in (if ok then Suc n else n, s2))"

definition packaging_reconcile_once ::
    "packager_env \<Rightarrow> 'w packaging_backend \<Rightarrow> (string \<Rightarrow> string \<Rightarrow> string)
      \<Rightarrow> 'w packager_state \<Rightarrow> nat \<times> 'w packager_state" where
  "packaging_reconcile_once en be root_of s =
    controller_items en be root_of (rel_recoverable_packagings (pg_store s)) s"

section \<open>Collecting rejected releases\<close>

record release_protection_set =
  rp_release_ids :: "string list"
  rp_image_digests :: "string list"

definition protects :: "release_protection_set \<Rightarrow> string \<Rightarrow> string \<Rightarrow> bool" where
  "protects s rid digest \<longleftrightarrow> rid \<in> set (rp_release_ids s) \<or> digest \<in> set (rp_image_digests s)"

definition collect_failed ::
    "packager_env
      \<Rightarrow> (work_release \<Rightarrow> release_packaging_record \<Rightarrow> 'w
            \<Rightarrow> (string + release_garbage_collection_evidence) \<times> 'w)
      \<Rightarrow> ('w \<Rightarrow> (string + release_protection_set) \<times> 'w)
      \<Rightarrow> string \<Rightarrow> string \<Rightarrow> 'w packager_state \<Rightarrow> (string + work_release) \<times> 'w packager_state" where
  "collect_failed en gc snapshot pid expected s =
    (case rel_packaging (pg_store s) pid of
       None \<Rightarrow> (Inl (''release packaging record not found: '' @ pid), s)
     | Some p \<Rightarrow>
    (case rel_release (pg_store s) (pk_release_id p) of
       None \<Rightarrow> (Inl (''work release not found: '' @ pk_release_id p), s)
     | Some r \<Rightarrow>
    (case world_call snapshot s of
       (Inl e, s1) \<Rightarrow> (Inl e, s1)
     | (Inr protection, s1) \<Rightarrow>
     if protects protection (wr_id r) expected
     then (Inl ''release or image digest is protected by runtime, operation, packaging, or live workload references'', s1)
     else case store_call en
            (\<lambda>now io. rel_mark_failed_garbage_collectable (en_codec en) now io pid expected) s1 of
       (Inl e, s2) \<Rightarrow> (Inl e, s2)
     | (Inr (r1, p1), s2) \<Rightarrow>
    (case world_call (gc r1 p1) s2 of
       (Inl e, s3) \<Rightarrow> (Inl e, s3)
     | (Inr evidence, s3) \<Rightarrow>
     if \<not> gc_registry_manifest_deleted evidence \<or> \<not> gc_packaging_evidence_deleted evidence
     then (Inl ''release garbage collection evidence is incomplete'', s3)
     else case store_call en
            (\<lambda>now io. rel_record_garbage_collected (en_codec en) now io pid expected) s3 of
       (Inl e, s4) \<Rightarrow> (Inl e, s4)
     | (Inr (r2, _), s4) \<Rightarrow> (Inr r2, s4)))))"

end
