(* ===== verification/PublicationController.thy ===== *)
theory PublicationController
  imports PublicationReconcile ReleasePackager
begin

text \<open>
  \<open>publication/backend.rs\<close>, \<open>publication/controller.rs\<close> and
  \<open>publication/kubernetes_release_protection.rs\<close>: what the controller asks the cluster for, one pass of
  it over the outbox, and the protection snapshot taken before a release is collected. An \<open>anyhow\<close>
  error is its text. The backend and the Kubernetes list call are parameters; what other tasks do to
  the publication store while the backend is awaited is a parameter too.
\<close>

section \<open>The desired state of a work runtime\<close>

definition field_manager :: string where
  "field_manager = ''anydesign-work-runtime-controller''"

record release_trust_evidence =
  te_signature_identity :: string
  te_signature_digest :: string
  te_provenance_digest :: string
  te_scan_policy_version :: string
  te_scan_report_digest :: string

record desired_work_runtime =
  dw_namespace :: string
  dw_project_id :: string
  dw_work_name :: string
  dw_deployment_name :: string
  dw_stable_service_name :: string
  dw_probe_service_name :: string
  dw_network_policy_name :: string
  dw_host_slug :: string
  dw_release_id :: string
  dw_current_release_id :: "string option"
  dw_current_deployment_name :: "string option"
  dw_reconcile_checkpoint :: publish_checkpoint
  dw_desired_generation :: u64
  dw_owner_record_id :: string
  dw_runtime_profile_id :: string
  dw_image :: string
  dw_image_digest :: string
  dw_container_port :: u16
  dw_health_path :: string
  dw_release_path :: string
  dw_labels :: "(string, string) btree"
  dw_trust :: release_trust_evidence
  dw_expected_deployment_uid :: "string option"
  dw_expected_service_uid :: "string option"
  dw_expected_service_resource_version :: "string option"
  dw_expected_ingress_uid :: "string option"

record desired_unpublish_runtime =
  du_namespace :: string
  du_project_id :: string
  du_work_name :: string
  du_service_name :: string
  du_ingress_name :: string
  du_network_policy_name :: string
  du_host_slug :: string
  du_desired_generation :: u64
  du_owner_record_id :: string
  du_expected_service_uid :: "string option"
  du_expected_ingress_uid :: "string option"

definition owner_record_id :: "digest \<Rightarrow> string \<Rightarrow> string" where
  "owner_record_id D project = ''project-'' @ take 20 (sha256_hex D project)"

definition desired_unpublish_from_state ::
    "digest \<Rightarrow> work_runtime_state \<Rightarrow> string + desired_unpublish_runtime" where
  "desired_unpublish_from_state D r =
    (if rt_desired_publication r \<noteq> Des_Unpublished \<or> rt_desired_release_id r \<noteq> None
     then Inl ''work runtime is not desired Unpublished''
     else Inr \<lparr>du_namespace = rt_workspace_namespace r, du_project_id = rt_project_id r,
       du_work_name = rt_service_name r, du_service_name = rt_service_name r,
       du_ingress_name = rt_ingress_name r, du_network_policy_name = rt_service_name r,
       du_host_slug = rt_host_slug r, du_desired_generation = rt_desired_generation r,
       du_owner_record_id = owner_record_id D (rt_project_id r),
       du_expected_service_uid = rt_service_uid r, du_expected_ingress_uid = rt_ingress_uid r\<rparr>)"

definition is_sha256_digest :: "string \<Rightarrow> bool" where
  "is_sha256_digest value = (case strip_prefix ''sha256:'' value of
      None \<Rightarrow> False
    | Some hash \<Rightarrow> length hash = 64 \<and> list_all is_ascii_hexdigit hash)"

definition required :: "string option \<Rightarrow> string \<Rightarrow> string + string" where
  "required value field = (case value of
      None \<Rightarrow> Inl (''release '' @ field @ '' is missing'')
    | Some v \<Rightarrow> if is_blank v then Inl (''release '' @ field @ '' is missing'') else Inr v)"

definition required_digest :: "string option \<Rightarrow> string \<Rightarrow> string + string" where
  "required_digest value field = (case required value field of
      Inl e \<Rightarrow> Inl e
    | Inr v \<Rightarrow> if \<not> is_sha256_digest v then Inl (''release '' @ field @ '' is not sha256-pinned'')
               else Inr v)"

text \<open>The labels of \<open>from_records\<close>, inserted in the order of the code.\<close>

definition work_labels ::
    "digest \<Rightarrow> work_runtime_state \<Rightarrow> work_release \<Rightarrow> (string, string) btree" where
  "work_labels D r rel = fold (\<lambda>(k, v). bt_insert k v)
    [(''anydesign.dev/work'', rt_service_name r),
     (''anydesign.dev/project-hash'', rt_service_name r),
     (''anydesign.dev/release-id'', wr_id rel),
     (''anydesign.dev/desired-generation'', show_u64 (rt_desired_generation r)),
     (''anydesign.dev/owner-record-id'', owner_record_id D (rt_project_id r)),
     (''anydesign.dev/runtime-profile'', static_web_profile_id),
     (''app.kubernetes.io/managed-by'', field_manager)] bt_empty"

text \<open>The trust evidence of \<open>from_records\<close>; its fields are checked in the order they are written.\<close>

definition trust_of :: "release_packaging_record \<Rightarrow> string + release_trust_evidence" where
  "trust_of p =
    (case pk_scan_evidence p of
       None \<Rightarrow> Inl ''release scan policy evidence is missing or rejected''
     | Some scan \<Rightarrow>
     if \<not> (sc_passed scan \<and> sc_critical_vulnerabilities scan = 0)
     then Inl ''release scan policy evidence is missing or rejected''
     else case required (pk_signature_identity p) ''signature identity'' of
       Inl e \<Rightarrow> Inl e
     | Inr identity \<Rightarrow>
    (case required_digest (pk_signature_digest p) ''signature digest'' of
       Inl e \<Rightarrow> Inl e
     | Inr signature \<Rightarrow>
    (case required_digest (pk_provenance_digest p) ''provenance digest'' of
       Inl e \<Rightarrow> Inl e
     | Inr provenance \<Rightarrow>
     if \<not> is_sha256_digest (sc_report_digest scan) then Inl ''scan report digest is invalid''
     else Inr \<lparr>te_signature_identity = identity, te_signature_digest = signature,
            te_provenance_digest = provenance, te_scan_policy_version = pk_scan_policy_version p,
            te_scan_report_digest = sc_report_digest scan\<rparr>)))"

definition image_of ::
    "work_release \<Rightarrow> release_packaging_record \<Rightarrow> string + (string \<times> string)" where
  "image_of rel p =
    (case wr_runtime_image_ref rel of
       None \<Rightarrow> Inl ''validated release is missing runtime image ref''
     | Some img \<Rightarrow>
    (case wr_runtime_image_digest rel of
       None \<Rightarrow> Inl ''validated release is missing runtime image digest''
     | Some digest \<Rightarrow>
     if \<not> is_sha256_digest digest \<or> \<not> ends_with img (''@'' @ digest)
        \<or> pk_pushed_image_digest p \<noteq> Some digest
     then Inl ''release image must be immutable and match packaging push evidence''
     else Inr (img, digest)))"

definition deployment_name_of :: "digest \<Rightarrow> work_runtime_state \<Rightarrow> work_release \<Rightarrow> string" where
  "deployment_name_of D r rel = rt_service_name r @ ''-'' @ take 12 (sha256_hex D (wr_id rel))"

definition desired_work_from_records ::
    "digest \<Rightarrow> work_runtime_state \<Rightarrow> work_release \<Rightarrow> release_packaging_record \<Rightarrow> publish_checkpoint
      \<Rightarrow> string + desired_work_runtime" where
  "desired_work_from_records D r rel p checkpoint =
    (if rt_desired_publication r \<noteq> Des_Published then Inl ''work runtime is not desired Published''
     else if rt_desired_release_id r \<noteq> Some (wr_id rel) \<or> wr_project_id rel \<noteq> rt_project_id r
        \<or> pk_project_id p \<noteq> rt_project_id r \<or> pk_release_id p \<noteq> wr_id rel
     then Inl ''publication, release, and packaging ownership do not match''
     else if wr_status rel \<noteq> Wr_Validated \<or> pk_status p \<noteq> Pk_Validated
     then Inl ''release and packaging must both be Validated''
     else if rt_runtime_profile_id r \<noteq> static_web_profile_id
        \<or> wr_runtime_profile_id rel \<noteq> static_web_profile_id
     then Inl ''G6 only supports the static-web-v1 runtime profile''
     else case image_of rel p of
       Inl e \<Rightarrow> Inl e
     | Inr (img, digest) \<Rightarrow>
    (case trust_of p of
       Inl e \<Rightarrow> Inl e
     | Inr trust \<Rightarrow>
       let deployment = deployment_name_of D r rel in
       Inr \<lparr>dw_namespace = rt_workspace_namespace r, dw_project_id = rt_project_id r,
         dw_work_name = rt_service_name r, dw_deployment_name = deployment,
         dw_stable_service_name = rt_service_name r,
         dw_probe_service_name =
           rt_service_name r @ ''-probe-'' @ take 12 (sha256_hex D (wr_id rel)),
         dw_network_policy_name = rt_service_name r, dw_host_slug = rt_host_slug r,
         dw_release_id = wr_id rel, dw_current_release_id = rt_current_release_id r,
         dw_current_deployment_name = rt_current_deployment_name r,
         dw_reconcile_checkpoint = checkpoint, dw_desired_generation = rt_desired_generation r,
         dw_owner_record_id = owner_record_id D (rt_project_id r),
         dw_runtime_profile_id = static_web_profile_id, dw_image = img, dw_image_digest = digest,
         dw_container_port = 8080, dw_health_path = ''/.well-known/anydesign/healthz'',
         dw_release_path = ''/.well-known/anydesign/release'', dw_labels = work_labels D r rel,
         dw_trust = trust,
         dw_expected_deployment_uid =
           (if rt_current_deployment_name r = Some deployment then rt_deployment_uid r else None),
         dw_expected_service_uid = rt_service_uid r,
         dw_expected_service_resource_version = rt_service_resource_version r,
         dw_expected_ingress_uid = rt_ingress_uid r\<rparr>))"

section \<open>The backend\<close>

datatype reconcile_disposition =
    Applied observed_work_runtime
  | TrafficSwitched observed_work_runtime
  | Unpublished
  | Deferred

record work_runtime_backend =
  wb_reconcile :: "desired_work_runtime \<Rightarrow> string + reconcile_disposition"
  wb_unpublish :: "desired_unpublish_runtime \<Rightarrow> string + reconcile_disposition"

definition control_plane_only_backend :: work_runtime_backend where
  "control_plane_only_backend =
    \<lparr>wb_reconcile = (\<lambda>_. Inr Deferred), wb_unpublish = (\<lambda>_. Inr Deferred)\<rparr>"

section \<open>One pass of the controller\<close>

text \<open>
  What surrounds the handling of an event: the release store it reads, the answers of the backend,
  what the other tasks do to the publication store meanwhile, the clock and the file effects. Each
  is indexed by the event's identifier.
\<close>

record reconcile_world =
  rw_releases :: "string \<Rightarrow> release_store"
  rw_backend :: "string \<Rightarrow> work_runtime_backend"
  rw_meanwhile :: "string \<Rightarrow> publication_store \<Rightarrow> publication_store"
  rw_clock :: "string \<Rightarrow> clock"
  rw_io :: "string \<Rightarrow> io_plan"

definition work_request ::
    "digest \<Rightarrow> release_store \<Rightarrow> publication_store \<Rightarrow> work_runtime_state \<Rightarrow> publication_outbox_event
      \<Rightarrow> string + desired_work_runtime" where
  "work_request D rels st r b =
    (case rt_desired_release_id r of
       None \<Rightarrow> Inl ''Published runtime is missing desired release''
     | Some rid \<Rightarrow>
    (case rel_release rels rid of
       None \<Rightarrow> Inl ''desired WorkRelease does not exist''
     | Some rel \<Rightarrow>
    (case rel_packaging_for_release rels rid of
       None \<Rightarrow> Inl ''desired WorkRelease packaging evidence does not exist''
     | Some p \<Rightarrow>
    (case pub_operation st (ob_operation_id b) of
       None \<Rightarrow> Inl ''publication operation does not exist''
     | Some o' \<Rightarrow> desired_work_from_records D r rel p (op_checkpoint o')))))"

text \<open>The \<open>async\<close> block: the request is built before the backend is called, or its error is the result.\<close>

definition backend_result ::
    "digest \<Rightarrow> reconcile_world \<Rightarrow> publication_store \<Rightarrow> work_runtime_state \<Rightarrow> publication_outbox_event
      \<Rightarrow> string + reconcile_disposition" where
  "backend_result D w st r b =
    (case rt_desired_publication r of
       Des_Published \<Rightarrow>
         (case work_request D (rw_releases w (ob_id b)) st r b of
            Inl e \<Rightarrow> Inl e
          | Inr desired \<Rightarrow> wb_reconcile (rw_backend w (ob_id b)) desired)
     | Des_Unpublished \<Rightarrow>
         (case desired_unpublish_from_state D r of
            Inl e \<Rightarrow> Inl e
          | Inr desired \<Rightarrow> wb_unpublish (rw_backend w (ob_id b)) desired))"

text \<open>The result of a recording: an error is returned by \<open>?\<close>, a success counts or not.\<close>

definition counted ::
    "nat \<Rightarrow> (publication_store_error + 'a) \<times> publication_store
      \<Rightarrow> (string + nat) \<times> publication_store" where
  "counted n q = (case q of (Inl e, st) \<Rightarrow> (Inl (pub_error_string e), st) | (Inr _, st) \<Rightarrow> (Inr n, st))"

definition record_disposition ::
    "digest \<Rightarrow> publication_codec \<Rightarrow> clock \<Rightarrow> io_plan \<Rightarrow> publication_outbox_event
      \<Rightarrow> string + reconcile_disposition \<Rightarrow> publication_store \<Rightarrow> (string + nat) \<times> publication_store" where
  "record_disposition D cd clk io b res st =
    (case res of
       Inr (Applied obs) \<Rightarrow> counted 1 (pub_record_workload_ready D cd clk io (ob_id b) obs st)
     | Inr (TrafficSwitched obs) \<Rightarrow> counted 1 (pub_record_traffic_switched D cd clk io (ob_id b) obs st)
     | Inr Unpublished \<Rightarrow> counted 1 (pub_record_unpublished D cd clk io (ob_id b) st)
     | Inr Deferred \<Rightarrow>
         if ob_status b = Ob_Pending
         then counted 0 (pub_record_delivery_attempt D cd clk io (ob_id b) None st)
         else (Inr 0, st)
     | Inl e \<Rightarrow> counted 0 (pub_record_reconcile_failure D cd clk io (ob_id b) e st))"

definition reconcile_event ::
    "digest \<Rightarrow> publication_codec \<Rightarrow> reconcile_world \<Rightarrow> publication_outbox_event
      \<Rightarrow> publication_store \<Rightarrow> (string + nat) \<times> publication_store" where
  "reconcile_event D cd w b st =
    (case pub_runtime st (ob_project_id b) of
       None \<Rightarrow> counted 0 (pub_record_reconcile_failure D cd (rw_clock w (ob_id b)) (rw_io w (ob_id b))
                 (ob_id b) ''publication runtime state is missing'' st)
     | Some r \<Rightarrow>
         record_disposition D cd (rw_clock w (ob_id b)) (rw_io w (ob_id b)) b
           (backend_result D w st r b) (rw_meanwhile w (ob_id b) st))"

fun reconcile_events ::
    "digest \<Rightarrow> publication_codec \<Rightarrow> reconcile_world \<Rightarrow> publication_outbox_event list
      \<Rightarrow> publication_store \<Rightarrow> (string + nat) \<times> publication_store" where
  "reconcile_events D cd w [] st = (Inr 0, st)"
| "reconcile_events D cd w (b # bs) st =
    (case reconcile_event D cd w b st of
       (Inl e, st1) \<Rightarrow> (Inl e, st1)
     | (Inr n, st1) \<Rightarrow>
    (case reconcile_events D cd w bs st1 of
       (Inl e, st2) \<Rightarrow> (Inl e, st2)
     | (Inr m, st2) \<Rightarrow> (Inr (n + m), st2)))"

text \<open>The map of events: the pending ones, then the others with \<open>or_insert\<close>.\<close>

definition pass_events ::
    "time \<Rightarrow> bool \<Rightarrow> publication_store \<Rightarrow> (string, publication_outbox_event) btree" where
  "pass_events now include_observed st =
    (let pending = fold (\<lambda>b. bt_insert (ob_id b) b) (pub_pending_outbox now st) bt_empty
     in if include_observed
        then fold (\<lambda>b m. if bt_get m (ob_id b) = None then bt_insert (ob_id b) b m else m)
               (pub_published_reconcile_outbox st) pending
        else pending)"

definition reconcile_once ::
    "digest \<Rightarrow> publication_codec \<Rightarrow> reconcile_world \<Rightarrow> time \<Rightarrow> bool
      \<Rightarrow> publication_store \<Rightarrow> (string + nat) \<times> publication_store" where
  "reconcile_once D cd w now include_observed st =
    reconcile_events D cd w (bt_values (pass_events now include_observed st)) st"

section \<open>The protection snapshot\<close>

record live_deployment =
  ld_release_label :: "string option"
  ld_images :: "string option list"

text \<open>\<open>rsplit_once('@')\<close>: the part after the last separator.\<close>

fun rsplit_at :: "string \<Rightarrow> string option" where
  "rsplit_at [] = None"
| "rsplit_at (c # s) = (case rsplit_at s of
      Some t \<Rightarrow> Some t
    | None \<Rightarrow> if c = CHR ''@'' then Some s else None)"

definition image_digest_of :: "string option \<Rightarrow> string option" where
  "image_digest_of img = (case img of
      None \<Rightarrow> None
    | Some i \<Rightarrow> (case rsplit_at i of
        None \<Rightarrow> None
      | Some d \<Rightarrow> if is_sha256_digest d then Some d else None))"

text \<open>The list calls, one per namespace in order; the first failure ends the snapshot.\<close>

fun scan_namespaces ::
    "(string \<Rightarrow> string + live_deployment list) \<Rightarrow> string list \<Rightarrow> string + live_deployment list" where
  "scan_namespaces deployments [] = Inr []"
| "scan_namespaces deployments (n # ns) =
    (case deployments n of
       Inl e \<Rightarrow> Inl (''scan live Published Deployments in '' @ n @ '' before Registry GC'')
     | Inr ds \<Rightarrow>
    (case scan_namespaces deployments ns of
       Inl e \<Rightarrow> Inl e
     | Inr es \<Rightarrow> Inr (ds @ es)))"

definition publication_namespaces :: "publication_store \<Rightarrow> string list" where
  "publication_namespaces st = map fst (fold (\<lambda>r. bt_insert (rt_workspace_namespace r) ())
     (pub_runtimes st) bt_empty)"

text \<open>\<open>rels\<close> is the release store when the snapshot starts, \<open>after\<close> when the list calls have returned.\<close>

definition protection_snapshot ::
    "publication_store \<Rightarrow> release_store \<Rightarrow> (string \<Rightarrow> string + live_deployment list) \<Rightarrow> release_store
      \<Rightarrow> string + release_protection_set" where
  "protection_snapshot st rels deployments after =
    (case scan_namespaces deployments (publication_namespaces st) of
       Inl e \<Rightarrow> Inl e
     | Inr live \<Rightarrow>
       let ids = pub_protected_release_ids st @ map pk_release_id (rel_recoverable_packagings rels)
                   @ List.map_filter ld_release_label live;
           running = List.map_filter image_digest_of (concat (map ld_images live));
           stored = List.map_filter (\<lambda>rid. case rel_release after rid of
               None \<Rightarrow> None | Some rel \<Rightarrow> wr_runtime_image_digest rel) ids
       in Inr \<lparr>rp_release_ids = ids, rp_image_digests = running @ stored\<rparr>)"

end
