(* ===== verification/PublicationInvariants.thy ===== *)
theory PublicationInvariants
  imports PublicationReconcile
begin

text \<open>
  Steps of the publication store, its invariant and the lemmas that every operation keeps it. Every
  operation but \<open>commit_intent\<close> is \<open>update_outbox\<close> with one of the closures collected in \<open>pub_upd\<close>;
  both end in one commit, so one lemma about storing a commit carries the invariant.
\<close>

section \<open>Steps\<close>

text \<open>The closures, with the guards of the operations that pass them.\<close>

inductive pub_upd :: "outbox_upd \<Rightarrow> bool" where
  pu_attempt: "pub_upd (delivery_attempt_upd clk error)"
| pu_delivered: "pub_upd (delivered_upd clk)"
| pu_replay: "pub_upd (replay_upd clk)"
| pu_ready: "ow_ready obs \<Longrightarrow> ow_release_identity_verified obs \<Longrightarrow>
    (ow_ingress obs \<noteq> None) = ow_external_release_identity_verified obs \<Longrightarrow>
    pub_upd (workload_ready_upd clk obs)"
| pu_switched: "ow_ready obs \<Longrightarrow> ow_release_identity_verified obs \<Longrightarrow>
    \<not> ow_external_release_identity_verified obs \<Longrightarrow> pub_upd (traffic_switched_upd clk obs)"
| pu_unpublished: "pub_upd (unpublished_upd clk)"
| pu_failure: "pub_upd (reconcile_failure_upd clk error)"
| pu_recreation: "pub_upd (recreation_upd clk uid)"

inductive pub_step :: "digest \<Rightarrow> publication_codec \<Rightarrow> publication_store \<Rightarrow> publication_store \<Rightarrow> bool"
  for D cd where
  ps_intent: "pub_step D cd st (snd (pub_commit_intent D cd now rng io i st))"
| ps_attempt: "pub_step D cd st (snd (pub_record_delivery_attempt D cd clk io bid error st))"
| ps_delivered: "pub_step D cd st (snd (pub_record_delivered D cd clk io bid st))"
| ps_ready: "pub_step D cd st (snd (pub_record_workload_ready D cd clk io bid obs st))"
| ps_switched: "pub_step D cd st (snd (pub_record_traffic_switched D cd clk io bid obs st))"
| ps_unpublished: "pub_step D cd st (snd (pub_record_unpublished D cd clk io bid st))"
| ps_failure: "pub_step D cd st (snd (pub_record_reconcile_failure D cd clk io bid error st))"
| ps_recreation: "pub_step D cd st (snd (pub_authorize_deployment_recreation D cd clk io project uid st))"
| ps_replay: "pub_step D cd st (snd (pub_update_outbox D cd (clk 2) io bid (replay_upd clk) st))"

inductive pub_reach :: "digest \<Rightarrow> publication_codec \<Rightarrow> publication_store \<Rightarrow> bool" for D cd where
  pr_open: "pub_reach D cd \<lparr>pub_files = no_files, pub_mem = publication_snapshot_default, pub_mirrored = m\<rparr>"
| pr_step: "pub_reach D cd st \<Longrightarrow> pub_step D cd st st' \<Longrightarrow> pub_reach D cd st'"

lemma snd_drop_outbox [simp]: "snd (drop_outbox q) = snd q"
  by (cases q) (simp add: drop_outbox_def)

lemma pub_step_cases:
  assumes "pub_step D cd st st'"
  obtains (same) "st' = st"
  | (update) now io bid f where "pub_upd f" "st' = snd (pub_update_outbox D cd now io bid f st)"
  | (intent) now rng io i where "st' = snd (pub_commit_intent D cd now rng io i st)"
  using assms
proof cases
  case (ps_intent now rng io i)
  then show thesis using intent by blast
next
  case (ps_attempt clk io bid error)
  then show thesis using update [OF pu_attempt] by (simp add: pub_record_delivery_attempt_def)
next
  case (ps_delivered clk io bid)
  then show thesis using update [OF pu_delivered] by (simp add: pub_record_delivered_def)
next
  case (ps_ready clk io bid obs)
  then show thesis using same update [OF pu_ready [of obs]]
    by (auto simp: pub_record_workload_ready_def split: if_splits)
next
  case (ps_switched clk io bid obs)
  then show thesis using same update [OF pu_switched [of obs]]
    by (auto simp: pub_record_traffic_switched_def split: if_splits)
next
  case (ps_unpublished clk io bid)
  then show thesis using update [OF pu_unpublished] by (simp add: pub_record_unpublished_def)
next
  case (ps_failure clk io bid error)
  then show thesis using update [OF pu_failure] by (simp add: pub_record_reconcile_failure_def)
next
  case (ps_recreation clk io project uid)
  then show thesis using same update [OF pu_recreation]
    by (auto simp: pub_authorize_deployment_recreation_def split: option.splits if_splits)
next
  case (ps_replay clk io bid)
  then show thesis using update [OF pu_replay] by blast
qed

section \<open>What an operation does to the memory\<close>

lemma pub_persist_mem:
  "pub_mem (snd (pub_persist_commit D cd io o' r b key st)) = pub_mem st \<or>
   (pub_apply_commit_with_key (pub_mem st) \<lparr>pc_sequence = sat_inc (ps_sequence (pub_mem st)),
        pc_operation = o', pc_runtime = r, pc_outbox = b\<rparr> key
      = Inr (pub_mem (snd (pub_persist_commit D cd io o' r b key st))) \<and>
    pub_validate_snapshot D (pub_mem (snd (pub_persist_commit D cd io o' r b key st))) = Inr ())"
  by (auto simp: pub_persist_commit_def Let_def split: prod.splits option.splits sum.splits)

lemma pub_persist_ok_mem:
  "fst (pub_persist_commit D cd io o' r b key st) = Inr u \<Longrightarrow>
   pub_apply_commit_with_key (pub_mem st) \<lparr>pc_sequence = sat_inc (ps_sequence (pub_mem st)),
        pc_operation = o', pc_runtime = r, pc_outbox = b\<rparr> key
      = Inr (pub_mem (snd (pub_persist_commit D cd io o' r b key st))) \<and>
   pub_validate_snapshot D (pub_mem (snd (pub_persist_commit D cd io o' r b key st))) = Inr ()"
  by (auto simp: pub_persist_commit_def Let_def split: prod.splits option.splits sum.splits)

definition outbox_linked ::
    "publish_operation \<Rightarrow> work_runtime_state \<Rightarrow> publication_outbox_event \<Rightarrow> bool" where
  "outbox_linked o' r b \<longleftrightarrow> op_id o' = ob_operation_id b \<and> op_project_id o' = ob_project_id b \<and>
     op_desired_generation o' = ob_desired_generation b \<and> rt_project_id r = ob_project_id b \<and>
     rt_desired_generation r = ob_desired_generation b"

text \<open>The triple an outbox event stands for.\<close>

definition triple_at ::
    "publication_snapshot \<Rightarrow> string \<Rightarrow> publish_operation \<Rightarrow> work_runtime_state
      \<Rightarrow> publication_outbox_event \<Rightarrow> bool" where
  "triple_at s bid o' r b \<longleftrightarrow> bt_get (ps_outbox s) bid = Some b \<and>
     bt_get (ps_operations s) (ob_operation_id b) = Some o' \<and>
     bt_get (ps_runtimes s) (ob_project_id b) = Some r"

lemma pub_update_eq:
  assumes "triple_at (pub_mem st) bid o' r b" "outbox_linked o' r b" "f o' r b = Inr (o1, r1, b1)"
  shows "pub_update_outbox D cd now io bid f st =
        (case pub_persist_commit D cd io (o1\<lparr>op_updated_at := now\<rparr>) (r1\<lparr>rt_updated_at := now\<rparr>)
            (b1\<lparr>ob_updated_at := now\<rparr>) (scoped_key D (op_project_id o1) (op_idempotency_key_hash o1)) st of
          (Inl e, st') \<Rightarrow> (Inl e, st')
        | (Inr _, st') \<Rightarrow> (Inr (o1\<lparr>op_updated_at := now\<rparr>, r1\<lparr>rt_updated_at := now\<rparr>,
             b1\<lparr>ob_updated_at := now\<rparr>), st'))"
  using assms by (simp add: pub_update_outbox_def triple_at_def outbox_linked_def Let_def)

lemma pub_update_run:
  obtains (failed) e where "pub_update_outbox D cd now io bid f st = (Inl e, st)"
  | (ran) o' r b o1 r1 b1 where "triple_at (pub_mem st) bid o' r b" "outbox_linked o' r b"
      "f o' r b = Inr (o1, r1, b1)"
      "pub_update_outbox D cd now io bid f st =
        (case pub_persist_commit D cd io (o1\<lparr>op_updated_at := now\<rparr>) (r1\<lparr>rt_updated_at := now\<rparr>)
            (b1\<lparr>ob_updated_at := now\<rparr>) (scoped_key D (op_project_id o1) (op_idempotency_key_hash o1)) st of
          (Inl e, st') \<Rightarrow> (Inl e, st')
        | (Inr _, st') \<Rightarrow> (Inr (o1\<lparr>op_updated_at := now\<rparr>, r1\<lparr>rt_updated_at := now\<rparr>,
             b1\<lparr>ob_updated_at := now\<rparr>), st'))"
proof (cases "\<exists>e. pub_update_outbox D cd now io bid f st = (Inl e, st)")
  case True
  with failed show thesis by blast
next
  case False
  let ?s = "pub_mem st"
  obtain b where b: "bt_get (ps_outbox ?s) bid = Some b"
    using False by (cases "bt_get (ps_outbox ?s) bid") (auto simp: pub_update_outbox_def)
  obtain o' where o': "bt_get (ps_operations ?s) (ob_operation_id b) = Some o'"
    using False b by (cases "bt_get (ps_operations ?s) (ob_operation_id b)")
      (auto simp: pub_update_outbox_def)
  obtain r where r: "bt_get (ps_runtimes ?s) (ob_project_id b) = Some r"
    using False b o' by (cases "bt_get (ps_runtimes ?s) (ob_project_id b)")
      (auto simp: pub_update_outbox_def)
  have link: "outbox_linked o' r b"
    using False b o' r unfolding pub_update_outbox_def outbox_linked_def
    by (auto split: if_splits)
  obtain q where q: "f o' r b = Inr q"
    using False b o' r link by (cases "f o' r b") (auto simp: pub_update_outbox_def outbox_linked_def)
  obtain o1 r1 b1 where f: "f o' r b = Inr (o1, r1, b1)" using q by (cases q) simp
  have at: "triple_at (pub_mem st) bid o' r b" using b o' r by (simp add: triple_at_def)
  from ran [OF at link f pub_update_eq [where f = f, OF at link f]] show thesis .
qed

section \<open>The invariant\<close>

definition outbox_id_of :: "string \<Rightarrow> string" where
  "outbox_id_of oid = ''publication-outbox-'' @ oid"

lemma outbox_id_inj [simp]: "outbox_id_of a = outbox_id_of b \<longleftrightarrow> a = b"
  by (simp add: outbox_id_of_def)

text \<open>
  A runtime state: valid as the code checks it, and what it serves is what last succeeded.
\<close>

definition rt_ok :: "work_runtime_state \<Rightarrow> bool" where
  "rt_ok r \<longleftrightarrow> runtime_valid r \<and>
     (rt_current_release_id r \<noteq> None \<longrightarrow> rt_last_successful_release_id r = rt_current_release_id r)"

text \<open>What a completed operation of the current generation says of the runtime state.\<close>

definition completed_ok :: "work_runtime_state \<Rightarrow> bool" where
  "completed_ok r \<longleftrightarrow> rt_observed_generation r = rt_desired_generation r \<and>
     (rt_desired_publication r = Des_Published \<longrightarrow>
        rt_desired_release_id r \<noteq> None \<and> rt_current_release_id r = rt_desired_release_id r \<and>
        rt_last_successful_release_id r = rt_desired_release_id r \<and>
        rt_deployment_uid r \<noteq> None \<and> rt_service_uid r \<noteq> None \<and> rt_ingress_uid r \<noteq> None) \<and>
     (rt_desired_publication r = Des_Unpublished \<longrightarrow>
        rt_current_release_id r = None \<and> rt_current_deployment_name r = None)"

definition served :: "publish_operation \<Rightarrow> work_runtime_state \<Rightarrow> bool" where
  "served o' r \<longleftrightarrow> (op_status o' = Op_Completed \<and>
     op_desired_generation o' = rt_desired_generation r \<and> rt_desired_generation r \<noteq> - 1
       \<longrightarrow> completed_ok r)"

definition op_key :: "digest \<Rightarrow> publish_operation \<Rightarrow> string" where
  "op_key D o' = scoped_key D (op_project_id o') (op_idempotency_key_hash o')"

definition op_ok :: "digest \<Rightarrow> publication_snapshot \<Rightarrow> string \<Rightarrow> publish_operation \<Rightarrow> bool" where
  "op_ok D s k o' \<longleftrightarrow> op_id o' = k \<and>
     bt_get (ps_operation_by_idempotency s) (op_key D o') = Some k \<and>
     bt_get (ps_outbox s) (outbox_id_of k) \<noteq> None \<and>
     (\<exists>r. bt_get (ps_runtimes s) (op_project_id o') = Some r \<and>
        op_desired_generation o' \<le> rt_desired_generation r \<and> served o' r)"

definition ob_ok :: "publication_snapshot \<Rightarrow> string \<Rightarrow> publication_outbox_event \<Rightarrow> bool" where
  "ob_ok s k b \<longleftrightarrow> ob_id b = k \<and> k = outbox_id_of (ob_operation_id b) \<and>
     (\<exists>o'. bt_get (ps_operations s) (ob_operation_id b) = Some o' \<and>
        op_project_id o' = ob_project_id b \<and> op_desired_generation o' = ob_desired_generation b)"

definition pub_links :: "digest \<Rightarrow> publication_snapshot \<Rightarrow> bool" where
  "pub_links D s \<longleftrightarrow>
     bt_wf (ps_operations s) \<and> bt_wf (ps_runtimes s) \<and> bt_wf (ps_outbox s) \<and>
     bt_wf (ps_operation_by_idempotency s) \<and>
     (\<forall>k o'. bt_get (ps_operations s) k = Some o' \<longrightarrow> op_ok D s k o') \<and>
     (\<forall>k b. bt_get (ps_outbox s) k = Some b \<longrightarrow> ob_ok s k b) \<and>
     (\<forall>k r. bt_get (ps_runtimes s) k = Some r \<longrightarrow> rt_project_id r = k \<and> rt_ok r) \<and>
     (\<forall>k oid. bt_get (ps_operation_by_idempotency s) k = Some oid \<longrightarrow>
        (\<exists>o'. bt_get (ps_operations s) oid = Some o' \<and> op_key D o' = k)) \<and>
     (\<forall>j k q r. bt_get (ps_runtimes s) j = Some q \<longrightarrow> bt_get (ps_runtimes s) k = Some r \<longrightarrow>
        rt_host_slug q = rt_host_slug r \<longrightarrow> j = k) \<and>
     (\<forall>j k p q. bt_get (ps_operations s) j = Some p \<longrightarrow> bt_get (ps_operations s) k = Some q \<longrightarrow>
        op_project_id p = op_project_id q \<longrightarrow> op_desired_generation p = op_desired_generation q \<longrightarrow>
        op_desired_generation p \<noteq> - 1 \<longrightarrow> j = k)"

definition pub_inv :: "digest \<Rightarrow> publication_snapshot \<Rightarrow> bool" where
  "pub_inv D s \<longleftrightarrow> pub_validate_snapshot D s = Inr () \<and> pub_links D s"

lemma pub_inv_default: "pub_inv D publication_snapshot_default"
  by (simp add: pub_inv_def pub_links_def publication_snapshot_default_def pub_validate_snapshot_def bt_empty_def)

lemma pub_invD:
  assumes "pub_inv D s"
  shows "pub_validate_snapshot D s = Inr ()"
    "bt_wf (ps_operations s)" "bt_wf (ps_runtimes s)" "bt_wf (ps_outbox s)"
    "bt_wf (ps_operation_by_idempotency s)"
    "bt_get (ps_operations s) k = Some o' \<Longrightarrow> op_ok D s k o'"
    "bt_get (ps_outbox s) k = Some b \<Longrightarrow> ob_ok s k b"
    "bt_get (ps_runtimes s) k = Some r \<Longrightarrow> rt_project_id r = k \<and> rt_ok r"
    "bt_get (ps_operation_by_idempotency s) k = Some oid \<Longrightarrow>
        \<exists>o'. bt_get (ps_operations s) oid = Some o' \<and> op_key D o' = k"
    "bt_get (ps_runtimes s) j = Some q \<Longrightarrow> bt_get (ps_runtimes s) k = Some r \<Longrightarrow>
        rt_host_slug q = rt_host_slug r \<Longrightarrow> j = k"
    "bt_get (ps_operations s) j = Some p \<Longrightarrow> bt_get (ps_operations s) k = Some o' \<Longrightarrow>
        op_project_id p = op_project_id o' \<Longrightarrow> op_desired_generation p = op_desired_generation o' \<Longrightarrow>
        op_desired_generation p \<noteq> - 1 \<Longrightarrow> j = k"
  using assms unfolding pub_inv_def pub_links_def by blast+

section \<open>Storing a commit\<close>

lemma pub_apply_get:
  assumes "pub_apply_commit_with_key s c key = Inr s'"
  shows "bt_get (ps_operations s') k = (if k = op_id (pc_operation c) then Some (pc_operation c)
      else bt_get (ps_operations s) k)"
    "bt_get (ps_runtimes s') k = (if k = rt_project_id (pc_runtime c) then Some (pc_runtime c)
      else bt_get (ps_runtimes s) k)"
    "bt_get (ps_outbox s') k = (if k = ob_id (pc_outbox c) then Some (pc_outbox c)
      else bt_get (ps_outbox s) k)"
    "bt_get (ps_operation_by_idempotency s') k = (if k = key then Some (op_id (pc_operation c))
      else bt_get (ps_operation_by_idempotency s) k)"
    "ps_sequence s' = pc_sequence c"
    "outbox_linked (pc_operation c) (pc_runtime c) (pc_outbox c)"
    "ps_operations s' = bt_insert (op_id (pc_operation c)) (pc_operation c) (ps_operations s)"
    "ps_operation_by_idempotency s' =
       bt_insert key (op_id (pc_operation c)) (ps_operation_by_idempotency s)"
  using assms by (auto simp: pub_apply_commit_with_key_def outbox_linked_def Let_def split: if_splits)

lemma pub_apply_wf:
  assumes "pub_apply_commit_with_key s c key = Inr s'" "pub_inv D s"
  shows "bt_wf (ps_operations s')" "bt_wf (ps_runtimes s')" "bt_wf (ps_outbox s')"
    "bt_wf (ps_operation_by_idempotency s')"
  using assms(1) pub_invD(2-5) [OF assms(2)]
  by (auto simp: pub_apply_commit_with_key_def Let_def split: if_splits)

text \<open>What the stored triple must satisfy relative to the old snapshot.\<close>

definition commit_fits ::
    "digest \<Rightarrow> publication_snapshot \<Rightarrow> publish_operation \<Rightarrow> work_runtime_state
      \<Rightarrow> publication_outbox_event \<Rightarrow> bool" where
  "commit_fits D s o' r b \<longleftrightarrow>
     ob_id b = outbox_id_of (op_id o') \<and> rt_ok r \<and> served o' r \<and>
     (\<forall>p. bt_get (ps_operations s) (op_id o') = Some p \<longrightarrow> op_key D p = op_key D o') \<and>
     (\<forall>q. bt_get (ps_runtimes s) (rt_project_id r) = Some q \<longrightarrow>
        rt_desired_generation q \<le> rt_desired_generation r) \<and>
     (\<forall>k q. bt_get (ps_runtimes s) k = Some q \<longrightarrow> k \<noteq> rt_project_id r \<longrightarrow>
        rt_host_slug q \<noteq> rt_host_slug r) \<and>
     (\<forall>k p. bt_get (ps_operations s) k = Some p \<longrightarrow> k \<noteq> op_id o' \<longrightarrow>
        op_project_id p = op_project_id o' \<longrightarrow>
        op_desired_generation p = op_desired_generation o' \<longrightarrow> op_desired_generation o' = - 1) \<and>
     (\<forall>oid. bt_get (ps_operation_by_idempotency s) (op_key D o') = Some oid \<longrightarrow> oid = op_id o')"

lemma commit_fitsD:
  assumes "commit_fits D s o' r b"
  shows "ob_id b = outbox_id_of (op_id o')" "rt_ok r" "served o' r"
    "bt_get (ps_operations s) (op_id o') = Some p \<Longrightarrow> op_key D p = op_key D o'"
    "bt_get (ps_runtimes s) (rt_project_id r) = Some q \<Longrightarrow>
        rt_desired_generation q \<le> rt_desired_generation r"
    "bt_get (ps_runtimes s) k = Some q \<Longrightarrow> k \<noteq> rt_project_id r \<Longrightarrow> rt_host_slug q \<noteq> rt_host_slug r"
    "bt_get (ps_operations s) k = Some p \<Longrightarrow> k \<noteq> op_id o' \<Longrightarrow> op_project_id p = op_project_id o' \<Longrightarrow>
        op_desired_generation p = op_desired_generation o' \<Longrightarrow> op_desired_generation o' = - 1"
    "bt_get (ps_operation_by_idempotency s) (op_key D o') = Some oid \<Longrightarrow> oid = op_id o'"
  using assms unfolding commit_fits_def by blast+

lemma pub_links_store:
  assumes inv: "pub_inv D s" and fits: "commit_fits D s o' r b"
    and app: "pub_apply_commit_with_key s \<lparr>pc_sequence = n, pc_operation = o', pc_runtime = r,
        pc_outbox = b\<rparr> (op_key D o') = Inr s'"
  shows "pub_links D s'"
proof -
  note get = pub_apply_get(1-4) [OF app, simplified]
  have link: "outbox_linked o' r b" using pub_apply_get(6) [OF app] by simp
  then have proj: "op_project_id o' = rt_project_id r" and gen: "op_desired_generation o' = rt_desired_generation r"
    and bid: "ob_operation_id b = op_id o'" "ob_project_id b = rt_project_id r"
      "ob_desired_generation b = rt_desired_generation r"
    by (simp_all add: outbox_linked_def)
  note fit = commit_fitsD [OF fits]
  have O: "op_ok D s' k p" if p: "bt_get (ps_operations s') k = Some p" for k p
  proof (cases "k = op_id o'")
    case True
    then show ?thesis using p get fit(1,3) proj gen by (auto simp: op_ok_def)
  next
    case False
    with p get(1) have p0: "bt_get (ps_operations s) k = Some p" by simp
    from pub_invD(6) [OF inv p0] obtain q where q: "op_id p = k"
      "bt_get (ps_operation_by_idempotency s) (op_key D p) = Some k"
      "bt_get (ps_outbox s) (outbox_id_of k) \<noteq> None"
      "bt_get (ps_runtimes s) (op_project_id p) = Some q"
      "op_desired_generation p \<le> rt_desired_generation q" "served p q"
      by (auto simp: op_ok_def)
    have key: "bt_get (ps_operation_by_idempotency s') (op_key D p) = Some k"
      using q(2) get(4) fit(8) False by (metis option.inject)
    have ob: "bt_get (ps_outbox s') (outbox_id_of k) \<noteq> None" using q(3) get(3) by simp
    have rt: "\<exists>r'. bt_get (ps_runtimes s') (op_project_id p) = Some r' \<and>
        op_desired_generation p \<le> rt_desired_generation r' \<and> served p r'"
    proof (cases "op_project_id p = rt_project_id r")
      case same: True
      have "op_desired_generation p \<le> rt_desired_generation r"
        using q(4,5) fit(5) same by (metis order_trans)
      moreover have "served p r"
        using fit(7) [OF p0 False] same proj gen by (auto simp: served_def)
      ultimately show ?thesis using get(2) same by simp
    next
      case other: False
      then show ?thesis using get(2) q(4-6) by simp
    qed
    with q(1) key ob show ?thesis by (simp add: op_ok_def)
  qed
  have B: "ob_ok s' k c" if c: "bt_get (ps_outbox s') k = Some c" for k c
  proof (cases "k = ob_id b")
    case True
    then show ?thesis using c get fit(1) bid gen proj by (auto simp: ob_ok_def)
  next
    case False
    with c get(3) have c0: "bt_get (ps_outbox s) k = Some c" by simp
    from pub_invD(7) [OF inv c0] have ok: "ob_ok s k c" .
    with False fit(1) have "ob_operation_id c \<noteq> op_id o'" by (auto simp: ob_ok_def)
    with ok get(1) show ?thesis by (auto simp: ob_ok_def)
  qed
  have R: "rt_project_id q = k \<and> rt_ok q" if "bt_get (ps_runtimes s') k = Some q" for k q
    using that fit(2) pub_invD(8) [OF inv, of k q] unfolding get(2) by (auto split: if_splits)
  have I: "\<exists>p. bt_get (ps_operations s') oid = Some p \<and> op_key D p = k"
    if i: "bt_get (ps_operation_by_idempotency s') k = Some oid" for k oid
  proof (cases "k = op_key D o'")
    case True
    then show ?thesis using i get(1,4) by auto
  next
    case False
    with i get(4) have "bt_get (ps_operation_by_idempotency s) k = Some oid" by simp
    from pub_invD(9) [OF inv this] obtain p
      where p: "bt_get (ps_operations s) oid = Some p" "op_key D p = k" by blast
    with False fit(4) have "oid \<noteq> op_id o'" by auto
    with p get(1) show ?thesis by simp
  qed
  have S: "j = k" if "bt_get (ps_runtimes s') j = Some p" "bt_get (ps_runtimes s') k = Some q"
    "rt_host_slug p = rt_host_slug q" for j k p q
  proof (rule ccontr)
    assume "j \<noteq> k"
    with that fit(6) [of j p] fit(6) [of k q] pub_invD(10) [OF inv, of j p k q] show False
      unfolding get(2) by (simp split: if_splits)
  qed
  have G: "j = k" if "bt_get (ps_operations s') j = Some p" "bt_get (ps_operations s') k = Some q"
    "op_project_id p = op_project_id q" "op_desired_generation p = op_desired_generation q"
    "op_desired_generation p \<noteq> - 1" for j k p q
  proof (rule ccontr)
    assume "j \<noteq> k"
    with that fit(7) [of j p] fit(7) [of k q] pub_invD(11) [OF inv, of j p k q] show False
      unfolding get(1) by (simp split: if_splits)
  qed
  show ?thesis
    unfolding pub_links_def
    using pub_apply_wf [OF app inv] O B R I S G by blast
qed

lemma pub_inv_store:
  assumes "pub_inv D s" "commit_fits D s o' r b"
    "pub_apply_commit_with_key s \<lparr>pc_sequence = n, pc_operation = o', pc_runtime = r,
        pc_outbox = b\<rparr> (op_key D o') = Inr s'"
    "pub_validate_snapshot D s' = Inr ()"
  shows "pub_inv D s'"
  using assms(4) pub_links_store [OF assms(1-3)] by (simp add: pub_inv_def)

section \<open>The closures\<close>

definition op_ident where
  "op_ident o' = (op_schema_version o', op_id o', op_idempotency_key_hash o', op_request_hash o',
     op_project_id o', op_release_id o', op_expected_current_release_id o', op_desired_generation o',
     op_kind o', op_created_at o')"

definition rt_ident where
  "rt_ident r = (rt_schema_version r, rt_project_id r, rt_workspace_namespace r,
     rt_desired_publication r, rt_desired_release_id r, rt_desired_generation r, rt_host_slug r,
     rt_runtime_profile_id r, rt_service_name r, rt_ingress_name r, rt_created_at r)"

definition ob_ident where
  "ob_ident b = (ob_schema_version b, ob_id b, ob_project_id b, ob_operation_id b,
     ob_desired_generation b, ob_created_at b)"

lemma ident_simps [simp]:
  "op_ident (o'\<lparr>op_status := a\<rparr>) = op_ident o'" "op_ident (o'\<lparr>op_checkpoint := c\<rparr>) = op_ident o'"
  "op_ident (o'\<lparr>op_last_error := e\<rparr>) = op_ident o'" "op_ident (o'\<lparr>op_updated_at := t\<rparr>) = op_ident o'"
  "rt_ident (r\<lparr>rt_updated_at := t\<rparr>) = rt_ident r" "ob_ident (b\<lparr>ob_updated_at := t\<rparr>) = ob_ident b"
  by (simp_all add: op_ident_def rt_ident_def ob_ident_def)

lemma op_identD:
  "op_ident p = op_ident q \<Longrightarrow> op_id p = op_id q \<and> op_project_id p = op_project_id q \<and>
     op_idempotency_key_hash p = op_idempotency_key_hash q \<and> op_request_hash p = op_request_hash q \<and>
     op_desired_generation p = op_desired_generation q \<and> op_key D p = op_key D q"
  by (simp add: op_ident_def op_key_def)

lemma rt_identD:
  "rt_ident p = rt_ident q \<Longrightarrow> rt_project_id p = rt_project_id q \<and>
     rt_desired_generation p = rt_desired_generation q \<and> rt_host_slug p = rt_host_slug q \<and>
     rt_desired_publication p = rt_desired_publication q \<and>
     rt_desired_release_id p = rt_desired_release_id q \<and> rt_schema_version p = rt_schema_version q"
  by (simp add: rt_ident_def)

lemma ob_identD:
  "ob_ident p = ob_ident q \<Longrightarrow> ob_id p = ob_id q \<and> ob_project_id p = ob_project_id q \<and>
     ob_operation_id p = ob_operation_id q \<and> ob_desired_generation p = ob_desired_generation q"
  by (simp add: ob_ident_def)

text \<open>The fields a workload-ready record leaves.\<close>

lemma ready_release_fields [simp]:
  "rt_current_release_id (ready_release d r) = Some d"
  "rt_last_successful_release_id (ready_release d r) = Some d"
  "rt_ident (ready_release d r) = rt_ident r"
  "rt_ingress_uid (ready_release d r) = rt_ingress_uid r"
  by (simp_all add: ready_release_def rt_ident_def)

lemma ready_deployment_fields [simp]:
  "rt_current_release_id (ready_deployment obs r) = rt_current_release_id r"
  "rt_last_successful_release_id (ready_deployment obs r) = rt_last_successful_release_id r"
  "rt_deployment_uid (ready_deployment obs r) = Some (ki_uid (ow_deployment obs))"
  "rt_ident (ready_deployment obs r) = rt_ident r"
  "rt_ingress_uid (ready_deployment obs r) = rt_ingress_uid r"
  by (simp_all add: ready_deployment_def rt_ident_def)

lemma observe_endpoints_fields [simp]:
  "rt_current_release_id (observe_endpoints obs r) = rt_current_release_id r"
  "rt_previous_release_id (observe_endpoints obs r) = rt_previous_release_id r"
  "rt_last_successful_release_id (observe_endpoints obs r) = rt_last_successful_release_id r"
  "rt_current_deployment_name (observe_endpoints obs r) = rt_current_deployment_name r"
  "rt_deployment_uid (observe_endpoints obs r) = rt_deployment_uid r"
  "rt_observed_generation (observe_endpoints obs r) = rt_observed_generation r"
  "rt_service_uid (observe_endpoints obs r) = Some (ki_uid (ow_service obs))"
  "rt_ident (observe_endpoints obs r) = rt_ident r"
  "rt_ingress_uid (observe_endpoints obs r) =
     (case ow_ingress obs of None \<Rightarrow> rt_ingress_uid r | Some i \<Rightarrow> Some (ki_uid i))"
  by (simp_all add: observe_endpoints_def rt_ident_def Let_def split: option.split)

lemma ready_status_fields [simp]:
  "rt_current_release_id (ready_status obs r) = rt_current_release_id r"
  "rt_last_successful_release_id (ready_status obs r) = rt_last_successful_release_id r"
  "rt_deployment_uid (ready_status obs r) = rt_deployment_uid r"
  "rt_service_uid (ready_status obs r) = rt_service_uid r"
  "rt_ingress_uid (ready_status obs r) = rt_ingress_uid r"
  "rt_ident (ready_status obs r) = rt_ident r"
  "rt_observed_generation (ready_status obs r) = rt_desired_generation r"
  by (simp_all add: ready_status_def rt_ident_def Let_def)

lemma ready_operation_fields [simp]:
  "op_ident (ready_operation obs o') = op_ident o'"
  "op_status (ready_operation obs o') = (if ow_external_release_identity_verified obs then Op_Completed
     else if op_status o' \<in> {Op_TrafficSwitched, Op_ExternalProbePassed, Op_Completed}
     then op_status o' else Op_WorkloadReady)"
  by (simp_all add: ready_operation_def op_ident_def)

lemma workload_ready_fields:
  assumes "workload_ready_upd clk obs o' r b = Inr (o1, r1, b1)"
  shows "\<exists>d. rt_desired_release_id r = Some d \<and> rt_current_release_id r1 = Some d \<and>
      rt_last_successful_release_id r1 = Some d"
    "rt_observed_generation r1 = rt_desired_generation r"
    "rt_deployment_uid r1 = Some (ki_uid (ow_deployment obs))"
    "rt_service_uid r1 = Some (ki_uid (ow_service obs))"
    "rt_ingress_uid r1 = (case ow_ingress obs of None \<Rightarrow> rt_ingress_uid r | Some i \<Rightarrow> Some (ki_uid i))"
    "op_ident o1 = op_ident o'" "rt_ident r1 = rt_ident r" "ob_ident b1 = ob_ident b"
    "op_status o1 = (if ow_external_release_identity_verified obs then Op_Completed
       else if op_status o' \<in> {Op_TrafficSwitched, Op_ExternalProbePassed, Op_Completed}
       then op_status o' else Op_WorkloadReady)"
proof -
  obtain d where d: "rt_desired_release_id r = Some d"
    and o1: "o1 = ready_operation obs o'"
    and r1: "r1 = ready_status obs (observe_endpoints obs (ready_deployment obs (ready_release d r)))"
    and b1: "b1 = b\<lparr>ob_status := Ob_Delivered, ob_last_error := None, ob_delivered_at := Some (clk 0),
              ob_next_attempt_at := clk 1\<rparr>"
    using assms by (auto simp: workload_ready_upd_def split: if_splits option.splits)
  have gen: "rt_desired_generation (observe_endpoints obs (ready_deployment obs (ready_release d r)))
      = rt_desired_generation r"
    using rt_identD [of "observe_endpoints obs (ready_deployment obs (ready_release d r))" r] by simp
  show "\<exists>d. rt_desired_release_id r = Some d \<and> rt_current_release_id r1 = Some d \<and>
      rt_last_successful_release_id r1 = Some d"
    "rt_observed_generation r1 = rt_desired_generation r"
    "rt_deployment_uid r1 = Some (ki_uid (ow_deployment obs))"
    "rt_service_uid r1 = Some (ki_uid (ow_service obs))"
    "rt_ingress_uid r1 = (case ow_ingress obs of None \<Rightarrow> rt_ingress_uid r | Some i \<Rightarrow> Some (ki_uid i))"
    "op_ident o1 = op_ident o'" "rt_ident r1 = rt_ident r"
    "op_status o1 = (if ow_external_release_identity_verified obs then Op_Completed
       else if op_status o' \<in> {Op_TrafficSwitched, Op_ExternalProbePassed, Op_Completed}
       then op_status o' else Op_WorkloadReady)"
    using d gen by (simp_all add: o1 r1 split: option.split)
  show "ob_ident b1 = ob_ident b" by (simp add: b1 ob_ident_def)
qed

lemma pub_upd_ident:
  assumes "pub_upd f" "f o' r b = Inr (o1, r1, b1)"
  shows "op_ident o1 = op_ident o' \<and> rt_ident r1 = rt_ident r \<and> ob_ident b1 = ob_ident b"
  using assms(1)
proof cases
  case (pu_attempt clk error)
  with assms(2) show ?thesis
    by (auto simp: delivery_attempt_upd_def Let_def rt_ident_def ob_ident_def
        split: if_splits option.splits)
next
  case (pu_ready obs clk)
  with assms(2) have "workload_ready_upd clk obs o' r b = Inr (o1, r1, b1)" by simp
  from workload_ready_fields(6-8) [OF this] show ?thesis by blast
next
  case (pu_switched obs clk)
  with assms(2) show ?thesis
    using observe_endpoints_fields(8) [of obs r]
    by (auto simp: traffic_switched_upd_def rt_ident_def ob_ident_def split: if_splits)
qed (use assms(2) in \<open>auto simp: delivered_upd_def replay_upd_def unpublished_upd_def
       reconcile_failure_upd_def recreation_upd_def rt_ident_def ob_ident_def split: if_splits\<close>)

lemma rt_ok_cong:
  assumes "rt_ident q = rt_ident r" "rt_observed_generation q = rt_observed_generation r"
    "rt_current_release_id q = rt_current_release_id r"
    "rt_last_successful_release_id q = rt_last_successful_release_id r"
  shows "rt_ok q = rt_ok r"
  using assms by (simp add: rt_ok_def runtime_valid_def rt_ident_def)

lemma pub_upd_rt_ok:
  assumes "pub_upd f" "f o' r b = Inr (o1, r1, b1)" "rt_ok r"
  shows "rt_ok r1"
  using assms(1)
proof cases
  case (pu_attempt clk error)
  with assms(2,3) show ?thesis
    by (auto simp: delivery_attempt_upd_def Let_def rt_ok_def runtime_valid_def
        split: if_splits option.splits)
next
  case (pu_ready obs clk)
  with assms(2) have u: "workload_ready_upd clk obs o' r b = Inr (o1, r1, b1)" by simp
  have "rt_ident r1 = rt_ident r" by (rule workload_ready_fields(7) [OF u])
  with workload_ready_fields(1,2) [OF u] assms(3) show ?thesis
    by (auto simp: rt_ok_def runtime_valid_def rt_ident_def)
next
  case (pu_switched obs clk)
  with assms(2) have r1: "r1 = (observe_endpoints obs r)\<lparr>rt_status := Rt_Updating, rt_last_error := None\<rparr>"
    by (auto simp: traffic_switched_upd_def split: if_splits)
  have "rt_ident r1 = rt_ident (observe_endpoints obs r)" by (simp add: r1 rt_ident_def)
  then show ?thesis using rt_ok_cong [of r1 r] assms(3) by (simp add: r1)
qed (use assms(2,3) in \<open>auto simp: delivered_upd_def replay_upd_def unpublished_upd_def
       reconcile_failure_upd_def recreation_upd_def rt_ok_def runtime_valid_def split: if_splits\<close>)

lemma pub_upd_served:
  assumes "pub_upd f" "f o' r b = Inr (o1, r1, b1)" "served o' r"
    and link: "op_desired_generation o' = rt_desired_generation r" and ok: "rt_ok r"
  shows "served o1 r1"
  using assms(1)
proof cases
  case (pu_attempt clk error)
  with assms(2,3) show ?thesis
    by (auto simp: delivery_attempt_upd_def Let_def served_def completed_ok_def
        split: if_splits option.splits)
next
  case (pu_ready obs clk)
  with assms(2) have u: "workload_ready_upd clk obs o' r b = Inr (o1, r1, b1)" by simp
  note w = workload_ready_fields [OF u]
  have id: "rt_desired_generation r1 = rt_desired_generation r"
    "rt_desired_publication r1 = rt_desired_publication r"
    "rt_desired_release_id r1 = rt_desired_release_id r"
    using rt_identD [OF w(7)] by simp_all
  have pub: "rt_desired_publication r = Des_Published"
    using w(1) ok by (auto simp: rt_ok_def runtime_valid_def)
  show ?thesis
  proof (cases "ow_external_release_identity_verified obs")
    case True
    then have "ow_ingress obs \<noteq> None" using pu_ready by simp
    then show ?thesis using w(1-5) id pub by (auto simp: served_def completed_ok_def)
  next
    case False
    then have "ow_ingress obs = None" using pu_ready by simp
    moreover have "op_status o1 = Op_Completed \<Longrightarrow> op_status o' = Op_Completed"
      using w(9) False by (auto split: if_splits)
    moreover have "op_desired_generation o1 = op_desired_generation o'"
      using op_identD [OF w(6)] by simp
    ultimately show ?thesis using w(1-5) id pub assms(3) link
      by (auto simp: served_def completed_ok_def)
  qed
next
  case (pu_switched obs clk)
  with assms(2) show ?thesis by (auto simp: traffic_switched_upd_def served_def split: if_splits)
next
  case (pu_unpublished clk)
  with assms(2,3) show ?thesis
    by (auto simp: unpublished_upd_def served_def completed_ok_def split: if_splits)
qed (use assms(2,3) in \<open>auto simp: delivered_upd_def replay_upd_def
       reconcile_failure_upd_def recreation_upd_def served_def split: if_splits\<close>)

section \<open>Every step keeps the invariant\<close>

lemma touch_simps [simp]:
  "rt_ok (r\<lparr>rt_updated_at := t\<rparr>) = rt_ok r"
  "served (o'\<lparr>op_updated_at := u\<rparr>) (r\<lparr>rt_updated_at := t\<rparr>) = served o' r"
  "op_key D (o'\<lparr>op_updated_at := u\<rparr>) = op_key D o'"
  by (simp_all add: rt_ok_def runtime_valid_def served_def completed_ok_def op_key_def)

lemma pub_update_fits:
  assumes inv: "pub_inv D s" and f: "pub_upd f"
    and ran: "triple_at s bid o' r b" "outbox_linked o' r b" "f o' r b = Inr (o1, r1, b1)"
  shows "commit_fits D s (o1\<lparr>op_updated_at := now\<rparr>) (r1\<lparr>rt_updated_at := now\<rparr>) (b1\<lparr>ob_updated_at := now\<rparr>)"
proof -
  let ?s = s
  let ?o = "o1\<lparr>op_updated_at := now\<rparr>" and ?r = "r1\<lparr>rt_updated_at := now\<rparr>"
  let ?b = "b1\<lparr>ob_updated_at := now\<rparr>"
  have at: "bt_get (ps_outbox ?s) bid = Some b" "bt_get (ps_operations ?s) (ob_operation_id b) = Some o'"
    "bt_get (ps_runtimes ?s) (ob_project_id b) = Some r"
    using ran(1) by (simp_all add: triple_at_def)
  have id: "op_ident ?o = op_ident o'" "rt_ident ?r = rt_ident r" "ob_ident ?b = ob_ident b"
    using pub_upd_ident [OF f ran(3)] by simp_all
  note oid = op_identD [OF id(1)] and rid = rt_identD [OF id(2)] and bid' = ob_identD [OF id(3)]
  have oo: "op_ok D ?s (ob_operation_id b) o'" by (rule pub_invD(6) [OF inv at(2)])
  have bo: "ob_ok ?s bid b" by (rule pub_invD(7) [OF inv at(1)])
  have ro: "rt_project_id r = ob_project_id b" "rt_ok r" using pub_invD(8) [OF inv at(3)] by simp_all
  have gen: "op_desired_generation o' = rt_desired_generation r" "op_project_id o' = rt_project_id r"
    using ran(2) by (simp_all add: outbox_linked_def)
  have sv: "served o' r" using oo at(3) gen ro by (auto simp: op_ok_def)
  show ?thesis
    unfolding commit_fits_def
  proof (intro conjI allI impI)
    show "ob_id ?b = outbox_id_of (op_id ?o)" using bid' bo oo oid by (simp add: ob_ok_def op_ok_def)
    show "rt_ok ?r" using pub_upd_rt_ok [OF f ran(3) ro(2)] by simp
    show "served ?o ?r" using pub_upd_served [OF f ran(3) sv gen(1) ro(2)] by simp
  next
    fix p assume "bt_get (ps_operations ?s) (op_id ?o) = Some p"
    then show "op_key D p = op_key D ?o" using at(2) oo oid by (simp add: op_ok_def)
  next
    fix q assume "bt_get (ps_runtimes ?s) (rt_project_id ?r) = Some q"
    then show "rt_desired_generation q \<le> rt_desired_generation ?r" using at(3) ro(1) rid by simp
  next
    fix k q assume "bt_get (ps_runtimes ?s) k = Some q" "k \<noteq> rt_project_id ?r"
    then show "rt_host_slug q \<noteq> rt_host_slug ?r" using pub_invD(10) [OF inv _ at(3)] ro(1) rid by auto
  next
    fix k p assume p: "bt_get (ps_operations ?s) k = Some p" "k \<noteq> op_id ?o"
      "op_project_id p = op_project_id ?o" "op_desired_generation p = op_desired_generation ?o"
    show "op_desired_generation ?o = - 1"
    proof (rule ccontr)
      assume ne: "op_desired_generation ?o \<noteq> - 1"
      have "k = ob_operation_id b"
        by (rule pub_invD(11) [OF inv p(1) at(2)]) (use p(3,4) oid ne in auto)
      then show False using p(2) oo oid by (simp add: op_ok_def)
    qed
  next
    fix x assume "bt_get (ps_operation_by_idempotency ?s) (op_key D ?o) = Some x"
    then show "x = op_id ?o" using oo oid by (simp add: op_ok_def)
  qed
qed

lemma pub_inv_update:
  assumes inv: "pub_inv D (pub_mem st)" and f: "pub_upd f"
  shows "pub_inv D (pub_mem (snd (pub_update_outbox D cd now io bid f st)))"
proof (cases rule: pub_update_run [where D = D and cd = cd and now = now and io = io and bid = bid
      and f = f and st = st])
  case failed
  with inv show ?thesis by simp
next
  case (ran o' r b o1 r1 b1)
  let ?o = "o1\<lparr>op_updated_at := now\<rparr>" and ?r = "r1\<lparr>rt_updated_at := now\<rparr>"
  let ?b = "b1\<lparr>ob_updated_at := now\<rparr>"
  let ?P = "pub_persist_commit D cd io ?o ?r ?b (op_key D ?o) st"
  have "snd (pub_update_outbox D cd now io bid f st) = snd ?P"
    unfolding ran(4) by (simp add: op_key_def split: prod.splits sum.splits)
  then show ?thesis
    using pub_persist_mem [of D cd io ?o ?r ?b "op_key D ?o" st] inv pub_inv_store [OF inv pub_update_fits [OF inv f ran(1-3)]] by auto
qed

definition intent_base ::
    "digest \<Rightarrow> publication_intent \<Rightarrow> string \<Rightarrow> time \<Rightarrow> publication_snapshot \<Rightarrow> work_runtime_state" where
  "intent_base D i slug now s = (case bt_get (ps_runtimes s) (in_project_id i) of
     None \<Rightarrow> initial_runtime D i slug now | Some r \<Rightarrow> r)"

definition next_generation :: "publication_intent \<Rightarrow> publication_snapshot \<Rightarrow> u64" where
  "next_generation i s = (case bt_get (ps_runtimes s) (in_project_id i) of
     None \<Rightarrow> 1 | Some r \<Rightarrow> sat_inc (rt_desired_generation r))"

definition intent_key :: "digest \<Rightarrow> publication_intent \<Rightarrow> string" where
  "intent_key D i = scoped_key D (in_project_id i) (intent_key_hash D i)"

lemma pub_commit_intent_fresh:
  assumes "validate_intent i = Inr ()"
    "bt_get (ps_operation_by_idempotency (pub_mem st)) (intent_key D i) = None"
    "validate_compare_and_set (bt_get (ps_runtimes (pub_mem st)) (in_project_id i)) i = Inr ()"
    "allocate_host_slug D rng (pub_mem st) = Inr slug"
    and g: "g = next_generation i (pub_mem st)"
    and r: "r = intent_runtime i g now (intent_base D i slug now (pub_mem st))"
  shows "pub_commit_intent D cd now rng io i st =
        (case pub_persist_commit D cd io (intent_operation D i g now) r (intent_outbox D i g now)
            (intent_key D i) st of
           (Inl e, st') \<Rightarrow> (Inl e, st') | (Inr _, st') \<Rightarrow> (Inr (intent_operation D i g now, r), st'))"
  using assms(1-4)
  unfolding g r pub_commit_intent_def intent_key_def Let_def intent_base_def next_generation_def
  by simp

lemma pub_intent_run:
  obtains (kept) res where "pub_commit_intent D cd now rng io i st = (res, st)"
  | (ran) slug g r o' b where
      "validate_intent i = Inr ()"
      "bt_get (ps_operation_by_idempotency (pub_mem st)) (intent_key D i) = None"
      "validate_compare_and_set (bt_get (ps_runtimes (pub_mem st)) (in_project_id i)) i = Inr ()"
      "allocate_host_slug D rng (pub_mem st) = Inr slug"
      "g = next_generation i (pub_mem st)"
      "r = intent_runtime i g now (intent_base D i slug now (pub_mem st))"
      "o' = intent_operation D i g now" "b = intent_outbox D i g now"
      "pub_commit_intent D cd now rng io i st =
        (case pub_persist_commit D cd io o' r b (intent_key D i) st of
           (Inl e, st') \<Rightarrow> (Inl e, st') | (Inr _, st') \<Rightarrow> (Inr (o', r), st'))"
proof (cases "validate_intent i = Inr () \<and>
    bt_get (ps_operation_by_idempotency (pub_mem st)) (intent_key D i) = None \<and>
    validate_compare_and_set (bt_get (ps_runtimes (pub_mem st)) (in_project_id i)) i = Inr () \<and>
    is_ok (allocate_host_slug D rng (pub_mem st))")
  case True
  then obtain slug where slug: "allocate_host_slug D rng (pub_mem st) = Inr slug"
    by (auto simp: is_ok_ex)
  show thesis
    by (rule ran [OF _ _ _ slug refl refl refl refl])
      (use True slug pub_commit_intent_fresh [OF _ _ _ slug refl refl] in simp_all)
next
  case False
  have "\<exists>res. pub_commit_intent D cd now rng io i st = (res, st)"
  proof (cases "validate_intent i")
    case (Inl e)
    then show ?thesis by (simp add: pub_commit_intent_def)
  next
    case v: (Inr u)
    show ?thesis
    proof (cases "bt_get (ps_operation_by_idempotency (pub_mem st)) (intent_key D i)")
      case (Some oid)
      then show ?thesis using v
        by (simp add: pub_commit_intent_def intent_key_def Let_def split: option.split)
    next
      case None
      then show ?thesis using v False
        by (auto simp: pub_commit_intent_def intent_key_def Let_def is_ok_ex split: sum.split)
    qed
  qed
  with kept show thesis by blast
qed

lemma validate_intent_release:
  assumes "validate_intent i = Inr ()"
  shows "(in_kind i \<noteq> Kind_Unpublish) = (in_release_id i \<noteq> None)"
  using assms by (cases "in_kind i")
    (auto simp: validate_intent_def none_or_empty_def split: sum.splits option.splits if_splits)

lemma allocated_slug_fresh:
  assumes "allocate_host_slug D rng s = Inr c" "bt_wf (ps_runtimes s)"
    "bt_get (ps_runtimes s) k = Some r"
  shows "rt_host_slug r \<noteq> c"
proof -
  have unopt: "X = Some c" if "(case X of Some c \<Rightarrow> Inr c | None \<Rightarrow> Inl e) = Inr c"
    for X and e :: publication_store_error using that by (simp split: option.splits)
  have find: "P c" if "List.find P xs = Some c" for P xs
    using that by (induction xs) (auto split: if_splits)
  have "list_all (\<lambda>r. rt_host_slug r \<noteq> c) (bt_values (ps_runtimes s))"
    using find [OF unopt [OF assms(1) [unfolded allocate_host_slug_def]]] .
  moreover have "r \<in> set (bt_values (ps_runtimes s))"
    using bt_in_values [OF assms(2)] assms(3) by auto
  ultimately show ?thesis by (auto simp: list_all_iff)
qed

lemma intent_ids [simp]:
  "op_key D (intent_operation D i g now) = intent_key D i"
  "op_id (intent_operation D i g now) = operation_id_of D i"
  "op_project_id (intent_operation D i g now) = in_project_id i"
  "op_desired_generation (intent_operation D i g now) = g"
  "ob_id (intent_outbox D i g now) = outbox_id_of (operation_id_of D i)"
  "rt_desired_generation (intent_runtime i g now r) = g"
  "rt_project_id (intent_runtime i g now r) = rt_project_id r"
  "rt_host_slug (intent_runtime i g now r) = rt_host_slug r"
  by (simp_all add: op_key_def intent_key_def intent_operation_def intent_outbox_def outbox_id_of_def
      intent_runtime_def)

lemma initial_runtime_ids [simp]:
  "rt_project_id (initial_runtime D i slug now) = in_project_id i"
  "rt_host_slug (initial_runtime D i slug now) = slug"
  "rt_observed_generation (initial_runtime D i slug now) = 0"
  "rt_current_release_id (initial_runtime D i slug now) = None"
  "rt_schema_version (initial_runtime D i slug now) = work_runtime_state_schema"
  by (simp_all add: initial_runtime_def Let_def)

lemma sat_inc_fix: "a \<le> (g :: 'a::len word) \<Longrightarrow> a = sat_inc g \<Longrightarrow> a = - 1"
  by (metis antisym sat_inc_eq_iff sat_inc_ge)

text \<open>
  A new key with the identifier of an existing operation (32 hex digits of the key's hash) would
  leave more keys than operations, which \<open>validate_snapshot\<close> refuses.
\<close>

lemma stored_op_fresh:
  assumes "pub_inv D s"
    and app: "pub_apply_commit_with_key s \<lparr>pc_sequence = n, pc_operation = o', pc_runtime = r,
      pc_outbox = b\<rparr> key = Inr s'"
    and "pub_validate_snapshot D s' = Inr ()" "bt_get (ps_operation_by_idempotency s) key = None"
  shows "bt_get (ps_operations s) (op_id o') = None"
proof -
  have len: "length (ps_operation_by_idempotency s') = length (ps_operations s')"
    "length (ps_operation_by_idempotency s) = length (ps_operations s)"
    using assms(3) pub_invD(1) [OF assms(1)]
    by (auto simp: pub_validate_snapshot_def split: if_splits)
  then show ?thesis
    using pub_apply_get(7,8) [OF app] assms(4) pub_invD(2,5) [OF assms(1)]
      bt.length_ins [of "ps_operations s"] bt.length_ins [of "ps_operation_by_idempotency s"]
    by (auto split: if_splits)
qed

lemma intent_fits:
  assumes inv: "pub_inv D s" and v: "validate_intent i = Inr ()"
    and key: "bt_get (ps_operation_by_idempotency s) (intent_key D i) = None"
    and slug: "allocate_host_slug D rng s = Inr slug"
    and fresh: "bt_get (ps_operations s) (operation_id_of D i) = None"
    and g: "g = next_generation i s" and o': "o' = intent_operation D i g now"
    and r: "r = intent_runtime i g now (intent_base D i slug now s)"
    and b: "b = intent_outbox D i g now"
  shows "commit_fits D s o' r b"
proof -
  let ?s = s and ?p = "in_project_id i"
  let ?base = "intent_base D i slug now s"
  have base: "rt_project_id ?base = ?p"
    using pub_invD(8) [OF inv] by (auto simp: intent_base_def split: option.split)
  have obs: "rt_observed_generation ?base \<le> g"
    "rt_schema_version ?base = work_runtime_state_schema"
    "rt_current_release_id ?base \<noteq> None \<longrightarrow> rt_last_successful_release_id ?base = rt_current_release_id ?base"
    using pub_invD(8) [OF inv, of ?p] g order_trans [OF _ sat_inc_ge]
    by (auto simp: intent_base_def next_generation_def rt_ok_def runtime_valid_def split: option.split)
  have rok: "rt_ok r"
    using obs validate_intent_release [OF v]
    by (cases "in_kind i") (auto simp: r rt_ok_def runtime_valid_def intent_runtime_def)
  have served: "served o' r" by (simp add: o' served_def intent_operation_def)
  show ?thesis
      unfolding commit_fits_def
    proof (intro conjI allI impI)
      show "ob_id b = outbox_id_of (op_id o')" by (simp add: o' b)
      show "rt_ok r" "served o' r" by (fact rok, fact served)
    next
      fix p assume "bt_get (ps_operations ?s) (op_id o') = Some p"
      then show "op_key D p = op_key D o'" using fresh by (simp add: o')
    next
      fix q assume "bt_get (ps_runtimes ?s) (rt_project_id r) = Some q"
      then show "rt_desired_generation q \<le> rt_desired_generation r"
        using base by (simp add: g r next_generation_def)
    next
      fix k q assume q: "bt_get (ps_runtimes ?s) k = Some q" "k \<noteq> rt_project_id r"
      show "rt_host_slug q \<noteq> rt_host_slug r"
      proof (cases "bt_get (ps_runtimes ?s) ?p")
        case None
        then show ?thesis
          using allocated_slug_fresh [OF slug pub_invD(3) [OF inv] q(1)]
          by (simp add: r intent_base_def)
      next
        case (Some r0)
        then show ?thesis
          using pub_invD(10) [OF inv q(1) Some] q(2) base by (auto simp: r intent_base_def)
      qed
    next
      fix k p assume p: "bt_get (ps_operations ?s) k = Some p" "op_project_id p = op_project_id o'"
        "op_desired_generation p = op_desired_generation o'"
      from pub_invD(6) [OF inv p(1)] obtain r0 where r0: "bt_get (ps_runtimes ?s) ?p = Some r0"
        "op_desired_generation p \<le> rt_desired_generation r0"
        using p(2) by (auto simp: op_ok_def o')
      have "op_desired_generation p = sat_inc (rt_desired_generation r0)"
        using p(3) r0(1) by (simp add: g o' next_generation_def)
      from sat_inc_fix [OF r0(2) this] show "op_desired_generation o' = - 1" using p(3) by simp
    next
      fix oid assume "bt_get (ps_operation_by_idempotency ?s) (op_key D o') = Some oid"
      then show "oid = op_id o'" using key by (simp add: o')
    qed
qed

lemma pub_inv_intent:
  assumes inv: "pub_inv D (pub_mem st)"
  shows "pub_inv D (pub_mem (snd (pub_commit_intent D cd now rng io i st)))"
proof (cases rule: pub_intent_run [where D = D and cd = cd and now = now and rng = rng and io = io
      and i = i and st = st])
  case kept
  with inv show ?thesis by simp
next
  case (ran slug g r o' b)
  let ?s = "pub_mem st"
  let ?s' = "pub_mem (snd (pub_commit_intent D cd now rng io i st))"
  have snd: "snd (pub_commit_intent D cd now rng io i st) =
      snd (pub_persist_commit D cd io o' r b (intent_key D i) st)"
    unfolding ran(9) by (auto split: prod.splits sum.splits)
  consider (same) "?s' = ?s" | (stored)
      "pub_apply_commit_with_key ?s \<lparr>pc_sequence = sat_inc (ps_sequence ?s), pc_operation = o',
        pc_runtime = r, pc_outbox = b\<rparr> (intent_key D i) = Inr ?s'"
      "pub_validate_snapshot D ?s' = Inr ()"
    using pub_persist_mem [of D cd io o' r b "intent_key D i" st] snd by metis
  then show ?thesis
  proof cases
    case same
    with inv show ?thesis by simp
  next
    case stored
    have fresh: "bt_get (ps_operations ?s) (operation_id_of D i) = None"
      using stored_op_fresh [OF inv stored] ran(2) by (simp add: ran(7))
    have fits: "commit_fits D ?s o' r b"
      by (rule intent_fits [OF inv ran(1,2,4) fresh ran(5) ran(7) ran(6) ran(8)])
    have key: "op_key D o' = intent_key D i" by (simp add: ran(7))
    show ?thesis by (rule pub_inv_store [OF inv fits _ stored(2)]) (use stored(1) key in simp)
  qed
qed

lemma pub_inv_step: "pub_inv D (pub_mem st) \<Longrightarrow> pub_step D cd st st' \<Longrightarrow> pub_inv D (pub_mem st')"
  by (erule pub_step_cases) (auto intro: pub_inv_update pub_inv_intent)

lemma pub_reach_inv: "pub_reach D cd st \<Longrightarrow> pub_inv D (pub_mem st)"
  by (induction rule: pub_reach.induct) (auto intro: pub_inv_default pub_inv_step)

section \<open>How operations and runtime states evolve\<close>

text \<open>What a step stores: nothing, the rewrite of one linked triple, or a new operation.\<close>

lemma pub_step_stored:
  assumes inv: "pub_inv D (pub_mem st)" and step: "pub_step D cd st st'"
  obtains (same) "pub_mem st' = pub_mem st"
  | (rewritten) f bid o' r b o1 r1 b1 now where "pub_upd f" "triple_at (pub_mem st) bid o' r b"
      "outbox_linked o' r b" "f o' r b = Inr (o1, r1, b1)"
      "\<And>k. bt_get (ps_operations (pub_mem st')) k =
         (if k = op_id o' then Some (o1\<lparr>op_updated_at := now\<rparr>) else bt_get (ps_operations (pub_mem st)) k)"
      "\<And>k. bt_get (ps_runtimes (pub_mem st')) k =
         (if k = rt_project_id r then Some (r1\<lparr>rt_updated_at := now\<rparr>) else bt_get (ps_runtimes (pub_mem st)) k)"
  | (created) i g now r slug where
      "bt_get (ps_operation_by_idempotency (pub_mem st)) (intent_key D i) = None"
      "bt_get (ps_operations (pub_mem st)) (operation_id_of D i) = None"
      "g = next_generation i (pub_mem st)"
      "r = intent_runtime i g now (intent_base D i slug now (pub_mem st))"
      "\<And>k. bt_get (ps_operations (pub_mem st')) k = (if k = operation_id_of D i
         then Some (intent_operation D i g now) else bt_get (ps_operations (pub_mem st)) k)"
      "\<And>k. bt_get (ps_runtimes (pub_mem st')) k =
         (if k = in_project_id i then Some r else bt_get (ps_runtimes (pub_mem st)) k)"
proof (cases rule: pub_step_cases [OF step])
  case 1
  with same show thesis by simp
next
  case (2 now io bid f)
  show thesis
  proof (cases rule: pub_update_run [where D = D and cd = cd and now = now and io = io and bid = bid
        and f = f and st = st])
    case failed
    with 2 same show thesis by simp
  next
    case (ran o' r b o1 r1 b1)
    let ?o = "o1\<lparr>op_updated_at := now\<rparr>" and ?r = "r1\<lparr>rt_updated_at := now\<rparr>"
    let ?b = "b1\<lparr>ob_updated_at := now\<rparr>" and ?key = "scoped_key D (op_project_id o1) (op_idempotency_key_hash o1)"
    have st': "st' = snd (pub_persist_commit D cd io ?o ?r ?b ?key st)"
      unfolding 2(2) ran(4) by (auto split: prod.splits sum.splits)
    have id: "op_id o1 = op_id o'" "rt_project_id r1 = rt_project_id r"
      using pub_upd_ident [OF 2(1) ran(3)] op_identD [of o1 o'] rt_identD [of r1 r] by simp_all
    show thesis
    proof (cases "pub_mem st' = pub_mem st")
      case True
      with same show thesis .
    next
      case False
      then have app: "pub_apply_commit_with_key (pub_mem st) \<lparr>pc_sequence = sat_inc (ps_sequence (pub_mem st)),
          pc_operation = ?o, pc_runtime = ?r, pc_outbox = ?b\<rparr> ?key = Inr (pub_mem st')"
        using pub_persist_mem [of D cd io ?o ?r ?b ?key st] st' by auto
      show thesis
        by (rule rewritten [OF 2(1) ran(1-3), of now]) (simp_all add: pub_apply_get(1,2) [OF app] id)
    qed
  qed
next
  case (3 now rng io i)
  show thesis
  proof (cases rule: pub_intent_run [where D = D and cd = cd and now = now and rng = rng and io = io
        and i = i and st = st])
    case kept
    with 3 same show thesis by simp
  next
    case (ran slug g r o' b)
    have st': "st' = snd (pub_persist_commit D cd io o' r b (intent_key D i) st)"
      unfolding 3 ran(9) by (auto split: prod.splits sum.splits)
    have proj: "rt_project_id r = in_project_id i"
      using pub_invD(8) [OF inv] by (auto simp: ran(6) intent_base_def split: option.split)
    show thesis
    proof (cases "pub_mem st' = pub_mem st")
      case True
      with same show thesis .
    next
      case False
      then have app: "pub_apply_commit_with_key (pub_mem st) \<lparr>pc_sequence = sat_inc (ps_sequence (pub_mem st)),
          pc_operation = o', pc_runtime = r, pc_outbox = b\<rparr> (intent_key D i) = Inr (pub_mem st')"
        and valid: "pub_validate_snapshot D (pub_mem st') = Inr ()"
        using pub_persist_mem [of D cd io o' r b "intent_key D i" st] st' by auto
      have new: "bt_get (ps_operations (pub_mem st)) (operation_id_of D i) = None"
        using stored_op_fresh [OF inv app valid ran(2)] by (simp add: ran(7))
      show thesis
        by (rule created [OF ran(2) new ran(5) ran(6)])
          (simp_all add: pub_apply_get(1,2) [OF app] proj ran(7))
    qed
  qed
qed

lemma pub_step_runtime:
  assumes inv: "pub_inv D (pub_mem st)" and step: "pub_step D cd st st'"
    and r: "bt_get (ps_runtimes (pub_mem st)) p = Some r"
  obtains r' where "bt_get (ps_runtimes (pub_mem st')) p = Some r'"
    "rt_desired_generation r \<le> rt_desired_generation r'" "rt_host_slug r' = rt_host_slug r"
  using inv step
proof (cases rule: pub_step_stored)
  case same
  with r that show thesis by simp
next
  case (rewritten f bid o' q b o1 r1 b1 now)
  have q: "bt_get (ps_runtimes (pub_mem st)) (rt_project_id q) = Some q"
    using rewritten(2,3) by (simp add: triple_at_def outbox_linked_def)
  have "rt_desired_generation r1 = rt_desired_generation q" "rt_host_slug r1 = rt_host_slug q"
    using pub_upd_ident [OF rewritten(1,4)] rt_identD [of r1 q] by simp_all
  with r q rewritten(6) that show thesis by (cases "p = rt_project_id q") auto
next
  case (created i g now q slug)
  with r that show thesis
    by (cases "p = in_project_id i") (auto simp: next_generation_def intent_base_def)
qed

text \<open>An operation keeps its identity; one that a newer generation superseded does not change at all.\<close>

lemma pub_step_operation:
  assumes inv: "pub_inv D (pub_mem st)" and step: "pub_step D cd st st'"
    and o': "bt_get (ps_operations (pub_mem st)) k = Some o'"
  obtains p where "bt_get (ps_operations (pub_mem st')) k = Some p" "op_ident p = op_ident o'"
    "\<And>r. bt_get (ps_runtimes (pub_mem st)) (op_project_id o') = Some r \<Longrightarrow>
       op_desired_generation o' < rt_desired_generation r \<Longrightarrow> p = o'"
  using inv step
proof (cases rule: pub_step_stored)
  case same
  with o' that show thesis by simp
next
  case (rewritten f bid q r b o1 r1 b1 now)
  have q: "bt_get (ps_operations (pub_mem st)) (op_id q) = Some q"
    "bt_get (ps_runtimes (pub_mem st)) (op_project_id q) = Some r"
    "op_desired_generation q = rt_desired_generation r"
    using rewritten(2,3) by (simp_all add: triple_at_def outbox_linked_def)
  show thesis
  proof (cases "k = op_id q")
    case True
    with o' q have "q = o'" by simp
    with that [of "o1\<lparr>op_updated_at := now\<rparr>"] rewritten(5) True q pub_upd_ident [OF rewritten(1,4)]
    show thesis by auto
  next
    case False
    with o' rewritten(5) that show thesis by simp
  qed
next
  case (created i g now r slug)
  with o' that show thesis by (cases "k = operation_id_of D i") auto
qed

end
