(* ===== verification/PublicationProgress.thy ===== *)
theory PublicationProgress
  imports PublicationInvariants
begin

text \<open>
  What succeeds when no file effect fails: the first intent of a project commits, and rewriting the
  triple of a current outbox event never trips \<open>validate_snapshot\<close>. These lemmas also build the
  concrete runs the witnesses use.
\<close>

section \<open>Validation, declaratively\<close>

lemma first_error_None: "first_error f xs = None \<longleftrightarrow> (\<forall>x \<in> set xs. f x = None)"
  by (induction xs) (auto split: option.split)

lemma pub_validate_iff:
  "pub_validate_snapshot D s = Inr () \<longleftrightarrow>
     length (ps_operation_by_idempotency s) = length (ps_operations s) \<and>
     (\<forall>r \<in> set (bt_values (ps_runtimes s)). runtime_valid r) \<and>
     (\<forall>kv \<in> set (ps_operation_by_idempotency s). check_index_entry D s kv = None) \<and>
     (\<forall>p \<in> set (bt_values (ps_operations s)). check_operation s p = None)"
  by (auto simp: pub_validate_snapshot_def first_error_None [symmetric] list_all_iff
      split: option.splits if_splits)

definition op_shape :: "publish_operation \<Rightarrow> bool" where
  "op_shape p \<longleftrightarrow> op_schema_version p = publish_operation_schema \<and>
     length (op_idempotency_key_hash p) = 64 \<and> length (op_request_hash p) = 64"

lemma op_shape_ident: "op_ident p = op_ident q \<Longrightarrow> op_shape p = op_shape q"
  by (simp add: op_shape_def op_ident_def)

text \<open>What validation adds to the links of \<open>pub_inv\<close>.\<close>

lemma pub_inv_shape:
  assumes inv: "pub_inv D s"
  shows "bt_get (ps_operations s) k = Some p \<Longrightarrow> op_shape p"
    and "bt_get (ps_operations s) k = Some p \<Longrightarrow> bt_get (ps_outbox s) (outbox_id_of k) = Some b \<Longrightarrow>
      ob_schema_version b = publication_outbox_schema"
proof -
  note v = pub_invD(1) [OF inv, unfolded pub_validate_iff]
  show "op_shape p" if p: "bt_get (ps_operations s) k = Some p"
  proof -
    have ok: "op_ok D s k p" by (rule pub_invD(6) [OF inv p])
    then have "(op_key D p, k) \<in> set (ps_operation_by_idempotency s)"
      using bt_get_iff [OF pub_invD(5) [OF inv]] by (simp add: op_ok_def)
    with v have "check_index_entry D s (op_key D p, k) = None" by blast
    then show ?thesis using p by (auto simp: check_index_entry_def op_shape_def split: if_splits)
  qed
  show "ob_schema_version b = publication_outbox_schema"
    if p: "bt_get (ps_operations s) k = Some p" and b: "bt_get (ps_outbox s) (outbox_id_of k) = Some b"
  proof -
    have "p \<in> set (bt_values (ps_operations s))"
      using p bt_in_values [OF pub_invD(2) [OF inv]] by auto
    with v have c: "check_operation s p = None" by blast
    have idp: "op_id p = k" using pub_invD(6) [OF inv p] by (simp add: op_ok_def)
    have "bt_find (\<lambda>b. ob_operation_id b = op_id p) (ps_outbox s) = Some b"
    proof (rule bt_find_unique [OF pub_invD(4) [OF inv] b])
      show "ob_operation_id b = op_id p" using pub_invD(7) [OF inv b] idp by (simp add: ob_ok_def)
    next
      fix j w assume "bt_get (ps_outbox s) j = Some w" "ob_operation_id w = op_id p"
      with pub_invD(7) [OF inv this(1)] idp b show "w = b" by (simp add: ob_ok_def)
    qed
    with c show ?thesis by (auto simp: check_operation_def split: if_splits)
  qed
qed

text \<open>The links of the invariant and the shapes make a snapshot valid.\<close>

lemma pub_validate_links:
  assumes wf: "bt_wf (ps_operations s)" "bt_wf (ps_runtimes s)" "bt_wf (ps_outbox s)"
      "bt_wf (ps_operation_by_idempotency s)"
    and len: "length (ps_operation_by_idempotency s) = length (ps_operations s)"
    and ops: "\<And>k p. bt_get (ps_operations s) k = Some p \<Longrightarrow> op_ok D s k p \<and> op_shape p"
    and obs: "\<And>k b. bt_get (ps_outbox s) k = Some b \<Longrightarrow>
        ob_ok s k b \<and> ob_schema_version b = publication_outbox_schema"
    and rts: "\<And>k r. bt_get (ps_runtimes s) k = Some r \<Longrightarrow> rt_ok r"
    and idx: "\<And>k oid. bt_get (ps_operation_by_idempotency s) k = Some oid \<Longrightarrow>
        \<exists>p. bt_get (ps_operations s) oid = Some p \<and> op_key D p = k"
  shows "pub_validate_snapshot D s = Inr ()"
  unfolding pub_validate_iff
proof (intro conjI ballI)
  show "length (ps_operation_by_idempotency s) = length (ps_operations s)" by (fact len)
next
  fix r assume "r \<in> set (bt_values (ps_runtimes s))"
  with rts show "runtime_valid r" by (auto simp: bt_in_values [OF wf(2)] rt_ok_def)
next
  fix kv assume "kv \<in> set (ps_operation_by_idempotency s)"
  then have "bt_get (ps_operation_by_idempotency s) (fst kv) = Some (snd kv)"
    using bt_get_iff [OF wf(4)] by simp
  from idx [OF this] obtain p where p: "bt_get (ps_operations s) (snd kv) = Some p" "op_key D p = fst kv"
    by blast
  with ops [OF p(1)] show "check_index_entry D s kv = None"
    by (auto simp: check_index_entry_def op_shape_def op_ok_def op_key_def)
next
  fix p assume "p \<in> set (bt_values (ps_operations s))"
  then obtain k where k: "bt_get (ps_operations s) k = Some p" by (auto simp: bt_in_values [OF wf(1)])
  from ops [OF k] obtain b r where b: "bt_get (ps_outbox s) (outbox_id_of k) = Some b"
    and idp: "op_id p = k" and r: "bt_get (ps_runtimes s) (op_project_id p) = Some r"
      "op_desired_generation p \<le> rt_desired_generation r" by (auto simp: op_ok_def)
  have find: "bt_find (\<lambda>b. ob_operation_id b = op_id p) (ps_outbox s) = Some b"
  proof (rule bt_find_unique [OF wf(3) b])
    show "ob_operation_id b = op_id p" using obs [OF b] idp by (simp add: ob_ok_def)
  next
    fix j w assume w: "bt_get (ps_outbox s) j = Some w" "ob_operation_id w = op_id p"
    with obs [OF w(1)] idp b show "w = b" by (simp add: ob_ok_def)
  qed
  have "ob_desired_generation b = op_desired_generation p"
    using obs [OF b] k by (auto simp: ob_ok_def)
  then show "check_operation s p = None"
    using find r obs [OF b] by (simp add: check_operation_def not_less)
qed

section \<open>Commits that validate\<close>

lemma commit_validates:
  assumes inv: "pub_inv D s" and fits: "commit_fits D s o' r b"
    and app: "pub_apply_commit_with_key s \<lparr>pc_sequence = n, pc_operation = o', pc_runtime = r,
        pc_outbox = b\<rparr> (op_key D o') = Inr s'"
    and shape: "op_shape o'" "ob_schema_version b = publication_outbox_schema"
    and size: "(bt_get (ps_operations s) (op_id o') = None) =
      (bt_get (ps_operation_by_idempotency s) (op_key D o') = None)"
  shows "pub_validate_snapshot D s' = Inr ()"
proof -
  have links: "pub_links D s'" by (rule pub_links_store [OF inv fits app])
  then have l: "bt_wf (ps_operations s')" "bt_wf (ps_runtimes s')" "bt_wf (ps_outbox s')"
    "bt_wf (ps_operation_by_idempotency s')"
    "\<And>k p. bt_get (ps_operations s') k = Some p \<Longrightarrow> op_ok D s' k p"
    "\<And>k c. bt_get (ps_outbox s') k = Some c \<Longrightarrow> ob_ok s' k c"
    "\<And>k q. bt_get (ps_runtimes s') k = Some q \<Longrightarrow> rt_ok q"
    "\<And>k oid. bt_get (ps_operation_by_idempotency s') k = Some oid \<Longrightarrow>
        \<exists>p. bt_get (ps_operations s') oid = Some p \<and> op_key D p = k"
    unfolding pub_links_def by blast+
  have len0: "length (ps_operation_by_idempotency s) = length (ps_operations s)"
    using pub_invD(1) [OF inv] by (simp add: pub_validate_iff)
  have len: "length (ps_operation_by_idempotency s') = length (ps_operations s')"
    using pub_apply_get(7,8) [OF app] size len0 pub_invD(2,5) [OF inv]
      bt.length_ins [of "ps_operations s"] bt.length_ins [of "ps_operation_by_idempotency s"]
    by simp
  note get = pub_apply_get(1,3) [OF app, simplified]
  have ops: "op_shape p" if "bt_get (ps_operations s') k = Some p" for k p
    using that shape(1) pub_inv_shape(1) [OF inv] unfolding get by (auto split: if_splits)
  have obs: "ob_schema_version c = publication_outbox_schema"
    if c: "bt_get (ps_outbox s') k = Some c" for k c
  proof (cases "k = ob_id b")
    case True
    then show ?thesis using c shape(2) unfolding get by simp
  next
    case False
    with c have c0: "bt_get (ps_outbox s) k = Some c" unfolding get by simp
    from pub_invD(7) [OF inv c0] obtain p where
      "bt_get (ps_operations s) (ob_operation_id c) = Some p" "k = outbox_id_of (ob_operation_id c)"
      by (auto simp: ob_ok_def)
    with pub_inv_shape(2) [OF inv this(1)] c0 show ?thesis by simp
  qed
  show ?thesis
    by (rule pub_validate_links [OF l(1-4) len]) (use l(5-8) ops obs in auto)
qed

lemma pub_persist_ok:
  assumes "pub_apply_commit_with_key (pub_mem st) \<lparr>pc_sequence = sat_inc (ps_sequence (pub_mem st)),
        pc_operation = o', pc_runtime = r, pc_outbox = b\<rparr> key = Inr s'"
    and "pub_validate_snapshot D s' = Inr ()"
  shows "fst (pub_persist_commit D cd io_ok o' r b key st) = Inr ()"
    "pub_mem (snd (pub_persist_commit D cd io_ok o' r b key st)) = s'"
  using assms
  by (simp_all add: pub_persist_commit_def pub_append_commit_def append_bytes_def io_ok_def
      pub_sync_mirror_def pub_write_checkpoint_def replace_checkpoint_def Let_def)

lemma pub_apply_total:
  "outbox_linked o' r b \<Longrightarrow> \<exists>s'. pub_apply_commit_with_key s \<lparr>pc_sequence = n, pc_operation = o',
     pc_runtime = r, pc_outbox = b\<rparr> key = Inr s'"
  by (simp add: pub_apply_commit_with_key_def outbox_linked_def Let_def)

text \<open>
  An update of a current outbox event whose closure succeeds is committed, and the event then stands
  for the rewritten triple.
\<close>

lemma pub_update_ok:
  assumes inv: "pub_inv D (pub_mem st)" and f: "pub_upd f"
    and at: "triple_at (pub_mem st) bid o' r b" and link: "outbox_linked o' r b"
    and run: "f o' r b = Inr (o1, r1, b1)"
    and o2: "o2 = o1\<lparr>op_updated_at := now\<rparr>" and r2: "r2 = r1\<lparr>rt_updated_at := now\<rparr>"
    and b2: "b2 = b1\<lparr>ob_updated_at := now\<rparr>"
  shows "fst (pub_update_outbox D cd now io_ok bid f st) = Inr (o2, r2, b2)"
    "triple_at (pub_mem (snd (pub_update_outbox D cd now io_ok bid f st))) bid o2 r2 b2"
    "outbox_linked o2 r2 b2"
proof -
  let ?s = "pub_mem st"
  have id: "op_ident o2 = op_ident o'" "rt_ident r2 = rt_ident r" "ob_ident b2 = ob_ident b"
    using pub_upd_ident [OF f run] by (simp_all add: o2 r2 b2)
  note oid = op_identD [OF id(1)] and rid = rt_identD [OF id(2)] and bid' = ob_identD [OF id(3)]
  show link2: "outbox_linked o2 r2 b2" using link oid rid bid' by (simp add: outbox_linked_def)
  have fits: "commit_fits D ?s o2 r2 b2"
    unfolding o2 r2 b2 by (rule pub_update_fits [OF inv f at link run])
  have at': "bt_get (ps_outbox ?s) bid = Some b" "bt_get (ps_operations ?s) (ob_operation_id b) = Some o'"
    using at by (simp_all add: triple_at_def)
  have oo: "op_ok D ?s (op_id o') o'" "bt_get (ps_operations ?s) (op_id o') = Some o'"
    using pub_invD(6) [OF inv at'(2)] at'(2) link by (simp_all add: outbox_linked_def)
  have bo: "ob_id b = bid" "bid = outbox_id_of (op_id o')"
    using pub_invD(7) [OF inv at'(1)] link by (auto simp: ob_ok_def outbox_linked_def)
  obtain s' where app: "pub_apply_commit_with_key ?s \<lparr>pc_sequence = sat_inc (ps_sequence ?s),
      pc_operation = o2, pc_runtime = r2, pc_outbox = b2\<rparr> (op_key D o2) = Inr s'"
    using pub_apply_total [OF link2] by blast
  have shape: "op_shape o2" using pub_inv_shape(1) [OF inv oo(2)] op_shape_ident [OF id(1)] by simp
  have schema: "ob_schema_version b2 = publication_outbox_schema"
    using pub_inv_shape(2) [OF inv oo(2)] at'(1) bo(2) id(3) by (simp add: ob_ident_def)
  have valid: "pub_validate_snapshot D s' = Inr ()"
    by (rule commit_validates [OF inv fits app shape schema]) (use oo oid in \<open>simp add: op_ok_def\<close>)
  note P = pub_persist_ok [OF app valid, of cd]
  have key: "scoped_key D (op_project_id o1) (op_idempotency_key_hash o1) = op_key D o2"
    by (simp add: o2 op_key_def)
  have u: "pub_update_outbox D cd now io_ok bid f st =
      (Inr (o2, r2, b2), snd (pub_persist_commit D cd io_ok o2 r2 b2 (op_key D o2) st))"
    unfolding pub_update_eq [where f = f, OF at link run] key o2 [symmetric] r2 [symmetric] b2 [symmetric]
    using P(1) by (cases "pub_persist_commit D cd io_ok o2 r2 b2 (op_key D o2) st") simp
  show "fst (pub_update_outbox D cd now io_ok bid f st) = Inr (o2, r2, b2)" by (simp add: u)
  show "triple_at (pub_mem (snd (pub_update_outbox D cd now io_ok bid f st))) bid o2 r2 b2"
    unfolding u snd_conv P(2) triple_at_def
    using pub_apply_get(1-3) [OF app] bid' bo link2 by (simp add: outbox_linked_def)
qed

text \<open>An intent that passes its checks, with a new key and operation id, commits.\<close>

lemma pub_intent_ok:
  assumes inv: "pub_inv D (pub_mem st)" and v: "validate_intent i = Inr ()" and D: "digest32 D"
    and key: "bt_get (ps_operation_by_idempotency (pub_mem st)) (intent_key D i) = None"
    and fresh: "bt_get (ps_operations (pub_mem st)) (operation_id_of D i) = None"
    and cas: "validate_compare_and_set (bt_get (ps_runtimes (pub_mem st)) (in_project_id i)) i = Inr ()"
    and slug: "allocate_host_slug D rng (pub_mem st) = Inr slug"
    and g: "g = next_generation i (pub_mem st)" and o': "o' = intent_operation D i g now"
    and r: "r = intent_runtime i g now (intent_base D i slug now (pub_mem st))"
    and b: "b = intent_outbox D i g now"
  shows "fst (pub_commit_intent D cd now rng io_ok i st) = Inr (o', r)"
    "triple_at (pub_mem (snd (pub_commit_intent D cd now rng io_ok i st)))
       (outbox_id_of (operation_id_of D i)) o' r b"
    "outbox_linked o' r b"
proof -
  let ?s = "pub_mem st"
  have proj: "rt_project_id r = in_project_id i"
    using pub_invD(8) [OF inv] by (auto simp: r intent_base_def split: option.split)
  show link: "outbox_linked o' r b"
    using proj by (simp add: outbox_linked_def o' b r intent_operation_def intent_outbox_def)
  have fits: "commit_fits D ?s o' r b"
    by (rule intent_fits [OF inv v key slug fresh g o' r b])
  obtain s' where app: "pub_apply_commit_with_key ?s \<lparr>pc_sequence = sat_inc (ps_sequence ?s),
      pc_operation = o', pc_runtime = r, pc_outbox = b\<rparr> (op_key D o') = Inr s'"
    using pub_apply_total [OF link] by blast
  have shape: "op_shape o'" "ob_schema_version b = publication_outbox_schema"
    using D by (simp_all add: op_shape_def o' b intent_operation_def intent_outbox_def intent_key_hash_def
        intent_request_hash_def length_sha256_hex length_framed_hash)
  have valid: "pub_validate_snapshot D s' = Inr ()"
    by (rule commit_validates [OF inv fits app shape]) (use fresh key in \<open>simp add: o'\<close>)
  note P = pub_persist_ok [OF app valid, of cd]
  have k: "op_key D o' = intent_key D i" by (simp add: o')
  have u: "pub_commit_intent D cd now rng io_ok i st =
      (Inr (o', r), snd (pub_persist_commit D cd io_ok o' r b (op_key D o') st))"
    using pub_commit_intent_fresh [OF v key cas slug g r, of cd io_ok] P(1)
    by (cases "pub_persist_commit D cd io_ok o' r b (op_key D o') st") (simp add: k o' [symmetric] b [symmetric])
  show "fst (pub_commit_intent D cd now rng io_ok i st) = Inr (o', r)" by (simp add: u)
  have ids: "ob_operation_id b = operation_id_of D i" "op_id o' = operation_id_of D i"
    "ob_project_id b = in_project_id i" "ob_id b = outbox_id_of (operation_id_of D i)"
    by (simp_all add: o' b intent_outbox_def outbox_id_of_def)
  show "triple_at (pub_mem (snd (pub_commit_intent D cd now rng io_ok i st)))
       (outbox_id_of (operation_id_of D i)) o' r b"
    using pub_apply_get(1-3) [OF app] proj ids by (simp add: u P(2) triple_at_def)
qed

end
