(* ===== verification/PublicationProps.thy ===== *)
theory PublicationProps
  imports PublicationProgress
begin

text \<open>
  The properties of the publication store, each with a run of the store on concrete data that shows
  its hypotheses can hold together.
\<close>

section \<open>A concrete run\<close>

text \<open>A digest that tells two keys apart: the last byte at both ends of 32 bytes.\<close>

definition end_digest :: digest where
  "end_digest b = (let c = (if b = [] then CHR 0x00 else last b) in c # replicate 30 (CHR 0x00) @ [c])"

lemma end_digest32: "digest32 end_digest"
  by (simp add: digest32_def end_digest_def Let_def)

lemma end_digest_hex:
  "b \<noteq> [] \<Longrightarrow> \<exists>t. sha256_hex end_digest b = hex_byte (last b) @ t @ hex_byte (last b)"
  by (simp add: sha256_hex_def end_digest_def Let_def)

lemma end_digest_last:
  "b \<noteq> [] \<Longrightarrow> last (sha256_hex end_digest b) = hex_digit (code (last b) mod 16)"
  "sha256_hex end_digest b \<noteq> []"
  using end_digest_hex [of b] end_digest32 length_sha256_hex [of end_digest b]
  by (auto simp: hex_byte_def)

lemma last_frame: "f \<noteq> [] \<Longrightarrow> last (frame (fs @ [f])) = last f" "f \<noteq> [] \<Longrightarrow> frame (fs @ [f]) \<noteq> []"
  by (simp_all add: frame_def)

definition null_pub_codec :: publication_codec where
  "null_pub_codec = \<lparr>pub_ser_commit = (\<lambda>_. ''{}''), pub_parse_commit = (\<lambda>_. Inl ''eof''),
     pub_ser_snapshot = (\<lambda>_. ''{}''), pub_parse_snapshot = (\<lambda>_. Inl ''eof'')\<rparr>"

definition sample_intent :: "publish_operation_kind \<Rightarrow> string \<Rightarrow> u64 \<Rightarrow> publication_intent" where
  "sample_intent kind key g = \<lparr>in_project_id = ''p1'', in_workspace_namespace = ''ws-a'', in_kind = kind,
     in_release_id = (if kind = Kind_Unpublish then None else Some ''rel''),
     in_expected_current_release_id = None, in_expected_generation = Some g,
     in_runtime_profile_id = ''static-web-v1'', in_idempotency_key = key\<rparr>"

definition sample_rng :: "nat \<Rightarrow> string" where
  "sample_rng n = replicate 16 (CHR 0x00)"

definition pub_empty :: publication_store where
  "pub_empty = \<lparr>pub_files = no_files, pub_mem = publication_snapshot_default, pub_mirrored = False\<rparr>"

lemma pub_empty_get [simp]:
  "bt_get (ps_operations (pub_mem pub_empty)) k = None" "bt_get (ps_runtimes (pub_mem pub_empty)) k = None"
  "bt_get (ps_outbox (pub_mem pub_empty)) k = None"
  "bt_get (ps_operation_by_idempotency (pub_mem pub_empty)) k = None"
  "ps_sequence (pub_mem pub_empty) = 0" "ps_runtimes (pub_mem pub_empty) = []"
  by (simp_all add: pub_empty_def publication_snapshot_default_def bt_empty_def)

lemma pub_reach_empty: "pub_reach D cd pub_empty"
  unfolding pub_empty_def by (rule pr_open)

lemma sample_intent_valid:
  "in_kind (sample_intent kind key g) \<in> {Kind_Publish, Kind_Unpublish} \<Longrightarrow>
   \<not> is_blank key \<Longrightarrow> length key \<le> 256 \<Longrightarrow> validate_intent (sample_intent kind key g) = Inr ()"
  by (auto simp: validate_intent_def sample_intent_def validate_workspace_namespace_def starts_with_def
      string_defs intent_fields_def is_blank_ascii none_or_empty_def)

lemma sample_slug: "\<exists>c. allocate_host_slug D sample_rng (pub_mem pub_empty) = Inr c"
  by (simp add: allocate_host_slug_def upt_rec)

definition sample_published :: publication_store where
  "sample_published = snd (pub_commit_intent end_digest null_pub_codec 1 sample_rng io_ok
     (sample_intent Kind_Publish ''k1'' 0) pub_empty)"

definition sample_bid :: string where
  "sample_bid = outbox_id_of (operation_id_of end_digest (sample_intent Kind_Publish ''k1'' 0))"

definition so0 where "so0 = intent_operation end_digest (sample_intent Kind_Publish ''k1'' 0) 1 1"

definition sb0 where "sb0 = intent_outbox end_digest (sample_intent Kind_Publish ''k1'' 0) 1 1"

definition sample_ready :: "bool \<Rightarrow> observed_work_runtime" where
  "sample_ready external = \<lparr>ow_deployment = \<lparr>ki_name = ''d'', ki_uid = ''u1'', ki_resource_version = ''1''\<rparr>,
     ow_service = \<lparr>ki_name = ''s'', ki_uid = ''u2'', ki_resource_version = ''1''\<rparr>,
     ow_ingress = (if external then Some \<lparr>ki_name = ''i'', ki_uid = ''u3'', ki_resource_version = ''1''\<rparr> else None),
     ow_ready = True, ow_release_identity_verified = True,
     ow_external_release_identity_verified = external\<rparr>"

definition sample_completed :: publication_store where
  "sample_completed = snd (pub_record_workload_ready end_digest null_pub_codec (\<lambda>_. 2) io_ok sample_bid
     (sample_ready True) sample_published)"

definition sr_base where
  "sr_base slug = intent_runtime (sample_intent Kind_Publish ''k1'' 0) 1 1
     (initial_runtime end_digest (sample_intent Kind_Publish ''k1'' 0) slug 1)"

lemma sample_published_ok:
  "\<exists>slug. fst (pub_commit_intent end_digest null_pub_codec 1 sample_rng io_ok
      (sample_intent Kind_Publish ''k1'' 0) pub_empty) = Inr (so0, sr_base slug) \<and>
    triple_at (pub_mem sample_published) sample_bid so0 (sr_base slug) sb0 \<and>
    outbox_linked so0 (sr_base slug) sb0 \<and>
    allocate_host_slug end_digest sample_rng (pub_mem pub_empty) = Inr slug"
proof -
  let ?i = "sample_intent Kind_Publish ''k1'' 0"
  obtain slug where slug: "allocate_host_slug end_digest sample_rng (pub_mem pub_empty) = Inr slug"
    using sample_slug by blast
  have v: "validate_intent ?i = Inr ()"
    by (rule sample_intent_valid) (simp_all add: sample_intent_def is_blank_ascii)
  have cas: "validate_compare_and_set (bt_get (ps_runtimes (pub_mem pub_empty)) (in_project_id ?i)) ?i = Inr ()"
    by (simp add: validate_compare_and_set_def sample_intent_def)
  have g: "1 = next_generation ?i (pub_mem pub_empty)" by (simp add: next_generation_def)
  have r: "sr_base slug = intent_runtime ?i 1 1 (intent_base end_digest ?i slug 1 (pub_mem pub_empty))"
    by (simp add: sr_base_def intent_base_def)
  show ?thesis
    using slug pub_intent_ok [OF pub_reach_inv [OF pub_reach_empty] v end_digest32 _ _ cas slug g so0_def r sb0_def]
    by (auto simp: sample_published_def sample_bid_def)
qed

lemma sample_reach_published: "pub_reach end_digest null_pub_codec sample_published"
  unfolding sample_published_def by (rule pr_step [OF pub_reach_empty ps_intent])

lemma sample_reach_completed: "pub_reach end_digest null_pub_codec sample_completed"
  unfolding sample_completed_def by (rule pr_step [OF sample_reach_published ps_ready])

lemma sample_completed_ok:
  "\<exists>o' r b. triple_at (pub_mem sample_completed) sample_bid o' r b \<and> outbox_linked o' r b \<and>
     op_status o' = Op_Completed \<and> rt_desired_generation r = 1 \<and> rt_project_id r = ''p1'' \<and>
     op_project_id o' = ''p1'' \<and> rt_current_release_id r = Some ''rel'' \<and>
     op_id o' = operation_id_of end_digest (sample_intent Kind_Publish ''k1'' 0)"
proof -
  obtain slug where at: "triple_at (pub_mem sample_published) sample_bid so0 (sr_base slug) sb0"
    and link: "outbox_linked so0 (sr_base slug) sb0" using sample_published_ok by blast
  have f: "pub_upd (workload_ready_upd (\<lambda>_. 2) (sample_ready True))"
    by (rule pu_ready) (simp_all add: sample_ready_def)
  have "rt_desired_release_id (sr_base slug) = Some ''rel''"
    by (simp add: sr_base_def intent_runtime_def sample_intent_def)
  then have "\<exists>q. workload_ready_upd (\<lambda>_. 2) (sample_ready True) so0 (sr_base slug) sb0 = Inr q"
    using link by (simp add: workload_ready_upd_def outbox_linked_def)
  then obtain o1 r1 b1 where run: "workload_ready_upd (\<lambda>_. 2) (sample_ready True) so0 (sr_base slug) sb0
      = Inr (o1, r1, b1)" by (metis prod_cases3)
  note fields = workload_ready_fields [OF run]
  note ok = pub_update_ok [OF pub_reach_inv [OF sample_reach_published] f at link run refl refl refl]
  have sc: "sample_completed = snd (pub_update_outbox end_digest null_pub_codec 2 io_ok sample_bid
      (workload_ready_upd (\<lambda>_. 2) (sample_ready True)) sample_published)"
    by (simp add: sample_completed_def pub_record_workload_ready_def sample_ready_def)
  have "op_status o1 = Op_Completed" using fields(9) by (simp add: sample_ready_def)
  moreover have "rt_desired_generation r1 = 1" "rt_project_id r1 = ''p1''"
    using rt_identD [OF fields(7)] by (simp_all add: sr_base_def sample_intent_def)
  moreover have "op_project_id o1 = ''p1''"
    "op_id o1 = operation_id_of end_digest (sample_intent Kind_Publish ''k1'' 0)"
    using op_identD [OF fields(6)] by (simp_all add: so0_def sample_intent_def)
  moreover have "rt_current_release_id r1 = Some ''rel''"
    using fields(1) by (auto simp: sr_base_def intent_runtime_def sample_intent_def)
  ultimately show ?thesis
    using ok(2) [of null_pub_codec 2] ok(3) [of 2] unfolding sc
    by (intro exI [of _ "o1\<lparr>op_updated_at := 2\<rparr>"] exI [of _ "r1\<lparr>rt_updated_at := 2\<rparr>"]
        exI [of _ "b1\<lparr>ob_updated_at := 2\<rparr>"]) simp
qed

section \<open>The hash of a framed list\<close>

lemma hex_digit_inj: "m < 16 \<Longrightarrow> n < 16 \<Longrightarrow> hex_digit m = hex_digit n \<Longrightarrow> m = n"
proof -
  assume b: "m < 16" "n < 16" and e: "hex_digit m = hex_digit n"
  have "code (hex_digit k) = (if k < 10 then 48 + k else 87 + k)" if "k < 16" for k
    using that by (simp add: hex_digit_def)
  then have "(if m < 10 then 48 + m else 87 + m) = (if n < 10 then 48 + n else 87 + n)"
    using b e by metis
  then show ?thesis by (auto split: if_splits)
qed

lemma hex_byte_inj: "hex_byte c = hex_byte d \<Longrightarrow> c = d"
proof -
  assume "hex_byte c = hex_byte d"
  moreover have "code x div 16 < 16" for x :: char using code_lt [of x] by linarith
  ultimately have "code c div 16 = code d div 16" "code c mod 16 = code d mod 16"
    by (auto simp: hex_byte_def intro: hex_digit_inj)
  then have "code c = code d" by (metis mod_div_decomp)
  then show ?thesis by (metis char_of_char)
qed

lemma length_hex_byte: "length (hex_byte c) = 2"
  by (simp add: hex_byte_def)

lemma concat_hex_inj: "concat (map hex_byte s) = concat (map hex_byte t) \<Longrightarrow> s = t"
proof (induction s arbitrary: t)
  case Nil
  then show ?case by (cases t) (auto simp: hex_byte_def)
next
  case (Cons c s)
  then obtain d u where t: "t = d # u" by (cases t) (auto simp: hex_byte_def)
  have "hex_byte c = hex_byte d \<and> concat (map hex_byte s) = concat (map hex_byte u)"
    using Cons.prems append_eq_append_conv [of "hex_byte c" "hex_byte d"]
    unfolding t by (simp add: length_hex_byte)
  with Cons.IH hex_byte_inj show ?case unfolding t by blast
qed

lemma framed_hash_inj:
  assumes "frameable fs" "frameable gs" "inj_on D {frame fs, frame gs}"
    and "framed_hash D fs = framed_hash D gs"
  shows "fs = gs"
proof -
  have "D (frame fs) = D (frame gs)"
    using assms(4) concat_hex_inj by (auto simp: framed_hash_def sha256_hex_def)
  with assms(3) have "frame fs = frame gs" by (auto dest: inj_onD)
  with assms(1,2) show ?thesis by (simp add: frame_inj)
qed

section \<open>What a successful intent leaves\<close>

text \<open>A new key: every check passed and the operation, runtime state and outbox event are stored.\<close>

lemma committed_new_intent:
  assumes inv: "pub_inv D (pub_mem st)"
    and run: "pub_commit_intent D cd now rng io i st = (Inr (o', r), st')"
    and key: "bt_get (ps_operation_by_idempotency (pub_mem st)) (intent_key D i) = None"
  shows "validate_compare_and_set (bt_get (ps_runtimes (pub_mem st)) (in_project_id i)) i = Inr ()"
    "o' = intent_operation D i (next_generation i (pub_mem st)) now"
    "rt_desired_generation r = next_generation i (pub_mem st)"
    "rt_project_id r = in_project_id i"
    "bt_get (ps_operations (pub_mem st')) (op_id o') = Some o'"
    "bt_get (ps_runtimes (pub_mem st')) (in_project_id i) = Some r"
    "bt_get (ps_operation_by_idempotency (pub_mem st')) (intent_key D i) = Some (op_id o')"
    "k \<noteq> intent_key D i \<Longrightarrow> bt_get (ps_operation_by_idempotency (pub_mem st')) k =
       bt_get (ps_operation_by_idempotency (pub_mem st)) k"
    "k \<noteq> op_id o' \<Longrightarrow> bt_get (ps_operations (pub_mem st')) k = bt_get (ps_operations (pub_mem st)) k"
    "k \<noteq> in_project_id i \<Longrightarrow> bt_get (ps_runtimes (pub_mem st')) k = bt_get (ps_runtimes (pub_mem st)) k"
    "pub_apply_commit_with_key (pub_mem st) \<lparr>pc_sequence = sat_inc (ps_sequence (pub_mem st)),
       pc_operation = o', pc_runtime = r,
       pc_outbox = intent_outbox D i (next_generation i (pub_mem st)) now\<rparr> (intent_key D i) = Inr (pub_mem st')"
proof -
  have "is_ok (fst (pub_commit_intent D cd now rng io i st))" using run by simp
  then have "validate_intent i = Inr ()"
      "validate_compare_and_set (bt_get (ps_runtimes (pub_mem st)) (in_project_id i)) i = Inr ()"
      "is_ok (allocate_host_slug D rng (pub_mem st))"
    using key by (auto simp: pub_commit_intent_def intent_key_def Let_def split: sum.splits)
  then obtain slug where ok: "validate_intent i = Inr ()"
      "validate_compare_and_set (bt_get (ps_runtimes (pub_mem st)) (in_project_id i)) i = Inr ()"
      "allocate_host_slug D rng (pub_mem st) = Inr slug"
    by (auto simp: is_ok_ex)
  let ?g = "next_generation i (pub_mem st)"
  let ?r = "intent_runtime i ?g now (intent_base D i slug now (pub_mem st))"
  let ?P = "pub_persist_commit D cd io (intent_operation D i ?g now) ?r (intent_outbox D i ?g now)
      (intent_key D i) st"
  have "fst ?P = Inr () \<and> st' = snd ?P \<and> o' = intent_operation D i ?g now \<and> r = ?r"
    using run pub_commit_intent_fresh [OF ok(1) key ok(2,3) refl refl, of cd now io]
    by (auto split: prod.splits sum.splits)
  then have P: "fst ?P = Inr ()" "st' = snd ?P" "o' = intent_operation D i ?g now" "r = ?r"
    by simp_all
  from pub_persist_ok_mem [OF P(1)] have app: "pub_apply_commit_with_key (pub_mem st)
      \<lparr>pc_sequence = sat_inc (ps_sequence (pub_mem st)), pc_operation = o', pc_runtime = r,
       pc_outbox = intent_outbox D i ?g now\<rparr> (intent_key D i) = Inr (pub_mem st')"
    unfolding P by blast
  from app show "pub_apply_commit_with_key (pub_mem st)
      \<lparr>pc_sequence = sat_inc (ps_sequence (pub_mem st)), pc_operation = o', pc_runtime = r,
       pc_outbox = intent_outbox D i ?g now\<rparr> (intent_key D i) = Inr (pub_mem st')" .
  have "rt_project_id (intent_base D i slug now (pub_mem st)) = in_project_id i"
    using pub_invD(8) [OF inv] by (auto simp: intent_base_def split: option.split)
  then show proj: "rt_project_id r = in_project_id i" by (simp add: P(4))
  show "rt_desired_generation r = ?g" by (simp add: P(4))
  show "validate_compare_and_set (bt_get (ps_runtimes (pub_mem st)) (in_project_id i)) i = Inr ()"
    by (fact ok(2))
  show "o' = intent_operation D i ?g now" by (fact P(3))
  show "bt_get (ps_operations (pub_mem st')) (op_id o') = Some o'"
    "bt_get (ps_runtimes (pub_mem st')) (in_project_id i) = Some r"
    "bt_get (ps_operation_by_idempotency (pub_mem st')) (intent_key D i) = Some (op_id o')"
    "k \<noteq> intent_key D i \<Longrightarrow> bt_get (ps_operation_by_idempotency (pub_mem st')) k =
       bt_get (ps_operation_by_idempotency (pub_mem st)) k"
    "k \<noteq> op_id o' \<Longrightarrow> bt_get (ps_operations (pub_mem st')) k = bt_get (ps_operations (pub_mem st)) k"
    "k \<noteq> in_project_id i \<Longrightarrow> bt_get (ps_runtimes (pub_mem st')) k = bt_get (ps_runtimes (pub_mem st)) k"
    using pub_apply_get(1,2,4) [OF app] proj by simp_all
qed

text \<open>A known key answers from the store and writes nothing.\<close>

lemma known_intent:
  assumes key: "bt_get (ps_operation_by_idempotency (pub_mem st)) (intent_key D i) = Some oid"
    and at: "bt_get (ps_operations (pub_mem st)) oid = Some p"
      "bt_get (ps_runtimes (pub_mem st)) (in_project_id i) = Some r"
    and v: "validate_intent i = Inr ()"
  shows "pub_commit_intent D cd now rng io i st =
    (if op_request_hash p = intent_request_hash D i then Inr (p, r)
     else Inl (Pub_Conflict ''Idempotency-Key is already bound to a different request body''), st)"
  using assms by (simp add: pub_commit_intent_def intent_key_def Let_def)

lemma committed_intent:
  assumes inv: "pub_inv D (pub_mem st)"
    and run: "pub_commit_intent D cd now rng io i st = (Inr (o', r), st')"
  shows "bt_get (ps_operations (pub_mem st')) (op_id o') = Some o'"
    "bt_get (ps_runtimes (pub_mem st')) (in_project_id i) = Some r"
    "bt_get (ps_operation_by_idempotency (pub_mem st')) (intent_key D i) = Some (op_id o')"
    "op_request_hash o' = intent_request_hash D i" "op_key D o' = intent_key D i"
proof -
  have "bt_get (ps_operations (pub_mem st')) (op_id o') = Some o' \<and>
    bt_get (ps_runtimes (pub_mem st')) (in_project_id i) = Some r \<and>
    bt_get (ps_operation_by_idempotency (pub_mem st')) (intent_key D i) = Some (op_id o') \<and>
    op_request_hash o' = intent_request_hash D i \<and> op_key D o' = intent_key D i"
  proof (cases "bt_get (ps_operation_by_idempotency (pub_mem st)) (intent_key D i)")
    case None
    note c = committed_new_intent [OF inv run None]
    have "op_request_hash o' = intent_request_hash D i"
      unfolding c(2) by (simp add: intent_operation_def)
    moreover have "op_key D o' = intent_key D i" unfolding c(2) by simp
    ultimately show ?thesis using c(5-7) by simp
  next
    case (Some oid)
    from pub_invD(9) [OF inv Some] obtain p where p: "bt_get (ps_operations (pub_mem st)) oid = Some p"
        "op_key D p = intent_key D i" by blast
    moreover have "op_id p = oid" using pub_invD(6) [OF inv p(1)] by (simp add: op_ok_def)
    moreover have "p = o' \<and> op_request_hash p = intent_request_hash D i \<and>
        bt_get (ps_runtimes (pub_mem st)) (in_project_id i) = Some r \<and> st' = st"
      using run Some p(1)
      by (auto simp: pub_commit_intent_def intent_key_def Let_def split: sum.splits if_splits option.splits)
    ultimately show ?thesis using Some by auto
  qed
  then show "bt_get (ps_operations (pub_mem st')) (op_id o') = Some o'"
    "bt_get (ps_runtimes (pub_mem st')) (in_project_id i) = Some r"
    "bt_get (ps_operation_by_idempotency (pub_mem st')) (intent_key D i) = Some (op_id o')"
    "op_request_hash o' = intent_request_hash D i" "op_key D o' = intent_key D i" by blast+
qed

section \<open>What a successful update leaves\<close>

lemma pub_update_success:
  assumes "pub_update_outbox D cd now io bid f st = (Inr (o2, r2, b2), st')"
  obtains o' r b o1 r1 b1 where "triple_at (pub_mem st) bid o' r b" "outbox_linked o' r b"
    "f o' r b = Inr (o1, r1, b1)"
    "o2 = o1\<lparr>op_updated_at := now\<rparr>" "r2 = r1\<lparr>rt_updated_at := now\<rparr>" "b2 = b1\<lparr>ob_updated_at := now\<rparr>"
    "bt_get (ps_operations (pub_mem st')) (op_id o2) = Some o2"
    "bt_get (ps_runtimes (pub_mem st')) (rt_project_id r2) = Some r2"
    "bt_get (ps_outbox (pub_mem st')) (ob_id b2) = Some b2"
proof (cases rule: pub_update_run [where D = D and cd = cd and now = now and io = io and bid = bid
      and f = f and st = st])
  case failed
  with assms show thesis by simp
next
  case (ran o' r b o1 r1 b1)
  let ?o = "o1\<lparr>op_updated_at := now\<rparr>" and ?r = "r1\<lparr>rt_updated_at := now\<rparr>"
  let ?b = "b1\<lparr>ob_updated_at := now\<rparr>" and ?key = "scoped_key D (op_project_id o1) (op_idempotency_key_hash o1)"
  let ?P = "pub_persist_commit D cd io ?o ?r ?b ?key st"
  have q: "o2 = ?o" "r2 = ?r" "b2 = ?b" "fst ?P = Inr ()" "st' = snd ?P"
    using assms unfolding ran(4) by (auto split: prod.splits sum.splits)
  from pub_persist_ok_mem [OF q(4)] have app: "pub_apply_commit_with_key (pub_mem st)
      \<lparr>pc_sequence = sat_inc (ps_sequence (pub_mem st)), pc_operation = ?o, pc_runtime = ?r,
       pc_outbox = ?b\<rparr> ?key = Inr (pub_mem st')"
    unfolding q(5) by blast
  show thesis
    by (rule that [OF ran(1-3) q(1-3)]) (simp_all add: q(1-3) pub_apply_get(1-3) [OF app])
qed

lemma drop_outbox_ok:
  "drop_outbox q = (Inr (o', r), st') \<longleftrightarrow> (\<exists>b. q = (Inr (o', r, b), st'))"
  by (cases q; cases "fst q") (auto simp: drop_outbox_def)

text \<open>Along any steps the invariant holds, the operation keeps its identity and the generation of
  its project never falls.\<close>

abbreviation pub_steps :: "digest \<Rightarrow> publication_codec \<Rightarrow> publication_store \<Rightarrow> publication_store \<Rightarrow> bool" where
  "pub_steps D cd \<equiv> (pub_step D cd)\<^sup>*\<^sup>*"

lemma pub_steps_inv: "pub_steps D cd st st' \<Longrightarrow> pub_inv D (pub_mem st) \<Longrightarrow> pub_inv D (pub_mem st')"
  by (induction rule: rtranclp_induct) (auto intro: pub_inv_step)

lemma pub_steps_operation:
  assumes "pub_steps D cd st st'" "pub_inv D (pub_mem st)" "bt_get (ps_operations (pub_mem st)) k = Some o'"
  shows "\<exists>p. bt_get (ps_operations (pub_mem st')) k = Some p \<and> op_ident p = op_ident o'"
  using assms(1)
proof (induction rule: rtranclp_induct)
  case base
  with assms(3) show ?case by blast
next
  case (step y z)
  then obtain p where p: "bt_get (ps_operations (pub_mem y)) k = Some p" "op_ident p = op_ident o'" by blast
  from pub_step_operation [OF pub_steps_inv [OF step(1) assms(2)] step(2) p(1)] p(2) show ?case by metis
qed

lemma pub_steps_runtime:
  assumes "pub_steps D cd st st'" "pub_inv D (pub_mem st)" "bt_get (ps_runtimes (pub_mem st)) k = Some r"
  shows "\<exists>q. bt_get (ps_runtimes (pub_mem st')) k = Some q \<and>
    rt_desired_generation r \<le> rt_desired_generation q \<and> rt_host_slug q = rt_host_slug r"
  using assms(1)
proof (induction rule: rtranclp_induct)
  case base
  with assms(3) show ?case by blast
next
  case (step y z)
  then obtain q where q: "bt_get (ps_runtimes (pub_mem y)) k = Some q"
    "rt_desired_generation r \<le> rt_desired_generation q" "rt_host_slug q = rt_host_slug r" by blast
  from pub_step_runtime [OF pub_steps_inv [OF step(1) assms(2)] step(2) q(1)] q(2,3) show ?case
    by (metis order_trans)
qed

lemma pub_steps_frozen:
  assumes "pub_steps D cd st st'" "pub_inv D (pub_mem st)" "bt_get (ps_operations (pub_mem st)) k = Some o'"
    "bt_get (ps_runtimes (pub_mem st)) (op_project_id o') = Some r"
    "op_desired_generation o' < rt_desired_generation r"
  shows "bt_get (ps_operations (pub_mem st')) k = Some o'"
  using assms(1)
proof (induction rule: rtranclp_induct)
  case base
  with assms(3) show ?case by blast
next
  case (step y z)
  from pub_steps_runtime [OF step(1) assms(2,4)] obtain q where
    "bt_get (ps_runtimes (pub_mem y)) (op_project_id o') = Some q"
    "rt_desired_generation r \<le> rt_desired_generation q" by blast
  moreover from this(2) assms(5) have "op_desired_generation o' < rt_desired_generation q" by simp
  ultimately show ?case
    using pub_step_operation [OF pub_steps_inv [OF step(1) assms(2)] step(2,3)] by metis
qed

section \<open>A second intent\<close>

lemma end_digest_key:
  assumes "in_idempotency_key i \<noteq> []"
  shows "\<exists>c t. c = hex_digit (code (last (in_idempotency_key i)) mod 16) \<and>
    intent_key end_digest i = hex_byte c @ t @ hex_byte c"
proof -
  let ?h = "intent_key_hash end_digest i"
  have h: "?h \<noteq> []" "last ?h = hex_digit (code (last (in_idempotency_key i)) mod 16)"
    using end_digest_last(1) [OF assms] end_digest_last(2) by (simp_all add: intent_key_hash_def)
  have f: "frame [in_project_id i, ?h] \<noteq> []" "last (frame [in_project_id i, ?h]) = last ?h"
    using last_frame [OF h(1), of "[in_project_id i]"] by simp_all
  show ?thesis
    using end_digest_hex [OF f(1)] f(2) h(2)
    by (auto simp: intent_key_def scoped_key_def framed_hash_def)
qed

lemma sample_keys_differ:
  "intent_key end_digest (sample_intent kind ''k1'' g) \<noteq> intent_key end_digest (sample_intent kind' ''k2'' g')"
  "operation_id_of end_digest (sample_intent kind ''k1'' g) \<noteq> operation_id_of end_digest (sample_intent kind' ''k2'' g')"
proof -
  obtain t where t: "intent_key end_digest (sample_intent kind ''k1'' g) = hex_byte (hex_digit 1) @ t"
    using end_digest_key [of "sample_intent kind ''k1'' g"] by (auto simp: sample_intent_def)
  obtain u where u: "intent_key end_digest (sample_intent kind' ''k2'' g') = hex_byte (hex_digit 2) @ u"
    using end_digest_key [of "sample_intent kind' ''k2'' g'"] by (auto simp: sample_intent_def)
  have ne: "hex_byte (hex_digit 1) \<noteq> hex_byte (hex_digit 2)" "length (hex_byte c) = 2" for c
    by (simp_all add: hex_byte_def hex_digit_def)
  show "intent_key end_digest (sample_intent kind ''k1'' g) \<noteq> intent_key end_digest (sample_intent kind' ''k2'' g')"
    unfolding t u using ne by (metis append_eq_append_conv)
  show "operation_id_of end_digest (sample_intent kind ''k1'' g) \<noteq> operation_id_of end_digest (sample_intent kind' ''k2'' g')"
    unfolding operation_id_of_def intent_key_def [symmetric] t u using ne by simp
qed

lemma sample_published_run:
  "\<exists>slug. pub_commit_intent end_digest null_pub_codec 1 sample_rng io_ok
     (sample_intent Kind_Publish ''k1'' 0) pub_empty = (Inr (so0, sr_base slug), sample_published) \<and>
   allocate_host_slug end_digest sample_rng (pub_mem pub_empty) = Inr slug"
  using sample_published_ok by (metis prod.collapse sample_published_def)

definition second_rng :: "nat \<Rightarrow> string" where
  "second_rng n = replicate 16 (CHR 0x01)"

definition sample_superseded :: publication_store where
  "sample_superseded = snd (pub_commit_intent end_digest null_pub_codec 3 second_rng io_ok
     (sample_intent Kind_Unpublish ''k2'' 1) sample_published)"

lemma sample_fresh_k2:
  "bt_get (ps_operation_by_idempotency (pub_mem sample_published))
     (intent_key end_digest (sample_intent kind ''k2'' g)) = None"
  "bt_get (ps_operations (pub_mem sample_published))
     (operation_id_of end_digest (sample_intent kind ''k2'' g)) = None"
proof -
  obtain slug where run: "pub_commit_intent end_digest null_pub_codec 1 sample_rng io_ok
     (sample_intent Kind_Publish ''k1'' 0) pub_empty = (Inr (so0, sr_base slug), sample_published)"
    using sample_published_run by blast
  have n: "bt_get (ps_operation_by_idempotency (pub_mem pub_empty))
      (intent_key end_digest (sample_intent Kind_Publish ''k1'' 0)) = None" by simp
  note c = committed_new_intent [OF pub_reach_inv [OF pub_reach_empty] run n]
  have so: "op_id so0 = operation_id_of end_digest (sample_intent Kind_Publish ''k1'' 0)"
    by (simp add: so0_def)
  show "bt_get (ps_operation_by_idempotency (pub_mem sample_published))
     (intent_key end_digest (sample_intent kind ''k2'' g)) = None"
    using c(8) [OF sample_keys_differ(1) [symmetric]] by simp
  have "operation_id_of end_digest (sample_intent kind ''k2'' g) \<noteq> op_id so0"
    unfolding so using sample_keys_differ(2) [symmetric] .
  from c(9) [OF this] show "bt_get (ps_operations (pub_mem sample_published))
     (operation_id_of end_digest (sample_intent kind ''k2'' g)) = None" by simp
qed

lemma sample_published_runtime:
  "\<exists>r. bt_get (ps_runtimes (pub_mem sample_published)) k = (if k = ''p1'' then Some r else None) \<and>
     rt_desired_generation r = 1 \<and> rt_workspace_namespace r = ''ws-a'' \<and> rt_current_release_id r = None \<and>
     rt_host_slug r = host_candidate end_digest (sample_rng 0)"
proof -
  obtain slug where run: "pub_commit_intent end_digest null_pub_codec 1 sample_rng io_ok
      (sample_intent Kind_Publish ''k1'' 0) pub_empty = (Inr (so0, sr_base slug), sample_published)"
    and slug: "allocate_host_slug end_digest sample_rng (pub_mem pub_empty) = Inr slug"
    using sample_published_run by blast
  have n: "bt_get (ps_operation_by_idempotency (pub_mem pub_empty))
      (intent_key end_digest (sample_intent Kind_Publish ''k1'' 0)) = None" by simp
  note c = committed_new_intent [OF pub_reach_inv [OF pub_reach_empty] run n]
  have "slug = host_candidate end_digest (sample_rng 0)"
    using slug by (simp add: allocate_host_slug_def upt_rec)
  then show ?thesis
    using c(6) c(10) [of k]
    by (auto simp: sr_base_def intent_runtime_def initial_runtime_def sample_intent_def Let_def)
qed

lemma second_slug: "\<exists>c. allocate_host_slug end_digest second_rng (pub_mem sample_published) = Inr c"
proof -
  have ne: "host_candidate end_digest (second_rng 0) \<noteq> host_candidate end_digest (sample_rng 0)"
    by (simp add: Let_def host_candidate_def second_rng_def sample_rng_def sha256_hex_def end_digest_def
        hex_byte_def hex_digit_def)
  have wf: "bt_wf (ps_runtimes (pub_mem sample_published))"
    using pub_invD(3) [OF pub_reach_inv [OF sample_reach_published]] .
  have "list_all (\<lambda>r. rt_host_slug r \<noteq> host_candidate end_digest (second_rng 0))
      (bt_values (ps_runtimes (pub_mem sample_published)))"
    unfolding list_all_iff
  proof
    fix q assume "q \<in> set (bt_values (ps_runtimes (pub_mem sample_published)))"
    then obtain k where k: "bt_get (ps_runtimes (pub_mem sample_published)) k = Some q"
      by (auto simp: bt_in_values [OF wf])
    with sample_published_runtime [of k] have "rt_host_slug q = host_candidate end_digest (sample_rng 0)"
      by (auto split: if_splits)
    with ne show "rt_host_slug q \<noteq> host_candidate end_digest (second_rng 0)" by simp
  qed
  then show ?thesis by (simp add: allocate_host_slug_def upt_rec)
qed

lemma sample_superseded_ok:
  "\<exists>o' r. pub_commit_intent end_digest null_pub_codec 3 second_rng io_ok
      (sample_intent Kind_Unpublish ''k2'' 1) sample_published = (Inr (o', r), sample_superseded) \<and>
    bt_get (ps_operations (pub_mem sample_superseded)) (op_id so0) = Some so0 \<and>
    bt_get (ps_runtimes (pub_mem sample_superseded)) ''p1'' = Some r \<and> rt_desired_generation r = 2"
proof -
  let ?j = "sample_intent Kind_Unpublish ''k2'' 1"
  obtain r where r: "bt_get (ps_runtimes (pub_mem sample_published)) ''p1'' = Some r"
    "rt_desired_generation r = 1" "rt_workspace_namespace r = ''ws-a''" "rt_current_release_id r = None"
    using sample_published_runtime [of "''p1''"] by auto
  have inv: "pub_inv end_digest (pub_mem sample_published)"
    by (rule pub_reach_inv [OF sample_reach_published])
  have v: "validate_intent ?j = Inr ()"
    by (rule sample_intent_valid) (simp_all add: sample_intent_def is_blank_ascii)
  have p: "in_project_id ?j = ''p1''" by (simp add: sample_intent_def)
  have cas: "validate_compare_and_set (bt_get (ps_runtimes (pub_mem sample_published)) (in_project_id ?j)) ?j = Inr ()"
    using r by (simp add: validate_compare_and_set_def sample_intent_def)
  obtain slug where slug: "allocate_host_slug end_digest second_rng (pub_mem sample_published) = Inr slug"
    using second_slug ..
  have "\<exists>o' q. pub_commit_intent end_digest null_pub_codec 3 second_rng io_ok ?j sample_published =
      (Inr (o', q), sample_superseded)"
    using pub_intent_ok(1) [OF inv v end_digest32 sample_fresh_k2 cas slug refl refl refl refl, of null_pub_codec 3]
    unfolding sample_superseded_def by (metis prod.collapse)
  then obtain o' q where run: "pub_commit_intent end_digest null_pub_codec 3 second_rng io_ok ?j sample_published =
      (Inr (o', q), sample_superseded)" by blast
  note c = committed_new_intent [OF inv run sample_fresh_k2(1)]
  have "op_id so0 \<noteq> op_id o'" unfolding c(2) by (simp add: so0_def sample_keys_differ)
  moreover have "bt_get (ps_operations (pub_mem sample_published)) (op_id so0) = Some so0"
    using sample_published_ok by (auto simp: triple_at_def outbox_linked_def)
  ultimately have "bt_get (ps_operations (pub_mem sample_superseded)) (op_id so0) = Some so0"
    using c(9) [of "op_id so0"] by simp
  moreover have "rt_desired_generation q = 2" using c(3) p r by (simp add: next_generation_def sat_inc_def)
  ultimately show ?thesis using run c(6) p by auto
qed

section \<open>Properties\<close>

text \<open>
  C7. Whatever is called on the publication store, in any order and with any file failing at any
  point, its memory stays consistent: it passes the code's own \<open>validate_snapshot\<close>, each operation
  is indexed by its scoped idempotency key, has its outbox event and a runtime state at least as new
  as itself, two projects never share a host, two operations of a project never share a generation
  (below the maximum), and the release a project serves is the last one that succeeded.
\<close>

theorem publication_store_invariant:
  "pub_reach D cd st \<Longrightarrow> pub_inv D (pub_mem st)"
  by (rule pub_reach_inv)

theorem publication_store_invariant_witness: "pub_inv end_digest (pub_mem sample_completed)"
  by (rule publication_store_invariant [OF sample_reach_completed])

text \<open>
  C8. An operation is completed only when it took effect: if the operation of the project's current
  generation is completed, the observed generation is the desired one, and either the desired release
  is current, is the last successful one and has its deployment, service and ingress recorded, or the
  project is unpublished and serves nothing. The generation must be below the u64 maximum, where
  saturation would make two operations share it.
\<close>

theorem completed_operation_served:
  assumes "pub_reach D cd st" "pub_operation st oid = Some o'" "op_status o' = Op_Completed"
    and "pub_runtime st (op_project_id o') = Some r"
    and "op_desired_generation o' = rt_desired_generation r" "rt_desired_generation r \<noteq> - 1"
  shows "rt_observed_generation r = rt_desired_generation r \<and>
    (case rt_desired_publication r of
       Des_Published \<Rightarrow> \<exists>rel. rt_desired_release_id r = Some rel \<and> rt_current_release_id r = Some rel \<and>
         rt_last_successful_release_id r = Some rel \<and> rt_deployment_uid r \<noteq> None \<and>
         rt_service_uid r \<noteq> None \<and> rt_ingress_uid r \<noteq> None
     | Des_Unpublished \<Rightarrow> rt_current_release_id r = None \<and> rt_current_deployment_name r = None)"
proof -
  have inv: "pub_inv D (pub_mem st)" using assms(1) by (rule pub_reach_inv)
  have "op_ok D (pub_mem st) oid o'"
    using pub_invD(6) [OF inv] assms(2) by (simp add: pub_operation_def)
  then have "served o' r" using assms(4) by (auto simp: op_ok_def pub_runtime_def)
  then have "completed_ok r" using assms(3,5,6) by (simp add: served_def)
  then show ?thesis
    by (cases "rt_desired_publication r") (auto simp: completed_ok_def)
qed

theorem completed_operation_served_witness:
  "\<exists>o' r. pub_operation sample_completed (operation_id_of end_digest (sample_intent Kind_Publish ''k1'' 0)) = Some o' \<and>
     op_status o' = Op_Completed \<and> pub_runtime sample_completed ''p1'' = Some r \<and>
     rt_observed_generation r = rt_desired_generation r"
proof -
  obtain o' r b where at: "triple_at (pub_mem sample_completed) sample_bid o' r b" "outbox_linked o' r b"
    and st: "op_status o' = Op_Completed" "rt_desired_generation r = 1" "op_project_id o' = ''p1''"
      "op_id o' = operation_id_of end_digest (sample_intent Kind_Publish ''k1'' 0)"
    using sample_completed_ok by blast
  have q: "pub_operation sample_completed (op_id o') = Some o'"
    "pub_runtime sample_completed (op_project_id o') = Some r"
    "op_desired_generation o' = rt_desired_generation r"
    using at by (simp_all add: triple_at_def outbox_linked_def pub_operation_def pub_runtime_def)
  have "rt_desired_generation r \<noteq> - 1" using st(2) by simp
  from completed_operation_served [OF sample_reach_completed q(1) st(1) q(2,3) this] q st
  show ?thesis by auto
qed

text \<open>
  C9. An intent is idempotent by project and key. After it committed, and after any later
  operations, an intent with the same project and key writes nothing: the same body answers with the
  stored operation and the current runtime state of the project, a different body is a conflict.
\<close>

theorem intent_idempotent:
  assumes "pub_reach D cd st"
    and "pub_commit_intent D cd now rng io i st = (Inr (o', r), st1)"
    and "pub_steps D cd st1 st2"
    and "in_project_id j = in_project_id i" "in_idempotency_key j = in_idempotency_key i"
      "validate_intent j = Inr ()"
  shows "\<exists>p q. pub_operation st2 (op_id o') = Some p \<and> op_ident p = op_ident o' \<and>
    pub_runtime st2 (in_project_id i) = Some q \<and>
    pub_commit_intent D cd now' rng' io' j st2 =
      (if intent_request_hash D j = intent_request_hash D i then Inr (p, q)
       else Inl (Pub_Conflict ''Idempotency-Key is already bound to a different request body''), st2)"
proof -
  have inv: "pub_inv D (pub_mem st)" using assms(1) by (rule pub_reach_inv)
  note c = committed_intent [OF inv assms(2)]
  have "st1 = snd (pub_commit_intent D cd now rng io i st)" using assms(2) by simp
  with pub_inv_step [OF inv ps_intent] have inv1: "pub_inv D (pub_mem st1)" by simp
  have inv2: "pub_inv D (pub_mem st2)" by (rule pub_steps_inv [OF assms(3) inv1])
  from pub_steps_operation [OF assms(3) inv1 c(1)] obtain p
    where p: "bt_get (ps_operations (pub_mem st2)) (op_id o') = Some p" "op_ident p = op_ident o'" by blast
  from pub_steps_runtime [OF assms(3) inv1 c(2)] obtain q
    where q: "bt_get (ps_runtimes (pub_mem st2)) (in_project_id i) = Some q" by blast
  have keys: "intent_key D j = intent_key D i"
    using assms(4,5) by (simp add: intent_key_def intent_key_hash_def)
  have "op_key D p = intent_key D i" using op_identD [OF p(2)] c(5) by simp
  moreover have "bt_get (ps_operation_by_idempotency (pub_mem st2)) (op_key D p) = Some (op_id o')"
    using pub_invD(6) [OF inv2 p(1)] by (simp add: op_ok_def)
  ultimately have "bt_get (ps_operation_by_idempotency (pub_mem st2)) (intent_key D j) = Some (op_id o')"
    by (simp add: keys)
  from known_intent [OF this p(1) _ assms(6), of q cd now' rng' io'] q p(2) c(4) assms(4) op_identD [OF p(2)]
  show ?thesis using p(1) by (auto simp: pub_operation_def pub_runtime_def)
qed

theorem intent_idempotent_witness:
  "\<exists>p q. pub_commit_intent end_digest null_pub_codec 9 sample_rng io_ok (sample_intent Kind_Publish ''k1'' 0)
     sample_published = (Inr (p, q), sample_published)"
proof -
  obtain slug where run: "pub_commit_intent end_digest null_pub_codec 1 sample_rng io_ok
      (sample_intent Kind_Publish ''k1'' 0) pub_empty = (Inr (so0, sr_base slug), sample_published)"
    using sample_published_run by blast
  have "validate_intent (sample_intent Kind_Publish ''k1'' 0) = Inr ()"
    by (rule sample_intent_valid) (simp_all add: sample_intent_def is_blank_ascii)
  from intent_idempotent [OF pub_reach_empty run rtranclp.rtrancl_refl refl refl this, of 9 sample_rng io_ok]
  show ?thesis by auto
qed

text \<open>
  C10. No lost update. Two intents of one project that name the same expected generation never both
  commit: once the first did, every later intent with a new key and that expectation fails, whatever
  operations ran in between. (At the u64 maximum the generation no longer grows.)
\<close>

theorem stale_generation_rejected:
  assumes "pub_reach D cd st"
    and "pub_commit_intent D cd now rng io i st = (Inr (o', r), st1)"
    and "bt_get (ps_operation_by_idempotency (pub_mem st)) (intent_key D i) = None"
    and "in_expected_generation i = Some g" "g \<noteq> - 1"
    and "pub_steps D cd st1 st2"
    and "in_project_id j = in_project_id i" "in_expected_generation j = Some g"
    and "bt_get (ps_operation_by_idempotency (pub_mem st2)) (intent_key D j) = None"
  shows "\<exists>e. pub_commit_intent D cd now' rng' io' j st2 = (Inl e, st2)"
proof -
  have inv: "pub_inv D (pub_mem st)" using assms(1) by (rule pub_reach_inv)
  note c = committed_new_intent [OF inv assms(2,3)]
  have "st1 = snd (pub_commit_intent D cd now rng io i st)" using assms(2) by simp
  with pub_inv_step [OF inv ps_intent] have inv1: "pub_inv D (pub_mem st1)" by simp
  have "rt_desired_generation r = sat_inc g"
    using c(1,3) assms(4)
    by (auto simp: validate_compare_and_set_def next_generation_def sat_inc_def split: option.splits if_splits)
  then have "g < rt_desired_generation r" using sat_inc_gt [OF assms(5)] by simp
  moreover obtain q where q: "bt_get (ps_runtimes (pub_mem st2)) (in_project_id j) = Some q"
      "rt_desired_generation r \<le> rt_desired_generation q"
    using pub_steps_runtime [OF assms(6) inv1 c(6)] assms(7) by auto
  ultimately have ne: "rt_desired_generation q \<noteq> g" by auto
  have "\<exists>e. validate_compare_and_set (Some q) j = Inl e"
    using ne assms(8) by (simp add: validate_compare_and_set_def)
  then show ?thesis
    using q(1) assms(9) by (cases "validate_intent j") (auto simp: pub_commit_intent_def intent_key_def)
qed

theorem stale_generation_rejected_witness:
  "\<exists>e. pub_commit_intent end_digest null_pub_codec 9 second_rng io_ok (sample_intent Kind_Unpublish ''k2'' 0)
     sample_published = (Inl e, sample_published)"
proof -
  obtain slug where run: "pub_commit_intent end_digest null_pub_codec 1 sample_rng io_ok
      (sample_intent Kind_Publish ''k1'' 0) pub_empty = (Inr (so0, sr_base slug), sample_published)"
    using sample_published_run by blast
  have e: "in_expected_generation (sample_intent kind k 0) = Some 0"
    "in_project_id (sample_intent kind k 0) = ''p1''" for kind k by (simp_all add: sample_intent_def)
  show ?thesis
    by (rule stale_generation_rejected [OF pub_reach_empty run _ e(1) _ rtranclp.rtrancl_refl _ e(1)
          sample_fresh_k2(1)]) (simp_all add: e)
qed

text \<open>
  C11. A superseded operation is frozen: once a newer generation of its project is committed, no
  operation of the store changes its record any more.
\<close>

theorem superseded_operation_frozen:
  assumes "pub_reach D cd st" "pub_operation st k = Some o'"
    and "pub_runtime st (op_project_id o') = Some r"
    and "op_desired_generation o' < rt_desired_generation r"
    and "pub_steps D cd st st'"
  shows "pub_operation st' k = Some o'"
  using pub_steps_frozen [OF assms(5) pub_reach_inv [OF assms(1)]] assms(2-4)
  by (simp add: pub_operation_def pub_runtime_def)

lemma sample_superseded_state:
  "\<exists>r. pub_reach end_digest null_pub_codec sample_superseded \<and>
     pub_operation sample_superseded (op_id so0) = Some so0 \<and>
     pub_runtime sample_superseded (op_project_id so0) = Some r \<and>
     op_desired_generation so0 < rt_desired_generation r"
proof -
  obtain o' r where q: "bt_get (ps_operations (pub_mem sample_superseded)) (op_id so0) = Some so0"
    "bt_get (ps_runtimes (pub_mem sample_superseded)) ''p1'' = Some r" "rt_desired_generation r = 2"
    using sample_superseded_ok by blast
  have s: "op_project_id so0 = ''p1''" "op_desired_generation so0 = 1"
    by (simp_all add: so0_def) (simp add: sample_intent_def)
  have "pub_reach end_digest null_pub_codec sample_superseded"
    unfolding sample_superseded_def by (rule pr_step [OF sample_reach_published ps_intent])
  then show ?thesis using q s by (simp add: pub_operation_def pub_runtime_def)
qed

theorem superseded_operation_frozen_witness:
  "pub_operation (snd (pub_record_delivered end_digest null_pub_codec (\<lambda>_. 5) io_ok sample_bid sample_superseded))
     (op_id so0) = Some so0"
proof -
  obtain r where s: "pub_reach end_digest null_pub_codec sample_superseded"
    "pub_operation sample_superseded (op_id so0) = Some so0"
    "pub_runtime sample_superseded (op_project_id so0) = Some r"
    "op_desired_generation so0 < rt_desired_generation r"
    using sample_superseded_state by blast
  show ?thesis
    by (rule superseded_operation_frozen [OF s]) (rule r_into_rtranclp, rule ps_delivered)
qed

text \<open>
  C12. A superseded operation that had not finished never finishes, and the release it names stays
  protected from collection for ever: \<open>protected_release_ids\<close> lists it in every later state.
\<close>

theorem superseded_release_stays_protected:
  assumes "pub_reach D cd st" "pub_operation st k = Some o'"
    and "pub_runtime st (op_project_id o') = Some r"
    and "op_desired_generation o' < rt_desired_generation r"
    and "\<not> op_is_terminal (op_status o')" "op_release_id o' = Some rel"
    and "pub_steps D cd st st'"
  shows "o' \<in> set (pub_nonterminal_operations st') \<and> rel \<in> set (pub_protected_release_ids st')"
proof -
  have inv: "pub_inv D (pub_mem st)" using assms(1) by (rule pub_reach_inv)
  have "bt_get (ps_operations (pub_mem st')) k = Some o'"
    using pub_steps_frozen [OF assms(7) inv] assms(2-4) by (simp add: pub_operation_def pub_runtime_def)
  then have "o' \<in> set (bt_values (ps_operations (pub_mem st')))"
    using bt_in_values [OF pub_invD(2) [OF pub_steps_inv [OF assms(7) inv]]] by auto
  with assms(5,6) show ?thesis
    by (force simp: pub_nonterminal_operations_def pub_protected_release_ids_def List.map_filter_def)
qed

theorem superseded_release_stays_protected_witness:
  "''rel'' \<in> set (pub_protected_release_ids sample_superseded)"
proof -
  obtain r where s: "pub_reach end_digest null_pub_codec sample_superseded"
    "pub_operation sample_superseded (op_id so0) = Some so0"
    "pub_runtime sample_superseded (op_project_id so0) = Some r"
    "op_desired_generation so0 < rt_desired_generation r"
    using sample_superseded_state by blast
  have "\<not> op_is_terminal (op_status so0)" "op_release_id so0 = Some ''rel''"
    by (simp_all add: so0_def intent_operation_def sample_intent_def op_is_terminal_def)
  from superseded_release_stays_protected [OF s this rtranclp.rtrancl_refl] show ?thesis by simp
qed

lemma stale_update:
  assumes "pub_inv D (pub_mem st)" "bt_get (ps_outbox (pub_mem st)) bid = Some b"
    and "pub_runtime st (ob_project_id b) = Some r" "rt_desired_generation r \<noteq> ob_desired_generation b"
  shows "pub_update_outbox D cd now io bid f st =
    (Inl (Pub_Conflict ''stale publication outbox cannot update a newer desired generation''), st)"
proof -
  from pub_invD(7) [OF assms(1,2)]
  obtain p where p: "bt_get (ps_operations (pub_mem st)) (ob_operation_id b) = Some p"
    "op_project_id p = ob_project_id b" "op_desired_generation p = ob_desired_generation b"
    by (auto simp: ob_ok_def)
  have "op_id p = ob_operation_id b" using pub_invD(6) [OF assms(1) p(1)] by (simp add: op_ok_def)
  moreover have "rt_project_id r = ob_project_id b"
    using pub_invD(8) [OF assms(1)] assms(3) by (auto simp: pub_runtime_def)
  ultimately show ?thesis using assms(2-4) p by (simp add: pub_update_outbox_def pub_runtime_def Let_def)
qed

text \<open>
  Stale results are fenced. When the project of an outbox event has moved to another desired
  generation, every way to record something for that event is refused and leaves the store as it is,
  and the event is no longer handed to the controller.
\<close>

theorem stale_outbox_fenced:
  assumes "pub_reach D cd st" "bt_get (ps_outbox (pub_mem st)) bid = Some b"
    and "pub_runtime st (ob_project_id b) = Some r" "rt_desired_generation r \<noteq> ob_desired_generation b"
  shows "(\<exists>e. pub_record_delivered D cd clk io bid st = (Inl e, st)) \<and>
    (\<exists>e. pub_record_delivery_attempt D cd clk io bid error st = (Inl e, st)) \<and>
    (\<exists>e. pub_record_workload_ready D cd clk io bid obs st = (Inl e, st)) \<and>
    (\<exists>e. pub_record_traffic_switched D cd clk io bid obs st = (Inl e, st)) \<and>
    (\<exists>e. pub_record_unpublished D cd clk io bid st = (Inl e, st)) \<and>
    (\<exists>e. pub_record_reconcile_failure D cd clk io bid reason st = (Inl e, st)) \<and>
    b \<notin> set (pub_pending_outbox now st)"
  using stale_update [OF pub_reach_inv [OF assms(1)] assms(2-4)] assms(3,4)
  by (simp add: drop_outbox_def pub_record_delivered_def pub_record_delivery_attempt_def
      pub_record_workload_ready_def pub_record_traffic_switched_def pub_record_unpublished_def
      pub_record_reconcile_failure_def pub_pending_outbox_def pub_runtime_def)

lemma sample_superseded_outbox:
  "\<exists>b. bt_get (ps_outbox (pub_mem sample_superseded)) sample_bid = Some b \<and>
     ob_project_id b = ''p1'' \<and> ob_desired_generation b = 1"
proof -
  have inv: "pub_inv end_digest (pub_mem sample_superseded)"
    using sample_superseded_state pub_reach_inv by blast
  have k: "bt_get (ps_operations (pub_mem sample_superseded)) (op_id so0) = Some so0"
    using sample_superseded_state by (auto simp: pub_operation_def)
  have id: "outbox_id_of (op_id so0) = sample_bid" by (simp add: so0_def sample_bid_def)
  obtain b where b: "bt_get (ps_outbox (pub_mem sample_superseded)) sample_bid = Some b"
    using pub_invD(6) [OF inv k] by (auto simp: op_ok_def id)
  have "ob_operation_id b = op_id so0" using pub_invD(7) [OF inv b] by (simp add: ob_ok_def id [symmetric])
  with pub_invD(7) [OF inv b] k have "ob_project_id b = op_project_id so0"
    "ob_desired_generation b = op_desired_generation so0" by (simp_all add: ob_ok_def)
  with b show ?thesis by (simp add: so0_def) (simp add: sample_intent_def)
qed

theorem stale_outbox_fenced_witness:
  "\<exists>e. pub_record_workload_ready end_digest null_pub_codec (\<lambda>_. 5) io_ok sample_bid (sample_ready True)
     sample_superseded = (Inl e, sample_superseded)"
proof -
  obtain b where b: "bt_get (ps_outbox (pub_mem sample_superseded)) sample_bid = Some b"
    "ob_project_id b = ''p1''" "ob_desired_generation b = 1" using sample_superseded_outbox by blast
  obtain o' r where r: "bt_get (ps_runtimes (pub_mem sample_superseded)) ''p1'' = Some r"
    "rt_desired_generation r = 2" using sample_superseded_ok by blast
  have "pub_reach end_digest null_pub_codec sample_superseded" using sample_superseded_state by blast
  from stale_outbox_fenced [OF this b(1), of r "\<lambda>_. 5" io_ok None "sample_ready True" "[]" 5] b r
  show ?thesis by (simp add: pub_runtime_def)
qed

text \<open>
  A traffic switch is not a release: recording it changes neither the release and deployment the
  project is known to serve nor its previous and last successful release, the observed generation
  stays, and the event stays pending, so the external probe must still follow.
\<close>

theorem traffic_switch_keeps_serving:
  assumes "pub_reach D cd st"
    and "pub_record_traffic_switched D cd clk io bid obs st = (Inr (o', r), st')"
  shows "\<exists>q b. pub_runtime st (rt_project_id r) = Some q \<and> pub_runtime st' (rt_project_id r) = Some r \<and>
    rt_current_release_id q \<noteq> rt_desired_release_id q \<and>
    rt_current_release_id r = rt_current_release_id q \<and>
    rt_previous_release_id r = rt_previous_release_id q \<and>
    rt_last_successful_release_id r = rt_last_successful_release_id q \<and>
    rt_current_deployment_name r = rt_current_deployment_name q \<and>
    rt_observed_generation r = rt_observed_generation q \<and>
    op_status o' = Op_TrafficSwitched \<and>
    bt_get (ps_outbox (pub_mem st')) bid = Some b \<and> ob_status b = Ob_Pending"
proof -
  have inv: "pub_inv D (pub_mem st)" using assms(1) by (rule pub_reach_inv)
  obtain b2 where run: "pub_update_outbox D cd (clk 2) io bid (traffic_switched_upd clk obs) st
      = (Inr (o', r, b2), st')"
    using assms(2) by (auto simp: pub_record_traffic_switched_def drop_outbox_ok split: if_splits)
  show ?thesis
  proof (cases rule: pub_update_success [OF run])
    case (1 p q b o1 r1 b1)
    have w: "rt_current_release_id q \<noteq> rt_desired_release_id q" "o1 = p\<lparr>op_status := Op_TrafficSwitched,
        op_checkpoint := Cp_TrafficSwitched, op_last_error := None\<rparr>"
      "r1 = (observe_endpoints obs q)\<lparr>rt_status := Rt_Updating, rt_last_error := None\<rparr>"
      "ob_status b1 = Ob_Pending" "ob_id b1 = ob_id b"
      using 1(3) by (auto simp: traffic_switched_upd_def split: if_splits)
    have proj: "rt_project_id r = rt_project_id q"
      using rt_identD [of "observe_endpoints obs q" q] by (simp add: 1(5) w(3))
    have at: "bt_get (ps_runtimes (pub_mem st)) (rt_project_id q) = Some q" "ob_id b = bid"
      using 1(1,2) pub_invD(7) [OF inv] by (auto simp: triple_at_def outbox_linked_def ob_ok_def)
    show ?thesis
      using at proj 1(8,9) w(1,4,5)
      by (intro exI [of _ q] exI [of _ b2]) (simp add: pub_runtime_def 1(4,5,6) w(2,3))
  qed
qed

theorem traffic_switch_keeps_serving_witness:
  "\<exists>o' r. pub_record_traffic_switched end_digest null_pub_codec (\<lambda>_. 2) io_ok sample_bid (sample_ready False)
     sample_published = (Inr (o', r), snd (pub_record_traffic_switched end_digest null_pub_codec (\<lambda>_. 2) io_ok
       sample_bid (sample_ready False) sample_published)) \<and> rt_current_release_id r = None"
proof -
  let ?run = "pub_record_traffic_switched end_digest null_pub_codec (\<lambda>_. 2) io_ok sample_bid
    (sample_ready False) sample_published"
  obtain slug where at: "triple_at (pub_mem sample_published) sample_bid so0 (sr_base slug) sb0"
    and link: "outbox_linked so0 (sr_base slug) sb0" using sample_published_ok by blast
  have f: "pub_upd (traffic_switched_upd (\<lambda>_. 2) (sample_ready False))"
    by (rule pu_switched) (simp_all add: sample_ready_def)
  have cur: "rt_current_release_id (sr_base slug) \<noteq> rt_desired_release_id (sr_base slug)"
    by (simp add: sr_base_def intent_runtime_def sample_intent_def initial_runtime_def Let_def)
  have "\<exists>q. traffic_switched_upd (\<lambda>_. 2) (sample_ready False) so0 (sr_base slug) sb0 = Inr q"
    using link cur by (simp add: traffic_switched_upd_def outbox_linked_def)
  then obtain o1 r1 b1 where "traffic_switched_upd (\<lambda>_. 2) (sample_ready False) so0 (sr_base slug) sb0
      = Inr (o1, r1, b1)" by (metis prod_cases3)
  note ok = pub_update_ok(1) [OF pub_reach_inv [OF sample_reach_published] f at link this refl refl refl,
      of null_pub_codec 2]
  then have "\<exists>o' r. fst ?run = Inr (o', r)"
    by (simp add: pub_record_traffic_switched_def sample_ready_def drop_outbox_def)
  then obtain o' r where run: "?run = (Inr (o', r), snd ?run)" by (metis prod.collapse)
  from traffic_switch_keeps_serving [OF sample_reach_published run] obtain q where
    q: "pub_runtime sample_published (rt_project_id r) = Some q"
      "rt_current_release_id r = rt_current_release_id q" by blast
  with sample_published_runtime [of "rt_project_id r"] have "rt_current_release_id r = None"
    by (auto simp: pub_runtime_def split: if_splits)
  with run show ?thesis by blast
qed

text \<open>
  Recording readiness is what moves the served release: afterwards the project serves the desired
  release under the observed deployment, the release it served before is kept as the previous one when
  it differs, the observed generation has caught up, and the operation is completed exactly when the
  external identity was verified or it already was completed.
\<close>

theorem workload_ready_serves_desired:
  assumes "pub_reach D cd st"
    and "pub_record_workload_ready D cd clk io bid obs st = (Inr (o', r), st')"
  shows "\<exists>p q rel. pub_operation st (op_id o') = Some p \<and> pub_runtime st (rt_project_id r) = Some q \<and>
    pub_operation st' (op_id o') = Some o' \<and> pub_runtime st' (rt_project_id r) = Some r \<and>
    rt_desired_release_id q = Some rel \<and> rt_current_release_id r = Some rel \<and>
    rt_current_deployment_name r = Some (ki_name (ow_deployment obs)) \<and>
    rt_previous_release_id r = (if rt_current_release_id q = Some rel then rt_previous_release_id q
       else rt_current_release_id q) \<and>
    rt_observed_generation r = rt_desired_generation q \<and>
    (op_status o' = Op_Completed \<longleftrightarrow>
       ow_external_release_identity_verified obs \<or> op_status p = Op_Completed)"
proof -
  have inv: "pub_inv D (pub_mem st)" using assms(1) by (rule pub_reach_inv)
  obtain b2 where run: "pub_update_outbox D cd (clk 2) io bid (workload_ready_upd clk obs) st
      = (Inr (o', r, b2), st')"
    using assms(2) by (auto simp: pub_record_workload_ready_def drop_outbox_ok split: if_splits)
  show ?thesis
  proof (cases rule: pub_update_success [OF run])
    case (1 p q b o1 r1 b1)
    note w = workload_ready_fields [OF 1(3)]
    have r1: "\<exists>rel. rt_desired_release_id q = Some rel \<and>
        r1 = ready_status obs (observe_endpoints obs (ready_deployment obs (ready_release rel q)))"
      using 1(3) by (auto simp: workload_ready_upd_def split: if_splits option.splits)
    then have dep: "rt_current_deployment_name r1 = Some (ki_name (ow_deployment obs))"
      and prev: "\<exists>rel. rt_desired_release_id q = Some rel \<and> rt_previous_release_id r1 =
         (if rt_current_release_id q = Some rel then rt_previous_release_id q else rt_current_release_id q)"
      by (auto simp: ready_status_def ready_deployment_def ready_release_def Let_def)
    have ids: "op_id o1 = op_id p" "rt_project_id r1 = rt_project_id q"
      using op_identD [OF w(6)] rt_identD [OF w(7)] by simp_all
    have at: "bt_get (ps_runtimes (pub_mem st)) (rt_project_id q) = Some q"
      "bt_get (ps_operations (pub_mem st)) (op_id p) = Some p"
      using 1(1,2) by (auto simp: triple_at_def outbox_linked_def)
    show ?thesis
      using at ids 1(7,8) w(1,2,9) dep prev
      by (intro exI [of _ p] exI [of _ q]) (auto simp: pub_runtime_def pub_operation_def 1(4,5) split: if_splits)
  qed
qed

theorem workload_ready_serves_desired_witness:
  "\<exists>r. pub_runtime sample_completed (rt_project_id r) = Some r \<and> rt_current_release_id r = Some ''rel'' \<and>
     rt_current_deployment_name r = Some ''d''"
proof -
  let ?run = "pub_record_workload_ready end_digest null_pub_codec (\<lambda>_. 2) io_ok sample_bid
    (sample_ready True) sample_published"
  obtain slug where at: "triple_at (pub_mem sample_published) sample_bid so0 (sr_base slug) sb0"
    and link: "outbox_linked so0 (sr_base slug) sb0" using sample_published_ok by blast
  have f: "pub_upd (workload_ready_upd (\<lambda>_. 2) (sample_ready True))"
    by (rule pu_ready) (simp_all add: sample_ready_def)
  have "rt_desired_release_id (sr_base slug) = Some ''rel''"
    by (simp add: sr_base_def intent_runtime_def sample_intent_def)
  then have "\<exists>q. workload_ready_upd (\<lambda>_. 2) (sample_ready True) so0 (sr_base slug) sb0 = Inr q"
    using link by (simp add: workload_ready_upd_def outbox_linked_def)
  then obtain o1 r1 b1 where "workload_ready_upd (\<lambda>_. 2) (sample_ready True) so0 (sr_base slug) sb0
      = Inr (o1, r1, b1)" by (metis prod_cases3)
  note ok = pub_update_ok(1) [OF pub_reach_inv [OF sample_reach_published] f at link this refl refl refl,
      of null_pub_codec 2]
  have "\<exists>o' r. fst ?run = Inr (o', r)"
    using ok by (simp add: pub_record_workload_ready_def sample_ready_def drop_outbox_def)
  then obtain o' r where run: "?run = (Inr (o', r), sample_completed)"
    unfolding sample_completed_def by (metis prod.collapse)
  from workload_ready_serves_desired [OF sample_reach_published run] obtain q rel where
    q: "pub_runtime sample_published (rt_project_id r) = Some q" "rt_desired_release_id q = Some rel"
      "pub_runtime sample_completed (rt_project_id r) = Some r" "rt_current_release_id r = Some rel"
      "rt_current_deployment_name r = Some ''d''" by (auto simp: sample_ready_def)
  have "bt_get (ps_runtimes (pub_mem sample_published)) ''p1'' = Some (sr_base slug)"
    using at link by (simp add: triple_at_def outbox_linked_def sb0_def intent_outbox_def sample_intent_def)
  moreover have "rt_project_id r = ''p1''"
    using q(1) sample_published_runtime [of "rt_project_id r"] by (auto simp: pub_runtime_def split: if_splits)
  ultimately have "q = sr_base slug" using q(1) by (simp add: pub_runtime_def)
  then have "rel = ''rel''" using q(2) by (simp add: sr_base_def intent_runtime_def sample_intent_def)
  with q show ?thesis by auto
qed

end
