(* ===== verification/PublicationRecovery.thy ===== *)
theory PublicationRecovery
  imports PublicationProps
begin

text \<open>
  Start-up of the publication store after a write that failed at any point, and what a failed write
  does to the writes after it. Here, other than in the release store, the memory changes only after
  the last file effect. The locale \<open>journaled\<close> is interpreted on the sequence numbers of the
  publication store and \<open>apply_commit\<close>.
\<close>

interpretation plog: journaled ps_sequence pc_sequence "pub_apply_commit D" for D
  by unfold_locales (simp add: pub_apply_commit_def pub_apply_get(5))

abbreviation pub_log :: "digest \<Rightarrow> publication_commit list \<Rightarrow> publication_store_error + publication_snapshot" where
  "pub_log D cs \<equiv> apply_all (pub_apply_commit D) publication_snapshot_default cs"

definition pub_durable :: "digest \<Rightarrow> publication_codec \<Rightarrow> publication_commit list \<Rightarrow> publication_store \<Rightarrow> bool" where
  "pub_durable D cd cs st \<longleftrightarrow>
     journal_bytes (pub_files st) = journal_of (pub_ser_commit cd) cs \<and>
     ascending pc_sequence 0 cs \<and> pub_log D cs = Inr (pub_mem st) \<and>
     (checkpoint_file (pub_files st) = None \<or>
      (\<exists>n m. checkpoint_file (pub_files st) = Some (pub_ser_snapshot cd m) \<and>
         pub_log D (take n cs) = Inr m))"

text \<open>What is used of \<open>serde_json\<close>: the commits written and the snapshots reached parse back.\<close>

definition pub_codec_ok :: "digest \<Rightarrow> publication_codec \<Rightarrow> publication_commit list \<Rightarrow> bool" where
  "pub_codec_ok D cd cs \<longleftrightarrow> codec_ok (set cs) (pub_ser_commit cd) (pub_parse_commit cd) \<and>
     (\<forall>n \<le> length cs. \<forall>m. pub_log D (take n cs) = Inr m \<longrightarrow>
        pub_parse_snapshot cd (pub_ser_snapshot cd m) = Inr m)"

lemma pub_default_sq [simp]: "ps_sequence publication_snapshot_default = 0"
  by (simp add: publication_snapshot_default_def)

text \<open>Opening files whose journal reads as \<open>cs\<close> and whose checkpoint is a snapshot of the past.\<close>

lemma pub_open_read:
  assumes rd: "read_lines (pub_parse_commit cd) (journal_bytes f) = Inr cs"
    and asc: "ascending pc_sequence 0 cs" and app: "pub_log D cs = Inr t"
    and cp: "checkpoint_file f = None \<or>
      (\<exists>n m. checkpoint_file f = Some (pub_ser_snapshot cd m) \<and>
         pub_parse_snapshot cd (pub_ser_snapshot cd m) = Inr m \<and> pub_log D (take n cs) = Inr m)"
    and valid: "pub_validate_snapshot D t = Inr ()"
  shows "pub_open D cd mirrored f = Inr \<lparr>pub_files = f, pub_mem = t, pub_mirrored = mirrored\<rparr>"
proof -
  have j: "pub_read_journal cd f = Inr cs"
    using rd by (auto simp: pub_read_journal_def journal_bytes_def read_lines_def ends_with_def
        split: option.splits)
  define base where
    "base = (case pub_read_checkpoint cd f of Inl _ \<Rightarrow> publication_snapshot_default | Inr s \<Rightarrow> s)"
  have "\<exists>n. pub_log D (take n cs) = Inr base"
    using cp by (auto simp: base_def pub_read_checkpoint_def intro: exI [of _ 0])
  then obtain n where n: "pub_log D (take n cs) = Inr base" by blast
  have split: "apply_all (pub_apply_commit D) base (drop n cs) = Inr t"
    using app n plog.apply_all_append [of D publication_snapshot_default "take n cs" "drop n cs"] by simp
  have "replay ps_sequence pc_sequence (pub_apply_commit D) base cs = Inr t"
    using plog.replay_from_prefix [OF _ n split] asc by simp
  then show ?thesis
    using j valid by (simp add: pub_open_def base_def Let_def)
qed

section \<open>Concrete commits\<close>

text \<open>The first commit of an empty store, for either sample key.\<close>

lemma sample_commit:
  assumes "key = ''k1'' \<or> key = ''k2''"
  shows "\<exists>r s'. pub_apply_commit_with_key publication_snapshot_default
      \<lparr>pc_sequence = 1, pc_operation = intent_operation end_digest (sample_intent Kind_Publish key 0) 1 1,
       pc_runtime = r, pc_outbox = intent_outbox end_digest (sample_intent Kind_Publish key 0) 1 1\<rparr>
      (op_key end_digest (intent_operation end_digest (sample_intent Kind_Publish key 0) 1 1)) = Inr s' \<and>
    pub_validate_snapshot end_digest s' = Inr ()"
proof -
  let ?i = "sample_intent Kind_Publish key 0"
  have inv: "pub_inv end_digest (pub_mem pub_empty)" by (rule pub_reach_inv [OF pub_reach_empty])
  obtain slug where slug: "allocate_host_slug end_digest sample_rng (pub_mem pub_empty) = Inr slug"
    using sample_slug by blast
  have v: "validate_intent ?i = Inr ()"
    using assms by (auto intro!: sample_intent_valid simp: is_blank_ascii) (simp_all add: sample_intent_def)
  have cas: "validate_compare_and_set (bt_get (ps_runtimes (pub_mem pub_empty)) (in_project_id ?i)) ?i = Inr ()"
    by (simp add: validate_compare_and_set_def sample_intent_def)
  have g: "next_generation ?i (pub_mem pub_empty) = 1" by (simp add: next_generation_def)
  have "\<exists>o' r. pub_commit_intent end_digest null_pub_codec 1 sample_rng io_ok ?i pub_empty =
      (Inr (o', r), snd (pub_commit_intent end_digest null_pub_codec 1 sample_rng io_ok ?i pub_empty))"
    using pub_intent_ok(1) [OF inv v end_digest32 _ _ cas slug refl refl refl refl, of null_pub_codec 1]
    by (metis prod.collapse pub_empty_get(1,4))
  then obtain o' r where run: "pub_commit_intent end_digest null_pub_codec 1 sample_rng io_ok ?i pub_empty =
      (Inr (o', r), snd (pub_commit_intent end_digest null_pub_codec 1 sample_rng io_ok ?i pub_empty))" by blast
  note c = committed_new_intent(2,11) [OF inv run pub_empty_get(4)]
  have "pub_inv end_digest (pub_mem (snd (pub_commit_intent end_digest null_pub_codec 1 sample_rng io_ok ?i pub_empty)))"
    by (rule pub_inv_step [OF inv ps_intent])
  from pub_invD(1) [OF this] c(2) show ?thesis
    unfolding c(1) g by (auto simp: sat_inc_def pub_empty_def)
qed

text \<open>A codec that knows two commits and one snapshot besides the empty one.\<close>

definition two_codec :: "publication_commit \<Rightarrow> publication_commit \<Rightarrow> publication_snapshot \<Rightarrow> publication_codec" where
  "two_codec c d s = \<lparr>pub_ser_commit = (\<lambda>e. if e = c then ''{1}'' else ''{2}''),
     pub_parse_commit = (\<lambda>t. if t = ''{1}'' then Inr c else if t = ''{2}'' then Inr d else Inl ''eof''),
     pub_ser_snapshot = (\<lambda>t. if t = s then ''1'' else ''0''),
     pub_parse_snapshot = (\<lambda>t. Inr (if t = ''1'' then s else publication_snapshot_default))\<rparr>"

lemma two_codec_ok: "codec_ok {c, d} (pub_ser_commit (two_codec c d s)) (pub_parse_commit (two_codec c d s))"
  by (auto simp: codec_ok_def two_codec_def nth_Cons' take_Cons' split: if_splits)

section \<open>One write\<close>

text \<open>What a write leaves, by how far it came.\<close>

lemma pub_persist_files:
  fixes D cd io o' r b key st
  defines "c \<equiv> \<lparr>pc_sequence = sat_inc (ps_sequence (pub_mem st)), pc_operation = o', pc_runtime = r,
      pc_outbox = b\<rparr>"
  assumes app: "pub_apply_commit_with_key (pub_mem st) c key = Inr s'"
    and valid: "pub_validate_snapshot D s' = Inr ()"
    and run: "pub_persist_commit D cd io o' r b key st = (res, st')"
  shows "journal_bytes (pub_files st') =
        journal_bytes (snd (append_bytes (io_append io) (pub_ser_commit cd c @ [nl]) (pub_files st))) \<and>
      (checkpoint_file (pub_files st') = checkpoint_file (pub_files st) \<or>
       checkpoint_file (pub_files st') = Some (pub_ser_snapshot cd s') \<and>
         fst (append_bytes (io_append io) (pub_ser_commit cd c @ [nl]) (pub_files st)) = None) \<and>
      (res = Inr () \<longrightarrow> pub_mem st' = s' \<and>
         fst (append_bytes (io_append io) (pub_ser_commit cd c @ [nl]) (pub_files st)) = None) \<and>
      (res \<noteq> Inr () \<longrightarrow> pub_mem st' = pub_mem st)"
proof (cases "io_append io")
  case (AppendFailed n e)
  then show ?thesis
    using app valid run unfolding c_def
    by (auto simp: pub_persist_commit_def pub_append_commit_def append_bytes_def Let_def)
next
  case Appended
  then show ?thesis
    using app valid run unfolding c_def
    by (cases "pub_sync_mirror (pub_mirrored st) (io_mirror_journal io)";
        cases "io_checkpoint io";
        cases "pub_sync_mirror (pub_mirrored st) (io_mirror_checkpoint io)")
      (auto simp: pub_persist_commit_def pub_append_commit_def append_bytes_def journal_bytes_def
        pub_write_checkpoint_def replace_checkpoint_def Let_def split: if_splits)
qed

text \<open>
  C13. A write of the publication store is atomic with respect to a crash at any point of it. Starting
  up again gives the snapshot before the commit or the one after it, and the one after it when the
  operation reported success; the files then again determine the memory.
\<close>

theorem publication_crash_recovery:
  fixes o' r b st
  defines "c \<equiv> \<lparr>pc_sequence = sat_inc (ps_sequence (pub_mem st)), pc_operation = o', pc_runtime = r,
      pc_outbox = b\<rparr>"
  assumes dur: "pub_durable D cd cs st" and cod: "pub_codec_ok D cd (cs @ [c])"
    and app: "pub_apply_commit_with_key (pub_mem st) c (op_key D o') = Inr s'"
    and inv: "pub_inv D (pub_mem st)" and valid: "pub_validate_snapshot D s' = Inr ()"
    and room: "ps_sequence (pub_mem st) \<noteq> - 1"
    and run: "pub_persist_commit D cd io o' r b (op_key D o') st = (res, st')"
  shows "(\<exists>m \<in> {pub_mem st, s'}. pub_open D cd mirrored (pub_files st') =
        Inr \<lparr>pub_files = pub_files st', pub_mem = m, pub_mirrored = mirrored\<rparr>) \<and>
    (res = Inr () \<longrightarrow> pub_mem st' = s' \<and> pub_durable D cd (cs @ [c]) st' \<and>
       pub_open D cd mirrored (pub_files st') =
        Inr \<lparr>pub_files = pub_files st', pub_mem = s', pub_mirrored = mirrored\<rparr>)"
proof -
  have asc: "ascending pc_sequence 0 cs" and rep: "pub_log D cs = Inr (pub_mem st)"
    and bytes: "journal_bytes (pub_files st) = journal_of (pub_ser_commit cd) cs"
    using dur by (simp_all add: pub_durable_def)
  have ev: "codec_ok (insert c (set cs)) (pub_ser_commit cd) (pub_parse_commit cd)"
    using cod by (simp add: pub_codec_ok_def)
  have lt: "ps_sequence (pub_mem st) < pc_sequence c" using room by (simp add: c_def sat_inc_gt)
  have app': "pub_apply_commit D (pub_mem st) c = Inr s'"
    using app by (simp add: pub_apply_commit_def op_key_def c_def)
  have asc': "ascending pc_sequence 0 (cs @ [c])" and rep': "pub_log D (cs @ [c]) = Inr s'"
    using plog.replay_snoc [OF _ rep lt] asc app' by simp_all
  have vold: "pub_validate_snapshot D (pub_mem st) = Inr ()" using pub_invD(1) [OF inv] .
  have parse: "pub_parse_snapshot cd (pub_ser_snapshot cd m) = Inr m"
    if "n \<le> Suc (length cs)" "pub_log D (take n (cs @ [c])) = Inr m" for n m
    using cod that by (auto simp: pub_codec_ok_def)
  have old: "checkpoint_file (pub_files st) = None \<or>
      (\<exists>n m. checkpoint_file (pub_files st) = Some (pub_ser_snapshot cd m) \<and> n \<le> length cs \<and>
         pub_log D (take n cs) = Inr m)"
    using dur by (auto simp: pub_durable_def) (metis nat_le_linear take_all)
  have cp_old: "checkpoint_file (pub_files st) = None \<or>
      (\<exists>n m. checkpoint_file (pub_files st) = Some (pub_ser_snapshot cd m) \<and>
         pub_parse_snapshot cd (pub_ser_snapshot cd m) = Inr m \<and> pub_log D (take n cs) = Inr m \<and>
         pub_log D (take n (cs @ [c])) = Inr m)"
    using old parse by (metis (no_types, lifting) append_Nil2 diff_is_0_eq le_SucI take0 take_append)
  have cp_new: "pub_parse_snapshot cd (pub_ser_snapshot cd s') = Inr s'"
    "pub_log D (take (Suc (length cs)) (cs @ [c])) = Inr s'"
    using parse [of "Suc (length cs)" s'] rep' by simp_all
  note F = pub_persist_files [OF app [unfolded c_def] valid run, folded c_def]
  have whole: "pub_open D cd mirrored (pub_files st') =
        Inr \<lparr>pub_files = pub_files st', pub_mem = s', pub_mirrored = mirrored\<rparr> \<and>
      (pub_mem st' = s' \<longrightarrow> pub_durable D cd (cs @ [c]) st')"
    if ok: "fst (append_bytes (io_append io) (pub_ser_commit cd c @ [nl]) (pub_files st)) = None"
  proof -
    have j: "journal_bytes (pub_files st') = journal_of (pub_ser_commit cd) (cs @ [c])"
      using F append_bytes_read [OF ev bytes, of "io_append io"] ok by simp
    have rd: "read_lines (pub_parse_commit cd) (journal_bytes (pub_files st')) = Inr (cs @ [c])"
      using read_journal_of [of "cs @ [c]" "pub_ser_commit cd" "pub_parse_commit cd"] ev j by simp
    have "checkpoint_file (pub_files st') = checkpoint_file (pub_files st) \<or>
        checkpoint_file (pub_files st') = Some (pub_ser_snapshot cd s')" using F by blast
    then have cps: "checkpoint_file (pub_files st') = None \<or>
      (\<exists>n m. checkpoint_file (pub_files st') = Some (pub_ser_snapshot cd m) \<and>
         pub_parse_snapshot cd (pub_ser_snapshot cd m) = Inr m \<and> pub_log D (take n (cs @ [c])) = Inr m)"
      using cp_old cp_new by metis
    show ?thesis
      using pub_open_read [OF rd asc' rep' cps valid] j asc' rep' cps by (auto simp: pub_durable_def)
  qed
  show ?thesis
  proof (cases "fst (append_bytes (io_append io) (pub_ser_commit cd c @ [nl]) (pub_files st))")
    case None
    with whole F show ?thesis by auto
  next
    case (Some x)
    then have cp: "checkpoint_file (pub_files st') = checkpoint_file (pub_files st)" "res \<noteq> Inr ()"
      using F by auto
    from append_bytes_read [OF ev bytes, of "io_append io"] F obtain fs where fs: "fs \<in> {cs, cs @ [c]}"
        and rd: "read_lines (pub_parse_commit cd) (journal_bytes (pub_files st')) = Inr fs" by auto
    show ?thesis
    proof (cases "fs = cs")
      case True
      with pub_open_read [OF rd, of D "pub_mem st" mirrored] asc rep vold cp cp_old show ?thesis by auto
    next
      case False
      with fs have "fs = cs @ [c]" by simp
      with pub_open_read [OF rd, of D s' mirrored] asc' rep' valid cp cp_old show ?thesis by auto
    qed
  qed
qed

theorem publication_crash_recovery_witness:
  "\<exists>o' r b cd st' m. snd (pub_persist_commit end_digest cd (io_ok\<lparr>io_append := AppendFailed 2 ''ENOSPC''\<rparr>)
       o' r b (op_key end_digest o') pub_empty) = st' \<and>
     pub_open end_digest cd False (pub_files st') = Inr m \<and>
     journal_file (pub_files st') = Some ''{1'' \<and>
     (pub_mem m = publication_snapshot_default \<or> ps_sequence (pub_mem m) = 1)"
proof -
  obtain r s' where app: "pub_apply_commit_with_key publication_snapshot_default
      \<lparr>pc_sequence = 1, pc_operation = so0, pc_runtime = r, pc_outbox = sb0\<rparr> (op_key end_digest so0) = Inr s'"
    and valid: "pub_validate_snapshot end_digest s' = Inr ()"
    using sample_commit [of "''k1''"] unfolding so0_def sb0_def by blast
  let ?c = "\<lparr>pc_sequence = 1, pc_operation = so0, pc_runtime = r, pc_outbox = sb0\<rparr>"
  let ?cd = "two_codec ?c ?c s'" and ?io = "io_ok\<lparr>io_append := AppendFailed 2 ''ENOSPC''\<rparr>"
  let ?P = "pub_persist_commit end_digest ?cd ?io so0 r sb0 (op_key end_digest so0) pub_empty"
  have c: "?c = \<lparr>pc_sequence = sat_inc (ps_sequence (pub_mem pub_empty)), pc_operation = so0,
      pc_runtime = r, pc_outbox = sb0\<rparr>" by (simp add: sat_inc_def)
  have mem: "pub_mem pub_empty = publication_snapshot_default" by (simp add: pub_empty_def)
  have app0: "pub_apply_commit end_digest publication_snapshot_default ?c = Inr s'"
    using app by (simp add: pub_apply_commit_def op_key_def)
  have dur: "pub_durable end_digest ?cd [] pub_empty"
    by (simp add: pub_durable_def pub_empty_def no_files_def journal_bytes_def journal_of_def)
  have "m = publication_snapshot_default \<or> m = s'"
    if "pub_log end_digest (take n [?c]) = Inr m" for n m
    using that app0 by (cases n) auto
  then have cod: "pub_codec_ok end_digest ?cd ([] @ [?c])"
    using two_codec_ok [of ?c ?c s'] by (auto simp: pub_codec_ok_def two_codec_def)
  have run: "?P = (fst ?P, snd ?P)" by simp
  have app': "pub_apply_commit_with_key (pub_mem pub_empty) ?c (op_key end_digest so0) = Inr s'"
    using app mem by simp
  from publication_crash_recovery [where D = end_digest and st = pub_empty and o' = so0 and r = r
      and b = sb0 and mirrored = False, folded c, OF dur cod app' pub_reach_inv [OF pub_reach_empty] valid _ run]
  obtain m where m: "m \<in> {pub_mem pub_empty, s'}" "pub_open end_digest ?cd False (pub_files (snd ?P)) =
      Inr \<lparr>pub_files = pub_files (snd ?P), pub_mem = m, pub_mirrored = False\<rparr>" by auto
  have "journal_file (pub_files (snd ?P)) = Some ''{1''"
    using app' valid c
    by (simp add: pub_persist_commit_def pub_append_commit_def append_bytes_def pub_empty_def no_files_def
        journal_bytes_def two_codec_def Let_def)
  moreover have "ps_sequence s' = 1" using pub_apply_get(5) [OF app] by simp
  ultimately have "pub_open end_digest ?cd False (pub_files (snd ?P)) =
      Inr \<lparr>pub_files = pub_files (snd ?P), pub_mem = m, pub_mirrored = False\<rparr> \<and>
    journal_file (pub_files (snd ?P)) = Some ''{1'' \<and> (m = publication_snapshot_default \<or> ps_sequence m = 1)"
    using m mem by auto
  then show ?thesis by (metis publication_store.select_convs(2))
qed

text \<open>
  A rejected write can displace a later acknowledged one. When a write fails after its journal
  line was appended (the mirror or the checkpoint failed), the memory keeps the old sequence number,
  so the next commit is appended with the same number. It is acknowledged and the checkpoint holds
  it; but when that checkpoint is lost, replaying the journal applies the rejected commit and skips
  the acknowledged one.
\<close>

theorem rejected_commit_displaces_acknowledged:
  fixes o1 r1 b1 o2 r2 b2 st
  defines "c \<equiv> \<lparr>pc_sequence = sat_inc (ps_sequence (pub_mem st)), pc_operation = o1, pc_runtime = r1,
      pc_outbox = b1\<rparr>"
    and "d \<equiv> \<lparr>pc_sequence = sat_inc (ps_sequence (pub_mem st)), pc_operation = o2, pc_runtime = r2,
      pc_outbox = b2\<rparr>"
  assumes files: "journal_bytes (pub_files st) = journal_of (pub_ser_commit cd) cs"
      "ascending pc_sequence 0 cs" "pub_log D cs = Inr (pub_mem st)" "ps_sequence (pub_mem st) \<noteq> - 1"
    and cod: "codec_ok (set (cs @ [c, d])) (pub_ser_commit cd) (pub_parse_commit cd)"
    and app: "pub_apply_commit_with_key (pub_mem st) c (op_key D o1) = Inr s1"
      "pub_validate_snapshot D s1 = Inr ()"
      "pub_apply_commit_with_key (pub_mem st) d (op_key D o2) = Inr s2"
      "pub_validate_snapshot D s2 = Inr ()"
    and rejected: "pub_persist_commit D cd io o1 r1 b1 (op_key D o1) st = (Inl e, st1)" "io_append io = Appended"
    and acked: "pub_persist_commit D cd io_ok o2 r2 b2 (op_key D o2) st1 = (Inr (), st2)"
  shows "pub_mem st2 = s2 \<and>
    pub_open D cd mirrored (pub_files st2\<lparr>checkpoint_file := None\<rparr>) =
      Inr \<lparr>pub_files = pub_files st2\<lparr>checkpoint_file := None\<rparr>, pub_mem = s1, pub_mirrored = mirrored\<rparr>"
proof -
  note F1 = pub_persist_files [OF app(1) [unfolded c_def] app(2) rejected(1), folded c_def]
  have mem1: "pub_mem st1 = pub_mem st" using F1 by simp
  have j1: "journal_bytes (pub_files st1) = journal_of (pub_ser_commit cd) (cs @ [c])"
    using F1 rejected(2) files(1)
    by (simp add: append_bytes_def journal_bytes_def journal_of_def journal_line_def)
  note F2 = pub_persist_files [OF app(3) [unfolded d_def mem1 [symmetric]] app(4) acked, unfolded mem1, folded d_def]
  have j2: "journal_bytes (pub_files st2) = journal_of (pub_ser_commit cd) (cs @ [c, d])"
    using F2 j1 by (simp add: append_bytes_def journal_bytes_def journal_of_def journal_line_def io_ok_def)
  have c1: "pub_apply_commit D (pub_mem st) c = Inr s1"
    using app(1) by (simp add: pub_apply_commit_def op_key_def c_def)
  have lt: "ps_sequence (pub_mem st) < pc_sequence c" using files(4) by (simp add: c_def sat_inc_gt)
  have asc: "ascending pc_sequence 0 (cs @ [c])" and rep: "pub_log D (cs @ [c]) = Inr s1"
    using plog.replay_snoc [OF _ files(3) lt] files(2) c1 by simp_all
  have sq: "ps_sequence s1 = pc_sequence c" using pub_apply_get(5) [OF app(1)] .
  have "replay ps_sequence pc_sequence (pub_apply_commit D) publication_snapshot_default (cs @ [c]) = Inr s1"
    using plog.replay_fresh [of publication_snapshot_default "cs @ [c]" D s1] asc rep by simp
  moreover have "\<not> ps_sequence s1 < pc_sequence d" by (simp add: sq c_def d_def)
  ultimately have skip: "replay ps_sequence pc_sequence (pub_apply_commit D) publication_snapshot_default
      (cs @ [c, d]) = Inr s1"
    using plog.replay_append [of D publication_snapshot_default "cs @ [c]" "[d]"] by simp
  have "read_lines (pub_parse_commit cd) (journal_bytes (pub_files st2)) = Inr (cs @ [c, d])"
    using read_journal_of [OF cod] j2 by simp
  then have "pub_read_journal cd (pub_files st2\<lparr>checkpoint_file := None\<rparr>) = Inr (cs @ [c, d])"
    by (auto simp: pub_read_journal_def journal_bytes_def read_lines_def ends_with_def split: option.splits)
  then show ?thesis
    using skip app(2) F2 by (simp add: pub_open_def pub_read_checkpoint_def)
qed

theorem rejected_commit_displaces_acknowledged_witness:
  "\<exists>cd (st2 :: publication_store) st3 oid. ps_sequence (pub_mem st2) = 1 \<and> bt_get (ps_operations (pub_mem st2)) oid \<noteq> None \<and>
     pub_open end_digest cd False (pub_files st2\<lparr>checkpoint_file := None\<rparr>) = Inr st3 \<and>
     bt_get (ps_operations (pub_mem st3)) oid = None"
proof -
  let ?i = "sample_intent Kind_Publish ''k1'' 0" and ?j = "sample_intent Kind_Publish ''k2'' 0"
  let ?o1 = "intent_operation end_digest ?i 1 1" and ?o2 = "intent_operation end_digest ?j 1 1"
  let ?b1 = "intent_outbox end_digest ?i 1 1" and ?b2 = "intent_outbox end_digest ?j 1 1"
  obtain r1 s1 where app1: "pub_apply_commit_with_key publication_snapshot_default
      \<lparr>pc_sequence = 1, pc_operation = ?o1, pc_runtime = r1, pc_outbox = ?b1\<rparr> (op_key end_digest ?o1) = Inr s1"
    and v1: "pub_validate_snapshot end_digest s1 = Inr ()" using sample_commit [of "''k1''"] by blast
  obtain r2 s2 where app2: "pub_apply_commit_with_key publication_snapshot_default
      \<lparr>pc_sequence = 1, pc_operation = ?o2, pc_runtime = r2, pc_outbox = ?b2\<rparr> (op_key end_digest ?o2) = Inr s2"
    and v2: "pub_validate_snapshot end_digest s2 = Inr ()" using sample_commit [of "''k2''"] by blast
  let ?c = "\<lparr>pc_sequence = 1, pc_operation = ?o1, pc_runtime = r1, pc_outbox = ?b1\<rparr>"
  let ?d = "\<lparr>pc_sequence = 1, pc_operation = ?o2, pc_runtime = r2, pc_outbox = ?b2\<rparr>"
  let ?cd = "two_codec ?c ?d s2" and ?io = "io_ok\<lparr>io_checkpoint := ReplaceFailed False ''EIO''\<rparr>"
  let ?P = "pub_persist_commit end_digest ?cd ?io ?o1 r1 ?b1 (op_key end_digest ?o1) pub_empty"
  let ?Q = "pub_persist_commit end_digest ?cd io_ok ?o2 r2 ?b2 (op_key end_digest ?o2) (snd ?P)"
  have mem: "pub_mem pub_empty = publication_snapshot_default" by (simp add: pub_empty_def)
  have one: "sat_inc (ps_sequence (pub_mem pub_empty)) = 1" by (simp add: sat_inc_def)
  have rejected: "?P = (Inl (Pub_Storage ''EIO''), snd ?P)" and keep: "pub_mem (snd ?P) = pub_mem pub_empty"
    using app1 v1 mem one
    by (simp_all add: pub_persist_commit_def pub_append_commit_def append_bytes_def io_ok_def
        pub_sync_mirror_def pub_write_checkpoint_def replace_checkpoint_def Let_def)
  have acked: "?Q = (Inr (), snd ?Q)"
    using pub_persist_ok(1) [of "snd ?P" ?o2 r2 ?b2 "op_key end_digest ?o2" s2 end_digest ?cd]
      app2 v2 mem one keep by (simp add: prod_eq_iff)
  have files: "journal_bytes (pub_files pub_empty) = journal_of (pub_ser_commit ?cd) []"
    "ascending pc_sequence 0 []" "pub_log end_digest [] = Inr (pub_mem pub_empty)"
    "ps_sequence (pub_mem pub_empty) \<noteq> - 1" "io_append ?io = Appended"
    by (simp_all add: pub_empty_def no_files_def journal_bytes_def journal_of_def io_ok_def)
  have cod: "codec_ok (set ([] @ [?c, ?d])) (pub_ser_commit ?cd) (pub_parse_commit ?cd)"
    using two_codec_ok [of ?c ?d s2] by simp
  have apps: "pub_apply_commit_with_key (pub_mem pub_empty) ?c (op_key end_digest ?o1) = Inr s1"
    "pub_apply_commit_with_key (pub_mem pub_empty) ?d (op_key end_digest ?o2) = Inr s2"
    using app1 app2 mem by simp_all
  from rejected_commit_displaces_acknowledged [where st = pub_empty and ?o1.0 = ?o1 and ?r1.0 = r1 and ?b1.0 = ?b1
      and ?o2.0 = ?o2 and ?r2.0 = r2 and ?b2.0 = ?b2 and mirrored = False, unfolded one,
      OF files(1-4) cod apps(1) v1 apps(2) v2 rejected files(5) acked]
  have end_: "pub_mem (snd ?Q) = s2" "pub_open end_digest ?cd False (pub_files (snd ?Q)\<lparr>checkpoint_file := None\<rparr>)
      = Inr \<lparr>pub_files = pub_files (snd ?Q)\<lparr>checkpoint_file := None\<rparr>, pub_mem = s1, pub_mirrored = False\<rparr>"
    by simp_all
  have "bt_get (ps_operations s2) (op_id ?o2) = Some ?o2" "ps_sequence s2 = 1"
    using pub_apply_get(1,5) [OF app2] by simp_all
  have "op_id ?o2 \<noteq> op_id ?o1"
    by (simp only: intent_ids) (rule sample_keys_differ(2) [symmetric])
  then have "bt_get (ps_operations s1) (op_id ?o2) = bt_get (ps_operations publication_snapshot_default) (op_id ?o2)"
    using pub_apply_get(1) [OF app1, of "op_id ?o2"] by (simp only: publication_commit.select_convs if_False)
  moreover have "bt_get (ps_operations publication_snapshot_default) k = None" for k
    by (simp add: publication_snapshot_default_def bt_empty_def)
  ultimately have "bt_get (ps_operations s1) (op_id ?o2) = None" by (simp only:)
  with end_ \<open>bt_get (ps_operations s2) (op_id ?o2) = Some ?o2\<close> \<open>ps_sequence s2 = 1\<close>
  have fin: "ps_sequence (pub_mem (snd ?Q)) = 1 \<and> bt_get (ps_operations (pub_mem (snd ?Q))) (op_id ?o2) \<noteq> None \<and>
     pub_open end_digest ?cd False (pub_files (snd ?Q)\<lparr>checkpoint_file := None\<rparr>) =
       Inr \<lparr>pub_files = pub_files (snd ?Q)\<lparr>checkpoint_file := None\<rparr>, pub_mem = s1, pub_mirrored = False\<rparr> \<and>
     bt_get (ps_operations (pub_mem \<lparr>pub_files = pub_files (snd ?Q)\<lparr>checkpoint_file := None\<rparr>,
        pub_mem = s1, pub_mirrored = False\<rparr>)) (op_id ?o2) = None"
    by (simp only: publication_store.select_convs option.distinct not_False_eq_True simp_thms)
  show ?thesis
    by (rule exI [of _ ?cd], rule exI [of _ "snd ?Q"],
        rule exI [of _ "\<lparr>pub_files = pub_files (snd ?Q)\<lparr>checkpoint_file := None\<rparr>, pub_mem = s1,
          pub_mirrored = False\<rparr>"], rule exI [of _ "op_id ?o2"], rule fin)
qed

end
