(* ===== verification/ReleaseProps.thy ===== *)
theory ReleaseProps
  imports ReleaseSafety
begin

text \<open>
  The properties of the release store, each with a run of the store on concrete data that shows its
  hypotheses can hold together.
\<close>

section \<open>A concrete run\<close>

definition hex64 :: "char \<Rightarrow> string" where
  "hex64 c = replicate 64 c"

definition pinned :: "char \<Rightarrow> string" where
  "pinned c = ''sha256:'' @ hex64 c"

definition zero_digest :: digest where
  "zero_digest b = replicate 32 (CHR 0x00)"

definition null_codec :: release_codec where
  "null_codec = \<lparr>rc_ser_event = (\<lambda>_. ''{}''), rc_parse_event = (\<lambda>_. Inl ''eof''),
     rc_ser_state = (\<lambda>_. ''{}''), rc_parse_state = (\<lambda>_. Inl ''eof'')\<rparr>"

definition sample_input :: release_packaging_input where
  "sample_input = \<lparr>ri_project_id = ''p1'', ri_version_id = ''v1'', ri_run_id = ''r1'',
     ri_template_id = ''t'', ri_template_version = ''1'', ri_artifact_manifest_hash = hex64 (CHR ''a''),
     ri_runtime_manifest_hash = hex64 (CHR ''b''), ri_source_snapshot_uri = ''s3'',
     ri_runtime_profile_id = ''static-web-v1'', ri_base_image_digest = pinned (CHR ''c''),
     ri_packager_version = ''pk1'', ri_registry_repository = ''reg/works'',
     ri_scan_policy_version = ''sp1''\<rparr>"

definition sample_scan :: "bool \<Rightarrow> packaging_scan_evidence" where
  "sample_scan ok = \<lparr>sc_policy_version = ''sp1'', sc_passed = ok, sc_critical_vulnerabilities = 0,
     sc_high_vulnerabilities = 0, sc_secret_findings = 0, sc_report_digest = pinned (CHR ''d'')\<rparr>"

definition sample_pid :: string where
  "sample_pid = packaging_id_of (hex64 (CHR ''0''))"

definition sample_empty :: release_store where
  "sample_empty = \<lparr>rel_files = no_files, rel_mem = release_state_default, rel_mirrored = False\<rparr>"

definition sample_prepared :: release_store where
  "sample_prepared = snd (rel_prepare zero_digest null_codec 1 io_ok sample_input sample_empty)"

definition sample_building :: release_store where
  "sample_building = snd (rel_begin_build null_codec 2 io_ok sample_pid sample_prepared)"

definition sample_built :: release_store where
  "sample_built = snd (rel_record_built null_codec 3 io_ok sample_pid (pinned (CHR ''e'')) sample_building)"

definition sample_pushed :: release_store where
  "sample_pushed = snd (rel_record_pushed null_codec 4 io_ok sample_pid (pinned (CHR ''e'')) sample_built)"

definition sample_scanning :: release_store where
  "sample_scanning = snd (rel_begin_scan null_codec 5 io_ok sample_pid sample_pushed)"

definition sample_scanned :: "bool \<Rightarrow> release_store" where
  "sample_scanned ok = snd (rel_record_scan null_codec 6 io_ok sample_pid (pinned (CHR ''f''))
     (pinned (CHR ''1'')) (sample_scan ok) sample_scanning)"

definition sample_validated :: release_store where
  "sample_validated = snd (rel_record_signature null_codec 7 io_ok sample_pid ''signer''
     (pinned (CHR ''2'')) (sample_scanned True))"

definition sample_collectable :: release_store where
  "sample_collectable = snd (rel_mark_failed_garbage_collectable null_codec 7 io_ok sample_pid
     (pinned (CHR ''e'')) (sample_scanned False))"

lemma fresh_prefix_empty: "fresh_prefix (rel_mem sample_empty) k"
  by (simp add: fresh_prefix_def sample_empty_def release_state_default_def)

lemma sample_step_prepare: "rel_step zero_digest null_codec sample_empty sample_prepared"
  unfolding sample_prepared_def by (rule step_prepare) (rule fresh_prefix_empty)

lemma sample_steps:
  "rel_step zero_digest null_codec sample_prepared sample_building"
  "rel_step zero_digest null_codec sample_building sample_built"
  "rel_step zero_digest null_codec sample_built sample_pushed"
  "rel_step zero_digest null_codec sample_pushed sample_scanning"
  "rel_step zero_digest null_codec sample_scanning (sample_scanned ok)"
  "rel_step zero_digest null_codec (sample_scanned True) sample_validated"
  "rel_step zero_digest null_codec (sample_scanned False) sample_collectable"
  unfolding sample_building_def sample_built_def sample_pushed_def sample_scanning_def
    sample_scanned_def sample_validated_def sample_collectable_def
  by (rule rel_step.intros)+

lemma sample_reach_empty: "rel_reach zero_digest null_codec sample_empty"
  unfolding sample_empty_def by (rule reach_open)

lemma sample_reach_building:
  "rel_reach zero_digest null_codec sample_prepared" "rel_reach zero_digest null_codec sample_building"
  by (meson reach_step sample_reach_empty sample_step_prepare sample_steps(1))+

lemma sample_reach_scanning: "rel_reach zero_digest null_codec sample_scanning"
  by (meson reach_step sample_reach_building(2) sample_steps(2-4))

lemma sample_reach:
  "rel_reach zero_digest null_codec sample_validated"
  "rel_reach zero_digest null_codec sample_collectable"
  by (meson reach_step sample_reach_scanning sample_steps(5-7))+

lemma lower_hex_digits [simp]:
  "is_lower_hex (CHR ''0'')" "is_lower_hex (CHR ''1'')" "is_lower_hex (CHR ''2'')"
  "is_lower_hex (CHR ''a'')" "is_lower_hex (CHR ''b'')" "is_lower_hex (CHR ''c'')"
  "is_lower_hex (CHR ''d'')" "is_lower_hex (CHR ''e'')" "is_lower_hex (CHR ''f'')"
  by (simp_all add: is_lower_hex_def string_defs)

lemma validate_hex64 [simp]: "is_lower_hex c \<Longrightarrow> validate_sha256 (hex64 c) f = Inr ()"
  by (simp add: validate_sha256_def hex64_def list_all_iff)

lemma validate_pinned [simp]: "is_lower_hex c \<Longrightarrow> validate_digest (pinned c) f = Inr ()"
  by (simp add: validate_digest_def pinned_def strip_prefix_def starts_with_def)

lemma sample_input_valid: "validate_packaging_input sample_input = Inr ()"
  by (simp add: validate_packaging_input_def release_input_fields_def sample_input_def
      is_blank_ascii ends_with_def starts_with_def)

lemma zero_digits: "concat (replicate 32 [CHR ''0'', CHR ''0'']) = replicate 64 (CHR ''0'')"
  by code_simp

lemma char_zero: "char_of (48 :: nat) = CHR ''0''"
  by code_simp

lemma sample_key: "packaging_idempotency_key zero_digest sample_input = hex64 (CHR ''0'')"
  by (simp add: packaging_idempotency_key_def sha256_hex_def zero_digest_def hex64_def hex_byte_def
      hex_digit_def char_zero zero_digits)

text \<open>The pair the run works on, after each step.\<close>

definition sr0 where "sr0 = release_packaging_of sample_input (hex64 (CHR ''0'')) 1"

definition sp0 where
  "sp0 = packaging_record_prepared sample_input (release_id_of (hex64 (CHR ''0''))) (hex64 (CHR ''0'')) 1"

definition sr1 where "sr1 = sr0\<lparr>wr_status := Wr_Packaging, wr_updated_at := 2\<rparr>"

definition sp1 where
  "sp1 = sp0\<lparr>pk_status := Pk_Building, pk_attempts := 1, pk_last_error := None, pk_updated_at := 2\<rparr>"

definition sp2 where
  "sp2 = sp1\<lparr>pk_built_image_digest := Some (pinned (CHR ''e'')), pk_updated_at := 3\<rparr>"

definition sr3 where
  "sr3 = sr1\<lparr>wr_status := Wr_Packaged, wr_runtime_image_digest := Some (pinned (CHR ''e'')),
     wr_runtime_image_ref := Some (''reg/works'' @ ''/'' @ release_id_of (hex64 (CHR ''0'')) @ ''@''
       @ pinned (CHR ''e'')), wr_updated_at := 4\<rparr>"

definition sp3 where
  "sp3 = sp2\<lparr>pk_pushed_image_digest := Some (pinned (CHR ''e'')), pk_status := Pk_Pushed,
     pk_updated_at := 4\<rparr>"

definition sp4 where "sp4 = sp3\<lparr>pk_status := Pk_Scanning, pk_updated_at := 5\<rparr>"

definition sp5 where
  "sp5 ok = sp4\<lparr>pk_sbom_digest := Some (pinned (CHR ''f'')),
     pk_provenance_digest := Some (pinned (CHR ''1'')), pk_scan_evidence := Some (sample_scan ok),
     pk_status := (if ok then Pk_Signing else Pk_Failed),
     pk_last_error := (if ok then None else Some ''release scan policy rejected image''),
     pk_updated_at := 6\<rparr>"

lemmas sample_pair_defs = sr0_def sp0_def sr1_def sp1_def sp2_def sr3_def sp3_def sp4_def sp5_def
  release_packaging_of_def packaging_record_prepared_def sample_input_def sample_scan_def
  sample_pid_def

lemma sample_pair_prepared: "pair_at sample_prepared sample_pid sr0 sp0"
  using rel_prepare_ok(1) [OF sample_input_valid sample_key [symmetric], of sample_empty sr0 1 sp0]
  by (simp add: sample_prepared_def sample_empty_def release_state_default_def sr0_def sp0_def
      sample_pid_def)

lemma sample_pair_building: "pair_at sample_building sample_pid sr1 sp1"
  unfolding sample_building_def
  using rel_update_ok(1) [OF sample_pair_prepared, of begin_build_upd "sr0\<lparr>wr_status := Wr_Packaging\<rparr>"
      "sp0\<lparr>pk_status := Pk_Building, pk_attempts := 1, pk_last_error := None\<rparr>" null_codec 2]
  by (simp add: rel_begin_build_def begin_build_upd_def sample_pair_defs sat_inc_def)

lemma sample_pair_built: "pair_at sample_built sample_pid (sr1\<lparr>wr_updated_at := 3\<rparr>) sp2"
  unfolding sample_built_def
  using rel_update_ok(1) [OF sample_pair_building, of "record_built_upd (pinned (CHR ''e''))" sr1
      "sp1\<lparr>pk_built_image_digest := Some (pinned (CHR ''e''))\<rparr>" null_codec 3]
  by (simp add: rel_record_built_def record_built_upd_def set_once_def sample_pair_defs)

lemma sample_pair_pushed: "pair_at sample_pushed sample_pid sr3 sp3"
  unfolding sample_pushed_def
  using rel_update_ok(1) [OF sample_pair_built, of "record_pushed_upd (pinned (CHR ''e''))"
      "sr3\<lparr>wr_updated_at := 3\<rparr>" "sp3\<lparr>pk_updated_at := 3\<rparr>" null_codec 4]
  by (simp add: rel_record_pushed_def record_pushed_upd_def set_once_def sample_pair_defs)

lemma sample_pair_scanning:
  "pair_at sample_scanning sample_pid (sr3\<lparr>wr_updated_at := 5\<rparr>) sp4"
  unfolding sample_scanning_def
  using rel_update_ok(1) [OF sample_pair_pushed, of begin_scan_upd sr3
      "sp4\<lparr>pk_updated_at := 4\<rparr>" null_codec 5]
  by (simp add: rel_begin_scan_def begin_scan_upd_def sample_pair_defs)

definition sr5 where
  "sr5 ok = sr3\<lparr>wr_status := (if ok then Wr_Packaged else Wr_Failed), wr_updated_at := 6\<rparr>"

lemma sample_pair_scanned: "pair_at (sample_scanned ok) sample_pid (sr5 ok) (sp5 ok)"
  unfolding sample_scanned_def
  using rel_update_ok(1) [OF sample_pair_scanning,
      of "record_scan_upd (pinned (CHR ''f'')) (pinned (CHR ''1'')) (sample_scan ok)"
      "(sr5 ok)\<lparr>wr_updated_at := 5\<rparr>" "(sp5 ok)\<lparr>pk_updated_at := 5\<rparr>" null_codec 6]
  by (cases ok) (simp_all add: rel_record_scan_def record_scan_upd_def sample_pair_defs sr5_def)

lemma sample_pair_validated:
  "pair_at sample_validated sample_pid ((sr5 True)\<lparr>wr_status := Wr_Validated, wr_updated_at := 7\<rparr>)
     ((sp5 True)\<lparr>pk_signature_identity := Some ''signer'',
       pk_signature_digest := Some (pinned (CHR ''2'')), pk_status := Pk_Validated,
       pk_updated_at := 7\<rparr>)"
  unfolding sample_validated_def
  using rel_update_ok(1) [OF sample_pair_scanned [of True],
      of "record_signature_upd ''signer'' (pinned (CHR ''2''))"
      "(sr5 True)\<lparr>wr_status := Wr_Validated\<rparr>"
      "(sp5 True)\<lparr>pk_signature_identity := Some ''signer'',
         pk_signature_digest := Some (pinned (CHR ''2'')), pk_status := Pk_Validated\<rparr>" null_codec 7]
  by (simp add: rel_record_signature_def record_signature_upd_def is_blank_ascii sample_pair_defs sr5_def)

lemma sample_pair_collectable:
  "pair_at sample_collectable sample_pid
     ((sr5 False)\<lparr>wr_status := Wr_GarbageCollectable, wr_updated_at := 7\<rparr>)
     ((sp5 False)\<lparr>pk_updated_at := 7\<rparr>)"
  unfolding sample_collectable_def
  using rel_update_ok(1) [OF sample_pair_scanned [of False],
      of "mark_garbage_collectable_upd (pinned (CHR ''e''))"
      "(sr5 False)\<lparr>wr_status := Wr_GarbageCollectable\<rparr>" "sp5 False" null_codec 7]
  by (simp add: rel_mark_failed_garbage_collectable_def mark_garbage_collectable_upd_def
      sample_pair_defs sr5_def)

section \<open>Properties\<close>

text \<open>
  C1. Whatever operations are called, in any order and with any file failing at any point, the
  memory of the release store stays consistent: the three maps are sorted maps, every packaging is
  indexed by its idempotency key and belongs to a stored release of the same project, identifiers
  are derived from the key, and every release/packaging pair satisfies \<open>pair_inv\<close> (the image digest
  and reference of the release are those of the packaging, the pushed digest is the built one, scan
  evidence exists only for a pushed image, and each status comes with its evidence).
\<close>

theorem release_store_invariant:
  "rel_reach D cd st \<Longrightarrow> rel_inv (rel_mem st)"
  by (rule rel_reach_inv)

theorem release_store_invariant_witness: "rel_inv (rel_mem sample_validated)"
  by (rule release_store_invariant [OF sample_reach(1)])

text \<open>
  C2. A release the store calls validated has a packaging record with a passed scan under the
  packaging's own policy, an SBOM, a provenance and a signature, and its image reference is the
  registry repository, the release and the digest that was both built and pushed.
\<close>

theorem validated_release_has_evidence:
  assumes "rel_reach D cd st" "rel_release st rid = Some r" "wr_status r = Wr_Validated"
  shows "\<exists>p ev d. rel_packaging_for_release st rid = Some p \<and> pk_status p = Pk_Validated \<and>
    pk_scan_evidence p = Some ev \<and> sc_passed ev \<and> sc_policy_version ev = pk_scan_policy_version p \<and>
    pk_sbom_digest p \<noteq> None \<and> pk_provenance_digest p \<noteq> None \<and>
    pk_signature_identity p \<noteq> None \<and> pk_signature_digest p \<noteq> None \<and>
    pk_built_image_digest p = Some d \<and> pk_pushed_image_digest p = Some d \<and> valid_digest d \<and>
    wr_runtime_image_digest r = Some d \<and> wr_runtime_image_ref r = Some (image_ref p d)"
proof -
  have inv: "rel_inv (rel_mem st)" using assms(1) by (rule rel_reach_inv)
  obtain p where p: "rel_packaging_for_release st rid = Some p" "pair_inv r p"
    using packaging_of_release [OF inv assms(2)] by blast
  have "pk_status p = Pk_Validated"
    using p(2) assms(3) by (cases "pk_status p") (auto simp: pair_inv_def status_inv_def)
  then have "scan_passed p" "pk_signature_identity p \<noteq> None" "pk_signature_digest p \<noteq> None"
    "pk_pushed_image_digest p \<noteq> None"
    using p(2) by (simp_all add: pair_inv_def status_inv_def)
  then obtain ev d where e: "pk_scan_evidence p = Some ev" "sc_passed ev"
      "pk_pushed_image_digest p = Some d"
    by (auto simp: scan_passed_def)
  have "link_inv r p" "image_inv p" "scan_inv p" using p(2) by (simp_all add: pair_inv_def)
  then have "pk_built_image_digest p = Some d" "valid_digest d"
    "wr_runtime_image_digest r = Some d" "wr_runtime_image_ref r = Some (image_ref p d)"
    "pk_sbom_digest p \<noteq> None" "pk_provenance_digest p \<noteq> None"
    "sc_policy_version ev = pk_scan_policy_version p"
    using e(1,3) by (auto simp: link_inv_def image_inv_def scan_inv_def)
  with p(1) e \<open>pk_status p = Pk_Validated\<close> \<open>pk_signature_identity p \<noteq> None\<close>
    \<open>pk_signature_digest p \<noteq> None\<close> show ?thesis by blast
qed

lemma sample_validated_release:
  "\<exists>r. rel_release sample_validated (release_id_of (hex64 (CHR ''0''))) = Some r \<and> wr_status r = Wr_Validated"
  using sample_pair_validated by (auto simp: pair_at_def rel_release_def sample_pair_defs)

theorem validated_release_has_evidence_witness:
  "\<exists>p ev. rel_packaging_for_release sample_validated (release_id_of (hex64 (CHR ''0''))) = Some p \<and>
     pk_scan_evidence p = Some ev \<and> sc_passed ev"
  using sample_validated_release validated_release_has_evidence [OF sample_reach(1)] by blast

text \<open>
  C3. A validated release is final: whatever is called afterwards, the release and its packaging
  record keep every field except the time of the last (idempotent) signature call.
\<close>

theorem validated_release_final:
  assumes "rel_reach D cd st" "rel_packaging st pid = Some p" "pk_status p = Pk_Validated"
    and "(rel_step D cd)\<^sup>*\<^sup>* st st'"
  shows "\<exists>p' r r'. rel_packaging st' pid = Some p' \<and>
     p'\<lparr>pk_updated_at := pk_updated_at p\<rparr> = p \<and>
     rel_release st (pk_release_id p) = Some r \<and> rel_release st' (pk_release_id p) = Some r' \<and>
     r'\<lparr>wr_updated_at := wr_updated_at r\<rparr> = r"
proof -
  have inv: "rel_inv (rel_mem st)" using assms(1) by (rule rel_reach_inv)
  obtain r where at: "pair_at st pid r p" and pair: "pair_inv r p"
    using release_of_packaging [OF inv, of pid p] assms(2) by (auto simp: rel_packaging_def)
  have st: "wr_status r = Wr_Validated" using pair assms(3) by (simp add: pair_inv_def status_inv_def)
  let ?Q = "\<lambda>r' p'. r'\<lparr>wr_updated_at := wr_updated_at r\<rparr> = r \<and> p'\<lparr>pk_updated_at := pk_updated_at p\<rparr> = p"
  have "rel_inv (rel_mem st') \<and> (\<exists>r' p'. pair_at st' pid r' p' \<and> ?Q r' p')"
  proof (rule rel_steps_keep [OF assms(4) inv at])
    show "?Q r p" by simp
  next
    fix f r1 p1 r2 p2 t
    assume f: "upd_fn f" "f r1 p1 = Inr (r2, p2)" and q: "?Q r1 p1"
    have "pk_status p1 = Pk_Validated" "wr_status r1 = Wr_Validated"
      using arg_cong [OF conjunct2 [OF q], of pk_status] arg_cong [OF conjunct1 [OF q], of wr_status]
        assms(3) st by simp_all
    from upd_fn_validated [OF f this] q show "?Q (r2\<lparr>wr_updated_at := t\<rparr>) (p2\<lparr>pk_updated_at := t\<rparr>)"
      by simp
  qed
  then obtain r' p' where at': "pair_at st' pid r' p'" and q: "?Q r' p'" by blast
  have "pk_release_id p' = pk_release_id p"
    using arg_cong [OF conjunct2 [OF q], of pk_release_id] by simp
  with at at' q show ?thesis
    by (auto simp: pair_at_def rel_packaging_def rel_release_def)
qed

lemma sample_validated_packaging:
  "\<exists>p. rel_packaging sample_validated sample_pid = Some p \<and> pk_status p = Pk_Validated"
  using sample_pair_validated by (auto simp: pair_at_def rel_packaging_def)

theorem validated_release_final_witness:
  "\<exists>p p'. rel_packaging sample_validated sample_pid = Some p \<and>
     rel_packaging (snd (rel_record_signature null_codec 9 io_ok sample_pid ''signer''
        (pinned (CHR ''2'')) sample_validated)) sample_pid = Some p' \<and>
     p'\<lparr>pk_updated_at := pk_updated_at p\<rparr> = p"
proof -
  obtain p where p: "rel_packaging sample_validated sample_pid = Some p" "pk_status p = Pk_Validated"
    using sample_validated_packaging by blast
  have "(rel_step zero_digest null_codec)\<^sup>*\<^sup>* sample_validated
     (snd (rel_record_signature null_codec 9 io_ok sample_pid ''signer''
        (pinned (CHR ''2'')) sample_validated))"
    by (rule r_into_rtranclp, rule step_record_signature)
  from validated_release_final [OF sample_reach(1) p this] p(1) show ?thesis by blast
qed

text \<open>
  Image digests are written once: a built digest and a pushed digest, once recorded, are the
  same in every later state of the store.
\<close>

theorem image_digests_write_once:
  assumes "rel_reach D cd st" "rel_packaging st pid = Some p" "(rel_step D cd)\<^sup>*\<^sup>* st st'"
  shows "\<exists>p'. rel_packaging st' pid = Some p' \<and>
    (pk_built_image_digest p \<noteq> None \<longrightarrow> pk_built_image_digest p' = pk_built_image_digest p) \<and>
    (pk_pushed_image_digest p \<noteq> None \<longrightarrow> pk_pushed_image_digest p' = pk_pushed_image_digest p)"
proof -
  have inv: "rel_inv (rel_mem st)" using assms(1) by (rule rel_reach_inv)
  obtain r where at: "pair_at st pid r p"
    using release_of_packaging [OF inv, of pid p] assms(2) by (auto simp: rel_packaging_def)
  have "rel_inv (rel_mem st') \<and> (\<exists>r' p'. pair_at st' pid r' p' \<and> digests_kept p p')"
    by (rule rel_steps_keep [OF assms(3) inv at, where Q = "\<lambda>r' p'. digests_kept p p'"])
      (auto simp: digests_kept_def dest: upd_fn_digests)
  then show ?thesis by (auto simp: digests_kept_def pair_at_def rel_packaging_def)
qed

lemma sample_steps_scanned:
  "(rel_step zero_digest null_codec)\<^sup>*\<^sup>* sample_scanning sample_validated"
  using r_into_rtranclp [of "rel_step zero_digest null_codec", OF sample_steps(5) [of True]]
    r_into_rtranclp [of "rel_step zero_digest null_codec", OF sample_steps(6)]
  by (rule rtranclp_trans)

theorem image_digests_write_once_witness:
  "\<exists>p'. rel_packaging sample_validated sample_pid = Some p' \<and>
     pk_built_image_digest p' = Some (pinned (CHR ''e''))"
proof -
  have p: "rel_packaging sample_scanning sample_pid = Some sp4"
    using sample_pair_scanning by (simp add: pair_at_def rel_packaging_def)
  have "pk_built_image_digest sp4 = Some (pinned (CHR ''e''))" by (simp add: sample_pair_defs)
  then show ?thesis
    using image_digests_write_once [OF sample_reach_scanning p sample_steps_scanned] by auto
qed


definition same_provenance :: "release_packaging_input \<Rightarrow> work_release \<Rightarrow> release_packaging_record \<Rightarrow> bool" where
  "same_provenance j r p \<longleftrightarrow>
     wr_project_id r = ri_project_id j \<and> wr_version_id r = ri_version_id j \<and>
     wr_run_id r = ri_run_id j \<and> wr_template_id r = ri_template_id j \<and>
     wr_template_version r = ri_template_version j \<and>
     wr_source_snapshot_uri r = ri_source_snapshot_uri j \<and>
     wr_runtime_profile_id r = ri_runtime_profile_id j \<and>
     pk_registry_repository p = ri_registry_repository j"

text \<open>The fields that the key does not hash and that \<open>prepare\<close> compares, of two inputs.\<close>

definition same_source :: "release_packaging_input \<Rightarrow> release_packaging_input \<Rightarrow> bool" where
  "same_source j i \<longleftrightarrow>
     ri_project_id j = ri_project_id i \<and> ri_version_id j = ri_version_id i \<and>
     ri_run_id j = ri_run_id i \<and> ri_template_id j = ri_template_id i \<and>
     ri_template_version j = ri_template_version i \<and>
     ri_source_snapshot_uri j = ri_source_snapshot_uri i \<and>
     ri_runtime_profile_id j = ri_runtime_profile_id i \<and>
     ri_registry_repository j = ri_registry_repository i"

lemma same_provenance_source: "same_provenance i r p \<Longrightarrow> same_provenance j r p \<longleftrightarrow> same_source j i"
  unfolding same_provenance_def same_source_def by metis

lemma rel_prepare_known:
  assumes "validate_packaging_input j = Inr ()"
    and "bt_get (rs_packaging_by_key (rel_mem st)) (packaging_idempotency_key D j) = Some pid"
    and "pair_at st pid r p"
  shows "rel_prepare D cd now io j st =
    (if same_provenance j r p then Inr (r, p)
     else Inl (Rel_IntegrityConflict ''idempotency key is already bound to different release provenance''), st)"
proof -
  have "(wr_project_id r \<noteq> ri_project_id j \<or> wr_version_id r \<noteq> ri_version_id j \<or>
      wr_run_id r \<noteq> ri_run_id j \<or> wr_template_id r \<noteq> ri_template_id j \<or>
      wr_template_version r \<noteq> ri_template_version j \<or>
      wr_source_snapshot_uri r \<noteq> ri_source_snapshot_uri j \<or>
      wr_runtime_profile_id r \<noteq> ri_runtime_profile_id j \<or>
      pk_registry_repository p \<noteq> ri_registry_repository j) \<longleftrightarrow> \<not> same_provenance j r p"
    unfolding same_provenance_def by blast
  then show ?thesis using assms unfolding rel_prepare_def Let_def by (simp add: pair_at_def)
qed

lemma rel_prepare_pair:
  assumes inv: "rel_inv (rel_mem st)" and ok: "fst (rel_prepare D cd now io i st) = Inr (r, p)"
  shows "pair_at (snd (rel_prepare D cd now io i st)) (pk_id p) r p \<and>
    pk_idempotency_key p = packaging_idempotency_key D i \<and> same_provenance i r p"
proof -
  let ?key = "packaging_idempotency_key D i"
  have v: "validate_packaging_input i = Inr ()"
    using ok by (cases "validate_packaging_input i") (auto simp: rel_prepare_def)
  show ?thesis
  proof (cases "bt_get (rs_packaging_by_key (rel_mem st)) ?key")
    case (Some pid)
    from rel_invD(5) [OF inv Some] obtain q
      where q: "bt_get (rs_packagings (rel_mem st)) pid = Some q" "pk_idempotency_key q = ?key" by blast
    from release_of_packaging [OF inv q(1)] obtain s where at: "pair_at st pid s q" by blast
    from rel_prepare_known [OF v Some at] ok have "s = r" "q = p" "same_provenance i r p"
      by (auto split: if_splits)
    moreover have "snd (rel_prepare D cd now io i st) = st"
      using rel_prepare_known [OF v Some at] by simp
    moreover have "pk_id q = pid" using rel_invD(4) [OF inv q(1)] by (simp add: packaging_ok_def)
    ultimately show ?thesis using at q(2) by simp
  next
    case None
    let ?r = "release_packaging_of i ?key now"
    let ?p = "packaging_record_prepared i (wr_id ?r) ?key now"
    have u: "rel_prepare D cd now io i st =
        (case rel_persist_pair cd io ?r ?p st of (Inl x, st') \<Rightarrow> (Inl x, st')
         | (Inr _, st') \<Rightarrow> (Inr (?r, ?p), st'))"
      using v None by (simp add: rel_prepare_def Let_def)
    then have "fst (rel_persist_pair cd io ?r ?p st) = Inr ()" "r = ?r" "p = ?p"
      "snd (rel_prepare D cd now io i st) = snd (rel_persist_pair cd io ?r ?p st)"
      using ok by (auto split: prod.splits sum.splits)
    moreover have "same_provenance i ?r ?p"
      by (simp add: same_provenance_def release_packaging_of_def packaging_record_prepared_def)
    ultimately show ?thesis using pair_at_apply [OF rel_persist_pair_ok] by simp
  qed
qed

text \<open>
  C4. Preparing is idempotent on the five inputs the key is a hash of. Once an input was prepared,
  and after any later operations, preparing an input with the same key writes nothing: it returns the
  stored release and packaging, whose identity has not changed, when the two inputs agree in project,
  version, run, template, source snapshot, runtime profile and repository, so in particular when the
  input is the same, and an integrity conflict otherwise.
\<close>

theorem prepare_idempotent:
  assumes "rel_reach D cd st" "fresh_prefix (rel_mem st) (packaging_idempotency_key D i)"
    and "fst (rel_prepare D cd now io i st) = Inr (r, p)"
    and "(rel_step D cd)\<^sup>*\<^sup>* (snd (rel_prepare D cd now io i st)) st'"
    and "packaging_idempotency_key D j = packaging_idempotency_key D i"
    and "validate_packaging_input j = Inr ()"
  shows "\<exists>r' p'. wr_ident r' = wr_ident r \<and> pk_ident p' = pk_ident p \<and>
    rel_release st' (wr_id r) = Some r' \<and> rel_packaging st' (pk_id p) = Some p' \<and>
    rel_prepare D cd now' io' j st' =
      (if same_source j i then Inr (r', p')
       else Inl (Rel_IntegrityConflict ''idempotency key is already bound to different release provenance''), st')"
proof -
  let ?st1 = "snd (rel_prepare D cd now io i st)"
  have inv: "rel_inv (rel_mem st)" using assms(1) by (rule rel_reach_inv)
  have inv1: "rel_inv (rel_mem ?st1)" using rel_inv_prepare [OF inv assms(2)] .
  have at1: "pair_at ?st1 (pk_id p) r p" "pk_idempotency_key p = packaging_idempotency_key D i" "same_provenance i r p"
    using rel_prepare_pair [OF inv assms(3)] by simp_all
  have "rel_inv (rel_mem st') \<and>
      (\<exists>r' p'. pair_at st' (pk_id p) r' p' \<and> (wr_ident r' = wr_ident r \<and> pk_ident p' = pk_ident p))"
    by (rule rel_steps_keep [OF assms(4) inv1 at1(1)]) (auto dest: upd_fn_ident)
  then obtain r' p' where inv2: "rel_inv (rel_mem st')" and at2: "pair_at st' (pk_id p) r' p'"
    and id: "wr_ident r' = wr_ident r" "pk_ident p' = pk_ident p" by blast
  have "packaging_ok (rel_mem st') (pk_id p) p'"
    using rel_invD(4) [OF inv2] at2 by (simp add: pair_at_def)
  then have key: "bt_get (rs_packaging_by_key (rel_mem st')) (packaging_idempotency_key D j) = Some (pk_id p)"
    using ident_fields(1) [OF id(2)] at1(2) assms(5) by (simp add: packaging_ok_def)
  have "same_provenance i r' p'" using at1(3) id by (simp add: same_provenance_def wr_ident_def pk_ident_def)
  then have prov: "same_provenance j r' p' = same_source j i" by (rule same_provenance_source)
  have "pk_release_id p' = wr_id r"
    using at1(1) rel_invD(6) [OF inv1] ident_fields(1) [OF id(2)] by (auto simp: pair_at_def)
  then have "rel_release st' (wr_id r) = Some r'" "rel_packaging st' (pk_id p) = Some p'"
    using at2 by (simp_all add: pair_at_def rel_release_def rel_packaging_def)
  with id rel_prepare_known [OF assms(6) key at2, of cd now' io'] prov show ?thesis by auto
qed

theorem prepare_idempotent_witness:
  "(\<exists>r' p'. wr_ident r' = wr_ident sr0 \<and>
      rel_prepare zero_digest null_codec 9 io_ok sample_input sample_building = (Inr (r', p'), sample_building))
   \<and> rel_prepare zero_digest null_codec 9 io_ok (sample_input\<lparr>ri_project_id := ''p2''\<rparr>) sample_building =
        (Inl (Rel_IntegrityConflict ''idempotency key is already bound to different release provenance''),
         sample_building)"
proof -
  let ?other = "sample_input\<lparr>ri_project_id := ''p2''\<rparr>"
  have first: "fst (rel_prepare zero_digest null_codec 1 io_ok sample_input sample_empty) = Inr (sr0, sp0)"
    by (rule rel_prepare_ok(2) [OF sample_input_valid sample_key [symmetric]])
      (simp_all add: sample_empty_def release_state_default_def sr0_def sp0_def)
  have steps: "(rel_step zero_digest null_codec)\<^sup>*\<^sup>*
      (snd (rel_prepare zero_digest null_codec 1 io_ok sample_input sample_empty)) sample_building"
    using sample_steps(1) unfolding sample_prepared_def by (rule r_into_rtranclp)
  note again = prepare_idempotent [OF sample_reach_empty fresh_prefix_empty first steps]
  have "packaging_idempotency_key zero_digest ?other = packaging_idempotency_key zero_digest sample_input"
    by (simp add: packaging_idempotency_key_def)
  moreover have "validate_packaging_input ?other = Inr ()"
    by (simp add: validate_packaging_input_def release_input_fields_def sample_input_def
        is_blank_ascii ends_with_def starts_with_def)
  moreover have "same_source sample_input sample_input" "\<not> same_source ?other sample_input"
    by (simp_all add: same_source_def sample_input_def)
  ultimately show ?thesis using again [OF refl sample_input_valid, of 9 io_ok] again [of ?other 9 io_ok] by auto
qed

text \<open>
  Only a release whose image failed its scan is ever garbage collectable or collected; a
  release whose scan passed keeps its image.
\<close>

theorem garbage_only_rejected:
  assumes "rel_reach D cd st" "rel_release st rid = Some r"
    and "wr_status r \<in> {Wr_GarbageCollectable, Wr_GarbageCollected}"
  shows "\<exists>p ev. rel_packaging_for_release st rid = Some p \<and> pk_scan_evidence p = Some ev \<and> \<not> sc_passed ev"
proof -
  have inv: "rel_inv (rel_mem st)" using assms(1) by (rule rel_reach_inv)
  obtain p where p: "rel_packaging_for_release st rid = Some p" "pair_inv r p"
    using packaging_of_release [OF inv assms(2)] by blast
  then have "pk_scan_evidence p \<noteq> None" "\<not> scan_passed p"
    using assms(3) by (auto simp: pair_inv_def status_inv_def)
  with p(1) show ?thesis by (auto simp: scan_passed_def)
qed

theorem garbage_only_rejected_witness:
  "\<exists>p ev. rel_packaging_for_release sample_collectable (release_id_of (hex64 (CHR ''0''))) = Some p
     \<and> pk_scan_evidence p = Some ev \<and> \<not> sc_passed ev"
proof -
  let ?r = "(sr5 False)\<lparr>wr_status := Wr_GarbageCollectable, wr_updated_at := 7\<rparr>"
  have "rel_release sample_collectable (release_id_of (hex64 (CHR ''0''))) = Some ?r"
    using sample_pair_collectable by (simp add: pair_at_def rel_release_def sample_pair_defs)
  then show ?thesis using garbage_only_rejected [OF sample_reach(2), of _ ?r] by simp
qed

end
