(* ===== verification/PackagerProps.thy ===== *)
theory PackagerProps
  imports ReleasePackager ReleaseProps
begin

text \<open>
  What the packaging loop guarantees: every successful iteration moves the packaging forward, so the
  bound of eight iterations is never the reason to stop; success means a validated release; and a
  registry that disagrees with the deterministic build stops the release.
\<close>

section \<open>Successful store calls\<close>

lemma rel_update_success:
  assumes inv: "rel_inv (rel_mem st)" and f: "upd_fn f"
    and ok: "fst (rel_update cd now io pid f st) = Inr (r2, p2)"
  obtains r p r1 p1 where "pair_at st pid r p" "f r p = Inr (r1, p1)"
    "r2 = r1\<lparr>wr_updated_at := now\<rparr>" "p2 = p1\<lparr>pk_updated_at := now\<rparr>"
    "pair_at (snd (rel_update cd now io pid f st)) pid r2 p2"
proof -
  from ok obtain p where p: "bt_get (rs_packagings (rel_mem st)) pid = Some p"
    by (cases "bt_get (rs_packagings (rel_mem st)) pid") (auto simp: rel_update_def)
  from ok p obtain r where r: "bt_get (rs_releases (rel_mem st)) (pk_release_id p) = Some r"
    by (cases "bt_get (rs_releases (rel_mem st)) (pk_release_id p)") (auto simp: rel_update_def)
  from ok p r obtain q where q: "f r p = Inr q" by (cases "f r p") (auto simp: rel_update_def)
  obtain r1 p1 where f1: "f r p = Inr (r1, p1)" using q by (cases q) simp
  let ?P = "rel_persist_pair cd io (r1\<lparr>wr_updated_at := now\<rparr>) (p1\<lparr>pk_updated_at := now\<rparr>) st"
  have u: "rel_update cd now io pid f st = (case ?P of (Inl x, st') \<Rightarrow> (Inl x, st')
      | (Inr _, st') \<Rightarrow> (Inr (r1\<lparr>wr_updated_at := now\<rparr>, p1\<lparr>pk_updated_at := now\<rparr>), st'))"
    using p r f1 by (simp add: rel_update_def Let_def)
  have P: "fst ?P = Inr ()" and res: "r2 = r1\<lparr>wr_updated_at := now\<rparr>" "p2 = p1\<lparr>pk_updated_at := now\<rparr>"
    and s: "snd (rel_update cd now io pid f st) = snd ?P"
    using u ok by (auto split: prod.splits sum.splits)
  have "pk_ident p1 = pk_ident p" using upd_fn_ident [OF f f1] by simp
  from ident_fields(1) [OF this] have "pk_id p2 = pid"
    using rel_invD(4) [OF inv p] res by (simp add: packaging_ok_def)
  then have "pair_at (snd (rel_update cd now io pid f st)) pid r2 p2"
    using pair_at_apply [OF rel_persist_pair_ok [OF P]] s res by simp
  with that p r f1 res show thesis by (auto simp: pair_at_def)
qed

fun pk_rank :: "release_packaging_status \<Rightarrow> nat" where
  "pk_rank Pk_Building = 1"
| "pk_rank Pk_Pushed = 2"
| "pk_rank Pk_Scanning = 3"
| "pk_rank Pk_Signing = 4"
| "pk_rank Pk_Validated = 5"
| "pk_rank _ = 0"

text \<open>The status a closure leaves when it succeeds.\<close>

lemma upd_rank:
  "begin_build_upd r p = Inr (r1, p1) \<Longrightarrow> 1 \<le> pk_rank (pk_status p1)"
  "record_built_upd d r p = Inr (r1, p1) \<Longrightarrow> pk_rank (pk_status p1) = 1"
  "record_pushed_upd d r p = Inr (r1, p1) \<Longrightarrow> pk_rank (pk_status p1) = 2"
  "begin_scan_upd r p = Inr (r1, p1) \<Longrightarrow> pk_rank (pk_status p1) = 3"
  "record_scan_upd sb pv ev r p = Inr (r1, p1) \<Longrightarrow> sc_passed ev \<Longrightarrow> pk_rank (pk_status p1) = 4"
  "record_signature_upd who d r p = Inr (r1, p1) \<Longrightarrow> pk_rank (pk_status p1) = 5"
  by (erule begin_build_updE; simp)
    (auto simp: record_built_upd_def record_pushed_upd_def begin_scan_upd_def record_scan_upd_def
      record_signature_upd_def Let_def split: if_splits sum.splits)

text \<open>\<open>at_rank s pid P\<close>: the store is consistent and the packaging's rank satisfies \<open>P\<close>.\<close>

definition at_rank :: "release_store \<Rightarrow> string \<Rightarrow> (nat \<Rightarrow> bool) \<Rightarrow> bool" where
  "at_rank st pid P \<longleftrightarrow> rel_inv (rel_mem st) \<and>
     (\<exists>p. rel_packaging st pid = Some p \<and> P (pk_rank (pk_status p)))"

lemma at_rank_update:
  assumes "rel_inv (rel_mem st)" "upd_fn f" "fst (rel_update cd now io pid f st) = Inr q"
    and "\<And>r p r1 p1. f r p = Inr (r1, p1) \<Longrightarrow> P (pk_rank (pk_status p1))"
  shows "at_rank (snd (rel_update cd now io pid f st)) pid P"
proof -
  obtain r2 p2 where q: "q = (r2, p2)" by (cases q)
  from rel_update_success [OF assms(1,2) assms(3) [unfolded q]] obtain r p r1 p1
    where f: "f r p = Inr (r1, p1)" "p2 = p1\<lparr>pk_updated_at := now\<rparr>"
      and at: "pair_at (snd (rel_update cd now io pid f st)) pid r2 p2" by metis
  show ?thesis
    using rel_inv_update [OF assms(1,2)] at assms(4) [OF f(1)] f(2)
    by (simp add: at_rank_def pair_at_def rel_packaging_def)
qed

lemma validate_digest_case:
  "(case validate_digest d f of Inl e \<Rightarrow> A e | Inr u \<Rightarrow> B) =
    (if valid_digest d then B else A (projl (validate_digest d f)))"
  using validate_digest_iff [of d f "()"] by (cases "validate_digest d f") auto

text \<open>A call that succeeded passed its validation and is the \<open>update\<close> of its closure.\<close>

lemma store_ops_update:
  "fst (rel_begin_build cd now io pid st) = Inr x \<Longrightarrow>
     rel_begin_build cd now io pid st = apfst (map_sum id snd) (rel_update cd now io pid begin_build_upd st)"
  "fst (rel_record_built cd now io pid d st) = Inr x \<Longrightarrow> valid_digest d \<and>
     rel_record_built cd now io pid d st = apfst (map_sum id snd) (rel_update cd now io pid (record_built_upd d) st)"
  "fst (rel_record_pushed cd now io pid d st) = Inr y \<Longrightarrow> valid_digest d \<and>
     rel_record_pushed cd now io pid d st = rel_update cd now io pid (record_pushed_upd d) st"
  "fst (rel_begin_scan cd now io pid st) = Inr x \<Longrightarrow>
     rel_begin_scan cd now io pid st = apfst (map_sum id snd) (rel_update cd now io pid begin_scan_upd st)"
  "fst (rel_record_scan cd now io pid sb pv ev st) = Inr y \<Longrightarrow>
     valid_digest sb \<and> valid_digest pv \<and> valid_digest (sc_report_digest ev) \<and>
     rel_record_scan cd now io pid sb pv ev st = rel_update cd now io pid (record_scan_upd sb pv ev) st"
  "fst (rel_record_signature cd now io pid who d st) = Inr y \<Longrightarrow> \<not> is_blank who \<and> valid_digest d \<and>
     rel_record_signature cd now io pid who d st = rel_update cd now io pid (record_signature_upd who d) st"
  by (simp_all add: rel_begin_build_def rel_record_built_def rel_record_pushed_def rel_begin_scan_def
      rel_record_scan_def rel_record_signature_def validate_digest_case split: if_splits)

lemma fst_apfst_Inr: "fst (apfst (map_sum id snd) q) = Inr x \<Longrightarrow> \<exists>y. fst q = Inr y"
  by (cases q; cases "fst q") auto

lemma store_ops_rank:
  assumes inv: "rel_inv (rel_mem st)"
  shows "fst (rel_begin_build cd now io pid st) = Inr x \<Longrightarrow>
      at_rank (snd (rel_begin_build cd now io pid st)) pid (\<lambda>n. 1 \<le> n)"
    and "fst (rel_record_built cd now io pid d st) = Inr x \<Longrightarrow>
      at_rank (snd (rel_record_built cd now io pid d st)) pid (\<lambda>n. n = 1)"
    and "fst (rel_record_pushed cd now io pid d st) = Inr y \<Longrightarrow>
      at_rank (snd (rel_record_pushed cd now io pid d st)) pid (\<lambda>n. n = 2)"
    and "fst (rel_begin_scan cd now io pid st) = Inr x \<Longrightarrow>
      at_rank (snd (rel_begin_scan cd now io pid st)) pid (\<lambda>n. n = 3)"
    and "fst (rel_record_scan cd now io pid sb pv ev st) = Inr y \<Longrightarrow> sc_passed ev \<Longrightarrow>
      at_rank (snd (rel_record_scan cd now io pid sb pv ev st)) pid (\<lambda>n. n = 4)"
    and "fst (rel_record_signature cd now io pid who d st) = Inr y \<Longrightarrow>
      at_rank (snd (rel_record_signature cd now io pid who d st)) pid (\<lambda>n. n = 5)"
proof -
  note rank = at_rank_update [OF inv]
  show "at_rank (snd (rel_begin_build cd now io pid st)) pid (\<lambda>n. 1 \<le> n)"
    if ok: "fst (rel_begin_build cd now io pid st) = Inr x"
  proof -
    note u = store_ops_update(1) [OF ok]
    from fst_apfst_Inr [OF ok [unfolded u]] obtain q where "fst (rel_update cd now io pid begin_build_upd st) = Inr q" by blast
    from rank [OF upd_begin_build this, of "\<lambda>n. 1 \<le> n"] upd_rank(1) show ?thesis unfolding u by simp
  qed
  show "at_rank (snd (rel_record_built cd now io pid d st)) pid (\<lambda>n. n = 1)"
    if ok: "fst (rel_record_built cd now io pid d st) = Inr x"
  proof -
    from store_ops_update(2) [OF ok] have v: "valid_digest d"
      and u: "rel_record_built cd now io pid d st =
        apfst (map_sum id snd) (rel_update cd now io pid (record_built_upd d) st)" by simp_all
    from fst_apfst_Inr [OF ok [unfolded u]] obtain q where "fst (rel_update cd now io pid (record_built_upd d) st) = Inr q" by blast
    from rank [OF upd_record_built [OF v] this, of "\<lambda>n. n = 1"] upd_rank(2)
    show ?thesis unfolding u by simp
  qed
  show "at_rank (snd (rel_record_pushed cd now io pid d st)) pid (\<lambda>n. n = 2)"
    if ok: "fst (rel_record_pushed cd now io pid d st) = Inr y"
    using store_ops_update(3) [OF ok] ok rank [OF upd_record_pushed, of d _ _ _ _ y "\<lambda>n. n = 2"]
      upd_rank(3) by simp
  show "at_rank (snd (rel_begin_scan cd now io pid st)) pid (\<lambda>n. n = 3)"
    if ok: "fst (rel_begin_scan cd now io pid st) = Inr x"
  proof -
    note u = store_ops_update(4) [OF ok]
    from fst_apfst_Inr [OF ok [unfolded u]] obtain q where "fst (rel_update cd now io pid begin_scan_upd st) = Inr q" by blast
    from rank [OF upd_begin_scan this, of "\<lambda>n. n = 3"] upd_rank(4) show ?thesis unfolding u by simp
  qed
  show "at_rank (snd (rel_record_scan cd now io pid sb pv ev st)) pid (\<lambda>n. n = 4)"
    if ok: "fst (rel_record_scan cd now io pid sb pv ev st) = Inr y" "sc_passed ev"
    using store_ops_update(5) [OF ok(1)] ok
      rank [OF upd_record_scan, of sb pv ev _ _ _ _ y "\<lambda>n. n = 4"] upd_rank(5) by simp
  show "at_rank (snd (rel_record_signature cd now io pid who d st)) pid (\<lambda>n. n = 5)"
    if ok: "fst (rel_record_signature cd now io pid who d st) = Inr y"
    using store_ops_update(6) [OF ok] ok
      rank [OF upd_record_signature, of who d _ _ _ _ y "\<lambda>n. n = 5"] upd_rank(6) by simp
qed

lemma store_callD:
  assumes "store_call en op s = (res, s1)"
  obtains now io where "res = err_into rel_error_string (fst (op now io (pg_store s)))"
    "pg_store s1 = snd (op now io (pg_store s))" "pg_world s1 = pg_world s"
proof -
  show thesis
    by (rule that [of "en_clock en (pg_tick s)" "en_disk en (pg_tick s)"])
      (use assms in \<open>auto simp: store_call_def split: prod.splits\<close>)
qed

lemma store_call_ok:
  assumes "store_call en op s = (Inr q, s1)"
  obtains now io where "fst (op now io (pg_store s)) = Inr q" "pg_store s1 = snd (op now io (pg_store s))"
proof -
  from assms obtain now io where "Inr q = err_into rel_error_string (fst (op now io (pg_store s)))"
    "pg_store s1 = snd (op now io (pg_store s))" by (rule store_callD)
  moreover from this(1) have "fst (op now io (pg_store s)) = Inr q" by (metis err_into_simps(3))
  ultimately show thesis using that by blast
qed

lemma world_callD:
  assumes "world_call op s = (res, s1)"
  shows "op (pg_world s) = (res, pg_world s1)" "pg_store s1 = pg_store s" "pg_tick s1 = pg_tick s"
  using assms by (auto simp: world_call_def split: prod.splits)


section \<open>Every successful iteration moves forward\<close>

lemma push_unless_present_store:
  "push_unless_present be rq built existing s = (r, s') \<Longrightarrow> pg_store s' = pg_store s"
  by (auto simp: push_unless_present_def dest: world_callD(2) split: option.splits if_splits)

lemma build_and_push_rank:
  assumes "build_and_push en be rq p s = (Inr u, s')" "rel_inv (rel_mem (pg_store s))"
  shows "at_rank (pg_store s') (pk_id p) (\<lambda>n. n = 2)"
proof -
  from assms(1) obtain built d s1 s2 s3 s4 b q where
    1: "world_call (pb_build be rq) s = (Inr built, s1)" and
    2: "store_call en (\<lambda>now io. rel_record_built (en_codec en) now io (pk_id p) (bi_digest built)) s1
          = (Inr b, s2)" and
    3: "world_call (pb_registry_digest be (rb_image_repository rq) (rb_release_id rq)) s2 = (Inr d, s3)" and
    4: "push_unless_present be rq built d s3 = (Inr (bi_digest built), s4)" and
    5: "store_call en (\<lambda>now io. rel_record_pushed (en_codec en) now io (pk_id p) (bi_digest built)) s4
          = (Inr q, s')"
    unfolding build_and_push_def
    by (auto split: sum.splits if_splits prod.splits option.splits)
  have i1: "rel_inv (rel_mem (pg_store s1))" using assms(2) world_callD(2) [OF 1] by simp
  from 2 obtain now io where "fst (rel_record_built (en_codec en) now io (pk_id p) (bi_digest built)
      (pg_store s1)) = Inr b"
    and s2: "pg_store s2 = snd (rel_record_built (en_codec en) now io (pk_id p) (bi_digest built) (pg_store s1))"
    by (rule store_call_ok)
  from store_ops_rank(2) [OF i1 this(1)] s2 have "rel_inv (rel_mem (pg_store s2))"
    by (simp add: at_rank_def)
  then have i4: "rel_inv (rel_mem (pg_store s4))"
    using world_callD(2) [OF 3] push_unless_present_store [OF 4] by simp
  from 5 obtain now io where "fst (rel_record_pushed (en_codec en) now io (pk_id p) (bi_digest built)
      (pg_store s4)) = Inr q"
    and "pg_store s' = snd (rel_record_pushed (en_codec en) now io (pk_id p) (bi_digest built) (pg_store s4))"
    by (rule store_call_ok)
  with store_ops_rank(3) [OF i4 this(1)] show ?thesis by simp
qed

lemma packager_scan_rank:
  assumes "packager_scan en be rq p s = (Inr u, s')" "rel_inv (rel_mem (pg_store s))"
  shows "at_rank (pg_store s') (pk_id p) (\<lambda>n. n = 4)"
proof -
  from assms(1) obtain d ev scan s1 s2 q where
    1: "world_call (pb_generate_evidence be rq d) s = (Inr ev, s1)" and
    2: "world_call (pb_scan be d ev (pk_scan_policy_version p)) s1 = (Inr scan, s2)" and
    3: "store_call en (\<lambda>now io. rel_record_scan (en_codec en) now io (pk_id p)
            (pe_sbom_digest ev) (pe_provenance_digest ev) scan) s2 = (Inr q, s')" and
    passed: "sc_passed scan"
    unfolding packager_scan_def
    by (auto split: sum.splits if_splits prod.splits option.splits)
  have i2: "rel_inv (rel_mem (pg_store s2))"
    using assms(2) world_callD(2) [OF 1] world_callD(2) [OF 2] by simp
  from 3 obtain now io where "fst (rel_record_scan (en_codec en) now io (pk_id p)
      (pe_sbom_digest ev) (pe_provenance_digest ev) scan (pg_store s2)) = Inr q"
    and "pg_store s' = snd (rel_record_scan (en_codec en) now io (pk_id p)
      (pe_sbom_digest ev) (pe_provenance_digest ev) scan (pg_store s2))"
    by (rule store_call_ok)
  with store_ops_rank(5) [OF i2 this(1) passed] show ?thesis by simp
qed

lemma packager_sign_rank:
  assumes "packager_sign en be p s = (Inr u, s')" "rel_inv (rel_mem (pg_store s))"
  shows "at_rank (pg_store s') (pk_id p) (\<lambda>n. n = 5)"
proof -
  from assms(1) obtain d pv sg s1 q where
    1: "world_call (pb_sign be d pv) s = (Inr sg, s1)" and
    2: "store_call en (\<lambda>now io. rel_record_signature (en_codec en) now io (pk_id p)
            (sg_identity sg) (sg_signature_digest sg)) s1 = (Inr q, s')"
    unfolding packager_sign_def
    by (auto split: sum.splits if_splits prod.splits option.splits)
  have i1: "rel_inv (rel_mem (pg_store s1))" using assms(2) world_callD(2) [OF 1] by simp
  from 2 obtain now io where "fst (rel_record_signature (en_codec en) now io (pk_id p)
      (sg_identity sg) (sg_signature_digest sg) (pg_store s1)) = Inr q"
    and "pg_store s' = snd (rel_record_signature (en_codec en) now io (pk_id p)
      (sg_identity sg) (sg_signature_digest sg) (pg_store s1))"
    by (rule store_call_ok)
  with store_ops_rank(6) [OF i1 this(1)] show ?thesis by simp
qed

lemma mark_reconcile_fails: "\<exists>e' s'. mark_reconcile en pid e s = (Inl e', s')"
  by (auto simp: mark_reconcile_def split: prod.splits sum.splits)

lemma packager_iteration_again:
  assumes it: "packager_iteration en be pid root profile s = (Inr None, s')"
    and inv: "rel_inv (rel_mem (pg_store s))"
    and p: "rel_packaging (pg_store s) pid = Some p"
  shows "at_rank (pg_store s') pid (\<lambda>n. pk_rank (pk_status p) < n)"
proof -
  have pid: "pk_id p = pid"
    using rel_invD(4) [OF inv] p by (simp add: rel_packaging_def packaging_ok_def)
  have weaken: "at_rank st pid Q" if "at_rank st pid P" "\<And>n. P n \<Longrightarrow> Q n" for st P Q
    using that by (auto simp: at_rank_def)
  have nomark: "mark_reconcile en pid e s1 = (Inr x, s2) \<Longrightarrow> False" for e s1 s2 and x :: "work_release option"
    using mark_reconcile_fails [of en pid e s1] by (metis Inl_Inr_False prod.inject)
  note unf = it [unfolded packager_iteration_def Let_def p]
  consider (start) "pk_status p \<in> {Pk_Prepared, Pk_Failed, Pk_ReconcileRequired}"
    | (build) "pk_status p = Pk_Building" | (pushed) "pk_status p = Pk_Pushed"
    | (scanning) "pk_status p = Pk_Scanning" | (signing) "pk_status p = Pk_Signing"
    | (validated) "pk_status p = Pk_Validated" by (cases "pk_status p") auto
  then show ?thesis
  proof cases
    case start
    with unf obtain q where "store_call en (\<lambda>now io. rel_begin_build (en_codec en) now io pid) s = (Inr q, s')"
      by (auto split: sum.splits if_splits prod.splits option.splits)
    then obtain now io where "fst (rel_begin_build (en_codec en) now io pid (pg_store s)) = Inr q"
      and "pg_store s' = snd (rel_begin_build (en_codec en) now io pid (pg_store s))"
      by (rule store_call_ok)
    with store_ops_rank(1) [OF inv this(1)] start show ?thesis by (auto intro: weaken)
  next
    case build
    with unf nomark obtain rq u where "build_and_push en be rq p s = (Inr u, s')"
      by (auto split: sum.splits if_splits prod.splits option.splits)
    from build_and_push_rank [OF this inv] pid have "at_rank (pg_store s') pid (\<lambda>n. n = 2)" by simp
    then show ?thesis by (rule weaken) (use build in simp)
  next
    case pushed
    with unf obtain q where "store_call en (\<lambda>now io. rel_begin_scan (en_codec en) now io pid) s = (Inr q, s')"
      by (auto split: sum.splits if_splits prod.splits option.splits)
    then obtain now io where "fst (rel_begin_scan (en_codec en) now io pid (pg_store s)) = Inr q"
      and "pg_store s' = snd (rel_begin_scan (en_codec en) now io pid (pg_store s))"
      by (rule store_call_ok)
    with store_ops_rank(4) [OF inv this(1)] pushed show ?thesis by (auto intro: weaken)
  next
    case scanning
    with unf nomark obtain rq u where "packager_scan en be rq p s = (Inr u, s')"
      by (auto split: sum.splits if_splits prod.splits option.splits)
    from packager_scan_rank [OF this inv] pid have "at_rank (pg_store s') pid (\<lambda>n. n = 4)" by simp
    then show ?thesis by (rule weaken) (use scanning in simp)
  next
    case signing
    with unf nomark obtain u where "packager_sign en be p s = (Inr u, s')"
      by (auto split: sum.splits if_splits prod.splits option.splits)
    from packager_sign_rank [OF this inv] pid have "at_rank (pg_store s') pid (\<lambda>n. n = 5)" by simp
    then show ?thesis by (rule weaken) (use signing in simp)
  next
    case validated
    with unf show ?thesis by (auto split: sum.splits if_splits option.splits)
  qed
qed

lemma pk_rank_le: "pk_rank x \<le> 5"
  by (cases x) simp_all

lemma packager_loop_enough:
  assumes "at_rank (pg_store s) pid (\<lambda>k. 6 \<le> n + k \<and> 6 \<le> m + k)"
  shows "packager_loop n en be pid root profile s = packager_loop m en be pid root profile s"
  using assms
proof (induction n arbitrary: m s)
  case 0
  then obtain p :: release_packaging_record where "6 \<le> pk_rank (pk_status p)" by (auto simp: at_rank_def)
  with pk_rank_le [of "pk_status p"] show ?case by simp
next
  case (Suc n)
  then obtain p where p: "rel_packaging (pg_store s) pid = Some p" and inv: "rel_inv (rel_mem (pg_store s))"
    and k: "6 \<le> Suc n + pk_rank (pk_status p)" "6 \<le> m + pk_rank (pk_status p)"
    by (auto simp: at_rank_def)
  have "m \<noteq> 0" using k(2) pk_rank_le [of "pk_status p"] by linarith
  then obtain l where m: "m = Suc l" by (cases m) auto
  show ?case
  proof (cases "\<exists>s1. packager_iteration en be pid root profile s = (Inr None, s1)")
    case True
    then obtain s1 where s1: "packager_iteration en be pid root profile s = (Inr None, s1)" by blast
    from packager_iteration_again [OF this inv p]
    have "at_rank (pg_store s1) pid (\<lambda>j. 6 \<le> n + j \<and> 6 \<le> l + j)"
      using k m by (auto simp: at_rank_def)
    from Suc.IH [OF this] s1 m show ?thesis by simp
  next
    case False
    then show ?thesis using m by (auto split: sum.splits option.splits prod.splits)
  qed
qed


section \<open>Success\<close>

lemma packager_iteration_done:
  assumes it: "packager_iteration en be pid root profile s = (Inr (Some r), s')"
    and inv: "rel_inv (rel_mem (pg_store s))"
  shows "s' = s \<and> (\<exists>p. pair_at (pg_store s) pid r p \<and> pk_status p = Pk_Validated)"
proof -
  have nomark: "mark_reconcile en pid e s1 = (Inr x, s2) \<Longrightarrow> False" for e s1 s2 and x :: "work_release option"
    using mark_reconcile_fails [of en pid e s1] by (metis Inl_Inr_False prod.inject)
  from it obtain p where p: "rel_packaging (pg_store s) pid = Some p"
      "rel_release (pg_store s) (pk_release_id p) = Some r"
    and st: "pk_status p \<notin> {Pk_Prepared, Pk_Failed, Pk_ReconcileRequired, Pk_Building, Pk_Pushed,
      Pk_Scanning, Pk_Signing}" and "s' = s"
    unfolding packager_iteration_def Let_def
    by (auto split: option.splits sum.splits if_splits prod.splits dest: nomark)
  have "pk_status p = Pk_Validated" using st by (cases "pk_status p") auto
  with p \<open>s' = s\<close> show ?thesis by (auto simp: pair_at_def rel_packaging_def rel_release_def)
qed

lemma packager_loop_done:
  assumes "packager_loop n en be pid root profile s = (Inr r, s')" "rel_inv (rel_mem (pg_store s))"
  shows "rel_inv (rel_mem (pg_store s')) \<and> (\<exists>p. pair_at (pg_store s') pid r p \<and> pk_status p = Pk_Validated)"
  using assms
proof (induction n arbitrary: s)
  case (Suc n)
  obtain res s1 where it: "packager_iteration en be pid root profile s = (res, s1)" by fastforce
  consider (again) "res = Inr None" | (stop) "res = Inr (Some r)" "s1 = s'"
    using Suc.prems(1) it by (auto split: sum.splits option.splits)
  then show ?case
  proof cases
    case again
    have "\<exists>p. rel_packaging (pg_store s) pid = Some p"
      using it again by (auto simp: packager_iteration_def split: option.splits)
    then obtain p where "rel_packaging (pg_store s) pid = Some p" by blast
    from packager_iteration_again [OF it [unfolded again] Suc.prems(2) this]
    have "rel_inv (rel_mem (pg_store s1))" by (simp add: at_rank_def)
    with Suc.IH [of s1] Suc.prems(1) it again show ?thesis by simp
  next
    case stop
    from packager_iteration_done [OF it [unfolded stop] Suc.prems(2)] Suc.prems(2) show ?thesis by auto
  qed
qed simp

text \<open>\<open>loop_ends n\<close>: the loop leaves its body with a release or an error within \<open>n\<close> iterations.\<close>

fun loop_ends ::
    "nat \<Rightarrow> packager_env \<Rightarrow> 'w packaging_backend \<Rightarrow> string \<Rightarrow> string \<Rightarrow> runtime_profile
      \<Rightarrow> 'w packager_state \<Rightarrow> bool" where
  "loop_ends 0 en be pid root profile s \<longleftrightarrow> False"
| "loop_ends (Suc n) en be pid root profile s \<longleftrightarrow>
     (case packager_iteration en be pid root profile s of
        (Inr None, s1) \<Rightarrow> loop_ends n en be pid root profile s1
      | _ \<Rightarrow> True)"

lemma loop_ends_rank:
  assumes "at_rank (pg_store s) pid (\<lambda>k. 6 \<le> n + k)"
  shows "loop_ends n en be pid root profile s"
  using assms
proof (induction n arbitrary: s)
  case 0
  then obtain p :: release_packaging_record where "6 \<le> pk_rank (pk_status p)" by (auto simp: at_rank_def)
  with pk_rank_le [of "pk_status p"] show ?case by simp
next
  case (Suc n)
  then obtain p where p: "rel_packaging (pg_store s) pid = Some p" and inv: "rel_inv (rel_mem (pg_store s))"
    and k: "6 \<le> Suc n + pk_rank (pk_status p)" by (auto simp: at_rank_def)
  show ?case
  proof (cases "\<exists>s1. packager_iteration en be pid root profile s = (Inr None, s1)")
    case True
    then obtain s1 where s1: "packager_iteration en be pid root profile s = (Inr None, s1)" by blast
    from packager_iteration_again [OF this inv p]
    have "at_rank (pg_store s1) pid (\<lambda>j. 6 \<le> n + j)" using k by (auto simp: at_rank_def)
    from Suc.IH [OF this] s1 show ?thesis by simp
  next
    case False
    then show ?thesis by (auto split: sum.splits option.splits prod.splits)
  qed
qed

text \<open>
  C5. The packaging loop ends: within six iterations its body returns a release or an error of its own, so the
  error "did not converge" after eight is unreachable, and any larger bound gives the same result and state.
\<close>

theorem packager_bound_suffices:
  assumes "rel_reach D cd (pg_store s)"
  shows "loop_ends 6 en be pid root profile s
    \<and> (6 \<le> n \<longrightarrow> packager_loop n en be pid root profile s = packager_loop 8 en be pid root profile s)"
proof (cases "rel_packaging (pg_store s) pid")
  case None
  have once: "packager_loop (Suc k) en be pid root profile s =
      (Inl (''release packaging record not found: '' @ pid), s)" for k
    using None by (simp add: packager_iteration_def)
  have "loop_ends (Suc 5) en be pid root profile s"
    by (simp only: loop_ends.simps) (simp add: None packager_iteration_def)
  moreover have "packager_loop n en be pid root profile s = packager_loop (Suc 7) en be pid root profile s" if "6 \<le> n"
    using that once [of "n - 1"] once [of 7] by simp
  ultimately show ?thesis by simp
next
  case (Some p)
  with rel_reach_inv [OF assms(1)] have "at_rank (pg_store s) pid (\<lambda>k. 6 \<le> 6 + k)"
    "6 \<le> n \<Longrightarrow> at_rank (pg_store s) pid (\<lambda>k. 6 \<le> n + k \<and> 6 \<le> 8 + k)"
    by (auto simp: at_rank_def)
  then show ?thesis using loop_ends_rank packager_loop_enough by blast
qed

text \<open>
  When packaging a release succeeds, the release returned is the stored one and is validated.
\<close>

theorem packager_success_validated:
  assumes "rel_reach D cd (pg_store s)"
    and "packager_reconcile en be pid root profile s = (Inr r, s')"
  shows "\<exists>p. rel_packaging (pg_store s') pid = Some p \<and>
    rel_release (pg_store s') (pk_release_id p) = Some r \<and> pk_status p = Pk_Validated \<and>
    wr_status r = Wr_Validated"
proof -
  have "packager_loop 8 en be pid root profile s = (Inr r, s')"
    using assms(2) by (simp add: packager_reconcile_def split: sum.splits)
  from packager_loop_done [OF this rel_reach_inv [OF assms(1)]] obtain p
    where inv: "rel_inv (rel_mem (pg_store s'))" and at: "pair_at (pg_store s') pid r p"
      and st: "pk_status p = Pk_Validated" by blast
  have "pair_inv r p" using rel_inv_pair [OF inv, of pid p r] at by (simp add: pair_at_def)
  with st have "wr_status r = Wr_Validated" by (simp add: pair_inv_def status_inv_def)
  with at st show ?thesis by (auto simp: pair_at_def rel_packaging_def rel_release_def)
qed

section \<open>A concrete packaging\<close>

definition sample_profile :: runtime_profile where
  "sample_profile = \<lparr>rp_id = static_web_profile_id, rp_manifest = manifest_static_web_v1,
     rp_base_image_digest = pinned (CHR ''c''), rp_packager_version = ''pk1'',
     rp_scan_policy_version = ''sp1''\<rparr>"

text \<open>A backend that signs; its world counts the calls.\<close>

definition sample_backend :: "nat packaging_backend" where
  "sample_backend =
    \<lparr>pb_build = (\<lambda>rq w. (Inr \<lparr>bi_digest = pinned (CHR ''e''), bi_layout_uri = ''oci'',
        bi_artifact_manifest_hash = rb_artifact_manifest_hash rq,
        bi_runtime_manifest_hash = rb_runtime_manifest_hash rq\<rparr>, Suc w)),
     pb_registry_digest = (\<lambda>repo rid w. (Inr None, Suc w)),
     pb_push = (\<lambda>rq b w. (Inr (bi_digest b), Suc w)),
     pb_generate_evidence = (\<lambda>rq d w. (Inr \<lparr>pe_sbom_digest = pinned (CHR ''f''),
        pe_provenance_digest = pinned (CHR ''1'')\<rparr>, Suc w)),
     pb_scan = (\<lambda>d e pol w. (Inr (sample_scan True), Suc w)),
     pb_sign = (\<lambda>d pv w. (Inr \<lparr>sg_identity = ''signer'', sg_signature_digest = pinned (CHR ''2'')\<rparr>, Suc w))\<rparr>"

definition sample_env :: packager_env where
  "sample_env = \<lparr>en_digest = (\<lambda>_. replicate 32 (CHR 0xBB)), en_codec = null_codec, en_clock = (\<lambda>_. 7),
     en_disk = (\<lambda>_. io_ok), en_manifest_json = (\<lambda>_. ''{}''),
     en_artifact = (\<lambda>rq. Inr (rb_artifact_manifest_hash rq))\<rparr>"

definition sample_state :: "release_store \<Rightarrow> nat packager_state" where
  "sample_state st = \<lparr>pg_store = st, pg_world = 0, pg_tick = 0\<rparr>"


lemma sample_key_hex: "sha256_hex (en_digest sample_env) b = hex64 (CHR ''b'')"
proof -
  have "concat (replicate 32 [CHR ''b'', CHR ''b'']) = replicate 64 (CHR ''b'')" by code_simp
  moreover have "char_of (98 :: nat) = CHR ''b''" by code_simp
  ultimately show ?thesis by (simp add: sha256_hex_def sample_env_def hex64_def hex_byte_def hex_digit_def)
qed

lemma sample_profile_valid: "validate_profile sample_profile = Inr ()"
  by (simp add: validate_profile_def sample_profile_def validate_manifest_def validate_image_digest_def
      pinned_def hex64_def strip_prefix_def starts_with_def is_blank_ascii list_all_iff string_defs)

lemma sample_iteration_sign:
  "packager_iteration sample_env sample_backend sample_pid ''root'' sample_profile
      (sample_state (sample_scanned True))
    = (Inr None, \<lparr>pg_store = sample_validated, pg_world = 1, pg_tick = 1\<rparr>)"
proof -
  have at: "rel_packaging (sample_scanned True) sample_pid = Some (sp5 True)"
    "rel_release (sample_scanned True) (pk_release_id (sp5 True)) = Some (sr5 True)"
    using sample_pair_scanned [of True] by (simp_all add: pair_at_def rel_packaging_def rel_release_def)
  have "fst (rel_record_signature null_codec 7 io_ok sample_pid ''signer'' (pinned (CHR ''2''))
      (sample_scanned True)) = Inr ((sr5 True)\<lparr>wr_status := Wr_Validated, wr_updated_at := 7\<rparr>,
       (sp5 True)\<lparr>pk_signature_identity := Some ''signer'',
       pk_signature_digest := Some (pinned (CHR ''2'')), pk_status := Pk_Validated, pk_updated_at := 7\<rparr>)"
    using rel_update_ok(2) [OF sample_pair_scanned [of True],
      of "record_signature_upd ''signer'' (pinned (CHR ''2''))"
      "(sr5 True)\<lparr>wr_status := Wr_Validated\<rparr>"
      "(sp5 True)\<lparr>pk_signature_identity := Some ''signer'',
         pk_signature_digest := Some (pinned (CHR ''2'')), pk_status := Pk_Validated\<rparr>" null_codec 7]
    by (simp add: rel_record_signature_def record_signature_upd_def is_blank_ascii sample_pair_defs sr5_def)
  then obtain q where sig: "rel_record_signature null_codec 7 io_ok sample_pid ''signer''
      (pinned (CHR ''2'')) (sample_scanned True) = (Inr q, sample_validated)"
    unfolding sample_validated_def by (metis prod.collapse)
  have p: "pk_status (sp5 True) = Pk_Signing" "pk_id (sp5 True) = sample_pid"
    "pk_pushed_image_digest (sp5 True) = Some (pinned (CHR ''e''))"
    "pk_provenance_digest (sp5 True) = Some (pinned (CHR ''1''))"
    "pk_base_image_digest (sp5 True) = pinned (CHR ''c'')" "pk_packager_version (sp5 True) = ''pk1''"
    "pk_scan_policy_version (sp5 True) = ''sp1''"
    "pk_runtime_manifest_hash (sp5 True) = hex64 (CHR ''b'')"
    "wr_runtime_profile_id (sr5 True) = static_web_profile_id"
    by (simp_all add: sample_pair_defs sr5_def static_web_profile_id_def)
  have "manifest_sha256 (en_digest sample_env) (en_manifest_json sample_env) manifest_static_web_v1
      = Inr (hex64 (CHR ''b''))"
    by (simp add: manifest_sha256_def validate_manifest_def sample_key_hex)
  then show ?thesis
    using at p sig
    by (simp add: packager_iteration_def sample_state_def sample_profile_def Let_def packager_sign_def
        world_call_def sample_backend_def store_call_def sample_env_def)
qed

lemma sample_iteration_done:
  "\<exists>r. packager_iteration sample_env sample_backend sample_pid ''root'' sample_profile
      \<lparr>pg_store = sample_validated, pg_world = 1, pg_tick = 1\<rparr>
    = (Inr (Some r), \<lparr>pg_store = sample_validated, pg_world = 1, pg_tick = 1\<rparr>)"
proof -
  have "manifest_sha256 (en_digest sample_env) (en_manifest_json sample_env) manifest_static_web_v1
      = Inr (hex64 (CHR ''b''))"
    by (simp add: manifest_sha256_def validate_manifest_def sample_key_hex)
  then show ?thesis
    using sample_pair_validated
    by (simp add: packager_iteration_def sample_profile_def Let_def pair_at_def rel_packaging_def
        rel_release_def sample_pair_defs sr5_def static_web_profile_id_def)
qed

lemma sample_reconcile:
  "\<exists>r. packager_reconcile sample_env sample_backend sample_pid ''root'' sample_profile
      (sample_state (sample_scanned True))
    = (Inr r, \<lparr>pg_store = sample_validated, pg_world = 1, pg_tick = 1\<rparr>)"
proof -
  obtain r where r: "packager_iteration sample_env sample_backend sample_pid ''root'' sample_profile
      \<lparr>pg_store = sample_validated, pg_world = 1, pg_tick = 1\<rparr>
    = (Inr (Some r), \<lparr>pg_store = sample_validated, pg_world = 1, pg_tick = 1\<rparr>)"
    using sample_iteration_done by blast
  have "packager_loop (Suc (Suc 6)) sample_env sample_backend sample_pid ''root'' sample_profile
      (sample_state (sample_scanned True))
    = (Inr r, \<lparr>pg_store = sample_validated, pg_world = 1, pg_tick = 1\<rparr>)"
    unfolding packager_loop.simps sample_iteration_sign prod.case sum.case option.case r ..
  moreover have "Suc (Suc 6) = 8" by simp
  ultimately show ?thesis by (metis packager_reconcile_def sample_profile_valid sum.case(2))
qed

lemma sample_reach_scanned: "rel_reach zero_digest null_codec (sample_scanned ok)"
  by (rule reach_step [OF sample_reach_scanning sample_steps(5)])

theorem packager_bound_suffices_witness:
  "loop_ends 6 sample_env sample_backend sample_pid ''root'' sample_profile (sample_state (sample_scanned True))"
  using packager_bound_suffices [of zero_digest null_codec "sample_state (sample_scanned True)"]
  by (simp add: sample_state_def sample_reach_scanned)

theorem packager_success_validated_witness:
  "\<exists>r s' p. packager_reconcile sample_env sample_backend sample_pid ''root'' sample_profile
      (sample_state (sample_scanned True)) = (Inr r, s') \<and>
    rel_packaging (pg_store s') sample_pid = Some p \<and> wr_status r = Wr_Validated"
proof -
  obtain r where run: "packager_reconcile sample_env sample_backend sample_pid ''root'' sample_profile
      (sample_state (sample_scanned True)) = (Inr r, \<lparr>pg_store = sample_validated, pg_world = 1, pg_tick = 1\<rparr>)"
    using sample_reconcile by blast
  have "rel_reach zero_digest null_codec (pg_store (sample_state (sample_scanned True)))"
    using sample_reach_scanned by (simp add: sample_state_def)
  from packager_success_validated [OF this run] run show ?thesis by blast
qed

section \<open>Collecting a rejected release\<close>

lemma gc_ops_update:
  "fst (rel_mark_failed_garbage_collectable cd now io pid d st) = Inr y \<Longrightarrow> valid_digest d \<and>
     rel_mark_failed_garbage_collectable cd now io pid d st
       = rel_update cd now io pid (mark_garbage_collectable_upd d) st"
  "fst (rel_record_garbage_collected cd now io pid d st) = Inr y \<Longrightarrow> valid_digest d \<and>
     rel_record_garbage_collected cd now io pid d st
       = rel_update cd now io pid (record_garbage_collected_upd d) st"
  by (simp_all add: rel_mark_failed_garbage_collectable_def rel_record_garbage_collected_def
      validate_digest_case split: if_splits)

definition gc_refused :: "string + release_protection_set \<Rightarrow> string \<Rightarrow> string \<Rightarrow> bool" where
  "gc_refused snap rid d = (case snap of Inl e \<Rightarrow> True | Inr prot \<Rightarrow> protects prot rid d)"

text \<open>
  Collection fails closed: when the protection snapshot cannot be taken, or protects the release
  or the digest, the registry is not asked to delete anything and the store keeps its contents. When
  collection succeeds, the snapshot did not protect the release, the backend confirmed both
  deletions, and the stored release is collected, had the expected digest and had failed its scan.
\<close>

theorem collect_failed_closed:
  assumes "rel_reach D cd (pg_store s)" "collect_failed en gc snapshot pid d s = (res, s')"
    and "rel_packaging (pg_store s) pid = Some p"
  shows "(gc_refused (fst (snapshot (pg_world s))) (pk_release_id p) d \<longrightarrow>
      \<not> is_ok res \<and> pg_store s' = pg_store s \<and> pg_world s' = snd (snapshot (pg_world s))) \<and>
    (\<forall>r. res = Inr r \<longrightarrow>
      \<not> gc_refused (fst (snapshot (pg_world s))) (pk_release_id p) d \<and>
      wr_status r = Wr_GarbageCollected \<and> wr_runtime_image_digest r = Some d \<and>
      (\<exists>r1 p1 w ev. fst (gc r1 p1 w) = Inr ev \<and> gc_registry_manifest_deleted ev \<and>
         gc_packaging_evidence_deleted ev))"
proof -
  have inv: "rel_inv (rel_mem (pg_store s))" using assms(1) by (rule rel_reach_inv)
  obtain r where at: "pair_at (pg_store s) pid r p"
    using release_of_packaging [OF inv, of pid p] assms(3) by (auto simp: rel_packaging_def)
  have r: "rel_release (pg_store s) (pk_release_id p) = Some r" "wr_id r = pk_release_id p"
    using at rel_invD(6) [OF inv] by (auto simp: pair_at_def rel_release_def)
  show ?thesis
  proof (cases "gc_refused (fst (snapshot (pg_world s))) (pk_release_id p) d")
    case True
    then show ?thesis
      using assms(2,3) r
      by (auto simp: collect_failed_def world_call_def gc_refused_def split: prod.splits sum.splits if_splits)
  next
    case False
    have "wr_status x = Wr_GarbageCollected \<and> wr_runtime_image_digest x = Some d \<and>
      (\<exists>r1 p1 w ev. fst (gc r1 p1 w) = Inr ev \<and> gc_registry_manifest_deleted ev \<and>
         gc_packaging_evidence_deleted ev)" if ok: "res = Inr x" for x
    proof -
      from assms(2,3) r ok obtain prot s1 q1 q2 s2 ev s3 y where
        1: "world_call snapshot s = (Inr prot, s1)" and
        2: "store_call en (\<lambda>now io. rel_mark_failed_garbage_collectable (en_codec en) now io pid d) s1
              = (Inr (q1, q2), s2)" and
        3: "world_call (gc q1 q2) s2 = (Inr ev, s3)" and
        4: "gc_registry_manifest_deleted ev" "gc_packaging_evidence_deleted ev" and
        5: "store_call en (\<lambda>now io. rel_record_garbage_collected (en_codec en) now io pid d) s3
              = (Inr (x, y), s')"
        unfolding collect_failed_def by (auto split: prod.splits sum.splits if_splits)
      have i1: "rel_inv (rel_mem (pg_store s1))" using inv world_callD(2) [OF 1] by simp
      from 2 obtain now io where
        m: "fst (rel_mark_failed_garbage_collectable (en_codec en) now io pid d (pg_store s1)) = Inr (q1, q2)"
        and s2: "pg_store s2 = snd (rel_mark_failed_garbage_collectable (en_codec en) now io pid d (pg_store s1))"
        by (rule store_call_ok)
      have "rel_inv (rel_mem (pg_store s2))"
        using gc_ops_update(1) [OF m] s2 rel_inv_update [OF i1 upd_gc_mark] by simp
      then have i3: "rel_inv (rel_mem (pg_store s3))" using world_callD(2) [OF 3] by simp
      from 5 obtain now io where
        m: "fst (rel_record_garbage_collected (en_codec en) now io pid d (pg_store s3)) = Inr (x, y)"
        by (rule store_call_ok)
      then have v: "valid_digest d"
        and "fst (rel_update (en_codec en) now io pid (record_garbage_collected_upd d) (pg_store s3)) = Inr (x, y)"
        using gc_ops_update(2) [OF m] by simp_all
      from rel_update_success [OF i3 upd_gc_done [OF v] this(2)] obtain r0 p0 r1 p1
        where "pair_at (pg_store s3) pid r0 p0" "record_garbage_collected_upd d r0 p0 = Inr (r1, p1)"
          "x = r1\<lparr>wr_updated_at := now\<rparr>" by metis
      moreover from this(1) have "pair_inv r0 p0"
        using rel_inv_pair [OF i3, of pid p0 r0] by (simp add: pair_at_def)
      ultimately have "wr_status x = Wr_GarbageCollected" "wr_runtime_image_digest x = Some d"
        by (auto simp: record_garbage_collected_upd_def pair_inv_def link_inv_def split: if_splits)
      moreover have "fst (gc q1 q2 (pg_world s2)) = Inr ev" using world_callD(1) [OF 3] by simp
      ultimately show ?thesis using 4 by blast
    qed
    with False show ?thesis by blast
  qed
qed

theorem collect_failed_closed_witness:
  "\<not> is_ok (fst (collect_failed sample_env (\<lambda>r p w. (Inl ''no'', w)) (\<lambda>w. (Inl ''down'', Suc w))
      sample_pid (pinned (CHR ''e'')) (sample_state (sample_scanned False))))"
proof -
  let ?run = "collect_failed sample_env (\<lambda>r p w. (Inl ''no'', w)) (\<lambda>w. (Inl ''down'', Suc w))
      sample_pid (pinned (CHR ''e'')) (sample_state (sample_scanned False))"
  have reach: "rel_reach zero_digest null_codec (pg_store (sample_state (sample_scanned False)))"
    using sample_reach_scanned by (simp add: sample_state_def)
  have run: "?run = (fst ?run, snd ?run)" by simp
  have p: "rel_packaging (pg_store (sample_state (sample_scanned False))) sample_pid = Some (sp5 False)"
    using sample_pair_scanned [of False] by (simp add: pair_at_def rel_packaging_def sample_state_def)
  from collect_failed_closed [OF reach run p] show ?thesis by (simp add: gc_refused_def)
qed

end
