(* ===== verification/ControllerProps.thy ===== *)
theory ControllerProps
  imports PublicationController PublicationRecovery PackagerProps
begin

text \<open>
  Properties of the publication controller: what it asks the cluster for, that a pass is nothing but
  steps of the publication store, what a stale result does to a pass, and what the protection
  snapshot keeps from collection.
\<close>

section \<open>What the backend is asked for\<close>

lemma required_ok: "required v f = Inr x \<Longrightarrow> v = Some x \<and> \<not> is_blank x"
  by (auto simp: required_def split: option.splits if_splits)

lemma required_digest_ok: "required_digest v f = Inr x \<Longrightarrow> v = Some x \<and> is_sha256_digest x"
  by (auto simp: required_digest_def dest!: required_ok split: sum.splits if_splits)

lemma trust_of_ok:
  assumes "trust_of p = Inr t"
  shows "\<exists>scan. pk_scan_evidence p = Some scan \<and> sc_passed scan \<and> sc_critical_vulnerabilities scan = 0 \<and>
    is_sha256_digest (sc_report_digest scan) \<and>
    pk_signature_identity p = Some (te_signature_identity t) \<and>
    pk_signature_digest p = Some (te_signature_digest t) \<and> is_sha256_digest (te_signature_digest t) \<and>
    pk_provenance_digest p = Some (te_provenance_digest t) \<and> is_sha256_digest (te_provenance_digest t)"
  using assms
  by (auto simp: trust_of_def dest!: required_ok required_digest_ok split: option.splits sum.splits if_splits)

lemma image_of_ok:
  "image_of rel p = Inr (img, d) \<Longrightarrow> wr_runtime_image_ref rel = Some img \<and>
     wr_runtime_image_digest rel = Some d \<and> is_sha256_digest d \<and> ends_with img (''@'' @ d) \<and>
     pk_pushed_image_digest p = Some d"
  by (auto simp: image_of_def split: option.splits if_splits)

lemma desired_work_ok:
  assumes "desired_work_from_records D r rel p cp = Inr d"
  shows "rt_desired_publication r = Des_Published" "rt_desired_release_id r = Some (wr_id rel)"
    "wr_project_id rel = rt_project_id r" "pk_project_id p = rt_project_id r" "pk_release_id p = wr_id rel"
    "wr_status rel = Wr_Validated" "pk_status p = Pk_Validated"
    "image_of rel p = Inr (dw_image d, dw_image_digest d)" "trust_of p = Inr (dw_trust d)"
    "dw_release_id d = wr_id rel" "dw_project_id d = rt_project_id r"
    "dw_desired_generation d = rt_desired_generation r" "dw_namespace d = rt_workspace_namespace r"
  using assms unfolding desired_work_from_records_def
  by (auto simp: Let_def split: if_splits sum.splits)

section \<open>A pass is steps of the store\<close>

lemma counted_simps [simp]:
  "snd (counted n q) = snd q" "is_ok (fst (counted n q)) = is_ok (fst q)"
  by (cases q; cases "fst q"; simp add: counted_def)+

lemma record_disposition_step:
  "pub_steps D cd st (snd (record_disposition D cd clk io b res st))"
  by (auto simp: record_disposition_def split: sum.split reconcile_disposition.split
      intro: r_into_rtranclp pub_step.intros)

text \<open>The other tasks only call operations of the store.\<close>

definition fair_world :: "digest \<Rightarrow> publication_codec \<Rightarrow> reconcile_world \<Rightarrow> bool" where
  "fair_world D cd w \<longleftrightarrow> (\<forall>k st. pub_steps D cd st (rw_meanwhile w k st))"

lemma reconcile_event_steps:
  assumes "fair_world D cd w"
  shows "pub_steps D cd st (snd (reconcile_event D cd w b st))"
proof (cases "pub_runtime st (ob_project_id b)")
  case None
  then show ?thesis
    by (auto simp: reconcile_event_def intro: r_into_rtranclp pub_step.intros)
next
  case (Some r)
  have "pub_steps D cd st (rw_meanwhile w (ob_id b) st)" using assms by (simp add: fair_world_def)
  then show ?thesis
    using Some record_disposition_step by (simp add: reconcile_event_def) (rule rtranclp_trans)
qed

lemma reconcile_events_steps:
  "fair_world D cd w \<Longrightarrow> pub_steps D cd st (snd (reconcile_events D cd w bs st))"
proof (induction bs arbitrary: st)
  case (Cons b bs)
  note first = reconcile_event_steps [OF Cons.prems, of st b]
  obtain q st1 where e: "reconcile_event D cd w b st = (q, st1)" by (cases "reconcile_event D cd w b st")
  obtain q' st2 where e': "reconcile_events D cd w bs st1 = (q', st2)"
    by (cases "reconcile_events D cd w bs st1")
  have "pub_steps D cd st1 st2" using Cons.IH [OF Cons.prems, of st1] e' by simp
  with first e e' show ?case by (cases q; cases q') (auto intro: rtranclp_trans)
qed simp

section \<open>Stale results\<close>

text \<open>Recording anything but \<open>Deferred\<close> for an event whose project has moved on fails.\<close>

lemma stale_disposition:
  assumes "pub_inv D (pub_mem st)" "bt_get (ps_outbox (pub_mem st)) (ob_id b) = Some b'"
    and "pub_runtime st (ob_project_id b') = Some r" "rt_desired_generation r \<noteq> ob_desired_generation b'"
    and "res \<noteq> Inr Deferred"
  shows "\<exists>e. record_disposition D cd clk io b res st = (Inl e, st)"
  using assms(5) stale_update [OF assms(1-4)]
  by (cases res; simp add: record_disposition_def counted_def drop_outbox_def
      pub_record_reconcile_failure_def pub_record_unpublished_def pub_record_workload_ready_def
      pub_record_traffic_switched_def split: reconcile_disposition.split)

lemma outbox_ident_steps:
  assumes "pub_steps D cd st st'" "pub_inv D (pub_mem st)" "bt_get (ps_outbox (pub_mem st)) bid = Some b"
  shows "\<exists>b'. bt_get (ps_outbox (pub_mem st')) bid = Some b' \<and> ob_project_id b' = ob_project_id b \<and>
    ob_desired_generation b' = ob_desired_generation b"
proof -
  note inv' = pub_steps_inv [OF assms(1,2)]
  from pub_invD(7) [OF assms(2,3)] obtain p where p: "bid = outbox_id_of (ob_operation_id b)"
    "bt_get (ps_operations (pub_mem st)) (ob_operation_id b) = Some p"
    "op_project_id p = ob_project_id b" "op_desired_generation p = ob_desired_generation b"
    by (auto simp: ob_ok_def)
  from pub_steps_operation [OF assms(1,2) p(2)] obtain q where
    q: "bt_get (ps_operations (pub_mem st')) (ob_operation_id b) = Some q" "op_ident q = op_ident p" by blast
  obtain b' where b': "bt_get (ps_outbox (pub_mem st')) bid = Some b'"
    using pub_invD(6) [OF inv' q(1)] p(1) by (auto simp: op_ok_def)
  from pub_invD(7) [OF inv' b'] p(1) have "ob_operation_id b' = ob_operation_id b" by (simp add: ob_ok_def)
  with pub_invD(7) [OF inv' b'] q p op_identD [OF q(2)] b' show ?thesis by (auto simp: ob_ok_def)
qed

section \<open>The events of a pass\<close>

lemma values_insert: "bt_wf m \<Longrightarrow> set (bt_values (bt_insert k v m)) \<subseteq> insert v (set (bt_values m))"
  by (auto simp: bt_in_values_insert bt_in_values split: if_splits)

lemma fold_events:
  "bt_wf m \<Longrightarrow> bt_wf (fold (\<lambda>b. bt_insert (ob_id b) b) bs m) \<and>
    set (bt_values (fold (\<lambda>b. bt_insert (ob_id b) b) bs m)) \<subseteq> set bs \<union> set (bt_values m)"
proof (induction bs arbitrary: m)
  case (Cons b bs)
  have wf: "bt_wf (bt_insert (ob_id b) b m)" using Cons.prems by (rule bt_wf_insert)
  note ih = Cons.IH [OF wf]
  show ?case
    unfolding fold_simps using ih values_insert [OF Cons.prems, of "ob_id b" b] by (simp only: list.set) blast
qed simp

lemma fold_events_or:
  "bt_wf m \<Longrightarrow> set (bt_values (fold (\<lambda>b m. if bt_get m (ob_id b) = None then bt_insert (ob_id b) b m else m) bs m))
    \<subseteq> set bs \<union> set (bt_values m)"
proof (induction bs arbitrary: m)
  case (Cons b bs)
  have wf: "bt_wf (bt_insert (ob_id b) b m)" using Cons.prems by (rule bt_wf_insert)
  show ?case
  proof (cases "bt_get m (ob_id b) = None")
    case True
    show ?thesis
      unfolding fold_simps if_P [OF True]
      using Cons.IH [OF wf] values_insert [OF Cons.prems, of "ob_id b" b] by (simp only: list.set) blast
  next
    case False
    show ?thesis
      unfolding fold_simps if_not_P [OF False] using Cons.IH [OF Cons.prems] by (simp only: list.set) blast
  qed
qed simp

lemma pass_events_stored:
  assumes "pub_inv D (pub_mem st)" "b \<in> set (bt_values (pass_events now inc st))"
  shows "bt_get (ps_outbox (pub_mem st)) (ob_id b) = Some b"
proof -
  note ok = fold_events [OF bt_wf_empty(1), of "pub_pending_outbox now st"]
  have "b \<in> set (pub_pending_outbox now st) \<union> set (pub_published_reconcile_outbox st)"
    using assms(2) ok fold_events_or [of "fold (\<lambda>b. bt_insert (ob_id b) b) (pub_pending_outbox now st) bt_empty"
        "pub_published_reconcile_outbox st"]
    by (cases inc) (auto simp: pass_events_def Let_def)
  then have "\<exists>k. bt_get (ps_outbox (pub_mem st)) k = Some b"
    using bt_in_values [OF pub_invD(4) [OF assms(1)]] bt_find_Some [OF pub_invD(4) [OF assms(1)]]
    by (auto simp: pub_pending_outbox_def pub_published_reconcile_outbox_def List.map_filter_def)
  then obtain k where "bt_get (ps_outbox (pub_mem st)) k = Some b" ..
  with pub_invD(7) [OF assms(1) this] show ?thesis by (simp add: ob_ok_def)
qed

section \<open>Concrete worlds\<close>

lemma pinned_digest: "is_ascii_hexdigit c \<Longrightarrow> is_sha256_digest (pinned c)"
  by (simp add: is_sha256_digest_def pinned_def strip_prefix_def hex64_def list_all_iff
      del: append_Cons) 

lemma ends_with_append: "ends_with (a @ b) b"
  by (simp add: ends_with_def)

definition sample_runtime :: work_runtime_state where
  "sample_runtime = (sr_base [])\<lparr>rt_desired_release_id := Some (release_id_of (hex64 (CHR ''0'')))\<rparr>"

definition sample_world :: reconcile_world where
  "sample_world = \<lparr>rw_releases = (\<lambda>_. sample_validated), rw_backend = (\<lambda>_. control_plane_only_backend),
     rw_meanwhile = (\<lambda>_ st. snd (pub_commit_intent end_digest null_pub_codec 3 second_rng io_ok
       (sample_intent Kind_Unpublish ''k2'' 1) st)),
     rw_clock = (\<lambda>_ _. 4), rw_io = (\<lambda>_. io_ok)\<rparr>"

lemma sample_request: "\<exists>d. work_request zero_digest sample_validated sample_published sample_runtime sb0 = Inr d"
proof -
  have inv: "rel_inv (rel_mem sample_validated)" by (rule rel_reach_inv [OF sample_reach(1)])
  let ?r = "(sr5 True)\<lparr>wr_status := Wr_Validated, wr_updated_at := 7\<rparr>"
  let ?p = "(sp5 True)\<lparr>pk_signature_identity := Some ''signer'',
       pk_signature_digest := Some (pinned (CHR ''2'')), pk_status := Pk_Validated, pk_updated_at := 7\<rparr>"
  note at = sample_pair_validated
  have id: "wr_id ?r = release_id_of (hex64 (CHR ''0''))" "pk_release_id ?p = release_id_of (hex64 (CHR ''0''))"
    by (simp_all add: sample_pair_defs sr5_def)
  have r: "rel_release sample_validated (release_id_of (hex64 (CHR ''0''))) = Some ?r"
    using at id(2) by (simp add: pair_at_def rel_release_def)
  from packaging_of_release [OF inv r] obtain p pid where
    p: "rel_packaging_for_release sample_validated (release_id_of (hex64 (CHR ''0''))) = Some p"
      "pair_at sample_validated pid ?r p" by blast
  have "pk_release_id p = release_id_of (hex64 (CHR ''0''))"
    using p(1) bt_find_Some [OF rel_invD(2) [OF inv]] unfolding rel_packaging_for_release_def by blast
  moreover have "bt_get (rs_packagings (rel_mem sample_validated)) pid = Some p"
    "bt_get (rs_packagings (rel_mem sample_validated)) sample_pid = Some ?p"
    using p(2) at by (simp_all add: pair_at_def)
  ultimately have "pid = sample_pid" using release_id_inj [OF inv, of pid p sample_pid ?p] id(2) by simp
  then have pp: "p = ?p" using p(2) at by (simp add: pair_at_def)
  have o0: "pub_operation sample_published (ob_operation_id sb0) = Some so0"
    using sample_published_ok by (auto simp: pub_operation_def triple_at_def)
  have rt: "rt_desired_release_id sample_runtime = Some (release_id_of (hex64 (CHR ''0'')))"
    "rt_desired_publication sample_runtime = Des_Published" "rt_project_id sample_runtime = ''p1''"
    "rt_runtime_profile_id sample_runtime = static_web_profile_id"
    by (simp_all add: sample_runtime_def sr_base_def intent_runtime_def sample_intent_def
        static_web_profile_id_def)
  have fields: "wr_project_id ?r = ''p1''" "pk_project_id ?p = ''p1''"
    "wr_runtime_profile_id ?r = static_web_profile_id" "wr_runtime_image_digest ?r = Some (pinned (CHR ''e''))"
    "pk_pushed_image_digest ?p = Some (pinned (CHR ''e''))" "pk_scan_evidence ?p = Some (sample_scan True)"
    "pk_provenance_digest ?p = Some (pinned (CHR ''1''))" "wr_status ?r = Wr_Validated"
    "wr_runtime_image_ref ?r = Some ((''reg/works/'' @ release_id_of (hex64 (CHR ''0''))) @ (''@'' @ pinned (CHR ''e'')))"
    by (simp_all add: sample_pair_defs sr5_def static_web_profile_id_def)
  have dig: "is_sha256_digest (pinned CHR ''e'')" "is_sha256_digest (pinned CHR ''1'')"
    "is_sha256_digest (pinned CHR ''2'')" "is_sha256_digest (pinned CHR ''d'')"
    by (rule pinned_digest, simp add: string_defs)+
  have nb: "\<not> is_blank ''signer''" "\<not> is_blank (pinned c)" for c
    by (simp_all add: is_blank_ascii pinned_def)
  have img: "image_of ?r ?p = Inr ((''reg/works/'' @ release_id_of (hex64 (CHR ''0''))) @ (''@'' @ pinned (CHR ''e'')),
      pinned (CHR ''e''))"
    unfolding image_of_def fields option.case
    by (simp only: dig ends_with_append not_True_eq_False simp_thms if_False)
  have "\<exists>t. trust_of ?p = Inr t"
    unfolding trust_of_def fields option.case
    using dig nb by (simp add: required_def required_digest_def sample_scan_def)
  then obtain t where t: "trust_of ?p = Inr t" ..
  have "\<exists>d. desired_work_from_records zero_digest sample_runtime ?r ?p cp = Inr d" for cp
    unfolding desired_work_from_records_def rt fields img t id
    by (simp add: sample_pair_defs Let_def)
  then show ?thesis using r p(1) pp o0 rt(1) by (simp add: work_request_def)
qed

lemma pub_apply_outbox:
  "pub_apply_commit_with_key s c key = Inr s' \<Longrightarrow>
    ps_outbox s' = bt_insert (ob_id (pc_outbox c)) (pc_outbox c) (ps_outbox s)"
  by (auto simp: pub_apply_commit_with_key_def Let_def split: if_splits)

lemma sample_outbox: "ps_outbox (pub_mem sample_published) = [(sample_bid, sb0)]"
proof -
  obtain slug where run: "pub_commit_intent end_digest null_pub_codec 1 sample_rng io_ok
     (sample_intent Kind_Publish ''k1'' 0) pub_empty = (Inr (so0, sr_base slug), sample_published)"
    using sample_published_run by blast
  have g: "next_generation (sample_intent Kind_Publish ''k1'' 0) (pub_mem pub_empty) = 1"
    by (simp add: next_generation_def)
  have "ps_outbox (pub_mem sample_published) = bt_insert (ob_id sb0) sb0 (ps_outbox (pub_mem pub_empty))"
    using pub_apply_outbox [OF committed_new_intent(11) [OF pub_reach_inv [OF pub_reach_empty] run pub_empty_get(4)]]
    by (simp add: g sb0_def)
  moreover have "ob_id sb0 = sample_bid" by (simp add: sb0_def sample_bid_def)
  ultimately show ?thesis
    by (simp add: pub_empty_def publication_snapshot_default_def bt_empty_def)
qed

lemma sample_pass: "bt_values (pass_events 1 False sample_published) = [sb0]"
proof -
  obtain r where r: "bt_get (ps_runtimes (pub_mem sample_published)) ''p1'' = Some r" "rt_desired_generation r = 1"
    using sample_published_runtime [of "''p1''"] by auto
  have b: "ob_status sb0 = Ob_Pending" "ob_next_attempt_at sb0 = 1" "ob_project_id sb0 = ''p1''"
    "ob_desired_generation sb0 = 1"
    by (simp_all add: sb0_def intent_outbox_def sample_intent_def)
  have "pub_pending_outbox 1 sample_published = [sb0]"
    using r b by (simp add: pub_pending_outbox_def sample_outbox bt_values_def)
  then show ?thesis by (simp add: pass_events_def bt_empty_def bt_values_def)
qed

section \<open>Properties\<close>

text \<open>
  C14. The cluster is only ever asked to run a trusted release. Whenever the controller builds a
  request for an event, the release is the one the project desires, belongs to it and is validated;
  the image reference ends with a digest pinned to SHA-256, the same that was pushed; its scan passed
  without critical findings; and the signature and provenance are present and pinned.
\<close>

theorem backend_request_trusted:
  assumes "rel_reach D cd rels" "work_request D rels st r b = Inr d"
  shows "\<exists>rel p scan. rt_desired_release_id r = Some (dw_release_id d) \<and>
    rel_release rels (dw_release_id d) = Some rel \<and> wr_id rel = dw_release_id d \<and>
    wr_project_id rel = rt_project_id r \<and> wr_status rel = Wr_Validated \<and>
    p \<in> set (bt_values (rs_packagings (rel_mem rels))) \<and> pk_release_id p = wr_id rel \<and>
    pk_status p = Pk_Validated \<and> is_sha256_digest (dw_image_digest d) \<and>
    ends_with (dw_image d) (''@'' @ dw_image_digest d) \<and>
    pk_pushed_image_digest p = Some (dw_image_digest d) \<and>
    pk_scan_evidence p = Some scan \<and> sc_passed scan \<and> sc_critical_vulnerabilities scan = 0 \<and>
    pk_signature_digest p = Some (te_signature_digest (dw_trust d)) \<and>
    is_sha256_digest (te_signature_digest (dw_trust d)) \<and>
    is_sha256_digest (te_provenance_digest (dw_trust d)) \<and>
    dw_desired_generation d = rt_desired_generation r"
proof -
  have inv: "rel_inv (rel_mem rels)" using assms(1) by (rule rel_reach_inv)
  obtain rid rel p cp where r: "rt_desired_release_id r = Some rid" "rel_release rels rid = Some rel"
      "rel_packaging_for_release rels rid = Some p" "desired_work_from_records D r rel p cp = Inr d"
    using assms(2) by (auto simp: work_request_def split: option.splits)
  note d = desired_work_ok [OF r(4)]
  have p: "p \<in> set (bt_values (rs_packagings (rel_mem rels)))"
    using r(3) bt_find_Some [OF rel_invD(2) [OF inv]] bt_in_values [OF rel_invD(2) [OF inv]]
    unfolding rel_packaging_for_release_def by blast
  show ?thesis
    using r(1,2) d p trust_of_ok [OF d(9)] image_of_ok [OF d(8)] by auto
qed

theorem backend_request_trusted_witness:
  "\<exists>d. work_request zero_digest sample_validated sample_published sample_runtime sb0 = Inr d \<and>
     is_sha256_digest (dw_image_digest d)"
proof -
  obtain d where d: "work_request zero_digest sample_validated sample_published sample_runtime sb0 = Inr d"
    using sample_request by blast
  from backend_request_trusted [OF sample_reach(1) d] have "is_sha256_digest (dw_image_digest d)" by auto
  with d show ?thesis by blast
qed

text \<open>
  One overtaken project stops the whole pass. When a client commits a newer generation for the
  first event's project while the backend works on it, recording the answer is a conflict, and the
  pass returns that conflict without looking at any other event.
\<close>

theorem overtaken_event_ends_pass:
  assumes "pub_reach D cd st" "bt_values (pass_events now inc st) = b # bs"
    and "pub_runtime st (ob_project_id b) = Some r" "backend_result D w st r b \<noteq> Inr Deferred"
    and "pub_steps D cd st (rw_meanwhile w (ob_id b) st)"
    and "pub_runtime (rw_meanwhile w (ob_id b) st) (ob_project_id b) = Some q"
      "rt_desired_generation q \<noteq> ob_desired_generation b"
  shows "\<exists>e. reconcile_once D cd w now inc st = (Inl e, rw_meanwhile w (ob_id b) st)"
proof -
  have inv: "pub_inv D (pub_mem st)" using assms(1) by (rule pub_reach_inv)
  have "bt_get (ps_outbox (pub_mem st)) (ob_id b) = Some b"
    by (rule pass_events_stored [OF inv, of _ now inc]) (simp add: assms(2))
  from outbox_ident_steps [OF assms(5) inv this] obtain b' where
    b': "bt_get (ps_outbox (pub_mem (rw_meanwhile w (ob_id b) st))) (ob_id b) = Some b'"
      "ob_project_id b' = ob_project_id b" "ob_desired_generation b' = ob_desired_generation b" by blast
  from stale_disposition [OF pub_steps_inv [OF assms(5) inv] b'(1) _ _ assms(4), of q] b' assms(6,7)
  obtain e where "record_disposition D cd (rw_clock w (ob_id b)) (rw_io w (ob_id b)) b
      (backend_result D w st r b) (rw_meanwhile w (ob_id b) st) = (Inl e, rw_meanwhile w (ob_id b) st)"
    by metis
  then show ?thesis using assms(2,3) by (simp add: reconcile_once_def reconcile_event_def)
qed

theorem overtaken_event_ends_pass_witness:
  "\<exists>e. reconcile_once end_digest null_pub_codec
     (sample_world\<lparr>rw_backend := (\<lambda>_. \<lparr>wb_reconcile = (\<lambda>_. Inr (Applied (sample_ready True))),
        wb_unpublish = (\<lambda>_. Inr Unpublished)\<rparr>)\<rparr>) 1 False sample_published = (Inl e, sample_superseded)"
proof -
  let ?w = "sample_world\<lparr>rw_backend := (\<lambda>_. \<lparr>wb_reconcile = (\<lambda>_. Inr (Applied (sample_ready True))),
        wb_unpublish = (\<lambda>_. Inr Unpublished)\<rparr>)\<rparr>"
  have mw: "rw_meanwhile ?w k sample_published = sample_superseded" for k
    by (simp add: sample_world_def sample_superseded_def)
  have b: "ob_project_id sb0 = ''p1''" "ob_desired_generation sb0 = 1"
    by (simp_all add: sb0_def intent_outbox_def sample_intent_def)
  obtain r where r: "pub_runtime sample_published (ob_project_id sb0) = Some r"
    using sample_published_runtime [of "''p1''"] by (auto simp: pub_runtime_def b)
  have res: "backend_result end_digest ?w sample_published r sb0 \<noteq> Inr Deferred"
    by (auto simp: backend_result_def split: publication_desired_state.split sum.split)
  have steps: "pub_steps end_digest null_pub_codec sample_published (rw_meanwhile ?w (ob_id sb0) sample_published)"
    unfolding mw sample_superseded_def by (rule r_into_rtranclp) (rule ps_intent)
  obtain q where q: "pub_runtime sample_superseded ''p1'' = Some q" "rt_desired_generation q = 2"
    using sample_superseded_ok by (auto simp: pub_runtime_def)
  from overtaken_event_ends_pass [OF sample_reach_published sample_pass r res steps, unfolded mw, of q] q
  show ?thesis by (simp add: b)
qed

lemma scan_namespaces_ok:
  "scan_namespaces deployments ns = Inr live \<Longrightarrow> n \<in> set ns \<Longrightarrow>
    \<exists>ds. deployments n = Inr ds \<and> set ds \<subseteq> set live"
  by (induction ns arbitrary: live) (fastforce split: sum.splits)+

lemma in_map_filter: "x \<in> set (List.map_filter f xs) \<longleftrightarrow> (\<exists>y \<in> set xs. f y = Some x)"
  by (force simp: List.map_filter_def)

lemma fold_namespaces:
  "fst ` set (fold (\<lambda>r. bt_insert (rt_workspace_namespace r) ()) rs m) =
    rt_workspace_namespace ` set rs \<union> fst ` set m"
proof (induction rs arbitrary: m)
  case (Cons r rs)
  have "fst ` set (bt_insert (rt_workspace_namespace r) () m) = insert (rt_workspace_namespace r) (fst ` set m)"
    using set_bt_insert [of "rt_workspace_namespace r" "()" m] by simp
  with Cons.IH show ?case by simp
qed simp

lemma snapshot_protects:
  assumes "protection_snapshot st rels deployments after = Inr prot" "\<not> protects prot rid d"
  shows "q \<in> set (pub_runtimes st) \<Longrightarrow> rid \<notin> set (runtime_release_ids q)"
    and "p \<in> set (pub_nonterminal_operations st) \<Longrightarrow> op_release_id p \<noteq> Some rid"
    and "k \<in> set (rel_recoverable_packagings rels) \<Longrightarrow> pk_release_id k \<noteq> rid"
    and "q \<in> set (pub_runtimes st) \<Longrightarrow> deployments (rt_workspace_namespace q) = Inr ds \<Longrightarrow> l \<in> set ds \<Longrightarrow>
      i \<in> set (ld_images l) \<Longrightarrow> image_digest_of i \<noteq> Some d"
proof -
  obtain live where live: "scan_namespaces deployments (publication_namespaces st) = Inr live"
    and ids: "rp_release_ids prot = pub_protected_release_ids st @
        map pk_release_id (rel_recoverable_packagings rels) @ List.map_filter ld_release_label live"
    and digs: "set (List.map_filter image_digest_of (concat (map ld_images live))) \<subseteq> set (rp_image_digests prot)"
    using assms(1) by (auto simp: protection_snapshot_def Let_def split: sum.splits)
  have no: "rid \<notin> set (pub_protected_release_ids st)" "rid \<notin> pk_release_id ` set (rel_recoverable_packagings rels)"
    "d \<notin> set (rp_image_digests prot)"
    using assms(2) by (auto simp: protects_def ids)
  show "q \<in> set (pub_runtimes st) \<Longrightarrow> rid \<notin> set (runtime_release_ids q)"
    using no(1) by (auto simp: pub_protected_release_ids_def pub_runtimes_def)
  show "p \<in> set (pub_nonterminal_operations st) \<Longrightarrow> op_release_id p \<noteq> Some rid"
    using no(1) by (force simp: pub_protected_release_ids_def pub_nonterminal_operations_def in_map_filter)
  show "k \<in> set (rel_recoverable_packagings rels) \<Longrightarrow> pk_release_id k \<noteq> rid" using no(2) by auto
  show "image_digest_of i \<noteq> Some d"
    if "q \<in> set (pub_runtimes st)" "deployments (rt_workspace_namespace q) = Inr ds" "l \<in> set ds"
      "i \<in> set (ld_images l)"
  proof -
    have "rt_workspace_namespace q \<in> set (publication_namespaces st)"
      using that(1) fold_namespaces [of "pub_runtimes st" bt_empty] by (auto simp: publication_namespaces_def)
    from scan_namespaces_ok [OF live this] that(2,3) have "l \<in> set live" by auto
    with that(4) digs no(3) show ?thesis by (force simp: in_map_filter)
  qed
qed

text \<open>
  C15. Collection never touches what a project may still serve. Whatever the collector answers, and whatever its
  backend would do, either nothing was asked of the backend and nothing changed in the store, and the answer
  is an error; or, at the time of the protection snapshot, no runtime state desired, served or could roll
  back to that release, no unfinished publication named it, its packaging was over, and no container running
  in a project's namespace used the digest to be deleted.
\<close>

theorem collection_spares_published:
  assumes "rel_packaging (pg_store s) pid = Some p" "rel_release (pg_store s) (pk_release_id p) = Some r"
    and "collect_failed en gc (\<lambda>w. (protection_snapshot st rels deployments after, w)) pid d s = (res, s')"
  shows "(\<not> is_ok res \<and> pg_world s' = pg_world s \<and> pg_store s' = pg_store s) \<or>
    ((\<forall>q \<in> set (pub_runtimes st). wr_id r \<notin> set (runtime_release_ids q) \<and>
      (\<forall>ds l i. deployments (rt_workspace_namespace q) = Inr ds \<longrightarrow> l \<in> set ds \<longrightarrow> i \<in> set (ld_images l) \<longrightarrow>
         image_digest_of i \<noteq> Some d)) \<and>
    (\<forall>o' \<in> set (pub_nonterminal_operations st). op_release_id o' \<noteq> Some (wr_id r)) \<and>
    (\<forall>k \<in> set (rel_recoverable_packagings rels). pk_release_id k \<noteq> wr_id r))"
proof (cases "\<exists>prot. protection_snapshot st rels deployments after = Inr prot \<and> \<not> protects prot (wr_id r) d")
  case True
  then obtain prot where prot: "protection_snapshot st rels deployments after = Inr prot"
    "\<not> protects prot (wr_id r) d" by blast
  show ?thesis by (rule disjI2) (use snapshot_protects [OF prot] in \<open>intro conjI ballI allI impI; blast\<close>)
next
  case False
  then have "\<not> is_ok res \<and> pg_world s' = pg_world s \<and> pg_store s' = pg_store s"
    using assms
    by (cases "protection_snapshot st rels deployments after") (auto simp: collect_failed_def world_call_def)
  then show ?thesis by blast
qed

text \<open>A collection that succeeds: the sample release failed its scan and no project names it.\<close>

definition collect_backend ::
    "work_release \<Rightarrow> release_packaging_record \<Rightarrow> nat \<Rightarrow> (string + release_garbage_collection_evidence) \<times> nat" where
  "collect_backend r p w = (Inr \<lparr>gc_registry_manifest_deleted = True, gc_packaging_evidence_deleted = True\<rparr>, Suc w)"

lemma fst_store_call:
  "fst (store_call en op s) =
    err_into rel_error_string (fst (op (en_clock en (pg_tick s)) (en_disk en (pg_tick s)) (pg_store s)))"
  by (simp add: store_call_def split: prod.split)

lemma collect_failed_run:
  assumes "rel_packaging (pg_store s) pid = Some p" "rel_release (pg_store s) (pk_release_id p) = Some r"
    and "world_call snapshot s = (Inr prot, s1)" "\<not> protects prot (wr_id r) d"
    and "store_call en (\<lambda>now io. rel_mark_failed_garbage_collectable (en_codec en) now io pid d) s1
      = (Inr (r1, p1), s2)"
    and "world_call (gc r1 p1) s2 = (Inr ev, s3)"
    and "gc_registry_manifest_deleted ev" "gc_packaging_evidence_deleted ev"
    and "fst (store_call en (\<lambda>now io. rel_record_garbage_collected (en_codec en) now io pid d) s3) = Inr (r2, p2)"
  shows "\<exists>s4. collect_failed en gc snapshot pid d s = (Inr r2, s4)"
  using assms
  by (cases "store_call en (\<lambda>now io. rel_record_garbage_collected (en_codec en) now io pid d) s3")
    (simp add: collect_failed_def)

lemma sample_collected:
  "\<exists>r' s'. collect_failed sample_env collect_backend
      (\<lambda>w. (protection_snapshot pub_empty sample_empty (\<lambda>_. Inr []) sample_empty, w))
      sample_pid (pinned (CHR ''e'')) (sample_state (sample_scanned False)) = (Inr r', s')"
proof -
  let ?r = "(sr5 False)\<lparr>wr_status := Wr_GarbageCollectable, wr_updated_at := 7\<rparr>" and ?p = "(sp5 False)\<lparr>pk_updated_at := 7\<rparr>"
  note at = sample_pair_scanned [of False]
  have q: "rel_packaging (sample_scanned False) sample_pid = Some (sp5 False)"
    "rel_release (sample_scanned False) (pk_release_id (sp5 False)) = Some (sr5 False)"
    using at by (simp_all add: pair_at_def rel_packaging_def rel_release_def)
  have snap: "protection_snapshot pub_empty sample_empty (\<lambda>_. Inr []) sample_empty =
      Inr \<lparr>rp_release_ids = [], rp_image_digests = []\<rparr>"
    by (simp add: protection_snapshot_def publication_namespaces_def pub_runtimes_def
        pub_protected_release_ids_def rel_recoverable_packagings_def sample_empty_def release_state_default_def
        List.map_filter_def bt_empty_def pub_empty_def publication_snapshot_default_def)
  have mark: "fst (rel_mark_failed_garbage_collectable null_codec 7 io_ok sample_pid (pinned (CHR ''e''))
      (sample_scanned False)) = Inr (?r, ?p)"
    using rel_update_ok(2) [OF at, of "mark_garbage_collectable_upd (pinned (CHR ''e''))"
        "(sr5 False)\<lparr>wr_status := Wr_GarbageCollectable\<rparr>" "sp5 False" null_codec 7]
    by (simp add: rel_mark_failed_garbage_collectable_def mark_garbage_collectable_upd_def
        sample_pair_defs sr5_def)
  have m: "rel_mark_failed_garbage_collectable null_codec 7 io_ok sample_pid (pinned (CHR ''e''))
      (sample_scanned False) = (Inr (?r, ?p), sample_collectable)"
    using mark by (simp add: sample_collectable_def prod_eq_iff)
  have "\<exists>x y. fst (rel_record_garbage_collected null_codec 7 io_ok sample_pid (pinned (CHR ''e''))
      sample_collectable) = Inr (x, y)"
    using rel_update_ok(2) [OF sample_pair_collectable, of "record_garbage_collected_upd (pinned (CHR ''e''))"
        "?r\<lparr>wr_status := Wr_GarbageCollected\<rparr>" ?p null_codec 7]
    by (simp add: rel_record_garbage_collected_def record_garbage_collected_upd_def sample_pair_defs sr5_def)
  then obtain x y where d: "fst (rel_record_garbage_collected null_codec 7 io_ok sample_pid
      (pinned (CHR ''e'')) sample_collectable) = Inr (x, y)" by blast
  have np: "\<not> protects \<lparr>rp_release_ids = [], rp_image_digests = []\<rparr> i j" for i j by (simp add: protects_def)
  let ?s = "sample_state (sample_scanned False)"
  let ?s2 = "?s\<lparr>pg_store := sample_collectable, pg_tick := 1\<rparr>"
  have sm: "store_call sample_env (\<lambda>now io. rel_mark_failed_garbage_collectable (en_codec sample_env) now io
      sample_pid (pinned (CHR ''e''))) ?s = (Inr (?r, ?p), ?s2)"
    unfolding store_call_def by (simp only: sample_env_def sample_state_def packager_env.select_convs
        packager_state.select_convs packager_state.update_convs m prod.case err_into_simps One_nat_def)
  have wc: "world_call (collect_backend ?r ?p) ?s2 =
      (Inr \<lparr>gc_registry_manifest_deleted = True, gc_packaging_evidence_deleted = True\<rparr>, ?s2\<lparr>pg_world := 1\<rparr>)"
    by (simp add: world_call_def collect_backend_def sample_state_def)
  have sd: "fst (store_call sample_env (\<lambda>now io. rel_record_garbage_collected (en_codec sample_env) now io
      sample_pid (pinned (CHR ''e''))) (?s2\<lparr>pg_world := 1\<rparr>)) = Inr (x, y)"
    unfolding fst_store_call by (simp only: sample_env_def sample_state_def packager_env.select_convs
        packager_state.select_convs packager_state.update_convs d err_into_simps)
  have sn: "world_call (\<lambda>w. (protection_snapshot pub_empty sample_empty (\<lambda>_. Inr []) sample_empty, w)) ?s =
      (Inr \<lparr>rp_release_ids = [], rp_image_digests = []\<rparr>, ?s)"
    by (simp add: world_call_def snap sample_state_def)
  have q': "rel_packaging (pg_store ?s) sample_pid = Some (sp5 False)"
    "rel_release (pg_store ?s) (pk_release_id (sp5 False)) = Some (sr5 False)"
    unfolding sample_state_def packager_state.select_convs by (fact q)+
  show ?thesis
    using collect_failed_run [where en = sample_env and gc = collect_backend and pid = sample_pid
        and d = "pinned (CHR ''e'')", OF q' sn np sm wc _ _ sd] by (simp only: release_garbage_collection_evidence.select_convs) blast
qed

theorem collection_spares_published_witness:
  "\<exists>r s'. collect_failed sample_env collect_backend
      (\<lambda>w. (protection_snapshot pub_empty sample_empty (\<lambda>_. Inr []) sample_empty, w))
      sample_pid (pinned (CHR ''e'')) (sample_state (sample_scanned False)) = (Inr r, s') \<and>
    (\<forall>k \<in> set (rel_recoverable_packagings sample_empty). pk_release_id k \<noteq> release_id_of (hex64 (CHR ''0'')))"
proof -
  obtain r' s' where run: "collect_failed sample_env collect_backend
      (\<lambda>w. (protection_snapshot pub_empty sample_empty (\<lambda>_. Inr []) sample_empty, w))
      sample_pid (pinned (CHR ''e'')) (sample_state (sample_scanned False)) = (Inr r', s')"
    using sample_collected by blast
  have q: "rel_packaging (pg_store (sample_state (sample_scanned False))) sample_pid = Some (sp5 False)"
    "rel_release (pg_store (sample_state (sample_scanned False))) (pk_release_id (sp5 False)) = Some (sr5 False)"
    using sample_pair_scanned [of False] by (simp_all add: pair_at_def rel_packaging_def rel_release_def sample_state_def)
  have id: "wr_id (sr5 False) = release_id_of (hex64 (CHR ''0''))" by (simp add: sample_pair_defs sr5_def)
  have "\<forall>k \<in> set (rel_recoverable_packagings sample_empty). pk_release_id k \<noteq> wr_id (sr5 False)"
    using collection_spares_published [OF q run] by simp
  then have "\<forall>k \<in> set (rel_recoverable_packagings sample_empty). pk_release_id k \<noteq> release_id_of (hex64 (CHR ''0''))"
    unfolding id .
  with run show ?thesis by (intro exI conjI)
qed

end
