(* ===== verification/ReleaseRecovery.thy ===== *)
theory ReleaseRecovery
  imports ReleaseProps
begin

text \<open>
  Start-up of the release store. While no write has failed, the files determine the memory
  (\<open>rel_durable\<close>) and opening them gives it back; after one write failed at any point, opening gives
  the state before or after the operation. The locale \<open>journaled\<close> is interpreted here on the
  store's own sequence numbers and \<open>apply_event\<close>.
\<close>

interpretation rlog: journaled rs_sequence re_sequence rel_apply_event
  by unfold_locales (rule rel_apply_get(4))

definition rel_durable :: "release_codec \<Rightarrow> release_event list \<Rightarrow> release_store \<Rightarrow> bool" where
  "rel_durable cd es st \<longleftrightarrow>
     journal_bytes (rel_files st) = journal_of (rc_ser_event cd) es \<and>
     ascending re_sequence 0 es \<and> apply_all rel_apply_event release_state_default es = Inr (rel_mem st) \<and>
     (checkpoint_file (rel_files st) = None \<or>
      (\<exists>n m. checkpoint_file (rel_files st) = Some (rc_ser_state cd m) \<and>
         apply_all rel_apply_event release_state_default (take n es) = Inr m))"

text \<open>What is used of \<open>serde_json\<close>: the events written and the states reached parse back.\<close>

definition rel_codec_ok :: "release_codec \<Rightarrow> release_event list \<Rightarrow> bool" where
  "rel_codec_ok cd es \<longleftrightarrow> codec_ok (set es) (rc_ser_event cd) (rc_parse_event cd) \<and>
     (\<forall>n \<le> length es. \<forall>m. apply_all rel_apply_event release_state_default (take n es) = Inr m \<longrightarrow>
        rc_parse_state cd (rc_ser_state cd m) = Inr m)"

lemma rel_default_sq [simp]: "rs_sequence release_state_default = 0"
  by (simp add: release_state_default_def)

lemma rel_validate_inv:
  assumes "rel_inv s"
  shows "rel_validate_state s = Inr ()"
proof -
  have "\<not> (case bt_get (rs_packagings s) pid of None \<Rightarrow> True
      | Some p \<Rightarrow> pk_idempotency_key p \<noteq> k \<or> bt_get (rs_releases s) (pk_release_id p) = None)"
    if kp: "(k, pid) \<in> set (rs_packaging_by_key s)" for k pid
  proof -
    have "bt_get (rs_packaging_by_key s) k = Some pid"
      using kp bt_get_iff [OF rel_invD(3) [OF assms]] by blast
    from rel_invD(5) [OF assms this] obtain p
      where p: "bt_get (rs_packagings s) pid = Some p" "pk_idempotency_key p = k" by blast
    then show ?thesis using rel_invD(4) [OF assms p(1)] by (auto simp: packaging_ok_def)
  qed
  then have "List.find (\<lambda>(k, pid). case bt_get (rs_packagings s) pid of None \<Rightarrow> True
      | Some p \<Rightarrow> pk_idempotency_key p \<noteq> k \<or> bt_get (rs_releases s) (pk_release_id p) = None)
      (rs_packaging_by_key s) = None"
    by (auto simp: find_None_iff)
  then show ?thesis by (simp add: rel_validate_state_def)
qed

text \<open>Opening files whose journal reads as \<open>es\<close> and whose checkpoint is a state of the past.\<close>

lemma rel_open_read:
  assumes "journal_file f = None \<and> es = [] \<or>
      (\<exists>b. journal_file f = Some b \<and> read_lines (rc_parse_event cd) b = Inr es)"
    and asc: "ascending re_sequence 0 es"
    and app: "apply_all rel_apply_event release_state_default es = Inr t"
    and cp: "checkpoint_file f = None \<or>
      (\<exists>n m. checkpoint_file f = Some (rc_ser_state cd m) \<and> rc_parse_state cd (rc_ser_state cd m) = Inr m \<and>
         apply_all rel_apply_event release_state_default (take n es) = Inr m)"
    and inv: "rel_inv t"
  shows "rel_open cd mirrored f = Inr \<lparr>rel_files = f, rel_mem = t, rel_mirrored = mirrored\<rparr>"
proof -
  have j: "rel_read_journal cd f = Inr es" using assms(1) by (auto simp: rel_read_journal_def)
  define base where
    "base = (case rel_read_checkpoint cd f of Inl _ \<Rightarrow> release_state_default | Inr s \<Rightarrow> s)"
  have "\<exists>n. apply_all rel_apply_event release_state_default (take n es) = Inr base"
    using cp by (auto simp: base_def rel_read_checkpoint_def intro: exI [of _ 0])
  then obtain n where n: "apply_all rel_apply_event release_state_default (take n es) = Inr base" by blast
  have split: "apply_all rel_apply_event base (drop n es) = Inr t"
    using app n rlog.apply_all_append [of release_state_default "take n es" "drop n es"] by simp
  have "replay rs_sequence re_sequence rel_apply_event base es = Inr t"
    using rlog.replay_from_prefix [OF _ n split] asc by simp
  then show ?thesis
    using j rel_validate_inv [OF inv] by (simp add: rel_open_def base_def Let_def)
qed


section \<open>One write\<close>

lemma journal_read_cases:
  assumes "read_lines parse (journal_bytes f) = Inr es"
  shows "journal_file f = None \<and> es = [] \<or> (\<exists>b. journal_file f = Some b \<and> read_lines parse b = Inr es)"
  using assms by (cases "journal_file f") (auto simp: journal_bytes_def read_lines_def ends_with_def)

lemma rel_persist_files:
  obtains (failed) "journal_bytes (rel_files (snd (rel_persist_pair cd io r p st))) =
        journal_bytes (snd (append_bytes (io_append io) (rc_ser_event cd
          \<lparr>re_sequence = sat_inc (rs_sequence (rel_mem st)), re_release = r, re_packaging = p\<rparr> @ [nl])
          (rel_files st)))"
      "checkpoint_file (rel_files (snd (rel_persist_pair cd io r p st))) = checkpoint_file (rel_files st)"
      "fst (rel_persist_pair cd io r p st) \<noteq> Inr ()"
  | (applied) s' where "rel_apply_event (rel_mem st) \<lparr>re_sequence = sat_inc (rs_sequence (rel_mem st)),
          re_release = r, re_packaging = p\<rparr> = Inr s'"
      "rel_mem (snd (rel_persist_pair cd io r p st)) = s'"
      "journal_bytes (rel_files (snd (rel_persist_pair cd io r p st))) = journal_bytes (rel_files st) @
        rc_ser_event cd \<lparr>re_sequence = sat_inc (rs_sequence (rel_mem st)), re_release = r,
          re_packaging = p\<rparr> @ [nl]"
      "checkpoint_file (rel_files (snd (rel_persist_pair cd io r p st))) = checkpoint_file (rel_files st) \<or>
       checkpoint_file (rel_files (snd (rel_persist_pair cd io r p st))) = Some (rc_ser_state cd s')"
proof (cases "io_append io")
  case (AppendFailed n e)
  then show thesis
    by (intro failed) (simp_all add: rel_persist_pair_def rel_append_event_def append_bytes_def
        journal_bytes_def Let_def)
next
  case Appended
  then show thesis
    using failed applied
    by (cases "rel_sync_mirror (rel_mirrored st) (io_mirror_journal io)";
        cases "rel_apply_event (rel_mem st) \<lparr>re_sequence = sat_inc (rs_sequence (rel_mem st)),
          re_release = r, re_packaging = p\<rparr>";
        cases "io_checkpoint io";
        cases "rel_sync_mirror (rel_mirrored st) (io_mirror_checkpoint io)")
      (auto simp: rel_persist_pair_def rel_append_event_def append_bytes_def journal_bytes_def
        rel_write_checkpoint_def replace_checkpoint_def Let_def)
qed

text \<open>
  C6. A write of the release store is atomic with respect to a crash at any point of it: append cut
  short, mirror or checkpoint failing, before or after the rename. Starting up again gives the
  state before the operation or the state after it, and the state after it when the operation
  reported success; the files then again determine the memory.
\<close>

theorem release_crash_recovery:
  fixes r p st
  defines "e \<equiv> \<lparr>re_sequence = sat_inc (rs_sequence (rel_mem st)), re_release = r, re_packaging = p\<rparr>"
  assumes dur: "rel_durable cd es st" and cod: "rel_codec_ok cd (es @ [e])"
    and app: "rel_apply_event (rel_mem st) e = Inr s'"
    and inv: "rel_inv (rel_mem st)" "rel_inv s'" and room: "rs_sequence (rel_mem st) \<noteq> - 1"
    and run: "rel_persist_pair cd io r p st = (res, st')"
  shows "(\<exists>m \<in> {rel_mem st, s'}. rel_open cd mirrored (rel_files st') =
        Inr \<lparr>rel_files = rel_files st', rel_mem = m, rel_mirrored = mirrored\<rparr>) \<and>
    (res = Inr () \<longrightarrow> rel_mem st' = s' \<and> rel_durable cd (es @ [e]) st' \<and>
       rel_open cd mirrored (rel_files st') =
        Inr \<lparr>rel_files = rel_files st', rel_mem = s', rel_mirrored = mirrored\<rparr>)"
proof -
  let ?d = release_state_default
  have asc: "ascending re_sequence 0 es" and rep: "apply_all rel_apply_event ?d es = Inr (rel_mem st)"
    and bytes: "journal_bytes (rel_files st) = journal_of (rc_ser_event cd) es"
    using dur by (simp_all add: rel_durable_def)
  have ev: "codec_ok (insert e (set es)) (rc_ser_event cd) (rc_parse_event cd)"
    using cod by (simp add: rel_codec_ok_def)
  have lt: "rs_sequence (rel_mem st) < re_sequence e"
    using room by (simp add: e_def sat_inc_gt)
  have asc': "ascending re_sequence 0 (es @ [e])" and rep': "apply_all rel_apply_event ?d (es @ [e]) = Inr s'"
    using rlog.replay_snoc [OF _ rep lt] asc app by simp_all
  have old: "checkpoint_file (rel_files st) = None \<or>
      (\<exists>n m. checkpoint_file (rel_files st) = Some (rc_ser_state cd m) \<and> n \<le> length es \<and>
         apply_all rel_apply_event ?d (take n es) = Inr m)"
    using dur by (auto simp: rel_durable_def) (metis nat_le_linear take_all)
  have parse: "rc_parse_state cd (rc_ser_state cd m) = Inr m"
    if "n \<le> Suc (length es)" "apply_all rel_apply_event ?d (take n (es @ [e])) = Inr m" for n m
    using cod that by (auto simp: rel_codec_ok_def)
  have cp_old: "checkpoint_file (rel_files st) = None \<or>
      (\<exists>n m. checkpoint_file (rel_files st) = Some (rc_ser_state cd m) \<and>
         rc_parse_state cd (rc_ser_state cd m) = Inr m \<and> apply_all rel_apply_event ?d (take n es) = Inr m \<and>
         apply_all rel_apply_event ?d (take n (es @ [e])) = Inr m)"
    using old parse by (metis (no_types, lifting) append_Nil2 diff_is_0_eq le_SucI take0 take_append)
  have cp_new: "rc_parse_state cd (rc_ser_state cd s') = Inr s'"
    using parse [of "Suc (length es)" s'] rep' by simp
  have st': "st' = snd (rel_persist_pair cd io r p st)" "res = fst (rel_persist_pair cd io r p st)"
    using run by simp_all
  show ?thesis
  proof (cases rule: rel_persist_files [where cd = cd and io = io and r = r and p = p and st = st])
    case failed
    from append_bytes_read [OF ev bytes, of "io_append io"] obtain fs
      where fs: "fs \<in> {es, es @ [e]}"
        and rd: "read_lines (rc_parse_event cd) (journal_bytes (rel_files st')) = Inr fs"
      using failed(1) st' by (auto simp: e_def)
    have cp: "checkpoint_file (rel_files st') = checkpoint_file (rel_files st)" using failed(2) st' by simp
    have "\<exists>m \<in> {rel_mem st, s'}. rel_open cd mirrored (rel_files st') =
        Inr \<lparr>rel_files = rel_files st', rel_mem = m, rel_mirrored = mirrored\<rparr>"
    proof (cases "fs = es")
      case True
      then show ?thesis
        using rel_open_read [OF journal_read_cases [OF rd], of "rel_mem st" mirrored] asc rep inv cp cp_old
        by auto
    next
      case False
      with fs have "fs = es @ [e]" by simp
      then show ?thesis
        using rel_open_read [OF journal_read_cases [OF rd], of s' mirrored] asc' rep' inv cp cp_old
        by auto
    qed
    then show ?thesis using failed(3) st' by simp
  next
    case (applied t)
    have t: "t = s'" using applied(1) app by (simp add: e_def)
    have j: "journal_bytes (rel_files st') = journal_of (rc_ser_event cd) (es @ [e])"
      using applied(3) st' bytes by (simp add: e_def journal_of_def journal_line_def)
    have cp: "checkpoint_file (rel_files st') = checkpoint_file (rel_files st) \<or>
        checkpoint_file (rel_files st') = Some (rc_ser_state cd s')"
      using applied(4) st' t by simp
    have rd: "read_lines (rc_parse_event cd) (journal_bytes (rel_files st')) = Inr (es @ [e])"
      using read_journal_of [of "es @ [e]" "rc_ser_event cd" "rc_parse_event cd"] ev j by simp
    have whole: "apply_all rel_apply_event ?d (take (Suc (length es)) (es @ [e])) = Inr s'" using rep' by simp
    have cps: "checkpoint_file (rel_files st') = None \<or>
      (\<exists>n m. checkpoint_file (rel_files st') = Some (rc_ser_state cd m) \<and>
         rc_parse_state cd (rc_ser_state cd m) = Inr m \<and>
         apply_all rel_apply_event ?d (take n (es @ [e])) = Inr m)"
      using cp cp_old cp_new whole by metis
    have "rel_open cd mirrored (rel_files st') =
        Inr \<lparr>rel_files = rel_files st', rel_mem = s', rel_mirrored = mirrored\<rparr>"
      using rel_open_read [OF journal_read_cases [OF rd] asc' rep' cps inv(2)] .
    moreover have "rel_durable cd (es @ [e]) st'"
      using j asc' rep' applied(2) t st' cps by (auto simp: rel_durable_def)
    ultimately show ?thesis using applied(2) t st' by blast
  qed
qed


text \<open>A codec that knows one event.\<close>

definition one_codec :: "release_event \<Rightarrow> release_state \<Rightarrow> release_codec" where
  "one_codec e s = \<lparr>rc_ser_event = (\<lambda>_. ''{1}''), rc_parse_event = (\<lambda>t. if t = ''{1}'' then Inr e else Inl ''eof''),
     rc_ser_state = (\<lambda>t. if t = s then ''1'' else ''0''),
     rc_parse_state = (\<lambda>t. Inr (if t = ''1'' then s else release_state_default))\<rparr>"

definition sample_event :: release_event where
  "sample_event = \<lparr>re_sequence = 1, re_release = sr0, re_packaging = sp0\<rparr>"

lemma one_codec_ok: "codec_ok {e} (rc_ser_event (one_codec e s)) (rc_parse_event (one_codec e s))"
  by (auto simp: codec_ok_def one_codec_def nth_Cons' take_Cons' split: if_splits)

lemma sample_event_applies:
  "\<exists>s. rel_apply_event release_state_default sample_event = Inr s \<and> s = rel_mem sample_prepared"
proof -
  have first: "bt_get (rs_packaging_by_key (rel_mem sample_empty)) (hex64 (CHR ''0'')) = None"
    by (simp add: sample_empty_def release_state_default_def)
  have "wr_id sr0 = pk_release_id sp0" "wr_project_id sr0 = pk_project_id sp0"
    by (simp_all add: sample_pair_defs)
  from rel_persist_ok(2) [OF this, of sample_empty null_codec]
  have "rel_apply_event release_state_default sample_event =
      Inr (rel_mem (snd (rel_persist_pair null_codec io_ok sr0 sp0 sample_empty)))"
    by (simp add: sample_event_def sample_empty_def release_state_default_def sat_inc_def)
  moreover have "snd (rel_persist_pair null_codec io_ok sr0 sp0 sample_empty) = sample_prepared"
    using sample_input_valid first
    by (auto simp: sample_prepared_def rel_prepare_def sample_key Let_def sr0_def sp0_def
        split: prod.splits sum.splits)
  ultimately show ?thesis by simp
qed

theorem release_crash_recovery_witness:
  "\<exists>m. rel_open (one_codec sample_event (rel_mem sample_prepared)) False
     (rel_files (snd (rel_persist_pair (one_codec sample_event (rel_mem sample_prepared))
        (io_ok\<lparr>io_append := AppendFailed 2 ''ENOSPC''\<rparr>) sr0 sp0 sample_empty)))
   = Inr m \<and> rel_mem m \<in> {rel_mem sample_empty, rel_mem sample_prepared}"
proof -
  let ?c = "one_codec sample_event (rel_mem sample_prepared)"
  let ?io = "io_ok\<lparr>io_append := AppendFailed 2 ''ENOSPC''\<rparr>"
  have ev: "\<lparr>re_sequence = sat_inc (rs_sequence (rel_mem sample_empty)), re_release = sr0,
      re_packaging = sp0\<rparr> = sample_event"
    by (simp add: sample_event_def sample_empty_def sat_inc_def)
  have dur: "rel_durable ?c [] sample_empty"
    by (simp add: rel_durable_def sample_empty_def no_files_def journal_bytes_def journal_of_def)
  have app: "rel_apply_event (rel_mem sample_empty) sample_event = Inr (rel_mem sample_prepared)"
    using sample_event_applies by (simp add: sample_empty_def)
  have cod: "rel_codec_ok ?c ([] @ [sample_event])"
    using one_codec_ok [of sample_event] app
    by (auto simp: rel_codec_ok_def one_codec_def le_Suc_eq sample_empty_def split: if_splits)
  have inv: "rel_inv (rel_mem sample_empty)" "rel_inv (rel_mem sample_prepared)"
    using rel_reach_inv sample_reach_empty sample_reach_building(1) by blast+
  have room: "rs_sequence (rel_mem sample_empty) \<noteq> - 1" by (simp add: sample_empty_def)
  have run: "rel_persist_pair ?c ?io sr0 sp0 sample_empty =
      (fst (rel_persist_pair ?c ?io sr0 sp0 sample_empty), snd (rel_persist_pair ?c ?io sr0 sp0 sample_empty))"
    by simp
  from release_crash_recovery [where r = sr0 and p = sp0 and st = sample_empty and es = "[]"
      and mirrored = False, unfolded ev, OF dur cod app inv room run]
  show ?thesis by auto
qed

lemma rel_read_journal_bytes:
  "rel_read_journal cd f = err_into Rel_Storage (read_lines (rc_parse_event cd) (journal_bytes f))"
  by (cases "journal_file f") (simp_all add: rel_read_journal_def journal_bytes_def read_lines_def)

text \<open>
  A crash that leaves part of a line in the journal is not repaired at start-up. The store opens
  and the next operation reports success, but its line continues the broken one: when the joined
  text is not a record, no later start-up can open the store again.
\<close>

theorem release_torn_append_poisons:
  assumes files: "f = \<lparr>journal_file = Some (journal_of (rc_ser_event cd) es @ torn), checkpoint_file = cp\<rparr>"
    and torn: "rc_ser_event cd c = torn @ rest" "rest \<noteq> []"
    and cod: "codec_ok (insert c (insert e (set es))) (rc_ser_event cd) (rc_parse_event cd)"
    and opened: "rel_open cd mirrored f = Inr st"
    and e: "e = \<lparr>re_sequence = sat_inc (rs_sequence (rel_mem st)), re_release = r, re_packaging = p\<rparr>"
    and run: "rel_persist_pair cd io_ok r p st = (Inr (), st')"
    and joined: "rc_parse_event cd (torn @ rc_ser_event cd e) = Inl x"
  shows "rel_read_journal cd f = Inr es \<and> rel_open cd mirrored (rel_files st') = Inl (Rel_Storage x)"
proof -
  have cod': "codec_ok (insert c (set es)) (rc_ser_event cd) (rc_parse_event cd)"
    "codec_ok (insert e (set es)) (rc_ser_event cd) (rc_parse_event cd)"
    using codec_ok_subset [OF cod] by auto
  have nonl: "nl \<notin> set torn" using codec_okD(2) [OF cod, of c] torn(1) by simp
  have first: "rel_read_journal cd f = Inr es"
    using read_journal_torn [OF cod'(1) torn] by (simp add: rel_read_journal_def files)
  have fst_: "rel_files st = f"
    using opened by (auto simp: rel_open_def Let_def split: sum.splits)
  have "journal_bytes (rel_files st') =
      journal_of (rc_ser_event cd) es @ torn @ journal_line (rc_ser_event cd) e"
  proof (cases rule: rel_persist_files [where cd = cd and io = io_ok and r = r and p = p and st = st])
    case failed
    with run show ?thesis by simp
  next
    case applied
    from applied(3) run show ?thesis
      by (simp add: fst_ files journal_bytes_def journal_line_def e)
  qed
  then have "rel_read_journal cd (rel_files st') = Inl (Rel_Storage x)"
    using read_journal_poisoned [OF cod'(2) nonl joined] by (simp add: rel_read_journal_bytes)
  then show ?thesis using first by (simp add: rel_open_def Let_def)
qed

theorem release_torn_append_poisons_witness:
  "\<exists>f st st'. rel_open (one_codec sample_event (rel_mem sample_prepared)) False f = Inr st \<and>
     rel_persist_pair (one_codec sample_event (rel_mem sample_prepared)) io_ok sr0 sp0 st = (Inr (), st') \<and>
     \<not> is_ok (rel_open (one_codec sample_event (rel_mem sample_prepared)) False (rel_files st'))"
proof -
  let ?c = "one_codec sample_event (rel_mem sample_prepared)"
  let ?f = "\<lparr>journal_file = Some (journal_of (rc_ser_event ?c) [] @ ''{''), checkpoint_file = None\<rparr>"
  let ?st = "\<lparr>rel_files = ?f, rel_mem = release_state_default, rel_mirrored = False\<rparr>"
  have torn: "rc_ser_event ?c sample_event = ''{'' @ ''1}''" "''1}'' \<noteq> []"
    by (simp_all add: one_codec_def)
  have cod: "codec_ok (insert sample_event (insert sample_event (set []))) (rc_ser_event ?c) (rc_parse_event ?c)"
    using one_codec_ok [of sample_event] by simp
  have "read_lines (rc_parse_event ?c) (journal_of (rc_ser_event ?c) [] @ ''{'') = Inr []"
    by (rule read_journal_torn [of sample_event _ _ _ _ "''1}''"]) (use cod torn in simp_all)
  from rel_open_read [where f = ?f and es = "[]", OF journal_read_cases, of ?c release_state_default False]
  have opened: "rel_open ?c False ?f = Inr ?st"
    using \<open>read_lines _ _ = _\<close> rel_inv_default by (simp add: journal_bytes_def)
  have e: "sample_event = \<lparr>re_sequence = sat_inc (rs_sequence (rel_mem ?st)), re_release = sr0,
      re_packaging = sp0\<rparr>"
    by (simp add: sample_event_def sat_inc_def)
  have run: "rel_persist_pair ?c io_ok sr0 sp0 ?st = (Inr (), snd (rel_persist_pair ?c io_ok sr0 sp0 ?st))"
    using rel_persist_ok(1) [of sr0 sp0 ?c ?st] by (simp add: sample_pair_defs prod_eq_iff)
  have joined: "rc_parse_event ?c (''{'' @ rc_ser_event ?c sample_event) = Inl ''eof''"
    by (simp add: one_codec_def)
  from release_torn_append_poisons [OF refl torn cod opened e run joined] opened run
  show ?thesis by (metis is_ok_simps(2))
qed

end
