(* ===== verification/JsonLines.thy ===== *)
theory JsonLines
  imports Journal
begin

text \<open>
  A JSON-lines log that is appended to and read line by line with \<open>BufRead::lines\<close>, as the publish
  workflow store, the draft preview store and the runtime store use it. Unlike \<open>read_journal\<close> of
  \<open>Journal\<close> the reader tolerates nothing: the first line that is not UTF-8, does not parse or is not
  accepted fails the whole read. The contract of a log whose accepted records update a state is the
  locale \<open>jsonl_log\<close>.
\<close>

section \<open>Appending\<close>

definition log_bytes :: "string option \<Rightarrow> string" where
  "log_bytes log = (case log of None \<Rightarrow> [] | Some b \<Rightarrow> b)"

text \<open>\<open>to_writer\<close>, \<open>write_all(b"\n")\<close>, \<open>sync_all\<close>: a failure leaves some prefix of the line.\<close>

definition append_line :: "append_outcome \<Rightarrow> string \<Rightarrow> string option \<Rightarrow> string option \<times> string option" where
  "append_line oc text log = (case oc of
      Appended \<Rightarrow> (None, Some (log_bytes log @ text @ [nl]))
    | AppendFailed n e \<Rightarrow> (Some e, Some (log_bytes log @ take n (text @ [nl]))))"

section \<open>Reading\<close>

text \<open>
  A chunk of \<open>split_inclusive_nl\<close> loses its line feed and a carriage return before it; a chunk that is
  not UTF-8 is an error. \<open>utf8_tail c\<close> are the ranges of the bytes that follow the lead byte \<open>c\<close> of a
  scalar, \<open>None\<close> when \<open>c\<close> leads none.
\<close>

definition utf8_tail :: "char \<Rightarrow> (nat \<times> nat) list option" where
  "utf8_tail c =
    (let a = code c; cont = (128, 191) in
     if a \<le> 127 then Some []
     else if 194 \<le> a \<and> a \<le> 223 then Some [cont]
     else if a = 224 then Some [(160, 191), cont]
     else if a = 237 then Some [(128, 159), cont]
     else if 225 \<le> a \<and> a \<le> 239 then Some [cont, cont]
     else if a = 240 then Some [(144, 191), cont, cont]
     else if 241 \<le> a \<and> a \<le> 243 then Some [cont, cont, cont]
     else if a = 244 then Some [(128, 143), cont, cont]
     else None)"

function utf8_valid :: "string \<Rightarrow> bool" where
  "utf8_valid [] \<longleftrightarrow> True"
| "utf8_valid (c # s) \<longleftrightarrow> (case utf8_tail c of
      None \<Rightarrow> False
    | Some rs \<Rightarrow> list_all2 (\<lambda>b (lo, hi). lo \<le> code b \<and> code b \<le> hi) (take (length rs) s) rs
        \<and> utf8_valid (drop (length rs) s))"
  by pat_completeness auto
termination
  by (relation "measure length") auto

definition strip_line_end :: "string \<Rightarrow> string" where
  "strip_line_end l =
    (if l \<noteq> [] \<and> last l = nl
     then (let b = butlast l in if b \<noteq> [] \<and> last b = CHR 0x0D then butlast b else b)
     else l)"

fun load_lines ::
    "(string \<Rightarrow> string + 'a) \<Rightarrow> ('a \<Rightarrow> 's \<Rightarrow> string + 's) \<Rightarrow> string list \<Rightarrow> 's \<Rightarrow> string + 's" where
  "load_lines parse accept [] s = Inr s"
| "load_lines parse accept (ch # chs) s =
    (if \<not> utf8_valid ch then Inl ''stream did not contain valid UTF-8''
     else if is_blank (strip_line_end ch) then load_lines parse accept chs s
     else case parse (strip_line_end ch) of
       Inl e \<Rightarrow> Inl e
     | Inr x \<Rightarrow> (case accept x s of Inl e \<Rightarrow> Inl e | Inr s' \<Rightarrow> load_lines parse accept chs s'))"

definition load_log ::
    "(string \<Rightarrow> string + 'a) \<Rightarrow> ('a \<Rightarrow> 's \<Rightarrow> string + 's) \<Rightarrow> string \<Rightarrow> 's \<Rightarrow> string + 's" where
  "load_log parse accept bytes s = load_lines parse accept (split_inclusive_nl bytes) s"

text \<open>
  What is used of \<open>serde_json\<close>: \<open>codec_ok\<close>, and that the text of a record is UTF-8 and does not end in
  a carriage return.
\<close>

definition line_codec_ok :: "'a set \<Rightarrow> ('a \<Rightarrow> string) \<Rightarrow> (string \<Rightarrow> string + 'a) \<Rightarrow> bool" where
  "line_codec_ok S ser parse \<longleftrightarrow> codec_ok S ser parse \<and>
     (\<forall>x \<in> S. utf8_valid (ser x) \<and> last (ser x) \<noteq> CHR 0x0D)"

lemma line_codec_codec: "line_codec_ok S ser parse \<Longrightarrow> codec_ok S ser parse"
  by (simp add: line_codec_ok_def)

lemma line_codec_subset: "line_codec_ok S ser parse \<Longrightarrow> T \<subseteq> S \<Longrightarrow> line_codec_ok T ser parse"
  by (auto simp: line_codec_ok_def codec_ok_def)

lemma utf8_valid_append: "utf8_valid s \<Longrightarrow> utf8_valid t \<Longrightarrow> utf8_valid (s @ t)"
proof (induction s rule: utf8_valid.induct)
  case (2 c s)
  then obtain rs where rs: "utf8_tail c = Some rs"
    "list_all2 (\<lambda>b (lo, hi). lo \<le> code b \<and> code b \<le> hi) (take (length rs) s) rs"
    "utf8_valid (drop (length rs) s)"
    by (auto split: option.splits)
  then have "length rs \<le> length s" by (auto dest: list_all2_lengthD)
  with rs 2(1) [OF rs(1)] 2(3) show ?case by simp
qed simp

lemma utf8_valid_nl: "utf8_valid s \<Longrightarrow> utf8_valid (s @ [nl])"
  by (rule utf8_valid_append) (simp_all add: utf8_tail_def)

lemma strip_line_end_line: "last l \<noteq> CHR 0x0D \<Longrightarrow> strip_line_end (l @ [nl]) = l"
  by (simp add: strip_line_end_def Let_def)

lemma strip_line_end_id: "nl \<notin> set l \<Longrightarrow> strip_line_end l = l"
  by (cases l rule: rev_cases) (auto simp: strip_line_end_def)

lemma codec_not_blank: "codec_ok S ser parse \<Longrightarrow> x \<in> S \<Longrightarrow> 0 < n \<Longrightarrow> \<not> is_blank (take n (ser x))"
  using codec_okD(3) [of S ser parse x] is_blank_ascii [of "CHR 0x7B"] by (cases n) auto

lemma codec_not_blank_whole: "codec_ok S ser parse \<Longrightarrow> x \<in> S \<Longrightarrow> \<not> is_blank (ser x)"
  using codec_not_blank [of S ser parse x "length (ser x)"] codec_okD(3) [of S ser parse x] by auto

section \<open>The contract\<close>

locale jsonl_log =
  fixes valid :: "'a \<Rightarrow> bool"
    and accept :: "'a \<Rightarrow> 's \<Rightarrow> string + 's"
    and upd :: "'a \<Rightarrow> 's \<Rightarrow> 's"
  assumes accept_valid: "valid x \<Longrightarrow> accept x s = Inr (upd x s)"
begin

lemma load_chunk:
  assumes "line_codec_ok S ser parse" "x \<in> S" "valid x" "ch = ser x @ [nl] \<or> ch = ser x"
  shows "load_lines parse accept (ch # chs) s = load_lines parse accept chs (upd x s)"
proof -
  have ok: "codec_ok S ser parse" "utf8_valid (ser x)" "last (ser x) \<noteq> CHR 0x0D"
    using assms(1,2) by (auto simp: line_codec_ok_def)
  have "strip_line_end ch = ser x" "utf8_valid ch"
    using assms(4) ok strip_line_end_line strip_line_end_id codec_okD(2) [OF ok(1) assms(2)] utf8_valid_nl
    by auto
  then show ?thesis
    using codec_not_blank_whole [OF ok(1) assms(2)] codec_okD(1) [OF ok(1) assms(2)] accept_valid [OF assms(3)]
    by simp
qed

lemma load_journal:
  assumes "line_codec_ok S ser parse" "set xs \<subseteq> S" "\<forall>x \<in> set xs. valid x"
  shows "load_lines parse accept (map (journal_line ser) xs @ chs) s =
    load_lines parse accept chs (fold upd xs s)"
  using assms(2,3)
proof (induction xs arbitrary: s)
  case (Cons x xs)
  then have "load_lines parse accept (journal_line ser x # map (journal_line ser) xs @ chs) s =
      load_lines parse accept (map (journal_line ser) xs @ chs) (upd x s)"
    by (intro load_chunk [OF assms(1), of x]) (simp_all add: journal_line_def)
  with Cons show ?case by (simp del: load_lines.simps)
qed simp

lemma load_whole:
  assumes "line_codec_ok (set xs) ser parse" "\<forall>x \<in> set xs. valid x"
  shows "load_log parse accept (journal_of ser xs) s = Inr (fold upd xs s)"
  using load_journal [OF assms(1) order_refl assms(2), of "[]"]
    split_journal_of [OF line_codec_codec [OF assms(1)] order_refl, of "[]"] by (simp add: load_log_def)

text \<open>Only the line feed is missing: the record is read.\<close>

lemma load_unterminated:
  assumes ok: "line_codec_ok (insert x (set xs)) ser parse" "\<forall>y \<in> insert x (set xs). valid y"
  shows "load_log parse accept (journal_of ser xs @ ser x) s = Inr (fold upd (xs @ [x]) s)"
proof -
  note c = line_codec_codec [OF ok(1)]
  have "split_inclusive_nl (ser x) = [ser x]"
    using codec_okD(2,3) [OF c, of x] by (intro split_nl_tail) auto
  then show ?thesis
    using split_journal_of [OF c subset_insertI, of "ser x"]
      load_journal [OF ok(1) subset_insertI, of "[ser x]"] ok load_chunk [OF ok(1), of x]
    by (simp add: load_log_def)
qed

text \<open>A record cut short makes the whole log unreadable.\<close>

lemma load_torn:
  assumes ok: "line_codec_ok (insert x (set xs)) ser parse" "\<forall>y \<in> set xs. valid y"
    and n: "0 < n" "n < length (ser x)"
  shows "\<exists>m. load_log parse accept (journal_of ser xs @ take n (ser x)) s = Inl m"
proof -
  note c = line_codec_codec [OF ok(1)]
  let ?p = "take n (ser x)"
  have ne: "?p \<noteq> []" using n by auto
  have nop: "nl \<notin> set ?p" using codec_okD(2) [OF c, of x] in_set_takeD by fastforce
  have "\<not> is_ok (parse ?p)"
    using codec_okD(4) [OF c insertI1, of ?p "drop n (ser x)"] n by simp
  then obtain e where e: "parse ?p = Inl e" by (cases "parse ?p") auto
  have "\<exists>m. load_lines parse accept [?p] t = Inl m" for t
    using e codec_not_blank [OF c insertI1 n(1)] strip_line_end_id [OF nop] by simp
  then show ?thesis
    using split_journal_of [OF c subset_insertI, of ?p] split_nl_tail [OF nop ne]
      load_journal [OF ok(1) subset_insertI, of "[?p]"] ok(2) by (simp add: load_log_def)
qed

end

end
