(* ===== verification/PublishWorkflowModel.thy ===== *)
theory PublishWorkflowModel
  imports ReleaseModel JsonLines
begin

text \<open>
  The data of a publish workflow: \<open>PublishSource\<close>, \<open>PublishWorkflow\<close> and their validation
  (\<open>visual_contracts.rs\<close>), the request that starts one and the rank of a checkpoint
  (\<open>publish_workflow/store.rs\<close>). Field prefixes: \<open>wf_\<close> workflow, \<open>ev_\<close> stage evidence, \<open>sr_\<close> start
  request, \<open>rv_\<close> the value whose JSON text is hashed. Checkpoints are ordered by their rank.
\<close>

definition publish_workflow_schema :: string where
  "publish_workflow_schema = ''publish-workflow@1''"

definition is_sha256 :: "string \<Rightarrow> bool" where
  "is_sha256 value \<longleftrightarrow> length value = 64 \<and> list_all is_ascii_hexdigit value"

datatype visual_review_mode = Vr_Off | Vr_Advisory | Vr_Required

datatype publish_source =
    StaticSnapshot (src_project: string) (src_snapshot: string) (src_hash: string)
  | DraftRevision (src_project: string) (src_session: string) (src_epoch: u64) (src_revision: u64)
      (src_snapshot: string) (src_hash: string)

definition source_validate :: "publish_source \<Rightarrow> string + unit" where
  "source_validate s =
    (if is_blank (src_project s) \<or> is_blank (src_snapshot s) \<or> \<not> is_sha256 (src_hash s)
     then Inl ''PublishSource identity is invalid''
     else case s of
       StaticSnapshot _ _ _ \<Rightarrow> Inr ()
     | DraftRevision _ session epoch _ _ _ \<Rightarrow>
         if is_blank session \<or> epoch = 0
         then Inl ''draft PublishSource session identity is invalid''
         else Inr ())"

datatype publish_workflow_status =
    Ws_Requested | Ws_SourceFrozen | Ws_Building | Ws_Validating | Ws_ReleasePackaging
  | Ws_ReleaseValidated | Ws_DesiredStateCommitted | Ws_Reconciling | Ws_WorkloadReady
  | Ws_TrafficSwitched | Ws_ExternalProbePassed | Ws_RollingBack | Ws_Completed | Ws_Failed
  | Ws_Cancelled | Ws_RolledBack | Ws_RollbackFailed

datatype publish_workflow_checkpoint =
    Wc_Requested | Wc_SourceFrozen | Wc_Building | Wc_Validating | Wc_ReleasePackaging
  | Wc_ReleaseValidated | Wc_DesiredStateCommitted | Wc_Reconciling | Wc_WorkloadReady
  | Wc_TrafficSwitched | Wc_ExternalProbePassed | Wc_RollingBack | Wc_Completed | Wc_RolledBack

text \<open>The \<open>Debug\<close> text of a checkpoint.\<close>

fun checkpoint_debug :: "publish_workflow_checkpoint \<Rightarrow> string" where
  "checkpoint_debug Wc_Requested = ''Requested''"
| "checkpoint_debug Wc_SourceFrozen = ''SourceFrozen''"
| "checkpoint_debug Wc_Building = ''Building''"
| "checkpoint_debug Wc_Validating = ''Validating''"
| "checkpoint_debug Wc_ReleasePackaging = ''ReleasePackaging''"
| "checkpoint_debug Wc_ReleaseValidated = ''ReleaseValidated''"
| "checkpoint_debug Wc_DesiredStateCommitted = ''DesiredStateCommitted''"
| "checkpoint_debug Wc_Reconciling = ''Reconciling''"
| "checkpoint_debug Wc_WorkloadReady = ''WorkloadReady''"
| "checkpoint_debug Wc_TrafficSwitched = ''TrafficSwitched''"
| "checkpoint_debug Wc_ExternalProbePassed = ''ExternalProbePassed''"
| "checkpoint_debug Wc_RollingBack = ''RollingBack''"
| "checkpoint_debug Wc_Completed = ''Completed''"
| "checkpoint_debug Wc_RolledBack = ''RolledBack''"

fun checkpoint_rank :: "publish_workflow_checkpoint \<Rightarrow> nat" where
  "checkpoint_rank Wc_Requested = 0"
| "checkpoint_rank Wc_SourceFrozen = 1"
| "checkpoint_rank Wc_Building = 2"
| "checkpoint_rank Wc_Validating = 3"
| "checkpoint_rank Wc_ReleasePackaging = 4"
| "checkpoint_rank Wc_ReleaseValidated = 5"
| "checkpoint_rank Wc_DesiredStateCommitted = 6"
| "checkpoint_rank Wc_Reconciling = 7"
| "checkpoint_rank Wc_WorkloadReady = 8"
| "checkpoint_rank Wc_TrafficSwitched = 9"
| "checkpoint_rank Wc_ExternalProbePassed = 10"
| "checkpoint_rank Wc_RollingBack = 11"
| "checkpoint_rank Wc_Completed = 12"
| "checkpoint_rank Wc_RolledBack = 13"

text \<open>The code compares ranks; they are injective, so checkpoints are linearly ordered by them.\<close>

lemma checkpoint_rank_inj: "checkpoint_rank c = checkpoint_rank d \<longleftrightarrow> c = d"
  by (cases c; cases d) simp_all

instantiation publish_workflow_checkpoint :: linorder
begin

definition less_eq_publish_workflow_checkpoint ::
    "publish_workflow_checkpoint \<Rightarrow> publish_workflow_checkpoint \<Rightarrow> bool" where
  "c \<le> d \<longleftrightarrow> checkpoint_rank c \<le> checkpoint_rank d"

definition less_publish_workflow_checkpoint ::
    "publish_workflow_checkpoint \<Rightarrow> publish_workflow_checkpoint \<Rightarrow> bool" where
  "c < d \<longleftrightarrow> checkpoint_rank c < checkpoint_rank d"

instance
  by standard
    (auto simp: less_eq_publish_workflow_checkpoint_def less_publish_workflow_checkpoint_def
      checkpoint_rank_inj)

end

lemmas checkpoint_order = less_eq_publish_workflow_checkpoint_def less_publish_workflow_checkpoint_def

definition workflow_terminal :: "publish_workflow_status \<Rightarrow> bool" where
  "workflow_terminal s \<longleftrightarrow> s \<in> {Ws_Completed, Ws_Failed, Ws_Cancelled, Ws_RolledBack, Ws_RollbackFailed}"

record stage_evidence =
  ev_stage :: publish_workflow_checkpoint
  ev_input_hash :: string
  ev_child_operation_id :: "string option"
  ev_attempt :: u32
  ev_completed_at :: time

record publish_workflow =
  wf_schema_version :: string
  wf_id :: string
  wf_idempotency_key_hash :: string
  wf_request_hash :: string
  wf_project_id :: string
  wf_source :: publish_source
  wf_status :: publish_workflow_status
  wf_checkpoint :: publish_workflow_checkpoint
  wf_visual_review_mode :: visual_review_mode
  wf_expected_current_release_id :: "string option"
  wf_expected_generation :: u64
  wf_version_id :: "string option"
  wf_release_id :: "string option"
  wf_publication_operation_id :: "string option"
  wf_public_url :: "string option"
  wf_evidence :: "stage_evidence list"
  wf_last_error :: "string option"
  wf_created_at :: time
  wf_updated_at :: time

definition workflow_validate :: "publish_workflow \<Rightarrow> string + unit" where
  "workflow_validate w =
    (if wf_schema_version w \<noteq> publish_workflow_schema \<or> is_blank (wf_id w)
        \<or> is_blank (wf_project_id w) \<or> \<not> is_sha256 (wf_idempotency_key_hash w)
        \<or> \<not> is_sha256 (wf_request_hash w) \<or> wf_project_id w \<noteq> src_project (wf_source w)
     then Inl ''PublishWorkflow identity is invalid''
     else case source_validate (wf_source w) of
       Inl e \<Rightarrow> Inl e
     | Inr _ \<Rightarrow>
         if list_ex (\<lambda>e. ev_attempt e = 0 \<or> \<not> is_sha256 (ev_input_hash e)) (wf_evidence w)
         then Inl ''PublishWorkflow stage evidence is invalid''
         else Inr ())"

record start_request =
  sr_source :: publish_source
  sr_idempotency_key :: string
  sr_expected_current_release_id :: "string option"
  sr_expected_generation :: u64
  sr_visual_review_mode :: visual_review_mode
  sr_runtime_profile_id :: string

text \<open>The members of the \<open>json!\<close> object hashed by \<open>request_hash\<close>: all of the request but its key.\<close>

record request_value =
  rv_project_id :: string
  rv_source :: publish_source
  rv_expected_current_release_id :: "string option"
  rv_expected_generation :: u64
  rv_visual_review_mode :: visual_review_mode
  rv_runtime_profile_id :: string

definition request_value_of :: "string \<Rightarrow> start_request \<Rightarrow> request_value" where
  "request_value_of project rq =
    \<lparr>rv_project_id = project, rv_source = sr_source rq,
     rv_expected_current_release_id = sr_expected_current_release_id rq,
     rv_expected_generation = sr_expected_generation rq,
     rv_visual_review_mode = sr_visual_review_mode rq,
     rv_runtime_profile_id = sr_runtime_profile_id rq\<rparr>"

lemma source_project_cases:
  "src_project s = (case s of StaticSnapshot p _ _ \<Rightarrow> p | DraftRevision p _ _ _ _ _ \<Rightarrow> p)"
  by (cases s) simp_all

lemma sha256_hex_is_sha256: "digest32 D \<Longrightarrow> is_sha256 (sha256_hex D b)"
  using sha256_hex_lower [of _ D b]
  by (auto simp: is_sha256_def length_sha256_hex list_all_iff is_lower_hex_def)

lemma to_lower_hexdigit:
  "is_ascii_hexdigit c \<Longrightarrow> is_lower_hex (if is_ascii_uppercase c then char_of (code c + 32) else c)"
  by (auto simp: is_lower_hex_def string_defs)

lemma is_sha256_lower: "is_sha256 h \<Longrightarrow> is_sha256 (to_ascii_lowercase h)"
  using to_lower_hexdigit
  by (fastforce simp: is_sha256_def to_ascii_lowercase_def list_all_iff is_lower_hex_def)

text \<open>Validation does not read the status, the error text, the ids or the times of a workflow.\<close>

lemma workflow_validate_cong:
  "wf_schema_version v = wf_schema_version w \<Longrightarrow> wf_id v = wf_id w \<Longrightarrow>
   wf_project_id v = wf_project_id w \<Longrightarrow> wf_idempotency_key_hash v = wf_idempotency_key_hash w \<Longrightarrow>
   wf_request_hash v = wf_request_hash w \<Longrightarrow> wf_source v = wf_source w \<Longrightarrow>
   wf_evidence v = wf_evidence w \<Longrightarrow> workflow_validate v = workflow_validate w"
  unfolding workflow_validate_def by (simp only:)

end
