(* ===== verification/PublishWorkflowStore.thy ===== *)
theory PublishWorkflowStore
  imports PublishWorkflowModel
begin

text \<open>
  \<open>publish_workflow/store.rs\<close>: the store of publish workflows. Its log holds one JSON line per
  change, the whole workflow each time; opening it keeps the last line of every workflow. Unlike the
  release and publication stores it has no checkpoint file and does not tolerate a torn last line.
  Every operation takes the clock reading it makes and the outcome of its append, and returns its
  result with the store it leaves behind.
\<close>

datatype workflow_store_error =
    Wf_InvalidInput string
  | Wf_NotFound string
  | Wf_Conflict string
  | Wf_InvalidTransition string
  | Wf_Storage string

fun wf_error_string :: "workflow_store_error \<Rightarrow> string" where
  "wf_error_string (Wf_InvalidInput m) = ''invalid publish workflow: '' @ m"
| "wf_error_string (Wf_NotFound m) = ''publish workflow not found: '' @ m"
| "wf_error_string (Wf_Conflict m) = ''publish workflow conflict: '' @ m"
| "wf_error_string (Wf_InvalidTransition m) = ''invalid publish workflow transition: '' @ m"
| "wf_error_string (Wf_Storage m) = ''publish workflow storage failure: '' @ m"

record workflow_state =
  ws_workflows :: "(string, publish_workflow) btree"
  ws_by_idempotency :: "(string, string) btree"

record workflow_store =
  wfs_log :: "string option"
  wfs_mem :: workflow_state

text \<open>\<open>serde_json\<close> for a workflow and for the hashed value of a request.\<close>

record workflow_codec =
  wc_ser :: "publish_workflow \<Rightarrow> string"
  wc_parse :: "string \<Rightarrow> string + publish_workflow"
  wc_ser_request :: "request_value \<Rightarrow> string"

definition workflow_state_default :: workflow_state where
  "workflow_state_default = \<lparr>ws_workflows = bt_empty, ws_by_idempotency = bt_empty\<rparr>"

definition scoped_idempotency_key :: "digest \<Rightarrow> string \<Rightarrow> string \<Rightarrow> string" where
  "scoped_idempotency_key D project key_hash = sha256_hex D (project @ CHR 0x00 # key_hash)"

section \<open>The request\<close>

definition start_validate :: "string \<Rightarrow> start_request \<Rightarrow> workflow_store_error + unit" where
  "start_validate project rq =
    (case source_validate (sr_source rq) of
       Inl e \<Rightarrow> Inl (Wf_InvalidInput e)
     | Inr _ \<Rightarrow>
       if src_project (sr_source rq) \<noteq> project
       then Inl (Wf_InvalidInput ''PublishSource project does not match request path'')
       else if is_blank (sr_idempotency_key rq) \<or> length (sr_idempotency_key rq) > 200
       then Inl (Wf_InvalidInput ''idempotencyKey must contain 1-200 characters'')
       else if sr_runtime_profile_id rq \<noteq> static_web_profile_id
       then Inl (Wf_InvalidInput ''only static-web-v1 is supported'')
       else Inr ())"

definition start_request_hash :: "digest \<Rightarrow> workflow_codec \<Rightarrow> string \<Rightarrow> start_request \<Rightarrow> string" where
  "start_request_hash D cd project rq =
    sha256_hex D (wc_ser_request cd (request_value_of project rq))"

section \<open>The log\<close>

definition wf_append ::
    "workflow_codec \<Rightarrow> append_outcome \<Rightarrow> publish_workflow \<Rightarrow> workflow_store
      \<Rightarrow> workflow_store_error option \<times> workflow_store" where
  "wf_append cd oc w st =
    (let (err, log) = append_line oc (wc_ser cd w) (wfs_log st)
     in (map_option Wf_Storage err, st\<lparr>wfs_log := log\<rparr>))"

text \<open>\<open>append(&workflow)?\<close> followed by the insertion into the map.\<close>

definition wf_put ::
    "workflow_codec \<Rightarrow> append_outcome \<Rightarrow> string \<Rightarrow> publish_workflow \<Rightarrow> workflow_store
      \<Rightarrow> (workflow_store_error + publish_workflow) \<times> workflow_store" where
  "wf_put cd oc wid w st =
    (case wf_append cd oc w st of
       (Some e, st') \<Rightarrow> (Inl e, st')
     | (None, st') \<Rightarrow> (Inr w, st'\<lparr>wfs_mem := (wfs_mem st')
           \<lparr>ws_workflows := bt_insert wid w (ws_workflows (wfs_mem st'))\<rparr>\<rparr>))"

definition wf_load :: "digest \<Rightarrow> publish_workflow \<Rightarrow> workflow_state \<Rightarrow> workflow_state" where
  "wf_load D w s = s
    \<lparr>ws_by_idempotency := bt_insert (scoped_idempotency_key D (wf_project_id w)
        (wf_idempotency_key_hash w)) (wf_id w) (ws_by_idempotency s),
     ws_workflows := bt_insert (wf_id w) w (ws_workflows s)\<rparr>"

definition wf_accept :: "digest \<Rightarrow> publish_workflow \<Rightarrow> workflow_state \<Rightarrow> string + workflow_state" where
  "wf_accept D w s = (case workflow_validate w of Inl e \<Rightarrow> Inl e | Inr _ \<Rightarrow> Inr (wf_load D w s))"

text \<open>\<open>open\<close>: a log that cannot be opened is treated like a missing one.\<close>

definition wf_open ::
    "digest \<Rightarrow> workflow_codec \<Rightarrow> bool \<Rightarrow> string option \<Rightarrow> workflow_store_error + workflow_store" where
  "wf_open D cd can_open log =
    (case (if can_open then log else None) of
       None \<Rightarrow> Inr \<lparr>wfs_log = log, wfs_mem = workflow_state_default\<rparr>
     | Some bytes \<Rightarrow>
    (case load_log (wc_parse cd) (wf_accept D) bytes workflow_state_default of
       Inl e \<Rightarrow> Inl (Wf_Storage e)
     | Inr s \<Rightarrow> Inr \<lparr>wfs_log = log, wfs_mem = s\<rparr>))"

section \<open>Operations\<close>

definition workflow_id_of :: "digest \<Rightarrow> string \<Rightarrow> string \<Rightarrow> string" where
  "workflow_id_of D project key_hash =
    ''publish-workflow-'' @ take 32 (sha256_hex D (project @ '':'' @ key_hash))"

definition workflow_of_request ::
    "digest \<Rightarrow> workflow_codec \<Rightarrow> time \<Rightarrow> string \<Rightarrow> start_request \<Rightarrow> publish_workflow" where
  "workflow_of_request D cd now project rq =
    (let key_hash = sha256_hex D (sr_idempotency_key rq) in
     \<lparr>wf_schema_version = publish_workflow_schema, wf_id = workflow_id_of D project key_hash,
      wf_idempotency_key_hash = key_hash, wf_request_hash = start_request_hash D cd project rq,
      wf_project_id = project, wf_source = sr_source rq, wf_status = Ws_Requested,
      wf_checkpoint = Wc_Requested, wf_visual_review_mode = sr_visual_review_mode rq,
      wf_expected_current_release_id = sr_expected_current_release_id rq,
      wf_expected_generation = sr_expected_generation rq, wf_version_id = None,
      wf_release_id = None, wf_publication_operation_id = None, wf_public_url = None,
      wf_evidence = [], wf_last_error = None, wf_created_at = now, wf_updated_at = now\<rparr>)"

definition wf_start ::
    "digest \<Rightarrow> workflow_codec \<Rightarrow> time \<Rightarrow> append_outcome \<Rightarrow> string \<Rightarrow> start_request \<Rightarrow> workflow_store
      \<Rightarrow> (workflow_store_error + (publish_workflow \<times> bool)) \<times> workflow_store" where
  "wf_start D cd now oc project rq st =
    (case start_validate project rq of
       Inl e \<Rightarrow> (Inl e, st)
     | Inr _ \<Rightarrow>
       let scoped = scoped_idempotency_key D project (sha256_hex D (sr_idempotency_key rq));
           s = wfs_mem st
       in case bt_get (ws_by_idempotency s) scoped of
            Some wid \<Rightarrow>
              (case bt_get (ws_workflows s) wid of
                 None \<Rightarrow> (Inl (Wf_Storage ''idempotency index is corrupt''), st)
               | Some existing \<Rightarrow>
                   if wf_request_hash existing \<noteq> start_request_hash D cd project rq
                   then (Inl (Wf_Conflict ''idempotencyKey is already bound to a different request''), st)
                   else (Inr (existing, False), st))
          | None \<Rightarrow>
              let w = workflow_of_request D cd now project rq in
              (case workflow_validate w of
                 Inl e \<Rightarrow> (Inl (Wf_InvalidInput e), st)
               | Inr _ \<Rightarrow>
              (case wf_append cd oc w st of
                 (Some e, st') \<Rightarrow> (Inl e, st')
               | (None, st') \<Rightarrow>
                   (Inr (w, True), st'\<lparr>wfs_mem := (wfs_mem st')
                      \<lparr>ws_by_idempotency := bt_insert scoped (wf_id w) (ws_by_idempotency (wfs_mem st')),
                       ws_workflows := bt_insert (wf_id w) w (ws_workflows (wfs_mem st'))\<rparr>\<rparr>))))"

definition wf_get :: "workflow_store \<Rightarrow> string \<Rightarrow> publish_workflow option" where
  "wf_get st wid = bt_get (ws_workflows (wfs_mem st)) wid"

definition wf_list_for_project :: "workflow_store \<Rightarrow> string \<Rightarrow> publish_workflow list" where
  "wf_list_for_project st project =
    filter (\<lambda>w. wf_project_id w = project) (bt_values (ws_workflows (wfs_mem st)))"

definition wf_nonterminal :: "workflow_store \<Rightarrow> publish_workflow list" where
  "wf_nonterminal st =
    filter (\<lambda>w. \<not> workflow_terminal (wf_status w)) (bt_values (ws_workflows (wfs_mem st)))"

text \<open>\<open>x.or(y)\<close>\<close>

definition opt_or :: "'a option \<Rightarrow> 'a option \<Rightarrow> 'a option" where
  "opt_or x y = (case x of None \<Rightarrow> y | Some _ \<Rightarrow> x)"

record advance_args =
  aa_input_hash :: string
  aa_child_operation_id :: "string option"
  aa_version_id :: "string option"
  aa_release_id :: "string option"
  aa_publication_operation_id :: "string option"
  aa_public_url :: "string option"

definition stage_attempt :: "publish_workflow_checkpoint \<Rightarrow> publish_workflow \<Rightarrow> u32" where
  "stage_attempt c w = of_nat (length (filter (\<lambda>e. ev_stage e = c) (wf_evidence w))) + 1"

definition advanced_workflow ::
    "time \<Rightarrow> publish_workflow_status \<Rightarrow> publish_workflow_checkpoint \<Rightarrow> advance_args
      \<Rightarrow> publish_workflow \<Rightarrow> publish_workflow" where
  "advanced_workflow now status checkpoint a w = w
    \<lparr>wf_status := status, wf_checkpoint := checkpoint,
     wf_version_id := opt_or (aa_version_id a) (wf_version_id w),
     wf_release_id := opt_or (aa_release_id a) (wf_release_id w),
     wf_publication_operation_id :=
       opt_or (aa_publication_operation_id a) (wf_publication_operation_id w),
     wf_public_url := opt_or (aa_public_url a) (wf_public_url w),
     wf_last_error := None, wf_updated_at := now,
     wf_evidence := wf_evidence w @
       [\<lparr>ev_stage = checkpoint, ev_input_hash = to_ascii_lowercase (aa_input_hash a),
         ev_child_operation_id = aa_child_operation_id a, ev_attempt = stage_attempt checkpoint w,
         ev_completed_at = now\<rparr>]\<rparr>"

definition wf_advance ::
    "workflow_codec \<Rightarrow> time \<Rightarrow> append_outcome \<Rightarrow> string \<Rightarrow> publish_workflow_checkpoint
      \<Rightarrow> publish_workflow_status \<Rightarrow> publish_workflow_checkpoint \<Rightarrow> advance_args \<Rightarrow> workflow_store
      \<Rightarrow> (workflow_store_error + publish_workflow) \<times> workflow_store" where
  "wf_advance cd now oc wid expected status checkpoint a st =
    (if \<not> is_sha256 (aa_input_hash a)
     then (Inl (Wf_InvalidInput ''stage input hash must be SHA-256''), st)
     else case wf_get st wid of
       None \<Rightarrow> (Inl (Wf_NotFound wid), st)
     | Some w \<Rightarrow>
       if wf_checkpoint w \<noteq> expected
       then (if wf_checkpoint w = checkpoint then (Inr w, st)
             else (Inl (Wf_Conflict (''expected checkpoint '' @ checkpoint_debug expected
                     @ '', found '' @ checkpoint_debug (wf_checkpoint w))), st))
       else if checkpoint_rank checkpoint < checkpoint_rank expected
       then (Inl (Wf_InvalidTransition (''cannot move backward from '' @ checkpoint_debug expected
                     @ '' to '' @ checkpoint_debug checkpoint)), st)
       else let w' = advanced_workflow now status checkpoint a w in
            case workflow_validate w' of
              Inl e \<Rightarrow> (Inl (Wf_InvalidTransition e), st)
            | Inr _ \<Rightarrow> wf_put cd oc wid w' st)"

definition wf_set_status ::
    "workflow_codec \<Rightarrow> time \<Rightarrow> append_outcome \<Rightarrow> string \<Rightarrow> publish_workflow_status \<Rightarrow> string option
      \<Rightarrow> workflow_store \<Rightarrow> (workflow_store_error + publish_workflow) \<times> workflow_store" where
  "wf_set_status cd now oc wid status error st =
    (case wf_get st wid of
       None \<Rightarrow> (Inl (Wf_NotFound wid), st)
     | Some w \<Rightarrow>
       wf_put cd oc wid (w\<lparr>wf_status := status, wf_last_error := error, wf_updated_at := now\<rparr>) st)"

definition wf_cancel ::
    "workflow_codec \<Rightarrow> time \<Rightarrow> append_outcome \<Rightarrow> string \<Rightarrow> workflow_store
      \<Rightarrow> (workflow_store_error + publish_workflow) \<times> workflow_store" where
  "wf_cancel cd now oc wid st =
    (case wf_get st wid of
       None \<Rightarrow> (Inl (Wf_NotFound wid), st)
     | Some w \<Rightarrow>
       if wf_status w = Ws_Cancelled then (Inr w, st)
       else if workflow_terminal (wf_status w)
          \<or> checkpoint_rank (wf_checkpoint w) \<ge> checkpoint_rank Wc_DesiredStateCommitted
       then (Inl (Wf_Conflict
              ''workflow can only be cancelled before desired state is committed''), st)
       else wf_put cd oc wid
              (w\<lparr>wf_status := Ws_Cancelled, wf_last_error := None, wf_updated_at := now\<rparr>) st)"

end
