(* ===== verification/DraftPreview.thy ===== *)
theory DraftPreview
  imports PublishWorkflowModel
begin

text \<open>
  \<open>draft_preview.rs\<close> with its data from \<open>visual_contracts.rs\<close>: the store of draft preview sessions. A
  session has one writer, named by a lease and fenced by an epoch; the writer commits source
  revisions, the preview process reports which are ready, and a durable one may be published. The
  store keeps two JSON-lines logs, sessions and events. The broadcast of an event to live subscribers
  is not modelled. Field prefixes: \<open>dp_\<close> session, \<open>ds_\<close> start request.
\<close>

definition draft_preview_session_schema :: string where
  "draft_preview_session_schema = ''draft-preview-session@1''"

definition max_restarts :: u32 where
  "max_restarts = 2"

datatype draft_preview_error =
    Dp_InvalidInput string
  | Dp_NotFound string
  | Dp_Conflict string
  | Dp_InvalidTransition string
  | Dp_Storage string

fun dp_error_string :: "draft_preview_error \<Rightarrow> string" where
  "dp_error_string (Dp_InvalidInput m) = ''invalid draft preview: '' @ m"
| "dp_error_string (Dp_NotFound m) = ''draft preview not found: '' @ m"
| "dp_error_string (Dp_Conflict m) = ''draft preview conflict: '' @ m"
| "dp_error_string (Dp_InvalidTransition m) = ''invalid draft preview transition: '' @ m"
| "dp_error_string (Dp_Storage m) = ''draft preview storage failure: '' @ m"

datatype draft_preview_status =
    Dps_Starting | Dps_Ready | Dps_Updating | Dps_CompileError | Dps_Crashed | Dps_Restarting
  | Dps_Failed | Dps_Stopped

record draft_preview_session =
  dp_schema_version :: string
  dp_session_id :: string
  dp_project_id :: string
  dp_sandbox_binding_id :: string
  dp_template_id :: string
  dp_base_snapshot_id :: string
  dp_base_version_id :: "string option"
  dp_writer_lease_id :: string
  dp_writer_lease_expires_at :: time
  dp_workspace_revision :: u64
  dp_last_ready_revision :: u64
  dp_durable_revision :: u64
  dp_durable_snapshot_id :: string
  dp_publish_revision :: "u64 option"
  dp_session_epoch :: u64
  dp_status :: draft_preview_status
  dp_proxy_url :: string
  dp_started_at :: time
  dp_last_activity_at :: time
  dp_restart_count :: u32
  dp_last_error :: "string option"

definition http_url :: "string \<Rightarrow> bool" where
  "http_url u \<longleftrightarrow> starts_with u ''http://'' \<or> starts_with u ''https://''"

definition session_validate :: "draft_preview_session \<Rightarrow> string + unit" where
  "session_validate s =
    (if dp_schema_version s \<noteq> draft_preview_session_schema \<or> is_blank (dp_session_id s)
        \<or> is_blank (dp_project_id s) \<or> is_blank (dp_sandbox_binding_id s) \<or> is_blank (dp_template_id s)
        \<or> is_blank (dp_base_snapshot_id s) \<or> is_blank (dp_writer_lease_id s)
        \<or> is_blank (dp_durable_snapshot_id s) \<or> \<not> http_url (dp_proxy_url s)
     then Inl ''DraftPreviewSession identity is invalid''
     else if dp_last_ready_revision s > dp_workspace_revision s
     then Inl ''lastReadyRevision cannot exceed workspaceRevision''
     else if dp_durable_revision s > dp_workspace_revision s
     then Inl ''durableRevision cannot exceed workspaceRevision''
     else if dp_session_epoch s = 0
     then Inl ''sessionEpoch must be positive''
     else if dp_restart_count s > 2
     then Inl ''restartCount exceeds the automatic restart budget''
     else if dp_status s \<in> {Dps_CompileError, Dps_Crashed, Dps_Failed}
        \<and> (dp_last_error s = None \<or> dp_last_error s = Some [])
     then Inl ''failed DraftPreviewSession status requires lastError''
     else Inr ())"

text \<open>Every event names its project, session, epoch and workspace revision first.\<close>

datatype draft_preview_event =
    DevStarting string (event_session_id: string) u64 u64 time
  | DevReady string (event_session_id: string) u64 u64 string u64 time
  | DevUpdating string (event_session_id: string) u64 u64 time
  | DevCompileError string (event_session_id: string) u64 u64 string time
  | DevRestarting string (event_session_id: string) u64 u64 u32 time
  | DevFailed string (event_session_id: string) u64 u64 string time
  | DevStopped string (event_session_id: string) u64 u64 string time
  | SourceRevisionCommitted string (event_session_id: string) u64 u64 time
  | SourceRevisionDurable string (event_session_id: string) u64 u64 string string time
  | SourceSnapshotCreated string (event_session_id: string) u64 u64 string string time

record draft_preview_store =
  dps_session_log :: "string option"
  dps_event_log :: "string option"
  dps_sessions :: "(string, draft_preview_session) btree"
  dps_events :: "(string, draft_preview_event list) btree"

record draft_preview_codec =
  dpc_ser_session :: "draft_preview_session \<Rightarrow> string"
  dpc_parse_session :: "string \<Rightarrow> string + draft_preview_session"
  dpc_ser_event :: "draft_preview_event \<Rightarrow> string"
  dpc_parse_event :: "string \<Rightarrow> string + draft_preview_event"

section \<open>Start-up\<close>

definition dp_accept_session ::
    "draft_preview_session \<Rightarrow> (string, draft_preview_session) btree
      \<Rightarrow> string + (string, draft_preview_session) btree" where
  "dp_accept_session s m =
    (case session_validate s of Inl e \<Rightarrow> Inl e | Inr _ \<Rightarrow> Inr (bt_insert (dp_session_id s) s m))"

definition push_event ::
    "draft_preview_event \<Rightarrow> (string, draft_preview_event list) btree
      \<Rightarrow> (string, draft_preview_event list) btree" where
  "push_event e m = bt_insert (event_session_id e)
    ((case bt_get m (event_session_id e) of None \<Rightarrow> [] | Some es \<Rightarrow> es) @ [e]) m"

text \<open>\<open>read_jsonl\<close>: only a missing file is empty; another error opening it, a fault, is reported.\<close>

definition dp_read ::
    "(string \<Rightarrow> string + 'a) \<Rightarrow> ('a \<Rightarrow> 's \<Rightarrow> string + 's) \<Rightarrow> string option \<Rightarrow> string option \<Rightarrow> 's
      \<Rightarrow> draft_preview_error + 's" where
  "dp_read parse accept fault log s = (case fault of
      Some e \<Rightarrow> Inl (Dp_Storage e)
    | None \<Rightarrow> (case log of
        None \<Rightarrow> Inr s
      | Some bytes \<Rightarrow> err_into Dp_Storage (load_log parse accept bytes s)))"

definition dp_open ::
    "draft_preview_codec \<Rightarrow> string option \<Rightarrow> string option \<Rightarrow> string option \<Rightarrow> string option
      \<Rightarrow> draft_preview_error + draft_preview_store" where
  "dp_open cd session_fault event_fault session_log event_log =
    (case dp_read (dpc_parse_session cd) dp_accept_session session_fault session_log bt_empty of
       Inl e \<Rightarrow> Inl e
     | Inr sessions \<Rightarrow>
    (case dp_read (dpc_parse_event cd) (\<lambda>e m. Inr (push_event e m)) event_fault event_log bt_empty of
       Inl e \<Rightarrow> Inl e
     | Inr events \<Rightarrow> Inr \<lparr>dps_session_log = session_log, dps_event_log = event_log,
         dps_sessions = sessions, dps_events = events\<rparr>))"

section \<open>Writing\<close>

text \<open>The outcomes of the two appends an operation may make.\<close>

record draft_io =
  dio_session :: append_outcome
  dio_event :: append_outcome

definition persist_session ::
    "draft_preview_codec \<Rightarrow> draft_io \<Rightarrow> draft_preview_session \<Rightarrow> draft_preview_store
      \<Rightarrow> draft_preview_error option \<times> draft_preview_store" where
  "persist_session cd io s st =
    (let (err, log) = append_line (dio_session io) (dpc_ser_session cd s) (dps_session_log st)
     in (map_option Dp_Storage err, st\<lparr>dps_session_log := log\<rparr>))"

definition record_event ::
    "draft_preview_codec \<Rightarrow> draft_io \<Rightarrow> draft_preview_event \<Rightarrow> draft_preview_store
      \<Rightarrow> draft_preview_error option \<times> draft_preview_store" where
  "record_event cd io e st =
    (let (err, log) = append_line (dio_event io) (dpc_ser_event cd e) (dps_event_log st);
         st' = st\<lparr>dps_event_log := log\<rparr>
     in case err of
          Some x \<Rightarrow> (Some (Dp_Storage x), st')
        | None \<Rightarrow> (None, st'\<lparr>dps_events := push_event e (dps_events st')\<rparr>))"

text \<open>
  \<open>persist_session\<close>, the insertion and \<open>record_event_locked\<close>: when recording the event fails the
  session has already changed.
\<close>

definition store_session ::
    "draft_preview_codec \<Rightarrow> draft_io \<Rightarrow> string \<Rightarrow> draft_preview_session \<Rightarrow> draft_preview_event option
      \<Rightarrow> draft_preview_store \<Rightarrow> (draft_preview_error + draft_preview_session) \<times> draft_preview_store" where
  "store_session cd io sid s event st =
    (case persist_session cd io s st of
       (Some e, st1) \<Rightarrow> (Inl e, st1)
     | (None, st1) \<Rightarrow>
       let st2 = st1\<lparr>dps_sessions := bt_insert sid s (dps_sessions st1)\<rparr>
       in case event of
            None \<Rightarrow> (Inr s, st2)
          | Some ev \<Rightarrow>
             (case record_event cd io ev st2 of
                (Some e, st3) \<Rightarrow> (Inl e, st3)
              | (None, st3) \<Rightarrow> (Inr s, st3)))"

type_synonym session_upd =
  "time \<Rightarrow> draft_preview_session
    \<Rightarrow> draft_preview_error + (draft_preview_session \<times> draft_preview_event option)"

definition update_session ::
    "draft_preview_codec \<Rightarrow> time \<Rightarrow> draft_io \<Rightarrow> string \<Rightarrow> session_upd \<Rightarrow> draft_preview_store
      \<Rightarrow> (draft_preview_error + draft_preview_session) \<times> draft_preview_store" where
  "update_session cd now io sid f st =
    (case bt_get (dps_sessions st) sid of
       None \<Rightarrow> (Inl (Dp_NotFound sid), st)
     | Some s \<Rightarrow>
    (case f now s of
       Inl e \<Rightarrow> (Inl e, st)
     | Inr (s1, event) \<Rightarrow>
       let s2 = s1\<lparr>dp_last_activity_at := now\<rparr>
       in case session_validate s2 of
            Inl e \<Rightarrow> (Inl (Dp_InvalidTransition e), st)
          | Inr _ \<Rightarrow> store_session cd io sid s2 event st))"

section \<open>Operations\<close>

definition random_id :: "digest \<Rightarrow> string \<Rightarrow> string \<Rightarrow> string" where
  "random_id D prefix entropy = prefix @ ''-'' @ take 32 (sha256_hex D entropy)"

definition lease_until :: "time \<Rightarrow> u64 \<Rightarrow> time" where
  "lease_until now ttl = now + seconds (int (unat (min 3600 (max 30 ttl))))"

record start_draft_preview =
  ds_project_id :: string
  ds_sandbox_binding_id :: string
  ds_template_id :: string
  ds_base_snapshot_id :: string
  ds_base_version_id :: "string option"
  ds_proxy_url :: string
  ds_writer_ttl_seconds :: u64

definition validate_start :: "start_draft_preview \<Rightarrow> draft_preview_error + unit" where
  "validate_start rq =
    (if is_blank (ds_project_id rq) \<or> is_blank (ds_sandbox_binding_id rq) \<or> is_blank (ds_template_id rq)
        \<or> is_blank (ds_base_snapshot_id rq) \<or> \<not> http_url (ds_proxy_url rq)
     then Inl (Dp_InvalidInput ''draft preview start identity is invalid'')
     else Inr ())"

text \<open>The sessions that hold an active writer lease of a project.\<close>

definition holds_lease :: "time \<Rightarrow> string \<Rightarrow> draft_preview_session \<Rightarrow> bool" where
  "holds_lease now project s \<longleftrightarrow> dp_project_id s = project \<and> dp_status s \<noteq> Dps_Stopped
     \<and> dp_status s \<noteq> Dps_Failed \<and> dp_writer_lease_expires_at s > now"

definition new_session ::
    "digest \<Rightarrow> time \<Rightarrow> string \<Rightarrow> string \<Rightarrow> start_draft_preview \<Rightarrow> draft_preview_session" where
  "new_session D now entropy entropy' rq =
    \<lparr>dp_schema_version = draft_preview_session_schema,
     dp_session_id = random_id D ''draft-session'' entropy, dp_project_id = ds_project_id rq,
     dp_sandbox_binding_id = ds_sandbox_binding_id rq, dp_template_id = ds_template_id rq,
     dp_base_snapshot_id = ds_base_snapshot_id rq, dp_base_version_id = ds_base_version_id rq,
     dp_writer_lease_id = random_id D ''writer-lease'' entropy',
     dp_writer_lease_expires_at = lease_until now (ds_writer_ttl_seconds rq),
     dp_workspace_revision = 0, dp_last_ready_revision = 0, dp_durable_revision = 0,
     dp_durable_snapshot_id = ds_base_snapshot_id rq, dp_publish_revision = None,
     dp_session_epoch = 1, dp_status = Dps_Starting, dp_proxy_url = ds_proxy_url rq,
     dp_started_at = now, dp_last_activity_at = now, dp_restart_count = 0, dp_last_error = None\<rparr>"

definition dp_start ::
    "digest \<Rightarrow> draft_preview_codec \<Rightarrow> time \<Rightarrow> string \<Rightarrow> string \<Rightarrow> draft_io \<Rightarrow> start_draft_preview
      \<Rightarrow> draft_preview_store
      \<Rightarrow> (draft_preview_error + draft_preview_session) \<times> draft_preview_store" where
  "dp_start D cd now entropy entropy' io rq st =
    (case validate_start rq of
       Inl e \<Rightarrow> (Inl e, st)
     | Inr _ \<Rightarrow>
    (case bt_find (holds_lease now (ds_project_id rq)) (dps_sessions st) of
       Some active \<Rightarrow> (Inl (Dp_Conflict
          (''project already has an active Draft writer lease: '' @ dp_session_id active)), st)
     | None \<Rightarrow>
       let s = new_session D now entropy entropy' rq
       in case session_validate s of
            Inl e \<Rightarrow> (Inl (Dp_InvalidInput e), st)
          | Inr _ \<Rightarrow> store_session cd io (dp_session_id s) s
              (Some (DevStarting (dp_project_id s) (dp_session_id s) (dp_session_epoch s)
                (dp_workspace_revision s) now)) st))"

definition dp_get :: "draft_preview_store \<Rightarrow> string \<Rightarrow> draft_preview_session option" where
  "dp_get st sid = bt_get (dps_sessions st) sid"

text \<open>\<open>max_by_key(started_at)\<close>: the last one of those started latest.\<close>

definition later_started ::
    "draft_preview_session \<Rightarrow> draft_preview_session option \<Rightarrow> draft_preview_session option" where
  "later_started s best = (case best of
      None \<Rightarrow> Some s
    | Some b \<Rightarrow> if dp_started_at b \<le> dp_started_at s then Some s else Some b)"

definition dp_active_for_project ::
    "time \<Rightarrow> string \<Rightarrow> draft_preview_store \<Rightarrow> draft_preview_session option" where
  "dp_active_for_project now project st =
    fold later_started (filter (holds_lease now project) (bt_values (dps_sessions st))) None"

definition dp_events :: "draft_preview_store \<Rightarrow> string \<Rightarrow> draft_preview_event list" where
  "dp_events st sid = (case bt_get (dps_events st) sid of None \<Rightarrow> [] | Some es \<Rightarrow> es)"

definition validate_process_epoch :: "draft_preview_session \<Rightarrow> u64 \<Rightarrow> draft_preview_error + unit" where
  "validate_process_epoch s epoch =
    (if dp_session_epoch s \<noteq> epoch
     then Inl (Dp_Conflict (''session epoch is stale: expected '' @ show_u64 (dp_session_epoch s)
       @ '', actual '' @ show_u64 epoch))
     else if dp_status s = Dps_Stopped
     then Inl (Dp_InvalidTransition ''draft preview session is stopped'')
     else Inr ())"

definition validate_writer ::
    "draft_preview_session \<Rightarrow> string \<Rightarrow> u64 \<Rightarrow> time \<Rightarrow> draft_preview_error + unit" where
  "validate_writer s lease epoch now =
    (case validate_process_epoch s epoch of
       Inl e \<Rightarrow> Inl e
     | Inr _ \<Rightarrow>
       if dp_writer_lease_id s \<noteq> lease
       then Inl (Dp_Conflict ''writerLeaseId does not own this session'')
       else if dp_writer_lease_expires_at s \<le> now
       then Inl (Dp_Conflict ''draft writer lease expired'')
       else Inr ())"

definition heartbeat_upd :: "string \<Rightarrow> u64 \<Rightarrow> u64 \<Rightarrow> session_upd" where
  "heartbeat_upd lease epoch ttl now s =
    (case validate_writer s lease epoch now of
       Inl e \<Rightarrow> Inl e
     | Inr _ \<Rightarrow> Inr (s\<lparr>dp_writer_lease_expires_at := lease_until now ttl\<rparr>, None))"

definition takeover_upd :: "digest \<Rightarrow> string \<Rightarrow> u64 \<Rightarrow> u64 \<Rightarrow> session_upd" where
  "takeover_upd D entropy expected_epoch ttl now s =
    (if dp_session_epoch s \<noteq> expected_epoch
     then Inl (Dp_Conflict ''expectedSessionEpoch is stale'')
     else if dp_status s = Dps_Stopped
     then Inl (Dp_InvalidTransition ''stopped session cannot be taken over'')
     else if dp_writer_lease_expires_at s > now
     then Inl (Dp_Conflict ''active Draft writer lease cannot be taken over'')
     else Inr (s\<lparr>dp_session_epoch := sat_inc (dp_session_epoch s),
                dp_writer_lease_id := random_id D ''writer-lease'' entropy,
                dp_writer_lease_expires_at := lease_until now ttl\<rparr>, None))"

definition commit_revision_upd :: "string \<Rightarrow> u64 \<Rightarrow> u64 \<Rightarrow> session_upd" where
  "commit_revision_upd lease expected_epoch expected_revision now s =
    (case validate_writer s lease expected_epoch now of
       Inl e \<Rightarrow> Inl e
     | Inr _ \<Rightarrow>
       if dp_workspace_revision s \<noteq> expected_revision
       then Inl (Dp_Conflict (''expectedWorkspaceRevision is stale: expected ''
          @ show_u64 expected_revision @ '', actual '' @ show_u64 (dp_workspace_revision s)))
       else let s1 = s\<lparr>dp_workspace_revision := sat_inc (dp_workspace_revision s),
                       dp_status := Dps_Updating, dp_last_error := None\<rparr>
            in Inr (s1, Some (SourceRevisionCommitted (dp_project_id s1) (dp_session_id s1)
                 (dp_session_epoch s1) (dp_workspace_revision s1) now)))"

definition mark_ready_upd :: "u64 \<Rightarrow> u64 \<Rightarrow> session_upd" where
  "mark_ready_upd epoch ready_revision now s =
    (case validate_process_epoch s epoch of
       Inl e \<Rightarrow> Inl e
     | Inr _ \<Rightarrow>
       if ready_revision > dp_workspace_revision s
       then Inl (Dp_Conflict ''ready revision exceeds workspace revision'')
       else if ready_revision < dp_last_ready_revision s
       then Inl (Dp_Conflict ''ready revision cannot move backwards'')
       else let s1 = s\<lparr>dp_last_ready_revision := ready_revision, dp_status := Dps_Ready,
                       dp_last_error := None\<rparr>
            in Inr (s1, Some (DevReady (dp_project_id s1) (dp_session_id s1) (dp_session_epoch s1)
                 (dp_workspace_revision s1) (dp_proxy_url s1) ready_revision now)))"

definition mark_compile_error_upd :: "u64 \<Rightarrow> string \<Rightarrow> session_upd" where
  "mark_compile_error_upd epoch error now s =
    (case validate_process_epoch s epoch of
       Inl e \<Rightarrow> Inl e
     | Inr _ \<Rightarrow>
       let s1 = s\<lparr>dp_status := Dps_CompileError, dp_last_error := Some error\<rparr>
       in Inr (s1, Some (DevCompileError (dp_project_id s1) (dp_session_id s1) (dp_session_epoch s1)
            (dp_workspace_revision s1) error now)))"

definition mark_durable_upd :: "string \<Rightarrow> u64 \<Rightarrow> u64 \<Rightarrow> string \<Rightarrow> string \<Rightarrow> session_upd" where
  "mark_durable_upd lease epoch revision snapshot source_hash now s =
    (case validate_writer s lease epoch now of
       Inl e \<Rightarrow> Inl e
     | Inr _ \<Rightarrow>
       if revision > dp_workspace_revision s \<or> revision < dp_durable_revision s
       then Inl (Dp_Conflict ''durable revision is outside the committed revision range'')
       else let s1 = s\<lparr>dp_durable_revision := revision, dp_durable_snapshot_id := snapshot\<rparr>
            in Inr (s1, Some (SourceRevisionDurable (dp_project_id s1) (dp_session_id s1)
                 (dp_session_epoch s1) (dp_workspace_revision s1) snapshot source_hash now)))"

definition mark_publish_revision_upd :: "u64 \<Rightarrow> u64 \<Rightarrow> string \<Rightarrow> session_upd" where
  "mark_publish_revision_upd epoch revision snapshot now s =
    (if dp_session_epoch s \<noteq> epoch
     then Inl (Dp_Conflict ''publish source session epoch is stale'')
     else if revision \<noteq> dp_durable_revision s \<or> snapshot \<noteq> dp_durable_snapshot_id s
        \<or> revision > dp_last_ready_revision s
     then Inl (Dp_Conflict ''publish revision is not the last ready durable snapshot'')
     else Inr (s\<lparr>dp_publish_revision := Some revision\<rparr>, None))"

definition begin_restart_upd :: "string \<Rightarrow> session_upd" where
  "begin_restart_upd error now s =
    (if dp_restart_count s \<ge> max_restarts
     then let s1 = s\<lparr>dp_status := Dps_Failed, dp_last_error := Some error\<rparr>
          in Inr (s1, Some (DevFailed (dp_project_id s1) (dp_session_id s1) (dp_session_epoch s1)
               (dp_workspace_revision s1) error now))
     else let s1 = s\<lparr>dp_restart_count := dp_restart_count s + 1,
                     dp_session_epoch := dp_session_epoch s + 1,
                     dp_status := Dps_Restarting, dp_last_error := Some error\<rparr>
          in Inr (s1, Some (DevRestarting (dp_project_id s1) (dp_session_id s1) (dp_session_epoch s1)
               (dp_workspace_revision s1) (dp_restart_count s1) now)))"

definition stop_upd :: "string \<Rightarrow> session_upd" where
  "stop_upd reason now s =
    (let s1 = s\<lparr>dp_status := Dps_Stopped, dp_writer_lease_expires_at := now\<rparr>
     in Inr (s1, Some (DevStopped (dp_project_id s1) (dp_session_id s1) (dp_session_epoch s1)
          (dp_workspace_revision s1) reason now)))"

text \<open>The operations: \<open>update_session\<close> with the closure above, behind their input checks.\<close>

definition dp_heartbeat where
  "dp_heartbeat cd now io sid lease epoch ttl st =
    update_session cd now io sid (heartbeat_upd lease epoch ttl) st"

definition dp_takeover where
  "dp_takeover D cd now entropy io sid expected_epoch ttl st =
    update_session cd now io sid (takeover_upd D entropy expected_epoch ttl) st"

definition dp_commit_revision where
  "dp_commit_revision cd now io sid lease expected_epoch expected_revision st =
    update_session cd now io sid (commit_revision_upd lease expected_epoch expected_revision) st"

definition dp_mark_ready where
  "dp_mark_ready cd now io sid epoch ready_revision st =
    update_session cd now io sid (mark_ready_upd epoch ready_revision) st"

definition dp_mark_compile_error where
  "dp_mark_compile_error cd now io sid epoch error st =
    (if is_blank error then (Inl (Dp_InvalidInput ''compile error must not be empty''), st)
     else update_session cd now io sid (mark_compile_error_upd epoch error) st)"

definition dp_mark_durable where
  "dp_mark_durable cd now io sid lease epoch revision snapshot source_hash st =
    (if is_blank snapshot \<or> \<not> is_sha256 source_hash
     then (Inl (Dp_InvalidInput ''durable snapshot identity is invalid''), st)
     else update_session cd now io sid (mark_durable_upd lease epoch revision snapshot source_hash) st)"

definition dp_mark_publish_revision where
  "dp_mark_publish_revision cd now io sid epoch revision snapshot st =
    update_session cd now io sid (mark_publish_revision_upd epoch revision snapshot) st"

definition dp_begin_restart where
  "dp_begin_restart cd now io sid error st = update_session cd now io sid (begin_restart_upd error) st"

definition dp_stop where
  "dp_stop cd now io sid reason st =
    (if is_blank reason then (Inl (Dp_InvalidInput ''stop reason must not be empty''), st)
     else update_session cd now io sid (stop_upd reason) st)"

end
