(* ===== verification/ArtifactPublish.thy ===== *)
theory ArtifactPublish
  imports OrdMap Hashing
begin

text \<open>
  Project versions and the publication of their artifacts, from \<open>conversation.rs\<close> with the data of
  \<open>types.rs\<close>: a candidate version is built, its artifact goes through the states of
  \<open>artifact_publish_transition_allowed\<close>, and a compare-and-swap makes it the project's current version.
  The maps are the hydrated memory of the runtime store: a store re-reads its own logs before each
  operation, which gives back what it wrote. The version log is kept apart, since writing it after a
  promotion may fail unnoticed. The fault of an append is an argument. Field prefixes: \<open>ap_\<close> artifact
  publish, \<open>pv_\<close> version, \<open>ar_\<close> run, \<open>ro_\<close> outbox event, \<open>ra_\<close> store.
\<close>

datatype artifact_publish_status =
    Ap_Staging | Ap_Staged | Ap_Validating | Ap_Ready | Ap_Promoting | Ap_Promoted | Ap_Failed
  | Ap_GarbageCollectable | Ap_GarbageCollected | Ap_ReconcileRequired

fun artifact_status_debug :: "artifact_publish_status \<Rightarrow> string" where
  "artifact_status_debug Ap_Staging = ''Staging''"
| "artifact_status_debug Ap_Staged = ''Staged''"
| "artifact_status_debug Ap_Validating = ''Validating''"
| "artifact_status_debug Ap_Ready = ''Ready''"
| "artifact_status_debug Ap_Promoting = ''Promoting''"
| "artifact_status_debug Ap_Promoted = ''Promoted''"
| "artifact_status_debug Ap_Failed = ''Failed''"
| "artifact_status_debug Ap_GarbageCollectable = ''GarbageCollectable''"
| "artifact_status_debug Ap_GarbageCollected = ''GarbageCollected''"
| "artifact_status_debug Ap_ReconcileRequired = ''ReconcileRequired''"

definition artifact_publish_transition_allowed ::
    "artifact_publish_status \<Rightarrow> artifact_publish_status \<Rightarrow> bool" where
  "artifact_publish_transition_allowed a b \<longleftrightarrow> a = b \<or> (a, b) \<in>
    {(Ap_Staging, Ap_Staged), (Ap_Staging, Ap_Failed), (Ap_Staging, Ap_GarbageCollectable),
     (Ap_Staged, Ap_Validating), (Ap_Staged, Ap_GarbageCollectable), (Ap_Validating, Ap_Ready),
     (Ap_Ready, Ap_Promoting), (Ap_Validating, Ap_Promoting), (Ap_Validating, Ap_GarbageCollectable),
     (Ap_Ready, Ap_GarbageCollectable), (Ap_Promoting, Ap_ReconcileRequired),
     (Ap_Promoting, Ap_GarbageCollectable), (Ap_ReconcileRequired, Ap_Promoting),
     (Ap_ReconcileRequired, Ap_GarbageCollectable), (Ap_GarbageCollectable, Ap_GarbageCollected)}"

record artifact_publish =
  ap_id :: string
  ap_idempotency_key :: string
  ap_project_id :: string
  ap_run_id :: string
  ap_build_id :: string
  ap_version_id :: string
  ap_sandbox_binding_id :: "string option"
  ap_pod_uid :: "string option"
  ap_candidate_manifest_hash :: string
  ap_artifact_manifest_hash :: "string option"
  ap_source_snapshot_uri :: string
  ap_expected_current_version_id :: "string option"
  ap_status :: artifact_publish_status
  ap_revision :: u64
  ap_staged_uri :: "string option"
  ap_immutable_artifact_uri :: "string option"
  ap_last_error :: "string option"
  ap_created_at :: time
  ap_updated_at :: time
  ap_gc_after :: "time option"

datatype project_version_status = Pv_Candidate | Pv_Promoted | Pv_Failed

record project_version =
  pv_id :: string
  pv_project_id :: string
  pv_source_snapshot_uri :: "string option"
  pv_preview_url :: string
  pv_screenshot_uri :: "string option"
  pv_screenshot_id :: "string option"
  pv_status :: project_version_status
  pv_created_by_run_id :: string
  pv_created_at :: time
  pv_promoted_at :: "time option"

text \<open>The fields of \<open>AgentRun\<close> and of its sandbox binding that these operations use.\<close>

record artifact_run =
  ar_id :: string
  ar_project_id :: string
  ar_sandbox_id :: "string option"
  ar_output_version_id :: "string option"
  ar_updated_at :: time

text \<open>The outbox event of a promotion: its \<open>PreviewUpdated\<close> payload is the version and the time.\<close>

record promotion_outbox =
  ro_id :: string
  ro_project_id :: string
  ro_run_id :: string
  ro_url :: string
  ro_version_id :: string
  ro_screenshot_id :: "string option"
  ro_timestamp :: time
  ro_delivered :: bool
  ro_delivery_attempts :: u32

record runtime_artifacts =
  ra_publishes :: "(string, artifact_publish) btree"
  ra_versions :: "(string, project_version) btree"
  ra_current_versions :: "(string, string) btree"
  ra_runs :: "(string, artifact_run) btree"
  ra_binding_pods :: "(string, string option) btree"
  ra_outbox :: "(string, promotion_outbox) btree"
  ra_version_log :: "(string, project_version) btree"
  ra_next_id :: u64

section \<open>Versions\<close>

definition ra_get_project_version :: "runtime_artifacts \<Rightarrow> string \<Rightarrow> project_version option" where
  "ra_get_project_version st vid = (case bt_get (ra_versions st) vid of
      Some v \<Rightarrow> Some v
    | None \<Rightarrow> bt_get (ra_version_log st) vid)"

text \<open>The version found is kept in memory, and so are those a listing reads from the log.\<close>

definition ra_keep_version :: "string \<Rightarrow> runtime_artifacts \<Rightarrow> runtime_artifacts" where
  "ra_keep_version vid st = (case ra_get_project_version st vid of
      None \<Rightarrow> st
    | Some v \<Rightarrow> st\<lparr>ra_versions := bt_insert vid v (ra_versions st)\<rparr>)"

definition ra_load_versions :: "runtime_artifacts \<Rightarrow> runtime_artifacts" where
  "ra_load_versions st = st\<lparr>ra_versions :=
     fold (\<lambda>v m. if bt_get m (pv_id v) = None then bt_insert (pv_id v) v m else m)
       (bt_values (ra_version_log st)) (ra_versions st)\<rparr>"

definition ra_list_project_versions ::
    "runtime_artifacts \<Rightarrow> string \<Rightarrow> project_version list \<times> runtime_artifacts" where
  "ra_list_project_versions st project =
    (let st1 = ra_load_versions st
     in (sort_key pv_created_at (filter (\<lambda>v. pv_project_id v = project) (bt_values (ra_versions st1))), st1))"

text \<open>\<open>max_by_key(promoted_at.unwrap_or(created_at))\<close>: the last of the latest.\<close>

definition version_time :: "project_version \<Rightarrow> time" where
  "version_time v = (case pv_promoted_at v of None \<Rightarrow> pv_created_at v | Some t \<Rightarrow> t)"

definition latest_version :: "project_version list \<Rightarrow> project_version option" where
  "latest_version vs = fold (\<lambda>v best. case best of
      None \<Rightarrow> Some v
    | Some b \<Rightarrow> if version_time b \<le> version_time v then Some v else Some b) vs None"

definition read_current_project_version :: "runtime_artifacts \<Rightarrow> string \<Rightarrow> project_version option" where
  "read_current_project_version st project =
    latest_version (filter (\<lambda>v. pv_project_id v = project \<and> pv_status v = Pv_Promoted)
      (bt_values (ra_version_log st)))"

text \<open>Writing the version log may fail; the code reports that and goes on.\<close>

definition log_version :: "string option \<Rightarrow> project_version \<Rightarrow> runtime_artifacts \<Rightarrow> runtime_artifacts" where
  "log_version fault v st = (case fault of
      None \<Rightarrow> st\<lparr>ra_version_log := bt_insert (pv_id v) v (ra_version_log st)\<rparr>
    | Some _ \<Rightarrow> st)"

definition ra_create_candidate ::
    "time \<Rightarrow> string option \<Rightarrow> string \<Rightarrow> string \<Rightarrow> string \<Rightarrow> string \<Rightarrow> string option \<Rightarrow> string option
      \<Rightarrow> runtime_artifacts \<Rightarrow> (string + project_version) \<times> runtime_artifacts" where
  "ra_create_candidate now fault vid project run preview_url screenshot snapshot_uri st =
    (if is_blank vid then (Inl ''project version id must not be empty'', st)
     else case ra_get_project_version st vid of
       Some v \<Rightarrow>
         if pv_project_id v = project \<and> pv_created_by_run_id v = run \<and> pv_preview_url v = preview_url
            \<and> pv_screenshot_id v = screenshot \<and> pv_source_snapshot_uri v = snapshot_uri
         then (Inr v, st\<lparr>ra_versions := bt_insert vid v (ra_versions st)\<rparr>)
         else (Inl (''project version identity already belongs to different content: '' @ vid),
               st\<lparr>ra_versions := bt_insert vid v (ra_versions st)\<rparr>)
     | None \<Rightarrow>
         let v = \<lparr>pv_id = vid, pv_project_id = project, pv_source_snapshot_uri = snapshot_uri,
                  pv_preview_url = preview_url,
                  pv_screenshot_uri = map_option (\<lambda>i. ''screenshots/'' @ i @ ''.png'') screenshot,
                  pv_screenshot_id = screenshot, pv_status = Pv_Candidate,
                  pv_created_by_run_id = run, pv_created_at = now, pv_promoted_at = None\<rparr>
         in (Inr v, log_version fault v (st\<lparr>ra_versions := bt_insert vid v (ra_versions st)\<rparr>)))"

section \<open>Publishing an artifact\<close>

definition ra_begin_artifact_publish ::
    "time \<Rightarrow> string option \<Rightarrow> string \<Rightarrow> string \<Rightarrow> string \<Rightarrow> string \<Rightarrow> string \<Rightarrow> string \<Rightarrow> string option
      \<Rightarrow> runtime_artifacts \<Rightarrow> (string + artifact_publish) \<times> runtime_artifacts" where
  "ra_begin_artifact_publish now fault project run build vid candidate_hash snapshot_uri expected st =
    (let key = project @ ''/'' @ run @ ''/'' @ build in
     case bt_get (ra_runs st) run of
       None \<Rightarrow> (Inl (''run not found: '' @ run), st)
     | Some r \<Rightarrow>
       if ar_project_id r \<noteq> project then (Inl (''run does not belong to project: '' @ project), st)
       else case bt_find (\<lambda>p. ap_idempotency_key p = key) (ra_publishes st) of
         Some p \<Rightarrow>
           if ap_version_id p \<noteq> vid \<or> ap_candidate_manifest_hash p \<noteq> candidate_hash
              \<or> ap_source_snapshot_uri p \<noteq> snapshot_uri
           then (Inl ''artifact publish idempotency key already belongs to different content'', st)
           else (Inr p, st)
       | None \<Rightarrow>
           let binding = (case ar_sandbox_id r of
                 None \<Rightarrow> None
               | Some b \<Rightarrow> map_option (\<lambda>pod. (b, pod)) (bt_get (ra_binding_pods st) b));
               p = \<lparr>ap_id = ''publish-'' @ show_u64 (ra_next_id st), ap_idempotency_key = key,
                    ap_project_id = project, ap_run_id = run, ap_build_id = build,
                    ap_version_id = vid, ap_sandbox_binding_id = map_option fst binding,
                    ap_pod_uid = Option.bind binding snd, ap_candidate_manifest_hash = candidate_hash,
                    ap_artifact_manifest_hash = None, ap_source_snapshot_uri = snapshot_uri,
                    ap_expected_current_version_id = expected, ap_status = Ap_Staging,
                    ap_revision = 1, ap_staged_uri = None, ap_immutable_artifact_uri = None,
                    ap_last_error = None, ap_created_at = now, ap_updated_at = now,
                    ap_gc_after = None\<rparr>;
               st1 = st\<lparr>ra_next_id := ra_next_id st + 1\<rparr>
           in (case fault of
                 Some e \<Rightarrow> (Inl e, st1)
               | None \<Rightarrow> (Inr p, st1\<lparr>ra_publishes := bt_insert (ap_id p) p (ra_publishes st1)\<rparr>)))"

text \<open>\<open>if let Some(x) = value { field = Some(x) }\<close>\<close>

definition set_some :: "'a option \<Rightarrow> 'a option \<Rightarrow> 'a option" where
  "set_some x old = (case x of None \<Rightarrow> old | Some _ \<Rightarrow> x)"

record transition_args =
  ta_artifact_manifest_hash :: "string option"
  ta_staged_uri :: "string option"
  ta_immutable_artifact_uri :: "string option"
  ta_last_error :: "string option"

definition no_args :: transition_args where
  "no_args = \<lparr>ta_artifact_manifest_hash = None, ta_staged_uri = None, ta_immutable_artifact_uri = None,
     ta_last_error = None\<rparr>"

definition transitioned ::
    "clock \<Rightarrow> artifact_publish_status \<Rightarrow> transition_args \<Rightarrow> artifact_publish \<Rightarrow> artifact_publish" where
  "transitioned clk status a p = p
    \<lparr>ap_status := status, ap_revision := ap_revision p + 1, ap_updated_at := clk 0,
     ap_artifact_manifest_hash := set_some (ta_artifact_manifest_hash a) (ap_artifact_manifest_hash p),
     ap_staged_uri := set_some (ta_staged_uri a) (ap_staged_uri p),
     ap_immutable_artifact_uri := set_some (ta_immutable_artifact_uri a) (ap_immutable_artifact_uri p),
     ap_last_error := set_some (ta_last_error a) (ap_last_error p),
     ap_gc_after := (if status \<in> {Ap_GarbageCollectable, Ap_Failed}
       then Some (clk 1 + seconds (24 * 3600)) else ap_gc_after p)\<rparr>"

definition ra_transition_artifact_publish ::
    "clock \<Rightarrow> string option \<Rightarrow> string \<Rightarrow> artifact_publish_status \<Rightarrow> transition_args
      \<Rightarrow> runtime_artifacts \<Rightarrow> (string + artifact_publish) \<times> runtime_artifacts" where
  "ra_transition_artifact_publish clk fault pid status a st =
    (case bt_get (ra_publishes st) pid of
       None \<Rightarrow> (Inl (''artifact publish not found: '' @ pid), st)
     | Some p \<Rightarrow>
       if \<not> artifact_publish_transition_allowed (ap_status p) status
       then (Inl (''invalid artifact publish transition: '' @ artifact_status_debug (ap_status p)
               @ '' -> '' @ artifact_status_debug status), st)
       else case fault of
         Some e \<Rightarrow> (Inl e, st)
       | None \<Rightarrow> (let p' = transitioned clk status a p
           in (Inr p', st\<lparr>ra_publishes := bt_insert pid p' (ra_publishes st)\<rparr>)))"

definition ra_garbage_collectable :: "time \<Rightarrow> runtime_artifacts \<Rightarrow> artifact_publish list" where
  "ra_garbage_collectable now st =
    filter (\<lambda>p. ap_status p = Ap_GarbageCollectable
        \<and> (case ap_gc_after p of None \<Rightarrow> False | Some t \<Rightarrow> t \<le> now))
      (bt_values (ra_publishes st))"

definition ra_artifact_publish_for_version ::
    "runtime_artifacts \<Rightarrow> string \<Rightarrow> string \<Rightarrow> string \<Rightarrow> artifact_publish option" where
  "ra_artifact_publish_for_version st project run vid =
    fold (\<lambda>p best. case best of
        None \<Rightarrow> Some p
      | Some b \<Rightarrow> if ap_revision b \<le> ap_revision p then Some p else Some b)
      (filter (\<lambda>p. ap_project_id p = project \<and> ap_run_id p = run \<and> ap_version_id p = vid)
        (bt_values (ra_publishes st))) None"

section \<open>The promotion\<close>

definition preview_updated_outbox_id :: "string \<Rightarrow> string \<Rightarrow> string" where
  "preview_updated_outbox_id project vid = ''preview.updated:'' @ project @ '':'' @ vid"

definition option_debug :: "string option \<Rightarrow> string" where
  "option_debug x = (case x of
      None \<Rightarrow> ''None'' | Some s \<Rightarrow> ''Some('' @ [CHR 0x22] @ s @ [CHR 0x22] @ '')'')"

definition promoted_event :: "runtime_artifacts \<Rightarrow> string \<Rightarrow> project_version \<Rightarrow> string + (project_version \<times> promotion_outbox)" where
  "promoted_event st project v =
    (case bt_get (ra_outbox st) (preview_updated_outbox_id project (pv_id v)) of
       None \<Rightarrow> Inl ''promoted artifact is missing outbox event''
     | Some e \<Rightarrow> Inr (v, e))"

text \<open>
  \<open>commit_artifact_promotion_cas\<close>: the path of \<open>commit_artifact_promotion_cas_inner\<close> without a
  completion summary. The faults are those of the commit log and of the version log.
\<close>

definition ra_commit_promotion ::
    "time \<Rightarrow> string option \<Rightarrow> string option \<Rightarrow> string \<Rightarrow> string \<Rightarrow> string \<Rightarrow> string \<Rightarrow> string option
      \<Rightarrow> runtime_artifacts \<Rightarrow> (string + (project_version \<times> promotion_outbox)) \<times> runtime_artifacts" where
  "ra_commit_promotion now fault log_fault project run vid pid expected st =
    (let actual = (case bt_get (ra_current_versions st) project of
           Some v \<Rightarrow> Some v
         | None \<Rightarrow> map_option pv_id (read_current_project_version st project));
         owned = (\<lambda>v p. pv_project_id v = project \<and> pv_created_by_run_id v = run
           \<and> ap_project_id p = project \<and> ap_run_id p = run \<and> ap_version_id p = vid)
     in case (if actual = Some vid
              then (case (bt_get (ra_versions st) vid, bt_get (ra_publishes st) pid) of
                  (Some v, Some p) \<Rightarrow>
                    if owned v p \<and> pv_status v = Pv_Promoted \<and> ap_status p = Ap_Promoted
                    then Some v else None
                | _ \<Rightarrow> None)
              else None) of
       Some v \<Rightarrow> (promoted_event st project v, st)
     | None \<Rightarrow>
       if actual \<noteq> expected
       then (Inl (''project current version compare-and-swap failed: expected ''
              @ option_debug expected @ '', actual '' @ option_debug actual), st)
       else case ra_get_project_version st vid of
         None \<Rightarrow> (Inl (''project version not found: '' @ vid), st)
       | Some v \<Rightarrow>
         let st1 = st\<lparr>ra_versions := bt_insert vid v (ra_versions st)\<rparr> in
         if pv_project_id v \<noteq> project \<or> pv_created_by_run_id v \<noteq> run
         then (Inl ''project version ownership mismatch'', st1)
         else case bt_get (ra_runs st) run of
           None \<Rightarrow> (Inl (''run not found: '' @ run), st1)
         | Some r \<Rightarrow>
         (case bt_get (ra_publishes st) pid of
           None \<Rightarrow> (Inl (''artifact publish not found: '' @ pid), st1)
         | Some p \<Rightarrow>
           if ap_project_id p \<noteq> project \<or> ap_run_id p \<noteq> run \<or> ap_version_id p \<noteq> vid
           then (Inl ''artifact publish ownership mismatch'', st1)
           else if ap_status p = Ap_Promoted \<and> pv_status v = Pv_Promoted
           then (promoted_event st project v, st1)
           else if pv_status v \<noteq> Pv_Candidate
           then (Inl ''only candidate versions can be promoted'', st1)
           else if ap_status p \<noteq> Ap_Promoting \<or> ap_immutable_artifact_uri p = None
           then (Inl ''artifact publish must be promoting with immutable bytes before CAS'', st1)
           else case fault of
             Some e \<Rightarrow> (Inl e, st1)
           | None \<Rightarrow>
             let v' = v\<lparr>pv_status := Pv_Promoted, pv_promoted_at := Some now\<rparr>;
                 r' = r\<lparr>ar_output_version_id := Some vid, ar_updated_at := now\<rparr>;
                 p' = p\<lparr>ap_status := Ap_Promoted, ap_revision := ap_revision p + 1, ap_updated_at := now\<rparr>;
                 e = \<lparr>ro_id = preview_updated_outbox_id project vid, ro_project_id = project,
                      ro_run_id = run, ro_url = pv_preview_url v, ro_version_id = pv_id v,
                      ro_screenshot_id = pv_screenshot_id v, ro_timestamp = now,
                      ro_delivered = False, ro_delivery_attempts = 0\<rparr>
             in (Inr (v', e), log_version log_fault v' (st1
                \<lparr>ra_current_versions := bt_insert project vid (ra_current_versions st1),
                 ra_versions := bt_insert vid v' (ra_versions st1),
                 ra_runs := bt_insert run r' (ra_runs st1),
                 ra_publishes := bt_insert pid p' (ra_publishes st1),
                 ra_outbox := bt_insert (ro_id e) e (ra_outbox st1)\<rparr>))))"

end
