(* ===== verification/PublishWorkflowController.thy ===== *)
theory PublishWorkflowController
  imports PublishWorkflowStore DraftPreview ArtifactPublish PublicationReconcile ReleasePackager
begin

text \<open>
  \<open>publish_workflow/controller.rs\<close>: one step of a publish workflow from the checkpoint it is at, and
  one pass of the controller over all workflows. The stores a step reads and writes are the fields of
  a world, which every step returns, also when it fails; an \<open>anyhow\<close> error is its text. What happens
  outside (building the site, staging and promoting its files, verifying frozen bytes, the visual
  review on disk) is in the environment, with the clocks and the outcomes of all file effects. The
  spawned loop and its sleep are not modelled.
\<close>

section \<open>Data\<close>

datatype snapshot_retention = Ret_Active | Ret_DeletionPending | Ret_Protected

record draft_snapshot =
  sn_snapshot_id :: string
  sn_project_id :: string
  sn_source_snapshot_uri :: string
  sn_source_hash :: string
  sn_template_id :: string
  sn_template_version :: string
  sn_created_by_run_id :: string
  sn_retention_state :: snapshot_retention

datatype visual_target =
    Target_Draft string u64 u64 string
  | Target_Version string string
  | Target_StaticSnapshot string string

datatype visual_review_status =
    Rv_NotRequested | Rv_Queued | Rv_Passed | Rv_Findings | Rv_Unavailable | Rv_Failed

record publish_config =
  cf_release_base_image_digest :: "string option"
  cf_release_packager_version :: "string option"
  cf_release_registry_repository :: "string option"
  cf_release_scan_policy_version :: "string option"
  cf_release_packaging_helper_path :: "string option"
  cf_release_packaging_helper_sha256 :: "string option"
  cf_works_base_domain :: "string option"

record staged_artifact =
  sa_project_id :: string
  sa_version_id :: string
  sa_candidate_manifest_hash :: string
  sa_artifact_manifest_hash :: string
  sa_staged_uri :: string

record publish_world =
  pw_flows :: workflow_store
  pw_drafts :: draft_preview_store
  pw_releases :: release_store
  pw_publications :: publication_store
  pw_artifacts :: runtime_artifacts
  pw_snapshots :: "(string, draft_snapshot) btree"
  pw_namespaces :: "(string, string) btree"

record publish_env =
  pe_digest :: digest
  pe_config :: publish_config
  pe_flow_codec :: workflow_codec
  pe_draft_codec :: draft_preview_codec
  pe_release_codec :: release_codec
  pe_publication_codec :: publication_codec
  pe_manifest_json :: "runtime_manifest \<Rightarrow> string"
  pe_clock :: clock
  pe_rng :: "nat \<Rightarrow> string"
  pe_flow_io :: "nat \<Rightarrow> append_outcome"
  pe_draft_io :: draft_io
  pe_release_io :: io_plan
  pe_publication_io :: io_plan
  pe_artifact_fault :: "nat \<Rightarrow> string option"
  pe_verify :: "draft_snapshot \<Rightarrow> string + unit"
  pe_review :: "string \<Rightarrow> visual_target \<Rightarrow> string + (visual_review_status \<times> visual_review_mode) option"
  pe_build :: "string \<Rightarrow> draft_snapshot \<Rightarrow> string + string"
  pe_stage :: "string \<Rightarrow> string \<Rightarrow> string \<Rightarrow> string + staged_artifact"
  pe_promote :: "staged_artifact \<Rightarrow> string + string"

text \<open>\<open>option.context(message)?\<close> and \<open>result?\<close>.\<close>

definition context_or :: "string \<Rightarrow> 'a option \<Rightarrow> string + 'a" where
  "context_or msg x = (case x of None \<Rightarrow> Inl msg | Some v \<Rightarrow> Inr v)"

section \<open>Checkpoints\<close>

fun next_publication_checkpoint :: "publish_workflow_checkpoint \<Rightarrow> publish_workflow_checkpoint option" where
  "next_publication_checkpoint Wc_DesiredStateCommitted = Some Wc_Reconciling"
| "next_publication_checkpoint Wc_Reconciling = Some Wc_WorkloadReady"
| "next_publication_checkpoint Wc_WorkloadReady = Some Wc_TrafficSwitched"
| "next_publication_checkpoint Wc_TrafficSwitched = Some Wc_ExternalProbePassed"
| "next_publication_checkpoint Wc_ExternalProbePassed = Some Wc_Completed"
| "next_publication_checkpoint _ = None"

fun status_for :: "publish_workflow_checkpoint \<Rightarrow> publish_workflow_status" where
  "status_for Wc_Reconciling = Ws_Reconciling"
| "status_for Wc_WorkloadReady = Ws_WorkloadReady"
| "status_for Wc_TrafficSwitched = Ws_TrafficSwitched"
| "status_for Wc_ExternalProbePassed = Ws_ExternalProbePassed"
| "status_for Wc_Completed = Ws_Completed"
| "status_for _ = Ws_Failed"

definition external_probe_window :: time where
  "external_probe_window = seconds 120"

definition publication_failure_window_expired_at :: "publish_workflow \<Rightarrow> time \<Rightarrow> bool" where
  "publication_failure_window_expired_at w now =
    (case List.find (\<lambda>e. ev_stage e \<in> {Wc_TrafficSwitched, Wc_DesiredStateCommitted}) (rev (wf_evidence w)) of
       None \<Rightarrow> False
     | Some e \<Rightarrow> now - ev_completed_at e \<ge> external_probe_window)"

text \<open>An advance by the controller: no field changes but those given, the error is its text.\<close>

definition no_advance :: "string \<Rightarrow> advance_args" where
  "no_advance h = \<lparr>aa_input_hash = h, aa_child_operation_id = None, aa_version_id = None,
     aa_release_id = None, aa_publication_operation_id = None, aa_public_url = None\<rparr>"

definition flow_advance ::
    "publish_env \<Rightarrow> nat \<Rightarrow> string \<Rightarrow> publish_workflow_checkpoint \<Rightarrow> publish_workflow_status
      \<Rightarrow> publish_workflow_checkpoint \<Rightarrow> advance_args \<Rightarrow> publish_world
      \<Rightarrow> (string + publish_workflow) \<times> publish_world" where
  "flow_advance en n wid expected status checkpoint a pw =
    (let (r, st) = wf_advance (pe_flow_codec en) (pe_clock en n) (pe_flow_io en n) wid expected status
           checkpoint a (pw_flows pw)
     in (err_into wf_error_string r, pw\<lparr>pw_flows := st\<rparr>))"

text \<open>\<open>advance(...)?; Ok(())\<close>\<close>

definition flow_advance_unit where
  "flow_advance_unit en n wid expected status checkpoint a pw =
    apfst (map_sum id (\<lambda>_. ())) (flow_advance en n wid expected status checkpoint a pw)"

section \<open>Sources\<close>

definition validate_runtime_configuration :: "publish_config \<Rightarrow> string + unit" where
  "validate_runtime_configuration cf =
    (if cf_release_base_image_digest cf = None \<or> cf_release_packager_version cf = None
        \<or> cf_release_registry_repository cf = None \<or> cf_release_scan_policy_version cf = None
        \<or> cf_release_packaging_helper_path cf = None \<or> cf_release_packaging_helper_sha256 cf = None
     then Inl ''publish workflow release packaging is not configured''
     else if cf_works_base_domain cf = None
     then Inl ''publish workflow public URL domain is not configured''
     else Inr ())"

text \<open>The draft part of \<open>resolve_source\<close>: a draft revision is marked as the one published.\<close>

definition resolve_draft ::
    "publish_env \<Rightarrow> publish_source \<Rightarrow> publish_world \<Rightarrow> (string + unit) \<times> publish_world" where
  "resolve_draft en src pw = (case src of
      StaticSnapshot _ _ _ \<Rightarrow> (Inr (), pw)
    | DraftRevision project session epoch revision snapshot _ \<Rightarrow>
        (case dp_get (pw_drafts pw) session of
           None \<Rightarrow> (Inl ''publish.draft_session_not_found'', pw)
         | Some s \<Rightarrow>
           if dp_project_id s \<noteq> project \<or> dp_session_epoch s \<noteq> epoch \<or> dp_durable_revision s \<noteq> revision
              \<or> dp_durable_snapshot_id s \<noteq> snapshot \<or> dp_last_ready_revision s < revision
           then (Inl ''publish.source_identity_stale'', pw)
           else case dp_mark_publish_revision (pe_draft_codec en) (pe_clock en 0) (pe_draft_io en)
                   session epoch revision snapshot (pw_drafts pw) of
                (Inl _, st) \<Rightarrow> (Inl ''publish.source_identity_stale'', pw\<lparr>pw_drafts := st\<rparr>)
              | (Inr _, st) \<Rightarrow> (Inr (), pw\<lparr>pw_drafts := st\<rparr>)))"

definition resolve_source ::
    "publish_env \<Rightarrow> publish_source \<Rightarrow> publish_world \<Rightarrow> (string + draft_snapshot) \<times> publish_world" where
  "resolve_source en src pw =
    (case source_validate src of
       Inl e \<Rightarrow> (Inl e, pw)
     | Inr _ \<Rightarrow>
    (case resolve_draft en src pw of
       (Inl e, pw1) \<Rightarrow> (Inl e, pw1)
     | (Inr _, pw1) \<Rightarrow>
    (case bt_get (pw_snapshots pw1) (src_snapshot src) of
       None \<Rightarrow> (Inl (''DraftSnapshot not found: '' @ src_snapshot src), pw1)
     | Some sn \<Rightarrow>
       if sn_project_id sn \<noteq> src_project src \<or> sn_source_hash sn \<noteq> src_hash src
       then (Inl ''publish.source_identity_stale'', pw1)
       else if sn_retention_state sn = Ret_DeletionPending
       then (Inl ''publish source is pending deletion'', pw1)
       else case pe_verify en sn of Inl e \<Rightarrow> (Inl e, pw1) | Inr _ \<Rightarrow> (Inr sn, pw1))))"

definition visual_target_of :: "publish_source \<Rightarrow> visual_target" where
  "visual_target_of src = (case src of
      StaticSnapshot _ snapshot h \<Rightarrow> Target_StaticSnapshot snapshot h
    | DraftRevision _ session epoch revision _ h \<Rightarrow> Target_Draft session epoch revision h)"

definition validate_visual_review ::
    "publish_env \<Rightarrow> visual_review_mode \<Rightarrow> publish_source \<Rightarrow> draft_snapshot \<Rightarrow> string + unit" where
  "validate_visual_review en mode src sn =
    (if mode \<noteq> Vr_Required then Inr ()
     else case pe_review en (sn_project_id sn) (visual_target_of src) of
       Inl e \<Rightarrow> Inl e
     | Inr None \<Rightarrow> Inl ''required visual review has not passed for PublishSource''
     | Inr (Some (status, m)) \<Rightarrow>
         if status \<noteq> Rv_Passed then Inl ''required visual review has not passed for PublishSource''
         else if m \<noteq> Vr_Required \<and> m \<noteq> Vr_Advisory
         then Inl ''required visual review evidence is invalid''
         else Inr ())"

definition service_start ::
    "publish_env \<Rightarrow> string \<Rightarrow> start_request \<Rightarrow> publish_world
      \<Rightarrow> (string + (publish_workflow \<times> bool)) \<times> publish_world" where
  "service_start en project rq pw =
    (case validate_runtime_configuration (pe_config en) of
       Inl e \<Rightarrow> (Inl e, pw)
     | Inr _ \<Rightarrow>
    (case resolve_source en (sr_source rq) pw of
       (Inl e, pw1) \<Rightarrow> (Inl e, pw1)
     | (Inr sn, pw1) \<Rightarrow>
    (case validate_visual_review en (sr_visual_review_mode rq) (sr_source rq) sn of
       Inl e \<Rightarrow> (Inl e, pw1)
     | Inr _ \<Rightarrow>
       let (r, st) = wf_start (pe_digest en) (pe_flow_codec en) (pe_clock en 1) (pe_flow_io en 1)
             project rq (pw_flows pw1)
       in (err_into wf_error_string r, pw1\<lparr>pw_flows := st\<rparr>))))"

section \<open>The steps up to a validated release\<close>

definition freeze_source ::
    "publish_env \<Rightarrow> publish_workflow \<Rightarrow> publish_world \<Rightarrow> (string + unit) \<times> publish_world" where
  "freeze_source en w pw =
    (case resolve_source en (wf_source w) pw of
       (Inl e, pw1) \<Rightarrow> (Inl e, pw1)
     | (Inr sn, pw1) \<Rightarrow>
    (case validate_visual_review en (wf_visual_review_mode w) (wf_source w) sn of
       Inl e \<Rightarrow> (Inl e, pw1)
     | Inr _ \<Rightarrow> flow_advance_unit en 1 (wf_id w) Wc_Requested Ws_SourceFrozen Wc_SourceFrozen
         (no_advance (sn_source_hash sn)) pw1))"

definition advance_to_building ::
    "publish_env \<Rightarrow> publish_workflow \<Rightarrow> publish_world \<Rightarrow> (string + unit) \<times> publish_world" where
  "advance_to_building en w pw =
    flow_advance_unit en 1 (wf_id w) Wc_SourceFrozen Ws_Building Wc_Building
      (no_advance (src_hash (wf_source w))) pw"

definition staged_from_publish :: "artifact_publish \<Rightarrow> string + staged_artifact" where
  "staged_from_publish p =
    (case context_or ''artifact manifest hash is missing'' (ap_artifact_manifest_hash p) of
       Inl e \<Rightarrow> Inl e
     | Inr h \<Rightarrow>
    (case context_or ''staged artifact URI is missing'' (ap_staged_uri p) of
       Inl e \<Rightarrow> Inl e
     | Inr u \<Rightarrow> Inr \<lparr>sa_project_id = ap_project_id p, sa_version_id = ap_version_id p,
         sa_candidate_manifest_hash = ap_candidate_manifest_hash p, sa_artifact_manifest_hash = h,
         sa_staged_uri = u\<rparr>))"

text \<open>\<open>transition_artifact_publish(...).await?\<close>, the n-th file effect of the build step.\<close>

definition pub_transition ::
    "publish_env \<Rightarrow> nat \<Rightarrow> artifact_publish_status \<Rightarrow> transition_args \<Rightarrow> artifact_publish \<Rightarrow> publish_world
      \<Rightarrow> (string + artifact_publish) \<times> publish_world" where
  "pub_transition en n status a p pw =
    (let (r, st) = ra_transition_artifact_publish (\<lambda>i. pe_clock en (n + i)) (pe_artifact_fault en n)
           (ap_id p) status a (pw_artifacts pw)
     in (r, pw\<lparr>pw_artifacts := st\<rparr>))"

text \<open>Staging the output, when the artifact publish has just begun.\<close>

definition stage_artifact ::
    "publish_env \<Rightarrow> string \<Rightarrow> artifact_publish \<Rightarrow> publish_world
      \<Rightarrow> (string + artifact_publish) \<times> publish_world" where
  "stage_artifact en output_hash p pw =
    (if ap_status p \<noteq> Ap_Staging then (Inr p, pw)
     else case pe_stage en (ap_project_id p) (ap_version_id p) output_hash of
       Inl e \<Rightarrow> (Inl e, pw)
     | Inr sa \<Rightarrow> pub_transition en 4 Ap_Staged
         (no_args\<lparr>ta_artifact_manifest_hash := Some (sa_artifact_manifest_hash sa),
                  ta_staged_uri := Some (sa_staged_uri sa)\<rparr>) p pw)"

definition transition_when ::
    "publish_env \<Rightarrow> nat \<Rightarrow> artifact_publish_status set \<Rightarrow> artifact_publish_status \<Rightarrow> artifact_publish
      \<Rightarrow> publish_world \<Rightarrow> (string + artifact_publish) \<times> publish_world" where
  "transition_when en n from_set status p pw =
    (if ap_status p \<in> from_set then pub_transition en n status no_args p pw else (Inr p, pw))"

definition promote_artifact ::
    "publish_env \<Rightarrow> publish_workflow \<Rightarrow> string \<Rightarrow> string \<Rightarrow> string option \<Rightarrow> artifact_publish \<Rightarrow> publish_world
      \<Rightarrow> (string + unit) \<times> publish_world" where
  "promote_artifact en w run vid expected p pw =
    (if ap_status p = Ap_Promoting
     then case staged_from_publish p of
        Inl e \<Rightarrow> (Inl e, pw)
      | Inr sa \<Rightarrow>
     (case pe_promote en sa of
        Inl e \<Rightarrow> (Inl e, pw)
      | Inr uri \<Rightarrow>
     (case pub_transition en 12 Ap_Promoting (no_args\<lparr>ta_immutable_artifact_uri := Some uri\<rparr>) p pw of
        (Inl e, pw1) \<Rightarrow> (Inl e, pw1)
      | (Inr _, pw1) \<Rightarrow>
        let (r, st) = ra_commit_promotion (pe_clock en 14) (pe_artifact_fault en 14) (pe_artifact_fault en 15)
              (wf_project_id w) run vid (ap_id p) expected (pw_artifacts pw1)
        in (map_sum id (\<lambda>_. ()) r, pw1\<lparr>pw_artifacts := st\<rparr>)))
     else if ap_status p \<noteq> Ap_Promoted
     then (Inl (''production artifact cannot be promoted from '' @ artifact_status_debug (ap_status p)), pw)
     else (Inr (), pw))"

definition version_id_of :: "publish_workflow \<Rightarrow> string" where
  "version_id_of w = ''version-'' @ take 32 (wf_request_hash w)"

definition build_and_promote_version ::
    "publish_env \<Rightarrow> publish_workflow \<Rightarrow> publish_world \<Rightarrow> (string + unit) \<times> publish_world" where
  "build_and_promote_version en w pw =
    (case resolve_source en (wf_source w) pw of
       (Inl e, pw1) \<Rightarrow> (Inl e, pw1)
     | (Inr sn, pw1) \<Rightarrow>
    (case pe_build en (wf_id w) sn of
       Inl e \<Rightarrow> (Inl e, pw1)
     | Inr output_hash \<Rightarrow>
       let vid = version_id_of w;
           uri = ''runtime://artifacts/'' @ wf_project_id w @ ''/versions/'' @ vid;
           (rv, st2) = ra_create_candidate (pe_clock en 2) (pe_artifact_fault en 2) vid (wf_project_id w)
             (sn_created_by_run_id sn) uri None (Some (sn_source_snapshot_uri sn)) (pw_artifacts pw1);
           pw2 = pw1\<lparr>pw_artifacts := st2\<rparr>
       in (case rv of
         Inl e \<Rightarrow> (Inl e, pw2)
       | Inr v \<Rightarrow>
         let (vs, st2') = ra_list_project_versions st2 (wf_project_id w);
             expected = map_option pv_id (latest_version
               (filter (\<lambda>c. pv_id c \<noteq> pv_id v \<and> pv_status c = Pv_Promoted) vs));
             (rp, st3) = ra_begin_artifact_publish (pe_clock en 3) (pe_artifact_fault en 3) (wf_project_id w)
               (sn_created_by_run_id sn) (wf_id w) (pv_id v) output_hash (sn_source_snapshot_uri sn)
               expected st2';
             pw3 = pw2\<lparr>pw_artifacts := st3\<rparr>
         in (case rp of
           Inl e \<Rightarrow> (Inl e, pw3)
         | Inr p0 \<Rightarrow>
        (case stage_artifact en output_hash p0 pw3 of
           (Inl e, pw4) \<Rightarrow> (Inl e, pw4)
         | (Inr p1, pw4) \<Rightarrow>
        (case transition_when en 6 {Ap_Staged} Ap_Validating p1 pw4 of
           (Inl e, pw5) \<Rightarrow> (Inl e, pw5)
         | (Inr p2, pw5) \<Rightarrow>
        (case transition_when en 8 {Ap_Validating} Ap_Ready p2 pw5 of
           (Inl e, pw6) \<Rightarrow> (Inl e, pw6)
         | (Inr p3, pw6) \<Rightarrow>
        (case transition_when en 10 {Ap_Ready, Ap_ReconcileRequired} Ap_Promoting p3 pw6 of
           (Inl e, pw7) \<Rightarrow> (Inl e, pw7)
         | (Inr p4, pw7) \<Rightarrow>
        (case promote_artifact en w (sn_created_by_run_id sn) (pv_id v) expected p4 pw7 of
           (Inl e, pw8) \<Rightarrow> (Inl e, pw8)
         | (Inr _, pw8) \<Rightarrow>
           flow_advance_unit en 16 (wf_id w) Wc_Building Ws_Validating Wc_Validating
             ((no_advance output_hash)\<lparr>aa_child_operation_id := Some (ap_id p4),
                aa_version_id := Some (pv_id v)\<rparr>) pw8))))))))) "

definition configured_profile :: "publish_config \<Rightarrow> string + runtime_profile" where
  "configured_profile cf =
    (case context_or ''release base image digest is missing'' (cf_release_base_image_digest cf) of
       Inl e \<Rightarrow> Inl e
     | Inr b \<Rightarrow>
    (case context_or ''release packager version is missing'' (cf_release_packager_version cf) of
       Inl e \<Rightarrow> Inl e
     | Inr p \<Rightarrow>
    (case context_or ''release scan policy version is missing'' (cf_release_scan_policy_version cf) of
       Inl e \<Rightarrow> Inl e
     | Inr s \<Rightarrow> profile_static_web_v1 b p s)))"

text \<open>The input of the packaging: the promoted version, its artifact and the configured profile.\<close>

definition packaging_input ::
    "publish_env \<Rightarrow> publish_workflow \<Rightarrow> string \<Rightarrow> project_version \<Rightarrow> artifact_publish \<Rightarrow> draft_snapshot
      \<Rightarrow> string + release_packaging_input" where
  "packaging_input en w vid v p sn =
    (case configured_profile (pe_config en) of
       Inl e \<Rightarrow> Inl e
     | Inr prof \<Rightarrow>
    (case context_or ''artifact manifest hash is missing'' (ap_artifact_manifest_hash p) of
       Inl e \<Rightarrow> Inl e
     | Inr h \<Rightarrow>
    (case manifest_sha256 (pe_digest en) (pe_manifest_json en) (rp_manifest prof) of
       Inl e \<Rightarrow> Inl e
     | Inr mh \<Rightarrow>
    (case context_or ''release registry repository is missing''
        (cf_release_registry_repository (pe_config en)) of
       Inl e \<Rightarrow> Inl e
     | Inr reg \<Rightarrow> Inr
         \<lparr>ri_project_id = wf_project_id w, ri_version_id = vid, ri_run_id = pv_created_by_run_id v,
          ri_template_id = sn_template_id sn, ri_template_version = sn_template_version sn,
          ri_artifact_manifest_hash = h, ri_runtime_manifest_hash = mh,
          ri_source_snapshot_uri = (case pv_source_snapshot_uri v of
             None \<Rightarrow> ap_source_snapshot_uri p | Some u \<Rightarrow> u),
          ri_runtime_profile_id = rp_id prof, ri_base_image_digest = rp_base_image_digest prof,
          ri_packager_version = rp_packager_version prof, ri_registry_repository = reg,
          ri_scan_policy_version = rp_scan_policy_version prof\<rparr>))))"

definition prepare_release ::
    "publish_env \<Rightarrow> publish_workflow \<Rightarrow> publish_world \<Rightarrow> (string + unit) \<times> publish_world" where
  "prepare_release en w pw =
    (case context_or ''PublishWorkflow has no production WorkVersion'' (wf_version_id w) of
       Inl e \<Rightarrow> (Inl e, pw)
     | Inr vid \<Rightarrow>
    (case context_or ''production WorkVersion is missing'' (ra_get_project_version (pw_artifacts pw) vid) of
       Inl e \<Rightarrow> (Inl e, pw)
     | Inr v \<Rightarrow>
     let pw0 = pw\<lparr>pw_artifacts := ra_keep_version vid (pw_artifacts pw)\<rparr> in
     if pv_status v \<noteq> Pv_Promoted then (Inl ''production WorkVersion is not promoted'', pw0)
     else case context_or ''promoted artifact evidence is missing''
         (ra_artifact_publish_for_version (pw_artifacts pw0) (wf_project_id w) (pv_created_by_run_id v) vid) of
       Inl e \<Rightarrow> (Inl e, pw0)
     | Inr p \<Rightarrow>
     if ap_status p \<noteq> Ap_Promoted then (Inl ''production artifact evidence is not promoted'', pw0)
     else case resolve_source en (wf_source w) pw0 of
       (Inl e, pw1) \<Rightarrow> (Inl e, pw1)
     | (Inr sn, pw1) \<Rightarrow>
    (case packaging_input en w vid v p sn of
       Inl e \<Rightarrow> (Inl e, pw1)
     | Inr i \<Rightarrow>
    (case rel_prepare (pe_digest en) (pe_release_codec en) (pe_clock en 2) (pe_release_io en) i (pw_releases pw1) of
       (Inl e, st) \<Rightarrow> (Inl (rel_error_string e), pw1\<lparr>pw_releases := st\<rparr>)
     | (Inr (r, pk), st) \<Rightarrow>
       flow_advance_unit en 3 (wf_id w) Wc_Validating Ws_ReleasePackaging Wc_ReleasePackaging
         ((no_advance (ri_artifact_manifest_hash i))\<lparr>aa_child_operation_id := Some (pk_id pk),
            aa_release_id := Some (wr_id r)\<rparr>) (pw1\<lparr>pw_releases := st\<rparr>)))))"

definition observe_release ::
    "publish_env \<Rightarrow> publish_workflow \<Rightarrow> publish_world \<Rightarrow> (string + unit) \<times> publish_world" where
  "observe_release en w pw =
    (case context_or ''release id is missing'' (wf_release_id w) of
       Inl e \<Rightarrow> (Inl e, pw)
     | Inr rid \<Rightarrow>
    (case context_or ''WorkRelease is missing'' (rel_release (pw_releases pw) rid) of
       Inl e \<Rightarrow> (Inl e, pw)
     | Inr r \<Rightarrow>
    (case context_or ''Release packaging is missing'' (rel_packaging_for_release (pw_releases pw) rid) of
       Inl e \<Rightarrow> (Inl e, pw)
     | Inr pk \<Rightarrow>
     if wr_status r = Wr_Failed \<or> pk_status pk = Pk_Failed
     then (Inl (''release packaging failed: '' @ (case pk_last_error pk of
             None \<Rightarrow> ''unknown failure'' | Some e \<Rightarrow> e)), pw)
     else if wr_status r \<noteq> Wr_Validated \<or> pk_status pk \<noteq> Pk_Validated then (Inr (), pw)
     else flow_advance_unit en 1 (wf_id w) Wc_ReleasePackaging Ws_ReleaseValidated Wc_ReleaseValidated
       ((no_advance (wr_artifact_manifest_hash r))\<lparr>aa_child_operation_id := Some (pk_id pk)\<rparr>) pw)))"

section \<open>The steps of the publication\<close>

definition publication_intent_of :: "publish_workflow \<Rightarrow> string \<Rightarrow> string \<Rightarrow> publication_intent" where
  "publication_intent_of w rid namespace =
    \<lparr>in_project_id = wf_project_id w, in_workspace_namespace = namespace,
     in_kind = (if wf_expected_current_release_id w \<noteq> None then Kind_Update else Kind_Publish),
     in_release_id = Some rid, in_expected_current_release_id = wf_expected_current_release_id w,
     in_expected_generation = Some (wf_expected_generation w),
     in_runtime_profile_id = static_web_profile_id,
     in_idempotency_key = ''publish-workflow:'' @ wf_id w\<rparr>"

definition commit_publication_intent ::
    "publish_env \<Rightarrow> publication_intent \<Rightarrow> publish_world \<Rightarrow> (string + publish_operation) \<times> publish_world" where
  "commit_publication_intent en i pw =
    (let (r, st) = pub_commit_intent (pe_digest en) (pe_publication_codec en) (pe_clock en 0) (pe_rng en)
           (pe_publication_io en) i (pw_publications pw)
     in (err_into pub_error_string (map_sum id fst r), pw\<lparr>pw_publications := st\<rparr>))"

definition commit_publication ::
    "publish_env \<Rightarrow> publish_workflow \<Rightarrow> publish_world \<Rightarrow> (string + unit) \<times> publish_world" where
  "commit_publication en w pw =
    (case context_or ''release id is missing'' (wf_release_id w) of
       Inl e \<Rightarrow> (Inl e, pw)
     | Inr rid \<Rightarrow>
    (case context_or ''project workspace is not provisioned'' (bt_get (pw_namespaces pw) (wf_project_id w)) of
       Inl e \<Rightarrow> (Inl e, pw)
     | Inr namespace \<Rightarrow>
    (case commit_publication_intent en (publication_intent_of w rid namespace) pw of
       (Inl e, pw1) \<Rightarrow> (Inl e, pw1)
     | (Inr o', pw1) \<Rightarrow>
       flow_advance_unit en 1 (wf_id w) Wc_ReleaseValidated Ws_DesiredStateCommitted
         Wc_DesiredStateCommitted
         ((no_advance (op_request_hash o'))\<lparr>aa_child_operation_id := Some (op_id o'),
            aa_publication_operation_id := Some (op_id o')\<rparr>) pw1)))"

definition rollback_intent_of :: "publish_workflow \<Rightarrow> work_runtime_state \<Rightarrow> string \<Rightarrow> publication_intent" where
  "rollback_intent_of w r namespace =
    \<lparr>in_project_id = wf_project_id w, in_workspace_namespace = namespace,
     in_kind = (case rt_current_release_id r of Some _ \<Rightarrow> Kind_Rollback | None \<Rightarrow> Kind_Unpublish),
     in_release_id = rt_current_release_id r,
     in_expected_current_release_id = rt_current_release_id r,
     in_expected_generation = Some (rt_desired_generation r),
     in_runtime_profile_id = static_web_profile_id,
     in_idempotency_key = ''publish-workflow:'' @ wf_id w @ '':rollback''\<rparr>"

definition begin_rollback ::
    "publish_env \<Rightarrow> publish_workflow \<Rightarrow> publish_world \<Rightarrow> (string + unit) \<times> publish_world" where
  "begin_rollback en w pw =
    (case context_or ''publication runtime is missing before rollback''
        (pub_runtime (pw_publications pw) (wf_project_id w)) of
       Inl e \<Rightarrow> (Inl e, pw)
     | Inr r \<Rightarrow>
    (case context_or ''project workspace is not provisioned for rollback''
        (bt_get (pw_namespaces pw) (wf_project_id w)) of
       Inl e \<Rightarrow> (Inl e, pw)
     | Inr namespace \<Rightarrow>
    (case commit_publication_intent en (rollback_intent_of w r namespace) pw of
       (Inl e, pw1) \<Rightarrow> (Inl e, pw1)
     | (Inr o', pw1) \<Rightarrow>
       flow_advance_unit en 1 (wf_id w) (wf_checkpoint w) Ws_RollingBack Wc_RollingBack
         ((no_advance (op_request_hash o'))\<lparr>aa_child_operation_id := Some (op_id o'),
            aa_publication_operation_id := Some (op_id o')\<rparr>) pw1)))"

definition advance_publication_checkpoint ::
    "publish_env \<Rightarrow> publish_workflow \<Rightarrow> publish_workflow_checkpoint \<Rightarrow> publish_workflow_status \<Rightarrow> string
      \<Rightarrow> publish_world \<Rightarrow> (string + unit) \<times> publish_world" where
  "advance_publication_checkpoint en w target status input_hash pw =
    (if checkpoint_rank (wf_checkpoint w) \<ge> checkpoint_rank target then (Inr (), pw)
     else case context_or ''workflow cannot advance to publication checkpoint''
         (next_publication_checkpoint (wf_checkpoint w)) of
       Inl e \<Rightarrow> (Inl e, pw)
     | Inr nxt \<Rightarrow>
       if checkpoint_rank nxt > checkpoint_rank target then (Inr (), pw)
       else flow_advance_unit en 1 (wf_id w) (wf_checkpoint w)
         (if nxt = target then status else status_for nxt) nxt
         ((no_advance input_hash)\<lparr>aa_child_operation_id := wf_publication_operation_id w\<rparr>) pw)"

text \<open>The loop of \<open>complete_publication_checkpoints\<close> over the remaining stages.\<close>

definition completion_stages :: "(publish_workflow_checkpoint \<times> publish_workflow_status) list" where
  "completion_stages =
    [(Wc_Reconciling, Ws_Reconciling), (Wc_WorkloadReady, Ws_WorkloadReady),
     (Wc_TrafficSwitched, Ws_TrafficSwitched), (Wc_ExternalProbePassed, Ws_ExternalProbePassed),
     (Wc_Completed, Ws_Completed)]"

fun complete_stages ::
    "publish_env \<Rightarrow> nat \<Rightarrow> (publish_workflow_checkpoint \<times> publish_workflow_status) list \<Rightarrow> string \<Rightarrow> string
      \<Rightarrow> publish_workflow \<Rightarrow> publish_world \<Rightarrow> (string + unit) \<times> publish_world" where
  "complete_stages en n [] input_hash url w pw = (Inr (), pw)"
| "complete_stages en n ((checkpoint, status) # rest) input_hash url w pw =
    (if checkpoint_rank (wf_checkpoint w) \<ge> checkpoint_rank checkpoint
     then complete_stages en (Suc n) rest input_hash url w pw
     else case flow_advance en n (wf_id w) (wf_checkpoint w) status checkpoint
         ((no_advance input_hash)\<lparr>aa_child_operation_id := wf_publication_operation_id w,
            aa_public_url := (if checkpoint = Wc_Completed then Some url else None)\<rparr>) pw of
       (Inl e, pw1) \<Rightarrow> (Inl e, pw1)
     | (Inr w1, pw1) \<Rightarrow> complete_stages en (Suc n) rest input_hash url w1 pw1)"

definition complete_publication_checkpoints where
  "complete_publication_checkpoints en w input_hash url pw =
    complete_stages en 1 completion_stages input_hash url w pw"

fun op_status_debug :: "publish_operation_status \<Rightarrow> string" where
  "op_status_debug Op_Requested = ''Requested''"
| "op_status_debug Op_Packaging = ''Packaging''"
| "op_status_debug Op_ReleaseValidated = ''ReleaseValidated''"
| "op_status_debug Op_DesiredStateCommitted = ''DesiredStateCommitted''"
| "op_status_debug Op_Reconciling = ''Reconciling''"
| "op_status_debug Op_WorkloadReady = ''WorkloadReady''"
| "op_status_debug Op_TrafficSwitched = ''TrafficSwitched''"
| "op_status_debug Op_ExternalProbePassed = ''ExternalProbePassed''"
| "op_status_debug Op_Completed = ''Completed''"
| "op_status_debug Op_Failed = ''Failed''"
| "op_status_debug Op_Cancelled = ''Cancelled''"
| "op_status_debug Op_ReconcileRequired = ''ReconcileRequired''"

text \<open>A completed operation: the workflow completes when the project serves its release.\<close>

definition observe_completed ::
    "publish_env \<Rightarrow> publish_workflow \<Rightarrow> publish_operation \<Rightarrow> publish_world \<Rightarrow> (string + unit) \<times> publish_world" where
  "observe_completed en w o' pw =
    (case context_or ''publication runtime is missing'' (pub_runtime (pw_publications pw) (wf_project_id w)) of
       Inl e \<Rightarrow> (Inl e, pw)
     | Inr r \<Rightarrow>
       if rt_status r \<noteq> Rt_Published \<or> rt_current_release_id r \<noteq> wf_release_id w
       then (Inl ''completed publication does not match the workflow release'', pw)
       else case context_or ''works base domain is missing'' (cf_works_base_domain (pe_config en)) of
         Inl e \<Rightarrow> (Inl e, pw)
       | Inr domain \<Rightarrow> complete_publication_checkpoints en w (op_request_hash o')
           (''https://'' @ rt_host_slug r @ ''.'' @ domain) pw)"

definition observe_publication ::
    "publish_env \<Rightarrow> publish_workflow \<Rightarrow> publish_world \<Rightarrow> (string + unit) \<times> publish_world" where
  "observe_publication en w pw =
    (case context_or ''publication operation id is missing'' (wf_publication_operation_id w) of
       Inl e \<Rightarrow> (Inl e, pw)
     | Inr oid \<Rightarrow>
    (case context_or ''publication operation is missing'' (pub_operation (pw_publications pw) oid) of
       Inl e \<Rightarrow> (Inl e, pw)
     | Inr o' \<Rightarrow>
       let h = op_request_hash o' in
       (case op_status o' of
          Op_DesiredStateCommitted \<Rightarrow> (Inr (), pw)
        | Op_Reconciling \<Rightarrow> advance_publication_checkpoint en w Wc_Reconciling Ws_Reconciling h pw
        | Op_ReconcileRequired \<Rightarrow>
            if publication_failure_window_expired_at w (pe_clock en 0)
            then begin_rollback en w pw
            else advance_publication_checkpoint en w Wc_Reconciling Ws_Reconciling h pw
        | Op_WorkloadReady \<Rightarrow> advance_publication_checkpoint en w Wc_WorkloadReady Ws_WorkloadReady h pw
        | Op_TrafficSwitched \<Rightarrow>
            advance_publication_checkpoint en w Wc_TrafficSwitched Ws_TrafficSwitched h pw
        | Op_ExternalProbePassed \<Rightarrow>
            advance_publication_checkpoint en w Wc_ExternalProbePassed Ws_ExternalProbePassed h pw
        | Op_Completed \<Rightarrow> observe_completed en w o' pw
        | Op_Failed \<Rightarrow> (Inl (''publication operation ended as '' @ op_status_debug (op_status o') @ '': ''
            @ or_empty (op_last_error o')), pw)
        | Op_Cancelled \<Rightarrow> (Inl (''publication operation ended as '' @ op_status_debug (op_status o') @ '': ''
            @ or_empty (op_last_error o')), pw)
        | _ \<Rightarrow> (Inr (), pw))))"

definition rollback_restored :: "publish_operation \<Rightarrow> work_runtime_state \<Rightarrow> bool" where
  "rollback_restored o' r = (case op_kind o' of
      Kind_Rollback \<Rightarrow> rt_status r = Rt_Published \<and> rt_current_release_id r = op_release_id o'
    | Kind_Unpublish \<Rightarrow> rt_status r = Rt_Unpublished \<and> rt_desired_publication r = Des_Unpublished
        \<and> rt_current_release_id r = None
    | _ \<Rightarrow> False)"

definition observe_rollback ::
    "publish_env \<Rightarrow> publish_workflow \<Rightarrow> publish_world \<Rightarrow> (string + unit) \<times> publish_world" where
  "observe_rollback en w pw =
    (case context_or ''rollback publication operation id is missing'' (wf_publication_operation_id w) of
       Inl e \<Rightarrow> (Inl e, pw)
     | Inr oid \<Rightarrow>
    (case context_or ''rollback publication operation is missing'' (pub_operation (pw_publications pw) oid) of
       Inl e \<Rightarrow> (Inl e, pw)
     | Inr o' \<Rightarrow>
       if op_status o' \<in> {Op_Failed, Op_Cancelled}
       then (let (r, st) = wf_set_status (pe_flow_codec en) (pe_clock en 1) (pe_flow_io en 1) (wf_id w)
               Ws_RollbackFailed (Some (case op_last_error o' of
                  None \<Rightarrow> ''rollback operation failed'' | Some e \<Rightarrow> e)) (pw_flows pw)
             in (err_into wf_error_string (map_sum id (\<lambda>_. ()) r), pw\<lparr>pw_flows := st\<rparr>))
       else if op_status o' \<noteq> Op_Completed then (Inr (), pw)
       else case context_or ''rollback runtime is missing''
           (pub_runtime (pw_publications pw) (wf_project_id w)) of
         Inl e \<Rightarrow> (Inl e, pw)
       | Inr r \<Rightarrow>
         if \<not> rollback_restored o' r
         then (Inl ''rollback operation completed without restoring the expected runtime state'', pw)
         else flow_advance_unit en 1 (wf_id w) Wc_RollingBack Ws_RolledBack Wc_RolledBack
           ((no_advance (op_request_hash o'))\<lparr>aa_child_operation_id := Some (op_id o')\<rparr>) pw))"

section \<open>One step, one pass\<close>

definition reconcile_workflow ::
    "publish_env \<Rightarrow> publish_workflow \<Rightarrow> publish_world \<Rightarrow> (string + unit) \<times> publish_world" where
  "reconcile_workflow en w pw = (case wf_checkpoint w of
      Wc_Requested \<Rightarrow> freeze_source en w pw
    | Wc_SourceFrozen \<Rightarrow> advance_to_building en w pw
    | Wc_Building \<Rightarrow> build_and_promote_version en w pw
    | Wc_Validating \<Rightarrow> prepare_release en w pw
    | Wc_ReleasePackaging \<Rightarrow> observe_release en w pw
    | Wc_ReleaseValidated \<Rightarrow> commit_publication en w pw
    | Wc_RollingBack \<Rightarrow> observe_rollback en w pw
    | Wc_Completed \<Rightarrow> (Inr (), pw)
    | Wc_RolledBack \<Rightarrow> (Inr (), pw)
    | _ \<Rightarrow> observe_publication en w pw)"

text \<open>The error branch of \<open>reconcile_once\<close>: the failed workflow gets a status, its checkpoint stays.\<close>

definition failure_status :: "publish_workflow option \<Rightarrow> publish_workflow_status" where
  "failure_status w = (case w of
      None \<Rightarrow> Ws_Failed
    | Some c \<Rightarrow> if checkpoint_rank (wf_checkpoint c) \<ge> checkpoint_rank Wc_TrafficSwitched
        then Ws_RollingBack else Ws_Failed)"

definition record_failure :: "publish_env \<Rightarrow> string \<Rightarrow> string \<Rightarrow> publish_world \<Rightarrow> publish_world" where
  "record_failure en wid e pw = pw\<lparr>pw_flows := snd (wf_set_status (pe_flow_codec en) (pe_clock en 20)
     (pe_flow_io en 20) wid (failure_status (wf_get (pw_flows pw) wid)) (Some e) (pw_flows pw))\<rparr>"

text \<open>
  One pass over the workflows that were not terminal when it began; \<open>en k\<close> is the environment of the
  k-th step, \<open>meanwhile k\<close> what other tasks did to the world while it was awaited.
\<close>

fun reconcile_workflows ::
    "(nat \<Rightarrow> publish_env) \<Rightarrow> (nat \<Rightarrow> publish_world \<Rightarrow> publish_world) \<Rightarrow> nat \<Rightarrow> publish_workflow list
      \<Rightarrow> publish_world \<Rightarrow> nat \<times> publish_world" where
  "reconcile_workflows en meanwhile k [] pw = (k, pw)"
| "reconcile_workflows en meanwhile k (w # ws) pw =
    (case reconcile_workflow (en k) w (meanwhile k pw) of
       (Inr _, pw1) \<Rightarrow> reconcile_workflows en meanwhile (Suc k) ws pw1
     | (Inl e, pw1) \<Rightarrow>
         reconcile_workflows en meanwhile (Suc k) ws (record_failure (en k) (wf_id w) e pw1))"

definition publish_reconcile_once where
  "publish_reconcile_once en meanwhile pw =
    reconcile_workflows en meanwhile 0 (wf_nonterminal (pw_flows pw)) pw"

end
