(* ===== verification/PublishWorkflowInvariants.thy ===== *)
theory PublishWorkflowInvariants
  imports PublishWorkflowStore
begin

text \<open>
  The publish workflow store as a transition system: any operation at any time, with any append
  failure. Its invariant, how a workflow evolves, and what follows for clients and for restarts.
  Workflow ids hold a prefix of a hash; that two stored ids never share it is collision resistance
  of SHA-256, a hypothesis on the step that adds a workflow.
\<close>

definition id_fresh :: "digest \<Rightarrow> workflow_state \<Rightarrow> string \<Rightarrow> start_request \<Rightarrow> bool" where
  "id_fresh D s project rq \<longleftrightarrow>
    (\<forall>w. bt_get (ws_workflows s) (workflow_id_of D project (sha256_hex D (sr_idempotency_key rq))) = Some w \<longrightarrow>
       scoped_idempotency_key D (wf_project_id w) (wf_idempotency_key_hash w) =
       scoped_idempotency_key D project (sha256_hex D (sr_idempotency_key rq)))"

inductive wf_step :: "digest \<Rightarrow> workflow_codec \<Rightarrow> workflow_store \<Rightarrow> workflow_store \<Rightarrow> bool"
  for D :: digest and cd :: workflow_codec where
  step_start: "id_fresh D (wfs_mem st) project rq \<Longrightarrow>
      wf_step D cd st (snd (wf_start D cd now oc project rq st))"
| step_advance: "wf_step D cd st (snd (wf_advance cd now oc wid expected status checkpoint a st))"
| step_set_status: "wf_step D cd st (snd (wf_set_status cd now oc wid status error st))"
| step_cancel: "wf_step D cd st (snd (wf_cancel cd now oc wid st))"

abbreviation wf_run :: "digest \<Rightarrow> workflow_codec \<Rightarrow> workflow_store \<Rightarrow> workflow_store \<Rightarrow> bool" where
  "wf_run D cd \<equiv> (wf_step D cd)\<^sup>*\<^sup>*"

definition wf_empty :: workflow_store where
  "wf_empty = \<lparr>wfs_log = None, wfs_mem = workflow_state_default\<rparr>"

abbreviation wf_reach :: "digest \<Rightarrow> workflow_codec \<Rightarrow> workflow_store \<Rightarrow> bool" where
  "wf_reach D cd \<equiv> wf_run D cd wf_empty"

section \<open>The invariant\<close>

text \<open>Stages never go back, the last one is the checkpoint, and attempts count per stage.\<close>

definition evidence_ok :: "publish_workflow \<Rightarrow> bool" where
  "evidence_ok w \<longleftrightarrow>
     sorted (map ev_stage (wf_evidence w)) \<and>
     wf_checkpoint w = (if wf_evidence w = [] then Wc_Requested else ev_stage (last (wf_evidence w))) \<and>
     (\<forall>n < length (wf_evidence w). ev_attempt (wf_evidence w ! n) =
        of_nat (length (filter (\<lambda>e. ev_stage e = ev_stage (wf_evidence w ! n)) (take n (wf_evidence w)))) + 1)"

definition wf_key :: "digest \<Rightarrow> publish_workflow \<Rightarrow> string" where
  "wf_key D w = scoped_idempotency_key D (wf_project_id w) (wf_idempotency_key_hash w)"

definition wf_inv :: "digest \<Rightarrow> workflow_state \<Rightarrow> bool" where
  "wf_inv D s \<longleftrightarrow> bt_wf (ws_workflows s) \<and> bt_wf (ws_by_idempotency s) \<and>
     (\<forall>k w. bt_get (ws_workflows s) k = Some w \<longrightarrow>
        wf_id w = k \<and> workflow_validate w = Inr () \<and> evidence_ok w \<and>
        bt_get (ws_by_idempotency s) (wf_key D w) = Some k) \<and>
     (\<forall>key k. bt_get (ws_by_idempotency s) key = Some k \<longrightarrow>
        (\<exists>w. bt_get (ws_workflows s) k = Some w \<and> wf_key D w = key))"

lemma wf_invD:
  assumes "wf_inv D s"
  shows "bt_wf (ws_workflows s)" "bt_wf (ws_by_idempotency s)"
    "bt_get (ws_workflows s) k = Some w \<Longrightarrow> wf_id w = k"
    "bt_get (ws_workflows s) k = Some w \<Longrightarrow> workflow_validate w = Inr ()"
    "bt_get (ws_workflows s) k = Some w \<Longrightarrow> evidence_ok w"
    "bt_get (ws_workflows s) k = Some w \<Longrightarrow> bt_get (ws_by_idempotency s) (wf_key D w) = Some k"
    "bt_get (ws_by_idempotency s) key = Some k \<Longrightarrow>
      \<exists>w. bt_get (ws_workflows s) k = Some w \<and> wf_key D w = key"
  using assms by (auto simp: wf_inv_def)

text \<open>What never changes of a workflow, and what only grows.\<close>

definition wf_evolves :: "publish_workflow \<Rightarrow> publish_workflow \<Rightarrow> bool" where
  "wf_evolves v w \<longleftrightarrow>
     wf_schema_version w = wf_schema_version v \<and> wf_id w = wf_id v \<and>
     wf_idempotency_key_hash w = wf_idempotency_key_hash v \<and> wf_request_hash w = wf_request_hash v \<and>
     wf_project_id w = wf_project_id v \<and> wf_source w = wf_source v \<and>
     wf_visual_review_mode w = wf_visual_review_mode v \<and>
     wf_expected_current_release_id w = wf_expected_current_release_id v \<and>
     wf_expected_generation w = wf_expected_generation v \<and> wf_created_at w = wf_created_at v \<and>
     wf_checkpoint v \<le> wf_checkpoint w \<and> (\<exists>es. wf_evidence w = wf_evidence v @ es)"

lemma wf_evolves_refl [simp]: "wf_evolves w w"
  by (simp add: wf_evolves_def)

lemma wf_evolves_trans: "wf_evolves u v \<Longrightarrow> wf_evolves v w \<Longrightarrow> wf_evolves u w"
  by (auto simp: wf_evolves_def)

lemma wf_evolves_key: "wf_evolves v w \<Longrightarrow> wf_key D w = wf_key D v"
  by (simp add: wf_evolves_def wf_key_def)

lemma evolves_status [simp]:
  "wf_evolves w (w\<lparr>wf_status := s, wf_last_error := e, wf_updated_at := t\<rparr>)"
  by (simp add: wf_evolves_def)

lemma evolves_advanced: "wf_checkpoint w \<le> c \<Longrightarrow> wf_evolves w (advanced_workflow now s c a w)"
  by (simp add: wf_evolves_def advanced_workflow_def)

lemma validate_status [simp]:
  "workflow_validate (w\<lparr>wf_status := s, wf_last_error := e, wf_updated_at := t\<rparr>) = workflow_validate w"
  by (rule workflow_validate_cong) simp_all

lemma evidence_status [simp]:
  "evidence_ok (w\<lparr>wf_status := s, wf_last_error := e, wf_updated_at := t\<rparr>) = evidence_ok w"
  by (simp add: evidence_ok_def)

lemma evidence_advanced:
  assumes ok: "evidence_ok w" and le: "wf_checkpoint w \<le> c"
  shows "evidence_ok (advanced_workflow now s c a w)"
proof -
  define es where "es = wf_evidence w"
  define e where "e = \<lparr>ev_stage = c, ev_input_hash = to_ascii_lowercase (aa_input_hash a),
         ev_child_operation_id = aa_child_operation_id a, ev_attempt = stage_attempt c w,
         ev_completed_at = now\<rparr>"
  have new: "wf_evidence (advanced_workflow now s c a w) = es @ [e]"
    "wf_checkpoint (advanced_workflow now s c a w) = c"
    by (simp_all add: advanced_workflow_def es_def e_def)
  have srt: "sorted (map ev_stage es)" and
    cp: "wf_checkpoint w = (if es = [] then Wc_Requested else ev_stage (last es))" and
    att: "\<And>n. n < length es \<Longrightarrow> ev_attempt (es ! n) =
        of_nat (length (filter (\<lambda>e. ev_stage e = ev_stage (es ! n)) (take n es))) + 1"
    using ok by (auto simp: evidence_ok_def es_def)
  have "ev_stage x \<le> c" if "x \<in> set es" for x
  proof -
    have ne: "es \<noteq> []" using that by auto
    have "ev_stage x \<le> ev_stage (last es)"
      using srt that ne by (induction es rule: rev_induct) (auto simp: sorted_append)
    then show ?thesis using cp le ne by simp
  qed
  then have "sorted (map ev_stage (es @ [e]))" using srt by (simp add: sorted_append e_def)
  moreover have "ev_attempt ((es @ [e]) ! n) = of_nat (length (filter (\<lambda>x. ev_stage x = ev_stage ((es @ [e]) ! n))
      (take n (es @ [e])))) + 1" if "n < length (es @ [e])" for n
    using that att [of n] by (auto simp: nth_append less_Suc_eq e_def stage_attempt_def es_def)
  ultimately show ?thesis
    unfolding evidence_ok_def new by (simp add: e_def)
qed

text \<open>Replacing a stored workflow by a later state of it, and adding a new one.\<close>

lemma wf_inv_update:
  assumes inv: "wf_inv D s" and get: "bt_get (ws_workflows s) k = Some v" and ev: "wf_evolves v w"
    and ok: "workflow_validate w = Inr ()" "evidence_ok w"
  shows "wf_inv D (s\<lparr>ws_workflows := bt_insert k w (ws_workflows s)\<rparr>)"
proof -
  have key: "wf_key D w = wf_key D v" "wf_id w = k"
    using wf_evolves_key [OF ev] wf_invD(3) [OF inv get] ev by (simp_all add: wf_evolves_def)
  show ?thesis
    unfolding wf_inv_def
  proof (intro conjI allI impI)
    fix j u
    assume "bt_get (ws_workflows (s\<lparr>ws_workflows := bt_insert k w (ws_workflows s)\<rparr>)) j = Some u"
    then have u: "(if j = k then Some w else bt_get (ws_workflows s) j) = Some u" by simp
    show "wf_id u = j" "workflow_validate u = Inr ()" "evidence_ok u"
      "bt_get (ws_by_idempotency (s\<lparr>ws_workflows := bt_insert k w (ws_workflows s)\<rparr>)) (wf_key D u) = Some j"
      using u key ok wf_invD(3-6) [OF inv, of j u] wf_invD(6) [OF inv get] by (auto split: if_splits)
  next
    fix i j
    assume "bt_get (ws_by_idempotency (s\<lparr>ws_workflows := bt_insert k w (ws_workflows s)\<rparr>)) i = Some j"
    then obtain u where u: "bt_get (ws_workflows s) j = Some u" "wf_key D u = i"
      using wf_invD(7) [OF inv] by auto
    then show "\<exists>u. bt_get (ws_workflows (s\<lparr>ws_workflows := bt_insert k w (ws_workflows s)\<rparr>)) j = Some u
        \<and> wf_key D u = i"
      using key get by (cases "j = k") auto
  qed (use wf_invD(1,2) [OF inv] in simp_all)
qed

lemma wf_inv_add:
  assumes inv: "wf_inv D s" and new: "bt_get (ws_workflows s) (wf_id w) = None"
    "bt_get (ws_by_idempotency s) (wf_key D w) = None"
    and ok: "workflow_validate w = Inr ()" "evidence_ok w"
  shows "wf_inv D (s\<lparr>ws_by_idempotency := bt_insert (wf_key D w) (wf_id w) (ws_by_idempotency s),
      ws_workflows := bt_insert (wf_id w) w (ws_workflows s)\<rparr>)"
proof -
  let ?s = "s\<lparr>ws_by_idempotency := bt_insert (wf_key D w) (wf_id w) (ws_by_idempotency s),
      ws_workflows := bt_insert (wf_id w) w (ws_workflows s)\<rparr>"
  have other: "wf_key D v \<noteq> wf_key D w" if "bt_get (ws_workflows s) k = Some v" for k v
    using wf_invD(6) [OF inv that] new(2) by auto
  show ?thesis
    unfolding wf_inv_def
  proof (intro conjI allI impI)
    fix j u
    assume "bt_get (ws_workflows ?s) j = Some u"
    then have u: "(if j = wf_id w then Some w else bt_get (ws_workflows s) j) = Some u" by simp
    show "wf_id u = j" "workflow_validate u = Inr ()" "evidence_ok u"
      "bt_get (ws_by_idempotency ?s) (wf_key D u) = Some j"
      using u ok wf_invD(3-6) [OF inv, of j u] other [of j u] by (auto split: if_splits)
  next
    fix i j
    assume "bt_get (ws_by_idempotency ?s) i = Some j"
    then have i: "(if i = wf_key D w then Some (wf_id w) else bt_get (ws_by_idempotency s) i) = Some j"
      by simp
    show "\<exists>u. bt_get (ws_workflows ?s) j = Some u \<and> wf_key D u = i"
    proof (cases "i = wf_key D w")
      case False
      then obtain u where "bt_get (ws_workflows s) j = Some u" "wf_key D u = i"
        using i wf_invD(7) [OF inv] by auto
      then show ?thesis using new(1) by auto
    qed (use i in auto)
  qed (use wf_invD(1,2) [OF inv] in simp_all)
qed

section \<open>What each operation does\<close>

text \<open>
  An operation leaves the memory alone, replaces a stored workflow by a later state, or adds one.
\<close>

definition wf_effect :: "digest \<Rightarrow> workflow_state \<Rightarrow> workflow_state \<Rightarrow> bool" where
  "wf_effect D s s' \<longleftrightarrow> s' = s \<or>
     (\<exists>k v w. bt_get (ws_workflows s) k = Some v \<and> wf_evolves v w \<and> workflow_validate w = Inr () \<and>
        evidence_ok w \<and> s' = s\<lparr>ws_workflows := bt_insert k w (ws_workflows s)\<rparr>) \<or>
     (\<exists>w. bt_get (ws_workflows s) (wf_id w) = None \<and> bt_get (ws_by_idempotency s) (wf_key D w) = None \<and>
        workflow_validate w = Inr () \<and> evidence_ok w \<and>
        s' = s\<lparr>ws_by_idempotency := bt_insert (wf_key D w) (wf_id w) (ws_by_idempotency s),
               ws_workflows := bt_insert (wf_id w) w (ws_workflows s)\<rparr>)"

lemma wf_append_mem: "wfs_mem (snd (wf_append cd oc w st)) = wfs_mem st"
  by (simp add: wf_append_def append_line_def Let_def split: append_outcome.split)

lemma wf_put_effect:
  assumes "wf_get st wid = Some v" "wf_evolves v w" "workflow_validate w = Inr ()" "evidence_ok w"
  shows "wf_effect D (wfs_mem st) (wfs_mem (snd (wf_put cd oc wid w st)))"
proof -
  have "wfs_mem (snd (wf_put cd oc wid w st)) = wfs_mem st \<or>
      wfs_mem (snd (wf_put cd oc wid w st)) =
        (wfs_mem st)\<lparr>ws_workflows := bt_insert wid w (ws_workflows (wfs_mem st))\<rparr>"
    by (auto simp: wf_put_def wf_append_def append_line_def Let_def split: append_outcome.split)
  then show ?thesis using assms unfolding wf_effect_def wf_get_def by blast
qed

lemma wf_start_effect:
  assumes inv: "wf_inv D (wfs_mem st)" and fresh: "id_fresh D (wfs_mem st) project rq"
  shows "wf_effect D (wfs_mem st) (wfs_mem (snd (wf_start D cd now oc project rq st)))"
proof -
  define w where "w = workflow_of_request D cd now project rq"
  define scoped where "scoped = scoped_idempotency_key D project (sha256_hex D (sr_idempotency_key rq))"
  have wk: "wf_key D w = scoped" "evidence_ok w"
    "wf_id w = workflow_id_of D project (sha256_hex D (sr_idempotency_key rq))"
    by (simp_all add: w_def scoped_def wf_key_def workflow_of_request_def Let_def evidence_ok_def)
  consider "wfs_mem (snd (wf_start D cd now oc project rq st)) = wfs_mem st"
    | "bt_get (ws_by_idempotency (wfs_mem st)) scoped = None" "workflow_validate w = Inr ()"
      "wfs_mem (snd (wf_start D cd now oc project rq st)) = (wfs_mem st)
        \<lparr>ws_by_idempotency := bt_insert scoped (wf_id w) (ws_by_idempotency (wfs_mem st)),
         ws_workflows := bt_insert (wf_id w) w (ws_workflows (wfs_mem st))\<rparr>"
    unfolding wf_start_def w_def scoped_def
    by (cases "start_validate project rq";
        cases "bt_get (ws_by_idempotency (wfs_mem st))
          (scoped_idempotency_key D project (sha256_hex D (sr_idempotency_key rq)))";
        cases "workflow_validate (workflow_of_request D cd now project rq)"; cases oc)
      (auto simp: Let_def wf_append_def append_line_def split: option.splits)
  then show ?thesis
  proof cases
    case 1
    then show ?thesis by (simp add: wf_effect_def)
  next
    case 2
    have "bt_get (ws_workflows (wfs_mem st)) (wf_id w) = None"
    proof (rule ccontr)
      assume "bt_get (ws_workflows (wfs_mem st)) (wf_id w) \<noteq> None"
      then obtain v where v: "bt_get (ws_workflows (wfs_mem st)) (wf_id w) = Some v" by blast
      then have "wf_key D v = scoped" using fresh wk(3) by (simp add: id_fresh_def wf_key_def scoped_def)
      then show False using wf_invD(6) [OF inv v] 2(1) by simp
    qed
    with 2 wk show ?thesis unfolding wf_effect_def by metis
  qed
qed

lemma wf_step_effect:
  assumes inv: "wf_inv D (wfs_mem st)" and step: "wf_step D cd st st'"
  shows "wf_effect D (wfs_mem st) (wfs_mem st')"
  using step
proof cases
  case (step_start project rq now oc)
  then show ?thesis using wf_start_effect [OF inv] by blast
next
  case (step_advance now oc wid expected status checkpoint a)
  show ?thesis
  proof (cases "wf_get st wid")
    case None
    then show ?thesis by (simp add: step_advance wf_advance_def wf_effect_def)
  next
    case (Some v)
    have ev: "evidence_ok v" using wf_invD(5) [OF inv] Some by (simp add: wf_get_def)
    show ?thesis
    proof (cases "checkpoint_rank checkpoint < checkpoint_rank (wf_checkpoint v)
        \<or> workflow_validate (advanced_workflow now status checkpoint a v) \<noteq> Inr ()
        \<or> wf_checkpoint v \<noteq> expected \<or> \<not> is_sha256 (aa_input_hash a)")
      case True
      then show ?thesis
        using Some by (auto simp: step_advance wf_advance_def wf_effect_def Let_def split: sum.split)
    next
      case False
      then have le: "wf_checkpoint v \<le> checkpoint" by (simp add: checkpoint_order)
      from False have eq: "wf_advance cd now oc wid expected status checkpoint a st =
          wf_put cd oc wid (advanced_workflow now status checkpoint a v) st"
        using Some by (auto simp: wf_advance_def Let_def)
      show ?thesis
        unfolding step_advance eq
        by (rule wf_put_effect [OF Some evolves_advanced [OF le] _ evidence_advanced [OF ev le]])
          (use False in blast)
    qed
  qed
next
  case (step_set_status now oc wid status error)
  show ?thesis
  proof (cases "wf_get st wid")
    case (Some v)
    have "wf_effect D (wfs_mem st) (wfs_mem (snd (wf_put cd oc wid
        (v\<lparr>wf_status := status, wf_last_error := error, wf_updated_at := now\<rparr>) st)))"
      by (rule wf_put_effect [OF Some]) (use wf_invD(4,5) [OF inv] Some in \<open>simp_all add: wf_get_def\<close>)
    then show ?thesis using Some by (simp add: step_set_status wf_set_status_def)
  qed (simp add: step_set_status wf_set_status_def wf_effect_def)
next
  case (step_cancel now oc wid)
  show ?thesis
  proof (cases "wf_get st wid")
    case (Some v)
    have "wf_effect D (wfs_mem st) (wfs_mem (snd (wf_put cd oc wid
        (v\<lparr>wf_status := Ws_Cancelled, wf_last_error := None, wf_updated_at := now\<rparr>) st)))"
      by (rule wf_put_effect [OF Some]) (use wf_invD(4,5) [OF inv] Some in \<open>simp_all add: wf_get_def\<close>)
    then show ?thesis using Some by (auto simp: step_cancel wf_cancel_def wf_effect_def)
  qed (simp add: step_cancel wf_cancel_def wf_effect_def)
qed

lemma wf_effect_inv: "wf_inv D s \<Longrightarrow> wf_effect D s s' \<Longrightarrow> wf_inv D s'"
  by (auto simp: wf_effect_def intro: wf_inv_update wf_inv_add)

lemma wf_effect_evolves:
  assumes "wf_effect D s s'" "bt_get (ws_workflows s) k = Some v"
  shows "\<exists>w. bt_get (ws_workflows s') k = Some w \<and> wf_evolves v w"
  using assms unfolding wf_effect_def by (auto split: if_splits)

lemma wf_empty_inv [simp]: "wf_inv D (wfs_mem wf_empty)"
  by (simp add: wf_inv_def wf_empty_def workflow_state_default_def)

lemma wf_run_inv: "wf_run D cd st st' \<Longrightarrow> wf_inv D (wfs_mem st) \<Longrightarrow> wf_inv D (wfs_mem st')"
  by (induction rule: rtranclp_induct) (auto dest: wf_step_effect wf_effect_inv)

lemma wf_run_evolves:
  assumes "wf_run D cd st st'" "wf_inv D (wfs_mem st)" "wf_get st k = Some v"
  shows "\<exists>w. wf_get st' k = Some w \<and> wf_evolves v w"
  using assms(1)
proof (induction rule: rtranclp_induct)
  case base
  show ?case using assms(3) by simp
next
  case (step st1 st2)
  then obtain w where w: "wf_get st1 k = Some w" "wf_evolves v w" by blast
  have "wf_effect D (wfs_mem st1) (wfs_mem st2)"
    by (rule wf_step_effect [OF wf_run_inv [OF step(1) assms(2)] step(2)])
  from wf_effect_evolves [OF this] w show ?case unfolding wf_get_def by (blast intro: wf_evolves_trans)
qed

end
