(* ===== verification/PublishWorkflowRestart.thy ===== *)
theory PublishWorkflowRestart
  imports PublishWorkflowInvariants
begin

text \<open>
  Opening the log of the publish workflow store. \<open>wf_saved ws st\<close>: \<open>st\<close> was reached from an empty
  directory by successful operations that wrote the workflows \<open>ws\<close>, in this order.
\<close>

inductive wf_saved :: "digest \<Rightarrow> workflow_codec \<Rightarrow> publish_workflow list \<Rightarrow> workflow_store \<Rightarrow> bool"
  for D :: digest and cd :: workflow_codec where
  saved_empty: "wf_saved D cd [] wf_empty"
| saved_start: "wf_saved D cd ws st \<Longrightarrow> id_fresh D (wfs_mem st) project rq \<Longrightarrow>
    wf_start D cd now Appended project rq st = (Inr (w, True), st') \<Longrightarrow> wf_saved D cd (ws @ [w]) st'"
| saved_advance: "wf_saved D cd ws st \<Longrightarrow>
    wf_advance cd now Appended wid expected status checkpoint a st = (Inr w, st') \<Longrightarrow> st' \<noteq> st \<Longrightarrow>
    wf_saved D cd (ws @ [w]) st'"
| saved_set_status: "wf_saved D cd ws st \<Longrightarrow>
    wf_set_status cd now Appended wid status error st = (Inr w, st') \<Longrightarrow> wf_saved D cd (ws @ [w]) st'"
| saved_cancel: "wf_saved D cd ws st \<Longrightarrow>
    wf_cancel cd now Appended wid st = (Inr w, st') \<Longrightarrow> st' \<noteq> st \<Longrightarrow> wf_saved D cd (ws @ [w]) st'"

interpretation wlog: jsonl_log "\<lambda>w. workflow_validate w = Inr ()" "wf_accept D" "wf_load D" for D
  by unfold_locales (simp add: wf_accept_def)

abbreviation wf_codec_ok :: "workflow_codec \<Rightarrow> publish_workflow set \<Rightarrow> bool" where
  "wf_codec_ok cd S \<equiv> line_codec_ok S (wc_ser cd) (wc_parse cd)"

abbreviation wf_log_bytes :: "workflow_store \<Rightarrow> string" where
  "wf_log_bytes st \<equiv> log_bytes (wfs_log st)"

lemmas wf_io_defs = wf_append_def append_line_def log_bytes_def

section \<open>The log determines the memory\<close>

definition wf_durable :: "digest \<Rightarrow> workflow_codec \<Rightarrow> publish_workflow list \<Rightarrow> workflow_store \<Rightarrow> bool" where
  "wf_durable D cd ws st \<longleftrightarrow> wf_log_bytes st = journal_of (wc_ser cd) ws \<and>
     (\<forall>w \<in> set ws. workflow_validate w = Inr ()) \<and> wfs_mem st = fold (wf_load D) ws workflow_state_default \<and>
     wf_inv D (wfs_mem st)"

lemma wf_durableD:
  assumes "wf_durable D cd ws st"
  shows "wf_log_bytes st = journal_of (wc_ser cd) ws" "\<forall>w \<in> set ws. workflow_validate w = Inr ()"
    "wfs_mem st = fold (wf_load D) ws workflow_state_default" "wf_inv D (wfs_mem st)"
  using assms unfolding wf_durable_def by blast+

lemma wf_durable_snoc:
  assumes "wf_durable D cd ws st" "workflow_validate w = Inr ()" "wf_inv D (wfs_mem st')"
    and "wf_log_bytes st' = wf_log_bytes st @ wc_ser cd w @ [nl]" "wfs_mem st' = wf_load D w (wfs_mem st)"
  shows "wf_durable D cd (ws @ [w]) st'"
  unfolding wf_durable_def
  using wf_durableD [OF assms(1)] assms(2-) by (auto simp: journal_of_def journal_line_def)

lemma bt_insert_same: "bt_get m k = Some v \<Longrightarrow> bt_wf m \<Longrightarrow> bt_insert k v m = m"
proof (induction k v m rule: bt_insert.induct)
  case (2 k v a w m)
  show ?case
  proof (cases "k = a")
    case False
    with 2(2) have get: "bt_get m k = Some v" by simp
    then have "(k, v) \<in> set m" by (rule bt_get_in)
    with 2(3) have "a < k" by (force simp: bt_wf_def)
    with 2(1,3) False get show ?thesis by (auto simp: bt_wf_def)
  qed (use 2 in simp)
qed simp

text \<open>A rewritten workflow loads like the insertion of the code: its index entry is already there.\<close>

lemma wf_load_update:
  assumes inv: "wf_inv D s" and get: "bt_get (ws_workflows s) k = Some v" and ev: "wf_evolves v w"
  shows "wf_load D w s = s\<lparr>ws_workflows := bt_insert k w (ws_workflows s)\<rparr>"
proof -
  have key: "wf_key D w = wf_key D v" "wf_id w = k"
    using wf_evolves_key [OF ev] wf_invD(3) [OF inv get] ev by (simp_all add: wf_evolves_def)
  have "bt_insert (wf_key D w) k (ws_by_idempotency s) = ws_by_idempotency s"
    by (rule bt_insert_same) (use wf_invD(2,6) [OF inv] get key in simp_all)
  with key show ?thesis by (simp add: wf_load_def wf_key_def)
qed

lemma wf_put_durable:
  assumes dur: "wf_durable D cd ws st" and get: "wf_get st k = Some v" and ev: "wf_evolves v w"
    and ok: "workflow_validate w = Inr ()" "evidence_ok w"
  shows "wf_durable D cd (ws @ [w]) (snd (wf_put cd Appended k w st))"
proof -
  note inv = wf_durableD(4) [OF dur]
  have get': "bt_get (ws_workflows (wfs_mem st)) k = Some v" using get by (simp add: wf_get_def)
  have m: "wfs_mem (snd (wf_put cd Appended k w st)) = wf_load D w (wfs_mem st)"
    using wf_load_update [OF inv get' ev] by (simp add: wf_put_def wf_io_defs Let_def)
  have "wf_inv D (wf_load D w (wfs_mem st))"
    unfolding wf_load_update [OF inv get' ev] by (rule wf_inv_update [OF inv get' ev ok])
  then have inv': "wf_inv D (wfs_mem (snd (wf_put cd Appended k w st)))" by (simp only: m)
  show ?thesis
    by (rule wf_durable_snoc [OF dur ok(1) inv' _ m])
      (simp add: wf_put_def wf_io_defs Let_def log_bytes_def)
qed

text \<open>A successful advance wrote the workflow it returns, unless it changed nothing.\<close>

lemma wf_advance_put:
  assumes "wf_advance cd now oc wid expected status checkpoint a st = (Inr w, st')" "st' \<noteq> st"
  shows "\<exists>v. wf_get st wid = Some v \<and> wf_checkpoint v \<le> checkpoint \<and>
    w = advanced_workflow now status checkpoint a v \<and> workflow_validate w = Inr () \<and>
    (\<forall>oc'. wf_advance cd now oc' wid expected status checkpoint a st = wf_put cd oc' wid w st)"
proof -
  obtain v where v: "wf_get st wid = Some v"
    using assms by (cases "wf_get st wid") (auto simp: wf_advance_def split: if_splits)
  have "wf_checkpoint v = expected" "\<not> checkpoint_rank checkpoint < checkpoint_rank expected"
    "is_sha256 (aa_input_hash a)"
    using assms v by (auto simp: wf_advance_def split: if_splits)
  moreover from this have "workflow_validate (advanced_workflow now status checkpoint a v) = Inr ()"
    using assms v by (auto simp: wf_advance_def Let_def split: sum.splits)
  ultimately show ?thesis
    using v assms
    by (auto simp: wf_advance_def checkpoint_order wf_put_def wf_io_defs Let_def
        split: append_outcome.splits)
qed

lemma wf_start_new:
  assumes "wf_start D cd now Appended project rq st = (Inr (w, True), st')"
  shows "w = workflow_of_request D cd now project rq \<and> workflow_validate w = Inr () \<and>
    bt_get (ws_by_idempotency (wfs_mem st)) (wf_key D w) = None \<and>
    wf_log_bytes st' = wf_log_bytes st @ wc_ser cd w @ [nl] \<and> wfs_mem st' = wf_load D w (wfs_mem st)"
  using assms
  by (cases "start_validate project rq";
      cases "bt_get (ws_by_idempotency (wfs_mem st))
        (scoped_idempotency_key D project (sha256_hex D (sr_idempotency_key rq)))";
      cases "workflow_validate (workflow_of_request D cd now project rq)")
    (auto simp: wf_start_def Let_def wf_io_defs log_bytes_def wf_load_def wf_key_def
      workflow_of_request_def split: option.splits if_splits)

lemma wf_saved_durable: "wf_saved D cd ws st \<Longrightarrow> wf_durable D cd ws st"
proof (induction rule: wf_saved.induct)
  case saved_empty
  show ?case by (simp add: wf_durable_def log_bytes_def journal_of_def) (simp add: wf_empty_def)
next
  case (saved_start ws st project rq now w st')
  note inv = wf_durableD(4) [OF saved_start.IH]
  have "wf_step D cd st st'"
    using step_start [OF saved_start(2), of cd now Appended] saved_start(3) by simp
  then have "wf_inv D (wfs_mem st')" by (rule wf_effect_inv [OF inv wf_step_effect [OF inv]])
  then show ?case
    using wf_durable_snoc [OF saved_start.IH] wf_start_new [OF saved_start(3)] by blast
next
  case (saved_advance ws st now wid expected status checkpoint a w st')
  from wf_advance_put [OF saved_advance(2,3)] obtain v where v: "wf_get st wid = Some v"
    "wf_checkpoint v \<le> checkpoint" "w = advanced_workflow now status checkpoint a v"
    "workflow_validate w = Inr ()"
    and put: "wf_advance cd now Appended wid expected status checkpoint a st = wf_put cd Appended wid w st"
    by blast
  have "evidence_ok v" using wf_invD(5) [OF wf_durableD(4) [OF saved_advance.IH]] v(1)
    by (simp add: wf_get_def)
  then have "wf_durable D cd (ws @ [w]) (snd (wf_put cd Appended wid w st))"
    using v by (intro wf_put_durable [OF saved_advance.IH v(1)]) (simp_all add: evolves_advanced evidence_advanced)
  then show ?case using put saved_advance(2) by (metis snd_conv)
next
  case (saved_set_status ws st now wid status error w st')
  then obtain v where v: "wf_get st wid = Some v" by (cases "wf_get st wid") (auto simp: wf_set_status_def)
  let ?w = "v\<lparr>wf_status := status, wf_last_error := error, wf_updated_at := now\<rparr>"
  have "wf_durable D cd (ws @ [?w]) (snd (wf_put cd Appended wid ?w st))"
    by (rule wf_put_durable [OF saved_set_status.IH v])
      (use v wf_invD(4,5) [OF wf_durableD(4) [OF saved_set_status.IH]] in \<open>simp_all add: wf_get_def\<close>)
  then show ?case
    using saved_set_status(2) v
    by (auto simp: wf_set_status_def wf_put_def wf_io_defs Let_def)
next
  case (saved_cancel ws st now wid w st')
  then obtain v where v: "wf_get st wid = Some v" by (cases "wf_get st wid") (auto simp: wf_cancel_def)
  let ?w = "v\<lparr>wf_status := Ws_Cancelled, wf_last_error := None, wf_updated_at := now\<rparr>"
  have "wf_durable D cd (ws @ [?w]) (snd (wf_put cd Appended wid ?w st))"
    by (rule wf_put_durable [OF saved_cancel.IH v])
      (use v wf_invD(4,5) [OF wf_durableD(4) [OF saved_cancel.IH]] in \<open>simp_all add: wf_get_def\<close>)
  then show ?case
    using saved_cancel(2,3) v
    by (auto simp: wf_cancel_def wf_put_def wf_io_defs Let_def split: if_splits)
qed

end
