(* ===== verification/PublishWorkflowProps.thy ===== *)
theory PublishWorkflowProps
  imports PublishWorkflowRestart ReleaseProps
begin

text \<open>
  Properties of the publish workflow store (C29 to C34). The samples of the witnesses are one request,
  the workflow it starts and that workflow one stage later.
\<close>

section \<open>Samples\<close>

definition sample_hash :: string where
  "sample_hash = replicate 64 (CHR ''a'')"

definition sample_start :: start_request where
  "sample_start = \<lparr>sr_source = StaticSnapshot ''p'' ''snap'' sample_hash, sr_idempotency_key = ''click'',
     sr_expected_current_release_id = None, sr_expected_generation = 0,
     sr_visual_review_mode = Vr_Advisory, sr_runtime_profile_id = static_web_profile_id\<rparr>"

definition sample_advance :: advance_args where
  "sample_advance = \<lparr>aa_input_hash = sample_hash, aa_child_operation_id = None, aa_version_id = None,
     aa_release_id = None, aa_publication_operation_id = None, aa_public_url = None\<rparr>"

text \<open>A codec for two workflows: the one without evidence and the other one.\<close>

definition sample_ser :: "publish_workflow \<Rightarrow> string" where
  "sample_ser w = (if wf_evidence w = [] then ''{}'' else ''{0}'')"

definition null_workflow_codec :: workflow_codec where
  "null_workflow_codec = \<lparr>wc_ser = sample_ser, wc_parse = (\<lambda>_. Inl ''unused''), wc_ser_request = (\<lambda>_. [])\<rparr>"

definition sample_wf :: publish_workflow where
  "sample_wf = workflow_of_request zero_digest null_workflow_codec 1 ''p'' sample_start"

definition sample_wf1 :: publish_workflow where
  "sample_wf1 = advanced_workflow 2 Ws_SourceFrozen Wc_SourceFrozen sample_advance sample_wf"

definition sample_workflow_codec :: workflow_codec where
  "sample_workflow_codec = null_workflow_codec\<lparr>wc_parse := (\<lambda>t. if t = ''{}'' then Inr sample_wf
     else if t = ''{0}'' then Inr sample_wf1 else Inl ''EOF'')\<rparr>"

lemma not_blank_ascii [simp]: "33 \<le> code c \<Longrightarrow> code c < 128 \<Longrightarrow> is_blank (c # s) = False"
  by (simp add: is_blank_ascii)

lemma sample_hash_ok [simp]: "is_sha256 sample_hash"
  by (simp add: is_sha256_def sample_hash_def list_all_iff is_ascii_hexdigit_def)

lemma zero_digest_sha [simp]: "is_sha256 (sha256_hex zero_digest b)"
  by (rule sha256_hex_is_sha256) (simp add: digest32_def zero_digest_def)

lemma sample_start_valid [simp]: "start_validate ''p'' sample_start = Inr ()"
  by (simp add: start_validate_def sample_start_def source_validate_def)

lemma workflow_of_request_fields [simp]:
  "wf_schema_version (workflow_of_request D cd t p rq) = publish_workflow_schema"
  "wf_id (workflow_of_request D cd t p rq) = workflow_id_of D p (sha256_hex D (sr_idempotency_key rq))"
  "wf_project_id (workflow_of_request D cd t p rq) = p"
  "wf_idempotency_key_hash (workflow_of_request D cd t p rq) = sha256_hex D (sr_idempotency_key rq)"
  "wf_request_hash (workflow_of_request D cd t p rq) = start_request_hash D cd p rq"
  "wf_source (workflow_of_request D cd t p rq) = sr_source rq"
  "wf_evidence (workflow_of_request D cd t p rq) = []"
  "wf_checkpoint (workflow_of_request D cd t p rq) = Wc_Requested"
  "wf_status (workflow_of_request D cd t p rq) = Ws_Requested"
  by (simp_all add: workflow_of_request_def Let_def)

lemma workflow_id_not_blank [simp]: "is_blank (workflow_id_of D p k) = False"
  by (simp add: workflow_id_of_def)

lemma sample_workflow_valid [simp]:
  "workflow_validate (workflow_of_request zero_digest cd t ''p'' sample_start) = Inr ()"
  by (simp add: workflow_validate_def start_request_hash_def sample_start_def source_validate_def)

text \<open>A validated workflow stays valid when a stage with a good hash and a nonzero attempt is added.\<close>

lemma advanced_valid:
  assumes "workflow_validate w = Inr ()" "is_sha256 (aa_input_hash a)" "stage_attempt c w \<noteq> 0"
  shows "workflow_validate (advanced_workflow now s c a w) = Inr ()"
proof -
  have eq: "wf_schema_version (advanced_workflow now s c a w) = wf_schema_version w"
    "wf_id (advanced_workflow now s c a w) = wf_id w"
    "wf_project_id (advanced_workflow now s c a w) = wf_project_id w"
    "wf_idempotency_key_hash (advanced_workflow now s c a w) = wf_idempotency_key_hash w"
    "wf_request_hash (advanced_workflow now s c a w) = wf_request_hash w"
    "wf_source (advanced_workflow now s c a w) = wf_source w"
    by (simp_all add: advanced_workflow_def)
  have ev: "list_ex (\<lambda>e. ev_attempt e = 0 \<or> \<not> is_sha256 (ev_input_hash e))
      (wf_evidence (advanced_workflow now s c a w)) =
    list_ex (\<lambda>e. ev_attempt e = 0 \<or> \<not> is_sha256 (ev_input_hash e)) (wf_evidence w)"
    using assms(2,3) is_sha256_lower by (auto simp: advanced_workflow_def)
  show ?thesis using assms(1) unfolding workflow_validate_def eq ev by assumption
qed

lemma stage_attempt_nonzero:
  assumes "length (wf_evidence w) < 2 ^ 32 - 1"
  shows "stage_attempt c w \<noteq> 0"
proof -
  let ?n = "length (filter (\<lambda>e. ev_stage e = c) (wf_evidence w))"
  have le: "?n \<le> length (wf_evidence w)" by simp
  with assms have "?n + 1 < 2 ^ 32" by linarith
  then have "unat (of_nat (?n + 1) :: u32) = ?n + 1" by (simp only: unat_of_nat len_bit0 len_num1) simp
  then show ?thesis by (metis Suc_eq_plus1 nat.distinct(1) of_nat_1 of_nat_add stage_attempt_def unat_0)
qed

section \<open>The invariant\<close>

lemma sample_fresh [simp]: "id_fresh D (wfs_mem wf_empty) p rq"
  by (simp add: id_fresh_def wf_empty_def workflow_state_default_def)

text \<open>
  C16. Whatever operations run on the publish workflow store, in any order and with any append
  failure, every workflow is stored under its own id, is valid, is the one its idempotency key
  names, has stages that never go back, a checkpoint equal to its last stage, and attempts that
  count the earlier evidence of the same stage.
\<close>

theorem workflow_store_invariant:
  assumes "wf_reach D cd st"
  shows "bt_wf (ws_workflows (wfs_mem st)) \<and>
    (\<forall>k w. wf_get st k = Some w \<longrightarrow>
       wf_id w = k \<and> workflow_validate w = Inr () \<and>
       bt_get (ws_by_idempotency (wfs_mem st)) (wf_key D w) = Some k \<and>
       sorted (map ev_stage (wf_evidence w)) \<and>
       wf_checkpoint w = (if wf_evidence w = [] then Wc_Requested else ev_stage (last (wf_evidence w))) \<and>
       (\<forall>n < length (wf_evidence w). ev_attempt (wf_evidence w ! n) =
          of_nat (length (filter (\<lambda>e. ev_stage e = ev_stage (wf_evidence w ! n))
            (take n (wf_evidence w)))) + 1)) \<and>
    (\<forall>key k. bt_get (ws_by_idempotency (wfs_mem st)) key = Some k \<longrightarrow>
       (\<exists>w. wf_get st k = Some w \<and> wf_key D w = key))"
proof -
  have inv: "wf_inv D (wfs_mem st)" by (rule wf_run_inv [OF assms]) simp
  show ?thesis
    using wf_invD [OF inv] unfolding wf_get_def evidence_ok_def by blast
qed

definition sample_store :: workflow_store where
  "sample_store = snd (wf_start zero_digest null_workflow_codec 1 Appended ''p'' sample_start wf_empty)"

definition sample_store1 :: workflow_store where
  "sample_store1 = snd (wf_advance null_workflow_codec 2 Appended (wf_id sample_wf) Wc_Requested
     Ws_SourceFrozen Wc_SourceFrozen sample_advance sample_store)"

lemma sample_start_run:
  "wf_start zero_digest null_workflow_codec 1 Appended ''p'' sample_start wf_empty =
    (Inr (sample_wf, True), sample_store)"
  by (simp add: sample_store_def sample_wf_def wf_start_def Let_def wf_io_defs wf_empty_def
      workflow_state_default_def)

lemma sample_get: "wf_get sample_store (wf_id sample_wf) = Some sample_wf"
  using wf_start_new [OF sample_start_run] by (simp add: wf_get_def wf_load_def)

lemma sample_wf_fields [simp]:
  "wf_checkpoint sample_wf = Wc_Requested" "wf_evidence sample_wf = []"
  "workflow_validate sample_wf = Inr ()" "wf_status sample_wf = Ws_Requested"
  by (simp_all add: sample_wf_def)

lemma sample_attempt [simp]: "stage_attempt c sample_wf \<noteq> 0"
  by (simp add: stage_attempt_def)

lemma sample_advance_run:
  "wf_advance null_workflow_codec 2 oc (wf_id sample_wf) Wc_Requested Ws_SourceFrozen Wc_SourceFrozen
     sample_advance sample_store = wf_put null_workflow_codec oc (wf_id sample_wf) sample_wf1 sample_store"
  using advanced_valid [of sample_wf sample_advance Wc_SourceFrozen 2 Ws_SourceFrozen]
  by (simp add: wf_advance_def sample_get Let_def sample_wf1_def) (simp add: sample_advance_def)

lemma sample_wf_reach: "wf_reach zero_digest null_workflow_codec sample_store"
  "wf_reach zero_digest null_workflow_codec sample_store1"
proof -
  have "wf_step zero_digest null_workflow_codec wf_empty sample_store"
    unfolding sample_store_def by (rule step_start) simp
  then show r: "wf_reach zero_digest null_workflow_codec sample_store" by blast
  have "wf_step zero_digest null_workflow_codec sample_store sample_store1"
    unfolding sample_store1_def by (rule step_advance)
  with r show "wf_reach zero_digest null_workflow_codec sample_store1" by (rule rtranclp.rtrancl_into_rtrancl)
qed

lemma sample_get1: "wf_get sample_store1 (wf_id sample_wf) = Some sample_wf1"
  unfolding sample_store1_def sample_advance_run
  by (simp add: wf_put_def wf_io_defs Let_def wf_get_def)

theorem workflow_store_invariant_witness:
  "\<exists>w. wf_get sample_store1 (wf_id sample_wf) = Some w \<and> workflow_validate w = Inr () \<and>
     wf_evidence w \<noteq> [] \<and> wf_checkpoint w = ev_stage (last (wf_evidence w))"
  using workflow_store_invariant [OF sample_wf_reach(2)] sample_get1
  by (auto simp: sample_wf1_def advanced_workflow_def)

section \<open>Progress is never lost\<close>

text \<open>
  C17. A stored workflow is never removed, and whatever happens to it its identity, source and
  compare-and-swap expectations stay, its checkpoint never goes back and its evidence is only
  appended to.
\<close>

theorem workflow_monotone:
  assumes "wf_reach D cd st" "wf_run D cd st st'" "wf_get st k = Some v"
  shows "\<exists>w. wf_get st' k = Some w \<and> wf_id w = wf_id v \<and> wf_project_id w = wf_project_id v \<and>
    wf_request_hash w = wf_request_hash v \<and> wf_source w = wf_source v \<and>
    wf_expected_generation w = wf_expected_generation v \<and>
    wf_expected_current_release_id w = wf_expected_current_release_id v \<and>
    checkpoint_rank (wf_checkpoint v) \<le> checkpoint_rank (wf_checkpoint w) \<and>
    (\<exists>es. wf_evidence w = wf_evidence v @ es)"
proof -
  have inv: "wf_inv D (wfs_mem st)" by (rule wf_run_inv [OF assms(1)]) simp
  show ?thesis
    using wf_run_evolves [OF assms(2) inv assms(3)] by (auto simp: wf_evolves_def checkpoint_order)
qed

theorem workflow_monotone_witness:
  "\<exists>w. wf_get sample_store1 (wf_id sample_wf) = Some w \<and> wf_id w = wf_id sample_wf \<and>
     checkpoint_rank Wc_Requested \<le> checkpoint_rank (wf_checkpoint w)"
proof -
  have "wf_step zero_digest null_workflow_codec sample_store sample_store1"
    unfolding sample_store1_def by (rule step_advance)
  then have "wf_run zero_digest null_workflow_codec sample_store sample_store1" by blast
  from workflow_monotone [OF sample_wf_reach(1) this sample_get] show ?thesis by auto
qed

section \<open>Clients\<close>

lemma wf_start_result:
  assumes inv: "wf_inv D (wfs_mem st)" and run: "wf_start D cd now oc project rq st = (Inr (w, b), st')"
  shows "wf_get st' (wf_id w) = Some w \<and> wf_request_hash w = start_request_hash D cd project rq \<and>
    wf_key D w = scoped_idempotency_key D project (sha256_hex D (sr_idempotency_key rq))"
proof (cases "bt_get (ws_by_idempotency (wfs_mem st))
    (scoped_idempotency_key D project (sha256_hex D (sr_idempotency_key rq)))")
  case None
  have "oc = Appended \<and> b"
    using run None
    by (cases "start_validate project rq";
        cases "workflow_validate (workflow_of_request D cd now project rq)"; cases oc)
      (simp_all add: wf_start_def Let_def wf_io_defs)
  with run have "wf_start D cd now Appended project rq st = (Inr (w, True), st')" by simp
  from wf_start_new [OF this] show ?thesis
    by (simp add: wf_get_def wf_load_def wf_key_def)
next
  case (Some k)
  from wf_invD(7) [OF inv Some] obtain v where v: "bt_get (ws_workflows (wfs_mem st)) k = Some v"
    "wf_key D v = scoped_idempotency_key D project (sha256_hex D (sr_idempotency_key rq))" by blast
  then show ?thesis
    using run Some wf_invD(3) [OF inv v(1)]
    by (cases "start_validate project rq") (auto simp: wf_start_def Let_def wf_get_def split: if_splits)
qed

text \<open>
  C18. Starting a workflow is idempotent: once a start returned a workflow, then however the store
  has moved on, a start with the same key returns that workflow as it is now when the request
  is the same, is a conflict when the request is another one, and writes nothing.
\<close>

theorem start_idempotent:
  assumes "wf_reach D cd st" "id_fresh D (wfs_mem st) project rq"
    and "wf_start D cd now oc project rq st = (Inr (w, b), st1)" "wf_run D cd st1 st2"
    and "start_validate project rq' = Inr ()" "sr_idempotency_key rq' = sr_idempotency_key rq"
  shows "\<exists>w'. wf_get st2 (wf_id w) = Some w' \<and>
    wf_start D cd now' oc' project rq' st2 =
      (if start_request_hash D cd project rq' = start_request_hash D cd project rq
       then (Inr (w', False), st2)
       else (Inl (Wf_Conflict ''idempotencyKey is already bound to a different request''), st2))"
proof -
  have inv: "wf_inv D (wfs_mem st)" by (rule wf_run_inv [OF assms(1)]) simp
  have "wf_step D cd st st1" using step_start [OF assms(2), of cd now oc] assms(3) by simp
  then have inv1: "wf_inv D (wfs_mem st1)" by (rule wf_effect_inv [OF inv wf_step_effect [OF inv]])
  note r = wf_start_result [OF inv assms(3)]
  from wf_run_evolves [OF assms(4) inv1] r obtain w'
    where w': "wf_get st2 (wf_id w) = Some w'" "wf_evolves w w'" by blast
  have inv2: "wf_inv D (wfs_mem st2)" by (rule wf_run_inv [OF assms(4) inv1])
  have "bt_get (ws_by_idempotency (wfs_mem st2)) (wf_key D w') = Some (wf_id w)"
    using wf_invD(6) [OF inv2] w'(1) by (simp add: wf_get_def)
  moreover have "wf_request_hash w' = start_request_hash D cd project rq"
    using r w'(2) by (simp add: wf_evolves_def)
  ultimately show ?thesis
    using w' r assms(5,6) wf_evolves_key [OF w'(2), of D] by (auto simp: wf_start_def wf_get_def Let_def)
qed

theorem start_idempotent_witness:
  "\<exists>w. wf_get sample_store1 (wf_id sample_wf) = Some w \<and>
     wf_start zero_digest null_workflow_codec 9 Appended ''p'' sample_start sample_store1 =
       (Inr (w, False), sample_store1)"
proof -
  have "wf_step zero_digest null_workflow_codec sample_store sample_store1"
    unfolding sample_store1_def by (rule step_advance)
  then have r: "wf_run zero_digest null_workflow_codec sample_store sample_store1" by blast
  show ?thesis
    using start_idempotent [OF rtranclp.rtrancl_refl sample_fresh sample_start_run r sample_start_valid refl,
        of 9 Appended] by simp
qed

text \<open>
  A cancellation is not final. After a successful cancel, an advance from the checkpoint the
  workflow has (the controller's pass may hold a copy taken before the cancel) is accepted and puts
  the workflow back among those the controller drives: \<open>advance\<close> does not look at the status.
\<close>

theorem cancel_is_not_final:
  assumes "wf_reach D cd st" "wf_cancel cd now oc wid st = (Inr w, st1)"
    and "is_sha256 (aa_input_hash a)" "checkpoint_rank (wf_checkpoint w) \<le> checkpoint_rank checkpoint"
    and "\<not> workflow_terminal status" "length (wf_evidence w) < 2 ^ 32 - 1"
  shows "wf_status w = Ws_Cancelled \<and> w \<notin> set (wf_nonterminal st1) \<and>
    (\<exists>w' st2. wf_advance cd now' Appended wid (wf_checkpoint w) status checkpoint a st1 = (Inr w', st2) \<and>
       wf_status w' = status \<and> wf_checkpoint w' = checkpoint \<and> w' \<in> set (wf_nonterminal st2))"
proof -
  have inv: "wf_inv D (wfs_mem st)" by (rule wf_run_inv [OF assms(1)]) simp
  have "wf_step D cd st st1" using step_cancel [of D cd st now oc wid] assms(2) by simp
  then have inv1: "wf_inv D (wfs_mem st1)" by (rule wf_effect_inv [OF inv wf_step_effect [OF inv]])
  have get: "wf_get st1 wid = Some w" and status: "wf_status w = Ws_Cancelled"
    using assms(2)
    by (cases oc; auto simp: wf_cancel_def wf_put_def wf_io_defs Let_def wf_get_def
        split: option.splits if_splits)+
  let ?w = "advanced_workflow now' status checkpoint a w"
  have "workflow_validate ?w = Inr ()"
    using advanced_valid [OF _ assms(3) stage_attempt_nonzero [OF assms(6)]] wf_invD(4) [OF inv1] get
    by (simp add: wf_get_def)
  then have run: "wf_advance cd now' Appended wid (wf_checkpoint w) status checkpoint a st1 =
      wf_put cd Appended wid ?w st1"
    using assms(3,4) get by (simp add: wf_advance_def Let_def)
  let ?st2 = "snd (wf_put cd Appended wid ?w st1)"
  have get2: "wf_get ?st2 wid = Some ?w" and r: "wf_put cd Appended wid ?w st1 = (Inr ?w, ?st2)"
    by (simp_all add: wf_put_def wf_io_defs Let_def wf_get_def)
  have "wf_step D cd st1 ?st2"
    using step_advance [of D cd st1 now' Appended wid "wf_checkpoint w" status checkpoint a] run by simp
  then have inv2: "wf_inv D (wfs_mem ?st2)" by (rule wf_effect_inv [OF inv1 wf_step_effect [OF inv1]])
  have f: "wf_status ?w = status" "wf_checkpoint ?w = checkpoint" by (simp_all add: advanced_workflow_def)
  have "?w \<in> set (wf_nonterminal ?st2)"
    using get2 bt_in_values [OF wf_invD(1) [OF inv2]] assms(5) f
    by (auto simp: wf_nonterminal_def wf_get_def)
  moreover have "w \<notin> set (wf_nonterminal st1)"
    using status by (simp add: wf_nonterminal_def workflow_terminal_def)
  ultimately show ?thesis using run r status f by auto
qed

theorem cancel_is_not_final_witness:
  "\<exists>w st1 w' st2. wf_cancel null_workflow_codec 5 Appended (wf_id sample_wf) sample_store = (Inr w, st1) \<and>
     wf_status w = Ws_Cancelled \<and>
     wf_advance null_workflow_codec 6 Appended (wf_id sample_wf) Wc_Requested Ws_DesiredStateCommitted
       Wc_DesiredStateCommitted sample_advance st1 = (Inr w', st2) \<and> w' \<in> set (wf_nonterminal st2)"
proof -
  let ?w = "sample_wf\<lparr>wf_status := Ws_Cancelled, wf_last_error := None, wf_updated_at := 5\<rparr>"
  let ?st1 = "snd (wf_cancel null_workflow_codec 5 Appended (wf_id sample_wf) sample_store)"
  have c: "wf_cancel null_workflow_codec 5 Appended (wf_id sample_wf) sample_store = (Inr ?w, ?st1)"
    by (simp add: wf_cancel_def sample_get workflow_terminal_def wf_put_def wf_io_defs Let_def)
  have "is_sha256 (aa_input_hash sample_advance)" by (simp add: sample_advance_def)
  from cancel_is_not_final [OF sample_wf_reach(1) c this, of Wc_DesiredStateCommitted Ws_DesiredStateCommitted 6]
  show ?thesis using c by (force simp: workflow_terminal_def)
qed

section \<open>Restarts\<close>

text \<open>
  C19. The log is a faithful copy of the memory: after any successful operations from an empty
  directory, opening the log rebuilds exactly the store that wrote it, so every workflow resumes
  at its checkpoint and every idempotency key keeps its meaning.
\<close>

theorem workflow_restart_roundtrip:
  assumes "wf_saved D cd ws st" "wf_codec_ok cd (set ws)"
  shows "wf_open D cd True (wfs_log st) = Inr st"
proof -
  note dur = wf_durableD [OF wf_saved_durable [OF assms(1)]]
  show ?thesis
  proof (cases "wfs_log st")
    case None
    then have "journal_of (wc_ser cd) ws = []" using dur(1) by (simp add: log_bytes_def)
    then have "ws = []" by (cases ws) (simp_all add: journal_of_def journal_line_def)
    with dur(3) None show ?thesis by (simp add: wf_open_def)
  next
    case (Some b)
    then have "b = journal_of (wc_ser cd) ws" using dur(1) by (simp add: log_bytes_def)
    with Some dur(3) wlog.load_whole [OF assms(2) dur(2)] show ?thesis by (simp add: wf_open_def)
  qed
qed

lemma sample_ser_eq:
  "wf_append sample_workflow_codec = wf_append null_workflow_codec"
  "wf_put sample_workflow_codec = wf_put null_workflow_codec"
  "start_request_hash D sample_workflow_codec = start_request_hash D null_workflow_codec"
proof -
  show a: "wf_append sample_workflow_codec = wf_append null_workflow_codec"
    by (intro ext) (simp add: wf_io_defs sample_workflow_codec_def)
  show "wf_put sample_workflow_codec = wf_put null_workflow_codec"
    by (intro ext) (simp add: wf_put_def a)
  show "start_request_hash D sample_workflow_codec = start_request_hash D null_workflow_codec"
    by (intro ext) (simp add: start_request_hash_def sample_workflow_codec_def)
qed

lemma sample_codec_eq:
  "wf_start D sample_workflow_codec now oc p rq st = wf_start D null_workflow_codec now oc p rq st"
  "wf_advance sample_workflow_codec now oc wid expected status checkpoint a st =
   wf_advance null_workflow_codec now oc wid expected status checkpoint a st"
  unfolding wf_start_def wf_advance_def workflow_of_request_def sample_ser_eq by (rule refl)+

lemma sample_codec_ok: "wf_codec_ok sample_workflow_codec {sample_wf, sample_wf1}"
proof -
  have ev: "wf_evidence sample_wf1 \<noteq> []" by (simp add: sample_wf1_def advanced_workflow_def)
  show ?thesis
    using ev
    by (auto simp: less_Suc_eq line_codec_ok_def codec_ok_def sample_workflow_codec_def null_workflow_codec_def
        sample_ser_def utf8_tail_def)
qed

lemma sample_saved: "wf_saved zero_digest sample_workflow_codec [sample_wf] sample_store"
  using saved_start [OF saved_empty sample_fresh, of _ sample_workflow_codec] sample_start_run
  by (simp add: sample_codec_eq)

theorem workflow_restart_roundtrip_witness:
  "wfs_log sample_store \<noteq> None \<and>
   wf_open zero_digest sample_workflow_codec True (wfs_log sample_store) = Inr sample_store"
  using workflow_restart_roundtrip [OF sample_saved] sample_codec_ok wf_start_new [OF sample_start_run]
  by (auto simp: line_codec_ok_def codec_ok_def log_bytes_def split: option.splits)

text \<open>
  A crash in the middle of an append makes the store unopenable: when the write of an advance
  stopped inside the JSON text, the operation reports a storage failure and the next start-up fails.
  When nothing was written, or all of the text was, start-up finds the old or the new workflow.
\<close>

theorem torn_advance_blocks_startup:
  assumes "wf_saved D cd ws st"
    and "wf_advance cd now Appended wid expected status checkpoint a st = (Inr w, st1)" "st1 \<noteq> st"
    and "wf_codec_ok cd (insert w (set ws))"
    and "wf_advance cd now (AppendFailed n e) wid expected status checkpoint a st = (r, st2)"
  shows "r = Inl (Wf_Storage e) \<and> wfs_mem st2 = wfs_mem st \<and>
    (n = 0 \<longrightarrow> (\<exists>s. wf_open D cd True (wfs_log st2) = Inr s \<and> wfs_mem s = wfs_mem st)) \<and>
    (0 < n \<and> n < length (wc_ser cd w) \<longrightarrow> (\<exists>m. wf_open D cd True (wfs_log st2) = Inl (Wf_Storage m))) \<and>
    (length (wc_ser cd w) \<le> n \<longrightarrow> (\<exists>s. wf_open D cd True (wfs_log st2) = Inr s \<and> wfs_mem s = wfs_mem st1))"
proof -
  note dur = wf_durableD [OF wf_saved_durable [OF assms(1)]]
  note dur1 = wf_durableD [OF wf_saved_durable [OF saved_advance [OF assms(1-3)]]]
  from wf_advance_put [OF assms(2,3)] have valid: "workflow_validate w = Inr ()"
    and put: "\<And>oc'. wf_advance cd now oc' wid expected status checkpoint a st = wf_put cd oc' wid w st"
    by blast+
  have r: "r = Inl (Wf_Storage e)" "wfs_mem st2 = wfs_mem st"
    "wfs_log st2 = Some (journal_of (wc_ser cd) ws @ take n (wc_ser cd w @ [nl]))"
    using assms(5) dur(1) unfolding put by (auto simp: wf_put_def wf_io_defs Let_def log_bytes_def)
  have all: "\<forall>v \<in> insert w (set ws). workflow_validate v = Inr ()" using dur(2) valid by blast
  have sub: "wf_codec_ok cd (set ws)" using assms(4) by (auto simp: line_codec_ok_def codec_ok_def)
  have new: "wf_codec_ok cd (set (ws @ [w]))" using assms(4) by simp
  consider "n = 0" | "0 < n" "n < length (wc_ser cd w)" | "n = length (wc_ser cd w)" "0 < n"
    | "length (wc_ser cd w) < n" by linarith
  then show ?thesis
  proof cases
    case 1
    have "wc_ser cd w \<noteq> []" using codec_okD(3) [OF line_codec_codec [OF assms(4)], of w] by auto
    then show ?thesis using 1 r wlog.load_whole [OF sub dur(2), of D] dur(3) by (simp add: wf_open_def)
  next
    case 2
    then show ?thesis using r wlog.load_torn [OF assms(4) dur(2) 2, of D workflow_state_default]
      by (auto simp: wf_open_def)
  next
    case 3
    then show ?thesis using r wlog.load_unterminated [OF assms(4) all, of D workflow_state_default] dur1(3)
      by (simp add: wf_open_def)
  next
    case 4
    have "journal_of (wc_ser cd) ws @ wc_ser cd w @ [nl] = journal_of (wc_ser cd) (ws @ [w])"
      by (simp add: journal_of_def journal_line_def)
    then show ?thesis
      using 4 r wlog.load_whole [OF new, of D workflow_state_default] dur1(2,3) by (simp add: wf_open_def)
  qed
qed

theorem torn_advance_blocks_startup_witness:
  "\<exists>m st2. wf_advance sample_workflow_codec 2 (AppendFailed 2 ''ENOSPC'') (wf_id sample_wf) Wc_Requested
       Ws_SourceFrozen Wc_SourceFrozen sample_advance sample_store = (Inl (Wf_Storage ''ENOSPC''), st2) \<and>
     wf_open zero_digest sample_workflow_codec True (wfs_log st2) = Inl (Wf_Storage m)"
proof -
  let ?adv = "\<lambda>oc. wf_advance sample_workflow_codec 2 oc (wf_id sample_wf) Wc_Requested
       Ws_SourceFrozen Wc_SourceFrozen sample_advance sample_store"
  have ok: "?adv Appended = (Inr sample_wf1, sample_store1)"
    unfolding sample_codec_eq sample_store1_def sample_advance_run
    by (simp add: wf_put_def wf_io_defs Let_def)
  have "wf_evidence sample_wf1 \<noteq> []" by (simp add: sample_wf1_def advanced_workflow_def)
  then have "sample_wf1 \<noteq> sample_wf" using sample_wf_fields(2) by metis
  then have ne: "sample_store1 \<noteq> sample_store" using sample_get sample_get1 by auto
  have ser: "wc_ser sample_workflow_codec sample_wf1 = ''{0}''"
    by (simp add: sample_workflow_codec_def null_workflow_codec_def sample_ser_def sample_wf1_def
        advanced_workflow_def)
  have cod: "wf_codec_ok sample_workflow_codec (insert sample_wf1 (set [sample_wf]))"
    using sample_codec_ok by (simp add: insert_commute)
  obtain r st2 where bad: "?adv (AppendFailed 2 ''ENOSPC'') = (r, st2)" by fastforce
  from torn_advance_blocks_startup [OF sample_saved ok ne cod bad] ser bad show ?thesis by auto
qed

end
