(* ===== verification/DraftPreviewProps.thy ===== *)
theory DraftPreviewProps
  imports DraftPreview PublicationProps
begin

text \<open>
  The draft preview store as a transition system, and its properties (C35, C36): a writer that lost
  its session to a takeover is fenced off for good, but one project can get two writers.
\<close>

text \<open>The closures the operations pass to \<open>update_session\<close>.\<close>

inductive session_op :: "digest \<Rightarrow> session_upd \<Rightarrow> bool" for D :: digest where
  "session_op D (heartbeat_upd lease epoch ttl)"
| "session_op D (takeover_upd D entropy epoch ttl)"
| "session_op D (commit_revision_upd lease epoch revision)"
| "session_op D (mark_ready_upd epoch ready_revision)"
| "session_op D (mark_compile_error_upd epoch error)"
| "session_op D (mark_durable_upd lease epoch revision snapshot source_hash)"
| "session_op D (mark_publish_revision_upd epoch revision snapshot)"
| "session_op D (begin_restart_upd error)"
| "session_op D (stop_upd reason)"

text \<open>A step; the drawn session id is unused, as 256 random bits make it.\<close>

inductive dp_step :: "digest \<Rightarrow> draft_preview_codec \<Rightarrow> draft_preview_store \<Rightarrow> draft_preview_store \<Rightarrow> bool"
  for D :: digest and cd :: draft_preview_codec where
  step_start: "bt_get (dps_sessions st) (random_id D ''draft-session'' entropy) = None \<Longrightarrow>
      dp_step D cd st (snd (dp_start D cd now entropy entropy' io rq st))"
| step_update: "session_op D f \<Longrightarrow> dp_step D cd st (snd (update_session cd now io sid f st))"

abbreviation dp_run :: "digest \<Rightarrow> draft_preview_codec \<Rightarrow> draft_preview_store \<Rightarrow> draft_preview_store \<Rightarrow> bool" where
  "dp_run D cd \<equiv> (dp_step D cd)\<^sup>*\<^sup>*"

definition dp_empty :: draft_preview_store where
  "dp_empty = \<lparr>dps_session_log = None, dps_event_log = None, dps_sessions = bt_empty, dps_events = bt_empty\<rparr>"

abbreviation dp_reach :: "digest \<Rightarrow> draft_preview_codec \<Rightarrow> draft_preview_store \<Rightarrow> bool" where
  "dp_reach D cd \<equiv> dp_run D cd dp_empty"

definition dp_inv :: "draft_preview_store \<Rightarrow> bool" where
  "dp_inv st \<longleftrightarrow> bt_wf (dps_sessions st) \<and>
     (\<forall>k s. bt_get (dps_sessions st) k = Some s \<longrightarrow> dp_session_id s = k \<and> session_validate s = Inr ())"

text \<open>What never changes of a session and what never goes back.\<close>

definition dp_evolves :: "draft_preview_session \<Rightarrow> draft_preview_session \<Rightarrow> bool" where
  "dp_evolves s t \<longleftrightarrow> dp_session_id t = dp_session_id s \<and> dp_project_id t = dp_project_id s \<and>
     dp_workspace_revision s \<le> dp_workspace_revision t \<and>
     dp_last_ready_revision s \<le> dp_last_ready_revision t \<and>
     dp_durable_revision s \<le> dp_durable_revision t \<and> dp_session_epoch s \<le> dp_session_epoch t"

lemma dp_evolves_refl [simp]: "dp_evolves s s"
  by (simp add: dp_evolves_def)

lemma dp_evolves_trans: "dp_evolves s t \<Longrightarrow> dp_evolves t u \<Longrightarrow> dp_evolves s u"
  unfolding dp_evolves_def by (metis order_trans)

lemma epoch_plus_one: "(e :: u64) + 1 \<noteq> 0 \<Longrightarrow> e \<le> e + 1"
  by (metis add.commute add_eq_0_iff sat_inc_def sat_inc_ge)

text \<open>A validated result of a closure is a later state of the session.\<close>

lemma session_op_evolves:
  assumes "session_op D f" "f now s = Inr (t, ev)" "session_validate (t\<lparr>dp_last_activity_at := now\<rparr>) = Inr ()"
  shows "dp_evolves s t"
proof -
  have pos: "dp_session_epoch t \<noteq> 0" using assms(3) by (auto simp: session_validate_def split: if_splits)
  show ?thesis
    using assms(1)
  proof cases
    case (8 error)
    then show ?thesis
      using assms(2) pos epoch_plus_one
      by (auto simp: begin_restart_upd_def Let_def dp_evolves_def split: if_splits)
  qed (use assms(2) in \<open>auto simp: heartbeat_upd_def takeover_upd_def commit_revision_upd_def
      mark_ready_upd_def mark_compile_error_upd_def mark_durable_upd_def mark_publish_revision_upd_def
      stop_upd_def Let_def dp_evolves_def not_less split: if_splits sum.splits\<close>)
qed

section \<open>What a step does\<close>

lemma store_session_sessions:
  "dps_sessions (snd (store_session cd io k s ev st)) = dps_sessions st \<or>
   dps_sessions (snd (store_session cd io k s ev st)) = bt_insert k s (dps_sessions st)"
  by (cases "dio_session io"; cases ev; cases "dio_event io")
    (simp_all add: store_session_def persist_session_def record_event_def append_line_def Let_def)

lemma dp_step_cases:
  assumes inv: "dp_inv st" and step: "dp_step D cd st st'"
  obtains "dps_sessions st' = dps_sessions st"
  | s where "dps_sessions st' = bt_insert (dp_session_id s) s (dps_sessions st)"
      "session_validate s = Inr ()"
      "bt_get (dps_sessions st) (dp_session_id s) = None \<or>
       (\<exists>v. bt_get (dps_sessions st) (dp_session_id s) = Some v \<and> dp_evolves v s)"
  using step
proof cases
  case (step_start entropy now entropy' io rq)
  define s where "s = new_session D now entropy entropy' rq"
  have sid: "dp_session_id s = random_id D ''draft-session'' entropy" by (simp add: s_def new_session_def)
  consider "st' = st" | ev where "session_validate s = Inr ()"
      "st' = snd (store_session cd io (dp_session_id s) s ev st)"
    unfolding step_start s_def
    by (cases "validate_start rq"; cases "bt_find (holds_lease now (ds_project_id rq)) (dps_sessions st)";
        cases "session_validate (new_session D now entropy entropy' rq)")
      (simp_all add: dp_start_def Let_def)
  then show ?thesis
  proof cases
    case (2 ev)
    from store_session_sessions [of cd io "dp_session_id s" s ev st] show ?thesis
    proof
      assume "dps_sessions (snd (store_session cd io (dp_session_id s) s ev st)) = dps_sessions st"
      with 2 that(1) show ?thesis by simp
    next
      assume "dps_sessions (snd (store_session cd io (dp_session_id s) s ev st)) =
        bt_insert (dp_session_id s) s (dps_sessions st)"
      then show ?thesis by (intro that(2) [of s]) (use 2 step_start(2) sid in simp_all)
    qed
  qed (use that in simp)
next
  case (step_update f now io k)
  show ?thesis
  proof (cases "bt_get (dps_sessions st) k")
    case (Some v)
    have k: "dp_session_id v = k" using inv Some by (simp add: dp_inv_def)
    have "st' = st \<or> (\<exists>t ev. f now v = Inr (t, ev) \<and>
        session_validate (t\<lparr>dp_last_activity_at := now\<rparr>) = Inr () \<and>
        st' = snd (store_session cd io k (t\<lparr>dp_last_activity_at := now\<rparr>) ev st))"
      using Some unfolding step_update
      by (auto simp: update_session_def Let_def split: sum.split)
    then consider "st' = st" | t ev where "f now v = Inr (t, ev)"
        "session_validate (t\<lparr>dp_last_activity_at := now\<rparr>) = Inr ()"
        "st' = snd (store_session cd io k (t\<lparr>dp_last_activity_at := now\<rparr>) ev st)"
      by blast
    then show ?thesis
    proof cases
      case (2 t ev)
      have "dp_evolves v t" by (rule session_op_evolves [OF step_update(2) 2(1,2)])
      then have e: "dp_evolves v (t\<lparr>dp_last_activity_at := now\<rparr>)" by (simp add: dp_evolves_def)
      then have tk: "dp_session_id (t\<lparr>dp_last_activity_at := now\<rparr>) = k" using k by (simp add: dp_evolves_def)
      note tv = 2(2)
      from store_session_sessions [of cd io k "t\<lparr>dp_last_activity_at := now\<rparr>" ev st]
      consider "dps_sessions st' = dps_sessions st"
        | "dps_sessions st' = bt_insert k (t\<lparr>dp_last_activity_at := now\<rparr>) (dps_sessions st)"
        using 2(3) by auto
      then show ?thesis
      proof cases
        case 2
        show ?thesis
          by (rule that(2) [of "t\<lparr>dp_last_activity_at := now\<rparr>"])
            (use 2 tk tv Some e in simp_all)
      qed (use that(1) in simp)
    qed (use that in simp)
  qed (use step_update that in \<open>simp add: update_session_def\<close>)
qed

lemma dp_step_inv:
  assumes "dp_inv st" "dp_step D cd st st'"
  shows "dp_inv st'"
  using assms by (rule dp_step_cases) (use assms(1) in \<open>auto simp: dp_inv_def split: if_splits\<close>)

lemma dp_step_evolves:
  assumes "dp_inv st" "dp_step D cd st st'" "bt_get (dps_sessions st) k = Some s"
  shows "\<exists>t. bt_get (dps_sessions st') k = Some t \<and> dp_evolves s t"
  using assms(1,2) by (rule dp_step_cases) (use assms(3) in \<open>auto split: if_splits\<close>)

lemma dp_run_inv: "dp_run D cd st st' \<Longrightarrow> dp_inv st \<Longrightarrow> dp_inv st'"
  by (induction rule: rtranclp_induct) (auto intro: dp_step_inv)

lemma dp_run_evolves:
  assumes "dp_run D cd st st'" "dp_inv st" "bt_get (dps_sessions st) k = Some s"
  shows "\<exists>t. bt_get (dps_sessions st') k = Some t \<and> dp_evolves s t"
  using assms(1)
proof (induction rule: rtranclp_induct)
  case (step st1 st2)
  then obtain t where t: "bt_get (dps_sessions st1) k = Some t" "dp_evolves s t" by blast
  from dp_step_evolves [OF dp_run_inv [OF step(1) assms(2)] step(2) t(1)] t(2)
  show ?case by (blast intro: dp_evolves_trans)
qed (use assms(3) in auto)

lemma dp_empty_inv [simp]: "dp_inv dp_empty"
  by (simp add: dp_inv_def dp_empty_def)

section \<open>Fencing\<close>

lemma update_refused: "bt_get (dps_sessions st) k = Some s \<Longrightarrow> f now s = Inl e \<Longrightarrow>
    update_session cd now io k f st = (Inl e, st)"
  by (simp add: update_session_def)

text \<open>
  C20. A takeover fences off the old writer for good. Once a session at epoch \<open>e\<close> was taken over,
  then whatever runs on the store, every operation that still carries \<open>e\<close> is refused with a
  conflict and changes nothing: the old writer cannot renew its lease, commit, or make a revision
  durable, and late reports of the old preview process and late publications are dropped.
\<close>

theorem draft_writer_fenced:
  assumes "dp_reach D cd st" "dp_takeover D cd now entropy io sid e ttl st = (Inr s, st1)" "e \<noteq> - 1"
    and "dp_run D cd st1 st2" "\<not> is_blank error" "\<not> is_blank snapshot" "is_sha256 source_hash"
  shows "(\<exists>m. dp_heartbeat cd t io' sid lease e ttl' st2 = (Inl (Dp_Conflict m), st2)) \<and>
    (\<exists>m. dp_commit_revision cd t io' sid lease e revision st2 = (Inl (Dp_Conflict m), st2)) \<and>
    (\<exists>m. dp_mark_ready cd t io' sid e revision st2 = (Inl (Dp_Conflict m), st2)) \<and>
    (\<exists>m. dp_mark_compile_error cd t io' sid e error st2 = (Inl (Dp_Conflict m), st2)) \<and>
    (\<exists>m. dp_mark_durable cd t io' sid lease e revision snapshot source_hash st2 =
       (Inl (Dp_Conflict m), st2)) \<and>
    (\<exists>m. dp_mark_publish_revision cd t io' sid e revision snapshot st2 = (Inl (Dp_Conflict m), st2)) \<and>
    (\<exists>m. dp_takeover D cd t entropy' io' sid e ttl' st2 = (Inl (Dp_Conflict m), st2))"
proof -
  have inv: "dp_inv st" by (rule dp_run_inv [OF assms(1)]) simp
  have st1: "st1 = snd (update_session cd now io sid (takeover_upd D entropy e ttl) st)"
    using assms(2) by (simp add: dp_takeover_def)
  have "dp_step D cd st st1" unfolding st1 by (intro step_update session_op.intros)
  then have inv1: "dp_inv st1" by (rule dp_step_inv [OF inv])
  have get1: "bt_get (dps_sessions st1) sid = Some s" and ep: "dp_session_epoch s = sat_inc e"
    using assms(2)
    by (cases "dio_session io"; auto simp: dp_takeover_def update_session_def takeover_upd_def
        store_session_def persist_session_def append_line_def Let_def split: option.splits if_splits sum.splits)+
  from dp_run_evolves [OF assms(4) inv1 get1] obtain u
    where u: "bt_get (dps_sessions st2) sid = Some u" "dp_evolves s u" by blast
  have "e < dp_session_epoch u" using u(2) ep sat_inc_gt [OF assms(3)] by (auto simp: dp_evolves_def)
  then have ne: "dp_session_epoch u \<noteq> e" by simp
  have proc: "\<exists>m. validate_process_epoch u e = Inl (Dp_Conflict m)"
    using ne by (simp add: validate_process_epoch_def)
  then have wr: "\<exists>m. validate_writer u lease e t = Inl (Dp_Conflict m)"
    by (auto simp: validate_writer_def)
  show ?thesis
    using proc wr ne assms(5-7) update_refused [OF u(1)]
    by (auto simp: dp_heartbeat_def dp_commit_revision_def dp_mark_ready_def dp_mark_compile_error_def
        dp_mark_durable_def dp_mark_publish_revision_def dp_takeover_def heartbeat_upd_def
        commit_revision_upd_def mark_ready_upd_def mark_compile_error_upd_def mark_durable_upd_def
        mark_publish_revision_upd_def takeover_upd_def)
qed

definition draft_io_ok :: draft_io where
  "draft_io_ok = \<lparr>dio_session = Appended, dio_event = Appended\<rparr>"

lemma store_session_ok:
  "fst (store_session cd draft_io_ok k s ev st) = Inr s"
  "dps_sessions (snd (store_session cd draft_io_ok k s ev st)) = bt_insert k s (dps_sessions st)"
  by (cases ev; simp add: store_session_def persist_session_def record_event_def append_line_def
      draft_io_ok_def Let_def)+

lemma lease_until_gt [simp]: "now < lease_until now ttl"
proof -
  have "30 \<le> min 3600 (max 30 ttl)" by simp
  then have "30 \<le> uint (min 3600 (max 30 ttl))" unfolding word_le_def by simp
  then show ?thesis by (simp add: lease_until_def seconds_def)
qed

text \<open>
  One project can get two writers. A session whose lease ran out does not stop a new session
  from being started for its project, and then \<open>takeover\<close> still hands out a lease on the old one:
  it does not look for another active session. Both leases are active at the same time.
\<close>

theorem takeover_breaks_single_writer:
  assumes "dp_reach D cd st" "bt_get (dps_sessions st) sid = Some s" "dp_status s \<notin> {Dps_Stopped, Dps_Failed}"
    and "dp_writer_lease_expires_at s \<le> now" "ds_project_id rq = dp_project_id s"
    and "bt_get (dps_sessions st) (random_id D ''draft-session'' entropy) = None"
    and "dp_start D cd now entropy entropy' io rq st = (Inr b, st1)"
  shows "\<exists>a st2. dp_takeover D cd now entropy'' draft_io_ok sid (dp_session_epoch s) ttl st1 = (Inr a, st2) \<and>
    dp_session_id a \<noteq> dp_session_id b \<and> dp_get st2 (dp_session_id a) = Some a \<and>
    dp_get st2 (dp_session_id b) = Some b \<and> holds_lease now (dp_project_id s) a \<and>
    holds_lease now (dp_project_id s) b"
proof -
  have inv: "dp_inv st" by (rule dp_run_inv [OF assms(1)]) simp
  have sid: "dp_session_id s = sid" and valid: "session_validate s = Inr ()"
    using inv assms(2) by (auto simp: dp_inv_def)
  have b: "b = new_session D now entropy entropy' rq"
    "dps_sessions st1 = bt_insert (dp_session_id b) b (dps_sessions st)"
    using assms(7)
    by (cases "dio_session io"; cases "dio_event io"; auto simp: dp_start_def store_session_def
        persist_session_def record_event_def append_line_def Let_def split: sum.splits option.splits)+
  have bid: "dp_session_id b = random_id D ''draft-session'' entropy" by (simp add: b new_session_def)
  with assms(2,6) have ne: "sid \<noteq> dp_session_id b" by auto
  define a where "a = s\<lparr>dp_session_epoch := sat_inc (dp_session_epoch s),
     dp_writer_lease_id := random_id D ''writer-lease'' entropy'',
     dp_writer_lease_expires_at := lease_until now ttl, dp_last_activity_at := now\<rparr>"
  have "\<not> is_blank (random_id D ''writer-lease'' entropy'')" by (simp add: random_id_def is_blank_ascii)
  then have av: "session_validate a = Inr ()"
    using valid by (simp add: session_validate_def a_def split: if_splits)
  have get1: "bt_get (dps_sessions st1) sid = Some s" using b(2) ne assms(2) by simp
  let ?st2 = "snd (store_session cd draft_io_ok sid a None st1)"
  have run: "dp_takeover D cd now entropy'' draft_io_ok sid (dp_session_epoch s) ttl st1 =
      store_session cd draft_io_ok sid a None st1"
    using assms(3,4) get1 av by (simp add: dp_takeover_def update_session_def takeover_upd_def Let_def a_def)
  have aid: "dp_session_id a = sid" using sid by (simp add: a_def)
  have lease: "holds_lease now (dp_project_id s) a" "holds_lease now (dp_project_id s) b"
    using assms(3,5) by (simp_all add: holds_lease_def a_def b new_session_def)
  have "store_session cd draft_io_ok sid a None st1 = (Inr a, ?st2)"
    using store_session_ok(1) by (metis prod.collapse)
  moreover have "dp_get ?st2 sid = Some a" "dp_get ?st2 (dp_session_id b) = Some b"
    using ne b(2) store_session_ok(2) [of cd sid a None st1] by (simp_all add: dp_get_def)
  ultimately show ?thesis using run ne aid lease by metis
qed

section \<open>Samples\<close>

definition sample_draft :: start_draft_preview where
  "sample_draft = \<lparr>ds_project_id = ''p'', ds_sandbox_binding_id = ''b'', ds_template_id = ''t'',
     ds_base_snapshot_id = ''s'', ds_base_version_id = None, ds_proxy_url = ''http://x'',
     ds_writer_ttl_seconds = 30\<rparr>"

definition null_draft_codec :: draft_preview_codec where
  "null_draft_codec = \<lparr>dpc_ser_session = (\<lambda>_. ''{}''), dpc_parse_session = (\<lambda>_. Inl ''unused''),
     dpc_ser_event = (\<lambda>_. ''{}''), dpc_parse_event = (\<lambda>_. Inl ''unused'')\<rparr>"

definition sample_session :: draft_preview_session where
  "sample_session = new_session end_digest 0 ''1'' ''2'' sample_draft"

definition sample_draft_store :: draft_preview_store where
  "sample_draft_store =
    snd (dp_start end_digest null_draft_codec 0 ''1'' ''2'' draft_io_ok sample_draft dp_empty)"

lemma sample_session_valid:
  "session_validate (new_session D now x y sample_draft) = Inr ()"
  by (simp add: session_validate_def new_session_def sample_draft_def random_id_def is_blank_ascii
      http_url_def starts_with_def)

lemma sample_session_ok [simp]: "session_validate sample_session = Inr ()"
  unfolding sample_session_def by (rule sample_session_valid)

lemma sample_validate_start [simp]: "validate_start sample_draft = Inr ()"
  by (simp add: validate_start_def sample_draft_def is_blank_ascii http_url_def starts_with_def)

lemma sample_draft_sessions:
  "dps_sessions sample_draft_store = bt_insert (dp_session_id sample_session) sample_session bt_empty"
proof -
  have none: "bt_find P (dps_sessions dp_empty) = None" for P
    by (simp add: bt_find_def dp_empty_def)
  show ?thesis
    by (simp add: sample_draft_store_def dp_start_def none Let_def sample_session_valid store_session_ok
        sample_session_def [symmetric]) (simp add: dp_empty_def)
qed

lemma sample_draft_reach: "dp_reach end_digest null_draft_codec sample_draft_store"
proof -
  have "dp_step end_digest null_draft_codec dp_empty sample_draft_store"
    unfolding sample_draft_store_def by (rule step_start) (simp add: dp_empty_def)
  then show ?thesis by blast
qed

text \<open>The lease of the sample session lasts 30 seconds.\<close>

lemma sample_session_fields:
  "dp_writer_lease_expires_at sample_session \<le> seconds 60" "dp_project_id sample_session = ''p''"
  "dp_status sample_session = Dps_Starting" "dp_session_epoch sample_session = 1"
  by (simp_all add: sample_session_def new_session_def sample_draft_def lease_until_def)

lemma sample_ids_differ: "random_id end_digest ''draft-session'' ''3'' \<noteq> dp_session_id sample_session"
  by (simp add: sample_session_def new_session_def random_id_def sha256_hex_def end_digest_def hex_byte_def
      hex_digit_def Let_def)

lemma sample_second_start:
  "\<exists>st1. dp_start end_digest null_draft_codec (seconds 60) ''3'' ''4'' draft_io_ok sample_draft sample_draft_store =
     (Inr (new_session end_digest (seconds 60) ''3'' ''4'' sample_draft), st1)"
proof -
  have none: "bt_find (holds_lease (seconds 60) (ds_project_id sample_draft)) (dps_sessions sample_draft_store) = None"
    using sample_session_fields(1)
    by (simp add: bt_find_def sample_draft_sessions bt_empty_def bt_values_def holds_lease_def)
  show ?thesis
    by (simp add: dp_start_def none sample_session_valid Let_def)
      (metis prod.collapse store_session_ok(1))
qed

theorem takeover_breaks_single_writer_witness:
  "\<exists>a b st2. dp_session_id a \<noteq> dp_session_id b \<and> dp_get st2 (dp_session_id a) = Some a \<and>
     dp_get st2 (dp_session_id b) = Some b \<and> holds_lease (seconds 60) ''p'' a \<and>
     holds_lease (seconds 60) ''p'' b"
proof -
  obtain st1 where run: "dp_start end_digest null_draft_codec (seconds 60) ''3'' ''4'' draft_io_ok sample_draft
      sample_draft_store = (Inr (new_session end_digest (seconds 60) ''3'' ''4'' sample_draft), st1)"
    using sample_second_start by blast
  have get: "bt_get (dps_sessions sample_draft_store) (dp_session_id sample_session) = Some sample_session"
    by (simp add: sample_draft_sessions)
  have fresh: "bt_get (dps_sessions sample_draft_store) (random_id end_digest ''draft-session'' ''3'') = None"
    using sample_ids_differ by (simp add: sample_draft_sessions)
  have p: "ds_project_id sample_draft = dp_project_id sample_session"
    by (simp add: sample_session_fields sample_draft_def)
  have st: "dp_status sample_session \<notin> {Dps_Stopped, Dps_Failed}" by (simp add: sample_session_fields)
  from takeover_breaks_single_writer [OF sample_draft_reach get st sample_session_fields(1) p fresh run]
  show ?thesis by (metis sample_session_fields(2))
qed

theorem draft_writer_fenced_witness:
  "\<exists>s st1 m. dp_takeover end_digest null_draft_codec (seconds 60) ''3'' draft_io_ok (dp_session_id sample_session)
       1 30 sample_draft_store = (Inr s, st1) \<and>
     dp_heartbeat null_draft_codec (seconds 61) draft_io_ok (dp_session_id sample_session) ''old'' 1 30 st1 =
       (Inl (Dp_Conflict m), st1)"
proof -
  have get: "bt_get (dps_sessions sample_draft_store) (dp_session_id sample_session) = Some sample_session"
    by (simp add: sample_draft_sessions)
  let ?a = "sample_session\<lparr>dp_session_epoch := sat_inc 1,
     dp_writer_lease_id := random_id end_digest ''writer-lease'' ''3'',
     dp_writer_lease_expires_at := lease_until (seconds 60) 30, dp_last_activity_at := seconds 60\<rparr>"
  have "session_validate ?a = Inr ()"
    by (simp add: session_validate_def sample_session_def new_session_def sample_draft_def random_id_def
        is_blank_ascii http_url_def starts_with_def)
  then have "dp_takeover end_digest null_draft_codec (seconds 60) ''3'' draft_io_ok (dp_session_id sample_session)
       1 30 sample_draft_store = store_session null_draft_codec draft_io_ok (dp_session_id sample_session) ?a None
       sample_draft_store"
    using sample_session_fields
    by (simp add: dp_takeover_def update_session_def get takeover_upd_def Let_def)
  then obtain st1 where run: "dp_takeover end_digest null_draft_codec (seconds 60) ''3'' draft_io_ok
      (dp_session_id sample_session) 1 30 sample_draft_store = (Inr ?a, st1)"
    by (metis prod.collapse store_session_ok(1))
  have "\<not> is_blank ''x''" "is_sha256 (replicate 64 (CHR ''a''))"
    by (simp_all add: is_blank_ascii is_sha256_def list_all_iff is_ascii_hexdigit_def)
  from draft_writer_fenced [OF sample_draft_reach run _ rtranclp.rtrancl_refl this(1) this(1) this(2),
      of "seconds 61" draft_io_ok "''old''" 30]
  show ?thesis using run by auto
qed

end
