(* ===== verification/PublishWorkflowControllerProps.thy ===== *)
theory PublishWorkflowControllerProps
  imports PublishWorkflowController PublishWorkflowProps DraftPreviewProps
begin

text \<open>
  Properties of the publish workflow controller (C39, C40): the publication of a workflow is committed
  once, however the step that commits it is interrupted, and the rollback of a workflow takes back a
  newer publication.
\<close>

section \<open>Committing an intent\<close>

text \<open>An intent that changed the store is stored with its key, whatever the call returned.\<close>

lemma intent_stored:
  assumes inv: "pub_inv D (pub_mem st)"
    and run: "pub_commit_intent D cd now rng io i st = (res, st')" "pub_mem st' \<noteq> pub_mem st"
  shows "\<exists>o' r. validate_intent i = Inr () \<and>
    validate_compare_and_set (bt_get (ps_runtimes (pub_mem st)) (in_project_id i)) i = Inr () \<and>
    o' = intent_operation D i (next_generation i (pub_mem st)) now \<and>
    bt_get (ps_operation_by_idempotency (pub_mem st')) (intent_key D i) = Some (op_id o') \<and>
    bt_get (ps_operations (pub_mem st')) (op_id o') = Some o' \<and>
    bt_get (ps_runtimes (pub_mem st')) (in_project_id i) = Some r"
proof (cases rule: pub_intent_run [where D = D and cd = cd and now = now and rng = rng and io = io
      and i = i and st = st])
  case (kept res')
  with run show ?thesis by simp
next
  case (ran slug g r o' b)
  let ?P = "pub_persist_commit D cd io o' r b (intent_key D i) st"
  have "st' = snd ?P" using run(1) unfolding ran(9) by (auto split: prod.splits sum.splits)
  with pub_persist_mem [of D cd io o' r b "intent_key D i" st] run(2)
  have app: "pub_apply_commit_with_key (pub_mem st) \<lparr>pc_sequence = sat_inc (ps_sequence (pub_mem st)),
      pc_operation = o', pc_runtime = r, pc_outbox = b\<rparr> (intent_key D i) = Inr (pub_mem st')"
    by simp
  have "rt_project_id r = in_project_id i"
    using pub_invD(8) [OF inv] by (auto simp: ran(6) intent_base_def split: option.split)
  then show ?thesis using ran(1,3,5,7) pub_apply_get(1,2,4) [OF app] by auto
qed

text \<open>An intent whose key the store knows, with the same body, is answered and changes nothing.\<close>

lemma retried_intent:
  assumes reach: "pub_reach D cd st" and run: "pub_commit_intent D cd now rng io i st = (res, st1)"
    and new: "pub_mem st1 \<noteq> pub_mem st" and steps: "pub_steps D cd st1 st2"
  shows "\<exists>o' p q. pub_operation st1 (op_id o') = Some o' \<and> op_id p = op_id o' \<and>
    op_request_hash p = intent_request_hash D i \<and>
    op_desired_generation o' = next_generation i (pub_mem st) \<and>
    validate_compare_and_set (pub_runtime st (in_project_id i)) i = Inr () \<and>
    pub_commit_intent D cd now' rng' io' i st2 = (Inr (p, q), st2)"
proof -
  have inv: "pub_inv D (pub_mem st)" by (rule pub_reach_inv [OF reach])
  obtain o' r where s: "validate_intent i = Inr ()"
      "validate_compare_and_set (bt_get (ps_runtimes (pub_mem st)) (in_project_id i)) i = Inr ()"
      "o' = intent_operation D i (next_generation i (pub_mem st)) now"
      "bt_get (ps_operation_by_idempotency (pub_mem st1)) (intent_key D i) = Some (op_id o')"
      "bt_get (ps_operations (pub_mem st1)) (op_id o') = Some o'"
      "bt_get (ps_runtimes (pub_mem st1)) (in_project_id i) = Some r"
    using intent_stored [OF inv run new] by blast
  have "pub_step D cd st st1" using ps_intent [of D cd st now rng io i] run by simp
  then have inv1: "pub_inv D (pub_mem st1)" by (rule pub_inv_step [OF inv])
  have inv2: "pub_inv D (pub_mem st2)" by (rule pub_steps_inv [OF steps inv1])
  from pub_steps_operation [OF steps inv1 s(5)] obtain p
    where p: "bt_get (ps_operations (pub_mem st2)) (op_id o') = Some p" "op_ident p = op_ident o'" by blast
  from pub_steps_runtime [OF steps inv1 s(6)] obtain q
    where q: "bt_get (ps_runtimes (pub_mem st2)) (in_project_id i) = Some q" by blast
  have hash: "op_request_hash p = intent_request_hash D i"
    using op_identD [OF p(2)] by (simp add: s(3) intent_operation_def)
  have "op_key D p = intent_key D i" using op_identD [OF p(2)] by (simp add: s(3))
  moreover have "bt_get (ps_operation_by_idempotency (pub_mem st2)) (op_key D p) = Some (op_id o')"
    using pub_invD(6) [OF inv2 p(1)] by (simp add: op_ok_def)
  ultimately have "bt_get (ps_operation_by_idempotency (pub_mem st2)) (intent_key D i) = Some (op_id o')"
    by simp
  from known_intent [OF this p(1) q s(1), of cd now' rng' io'] hash
  have "pub_commit_intent D cd now' rng' io' i st2 = (Inr (p, q), st2)" by simp
  moreover have "op_desired_generation o' = next_generation i (pub_mem st)"
    by (simp add: s(3) intent_operation_def)
  ultimately show ?thesis
    using s(2,5) hash op_identD [OF p(2)]
    by (intro exI [of _ o'] exI [of _ p] exI [of _ q]) (simp add: pub_operation_def pub_runtime_def)
qed

section \<open>Advancing a workflow\<close>

lemma flow_advance_ok:
  assumes "pe_flow_io en n = Appended" "wf_get (pw_flows pw) wid = Some w" "workflow_validate w = Inr ()"
    and "is_sha256 (aa_input_hash a)" "stage_attempt c w \<noteq> 0"
    and "checkpoint_rank (wf_checkpoint w) \<le> checkpoint_rank c"
  shows "\<exists>fl. flow_advance_unit en n wid (wf_checkpoint w) s c a pw = (Inr (), pw\<lparr>pw_flows := fl\<rparr>) \<and>
    wf_get fl wid = Some (advanced_workflow (pe_clock en n) s c a w)"
proof -
  let ?w = "advanced_workflow (pe_clock en n) s c a w"
  let ?fl = "snd (wf_put (pe_flow_codec en) Appended wid ?w (pw_flows pw))"
  have "wf_advance (pe_flow_codec en) (pe_clock en n) Appended wid (wf_checkpoint w) s c a (pw_flows pw) =
      (Inr ?w, ?fl)"
    using advanced_valid [OF assms(3-5)] assms(2,4,6)
    by (simp add: wf_advance_def Let_def wf_put_def wf_io_defs)
  then have "flow_advance_unit en n wid (wf_checkpoint w) s c a pw = (Inr (), pw\<lparr>pw_flows := ?fl\<rparr>)"
    using assms(1) by (simp add: flow_advance_unit_def flow_advance_def)
  moreover have "wf_get ?fl wid = Some ?w"
    by (simp add: wf_put_def wf_io_defs Let_def wf_get_def)
  ultimately show ?thesis by blast
qed

section \<open>Samples\<close>

text \<open>A workflow whose release is validated, in a world with one workspace and nothing published.\<close>

definition sample_config :: publish_config where
  "sample_config = \<lparr>cf_release_base_image_digest = Some ''base'', cf_release_packager_version = Some ''1'',
     cf_release_registry_repository = Some ''registry'', cf_release_scan_policy_version = Some ''1'',
     cf_release_packaging_helper_path = Some ''helper'', cf_release_packaging_helper_sha256 = Some ''h'',
     cf_works_base_domain = Some ''works.test''\<rparr>"

definition sample_publish_env :: "time \<Rightarrow> append_outcome \<Rightarrow> publish_env" where
  "sample_publish_env now oc = \<lparr>pe_digest = end_digest, pe_config = sample_config,
     pe_flow_codec = null_workflow_codec, pe_draft_codec = null_draft_codec, pe_release_codec = null_codec,
     pe_publication_codec = null_pub_codec, pe_manifest_json = (\<lambda>_. ''{}''), pe_clock = (\<lambda>_. now),
     pe_rng = second_rng, pe_flow_io = (\<lambda>_. oc), pe_draft_io = draft_io_ok, pe_release_io = io_ok,
     pe_publication_io = io_ok, pe_artifact_fault = (\<lambda>_. None), pe_verify = (\<lambda>_. Inr ()),
     pe_review = (\<lambda>_ _. Inr None), pe_build = (\<lambda>_ _. Inl ''unused''),
     pe_stage = (\<lambda>_ _ _. Inl ''unused''), pe_promote = (\<lambda>_. Inl ''unused'')\<rparr>"

definition sample_validated_wf :: publish_workflow where
  "sample_validated_wf = advanced_workflow 2 Ws_ReleaseValidated Wc_ReleaseValidated
     (sample_advance\<lparr>aa_release_id := Some ''rel''\<rparr>) sample_wf"

definition sample_flows :: workflow_store where
  "sample_flows = snd (wf_put null_workflow_codec Appended (wf_id sample_wf) sample_validated_wf sample_store)"

definition sample_publish_world :: "publication_store \<Rightarrow> publish_world" where
  "sample_publish_world pub = \<lparr>pw_flows = sample_flows, pw_drafts = dp_empty, pw_releases = sample_empty,
     pw_publications = pub,
     pw_artifacts = \<lparr>ra_publishes = bt_empty, ra_versions = bt_empty, ra_current_versions = bt_empty,
       ra_runs = bt_empty, ra_binding_pods = bt_empty, ra_outbox = bt_empty, ra_version_log = bt_empty,
       ra_next_id = 1\<rparr>,
     pw_snapshots = bt_empty, pw_namespaces = bt_insert ''p'' ''ws-a'' bt_empty\<rparr>"

lemma sample_env_simps [simp]:
  "pe_digest (sample_publish_env t oc) = end_digest" "pe_clock (sample_publish_env t oc) n = t"
  "pe_publication_codec (sample_publish_env t oc) = null_pub_codec"
  "pe_rng (sample_publish_env t oc) = second_rng" "pe_publication_io (sample_publish_env t oc) = io_ok"
  "pe_flow_io (sample_publish_env t oc) n = oc" "pe_flow_codec (sample_publish_env t oc) = null_workflow_codec"
  by (simp_all add: sample_publish_env_def)

lemma sample_world_simps [simp]:
  "pw_flows (sample_publish_world pub) = sample_flows" "pw_publications (sample_publish_world pub) = pub"
  "bt_get (pw_namespaces (sample_publish_world pub)) k = (if k = ''p'' then Some ''ws-a'' else None)"
  by (simp_all add: sample_publish_world_def bt_empty_def)

lemma sample_validated_fields [simp]:
  "wf_id sample_validated_wf = wf_id sample_wf" "wf_project_id sample_validated_wf = ''p''"
  "wf_release_id sample_validated_wf = Some ''rel''" "wf_expected_generation sample_validated_wf = 0"
  "wf_expected_current_release_id sample_validated_wf = None"
  "wf_checkpoint sample_validated_wf = Wc_ReleaseValidated"
  "length (wf_evidence sample_validated_wf) = 1" "workflow_validate sample_validated_wf = Inr ()"
proof -
  show "workflow_validate sample_validated_wf = Inr ()"
    unfolding sample_validated_wf_def by (rule advanced_valid) (simp_all add: sample_advance_def)
qed (simp_all add: sample_validated_wf_def advanced_workflow_def sample_wf_def sample_start_def
    sample_advance_def opt_or_def workflow_of_request_def Let_def)

lemma sample_flows_get: "wf_get sample_flows (wf_id sample_wf) = Some sample_validated_wf"
  by (simp add: sample_flows_def wf_put_def wf_io_defs Let_def wf_get_def)

lemma sample_wf_id_length: "length (wf_id sample_wf) \<le> 60"
  by (simp add: sample_wf_def workflow_of_request_def workflow_id_of_def Let_def)

lemma sample_flow_intent_valid:
  "validate_intent (publication_intent_of sample_validated_wf ''rel'' ''ws-a'') = Inr ()"
  using sample_wf_id_length
  by (simp add: validate_intent_def publication_intent_of_def validate_workspace_namespace_def
      starts_with_def string_defs intent_fields_def is_blank_ascii none_or_empty_def static_web_profile_id_def)

lemma sample_flow_commit:
  "\<exists>o' r st'. pub_commit_intent end_digest null_pub_codec now second_rng io_ok
     (publication_intent_of sample_validated_wf ''rel'' ''ws-a'') pub_empty = (Inr (o', r), st') \<and>
     pub_mem st' \<noteq> pub_mem pub_empty"
proof -
  let ?i = "publication_intent_of sample_validated_wf ''rel'' ''ws-a''"
  have inv: "pub_inv end_digest (pub_mem pub_empty)" by (rule pub_reach_inv [OF pub_reach_empty])
  have cas: "validate_compare_and_set (bt_get (ps_runtimes (pub_mem pub_empty)) (in_project_id ?i)) ?i = Inr ()"
    by (simp add: validate_compare_and_set_def publication_intent_of_def)
  have "\<exists>c. allocate_host_slug end_digest second_rng (pub_mem pub_empty) = Inr c"
    by (simp add: allocate_host_slug_def upt_rec)
  then obtain slug where slug: "allocate_host_slug end_digest second_rng (pub_mem pub_empty) = Inr slug" ..
  obtain o' r st' where run: "pub_commit_intent end_digest null_pub_codec now second_rng io_ok ?i pub_empty
      = (Inr (o', r), st')"
    using pub_intent_ok(1) [OF inv sample_flow_intent_valid end_digest32 _ _ cas slug refl refl refl refl]
    by (metis pub_empty_get(1,4) prod.collapse)
  have "bt_get (ps_operations (pub_mem st')) (op_id o') = Some o'" by (rule committed_intent(1) [OF inv run])
  then have "pub_mem st' \<noteq> pub_mem pub_empty" using pub_empty_get(1) by (metis option.distinct(1))
  with run show ?thesis by blast
qed

section \<open>Properties\<close>

lemma intent_hash_sha256: "digest32 D \<Longrightarrow> is_sha256 (intent_request_hash D i)"
  by (simp add: intent_request_hash_def framed_hash_def sha256_hex_is_sha256)

text \<open>
  C23. A workflow is published exactly once. When the step that commits its publication was
  interrupted at any point after the intent reached the store (a failed write, a crash before the
  workflow log was written), then whatever else happened to the publication store in between, running
  the step again does not touch the publication store, and moves the workflow on with the operation
  of the first attempt, whose generation follows the one the workflow expected.
\<close>

theorem publication_committed_once:
  assumes "pub_reach D cd (pw_publications pw)" "digest32 D"
    and "pe_digest en = D" "pe_publication_codec en = cd" "pe_digest en' = D" "pe_publication_codec en' = cd"
    and "commit_publication en w pw = (res, pw1)"
    and "pub_mem (pw_publications pw1) \<noteq> pub_mem (pw_publications pw)"
    and "pub_steps D cd (pw_publications pw1) st2"
    and "wf_checkpoint w = Wc_ReleaseValidated" "workflow_validate w = Inr ()"
      "length (wf_evidence w) < 2 ^ 32 - 1"
    and "wf_get fl (wf_id w) = Some w" "pe_flow_io en' 1 = Appended"
  shows "\<exists>o' w' fl'. pub_operation (pw_publications pw1) (op_id o') = Some o' \<and>
    op_desired_generation o' = sat_inc (wf_expected_generation w) \<and>
    commit_publication en' w (pw1\<lparr>pw_publications := st2, pw_flows := fl\<rparr>) =
      (Inr (), pw1\<lparr>pw_publications := st2, pw_flows := fl'\<rparr>) \<and>
    wf_get fl' (wf_id w) = Some w' \<and> wf_checkpoint w' = Wc_DesiredStateCommitted \<and>
    wf_publication_operation_id w' = Some (op_id o')"
proof -
  let ?pw2 = "pw1\<lparr>pw_publications := st2, pw_flows := fl\<rparr>"
  obtain rid ns where rid: "wf_release_id w = Some rid"
      and ns: "bt_get (pw_namespaces pw) (wf_project_id w) = Some ns"
    using assms(7,8) by (auto simp: commit_publication_def context_or_def split: option.splits)
  let ?i = "publication_intent_of w rid ns"
  obtain r st1 where c: "pub_commit_intent D cd (pe_clock en 0) (pe_rng en) (pe_publication_io en) ?i
      (pw_publications pw) = (r, st1)" by fastforce
  have pw1: "pw_publications pw1 = st1" "pw_namespaces pw1 = pw_namespaces pw"
    using assms(3,4,7) c rid ns
    by (auto simp: commit_publication_def context_or_def commit_publication_intent_def flow_advance_unit_def
        flow_advance_def split: sum.splits prod.splits)
  obtain o' p q where ret: "pub_operation st1 (op_id o') = Some o'" "op_id p = op_id o'"
      "op_request_hash p = intent_request_hash D ?i"
      "op_desired_generation o' = next_generation ?i (pub_mem (pw_publications pw))"
      "validate_compare_and_set (pub_runtime (pw_publications pw) (in_project_id ?i)) ?i = Inr ()"
      "pub_commit_intent D cd (pe_clock en' 0) (pe_rng en') (pe_publication_io en') ?i st2 = (Inr (p, q), st2)"
    using retried_intent [OF assms(1) c, of st2] assms(8,9) pw1(1) by blast
  have gen: "op_desired_generation o' = sat_inc (wf_expected_generation w)"
    using ret(4,5)
    by (auto simp: validate_compare_and_set_def next_generation_def pub_runtime_def publication_intent_of_def
        sat_inc_def split: option.splits if_splits)
  let ?a = "(no_advance (op_request_hash p))\<lparr>aa_child_operation_id := Some (op_id p),
      aa_publication_operation_id := Some (op_id p)\<rparr>"
  have "is_sha256 (aa_input_hash ?a)" using ret(3) intent_hash_sha256 [OF assms(2)] by (simp add: no_advance_def)
  moreover have "wf_get (pw_flows ?pw2) (wf_id w) = Some w" using assms(13) by simp
  moreover have "checkpoint_rank (wf_checkpoint w) \<le> checkpoint_rank Wc_DesiredStateCommitted"
    using assms(10) by simp
  ultimately obtain fl' where adv: "flow_advance_unit en' 1 (wf_id w) Wc_ReleaseValidated
        Ws_DesiredStateCommitted Wc_DesiredStateCommitted ?a ?pw2 = (Inr (), ?pw2\<lparr>pw_flows := fl'\<rparr>)"
      and get: "wf_get fl' (wf_id w) =
        Some (advanced_workflow (pe_clock en' 1) Ws_DesiredStateCommitted Wc_DesiredStateCommitted ?a w)"
    using flow_advance_ok [OF assms(14) _ assms(11) _ stage_attempt_nonzero [OF assms(12)]] assms(10) by metis
  have "commit_publication_intent en' ?i ?pw2 = (Inr p, ?pw2)"
    using ret(6) assms(5,6) by (simp add: commit_publication_intent_def)
  then have "commit_publication en' w ?pw2 = (Inr (), pw1\<lparr>pw_publications := st2, pw_flows := fl'\<rparr>)"
    using rid ns pw1(2) adv by (simp add: commit_publication_def context_or_def)
  then show ?thesis
    using ret(1,2) gen get pw1(1)
    by (intro exI [of _ o'] exI [of _ fl'] exI conjI)
      (auto simp: advanced_workflow_def opt_or_def no_advance_def)
qed

theorem publication_committed_once_witness:
  "\<exists>pw1 o' w' fl'.
    commit_publication (sample_publish_env 3 (AppendFailed 0 ''ENOSPC'')) sample_validated_wf
      (sample_publish_world pub_empty) = (Inl (wf_error_string (Wf_Storage ''ENOSPC'')), pw1) \<and>
    commit_publication (sample_publish_env 4 Appended) sample_validated_wf (pw1\<lparr>pw_flows := sample_flows\<rparr>) =
      (Inr (), pw1\<lparr>pw_flows := fl'\<rparr>) \<and>
    pub_operation (pw_publications pw1) (op_id o') = Some o' \<and> op_desired_generation o' = 1 \<and>
    wf_publication_operation_id w' = Some (op_id o') \<and>
    wf_get fl' (wf_id sample_wf) = Some w'"
proof -
  let ?en = "sample_publish_env 3 (AppendFailed 0 ''ENOSPC'')" and ?w = sample_validated_wf
  let ?pw = "sample_publish_world pub_empty"
  obtain o' r st' where run: "pub_commit_intent end_digest null_pub_codec 3 second_rng io_ok
      (publication_intent_of ?w ''rel'' ''ws-a'') pub_empty = (Inr (o', r), st')"
      "pub_mem st' \<noteq> pub_mem pub_empty" using sample_flow_commit [of 3] by blast
  have hash: "is_sha256 (op_request_hash o')"
    using committed_intent(4) [OF pub_reach_inv [OF pub_reach_empty] run(1)] intent_hash_sha256 [OF end_digest32]
    by simp
  let ?a = "(no_advance (op_request_hash o'))\<lparr>aa_child_operation_id := Some (op_id o'),
      aa_publication_operation_id := Some (op_id o')\<rparr>"
  have "workflow_validate (advanced_workflow 3 Ws_DesiredStateCommitted Wc_DesiredStateCommitted ?a ?w) = Inr ()"
    by (rule advanced_valid) (use hash stage_attempt_nonzero [of ?w] in \<open>simp_all add: no_advance_def\<close>)
  then have adv: "wf_advance null_workflow_codec 3 (AppendFailed 0 ''ENOSPC'') (wf_id sample_wf)
      Wc_ReleaseValidated Ws_DesiredStateCommitted Wc_DesiredStateCommitted ?a sample_flows =
      (Inl (Wf_Storage ''ENOSPC''), sample_flows\<lparr>wfs_log := Some (log_bytes (wfs_log sample_flows))\<rparr>)"
    using hash by (simp add: wf_advance_def sample_flows_get Let_def wf_put_def wf_append_def
        append_line_def no_advance_def)
  let ?pw1 = "?pw\<lparr>pw_publications := st',
    pw_flows := sample_flows\<lparr>wfs_log := Some (log_bytes (wfs_log sample_flows))\<rparr>\<rparr>"
  have c: "commit_publication ?en ?w ?pw = (Inl (wf_error_string (Wf_Storage ''ENOSPC'')), ?pw1)"
    using run(1) adv by (simp add: commit_publication_def context_or_def commit_publication_intent_def
        flow_advance_unit_def flow_advance_def)
  have reach: "pub_reach end_digest null_pub_codec (pw_publications ?pw)" by (simp add: pub_reach_empty)
  have neq: "pub_mem (pw_publications ?pw1) \<noteq> pub_mem (pw_publications ?pw)" using run(2) by simp
  have "\<exists>o' w' fl'. pub_operation (pw_publications ?pw1) (op_id o') = Some o' \<and>
    op_desired_generation o' = sat_inc (wf_expected_generation ?w) \<and>
    commit_publication (sample_publish_env 4 Appended) ?w (?pw1\<lparr>pw_publications := st', pw_flows := sample_flows\<rparr>) =
      (Inr (), ?pw1\<lparr>pw_publications := st', pw_flows := fl'\<rparr>) \<and>
    wf_get fl' (wf_id ?w) = Some w' \<and> wf_checkpoint w' = Wc_DesiredStateCommitted \<and>
    wf_publication_operation_id w' = Some (op_id o')"
    by (rule publication_committed_once [OF reach end_digest32 _ _ _ _ c neq]) (simp_all add: sample_flows_get)
  then obtain o'' w' fl' where q: "pub_operation (pw_publications ?pw1) (op_id o'') = Some o''"
      "op_desired_generation o'' = sat_inc (wf_expected_generation ?w)"
      "commit_publication (sample_publish_env 4 Appended) ?w (?pw1\<lparr>pw_publications := st', pw_flows := sample_flows\<rparr>) =
        (Inr (), ?pw1\<lparr>pw_publications := st', pw_flows := fl'\<rparr>)"
      "wf_get fl' (wf_id ?w) = Some w'" "wf_publication_operation_id w' = Some (op_id o'')" by blast
  show ?thesis
    using c q by (intro exI [of _ ?pw1] exI [of _ o''] exI [of _ w'] exI [of _ fl']) (simp add: sat_inc_def)
qed

text \<open>
  C24. The rollback of an old workflow takes back a newer publication. The operation of a workflow was
  left unfinished and another intent, a newer one, was committed for the project; the old operation
  can then never finish. When its time is up the workflow rolls back \<^emph>\<open>from the state it finds\<close>: its
  intent names the current generation and release, so it passes the compare-and-set, the project is
  told to go back to the release it served before, and the newer operation never completes.
\<close>

theorem rollback_overrides_newer:
  assumes "pub_reach D cd (pw_publications pw)" "digest32 D"
    and "pe_digest en = D" "pe_publication_codec en = cd" "pe_publication_io en = io_ok"
    and "wf_publication_operation_id w = Some (op_id old)"
      "pub_operation (pw_publications pw) (op_id old) = Some old" "op_status old = Op_ReconcileRequired"
    and "publication_failure_window_expired_at w (pe_clock en 0)"
    and "pub_runtime (pw_publications pw) (wf_project_id w) = Some r" "rt_desired_generation r \<noteq> - 1"
    and "pub_operation (pw_publications pw) (op_id newer) = Some newer" "\<not> op_is_terminal (op_status newer)"
      "op_project_id newer = wf_project_id w" "op_desired_generation newer = rt_desired_generation r"
      "op_desired_generation old < op_desired_generation newer"
    and "bt_get (pw_namespaces pw) (wf_project_id w) = Some (rt_workspace_namespace r)"
    and "validate_intent (rollback_intent_of w r (rt_workspace_namespace r)) = Inr ()"
      "bt_get (ps_operation_by_idempotency (pub_mem (pw_publications pw)))
        (intent_key D (rollback_intent_of w r (rt_workspace_namespace r))) = None"
      "pub_operation (pw_publications pw)
        (operation_id_of D (rollback_intent_of w r (rt_workspace_namespace r))) = None"
      "is_ok (allocate_host_slug D (pe_rng en) (pub_mem (pw_publications pw)))"
  shows "\<exists>res pw1 q. observe_publication en w pw = (res, pw1) \<and>
    pub_runtime (pw_publications pw1) (wf_project_id w) = Some q \<and>
    rt_desired_generation q = rt_desired_generation r + 1 \<and>
    rt_desired_release_id q = rt_current_release_id r \<and>
    (\<forall>st. pub_steps D cd (pw_publications pw1) st \<longrightarrow> pub_operation st (op_id newer) = Some newer)"
proof -
  let ?i = "rollback_intent_of w r (rt_workspace_namespace r)" and ?st = "pw_publications pw"
  have inv: "pub_inv D (pub_mem ?st)" by (rule pub_reach_inv [OF assms(1)])
  have ip: "in_project_id ?i = wf_project_id w" by (simp add: rollback_intent_of_def)
  have cas: "validate_compare_and_set (bt_get (ps_runtimes (pub_mem ?st)) (in_project_id ?i)) ?i = Inr ()"
    using assms(10) by (auto simp: validate_compare_and_set_def rollback_intent_of_def pub_runtime_def
        split: option.splits)
  obtain slug where slug: "allocate_host_slug D (pe_rng en) (pub_mem ?st) = Inr slug"
    using assms(21) by (auto simp: is_ok_ex)
  obtain o' q st' where run: "pub_commit_intent D cd (pe_clock en 0) (pe_rng en) io_ok ?i ?st = (Inr (o', q), st')"
      and q: "q = intent_runtime ?i (next_generation ?i (pub_mem ?st)) (pe_clock en 0)
        (intent_base D ?i slug (pe_clock en 0) (pub_mem ?st))"
    using pub_intent_ok(1) [OF inv assms(18,2,19) _ cas slug refl refl refl refl, of cd "pe_clock en 0"] assms(20)
    by (metis prod.collapse pub_operation_def)
  note c = committed_new_intent [OF inv run assms(19)]
  have ng: "next_generation ?i (pub_mem ?st) = rt_desired_generation r + 1"
    using assms(10,11) by (simp add: next_generation_def ip pub_runtime_def sat_inc_def)
  have rel: "rt_desired_release_id q = rt_current_release_id r"
    by (simp add: q intent_runtime_def rollback_intent_of_def)
  have "op_id newer \<noteq> op_id o'"
    using assms(12,20) unfolding c(2) by auto
  then have keep: "bt_get (ps_operations (pub_mem st')) (op_id newer) = Some newer"
    using c(9) assms(12) by (simp add: pub_operation_def)
  have lt: "op_desired_generation newer < rt_desired_generation q"
    using sat_inc_gt [OF assms(11)] assms(11) c(3) ng assms(15) by (simp add: sat_inc_def)
  have "pub_step D cd ?st st'" using ps_intent [of D cd ?st "pe_clock en 0" "pe_rng en" io_ok ?i] run by simp
  then have inv': "pub_inv D (pub_mem st')" by (rule pub_inv_step [OF inv])
  have qr: "bt_get (ps_runtimes (pub_mem st')) (op_project_id newer) = Some q"
    using c(6) ip assms(14) by simp
  obtain res pw1 where obs: "observe_publication en w pw = (res, pw1)" by fastforce
  then have "pw_publications pw1 = st'"
    using assms(3-10,17) run
    by (auto simp: observe_publication_def begin_rollback_def context_or_def commit_publication_intent_def
        flow_advance_unit_def flow_advance_def Let_def split: prod.splits)
  then show ?thesis
    using obs c(3,6) ip ng rel pub_steps_frozen [OF _ inv' keep qr lt]
    by (intro exI [of _ res] exI [of _ pw1] exI [of _ q]) (simp add: pub_runtime_def pub_operation_def)
qed

text \<open>
  The store of the witness: the project \<open>p1\<close> serves \<open>rel\<close>; an update to \<open>rel2\<close> failed, and one to
  \<open>rel3\<close> was committed after it.
\<close>

definition sample_project :: "publication_store \<Rightarrow> work_runtime_state \<Rightarrow> bool" where
  "sample_project st r \<longleftrightarrow> pub_reach end_digest null_pub_codec st \<and>
     bt_get (ps_runtimes (pub_mem st)) ''p1'' = Some r \<and>
     (\<forall>k q. bt_get (ps_runtimes (pub_mem st)) k = Some q \<longrightarrow>
        k = ''p1'' \<and> rt_host_slug q = host_candidate end_digest (sample_rng 0))"

lemma sample_project_slug:
  assumes "sample_project st r"
  shows "\<exists>c. allocate_host_slug end_digest second_rng (pub_mem st) = Inr c"
proof -
  have wf: "bt_wf (ps_runtimes (pub_mem st))"
    using pub_invD(3) [OF pub_reach_inv] assms by (auto simp: sample_project_def)
  have "host_candidate end_digest (second_rng 0) \<noteq> host_candidate end_digest (sample_rng 0)"
    by (simp add: Let_def host_candidate_def second_rng_def sample_rng_def sha256_hex_def end_digest_def
        hex_byte_def hex_digit_def)
  then have "list_all (\<lambda>q. rt_host_slug q \<noteq> host_candidate end_digest (second_rng 0))
      (bt_values (ps_runtimes (pub_mem st)))"
    using assms by (auto simp: list_all_iff bt_in_values [OF wf] sample_project_def)
  then show ?thesis by (simp add: allocate_host_slug_def upt_rec)
qed

lemma sample_project_intent:
  assumes sp: "sample_project st r" and v: "validate_intent i = Inr ()" and p: "in_project_id i = ''p1''"
    and key: "bt_get (ps_operation_by_idempotency (pub_mem st)) (intent_key end_digest i) = None"
    and fresh: "bt_get (ps_operations (pub_mem st)) (operation_id_of end_digest i) = None"
    and cas: "validate_compare_and_set (Some r) i = Inr ()"
  shows "\<exists>o' q b st'. o' = intent_operation end_digest i (sat_inc (rt_desired_generation r)) now \<and>
    q = intent_runtime i (sat_inc (rt_desired_generation r)) now r \<and> sample_project st' q \<and>
    triple_at (pub_mem st') (outbox_id_of (op_id o')) o' q b \<and> outbox_linked o' q b \<and>
    bt_get (ps_operations (pub_mem st')) (op_id o') = Some o' \<and>
    (\<forall>k. k \<noteq> op_id o' \<longrightarrow> bt_get (ps_operations (pub_mem st')) k = bt_get (ps_operations (pub_mem st)) k) \<and>
    (\<forall>k. k \<noteq> intent_key end_digest i \<longrightarrow> bt_get (ps_operation_by_idempotency (pub_mem st')) k =
       bt_get (ps_operation_by_idempotency (pub_mem st)) k)"
proof -
  have reach: "pub_reach end_digest null_pub_codec st"
    and at: "bt_get (ps_runtimes (pub_mem st)) (in_project_id i) = Some r"
    using sp p by (simp_all add: sample_project_def)
  note inv = pub_reach_inv [OF reach]
  have cas': "validate_compare_and_set (bt_get (ps_runtimes (pub_mem st)) (in_project_id i)) i = Inr ()"
    using cas at by simp
  obtain slug where slug: "allocate_host_slug end_digest second_rng (pub_mem st) = Inr slug"
    using sample_project_slug [OF sp] by blast
  let ?g = "sat_inc (rt_desired_generation r)"
  let ?st = "snd (pub_commit_intent end_digest null_pub_codec now second_rng io_ok i st)"
  let ?o = "intent_operation end_digest i ?g now" and ?q = "intent_runtime i ?g now r"
  have g: "?g = next_generation i (pub_mem st)" using at by (simp add: next_generation_def)
  have q: "?q = intent_runtime i ?g now (intent_base end_digest i slug now (pub_mem st))"
    using at by (simp add: intent_base_def)
  note ok = pub_intent_ok(1,2) [OF inv v end_digest32 key fresh cas' slug g refl q refl, of null_pub_codec]
    pub_intent_ok(3) [OF inv v end_digest32 key fresh cas' slug g refl q refl]
  have run: "pub_commit_intent end_digest null_pub_codec now second_rng io_ok i st = (Inr (?o, ?q), ?st)"
    using ok(1) by (metis prod.collapse)
  note c = committed_new_intent [OF inv run key]
  have slug_q: "rt_host_slug ?q = rt_host_slug r" by (simp add: intent_runtime_def)
  have "sample_project ?st ?q"
    unfolding sample_project_def
  proof (intro conjI allI impI)
    show "pub_reach end_digest null_pub_codec ?st" by (rule pr_step [OF reach ps_intent])
    show "bt_get (ps_runtimes (pub_mem ?st)) ''p1'' = Some ?q" using c(6) p by simp
    fix k x assume x: "bt_get (ps_runtimes (pub_mem ?st)) k = Some x"
    show "k = ''p1''" using x c(10) [of k] p sp by (cases "k = ''p1''") (auto simp: sample_project_def)
    show "rt_host_slug x = host_candidate end_digest (sample_rng 0)"
      using x c(6) c(10) [of k] p sp slug_q by (cases "k = ''p1''") (auto simp: sample_project_def)
  qed
  then show ?thesis
    using ok(2,3) c(5,8,9) by (intro exI [of _ ?o] exI [of _ ?q] exI exI [of _ ?st] conjI) auto
qed

text \<open>Recording something for an event keeps the other operations, the index and the other projects.\<close>

lemma sample_project_update:
  assumes sp: "sample_project st r0" and f: "pub_upd f" and step: "pub_step end_digest null_pub_codec st
      (snd (pub_update_outbox end_digest null_pub_codec now io_ok bid f st))"
    and at: "triple_at (pub_mem st) bid o' r b" and link: "outbox_linked o' r b"
    and run: "f o' r b = Inr (o1, r1, b1)"
  shows "\<exists>st'. sample_project st' (r1\<lparr>rt_updated_at := now\<rparr>) \<and>
    triple_at (pub_mem st') bid (o1\<lparr>op_updated_at := now\<rparr>) (r1\<lparr>rt_updated_at := now\<rparr>) (b1\<lparr>ob_updated_at := now\<rparr>) \<and>
    outbox_linked (o1\<lparr>op_updated_at := now\<rparr>) (r1\<lparr>rt_updated_at := now\<rparr>) (b1\<lparr>ob_updated_at := now\<rparr>) \<and>
    bt_get (ps_operations (pub_mem st')) (op_id o') = Some (o1\<lparr>op_updated_at := now\<rparr>) \<and>
    (\<forall>k. k \<noteq> op_id o' \<longrightarrow> bt_get (ps_operations (pub_mem st')) k = bt_get (ps_operations (pub_mem st)) k) \<and>
    (\<forall>k. k \<noteq> op_key end_digest o' \<longrightarrow> bt_get (ps_operation_by_idempotency (pub_mem st')) k =
       bt_get (ps_operation_by_idempotency (pub_mem st)) k)"
proof -
  have reach: "pub_reach end_digest null_pub_codec st" using sp by (simp add: sample_project_def)
  note inv = pub_reach_inv [OF reach]
  let ?st = "snd (pub_update_outbox end_digest null_pub_codec now io_ok bid f st)"
  let ?o = "o1\<lparr>op_updated_at := now\<rparr>" and ?r = "r1\<lparr>rt_updated_at := now\<rparr>" and ?b = "b1\<lparr>ob_updated_at := now\<rparr>"
  note ok = pub_update_ok [OF inv f at link run refl refl refl]
  have id: "op_ident o1 = op_ident o'" "rt_ident r1 = rt_ident r" "ob_ident b1 = ob_ident b"
    using pub_upd_ident [OF f run] by blast+
  note ids = op_identD [OF id(1)] rt_identD [OF id(2)]
  let ?key = "scoped_key end_digest (op_project_id o1) (op_idempotency_key_hash o1)"
  let ?P = "pub_persist_commit end_digest null_pub_codec io_ok ?o ?r ?b ?key st"
  have u: "fst ?P = Inr ()" "?st = snd ?P"
    using ok(1) [of null_pub_codec now] unfolding pub_update_eq [where f = f, OF at link run]
    by (auto split: prod.splits sum.splits)
  from pub_persist_ok_mem [OF u(1)] have app: "pub_apply_commit_with_key (pub_mem st)
      \<lparr>pc_sequence = sat_inc (ps_sequence (pub_mem st)), pc_operation = ?o, pc_runtime = ?r,
       pc_outbox = ?b\<rparr> ?key = Inr (pub_mem ?st)" unfolding u(2) by blast
  have key: "?key = op_key end_digest o'" using ids by (simp add: op_key_def)
  note get = pub_apply_get(1,2,4) [OF app, unfolded key]
  have "rt_project_id r = ''p1'' \<and> rt_host_slug r = host_candidate end_digest (sample_rng 0)"
    using at sp link by (auto simp: triple_at_def sample_project_def outbox_linked_def)
  then have "rt_project_id r1 = ''p1''" "rt_host_slug r1 = host_candidate end_digest (sample_rng 0)"
    using ids by simp_all
  then have "sample_project ?st ?r"
    using sp pr_step [OF reach step] get(2) by (auto simp: sample_project_def split: if_splits)
  then show ?thesis
    using ok(2) [of null_pub_codec now] ok(3) [of now] get(1,3) ids by (intro exI [of _ ?st] conjI) auto
qed

text \<open>Keys of the sample project; those whose last bytes differ in the low digit are different.\<close>

definition sample_key :: "string \<Rightarrow> string" where
  "sample_key k = scoped_key end_digest ''p1'' (sha256_hex end_digest k)"

definition sample_op_id :: "string \<Rightarrow> string" where
  "sample_op_id k = ''operation-'' @ take 32 (sample_key k)"

definition sample_free :: "publication_store \<Rightarrow> nat set \<Rightarrow> bool" where
  "sample_free st used \<longleftrightarrow> (\<forall>k. k \<noteq> [] \<longrightarrow> code (last k) mod 16 \<notin> used \<longrightarrow>
     bt_get (ps_operation_by_idempotency (pub_mem st)) (sample_key k) = None \<and>
     bt_get (ps_operations (pub_mem st)) (sample_op_id k) = None)"

lemma sample_key_eqs:
  assumes "in_project_id i = ''p1''" "in_idempotency_key i = k"
  shows "intent_key end_digest i = sample_key k" "operation_id_of end_digest i = sample_op_id k"
  using assms by (simp_all add: intent_key_def intent_key_hash_def sample_key_def sample_op_id_def
      operation_id_of_def)

lemma sample_key_ne:
  assumes "k \<noteq> []" "l \<noteq> []" "code (last k) mod 16 \<noteq> code (last l) mod 16"
  shows "sample_key k \<noteq> sample_key l" "sample_op_id k \<noteq> sample_op_id l"
proof -
  have form: "\<exists>t. sample_key m = hex_byte (hex_digit (code (last m) mod 16)) @ t" if "m \<noteq> []" for m
    using end_digest_key [of "sample_intent Kind_Publish m 0"] that
      sample_key_eqs(1) [of "sample_intent Kind_Publish m 0" m]
    by (auto simp: sample_intent_def)
  obtain t where t: "sample_key k = hex_byte (hex_digit (code (last k) mod 16)) @ t"
    using form [OF assms(1)] by blast
  obtain u where u: "sample_key l = hex_byte (hex_digit (code (last l) mod 16)) @ u"
    using form [OF assms(2)] by blast
  have "hex_byte (hex_digit (code (last k) mod 16)) \<noteq> hex_byte (hex_digit (code (last l) mod 16))"
    using assms(3) hex_byte_inj hex_digit_inj [of "code (last k) mod 16" "code (last l) mod 16"] by auto
  then have ne: "take 32 (sample_key k) \<noteq> take 32 (sample_key l)"
    unfolding t u using length_hex_byte by (simp add: append_eq_append_conv)
  then show "sample_key k \<noteq> sample_key l" "sample_op_id k \<noteq> sample_op_id l"
    by (auto simp: sample_op_id_def)
qed

lemma sample_free_keep:
  assumes "sample_free st used" "l \<noteq> []" "code (last l) mod 16 \<in> used'" "used \<subseteq> used'"
    and "\<forall>k. k \<noteq> sample_op_id l \<longrightarrow> bt_get (ps_operations (pub_mem st')) k = bt_get (ps_operations (pub_mem st)) k"
    and "\<forall>k. k \<noteq> sample_key l \<longrightarrow> bt_get (ps_operation_by_idempotency (pub_mem st')) k =
       bt_get (ps_operation_by_idempotency (pub_mem st)) k"
  shows "sample_free st' used'"
  unfolding sample_free_def
proof (intro allI impI)
  fix k assume k: "k \<noteq> []" "code (last k) mod 16 \<notin> used'"
  then have "code (last k) mod 16 \<noteq> code (last l) mod 16" using assms(3) by metis
  from sample_key_ne [OF k(1) assms(2) this] k assms
  show "bt_get (ps_operation_by_idempotency (pub_mem st')) (sample_key k) = None \<and>
      bt_get (ps_operations (pub_mem st')) (sample_op_id k) = None"
    by (auto simp: sample_free_def)
qed

lemma sample_published_project:
  "\<exists>r. sample_project sample_published r \<and> triple_at (pub_mem sample_published) sample_bid so0 r sb0 \<and>
     outbox_linked so0 r sb0 \<and> sample_free sample_published {1} \<and> rt_desired_generation r = 1 \<and>
     rt_workspace_namespace r = ''ws-a'' \<and> rt_desired_release_id r = Some ''rel''"
proof -
  obtain slug where run: "pub_commit_intent end_digest null_pub_codec 1 sample_rng io_ok
      (sample_intent Kind_Publish ''k1'' 0) pub_empty = (Inr (so0, sr_base slug), sample_published)"
    using sample_published_run by blast
  obtain slug' where at: "triple_at (pub_mem sample_published) sample_bid so0 (sr_base slug') sb0"
    "outbox_linked so0 (sr_base slug') sb0" using sample_published_ok by blast
  note key = sample_key_eqs [of "sample_intent Kind_Publish ''k1'' 0" "''k1''"]
  note c = committed_new_intent [OF pub_reach_inv [OF pub_reach_empty] run]
  have "sample_free pub_empty {}" by (simp add: sample_free_def)
  then have free: "sample_free sample_published {1}"
    by (rule sample_free_keep [of _ _ "''k1''"]) (use c(8,9) key in \<open>auto simp: sample_intent_def so0_def\<close>)
  have at': "bt_get (ps_runtimes (pub_mem sample_published)) ''p1'' = Some (sr_base slug')"
    using at by (auto simp: triple_at_def sb0_def intent_outbox_def sample_intent_def)
  have "sample_project sample_published (sr_base slug')"
    unfolding sample_project_def
  proof (intro conjI allI impI)
    fix k q assume q: "bt_get (ps_runtimes (pub_mem sample_published)) k = Some q"
    then show "k = ''p1''" "rt_host_slug q = host_candidate end_digest (sample_rng 0)"
      using sample_published_runtime [of k] by (auto split: if_splits)
  qed (use at' sample_reach_published in simp_all)
  moreover have "rt_desired_generation (sr_base slug') = 1 \<and> rt_workspace_namespace (sr_base slug') = ''ws-a'' \<and>
      rt_desired_release_id (sr_base slug') = Some ''rel''"
    by (simp add: sr_base_def sample_intent_def intent_runtime_def initial_runtime_def Let_def)
  ultimately show ?thesis using at free by blast
qed

definition sample_update :: "string \<Rightarrow> string \<Rightarrow> u64 \<Rightarrow> publication_intent" where
  "sample_update key rid g = \<lparr>in_project_id = ''p1'', in_workspace_namespace = ''ws-a'', in_kind = Kind_Update,
     in_release_id = Some rid, in_expected_current_release_id = Some ''rel'', in_expected_generation = Some g,
     in_runtime_profile_id = ''static-web-v1'', in_idempotency_key = key\<rparr>"

lemma sample_update_valid:
  "\<not> is_blank key \<Longrightarrow> length key \<le> 256 \<Longrightarrow> rid \<noteq> [] \<Longrightarrow> validate_intent (sample_update key rid g) = Inr ()"
  by (auto simp: validate_intent_def sample_update_def validate_workspace_namespace_def starts_with_def
      string_defs intent_fields_def is_blank_ascii none_or_empty_def)

lemma sample_completed_project:
  "\<exists>st r. sample_project st r \<and> sample_free st {1} \<and> rt_desired_generation r = 1 \<and>
     rt_workspace_namespace r = ''ws-a'' \<and> rt_current_release_id r = Some ''rel''"
proof -
  obtain r where r: "sample_project sample_published r" "triple_at (pub_mem sample_published) sample_bid so0 r sb0"
      "outbox_linked so0 r sb0" "sample_free sample_published {1}" "rt_desired_generation r = 1"
      "rt_workspace_namespace r = ''ws-a''" "rt_desired_release_id r = Some ''rel''"
    using sample_published_project by blast
  have f: "pub_upd (workload_ready_upd (\<lambda>_. 2) (sample_ready True))"
    by (rule pu_ready) (simp_all add: sample_ready_def)
  have "\<exists>q. workload_ready_upd (\<lambda>_. 2) (sample_ready True) so0 r sb0 = Inr q"
    using r by (simp add: workload_ready_upd_def outbox_linked_def)
  then obtain o1 r1 b1 where run: "workload_ready_upd (\<lambda>_. 2) (sample_ready True) so0 r sb0 = Inr (o1, r1, b1)"
    by (metis prod_cases3)
  note fields = workload_ready_fields [OF run]
  have step: "pub_step end_digest null_pub_codec sample_published (snd (pub_update_outbox end_digest
      null_pub_codec 2 io_ok sample_bid (workload_ready_upd (\<lambda>_. 2) (sample_ready True)) sample_published))"
    using ps_ready [of end_digest null_pub_codec sample_published "\<lambda>_. 2" io_ok sample_bid "sample_ready True"]
    by (simp add: pub_record_workload_ready_def sample_ready_def)
  obtain st' where st': "sample_project st' (r1\<lparr>rt_updated_at := 2\<rparr>)"
      "\<forall>k. k \<noteq> op_id so0 \<longrightarrow> bt_get (ps_operations (pub_mem st')) k = bt_get (ps_operations (pub_mem sample_published)) k"
      "\<forall>k. k \<noteq> op_key end_digest so0 \<longrightarrow> bt_get (ps_operation_by_idempotency (pub_mem st')) k =
         bt_get (ps_operation_by_idempotency (pub_mem sample_published)) k"
    using sample_project_update [OF r(1) f step r(2,3) run] by blast
  note key = sample_key_eqs [of "sample_intent Kind_Publish ''k1'' 0" "''k1''"]
  have "sample_free st' {1}"
    by (rule sample_free_keep [OF r(4), of "''k1''"])
      (use st'(2,3) key in \<open>auto simp: so0_def sample_intent_def\<close>)
  moreover have "rt_desired_generation r1 = 1" "rt_workspace_namespace r1 = ''ws-a''"
      "rt_current_release_id r1 = Some ''rel''"
    using fields(1,7) r(5,6,7) by (auto simp: rt_ident_def)
  ultimately show ?thesis using st'(1) by (intro exI [of _ st'] exI [of _ "r1\<lparr>rt_updated_at := 2\<rparr>"]) simp
qed

lemma sample_update_committed:
  assumes sp: "sample_project st r" and free: "sample_free st used" and key: "key \<noteq> []" "\<not> is_blank key"
      "length key \<le> 256" "code (last key) mod 16 \<notin> used"
    and rid: "rid \<noteq> []"
    and r: "rt_workspace_namespace r = ''ws-a''" "rt_current_release_id r = Some ''rel''" "rt_desired_generation r = g"
      "g \<noteq> - 1"
  shows "\<exists>o' q b st'. o' = intent_operation end_digest (sample_update key rid g) (g + 1) 3 \<and>
    sample_project st' q \<and> rt_workspace_namespace q = ''ws-a'' \<and> rt_current_release_id q = Some ''rel'' \<and>
    rt_desired_generation q = g + 1 \<and> op_id o' = sample_op_id key \<and>
    triple_at (pub_mem st') (outbox_id_of (op_id o')) o' q b \<and> outbox_linked o' q b \<and>
    bt_get (ps_operations (pub_mem st')) (op_id o') = Some o' \<and>
    (\<forall>k. k \<noteq> sample_op_id key \<longrightarrow> bt_get (ps_operations (pub_mem st')) k = bt_get (ps_operations (pub_mem st)) k) \<and>
    sample_free st' (insert (code (last key) mod 16) used)"
proof -
  let ?i = "sample_update key rid g"
  have i: "in_project_id ?i = ''p1''" "in_idempotency_key ?i = key" by (simp_all add: sample_update_def)
  note ks = sample_key_eqs [OF i]
  have cas: "validate_compare_and_set (Some r) ?i = Inr ()"
    using r by (simp add: validate_compare_and_set_def sample_update_def)
  have g: "sat_inc (rt_desired_generation r) = g + 1" using r(3,4) by (simp add: sat_inc_def)
  have new: "bt_get (ps_operation_by_idempotency (pub_mem st)) (intent_key end_digest ?i) = None"
      "bt_get (ps_operations (pub_mem st)) (operation_id_of end_digest ?i) = None"
    using free key(1,4) unfolding ks by (auto simp: sample_free_def)
  obtain o' q b st' where c: "o' = intent_operation end_digest ?i (g + 1) 3" "q = intent_runtime ?i (g + 1) 3 r"
      "sample_project st' q" "triple_at (pub_mem st') (outbox_id_of (op_id o')) o' q b" "outbox_linked o' q b"
      "bt_get (ps_operations (pub_mem st')) (op_id o') = Some o'"
      "\<forall>k. k \<noteq> op_id o' \<longrightarrow> bt_get (ps_operations (pub_mem st')) k = bt_get (ps_operations (pub_mem st)) k"
      "\<forall>k. k \<noteq> intent_key end_digest ?i \<longrightarrow> bt_get (ps_operation_by_idempotency (pub_mem st')) k =
         bt_get (ps_operation_by_idempotency (pub_mem st)) k"
    using sample_project_intent [OF sp sample_update_valid [OF key(2,3) rid] i(1) new cas, of 3]
    unfolding g by blast
  have oid: "op_id o' = sample_op_id key" by (simp add: c(1) ks)
  have "sample_free st' (insert (code (last key) mod 16) used)"
    by (rule sample_free_keep [OF free key(1)]) (use c(7,8) oid ks in auto)
  moreover have "rt_workspace_namespace q = ''ws-a'' \<and> rt_current_release_id q = Some ''rel'' \<and>
      rt_desired_generation q = g + 1"
    using r by (simp add: c(2)) (simp add: intent_runtime_def)
  ultimately show ?thesis
    using c(3-6) oid c(7) [unfolded oid]
    by (intro exI [of _ o'] exI [of _ q] exI [of _ b] exI [of _ st'] conjI c(1)) simp_all
qed

lemma sample_overtaken:
  "\<exists>st r old newer. sample_project st r \<and> sample_free st {1, 2, 3} \<and> rt_desired_generation r = 3 \<and>
     rt_workspace_namespace r = ''ws-a'' \<and> rt_current_release_id r = Some ''rel'' \<and>
     pub_operation st (op_id old) = Some old \<and> op_status old = Op_ReconcileRequired \<and>
     op_desired_generation old = 2 \<and>
     pub_operation st (op_id newer) = Some newer \<and> op_status newer = Op_DesiredStateCommitted \<and>
     op_project_id newer = ''p1'' \<and> op_release_id newer = Some ''rel3'' \<and> op_desired_generation newer = 3"
proof -
  obtain st1 r1 where 1: "sample_project st1 r1" "sample_free st1 {1}" "rt_desired_generation r1 = 1"
      "rt_workspace_namespace r1 = ''ws-a''" "rt_current_release_id r1 = Some ''rel''"
    using sample_completed_project by blast
  have k2: "\<exists>o' q b st'. o' = intent_operation end_digest (sample_update ''k2'' ''rel2'' 1) (1 + 1) 3 \<and>
    sample_project st' q \<and> rt_workspace_namespace q = ''ws-a'' \<and> rt_current_release_id q = Some ''rel'' \<and>
    rt_desired_generation q = 1 + 1 \<and> op_id o' = sample_op_id ''k2'' \<and>
    triple_at (pub_mem st') (outbox_id_of (op_id o')) o' q b \<and> outbox_linked o' q b \<and>
    bt_get (ps_operations (pub_mem st')) (op_id o') = Some o' \<and>
    (\<forall>k. k \<noteq> sample_op_id ''k2'' \<longrightarrow> bt_get (ps_operations (pub_mem st')) k = bt_get (ps_operations (pub_mem st1)) k) \<and>
    sample_free st' (insert (code (last ''k2'') mod 16) {1})"
    by (rule sample_update_committed [OF 1(1,2)]) (use 1 in \<open>simp_all add: is_blank_ascii\<close>)
  then obtain o2 q2 b2 st2 where 2: "o2 = intent_operation end_digest (sample_update ''k2'' ''rel2'' 1) 2 3"
      "sample_project st2 q2" "rt_workspace_namespace q2 = ''ws-a''" "rt_current_release_id q2 = Some ''rel''"
      "rt_desired_generation q2 = 2" "op_id o2 = sample_op_id ''k2''"
      "triple_at (pub_mem st2) (outbox_id_of (op_id o2)) o2 q2 b2" "outbox_linked o2 q2 b2"
      "sample_free st2 {1, 2}"
    by (auto simp: insert_commute)
  let ?f = "reconcile_failure_upd (\<lambda>_. 4) ''backend''"
  let ?o = "o2\<lparr>op_status := Op_ReconcileRequired, op_last_error := Some ''backend'', op_updated_at := 4\<rparr>"
  let ?q = "q2\<lparr>rt_status := Rt_ReconcileRequired, rt_last_error := Some ''backend'', rt_updated_at := 4\<rparr>"
  have step: "pub_step end_digest null_pub_codec st2
      (snd (pub_update_outbox end_digest null_pub_codec 4 io_ok (outbox_id_of (op_id o2)) ?f st2))"
    using ps_failure [of end_digest null_pub_codec st2 "\<lambda>_. 4" io_ok "outbox_id_of (op_id o2)" "''backend''"]
    by (simp add: pub_record_reconcile_failure_def)
  have key2: "op_key end_digest o2 = sample_key ''k2''"
    using sample_key_eqs(1) [of "sample_update ''k2'' ''rel2'' 1" "''k2''"] by (simp add: 2(1) sample_update_def)
  have run: "?f o2 q2 b2 = Inr (o2\<lparr>op_status := Op_ReconcileRequired, op_last_error := Some ''backend''\<rparr>,
      q2\<lparr>rt_status := Rt_ReconcileRequired, rt_last_error := Some ''backend''\<rparr>,
      b2\<lparr>ob_status := Ob_Pending, ob_delivered_at := None, ob_last_error := Some ''backend'',
        ob_next_attempt_at := 4 + seconds 2\<rparr>)"
    by (simp add: reconcile_failure_upd_def)
  from sample_project_update [OF 2(2) pu_failure step 2(7,8) run]
  obtain st3 where 3: "sample_project st3 ?q" "bt_get (ps_operations (pub_mem st3)) (op_id o2) = Some ?o"
      "\<forall>k. k \<noteq> op_id o2 \<longrightarrow> bt_get (ps_operations (pub_mem st3)) k = bt_get (ps_operations (pub_mem st2)) k"
      "\<forall>k. k \<noteq> op_key end_digest o2 \<longrightarrow> bt_get (ps_operation_by_idempotency (pub_mem st3)) k =
         bt_get (ps_operation_by_idempotency (pub_mem st2)) k"
    by (elim exE conjE) (rule that)
  have free3: "sample_free st3 {1, 2}"
    by (rule sample_free_keep [OF 2(9), of "''k2''"]) (use 3(3,4) 2(6) key2 in auto)
  have k3: "\<exists>o' q b st'. o' = intent_operation end_digest (sample_update ''k3'' ''rel3'' 2) (2 + 1) 3 \<and>
    sample_project st' q \<and> rt_workspace_namespace q = ''ws-a'' \<and> rt_current_release_id q = Some ''rel'' \<and>
    rt_desired_generation q = 2 + 1 \<and> op_id o' = sample_op_id ''k3'' \<and>
    triple_at (pub_mem st') (outbox_id_of (op_id o')) o' q b \<and> outbox_linked o' q b \<and>
    bt_get (ps_operations (pub_mem st')) (op_id o') = Some o' \<and>
    (\<forall>k. k \<noteq> sample_op_id ''k3'' \<longrightarrow> bt_get (ps_operations (pub_mem st')) k = bt_get (ps_operations (pub_mem st3)) k) \<and>
    sample_free st' (insert (code (last ''k3'') mod 16) {1, 2})"
    by (rule sample_update_committed [OF 3(1) free3]) (use 2 in \<open>simp_all add: is_blank_ascii\<close>)
  then obtain o4 q4 st4 where 4: "o4 = intent_operation end_digest (sample_update ''k3'' ''rel3'' 2) 3 3"
      "sample_project st4 q4" "rt_workspace_namespace q4 = ''ws-a''" "rt_current_release_id q4 = Some ''rel''"
      "rt_desired_generation q4 = 3" "op_id o4 = sample_op_id ''k3''"
      "bt_get (ps_operations (pub_mem st4)) (op_id o4) = Some o4"
      "\<forall>k. k \<noteq> sample_op_id ''k3'' \<longrightarrow> bt_get (ps_operations (pub_mem st4)) k = bt_get (ps_operations (pub_mem st3)) k"
      "sample_free st4 {1, 2, 3}"
    by (auto simp: insert_commute)
  have "sample_op_id ''k2'' \<noteq> sample_op_id ''k3''" by (rule sample_key_ne(2)) simp_all
  then have "pub_operation st4 (op_id ?o) = Some ?o" using 3(2) 4(8) 2(6) by (simp add: pub_operation_def)
  moreover have "op_desired_generation ?o = 2" by (simp add: 2(1))
  moreover have "op_status o4 = Op_DesiredStateCommitted" "op_project_id o4 = ''p1''"
      "op_release_id o4 = Some ''rel3''" "op_desired_generation o4 = 3"
    by (simp_all add: 4(1)) (simp_all add: intent_operation_def sample_update_def)
  ultimately show ?thesis
    using 4 by (intro exI [of _ st4] exI [of _ q4] exI [of _ ?o] exI [of _ o4]) (simp add: pub_operation_def)
qed

definition sample_waiting_wf :: "string \<Rightarrow> publish_workflow" where
  "sample_waiting_wf oid = sample_validated_wf\<lparr>wf_id := ''w'', wf_project_id := ''p1'',
     wf_checkpoint := Wc_DesiredStateCommitted, wf_publication_operation_id := Some oid,
     wf_evidence := [\<lparr>ev_stage = Wc_DesiredStateCommitted, ev_input_hash = sample_hash,
       ev_child_operation_id = Some oid, ev_attempt = 1, ev_completed_at = 0\<rparr>]\<rparr>"

theorem rollback_overrides_newer_witness:
  "\<exists>st r old newer res pw1 q.
    pub_runtime st ''p1'' = Some r \<and> rt_desired_generation r = 3 \<and> op_release_id newer = Some ''rel3'' \<and>
    pub_operation st (op_id old) = Some old \<and> op_desired_generation old = 2 \<and>
    observe_publication (sample_publish_env (seconds 500) Appended) (sample_waiting_wf (op_id old))
      ((sample_publish_world st)\<lparr>pw_namespaces := bt_insert ''p1'' ''ws-a'' bt_empty\<rparr>) = (res, pw1) \<and>
    pub_runtime (pw_publications pw1) ''p1'' = Some q \<and> rt_desired_generation q = 4 \<and>
    rt_desired_release_id q = Some ''rel'' \<and>
    pub_operation (pw_publications pw1) (op_id newer) = Some newer \<and> \<not> op_is_terminal (op_status newer)"
proof -
  obtain st r old newer where 1: "sample_project st r" "sample_free st {1, 2, 3}" "rt_desired_generation r = 3"
      "rt_workspace_namespace r = ''ws-a''" "rt_current_release_id r = Some ''rel''"
      "pub_operation st (op_id old) = Some old" "op_status old = Op_ReconcileRequired"
      "op_desired_generation old = 2" "pub_operation st (op_id newer) = Some newer"
      "op_status newer = Op_DesiredStateCommitted" "op_project_id newer = ''p1''"
      "op_release_id newer = Some ''rel3''" "op_desired_generation newer = 3"
    using sample_overtaken by blast
  let ?w = "sample_waiting_wf (op_id old)" and ?en = "sample_publish_env (seconds 500) Appended"
  let ?pw = "(sample_publish_world st)\<lparr>pw_namespaces := bt_insert ''p1'' ''ws-a'' bt_empty\<rparr>"
  let ?i = "rollback_intent_of ?w r (rt_workspace_namespace r)"
  have wf: "wf_project_id ?w = ''p1''" "wf_publication_operation_id ?w = Some (op_id old)" "wf_id ?w = ''w''"
    by (simp_all add: sample_waiting_wf_def)
  have reach: "pub_reach end_digest null_pub_codec (pw_publications ?pw)"
    and rt: "pub_runtime (pw_publications ?pw) (wf_project_id ?w) = Some r"
    using 1(1) wf(1) by (simp_all add: sample_project_def pub_runtime_def)
  have expired: "publication_failure_window_expired_at ?w (pe_clock ?en 0)"
    by (simp add: publication_failure_window_expired_at_def sample_waiting_wf_def external_probe_window_def
        seconds_def)
  have key: "in_project_id ?i = ''p1''" "in_idempotency_key ?i = ''publish-workflow:w:rollback''"
    by (simp_all add: rollback_intent_of_def wf)
  have free: "bt_get (ps_operation_by_idempotency (pub_mem st)) (sample_key ''publish-workflow:w:rollback'') = None"
      "bt_get (ps_operations (pub_mem st)) (sample_op_id ''publish-workflow:w:rollback'') = None"
    using 1(2) by (simp_all add: sample_free_def)
  have valid: "validate_intent ?i = Inr ()"
    using 1(4,5) by (simp add: validate_intent_def rollback_intent_of_def wf validate_workspace_namespace_def
        starts_with_def string_defs intent_fields_def is_blank_ascii none_or_empty_def static_web_profile_id_def)
  have slug: "is_ok (allocate_host_slug end_digest (pe_rng ?en) (pub_mem (pw_publications ?pw)))"
    using sample_project_slug [OF 1(1)] by auto
  have "\<exists>res pw1 q. observe_publication ?en ?w ?pw = (res, pw1) \<and>
    pub_runtime (pw_publications pw1) (wf_project_id ?w) = Some q \<and>
    rt_desired_generation q = rt_desired_generation r + 1 \<and>
    rt_desired_release_id q = rt_current_release_id r \<and>
    (\<forall>st. pub_steps end_digest null_pub_codec (pw_publications pw1) st \<longrightarrow>
       pub_operation st (op_id newer) = Some newer)"
    by (rule rollback_overrides_newer [OF reach end_digest32 _ _ _ wf(2) _ _ expired rt])
      (use 1 wf free valid slug sample_key_eqs [OF key] in \<open>simp_all add: op_is_terminal_def pub_operation_def\<close>)
  then obtain res pw1 q where 2: "observe_publication ?en ?w ?pw = (res, pw1)"
      "pub_runtime (pw_publications pw1) (wf_project_id ?w) = Some q"
      "rt_desired_generation q = rt_desired_generation r + 1"
      "rt_desired_release_id q = rt_current_release_id r"
      "pub_operation (pw_publications pw1) (op_id newer) = Some newer" by blast
  show ?thesis
    using 1 2 rt wf(1)
    by (intro exI [of _ st] exI [of _ r] exI [of _ old] exI [of _ newer] exI [of _ res] exI [of _ pw1]
        exI [of _ q]) (simp add: op_is_terminal_def)
qed

end
