(* ===== verification/JsonValue.thy ===== *)
theory JsonValue
  imports Prelude
begin

text \<open>
  \<open>serde_json::Value\<close> and the accessors the sources use. A number keeps its text, an object its
  members in order; \<open>get\<close> answers the first member of a name. Parsing and printing are the
  \<open>serde_json\<close> crate's: parameters of the definitions that use them.
\<close>

datatype json =
    JNull | JBool bool | JNumber string | JString string | JArray "json list"
  | JObject "(string \<times> json) list"

fun json_get :: "string \<Rightarrow> json \<Rightarrow> json option" where
  "json_get k (JObject ms) = map_of ms k"
| "json_get k _ = None"

fun json_str :: "json \<Rightarrow> string option" where
  "json_str (JString s) = Some s"
| "json_str _ = None"

fun json_array :: "json \<Rightarrow> json list option" where
  "json_array (JArray vs) = Some vs"
| "json_array _ = None"

text \<open>\<open>as_u64\<close>: a number written as decimal digits that fits 64 bits.\<close>

fun json_u64 :: "json \<Rightarrow> u64 option" where
  "json_u64 (JNumber s) =
     (if s \<noteq> [] \<and> list_all is_ascii_digit s \<and> read_nat s < 2 ^ 64
      then Some (word_of_nat (read_nat s)) else None)"
| "json_u64 _ = None"

definition json_get_str :: "string \<Rightarrow> json \<Rightarrow> string option" where
  "json_get_str k v = Option.bind (json_get k v) json_str"

definition json_get_array :: "string \<Rightarrow> json \<Rightarrow> json list option" where
  "json_get_array k v = Option.bind (json_get k v) json_array"

definition json_nat :: "nat \<Rightarrow> json" where
  "json_nat n = JNumber (show_nat n)"

definition json_word :: "'a::len word \<Rightarrow> json" where
  "json_word w = json_nat (unat w)"

definition json_opt :: "('a \<Rightarrow> json) \<Rightarrow> 'a option \<Rightarrow> json" where
  "json_opt f x = (case x of None \<Rightarrow> JNull | Some y \<Rightarrow> f y)"

lemma json_get_str_object [simp]:
  "json_get_str k (JObject ms) = Option.bind (map_of ms k) json_str"
  "json_get_array k (JObject ms) = Option.bind (map_of ms k) json_array"
  by (simp_all add: json_get_str_def json_get_array_def)

text \<open>What is written as a number is read back.\<close>

lemma show_nat_digits: "list_all is_ascii_digit (show_nat n)"
proof (induction n rule: show_nat.induct)
  case (1 n)
  have d: "is_ascii_digit (char_of (48 + m))" if "m < 10" for m :: nat
    using that by (simp add: string_defs code_digit)
  show ?case
    using 1 d [of "n mod 10"] d [of n]
    by (subst show_nat.simps) auto
qed

lemma json_u64_nat: "n < 2 ^ 64 \<Longrightarrow> json_u64 (json_nat n) = Some (word_of_nat n)"
  by (simp add: json_nat_def show_nat_digits read_show_nat)

lemma json_u64_word [simp]: "json_u64 (json_word (w :: u64)) = Some w"
  using unsigned_less [of w] json_u64_nat [of "unat w"] by (simp add: json_word_def)

end
