(* ===== verification/PermissionEngine.thy ===== *)
theory PermissionEngine
  imports OrdMap JsonValue
begin

text \<open>
  \<open>permission.rs\<close>, first part: the rules, the hooks and the order in which the engine consults them,
  and the policy for shell commands. A tool is its name and its own check, a parameter: the check is
  the code of the tool. A context is the one flag the engine reads. \<open>serde_json::Value\<close> is \<open>json\<close>.
\<close>

datatype rule_source = Src_Org | Src_Project | Src_Profile | Src_Runtime

datatype permission_reason =
    Reason_Rule rule_source string
  | Reason_SafetyCheck bool
  | Reason_Mode string
  | Reason_Hook string "string option"
  | Reason_AsyncAgent string
  | Reason_Other string

fun reason_summary :: "permission_reason \<Rightarrow> string" where
  "reason_summary (Reason_Rule _ content) = content"
| "reason_summary (Reason_SafetyCheck approvable) =
     ''safety_check approvable='' @ (if approvable then ''true'' else ''false'')"
| "reason_summary (Reason_Mode m) = ''permission mode: '' @ m"
| "reason_summary (Reason_Hook hook reason) =
     (case reason of Some r \<Rightarrow> hook @ '': '' @ r | None \<Rightarrow> hook)"
| "reason_summary (Reason_AsyncAgent r) = r"
| "reason_summary (Reason_Other r) = r"

record permission_update =
  pu_tool :: string
  pu_decision :: string

datatype permission_result =
    Allow (res_input: json) (res_reason: permission_reason)
  | Ask (res_message: string) (res_reason: permission_reason) "permission_update list option"
  | Deny (res_message: string) (res_reason: permission_reason)
  | Passthrough (res_message: string)

fun result_decision :: "permission_result \<Rightarrow> string" where
  "result_decision (Allow _ _) = ''allow''"
| "result_decision (Ask _ _ _) = ''ask''"
| "result_decision (Deny _ _) = ''deny''"
| "result_decision (Passthrough _) = ''passthrough''"

fun result_message :: "permission_result \<Rightarrow> string" where
  "result_message (Allow _ r) = reason_summary r"
| "result_message (Ask m _ _) = m"
| "result_message (Deny m _) = m"
| "result_message (Passthrough m) = m"

fun result_reason_summary :: "permission_result \<Rightarrow> string" where
  "result_reason_summary (Allow _ r) = reason_summary r"
| "result_reason_summary (Ask _ r _) = reason_summary r"
| "result_reason_summary (Deny _ r) = reason_summary r"
| "result_reason_summary (Passthrough m) = m"

section \<open>Rules\<close>

datatype pre_tool_use_hook =
    Pre_Allow string "json option" | Pre_Ask string "json option" | Pre_Deny string

datatype permission_request_hook =
    Req_Allow string "json option" | Req_Deny string

record permission_rules =
  deny_tools :: "string set"
  ask_tools :: "string set"
  always_allowed_tools :: "string set"
  pre_tool_use_hooks :: "(string, pre_tool_use_hook) btree"
  permission_request_hooks :: "(string, permission_request_hook) btree"
  bypass_permissions :: bool

definition rules_default :: permission_rules where
  "rules_default = \<lparr>deny_tools = {}, ask_tools = {}, always_allowed_tools = {},
     pre_tool_use_hooks = bt_empty, permission_request_hooks = bt_empty, bypass_permissions = False\<rparr>"

definition deny_tool :: "string \<Rightarrow> permission_rules \<Rightarrow> permission_rules" where
  "deny_tool t r = r\<lparr>deny_tools := insert t (deny_tools r)\<rparr>"

definition ask_tool :: "string \<Rightarrow> permission_rules \<Rightarrow> permission_rules" where
  "ask_tool t r = r\<lparr>ask_tools := insert t (ask_tools r)\<rparr>"

definition always_allow_tool :: "string \<Rightarrow> permission_rules \<Rightarrow> permission_rules" where
  "always_allow_tool t r = r\<lparr>always_allowed_tools := insert t (always_allowed_tools r)\<rparr>"

definition with_pre_tool_use_hook ::
    "string \<Rightarrow> pre_tool_use_hook \<Rightarrow> permission_rules \<Rightarrow> permission_rules" where
  "with_pre_tool_use_hook t d r = r\<lparr>pre_tool_use_hooks := bt_insert t d (pre_tool_use_hooks r)\<rparr>"

definition with_permission_request_hook ::
    "string \<Rightarrow> permission_request_hook \<Rightarrow> permission_rules \<Rightarrow> permission_rules" where
  "with_permission_request_hook t d r =
    r\<lparr>permission_request_hooks := bt_insert t d (permission_request_hooks r)\<rparr>"

section \<open>The engine\<close>

record permission_ctx =
  should_avoid_permission_prompts :: bool

record permission_tool =
  tool_name :: string
  tool_check :: "json \<Rightarrow> permission_ctx \<Rightarrow> permission_result"

definition unwrap_or :: "'a option \<Rightarrow> 'a \<Rightarrow> 'a" where
  "unwrap_or x d = (case x of None \<Rightarrow> d | Some v \<Rightarrow> v)"

definition resolve_ask ::
    "permission_rules \<Rightarrow> permission_tool \<Rightarrow> json \<Rightarrow> permission_ctx \<Rightarrow> permission_result \<Rightarrow> permission_result" where
  "resolve_ask rules tool input ctx ask =
    (if should_avoid_permission_prompts ctx
     then case bt_get (permission_request_hooks rules) (tool_name tool) of
        Some (Req_Allow reason updated) \<Rightarrow>
          Allow (unwrap_or updated input) (Reason_Hook ''PermissionRequest'' (Some reason))
      | Some (Req_Deny reason) \<Rightarrow> Deny reason (Reason_Hook ''PermissionRequest'' (Some reason))
      | None \<Rightarrow> Deny ''Permission prompts are not available''
            (Reason_AsyncAgent (tool_name tool @ '' asked in headless mode''))
     else ask)"

definition decide_without_pre_tool_use ::
    "permission_rules \<Rightarrow> permission_tool \<Rightarrow> json \<Rightarrow> permission_ctx \<Rightarrow> permission_result" where
  "decide_without_pre_tool_use rules tool input ctx =
    (let name = tool_name tool in
     if name \<in> deny_tools rules
     then Deny (name @ '' denied by runtime rule'') (Reason_Rule Src_Runtime (''deny '' @ name))
     else if name \<in> ask_tools rules
     then resolve_ask rules tool input ctx
        (Ask (name @ '' requires approval'') (Reason_Rule Src_Runtime (''ask '' @ name)) None)
     else case tool_check tool input ctx of
        Deny m r \<Rightarrow> Deny m r
      | Ask m r s \<Rightarrow> resolve_ask rules tool input ctx (Ask m r s)
      | Allow v r \<Rightarrow> Allow v r
      | Passthrough _ \<Rightarrow>
          if bypass_permissions rules then Allow input (Reason_Mode ''bypass_permissions'')
          else if name \<in> always_allowed_tools rules
          then Allow input (Reason_Rule Src_Runtime (''always_allow '' @ name))
          else resolve_ask rules tool input ctx
            (Ask (name @ '' requires approval'')
              (Reason_Other ''tool did not declare an allow rule'') None))"

definition resolve_pre_tool_use_hook ::
    "permission_rules \<Rightarrow> permission_tool \<Rightarrow> json \<Rightarrow> permission_ctx \<Rightarrow> pre_tool_use_hook \<Rightarrow> permission_result" where
  "resolve_pre_tool_use_hook rules tool input ctx hook =
    (case hook of
       Pre_Deny reason \<Rightarrow> Deny reason (Reason_Hook ''PreToolUse'' (Some reason))
     | Pre_Ask reason updated \<Rightarrow>
         resolve_ask rules tool (unwrap_or updated input) ctx
           (Ask reason (Reason_Hook ''PreToolUse'' (Some reason)) None)
     | Pre_Allow reason updated \<Rightarrow>
         let hook_input = unwrap_or updated input in
         (case decide_without_pre_tool_use rules tool hook_input ctx of
            Allow v _ \<Rightarrow> (case v of
                JNull \<Rightarrow> Allow hook_input (Reason_Hook ''PreToolUse'' (Some reason))
              | _ \<Rightarrow> Allow v (Reason_Hook ''PreToolUse'' (Some reason)))
          | d \<Rightarrow> d))"

definition decide ::
    "permission_rules \<Rightarrow> permission_tool \<Rightarrow> json \<Rightarrow> permission_ctx \<Rightarrow> permission_result" where
  "decide rules tool input ctx =
    (case bt_get (pre_tool_use_hooks rules) (tool_name tool) of
       Some hook \<Rightarrow> resolve_pre_tool_use_hook rules tool input ctx hook
     | None \<Rightarrow> decide_without_pre_tool_use rules tool input ctx)"

definition allow_reason :: "string \<Rightarrow> permission_result" where
  "allow_reason reason = Allow JNull (Reason_Other reason)"

section \<open>The policy for commands\<close>

definition argv_at :: "string list \<Rightarrow> nat \<Rightarrow> string option" where
  "argv_at argv n = (if n < length argv then Some (argv ! n) else None)"

definition always_deny_commands :: "string list" where
  "always_deny_commands =
    [''sh'', ''bash'', ''zsh'', ''fish'', ''kubectl'', ''docker'', ''ssh'', ''scp'', ''sudo'']"

definition is_deny_pattern :: "string \<Rightarrow> bool" where
  "is_deny_pattern arg \<longleftrightarrow> list_ex (str_contains arg)
    [''rm -rf'', ''/etc/passwd'', ''id_rsa'', ''id_ed25519'', ''kubeconfig'']"

definition is_interactive_project_scaffold :: "string list \<Rightarrow> bool" where
  "is_interactive_project_scaffold argv \<longleftrightarrow>
     unwrap_or (argv_at argv 0) [] = ''npm'' \<and> argv_at argv 1 = Some ''create''"

definition preview_tools :: "string list" where
  "preview_tools = [''serve'', ''vite'', ''next'']"

definition preview_scripts :: "string list" where
  "preview_scripts = [''preview'', ''dev'', ''start'']"

definition is_preview_server_command :: "string list \<Rightarrow> bool" where
  "is_preview_server_command argv \<longleftrightarrow>
    (let cmd = unwrap_or (argv_at argv 0) []; arg = argv_at argv 1 in
     if cmd = ''npx'' then list_ex (\<lambda>a. a \<in> set preview_tools) (drop 1 argv)
     else if cmd \<in> {''npm'', ''pnpm'', ''yarn''} \<and> arg = Some ''run''
     then (case argv_at argv 2 of None \<Rightarrow> False | Some script \<Rightarrow> script \<in> set preview_scripts)
     else if cmd = ''npm'' \<and> arg = Some ''exec''
     then list_ex (\<lambda>a. a \<in> set preview_tools) (drop 2 argv)
     else if cmd \<in> {''pnpm'', ''yarn''} \<and> arg \<in> Some ` set preview_scripts then True
     else if cmd = ''next'' \<and> arg \<in> {Some ''dev'', Some ''start''} then True
     else if cmd = ''vite'' \<and> arg \<in> {Some ''--host'', Some ''--port''} then True
     else cmd = ''serve'')"

definition plain_commands :: "string list" where
  "plain_commands = [''npx'', ''node'', ''mkdir'', ''which'', ''ls'', ''pwd'', ''find'', ''rg'', ''cat'', ''sed'']"

definition command_by_name :: "string \<Rightarrow> string option \<Rightarrow> permission_result" where
  "command_by_name cmd arg =
    (if cmd \<in> {''pnpm'', ''yarn'', ''bun''} \<and> arg \<in> {Some ''install'', Some ''add''}
        \<or> cmd = ''npm'' \<and> arg = Some ''install''
     then Deny ''Dependency installation must use package.install. Use package.install({ \"mode\": \"restore\", \"packageManager\": \"pnpm\" }) for package.json installs or package.install({ \"mode\": \"add\", \"packages\": [\"...\"], \"packageManager\": \"pnpm\" }) for new dependencies.''
        (Reason_Rule Src_Runtime ''dependency installation must use package.install'')
     else if cmd = ''pnpm''
          \<and> arg \<in> {Some ''build'', Some ''dev'', Some ''lint'', Some ''test'', Some ''run''}
        \<or> cmd = ''npm'' \<and> arg \<in> {Some ''create'', Some ''exec'', Some ''run''}
        \<or> cmd \<in> set plain_commands
     then Allow JNull (Reason_Rule Src_Runtime ''command allowlist'')
     else if cmd = ''git''
     then Ask (cmd @ '' requires platform policy approval'')
        (Reason_Rule Src_Runtime ''command asklist'') None
     else Deny (cmd @ '' not in allowlist'') (Reason_Rule Src_Runtime ''command not allowed''))"

definition check_command_policy :: "string list \<Rightarrow> permission_result" where
  "check_command_policy argv =
    (let cmd = unwrap_or (argv_at argv 0) [] in
     if cmd \<in> set always_deny_commands
     then Deny (cmd @ '' is not allowed'') (Reason_Rule Src_Runtime ''always-deny command'')
     else case List.find is_deny_pattern argv of
       Some arg \<Rightarrow> Deny (''argument contains denied pattern: '' @ arg) (Reason_SafetyCheck False)
     | None \<Rightarrow>
       if is_interactive_project_scaffold argv
       then Deny ''Use project.init/package.install/fs.* instead of interactive framework scaffold commands''
         (Reason_Rule Src_Runtime ''interactive scaffold commands must use project tools'')
       else if is_preview_server_command argv
       then Deny ''Use preview.start instead of launching long-running preview servers with shell.run''
         (Reason_Rule Src_Runtime ''preview servers must be managed by preview.start'')
       else command_by_name cmd (argv_at argv 1))"

end
