(* ===== verification/PermissionProps.thy ===== *)
theory PermissionProps
  imports PermissionEngine
begin

text \<open>Properties of the permission engine and of the command policy (C37, C38).\<close>

definition is_allow :: "permission_result \<Rightarrow> bool" where
  "is_allow r \<longleftrightarrow> (case r of Allow _ _ \<Rightarrow> True | _ \<Rightarrow> False)"

definition is_ask :: "permission_result \<Rightarrow> bool" where
  "is_ask r \<longleftrightarrow> (case r of Ask _ _ _ \<Rightarrow> True | _ \<Rightarrow> False)"

definition is_deny :: "permission_result \<Rightarrow> bool" where
  "is_deny r \<longleftrightarrow> (case r of Deny _ _ \<Rightarrow> True | _ \<Rightarrow> False)"

lemma is_result_simps [simp]:
  "is_allow (Allow v r)" "\<not> is_allow (Ask m r s)" "\<not> is_allow (Deny m r)" "\<not> is_allow (Passthrough m)"
  "\<not> is_ask (Allow v r)" "is_ask (Ask m r s)" "\<not> is_ask (Deny m r)" "\<not> is_ask (Passthrough m)"
  "\<not> is_deny (Allow v r)" "\<not> is_deny (Ask m r s)" "is_deny (Deny m r)" "\<not> is_deny (Passthrough m)"
  by (simp_all add: is_allow_def is_ask_def is_deny_def)

section \<open>Precedence\<close>

lemma resolve_ask_headless:
  "should_avoid_permission_prompts ctx \<Longrightarrow>
    is_allow (resolve_ask rules tool input ctx a) \<or> is_deny (resolve_ask rules tool input ctx a)"
  by (simp add: resolve_ask_def split: option.split permission_request_hook.split)

lemma without_headless:
  assumes "should_avoid_permission_prompts ctx"
  shows "is_allow (decide_without_pre_tool_use rules tool input ctx) \<or>
    is_deny (decide_without_pre_tool_use rules tool input ctx)"
  using resolve_ask_headless [OF assms]
  by (simp add: decide_without_pre_tool_use_def Let_def split: permission_result.split)

text \<open>A hook that allows leaves the decision of the rules and of the tool as it is.\<close>

lemma pre_allow_decision:
  "is_allow (resolve_pre_tool_use_hook rules tool input ctx (Pre_Allow reason updated)) =
     is_allow (decide_without_pre_tool_use rules tool (unwrap_or updated input) ctx)"
  "is_deny (resolve_pre_tool_use_hook rules tool input ctx (Pre_Allow reason updated)) =
     is_deny (decide_without_pre_tool_use rules tool (unwrap_or updated input) ctx)"
  by (cases "decide_without_pre_tool_use rules tool (unwrap_or updated input) ctx";
      simp add: resolve_pre_tool_use_hook_def Let_def split: json.split)+

lemma hook_headless:
  assumes "should_avoid_permission_prompts ctx"
  shows "is_allow (resolve_pre_tool_use_hook rules tool input ctx h) \<or>
    is_deny (resolve_pre_tool_use_hook rules tool input ctx h)"
proof (cases h)
  case (Pre_Allow reason updated)
  then show ?thesis using without_headless [OF assms] by (simp add: pre_allow_decision)
qed (use resolve_ask_headless [OF assms] in \<open>simp_all add: resolve_pre_tool_use_hook_def\<close>)

lemma without_denied:
  "tool_name tool \<in> deny_tools rules \<Longrightarrow> is_deny (decide_without_pre_tool_use rules tool input ctx)"
  by (simp add: decide_without_pre_tool_use_def Let_def)

text \<open>
  C21. Who has the last word. A headless run never ends in a question: every decision is to allow or
  to deny. A denied tool is denied whatever its own check, the ask and always-allow lists and the
  bypass mode say, and also under a PreToolUse hook that allows or denies it. But a PreToolUse hook
  that asks replaces the deny rule: interactively the user is asked, and in a headless run a
  PermissionRequest hook can allow the denied tool.
\<close>

theorem permission_precedence:
  assumes "should_avoid_permission_prompts headless" "\<not> should_avoid_permission_prompts interactive"
    and "tool_name tool \<in> deny_tools rules"
  shows "(\<forall>any_rules any_tool v. is_allow (decide any_rules any_tool v headless) \<or>
       is_deny (decide any_rules any_tool v headless)) \<and>
    ((\<forall>reason updated. bt_get (pre_tool_use_hooks rules) (tool_name tool) \<noteq> Some (Pre_Ask reason updated)) \<longrightarrow>
       (\<forall>ctx. is_deny (decide rules tool input ctx))) \<and>
    (\<forall>reason updated. bt_get (pre_tool_use_hooks rules) (tool_name tool) = Some (Pre_Ask reason updated) \<longrightarrow>
       is_ask (decide rules tool input interactive) \<and>
       (is_allow (decide rules tool input headless) \<longleftrightarrow>
        (\<exists>r u. bt_get (permission_request_hooks rules) (tool_name tool) = Some (Req_Allow r u))))"
proof (intro conjI)
  show "\<forall>any_rules any_tool v. is_allow (decide any_rules any_tool v headless) \<or>
      is_deny (decide any_rules any_tool v headless)"
    using without_headless [OF assms(1)] hook_headless [OF assms(1)]
    by (simp add: decide_def split: option.split)
  show "(\<forall>reason updated. bt_get (pre_tool_use_hooks rules) (tool_name tool) \<noteq> Some (Pre_Ask reason updated)) \<longrightarrow>
      (\<forall>ctx. is_deny (decide rules tool input ctx))"
  proof (intro impI allI)
    fix ctx
    assume no: "\<forall>reason updated.
      bt_get (pre_tool_use_hooks rules) (tool_name tool) \<noteq> Some (Pre_Ask reason updated)"
    show "is_deny (decide rules tool input ctx)"
    proof (cases "bt_get (pre_tool_use_hooks rules) (tool_name tool)")
      case None
      then show ?thesis using without_denied [OF assms(3)] by (simp add: decide_def)
    next
      case (Some h)
      then show ?thesis
        using no without_denied [OF assms(3)]
        by (cases h) (simp_all add: decide_def pre_allow_decision, simp add: resolve_pre_tool_use_hook_def)
    qed
  qed
  show "\<forall>reason updated. bt_get (pre_tool_use_hooks rules) (tool_name tool) = Some (Pre_Ask reason updated) \<longrightarrow>
       is_ask (decide rules tool input interactive) \<and>
       (is_allow (decide rules tool input headless) \<longleftrightarrow>
        (\<exists>r u. bt_get (permission_request_hooks rules) (tool_name tool) = Some (Req_Allow r u)))"
    using assms(1,2)
    by (auto simp: decide_def resolve_pre_tool_use_hook_def resolve_ask_def
        split: option.split permission_request_hook.split)
qed

definition sample_rules :: permission_rules where
  "sample_rules = with_permission_request_hook ''shell.run'' (Req_Allow ''ok'' None)
     (with_pre_tool_use_hook ''shell.run'' (Pre_Ask ''check'' None)
       (deny_tool ''shell.run'' rules_default))"

theorem permission_precedence_witness:
  "is_deny (decide (deny_tool ''shell.run'' (rules_default\<lparr>bypass_permissions := True\<rparr>))
     \<lparr>tool_name = ''shell.run'', tool_check = (\<lambda>v _. Allow v (Reason_Other ''safe''))\<rparr> JNull
     \<lparr>should_avoid_permission_prompts = True\<rparr>) \<and>
   is_allow (decide sample_rules
     \<lparr>tool_name = ''shell.run'', tool_check = (\<lambda>v _. Passthrough [])\<rparr> JNull
     \<lparr>should_avoid_permission_prompts = True\<rparr>)"
proof -
  let ?on = "\<lparr>should_avoid_permission_prompts = True\<rparr>" and ?off = "\<lparr>should_avoid_permission_prompts = False\<rparr>"
  have "?on = ?on" by (rule refl)
  note P = permission_precedence [of ?on ?off]
  show ?thesis
    using P [of "\<lparr>tool_name = ''shell.run'', tool_check = (\<lambda>v _. Allow v (Reason_Other ''safe''))\<rparr>"
        "deny_tool ''shell.run'' (rules_default\<lparr>bypass_permissions := True\<rparr>)" JNull]
      P [of "\<lparr>tool_name = ''shell.run'', tool_check = (\<lambda>v _. Passthrough [])\<rparr>" sample_rules JNull]
    by (simp add: sample_rules_def deny_tool_def rules_default_def with_pre_tool_use_hook_def
        with_permission_request_hook_def)
qed

section \<open>The command policy\<close>

text \<open>The commands that run without a question, in one table.\<close>

fun command_allowed :: "string list \<Rightarrow> bool" where
  "command_allowed [] = False"
| "command_allowed (cmd # args) =
    (cmd \<in> {''node'', ''mkdir'', ''which'', ''ls'', ''pwd'', ''find'', ''rg'', ''cat'', ''sed''}
     \<or> cmd = ''npx'' \<and> set args \<inter> set preview_tools = {}
     \<or> cmd = ''pnpm'' \<and> args \<noteq> [] \<and> hd args \<in> {''build'', ''lint'', ''test''}
     \<or> cmd \<in> {''npm'', ''pnpm''} \<and> args \<noteq> [] \<and> hd args = ''run''
        \<and> (tl args = [] \<or> hd (tl args) \<notin> set preview_scripts)
     \<or> cmd = ''npm'' \<and> args \<noteq> [] \<and> hd args = ''exec'' \<and> set (tl args) \<inter> set preview_tools = {})"

lemma argv_simps [simp]:
  "argv_at [] n = None" "argv_at (c # as) 0 = Some c" "argv_at (c # as) (Suc n) = argv_at as n"
  "argv_at (c # as) (numeral k) = argv_at as (pred_numeral k)"
  by (simp_all add: argv_at_def numeral_eq_Suc)

lemma argv_at_0: "argv_at as 0 = (if as = [] then None else Some (hd as))"
  by (cases as) simp_all

lemma argv_at_1: "argv_at as (Suc 0) = (if tl as = [] then None else Some (hd (tl as)))"
  by (cases as) (simp_all add: argv_at_0)

lemma unwrap_or_simps [simp]: "unwrap_or None d = d" "unwrap_or (Some v) d = v"
  by (simp_all add: unwrap_or_def)

text \<open>
  C22. The command policy is the table: a command is allowed exactly when the table allows it and no
  argument holds a denied pattern, asked about exactly when it is \<open>git\<close> without such an argument, and
  denied otherwise. So no shell and no preview server runs, and the allow entries for \<open>pnpm dev\<close>
  and \<open>npm create\<close> never apply. The repository's documents say otherwise of \<open>npx\<close>, \<open>pnpm dev\<close>, \<open>mkdir\<close>,
  \<open>which\<close> and \<open>npm exec\<close>; the table is what the code does.
\<close>

theorem command_policy_table:
  "(is_allow (check_command_policy argv) \<longleftrightarrow>
      command_allowed argv \<and> \<not> list_ex is_deny_pattern argv) \<and>
   (is_ask (check_command_policy argv) \<longleftrightarrow>
      argv \<noteq> [] \<and> hd argv = ''git'' \<and> \<not> list_ex is_deny_pattern argv) \<and>
   (is_deny (check_command_policy argv) \<longleftrightarrow>
      \<not> is_allow (check_command_policy argv) \<and> \<not> is_ask (check_command_policy argv))"
proof (cases argv)
  case Nil
  then show ?thesis
    by (simp add: check_command_policy_def always_deny_commands_def is_interactive_project_scaffold_def
        is_preview_server_command_def command_by_name_def plain_commands_def)
next
  case (Cons cmd args)
  show ?thesis
  proof (cases "List.find is_deny_pattern argv")
    case (Some a)
    then have "list_ex is_deny_pattern argv" by (auto simp: find_Some_iff list_ex_iff)
    with Some Cons show ?thesis
      by (simp add: check_command_policy_def always_deny_commands_def)
  next
    case None
    then have no: "\<not> list_ex is_deny_pattern argv" by (simp add: find_None_iff list_ex_iff)
    have pol: "check_command_policy (cmd # args) =
      (if cmd \<in> set always_deny_commands
       then Deny (cmd @ '' is not allowed'') (Reason_Rule Src_Runtime ''always-deny command'')
       else if is_interactive_project_scaffold argv
       then Deny ''Use project.init/package.install/fs.* instead of interactive framework scaffold commands''
         (Reason_Rule Src_Runtime ''interactive scaffold commands must use project tools'')
       else if is_preview_server_command argv
       then Deny ''Use preview.start instead of launching long-running preview servers with shell.run''
         (Reason_Rule Src_Runtime ''preview servers must be managed by preview.start'')
       else command_by_name cmd (argv_at argv 1))"
      using None Cons by (simp add: check_command_policy_def Let_def)
    note defs = is_interactive_project_scaffold_def is_preview_server_command_def
      command_by_name_def Let_def argv_at_0
    consider "cmd = ''npx''" | "cmd = ''npm''" | "cmd = ''pnpm''" | "cmd = ''yarn''"
      | "cmd \<in> {''bun'', ''next'', ''vite'', ''serve''}"
      | "cmd \<notin> {''npx'', ''npm'', ''pnpm'', ''yarn'', ''bun'', ''next'', ''vite'', ''serve''}"
    proof (cases "cmd \<in> {''npx'', ''npm'', ''pnpm'', ''yarn'', ''bun'', ''next'', ''vite'', ''serve''}")
      case True
      then show thesis using that(1-5) by (elim insertE emptyE) simp_all
    qed (rule that(6))
    then show ?thesis
    proof cases
      case 1
      then show ?thesis using no pol Cons
        by (auto simp: defs always_deny_commands_def plain_commands_def list_ex_iff)
    next
      case 2
      then show ?thesis using no pol Cons
        by (cases args; cases "tl args") (auto simp: defs always_deny_commands_def plain_commands_def list_ex_iff)
    next
      case 3
      then show ?thesis using no pol Cons
        by (cases args; cases "tl args")
          (auto simp: defs always_deny_commands_def plain_commands_def preview_scripts_def)
    next
      case 4
      then show ?thesis using no pol Cons
        by (cases args) (auto simp: defs always_deny_commands_def plain_commands_def)
    next
      case 5
      then show ?thesis using no pol Cons
        by (elim insertE emptyE) (simp_all add: defs always_deny_commands_def plain_commands_def)
    next
      case 6
      then have "\<not> is_interactive_project_scaffold argv" "\<not> is_preview_server_command argv"
        using Cons by (simp_all add: defs)
      then have pol': "check_command_policy (cmd # args) =
        (if cmd \<in> set always_deny_commands
         then Deny (cmd @ '' is not allowed'') (Reason_Rule Src_Runtime ''always-deny command'')
         else command_by_name cmd (argv_at argv 1))"
        using pol by simp
      consider "cmd \<in> {''sh'', ''bash'', ''zsh'', ''fish'', ''kubectl'', ''docker'', ''ssh'', ''scp'', ''sudo''}"
        | "cmd \<in> {''node'', ''mkdir'', ''which'', ''ls'', ''pwd'', ''find'', ''rg'', ''cat'', ''sed''}"
        | "cmd = ''git''"
        | "cmd \<notin> {''sh'', ''bash'', ''zsh'', ''fish'', ''kubectl'', ''docker'', ''ssh'', ''scp'', ''sudo''}"
          "cmd \<notin> {''node'', ''mkdir'', ''which'', ''ls'', ''pwd'', ''find'', ''rg'', ''cat'', ''sed''}"
          "cmd \<noteq> ''git''" by satx
      then show ?thesis
      proof cases
        case 1
        then show ?thesis using pol' Cons by (elim insertE) (simp_all add: always_deny_commands_def)
      next
        case 2
        then show ?thesis using pol' no Cons
          by (elim insertE) (simp_all add: always_deny_commands_def command_by_name_def plain_commands_def)
      next
        case 3
        then show ?thesis using pol' no Cons
          by (simp add: always_deny_commands_def command_by_name_def plain_commands_def)
      next
        case 4
        with 6 have "check_command_policy (cmd # args) =
            Deny (cmd @ '' not in allowlist'') (Reason_Rule Src_Runtime ''command not allowed'')"
          unfolding pol' by (simp add: always_deny_commands_def command_by_name_def plain_commands_def)
        with 4 6 Cons show ?thesis by simp
      qed
    qed
  qed
qed

end
