(* ===== verification/GatewayModel.thy ===== *)
theory GatewayModel
  imports OrdMap Hashing JsonValue
begin

text \<open>
  The data of the provider gateway (\<open>services/provider-gateway/src/lib.rs\<close>): turn requests, model
  resources, selection policies, responses and errors, and the procedures the gateway is written in.
  A procedure takes the world and returns an error or a value with the world it leaves, so that what a
  failed call has already written stays written.
\<close>

section \<open>Turn requests\<close>

record turn_scope =
  ts_workspace_id :: string
  ts_project_id :: string
  ts_run_id :: string
  ts_turn :: u32
  ts_phase :: string
  ts_agent_profile :: string

record required_capabilities =
  rc_tool_calls :: bool
  rc_strict_tool_schema :: bool
  rc_streaming :: bool
  rc_vision :: bool

record turn_routing =
  tr_model_resource_id :: "string option"
  tr_required_capabilities :: required_capabilities

record tool_definition =
  td_name :: string
  td_input_schema :: json
  td_input_json_schema :: "json option"

record turn_input =
  ti_system_prompt :: string
  ti_messages :: "json list"
  ti_tools :: "tool_definition list"
  ti_deferred_tools :: "tool_definition list"

record turn_request =
  gr_schema_version :: string
  gr_request_id :: string
  gr_idempotency_key :: string
  gr_deadline_at :: string
  gr_scope :: turn_scope
  gr_routing :: turn_routing
  gr_input :: turn_input

section \<open>Model resources and provider connections\<close>

datatype model_resource_kind = Openai_Compatible | Fixture

fun model_resource_kind_str :: "model_resource_kind \<Rightarrow> string" where
  "model_resource_kind_str Openai_Compatible = ''openai_compatible''"
| "model_resource_kind_str Fixture = ''fixture''"

record provider_endpoint =
  ep_base_url :: string
  ep_chat_completions_path :: string

record provider_auth =
  au_auth_type :: string
  au_secret_ref :: string

record provider_capabilities =
  pc_tool_calls :: bool
  pc_strict_tool_schema :: bool
  pc_streaming :: bool
  pc_vision :: bool
  pc_vision_input :: bool
  pc_supported_image_media_types :: "string list"
  pc_max_image_bytes :: u64
  pc_max_image_count :: u32

definition supports_vision_input :: "provider_capabilities \<Rightarrow> bool" where
  "supports_vision_input c \<longleftrightarrow> pc_vision c \<or> pc_vision_input c"

text \<open>\<open>temperature\<close> is a float that is only passed on: its JSON text.\<close>

record model_defaults =
  md_request_timeout_ms :: u64
  md_max_attempts :: u32
  md_temperature :: "string option"
  md_max_concurrent_requests :: u64

record model_resource =
  mr_schema_version :: string
  mr_id :: string
  mr_display_name :: string
  mr_description :: string
  mr_sort_order :: int
  mr_provider_connection_id :: "string option"
  mr_kind :: model_resource_kind
  mr_enabled :: bool
  mr_published :: bool
  mr_revision :: u64
  mr_endpoint :: provider_endpoint
  mr_auth :: provider_auth
  mr_physical_model :: string
  mr_capabilities :: provider_capabilities
  mr_defaults :: model_defaults

record provider_connection =
  cn_schema_version :: string
  cn_id :: string
  cn_name :: string
  cn_kind :: model_resource_kind
  cn_endpoint :: provider_endpoint
  cn_auth :: provider_auth
  cn_enabled :: bool
  cn_version :: u64
  cn_last_test_status :: "string option"
  cn_last_tested_at :: "string option"

section \<open>Selection policies\<close>

record model_selection_limits =
  ml_max_concurrent_turns :: "u64 option"
  ml_daily_input_tokens :: "u64 option"

record policy_scope =
  ps_workspace_ids :: "string list"
  ps_project_ids :: "string list"

record policy_applicability =
  pa_phases :: "string list"
  pa_agent_profiles :: "string list"

record model_candidate =
  mc_model_resource_id :: string
  mc_priority :: u32
  mc_weight :: u32

record automatic_switch_policy =
  as_enabled :: bool
  as_allowed_reasons :: "string list"
  as_max_model_switches_per_turn :: u32

record model_selection_policy =
  mp_schema_version :: string
  mp_id :: string
  mp_revision :: u64
  mp_scope :: policy_scope
  mp_applies_to :: policy_applicability
  mp_candidates :: "model_candidate list"
  mp_automatic_switch :: automatic_switch_policy
  mp_direct_selection :: "string list"
  mp_limits :: model_selection_limits

section \<open>Responses\<close>

record gateway_tool_call =
  tc_id :: string
  tc_name :: string
  tc_input :: json

record automatic_switch_summary =
  sw_used :: bool
  sw_reason :: "string option"
  sw_from_model_resource_id :: "string option"

record visual_input_summary =
  vi_state :: string
  vi_image_count :: u32
  vi_artifact_sha256s :: "string list"
  vi_media_types :: "string list"

record model_execution_summary =
  me_id :: string
  me_model_resource_id :: string
  me_model_resource_revision :: u64
  me_display_name :: string
  me_provider_id :: string
  me_physical_model :: string
  me_selection_policy_id :: string
  me_selection_policy_revision :: u64
  me_capability_snapshot_hash :: string
  me_selection_reason :: string
  me_automatic_switch :: automatic_switch_summary
  me_provider_request_id :: "string option"
  me_provider_attempt_count :: u32
  me_visual_input :: "visual_input_summary option"

record token_usage =
  us_input_tokens :: u64
  us_output_tokens :: u64
  us_cached_input_tokens :: u64

record turn_response =
  gt_schema_version :: string
  gt_request_id :: string
  gt_response_type :: string
  gt_tool_calls :: "gateway_tool_call list"
  gt_text :: "string option"
  gt_finish_reason :: string
  gt_model_execution :: model_execution_summary
  gt_usage :: token_usage
  gt_provider_request_id :: "string option"
  gt_provider_attempt_count :: u32

record provider_turn =
  pt_tool_calls :: "gateway_tool_call list"
  pt_text :: "string option"
  pt_finish_reason :: string
  pt_usage :: token_usage
  pt_provider_request_id :: "string option"
  pt_attempt_count :: u32
  pt_visual_input :: "visual_input_summary option"

section \<open>Errors\<close>

record gateway_error_detail =
  ed_code :: string
  ed_message :: string
  ed_retryable :: bool
  ed_retry_after_ms :: "u64 option"
  ed_provider_request_id :: "string option"

record gateway_error_envelope =
  ee_schema_version :: string
  ee_request_id :: string
  ee_error :: gateway_error_detail

record gateway_api_error =
  ae_status :: u16
  ae_envelope :: gateway_error_envelope

definition gateway_error :: "u16 \<Rightarrow> string \<Rightarrow> string \<Rightarrow> string \<Rightarrow> bool \<Rightarrow> gateway_api_error" where
  "gateway_error status request_id ecode message retryable =
     \<lparr>ae_status = status, ae_envelope =
       \<lparr>ee_schema_version = ''provider-gateway-error@1'', ee_request_id = request_id, ee_error =
         \<lparr>ed_code = ecode, ed_message = message, ed_retryable = retryable,
          ed_retry_after_ms = None, ed_provider_request_id = None\<rparr>\<rparr>\<rparr>"

definition with_provider_request_id :: "string option \<Rightarrow> gateway_api_error \<Rightarrow> gateway_api_error" where
  "with_provider_request_id i e =
     e\<lparr>ae_envelope := (ae_envelope e)\<lparr>ee_error :=
        (ee_error (ae_envelope e))\<lparr>ed_provider_request_id := i\<rparr>\<rparr>\<rparr>"

definition with_retry_after_ms :: "u64 \<Rightarrow> gateway_api_error \<Rightarrow> gateway_api_error" where
  "with_retry_after_ms ms e =
     e\<lparr>ae_envelope := (ae_envelope e)\<lparr>ee_error :=
        (ee_error (ae_envelope e))\<lparr>ed_retry_after_ms := Some ms\<rparr>\<rparr>\<rparr>"

definition api_error_code :: "gateway_api_error \<Rightarrow> string" where
  "api_error_code e = ed_code (ee_error (ae_envelope e))"

definition api_error_retry_after :: "gateway_api_error \<Rightarrow> u64 option" where
  "api_error_retry_after e = ed_retry_after_ms (ee_error (ae_envelope e))"

definition is_retryable_upstream :: "gateway_api_error \<Rightarrow> bool" where
  "is_retryable_upstream e \<longleftrightarrow> ed_retryable (ee_error (ae_envelope e))
     \<and> api_error_code e \<in> {''provider_rate_limited'', ''provider_unavailable'', ''provider_timeout'',
          ''provider_response_invalid''}"

text \<open>
  \<open>anyhow::Error\<close> of the store: a failed statement, a number that does not fit the column's 64 bits,
  a stored text that does not parse, or a message of the store itself.
\<close>

datatype gateway_store_error =
  Statement_failed | Value_out_of_range | Decode_failed | Store_message string

section \<open>Procedures\<close>

type_synonym ('w, 'e, 'a) proc = "'w \<Rightarrow> ('e + 'a) \<times> 'w"

definition pret :: "'a \<Rightarrow> ('w, 'e, 'a) proc" where
  "pret x w = (Inr x, w)"

definition praise :: "'e \<Rightarrow> ('w, 'e, 'a) proc" where
  "praise e w = (Inl e, w)"

definition pbind :: "('w, 'e, 'a) proc \<Rightarrow> ('a \<Rightarrow> ('w, 'e, 'b) proc) \<Rightarrow> ('w, 'e, 'b) proc" where
  "pbind m f w = (case m w of (Inl e, w') \<Rightarrow> (Inl e, w') | (Inr x, w') \<Rightarrow> f x w')"

text \<open>\<open>map_err\<close>, and running a call for its \<open>Result\<close>.\<close>

definition pmap_err :: "('e \<Rightarrow> 'f) \<Rightarrow> ('w, 'e, 'a) proc \<Rightarrow> ('w, 'f, 'a) proc" where
  "pmap_err g m w = (case m w of (r, w') \<Rightarrow> (err_into g r, w'))"

definition pattempt :: "('w, 'e, 'a) proc \<Rightarrow> ('w, 'f, 'e + 'a) proc" where
  "pattempt m w = (case m w of (r, w') \<Rightarrow> (Inr r, w'))"

definition plift :: "'e + 'a \<Rightarrow> ('w, 'e, 'a) proc" where
  "plift r w = (r, w)"

definition pasks :: "('w \<Rightarrow> 'a) \<Rightarrow> ('w, 'e, 'a) proc" where
  "pasks f w = (Inr (f w), w)"

definition pmodify :: "('w \<Rightarrow> 'w) \<Rightarrow> ('w, 'e, unit) proc" where
  "pmodify f w = (Inr (), f w)"

lemma proc_simps [simp]:
  "pret x w = (Inr x, w)" "praise e w = (Inl e, w)" "pasks f w = (Inr (f w), w)"
  "pmodify g w = (Inr (), g w)" "plift r w = (r, w)"
  by (simp_all add: pret_def praise_def pasks_def pmodify_def plift_def)

lemma pbind_simps [simp]:
  "m w = (Inl e, w') \<Longrightarrow> pbind m f w = (Inl e, w')"
  "m w = (Inr x, w') \<Longrightarrow> pbind m f w = f x w'"
  "pbind (pret x) f = f x" "pbind (praise e) g = praise e"
  by (simp_all add: pbind_def fun_eq_iff)

lemma pmap_err_simps [simp]:
  "m w = (Inl e, w') \<Longrightarrow> pmap_err g m w = (Inl (g e), w')"
  "m w = (Inr x, w') \<Longrightarrow> pmap_err g m w = (Inr x, w')"
  by (simp_all add: pmap_err_def)

lemma pbind_cases:
  assumes "pbind m f w = (r, w'')"
  obtains e w' where "m w = (Inl e, w')" "r = Inl e" "w'' = w'"
    | x w' where "m w = (Inr x, w')" "f x w' = (r, w'')"
  using assms by (auto simp: pbind_def split: prod.splits sum.splits)

text \<open>
  A relation between the world before and the world after that every call keeps, whatever it answers.
\<close>

named_theorems keeps_rules \<open>a procedure keeps a relation when its parts do\<close>

definition keeps :: "('w \<Rightarrow> 'w \<Rightarrow> bool) \<Rightarrow> ('w, 'e, 'a) proc \<Rightarrow> bool" where
  "keeps R m \<longleftrightarrow> (\<forall>w. R w (snd (m w)))"

lemma keepsD: "keeps R m \<Longrightarrow> m w = (r, w') \<Longrightarrow> R w w'"
  by (metis keeps_def snd_conv)

lemma keeps_pure [keeps_rules]:
  "reflp R \<Longrightarrow> keeps R (pret x)" "reflp R \<Longrightarrow> keeps R (praise e)"
  "reflp R \<Longrightarrow> keeps R (pasks f)" "reflp R \<Longrightarrow> keeps R (plift r)"
  by (simp_all add: keeps_def reflp_def)

lemma keeps_pmodify [keeps_rules]: "(\<And>w. R w (f w)) \<Longrightarrow> keeps R (pmodify f)"
  by (simp add: keeps_def)

lemma keeps_pbind [keeps_rules]:
  assumes "transp R" "keeps R m" "\<And>x. keeps R (f x)"
  shows "keeps R (pbind m f)"
  unfolding keeps_def
proof
  fix w
  obtain r w' where m: "m w = (r, w')" by fastforce
  with assms(2) have "R w w'" by (rule keepsD)
  moreover have "R w' (snd (f x w'))" for x
    using assms(3) by (simp add: keeps_def)
  ultimately show "R w (snd (pbind m f w))"
    using assms(1) m by (cases r) (auto dest: transpD)
qed

lemma keeps_pmap_err [keeps_rules]: "keeps R m \<Longrightarrow> keeps R (pmap_err g m)"
  by (simp add: keeps_def pmap_err_def case_prod_beta)

lemma keeps_pattempt [keeps_rules]: "keeps R m \<Longrightarrow> keeps R (pattempt m)"
  by (simp add: keeps_def pattempt_def case_prod_beta)

lemma keeps_cases [keeps_rules]:
  "(b \<Longrightarrow> keeps R m) \<Longrightarrow> (\<not> b \<Longrightarrow> keeps R n) \<Longrightarrow> keeps R (if b then m else n)"
  "(o' = None \<Longrightarrow> keeps R m) \<Longrightarrow> (\<And>x. o' = Some x \<Longrightarrow> keeps R (f x)) \<Longrightarrow>
     keeps R (case o' of None \<Rightarrow> m | Some x \<Rightarrow> f x)"
  "(\<And>e. s = Inl e \<Longrightarrow> keeps R (g e)) \<Longrightarrow> (\<And>x. s = Inr x \<Longrightarrow> keeps R (h x)) \<Longrightarrow>
     keeps R (case s of Inl e \<Rightarrow> g e | Inr x \<Rightarrow> h x)"
  by (simp_all split: option.splits sum.splits)

end
