(* ===== verification/GatewayStore.thy ===== *)
theory GatewayStore
  imports GatewayModel
begin

text \<open>
  The durable state of the provider gateway (\<open>storage.rs\<close>, \<open>postgres_store.rs\<close>): its tables, its SQL
  statements and the operations built from them. An operation runs its statements one by one; each is
  atomic and may fail, or be applied with its answer lost. The SQLite store runs them bare, the
  PostgreSQL store puts the longer operations in a transaction, which an error rolls back. Where the two
  run the same statements one definition serves both.
\<close>

section \<open>Tables\<close>

record turn_record =
  tu_request_hash :: string
  tu_state :: string
  tu_response_json :: "string option"
  tu_error_json :: "string option"
  tu_error_status :: "u16 option"
  tu_response_expires_at :: "int option"

record admin_record =
  ad_request_hash :: string
  ad_state :: string
  ad_response_json :: "string option"

record health_row =
  he_consecutive_failures :: int
  he_circuit_state :: string
  he_opened_until :: int

record lease_row =
  le_lease_id :: string
  le_scope_key :: string
  le_expires_at :: int

record execution_snapshot_row =
  ex_id :: string
  ex_run_id :: string
  ex_turn :: int
  ex_model_resource_id :: string
  ex_model_resource_revision :: int
  ex_snapshot_json :: string

record revision_row =
  rv_id :: string
  rv_revision :: int
  rv_current :: bool
  rv_json :: string

record connection_row =
  co_id :: string
  co_version :: int
  co_enabled :: bool
  co_json :: string

record audit_row =
  ar_id :: int
  ar_event_type :: string
  ar_subject_id :: string
  ar_metadata_json :: string

record gateway_db =
  gd_turns :: "string \<Rightarrow> turn_record option"
  gd_snapshots :: "execution_snapshot_row list"
  gd_resources :: "revision_row list"
  gd_policies :: "revision_row list"
  gd_audit :: "audit_row list"
  gd_audit_seq :: int
  gd_admin :: "string \<Rightarrow> admin_record option"
  gd_health :: "string \<times> int \<Rightarrow> health_row option"
  gd_quota :: "string \<times> string \<times> string \<Rightarrow> int option"
  gd_leases :: "lease_row list"
  gd_secrets :: "string \<Rightarrow> string option"
  gd_connections :: "connection_row list"
  gd_configuration_version :: int

definition empty_gateway_db :: gateway_db where
  "empty_gateway_db =
     \<lparr>gd_turns = (\<lambda>_. None), gd_snapshots = [], gd_resources = [], gd_policies = [], gd_audit = [],
      gd_audit_seq = 0, gd_admin = (\<lambda>_. None), gd_health = (\<lambda>_. None), gd_quota = (\<lambda>_. None),
      gd_leases = [], gd_secrets = (\<lambda>_. None), gd_connections = [], gd_configuration_version = 0\<rparr>"

section \<open>Statements\<close>

datatype persistent_store = Sqlite | Postgres

datatype stmt_outcome = Stmt_done | Stmt_failed | Stmt_lost

text \<open>
  \<open>serde_json\<close> prints and parses the structures; what is printed is the codec's. Audit metadata that
  the code builds with \<open>json!\<close> is a \<open>json\<close> value.
\<close>

record gateway_codec =
  gc_json :: "json \<Rightarrow> string"
  gc_parse :: "string \<Rightarrow> json option"
  gc_enc_resource :: "model_resource \<Rightarrow> string"
  gc_dec_resource :: "string \<Rightarrow> model_resource option"
  gc_enc_policy :: "model_selection_policy \<Rightarrow> string"
  gc_dec_policy :: "string \<Rightarrow> model_selection_policy option"
  gc_enc_connection :: "provider_connection \<Rightarrow> string"
  gc_dec_connection :: "string \<Rightarrow> provider_connection option"
  gc_enc_error :: "gateway_error_envelope \<Rightarrow> string"
  gc_dec_error :: "string \<Rightarrow> gateway_error_envelope option"
  gc_enc_execution :: "model_execution_summary \<Rightarrow> string"
  gc_dec_execution :: "string \<Rightarrow> model_execution_summary option"
  gc_enc_response :: "turn_response \<Rightarrow> string"
  gc_dec_response :: "string \<Rightarrow> turn_response option"
  gc_enc_input :: "turn_input \<Rightarrow> string"
  gc_enc_capabilities :: "provider_capabilities \<Rightarrow> string"

record store_env =
  se_backend :: persistent_store
  se_stmt :: "nat \<Rightarrow> stmt_outcome"
  se_clock :: "nat \<Rightarrow> time"
  se_codec :: gateway_codec

record store_world =
  sw_db :: gateway_db
  sw_stmts :: nat
  sw_reads :: nat

type_synonym ('z, 'a) store_proc = "('z store_world_scheme, gateway_store_error, 'a) proc"

text \<open>
  A statement is a function of the tables; \<open>None\<close> is a violated constraint, which fails the statement.
\<close>

definition sql ::
    "'e store_env_scheme \<Rightarrow> (gateway_db \<Rightarrow> ('a \<times> gateway_db) option) \<Rightarrow> ('z, 'a) store_proc" where
  "sql E f w =
    (let n = sw_stmts w; w' = w\<lparr>sw_stmts := Suc n\<rparr> in
     case f (sw_db w) of
       None \<Rightarrow> (Inl Statement_failed, w')
     | Some (x, db) \<Rightarrow>
         (case se_stmt E n of
            Stmt_done \<Rightarrow> (Inr x, w'\<lparr>sw_db := db\<rparr>)
          | Stmt_failed \<Rightarrow> (Inl Statement_failed, w')
          | Stmt_lost \<Rightarrow> (Inl Statement_failed, w'\<lparr>sw_db := db\<rparr>)))"

definition sql_query :: "'e store_env_scheme \<Rightarrow> (gateway_db \<Rightarrow> 'a) \<Rightarrow> ('z, 'a) store_proc" where
  "sql_query E f = sql E (\<lambda>db. Some (f db, db))"

definition sql_update :: "'e store_env_scheme \<Rightarrow> (gateway_db \<Rightarrow> gateway_db) \<Rightarrow> ('z, unit) store_proc" where
  "sql_update E f = sql E (\<lambda>db. Some ((), f db))"

text \<open>\<open>Client::transaction\<close> ... \<open>commit\<close>: \<open>BEGIN\<close> and \<open>COMMIT\<close> are statements, an error rolls back.\<close>

definition pg_transaction :: "'e store_env_scheme \<Rightarrow> ('z, 'a) store_proc \<Rightarrow> ('z, 'a) store_proc" where
  "pg_transaction E m w =
    (case pbind (sql_update E (\<lambda>db. db)) (\<lambda>_. m) w of
       (Inl e, w') \<Rightarrow> (Inl e, w'\<lparr>sw_db := sw_db w\<rparr>)
     | (Inr x, w') \<Rightarrow>
         (case se_stmt E (sw_stmts w') of
            Stmt_done \<Rightarrow> (Inr x, w'\<lparr>sw_stmts := Suc (sw_stmts w')\<rparr>)
          | Stmt_failed \<Rightarrow>
              (Inl Statement_failed, w'\<lparr>sw_stmts := Suc (sw_stmts w'), sw_db := sw_db w\<rparr>)
          | Stmt_lost \<Rightarrow> (Inl Statement_failed, w'\<lparr>sw_stmts := Suc (sw_stmts w')\<rparr>)))"

text \<open>\<open>Utc::now()\<close> and \<open>DateTime::timestamp\<close>.\<close>

definition utc_now :: "'e store_env_scheme \<Rightarrow> ('z store_world_scheme, 'f, time) proc" where
  "utc_now E w = (Inr (se_clock E (sw_reads w)), w\<lparr>sw_reads := Suc (sw_reads w)\<rparr>)"

definition timestamp :: "time \<Rightarrow> int" where
  "timestamp t = t div 1000000000"

text \<open>\<open>i64::try_from(u64)\<close>, which the drivers apply to every \<open>u64\<close> parameter, and back.\<close>

definition i64_of :: "u64 \<Rightarrow> gateway_store_error + int" where
  "i64_of v = (if unat v < 2 ^ 63 then Inr (int (unat v)) else Inl Value_out_of_range)"

definition u64_of :: "int \<Rightarrow> gateway_store_error + u64" where
  "u64_of i = (if 0 \<le> i then Inr (word_of_int i) else Inl Value_out_of_range)"

definition i64_saturating_add :: "int \<Rightarrow> int \<Rightarrow> int" where
  "i64_saturating_add a b = max (- (2 ^ 63)) (min (2 ^ 63 - 1) (a + b))"

section \<open>Turn idempotency records\<close>

datatype stored_turn =
    St_Reserved | St_InProgress | St_Completed string | St_Expired
  | St_Failed (st_status: u16) (st_error: gateway_error_envelope)
  | St_Conflict

definition insert_turn :: "string \<Rightarrow> string \<Rightarrow> gateway_db \<Rightarrow> (nat \<times> gateway_db) option" where
  "insert_turn key request_hash db = Some (case gd_turns db key of
      Some _ \<Rightarrow> (0, db)
    | None \<Rightarrow> (1, db\<lparr>gd_turns := (gd_turns db)(key \<mapsto>
        \<lparr>tu_request_hash = request_hash, tu_state = ''in_progress'', tu_response_json = None,
         tu_error_json = None, tu_error_status = None, tu_response_expires_at = None\<rparr>)\<rparr>))"

definition update_turn ::
    "string \<Rightarrow> (turn_record \<Rightarrow> bool) \<Rightarrow> (turn_record \<Rightarrow> turn_record) \<Rightarrow> gateway_db \<Rightarrow> (nat \<times> gateway_db) option" where
  "update_turn key p f db = Some (case gd_turns db key of
      None \<Rightarrow> (0, db)
    | Some r \<Rightarrow> if p r then (1, db\<lparr>gd_turns := (gd_turns db)(key \<mapsto> f r)\<rparr>) else (0, db))"

definition stored_turn_of ::
    "'e store_env_scheme \<Rightarrow> string \<Rightarrow> string \<Rightarrow> turn_record \<Rightarrow> ('z, stored_turn) store_proc" where
  "stored_turn_of E key request_hash r =
    (if tu_request_hash r \<noteq> request_hash then pret St_Conflict
     else if tu_state r = ''in_progress'' then pret St_InProgress
     else if tu_state r = ''completed'' then
       (let completed = (case tu_response_json r of
            None \<Rightarrow> praise (Store_message ''completed idempotency record has no response'')
          | Some response \<Rightarrow> pret (St_Completed response)) in
        case tu_response_expires_at r of
          None \<Rightarrow> completed
        | Some expires_at \<Rightarrow>
            pbind (utc_now E) (\<lambda>now.
            if expires_at \<le> timestamp now
            then pbind (sql E (update_turn key (\<lambda>r. tu_state r = ''completed'')
                    (\<lambda>r. r\<lparr>tu_state := ''expired'', tu_response_json := None\<rparr>)))
                  (\<lambda>_. pret St_Expired)
            else completed))
     else if tu_state r = ''expired'' then pret St_Expired
     else if tu_state r = ''failed'' then
       (case tu_error_status r of
          None \<Rightarrow> praise (Store_message ''failed idempotency record has no HTTP status'')
        | Some status \<Rightarrow>
            (case tu_error_json r of
               None \<Rightarrow> praise (Store_message ''failed idempotency record has no error'')
             | Some text \<Rightarrow>
                 (case gc_dec_error (se_codec E) text of
                    None \<Rightarrow> praise Decode_failed
                  | Some e \<Rightarrow> pret (St_Failed status e))))
     else praise (Store_message (''unknown idempotency state '' @ tu_state r)))"

definition reserve_turn ::
    "'e store_env_scheme \<Rightarrow> string \<Rightarrow> string \<Rightarrow> ('z, stored_turn) store_proc" where
  "reserve_turn E key request_hash =
    pbind (sql E (insert_turn key request_hash)) (\<lambda>inserted.
    if inserted = 1 then pret St_Reserved
    else pbind (sql_query E (\<lambda>db. gd_turns db key)) (\<lambda>row. case row of
        None \<Rightarrow> praise (Store_message ''idempotency record disappeared during reservation'')
      | Some r \<Rightarrow> stored_turn_of E key request_hash r))"

section \<open>Audit events and the configuration version\<close>

definition insert_audit :: "string \<Rightarrow> string \<Rightarrow> string \<Rightarrow> gateway_db \<Rightarrow> gateway_db" where
  "insert_audit event_type subject_id metadata db =
     db\<lparr>gd_audit := gd_audit db @ [\<lparr>ar_id = gd_audit_seq db + 1, ar_event_type = event_type,
          ar_subject_id = subject_id, ar_metadata_json = metadata\<rparr>],
        gd_audit_seq := gd_audit_seq db + 1\<rparr>"

definition audit_event ::
    "'e store_env_scheme \<Rightarrow> string \<Rightarrow> string \<Rightarrow> string \<Rightarrow> ('z, unit) store_proc" where
  "audit_event E event_type subject_id metadata =
     sql_update E (insert_audit event_type subject_id metadata)"

definition audit_admin_operation ::
    "'e store_env_scheme \<Rightarrow> string \<Rightarrow> string \<Rightarrow> string \<Rightarrow> string \<Rightarrow> string \<Rightarrow> ('z, unit) store_proc" where
  "audit_admin_operation E event_type subject_id operator_id reason change_reference =
     audit_event E event_type subject_id (gc_json (se_codec E) (JObject
       [(''operatorId'', JString operator_id), (''reason'', JString reason),
        (''changeReference'', JString change_reference)]))"

text \<open>\<open>ORDER BY id DESC LIMIT\<close>: rows are kept in the order of their ids.\<close>

definition audit_events ::
    "'e store_env_scheme \<Rightarrow> string option \<Rightarrow> string option \<Rightarrow> int option \<Rightarrow> u16
      \<Rightarrow> ('z, (audit_row \<times> json) list) store_proc" where
  "audit_events E event_type subject_id before_id limit =
    pbind (sql_query E (\<lambda>db. take (unat limit) (rev (filter (\<lambda>r.
        (event_type = None \<or> event_type = Some (ar_event_type r)) \<and>
        (subject_id = None \<or> subject_id = Some (ar_subject_id r)) \<and>
        (case before_id of None \<Rightarrow> True | Some b \<Rightarrow> ar_id r < b)) (gd_audit db)))))
     (\<lambda>rows. case those (map (\<lambda>r. map_option (Pair r) (gc_parse (se_codec E) (ar_metadata_json r))) rows) of
        None \<Rightarrow> praise Decode_failed
      | Some events \<Rightarrow> pret events)"

definition configuration_version :: "'e store_env_scheme \<Rightarrow> ('z, u64) store_proc" where
  "configuration_version E =
     pbind (sql_query E gd_configuration_version) (\<lambda>v. plift (u64_of v))"

definition bump_configuration_version :: "'e store_env_scheme \<Rightarrow> ('z, u64) store_proc" where
  "bump_configuration_version E =
     pbind (sql_update E (\<lambda>db. db\<lparr>gd_configuration_version := gd_configuration_version db + 1\<rparr>))
       (\<lambda>_. configuration_version E)"

text \<open>PostgreSQL returns the new version from the update and notifies the other gateways of it.\<close>

definition pg_bump_configuration_version :: "'e store_env_scheme \<Rightarrow> ('z, u64) store_proc" where
  "pg_bump_configuration_version E =
     pbind (sql E (\<lambda>db. Some (gd_configuration_version db + 1,
              db\<lparr>gd_configuration_version := gd_configuration_version db + 1\<rparr>)))
       (\<lambda>version. pbind (sql_update E (\<lambda>db. db)) (\<lambda>_. plift (u64_of version)))"

section \<open>Completing and failing a turn\<close>

definition insert_snapshot :: "execution_snapshot_row \<Rightarrow> gateway_db \<Rightarrow> gateway_db" where
  "insert_snapshot row db =
    (if \<exists>r \<in> set (gd_snapshots db). ex_id r = ex_id row then db
     else db\<lparr>gd_snapshots := gd_snapshots db @ [row]\<rparr>)"

definition usage_json :: "token_usage \<Rightarrow> json" where
  "usage_json u = JObject [(''inputTokens'', json_word (us_input_tokens u)),
     (''outputTokens'', json_word (us_output_tokens u)),
     (''cachedInputTokens'', json_word (us_cached_input_tokens u))]"

definition automatic_switch_json :: "automatic_switch_summary \<Rightarrow> json" where
  "automatic_switch_json s = JObject [(''used'', JBool (sw_used s)),
     (''reason'', json_opt JString (sw_reason s)),
     (''fromModelResourceId'', json_opt JString (sw_from_model_resource_id s))]"

definition completed_metadata :: "turn_response \<Rightarrow> string \<Rightarrow> u32 \<Rightarrow> json" where
  "completed_metadata response run_id turn = (let m = gt_model_execution response in JObject
     [(''runId'', JString run_id), (''turn'', json_word turn),
      (''modelResourceId'', JString (me_model_resource_id m)),
      (''modelResourceRevision'', json_word (me_model_resource_revision m)),
      (''selectionPolicyId'', JString (me_selection_policy_id m)),
      (''selectionPolicyRevision'', json_word (me_selection_policy_revision m)),
      (''selectionReason'', JString (me_selection_reason m)),
      (''providerRequestId'', json_opt JString (gt_provider_request_id response)),
      (''attemptCount'', json_word (gt_provider_attempt_count response)),
      (''usage'', usage_json (gt_usage response))])"

definition completed_row :: "string \<Rightarrow> time \<Rightarrow> turn_record \<Rightarrow> turn_record" where
  "completed_row encrypted now r = r\<lparr>tu_state := ''completed'', tu_response_json := Some encrypted,
     tu_error_json := None, tu_error_status := None,
     tu_response_expires_at := Some (i64_saturating_add (timestamp now) (24 * 60 * 60))\<rparr>"

definition record_completion ::
    "'e store_env_scheme \<Rightarrow> turn_response \<Rightarrow> string \<Rightarrow> u32 \<Rightarrow> int \<Rightarrow> ('z, unit) store_proc" where
  "record_completion E response run_id turn revision =
    (let m = gt_model_execution response in
     pbind (sql_update E (insert_snapshot
        \<lparr>ex_id = me_id m, ex_run_id = run_id, ex_turn = int (unat turn),
         ex_model_resource_id = me_model_resource_id m, ex_model_resource_revision = revision,
         ex_snapshot_json = gc_enc_execution (se_codec E) m\<rparr>)) (\<lambda>_.
     pbind (audit_event E ''model_execution.completed'' (me_id m)
        (gc_json (se_codec E) (completed_metadata response run_id turn))) (\<lambda>_.
     if sw_used (me_automatic_switch m)
     then audit_event E ''model_execution.automatic_switch'' (me_id m)
        (gc_json (se_codec E) (automatic_switch_json (me_automatic_switch m)))
     else pret ())))"

definition sqlite_complete_turn ::
    "'e store_env_scheme \<Rightarrow> string \<Rightarrow> string \<Rightarrow> turn_response \<Rightarrow> string \<Rightarrow> u32 \<Rightarrow> ('z, unit) store_proc" where
  "sqlite_complete_turn E key encrypted response run_id turn =
     pbind (utc_now E) (\<lambda>now.
     pbind (sql E (update_turn key (\<lambda>_. True) (completed_row encrypted now))) (\<lambda>_.
     pbind (plift (i64_of (me_model_resource_revision (gt_model_execution response)))) (\<lambda>revision.
     record_completion E response run_id turn revision)))"

definition pg_complete_turn ::
    "'e store_env_scheme \<Rightarrow> string \<Rightarrow> string \<Rightarrow> turn_response \<Rightarrow> string \<Rightarrow> u32 \<Rightarrow> ('z, unit) store_proc" where
  "pg_complete_turn E key encrypted response run_id turn =
    (if unat turn \<ge> 2 ^ 31 then praise Value_out_of_range
     else pbind (plift (i64_of (me_model_resource_revision (gt_model_execution response)))) (\<lambda>revision.
     pg_transaction E (
       pbind (utc_now E) (\<lambda>now.
       pbind (sql E (update_turn key (\<lambda>r. tu_state r = ''in_progress'') (completed_row encrypted now)))
        (\<lambda>updated.
       if updated \<noteq> 1
       then praise (Store_message ''idempotency reservation disappeared during completion'')
       else record_completion E response run_id turn revision)))))"

definition complete_turn ::
    "'e store_env_scheme \<Rightarrow> string \<Rightarrow> string \<Rightarrow> turn_response \<Rightarrow> string \<Rightarrow> u32 \<Rightarrow> ('z, unit) store_proc" where
  "complete_turn E = (case se_backend E of
     Sqlite \<Rightarrow> sqlite_complete_turn E | Postgres \<Rightarrow> pg_complete_turn E)"

definition failed_row :: "string \<Rightarrow> u16 \<Rightarrow> turn_record \<Rightarrow> turn_record" where
  "failed_row text status r = r\<lparr>tu_state := ''failed'', tu_response_json := None,
     tu_error_json := Some text, tu_error_status := Some status\<rparr>"

definition sqlite_fail_turn ::
    "'e store_env_scheme \<Rightarrow> string \<Rightarrow> u16 \<Rightarrow> gateway_error_envelope \<Rightarrow> ('z, unit) store_proc" where
  "sqlite_fail_turn E key status e =
     pbind (sql E (update_turn key (\<lambda>_. True) (failed_row (gc_enc_error (se_codec E) e) status)))
       (\<lambda>_. pret ())"

definition pg_fail_turn ::
    "'e store_env_scheme \<Rightarrow> string \<Rightarrow> u16 \<Rightarrow> gateway_error_envelope \<Rightarrow> ('z, unit) store_proc" where
  "pg_fail_turn E key status e =
     pbind (sql E (update_turn key (\<lambda>r. tu_state r = ''in_progress'')
        (\<lambda>r. (failed_row (gc_enc_error (se_codec E) e) status r)\<lparr>tu_response_expires_at := None\<rparr>)))
       (\<lambda>_. pret ())"

definition fail_turn ::
    "'e store_env_scheme \<Rightarrow> string \<Rightarrow> u16 \<Rightarrow> gateway_error_envelope \<Rightarrow> ('z, unit) store_proc" where
  "fail_turn E = (case se_backend E of Sqlite \<Rightarrow> sqlite_fail_turn E | Postgres \<Rightarrow> pg_fail_turn E)"

definition execution_snapshot ::
    "'e store_env_scheme \<Rightarrow> string \<Rightarrow> ('z, model_execution_summary option) store_proc" where
  "execution_snapshot E wid =
     pbind (sql_query E (\<lambda>db. List.find (\<lambda>r. ex_id r = wid) (gd_snapshots db))) (\<lambda>row. case row of
        None \<Rightarrow> pret None
      | Some r \<Rightarrow> (case gc_dec_execution (se_codec E) (ex_snapshot_json r) of
           None \<Rightarrow> praise Decode_failed | Some m \<Rightarrow> pret (Some m)))"

end
