(* ===== verification/GatewayPolicy.thy ===== *)
theory GatewayPolicy
  imports GatewayStore
begin

text \<open>
  What the gateway decides without its database: validation of resources, connections, policies and
  turn requests, the network policy for endpoints, the choice of policy and candidates, and the retry
  delays. URL parsing, IPv6 literals, RFC 3339 and the process environment are parameters, fields of
  \<open>gateway_env\<close>.
\<close>

datatype ip_addr =
    IPv4 "8 word" "8 word" "8 word" "8 word"
  | IPv6 u16 u16 u16 u16 u16 u16 u16 u16

record parsed_url =
  url_scheme :: string
  url_host :: "string option"
  url_username :: string
  url_password :: "string option"
  url_port :: "u16 option"
  url_query :: "string option"
  url_fragment :: "string option"

record gateway_env = store_env +
  ge_digest :: digest
  ge_parse_url :: "string \<Rightarrow> parsed_url option"
  ge_parse_ipv6 :: "string \<Rightarrow> ip_addr option"
  ge_allow_loopback :: bool
  ge_rfc3339 :: "string \<Rightarrow> time option"
  ge_enc_turn_body :: "string \<times> string \<times> turn_scope \<times> turn_routing \<times> turn_input \<Rightarrow> string"

section \<open>Network policy\<close>

fun split_on :: "char \<Rightarrow> string \<Rightarrow> string list" where
  "split_on c [] = [[]]"
| "split_on c (d # s) = (if d = c then [] # split_on c s
     else (case split_on c s of [] \<Rightarrow> [[d]] | p # ps \<Rightarrow> (d # p) # ps))"

text \<open>\<open>Ipv4Addr::from_str\<close>: four decimal octets of one to three digits without a leading zero.\<close>

definition parse_octet :: "string \<Rightarrow> 8 word option" where
  "parse_octet s =
    (if s \<noteq> [] \<and> length s \<le> 3 \<and> list_all is_ascii_digit s \<and> (hd s = CHR ''0'' \<longrightarrow> length s = 1)
        \<and> read_nat s < 256
     then Some (word_of_nat (read_nat s)) else None)"

definition parse_ipv4 :: "string \<Rightarrow> ip_addr option" where
  "parse_ipv4 s = (case map parse_octet (split_on CHR ''.'' s) of
      [Some a, Some b, Some c, Some d] \<Rightarrow> Some (IPv4 a b c d)
    | _ \<Rightarrow> None)"

definition parse_ip :: "('e gateway_env_scheme) \<Rightarrow> string \<Rightarrow> ip_addr option" where
  "parse_ip E s = (case parse_ipv4 s of Some ip \<Rightarrow> Some ip | None \<Rightarrow> ge_parse_ipv6 E s)"

definition ipv4_is_private :: "8 word \<Rightarrow> 8 word \<Rightarrow> bool" where
  "ipv4_is_private a b \<longleftrightarrow> a = 10 \<or> (a = 172 \<and> 16 \<le> b \<and> b \<le> 31) \<or> (a = 192 \<and> b = 168)"

definition is_ipv6_link_local :: "u16 \<Rightarrow> bool" where
  "is_ipv6_link_local s = (and s 0xffc0 = 0xfe80)"

definition is_ipv6_unique_local :: "u16 \<Rightarrow> bool" where
  "is_ipv6_unique_local s = (and s 0xfe00 = 0xfc00)"

fun unsafe_endpoint_ip :: "ip_addr \<Rightarrow> bool" where
  "unsafe_endpoint_ip (IPv4 a b c d) \<longleftrightarrow>
     ipv4_is_private a b \<or> a = 127 \<or> (a = 169 \<and> b = 254) \<or> (a = 255 \<and> b = 255 \<and> c = 255 \<and> d = 255)
     \<or> (a = 0 \<and> b = 0 \<and> c = 0 \<and> d = 0) \<or> (a = 169 \<and> b = 254 \<and> c = 169 \<and> d = 254)"
| "unsafe_endpoint_ip (IPv6 s0 s1 s2 s3 s4 s5 s6 s7) \<longleftrightarrow>
     [s0, s1, s2, s3, s4, s5, s6, s7] = [0, 0, 0, 0, 0, 0, 0, 1]
     \<or> [s0, s1, s2, s3, s4, s5, s6, s7] = [0, 0, 0, 0, 0, 0, 0, 0]
     \<or> is_ipv6_link_local s0 \<or> is_ipv6_unique_local s0"

definition unsafe_endpoint_host :: "'e gateway_env_scheme \<Rightarrow> string \<Rightarrow> bool" where
  "unsafe_endpoint_host E host \<longleftrightarrow>
     to_ascii_lowercase host = ''localhost'' \<or> ends_with host ''.local''
     \<or> (case parse_ip E host of None \<Rightarrow> False | Some ip \<Rightarrow> unsafe_endpoint_ip ip)"

text \<open>The last check of a resource and of a connection; \<open>what\<close> is the subject of its messages.\<close>

definition validate_endpoint ::
    "'e gateway_env_scheme \<Rightarrow> string \<Rightarrow> provider_endpoint \<Rightarrow> string + unit" where
  "validate_endpoint E what endpoint = (case ge_parse_url E (ep_base_url endpoint) of
      None \<Rightarrow> Inl (what @ '' base URL is invalid'')
    | Some url \<Rightarrow> (case url_host url of
        None \<Rightarrow> Inl (what @ '' endpoint host is required'')
      | Some host \<Rightarrow>
          if (url_scheme url \<noteq> ''https'' \<and> host \<noteq> ''localhost'' \<and> host \<noteq> ''127.0.0.1'')
             \<or> url_username url \<noteq> [] \<or> url_password url \<noteq> None \<or> url_query url \<noteq> None
             \<or> url_fragment url \<noteq> None \<or> is_blank (ep_chat_completions_path endpoint)
             \<or> \<not> starts_with (ep_chat_completions_path endpoint) ''/''
             \<or> (\<not> ge_allow_loopback E \<and> unsafe_endpoint_host E host)
          then Inl (what @ '' endpoint violates network policy'')
          else Inr ()))"

section \<open>Validation\<close>

definition valid_secret_char :: "char \<Rightarrow> bool" where
  "valid_secret_char c \<longleftrightarrow> is_ascii_digit c \<or> is_ascii_lowercase c \<or> is_ascii_uppercase c
     \<or> c \<in> {CHR ''-'', CHR ''_'', CHR ''.''}"

definition validate_database_secret_name :: "string \<Rightarrow> string + unit" where
  "validate_database_secret_name n =
    (if n = [] \<or> 128 < length n \<or> \<not> list_all valid_secret_char n
     then Inl ''database secret name is invalid'' else Inr ())"

definition validate_secret_ref :: "string \<Rightarrow> string \<Rightarrow> string + unit" where
  "validate_secret_ref what secret_ref = (case strip_prefix ''db:'' secret_ref of
      Some n \<Rightarrow> validate_database_secret_name n
    | None \<Rightarrow>
        if \<not> starts_with secret_ref ''file:'' \<and> \<not> starts_with secret_ref ''env:''
        then Inl (what @ '' secret reference backend is unsupported'') else Inr ())"

definition res_bind :: "'e + 'a \<Rightarrow> ('a \<Rightarrow> 'e + 'b) \<Rightarrow> 'e + 'b" where
  "res_bind r f = (case r of Inl e \<Rightarrow> Inl e | Inr x \<Rightarrow> f x)"

lemma res_bind_simps [simp]:
  "res_bind (Inl e) f = Inl e" "res_bind (Inr x) f = f x"
  "res_bind r f = Inr y \<longleftrightarrow> (\<exists>x. r = Inr x \<and> f x = Inr y)"
  by (auto simp: res_bind_def split: sum.splits)

definition bounded_vision :: "provider_capabilities \<Rightarrow> bool" where
  "bounded_vision c \<longleftrightarrow> pc_supported_image_media_types c \<noteq> []
     \<and> list_all (\<lambda>m. m \<in> {''image/png'', ''image/jpeg'', ''image/webp''}) (pc_supported_image_media_types c)
     \<and> pc_max_image_bytes c \<noteq> 0 \<and> pc_max_image_count c \<noteq> 0"

definition validate_model_resource :: "'e gateway_env_scheme \<Rightarrow> model_resource \<Rightarrow> string + unit" where
  "validate_model_resource E r =
    (if mr_schema_version r \<noteq> ''model-resource@1'' \<or> is_blank (mr_id r) \<or> is_blank (mr_display_name r)
        \<or> is_blank (mr_physical_model r) \<or> au_auth_type (mr_auth r) \<noteq> ''bearer''
        \<or> is_blank (au_secret_ref (mr_auth r))
        \<or> md_max_attempts (mr_defaults r) = 0 \<or> 3 < md_max_attempts (mr_defaults r)
        \<or> md_max_concurrent_requests (mr_defaults r) = 0
        \<or> 1000 < md_max_concurrent_requests (mr_defaults r)
     then Inl ''model resource has invalid required fields''
     else res_bind (validate_secret_ref ''model resource'' (au_secret_ref (mr_auth r))) (\<lambda>_.
       if supports_vision_input (mr_capabilities r) \<and> \<not> bounded_vision (mr_capabilities r)
       then Inl ''vision-capable model resource requires bounded PNG, JPEG, or WebP inputs''
       else validate_endpoint E ''model resource'' (mr_endpoint r)))"

definition validate_provider_connection ::
    "'e gateway_env_scheme \<Rightarrow> provider_connection \<Rightarrow> string + unit" where
  "validate_provider_connection E c =
    (if cn_schema_version c \<noteq> ''provider-connection@1'' \<or> is_blank (cn_id c) \<or> is_blank (cn_name c)
        \<or> au_auth_type (cn_auth c) \<noteq> ''bearer'' \<or> is_blank (au_secret_ref (cn_auth c))
     then Inl ''provider connection has invalid required fields''
     else res_bind (validate_secret_ref ''provider connection'' (au_secret_ref (cn_auth c)))
       (\<lambda>_. validate_endpoint E ''provider connection'' (cn_endpoint c)))"

definition is_workspace_namespace :: "string \<Rightarrow> bool" where
  "is_workspace_namespace s \<longleftrightarrow> 4 \<le> length s \<and> length s \<le> 63 \<and> starts_with s ''ws-''
     \<and> (let c = last s in is_ascii_digit c \<or> is_ascii_lowercase c \<or> is_ascii_uppercase c)
     \<and> list_all (\<lambda>c. is_ascii_lowercase c \<or> is_ascii_digit c \<or> c = CHR ''-'') s"

definition turn_phases :: "string list" where
  "turn_phases = [''brief'', ''build'', ''repair'', ''review'', ''edit'', ''export'']"

text \<open>The unknown resource the error of a policy names is its first.\<close>

definition validate_model_selection_policy ::
    "model_selection_policy \<Rightarrow> model_resource list \<Rightarrow> string + unit" where
  "validate_model_selection_policy p resources =
    (let cands = map mc_model_resource_id (mp_candidates p) in
     if mp_schema_version p \<noteq> ''model-selection-policy@1'' \<or> is_blank (mp_id p)
     then Inl ''model selection policy has invalid required fields''
     else if list_ex (\<lambda>w. \<not> is_workspace_namespace w) (ps_workspace_ids (mp_scope p))
        \<or> list_ex is_blank (ps_project_ids (mp_scope p))
     then Inl ''model selection policy scope contains an invalid identifier''
     else if list_ex (\<lambda>f. f \<notin> set turn_phases) (pa_phases (mp_applies_to p))
        \<or> \<not> distinct (pa_phases (mp_applies_to p))
     then Inl ''model selection policy has an invalid or duplicate phase selector''
     else if list_ex is_blank (pa_agent_profiles (mp_applies_to p))
        \<or> \<not> distinct (pa_agent_profiles (mp_applies_to p))
     then Inl ''model selection policy has an invalid or duplicate agent profile selector''
     else if list_ex (\<lambda>c. is_blank (mc_model_resource_id c) \<or> mc_weight c = 0) (mp_candidates p)
        \<or> \<not> distinct cands
     then Inl (''policy '' @ mp_id p @ '' has an invalid or duplicate automatic candidate'')
     else case List.find (\<lambda>i. i \<notin> set (map mr_id resources)) (cands @ mp_direct_selection p) of
        None \<Rightarrow> Inr ()
      | Some i \<Rightarrow> Inl (''policy '' @ mp_id p @ '' refers to unknown model resource '' @ i))"

fun first_failure :: "('a \<Rightarrow> 'e + unit) \<Rightarrow> 'a list \<Rightarrow> 'e + unit" where
  "first_failure f [] = Inr ()"
| "first_failure f (x # xs) = res_bind (f x) (\<lambda>_. first_failure f xs)"

fun validate_resources ::
    "'e gateway_env_scheme \<Rightarrow> string list \<Rightarrow> model_resource list \<Rightarrow> string + unit" where
  "validate_resources E seen [] = Inr ()"
| "validate_resources E seen (r # rs) = res_bind (validate_model_resource E r) (\<lambda>_.
     if mr_id r \<in> set seen then Inl (''duplicate model resource id: '' @ mr_id r)
     else validate_resources E (mr_id r # seen) rs)"

definition validate_config ::
    "'e gateway_env_scheme \<Rightarrow> model_resource list \<Rightarrow> model_selection_policy list \<Rightarrow> string + unit" where
  "validate_config E resources policies =
    (if resources = [] then Inl ''provider gateway requires at least one model resource''
     else if policies = [] then Inl ''provider gateway requires at least one model selection policy''
     else res_bind (validate_resources E [] resources)
       (\<lambda>_. first_failure (\<lambda>p. validate_model_selection_policy p resources) policies))"

section \<open>Size limits of a turn\<close>

definition max_json_string_bytes :: nat where
  "max_json_string_bytes = 256 * 1024"

definition max_json_depth :: nat where
  "max_json_depth = 64"

fun json_within_limits :: "json \<Rightarrow> nat \<Rightarrow> bool" where
  "json_within_limits v depth \<longleftrightarrow> depth \<le> max_json_depth \<and>
     (case v of
        JString s \<Rightarrow> length s \<le> max_json_string_bytes
      | JArray vs \<Rightarrow> list_all (\<lambda>x. json_within_limits x (depth + 1)) vs
      | JObject ms \<Rightarrow> list_all (\<lambda>m. length (fst m) \<le> max_json_string_bytes
            \<and> json_within_limits (snd m) (depth + 1)) ms
      | _ \<Rightarrow> True)"

declare json_within_limits.simps [simp del]

definition tool_within_limits :: "'e gateway_env_scheme \<Rightarrow> tool_definition \<Rightarrow> bool" where
  "tool_within_limits E t \<longleftrightarrow> \<not> is_blank (td_name t) \<and> json_within_limits (td_input_schema t) 0
     \<and> (case td_input_json_schema t of None \<Rightarrow> True | Some s \<Rightarrow> json_within_limits s 0)
     \<and> length (gc_json (se_codec E) (case td_input_json_schema t of None \<Rightarrow> td_input_schema t | Some s \<Rightarrow> s))
         \<le> 1024 * 1024"

definition input_within_limits :: "'e gateway_env_scheme \<Rightarrow> turn_input \<Rightarrow> bool" where
  "input_within_limits E i \<longleftrightarrow> length (ti_system_prompt i) \<le> 256 * 1024 \<and> length (ti_messages i) \<le> 256
     \<and> length (ti_tools i) + length (ti_deferred_tools i) \<le> 128
     \<and> length (gc_enc_input (se_codec E) i) \<le> 4 * 1024 * 1024
     \<and> list_all (\<lambda>m. json_within_limits m 0) (ti_messages i)
     \<and> list_all (tool_within_limits E) (ti_tools i @ ti_deferred_tools i)"

definition invalid_turn :: "turn_request \<Rightarrow> string \<Rightarrow> gateway_api_error" where
  "invalid_turn r message = gateway_error 400 (gr_request_id r) ''invalid_turn_request'' message False"

definition validate_turn_request ::
    "'e gateway_env_scheme \<Rightarrow> turn_request \<Rightarrow> ('z store_world_scheme, gateway_api_error, unit) proc" where
  "validate_turn_request E r =
    (if gr_schema_version r \<noteq> ''provider-gateway-turn-request@1'' \<or> is_blank (gr_request_id r)
        \<or> is_blank (gr_idempotency_key r) \<or> \<not> is_workspace_namespace (ts_workspace_id (gr_scope r))
        \<or> is_blank (ts_project_id (gr_scope r)) \<or> is_blank (ts_run_id (gr_scope r))
        \<or> is_blank (ts_agent_profile (gr_scope r))
     then praise (invalid_turn r ''Turn request is missing required identity fields or schema version'')
     else if ts_phase (gr_scope r) \<notin> set turn_phases
     then praise (invalid_turn r ''Turn request phase is not supported'')
     else case ge_rfc3339 E (gr_deadline_at r) of
        None \<Rightarrow> praise (invalid_turn r ''deadlineAt must be an RFC3339 timestamp'')
      | Some deadline \<Rightarrow>
          pbind (utc_now E) (\<lambda>now.
          if deadline \<le> now then praise (invalid_turn r ''deadlineAt must be in the future'')
          else if \<not> input_within_limits E (gr_input r)
          then praise (invalid_turn r ''Turn request exceeds configured size limits'')
          else pret ()))"

section \<open>Choosing a policy\<close>

definition policy_matches_turn :: "model_selection_policy \<Rightarrow> turn_scope \<Rightarrow> bool" where
  "policy_matches_turn p s \<longleftrightarrow>
     (ps_workspace_ids (mp_scope p) = [] \<or> ts_workspace_id s \<in> set (ps_workspace_ids (mp_scope p)))
   \<and> (ps_project_ids (mp_scope p) = [] \<or> ts_project_id s \<in> set (ps_project_ids (mp_scope p)))
   \<and> (pa_phases (mp_applies_to p) = [] \<or> ts_phase s \<in> set (pa_phases (mp_applies_to p)))
   \<and> (pa_agent_profiles (mp_applies_to p) = []
      \<or> ts_agent_profile s \<in> set (pa_agent_profiles (mp_applies_to p)))"

text \<open>The tuple \<open>resolve_policy\<close> compares, as a list of numbers in its order.\<close>

definition policy_specificity :: "turn_scope \<Rightarrow> model_selection_policy \<Rightarrow> nat list" where
  "policy_specificity s p =
     [of_bool (ts_project_id s \<in> set (ps_project_ids (mp_scope p))),
      of_bool (ts_workspace_id s \<in> set (ps_workspace_ids (mp_scope p))),
      of_bool (ts_phase s \<in> set (pa_phases (mp_applies_to p))),
      of_bool (ts_agent_profile s \<in> set (pa_agent_profiles (mp_applies_to p))),
      unat (mp_revision p)]"

text \<open>\<open>Iterator::max_by_key\<close>: of equal keys the last wins.\<close>

definition max_by_key :: "('a \<Rightarrow> 'k::linorder) \<Rightarrow> 'a list \<Rightarrow> 'a option" where
  "max_by_key f xs = fold (\<lambda>y best. case best of
      None \<Rightarrow> Some y | Some x \<Rightarrow> if f x \<le> f y then Some y else Some x) xs None"

definition resolve_policy ::
    "model_selection_policy list \<Rightarrow> turn_scope \<Rightarrow> model_selection_policy option" where
  "resolve_policy policies s =
     max_by_key (policy_specificity s) (filter (\<lambda>p. policy_matches_turn p s) policies)"

definition capabilities_match :: "model_resource \<Rightarrow> required_capabilities \<Rightarrow> bool" where
  "capabilities_match r q \<longleftrightarrow>
     (rc_tool_calls q \<longrightarrow> pc_tool_calls (mr_capabilities r))
   \<and> (rc_strict_tool_schema q \<longrightarrow> pc_strict_tool_schema (mr_capabilities r))
   \<and> (rc_streaming q \<longrightarrow> pc_streaming (mr_capabilities r))
   \<and> (rc_vision q \<longrightarrow> supports_vision_input (mr_capabilities r))"

section \<open>Ordering the candidates\<close>

fun pick_bucket :: "model_candidate list \<Rightarrow> nat \<Rightarrow> string option" where
  "pick_bucket [] b = None"
| "pick_bucket (c # cs) b =
     (if b < unat (mc_weight c) then Some (mc_model_resource_id c)
      else pick_bucket cs (b - unat (mc_weight c)))"

definition total_weight :: "model_candidate list \<Rightarrow> nat" where
  "total_weight cs = sum_list (map (\<lambda>c. unat (mc_weight c)) cs)"

definition weighted_candidate_id :: "digest \<Rightarrow> model_candidate list \<Rightarrow> string \<Rightarrow> string option" where
  "weighted_candidate_id D cs selection_key =
    (if total_weight cs = 0 then None
     else pick_bucket cs (be_value (take 8 (D selection_key)) mod total_weight cs))"

text \<open>Only candidates of the first priority that have a resource take part in the weighted choice.\<close>

definition primary_candidate ::
    "digest \<Rightarrow> model_candidate list \<Rightarrow> (string, model_resource) btree \<Rightarrow> string \<Rightarrow> string option" where
  "primary_candidate D sorted_candidates resources selection_key =
     weighted_candidate_id D
       (filter (\<lambda>c. bt_get resources (mc_model_resource_id c) \<noteq> None)
         (filter (\<lambda>c. mc_priority c = mc_priority (hd sorted_candidates)) sorted_candidates))
       selection_key"

definition ordered_automatic_candidates ::
    "digest \<Rightarrow> model_selection_policy \<Rightarrow> (string, model_resource) btree \<Rightarrow> string \<Rightarrow> model_resource list" where
  "ordered_automatic_candidates D policy resources selection_key =
    (let cs = sort_key mc_priority (mp_candidates policy) in
     if cs = [] then []
     else let primary = primary_candidate D cs resources selection_key in
       (case Option.bind primary (bt_get resources) of None \<Rightarrow> [] | Some r \<Rightarrow> [r])
       @ List.map_filter (\<lambda>c. bt_get resources (mc_model_resource_id c))
           (filter (\<lambda>c. primary \<noteq> Some (mc_model_resource_id c)) cs))"

section \<open>Deadlines and retries\<close>

definition provider_timeout_error :: "turn_request \<Rightarrow> string \<Rightarrow> gateway_api_error" where
  "provider_timeout_error r message =
     gateway_error 504 (gr_request_id r) ''provider_timeout'' message True"

definition remaining_turn_deadline ::
    "'e gateway_env_scheme \<Rightarrow> turn_request \<Rightarrow> ('z store_world_scheme, gateway_api_error, time) proc" where
  "remaining_turn_deadline E r = (case ge_rfc3339 E (gr_deadline_at r) of
      None \<Rightarrow> praise (invalid_turn r ''deadlineAt must be an RFC3339 timestamp'')
    | Some deadline \<Rightarrow> pbind (utc_now E) (\<lambda>now.
        if deadline \<le> now
        then praise (provider_timeout_error r ''Turn request deadline elapsed before the Provider call'')
        else pret (deadline - now)))"

definition milliseconds :: "nat \<Rightarrow> time" where
  "milliseconds n = int n * 1000000"

definition provider_call_timeout ::
    "'e gateway_env_scheme \<Rightarrow> model_resource \<Rightarrow> turn_request
      \<Rightarrow> ('z store_world_scheme, gateway_api_error, time) proc" where
  "provider_call_timeout E resource r =
     pbind (remaining_turn_deadline E r) (\<lambda>remaining.
     pret (min (milliseconds (unat (md_request_timeout_ms (mr_defaults resource)))) remaining))"

text \<open>\<open>Retry-After\<close> in seconds: \<open>str::trim\<close> of visible ASCII, then \<open>parse::<u64>\<close>.\<close>

definition trim_spaces :: "string \<Rightarrow> string" where
  "trim_spaces s = (let ws = (\<lambda>c. (9 \<le> code c \<and> code c \<le> 13) \<or> code c = 32) in
     rev (dropWhile ws (rev (dropWhile ws s))))"

definition parse_u64 :: "string \<Rightarrow> u64 option" where
  "parse_u64 s = (let d = (case s of c # t \<Rightarrow> if c = CHR ''+'' then t else s | [] \<Rightarrow> []) in
     if d \<noteq> [] \<and> list_all is_ascii_digit d \<and> read_nat d < 2 ^ 64
     then Some (word_of_nat (read_nat d)) else None)"

definition provider_retry_after_ms :: "string option \<Rightarrow> u64 option" where
  "provider_retry_after_ms header =
     map_option (\<lambda>s. word_of_nat (min (unat s * 1000) 60000))
       (Option.bind header (\<lambda>h. parse_u64 (trim_spaces h)))"

definition u32_be_bytes :: "u32 \<Rightarrow> string" where
  "u32_be_bytes w = drop 4 (be_bytes (unat w))"

definition provider_retry_delay ::
    "digest \<Rightarrow> turn_request \<Rightarrow> u32 \<Rightarrow> gateway_api_error \<Rightarrow> nat" where
  "provider_retry_delay D r attempt e = (case api_error_retry_after e of
      Some ms \<Rightarrow> unat ms
    | None \<Rightarrow>
       (let exponent = min (unat attempt - 1) 4;
            base_ms = 100 * 2 ^ exponent;
            ceiling = max (base_ms div 4) 1;
            jitter = code (hd (D (gr_idempotency_key r @ u32_be_bytes attempt))) mod ceiling
        in base_ms + jitter))"

section \<open>Hashes and estimates\<close>

definition capability_hash :: "'e gateway_env_scheme \<Rightarrow> provider_capabilities \<Rightarrow> string" where
  "capability_hash E c = sha256_hex (ge_digest E) (gc_enc_capabilities (se_codec E) c)"

text \<open>The request id and the deadline are left out of the hash.\<close>

definition idempotency_request_hash :: "'e gateway_env_scheme \<Rightarrow> turn_request \<Rightarrow> string" where
  "idempotency_request_hash E r = sha256_hex (ge_digest E) (ge_enc_turn_body E
     (gr_schema_version r, gr_idempotency_key r, gr_scope r, gr_routing r, gr_input r))"

definition turn_key :: "turn_request \<Rightarrow> string" where
  "turn_key r = ts_run_id (gr_scope r) @ '':'' @ show_nat (unat (ts_turn (gr_scope r))) @ '':''
     @ gr_idempotency_key r"

definition estimate_input_tokens :: "'e gateway_env_scheme \<Rightarrow> turn_input \<Rightarrow> u64" where
  "estimate_input_tokens E i =
     word_of_nat (min (2 ^ 64 - 1) (length (gc_enc_input (se_codec E) i) + 3) div 4)"

definition ensure_leading_slash :: "string \<Rightarrow> string" where
  "ensure_leading_slash path = (if starts_with path ''/'' then path else ''/'' @ path)"

end
