(* ===== verification/GatewayMessages.thy ===== *)
theory GatewayMessages
  imports GatewayPolicy
begin

text \<open>
  What goes to a provider and what comes back: tool aliases, the messages of the OpenAI-compatible body,
  bound visual artifacts, the detail of a rejection and the parsed response. JSON texts, base64 and the
  artifact source are parameters.
\<close>

datatype artifact_outcome =
    Artifact_unreachable
  | Artifact_response (art_status: u16) (art_headers: "string \<Rightarrow> string option") (art_bytes: "string option")

datatype http_outcome =
    Http_timeout
  | Http_failed
  | Http_response (http_status: u16) (http_headers: "string \<Rightarrow> string option option") (http_body: "string option")

record http_request =
  hq_resource_id :: string
  hq_endpoint :: string
  hq_api_key :: string
  hq_request_id :: string
  hq_timeout :: time
  hq_body :: json

record message_env = gateway_env +
  ge_base64 :: "string \<Rightarrow> string"
  ge_unbase64 :: "string \<Rightarrow> string option"
  ge_runtime_base_url :: "string option"
  ge_artifact_token :: "unit + string option"
  ge_artifact :: "nat \<Rightarrow> string \<Rightarrow> artifact_outcome"

record message_world = store_world +
  gw_artifacts :: nat

section \<open>Tool aliases\<close>

text \<open>
  Every character that is not an ASCII letter, digit, \<open>_\<close> or \<open>-\<close> becomes one \<open>_\<close>: a lead byte does, the
  bytes that continue a character (128 to 191) disappear with it.
\<close>

definition alias_chars :: "char \<Rightarrow> string" where
  "alias_chars c =
    (if is_ascii_digit c \<or> is_ascii_lowercase c \<or> is_ascii_uppercase c \<or> c = CHR ''_'' \<or> c = CHR ''-''
     then [c] else if 128 \<le> code c \<and> code c \<le> 191 then [] else ''_'')"

definition trim_matches :: "char \<Rightarrow> string \<Rightarrow> string" where
  "trim_matches c s = rev (dropWhile (\<lambda>d. d = c) (rev (dropWhile (\<lambda>d. d = c) s)))"

definition provider_tool_prefix :: "string \<Rightarrow> string" where
  "provider_tool_prefix runtime_name =
    (let p = trim_matches CHR ''_'' (take 45 (concat (map alias_chars runtime_name))) in
     if p = [] then ''tool'' else p)"

definition provider_tool_alias :: "digest \<Rightarrow> string \<Rightarrow> string" where
  "provider_tool_alias D runtime_name =
     provider_tool_prefix runtime_name @ ''__'' @ take 16 (sha256_hex D runtime_name)"

record tool_alias_map =
  am_runtime_to_provider :: "(string \<times> string) list"
  am_provider_to_runtime :: "string \<Rightarrow> string option"

fun alias_tools :: "digest \<Rightarrow> string \<Rightarrow> string list \<Rightarrow> tool_alias_map \<Rightarrow> gateway_api_error + tool_alias_map" where
  "alias_tools D request_id [] m = Inr m"
| "alias_tools D request_id (n # ns) m =
    (if map_of (am_runtime_to_provider m) n \<noteq> None then alias_tools D request_id ns m
     else let p = provider_tool_alias D n in
       if am_provider_to_runtime m p \<noteq> None \<and> am_provider_to_runtime m p \<noteq> Some n
       then Inl (gateway_error 400 request_id ''invalid_turn_request''
              ''Tool aliases are not unique for this request'' False)
       else alias_tools D request_id ns
              (m\<lparr>am_runtime_to_provider := am_runtime_to_provider m @ [(n, p)],
                 am_provider_to_runtime := (am_provider_to_runtime m)(p \<mapsto> n)\<rparr>))"

fun alias_history :: "digest \<Rightarrow> string \<Rightarrow> string list \<Rightarrow> tool_alias_map \<Rightarrow> gateway_api_error + tool_alias_map" where
  "alias_history D request_id [] m = Inr m"
| "alias_history D request_id (n # ns) m =
    (let p = provider_tool_alias D n in
     case am_provider_to_runtime m p of
       Some existing \<Rightarrow>
         if existing \<noteq> n
         then Inl (gateway_error 400 request_id ''invalid_turn_request''
                ''Historical tool aliases are not unique for this request'' False)
         else alias_history D request_id ns m
     | None \<Rightarrow> alias_history D request_id ns
         (m\<lparr>am_provider_to_runtime := (am_provider_to_runtime m)(p \<mapsto> n)\<rparr>))"

definition historical_names :: "json \<Rightarrow> string list" where
  "historical_names message =
     (case json_get_array ''toolCalls'' message of None \<Rightarrow> []
      | Some calls \<Rightarrow> List.map_filter (json_get_str ''name'') calls)
     @ (case json_get_str ''toolName'' message of None \<Rightarrow> [] | Some n \<Rightarrow> [n])"

definition request_tool_names :: "turn_request \<Rightarrow> string list" where
  "request_tool_names r = map td_name (ti_tools (gr_input r) @ ti_deferred_tools (gr_input r))"

definition alias_map_from_request :: "digest \<Rightarrow> turn_request \<Rightarrow> gateway_api_error + tool_alias_map" where
  "alias_map_from_request D r =
     res_bind (alias_tools D (gr_request_id r) (request_tool_names r)
        \<lparr>am_runtime_to_provider = [], am_provider_to_runtime = (\<lambda>_. None)\<rparr>)
       (alias_history D (gr_request_id r) (concat (map historical_names (ti_messages (gr_input r)))))"

definition alias_provider_name :: "tool_alias_map \<Rightarrow> string \<Rightarrow> string option" where
  "alias_provider_name m n = map_of (am_runtime_to_provider m) n"

fun split_once :: "string \<Rightarrow> string \<Rightarrow> (string \<times> string) option" where
  "split_once p [] = (if p = [] then Some ([], []) else None)"
| "split_once p (c # s) =
     (if starts_with (c # s) p then Some ([], drop (length p) (c # s))
      else map_option (\<lambda>(a, b). (c # a, b)) (split_once p s))"

definition compatible_prefix :: "string \<Rightarrow> string" where
  "compatible_prefix provider_name = (case split_once ''__'' provider_name of
      Some (prefix, suffix) \<Rightarrow>
        if 8 \<le> length suffix \<and> length suffix \<le> 64 \<and> list_all is_ascii_hexdigit suffix then prefix
        else provider_name
    | None \<Rightarrow> provider_name)"

definition alias_runtime_name :: "tool_alias_map \<Rightarrow> string \<Rightarrow> string option" where
  "alias_runtime_name m provider_name = (case am_provider_to_runtime m provider_name of
      Some n \<Rightarrow> Some n
    | None \<Rightarrow>
        if map_of (am_runtime_to_provider m) provider_name \<noteq> None then Some provider_name
        else (case filter (\<lambda>n. provider_tool_prefix n = compatible_prefix provider_name)
                (map fst (am_runtime_to_provider m)) of
                [n] \<Rightarrow> Some n | _ \<Rightarrow> None))"

section \<open>Content\<close>

definition str_obj :: "(string \<times> string) list \<Rightarrow> json" where
  "str_obj kvs = JObject (map (\<lambda>(k, v). (k, JString v)) kvs)"

definition or_default :: "'a \<Rightarrow> 'a option \<Rightarrow> 'a" where
  "or_default d x = (case x of None \<Rightarrow> d | Some y \<Rightarrow> y)"

definition provider_block :: "gateway_codec \<Rightarrow> json \<Rightarrow> string + json" where
  "provider_block C block = (case json_get_str ''type'' block of
      None \<Rightarrow> Inl ''content block requires type''
    | Some ty \<Rightarrow>
       if ty = ''text''
       then Inr (str_obj [(''type'', ''text''), (''text'', or_default [] (json_get_str ''text'' block))])
       else if ty = ''json''
       then Inr (str_obj [(''type'', ''text''), (''text'', gc_json C (or_default JNull (json_get ''value'' block)))])
       else if ty = ''image'' then
         (case json_get_str ''mediaType'' block of
            None \<Rightarrow> Inl ''image content block requires mediaType''
          | Some media_type \<Rightarrow> (case json_get_str ''dataBase64'' block of
              None \<Rightarrow> Inl ''image content block was not resolved by the Gateway''
            | Some d \<Rightarrow> Inr (JObject [(''type'', JString ''image_url''),
                (''image_url'', str_obj [(''url'', ''data:'' @ media_type @ '';base64,'' @ d),
                   (''detail'', ''high'')])])))
       else Inl (''unsupported content block type: '' @ ty))"

fun traverse :: "('a \<Rightarrow> 'e + 'b) \<Rightarrow> 'a list \<Rightarrow> 'e + 'b list" where
  "traverse f [] = Inr []"
| "traverse f (x # xs) = res_bind (f x) (\<lambda>y. res_bind (traverse f xs) (\<lambda>ys. Inr (y # ys)))"

definition provider_content_blocks :: "gateway_codec \<Rightarrow> json \<Rightarrow> string + json option" where
  "provider_content_blocks C content = (case json_array content of
      None \<Rightarrow> Inr None
    | Some blocks \<Rightarrow> res_bind (traverse (provider_block C) blocks) (\<lambda>bs. Inr (Some (JArray bs))))"

definition provider_content_has_image :: "json \<Rightarrow> bool" where
  "provider_content_has_image content = (case json_array content of
      None \<Rightarrow> False
    | Some blocks \<Rightarrow> list_ex (\<lambda>b. json_get_str ''type'' b = Some ''image_url'') blocks)"

definition content_to_string :: "gateway_codec \<Rightarrow> json \<Rightarrow> string" where
  "content_to_string C content = (case json_str content of Some s \<Rightarrow> s | None \<Rightarrow> gc_json C content)"

definition block_text :: "gateway_codec \<Rightarrow> json \<Rightarrow> string list" where
  "block_text C block =
    (let ty = json_get_str ''type'' block in
     if ty = Some ''text''
     then (case json_get_str ''text'' block of None \<Rightarrow> [] | Some t \<Rightarrow> [t])
     else if ty = Some ''json'' then [gc_json C (or_default JNull (json_get ''value'' block))]
     else if ty = Some ''image''
     then [''[bound visual artifact: '' @ or_default ''unknown'' (json_get_str ''artifactId'' block) @ '']'']
     else [])"

fun join_lines :: "string list \<Rightarrow> string" where
  "join_lines [] = []"
| "join_lines [p] = p"
| "join_lines (p # ps) = p @ [nl] @ join_lines ps"

definition content_blocks_text :: "gateway_codec \<Rightarrow> json \<Rightarrow> string" where
  "content_blocks_text C content = (case json_array content of
      None \<Rightarrow> content_to_string C content
    | Some blocks \<Rightarrow> join_lines (concat (map (block_text C) blocks)))"

section \<open>Messages\<close>

definition provider_name_of :: "digest \<Rightarrow> tool_alias_map \<Rightarrow> string \<Rightarrow> string" where
  "provider_name_of D m n = or_default (provider_tool_alias D n) (alias_provider_name m n)"

definition call_json :: "string \<Rightarrow> string \<Rightarrow> string \<Rightarrow> json" where
  "call_json call_id provider_name arguments = JObject
     [(''id'', JString call_id), (''type'', JString ''function''),
      (''function'', str_obj [(''name'', provider_name), (''arguments'', arguments)])]"

text \<open>One call of an assistant message, with its id.\<close>

definition assistant_call ::
    "gateway_codec \<Rightarrow> digest \<Rightarrow> tool_alias_map \<Rightarrow> json \<Rightarrow> string + string \<times> json" where
  "assistant_call C D m call = (case json_get_str ''id'' call of
      None \<Rightarrow> Inl ''assistant tool call requires id''
    | Some call_id \<Rightarrow> (case json_get_str ''name'' call of
        None \<Rightarrow> Inl ''assistant tool call requires name''
      | Some n \<Rightarrow> Inr (call_id, call_json call_id (provider_name_of D m n)
                  (gc_json C (or_default (JObject []) (json_get ''input'' call))))))"

text \<open>The calls put in front of tool results that no longer have an assistant message.\<close>

definition orphan_call :: "digest \<Rightarrow> tool_alias_map \<Rightarrow> json \<Rightarrow> string + string \<times> json" where
  "orphan_call D m orphan = (case json_get_str ''toolUseId'' orphan of
      None \<Rightarrow> Inl ''tool message requires toolUseId''
    | Some call_id \<Rightarrow> (case json_get_str ''toolName'' orphan of
        None \<Rightarrow> Inl ''orphaned compacted tool message requires toolName''
      | Some n \<Rightarrow> Inr (call_id, call_json call_id (provider_name_of D m n) ''{}'')))"

definition is_tool_message :: "json \<Rightarrow> bool" where
  "is_tool_message message \<longleftrightarrow> json_get_str ''role'' message = Some ''tool''"

definition assistant_message :: "json list \<Rightarrow> json" where
  "assistant_message calls = JObject [(''role'', JString ''assistant''), (''tool_calls'', JArray calls)]"

definition tool_result_message :: "string \<Rightarrow> string \<Rightarrow> json" where
  "tool_result_message call_id content =
     str_obj [(''role'', ''tool''), (''tool_call_id'', call_id), (''content'', content)]"

definition role_message :: "string \<Rightarrow> json \<Rightarrow> json" where
  "role_message role content = JObject [(''role'', JString role), (''content'', content)]"

definition provider_role :: "string \<Rightarrow> string option" where
  "provider_role raw =
    (if raw \<in> {''assistant'', ''tool'', ''user''} then Some raw
     else if raw \<in> {''system'', ''model'', ''runtime''} then Some ''system'' else None)"

text \<open>A message that is neither a tool result nor an assistant message with calls.\<close>

definition plain_messages :: "gateway_codec \<Rightarrow> string \<Rightarrow> json \<Rightarrow> string + json list" where
  "plain_messages C role message =
    (let fallback = (if role = ''system'' \<and> json_get_str ''kind'' message \<noteq> None then Some message else None);
         content = (case json_get ''content'' message of Some c \<Rightarrow> Some c
                    | None \<Rightarrow> (case json_get ''text'' message of Some t \<Rightarrow> Some t | None \<Rightarrow> fallback)) in
     case content of
       None \<Rightarrow> Inl ''message requires content or text''
     | Some c \<Rightarrow> res_bind (provider_content_blocks C c) (\<lambda>blocks. Inr (case blocks of
           None \<Rightarrow> [role_message role (JString (content_to_string C c))]
         | Some multimodal \<Rightarrow>
             if role = ''user'' then [role_message role multimodal]
             else if provider_content_has_image multimodal
             then [role_message role (JString (content_blocks_text C c)), role_message ''user'' multimodal]
             else [role_message role (JString (content_blocks_text C c))])))"

text \<open>
  The loop over the messages. \<open>pending\<close> are the ids of calls announced and not yet answered; a result
  that is not among them gets a message that announces the whole run of results it starts.
\<close>

fun normalize_loop ::
    "gateway_codec \<Rightarrow> digest \<Rightarrow> tool_alias_map \<Rightarrow> string set \<Rightarrow> json list \<Rightarrow> string + json list" where
  "normalize_loop C D m pending [] = Inr []"
| "normalize_loop C D m pending (message # rest) = (case json_get_str ''role'' message of
      None \<Rightarrow> Inl ''Every message requires a role''
    | Some raw \<Rightarrow> (case provider_role raw of
        None \<Rightarrow> Inl (''Unsupported runtime message role: '' @ raw)
      | Some role \<Rightarrow>
        (case (if role = ''assistant'' then json_get_array ''toolCalls'' message else None) of
          Some calls \<Rightarrow>
            res_bind (traverse (assistant_call C D m) calls) (\<lambda>cs.
            res_bind (normalize_loop C D m (set (map fst cs)) rest) (\<lambda>out.
            Inr (assistant_message (map snd cs) # out)))
        | None \<Rightarrow>
          if role = ''tool'' then
            (case json_get_str ''toolUseId'' message of
               None \<Rightarrow> Inl ''tool message requires toolUseId''
             | Some call_id \<Rightarrow>
                 res_bind (if call_id \<in> pending then Inr None
                   else res_bind (traverse (orphan_call D m) (takeWhile is_tool_message (message # rest)))
                          (\<lambda>cs. Inr (Some cs))) (\<lambda>orphans.
                 let content = or_default JNull (json_get ''content'' message);
                     announced = (case orphans of None \<Rightarrow> pending | Some cs \<Rightarrow> pending \<union> set (map fst cs)) in
                 res_bind (provider_content_blocks C content) (\<lambda>multimodal.
                 res_bind (normalize_loop C D m (announced - {call_id}) rest) (\<lambda>out. Inr (
                   (case orphans of None \<Rightarrow> [] | Some cs \<Rightarrow> [assistant_message (map snd cs)])
                   @ [tool_result_message call_id (content_blocks_text C content)]
                   @ (case multimodal of
                        Some mm \<Rightarrow> if provider_content_has_image mm then [role_message ''user'' mm] else []
                      | None \<Rightarrow> [])
                   @ out)))))
          else
            res_bind (plain_messages C role message) (\<lambda>ms.
            res_bind (normalize_loop C D m {} rest) (\<lambda>out. Inr (ms @ out))))))"

definition normalize_messages ::
    "gateway_codec \<Rightarrow> digest \<Rightarrow> tool_alias_map \<Rightarrow> turn_input \<Rightarrow> string + json list" where
  "normalize_messages C D m i =
     res_bind (normalize_loop C D m {} (ti_messages i))
       (\<lambda>out. Inr (role_message ''system'' (JString (ti_system_prompt i)) # out))"

definition tool_json :: "tool_alias_map \<Rightarrow> string \<Rightarrow> bool \<Rightarrow> tool_definition \<Rightarrow> gateway_api_error + json" where
  "tool_json m request_id strict t = (case alias_provider_name m (td_name t) of
      None \<Rightarrow> Inl (gateway_error 400 request_id ''invalid_turn_request''
             ''Tool alias mapping is incomplete'' False)
    | Some p \<Rightarrow> Inr (JObject [(''type'', JString ''function''),
        (''function'', JObject [(''name'', JString p),
           (''parameters'', or_default (td_input_schema t) (td_input_json_schema t)),
           (''strict'', JBool strict)])]))"

definition openai_request_body ::
    "gateway_codec \<Rightarrow> digest \<Rightarrow> turn_request \<Rightarrow> model_resource \<Rightarrow> tool_alias_map \<Rightarrow> gateway_api_error + json" where
  "openai_request_body C D r resource m =
     res_bind (err_into (invalid_turn r) (normalize_messages C D m (gr_input r))) (\<lambda>messages.
     res_bind (traverse (tool_json m (gr_request_id r) (pc_strict_tool_schema (mr_capabilities resource)))
        (ti_tools (gr_input r))) (\<lambda>tools.
     Inr (JObject ([(''model'', JString (mr_physical_model resource)), (''messages'', JArray messages),
        (''tools'', JArray tools)]
       @ (case md_temperature (mr_defaults resource) of None \<Rightarrow> [] | Some t \<Rightarrow> [(''temperature'', JNumber t)])
       @ (if str_contains (ep_base_url (mr_endpoint resource)) ''deepseek.com''
          then [(''thinking'', str_obj [(''type'', ''disabled'')])] else [])))))"

end
