(* ===== verification/GatewayProvider.thy ===== *)
theory GatewayProvider
  imports GatewayMessages "HOL-Library.AList"
begin

text \<open>
  The answers of the other side: the visual artifacts of the runtime, and the response or rejection of a
  provider.
\<close>

section \<open>Visual artifacts\<close>

definition is_image_block :: "json \<Rightarrow> bool" where
  "is_image_block b \<longleftrightarrow> json_get_str ''type'' b = Some ''image''"

definition message_blocks :: "json \<Rightarrow> json list" where
  "message_blocks message = (case json_get_array ''content'' message of None \<Rightarrow> [] | Some bs \<Rightarrow> bs)"

definition image_blocks :: "turn_request \<Rightarrow> json list" where
  "image_blocks r = concat (map (\<lambda>m. filter is_image_block (message_blocks m)) (ti_messages (gr_input r)))"

definition valid_artifact_char :: "char \<Rightarrow> bool" where
  "valid_artifact_char c \<longleftrightarrow> is_ascii_digit c \<or> is_ascii_lowercase c \<or> is_ascii_uppercase c
     \<or> c = CHR ''-'' \<or> c = CHR ''_''"

fun json_set :: "string \<Rightarrow> json \<Rightarrow> json \<Rightarrow> json" where
  "json_set k v (JObject ms) = JObject (AList.update k v ms)"
| "json_set k v j = j"

fun trim_end_slashes :: "string \<Rightarrow> string" where
  "trim_end_slashes s = rev (dropWhile (\<lambda>c. c = CHR ''/'') (rev s))"

definition artifact_error :: "turn_request \<Rightarrow> u16 \<Rightarrow> string \<Rightarrow> string \<Rightarrow> bool \<Rightarrow> gateway_api_error" where
  "artifact_error r status ecode message retryable =
     gateway_error status (gr_request_id r) ecode message retryable"

definition is_success :: "u16 \<Rightarrow> bool" where
  "is_success s \<longleftrightarrow> 200 \<le> s \<and> s < 300"

text \<open>The integrity check of the fetched bytes against what the block says.\<close>

definition artifact_intact ::
    "digest \<Rightarrow> provider_capabilities \<Rightarrow> json \<Rightarrow> string \<Rightarrow> (string \<Rightarrow> string option) \<Rightarrow> string \<Rightarrow> bool" where
  "artifact_intact D caps block media_type headers bytes =
    (let expected = or_default [] (json_get_str ''sha256'' block) in
     bytes \<noteq> [] \<and> length bytes \<le> unat (pc_max_image_bytes caps)
     \<and> or_default [] (headers ''content-type'') = media_type
     \<and> or_default [] (headers ''x-visual-artifact-sha256'') = expected
     \<and> sha256_hex D bytes = expected
     \<and> Option.bind (headers ''x-visual-artifact-width'') parse_u64 = Option.bind (json_get ''width'' block) json_u64
     \<and> Option.bind (headers ''x-visual-artifact-height'') parse_u64
          = Option.bind (json_get ''height'' block) json_u64)"

definition fetch_artifact ::
    "'e message_env_scheme \<Rightarrow> string \<Rightarrow> ('z message_world_scheme, 'f, artifact_outcome) proc" where
  "fetch_artifact E endpoint w =
     (Inr (ge_artifact E (gw_artifacts w) endpoint), w\<lparr>gw_artifacts := Suc (gw_artifacts w)\<rparr>)"

definition resolve_block ::
    "'e message_env_scheme \<Rightarrow> model_resource \<Rightarrow> turn_request \<Rightarrow> string \<Rightarrow> json
      \<Rightarrow> ('z message_world_scheme, gateway_api_error, json) proc" where
  "resolve_block E resource r base_url block =
    (if \<not> is_image_block block then pret block
     else case json_get_str ''artifactId'' block of
       None \<Rightarrow> praise (artifact_error r 400 ''invalid_visual_artifact''
                 ''Image content block has an invalid artifactId'' False)
     | Some artifact_id \<Rightarrow>
       if artifact_id = [] \<or> \<not> list_all valid_artifact_char artifact_id
       then praise (artifact_error r 400 ''invalid_visual_artifact''
                 ''Image content block has an invalid artifactId'' False)
       else case json_get_str ''mediaType'' block of
         None \<Rightarrow> praise (artifact_error r 400 ''invalid_visual_artifact''
                   ''Image content block requires mediaType'' False)
       | Some media_type \<Rightarrow>
         if media_type \<notin> set (pc_supported_image_media_types (mr_capabilities resource))
         then praise (artifact_error r 503 ''vision_media_type_unsupported''
                ''The selected resource does not support the bound image media type'' False)
         else pbind (fetch_artifact E (trim_end_slashes base_url @ ''/internal/runs/''
                @ ts_run_id (gr_scope r) @ ''/visual-artifacts/'' @ artifact_id @ ''/content'')) (\<lambda>answer.
         case answer of
           Artifact_unreachable \<Rightarrow> praise (artifact_error r 503 ''visual_artifact_source_unavailable''
             ''Runtime visual artifact source could not be reached'' True)
         | Artifact_response status headers bytes \<Rightarrow>
           if \<not> is_success status
           then praise (artifact_error r 400 ''visual_artifact_not_bound''
                  ''The visual artifact is unavailable or not bound to this Run'' False)
           else case bytes of
             None \<Rightarrow> praise (artifact_error r 503 ''visual_artifact_source_unavailable''
               ''Runtime visual artifact bytes could not be read'' True)
           | Some b \<Rightarrow>
             if artifact_intact (ge_digest E) (mr_capabilities resource) block media_type headers b
             then pret (json_set ''dataBase64'' (JString (ge_base64 E b)) block)
             else praise (artifact_error r 400 ''visual_artifact_integrity_failed''
                    ''Bound visual artifact metadata or content integrity check failed'' False)))"

fun ptraverse :: "('a \<Rightarrow> ('w, 'e, 'b) proc) \<Rightarrow> 'a list \<Rightarrow> ('w, 'e, 'b list) proc" where
  "ptraverse f [] = pret []"
| "ptraverse f (x # xs) = pbind (f x) (\<lambda>y. pbind (ptraverse f xs) (\<lambda>ys. pret (y # ys)))"

definition resolve_message ::
    "'e message_env_scheme \<Rightarrow> model_resource \<Rightarrow> turn_request \<Rightarrow> string \<Rightarrow> json
      \<Rightarrow> ('z message_world_scheme, gateway_api_error, json) proc" where
  "resolve_message E resource r base_url message = (case json_get_array ''content'' message of
      None \<Rightarrow> pret message
    | Some blocks \<Rightarrow> pbind (ptraverse (resolve_block E resource r base_url) blocks)
        (\<lambda>bs. pret (json_set ''content'' (JArray bs) message)))"

definition resolve_visual_artifacts ::
    "'e message_env_scheme \<Rightarrow> model_resource \<Rightarrow> turn_request
      \<Rightarrow> ('z message_world_scheme, gateway_api_error, turn_request) proc" where
  "resolve_visual_artifacts E resource r =
    (let images = length (image_blocks r); caps = mr_capabilities resource in
     if images = 0 then pret r
     else if \<not> rc_vision (tr_required_capabilities (gr_routing r))
     then praise (artifact_error r 400 ''vision_capability_not_requested''
            ''Image content blocks require routing.requiredCapabilities.vision=true'' False)
     else if \<not> supports_vision_input caps \<or> pc_max_image_count caps = 0 \<or> unat (pc_max_image_count caps) < images
     then praise (artifact_error r 503 ''vision_resource_unavailable''
            ''The selected resource cannot accept this image count'' False)
     else case ge_runtime_base_url E of
       None \<Rightarrow> praise (artifact_error r 503 ''visual_artifact_source_unavailable''
                 ''Runtime visual artifact source is not configured'' True)
     | Some base_url \<Rightarrow> (case ge_artifact_token E of
         Inl _ \<Rightarrow> praise (artifact_error r 503 ''visual_artifact_source_unavailable''
                   ''Runtime visual artifact credential is unavailable'' True)
       | Inr None \<Rightarrow> praise (artifact_error r 503 ''visual_artifact_source_unavailable''
                   ''Runtime visual artifact credential is not configured'' True)
       | Inr (Some _) \<Rightarrow>
           pbind (ptraverse (resolve_message E resource r base_url) (ti_messages (gr_input r)))
             (\<lambda>ms. pret (r\<lparr>gr_input := (gr_input r)\<lparr>ti_messages := ms\<rparr>\<rparr>))))"

definition add_new :: "'a \<Rightarrow> 'a list \<Rightarrow> 'a list" where
  "add_new x xs = (if x \<in> set xs then xs else xs @ [x])"

fun visual_summary_blocks ::
    "digest \<Rightarrow> (string \<Rightarrow> string option) \<Rightarrow> json list \<Rightarrow> string list \<Rightarrow> string list
      \<Rightarrow> string + string list \<times> string list" where
  "visual_summary_blocks D unbase64 [] hashes types = Inr (hashes, types)"
| "visual_summary_blocks D unbase64 (b # bs) hashes types = (case json_get_str ''sha256'' b of
      None \<Rightarrow> Inl ''resolved image content block has an invalid sha256''
    | Some sha256 \<Rightarrow>
      if length sha256 \<noteq> 64 \<or> \<not> list_all is_lower_hex sha256
      then Inl ''resolved image content block has an invalid sha256''
      else case json_get_str ''mediaType'' b of
        None \<Rightarrow> Inl ''resolved image content block has an invalid mediaType''
      | Some media_type \<Rightarrow>
        if is_blank media_type then Inl ''resolved image content block has an invalid mediaType''
        else case json_get_str ''dataBase64'' b of
          None \<Rightarrow> Inl ''resolved image content block is missing verified bytes''
        | Some d \<Rightarrow>
          if d = [] then Inl ''resolved image content block is missing verified bytes''
          else case unbase64 d of
            None \<Rightarrow> Inl ''resolved image content block has invalid base64 bytes''
          | Some bytes \<Rightarrow>
            if sha256_hex D bytes \<noteq> sha256
            then Inl ''resolved image content block hash drifted before dispatch''
            else visual_summary_blocks D unbase64 bs (hashes @ [sha256]) (add_new media_type types))"

definition verified_visual_input_summary ::
    "digest \<Rightarrow> (string \<Rightarrow> string option) \<Rightarrow> turn_request \<Rightarrow> string + visual_input_summary option" where
  "verified_visual_input_summary D unbase64 r =
     res_bind (visual_summary_blocks D unbase64 (image_blocks r) [] []) (\<lambda>(hashes, types).
     if hashes = [] then Inr None
     else if 2 ^ 32 \<le> length hashes then Inl ''resolved image count exceeds the execution schema''
     else Inr (Some \<lparr>vi_state = ''verified_and_provider_accepted'', vi_image_count = word_of_nat (length hashes),
            vi_artifact_sha256s = hashes, vi_media_types = types\<rparr>))"

section \<open>Rejections\<close>

definition is_control_at :: "string \<Rightarrow> bool" where
  "is_control_at s = (case map code s of
      [] \<Rightarrow> False
    | a # r \<Rightarrow> a < 32 \<or> a = 127 \<or> (a = 194 \<and> (case r of [] \<Rightarrow> False | b # _ \<Rightarrow> 128 \<le> b \<and> b \<le> 159)))"

definition ends_token :: "string \<Rightarrow> bool" where
  "ends_token s \<longleftrightarrow> s = [] \<or> ws_len s \<noteq> 0 \<or> is_control_at s
     \<or> code (hd s) \<in> {34, 39, 44, 59, 38, 41, 93, 125}"

fun token_length :: "string \<Rightarrow> nat" where
  "token_length [] = 0"
| "token_length (c # s) = (if ends_token (c # s) then 0 else Suc (token_length s))"

function redact_token_after_prefix :: "string \<Rightarrow> string \<Rightarrow> bool \<Rightarrow> string \<Rightarrow> string" where
  "redact_token_after_prefix prefix replacement include_prefix s =
    (if s = [] \<or> prefix = [] then s
     else if starts_with (to_ascii_lowercase s) (to_ascii_lowercase prefix) then
       (let head = take (length prefix) s; after = drop (length prefix) s; n = token_length after in
        if n = 0 then head @ redact_token_after_prefix prefix replacement include_prefix after
        else (if include_prefix then [] else head) @ replacement
             @ redact_token_after_prefix prefix replacement include_prefix (drop n after))
     else hd s # redact_token_after_prefix prefix replacement include_prefix (tl s))"
  by pat_completeness auto
termination
  by (relation "measure (\<lambda>(_, _, _, s). length s)") auto

declare redact_token_after_prefix.simps [simp del]

definition redact_provider_error_secrets :: "string \<Rightarrow> string" where
  "redact_provider_error_secrets s =
     fold (\<lambda>prefix t. redact_token_after_prefix prefix ''[REDACTED]'' False t)
       [''bearer '', ''api_key='', ''api-key='', ''apikey='']
       (redact_token_after_prefix ''sk-'' ''[REDACTED_API_KEY]'' True s)"

fun drop_controls :: "string \<Rightarrow> string" where
  "drop_controls [] = []"
| "drop_controls (c # s) =
    (if is_control_at (c # s) then (if code c = 194 then drop_controls (tl s) else drop_controls s)
     else c # drop_controls s)"

definition is_char_start :: "char \<Rightarrow> bool" where
  "is_char_start c \<longleftrightarrow> \<not> (128 \<le> code c \<and> code c \<le> 191)"

definition char_count :: "string \<Rightarrow> nat" where
  "char_count s = length (filter is_char_start s)"

fun take_chars :: "nat \<Rightarrow> string \<Rightarrow> string" where
  "take_chars n [] = []"
| "take_chars n (c # s) =
    (if is_char_start c then (case n of 0 \<Rightarrow> [] | Suc k \<Rightarrow> c # take_chars k s) else c # take_chars n s)"

fun join_spaces :: "string list \<Rightarrow> string" where
  "join_spaces [] = []"
| "join_spaces [p] = p"
| "join_spaces (p # ps) = p @ '' '' @ join_spaces ps"

definition rejection_part :: "json \<Rightarrow> string \<Rightarrow> string list" where
  "rejection_part e key = (case json_get_str key e of
      None \<Rightarrow> []
    | Some v \<Rightarrow> (let s = redact_provider_error_secrets (drop_controls v) in
        if is_blank s then [] else [key @ ''='' @ s]))"

definition provider_rejection_detail :: "gateway_codec \<Rightarrow> string \<Rightarrow> string option" where
  "provider_rejection_detail C body = (case gc_parse C body of
      None \<Rightarrow> None
    | Some value \<Rightarrow>
       (let e = or_default value (json_get ''error'' value);
            detail = join_spaces (concat (map (rejection_part e) [''type'', ''code'', ''message''])) in
        if detail = [] then None
        else if 320 < char_count detail
        then Some (take_chars 320 detail @ [CHR 0xE2, CHR 0x80, CHR 0xA6])
        else Some detail))"

section \<open>Responses\<close>

definition response_invalid :: "turn_request \<Rightarrow> string \<Rightarrow> gateway_api_error" where
  "response_invalid r message =
     gateway_error 502 (gr_request_id r) ''provider_response_invalid'' message True"

definition response_too_large :: "turn_request \<Rightarrow> string \<Rightarrow> gateway_api_error" where
  "response_too_large r message =
     gateway_error 502 (gr_request_id r) ''provider_response_too_large'' message False"

definition response_call ::
    "gateway_codec \<Rightarrow> tool_alias_map \<Rightarrow> turn_request \<Rightarrow> json \<Rightarrow> gateway_api_error + gateway_tool_call" where
  "response_call C m r call =
    (let f = json_get ''function'' call in
     case json_get_str ''id'' call of
       None \<Rightarrow> Inl (response_invalid r ''Selected provider returned a tool call without id'')
     | Some call_id \<Rightarrow> (case Option.bind f (json_get_str ''name'') of
         None \<Rightarrow> Inl (response_invalid r ''Selected provider returned a tool call without name'')
       | Some provider_name \<Rightarrow> (case alias_runtime_name m provider_name of
           None \<Rightarrow> Inl (gateway_error 502 (gr_request_id r) ''provider_tool_policy_violation''
             (''Selected provider returned an unknown tool call: ''
               @ take_chars 96 (drop_controls provider_name)) False)
         | Some n \<Rightarrow>
           (let arguments = or_default ''{}'' (Option.bind f (json_get_str ''arguments'')) in
            if max_json_string_bytes < length arguments
            then Inl (response_too_large r ''Selected provider returned oversized tool arguments'')
            else case gc_parse C arguments of
              None \<Rightarrow> Inl (response_invalid r ''Selected provider returned invalid tool arguments'')
            | Some input \<Rightarrow> Inr \<lparr>tc_id = call_id, tc_name = n, tc_input = input\<rparr>))))"

definition policy_recovery_text :: string where
  "policy_recovery_text = ''[runtime_tool_policy_recovery] The requested observation tool is no longer available because its repair budget is exhausted. Use only the currently available source-mutation tools, then call preview.publish.''"

definition usage_u64 :: "turn_request \<Rightarrow> string option \<Rightarrow> json \<Rightarrow> string \<Rightarrow> string \<Rightarrow> gateway_api_error + u64" where
  "usage_u64 r provider_id usage key message = (case Option.bind (json_get key usage) json_u64 of
      None \<Rightarrow> Inl (with_provider_request_id provider_id (response_invalid r message))
    | Some v \<Rightarrow> Inr v)"

definition response_usage ::
    "turn_request \<Rightarrow> string option \<Rightarrow> json \<Rightarrow> gateway_api_error + token_usage" where
  "response_usage r provider_id value = (case json_get ''usage'' value of
      None \<Rightarrow> Inl (with_provider_request_id provider_id
               (response_invalid r ''Selected provider response did not include token usage''))
    | Some usage \<Rightarrow>
       res_bind (usage_u64 r provider_id usage ''prompt_tokens''
         ''Selected provider response did not include valid input token usage'') (\<lambda>input_tokens.
       res_bind (usage_u64 r provider_id usage ''completion_tokens''
         ''Selected provider response did not include valid output token usage'') (\<lambda>output_tokens.
       Inr \<lparr>us_input_tokens = input_tokens, us_output_tokens = output_tokens,
            us_cached_input_tokens = or_default 0 (Option.bind (json_get ''prompt_tokens_details'' usage)
              (\<lambda>d. Option.bind (json_get ''cached_tokens'' d) json_u64))\<rparr>)))"

text \<open>
  The checks of the calls and the text: a call of a tool that is not offered any more replaces the whole
  answer by a recovery text.
\<close>

definition response_content ::
    "turn_request \<Rightarrow> string option \<Rightarrow> json \<Rightarrow> gateway_tool_call list
      \<Rightarrow> gateway_api_error + gateway_tool_call list \<times> string option \<times> bool" where
  "response_content r provider_id message calls =
    (let unavailable = list_ex (\<lambda>c. tc_name c \<notin> set (request_tool_names r)) calls;
         kept = (if unavailable then [] else calls);
         text = (case json_get_str ''content'' message of
                   Some t \<Rightarrow> if t = [] then None else Some t | None \<Rightarrow> None);
         answer = (if unavailable then Some policy_recovery_text else text) in
     if \<not> distinct (map tc_id kept)
     then Inl (with_provider_request_id provider_id
            (response_invalid r ''Selected provider returned duplicate tool call ids''))
     else if list_ex (\<lambda>c. \<not> json_within_limits (tc_input c) 0) kept
     then Inl (with_provider_request_id provider_id
            (response_too_large r ''Selected provider returned oversized tool call input''))
     else if (case answer of None \<Rightarrow> False | Some t \<Rightarrow> max_json_string_bytes < length t)
     then Inl (with_provider_request_id provider_id
            (response_too_large r ''Selected provider returned oversized text''))
     else if kept = [] \<and> answer = None
     then Inl (response_invalid r ''Selected provider returned neither text nor tool calls'')
     else Inr (kept, answer, unavailable))"

definition parse_openai_response ::
    "gateway_codec \<Rightarrow> json \<Rightarrow> string option \<Rightarrow> turn_request \<Rightarrow> tool_alias_map
      \<Rightarrow> gateway_api_error + provider_turn" where
  "parse_openai_response C value provider_id r m =
    (case json_get_array ''choices'' value of
       None \<Rightarrow> Inl (with_provider_request_id provider_id
                (response_invalid r ''Selected provider returned no choices''))
     | Some choices \<Rightarrow> (case choices of
         [] \<Rightarrow> Inl (with_provider_request_id provider_id
                 (response_invalid r ''Selected provider returned no choices''))
       | choice # _ \<Rightarrow> (case json_get ''message'' choice of
           None \<Rightarrow> Inl (with_provider_request_id provider_id
              (response_invalid r ''Selected provider response did not include a message''))
         | Some message \<Rightarrow>
             res_bind (case json_get_array ''tool_calls'' message of
                 None \<Rightarrow> Inr [] | Some cs \<Rightarrow> traverse (response_call C m r) cs) (\<lambda>calls.
             res_bind (response_content r provider_id message calls) (\<lambda>(kept, answer, unavailable).
             res_bind (response_usage r provider_id value) (\<lambda>usage.
             Inr \<lparr>pt_tool_calls = kept, pt_text = answer,
                  pt_finish_reason = (if unavailable then ''tool_policy_recovery''
                     else or_default ''stop'' (json_get_str ''finish_reason'' choice)),
                  pt_usage = usage, pt_provider_request_id = provider_id, pt_attempt_count = 1,
                  pt_visual_input = None\<rparr>))))))"

text \<open>The error a status that is not a success becomes.\<close>

definition rejection_error :: "gateway_codec \<Rightarrow> turn_request \<Rightarrow> u16 \<Rightarrow> string option \<Rightarrow> gateway_api_error" where
  "rejection_error C r status body =
    (if status = 429
     then gateway_error 429 (gr_request_id r) ''provider_rate_limited''
            ''Selected provider is temporarily rate limited'' True
     else if 500 \<le> status \<and> status < 600
     then gateway_error 503 (gr_request_id r) ''provider_unavailable''
            ''Selected provider is temporarily unavailable'' True
     else gateway_error 502 (gr_request_id r) ''provider_response_invalid''
            (case Option.bind body (provider_rejection_detail C) of
               Some detail \<Rightarrow> ''Selected provider rejected the normalized request: '' @ detail
             | None \<Rightarrow> ''Selected provider rejected the normalized request'') False)"

definition header_text :: "string option option \<Rightarrow> string option" where
  "header_text h = Option.bind h (\<lambda>t. t)"

definition response_request_id :: "(string \<Rightarrow> string option option) \<Rightarrow> string option" where
  "response_request_id headers =
     header_text (case headers ''x-request-id'' of Some h \<Rightarrow> Some h | None \<Rightarrow> headers ''request-id'')"

definition read_provider_response ::
    "gateway_codec \<Rightarrow> turn_request \<Rightarrow> tool_alias_map \<Rightarrow> http_outcome \<Rightarrow> gateway_api_error + provider_turn" where
  "read_provider_response C r m answer = (case answer of
      Http_timeout \<Rightarrow> Inl (provider_timeout_error r
        ''Selected provider did not respond before the turn deadline'')
    | Http_failed \<Rightarrow> Inl (gateway_error 503 (gr_request_id r) ''provider_unavailable''
        ''Selected provider is temporarily unavailable'' True)
    | Http_response status headers body \<Rightarrow>
       (let retry_after = provider_retry_after_ms (header_text (headers ''retry-after''));
            header_id = response_request_id headers in
        if \<not> is_success status
        then Inl (with_provider_request_id header_id
               (let e = rejection_error C r status body in
                case retry_after of None \<Rightarrow> e | Some ms \<Rightarrow> with_retry_after_ms ms e))
        else case Option.bind body (gc_parse C) of
          None \<Rightarrow> Inl (with_provider_request_id header_id
                   (response_invalid r ''Selected provider returned an invalid response''))
        | Some value \<Rightarrow>
           (let body_id = (case json_get_str ''id'' value of
                  Some v \<Rightarrow> if is_blank v then None else Some v | None \<Rightarrow> None);
                provider_id = (case header_id of Some h \<Rightarrow> Some h | None \<Rightarrow> body_id) in
            parse_openai_response C value provider_id r m)))"

end
