(* ===== verification/GatewayLimits.thy ===== *)
theory GatewayLimits
  imports GatewayStore
begin

text \<open>
  The limits the gateway keeps in its database: the circuit breaker of a model resource, the daily
  input token usage of a project and the leases that bound its concurrent turns.
\<close>

section \<open>Circuit breaker\<close>

definition set_health :: "string \<times> int \<Rightarrow> health_row \<Rightarrow> gateway_db \<Rightarrow> gateway_db" where
  "set_health k row db = db\<lparr>gd_health := (gd_health db)(k \<mapsto> row)\<rparr>"

definition default_health :: health_row where
  "default_health =
     \<lparr>he_consecutive_failures = 0, he_circuit_state = ''closed'', he_opened_until = 0\<rparr>"

text \<open>\<open>UPDATE ... SET circuit_state = 'half_open'\<close>: no row, no effect.\<close>

definition half_open_health :: "string \<times> int \<Rightarrow> gateway_db \<Rightarrow> gateway_db" where
  "half_open_health k db = (case gd_health db k of
      None \<Rightarrow> db
    | Some h \<Rightarrow> set_health k (h\<lparr>he_circuit_state := ''half_open''\<rparr>) db)"

definition sqlite_circuit_allows ::
    "'e store_env_scheme \<Rightarrow> string \<Rightarrow> u64 \<Rightarrow> int \<Rightarrow> ('z, bool) store_proc" where
  "sqlite_circuit_allows E resource_id revision now =
     pbind (plift (i64_of revision)) (\<lambda>rv.
     pbind (sql_query E (\<lambda>db. gd_health db (resource_id, rv))) (\<lambda>row. case row of
        None \<Rightarrow> pret True
      | Some h \<Rightarrow>
          if he_circuit_state h = ''open'' \<and> now < he_opened_until h then pret False
          else if he_circuit_state h = ''open''
          then pbind (sql_update E (half_open_health (resource_id, rv))) (\<lambda>_. pret True)
          else pret True))"

definition insert_default_health :: "string \<times> int \<Rightarrow> gateway_db \<Rightarrow> gateway_db" where
  "insert_default_health k db =
     (if gd_health db k = None then set_health k default_health db else db)"

text \<open>\<open>query_one\<close> is an error when there is no row.\<close>

definition health_row_of :: "string \<times> int \<Rightarrow> gateway_db \<Rightarrow> (health_row \<times> gateway_db) option" where
  "health_row_of k db = map_option (\<lambda>h. (h, db)) (gd_health db k)"

definition pg_circuit_allows ::
    "'e store_env_scheme \<Rightarrow> string \<Rightarrow> u64 \<Rightarrow> int \<Rightarrow> ('z, bool) store_proc" where
  "pg_circuit_allows E resource_id revision now =
     pbind (plift (i64_of revision)) (\<lambda>rv.
     pg_transaction E (
       pbind (sql_update E (insert_default_health (resource_id, rv))) (\<lambda>_.
       pbind (sql E (health_row_of (resource_id, rv))) (\<lambda>h.
       if he_circuit_state h = ''open'' \<and> now < he_opened_until h then pret False
       else if he_circuit_state h = ''open''
       then pbind (sql_update E (half_open_health (resource_id, rv))) (\<lambda>_. pret True)
       else pret True))))"

definition circuit_allows ::
    "'e store_env_scheme \<Rightarrow> string \<Rightarrow> u64 \<Rightarrow> int \<Rightarrow> ('z, bool) store_proc" where
  "circuit_allows E = (case se_backend E of
     Sqlite \<Rightarrow> sqlite_circuit_allows E | Postgres \<Rightarrow> pg_circuit_allows E)"

definition record_success ::
    "'e store_env_scheme \<Rightarrow> string \<Rightarrow> u64 \<Rightarrow> ('z, unit) store_proc" where
  "record_success E resource_id revision =
     pbind (plift (i64_of revision)) (\<lambda>rv.
     sql_update E (set_health (resource_id, rv) default_health))"

text \<open>
  The new row after a failure: the third failure in a row opens the circuit for 30 seconds. SQLite
  adds to \<open>now\<close> without a check, PostgreSQL saturates; the counters saturate at \<open>u32\<close> and \<open>i32\<close>.
\<close>

definition failure_row :: "int \<Rightarrow> int \<Rightarrow> health_row" where
  "failure_row failures opened_until =
     \<lparr>he_consecutive_failures = failures,
      he_circuit_state = (if 3 \<le> failures then ''open'' else ''closed''),
      he_opened_until = (if 3 \<le> failures then opened_until else 0)\<rparr>"

definition sqlite_record_failure ::
    "'e store_env_scheme \<Rightarrow> string \<Rightarrow> u64 \<Rightarrow> int \<Rightarrow> ('z, bool) store_proc" where
  "sqlite_record_failure E resource_id revision now =
     pbind (plift (i64_of revision)) (\<lambda>rv.
     pbind (sql_query E (\<lambda>db. gd_health db (resource_id, rv))) (\<lambda>row.
     let before = (case row of None \<Rightarrow> 0 | Some h \<Rightarrow> he_consecutive_failures h);
         failures = min (2 ^ 32 - 1) (before + 1) in
     pbind (sql_update E (set_health (resource_id, rv) (failure_row failures (now + 30))))
      (\<lambda>_. pret (3 \<le> failures))))"

definition pg_record_failure ::
    "'e store_env_scheme \<Rightarrow> string \<Rightarrow> u64 \<Rightarrow> int \<Rightarrow> ('z, bool) store_proc" where
  "pg_record_failure E resource_id revision now =
     pbind (plift (i64_of revision)) (\<lambda>rv.
     pg_transaction E (
       pbind (sql_update E (insert_default_health (resource_id, rv))) (\<lambda>_.
       pbind (sql E (health_row_of (resource_id, rv))) (\<lambda>h.
       let failures = min (2 ^ 31 - 1) (he_consecutive_failures h + 1) in
       pbind (sql_update E (set_health (resource_id, rv)
                (failure_row failures (i64_saturating_add now 30))))
        (\<lambda>_. pret (3 \<le> failures))))))"

definition record_circuit_failure ::
    "'e store_env_scheme \<Rightarrow> string \<Rightarrow> u64 \<Rightarrow> int \<Rightarrow> ('z, bool) store_proc" where
  "record_circuit_failure E = (case se_backend E of
     Sqlite \<Rightarrow> sqlite_record_failure E | Postgres \<Rightarrow> pg_record_failure E)"

section \<open>Daily input tokens\<close>

text \<open>
  The upsert of \<open>reserve_project_daily_input_tokens\<close>, with the number of rows it wrote. PostgreSQL
  refuses a sum that leaves 64 bits; SQLite computes it as a real number, which is above every limit.
\<close>

definition reserve_tokens ::
    "persistent_store \<Rightarrow> string \<times> string \<times> string \<Rightarrow> int \<Rightarrow> int \<Rightarrow> gateway_db \<Rightarrow> (nat \<times> gateway_db) option" where
  "reserve_tokens backend k requested limit db =
    (if \<not> requested \<le> limit then Some (0, db)
     else case gd_quota db k of
        None \<Rightarrow> Some (1, db\<lparr>gd_quota := (gd_quota db)(k \<mapsto> requested)\<rparr>)
      | Some used \<Rightarrow>
          if backend = Postgres \<and> 2 ^ 63 \<le> used + requested then None
          else if used + requested \<le> limit
          then Some (1, db\<lparr>gd_quota := (gd_quota db)(k \<mapsto> used + requested)\<rparr>)
          else Some (0, db))"

definition reserve_project_daily_input_tokens ::
    "'e store_env_scheme \<Rightarrow> string \<Rightarrow> string \<Rightarrow> string \<Rightarrow> u64 \<Rightarrow> u64 \<Rightarrow> ('z, bool) store_proc" where
  "reserve_project_daily_input_tokens E period workspace_id project_id requested_tokens limit =
     pbind (plift (i64_of requested_tokens)) (\<lambda>requested.
     pbind (plift (i64_of limit)) (\<lambda>lim.
     pbind (sql E (reserve_tokens (se_backend E) (period, workspace_id, project_id) requested lim))
      (\<lambda>affected. pret (affected = 1))))"

definition settle_tokens ::
    "persistent_store \<Rightarrow> string \<times> string \<times> string \<Rightarrow> int \<Rightarrow> int \<Rightarrow> gateway_db \<Rightarrow> (unit \<times> gateway_db) option" where
  "settle_tokens backend k reserved actual db = (case gd_quota db k of
      None \<Rightarrow> Some ((), db)
    | Some used \<Rightarrow>
        if backend = Postgres \<and> 2 ^ 63 \<le> used + actual then None
        else Some ((), db\<lparr>gd_quota := (gd_quota db)(k \<mapsto> max 0 (used + actual - reserved))\<rparr>))"

definition settle_project_daily_usage ::
    "'e store_env_scheme \<Rightarrow> string \<Rightarrow> string \<Rightarrow> string \<Rightarrow> u64 \<Rightarrow> u64 \<Rightarrow> ('z, unit) store_proc" where
  "settle_project_daily_usage E period workspace_id project_id reserved_input_tokens actual_input_tokens =
     pbind (plift (i64_of reserved_input_tokens)) (\<lambda>reserved.
     pbind (plift (i64_of actual_input_tokens)) (\<lambda>actual.
     sql E (settle_tokens (se_backend E) (period, workspace_id, project_id) reserved actual)))"

section \<open>Concurrency leases\<close>

definition delete_expired_leases :: "string \<Rightarrow> int \<Rightarrow> gateway_db \<Rightarrow> gateway_db" where
  "delete_expired_leases scope_key now db =
     db\<lparr>gd_leases := filter (\<lambda>l. \<not> (le_scope_key l = scope_key \<and> le_expires_at l \<le> now)) (gd_leases db)\<rparr>"

definition scope_leases :: "string \<Rightarrow> gateway_db \<Rightarrow> lease_row list" where
  "scope_leases scope_key db = filter (\<lambda>l. le_scope_key l = scope_key) (gd_leases db)"

definition insert_lease_or_ignore :: "lease_row \<Rightarrow> gateway_db \<Rightarrow> gateway_db" where
  "insert_lease_or_ignore row db =
    (if \<exists>l \<in> set (gd_leases db). le_lease_id l = le_lease_id row then db
     else db\<lparr>gd_leases := gd_leases db @ [row]\<rparr>)"

definition upsert_lease :: "lease_row \<Rightarrow> gateway_db \<Rightarrow> gateway_db" where
  "upsert_lease row db =
    (if \<exists>l \<in> set (gd_leases db). le_lease_id l = le_lease_id row
     then db\<lparr>gd_leases := map (\<lambda>l. if le_lease_id l = le_lease_id row
            then l\<lparr>le_expires_at := le_expires_at row\<rparr> else l) (gd_leases db)\<rparr>
     else db\<lparr>gd_leases := gd_leases db @ [row]\<rparr>)"

definition lease_limit_reached :: "persistent_store \<Rightarrow> u64 \<Rightarrow> nat \<Rightarrow> bool" where
  "lease_limit_reached backend limit active = (case backend of
      Sqlite \<Rightarrow> unat limit \<le> active
    | Postgres \<Rightarrow> min (unat limit) (2 ^ 63 - 1) \<le> active)"

definition acquire_lease_statements ::
    "'e store_env_scheme \<Rightarrow> string \<Rightarrow> string \<Rightarrow> u64 \<Rightarrow> int \<Rightarrow> ('z, bool) store_proc" where
  "acquire_lease_statements E scope_key lease_id limit expires_at =
     pbind (utc_now E) (\<lambda>now.
     pbind (sql_update E (delete_expired_leases scope_key (timestamp now))) (\<lambda>_.
     pbind (sql_query E (\<lambda>db. length (scope_leases scope_key db))) (\<lambda>active.
     if lease_limit_reached (se_backend E) limit active then pret False
     else pbind (sql_update E
            ((case se_backend E of Sqlite \<Rightarrow> insert_lease_or_ignore | Postgres \<Rightarrow> upsert_lease)
               \<lparr>le_lease_id = lease_id, le_scope_key = scope_key, le_expires_at = expires_at\<rparr>))
          (\<lambda>_. pret True))))"

text \<open>PostgreSQL takes an advisory lock on the scope first, one more statement.\<close>

definition acquire_project_concurrency_lease ::
    "'e store_env_scheme \<Rightarrow> string \<Rightarrow> string \<Rightarrow> u64 \<Rightarrow> int \<Rightarrow> ('z, bool) store_proc" where
  "acquire_project_concurrency_lease E scope_key lease_id limit expires_at = (case se_backend E of
      Sqlite \<Rightarrow> acquire_lease_statements E scope_key lease_id limit expires_at
    | Postgres \<Rightarrow> pg_transaction E (pbind (sql_update E (\<lambda>db. db))
        (\<lambda>_. acquire_lease_statements E scope_key lease_id limit expires_at)))"

definition delete_lease :: "string \<Rightarrow> gateway_db \<Rightarrow> gateway_db" where
  "delete_lease lease_id db =
     db\<lparr>gd_leases := filter (\<lambda>l. le_lease_id l \<noteq> lease_id) (gd_leases db)\<rparr>"

definition release_project_concurrency_lease ::
    "'e store_env_scheme \<Rightarrow> string \<Rightarrow> ('z, unit) store_proc" where
  "release_project_concurrency_lease E lease_id = sql_update E (delete_lease lease_id)"

end
