(* ===== verification/GatewayConfigStore.thy ===== *)
theory GatewayConfigStore
  imports GatewayStore
begin

text \<open>
  The configuration the gateway keeps in its database: the revisions of model resources and of selection
  policies with the current one of each, provider connections, encrypted secrets and the idempotency
  records of administrative operations. Constraints of the tables (primary keys, one current revision
  for an id) are checked by the statements that could break them.
\<close>

section \<open>Revision tables\<close>

datatype revision_table = Resource_Revisions | Policy_Revisions

definition revisions :: "revision_table \<Rightarrow> gateway_db \<Rightarrow> revision_row list" where
  "revisions t db = (case t of Resource_Revisions \<Rightarrow> gd_resources db | Policy_Revisions \<Rightarrow> gd_policies db)"

definition set_revisions :: "revision_table \<Rightarrow> revision_row list \<Rightarrow> gateway_db \<Rightarrow> gateway_db" where
  "set_revisions t rows db = (case t of
      Resource_Revisions \<Rightarrow> db\<lparr>gd_resources := rows\<rparr>
    | Policy_Revisions \<Rightarrow> db\<lparr>gd_policies := rows\<rparr>)"

definition is_current :: "string \<Rightarrow> revision_row \<Rightarrow> bool" where
  "is_current wid r \<longleftrightarrow> rv_id r = wid \<and> rv_current r"

definition current_row :: "revision_table \<Rightarrow> string \<Rightarrow> gateway_db \<Rightarrow> revision_row option" where
  "current_row t wid db = List.find (is_current wid) (revisions t db)"

definition revision_row_of :: "revision_table \<Rightarrow> string \<Rightarrow> int \<Rightarrow> gateway_db \<Rightarrow> revision_row option" where
  "revision_row_of t wid rn db =
     List.find (\<lambda>r. rv_id r = wid \<and> rv_revision r = rn) (revisions t db)"

text \<open>\<open>INSERT\<close>: the primary key is id and revision, and an id has one current row.\<close>

definition insert_revision ::
    "revision_table \<Rightarrow> revision_row \<Rightarrow> gateway_db \<Rightarrow> (unit \<times> gateway_db) option" where
  "insert_revision t row db =
    (if revision_row_of t (rv_id row) (rv_revision row) db \<noteq> None
        \<or> (rv_current row \<and> current_row t (rv_id row) db \<noteq> None)
     then None else Some ((), set_revisions t (revisions t db @ [row]) db))"

definition clear_current ::
    "revision_table \<Rightarrow> (revision_row \<Rightarrow> bool) \<Rightarrow> gateway_db \<Rightarrow> nat \<times> gateway_db" where
  "clear_current t p db =
     (length (filter p (revisions t db)),
      set_revisions t (map (\<lambda>r. if p r then r\<lparr>rv_current := False\<rparr> else r) (revisions t db)) db)"

definition mark_current ::
    "revision_table \<Rightarrow> string \<Rightarrow> int \<Rightarrow> gateway_db \<Rightarrow> (nat \<times> gateway_db) option" where
  "mark_current t wid rn db =
    (let hit = (\<lambda>r. rv_id r = wid \<and> rv_revision r = rn) in
     if (\<exists>r \<in> set (revisions t db). hit r)
        \<and> (\<exists>r \<in> set (revisions t db). is_current wid r \<and> \<not> hit r)
     then None
     else Some (length (filter hit (revisions t db)),
       set_revisions t (map (\<lambda>r. if hit r then r\<lparr>rv_current := True\<rparr> else r) (revisions t db)) db))"

definition current_revision ::
    "'e store_env_scheme \<Rightarrow> revision_table \<Rightarrow> string \<Rightarrow> ('z, u64 option) store_proc" where
  "current_revision E t wid =
     pbind (sql_query E (current_row t wid)) (\<lambda>row. case row of
        None \<Rightarrow> pret None
      | Some r \<Rightarrow> pbind (plift (u64_of (rv_revision r))) (\<lambda>v. pret (Some v)))"

text \<open>\<open>SELECT MAX(revision)\<close>, \<open>NULL\<close> without a row.\<close>

definition max_revision ::
    "'e store_env_scheme \<Rightarrow> revision_table \<Rightarrow> string \<Rightarrow> ('z, u64 option) store_proc" where
  "max_revision E t wid =
     pbind (sql_query E (\<lambda>db. map rv_revision (filter (\<lambda>r. rv_id r = wid) (revisions t db))))
      (\<lambda>vs. if vs = [] then pret None
            else pbind (plift (u64_of (fold max vs (hd vs)))) (\<lambda>v. pret (Some v)))"

section \<open>Optimistic concurrency\<close>

definition show_expected :: "u64 option \<Rightarrow> string" where
  "show_expected v = (case v of None \<Rightarrow> ''None'' | Some x \<Rightarrow> ''Some('' @ show_u64 x @ '')'')"

definition check_revision ::
    "string \<Rightarrow> string \<Rightarrow> string \<Rightarrow> u64 option \<Rightarrow> u64 option \<Rightarrow> gateway_store_error + unit" where
  "check_revision kind noun wid current expected = (case current of
      Some c \<Rightarrow>
        if expected = Some c then Inr ()
        else Inl (Store_message (kind @ '' '' @ noun @ '' conflict for '' @ wid @ '': expected ''
               @ show_expected expected @ '', current '' @ show_u64 c))
    | None \<Rightarrow> (case expected of
          None \<Rightarrow> Inr ()
        | Some e \<Rightarrow>
            if e = 0 then Inr ()
            else Inl (Store_message (kind @ '' '' @ wid @ '' does not exist at expected '' @ noun
                   @ '' '' @ show_u64 e))))"

text \<open>\<open>unwrap_or(0) + 1\<close> in SQLite, \<open>saturating_add(1)\<close> in PostgreSQL.\<close>

definition next_revision :: "persistent_store \<Rightarrow> u64 option \<Rightarrow> u64" where
  "next_revision backend current = (let c = (case current of None \<Rightarrow> 0 | Some c \<Rightarrow> c) in
     case backend of Sqlite \<Rightarrow> c + 1 | Postgres \<Rightarrow> sat_inc c)"

text \<open>
  The body of an operation that changes the configuration: bare statements in SQLite, a transaction
  that first takes an advisory lock in PostgreSQL.
\<close>

definition config_transaction :: "'e store_env_scheme \<Rightarrow> ('z, 'a) store_proc \<Rightarrow> ('z, 'a) store_proc" where
  "config_transaction E body = (case se_backend E of
      Sqlite \<Rightarrow> body
    | Postgres \<Rightarrow> pg_transaction E (pbind (sql_update E (\<lambda>db. db)) (\<lambda>_. body)))"

definition bump_version :: "'e store_env_scheme \<Rightarrow> ('z, u64) store_proc" where
  "bump_version E = (case se_backend E of
     Sqlite \<Rightarrow> bump_configuration_version E | Postgres \<Rightarrow> pg_bump_configuration_version E)"

text \<open>The statements that make a new row the current one of its id, its event, and the new version.\<close>

definition replace_current ::
    "'e store_env_scheme \<Rightarrow> revision_table \<Rightarrow> string \<Rightarrow> u64 \<Rightarrow> string \<Rightarrow> string \<Rightarrow> string
      \<Rightarrow> ('z, unit) store_proc" where
  "replace_current E t wid revision text event metadata =
     pbind (sql E (\<lambda>db. Some (clear_current t (is_current wid) db))) (\<lambda>_.
     pbind (plift (i64_of revision)) (\<lambda>rn.
     pbind (sql E (insert_revision t
        \<lparr>rv_id = wid, rv_revision = rn, rv_current = True, rv_json = text\<rparr>)) (\<lambda>_.
     pbind (audit_event E event wid metadata) (\<lambda>_.
     pbind (bump_version E) (\<lambda>_. pret ())))))"

section \<open>Model resources\<close>

definition saved_metadata :: "model_resource \<Rightarrow> json" where
  "saved_metadata r = JObject
     [(''revision'', json_word (mr_revision r)), (''enabled'', JBool (mr_enabled r)),
      (''kind'', JString (model_resource_kind_str (mr_kind r))),
      (''physicalModel'', JString (mr_physical_model r)),
      (''authType'', JString (au_auth_type (mr_auth r))),
      (''secretConfigured'', JBool (\<not> is_blank (au_secret_ref (mr_auth r))))]"

definition save_model_resource ::
    "'e store_env_scheme \<Rightarrow> model_resource \<Rightarrow> u64 option \<Rightarrow> ('z, model_resource) store_proc" where
  "save_model_resource E resource expected = config_transaction E (
     pbind (current_revision E Resource_Revisions (mr_id resource)) (\<lambda>current.
     pbind (plift (check_revision ''resource'' ''revision'' (mr_id resource) current expected)) (\<lambda>_.
     let saved = resource\<lparr>mr_revision := next_revision (se_backend E) current\<rparr> in
     pbind (replace_current E Resource_Revisions (mr_id saved) (mr_revision saved)
        (gc_enc_resource (se_codec E) saved) ''model_resource.saved''
        (gc_json (se_codec E) (saved_metadata saved))) (\<lambda>_. pret saved))))"

definition decode_row :: "(string \<Rightarrow> 'b option) \<Rightarrow> revision_row \<Rightarrow> gateway_store_error + 'b" where
  "decode_row dec r = (case dec (rv_json r) of None \<Rightarrow> Inl Decode_failed | Some x \<Rightarrow> Inr x)"

definition load_revision ::
    "'e store_env_scheme \<Rightarrow> revision_table \<Rightarrow> (string \<Rightarrow> 'b option) \<Rightarrow> string \<Rightarrow> u64 option
      \<Rightarrow> ('z, 'b option) store_proc" where
  "load_revision E t dec wid revision =
     pbind (case revision of
         None \<Rightarrow> sql_query E (current_row t wid)
       | Some v \<Rightarrow> pbind (plift (i64_of v)) (\<lambda>rn. sql_query E (revision_row_of t wid rn)))
      (\<lambda>row. case row of
         None \<Rightarrow> pret None
       | Some r \<Rightarrow> pbind (plift (decode_row dec r)) (\<lambda>x. pret (Some x)))"

definition load_model_resource ::
    "'e store_env_scheme \<Rightarrow> string \<Rightarrow> u64 option \<Rightarrow> ('z, model_resource option) store_proc" where
  "load_model_resource E = load_revision E Resource_Revisions (gc_dec_resource (se_codec E))"

text \<open>\<open>WHERE is_current = 1 ORDER BY id\<close>: at most one row of an id is current.\<close>

definition decode_rows :: "(string \<Rightarrow> 'b option) \<Rightarrow> revision_row list \<Rightarrow> gateway_store_error + 'b list" where
  "decode_rows dec rows =
    (case those (map (\<lambda>r. dec (rv_json r)) rows) of None \<Rightarrow> Inl Decode_failed | Some xs \<Rightarrow> Inr xs)"

definition current_rows :: "revision_table \<Rightarrow> gateway_db \<Rightarrow> revision_row list" where
  "current_rows t db = sort_key rv_id (filter rv_current (revisions t db))"

definition current_model_resources :: "'e store_env_scheme \<Rightarrow> ('z, model_resource list) store_proc" where
  "current_model_resources E =
     pbind (sql_query E (current_rows Resource_Revisions))
       (\<lambda>rows. plift (decode_rows (gc_dec_resource (se_codec E)) rows))"

definition set_model_resource_enabled ::
    "'e store_env_scheme \<Rightarrow> string \<Rightarrow> bool \<Rightarrow> u64 \<Rightarrow> ('z, model_resource) store_proc" where
  "set_model_resource_enabled E wid enabled expected =
     pbind (case se_backend E of
         Sqlite \<Rightarrow> pbind (current_model_resources E)
                     (\<lambda>rs. pret (List.find (\<lambda>r. mr_id r = wid) rs))
       | Postgres \<Rightarrow> load_model_resource E wid None)
      (\<lambda>found. case found of
         None \<Rightarrow> praise (Store_message (''model resource '' @ wid @ '' does not exist''))
       | Some r \<Rightarrow> save_model_resource E (r\<lparr>mr_enabled := enabled\<rparr>) (Some expected))"

section \<open>Selection policies\<close>

definition current_model_selection_policies ::
    "'e store_env_scheme \<Rightarrow> ('z, model_selection_policy list) store_proc" where
  "current_model_selection_policies E =
     pbind (sql_query E (current_rows Policy_Revisions))
       (\<lambda>rows. plift (decode_rows (gc_dec_policy (se_codec E)) rows))"

definition load_selection_policy ::
    "'e store_env_scheme \<Rightarrow> string \<Rightarrow> u64 option \<Rightarrow> ('z, model_selection_policy option) store_proc" where
  "load_selection_policy E = load_revision E Policy_Revisions (gc_dec_policy (se_codec E))"

definition save_model_selection_policy ::
    "'e store_env_scheme \<Rightarrow> model_selection_policy \<Rightarrow> u64 option \<Rightarrow> ('z, model_selection_policy) store_proc" where
  "save_model_selection_policy E policy expected = config_transaction E (
     pbind (current_revision E Policy_Revisions (mp_id policy)) (\<lambda>current.
     let check = plift (check_revision ''policy'' ''revision'' (mp_id policy) current expected);
         top = max_revision E Policy_Revisions (mp_id policy) in
     pbind (case se_backend E of
         Sqlite \<Rightarrow> pbind top (\<lambda>m. pbind check (\<lambda>_. pret m))
       | Postgres \<Rightarrow> pbind check (\<lambda>_. top)) (\<lambda>m.
     let saved = policy\<lparr>mp_revision := next_revision (se_backend E) m\<rparr> in
     pbind (replace_current E Policy_Revisions (mp_id saved) (mp_revision saved)
        (gc_enc_policy (se_codec E) saved) ''model_selection_policy.saved''
        (gc_enc_policy (se_codec E) saved)) (\<lambda>_. pret saved))))"

definition activated_metadata :: "u64 \<Rightarrow> u64 \<Rightarrow> json" where
  "activated_metadata revision previous =
     JObject [(''revision'', json_word revision), (''previousRevision'', json_word previous)]"

text \<open>SQLite also checks that the second update hit a row.\<close>

definition activate_model_selection_policy ::
    "'e store_env_scheme \<Rightarrow> string \<Rightarrow> u64 \<Rightarrow> u64 \<Rightarrow> ('z, model_selection_policy) store_proc" where
  "activate_model_selection_policy E wid revision expected =
    pbind (plift (case se_backend E of Sqlite \<Rightarrow> Inr 0 | Postgres \<Rightarrow> i64_of expected)) (\<lambda>_.
    config_transaction E (
     pbind (load_selection_policy E wid (Some revision)) (\<lambda>found. case found of
        None \<Rightarrow> praise (Store_message (''policy '' @ wid @ '' revision '' @ show_u64 revision @ '' does not exist''))
      | Some policy \<Rightarrow>
         pbind (plift (i64_of expected)) (\<lambda>e.
         pbind (sql E (\<lambda>db. Some (clear_current Policy_Revisions
            (\<lambda>r. is_current wid r \<and> rv_revision r = e) db))) (\<lambda>updated.
         if updated \<noteq> 1
         then praise (Store_message (''policy revision conflict for '' @ wid @ '': expected current ''
                @ show_u64 expected))
         else pbind (plift (i64_of revision)) (\<lambda>rn.
         pbind (sql E (mark_current Policy_Revisions wid rn)) (\<lambda>activated.
         if se_backend E = Sqlite \<and> activated \<noteq> 1
         then praise (Store_message (''policy '' @ wid @ '' revision '' @ show_u64 revision
                @ '' disappeared during activation''))
         else pbind (audit_event E ''model_selection_policy.activated'' wid
                (gc_json (se_codec E) (activated_metadata revision expected))) (\<lambda>_.
         pbind (bump_version E) (\<lambda>_. pret policy)))))))))"

section \<open>Start\<close>

definition insert_configured ::
    "'e store_env_scheme \<Rightarrow> revision_table \<Rightarrow> string \<Rightarrow> u64 \<Rightarrow> string \<Rightarrow> ('z, unit) store_proc" where
  "insert_configured E t wid revision text =
     pbind (plift (i64_of revision)) (\<lambda>rn.
     sql E (insert_revision t \<lparr>rv_id = wid, rv_revision = rn, rv_current = True, rv_json = text\<rparr>))"

fun each :: "('a \<Rightarrow> ('w, 'e, unit) proc) \<Rightarrow> 'a list \<Rightarrow> ('w, 'e, unit) proc" where
  "each f [] = pret ()"
| "each f (x # xs) = pbind (f x) (\<lambda>_. each f xs)"

definition initialize_configuration ::
    "'e store_env_scheme \<Rightarrow> model_resource list \<Rightarrow> model_selection_policy list
      \<Rightarrow> ('z, model_resource list \<times> model_selection_policy list) store_proc" where
  "initialize_configuration E resources policies =
    (let count = (\<lambda>t. sql_query E (\<lambda>db. length (filter rv_current (revisions t db)))) in
     pbind (config_transaction E (
       pbind (count Resource_Revisions) (\<lambda>rs.
       pbind (count Policy_Revisions) (\<lambda>ps.
       if rs = 0 \<and> ps = 0
       then pbind (each (\<lambda>r. insert_configured E Resource_Revisions (mr_id r) (mr_revision r)
                    (gc_enc_resource (se_codec E) r)) resources)
             (\<lambda>_. each (\<lambda>p. insert_configured E Policy_Revisions (mp_id p) (mp_revision p)
                    (gc_enc_policy (se_codec E) p)) policies)
       else pret ())))) (\<lambda>_.
     pbind (current_model_resources E) (\<lambda>rs.
     pbind (current_model_selection_policies E) (\<lambda>ps. pret (rs, ps)))))"

section \<open>Provider connections and secrets\<close>

definition connection_by_id :: "string \<Rightarrow> gateway_db \<Rightarrow> connection_row option" where
  "connection_by_id wid db = List.find (\<lambda>c. co_id c = wid) (gd_connections db)"

definition upsert_connection :: "connection_row \<Rightarrow> gateway_db \<Rightarrow> gateway_db" where
  "upsert_connection row db =
    (if connection_by_id (co_id row) db = None
     then db\<lparr>gd_connections := gd_connections db @ [row]\<rparr>
     else db\<lparr>gd_connections := map (\<lambda>c. if co_id c = co_id row then row else c) (gd_connections db)\<rparr>)"

definition provider_connections :: "'e store_env_scheme \<Rightarrow> ('z, provider_connection list) store_proc" where
  "provider_connections E =
     pbind (sql_query E (\<lambda>db. sort_key co_id (gd_connections db))) (\<lambda>rows.
     case those (map (\<lambda>r. gc_dec_connection (se_codec E) (co_json r)) rows) of
        None \<Rightarrow> praise Decode_failed | Some cs \<Rightarrow> pret cs)"

definition load_connection ::
    "'e store_env_scheme \<Rightarrow> string \<Rightarrow> ('z, provider_connection option) store_proc" where
  "load_connection E wid =
     pbind (sql_query E (connection_by_id wid)) (\<lambda>row. case row of
        None \<Rightarrow> pret None
      | Some r \<Rightarrow> (case gc_dec_connection (se_codec E) (co_json r) of
           None \<Rightarrow> praise Decode_failed | Some c \<Rightarrow> pret (Some c)))"

definition set_secret :: "string \<Rightarrow> string \<Rightarrow> gateway_db \<Rightarrow> gateway_db" where
  "set_secret n ciphertext db = db\<lparr>gd_secrets := (gd_secrets db)(n \<mapsto> ciphertext)\<rparr>"

definition connection_metadata :: "provider_connection \<Rightarrow> bool \<Rightarrow> json" where
  "connection_metadata c configured = JObject
     [(''version'', json_word (cn_version c)), (''enabled'', JBool (cn_enabled c)),
      (''kind'', JString (model_resource_kind_str (cn_kind c))),
      (''authType'', JString (au_auth_type (cn_auth c))),
      (''credentialConfigured'', JBool configured)]"

text \<open>
  \<open>save_provider_connection\<close> and, with a secret to store beside it, \<open>save_provider_connection_with_secret\<close>,
  which is a transaction in SQLite too.
\<close>

definition save_connection_statements ::
    "'e store_env_scheme \<Rightarrow> provider_connection \<Rightarrow> u64 option \<Rightarrow> (string \<times> string) option
      \<Rightarrow> ('z, provider_connection) store_proc" where
  "save_connection_statements E connection expected secret =
     pbind (sql_query E (connection_by_id (cn_id connection))) (\<lambda>row.
     pbind (case row of None \<Rightarrow> pret None
            | Some r \<Rightarrow> pbind (plift (u64_of (co_version r))) (\<lambda>v. pret (Some v))) (\<lambda>current.
     pbind (plift (check_revision ''provider connection''
        (case se_backend E of Sqlite \<Rightarrow> ''version'' | Postgres \<Rightarrow> ''revision'')
        (cn_id connection) current expected)) (\<lambda>_.
     let saved = connection\<lparr>cn_version := sat_inc (case current of None \<Rightarrow> 0 | Some c \<Rightarrow> c)\<rparr> in
     pbind (case secret of None \<Rightarrow> pret ()
            | Some (n, ciphertext) \<Rightarrow> sql_update E (set_secret n ciphertext)) (\<lambda>_.
     pbind (plift (i64_of (cn_version saved))) (\<lambda>v.
     pbind (sql_update E (upsert_connection \<lparr>co_id = cn_id saved, co_version = v,
        co_enabled = cn_enabled saved, co_json = gc_enc_connection (se_codec E) saved\<rparr>)) (\<lambda>_.
     pbind (audit_event E ''provider_connection.saved'' (cn_id saved)
        (gc_json (se_codec E) (connection_metadata saved
          (case secret of None \<Rightarrow> \<not> is_blank (au_secret_ref (cn_auth saved)) | Some _ \<Rightarrow> True)))) (\<lambda>_.
     pbind (case (se_backend E, secret) of
         (Sqlite, Some _) \<Rightarrow> sql_update E
            (\<lambda>db. db\<lparr>gd_configuration_version := gd_configuration_version db + 1\<rparr>)
       | _ \<Rightarrow> pbind (bump_version E) (\<lambda>_. pret ())) (\<lambda>_. pret saved))))))))"

definition save_provider_connection ::
    "'e store_env_scheme \<Rightarrow> provider_connection \<Rightarrow> u64 option \<Rightarrow> ('z, provider_connection) store_proc" where
  "save_provider_connection E connection expected =
     config_transaction E (save_connection_statements E connection expected None)"

definition save_provider_connection_with_secret ::
    "'e store_env_scheme \<Rightarrow> provider_connection \<Rightarrow> u64 option \<Rightarrow> string \<Rightarrow> string
      \<Rightarrow> ('z, provider_connection) store_proc" where
  "save_provider_connection_with_secret E connection expected n ciphertext =
    (let body = save_connection_statements E connection expected (Some (n, ciphertext)) in
     case se_backend E of
       Sqlite \<Rightarrow> pg_transaction E body
     | Postgres \<Rightarrow> config_transaction E body)"

definition save_encrypted_secret ::
    "'e store_env_scheme \<Rightarrow> string \<Rightarrow> string \<Rightarrow> ('z, unit) store_proc" where
  "save_encrypted_secret E n ciphertext = sql_update E (set_secret n ciphertext)"

definition encrypted_secret :: "'e store_env_scheme \<Rightarrow> string \<Rightarrow> ('z, string option) store_proc" where
  "encrypted_secret E n = sql_query E (\<lambda>db. gd_secrets db n)"

section \<open>Administrative operations\<close>

datatype stored_admin_operation =
  Ao_Reserved | Ao_Completed string | Ao_InProgress | Ao_Conflict

definition insert_admin :: "string \<Rightarrow> string \<Rightarrow> gateway_db \<Rightarrow> (nat \<times> gateway_db) option" where
  "insert_admin key request_hash db = Some (case gd_admin db key of
      Some _ \<Rightarrow> (0, db)
    | None \<Rightarrow> (1, db\<lparr>gd_admin := (gd_admin db)(key \<mapsto>
        \<lparr>ad_request_hash = request_hash, ad_state = ''in_progress'', ad_response_json = None\<rparr>)\<rparr>))"

definition reserve_admin_operation ::
    "'e store_env_scheme \<Rightarrow> string \<Rightarrow> string \<Rightarrow> ('z, stored_admin_operation) store_proc" where
  "reserve_admin_operation E key request_hash =
    pbind (sql E (insert_admin key request_hash)) (\<lambda>inserted.
    if inserted = 1 then pret Ao_Reserved
    else pbind (sql_query E (\<lambda>db. gd_admin db key)) (\<lambda>row. case row of
        None \<Rightarrow> praise (Store_message ''admin idempotency record disappeared during reservation'')
      | Some r \<Rightarrow>
          if ad_request_hash r \<noteq> request_hash then pret Ao_Conflict
          else if ad_state r = ''in_progress'' then pret Ao_InProgress
          else if ad_state r = ''completed'' then
            (case ad_response_json r of
               None \<Rightarrow> praise (Store_message ''completed admin idempotency record has no response'')
             | Some response \<Rightarrow> pret (Ao_Completed response))
          else praise (Store_message (''unknown admin idempotency state '' @ ad_state r))))"

definition complete_admin_operation ::
    "'e store_env_scheme \<Rightarrow> string \<Rightarrow> string \<Rightarrow> ('z, unit) store_proc" where
  "complete_admin_operation E key response =
     pbind (sql E (\<lambda>db. Some (case gd_admin db key of
         Some r \<Rightarrow>
           if ad_state r = ''in_progress''
           then (1, db\<lparr>gd_admin := (gd_admin db)(key \<mapsto>
                  r\<lparr>ad_state := ''completed'', ad_response_json := Some response\<rparr>)\<rparr>)
           else (0 :: nat, db)
       | None \<Rightarrow> (0, db))))
      (\<lambda>updated. if updated \<noteq> 1
         then praise (Store_message ''admin idempotency reservation is no longer active'')
         else pret ())"

definition discard_admin_operation :: "'e store_env_scheme \<Rightarrow> string \<Rightarrow> ('z, unit) store_proc" where
  "discard_admin_operation E key = sql_update E (\<lambda>db.
     case gd_admin db key of
       Some r \<Rightarrow> if ad_state r = ''in_progress'' then db\<lparr>gd_admin := (gd_admin db)(key := None)\<rparr> else db
     | None \<Rightarrow> db)"

end
