(* ===== verification/GatewayTurn.thy ===== *)
theory GatewayTurn
  imports GatewayProvider GatewayLimits GatewayConfigStore JsonLines
begin

text \<open>
  \<open>GatewayService::execute_turn\<close> and all it calls. One gateway process runs one turn; what other turns
  and other processes do meanwhile is \<open>te_others\<close>, applied whenever the turn awaits the network or a
  timer. The provider, the name server, the cipher and the process environment are parameters. The
  metrics are not modelled: nothing reads them.
\<close>

datatype idempotency_entry =
    Mem_InProgress (mem_hash: string)
  | Mem_Completed (mem_hash: string) (mem_response: turn_response)
  | Mem_Failed (mem_hash: string) (mem_error: gateway_api_error)

type_synonym turn_memory = "string \<Rightarrow> idempotency_entry option"

record turn_env = message_env +
  te_http :: "nat \<Rightarrow> http_request \<Rightarrow> http_outcome"
  te_lookup_host :: "nat \<Rightarrow> string \<Rightarrow> u16 \<Rightarrow> ip_addr list option"
  te_local_secret :: "string \<Rightarrow> string option"
  te_encrypt :: "nat \<Rightarrow> string \<Rightarrow> string option"
  te_decrypt :: "string \<Rightarrow> string option"
  te_period :: "time \<Rightarrow> string"
  te_held_permits :: "nat \<Rightarrow> string \<Rightarrow> nat"
  te_others :: "nat \<Rightarrow> gateway_db \<times> turn_memory \<Rightarrow> gateway_db \<times> turn_memory"

record gateway_world = message_world +
  gw_http_log :: "http_request list"
  gw_lookups :: nat
  gw_seals :: nat
  gw_acquires :: nat
  gw_awaits :: nat
  gw_sleeps :: "nat list"
  gw_bulkheads :: "string \<Rightarrow> u64 option"
  gw_memory :: turn_memory
  gw_resources :: "(string, model_resource) btree"
  gw_policies :: "model_selection_policy list"

type_synonym 'a turn_proc = "(gateway_world, gateway_api_error, 'a) proc"

definition storage_unavailable :: "string \<Rightarrow> gateway_api_error" where
  "storage_unavailable request_id = gateway_error 503 request_id ''gateway_storage_unavailable''
     ''Gateway durable state is temporarily unavailable'' True"

definition stored :: "turn_request \<Rightarrow> (gateway_world, gateway_store_error, 'a) proc \<Rightarrow> 'a turn_proc" where
  "stored r = pmap_err (\<lambda>_. storage_unavailable (gr_request_id r))"

definition await_others :: "turn_env \<Rightarrow> gateway_world \<Rightarrow> gateway_world" where
  "await_others E w = (let (db, mem) = te_others E (gw_awaits w) (sw_db w, gw_memory w) in
     w\<lparr>sw_db := db, gw_memory := mem, gw_awaits := Suc (gw_awaits w)\<rparr>)"

definition sleep_ms :: "turn_env \<Rightarrow> nat \<Rightarrow> 'a \<Rightarrow> (gateway_world, 'e, 'a) proc" where
  "sleep_ms E ms x w = (Inr x, (await_others E w)\<lparr>gw_sleeps := gw_sleeps w @ [ms]\<rparr>)"

section \<open>One exchange with a provider\<close>

definition http_exchange :: "turn_env \<Rightarrow> http_request \<Rightarrow> (gateway_world, 'e, http_outcome) proc" where
  "http_exchange E q w = (Inr (te_http E (length (gw_http_log w)) q),
     (await_others E w)\<lparr>gw_http_log := gw_http_log w @ [q]\<rparr>)"

definition resolve_secret_ref ::
    "turn_env \<Rightarrow> string \<Rightarrow> (gateway_world, gateway_store_error, string) proc" where
  "resolve_secret_ref E secret_ref = (case strip_prefix ''db:'' secret_ref of
      Some n \<Rightarrow>
        pbind (plift (err_into Store_message (validate_database_secret_name n))) (\<lambda>_.
        pbind (encrypted_secret E n) (\<lambda>found. case found of
          None \<Rightarrow> praise (Store_message (''encrypted secret '' @ n @ '' does not exist''))
        | Some ciphertext \<Rightarrow> (case te_decrypt E ciphertext of
            None \<Rightarrow> praise Decode_failed
          | Some plaintext \<Rightarrow> if utf8_valid plaintext then pret plaintext else praise Decode_failed)))
    | None \<Rightarrow> (case te_local_secret E secret_ref of
        None \<Rightarrow> praise Decode_failed | Some s \<Rightarrow> pret s))"

definition validate_resource_endpoint_dns ::
    "turn_env \<Rightarrow> string \<Rightarrow> (gateway_world, string, unit) proc" where
  "validate_resource_endpoint_dns E base_url = (case ge_parse_url E base_url of
      None \<Rightarrow> praise ''model resource base URL is invalid''
    | Some url \<Rightarrow> (case url_host url of
        None \<Rightarrow> praise ''model resource endpoint host is required''
      | Some host \<Rightarrow>
         if ge_allow_loopback E then pret ()
         else (\<lambda>w. (case te_lookup_host E (gw_lookups w) host
                  (or_default (if url_scheme url = ''http'' then 80 else 443) (url_port url)) of
               None \<Rightarrow> Inl (''resolving provider endpoint '' @ host)
             | Some ips \<Rightarrow>
                 if ips = [] \<or> list_ex unsafe_endpoint_ip ips
                 then Inl ''provider endpoint resolves to a forbidden network'' else Inr (),
             w\<lparr>gw_lookups := Suc (gw_lookups w)\<rparr>))))"

definition call_openai_compatible_once ::
    "turn_env \<Rightarrow> model_resource \<Rightarrow> turn_request \<Rightarrow> string \<Rightarrow> provider_turn turn_proc" where
  "call_openai_compatible_once E resource r api_key =
     pbind (resolve_visual_artifacts E resource r) (\<lambda>resolved.
     pbind (plift (err_into (\<lambda>m. gateway_error 400 (gr_request_id r) ''invalid_visual_artifact'' m False)
        (verified_visual_input_summary (ge_digest E) (ge_unbase64 E) resolved))) (\<lambda>visual_input.
     pbind (plift (alias_map_from_request (ge_digest E) resolved)) (\<lambda>aliases.
     pbind (plift (openai_request_body (se_codec E) (ge_digest E) resolved resource aliases)) (\<lambda>body.
     pbind (provider_call_timeout E resource r) (\<lambda>timeout.
     pbind (http_exchange E \<lparr>hq_resource_id = mr_id resource,
        hq_endpoint = trim_end_slashes (ep_base_url (mr_endpoint resource))
          @ ensure_leading_slash (ep_chat_completions_path (mr_endpoint resource)),
        hq_api_key = api_key, hq_request_id = gr_request_id r, hq_timeout = timeout, hq_body = body\<rparr>)
      (\<lambda>answer.
     pbind (plift (read_provider_response (se_codec E) r aliases answer)) (\<lambda>turn.
     pret (turn\<lparr>pt_visual_input := visual_input\<rparr>))))))))"

section \<open>Retries on one resource\<close>

definition attempt_failed_metadata :: "turn_request \<Rightarrow> u32 \<Rightarrow> gateway_api_error \<Rightarrow> json" where
  "attempt_failed_metadata r attempt e = (let d = ee_error (ae_envelope e) in JObject
     [(''requestId'', JString (gr_request_id r)), (''runId'', JString (ts_run_id (gr_scope r))),
      (''phase'', JString (ts_phase (gr_scope r))), (''attempt'', json_word attempt),
      (''code'', JString (ed_code d)), (''message'', JString (ed_message d)),
      (''providerRequestId'', json_opt JString (ed_provider_request_id d)),
      (''retryable'', JBool (ed_retryable d))])"

text \<open>Its own failure is ignored.\<close>

definition record_provider_error ::
    "turn_env \<Rightarrow> model_resource \<Rightarrow> turn_request \<Rightarrow> u32 \<Rightarrow> gateway_api_error \<Rightarrow> unit turn_proc" where
  "record_provider_error E resource r attempt e =
     pbind (pattempt (audit_event E ''provider_attempt.failed'' (mr_id resource)
        (gc_json (se_codec E) (attempt_failed_metadata r attempt e)))) (\<lambda>_. pret ())"

fun retry_loop ::
    "turn_env \<Rightarrow> model_resource \<Rightarrow> turn_request \<Rightarrow> string \<Rightarrow> u32 \<Rightarrow> nat \<Rightarrow> provider_turn turn_proc" where
  "retry_loop E resource r api_key attempt left =
     pbind (pattempt (call_openai_compatible_once E resource r api_key)) (\<lambda>result. case result of
        Inr turn \<Rightarrow> pret (turn\<lparr>pt_attempt_count := attempt\<rparr>)
      | Inl e \<Rightarrow>
          pbind (record_provider_error E resource r attempt e) (\<lambda>_.
          case (is_retryable_upstream e, left) of
            (True, Suc left') \<Rightarrow>
              (let delay = provider_retry_delay (ge_digest E) r attempt e in
               pbind (remaining_turn_deadline E r) (\<lambda>remaining.
               if remaining \<le> milliseconds delay
               then praise (provider_timeout_error r
                      ''Turn request deadline elapsed before a Provider retry'')
               else pbind (sleep_ms E delay ()) (\<lambda>_.
                 retry_loop E resource r api_key (attempt + 1) left')))
          | _ \<Rightarrow> praise e))"

declare retry_loop.simps [simp del]

text \<open>A resource without attempts reaches \<open>unreachable!\<close>; validation excludes it.\<close>

definition call_openai_compatible ::
    "turn_env \<Rightarrow> model_resource \<Rightarrow> turn_request \<Rightarrow> provider_turn turn_proc" where
  "call_openai_compatible E resource r =
    (if au_auth_type (mr_auth resource) \<noteq> ''bearer''
     then praise (gateway_error 503 (gr_request_id r) ''provider_unavailable''
            ''The selected model resource has unsupported authentication'' False)
     else pbind (pmap_err (\<lambda>_. gateway_error 503 (gr_request_id r) ''provider_unavailable''
            ''The selected model credential is unavailable'' True)
            (resolve_secret_ref E (au_secret_ref (mr_auth resource)))) (\<lambda>api_key.
     pbind (pmap_err (\<lambda>_. gateway_error 503 (gr_request_id r) ''provider_unavailable''
            ''The selected provider endpoint cannot be reached through the approved network policy'' True)
            (validate_resource_endpoint_dns E (ep_base_url (mr_endpoint resource)))) (\<lambda>_.
     if md_max_attempts (mr_defaults resource) = 0
     then praise (gateway_error 500 (gr_request_id r) ''panic''
            ''model resource maxAttempts is validated as at least one'' False)
     else retry_loop E resource r api_key 1 (unat (md_max_attempts (mr_defaults resource)) - 1))))"

definition call_resource :: "turn_env \<Rightarrow> model_resource \<Rightarrow> turn_request \<Rightarrow> provider_turn turn_proc" where
  "call_resource E resource r = (case mr_kind resource of
      Openai_Compatible \<Rightarrow> call_openai_compatible E resource r
    | Fixture \<Rightarrow> praise (gateway_error 503 (gr_request_id r) ''provider_unavailable''
        ''The fixture adapter is not available in this production gateway binary'' False))"

section \<open>Bulkhead and circuit\<close>

definition gateway_overloaded :: "turn_request \<Rightarrow> string \<Rightarrow> gateway_api_error" where
  "gateway_overloaded r message = with_retry_after_ms 250
     (gateway_error 503 (gr_request_id r) ''gateway_overloaded'' message True)"

text \<open>The semaphore of a resource revision keeps the capacity it was created with.\<close>

definition acquire_resource_bulkhead :: "turn_env \<Rightarrow> model_resource \<Rightarrow> turn_request \<Rightarrow> unit turn_proc" where
  "acquire_resource_bulkhead E resource r w =
    (let key = mr_id resource @ '':'' @ show_u64 (mr_revision resource);
         capacity = or_default (md_max_concurrent_requests (mr_defaults resource)) (gw_bulkheads w key);
         w' = w\<lparr>gw_bulkheads := (gw_bulkheads w)(key \<mapsto> capacity), gw_acquires := Suc (gw_acquires w)\<rparr> in
     if unat capacity \<le> te_held_permits E (gw_acquires w) key
     then (Inl (gateway_overloaded r ''The selected model resource is at concurrent request capacity''), w')
     else (Inr (), w'))"

definition resource_circuit_allows :: "turn_env \<Rightarrow> model_resource \<Rightarrow> turn_request \<Rightarrow> bool turn_proc" where
  "resource_circuit_allows E resource r =
     pbind (utc_now E) (\<lambda>now.
     stored r (circuit_allows E (mr_id resource) (mr_revision resource) (timestamp now)))"

definition record_resource_success :: "turn_env \<Rightarrow> model_resource \<Rightarrow> turn_request \<Rightarrow> unit turn_proc" where
  "record_resource_success E resource r =
     stored r (record_success E (mr_id resource) (mr_revision resource))"

definition record_resource_retryable_failure ::
    "turn_env \<Rightarrow> model_resource \<Rightarrow> turn_request \<Rightarrow> unit turn_proc" where
  "record_resource_retryable_failure E resource r =
     pbind (utc_now E) (\<lambda>now.
     pbind (stored r (record_circuit_failure E (mr_id resource) (mr_revision resource) (timestamp now)))
       (\<lambda>_. pret ()))"

section \<open>Quota\<close>

record policy_quota_lease =
  ql_period_utc :: string
  ql_workspace_id :: string
  ql_project_id :: string
  ql_reserved_input_tokens :: u64
  ql_concurrency_lease_id :: "string option"

definition release_policy_quota_reservation ::
    "turn_env \<Rightarrow> string \<Rightarrow> string \<Rightarrow> string \<Rightarrow> u64 \<Rightarrow> turn_request \<Rightarrow> unit turn_proc" where
  "release_policy_quota_reservation E period workspace_id project_id reserved r =
    (if reserved = 0 then pret ()
     else stored r (settle_project_daily_usage E period workspace_id project_id reserved 0))"

definition release_concurrency_lease ::
    "turn_env \<Rightarrow> policy_quota_lease \<Rightarrow> turn_request \<Rightarrow> unit turn_proc" where
  "release_concurrency_lease E lease r = (case ql_concurrency_lease_id lease of
      None \<Rightarrow> pret ()
    | Some lease_id \<Rightarrow> stored r (release_project_concurrency_lease E lease_id))"

definition release_policy_quota ::
    "turn_env \<Rightarrow> policy_quota_lease \<Rightarrow> turn_request \<Rightarrow> unit turn_proc" where
  "release_policy_quota E lease r =
     pbind (release_policy_quota_reservation E (ql_period_utc lease) (ql_workspace_id lease)
        (ql_project_id lease) (ql_reserved_input_tokens lease) r)
       (\<lambda>_. release_concurrency_lease E lease r)"

definition settle_policy_quota ::
    "turn_env \<Rightarrow> policy_quota_lease \<Rightarrow> token_usage \<Rightarrow> turn_request \<Rightarrow> unit turn_proc" where
  "settle_policy_quota E lease usage r =
     pbind (if ql_reserved_input_tokens lease \<noteq> 0
        then stored r (settle_project_daily_usage E (ql_period_utc lease) (ql_workspace_id lease)
               (ql_project_id lease) (ql_reserved_input_tokens lease) (us_input_tokens usage))
        else pret ())
       (\<lambda>_. release_concurrency_lease E lease r)"

definition quota_exceeded :: "turn_request \<Rightarrow> string \<Rightarrow> gateway_api_error" where
  "quota_exceeded r message = gateway_error 429 (gr_request_id r) ''gateway_quota_exceeded'' message False"

definition reserve_input_tokens ::
    "turn_env \<Rightarrow> model_selection_policy \<Rightarrow> turn_request \<Rightarrow> string \<Rightarrow> u64 turn_proc" where
  "reserve_input_tokens E policy r period = (case ml_daily_input_tokens (mp_limits policy) of
      None \<Rightarrow> pret 0
    | Some limit \<Rightarrow>
       (let estimated = estimate_input_tokens E (gr_input r) in
        pbind (stored r (reserve_project_daily_input_tokens E period (ts_workspace_id (gr_scope r))
           (ts_project_id (gr_scope r)) estimated limit)) (\<lambda>allowed.
        if allowed then pret estimated
        else praise (quota_exceeded r ''The project daily input token quota is exhausted''))))"

definition lease_scope :: "model_selection_policy \<Rightarrow> turn_request \<Rightarrow> string" where
  "lease_scope policy r = mp_id policy @ '':'' @ show_u64 (mp_revision policy) @ '':''
     @ ts_workspace_id (gr_scope r) @ '':'' @ ts_project_id (gr_scope r)"

definition lease_expiry :: "turn_env \<Rightarrow> turn_request \<Rightarrow> (gateway_world, 'e, int) proc" where
  "lease_expiry E r = (case ge_rfc3339 E (gr_deadline_at r) of
      Some deadline \<Rightarrow> pret (i64_saturating_add (timestamp deadline) 60)
    | None \<Rightarrow> pbind (utc_now E) (\<lambda>now. pret (i64_saturating_add (timestamp now) 240)))"

definition acquire_policy_quota ::
    "turn_env \<Rightarrow> model_selection_policy \<Rightarrow> turn_request \<Rightarrow> policy_quota_lease turn_proc" where
  "acquire_policy_quota E policy r =
     pbind (utc_now E) (\<lambda>now.
     let period = te_period E now; workspace_id = ts_workspace_id (gr_scope r);
         project_id = ts_project_id (gr_scope r) in
     pbind (reserve_input_tokens E policy r period) (\<lambda>reserved.
     let give_back = release_policy_quota_reservation E period workspace_id project_id reserved r;
         lease = (\<lambda>l. \<lparr>ql_period_utc = period, ql_workspace_id = workspace_id, ql_project_id = project_id,
                    ql_reserved_input_tokens = reserved, ql_concurrency_lease_id = l\<rparr>) in
     case ml_max_concurrent_turns (mp_limits policy) of
       None \<Rightarrow> pret (lease None)
     | Some limit \<Rightarrow>
         if limit = 0
         then pbind give_back (\<lambda>_. praise (quota_exceeded r ''The project is not allowed to start model turns''))
         else pbind (lease_expiry E r) (\<lambda>expires_at.
           pbind (stored r (acquire_project_concurrency_lease E (lease_scope policy r) (turn_key r) limit expires_at))
            (\<lambda>acquired.
           if acquired then pret (lease (Some (turn_key r)))
           else pbind give_back (\<lambda>_.
             praise (gateway_overloaded r ''The project is at concurrent turn capacity''))))))"

section \<open>A new turn\<close>

definition build_turn_response ::
    "turn_env \<Rightarrow> turn_request \<Rightarrow> model_selection_policy \<Rightarrow> model_resource \<Rightarrow> string
      \<Rightarrow> automatic_switch_summary \<Rightarrow> provider_turn \<Rightarrow> turn_response" where
  "build_turn_response E r policy resource selection_reason switch provider =
     \<lparr>gt_schema_version = ''provider-gateway-turn-response@1'', gt_request_id = gr_request_id r,
      gt_response_type = (if pt_tool_calls provider = [] then ''text'' else ''tool_calls''),
      gt_tool_calls = pt_tool_calls provider, gt_text = pt_text provider,
      gt_finish_reason = pt_finish_reason provider,
      gt_model_execution =
        \<lparr>me_id = ''model-execution-'' @ gr_request_id r, me_model_resource_id = mr_id resource,
         me_model_resource_revision = mr_revision resource, me_display_name = mr_display_name resource,
         me_provider_id = or_default (mr_id resource) (mr_provider_connection_id resource),
         me_physical_model = mr_physical_model resource, me_selection_policy_id = mp_id policy,
         me_selection_policy_revision = mp_revision policy,
         me_capability_snapshot_hash = capability_hash E (mr_capabilities resource),
         me_selection_reason = (if sw_used switch then ''automatic_switch'' else selection_reason),
         me_automatic_switch = switch, me_provider_request_id = pt_provider_request_id provider,
         me_provider_attempt_count = pt_attempt_count provider,
         me_visual_input = pt_visual_input provider\<rparr>,
      gt_usage = pt_usage provider, gt_provider_request_id = pt_provider_request_id provider,
      gt_provider_attempt_count = pt_attempt_count provider\<rparr>"

definition not_allowed :: "turn_request \<Rightarrow> string \<Rightarrow> gateway_api_error" where
  "not_allowed r message = gateway_error 403 (gr_request_id r) ''model_resource_not_allowed'' message False"

definition select_candidates ::
    "turn_env \<Rightarrow> model_selection_policy \<Rightarrow> (string, model_resource) btree \<Rightarrow> turn_request
      \<Rightarrow> gateway_api_error + model_resource list \<times> string" where
  "select_candidates E policy resources r = (case tr_model_resource_id (gr_routing r) of
      Some resource_id \<Rightarrow>
        if resource_id \<notin> set (mp_direct_selection policy)
        then Inl (not_allowed r ''The requested model resource is not allowed by the active selection policy'')
        else (case bt_get resources resource_id of
           None \<Rightarrow> Inl (not_allowed r ''The requested model resource does not exist'')
         | Some resource \<Rightarrow> Inr ([resource], ''explicit_resource''))
    | None \<Rightarrow> Inr (ordered_automatic_candidates (ge_digest E) policy resources (gr_idempotency_key r),
        ''automatic_selection''))"

fun allowed_by_circuit :: "turn_env \<Rightarrow> turn_request \<Rightarrow> model_resource list \<Rightarrow> model_resource list turn_proc" where
  "allowed_by_circuit E r [] = pret []"
| "allowed_by_circuit E r (x # xs) =
     pbind (resource_circuit_allows E x r) (\<lambda>ok.
     pbind (allowed_by_circuit E r xs) (\<lambda>ys. pret (if ok then x # ys else ys)))"

definition may_switch :: "model_selection_policy \<Rightarrow> nat \<Rightarrow> model_resource list \<Rightarrow> gateway_api_error \<Rightarrow> bool" where
  "may_switch policy index rest e \<longleftrightarrow> as_enabled (mp_automatic_switch policy) \<and> rest \<noteq> []
     \<and> index < unat (as_max_model_switches_per_turn (mp_automatic_switch policy))
     \<and> api_error_code e \<in> set (as_allowed_reasons (mp_automatic_switch policy))"

text \<open>The bulkhead's permit is given back when the call ends.\<close>

definition call_with_permit :: "turn_env \<Rightarrow> model_resource \<Rightarrow> turn_request \<Rightarrow> provider_turn turn_proc" where
  "call_with_permit E resource r =
     pbind (acquire_resource_bulkhead E resource r) (\<lambda>_. call_resource E resource r)"

fun try_candidates ::
    "turn_env \<Rightarrow> turn_request \<Rightarrow> model_selection_policy \<Rightarrow> string \<Rightarrow> policy_quota_lease \<Rightarrow> nat
      \<Rightarrow> string option \<Rightarrow> gateway_api_error option \<Rightarrow> model_resource list \<Rightarrow> turn_response turn_proc" where
  "try_candidates E r policy reason lease index prior last_error [] =
     pbind (release_policy_quota E lease r) (\<lambda>_. praise (or_default
       (gateway_error 503 (gr_request_id r) ''provider_unavailable''
          ''No selected provider could complete the turn'' True) last_error))"
| "try_candidates E r policy reason lease index prior last_error (resource # rest) =
     pbind (pattempt (call_with_permit E resource r)) (\<lambda>result. case result of
        Inr provider \<Rightarrow>
          pbind (pattempt (record_resource_success E resource r)) (\<lambda>recorded. case recorded of
             Inl storage_error \<Rightarrow> pbind (release_policy_quota E lease r) (\<lambda>_. praise storage_error)
           | Inr _ \<Rightarrow>
               pbind (settle_policy_quota E lease (pt_usage provider) r) (\<lambda>_.
               pret (build_turn_response E r policy resource reason
                 \<lparr>sw_used = 0 < index,
                  sw_reason = (if 0 < index then map_option api_error_code last_error else None),
                  sw_from_model_resource_id = prior\<rparr>
                 (provider\<lparr>pt_attempt_count := pt_attempt_count provider + word_of_nat index\<rparr>))))
      | Inl e \<Rightarrow>
          pbind (pattempt (if is_retryable_upstream e then record_resource_retryable_failure E resource r
                           else pret ())) (\<lambda>recorded. case recorded of
             Inl storage_error \<Rightarrow> pbind (release_policy_quota E lease r) (\<lambda>_. praise storage_error)
           | Inr _ \<Rightarrow>
               if may_switch policy index rest e
               then try_candidates E r policy reason lease (Suc index) (Some (mr_id resource)) (Some e) rest
               else pbind (release_policy_quota E lease r) (\<lambda>_. praise e)))"

definition usable :: "turn_request \<Rightarrow> model_resource \<Rightarrow> bool" where
  "usable r x \<longleftrightarrow> mr_enabled x \<and> capabilities_match x (tr_required_capabilities (gr_routing r))"

definition execute_new_turn ::
    "turn_env \<Rightarrow> turn_request \<Rightarrow> turn_response turn_proc" where
  "execute_new_turn E r =
     pbind (pasks (\<lambda>w. (resolve_policy (gw_policies w) (gr_scope r), gw_resources w))) (\<lambda>(found, resources).
     case found of
       None \<Rightarrow> praise (not_allowed r ''No active model selection policy allows this scope'')
     | Some policy \<Rightarrow>
         pbind (plift (select_candidates E policy resources r)) (\<lambda>(candidates, reason).
         let capable = filter (usable r) candidates in
         if capable = []
         then praise (gateway_error 422 (gr_request_id r) ''provider_capability_mismatch''
                ''No allowed model resource satisfies the required capabilities'' False)
         else pbind (allowed_by_circuit E r capable) (\<lambda>compatible.
           if compatible = []
           then praise (gateway_error 503 (gr_request_id r) ''provider_unavailable''
                  ''Every allowed model resource is temporarily unavailable'' True)
           else pbind (acquire_policy_quota E policy r) (\<lambda>lease.
             try_candidates E r policy reason lease 0 None None compatible))))"

section \<open>The idempotent turn\<close>

definition idempotency_conflict :: "turn_request \<Rightarrow> gateway_api_error" where
  "idempotency_conflict r = gateway_error 409 (gr_request_id r) ''idempotency_conflict''
     ''The idempotency key was already used with a different request'' False"

definition idempotency_expired :: "turn_request \<Rightarrow> gateway_api_error" where
  "idempotency_expired r = gateway_error 410 (gr_request_id r) ''idempotency_result_expired''
     ''The protected idempotency replay window has expired'' False"

text \<open>\<open>StatusCode::from_u16(status).unwrap_or(SERVICE_UNAVAILABLE)\<close>.\<close>

definition stored_failure :: "u16 \<Rightarrow> gateway_error_envelope \<Rightarrow> gateway_api_error" where
  "stored_failure status e =
     \<lparr>ae_status = (if 100 \<le> status \<and> status < 1000 then status else 503), ae_envelope = e\<rparr>"

definition decrypt_turn_response :: "turn_env \<Rightarrow> string \<Rightarrow> string \<Rightarrow> gateway_api_error + turn_response" where
  "decrypt_turn_response E request_id encrypted =
    (case Option.bind (te_decrypt E encrypted) (gc_dec_response (se_codec E)) of
       Some response \<Rightarrow> Inr response
     | None \<Rightarrow> Inl (gateway_error 503 request_id ''gateway_storage_unavailable''
         ''Gateway protected replay state is unavailable'' True))"

datatype turn_start = Turn_Reserved | Turn_Replay turn_response | Turn_Wait_Local | Turn_Wait_Durable

text \<open>Up to the answer of \<open>reserve_turn\<close>.\<close>

definition begin_turn :: "turn_env \<Rightarrow> turn_request \<Rightarrow> turn_start turn_proc" where
  "begin_turn E r =
     pbind (validate_turn_request E r) (\<lambda>_.
     pbind (stored r (reserve_turn E (turn_key r) (idempotency_request_hash E r))) (\<lambda>answer. case answer of
        St_Reserved \<Rightarrow> pret Turn_Reserved
      | St_Completed encrypted \<Rightarrow>
          pbind (plift (decrypt_turn_response E (gr_request_id r) encrypted)) (\<lambda>x. pret (Turn_Replay x))
      | St_Expired \<Rightarrow> praise (idempotency_expired r)
      | St_Failed status e \<Rightarrow> praise (stored_failure status e)
      | St_Conflict \<Rightarrow> praise (idempotency_conflict r)
      | St_InProgress \<Rightarrow>
          pasks (\<lambda>w. if gw_memory w (turn_key r) = Some (Mem_InProgress (idempotency_request_hash E r))
                    then Turn_Wait_Local else Turn_Wait_Durable)))"

text \<open>Each round sleeps 50 ms, or what is left of the deadline; \<open>None\<close> is still waiting.\<close>

fun wait_for_durable_turn :: "nat \<Rightarrow> turn_env \<Rightarrow> turn_request \<Rightarrow> turn_response option turn_proc" where
  "wait_for_durable_turn 0 E r = pret None"
| "wait_for_durable_turn (Suc fuel) E r =
     pbind (remaining_turn_deadline E r) (\<lambda>remaining.
     if remaining \<le> milliseconds 50
     then praise (gateway_error 503 (gr_request_id r) ''provider_unavailable''
            ''A previous upstream attempt remains uncertain and will not be replayed'' True)
     else pbind (sleep_ms E 50 ()) (\<lambda>_.
       pbind (stored r (reserve_turn E (turn_key r) (idempotency_request_hash E r))) (\<lambda>answer. case answer of
          St_Completed encrypted \<Rightarrow>
            pbind (plift (decrypt_turn_response E (gr_request_id r) encrypted)) (\<lambda>x. pret (Some x))
        | St_Failed status e \<Rightarrow> praise (stored_failure status e)
        | St_Expired \<Rightarrow> praise (idempotency_expired r)
        | St_Conflict \<Rightarrow> praise (idempotency_conflict r)
        | St_InProgress \<Rightarrow> wait_for_durable_turn fuel E r
        | St_Reserved \<Rightarrow> praise (gateway_error 503 (gr_request_id r) ''gateway_storage_unavailable''
            ''Gateway idempotency state changed unexpectedly'' True))))"

datatype turn_claim = Claimed | Claim_Replay turn_response | Claim_Waiting

fun claim_turn :: "nat \<Rightarrow> turn_env \<Rightarrow> turn_request \<Rightarrow> turn_claim turn_proc" where
  "claim_turn fuel E r w =
    (let key = turn_key r; hash = idempotency_request_hash E r in
     case gw_memory w key of
       None \<Rightarrow> (Inr Claimed, w\<lparr>gw_memory := (gw_memory w)(key \<mapsto> Mem_InProgress hash)\<rparr>)
     | Some entry \<Rightarrow>
         if mem_hash entry \<noteq> hash then (Inl (idempotency_conflict r), w)
         else (case entry of
            Mem_Completed _ response \<Rightarrow> (Inr (Claim_Replay response), w)
          | Mem_Failed _ e \<Rightarrow> (Inl e, w)
          | Mem_InProgress _ \<Rightarrow>
              (case fuel of 0 \<Rightarrow> (Inr Claim_Waiting, w) | Suc n \<Rightarrow> claim_turn n E r (await_others E w))))"

declare claim_turn.simps [simp del]

definition encrypt_turn_response ::
    "turn_env \<Rightarrow> turn_response \<Rightarrow> (gateway_world, gateway_store_error, string) proc" where
  "encrypt_turn_response E response w =
    ((case te_encrypt E (gw_seals w) (gc_enc_response (se_codec E) response) of
        None \<Rightarrow> Inl (Store_message ''encrypting Provider Gateway protected data'') | Some c \<Rightarrow> Inr c),
     w\<lparr>gw_seals := Suc (gw_seals w)\<rparr>)"

definition persist_turn ::
    "turn_env \<Rightarrow> turn_request \<Rightarrow> gateway_api_error + turn_response \<Rightarrow> (gateway_world, gateway_store_error, unit) proc" where
  "persist_turn E r result = (case result of
      Inr response \<Rightarrow> pbind (encrypt_turn_response E response) (\<lambda>encrypted.
        complete_turn E (turn_key r) encrypted response (ts_run_id (gr_scope r)) (ts_turn (gr_scope r)))
    | Inl e \<Rightarrow> fail_turn E (turn_key r) (ae_status e) (ae_envelope e))"

definition finish_turn ::
    "turn_env \<Rightarrow> turn_request \<Rightarrow> gateway_api_error + turn_response \<Rightarrow> turn_response turn_proc" where
  "finish_turn E r result =
     pbind (pattempt (persist_turn E r result)) (\<lambda>persisted.
     let final = (case persisted of Inl _ \<Rightarrow> Inl (storage_unavailable (gr_request_id r)) | Inr _ \<Rightarrow> result);
         hash = idempotency_request_hash E r in
     pbind (pmodify (\<lambda>w. w\<lparr>gw_memory := (gw_memory w)(turn_key r \<mapsto>
         (case final of Inr x \<Rightarrow> Mem_Completed hash x | Inl e \<Rightarrow> Mem_Failed hash e))\<rparr>))
       (\<lambda>_. plift final))"

definition run_turn ::
    "turn_env \<Rightarrow> turn_request \<Rightarrow> turn_response turn_proc" where
  "run_turn E r =
     pbind (pattempt (execute_new_turn E r)) (finish_turn E r)"

text \<open>
  The wait for the turn of this process that holds the key: until its entry is no longer in progress,
  however long that takes. \<open>False\<close> is still waiting.
\<close>

fun wait_for_local_turn :: "nat \<Rightarrow> turn_env \<Rightarrow> turn_request \<Rightarrow> bool turn_proc" where
  "wait_for_local_turn fuel E r w =
    (if gw_memory w (turn_key r) \<noteq> Some (Mem_InProgress (idempotency_request_hash E r)) then (Inr True, w)
     else case fuel of 0 \<Rightarrow> (Inr False, w) | Suc n \<Rightarrow> wait_for_local_turn n E r (await_others E w))"

declare wait_for_local_turn.simps [simp del]

fun execute_turn ::
    "nat \<Rightarrow> turn_env \<Rightarrow> turn_request \<Rightarrow> turn_response option turn_proc" where
  "execute_turn fuel E r =
     pbind (begin_turn E r) (\<lambda>start. case start of
        Turn_Replay response \<Rightarrow> pret (Some response)
      | Turn_Wait_Local \<Rightarrow> (case fuel of
            0 \<Rightarrow> pret None
          | Suc n \<Rightarrow> pbind (wait_for_local_turn n E r)
              (\<lambda>completed. if completed then execute_turn n E r else pret None))
      | Turn_Wait_Durable \<Rightarrow> wait_for_durable_turn fuel E r
      | Turn_Reserved \<Rightarrow>
          pbind (claim_turn fuel E r) (\<lambda>claim. case claim of
             Claim_Replay response \<Rightarrow> pret (Some response)
           | Claim_Waiting \<Rightarrow> pret None
           | Claimed \<Rightarrow> pbind (run_turn E r) (\<lambda>x. pret (Some x))))"

declare execute_turn.simps [simp del]

end
