(* ===== verification/GatewayFrames.thy ===== *)
theory GatewayFrames
  imports GatewayTurn
begin

text \<open>
  What a store operation may touch, whatever fails in it: the tables it names, and of the world only the
  database and the counters of statements and clock readings.
\<close>

section \<open>Frames\<close>

definition within ::
    "(gateway_db \<Rightarrow> gateway_db \<Rightarrow> bool) \<Rightarrow> 'z store_world_scheme \<Rightarrow> 'z store_world_scheme \<Rightarrow> bool" where
  "within Q w w' \<longleftrightarrow> Q (sw_db w) (sw_db w') \<and> store_world.more w' = store_world.more w"

lemma within_order [simp]: "reflp Q \<Longrightarrow> reflp (within Q)" "transp Q \<Longrightarrow> transp (within Q)"
  by (auto simp: reflp_def transp_def within_def)

lemma keeps_within_mono: "keeps (within Q) m \<Longrightarrow> (\<And>a b. Q a b \<Longrightarrow> P a b) \<Longrightarrow> keeps (within P) m"
  by (simp add: keeps_def within_def)

lemma within_db: "within Q w w' \<Longrightarrow> Q (sw_db w) (sw_db w')"
  by (simp add: within_def)

text \<open>The rest of the world of a turn.\<close>

lemma within_rest:
  assumes "within Q w (w' :: gateway_world)"
  shows "gw_http_log w' = gw_http_log w" "gw_memory w' = gw_memory w" "gw_sleeps w' = gw_sleeps w"
    "gw_resources w' = gw_resources w" "gw_policies w' = gw_policies w" "gw_bulkheads w' = gw_bulkheads w"
    "gw_awaits w' = gw_awaits w" "gw_artifacts w' = gw_artifacts w"
  using assms by (cases w; cases w'; simp add: within_def)+

section \<open>Statements\<close>

lemma sql_cases:
  assumes "sql E f w = (r, w')"
  obtains "r = Inl Statement_failed" "w' = w\<lparr>sw_stmts := Suc (sw_stmts w)\<rparr>"
    | x db where "f (sw_db w) = Some (x, db)" "r = Inl Statement_failed"
        "w' = w\<lparr>sw_stmts := Suc (sw_stmts w), sw_db := db\<rparr>" "se_stmt E (sw_stmts w) = Stmt_lost"
    | x db where "f (sw_db w) = Some (x, db)" "r = Inr x"
        "w' = w\<lparr>sw_stmts := Suc (sw_stmts w), sw_db := db\<rparr>" "se_stmt E (sw_stmts w) = Stmt_done"
  using assms by (auto simp: sql_def Let_def split: option.splits stmt_outcome.splits)

lemma keeps_sql [keeps_rules]:
  assumes "reflp Q" "\<And>db x db'. f db = Some (x, db') \<Longrightarrow> Q db db'"
  shows "keeps (within Q) (sql E f)"
  unfolding keeps_def
proof
  fix w
  obtain r w' where s: "sql E f w = (r, w')" by fastforce
  have refl: "Q (sw_db w) (sw_db w)" using assms(1) by (simp add: reflp_def)
  from s have "within Q w w'"
    by (cases rule: sql_cases) (auto simp: within_def refl dest: assms(2))
  with s show "within Q w (snd (sql E f w))" by simp
qed

lemma keeps_sql_query [keeps_rules]: "reflp Q \<Longrightarrow> keeps (within Q) (sql_query E f)"
  unfolding sql_query_def by (rule keeps_sql) (auto dest: reflpD)

lemma keeps_sql_update [keeps_rules]:
  "reflp Q \<Longrightarrow> (\<And>db. Q db (f db)) \<Longrightarrow> keeps (within Q) (sql_update E f)"
  unfolding sql_update_def by (rule keeps_sql) auto

lemma keeps_utc_now [keeps_rules]: "reflp Q \<Longrightarrow> keeps (within Q) (utc_now E)"
  by (simp add: keeps_def utc_now_def reflp_def within_def)

lemma keeps_pg_transaction [keeps_rules]:
  assumes "reflp Q" "transp Q" "keeps (within Q) m"
  shows "keeps (within Q) (pg_transaction E m)"
  unfolding keeps_def
proof
  fix w
  have "keeps (within Q) (pbind (sql_update E (\<lambda>db. db)) (\<lambda>_. m))"
    using assms by (intro keeps_rules) (auto dest: reflpD)
  moreover obtain r w' where s: "pbind (sql_update E (\<lambda>db. db)) (\<lambda>_. m) w = (r, w')" by fastforce
  ultimately have "within Q w w'" by (rule keepsD)
  moreover have "Q (sw_db w) (sw_db w)" using assms(1) by (rule reflpD)
  ultimately show "within Q w (snd (pg_transaction E m w))"
    unfolding pg_transaction_def s by (auto simp: within_def split: sum.splits stmt_outcome.splits)
qed

lemma keeps_config_transaction [keeps_rules]:
  "reflp Q \<Longrightarrow> transp Q \<Longrightarrow> keeps (within Q) m \<Longrightarrow> keeps (within Q) (config_transaction E m)"
  unfolding config_transaction_def
  by (cases "se_backend E") (auto intro!: keeps_rules dest: reflpD)

section \<open>The turn records\<close>

text \<open>No operation removes a turn record or changes the hash of the request it was made for.\<close>

definition turns_kept :: "gateway_db \<Rightarrow> gateway_db \<Rightarrow> bool" where
  "turns_kept db db' \<longleftrightarrow> (\<forall>k r. gd_turns db k = Some r \<longrightarrow>
     (\<exists>r'. gd_turns db' k = Some r' \<and> tu_request_hash r' = tu_request_hash r))"

definition turns_same :: "gateway_db \<Rightarrow> gateway_db \<Rightarrow> bool" where
  "turns_same db db' \<longleftrightarrow> gd_turns db' = gd_turns db"

lemma turns_order [simp]:
  "reflp turns_kept" "transp turns_kept" "reflp turns_same" "transp turns_same"
  by (auto simp: turns_kept_def turns_same_def reflp_def transp_def) metis

lemma turns_same_kept: "turns_same a b \<Longrightarrow> turns_kept a b"
  by (auto simp: turns_kept_def turns_same_def)

lemma turns_kept_present: "turns_kept a b \<Longrightarrow> gd_turns a k \<noteq> None \<Longrightarrow> gd_turns b k \<noteq> None"
  by (auto simp: turns_kept_def)

lemma insert_turn_kept: "insert_turn k h db = Some (x, db') \<Longrightarrow> turns_kept db db'"
  by (auto simp: insert_turn_def turns_kept_def split: option.splits)

lemma update_turn_kept:
  "(\<And>r. tu_request_hash (f r) = tu_request_hash r) \<Longrightarrow> update_turn k p f db = Some (x, db') \<Longrightarrow>
   turns_kept db db'"
  by (auto simp: update_turn_def turns_kept_def split: option.splits if_splits)

lemma completed_row_hash [simp]: "tu_request_hash (completed_row c now r) = tu_request_hash r"
  by (simp add: completed_row_def)

lemma failed_row_hash [simp]: "tu_request_hash (failed_row t s r) = tu_request_hash r"
  by (simp add: failed_row_def)

lemma insert_audit_same [simp]: "turns_same db (insert_audit a b c db)"
  by (simp add: turns_same_def insert_audit_def)

lemma insert_snapshot_same [simp]: "turns_same db (insert_snapshot row db)"
  by (simp add: turns_same_def insert_snapshot_def)

lemma keeps_stored_turn_of: "keeps (within turns_kept) (stored_turn_of E k h r)"
proof -
  have e: "keeps (within turns_kept) (pbind (sql E (update_turn k (\<lambda>r. tu_state r = ''completed'')
      (\<lambda>r. r\<lparr>tu_state := ''expired'', tu_response_json := None\<rparr>))) (\<lambda>_. pret St_Expired))"
    by (intro keeps_rules) (auto elim: update_turn_kept [rotated])
  have c: "keeps (within turns_kept) (case tu_response_json r of
      None \<Rightarrow> praise (Store_message m) | Some response \<Rightarrow> pret (St_Completed response))" for m
    by (intro keeps_rules) simp_all
  show ?thesis
    unfolding stored_turn_of_def Let_def
    by (intro keeps_cases keeps_pure keeps_pbind keeps_utc_now e c) simp_all
qed

lemma keeps_reserve_turn: "keeps (within turns_kept) (reserve_turn E k h)"
  unfolding reserve_turn_def
  by (intro keeps_rules keeps_stored_turn_of) (auto intro: insert_turn_kept)

lemma keeps_audit_event: "keeps (within turns_same) (audit_event E a b c)"
  unfolding audit_event_def by (intro keeps_rules) simp_all

lemma keeps_record_completion: "keeps (within turns_same) (record_completion E response run_id turn rn)"
  unfolding record_completion_def Let_def
  by (intro keeps_rules keeps_audit_event) simp_all

lemmas turns_kept_of_same = keeps_within_mono [OF _ turns_same_kept]

lemma keeps_complete_turn: "keeps (within turns_kept) (complete_turn E k c response run_id turn)"
proof -
  have u: "keeps (within turns_kept) (sql E (update_turn k p (completed_row c now)))" for p now
    by (intro keeps_rules) (auto elim: update_turn_kept [rotated])
  note parts = u turns_kept_of_same [OF keeps_record_completion] keeps_rules
  show ?thesis
    unfolding complete_turn_def sqlite_complete_turn_def pg_complete_turn_def
    by (cases "se_backend E"; simp only: persistent_store.case; intro parts; simp)
qed

lemma keeps_fail_turn: "keeps (within turns_kept) (fail_turn E k s e)"
  unfolding fail_turn_def sqlite_fail_turn_def pg_fail_turn_def
  by (cases "se_backend E"; simp only: persistent_store.case; intro keeps_rules; auto elim: update_turn_kept [rotated])

text \<open>The first reservation of a key, when its statement works.\<close>

lemma reserve_turn_fresh:
  assumes "gd_turns (sw_db w) k = None" "se_stmt E (sw_stmts w) = Stmt_done"
  shows "\<exists>w'. reserve_turn E k h w = (Inr St_Reserved, w')"
proof -
  have "\<exists>w'. sql E (insert_turn k h) w = (Inr 1, w')"
    using assms by (simp add: sql_def Let_def insert_turn_def)
  then show ?thesis by (auto simp: reserve_turn_def)
qed

section \<open>The limits\<close>

definition only_health :: "gateway_db \<Rightarrow> gateway_db \<Rightarrow> bool" where
  "only_health db db' \<longleftrightarrow> db'\<lparr>gd_health := gd_health db\<rparr> = db"

definition only_quota :: "gateway_db \<Rightarrow> gateway_db \<Rightarrow> bool" where
  "only_quota db db' \<longleftrightarrow> db'\<lparr>gd_quota := gd_quota db\<rparr> = db"

definition only_leases :: "gateway_db \<Rightarrow> gateway_db \<Rightarrow> bool" where
  "only_leases db db' \<longleftrightarrow> db'\<lparr>gd_leases := gd_leases db\<rparr> = db"

definition only_audit :: "gateway_db \<Rightarrow> gateway_db \<Rightarrow> bool" where
  "only_audit db db' \<longleftrightarrow> db'\<lparr>gd_audit := gd_audit db, gd_audit_seq := gd_audit_seq db\<rparr> = db"

lemma gateway_db_eq_iff:
  "(a :: gateway_db) = b \<longleftrightarrow> gd_turns a = gd_turns b \<and> gd_snapshots a = gd_snapshots b
     \<and> gd_resources a = gd_resources b \<and> gd_policies a = gd_policies b \<and> gd_audit a = gd_audit b
     \<and> gd_audit_seq a = gd_audit_seq b \<and> gd_admin a = gd_admin b \<and> gd_health a = gd_health b
     \<and> gd_quota a = gd_quota b \<and> gd_leases a = gd_leases b \<and> gd_secrets a = gd_secrets b
     \<and> gd_connections a = gd_connections b \<and> gd_configuration_version a = gd_configuration_version b"
  by (cases a; cases b; auto)

lemmas only_defs = only_health_def only_quota_def only_leases_def only_audit_def

lemma only_order [simp]:
  "reflp only_health" "transp only_health" "reflp only_quota" "transp only_quota"
  "reflp only_leases" "transp only_leases" "reflp only_audit" "transp only_audit"
  by (simp_all add: reflp_def transp_def only_defs gateway_db_eq_iff)

lemma keeps_circuit_allows: "keeps (within only_health) (circuit_allows E rid rv now)"
  unfolding circuit_allows_def sqlite_circuit_allows_def pg_circuit_allows_def
  by (cases "se_backend E"; simp only: persistent_store.case; intro keeps_rules;
      auto simp: only_defs gateway_db_eq_iff half_open_health_def set_health_def insert_default_health_def
        health_row_of_def split: option.splits)

lemma keeps_record_success: "keeps (within only_health) (record_success E rid rv)"
  unfolding record_success_def
  by (intro keeps_rules) (auto simp: only_defs gateway_db_eq_iff set_health_def)

lemma keeps_record_failure: "keeps (within only_health) (record_circuit_failure E rid rv now)"
  unfolding record_circuit_failure_def sqlite_record_failure_def pg_record_failure_def Let_def
  by (cases "se_backend E"; simp only: persistent_store.case; intro keeps_rules;
      auto simp: only_defs gateway_db_eq_iff set_health_def insert_default_health_def
        health_row_of_def split: option.splits)

lemma keeps_reserve_tokens:
  "keeps (within only_quota) (reserve_project_daily_input_tokens E period ws project requested limit)"
  unfolding reserve_project_daily_input_tokens_def
  by (intro keeps_rules)
    (auto simp: only_defs gateway_db_eq_iff reserve_tokens_def split: if_splits option.splits)

lemma keeps_settle_usage:
  "keeps (within only_quota) (settle_project_daily_usage E period ws project reserved actual)"
  unfolding settle_project_daily_usage_def
  by (intro keeps_rules)
    (auto simp: only_defs gateway_db_eq_iff settle_tokens_def split: if_splits option.splits)

lemma keeps_acquire_lease:
  "keeps (within only_leases) (acquire_project_concurrency_lease E scope lease limit expires)"
proof -
  have "keeps (within only_leases) (acquire_lease_statements E scope lease limit expires)"
    unfolding acquire_lease_statements_def
    by (cases "se_backend E"; simp only: persistent_store.case; intro keeps_rules;
        auto simp: only_defs gateway_db_eq_iff delete_expired_leases_def insert_lease_or_ignore_def
          upsert_lease_def)
  then show ?thesis
    unfolding acquire_project_concurrency_lease_def
    by (cases "se_backend E"; simp only: persistent_store.case; intro keeps_rules; simp add: only_defs gateway_db_eq_iff)
qed

lemma keeps_release_lease: "keeps (within only_leases) (release_project_concurrency_lease E lease)"
  unfolding release_project_concurrency_lease_def
  by (intro keeps_rules) (auto simp: only_defs gateway_db_eq_iff delete_lease_def)

lemma keeps_audit_only: "keeps (within only_audit) (audit_event E a b c)"
  unfolding audit_event_def
  by (intro keeps_rules) (auto simp: only_defs gateway_db_eq_iff insert_audit_def)

lemma only_turns_same:
  "only_health a b \<Longrightarrow> turns_same a b" "only_quota a b \<Longrightarrow> turns_same a b"
  "only_leases a b \<Longrightarrow> turns_same a b" "only_audit a b \<Longrightarrow> turns_same a b"
  by (simp_all add: only_defs turns_same_def gateway_db_eq_iff)

end
