(* ===== verification/GatewayCalls.thy ===== *)
theory GatewayCalls
  imports GatewayFrames
begin

text \<open>
  What the calls of a turn do to the database, stated once for every relation on databases that the
  operations they use keep (locales \<open>turn_calls\<close> and \<open>turn_work\<close>), and interpreted on the turn records
  and on the tables of the quota.
\<close>

definition on_db :: "(gateway_db \<Rightarrow> gateway_db \<Rightarrow> bool) \<Rightarrow> gateway_world \<Rightarrow> gateway_world \<Rightarrow> bool" where
  "on_db Q w w' \<longleftrightarrow> Q (sw_db w) (sw_db w')"

text \<open>What the others do while a turn awaits keeps the relation too.\<close>

definition others_within :: "(gateway_db \<Rightarrow> gateway_db \<Rightarrow> bool) \<Rightarrow> turn_env \<Rightarrow> bool" where
  "others_within Q E \<longleftrightarrow> (\<forall>n db mem. Q db (fst (te_others E n (db, mem))))"

lemma keeps_on_db: "keeps (within Q) m \<Longrightarrow> keeps (on_db Q) m"
  by (auto simp: keeps_def on_db_def within_def)

lemma keeps_on_db_mono: "keeps (within P) m \<Longrightarrow> (\<And>a b. P a b \<Longrightarrow> Q a b) \<Longrightarrow> keeps (on_db Q) m"
  by (auto simp: keeps_def on_db_def within_def)

lemma keeps_ptraverse [keeps_rules]:
  "reflp R \<Longrightarrow> transp R \<Longrightarrow> (\<And>x. keeps R (f x)) \<Longrightarrow> keeps R (ptraverse f xs)"
  by (induction xs) (auto intro!: keeps_rules)

lemma keeps_prod [keeps_rules]:
  "(\<And>a b. x = (a, b) \<Longrightarrow> keeps R (f a b)) \<Longrightarrow> keeps R (case x of (a, b) \<Rightarrow> f a b)"
  by (simp split: prod.split)

lemma keeps_stored [keeps_rules]: "keeps R m \<Longrightarrow> keeps R (stored r m)"
  unfolding stored_def by (rule keeps_pmap_err)

section \<open>Calls of a provider\<close>

locale turn_calls =
  fixes Q :: "gateway_db \<Rightarrow> gateway_db \<Rightarrow> bool"
  assumes reflQ: "reflp Q"
    and transQ: "transp Q"
    and audit_Q: "only_audit a b \<Longrightarrow> Q a b"
    and health_Q: "only_health a b \<Longrightarrow> Q a b"
begin

lemma order: "reflp (on_db Q)" "transp (on_db Q)"
  using reflpD [OF reflQ] transpD [OF transQ] by (auto simp: reflp_def transp_def on_db_def)

lemma order_simps [simp]: "reflp (on_db Q)" "transp (on_db Q)" "reflp Q" "transp Q"
  by (simp_all add: order reflQ transQ)

lemma audit_calls: "keeps (within only_audit) m \<Longrightarrow> keeps (on_db Q) m"
  by (rule keeps_on_db_mono [OF _ audit_Q])

lemma health_calls: "keeps (within only_health) m \<Longrightarrow> keeps (on_db Q) m"
  by (rule keeps_on_db_mono [OF _ health_Q])

lemma keeps_same_db: "(\<And>w. sw_db (snd (m w)) = sw_db w) \<Longrightarrow> keeps (on_db Q) m"
  using reflpD [OF reflQ] by (auto simp: keeps_def on_db_def)

lemma await_within: "others_within Q E \<Longrightarrow> on_db Q w (await_others E w)"
  by (auto simp: others_within_def on_db_def await_others_def Let_def case_prod_beta)

lemma keeps_await [keeps_rules]:
  "others_within Q E \<Longrightarrow> keeps (on_db Q) (sleep_ms E d x)"
  "others_within Q E \<Longrightarrow> keeps (on_db Q) (http_exchange E q)"
  "others_within Q E \<Longrightarrow> keeps (on_db Q) (pmodify (await_others E))"
  using await_within [of E] by (auto simp: keeps_def sleep_ms_def http_exchange_def on_db_def)

lemma keeps_utc [keeps_rules]: "keeps (on_db Q) (utc_now E)"
  by (rule keeps_same_db) (simp add: utc_now_def)

lemma keeps_deadline [keeps_rules]:
  "keeps (on_db Q) (remaining_turn_deadline E r)" "keeps (on_db Q) (provider_call_timeout E x r)"
  unfolding remaining_turn_deadline_def provider_call_timeout_def
  by (intro keeps_rules; simp)+

lemma keeps_fetch [keeps_rules]: "keeps (on_db Q) (fetch_artifact E u)"
  by (rule keeps_same_db) (simp add: fetch_artifact_def)

lemma keeps_artifacts [keeps_rules]: "keeps (on_db Q) (resolve_visual_artifacts E x r)"
proof -
  have b: "keeps (on_db Q) (resolve_block E x r u block)" for u block
    unfolding resolve_block_def
    by (intro keeps_rules; (simp split: artifact_outcome.split)?)
       (auto intro!: keeps_rules split: artifact_outcome.split)
  have m: "keeps (on_db Q) (resolve_message E x r u message)" for u message
    unfolding resolve_message_def by (intro keeps_rules b) simp_all
  show ?thesis
    unfolding resolve_visual_artifacts_def Let_def
    by (intro keeps_rules m; simp split: sum.split option.split; intro conjI allI impI keeps_rules m; simp)
qed

lemma keeps_secret [keeps_rules]: "keeps (on_db Q) (resolve_secret_ref E u)"
proof -
  have "keeps (on_db Q) (encrypted_secret E n)" for n
    unfolding encrypted_secret_def by (rule keeps_on_db [of Q]) (intro keeps_rules reflQ)
  then show ?thesis
    unfolding resolve_secret_ref_def by (intro keeps_rules; simp)
qed

lemma keeps_dns [keeps_rules]: "keeps (on_db Q) (validate_resource_endpoint_dns E u)"
  unfolding validate_resource_endpoint_dns_def
  by (intro keeps_rules order) (rule keeps_same_db, simp)

lemma keeps_once [keeps_rules]: "others_within Q E \<Longrightarrow> keeps (on_db Q) (call_openai_compatible_once E x r a)"
  unfolding call_openai_compatible_once_def by (intro keeps_rules; simp)

lemma keeps_provider_error [keeps_rules]: "keeps (on_db Q) (record_provider_error E x r n e)"
  unfolding record_provider_error_def
  by (intro keeps_rules audit_calls keeps_audit_only; simp)

lemma keeps_retry_loop [keeps_rules]: "others_within Q E \<Longrightarrow> keeps (on_db Q) (retry_loop E x r a n left)"
proof (induction E x r a n left rule: retry_loop.induct)
  case (1 E x r a n left)
  show ?case
    apply (subst retry_loop.simps)
    apply (intro keeps_rules; (simp add: 1)?)
    apply (simp split: bool.split nat.split add: Let_def)
    apply (intro conjI impI allI keeps_rules; (simp add: 1)?)
    done
qed

lemma keeps_call [keeps_rules]: "others_within Q E \<Longrightarrow> keeps (on_db Q) (call_with_permit E x r)"
proof -
  assume o: "others_within Q E"
  have b: "keeps (on_db Q) (acquire_resource_bulkhead E x r)"
    by (rule keeps_same_db) (simp add: acquire_resource_bulkhead_def Let_def)
  have "keeps (on_db Q) (call_openai_compatible E x r)"
    unfolding call_openai_compatible_def using o by (intro keeps_rules; simp)
  then have "keeps (on_db Q) (call_resource E x r)"
    unfolding call_resource_def by (cases "mr_kind x") (auto intro: keeps_rules)
  with b show ?thesis unfolding call_with_permit_def by (intro keeps_rules; simp)
qed

lemma keeps_health_calls [keeps_rules]:
  "keeps (on_db Q) (resource_circuit_allows E x r)" "keeps (on_db Q) (record_resource_success E x r)"
  "keeps (on_db Q) (record_resource_retryable_failure E x r)"
  unfolding resource_circuit_allows_def record_resource_success_def record_resource_retryable_failure_def
  by (intro keeps_rules health_calls keeps_circuit_allows keeps_record_success keeps_record_failure;
      simp)+

lemma keeps_allowed_by_circuit [keeps_rules]: "keeps (on_db Q) (allowed_by_circuit E r xs)"
  by (induction xs; simp only: allowed_by_circuit.simps; intro keeps_rules order)

end

section \<open>New turns\<close>

locale turn_work = turn_calls +
  assumes quota_Q: "only_quota a b \<Longrightarrow> Q a b"
    and leases_Q: "only_leases a b \<Longrightarrow> Q a b"
begin

lemma quota_calls: "keeps (within only_quota) m \<Longrightarrow> keeps (on_db Q) m"
  by (rule keeps_on_db_mono [OF _ quota_Q])

lemma lease_calls: "keeps (within only_leases) m \<Longrightarrow> keeps (on_db Q) m"
  by (rule keeps_on_db_mono [OF _ leases_Q])

lemma keeps_release [keeps_rules]:
  "keeps (on_db Q) (release_policy_quota_reservation E p ws pr n r)"
  "keeps (on_db Q) (release_concurrency_lease E l r)"
  "keeps (on_db Q) (release_policy_quota E l r)" "keeps (on_db Q) (settle_policy_quota E l u r)"
  unfolding release_policy_quota_def settle_policy_quota_def release_policy_quota_reservation_def
    release_concurrency_lease_def
  by (intro keeps_rules quota_calls [OF keeps_settle_usage]
      lease_calls [OF keeps_release_lease]; simp)+

lemma keeps_quota [keeps_rules]: "keeps (on_db Q) (acquire_policy_quota E policy r)"
proof -
  have t: "keeps (on_db Q) (reserve_input_tokens E policy r period)" for period
    unfolding reserve_input_tokens_def Let_def
    by (intro keeps_rules quota_calls [OF keeps_reserve_tokens]; simp)
  have x: "keeps (on_db Q) (lease_expiry E r)"
    unfolding lease_expiry_def by (intro keeps_rules; simp)
  show ?thesis
    unfolding acquire_policy_quota_def Let_def
    by (intro keeps_rules t x lease_calls [OF keeps_acquire_lease]; simp)
qed

lemma keeps_try_candidates [keeps_rules]:
  "others_within Q E \<Longrightarrow> keeps (on_db Q) (try_candidates E r policy reason lease n p e xs)"
proof (induction xs arbitrary: n p e)
  case Nil
  then show ?case by (simp only: try_candidates.simps, intro keeps_rules order)
next
  case (Cons x xs)
  then show ?case by (simp only: try_candidates.simps, intro keeps_rules order)
qed

lemma keeps_execute_new_turn [keeps_rules]: "others_within Q E \<Longrightarrow> keeps (on_db Q) (execute_new_turn E r)"
  unfolding execute_new_turn_def Let_def
  by (intro keeps_rules order)

end

section \<open>The tables they keep\<close>

definition limits_same :: "gateway_db \<Rightarrow> gateway_db \<Rightarrow> bool" where
  "limits_same db db' \<longleftrightarrow> gd_quota db' = gd_quota db \<and> gd_leases db' = gd_leases db"

interpretation kept: turn_work turns_kept
  by unfold_locales (auto intro: turns_same_kept only_turns_same)

interpretation limits: turn_calls limits_same
  by unfold_locales
    (auto simp: limits_same_def only_defs gateway_db_eq_iff reflp_def transp_def)

end
