(* ===== verification/GatewayTurnProps.thy ===== *)
theory GatewayTurnProps
  imports GatewayCalls "HOL-Library.Multiset"
begin

text \<open>
  A turn runs at most once. The database's turn records are a ledger of claims (locale \<open>claim_ledger\<close>):
  a claim is won only for a key that has no record, and no operation removes one. The system below
  interleaves the turns of any number of gateways with crashes and with whatever else writes the
  database.
\<close>

section \<open>Ledgers of claims\<close>

inductive ledger_run :: "('s \<Rightarrow> 'k \<Rightarrow> 's \<Rightarrow> bool) \<Rightarrow> ('s \<Rightarrow> 's \<Rightarrow> bool) \<Rightarrow> 's \<Rightarrow> 'k list \<Rightarrow> 's \<Rightarrow> bool"
  for claim step where
  ledger_start: "ledger_run claim step s [] s"
| ledger_claim: "ledger_run claim step s ks t \<Longrightarrow> claim t k u \<Longrightarrow> ledger_run claim step s (k # ks) u"
| ledger_step: "ledger_run claim step s ks t \<Longrightarrow> step t u \<Longrightarrow> ledger_run claim step s ks u"

locale claim_ledger =
  fixes held :: "'s \<Rightarrow> 'k \<Rightarrow> bool"
    and claim :: "'s \<Rightarrow> 'k \<Rightarrow> 's \<Rightarrow> bool"
    and step :: "'s \<Rightarrow> 's \<Rightarrow> bool"
  assumes claim_fresh: "claim s k s' \<Longrightarrow> \<not> held s k"
    and claim_held: "claim s k s' \<Longrightarrow> held s' k"
    and claim_keeps: "claim s k s' \<Longrightarrow> held s j \<Longrightarrow> held s' j"
    and step_keeps: "step s s' \<Longrightarrow> held s j \<Longrightarrow> held s' j"
begin

lemma run_keeps: "ledger_run claim step s ks t \<Longrightarrow> held s j \<Longrightarrow> held t j"
  by (induction rule: ledger_run.induct) (auto intro: claim_keeps step_keeps)

lemma run_held: "ledger_run claim step s ks t \<Longrightarrow> k \<in> set ks \<Longrightarrow> held t k"
  by (induction rule: ledger_run.induct) (auto intro: claim_held claim_keeps step_keeps)

lemma run_distinct: "ledger_run claim step s ks t \<Longrightarrow> distinct ks"
  by (induction rule: ledger_run.induct) (auto dest: claim_fresh run_held)

lemma run_not_held: "ledger_run claim step s ks t \<Longrightarrow> k \<in> set ks \<Longrightarrow> \<not> held s k"
  by (induction rule: ledger_run.induct) (auto dest: claim_fresh run_keeps)

end

section \<open>The turn records are one\<close>

definition turn_held :: "gateway_db \<Rightarrow> string \<Rightarrow> bool" where
  "turn_held db k \<longleftrightarrow> gd_turns db k \<noteq> None"

definition turn_claimed :: "gateway_db \<Rightarrow> string \<Rightarrow> gateway_db \<Rightarrow> bool" where
  "turn_claimed db k db' \<longleftrightarrow> (\<exists>(E :: turn_env) h (w :: gateway_world) w'.
     sw_db w = db \<and> reserve_turn E k h w = (Inr St_Reserved, w') \<and> sw_db w' = db')"

lemma reserve_turn_reserved:
  assumes "reserve_turn E k h w = (Inr St_Reserved, w')"
  shows "gd_turns (sw_db w) k = None" "gd_turns (sw_db w') k \<noteq> None"
proof -
  have nr: "stored_turn_of E k h r v \<noteq> (Inr St_Reserved, v')" for r v v'
    unfolding stored_turn_of_def Let_def
    by (auto simp: pbind_def utc_now_def sql_def Let_def update_turn_def
        split: option.splits sum.splits prod.splits stmt_outcome.splits if_splits)
  from assms obtain n w1 where s: "sql E (insert_turn k h) w = (Inr n, w1)"
    and rest: "(if n = 1 then pret St_Reserved
      else pbind (sql_query E (\<lambda>db. gd_turns db k)) (\<lambda>row. case row of
        None \<Rightarrow> praise (Store_message ''idempotency record disappeared during reservation'')
      | Some r \<Rightarrow> stored_turn_of E k h r)) w1 = (Inr St_Reserved, w')"
    unfolding reserve_turn_def by (auto elim!: pbind_cases)
  have "n = 1"
  proof (rule ccontr)
    assume "n \<noteq> 1"
    with rest show False
      by (auto elim!: pbind_cases split: option.splits simp: nr)
  qed
  with rest have w': "w' = w1" by simp
  from s show "gd_turns (sw_db w) k = None"
    by (cases rule: sql_cases) (use \<open>n = 1\<close> in \<open>auto simp: insert_turn_def split: option.splits\<close>)
  from s w' show "gd_turns (sw_db w') k \<noteq> None"
    by (cases rule: sql_cases) (use \<open>n = 1\<close> in \<open>auto simp: insert_turn_def split: option.splits\<close>)
qed

interpretation turn_ledger: claim_ledger turn_held turn_claimed turns_kept
proof unfold_locales
  fix s k s' j
  show "turn_claimed s k s' \<Longrightarrow> \<not> turn_held s k" "turn_claimed s k s' \<Longrightarrow> turn_held s' k"
    by (auto simp: turn_claimed_def turn_held_def dest: reserve_turn_reserved)
  show "turns_kept s s' \<Longrightarrow> turn_held s j \<Longrightarrow> turn_held s' j"
    by (auto simp: turn_held_def dest: turns_kept_present)
  assume "turn_claimed s k s'" "turn_held s j"
  then show "turn_held s' j"
    by (auto simp: turn_claimed_def turn_held_def dest!: keepsD [OF keeps_reserve_turn]
        dest: within_db turns_kept_present)
qed

section \<open>Turns keep the ledger\<close>

abbreviation others_keep :: "turn_env \<Rightarrow> bool" where
  "others_keep \<equiv> others_within turns_kept"

abbreviation turn_kept :: "gateway_world \<Rightarrow> gateway_world \<Rightarrow> bool" where
  "turn_kept \<equiv> on_db turns_kept"

lemmas turn_kept_def = on_db_def [of turns_kept]

lemma turn_kept_order [simp]: "reflp turn_kept" "transp turn_kept"
  by (rule kept.order)+

lemma turn_kept_memory [simp]: "turn_kept w (w\<lparr>gw_memory := m\<rparr>)"
  using reflpD [OF turns_order(1)] by (simp add: turn_kept_def)

lemma keeps_finish_turn [keeps_rules]: "keeps turn_kept (finish_turn E r res)"
proof -
  have e: "keeps turn_kept (encrypt_turn_response E x)" for x
    by (rule kept.keeps_same_db) (simp add: encrypt_turn_response_def)
  have "keeps turn_kept (persist_turn E r res)"
    unfolding persist_turn_def
    by (intro keeps_rules e keeps_on_db keeps_complete_turn keeps_fail_turn; simp)
  then show ?thesis
    unfolding finish_turn_def Let_def by (intro keeps_rules turn_kept_order turn_kept_memory)
qed

lemma keeps_run_turn: "others_keep E \<Longrightarrow> keeps turn_kept (run_turn E r)"
  unfolding run_turn_def by (intro keeps_rules kept.keeps_execute_new_turn keeps_finish_turn turn_kept_order)

lemma keeps_begin_turn: "keeps (within turns_kept) (begin_turn E r)"
proof -
  have v: "keeps (within turns_kept) (validate_turn_request E r)"
    unfolding validate_turn_request_def by (intro keeps_rules; simp)
  show ?thesis
    unfolding begin_turn_def
    by (intro keeps_rules v keeps_stored keeps_reserve_turn; (simp split: stored_turn.split)?)
       (auto intro!: keeps_rules split: stored_turn.split)
qed

section \<open>A turn that was reserved before sends nothing\<close>

definition same_log :: "gateway_world \<Rightarrow> gateway_world \<Rightarrow> bool" where
  "same_log w w' \<longleftrightarrow> gw_http_log w' = gw_http_log w"

lemma same_log_order [simp]: "reflp same_log" "transp same_log"
  by (auto simp: same_log_def reflp_def transp_def)

lemma within_same_log: "keeps (within Q) m \<Longrightarrow> keeps same_log m"
  by (auto simp: keeps_def same_log_def dest: within_rest)

lemma await_same_log [simp]: "same_log w (await_others E w)"
  by (simp add: same_log_def await_others_def Let_def case_prod_beta)

lemma sleep_same_log: "keeps same_log (sleep_ms E d x)"
  using await_same_log [of _ E] by (simp add: keeps_def sleep_ms_def same_log_def)

lemma deadline_same_log: "keeps same_log (remaining_turn_deadline E r)"
  unfolding remaining_turn_deadline_def
  by (intro keeps_rules within_same_log [OF keeps_utc_now [OF turns_order(1)]] same_log_order)

lemma keeps_stored_turn:
  "(\<And>e. keeps R (a e)) \<Longrightarrow> keeps R b \<Longrightarrow> keeps R c \<Longrightarrow> (\<And>s e. keeps R (d s e)) \<Longrightarrow> keeps R f \<Longrightarrow> keeps R g \<Longrightarrow>
   keeps R (case answer of St_Completed e \<Rightarrow> a e | St_Expired \<Rightarrow> b | St_InProgress \<Rightarrow> c | St_Failed s e \<Rightarrow> d s e
     | St_Conflict \<Rightarrow> f | St_Reserved \<Rightarrow> g)"
  by (simp split: stored_turn.split)

lemma wait_same_log: "keeps same_log (wait_for_durable_turn fuel E r)"
proof (induction fuel)
  case 0
  show ?case by (simp only: wait_for_durable_turn.simps, intro keeps_rules same_log_order)
next
  case (Suc fuel)
  note parts = Suc deadline_same_log sleep_same_log within_same_log [OF keeps_reserve_turn]
    keeps_stored_turn keeps_rules same_log_order
  show ?case by (simp only: wait_for_durable_turn.simps, intro parts)
qed

lemma wait_kept: "others_keep E \<Longrightarrow> keeps turn_kept (wait_for_durable_turn fuel E r)"
proof (induction fuel)
  case 0
  show ?case by (simp only: wait_for_durable_turn.simps, intro keeps_rules turn_kept_order)
next
  case (Suc fuel)
  then have f: "keeps turn_kept (wait_for_durable_turn fuel E r)" by simp
  note parts = f kept.keeps_deadline kept.keeps_await keeps_on_db [OF keeps_reserve_turn] keeps_stored_turn keeps_rules turn_kept_order Suc(2)
  show ?case by (simp only: wait_for_durable_turn.simps, intro parts)
qed

lemma local_wait_same_log: "gw_http_log (snd (wait_for_local_turn fuel E r w)) = gw_http_log w"
proof (induction fuel arbitrary: w)
  case (Suc fuel)
  then show ?case
    using await_same_log [of w E]
    by (subst wait_for_local_turn.simps) (simp add: same_log_def)
qed (subst wait_for_local_turn.simps, simp)

lemma local_wait_kept: "others_keep E \<Longrightarrow> turn_kept w (snd (wait_for_local_turn fuel E r w))"
proof (induction fuel arbitrary: w)
  case (Suc fuel)
  then show ?case
    using kept.await_within [of E w] transpD [OF turn_kept_order(2)] reflpD [OF turn_kept_order(1)]
    by (subst wait_for_local_turn.simps) auto
qed (subst wait_for_local_turn.simps, simp add: reflpD [OF turn_kept_order(1)])

lemma begin_turn_claims:
  assumes "begin_turn E r w = (Inr Turn_Reserved, w')"
  shows "\<exists>w1. sw_db w1 = sw_db w
    \<and> reserve_turn E (turn_key r) (idempotency_request_hash E r) w1 = (Inr St_Reserved, w')"
proof -
  from assms obtain w1 where v: "validate_turn_request E r w = (Inr (), w1)"
    and rest: "pbind (stored r (reserve_turn E (turn_key r) (idempotency_request_hash E r))) (\<lambda>answer.
      case answer of
        St_Reserved \<Rightarrow> pret Turn_Reserved
      | St_Completed encrypted \<Rightarrow>
          pbind (plift (decrypt_turn_response E (gr_request_id r) encrypted)) (\<lambda>x. pret (Turn_Replay x))
      | St_Expired \<Rightarrow> praise (idempotency_expired r)
      | St_Failed status e \<Rightarrow> praise (stored_failure status e)
      | St_Conflict \<Rightarrow> praise (idempotency_conflict r)
      | St_InProgress \<Rightarrow>
          pasks (\<lambda>w. if gw_memory w (turn_key r) = Some (Mem_InProgress (idempotency_request_hash E r))
                    then Turn_Wait_Local else Turn_Wait_Durable)) w1 = (Inr Turn_Reserved, w')"
    unfolding begin_turn_def by (auto elim!: pbind_cases)
  have db: "sw_db w1 = sw_db w"
    using v unfolding validate_turn_request_def
    by (auto simp: utc_now_def pbind_def split: if_splits option.splits)
  from rest obtain answer w2 where
      s: "stored r (reserve_turn E (turn_key r) (idempotency_request_hash E r)) w1 = (Inr answer, w2)"
    and a: "answer = St_Reserved" "w' = w2"
    by (auto elim!: pbind_cases split: stored_turn.splits if_splits)
  from s have "reserve_turn E (turn_key r) (idempotency_request_hash E r) w1 = (Inr St_Reserved, w')"
    unfolding stored_def pmap_err_def by (auto simp: a split: prod.splits)
  with db show ?thesis by blast
qed

lemma begin_turn_reserved:
  assumes "begin_turn E r w = (Inr Turn_Reserved, w')"
  shows "gd_turns (sw_db w) (turn_key r) = None" "gd_turns (sw_db w') (turn_key r) \<noteq> None"
  using begin_turn_claims [OF assms] by (auto dest: reserve_turn_reserved)

lemma execute_turn_present:
  assumes "others_keep E"
  shows "turn_held (sw_db w) (turn_key r) \<Longrightarrow>
    gw_http_log (snd (execute_turn fuel E r w)) = gw_http_log w"
proof (induction fuel arbitrary: w)
  case (0 w)
  obtain a w' where b: "begin_turn E r w = (a, w')" by fastforce
  then have log: "gw_http_log w' = gw_http_log w" by (auto dest: keepsD [OF keeps_begin_turn] within_rest)
  have "a \<noteq> Inr Turn_Reserved" using 0 b begin_turn_reserved by (auto simp: turn_held_def)
  with b log show ?case
    by (subst execute_turn.simps) (auto simp: pbind_def split: sum.splits turn_start.splits)
next
  case (Suc fuel w)
  obtain a w' where b: "begin_turn E r w = (a, w')" by fastforce
  then have log: "gw_http_log w' = gw_http_log w" and k: "turns_kept (sw_db w) (sw_db w')"
    by (auto dest: keepsD [OF keeps_begin_turn] within_rest within_db)
  have nr: "a \<noteq> Inr Turn_Reserved" using Suc(2) b begin_turn_reserved by (auto simp: turn_held_def)
  obtain c w2 where l: "wait_for_local_turn fuel E r w' = (c, w2)" by fastforce
  then have "turn_kept w' w2" "gw_http_log w2 = gw_http_log w'"
    using local_wait_kept [OF assms, of w' fuel r] local_wait_same_log [of fuel E r w'] by simp_all
  moreover from this(1) k have "turn_held (sw_db w2) (turn_key r)"
    using Suc(2) turns_kept_present [OF k] turns_kept_present
    unfolding turn_held_def turn_kept_def by blast
  ultimately have "gw_http_log (snd (pbind (wait_for_local_turn fuel E r)
      (\<lambda>completed. if completed then execute_turn fuel E r else pret None) w')) = gw_http_log w'"
    using Suc(1) [of w2] l by (cases c) auto
  moreover have "gw_http_log (snd (wait_for_durable_turn (Suc fuel) E r w')) = gw_http_log w'"
    using wait_same_log by (simp add: keeps_def same_log_def del: wait_for_durable_turn.simps)
  ultimately show ?case
    using b log nr
    by (subst execute_turn.simps)
       (auto simp: pbind_def pmodify_def split: sum.splits turn_start.splits simp del: wait_for_durable_turn.simps)
qed

section \<open>Gateways that share a database\<close>

text \<open>
  The turns whose reservation was won and that did not run yet, and those that ran. A step is the start
  of a turn, the run of a started one (which may also never happen: a crash), a poll of a waiting one,
  or anything else that keeps the turn records. Every call may meet failing statements.
\<close>

record turn_system =
  sy_db :: gateway_db
  sy_running :: "string list"
  sy_ran :: "string list"

inductive turn_step :: "turn_system \<Rightarrow> turn_system \<Rightarrow> bool" where
  step_begin: "sw_db w = sy_db s \<Longrightarrow> begin_turn E r w = (a, w') \<Longrightarrow>
     turn_step s (s\<lparr>sy_db := sw_db w', sy_running :=
       (if a = Inr Turn_Reserved then [turn_key r] else []) @ sy_running s\<rparr>)"
| step_run: "turn_key r \<in> set (sy_running s) \<Longrightarrow> sw_db w = sy_db s \<Longrightarrow> others_keep E \<Longrightarrow>
     run_turn E r w = (a, w') \<Longrightarrow>
     turn_step s (s\<lparr>sy_db := sw_db w', sy_running := remove1 (turn_key r) (sy_running s),
       sy_ran := turn_key r # sy_ran s\<rparr>)"
| step_poll: "sw_db w = sy_db s \<Longrightarrow> others_keep E \<Longrightarrow> wait_for_durable_turn fuel E r w = (a, w') \<Longrightarrow>
     turn_step s (s\<lparr>sy_db := sw_db w'\<rparr>)"
| step_other: "turns_kept (sy_db s) db \<Longrightarrow> turn_step s (s\<lparr>sy_db := db\<rparr>)"

definition turn_start_state :: "gateway_db \<Rightarrow> turn_system" where
  "turn_start_state db = \<lparr>sy_db = db, sy_running = [], sy_ran = []\<rparr>"

text \<open>Every run of the system is a run of the ledger that won the keys it ran or is going to run.\<close>

lemma system_is_ledger_run:
  assumes "turn_step\<^sup>*\<^sup>* (turn_start_state db) s"
  shows "\<exists>ks. ledger_run turn_claimed turns_kept db ks (sy_db s) \<and> mset ks = mset (sy_ran s @ sy_running s)"
  using assms
proof (induction rule: rtranclp_induct)
  case base
  show ?case by (rule exI [of _ "[]"]) (simp add: turn_start_state_def ledger_start)
next
  case (step s t)
  then obtain ks where ks: "ledger_run turn_claimed turns_kept db ks (sy_db s)"
    "mset ks = mset (sy_ran s @ sy_running s)" by blast
  from step(2) show ?case
  proof cases
    case (step_begin w E r a w')
    have kept: "turns_kept (sy_db s) (sw_db w')"
      using keepsD [OF keeps_begin_turn step_begin(3)] step_begin(2) by (simp add: within_def)
    show ?thesis
    proof (cases "a = Inr Turn_Reserved")
      case True
      then obtain w0 h where "reserve_turn E (turn_key r) h w0 = (Inr St_Reserved, w')" "sw_db w0 = sw_db w"
        using step_begin(3) by (metis begin_turn_claims)
      then have "turn_claimed (sy_db s) (turn_key r) (sw_db w')"
        using step_begin(2) by (auto simp: turn_claimed_def)
      with ks(1) have "ledger_run turn_claimed turns_kept db (turn_key r # ks) (sw_db w')"
        by (rule ledger_claim)
      with True ks(2) step_begin(1) show ?thesis by (intro exI [of _ "turn_key r # ks"]) simp
    next
      case False
      with ks kept step_begin(1) show ?thesis by (auto intro: ledger_step)
    qed
  next
    case (step_run r w E a w')
    have "turns_kept (sy_db s) (sw_db w')"
      using keepsD [OF keeps_run_turn step_run(5)] step_run(3, 4) by (simp add: turn_kept_def)
    with ks step_run(1, 2) show ?thesis by (auto intro: ledger_step)
  next
    case (step_poll w E fuel r a w')
    have "turns_kept (sy_db s) (sw_db w')"
      using keepsD [OF wait_kept step_poll(4)] step_poll(2, 3) by (simp add: turn_kept_def)
    with ks step_poll(1) show ?thesis by (auto intro: ledger_step)
  next
    case (step_other db')
    with ks show ?thesis by (auto intro: ledger_step)
  qed
qed

end
