(* ===== verification/GatewaySample.thy ===== *)
theory GatewaySample
  imports GatewayCalls
begin

text \<open>A concrete gateway, its configuration and a turn, on which the properties are applied.\<close>

definition sample_codec :: gateway_codec where
  "sample_codec =
     \<lparr>gc_json = (\<lambda>_. ''{}''), gc_parse = (\<lambda>_. None), gc_enc_resource = mr_id, gc_dec_resource = (\<lambda>_. None),
      gc_enc_policy = mp_id, gc_dec_policy = (\<lambda>_. None), gc_enc_connection = cn_id,
      gc_dec_connection = (\<lambda>_. None), gc_enc_error = (\<lambda>e. ed_code (ee_error e)),
      gc_dec_error = (\<lambda>c. Some (ae_envelope (gateway_error 503 [] c [] True))),
      gc_enc_execution = me_id, gc_dec_execution = (\<lambda>_. None), gc_enc_response = gt_request_id,
      gc_dec_response = (\<lambda>_. None), gc_enc_input = (\<lambda>_. ''{}''), gc_enc_capabilities = (\<lambda>_. ''{}'')\<rparr>"

definition sample_turn_env :: turn_env where
  "sample_turn_env =
     \<lparr>se_backend = Sqlite, se_stmt = (\<lambda>_. Stmt_done), se_clock = (\<lambda>n. int n * 1000000000),
      se_codec = sample_codec, ge_digest = (\<lambda>_. replicate 32 CHR ''x''), ge_parse_url = (\<lambda>_. None),
      ge_parse_ipv6 = (\<lambda>_. None), ge_allow_loopback = False, ge_rfc3339 = (\<lambda>_. Some 60000000000),
      ge_enc_turn_body = (\<lambda>_. ''{}''), ge_base64 = (\<lambda>s. s), ge_unbase64 = Some,
      ge_runtime_base_url = None, ge_artifact_token = Inr None, ge_artifact = (\<lambda>_ _. Artifact_unreachable),
      te_http = (\<lambda>_ _. Http_timeout), te_lookup_host = (\<lambda>_ _ _. None), te_local_secret = (\<lambda>_. None),
      te_encrypt = (\<lambda>_. Some), te_decrypt = Some, te_period = (\<lambda>_. ''1970-01-01''),
      te_held_permits = (\<lambda>_ _. 0), te_others = (\<lambda>_ s. s)\<rparr>"

definition sample_turn_world :: gateway_world where
  "sample_turn_world =
     \<lparr>sw_db = empty_gateway_db, sw_stmts = 0, sw_reads = 0, gw_artifacts = 0, gw_http_log = [],
      gw_lookups = 0, gw_seals = 0, gw_acquires = 0, gw_awaits = 0, gw_sleeps = [],
      gw_bulkheads = (\<lambda>_. None), gw_memory = (\<lambda>_. None), gw_resources = [], gw_policies = []\<rparr>"

definition sample_turn_request :: turn_request where
  "sample_turn_request =
     \<lparr>gr_schema_version = ''provider-gateway-turn-request@1'', gr_request_id = ''q1'',
      gr_idempotency_key = ''k1'', gr_deadline_at = ''1970-01-01T00:01:00Z'',
      gr_scope = \<lparr>ts_workspace_id = ''ws-a'', ts_project_id = ''p'', ts_run_id = ''run'', ts_turn = 1,
        ts_phase = ''build'', ts_agent_profile = ''a''\<rparr>,
      gr_routing = \<lparr>tr_model_resource_id = None, tr_required_capabilities =
        \<lparr>rc_tool_calls = False, rc_strict_tool_schema = False, rc_streaming = False, rc_vision = False\<rparr>\<rparr>,
      gr_input = \<lparr>ti_system_prompt = ''s'', ti_messages = [], ti_tools = [], ti_deferred_tools = []\<rparr>\<rparr>"

lemma sample_others [simp]: "reflp Q \<Longrightarrow> others_within Q sample_turn_env"
  by (simp add: others_within_def sample_turn_env_def reflp_def)

lemma sample_request_valid:
  "validate_turn_request sample_turn_env sample_turn_request sample_turn_world =
     (Inr (), sample_turn_world\<lparr>sw_reads := 1\<rparr>)"
  by (simp add: validate_turn_request_def sample_turn_request_def is_blank_ascii is_workspace_namespace_def
      turn_phases_def sample_turn_env_def utc_now_def sample_turn_world_def input_within_limits_def
      sample_codec_def string_defs starts_with_def pbind_def)

lemma sample_turn_reserved:
  "\<exists>w'. begin_turn sample_turn_env sample_turn_request sample_turn_world = (Inr Turn_Reserved, w')"
proof -
  obtain w' where "reserve_turn sample_turn_env (turn_key sample_turn_request)
      (idempotency_request_hash sample_turn_env sample_turn_request)
      (sample_turn_world\<lparr>sw_reads := 1\<rparr>) = (Inr St_Reserved, w')"
    using reserve_turn_fresh [of "sample_turn_world\<lparr>sw_reads := 1\<rparr>" "turn_key sample_turn_request" sample_turn_env]
    by (auto simp: sample_turn_world_def sample_turn_env_def empty_gateway_db_def)
  then show ?thesis
    by (simp add: begin_turn_def sample_request_valid stored_def)
qed

section \<open>A turn that succeeds\<close>

definition sample_answer :: json where
  "sample_answer = JObject
     [(''choices'', JArray [JObject [(''message'', str_obj [(''content'', ''hi'')])]]),
      (''usage'', JObject [(''prompt_tokens'', JNumber ''7''), (''completion_tokens'', JNumber ''3'')])]"

definition live_reply :: turn_response where
  "live_reply =
     \<lparr>gt_schema_version = ''provider-gateway-turn-response@1'', gt_request_id = ''q1'',
      gt_response_type = ''text'', gt_tool_calls = [], gt_text = Some ''hi'', gt_finish_reason = ''stop'',
      gt_model_execution =
        \<lparr>me_id = ''model-execution-q1'', me_model_resource_id = ''m'', me_model_resource_revision = 1,
         me_display_name = ''M'', me_provider_id = ''m'', me_physical_model = ''model'',
         me_selection_policy_id = ''pol'', me_selection_policy_revision = 1,
         me_capability_snapshot_hash = [], me_selection_reason = ''automatic_selection'',
         me_automatic_switch = \<lparr>sw_used = False, sw_reason = None, sw_from_model_resource_id = None\<rparr>,
         me_provider_request_id = None, me_provider_attempt_count = 1, me_visual_input = None\<rparr>,
      gt_usage = \<lparr>us_input_tokens = 7, us_output_tokens = 3, us_cached_input_tokens = 0\<rparr>,
      gt_provider_request_id = None, gt_provider_attempt_count = 1\<rparr>"

definition live_resource :: model_resource where
  "live_resource =
     \<lparr>mr_schema_version = ''model-resource@1'', mr_id = ''m'', mr_display_name = ''M'', mr_description = [],
      mr_sort_order = 0, mr_provider_connection_id = None, mr_kind = Openai_Compatible, mr_enabled = True,
      mr_published = True, mr_revision = 1,
      mr_endpoint = \<lparr>ep_base_url = ''http://127.0.0.1:80'', ep_chat_completions_path = ''/v1/chat''\<rparr>,
      mr_auth = \<lparr>au_auth_type = ''bearer'', au_secret_ref = ''env:KEY''\<rparr>, mr_physical_model = ''model'',
      mr_capabilities = \<lparr>pc_tool_calls = True, pc_strict_tool_schema = False, pc_streaming = False,
        pc_vision = False, pc_vision_input = False, pc_supported_image_media_types = [],
        pc_max_image_bytes = 0, pc_max_image_count = 0\<rparr>,
      mr_defaults = \<lparr>md_request_timeout_ms = 1000, md_max_attempts = 2, md_temperature = None,
        md_max_concurrent_requests = 4\<rparr>\<rparr>"

definition live_policy :: model_selection_policy where
  "live_policy =
     \<lparr>mp_schema_version = ''model-selection-policy@1'', mp_id = ''pol'', mp_revision = 1,
      mp_scope = \<lparr>ps_workspace_ids = [], ps_project_ids = []\<rparr>,
      mp_applies_to = \<lparr>pa_phases = [], pa_agent_profiles = []\<rparr>,
      mp_candidates = [\<lparr>mc_model_resource_id = ''m'', mc_priority = 1, mc_weight = 1\<rparr>],
      mp_automatic_switch = \<lparr>as_enabled = True, as_allowed_reasons = [''provider_unavailable''],
        as_max_model_switches_per_turn = 1\<rparr>,
      mp_direct_selection = [''m''],
      mp_limits = \<lparr>ml_max_concurrent_turns = Some 2, ml_daily_input_tokens = Some 100\<rparr>\<rparr>"

definition live_env :: turn_env where
  "live_env = sample_turn_env\<lparr>
     ge_allow_loopback := True,
     ge_parse_url := (\<lambda>_. Some \<lparr>url_scheme = ''http'', url_host = Some ''127.0.0.1'', url_username = [],
       url_password = None, url_port = Some 80, url_query = None, url_fragment = None\<rparr>),
     te_local_secret := (\<lambda>_. Some ''key''),
     te_http := (\<lambda>_ _. Http_response 200 (\<lambda>_. None) (Some ''answer'')),
     se_codec := sample_codec\<lparr>gc_parse := (\<lambda>_. Some sample_answer), gc_dec_response := (\<lambda>_. Some live_reply),
       gc_dec_resource := (\<lambda>_. Some live_resource), gc_dec_policy := (\<lambda>_. Some live_policy)\<rparr>\<rparr>"

definition live_world :: gateway_world where
  "live_world = sample_turn_world\<lparr>gw_resources := [(''m'', live_resource)], gw_policies := [live_policy]\<rparr>"

lemma live_policy_resolved: "resolve_policy (gw_policies live_world) (gr_scope sample_turn_request) = Some live_policy"
  by (simp add: live_world_def live_policy_def resolve_policy_def max_by_key_def policy_matches_turn_def)

lemma live_selected: "select_candidates live_env live_policy (gw_resources live_world) sample_turn_request = Inr ([live_resource], ''automatic_selection'')"
  by (simp add: select_candidates_def sample_turn_request_def live_world_def live_policy_def ordered_automatic_candidates_def Let_def
     primary_candidate_def weighted_candidate_id_def total_weight_def)

lemma live_usable: "usable sample_turn_request live_resource"
  by (simp add: usable_def live_resource_def sample_turn_request_def capabilities_match_def)

definition live_turn :: provider_turn where
  "live_turn = \<lparr>pt_tool_calls = [], pt_text = Some ''hi'', pt_finish_reason = ''stop'', pt_usage = \<lparr>us_input_tokens = 7, us_output_tokens = 3,
            us_cached_input_tokens = 0\<rparr>, pt_provider_request_id = None, pt_attempt_count = 1,
                  pt_visual_input = None\<rparr>"

lemma live_response: "read_provider_response (se_codec live_env) sample_turn_request m (te_http live_env n q) =
  Inr live_turn"
  by (simp add: read_provider_response_def live_env_def sample_answer_def is_success_def parse_openai_response_def res_bind_def response_content_def
   response_usage_def usage_u64_def str_obj_def sample_turn_request_def request_tool_names_def or_default_def header_text_def response_request_id_def max_json_string_bytes_def
   string_defs Let_def read_nat_def live_turn_def)

lemma live_exchange: "http_exchange live_env q w = (Inr (te_http live_env (length (gw_http_log w)) q), w\<lparr>gw_http_log := gw_http_log w @ [q], gw_awaits := Suc (gw_awaits w)\<rparr>)"
  by (simp add: http_exchange_def live_env_def sample_turn_env_def await_others_def)

lemma live_once:
  assumes "sw_reads w < 59"
  shows "\<exists>w'. call_openai_compatible_once live_env live_resource sample_turn_request key w = (Inr live_turn, w') \<and> sw_db w' = sw_db w"
proof -
  have a: "resolve_visual_artifacts live_env live_resource sample_turn_request = pret sample_turn_request"
    by (simp add: resolve_visual_artifacts_def image_blocks_def sample_turn_request_def)
  have b: "\<exists>m. alias_map_from_request (ge_digest live_env) sample_turn_request = Inr m"
    by (simp add: alias_map_from_request_def res_bind_def sample_turn_request_def request_tool_names_def)
  have c: "\<exists>j. openai_request_body (se_codec live_env) (ge_digest live_env) sample_turn_request live_resource m = Inr j" for m
    by (simp add: openai_request_body_def res_bind_def sample_turn_request_def normalize_messages_def err_into_def)
  have d: "verified_visual_input_summary (ge_digest live_env) (ge_unbase64 live_env) sample_turn_request = Inr None"
    by (simp add: verified_visual_input_summary_def sample_turn_request_def image_blocks_def)
  have e: "\<exists>t w'. provider_call_timeout live_env live_resource sample_turn_request w = (Inr t, w') \<and> sw_db w' = sw_db w"
    using assms by (simp add: provider_call_timeout_def remaining_turn_deadline_def sample_turn_request_def live_env_def sample_turn_env_def utc_now_def)
  obtain m where m: "alias_map_from_request (ge_digest live_env) sample_turn_request = Inr m" using b by blast
  obtain j where j: "openai_request_body (se_codec live_env) (ge_digest live_env) sample_turn_request live_resource m = Inr j"
    using c by blast
  obtain t w1 where t: "provider_call_timeout live_env live_resource sample_turn_request w = (Inr t, w1)" "sw_db w1 = sw_db w"
    using e by blast
  have "live_turn\<lparr>pt_visual_input := None\<rparr> = live_turn" by (simp add: live_turn_def)
  then show ?thesis
    by (simp add: call_openai_compatible_once_def a d m j t live_exchange live_response)
qed

lemma live_call:
  assumes "sw_reads w < 59" "gw_bulkheads w = (\<lambda>_. None)"
  shows "\<exists>w'. call_with_permit live_env live_resource sample_turn_request w = (Inr live_turn, w') \<and> sw_db w' = sw_db w"
proof -
  let ?key = "mr_id live_resource @ '':'' @ show_u64 (mr_revision live_resource)"
  let ?w0 = "w\<lparr>gw_bulkheads := (gw_bulkheads w)(?key \<mapsto> 4), gw_acquires := Suc (gw_acquires w)\<rparr>"
  have a: "acquire_resource_bulkhead live_env live_resource sample_turn_request w = (Inr (), ?w0)"
    using assms(2) by (simp add: acquire_resource_bulkhead_def live_resource_def live_env_def sample_turn_env_def or_default_def Let_def)
  have s: "resolve_secret_ref live_env (au_secret_ref (mr_auth live_resource)) = pret ''key''"
    by (simp add: resolve_secret_ref_def strip_prefix_def starts_with_def live_resource_def live_env_def)
  have d: "validate_resource_endpoint_dns live_env (ep_base_url (mr_endpoint live_resource)) = pret ()"
    by (simp add: validate_resource_endpoint_dns_def live_resource_def live_env_def)
  obtain w1 where "call_openai_compatible_once live_env live_resource sample_turn_request ''key'' ?w0 = (Inr live_turn, w1)"
      "sw_db w1 = sw_db ?w0"
    using live_once [of ?w0 "''key''"] assms(1) by auto
  moreover have "live_turn\<lparr>pt_attempt_count := 1\<rparr> = live_turn" by (simp add: live_turn_def)
  ultimately have r: "retry_loop live_env live_resource sample_turn_request ''key'' 1 n ?w0 = (Inr live_turn, w1)" for n
    by (subst retry_loop.simps) (simp add: pattempt_def)
  have k: "au_auth_type (mr_auth live_resource) = ''bearer''" "md_max_attempts (mr_defaults live_resource) \<noteq> 0"
     "mr_kind live_resource = Openai_Compatible"
    by (simp_all add: live_resource_def)
  have "call_with_permit live_env live_resource sample_turn_request w = (Inr live_turn, w1)"
    using r k(2) by (simp add: call_with_permit_def a call_resource_def k call_openai_compatible_def s d pmap_err_def)
  with \<open>sw_db w1 = sw_db ?w0\<close> show ?thesis by auto
qed

end
