(* ===== verification/GatewayProps.thy ===== *)
theory GatewayProps
  imports GatewayTurnProps GatewaySample
begin

text \<open>The properties of the provider gateway's turns.\<close>

section \<open>A turn runs at most once\<close>

text \<open>
  C25. However the turns of any number of gateways interleave on one database, with failing statements
  and crashes at any point, no key of run, turn and idempotency key is executed twice, its record stays,
  and a request with a key that was ever reserved sends nothing to a provider.
\<close>

theorem turn_executed_once:
  assumes "turn_step\<^sup>*\<^sup>* (turn_start_state db) s"
  shows "distinct (sy_ran s @ sy_running s)
    \<and> (\<forall>k \<in> set (sy_ran s @ sy_running s). \<not> turn_held db k \<and> turn_held (sy_db s) k)
    \<and> (\<forall>E r w fuel. others_keep E \<and> sw_db w = sy_db s \<and> turn_key r \<in> set (sy_ran s @ sy_running s)
        \<longrightarrow> gw_http_log (snd (execute_turn fuel E r w)) = gw_http_log w)"
proof -
  obtain ks where ks: "ledger_run turn_claimed turns_kept db ks (sy_db s)"
      "mset ks = mset (sy_ran s @ sy_running s)"
    using system_is_ledger_run [OF assms] by blast
  have same: "set (sy_ran s @ sy_running s) = set ks" using ks(2) by (metis set_mset_mset)
  have "distinct (sy_ran s @ sy_running s)"
    using turn_ledger.run_distinct [OF ks(1)] ks(2) by (metis mset_eq_imp_distinct_iff)
  moreover have "\<forall>k \<in> set ks. \<not> turn_held db k \<and> turn_held (sy_db s) k"
    using turn_ledger.run_held [OF ks(1)] turn_ledger.run_not_held [OF ks(1)] by blast
  ultimately show ?thesis using same execute_turn_present by metis
qed

lemma sample_turn_path:
  "\<exists>s. turn_step\<^sup>*\<^sup>* (turn_start_state empty_gateway_db) s \<and> sy_ran s = [turn_key sample_turn_request]"
proof -
  let ?s0 = "turn_start_state empty_gateway_db"
  obtain w1 where b: "begin_turn sample_turn_env sample_turn_request sample_turn_world = (Inr Turn_Reserved, w1)"
    using sample_turn_reserved by blast
  let ?s1 = "?s0\<lparr>sy_db := sw_db w1, sy_running := [turn_key sample_turn_request] @ sy_running ?s0\<rparr>"
  have "sw_db sample_turn_world = sy_db ?s0"
    by (simp add: sample_turn_world_def turn_start_state_def)
  from step_begin [OF this b] have one: "turn_step ?s0 ?s1" by simp
  obtain a w2 where r: "run_turn sample_turn_env sample_turn_request w1 = (a, w2)" by fastforce
  have "turn_step ?s1 (?s1\<lparr>sy_db := sw_db w2,
      sy_running := remove1 (turn_key sample_turn_request) (sy_running ?s1),
      sy_ran := turn_key sample_turn_request # sy_ran ?s1\<rparr>)"
    by (rule step_run [OF _ _ _ r]) simp_all
  with one show ?thesis
    by (intro exI conjI, rule rtranclp.rtrancl_into_rtrancl [OF r_into_rtranclp])
       (auto simp: turn_start_state_def)
qed

theorem turn_executed_once_witness:
  "\<exists>s. turn_step\<^sup>*\<^sup>* (turn_start_state empty_gateway_db) s \<and> sy_ran s = [turn_key sample_turn_request]
    \<and> turn_held (sy_db s) (turn_key sample_turn_request)"
proof -
  obtain s where "turn_step\<^sup>*\<^sup>* (turn_start_state empty_gateway_db) s"
      "sy_ran s = [turn_key sample_turn_request]"
    using sample_turn_path by blast
  with turn_executed_once [of empty_gateway_db s] show ?thesis by auto
qed

end
