(* ===== verification/GatewayLimitsProps.thy ===== *)
theory GatewayLimitsProps
  imports GatewaySample
begin

text \<open>
  The limits of the gateway: the circuit breaker refines a machine of three states in both databases, and
  the leases and the daily usage stay under their limits.
\<close>

section \<open>Results of reliable operations\<close>

text \<open>What an operation answers and the database it leaves; nothing else of the world changes.\<close>

definition gives ::
    "('z, 'a) store_proc \<Rightarrow> 'z store_world_scheme \<Rightarrow> gateway_store_error + 'a \<Rightarrow> gateway_db \<Rightarrow> bool" where
  "gives m w r db \<longleftrightarrow> (\<exists>w'. m w = (r, w') \<and> sw_db w' = db \<and> store_world.more w' = store_world.more w)"

definition reliable :: "'e store_env_scheme \<Rightarrow> bool" where
  "reliable E \<longleftrightarrow> (\<forall>n. se_stmt E n = Stmt_done)"

named_theorems gives_rules \<open>results of operations whose statements work\<close>

lemma gives_pure [gives_rules]:
  "gives (pret x) w (Inr x) (sw_db w)" "gives (praise e) w (Inl e) (sw_db w)"
  "gives (plift r) w r (sw_db w)"
  by (simp_all add: gives_def)

lemma gives_sql [gives_rules]:
  "reliable E \<Longrightarrow> f (sw_db w) = Some (x, db) \<Longrightarrow> gives (sql E f) w (Inr x) db"
  by (simp add: gives_def sql_def reliable_def Let_def)

lemma gives_sql_refused:
  "f (sw_db w) = None \<Longrightarrow> gives (sql E f) w (Inl Statement_failed) (sw_db w)"
  by (simp add: gives_def sql_def Let_def)

lemma gives_query [gives_rules]: "reliable E \<Longrightarrow> gives (sql_query E f) w (Inr (f (sw_db w))) (sw_db w)"
  by (simp add: sql_query_def gives_sql)

lemma gives_update [gives_rules]: "reliable E \<Longrightarrow> gives (sql_update E f) w (Inr ()) (f (sw_db w))"
  by (simp add: sql_update_def gives_sql)

lemma gives_utc: "gives (utc_now E) w (Inr (se_clock E (sw_reads w))) (sw_db w)"
  by (simp add: gives_def utc_now_def)

lemma gives_bind:
  assumes "gives m w (Inr x) db"
    and "\<And>w1. sw_db w1 = db \<Longrightarrow> gives (f x) w1 r db'"
  shows "gives (pbind m f) w r db'"
proof -
  obtain w1 where w1: "m w = (Inr x, w1)" "sw_db w1 = db" "store_world.more w1 = store_world.more w"
    using assms(1) by (auto simp: gives_def)
  from assms(2) [OF w1(2)] w1 show ?thesis by (auto simp: gives_def)
qed

lemma gives_bind_fail: "gives m w (Inl e) db \<Longrightarrow> gives (pbind m f) w (Inl e) db"
  by (auto simp: gives_def)

lemma gives_sql_bind:
  assumes "reliable E" "f (sw_db w) = Some (x, db)" "\<And>w1. sw_db w1 = db \<Longrightarrow> gives (g x) w1 r db'"
  shows "gives (pbind (sql E f) g) w r db'"
  by (rule gives_bind [OF gives_sql [where f = f, OF assms(1,2)]]) (rule assms(3))

lemma gives_query_bind:
  assumes "reliable E" "\<And>w1. sw_db w1 = sw_db w \<Longrightarrow> gives (g (f (sw_db w))) w1 r db'"
  shows "gives (pbind (sql_query E f) g) w r db'"
  by (rule gives_bind [OF gives_query [OF assms(1)]]) (rule assms(2))

lemma gives_update_bind:
  assumes "reliable E" "\<And>w1. sw_db w1 = f (sw_db w) \<Longrightarrow> gives (g ()) w1 r db'"
  shows "gives (pbind (sql_update E f) g) w r db'"
  by (rule gives_bind [OF gives_update [OF assms(1)]]) (rule assms(2))

lemma gives_ret: "sw_db w = db \<Longrightarrow> gives (pret x) w (Inr x) db"
  by (simp add: gives_def)

lemma gives_transaction:
  assumes "reliable E" and m: "\<And>w1. sw_db w1 = sw_db w \<Longrightarrow> gives m w1 r db"
  shows "gives (pg_transaction E m) w r (case r of Inl _ \<Rightarrow> sw_db w | Inr _ \<Rightarrow> db)"
proof -
  have "gives (pbind (sql_update E (\<lambda>db. db)) (\<lambda>_. m)) w r db"
    by (rule gives_bind [OF gives_update [OF assms(1)] m])
  then show ?thesis
    using assms(1)
    by (cases r) (auto simp: gives_def pg_transaction_def reliable_def)
qed

lemma gives_transaction_ok:
  assumes "reliable E" "\<And>w1. sw_db w1 = sw_db w \<Longrightarrow> gives m w1 (Inr x) db"
  shows "gives (pg_transaction E m) w (Inr x) db"
  using gives_transaction [OF assms] by simp

lemma gives_det: "gives m w r db \<Longrightarrow> gives m w r' db' \<Longrightarrow> r = r' \<and> db = db'"
  by (auto simp: gives_def)

lemma pbind_plift: "pbind (plift (Inr x)) f = f x" "pbind (plift (Inl e)) g = praise e"
  by (simp_all add: pbind_def plift_def praise_def fun_eq_iff)

lemma gives_cong: "gives m w r db \<Longrightarrow> r = r' \<Longrightarrow> db = db' \<Longrightarrow> gives m w r' db'"
  by simp

section \<open>The circuit breaker\<close>

text \<open>
  The machine: closed after fewer than three failures in a row, open until a time, and half open once a
  request was let through after that time.
\<close>

datatype circuit = Circuit_Closed nat | Circuit_Open int | Circuit_Half_Open

fun spec_allows :: "circuit \<Rightarrow> int \<Rightarrow> bool \<times> circuit" where
  "spec_allows (Circuit_Open until) now =
     (if now < until then (False, Circuit_Open until) else (True, Circuit_Half_Open))"
| "spec_allows c now = (True, c)"

fun spec_failure :: "circuit \<Rightarrow> int \<Rightarrow> circuit" where
  "spec_failure (Circuit_Closed n) now =
     (if n < 2 then Circuit_Closed (Suc n) else Circuit_Open (now + 30))"
| "spec_failure _ now = Circuit_Open (now + 30)"

definition failure_cap :: "persistent_store \<Rightarrow> int" where
  "failure_cap backend = (case backend of Sqlite \<Rightarrow> 2 ^ 32 - 1 | Postgres \<Rightarrow> 2 ^ 31 - 1)"

definition health_ok :: "persistent_store \<Rightarrow> health_row option \<Rightarrow> bool" where
  "health_ok backend row \<longleftrightarrow> (case row of None \<Rightarrow> True | Some h \<Rightarrow>
     0 \<le> he_consecutive_failures h \<and> he_consecutive_failures h \<le> failure_cap backend
     \<and> (if he_consecutive_failures h < 3 then he_circuit_state h = ''closed''
        else he_circuit_state h \<in> {''open'', ''half_open''}))"

definition circuit_of :: "health_row option \<Rightarrow> circuit" where
  "circuit_of row = (case row of None \<Rightarrow> Circuit_Closed 0 | Some h \<Rightarrow>
     if he_circuit_state h = ''open'' then Circuit_Open (he_opened_until h)
     else if he_circuit_state h = ''half_open'' then Circuit_Half_Open
     else Circuit_Closed (nat (he_consecutive_failures h)))"

lemma failure_cap_ge [simp]: "3 \<le> failure_cap backend" "0 \<le> failure_cap backend"
  by (simp_all add: failure_cap_def split: persistent_store.split)

lemma circuit_default [simp]:
  "circuit_of (Some default_health) = Circuit_Closed 0" "health_ok b (Some default_health)"
  "circuit_of None = Circuit_Closed 0" "health_ok b None"
  by (simp_all add: circuit_of_def default_health_def health_ok_def)

definition failures_before :: "health_row option \<Rightarrow> int" where
  "failures_before row = (case row of None \<Rightarrow> 0 | Some h \<Rightarrow> he_consecutive_failures h)"

definition row_after_failure :: "persistent_store \<Rightarrow> health_row option \<Rightarrow> int \<Rightarrow> health_row" where
  "row_after_failure b row now = failure_row (min (failure_cap b) (failures_before row + 1)) (now + 30)"

lemma failure_refines:
  assumes ok: "health_ok b row"
  shows "circuit_of (Some (row_after_failure b row now)) = spec_failure (circuit_of row) now"
    "health_ok b (Some (row_after_failure b row now))"
    "3 \<le> min (failure_cap b) (failures_before row + 1) \<longleftrightarrow>
       circuit_of (Some (row_after_failure b row now)) = Circuit_Open (now + 30)"
proof -
  define n where "n = min (failure_cap b) (failures_before row + 1)"
  have pos: "0 \<le> n" "n \<le> failure_cap b"
    using ok failure_cap_ge(2) [of b]
    by (auto simp: n_def failures_before_def health_ok_def split: option.splits)
  have r: "row_after_failure b row now = failure_row n (now + 30)"
    by (simp add: row_after_failure_def n_def)
  show "health_ok b (Some (row_after_failure b row now))"
    using pos by (simp add: r health_ok_def failure_row_def)
  show "3 \<le> min (failure_cap b) (failures_before row + 1) \<longleftrightarrow>
      circuit_of (Some (row_after_failure b row now)) = Circuit_Open (now + 30)"
    by (simp add: r circuit_of_def failure_row_def flip: n_def)
  show "circuit_of (Some (row_after_failure b row now)) = spec_failure (circuit_of row) now"
  proof (cases row)
    case None
    then have "n = 1" by (simp add: n_def failures_before_def failure_cap_def split: persistent_store.split)
    then show ?thesis unfolding r using None by (simp add: circuit_of_def failure_row_def)
  next
    case (Some h)
    show ?thesis
    proof (cases "he_consecutive_failures h < 3")
      case True
      with ok Some have h: "he_circuit_state h = ''closed''" "0 \<le> he_consecutive_failures h"
        by (simp_all add: health_ok_def)
      have "n = he_consecutive_failures h + 1"
        using True Some by (simp add: n_def failures_before_def failure_cap_def split: persistent_store.split)
      then show ?thesis
        unfolding r using h True Some by (auto simp: circuit_of_def failure_row_def nat_add_distrib)
    next
      case False
      then have "3 \<le> n" using failure_cap_ge(1) [of b] Some by (simp add: n_def failures_before_def)
      then show ?thesis
        unfolding r using False ok Some by (auto simp: circuit_of_def failure_row_def health_ok_def)
    qed
  qed
qed

definition set_row :: "string \<times> int \<Rightarrow> health_row \<Rightarrow> gateway_db \<Rightarrow> gateway_db" where
  "set_row k h db = db\<lparr>gd_health := (gd_health db)(k \<mapsto> h)\<rparr>"

text \<open>What the two stores answer and write, once the revision fits.\<close>

lemma gives_success:
  assumes "reliable E" "i64_of rv = Inr i"
  shows "gives (record_success E rid rv) w (Inr ()) (set_health (rid, i) default_health (sw_db w))"
  unfolding record_success_def assms(2) pbind_plift by (rule gives_update [OF assms(1)])

lemma set_default: "set_health k h (insert_default_health k db) = set_health k h db"
  by (simp add: insert_default_health_def set_health_def)

lemma health_row_default:
  "health_row_of k (insert_default_health k db) =
     Some (case gd_health db k of None \<Rightarrow> default_health | Some h \<Rightarrow> h, insert_default_health k db)"
  by (simp add: health_row_of_def insert_default_health_def set_health_def split: option.split)

lemma gives_failure:
  fixes rid :: string and i :: int
  assumes E: "reliable E" and i: "i64_of rv = Inr i" and now: "now + 30 < 2 ^ 63" "- (2 ^ 63) \<le> now + 30"
  defines "row \<equiv> \<lambda>db. gd_health db (rid, i)"
  shows "gives (record_circuit_failure E rid rv now) w
    (Inr (3 \<le> min (failure_cap (se_backend E)) (failures_before (row (sw_db w)) + 1)))
    (set_health (rid, i) (row_after_failure (se_backend E) (row (sw_db w)) now) (sw_db w))"
proof (cases "se_backend E")
  case Sqlite
  show ?thesis
    unfolding record_circuit_failure_def Sqlite persistent_store.case sqlite_record_failure_def i pbind_plift Let_def
    by (rule gives_query_bind [OF E], rule gives_update_bind [OF E], rule gives_cong [OF gives_pure(1)])
       (simp_all add: failures_before_def row_after_failure_def failure_cap_def row_def)
next
  case Postgres
  have sat: "i64_saturating_add now 30 = now + 30"
    using now by (simp add: i64_saturating_add_def)
  define h where "h = (case row (sw_db w) of None \<Rightarrow> default_health | Some h \<Rightarrow> h)"
  have before: "he_consecutive_failures h = failures_before (row (sw_db w))"
    by (simp add: h_def failures_before_def default_health_def split: option.split)
  have h: "health_row_of (rid, i) (insert_default_health (rid, i) (sw_db w)) =
      Some (h, insert_default_health (rid, i) (sw_db w))"
    by (simp add: health_row_default h_def row_def)
  show ?thesis
    unfolding record_circuit_failure_def Postgres persistent_store.case pg_record_failure_def i pbind_plift Let_def
    by (rule gives_transaction_ok [OF E], rule gives_update_bind [OF E], rule gives_sql_bind [OF E],
        simp add: h, rule gives_update_bind [OF E], rule gives_cong [OF gives_pure(1)])
       (simp_all add: set_default before sat row_after_failure_def failure_cap_def)
qed

definition row_after_allows :: "health_row option \<Rightarrow> int \<Rightarrow> health_row option" where
  "row_after_allows row now = map_option (\<lambda>h.
     if he_circuit_state h = ''open'' \<and> \<not> now < he_opened_until h
     then h\<lparr>he_circuit_state := ''half_open''\<rparr> else h) row"

definition row_lets_pass :: "health_row option \<Rightarrow> int \<Rightarrow> bool" where
  "row_lets_pass row now \<longleftrightarrow> (case row of None \<Rightarrow> True | Some h \<Rightarrow>
     \<not> (he_circuit_state h = ''open'' \<and> now < he_opened_until h))"

lemma allows_refines:
  assumes "health_ok b row"
  shows "spec_allows (circuit_of row) now = (row_lets_pass row now, circuit_of (row_after_allows row now))"
    "health_ok b (row_after_allows row now)"
  using assms
  by (auto simp: circuit_of_def row_lets_pass_def row_after_allows_def health_ok_def
      split: option.splits if_splits)

lemma half_open_row:
  "gd_health (half_open_health k db) = (case gd_health db k of None \<Rightarrow> gd_health db
     | Some h \<Rightarrow> (gd_health db)(k \<mapsto> h\<lparr>he_circuit_state := ''half_open''\<rparr>))"
  by (simp add: half_open_health_def set_health_def split: option.split)

lemma gives_final_step:
  assumes "reliable E" "sw_db w = db"
  shows "gives (if he_circuit_state h = ''open'' \<and> now < he_opened_until h then pret False
       else if he_circuit_state h = ''open''
       then pbind (sql_update E (half_open_health k)) (\<lambda>_. pret True) else pret True) w
     (Inr (\<not> (he_circuit_state h = ''open'' \<and> now < he_opened_until h)))
     (if he_circuit_state h = ''open'' \<and> \<not> now < he_opened_until h then half_open_health k db else db)"
proof (cases "he_circuit_state h = ''open'' \<and> \<not> now < he_opened_until h")
  case True
  have "gives (pbind (sql_update E (half_open_health k)) (\<lambda>_. pret True)) w (Inr True) (half_open_health k db)"
    by (rule gives_update_bind [OF assms(1)], rule gives_ret) (simp add: assms(2))
  with True show ?thesis by simp
next
  case False
  then show ?thesis using gives_ret [OF assms(2)] by auto
qed

text \<open>PostgreSQL leaves a default row where there was none; it stands for the same circuit.\<close>

lemma gives_allows:
  fixes rid :: string and i :: int
  assumes E: "reliable E" and i: "i64_of rv = Inr i"
  shows "\<exists>db. gives (circuit_allows E rid rv now) w (Inr (row_lets_pass (gd_health (sw_db w) (rid, i)) now)) db
    \<and> (gd_health db (rid, i) = row_after_allows (gd_health (sw_db w) (rid, i)) now
       \<or> gd_health (sw_db w) (rid, i) = None \<and> gd_health db (rid, i) = Some default_health)
    \<and> (\<forall>k. k \<noteq> (rid, i) \<longrightarrow> gd_health db k = gd_health (sw_db w) k)"
proof (cases "se_backend E")
  case Sqlite
  let ?row = "gd_health (sw_db w) (rid, i)"
  let ?allows = "\<lambda>row. case row of
        None \<Rightarrow> pret True
      | Some h \<Rightarrow>
          if he_circuit_state h = ''open'' \<and> now < he_opened_until h then pret False
          else if he_circuit_state h = ''open''
          then pbind (sql_update E (half_open_health (rid, i))) (\<lambda>_. pret True)
          else pret True"
  define db where "db = (case ?row of Some h \<Rightarrow>
      if he_circuit_state h = ''open'' \<and> \<not> now < he_opened_until h
      then half_open_health (rid, i) (sw_db w) else sw_db w | None \<Rightarrow> sw_db w)"
  have step: "gives (?allows ?row) w1 (Inr (row_lets_pass ?row now)) db" if "sw_db w1 = sw_db w" for w1
  proof (cases "\<exists>h. ?row = Some h \<and> he_circuit_state h = ''open'' \<and> \<not> now < he_opened_until h")
    case True
    then obtain h where "?row = Some h" "he_circuit_state h = ''open''" "\<not> now < he_opened_until h" by blast
    moreover have "gives (pbind (sql_update E (half_open_health (rid, i))) (\<lambda>_. pret True)) w1 (Inr True)
        (half_open_health (rid, i) (sw_db w))"
      by (rule gives_update_bind [OF E], rule gives_ret) (simp add: that)
    ultimately show ?thesis by (simp add: db_def row_lets_pass_def)
  next
    case False
    then show ?thesis
      using gives_ret [OF that] by (auto simp: db_def row_lets_pass_def split: option.splits)
  qed
  have "gives (circuit_allows E rid rv now) w (Inr (row_lets_pass ?row now)) db"
    unfolding circuit_allows_def Sqlite persistent_store.case sqlite_circuit_allows_def i pbind_plift
    by (rule gives_query_bind [OF E]) (rule step)
  moreover have "gd_health db (rid, i) = row_after_allows ?row now"
    by (auto simp: db_def row_after_allows_def half_open_row split: option.split)
  moreover have "\<forall>k. k \<noteq> (rid, i) \<longrightarrow> gd_health db k = gd_health (sw_db w) k"
    by (auto simp: db_def half_open_row split: option.split)
  ultimately show ?thesis by blast
next
  case Postgres
  let ?row = "gd_health (sw_db w) (rid, i)"
  let ?db0 = "insert_default_health (rid, i) (sw_db w)"
  define h where "h = (case ?row of None \<Rightarrow> default_health | Some h \<Rightarrow> h)"
  have h: "health_row_of (rid, i) ?db0 = Some (h, ?db0)" by (simp add: health_row_default h_def)
  have pass: "row_lets_pass ?row now \<longleftrightarrow> \<not> (he_circuit_state h = ''open'' \<and> now < he_opened_until h)"
    by (simp add: row_lets_pass_def h_def default_health_def split: option.split)
  define db where "db = (if he_circuit_state h = ''open'' \<and> \<not> now < he_opened_until h
      then half_open_health (rid, i) ?db0 else ?db0)"
  have "gives (circuit_allows E rid rv now) w (Inr (row_lets_pass ?row now)) db"
    unfolding circuit_allows_def Postgres persistent_store.case pg_circuit_allows_def i pbind_plift
    by (rule gives_transaction_ok [OF E], rule gives_update_bind [OF E], rule gives_sql_bind [OF E],
        simp add: h, rule gives_cong [OF gives_final_step [OF E]], assumption)
       (simp_all add: pass db_def)
  moreover have "gd_health db (rid, i) = row_after_allows ?row now \<or> ?row = None \<and> gd_health db (rid, i) = Some default_health"
    by (cases ?row) (auto simp: db_def h_def row_after_allows_def half_open_row insert_default_health_def
        set_health_def default_health_def)
  moreover have "\<forall>k. k \<noteq> (rid, i) \<longrightarrow> gd_health db k = gd_health (sw_db w) k"
    by (auto simp: db_def half_open_row insert_default_health_def set_health_def split: option.split)
  ultimately show ?thesis by blast
qed

text \<open>
  C27. The circuit breaker of a resource revision is, in SQLite and in PostgreSQL alike, a machine of three
  states: the third failure in a row opens it for 30 seconds, a request after that time finds it half
  open and passes, a failure then opens it again, a success closes it. Other revisions are not touched.
\<close>

theorem circuit_breaker_refines:
  fixes rid :: string and i :: int
  assumes "reliable E" "i64_of rv = Inr i" "now + 30 < 2 ^ 63" "- (2 ^ 63) \<le> now + 30"
    and "health_ok (se_backend E) (gd_health (sw_db w) (rid, i))"
    and "c = circuit_of (gd_health (sw_db w) (rid, i))"
    and "becomes = (\<lambda>db c'. circuit_of (gd_health db (rid, i)) = c'
      \<and> health_ok (se_backend E) (gd_health db (rid, i))
      \<and> (\<forall>k. k \<noteq> (rid, i) \<longrightarrow> gd_health db k = gd_health (sw_db w) k))"
  shows "(\<exists>db. gives (circuit_allows E rid rv now) w (Inr (fst (spec_allows c now))) db
        \<and> becomes db (snd (spec_allows c now)))
    \<and> (\<exists>db. gives (record_circuit_failure E rid rv now) w (Inr (spec_failure c now = Circuit_Open (now + 30))) db
        \<and> becomes db (spec_failure c now))
    \<and> (\<exists>db. gives (record_success E rid rv) w (Inr ()) db \<and> becomes db (Circuit_Closed 0))"
proof (intro conjI)
  let ?row = "gd_health (sw_db w) (rid, i)"
  obtain db where db: "gives (circuit_allows E rid rv now) w (Inr (row_lets_pass ?row now)) db"
      "gd_health db (rid, i) = row_after_allows ?row now
       \<or> ?row = None \<and> gd_health db (rid, i) = Some default_health"
      "\<forall>k. k \<noteq> (rid, i) \<longrightarrow> gd_health db k = gd_health (sw_db w) k"
    using gives_allows [OF assms(1,2)] by blast
  have "circuit_of (gd_health db (rid, i)) = circuit_of (row_after_allows ?row now)
      \<and> health_ok (se_backend E) (gd_health db (rid, i))"
    using db(2) allows_refines(2) [OF assms(5), of now] by (auto simp: row_after_allows_def)
  with db(1,3) show "\<exists>db. gives (circuit_allows E rid rv now) w (Inr (fst (spec_allows c now))) db
        \<and> becomes db (snd (spec_allows c now))"
    unfolding assms(6,7) allows_refines(1) [OF assms(5)] fst_conv snd_conv by blast
  note f = failure_refines [OF assms(5), of now]
  let ?db = "set_health (rid, i) (row_after_failure (se_backend E) ?row now) (sw_db w)"
  have g: "gd_health ?db = (gd_health (sw_db w))((rid, i) \<mapsto> row_after_failure (se_backend E) ?row now)"
    by (simp add: set_health_def)
  have "becomes ?db (spec_failure c now)"
    unfolding assms(6,7) g using f(1,2) by simp
  moreover have "gives (record_circuit_failure E rid rv now) w (Inr (spec_failure c now = Circuit_Open (now + 30))) ?db"
    using gives_failure [OF assms(1-4), where rid = rid and w = w]
    unfolding assms(6) f(3) f(1) .
  ultimately show "\<exists>db. gives (record_circuit_failure E rid rv now) w (Inr (spec_failure c now = Circuit_Open (now + 30))) db
        \<and> becomes db (spec_failure c now)" by blast
  have "becomes (set_health (rid, i) default_health (sw_db w)) (Circuit_Closed 0)"
    unfolding assms(7) by (simp add: set_health_def)
  with gives_success [OF assms(1,2), where rid = rid and w = w]
  show "\<exists>db. gives (record_success E rid rv) w (Inr ()) db \<and> becomes db (Circuit_Closed 0)" by blast
qed

theorem circuit_breaker_refines_witness:
  "\<exists>db. gives (record_circuit_failure sample_turn_env ''m'' 1 100) sample_turn_world (Inr False) db
     \<and> circuit_of (gd_health db (''m'', 1)) = Circuit_Closed 1"
proof -
  have h: "reliable sample_turn_env" "i64_of 1 = Inr 1"
      "health_ok (se_backend sample_turn_env) (gd_health (sw_db sample_turn_world) (''m'', 1))"
      "Circuit_Closed 0 = circuit_of (gd_health (sw_db sample_turn_world) (''m'', 1))"
    by (simp_all add: reliable_def sample_turn_env_def i64_of_def sample_turn_world_def empty_gateway_db_def)
  have "\<exists>db. gives (record_circuit_failure sample_turn_env ''m'' 1 100) sample_turn_world
      (Inr (spec_failure (Circuit_Closed 0) 100 = Circuit_Open (100 + 30))) db
     \<and> circuit_of (gd_health db (''m'', 1)) = spec_failure (Circuit_Closed 0) 100"
    using circuit_breaker_refines [OF h(1,2) _ _ h(3,4) refl, of 100] by auto
  then show ?thesis by simp
qed

section \<open>Concurrency leases\<close>

definition active_leases :: "string \<Rightarrow> gateway_db \<Rightarrow> nat" where
  "active_leases scope_key db = length (scope_leases scope_key db)"

lemma length_filter_imp: "(\<And>x. p x \<Longrightarrow> q x) \<Longrightarrow> length (filter p xs) \<le> length (filter q xs)"
  by (induction xs) (auto intro: le_SucI)

lemma active_delete_expired: "active_leases s (delete_expired_leases s' now db) \<le> active_leases s db"
  by (simp add: active_leases_def scope_leases_def delete_expired_leases_def) (rule length_filter_imp, simp)

lemma active_delete: "active_leases s (delete_lease l db) \<le> active_leases s db"
  by (simp add: active_leases_def scope_leases_def delete_lease_def) (rule length_filter_imp, simp)

lemma active_insert:
  "active_leases s (insert_lease_or_ignore row db) \<le> active_leases s db + of_bool (le_scope_key row = s)"
  by (simp add: active_leases_def scope_leases_def insert_lease_or_ignore_def)

lemma active_map:
  "length (filter (\<lambda>l. le_scope_key l = s) (map (\<lambda>l. if p l then l\<lparr>le_expires_at := e\<rparr> else l) xs))
     = length (filter (\<lambda>l. le_scope_key l = s) xs)"
  by (induction xs) auto

lemma active_upsert:
  "active_leases s (upsert_lease row db) \<le> active_leases s db + of_bool (le_scope_key row = s)"
  unfolding active_leases_def scope_leases_def upsert_lease_def
  using active_map [of s "\<lambda>l. le_lease_id l = le_lease_id row" "le_expires_at row" "gd_leases db"]
  by simp

text \<open>The statements of an acquisition, whatever fails: the count is checked before the insertion.\<close>

lemma acquire_statements_bound:
  assumes "acquire_lease_statements E s' lease limit expires w = (r, w')"
  shows "active_leases s (sw_db w') \<le>
    max (active_leases s (sw_db w)) (if s' = s then unat limit else 0)"
proof -
  let ?ins = "(case se_backend E of Sqlite \<Rightarrow> insert_lease_or_ignore | Postgres \<Rightarrow> upsert_lease)
      \<lparr>le_lease_id = lease, le_scope_key = s', le_expires_at = expires\<rparr>"
  have ins: "active_leases s (?ins db) \<le> active_leases s db + of_bool (s' = s)" for db
    using active_insert [of s "\<lparr>le_lease_id = lease, le_scope_key = s', le_expires_at = expires\<rparr>" db]
      active_upsert [of s "\<lparr>le_lease_id = lease, le_scope_key = s', le_expires_at = expires\<rparr>" db]
    by (cases "se_backend E") simp_all
  from assms obtain now w1 where n: "utc_now E w = (Inr now, w1)" "sw_db w1 = sw_db w"
    and rest: "pbind (sql_update E (delete_expired_leases s' (timestamp now))) (\<lambda>_.
       pbind (sql_query E (\<lambda>db. length (scope_leases s' db))) (\<lambda>active.
       if lease_limit_reached (se_backend E) limit active then pret False
       else pbind (sql_update E ?ins) (\<lambda>_. pret True))) w1 = (r, w')"
    unfolding acquire_lease_statements_def by (auto elim!: pbind_cases simp: utc_now_def)
  from rest show ?thesis
  proof (cases rule: pbind_cases)
    case (1 e w2)
    then show ?thesis
      using active_delete_expired [of s s' "timestamp now" "sw_db w1"] n(2)
      by (auto simp: sql_update_def elim!: sql_cases)
  next
    case (2 u w2)
    then have w2: "active_leases s (sw_db w2) \<le> active_leases s (sw_db w)"
      using active_delete_expired [of s s' "timestamp now" "sw_db w1"] n(2)
      by (auto simp: sql_update_def elim!: sql_cases)
    from 2(2) show ?thesis
    proof (cases rule: pbind_cases)
      case (1 e w3)
      then show ?thesis using w2 by (auto simp: sql_query_def elim!: sql_cases)
    next
      case (2 active w3)
      then have w3: "sw_db w3 = sw_db w2" and act: "active = active_leases s' (sw_db w2)"
        by (auto simp: sql_query_def active_leases_def elim!: sql_cases)
      show ?thesis
      proof (cases "lease_limit_reached (se_backend E) limit active")
        case True
        with 2 w3 w2 show ?thesis by auto
      next
        case False
        then have lt: "active_leases s' (sw_db w2) < unat limit"
          by (auto simp: act lease_limit_reached_def split: persistent_store.splits)
        have "w' = w3 \<or> sw_db w' = sw_db w3 \<or> sw_db w' = ?ins (sw_db w3)"
          using 2(2) False by (auto elim!: pbind_cases simp: sql_update_def elim!: sql_cases)
        then show ?thesis
          using ins [of "sw_db w3"] w2 lt w3 by (auto split: if_splits)
      qed
    qed
  qed
qed

lemma transaction_db:
  assumes "pg_transaction E m w = (r, w')"
  shows "sw_db w' = sw_db w \<or> (\<exists>w0 x w1. sw_db w0 = sw_db w \<and> m w0 = (Inr x, w1) \<and> sw_db w' = sw_db w1)"
proof -
  obtain a w1 where a: "pbind (sql_update E (\<lambda>db. db)) (\<lambda>_. m) w = (a, w1)" by fastforce
  show ?thesis
  proof (cases a)
    case (Inl e)
    with assms a show ?thesis by (auto simp: pg_transaction_def)
  next
    case (Inr x)
    with a obtain w0 where w0: "m w0 = (Inr x, w1)" "sw_db w0 = sw_db w"
      by (auto elim!: pbind_cases simp: sql_update_def elim!: sql_cases)
    have "sw_db w' = sw_db w \<or> sw_db w' = sw_db w1"
      using assms a Inr by (auto simp: pg_transaction_def split: stmt_outcome.splits)
    with w0 show ?thesis by blast
  qed
qed

lemma acquire_bound:
  assumes "acquire_project_concurrency_lease E s' lease limit expires w = (r, w')"
  shows "active_leases s (sw_db w') \<le> max (active_leases s (sw_db w)) (if s' = s then unat limit else 0)"
proof (cases "se_backend E")
  case Sqlite
  with assms have "acquire_lease_statements E s' lease limit expires w = (r, w')"
    by (simp add: acquire_project_concurrency_lease_def)
  then show ?thesis by (rule acquire_statements_bound)
next
  case Postgres
  let ?m = "pbind (sql_update E (\<lambda>db. db)) (\<lambda>_. acquire_lease_statements E s' lease limit expires)"
  from assms Postgres have "pg_transaction E ?m w = (r, w')"
    by (simp add: acquire_project_concurrency_lease_def)
  from transaction_db [OF this] show ?thesis
  proof (elim disjE exE conjE)
    assume "sw_db w' = sw_db w"
    then show ?thesis by simp
  next
    fix w0 x w1
    assume w0: "sw_db w0 = sw_db w" "?m w0 = (Inr x, w1)" "sw_db w' = sw_db w1"
    from w0(2) obtain w2 where "acquire_lease_statements E s' lease limit expires w2 = (Inr x, w1)"
        "sw_db w2 = sw_db w0"
      by (auto elim!: pbind_cases simp: sql_update_def elim!: sql_cases)
    from acquire_statements_bound [OF this(1), of s] this(2) w0 show ?thesis by simp
  qed
qed

text \<open>
  What happens to the leases of one scope: turns acquire with the limit of the policy revision the scope
  names, turns of other scopes acquire with theirs, leases are released, and anything may fail.
\<close>

inductive lease_step :: "string \<Rightarrow> u64 \<Rightarrow> gateway_db \<Rightarrow> gateway_db \<Rightarrow> bool" for s limit where
  lease_acquire: "acquire_project_concurrency_lease (E :: turn_env) s lease limit expires (w :: gateway_world) = (r, w') \<Longrightarrow>
     lease_step s limit (sw_db w) (sw_db w')"
| lease_acquire_other: "s' \<noteq> s \<Longrightarrow>
     acquire_project_concurrency_lease (E :: turn_env) s' lease limit' expires (w :: gateway_world) = (r, w') \<Longrightarrow>
     lease_step s limit (sw_db w) (sw_db w')"
| lease_release: "release_project_concurrency_lease (E :: turn_env) lease (w :: gateway_world) = (r, w') \<Longrightarrow>
     lease_step s limit (sw_db w) (sw_db w')"
| lease_other: "gd_leases db' = gd_leases db \<Longrightarrow> lease_step s limit db db'"

text \<open>
  C28. The number of leases a project holds under a policy revision never exceeds the policy's
  \<open>max_concurrent_turns\<close>, whatever operations run, on either database, and whatever statement fails.
\<close>

theorem leases_within_limit:
  assumes "(lease_step s limit)\<^sup>*\<^sup>* db db'" "active_leases s db \<le> unat limit"
  shows "active_leases s db' \<le> unat limit"
  using assms
proof (induction rule: rtranclp_induct)
  case (step x y)
  then have x: "active_leases s x \<le> unat limit" by simp
  from step(2) show ?case
  proof cases
    case (lease_acquire E lease expires w r w')
    then show ?thesis using acquire_bound [OF lease_acquire(3), of s] x by simp
  next
    case (lease_acquire_other s' E lease limit' expires w r w')
    then show ?thesis using acquire_bound [OF lease_acquire_other(4), of s] x by simp
  next
    case (lease_release E lease w r w')
    then show ?thesis
      using active_delete [of s lease x] x
      by (auto simp: release_project_concurrency_lease_def sql_update_def elim!: sql_cases)
  next
    case lease_other
    then show ?thesis using x by (simp add: active_leases_def scope_leases_def)
  qed
qed simp

theorem leases_within_limit_witness:
  "\<exists>db'. (lease_step ''s'' 1)\<^sup>*\<^sup>* empty_gateway_db db' \<and> active_leases ''s'' db' \<le> unat (1 :: u64)"
proof -
  obtain r w' where "acquire_project_concurrency_lease sample_turn_env ''s'' ''l'' 1 99 sample_turn_world = (r, w')"
    by fastforce
  from lease_acquire [OF this] have "(lease_step ''s'' 1)\<^sup>*\<^sup>* empty_gateway_db (sw_db w')"
    by (simp add: sample_turn_world_def)
  with leases_within_limit [OF this] show ?thesis
    by (auto simp: active_leases_def scope_leases_def empty_gateway_db_def)
qed

end
