(* ===== verification/GatewayQuotaProps.thy ===== *)
theory GatewayQuotaProps
  imports GatewayLimitsProps
begin

text \<open>
  The daily usage of a project over a turn: what was reserved for it is replaced by what the provider
  reports, or given back, and the lease of the turn is gone afterwards.
\<close>

definition quota_of :: "gateway_db \<Rightarrow> string \<times> string \<times> string \<Rightarrow> int" where
  "quota_of db k = (case gd_quota db k of None \<Rightarrow> 0 | Some u \<Rightarrow> u)"

definition freed :: "string option \<Rightarrow> lease_row list \<Rightarrow> lease_row list" where
  "freed lid ls = (case lid of None \<Rightarrow> ls | Some i \<Rightarrow> filter (\<lambda>l. le_lease_id l \<noteq> i) ls)"

lemma quota_of_upd: "quota_of (db\<lparr>gd_quota := (gd_quota db)(k \<mapsto> v)\<rparr>) = (quota_of db)(k := v)"
  by (auto simp: quota_of_def fun_eq_iff)

lemma quota_of_same: "limits_same db db' \<Longrightarrow> quota_of db' = quota_of db"
  by (simp add: limits_same_def quota_of_def fun_eq_iff)

lemma limits_sameD: "keeps (on_db limits_same) m \<Longrightarrow> m w = (res, w') \<Longrightarrow> limits_same (sw_db w) (sw_db w')"
  by (drule (1) keepsD) (simp add: on_db_def)

lemma stored_gives:
  assumes "gives m w (Inr x) db"
  shows "\<exists>w'. stored r m w = (Inr x, w') \<and> sw_db w' = db"
  using assms by (auto simp: gives_def stored_def pmap_err_def)

section \<open>Settling and giving back\<close>

lemma nat_in_range: "int n < 2 ^ 63 \<Longrightarrow> n < 2 ^ 63"
  by simp

lemma i64_small: "i64_of v = Inr i \<longleftrightarrow> unat v < 2 ^ 63 \<and> i = int (unat v)"
  by (auto simp: i64_of_def)

lemma gives_settle:
  assumes "reliable E" "gd_quota (sw_db w) (p, ws, pr) = Some u"
    "unat reserved < 2 ^ 63" "unat actual < 2 ^ 63" "u + int (unat actual) < 2 ^ 63"
  shows "gives (settle_project_daily_usage E p ws pr reserved actual) w (Inr ())
    ((sw_db w)\<lparr>gd_quota := (gd_quota (sw_db w))((p, ws, pr) \<mapsto>
        max 0 (u + int (unat actual) - int (unat reserved)))\<rparr>)"
proof -
  have "i64_of reserved = Inr (int (unat reserved))" "i64_of actual = Inr (int (unat actual))"
    using assms(3,4) by (simp_all add: i64_small)
  then show ?thesis
    unfolding settle_project_daily_usage_def
    by (simp only: pbind_plift) (rule gives_sql [OF assms(1)], use assms(2,5) in \<open>simp add: settle_tokens_def\<close>)
qed

lemma nat_in_range': "n < 2 ^ 63 \<Longrightarrow> int n < 2 ^ 63"
  by simp

text \<open>The state a turn holds: its reservation is added to the usage \<open>q\<close>, its lease is among \<open>ls\<close>.\<close>

definition holds ::
    "(string \<times> string \<times> string \<Rightarrow> int) \<Rightarrow> lease_row list \<Rightarrow> policy_quota_lease \<Rightarrow> gateway_db \<Rightarrow> bool" where
  "holds q ls lease db \<longleftrightarrow> (let k = (ql_period_utc lease, ql_workspace_id lease, ql_project_id lease) in
     0 \<le> q k \<and> quota_of db = q(k := q k + int (unat (ql_reserved_input_tokens lease))) \<and> gd_leases db = ls)"

definition settled ::
    "(string \<times> string \<times> string \<Rightarrow> int) \<Rightarrow> lease_row list \<Rightarrow> policy_quota_lease \<Rightarrow> int \<Rightarrow> gateway_db \<Rightarrow> bool" where
  "settled q ls lease used db \<longleftrightarrow> (let k = (ql_period_utc lease, ql_workspace_id lease, ql_project_id lease) in
     quota_of db = (if ql_reserved_input_tokens lease = 0 then q else q(k := q k + used))
     \<and> gd_leases db = freed (ql_concurrency_lease_id lease) ls)"

lemma release_lease_frees:
  assumes "reliable E"
  shows "\<exists>w'. release_concurrency_lease E lease r w = (Inr (), w')
    \<and> quota_of (sw_db w') = quota_of (sw_db w)
    \<and> gd_leases (sw_db w') = freed (ql_concurrency_lease_id lease) (gd_leases (sw_db w))"
proof (cases "ql_concurrency_lease_id lease")
  case None
  then show ?thesis by (simp add: release_concurrency_lease_def freed_def)
next
  case (Some i)
  obtain w' where "stored r (release_project_concurrency_lease E i) w = (Inr (), w')"
      "sw_db w' = delete_lease i (sw_db w)"
    using stored_gives [OF gives_update [OF assms]] unfolding release_project_concurrency_lease_def by blast
  with Some show ?thesis
    by (simp add: release_concurrency_lease_def freed_def delete_lease_def quota_of_def fun_eq_iff)
qed

lemma settle_holds:
  assumes E: "reliable E" and h: "holds q ls lease (sw_db w)"
    and b: "q (ql_period_utc lease, ql_workspace_id lease, ql_project_id lease)
        + int (unat (ql_reserved_input_tokens lease)) + int (unat actual) < 2 ^ 63"
  shows "\<exists>w'. pbind (if ql_reserved_input_tokens lease \<noteq> 0
        then stored r (settle_project_daily_usage E (ql_period_utc lease) (ql_workspace_id lease)
               (ql_project_id lease) (ql_reserved_input_tokens lease) actual)
        else pret ()) (\<lambda>_. release_concurrency_lease E lease r) w = (Inr (), w')
    \<and> settled q ls lease (int (unat actual)) (sw_db w')"
proof (cases "ql_reserved_input_tokens lease = 0")
  case True
  with h have "quota_of (sw_db w) = q" "gd_leases (sw_db w) = ls" by (simp_all add: holds_def Let_def)
  with True release_lease_frees [OF E, of lease r w] show ?thesis
    by (auto simp: settled_def Let_def)
next
  case False
  let ?k = "(ql_period_utc lease, ql_workspace_id lease, ql_project_id lease)"
  let ?res = "ql_reserved_input_tokens lease"
  have pos: "0 < int (unat ?res)"
    using False by (simp only: of_nat_0_less_iff unat_gt_0) simp
  have q: "0 \<le> q ?k" "quota_of (sw_db w) = q(?k := q ?k + int (unat ?res))" "gd_leases (sw_db w) = ls"
    using h by (simp_all add: holds_def Let_def)
  then have qk: "quota_of (sw_db w) ?k = q ?k + int (unat ?res)" by simp
  have "gd_quota (sw_db w) ?k \<noteq> None"
  proof
    assume "gd_quota (sw_db w) ?k = None"
    then have "quota_of (sw_db w) ?k = 0" by (simp add: quota_of_def)
    with qk pos q(1) show False by linarith
  qed
  with qk have s: "gd_quota (sw_db w) ?k = Some (q ?k + int (unat ?res))"
    by (auto simp: quota_of_def)
  let ?db = "(sw_db w)\<lparr>gd_quota := (gd_quota (sw_db w))(?k \<mapsto>
        max 0 (q ?k + int (unat ?res) + int (unat actual) - int (unat ?res)))\<rparr>"
  have "gives (settle_project_daily_usage E (ql_period_utc lease) (ql_workspace_id lease)
      (ql_project_id lease) ?res actual) w (Inr ()) ?db"
    using b q(1) by (intro gives_settle [OF E s] nat_in_range) linarith+
  from stored_gives [OF this, of r]
  obtain w1 where w1: "stored r (settle_project_daily_usage E (ql_period_utc lease) (ql_workspace_id lease)
      (ql_project_id lease) ?res actual) w = (Inr (), w1)" "sw_db w1 = ?db"
    by (elim exE conjE) (rule that)
  obtain w2 where w2: "release_concurrency_lease E lease r w1 = (Inr (), w2)"
      "quota_of (sw_db w2) = quota_of (sw_db w1)"
      "gd_leases (sw_db w2) = freed (ql_concurrency_lease_id lease) (gd_leases (sw_db w1))"
    using release_lease_frees [OF E] by blast
  have "quota_of (sw_db w2) = q(?k := q ?k + int (unat actual))"
    using q(1,2) w2(2) by (simp add: w1(2) quota_of_upd)
  with False w1 w2 q(3) show ?thesis by (simp add: settled_def Let_def)
qed

lemma settle_policy_quota_holds:
  assumes "reliable E" "holds q ls lease (sw_db w)"
    "q (ql_period_utc lease, ql_workspace_id lease, ql_project_id lease)
        + int (unat (ql_reserved_input_tokens lease)) + int (unat (us_input_tokens usage)) < 2 ^ 63"
  shows "\<exists>w'. settle_policy_quota E lease usage r w = (Inr (), w')
    \<and> settled q ls lease (int (unat (us_input_tokens usage))) (sw_db w')"
  unfolding settle_policy_quota_def by (rule settle_holds [OF assms])

lemma release_policy_quota_holds:
  assumes "reliable E" "holds q ls lease (sw_db w)"
    "q (ql_period_utc lease, ql_workspace_id lease, ql_project_id lease)
        + int (unat (ql_reserved_input_tokens lease)) < 2 ^ 63"
  shows "\<exists>w'. release_policy_quota E lease r w = (Inr (), w') \<and> settled q ls lease 0 (sw_db w')"
proof -
  have "release_policy_quota E lease r = pbind (if ql_reserved_input_tokens lease \<noteq> 0
        then stored r (settle_project_daily_usage E (ql_period_utc lease) (ql_workspace_id lease)
               (ql_project_id lease) (ql_reserved_input_tokens lease) 0)
        else pret ()) (\<lambda>_. release_concurrency_lease E lease r)"
    unfolding release_policy_quota_def release_policy_quota_reservation_def by simp
  then show ?thesis using settle_holds [OF assms(1,2), of 0 r] assms(3) by simp
qed

section \<open>The usage a turn is charged with\<close>

definition reported :: "turn_env \<Rightarrow> turn_request \<Rightarrow> token_usage \<Rightarrow> bool" where
  "reported E r u \<longleftrightarrow> (\<exists>n q m turn. read_provider_response (se_codec E) r m (te_http E n q) = Inr turn
     \<and> pt_usage turn = u)"

lemma once_reported:
  assumes "call_openai_compatible_once E x r a w = (Inr provider, w')"
  shows "reported E r (pt_usage provider)"
  using assms unfolding call_openai_compatible_once_def reported_def
  by (auto elim!: pbind_cases simp: http_exchange_def) blast

lemma retry_reported:
  "retry_loop E x r a n left w = (Inr provider, w') \<Longrightarrow> reported E r (pt_usage provider)"
proof (induction left arbitrary: n w)
  case (0 n w)
  then show ?case
    by (subst (asm) retry_loop.simps)
       (auto elim!: pbind_cases simp: pattempt_def once_reported split: prod.splits sum.splits bool.splits)
next
  case (Suc left n w)
  from Suc(2) show ?case
    by (subst (asm) retry_loop.simps)
       (auto elim!: pbind_cases simp: pattempt_def once_reported Let_def Suc(1)
         split: prod.splits sum.splits bool.splits if_splits)
qed

lemma call_reported:
  assumes "call_with_permit E x r w = (Inr provider, w')"
  shows "reported E r (pt_usage provider)"
  using assms
  unfolding call_with_permit_def call_resource_def call_openai_compatible_def
  by (auto elim!: pbind_cases simp: retry_reported split: model_resource_kind.splits if_splits)

section \<open>Trying the candidates\<close>

definition usage_bounded :: "turn_env \<Rightarrow> turn_request \<Rightarrow> int \<Rightarrow> bool" where
  "usage_bounded E r b \<longleftrightarrow> (\<forall>u. reported E r u \<longrightarrow> b + int (unat (us_input_tokens u)) < 2 ^ 63)"

lemma holds_same: "holds q ls lease a \<Longrightarrow> limits_same a b \<Longrightarrow> holds q ls lease b"
  by (simp add: holds_def quota_of_same Let_def) (simp add: limits_same_def)

lemma record_keeps_limits:
  "keeps (on_db limits_same) (record_resource_success E x r)"
  "keeps (on_db limits_same) (if b then record_resource_retryable_failure E x r else pret ())"
  by (intro keeps_cases limits.keeps_health_calls keeps_pure limits.order)+

lemma try_candidates_accounts:
  assumes E: "reliable E" "others_within limits_same E"
    and b: "usage_bounded E r (q (ql_period_utc lease, ql_workspace_id lease, ql_project_id lease)
              + int (unat (ql_reserved_input_tokens lease)))"
    and b0: "q (ql_period_utc lease, ql_workspace_id lease, ql_project_id lease)
              + int (unat (ql_reserved_input_tokens lease)) < 2 ^ 63"
  shows "holds q ls lease (sw_db w) \<Longrightarrow>
    try_candidates E r policy reason lease n p le xs w = (res, w') \<Longrightarrow>
    settled q ls lease (case res of Inl _ \<Rightarrow> 0 | Inr resp \<Rightarrow> int (unat (us_input_tokens (gt_usage resp)))) (sw_db w')"
proof (induction xs arbitrary: w n p le)
  case (Nil w)
  obtain w1 where "release_policy_quota E lease r w = (Inr (), w1)" "settled q ls lease 0 (sw_db w1)"
    using release_policy_quota_holds [OF E(1) Nil(1) b0] by blast
  with Nil(2) show ?case by auto
next
  case (Cons x xs w)
  obtain call w1 where c: "call_with_permit E x r w = (call, w1)" by fastforce
  have h1: "holds q ls lease (sw_db w1)"
    using Cons(2) limits_sameD [OF limits.keeps_call [OF E(2)] c] by (rule holds_same)
  have give_back: "settled q ls lease 0 (sw_db w')"
    if "pbind (release_policy_quota E lease r) (\<lambda>_. praise e) w2 = (res, w')" "holds q ls lease (sw_db w2)"
    for e w2
  proof -
    note run = that
    obtain w3 where "release_policy_quota E lease r w2 = (Inr (), w3)" "settled q ls lease 0 (sw_db w3)"
      using release_policy_quota_holds [OF E(1) run(2) b0] by blast
    with run(1) show ?thesis by auto
  qed
  have gave: "res = Inl e" if "pbind (release_policy_quota E lease r) (\<lambda>_. praise e) w2 = (res, w')"
    "holds q ls lease (sw_db w2)" for e w2
  proof -
    note run = that
    obtain w3 where "release_policy_quota E lease r w2 = (Inr (), w3)"
      using release_policy_quota_holds [OF E(1) run(2) b0] by blast
    with run(1) show ?thesis by auto
  qed
  show ?case
  proof (cases call)
    case (Inr provider)
    obtain rec w2 where r2: "record_resource_success E x r w1 = (rec, w2)" by fastforce
    have h2: "holds q ls lease (sw_db w2)"
      using h1 limits_sameD [OF record_keeps_limits(1) r2] by (rule holds_same)
    show ?thesis
    proof (cases rec)
      case (Inl e)
      with Cons(3) c r2 Inr have "pbind (release_policy_quota E lease r) (\<lambda>_. praise e) w2 = (res, w')"
        by (simp add: pattempt_def)
      from give_back [OF this h2] gave [OF this h2] show ?thesis by simp
    next
      case (Inr u)
      have "reported E r (pt_usage provider)" using c \<open>call = Inr provider\<close> by (simp add: call_reported)
      then obtain w3 where w3: "settle_policy_quota E lease (pt_usage provider) r w2 = (Inr (), w3)"
          "settled q ls lease (int (unat (us_input_tokens (pt_usage provider)))) (sw_db w3)"
        using settle_policy_quota_holds [OF E(1) h2] b unfolding usage_bounded_def by blast
      with Cons(3) c r2 Inr \<open>call = Inr provider\<close> show ?thesis
        by (auto simp: pattempt_def build_turn_response_def)
    qed
  next
    case (Inl e)
    obtain rec w2 where r2: "(if is_retryable_upstream e then record_resource_retryable_failure E x r
        else pret ()) w1 = (rec, w2)" by fastforce
    have h2: "holds q ls lease (sw_db w2)"
      using h1 limits_sameD [OF record_keeps_limits(2) r2] by (rule holds_same)
    show ?thesis
    proof (cases rec)
      case (Inl e')
      with Cons(3) c r2 \<open>call = Inl e\<close> have "pbind (release_policy_quota E lease r) (\<lambda>_. praise e') w2 = (res, w')"
        by (simp add: pattempt_def)
      from give_back [OF this h2] gave [OF this h2] show ?thesis by simp
    next
      case (Inr u)
      show ?thesis
      proof (cases "may_switch policy n xs e")
        case True
        with Cons(3) c r2 Inr \<open>call = Inl e\<close>
        have "try_candidates E r policy reason lease (Suc n) (Some (mr_id x)) (Some e) xs w2 = (res, w')"
          by (simp add: pattempt_def)
        from Cons(1) [OF h2 this] show ?thesis .
      next
        case False
        with Cons(3) c r2 Inr \<open>call = Inl e\<close>
        have "pbind (release_policy_quota E lease r) (\<lambda>_. praise e) w2 = (res, w')"
          by (simp add: pattempt_def)
        from give_back [OF this h2] gave [OF this h2] show ?thesis by simp
      qed
    qed
  qed
qed

section \<open>Acquiring the quota\<close>

lemma reliable_sql:
  assumes "reliable E" "sql E f w = (res, w')"
  obtains "f (sw_db w) = None" "res = Inl Statement_failed" "sw_db w' = sw_db w"
    | x where "f (sw_db w) = Some (x, sw_db w')" "res = Inr x"
  using assms by (auto simp: reliable_def sql_def Let_def split: option.splits)

lemma reserve_tokens_quota:
  assumes "reserve_tokens b k n limit db = Some (x, db')"
  shows "x = 1 \<and> quota_of db' = (quota_of db)(k := quota_of db k + n) \<and> quota_of db k + n \<le> limit
    \<or> x = 0 \<and> db' = db"
  using assms
  by (auto simp: reserve_tokens_def quota_of_def fun_eq_iff split: if_splits option.splits)

lemma reserve_input_result:
  assumes E: "reliable E" and run: "reserve_input_tokens E policy r period w = (res, w')"
  shows "gd_leases (sw_db w') = gd_leases (sw_db w) \<and> (case res of
      Inl _ \<Rightarrow> quota_of (sw_db w') = quota_of (sw_db w)
    | Inr v \<Rightarrow> (let k = (period, ts_workspace_id (gr_scope r), ts_project_id (gr_scope r)) in
         v = (if ml_daily_input_tokens (mp_limits policy) = None then 0 else estimate_input_tokens E (gr_input r))
       \<and> quota_of (sw_db w') = (quota_of (sw_db w))(k := quota_of (sw_db w) k + int (unat v))
       \<and> (v = 0 \<or> quota_of (sw_db w) k + int (unat v) < 2 ^ 63)))"
proof (cases "ml_daily_input_tokens (mp_limits policy)")
  case None
  with run show ?thesis by (auto simp: reserve_input_tokens_def Let_def)
next
  case (Some limit)
  let ?k = "(period, ts_workspace_id (gr_scope r), ts_project_id (gr_scope r))"
  let ?v = "estimate_input_tokens E (gr_input r)"
  obtain a w1 where a: "reserve_project_daily_input_tokens E period (ts_workspace_id (gr_scope r))
      (ts_project_id (gr_scope r)) ?v limit w = (a, w1)" by fastforce
  have leases: "gd_leases (sw_db w1) = gd_leases (sw_db w)"
    using keepsD [OF keeps_reserve_tokens a] by (simp add: within_def only_quota_def gateway_db_eq_iff)
  have w': "w' = w1"
    using run Some a
    by (cases a) (auto simp: reserve_input_tokens_def Let_def stored_def pmap_err_def pbind_def split: if_splits)
  have main: "case a of Inl _ \<Rightarrow> quota_of (sw_db w1) = quota_of (sw_db w)
    | Inr True \<Rightarrow> quota_of (sw_db w1) = (quota_of (sw_db w))(?k := quota_of (sw_db w) ?k + int (unat ?v))
        \<and> quota_of (sw_db w) ?k + int (unat ?v) < 2 ^ 63
    | Inr False \<Rightarrow> quota_of (sw_db w1) = quota_of (sw_db w)"
  proof (cases "i64_of ?v")
    case (Inl e)
    with a show ?thesis by (auto simp: reserve_project_daily_input_tokens_def pbind_plift)
  next
    case v: (Inr n)
    show ?thesis
    proof (cases "i64_of limit")
      case (Inl e)
      with a v show ?thesis by (auto simp: reserve_project_daily_input_tokens_def pbind_plift)
    next
      case l: (Inr lim)
      have n: "n = int (unat ?v)" and lim: "lim < 2 ^ 63"
        using v l nat_in_range' by (simp_all only: i64_small)
      from a have "pbind (sql E (reserve_tokens (se_backend E) ?k n lim))
          (\<lambda>affected. pret (affected = 1)) w = (a, w1)"
        by (simp only: reserve_project_daily_input_tokens_def v l pbind_plift)
      then show ?thesis
      proof (cases rule: pbind_cases)
        case (1 e w2)
        from 1(1) show ?thesis
          by (rule reliable_sql [OF E]) (use 1 in auto)
      next
        case (2 x w2)
        from 2(1) obtain "reserve_tokens (se_backend E) ?k n lim (sw_db w) = Some (x, sw_db w2)"
          by (rule reliable_sql [OF E]) auto
        from reserve_tokens_quota [OF this] 2(2) show ?thesis
          using n lim by auto
      qed
    qed
  qed
  show ?thesis
  proof (cases a)
    case (Inl e)
    with run Some a have "\<exists>e'. res = Inl e'"
      by (auto simp: reserve_input_tokens_def Let_def stored_def pmap_err_def pbind_def)
    with Inl main leases w' show ?thesis by auto
  next
    case (Inr ok)
    with run Some a have "res = (if ok then Inr ?v else Inl (quota_exceeded r
        ''The project daily input token quota is exhausted''))"
      by (auto simp: reserve_input_tokens_def Let_def stored_def pmap_err_def pbind_def split: if_splits)
    with Inr main leases w' Some show ?thesis by (cases ok) (simp_all add: Let_def)
  qed
qed

text \<open>The leases after an acquisition: none of the turn's own unless it was acquired.\<close>

definition no_lease :: "string \<Rightarrow> gateway_db \<Rightarrow> bool" where
  "no_lease i db \<longleftrightarrow> (\<forall>l \<in> set (gd_leases db). le_lease_id l \<noteq> i)"

lemma acquire_statements_refused:
  assumes "acquire_lease_statements E s i limit ex w = (Inr False, w')" "no_lease i (sw_db w)"
  shows "no_lease i (sw_db w')"
  using assms unfolding acquire_lease_statements_def
  by (auto elim!: pbind_cases sql_cases
      simp: utc_now_def sql_update_def sql_query_def no_lease_def delete_expired_leases_def split: if_splits) blast+

text \<open>Operations that answer when every statement works.\<close>

definition answers :: "('w, 'e, 'a) proc \<Rightarrow> bool" where
  "answers m \<longleftrightarrow> (\<forall>w. \<exists>x w'. m w = (Inr x, w'))"

lemma answers_pure: "answers (pret x)" "answers (utc_now E)"
  by (simp_all add: answers_def utc_now_def)

lemma answers_sql: "reliable E \<Longrightarrow> answers (sql_query E f)" "reliable E \<Longrightarrow> answers (sql_update E g)"
  by (simp_all add: answers_def reliable_def sql_query_def sql_update_def sql_def Let_def)

lemma answers_bind:
  assumes "answers m" "\<And>x. answers (f x)"
  shows "answers (pbind m f)"
  unfolding answers_def
proof
  fix w
  obtain x w1 where 1: "m w = (Inr x, w1)" using assms(1) unfolding answers_def by (elim allE exE) (rule that)
  obtain y w2 where "f x w1 = (Inr y, w2)" using assms(2) unfolding answers_def by blast
  with 1 show "\<exists>x w'. pbind m f w = (Inr x, w')" by simp
qed

lemma answers_if: "answers a \<Longrightarrow> answers b \<Longrightarrow> answers (if c then a else b)"
  by simp

lemma answers_transaction:
  assumes "reliable E" "answers m"
  shows "answers (pg_transaction E m)"
  unfolding answers_def
proof
  fix w
  have "answers (pbind (sql_update E (\<lambda>db. db)) (\<lambda>_. m))"
    by (intro answers_bind answers_sql assms)
  then obtain x w1 where "pbind (sql_update E (\<lambda>db. db)) (\<lambda>_. m) w = (Inr x, w1)"
    unfolding answers_def by (elim allE exE) (rule that)
  with assms(1) show "\<exists>x w'. pg_transaction E m w = (Inr x, w')"
    by (simp add: pg_transaction_def reliable_def)
qed

lemma acquire_answers: "reliable E \<Longrightarrow> answers (acquire_project_concurrency_lease E s i limit ex)"
  unfolding acquire_project_concurrency_lease_def acquire_lease_statements_def
  by (cases "se_backend E"; simp only: persistent_store.case)
     (intro answers_transaction answers_bind answers_sql answers_pure answers_if; assumption)+

lemma transaction_result:
  assumes "pg_transaction E m w = (Inr x, w')"
  shows "\<exists>w0 w1. sw_db w0 = sw_db w \<and> m w0 = (Inr x, w1) \<and> sw_db w' = sw_db w1"
proof -
  obtain a w1 where a: "pbind (sql_update E (\<lambda>db. db)) (\<lambda>_. m) w = (a, w1)" by fastforce
  with assms have r: "a = Inr x" "sw_db w' = sw_db w1"
    by (auto simp: pg_transaction_def split: sum.splits stmt_outcome.splits)
  from a show ?thesis
  proof (cases rule: pbind_cases)
    case (1 e w2)
    with r show ?thesis by simp
  next
    case (2 u w2)
    from 2(1) have "sw_db w2 = sw_db w" by (auto simp: sql_update_def elim!: sql_cases)
    with 2(2) r show ?thesis by blast
  qed
qed

lemma acquire_refused:
  assumes "acquire_project_concurrency_lease E s i limit ex w = (Inr False, w')" "no_lease i (sw_db w)"
  shows "no_lease i (sw_db w')"
proof (cases "se_backend E")
  case Sqlite
  with assms show ?thesis
    by (simp add: acquire_project_concurrency_lease_def acquire_statements_refused)
next
  case Postgres
  let ?m = "pbind (sql_update E (\<lambda>db. db)) (\<lambda>_. acquire_lease_statements E s i limit ex)"
  from Postgres assms(1) have "pg_transaction E ?m w = (Inr False, w')"
    by (simp add: acquire_project_concurrency_lease_def)
  from transaction_result [OF this] show ?thesis
  proof (elim exE conjE)
    fix w0 w1
    assume h: "sw_db w0 = sw_db w" "?m w0 = (Inr False, w1)" "sw_db w' = sw_db w1"
    from h(2) show ?thesis
    proof (cases rule: pbind_cases)
      case (2 u w2)
      from 2(1) h(1) have "sw_db w2 = sw_db w" by (auto simp: sql_update_def elim!: sql_cases)
      with 2(2) assms(2) h(3) show ?thesis using acquire_statements_refused by metis
    qed simp
  qed
qed

lemma acquire_lease_quota:
  assumes "acquire_project_concurrency_lease E s i limit ex w = (res, w')"
  shows "quota_of (sw_db w') = quota_of (sw_db w)"
  using keepsD [OF keeps_acquire_lease assms]
  by (simp add: within_def only_leases_def gateway_db_eq_iff quota_of_def fun_eq_iff)

text \<open>What an acquisition leaves, by its answer.\<close>

definition acquired ::
    "turn_env \<Rightarrow> model_selection_policy \<Rightarrow> turn_request \<Rightarrow> string
      \<Rightarrow> (string \<times> string \<times> string \<Rightarrow> int) \<Rightarrow> gateway_api_error + policy_quota_lease \<Rightarrow> gateway_db \<Rightarrow> bool" where
  "acquired E policy r period q res db = (case res of
      Inl _ \<Rightarrow> quota_of db = q \<and> no_lease (turn_key r) db
    | Inr lease \<Rightarrow>
        holds q (gd_leases db) lease db
        \<and> (\<forall>l \<in> set (freed (ql_concurrency_lease_id lease) (gd_leases db)). le_lease_id l \<noteq> turn_key r)
        \<and> (ql_period_utc lease, ql_workspace_id lease, ql_project_id lease)
          = (period, ts_workspace_id (gr_scope r), ts_project_id (gr_scope r))
        \<and> ql_reserved_input_tokens lease = (if ml_daily_input_tokens (mp_limits policy) = None then 0
            else estimate_input_tokens E (gr_input r)))"

lemma give_back_holds:
  assumes E: "reliable E" and q: "0 \<le> q (p, ws, pr)" "n = 0 \<or> q (p, ws, pr) + int (unat n) < 2 ^ 63"
    and w: "quota_of (sw_db w) = q((p, ws, pr) := q (p, ws, pr) + int (unat n))"
  shows "\<exists>w'. release_policy_quota_reservation E p ws pr n r w = (Inr (), w') \<and> quota_of (sw_db w') = q
    \<and> gd_leases (sw_db w') = gd_leases (sw_db w)"
proof (cases "n = 0")
  case True
  with w show ?thesis by (simp add: release_policy_quota_reservation_def)
next
  case False
  define lease where "lease = \<lparr>ql_period_utc = p, ql_workspace_id = ws, ql_project_id = pr,
      ql_reserved_input_tokens = n, ql_concurrency_lease_id = None\<rparr>"
  have h: "holds q (gd_leases (sw_db w)) lease (sw_db w)"
    using q(1) w by (simp add: holds_def lease_def)
  have b: "q (ql_period_utc lease, ql_workspace_id lease, ql_project_id lease)
        + int (unat (ql_reserved_input_tokens lease)) < 2 ^ 63"
    using q(2) False by (simp add: lease_def)
  obtain w' where w': "release_policy_quota E lease r w = (Inr (), w')"
      "settled q (gd_leases (sw_db w)) lease 0 (sw_db w')"
    using release_policy_quota_holds [OF E h b] by blast
  have "release_policy_quota_reservation E p ws pr n r w = (Inr (), w')"
    using w'(1) unfolding release_policy_quota_def release_concurrency_lease_def lease_def
    by (auto elim!: pbind_cases)
  with w'(2) show ?thesis by (auto simp: settled_def lease_def freed_def Let_def)
qed

lemma gave_back:
  assumes "pbind (release_policy_quota_reservation E p ws pr n r) (\<lambda>_. praise e) w = (res, w')"
    "reliable E" "0 \<le> q (p, ws, pr)" "n = 0 \<or> q (p, ws, pr) + int (unat n) < 2 ^ 63"
    "quota_of (sw_db w) = q((p, ws, pr) := q (p, ws, pr) + int (unat n))"
    "no_lease (turn_key r) (sw_db w)"
  shows "acquired E policy r period q res (sw_db w')"
proof -
  obtain w1 where "release_policy_quota_reservation E p ws pr n r w = (Inr (), w1)"
      "quota_of (sw_db w1) = q" "gd_leases (sw_db w1) = gd_leases (sw_db w)"
    using give_back_holds [OF assms(2-5)] by blast
  with assms(1,6) show ?thesis by (auto simp: acquired_def no_lease_def)
qed

lemma lease_expiry_answers: "\<exists>t w'. lease_expiry E r w = (Inr t, w') \<and> sw_db w' = sw_db w"
  by (cases "ge_rfc3339 E (gr_deadline_at r)") (simp_all add: lease_expiry_def utc_now_def)

lemma acquire_policy_quota_result:
  assumes E: "reliable E" and q: "\<And>k. 0 \<le> quota_of (sw_db w) k" and none: "no_lease (turn_key r) (sw_db w)"
    and run: "acquire_policy_quota E policy r w = (res, w')"
  shows "acquired E policy r (te_period E (se_clock E (sw_reads w))) (quota_of (sw_db w)) res (sw_db w')"
proof -
  let ?p = "te_period E (se_clock E (sw_reads w))"
  let ?ws = "ts_workspace_id (gr_scope r)" and ?pr = "ts_project_id (gr_scope r)"
  let ?q = "quota_of (sw_db w)"
  let ?w0 = "w\<lparr>sw_reads := Suc (sw_reads w)\<rparr>"
  obtain a w1 where a: "reserve_input_tokens E policy r ?p ?w0 = (a, w1)" by fastforce
  note res1 = reserve_input_result [OF E a]
  have none1: "no_lease (turn_key r) (sw_db w1)" using res1 none by (simp add: no_lease_def)
  show ?thesis
  proof (cases a)
    case (Inl e)
    with run a have "res = Inl e" "w' = w1"
      by (auto simp: acquire_policy_quota_def utc_now_def Let_def)
    with res1 none1 Inl show ?thesis by (simp add: acquired_def)
  next
    case (Inr v)
    have db0: "sw_db ?w0 = sw_db w" by simp
    have gained: "v = (if ml_daily_input_tokens (mp_limits policy) = None then 0 else estimate_input_tokens E (gr_input r))
        \<and> quota_of (sw_db w1) = ?q((?p, ?ws, ?pr) := ?q (?p, ?ws, ?pr) + int (unat v))
        \<and> (v = 0 \<or> ?q (?p, ?ws, ?pr) + int (unat v) < 2 ^ 63)"
      using res1 unfolding Inr db0 sum.case Let_def by (rule conjunct2)
    note v = conjunct1 [OF gained] and qv = conjunct1 [OF conjunct2 [OF gained]] and small = conjunct2 [OF conjunct2 [OF gained]]
    let ?lease = "\<lambda>l. \<lparr>ql_period_utc = ?p, ql_workspace_id = ?ws, ql_project_id = ?pr,
                    ql_reserved_input_tokens = v, ql_concurrency_lease_id = l\<rparr>"
    have got: "acquired E policy r ?p ?q (Inr (?lease l)) (sw_db w2)"
      if "quota_of (sw_db w2) = quota_of (sw_db w1)"
        "\<forall>x \<in> set (freed l (gd_leases (sw_db w2))). le_lease_id x \<noteq> turn_key r" for l w2
      using that q [of "(?p, ?ws, ?pr)"] qv v by (simp add: acquired_def holds_def)
    have returned: "acquired E policy r ?p ?q res (sw_db w')"
      if "pbind (release_policy_quota_reservation E ?p ?ws ?pr v r) (\<lambda>_. praise e) w2 = (res, w')"
        "quota_of (sw_db w2) = quota_of (sw_db w1)" "no_lease (turn_key r) (sw_db w2)" for e w2
      using gave_back [where q = ?q, OF that(1) E q small _ that(3)] that(2) qv by simp
    show ?thesis
    proof (cases "ml_max_concurrent_turns (mp_limits policy)")
      case None
      with run a Inr have "res = Inr (?lease None)" "w' = w1"
        by (auto simp: acquire_policy_quota_def utc_now_def Let_def)
      with got [of w1 None] none1 show ?thesis by (simp add: freed_def no_lease_def)
    next
      case (Some limit)
      show ?thesis
      proof (cases "limit = 0")
        case True
        with run a Inr Some have "pbind (release_policy_quota_reservation E ?p ?ws ?pr v r)
            (\<lambda>_. praise (quota_exceeded r ''The project is not allowed to start model turns'')) w1 = (res, w')"
          by (simp add: acquire_policy_quota_def utc_now_def Let_def)
        then show ?thesis by (rule returned) (simp_all add: none1)
      next
        case False
        obtain t w2 where t: "lease_expiry E r w1 = ((Inr t :: gateway_api_error + int), w2)" "sw_db w2 = sw_db w1"
          using lease_expiry_answers by blast
        obtain ok w3 where ok: "acquire_project_concurrency_lease E (lease_scope policy r) (turn_key r) limit t w2
            = (Inr ok, w3)"
          using acquire_answers [OF E] unfolding answers_def by blast
        have q3: "quota_of (sw_db w3) = quota_of (sw_db w1)"
          using acquire_lease_quota [OF ok] t(2) by simp
        show ?thesis
        proof (cases ok)
          case True
          with run a Inr Some False t ok have "res = Inr (?lease (Some (turn_key r)))" "w' = w3"
            by (simp_all add: acquire_policy_quota_def utc_now_def Let_def stored_def pmap_err_def)
          with got [OF q3, of "Some (turn_key r)"] show ?thesis by (simp add: freed_def)
        next
          case F: False
          with run a Inr Some False t ok have "pbind (release_policy_quota_reservation E ?p ?ws ?pr v r)
              (\<lambda>_. praise (gateway_overloaded r ''The project is at concurrent turn capacity'')) w3 = (res, w')"
            by (simp add: acquire_policy_quota_def utc_now_def Let_def stored_def pmap_err_def)
          then show ?thesis
            by (rule returned) (use q3 acquire_refused [of E "lease_scope policy r" "turn_key r" limit t w2 w3]
                ok F none1 t(2) in simp_all)
        qed
      qed
    qed
  qed
qed

section \<open>A turn that succeeds\<close>

lemma live_reliable: "reliable live_env"
  by (simp add: reliable_def live_env_def sample_turn_env_def)

lemma live_others: "reflp Q \<Longrightarrow> others_within Q live_env"
  by (simp add: others_within_def live_env_def sample_turn_env_def reflp_def)

lemma live_new_turn:
  "\<exists>resp w'. execute_new_turn live_env sample_turn_request live_world = (Inr resp, w') \<and> us_input_tokens (gt_usage resp) = 7"
proof -
  have "\<exists>w'. allowed_by_circuit live_env sample_turn_request [live_resource] live_world = (Inr [live_resource], w')
    \<and> sw_reads w' = 1 \<and> sw_db w' = empty_gateway_db \<and> gw_bulkheads w' = (\<lambda>_. None)"
   by (simp add: resource_circuit_allows_def utc_now_def stored_def pmap_err_def circuit_allows_def live_env_def sample_turn_env_def sqlite_circuit_allows_def
      live_resource_def i64_of_def pbind_plift sql_query_def sql_def live_world_def sample_turn_world_def empty_gateway_db_def Let_def)
  then obtain w1 where w1: "allowed_by_circuit live_env sample_turn_request [live_resource] live_world = (Inr [live_resource], w1)"
    "sw_reads w1 = 1" "sw_db w1 = empty_gateway_db" "gw_bulkheads w1 = (\<lambda>_. None)" by blast
  have "\<exists>l w2. acquire_policy_quota live_env live_policy sample_turn_request w1 = (Inr l, w2) \<and> sw_reads w2 = 3 \<and> gw_bulkheads w2 = (\<lambda>_. None)"
    using w1(2-)
   apply (simp add: acquire_policy_quota_def utc_now_def reserve_input_tokens_def live_policy_def stored_def pmap_err_def reserve_project_daily_input_tokens_def
     pbind_plift i64_of_def estimate_input_tokens_def live_env_def sample_turn_env_def sample_codec_def Let_def sql_def reserve_tokens_def empty_gateway_db_def
     lease_expiry_def acquire_project_concurrency_lease_def acquire_lease_statements_def sql_update_def sql_query_def lease_limit_reached_def
     delete_expired_leases_def scope_leases_def sample_turn_request_def)
   done
  then obtain l w2 where w2: "acquire_policy_quota live_env live_policy sample_turn_request w1 = (Inr l, w2)" 
     "sw_reads w2 = 3" "gw_bulkheads w2 = (\<lambda>_. None)" by blast
  obtain w3 where w3: "call_with_permit live_env live_resource sample_turn_request w2 = (Inr live_turn, w3)"
    using live_call [of w2] w2(2,3) by auto
  have rel: "se_stmt live_env n = Stmt_done" "se_backend live_env = Sqlite" for n by (simp_all add: live_env_def sample_turn_env_def)
  have "\<exists>w4. record_resource_success live_env live_resource sample_turn_request w3 = (Inr (), w4)"
    by (simp add: record_resource_success_def record_success_def live_resource_def i64_of_def pbind_plift stored_def pmap_err_def sql_update_def
      sql_def rel Let_def)
  then obtain w4 where w4: "record_resource_success live_env live_resource sample_turn_request w3 = (Inr (), w4)" by blast
  have run: "execute_new_turn live_env sample_turn_request live_world
      = try_candidates live_env sample_turn_request live_policy ''automatic_selection'' l 0 None None [live_resource] w2"
    using live_policy_resolved live_selected live_usable
    by (simp add: execute_new_turn_def pbind_plift Let_def w1(1) w2(1) del: try_candidates.simps allowed_by_circuit.simps)
  have q: "quota_of (sw_db w1) = (\<lambda>_. 0)" "no_lease (turn_key sample_turn_request) (sw_db w1)"
    using w1(3) by (simp_all add: quota_of_def empty_gateway_db_def no_lease_def fun_eq_iff)
  have acq: "acquired live_env live_policy sample_turn_request
      (te_period live_env (se_clock live_env (sw_reads w1))) (\<lambda>_. 0) (Inr l) (sw_db w2)"
    using acquire_policy_quota_result [OF live_reliable _ q(2) w2(1)] unfolding q(1) by simp
  then have h2: "holds (\<lambda>_. 0) (gd_leases (sw_db w2)) l (sw_db w2)"
    and v: "ql_reserved_input_tokens l = 1"
    by (simp_all add: acquired_def live_policy_def live_env_def sample_turn_env_def sample_codec_def
        estimate_input_tokens_def)
  have h4: "holds (\<lambda>_. 0) (gd_leases (sw_db w2)) l (sw_db w4)"
    using holds_same [OF holds_same [OF h2 limits_sameD [OF limits.keeps_call [OF live_others [OF limits.reflQ]] w3]]
        limits_sameD [OF record_keeps_limits(1) w4]] .
  obtain w5 where w5: "settle_policy_quota live_env l (pt_usage live_turn) sample_turn_request w4 = (Inr (), w5)"
    using settle_policy_quota_holds [OF live_reliable h4, of "pt_usage live_turn" sample_turn_request] v
    by (auto simp: live_turn_def)
  show ?thesis
    unfolding run by (simp add: pattempt_def w3 w4 w5 build_turn_response_def) (simp add: live_turn_def)
qed


section \<open>A turn accounts for its usage\<close>

text \<open>
  What a new turn must leave: nothing when it fails, and what the provider reported when it succeeds and
  its policy counts daily tokens.
\<close>

definition charged ::
    "turn_env \<Rightarrow> model_selection_policy \<Rightarrow> turn_request \<Rightarrow> string \<Rightarrow> gateway_api_error + turn_response
      \<Rightarrow> (string \<times> string \<times> string \<Rightarrow> int) \<Rightarrow> string \<times> string \<times> string \<Rightarrow> int" where
  "charged E policy r period res q = (case res of
      Inl _ \<Rightarrow> q
    | Inr resp \<Rightarrow>
        if ml_daily_input_tokens (mp_limits policy) = None \<or> estimate_input_tokens E (gr_input r) = 0 then q
        else (let k = (period, ts_workspace_id (gr_scope r), ts_project_id (gr_scope r)) in
          q(k := q k + int (unat (us_input_tokens (gt_usage resp))))))"

lemma settled_charged:
  assumes "settled q ls lease (case res of Inl _ \<Rightarrow> 0 | Inr resp \<Rightarrow> int (unat (us_input_tokens (gt_usage resp)))) db"
    "(ql_period_utc lease, ql_workspace_id lease, ql_project_id lease)
       = (period, ts_workspace_id (gr_scope r), ts_project_id (gr_scope r))"
    "ql_reserved_input_tokens lease = (if ml_daily_input_tokens (mp_limits policy) = None then 0
       else estimate_input_tokens E (gr_input r))"
    "\<forall>l \<in> set (freed (ql_concurrency_lease_id lease) ls). le_lease_id l \<noteq> turn_key r"
  shows "quota_of db = charged E policy r period res q \<and> no_lease (turn_key r) db"
  using assms by (cases res) (auto simp: settled_def charged_def no_lease_def Let_def)

lemma execute_new_turn_cases:
  assumes "execute_new_turn E r w = (res, w')" "resolve_policy (gw_policies w) (gr_scope r) = Some policy"
  obtains (stopped) e where "res = Inl e" "on_db limits_same w w'"
    | (acquiring) w1 xs reason a w2 where "on_db limits_same w w1" "acquire_policy_quota E policy r w1 = (a, w2)"
        "(case a of Inl e \<Rightarrow> (Inl e, w2) | Inr lease \<Rightarrow> try_candidates E r policy reason lease 0 None None xs w2)
          = (res, w')"
proof -
  have refl: "on_db limits_same w w" using limits.order(1) by (simp add: reflp_def)
  show ?thesis
  proof (cases "select_candidates E policy (gw_resources w) r")
    case (Inl e)
    with assms have "res = Inl e" "w' = w" by (auto simp: execute_new_turn_def pbind_plift)
    with refl show ?thesis by (intro stopped) simp_all
  next
    case (Inr cr)
    obtain candidates reason where cr: "cr = (candidates, reason)" by (cases cr)
    let ?capable = "filter (usable r) candidates"
    show ?thesis
    proof (cases "?capable = []")
      case True
      with assms Inr cr have "\<exists>e. res = Inl e" "w' = w"
        by (auto simp: execute_new_turn_def pbind_plift Let_def)
      with refl show ?thesis by (auto intro: stopped)
    next
      case False
      obtain b w1 where b: "allowed_by_circuit E r ?capable w = (b, w1)" by fastforce
      have w1: "on_db limits_same w w1" using limits.keeps_allowed_by_circuit b by (rule keepsD)
      show ?thesis
      proof (cases b)
        case (Inl e)
        with assms Inr cr False b have "res = Inl e" "w' = w1"
          by (auto simp: execute_new_turn_def pbind_plift Let_def)
        with w1 show ?thesis by (intro stopped) simp_all
      next
        case xs: (Inr xs)
        obtain a w2 where a: "acquire_policy_quota E policy r w1 = (a, w2)" by fastforce
        show ?thesis
        proof (cases "xs = []")
          case True
          with assms Inr cr False b xs have "\<exists>e. res = Inl e" "w' = w1"
            by (auto simp: execute_new_turn_def pbind_plift Let_def)
          with w1 show ?thesis by (auto intro: stopped)
        next
          case ne: False
          with assms Inr cr False b xs a
          have "(case a of Inl e \<Rightarrow> (Inl e, w2)
              | Inr lease \<Rightarrow> try_candidates E r policy reason lease 0 None None xs w2) = (res, w')"
            by (cases a) (auto simp: execute_new_turn_def pbind_plift Let_def)
          with w1 a show ?thesis by (rule acquiring)
        qed
      qed
    qed
  qed
qed



end
