(* ===== verification/GatewaySendProps.thy ===== *)
theory GatewaySendProps
  imports GatewayQuotaProps GatewayTurnProps
begin

text \<open>
  What a turn sends: to whom, how often, and with how much time, whatever the provider, the network and the
  database answer.
\<close>

section \<open>Requests sent\<close>

text \<open>At most \<open>n\<close> requests, each of them good.\<close>

definition sends :: "nat \<Rightarrow> (http_request \<Rightarrow> bool) \<Rightarrow> (gateway_world, 'e, 'a) proc \<Rightarrow> bool" where
  "sends n good m \<longleftrightarrow> (\<forall>w. \<exists>qs. gw_http_log (snd (m w)) = gw_http_log w @ qs \<and> length qs \<le> n
     \<and> (\<forall>q \<in> set qs. good q))"

named_theorems sends_rules \<open>a procedure sends what its parts send\<close>

lemma sends_silent: "keeps same_log m \<Longrightarrow> sends n good m"
  by (simp add: keeps_def same_log_def sends_def)

lemma sends_pure [sends_rules]: "sends n good (pret x)" "sends n good (praise e)" "sends n good (plift s)"
  "sends n good (utc_now E)" "sends n good (pasks f)"
  by (simp_all add: sends_def utc_now_def)

lemma sends_mono: "sends a good m \<Longrightarrow> a \<le> n \<Longrightarrow> sends n good m"
  unfolding sends_def using le_trans by blast

lemma sends_bind:
  assumes "sends a good m" "\<And>x. sends b good (f x)"
  shows "sends (a + b) good (pbind m f)"
  unfolding sends_def
proof
  fix w
  obtain r w1 where m: "m w = (r, w1)" by fastforce
  obtain qs where qs: "gw_http_log w1 = gw_http_log w @ qs" "length qs \<le> a" "\<forall>q \<in> set qs. good q"
    using assms(1) m unfolding sends_def by (metis snd_conv)
  show "\<exists>qs. gw_http_log (snd (pbind m f w)) = gw_http_log w @ qs \<and> length qs \<le> a + b \<and> (\<forall>q \<in> set qs. good q)"
  proof (cases r)
    case (Inl e)
    with m qs show ?thesis by (intro exI [of _ qs]) auto
  next
    case (Inr x)
    obtain ps where "gw_http_log (snd (f x w1)) = gw_http_log w1 @ ps" "length ps \<le> b" "\<forall>q \<in> set ps. good q"
      using assms(2) [of x] unfolding sends_def by blast
    with m qs Inr show ?thesis by (intro exI [of _ "qs @ ps"]) auto
  qed
qed

lemma sends_first: "sends n good m \<Longrightarrow> (\<And>x. sends 0 good (f x)) \<Longrightarrow> sends n good (pbind m f)"
  using sends_bind [of n good m 0 f] by simp

lemma sends_then [sends_rules]: "sends 0 good m \<Longrightarrow> (\<And>x. sends n good (f x)) \<Longrightarrow> sends n good (pbind m f)"
  using sends_bind [of 0 good m n f] by simp

lemma sends_map_err [sends_rules]: "sends n good m \<Longrightarrow> sends n good (pmap_err g m)"
  by (simp add: sends_def pmap_err_def case_prod_beta)

lemma sends_attempt [sends_rules]: "sends n good m \<Longrightarrow> sends n good (pattempt m)"
  by (simp add: sends_def pattempt_def case_prod_beta)

lemma sends_cases [sends_rules]:
  "(b \<Longrightarrow> sends n good m) \<Longrightarrow> (\<not> b \<Longrightarrow> sends n good m') \<Longrightarrow> sends n good (if b then m else m')"
  "(o' = None \<Longrightarrow> sends n good m) \<Longrightarrow> (\<And>x. o' = Some x \<Longrightarrow> sends n good (f x)) \<Longrightarrow>
     sends n good (case o' of None \<Rightarrow> m | Some x \<Rightarrow> f x)"
  "(\<And>e. s = Inl e \<Longrightarrow> sends n good (g e)) \<Longrightarrow> (\<And>x. s = Inr x \<Longrightarrow> sends n good (h x)) \<Longrightarrow>
     sends n good (case s of Inl e \<Rightarrow> g e | Inr x \<Rightarrow> h x)"
  by (simp_all split: option.splits sum.splits)

section \<open>What sends nothing\<close>

lemma keeps_unlogged:
  "(\<And>w. gw_http_log (snd (m w)) = gw_http_log w) \<Longrightarrow> keeps same_log m"
  by (simp add: keeps_def same_log_def)

lemma silent_time [keeps_rules]:
  "keeps same_log (utc_now E)" "keeps same_log (remaining_turn_deadline E r)"
  "keeps same_log (provider_call_timeout E x r)"
proof -
  have u: "keeps same_log (utc_now E)" by (rule keeps_unlogged) (simp add: utc_now_def)
  show "keeps same_log (utc_now E)" by (fact u)
  have d: "keeps same_log (remaining_turn_deadline E r)"
    unfolding remaining_turn_deadline_def by (intro keeps_rules u; simp)
  then show "keeps same_log (remaining_turn_deadline E r)" .
  from d show "keeps same_log (provider_call_timeout E x r)"
    unfolding provider_call_timeout_def by (intro keeps_rules; simp)
qed

lemma silent_artifacts [keeps_rules]: "keeps same_log (resolve_visual_artifacts E x r)"
proof -
  have f: "keeps same_log (fetch_artifact E u)" for u
    by (rule keeps_unlogged) (simp add: fetch_artifact_def)
  have b: "keeps same_log (resolve_block E x r u block)" for u block
    unfolding resolve_block_def
    by (intro keeps_rules f; (simp split: artifact_outcome.split)?)
       (auto intro!: keeps_rules split: artifact_outcome.split)
  have m: "keeps same_log (resolve_message E x r u message)" for u message
    unfolding resolve_message_def by (intro keeps_rules b) simp_all
  show ?thesis
    unfolding resolve_visual_artifacts_def Let_def
    by (intro keeps_rules m; simp split: sum.split option.split; intro conjI allI impI keeps_rules m; simp)
qed

lemma top_order [simp]: "reflp (\<lambda>_ _. True)" "transp (\<lambda>_ _. True)"
  by (simp_all add: reflp_def transp_def)

lemma silent_credentials [keeps_rules]:
  "keeps same_log (resolve_secret_ref E u)" "keeps same_log (validate_resource_endpoint_dns E u)"
proof -
  have "keeps same_log (encrypted_secret E n)" for n
    unfolding encrypted_secret_def by (rule within_same_log [where Q = "\<lambda>_ _. True"]) (intro keeps_rules; simp)
  then show "keeps same_log (resolve_secret_ref E u)"
    unfolding resolve_secret_ref_def by (intro keeps_rules; simp)
  show "keeps same_log (validate_resource_endpoint_dns E u)"
    unfolding validate_resource_endpoint_dns_def
    by (intro keeps_rules same_log_order) (rule keeps_unlogged, simp)
qed

lemma silent_waits [keeps_rules]:
  "keeps same_log (sleep_ms E d y)" "keeps same_log (acquire_resource_bulkhead E x r)"
  by (rule keeps_unlogged, simp add: sleep_ms_def await_others_def acquire_resource_bulkhead_def Let_def
      case_prod_beta)+

lemma silent_store [keeps_rules]:
  "keeps same_log (record_provider_error E x r n e)" "keeps same_log (resource_circuit_allows E x r)"
  "keeps same_log (record_resource_success E x r)" "keeps same_log (record_resource_retryable_failure E x r)"
  unfolding record_provider_error_def resource_circuit_allows_def record_resource_success_def
    record_resource_retryable_failure_def
  by (intro keeps_rules within_same_log [OF keeps_audit_only] within_same_log [OF keeps_circuit_allows]
      within_same_log [OF keeps_record_success] within_same_log [OF keeps_record_failure]; simp)+

lemma silent_quota [keeps_rules]:
  "keeps same_log (release_policy_quota E l r)" "keeps same_log (settle_policy_quota E l us r)"
  "keeps same_log (acquire_policy_quota E p r)"
proof -
  have g: "keeps same_log (release_policy_quota_reservation E p' ws pr n r)" for p' ws pr n
    unfolding release_policy_quota_reservation_def
    by (intro keeps_rules within_same_log [OF keeps_settle_usage]; simp)
  have c: "keeps same_log (release_concurrency_lease E l r)"
    unfolding release_concurrency_lease_def by (intro keeps_rules within_same_log [OF keeps_release_lease]; simp)
  show "keeps same_log (release_policy_quota E l r)"
    unfolding release_policy_quota_def by (intro keeps_rules g c; simp)
  show "keeps same_log (settle_policy_quota E l us r)"
    unfolding settle_policy_quota_def by (intro keeps_rules c within_same_log [OF keeps_settle_usage]; simp)
  have t: "keeps same_log (reserve_input_tokens E p r period)" for period
    unfolding reserve_input_tokens_def Let_def
    by (intro keeps_rules within_same_log [OF keeps_reserve_tokens]; simp)
  have x: "keeps same_log (lease_expiry E r)"
    unfolding lease_expiry_def by (intro keeps_rules; simp)
  show "keeps same_log (acquire_policy_quota E p r)"
    unfolding acquire_policy_quota_def Let_def
    by (intro keeps_rules t x g within_same_log [OF keeps_acquire_lease]; simp)
qed

lemma silent_allowed [keeps_rules]: "keeps same_log (allowed_by_circuit E r xs)"
  by (induction xs; simp only: allowed_by_circuit.simps; intro keeps_rules same_log_order)

lemmas silent = silent_time silent_artifacts silent_credentials silent_waits silent_store silent_quota
  silent_allowed

lemmas sends_quiet = silent [THEN sends_silent]

section \<open>The requests of a turn\<close>

text \<open>A request goes to the resource's own endpoint, for its model, with at most its own time.\<close>

definition sent_to :: "turn_request \<Rightarrow> model_resource \<Rightarrow> http_request \<Rightarrow> bool" where
  "sent_to r x q \<longleftrightarrow> hq_resource_id q = mr_id x \<and> hq_request_id q = gr_request_id r
     \<and> hq_endpoint q = trim_end_slashes (ep_base_url (mr_endpoint x))
         @ ensure_leading_slash (ep_chat_completions_path (mr_endpoint x))
     \<and> json_get ''model'' (hq_body q) = Some (JString (mr_physical_model x))
     \<and> hq_timeout q \<le> milliseconds (unat (md_request_timeout_ms (mr_defaults x)))"

lemma body_model: "openai_request_body C D r x m = Inr b \<Longrightarrow> json_get ''model'' b = Some (JString (mr_physical_model x))"
  by (auto simp: openai_request_body_def)

lemma timeout_bound:
  "provider_call_timeout E x r w = (Inr t, w') \<Longrightarrow>
     t \<le> milliseconds (unat (md_request_timeout_ms (mr_defaults x)))"
  by (auto simp: provider_call_timeout_def elim!: pbind_cases)

lemma exchange_sends: "good q \<Longrightarrow> sends 1 good (http_exchange E q)"
  by (simp add: sends_def http_exchange_def await_others_def Let_def case_prod_beta)

text \<open>What the code before a request established is used for the request itself.\<close>

lemma sends_bind_value:
  assumes "sends 0 good m" "\<And>w x w'. m w = (Inr x, w') \<Longrightarrow> sends n good (f x)"
  shows "sends n good (pbind m f)"
  unfolding sends_def
proof
  fix w
  obtain r w1 where m: "m w = (r, w1)" by fastforce
  have log: "gw_http_log w1 = gw_http_log w"
    using assms(1) m unfolding sends_def by (metis append_Nil2 le_zero_eq length_0_conv snd_conv)
  show "\<exists>qs. gw_http_log (snd (pbind m f w)) = gw_http_log w @ qs \<and> length qs \<le> n \<and> (\<forall>q \<in> set qs. good q)"
  proof (cases r)
    case (Inl e)
    with m log show ?thesis by (intro exI [of _ "[]"]) simp
  next
    case (Inr x)
    with m have "sends n good (f x)" by (intro assms(2)) simp
    then obtain ps where "gw_http_log (snd (f x w1)) = gw_http_log w1 @ ps" "length ps \<le> n" "\<forall>q \<in> set ps. good q"
      unfolding sends_def by blast
    with m Inr log show ?thesis by auto
  qed
qed

lemma once_sends: "sends 1 (sent_to r x) (call_openai_compatible_once E x r key)"
proof -
  have ex: "sends 1 (sent_to r x) (pbind (http_exchange E q) (\<lambda>a. pbind (plift (f a)) (\<lambda>t. pret (g t))))"
    if "sent_to r x q" for q f and g :: "provider_turn \<Rightarrow> provider_turn"
    by (rule sends_first [OF exchange_sends [where good = "sent_to r x", OF that]]) (intro sends_rules)
  show ?thesis
    unfolding call_openai_compatible_once_def
    apply (rule sends_then [OF sends_quiet(4)])
    apply (rule sends_then [OF sends_pure(3)])
    apply (rule sends_then [OF sends_pure(3)])
    apply (rule sends_bind_value [OF sends_pure(3)])
    apply (rule sends_bind_value [OF sends_quiet(3)])
    apply (rule ex)
    apply (auto simp: sent_to_def dest: body_model timeout_bound)
    done
qed

lemma retry_sends: "sends (Suc left) (sent_to r x) (retry_loop E x r key n left)"
proof (induction left arbitrary: n)
  case (0 n)
  show ?case
    apply (subst retry_loop.simps)
    apply (rule sends_first [OF sends_attempt])
     apply (rule sends_mono [OF once_sends], simp)
    apply (intro sends_rules sends_quiet)
    apply (auto intro!: sends_rules split: bool.split)
    done
next
  case (Suc left n)
  have "sends (1 + Suc left) (sent_to r x) (retry_loop E x r key n (Suc left))"
    apply (subst retry_loop.simps)
    apply (rule sends_bind [OF sends_attempt [OF once_sends]])
    apply (rule sends_cases(3))
     apply (rule sends_then [OF sends_quiet(9)])
     apply (case_tac "is_retryable_upstream e"; simp add: Let_def)
      apply (intro sends_rules sends_quiet Suc)
     apply (rule sends_pure)+
    done
  then show ?case by simp
qed


lemma call_sends:
  "sends (unat (md_max_attempts (mr_defaults x))) (sent_to r x) (call_with_permit E x r)"
proof -
  let ?n = "unat (md_max_attempts (mr_defaults x))"
  have loop: "sends ?n (sent_to r x) (retry_loop E x r key 1 (?n - 1))" if "md_max_attempts (mr_defaults x) \<noteq> 0" for key
  proof -
    from that have "0 < ?n" by (simp only: unat_gt_0) simp
    then have "Suc (?n - 1) = ?n" by simp
    with retry_sends [of "?n - 1" r x E key 1] show ?thesis by simp
  qed
  have "sends ?n (sent_to r x) (call_openai_compatible E x r)"
    unfolding call_openai_compatible_def by (intro sends_rules sends_quiet loop)
  then have "sends ?n (sent_to r x) (call_resource E x r)"
    unfolding call_resource_def by (cases "mr_kind x") (auto intro: sends_rules)
  then show ?thesis unfolding call_with_permit_def by (intro sends_rules sends_quiet)
qed

section \<open>Trying the candidates\<close>

declare try_candidates.simps [simp del]

definition max_resources :: "model_selection_policy \<Rightarrow> nat" where
  "max_resources policy = (if as_enabled (mp_automatic_switch policy)
     then Suc (unat (as_max_model_switches_per_turn (mp_automatic_switch policy))) else 1)"

definition sent_among :: "turn_request \<Rightarrow> model_resource list \<Rightarrow> http_request \<Rightarrow> bool" where
  "sent_among r xs q \<longleftrightarrow> (\<exists>x \<in> set xs. sent_to r x q)"

lemma sends_weaken: "sends n good m \<Longrightarrow> (\<And>q. good q \<Longrightarrow> good' q) \<Longrightarrow> sends n good' m"
  unfolding sends_def by blast

lemma try_candidates_sends:
  assumes "\<forall>x \<in> set xs. unat (md_max_attempts (mr_defaults x)) \<le> M"
  shows "sends ((max_resources policy - n) * M + (if max_resources policy \<le> n then M else 0)) (sent_among r xs)
    (try_candidates E r policy reason lease n prior last_error xs)"
  using assms
proof (induction xs arbitrary: n prior last_error)
  case Nil
  show ?case by (simp only: try_candidates.simps) (intro sends_rules sends_quiet)
next
  case (Cons x xs)
  let ?good = "sent_among r (x # xs)"
  have call: "sends M ?good (pattempt (call_with_permit E x r))"
  proof -
    have "sends M (sent_to r x) (call_with_permit E x r)"
      using call_sends by (rule sends_mono) (use Cons(2) in simp)
    then show ?thesis by (intro sends_attempt) (auto intro: sends_weaken simp: sent_among_def)
  qed
  show ?case
  proof (cases "as_enabled (mp_automatic_switch policy) \<and> n < max_resources policy - 1")
    case True
    then have more: "\<not> max_resources policy \<le> Suc n" by linarith
    have rest: "sends ((max_resources policy - Suc n) * M) ?good
        (try_candidates E r policy reason lease (Suc n) (Some (mr_id x)) (Some e) xs)" for e
    proof -
      have "sends ((max_resources policy - Suc n) * M) (sent_among r xs)
          (try_candidates E r policy reason lease (Suc n) (Some (mr_id x)) (Some e) xs)"
        using Cons(1) [of "Suc n" "Some (mr_id x)" "Some e"] Cons(2) more by simp
      then show ?thesis by (rule sends_weaken) (simp add: sent_among_def)
    qed
    have "sends (M + (max_resources policy - Suc n) * M) ?good
        (try_candidates E r policy reason lease n prior last_error (x # xs))"
      by (simp only: try_candidates.simps, rule sends_bind [OF call], intro sends_rules sends_quiet rest)
    moreover have "max_resources policy - n = Suc (max_resources policy - Suc n)" using True by linarith
    moreover have "\<not> max_resources policy \<le> n" using True by linarith
    ultimately show ?thesis by simp
  next
    case False
    then have no: "\<not> may_switch policy n xs e" for e
      by (auto simp: may_switch_def max_resources_def)
    have "sends (M + 0) ?good (try_candidates E r policy reason lease n prior last_error (x # xs))"
      by (simp only: try_candidates.simps no if_False, rule sends_bind [OF call], intro sends_rules sends_quiet)
    moreover have "M \<le> (max_resources policy - n) * M + (if max_resources policy \<le> n then M else 0)"
      by (cases "max_resources policy - n") auto
    ultimately show ?thesis by (auto intro: sends_mono)
  qed
qed

section \<open>The resources a turn may use\<close>

text \<open>
  What a policy and the routing of a turn let it call: an enabled resource with the capabilities asked for,
  on the policy's list of direct choices when the turn names it, among its candidates otherwise.
\<close>

definition may_use ::
    "model_selection_policy \<Rightarrow> (string, model_resource) btree \<Rightarrow> turn_request \<Rightarrow> model_resource \<Rightarrow> bool" where
  "may_use policy resources r x \<longleftrightarrow> mr_enabled x
     \<and> capabilities_match x (tr_required_capabilities (gr_routing r))
     \<and> (case tr_model_resource_id (gr_routing r) of
          Some i \<Rightarrow> i \<in> set (mp_direct_selection policy) \<and> bt_get resources i = Some x
        | None \<Rightarrow> \<exists>c \<in> set (mp_candidates policy). bt_get resources (mc_model_resource_id c) = Some x)"

lemma pick_bucket_in: "pick_bucket cs b = Some i \<Longrightarrow> i \<in> mc_model_resource_id ` set cs"
  by (induction cs arbitrary: b) (auto split: if_splits)

lemma primary_in: "primary_candidate D cs resources k = Some i \<Longrightarrow> i \<in> mc_model_resource_id ` set cs"
  by (auto simp: primary_candidate_def weighted_candidate_id_def dest!: pick_bucket_in split: if_splits)

lemma map_filter_in: "x \<in> set (List.map_filter f xs) \<longleftrightarrow> (\<exists>y \<in> set xs. f y = Some x)"
  by (induction xs) (auto simp: List.map_filter_simps split: option.splits)

lemma ordered_in:
  assumes "x \<in> set (ordered_automatic_candidates D policy resources k)"
  shows "\<exists>c \<in> set (mp_candidates policy). bt_get resources (mc_model_resource_id c) = Some x"
proof -
  let ?cs = "sort_key mc_priority (mp_candidates policy)"
  let ?p = "primary_candidate D ?cs resources k"
  from assms consider "Option.bind ?p (bt_get resources) = Some x"
    | c where "c \<in> set ?cs" "bt_get resources (mc_model_resource_id c) = Some x"
    by (auto simp: ordered_automatic_candidates_def Let_def map_filter_in split: if_splits option.splits)
  then show ?thesis
  proof cases
    case 1
    then obtain i where "?p = Some i" "bt_get resources i = Some x" by (auto simp: bind_eq_Some_conv)
    with primary_in [of D ?cs resources k i] show ?thesis by auto
  qed auto
qed

lemma selected_usable:
  assumes "select_candidates E policy resources r = Inr (cs, reason)" "x \<in> set cs" "usable r x"
  shows "may_use policy resources r x"
  using assms
  by (auto simp: select_candidates_def may_use_def usable_def dest: ordered_in split: option.splits if_splits)

lemma allowed_subset: "allowed_by_circuit E r xs w = (Inr ys, w') \<Longrightarrow> set ys \<subseteq> set xs"
  by (induction xs arbitrary: w ys) (fastforce elim!: pbind_cases split: if_splits)+

lemma may_use_stored: "may_use policy resources r x \<Longrightarrow> x \<in> set (bt_values resources)"
proof -
  have "bt_get m k = Some x \<Longrightarrow> x \<in> set (bt_values m)" for m :: "(string, model_resource) btree" and k
    by (induction m k rule: bt_get.induct) (auto simp: bt_values_def split: if_splits)
  then show "may_use policy resources r x \<Longrightarrow> x \<in> set (bt_values resources)"
    by (auto simp: may_use_def split: option.splits)
qed

lemma valid_attempts: "validate_model_resource E x = Inr () \<Longrightarrow> unat (md_max_attempts (mr_defaults x)) \<le> 3"
  by (auto simp: validate_model_resource_def word_le_nat_alt not_less split: if_splits)

lemma new_turn_sends:
  assumes "\<forall>x \<in> set (bt_values (gw_resources w)). validate_model_resource E x = Inr ()"
    and "execute_new_turn E r w = (res, w')"
  shows "\<exists>qs. gw_http_log w' = gw_http_log w @ qs
    \<and> (qs = [] \<or> (\<exists>policy. resolve_policy (gw_policies w) (gr_scope r) = Some policy
        \<and> length qs \<le> 3 * max_resources policy
        \<and> (\<forall>q \<in> set qs. \<exists>x. may_use policy (gw_resources w) r x \<and> sent_to r x q)))"
proof (cases "resolve_policy (gw_policies w) (gr_scope r)")
  case None
  with assms(2) have "gw_http_log w' = gw_http_log w" by (auto simp: execute_new_turn_def)
  then show ?thesis by simp
next
  case (Some policy)
  let ?good = "\<lambda>q. \<exists>x. may_use policy (gw_resources w) r x \<and> sent_to r x q"
  have tried: "sends (3 * max_resources policy) ?good (try_candidates E r policy reason lease 0 None None ys)"
    if "\<forall>x \<in> set ys. may_use policy (gw_resources w) r x" for reason lease ys
  proof -
    have "\<forall>x \<in> set ys. unat (md_max_attempts (mr_defaults x)) \<le> 3"
      using that assms(1) may_use_stored valid_attempts by blast
    from try_candidates_sends [OF this]
    have "sends ((max_resources policy - 0) * 3 + (if max_resources policy \<le> 0 then 3 else 0))
        (sent_among r ys) (try_candidates E r policy reason lease 0 None None ys)" .
    moreover have "0 < max_resources policy" by (simp add: max_resources_def)
    ultimately have "sends (3 * max_resources policy) (sent_among r ys)
        (try_candidates E r policy reason lease 0 None None ys)" by (simp add: mult.commute)
    then show ?thesis by (rule sends_weaken) (use that in \<open>auto simp: sent_among_def\<close>)
  qed
  have "sends (3 * max_resources policy) ?good
      (pbind (plift (select_candidates E policy (gw_resources w) r)) (\<lambda>(candidates, reason).
         let capable = filter (usable r) candidates in
         if capable = []
         then praise (gateway_error 422 (gr_request_id r) ''provider_capability_mismatch''
                ''No allowed model resource satisfies the required capabilities'' False)
         else pbind (allowed_by_circuit E r capable) (\<lambda>compatible.
           if compatible = []
           then praise (gateway_error 503 (gr_request_id r) ''provider_unavailable''
                  ''Every allowed model resource is temporarily unavailable'' True)
           else pbind (acquire_policy_quota E policy r) (\<lambda>lease.
             try_candidates E r policy reason lease 0 None None compatible))))"
    apply (rule sends_bind_value [OF sends_pure(3)])
    apply (clarsimp simp only: Let_def split_paired_all prod.case)
    apply (intro sends_cases sends_pure)
    apply (rule sends_bind_value [OF sends_quiet(16)])
    apply (intro sends_cases sends_pure sends_then [OF sends_quiet(15)] tried)
    apply (auto dest!: allowed_subset)
    apply (drule (1) subsetD, auto intro: selected_usable)
    done
  then have "\<exists>qs. gw_http_log (snd (execute_new_turn E r w)) = gw_http_log w @ qs
      \<and> length qs \<le> 3 * max_resources policy \<and> (\<forall>q \<in> set qs. ?good q)"
    using Some unfolding sends_def execute_new_turn_def by simp
  with assms(2) Some show ?thesis by auto
qed

text \<open>
  C29. A new turn sends requests only to resources its policy lets it use, each at its own endpoint and with at
  most its own time, and at most three to each of \<open>max_model_switches_per_turn\<close> resources after the first.
\<close>

theorem turn_sends_bounded:
  assumes "\<forall>x \<in> set (bt_values (gw_resources w)). validate_model_resource E x = Inr ()"
    and "execute_new_turn E r w = (res, w')"
  shows "\<exists>qs. gw_http_log w' = gw_http_log w @ qs
    \<and> (qs = [] \<or> (\<exists>policy. resolve_policy (gw_policies w) (gr_scope r) = Some policy
        \<and> length qs \<le> 3 * max_resources policy
        \<and> (\<forall>q \<in> set qs. \<exists>x. may_use policy (gw_resources w) r x \<and> sent_to r x q)))"
  using assms by (rule new_turn_sends)

theorem turn_sends_bounded_witness:
  "\<exists>resp w'. execute_new_turn live_env sample_turn_request live_world = (Inr resp, w')
    \<and> length (gw_http_log w') \<le> 6
    \<and> (\<forall>q \<in> set (gw_http_log w'). hq_resource_id q = ''m'' \<and> hq_timeout q \<le> milliseconds 1000)"
proof -
  obtain resp w' where run: "execute_new_turn live_env sample_turn_request live_world = (Inr resp, w')"
    using live_new_turn by blast
  have valid: "\<forall>x \<in> set (bt_values (gw_resources live_world)). validate_model_resource live_env x = Inr ()"
    by (simp add: live_world_def bt_values_def validate_model_resource_def live_resource_def is_blank_ascii
        validate_secret_ref_def strip_prefix_def starts_with_def supports_vision_input_def validate_endpoint_def
        live_env_def string_defs)
  have only: "x = live_resource" if "may_use policy (gw_resources live_world) r x" for policy r x
    using may_use_stored [OF that] by (simp add: live_world_def bt_values_def)
  have none: "gw_http_log live_world = []" by (simp add: live_world_def sample_turn_world_def)
  have three: "max_resources live_policy = 2" by (simp add: max_resources_def live_policy_def)
  have sent: "hq_resource_id q = ''m'' \<and> hq_timeout q \<le> milliseconds 1000"
    if "sent_to sample_turn_request live_resource q" for q
    using that by (simp add: sent_to_def live_resource_def)
  from turn_sends_bounded [OF valid run] run show ?thesis
    using only sent by (fastforce simp: none live_policy_resolved three)
qed

end
