(* ===== verification/GatewayWaitProps.thy ===== *)
theory GatewayWaitProps
  imports GatewayTurnProps GatewayLimitsProps
begin

text \<open>
  How long a request waits for another turn with its key: a wait on the database ends with the deadline,
  a wait on a turn of the same process has no end of its own.
\<close>

section \<open>Readings of the clock\<close>

definition reads_up :: "gateway_world \<Rightarrow> gateway_world \<Rightarrow> bool" where
  "reads_up w w' \<longleftrightarrow> sw_reads w \<le> sw_reads w' \<and> gw_sleeps w' = gw_sleeps w"

lemma reads_up_order [simp]: "reflp reads_up" "transp reads_up"
  by (auto simp: reflp_def transp_def reads_up_def)

lemma reads_up_sql: "keeps reads_up (sql E f)" "keeps reads_up (sql_query E g)"
  by (auto simp: keeps_def reads_up_def sql_def sql_query_def Let_def split: option.split stmt_outcome.split)

lemma reads_up_utc: "keeps reads_up (utc_now E)"
  by (simp add: keeps_def reads_up_def utc_now_def)

lemma reads_up_reserve: "keeps reads_up (reserve_turn E k h)"
  unfolding reserve_turn_def stored_turn_of_def Let_def
  by (intro keeps_rules reads_up_sql reads_up_utc reads_up_order)

section \<open>Waiting on the database\<close>

lemma remaining_result:
  assumes "remaining_turn_deadline E r w = (Inr t, w')"
  shows "\<exists>d. ge_rfc3339 E (gr_deadline_at r) = Some d \<and> t = d - se_clock E (sw_reads w)
    \<and> w' = w\<lparr>sw_reads := Suc (sw_reads w)\<rparr>"
  using assms by (auto simp: remaining_turn_deadline_def utc_now_def split: option.splits if_splits)

text \<open>An answer is an error or the response the turn left in the database.\<close>

definition answered :: "turn_env \<Rightarrow> turn_request \<Rightarrow> gateway_api_error + turn_response option \<Rightarrow> bool" where
  "answered E r res \<longleftrightarrow> (case res of
      Inl e \<Rightarrow> True
    | Inr None \<Rightarrow> False
    | Inr (Some x) \<Rightarrow> \<exists>c. decrypt_turn_response E (gr_request_id r) c = Inr x)"

lemma wait_step:
  assumes "wait_for_durable_turn (Suc fuel) E r w = (res, w')"
  obtains (ended) e where "res = Inl e" "gw_sleeps w' = gw_sleeps w"
    | (polled) d w1 where "ge_rfc3339 E (gr_deadline_at r) = Some d"
        "milliseconds 50 < d - se_clock E (sw_reads w)" "sw_reads w < sw_reads w1"
        "gw_sleeps w1 = gw_sleeps w @ [50]"
        "wait_for_durable_turn fuel E r w1 = (res, w') \<or> w' = w1 \<and> answered E r res"
proof -
  obtain a w0 where a: "remaining_turn_deadline E r w = (a, w0)" by fastforce
  show ?thesis
  proof (cases a)
    case (Inl e)
    then have "gw_sleeps w0 = gw_sleeps w"
      using a by (auto simp: remaining_turn_deadline_def utc_now_def split: option.splits if_splits)
    with a Inl assms show ?thesis by (intro ended) auto
  next
    case (Inr t)
    then obtain d where d: "ge_rfc3339 E (gr_deadline_at r) = Some d" "t = d - se_clock E (sw_reads w)"
        "w0 = w\<lparr>sw_reads := Suc (sw_reads w)\<rparr>"
      using a remaining_result by blast
    show ?thesis
    proof (cases "t \<le> milliseconds 50")
      case True
      with a Inr assms d(3) show ?thesis by (intro ended) auto
    next
      case False
      let ?ws = "(await_others E w0)\<lparr>gw_sleeps := gw_sleeps w0 @ [50]\<rparr>"
      obtain b w1 where b: "stored r (reserve_turn E (turn_key r) (idempotency_request_hash E r)) ?ws = (b, w1)"
        by fastforce
      have up: "reads_up ?ws w1"
        using keepsD [OF keeps_stored [OF reads_up_reserve] b] .
      have "sw_reads ?ws = Suc (sw_reads w)" "gw_sleeps ?ws = gw_sleeps w @ [50]"
        by (simp_all add: d(3) await_others_def Let_def case_prod_beta)
      with up have w1: "sw_reads w < sw_reads w1" "gw_sleeps w1 = gw_sleeps w @ [50]"
        by (simp_all add: reads_up_def)
      from assms a Inr False b
      have "(case b of Inl e \<Rightarrow> (Inl e, w1) | Inr answer \<Rightarrow> (case answer of
          St_Completed encrypted \<Rightarrow>
            pbind (plift (decrypt_turn_response E (gr_request_id r) encrypted)) (\<lambda>x. pret (Some x))
        | St_Failed status e \<Rightarrow> praise (stored_failure status e)
        | St_Expired \<Rightarrow> praise (idempotency_expired r)
        | St_Conflict \<Rightarrow> praise (idempotency_conflict r)
        | St_InProgress \<Rightarrow> wait_for_durable_turn fuel E r
        | St_Reserved \<Rightarrow> praise (gateway_error 503 (gr_request_id r) ''gateway_storage_unavailable''
            ''Gateway idempotency state changed unexpectedly'' True)) w1) = (res, w')"
        by (cases b) (simp_all add: sleep_ms_def d(3))
      then show ?thesis
        using False d(1,2) w1
        by (intro polled [of d w1])
           (auto simp: answered_def pbind_def split: sum.splits stored_turn.splits)
    qed
  qed
qed

lemma durable_wait_rounds:
  assumes "\<And>m n. m \<le> n \<Longrightarrow> se_clock E m \<le> se_clock E n"
    and "ge_rfc3339 E (gr_deadline_at r) = Some d" "d - milliseconds 50 \<le> se_clock E (sw_reads w + j)" "j < fuel"
    and "wait_for_durable_turn fuel E r w = (res, w')"
  shows "answered E r res \<and> length (gw_sleeps w') \<le> length (gw_sleeps w) + j"
  using assms(3-5)
proof (induction fuel arbitrary: w j)
  case (Suc fuel w j)
  from Suc(4) show ?case
  proof (cases rule: wait_step)
    case (ended e)
    then show ?thesis by (simp add: answered_def)
  next
    case (polled d' w1)
    then have "se_clock E (sw_reads w) < d - milliseconds 50" using assms(2) by simp
    then obtain i where i: "j = Suc i" using Suc(2) by (cases j) auto
    have "se_clock E (sw_reads w + j) \<le> se_clock E (sw_reads w1 + i)"
      using polled(3) i by (intro assms(1)) simp
    then have "d - milliseconds 50 \<le> se_clock E (sw_reads w1 + i)" using Suc(2) by linarith
    with Suc(1) [of w1 i] Suc(3) i polled(4,5) show ?thesis by auto
  qed
qed simp

text \<open>
  C32. A wait on the database ends. When time passes (50 ms between a reading of the clock and the second after
  it: a poll sleeps that long and reads the clock once or twice), a request that is \<open>K\<close> times 50 ms before
  its deadline polls at most \<open>2 K\<close> times and then answers with an error or with the stored response.
\<close>

theorem durable_wait_ends:
  assumes "\<And>n. se_clock E n \<le> se_clock E (Suc n)"
    and "\<And>n. se_clock E n + milliseconds 50 \<le> se_clock E (n + 2)"
    and "ge_rfc3339 E (gr_deadline_at r) = Some d"
    and "d - se_clock E (sw_reads w) \<le> milliseconds 50 * int (Suc K)" "2 * K < fuel"
    and "wait_for_durable_turn fuel E r w = (res, w')"
  shows "answered E r res \<and> length (gw_sleeps w') \<le> length (gw_sleeps w) + 2 * K"
proof -
  have later: "se_clock E n + milliseconds 50 * int k \<le> se_clock E (n + 2 * k)" for n k
  proof (induction k)
    case (Suc k)
    have "se_clock E (n + 2 * k) + milliseconds 50 \<le> se_clock E (n + 2 * Suc k)"
      using assms(2) [of "n + 2 * k"] by simp
    with Suc show ?case by (simp add: algebra_simps)
  qed simp
  have "d - milliseconds 50 \<le> se_clock E (sw_reads w + 2 * K)"
    using later [of "sw_reads w" K] assms(4) by (simp add: algebra_simps)
  from durable_wait_rounds [OF _ assms(3) this assms(5,6)] lift_Suc_mono_le [of "se_clock E"] assms(1)
  show ?thesis by blast
qed

text \<open>The sample waits ten seconds for another gateway: its clock moves a second at each reading.\<close>

theorem durable_wait_ends_witness:
  "\<exists>res w'. wait_for_durable_turn 2401 sample_turn_env sample_turn_request sample_turn_world = (res, w')
    \<and> answered sample_turn_env sample_turn_request res \<and> length (gw_sleeps w') \<le> 2400"
proof -
  obtain res w' where run: "wait_for_durable_turn 2401 sample_turn_env sample_turn_request sample_turn_world = (res, w')"
    by fastforce
  have c: "se_clock sample_turn_env n = int n * 1000000000" for n by (simp add: sample_turn_env_def)
  have d: "ge_rfc3339 sample_turn_env (gr_deadline_at sample_turn_request) = Some 60000000000"
    by (simp add: sample_turn_env_def)
  have "answered sample_turn_env sample_turn_request res
      \<and> length (gw_sleeps w') \<le> length (gw_sleeps sample_turn_world) + 2 * 1200"
    by (rule durable_wait_ends [OF _ _ d _ _ run]) (simp_all add: c milliseconds_def sample_turn_world_def)
  with run show ?thesis by (simp add: sample_turn_world_def)
qed

section \<open>Waiting on a turn of the same process\<close>

lemma reserve_in_progress:
  assumes "reliable E" "gd_turns (sw_db w) k = Some row" "tu_state row = ''in_progress''"
    "tu_request_hash row = h"
  shows "reserve_turn E k h w = (Inr St_InProgress, w\<lparr>sw_stmts := sw_stmts w + 2\<rparr>)"
  using assms by (simp add: reserve_turn_def sql_query_def sql_def insert_turn_def stored_turn_of_def reliable_def Let_def)

lemma local_wait_stuck:
  assumes "\<And>n db mem. mem (turn_key r) = Some (Mem_InProgress (idempotency_request_hash E r)) \<Longrightarrow>
      snd (te_others E n (db, mem)) (turn_key r) = Some (Mem_InProgress (idempotency_request_hash E r))"
  shows "gw_memory w (turn_key r) = Some (Mem_InProgress (idempotency_request_hash E r)) \<Longrightarrow>
    fst (wait_for_local_turn fuel E r w) = Inr False"
proof (induction fuel arbitrary: w)
  case (Suc fuel)
  have "gw_memory (await_others E w) (turn_key r) = Some (Mem_InProgress (idempotency_request_hash E r))"
    using assms [where mem = "gw_memory w", OF Suc(2), of "gw_awaits w" "sw_db w"] by (simp add: await_others_def Let_def case_prod_beta)
  with Suc show ?case by (subst wait_for_local_turn.simps) simp
qed (subst wait_for_local_turn.simps, simp)

text \<open>
  C33. A wait on a turn of the same process does not end with the deadline. When the handler of a turn was
  dropped (its client hung up) it leaves the key in progress in the database and in memory, and nothing
  else changes them; then a retry of the request waits for ever, however late it gets.
\<close>

theorem abandoned_turn_hangs:
  assumes "reliable E" "validate_turn_request E r w = (Inr (), w1)"
    and "gd_turns (sw_db w) (turn_key r) = Some row" "tu_state row = ''in_progress''"
      "tu_request_hash row = idempotency_request_hash E r"
    and "gw_memory w (turn_key r) = Some (Mem_InProgress (idempotency_request_hash E r))"
    and "\<And>n db mem. mem (turn_key r) = Some (Mem_InProgress (idempotency_request_hash E r)) \<Longrightarrow>
      snd (te_others E n (db, mem)) (turn_key r) = Some (Mem_InProgress (idempotency_request_hash E r))"
  shows "fst (execute_turn fuel E r w) = Inr None"
proof -
  have w1: "w1 = w\<lparr>sw_reads := Suc (sw_reads w)\<rparr>"
    using assms(2) by (auto simp: validate_turn_request_def utc_now_def split: if_splits option.splits)
  let ?w2 = "w1\<lparr>sw_stmts := sw_stmts w1 + 2\<rparr>"
  have "reserve_turn E (turn_key r) (idempotency_request_hash E r) w1 = (Inr St_InProgress, ?w2)"
    using reserve_in_progress [OF assms(1) _ assms(4,5), of w1 "turn_key r"] assms(3) w1 by simp
  moreover have mem: "gw_memory ?w2 (turn_key r) = Some (Mem_InProgress (idempotency_request_hash E r))"
    using assms(6) w1 by simp
  ultimately have b: "begin_turn E r w = (Inr Turn_Wait_Local, ?w2)"
    using assms(2) by (simp add: begin_turn_def stored_def pmap_err_def)
  show ?thesis
  proof (cases fuel)
    case 0
    with b show ?thesis by (subst execute_turn.simps) simp
  next
    case (Suc n)
    obtain c w3 where c: "wait_for_local_turn n E r ?w2 = (c, w3)" by fastforce
    with local_wait_stuck [OF assms(7) mem, of n] have "c = Inr False" by simp
    with c have "pbind (wait_for_local_turn n E r)
        (\<lambda>completed. if completed then execute_turn n E r else pret None) ?w2 = (Inr None, w3)"
      by (simp only: pbind_simps(2) [of _ ?w2 False w3] if_False proc_simps)
    with b Suc show ?thesis by (subst execute_turn.simps) (simp only: pbind_simps turn_start.case nat.case fst_conv)
  qed
qed

theorem abandoned_turn_hangs_witness:
  "\<exists>w row. gd_turns (sw_db w) (turn_key sample_turn_request) = Some row
    \<and> (\<forall>fuel. fst (execute_turn fuel sample_turn_env sample_turn_request w) = Inr None)"
proof -
  let ?h = "idempotency_request_hash sample_turn_env sample_turn_request"
  let ?row = "\<lparr>tu_request_hash = ?h, tu_state = ''in_progress'', tu_response_json = None, tu_error_json = None,
     tu_error_status = None, tu_response_expires_at = None\<rparr>"
  let ?k = "turn_key sample_turn_request"
  let ?w = "sample_turn_world\<lparr>sw_db := empty_gateway_db\<lparr>gd_turns := [?k \<mapsto> ?row]\<rparr>,
     gw_memory := [?k \<mapsto> Mem_InProgress ?h]\<rparr>"
  have v: "validate_turn_request sample_turn_env sample_turn_request ?w = (Inr (), ?w\<lparr>sw_reads := 1\<rparr>)"
    using sample_request_valid by (simp add: validate_turn_request_def utc_now_def sample_turn_world_def split: if_splits option.splits)
  have rel: "reliable sample_turn_env" by (simp add: reliable_def sample_turn_env_def)
  have "fst (execute_turn fuel sample_turn_env sample_turn_request ?w) = Inr None" for fuel
    by (rule abandoned_turn_hangs [OF rel v, where row = ?row]) (simp_all add: sample_turn_env_def)
  then show ?thesis by (intro exI [of _ ?w] exI [of _ ?row]) simp
qed

end
