(* ===== verification/GatewayToolProps.thy ===== *)
theory GatewayToolProps
  imports GatewaySendProps
begin

text \<open>
  Tools between a request and a provider: every offered tool gets a name the provider accepts and is
  recognised by it, and a response only ever calls tools the request offers.
\<close>

section \<open>Alias maps\<close>

definition aliases_ok :: "digest \<Rightarrow> tool_alias_map \<Rightarrow> bool" where
  "aliases_ok D m \<longleftrightarrow> (\<forall>(n, p) \<in> set (am_runtime_to_provider m).
     p = provider_tool_alias D n \<and> am_provider_to_runtime m p = Some n)"

lemma alias_tools_ok:
  "alias_tools D rid ns m = Inr m' \<Longrightarrow> aliases_ok D m \<Longrightarrow>
   aliases_ok D m' \<and> set (map fst (am_runtime_to_provider m')) = set (map fst (am_runtime_to_provider m)) \<union> set ns"
proof (induction ns arbitrary: m)
  case (Cons n ns)
  show ?case
  proof (cases "map_of (am_runtime_to_provider m) n")
    case (Some p)
    then have "n \<in> set (map fst (am_runtime_to_provider m))" by (metis domI dom_map_of_conv_image_fst list.set_map)
    with Cons Some show ?thesis by auto
  next
    case None
    let ?p = "provider_tool_alias D n"
    let ?m = "m\<lparr>am_runtime_to_provider := am_runtime_to_provider m @ [(n, ?p)],
                 am_provider_to_runtime := (am_provider_to_runtime m)(?p \<mapsto> n)\<rparr>"
    from Cons(2) None have free: "am_provider_to_runtime m ?p = None \<or> am_provider_to_runtime m ?p = Some n"
      and rest: "alias_tools D rid ns ?m = Inr m'"
      by (auto simp: Let_def split: if_splits)
    have "aliases_ok D ?m"
      using Cons(3) free by (fastforce simp: aliases_ok_def)
    from Cons(1) [OF rest this] show ?thesis by auto
  qed
qed simp

lemma alias_history_ok:
  "alias_history D rid ns m = Inr m' \<Longrightarrow> aliases_ok D m \<Longrightarrow>
   aliases_ok D m' \<and> am_runtime_to_provider m' = am_runtime_to_provider m"
proof (induction ns arbitrary: m)
  case (Cons n ns)
  show ?case
  proof (cases "am_provider_to_runtime m (provider_tool_alias D n)")
    case (Some e)
    with Cons show ?thesis by (auto simp: Let_def split: if_splits)
  next
    case None
    let ?m = "m\<lparr>am_provider_to_runtime := (am_provider_to_runtime m)(provider_tool_alias D n \<mapsto> n)\<rparr>"
    from None Cons(3) have "aliases_ok D ?m" by (fastforce simp: aliases_ok_def)
    with Cons(1) [of ?m] Cons(2) None show ?thesis by (simp add: Let_def)
  qed
qed simp

lemma alias_map_ok:
  assumes "alias_map_from_request D r = Inr m"
  shows "aliases_ok D m" "set (map fst (am_runtime_to_provider m)) = set (request_tool_names r)"
proof -
  obtain m0 where m0: "alias_tools D (gr_request_id r) (request_tool_names r)
        \<lparr>am_runtime_to_provider = [], am_provider_to_runtime = (\<lambda>_. None)\<rparr> = Inr m0"
      "alias_history D (gr_request_id r) (concat (map historical_names (ti_messages (gr_input r)))) m0 = Inr m"
    using assms by (auto simp: alias_map_from_request_def)
  note t = alias_tools_ok [OF m0(1)]
  note h = alias_history_ok [OF m0(2)]
  show "aliases_ok D m" "set (map fst (am_runtime_to_provider m)) = set (request_tool_names r)"
    using t h by (simp_all add: aliases_ok_def)
qed

section \<open>Names a provider accepts\<close>

definition tool_char :: "char \<Rightarrow> bool" where
  "tool_char c \<longleftrightarrow> is_ascii_digit c \<or> is_ascii_lowercase c \<or> is_ascii_uppercase c \<or> c = CHR ''_'' \<or> c = CHR ''-''"

lemma alias_chars_ok: "c \<in> set (alias_chars d) \<Longrightarrow> tool_char c"
  by (auto simp: alias_chars_def tool_char_def split: if_splits)

lemma trim_matches_sub: "set (trim_matches c s) \<subseteq> set s" "length (trim_matches c s) \<le> length s"
proof -
  have "set (dropWhile P (rev (dropWhile P s))) \<subseteq> set s" for P :: "char \<Rightarrow> bool"
    by (auto dest!: set_dropWhileD)
  then show "set (trim_matches c s) \<subseteq> set s" by (simp add: trim_matches_def)
  have "length (dropWhile P (rev (dropWhile P s))) \<le> length s" for P :: "char \<Rightarrow> bool"
    using length_dropWhile_le le_trans by (metis length_rev)
  then show "length (trim_matches c s) \<le> length s" by (simp add: trim_matches_def)
qed

lemma tool_prefix_ok: "list_all tool_char (provider_tool_prefix n)" "length (provider_tool_prefix n) \<le> 45"
  "provider_tool_prefix n \<noteq> []"
proof -
  let ?s = "take 45 (concat (map alias_chars n))"
  have chars: "c \<in> set ?s \<Longrightarrow> tool_char c" for c
    by (auto dest!: in_set_takeD alias_chars_ok)
  have tool: "list_all tool_char ''tool''" by (simp add: tool_char_def string_defs)
  show "list_all tool_char (provider_tool_prefix n)"
    using chars trim_matches_sub(1) [of "CHR ''_''" ?s] tool
    by (auto simp: provider_tool_prefix_def Let_def list_all_iff)
  show "length (provider_tool_prefix n) \<le> 45"
    using trim_matches_sub(2) [of "CHR ''_''" ?s] by (auto simp: provider_tool_prefix_def Let_def)
  show "provider_tool_prefix n \<noteq> []" by (simp add: provider_tool_prefix_def Let_def)
qed

lemma tool_alias_ok:
  assumes "digest32 D"
  shows "list_all tool_char (provider_tool_alias D n)" "length (provider_tool_alias D n) \<le> 63"
proof -
  have hex: "is_lower_hex c \<Longrightarrow> tool_char c" for c
    by (auto simp: is_lower_hex_def is_ascii_hexdigit_def tool_char_def string_defs)
  have "list_all tool_char (take 16 (sha256_hex D n))"
    by (auto simp: list_all_iff dest!: in_set_takeD sha256_hex_lower hex)
  then show "list_all tool_char (provider_tool_alias D n)"
    using tool_prefix_ok(1) by (simp add: provider_tool_alias_def tool_char_def)
  show "length (provider_tool_alias D n) \<le> 63"
    using tool_prefix_ok(2) [of n] by (simp add: provider_tool_alias_def)
qed

text \<open>
  Tool names survive the provider. When a request gets an alias map, each of its tools has an alias of
  at most 64 ASCII letters, digits, dashes and underscores, and a provider that calls the alias means
  that tool; so two tools never share an alias.
\<close>

theorem tool_alias_roundtrip:
  assumes "digest32 D" "alias_map_from_request D r = Inr m" "n \<in> set (request_tool_names r)"
  shows "\<exists>p. alias_provider_name m n = Some p \<and> alias_runtime_name m p = Some n
    \<and> p \<noteq> [] \<and> length p \<le> 64 \<and> list_all tool_char p
    \<and> (\<forall>k \<in> set (request_tool_names r). alias_provider_name m k = Some p \<longrightarrow> k = n)"
proof -
  note ok = alias_map_ok [OF assms(2)]
  have entry: "alias_provider_name m k = Some p \<Longrightarrow> p = provider_tool_alias D k \<and> alias_runtime_name m p = Some k" for k p
    using ok(1) by (auto simp: aliases_ok_def alias_provider_name_def alias_runtime_name_def dest!: map_of_SomeD)
  obtain p where p: "alias_provider_name m n = Some p"
    using ok(2) assms(3) by (metis alias_provider_name_def map_of_eq_None_iff not_None_eq set_map)
  note e = entry [OF p]
  show ?thesis
  proof (intro exI conjI ballI impI)
    show "alias_provider_name m n = Some p" by (fact p)
    show "alias_runtime_name m p = Some n" using e by blast
    show "p \<noteq> []" using e by (simp add: provider_tool_alias_def)
    show "length p \<le> 64" using e tool_alias_ok(2) [OF assms(1), of n] by simp
    show "list_all tool_char p" using e tool_alias_ok(1) [OF assms(1), of n] by simp
    fix k
    assume "alias_provider_name m k = Some p"
    from entry [OF this] e show "k = n" by (metis option.inject)
  qed
qed

definition sample_tool_request :: turn_request where
  "sample_tool_request = sample_turn_request\<lparr>gr_input := (gr_input sample_turn_request)\<lparr>ti_tools :=
     [\<lparr>td_name = ''preview.publish'', td_input_schema = JNull, td_input_json_schema = None\<rparr>]\<rparr>\<rparr>"

theorem tool_alias_roundtrip_witness:
  "\<exists>m p. alias_map_from_request (ge_digest sample_turn_env) sample_tool_request = Inr m
    \<and> alias_runtime_name m p = Some ''preview.publish'' \<and> list_all tool_char p"
proof -
  have D: "digest32 (ge_digest sample_turn_env)" by (simp add: digest32_def sample_turn_env_def)
  have "\<exists>m. alias_map_from_request (ge_digest sample_turn_env) sample_tool_request = Inr m"
    by (simp add: alias_map_from_request_def sample_tool_request_def sample_turn_request_def request_tool_names_def
        res_bind_def Let_def)
  then obtain m where m: "alias_map_from_request (ge_digest sample_turn_env) sample_tool_request = Inr m" by blast
  have "''preview.publish'' \<in> set (request_tool_names sample_tool_request)"
    by (simp add: request_tool_names_def sample_tool_request_def)
  from tool_alias_roundtrip [OF D m this] m show ?thesis by blast
qed

section \<open>Responses\<close>

text \<open>A response as the caller may rely on it.\<close>

definition response_ok :: "turn_request \<Rightarrow> gateway_tool_call list \<Rightarrow> string option \<Rightarrow> bool" where
  "response_ok r calls answer \<longleftrightarrow> set (map tc_name calls) \<subseteq> set (request_tool_names r)
     \<and> distinct (map tc_id calls) \<and> (\<forall>c \<in> set calls. json_within_limits (tc_input c) 0)
     \<and> (calls \<noteq> [] \<or> answer \<noteq> None) \<and> (\<forall>t. answer = Some t \<longrightarrow> length t \<le> 256 * 1024)"

lemma content_ok: "response_content r p message calls = Inr (kept, answer, u) \<Longrightarrow> response_ok r kept answer"
  by (auto simp: response_content_def response_ok_def Let_def list_ex_iff max_json_string_bytes_def
      split: if_splits option.splits)

lemma read_ok: "read_provider_response C r m a = Inr turn \<Longrightarrow> response_ok r (pt_tool_calls turn) (pt_text turn)"
  by (auto simp: read_provider_response_def parse_openai_response_def Let_def content_ok
      split: http_outcome.splits option.splits if_splits list.splits)

lemma once_ok:
  assumes "call_openai_compatible_once E x r a w = (Inr turn, w')"
  shows "response_ok r (pt_tool_calls turn) (pt_text turn)"
proof -
  obtain C m t where "read_provider_response C r m t = Inr (turn\<lparr>pt_visual_input := pt_visual_input turn\<rparr>)
      \<or> (\<exists>u v. read_provider_response C r m t = Inr u \<and> turn = u\<lparr>pt_visual_input := v\<rparr>)"
    using assms unfolding call_openai_compatible_once_def
    by (auto elim!: pbind_cases) metis
  then show ?thesis by (auto dest: read_ok)
qed

lemma retry_ok:
  "retry_loop E x r a n left w = (Inr turn, w') \<Longrightarrow> response_ok r (pt_tool_calls turn) (pt_text turn)"
proof (induction left arbitrary: n w)
  case (0 n w)
  then show ?case
    by (subst (asm) retry_loop.simps)
       (auto elim!: pbind_cases simp: pattempt_def once_ok split: prod.splits sum.splits bool.splits)
next
  case (Suc left n w)
  from Suc(2) show ?case
    by (subst (asm) retry_loop.simps)
       (auto elim!: pbind_cases simp: pattempt_def once_ok Let_def Suc(1)
         split: prod.splits sum.splits bool.splits if_splits)
qed

lemma call_ok:
  assumes "call_with_permit E x r w = (Inr turn, w')"
  shows "response_ok r (pt_tool_calls turn) (pt_text turn)"
  using assms
  unfolding call_with_permit_def call_resource_def call_openai_compatible_def
  by (auto elim!: pbind_cases simp: retry_ok split: model_resource_kind.splits if_splits)

text \<open>What a response of \<open>x\<close> says about it.\<close>

definition answered_by :: "model_resource \<Rightarrow> model_execution_summary \<Rightarrow> bool" where
  "answered_by x e \<longleftrightarrow> me_model_resource_id e = mr_id x \<and> me_model_resource_revision e = mr_revision x
     \<and> me_physical_model e = mr_physical_model x"

lemma attempted: "m w = (result, w') \<Longrightarrow> pbind (pattempt m) f w = f result w'"
  by (simp add: pbind_def pattempt_def)

lemma try_candidates_ok:
  assumes "try_candidates E r policy reason lease n prior last_error xs w = (Inr resp, w')"
  shows "response_ok r (gt_tool_calls resp) (gt_text resp)
    \<and> (\<exists>x \<in> set xs. answered_by x (gt_model_execution resp))"
  using assms
proof (induction xs arbitrary: n prior last_error w)
  case Nil
  then show ?case by (simp add: try_candidates.simps) (auto elim!: pbind_cases)
next
  case (Cons x xs)
  obtain result w1 where c: "call_with_permit E x r w = (result, w1)" by fastforce
  show ?case
  proof (cases result)
    case (Inr provider)
    obtain s where "resp = build_turn_response E r policy x reason s
        (provider\<lparr>pt_attempt_count := pt_attempt_count provider + word_of_nat n\<rparr>)"
      using Cons(2) c Inr
      by (simp only: try_candidates.simps attempted sum.case) (elim pbind_cases; auto elim!: pbind_cases split: sum.splits)
    with call_ok [of E x r w provider w1] c Inr show ?thesis by (auto simp: build_turn_response_def answered_by_def)
  next
    case (Inl e)
    with Cons(2) c obtain w2 where
      "try_candidates E r policy reason lease (Suc n) (Some (mr_id x)) (Some e) xs w2 = (Inr resp, w')"
      by (simp only: try_candidates.simps attempted sum.case) (auto elim!: pbind_cases split: sum.splits if_splits)
    from Cons(1) [OF this] show ?thesis by auto
  qed
qed

text \<open>
  C30. A turn that succeeds answers with what the caller asked for: it names a resource the scope's policy lets the
  turn use, and it calls only tools the request offers, under different ids and with input of bounded size, or
  carries text of at most 256 KiB.
\<close>

theorem turn_response_safe:
  assumes "execute_new_turn E r w = (Inr resp, w')"
  shows "response_ok r (gt_tool_calls resp) (gt_text resp)
    \<and> (\<exists>policy x. resolve_policy (gw_policies w) (gr_scope r) = Some policy
        \<and> may_use policy (gw_resources w) r x \<and> answered_by x (gt_model_execution resp))"
proof -
  obtain policy where policy: "resolve_policy (gw_policies w) (gr_scope r) = Some policy"
    using assms by (cases "resolve_policy (gw_policies w) (gr_scope r)") (auto simp: execute_new_turn_def)
  obtain candidates reason ys lease w1 w2 w3 where
      sel: "select_candidates E policy (gw_resources w) r = Inr (candidates, reason)"
    and allowed: "allowed_by_circuit E r (filter (usable r) candidates) w1 = (Inr ys, w2)"
    and run: "try_candidates E r policy reason lease 0 None None ys w3 = (Inr resp, w')"
    using assms policy by (auto simp: execute_new_turn_def Let_def elim!: pbind_cases split: if_splits)
  from try_candidates_ok [OF run] obtain x where x: "x \<in> set ys" "answered_by x (gt_model_execution resp)"
    and ok: "response_ok r (gt_tool_calls resp) (gt_text resp)" by blast
  from x(1) allowed_subset [OF allowed] have "x \<in> set candidates" "usable r x" by auto
  from selected_usable [OF sel this] policy x(2) ok show ?thesis by blast
qed

theorem turn_response_safe_witness:
  "\<exists>resp w'. execute_new_turn live_env sample_turn_request live_world = (Inr resp, w')
    \<and> gt_tool_calls resp = [] \<and> me_model_resource_id (gt_model_execution resp) = ''m''"
proof -
  obtain resp w' where run: "execute_new_turn live_env sample_turn_request live_world = (Inr resp, w')"
    using live_new_turn by blast
  have only: "x = live_resource" if "may_use policy (gw_resources live_world) r x" for policy r x
    using may_use_stored [OF that] by (simp add: live_world_def bt_values_def)
  have "request_tool_names sample_turn_request = []"
    by (simp add: request_tool_names_def sample_turn_request_def)
  with turn_response_safe [OF run] run show ?thesis
    by (auto simp: response_ok_def answered_by_def live_resource_def dest!: only)
qed

end
