(* ===== verification/GatewayTypeProps.thy ===== *)
theory GatewayTypeProps
  imports GatewayTurnProps GatewaySample
begin

text \<open>
  The turn table as a typed store. Its rows keep a state in one column and, as text, what the state needs in
  others; a turn only ever writes rows that the next reservation of their key can read.
\<close>

section \<open>Readable rows\<close>

text \<open>What encryption and \<open>serde_json\<close> promise: what they wrote can be read again.\<close>

definition reads_back :: "turn_env \<Rightarrow> bool" where
  "reads_back E \<longleftrightarrow> (\<forall>e. gc_dec_error (se_codec E) (gc_enc_error (se_codec E) e) \<noteq> None)
     \<and> (\<forall>n x c. te_encrypt E n (gc_enc_response (se_codec E) x) = Some c \<longrightarrow>
          Option.bind (te_decrypt E c) (gc_dec_response (se_codec E)) \<noteq> None)"

definition replayable :: "turn_env \<Rightarrow> string \<Rightarrow> bool" where
  "replayable E c \<longleftrightarrow> (\<exists>x. \<forall>request_id. decrypt_turn_response E request_id c = Inr x)"

lemma replayable_iff:
  "replayable E c \<longleftrightarrow> (\<exists>x. Option.bind (te_decrypt E c) (gc_dec_response (se_codec E)) = Some x)"
  by (cases "Option.bind (te_decrypt E c) (gc_dec_response (se_codec E))")
    (simp_all add: replayable_def decrypt_turn_response_def)

definition turn_row_ok :: "turn_env \<Rightarrow> turn_record \<Rightarrow> bool" where
  "turn_row_ok E r \<longleftrightarrow> tu_state r = ''in_progress'' \<or> tu_state r = ''expired''
     \<or> (tu_state r = ''completed'' \<and> (\<exists>c. tu_response_json r = Some c \<and> replayable E c))
     \<or> (tu_state r = ''failed'' \<and> tu_error_status r \<noteq> None
          \<and> (\<exists>t e. tu_error_json r = Some t \<and> gc_dec_error (se_codec E) t = Some e))"

definition turn_rows_ok :: "turn_env \<Rightarrow> gateway_db \<Rightarrow> bool" where
  "turn_rows_ok E db \<longleftrightarrow> (\<forall>k r. gd_turns db k = Some r \<longrightarrow> turn_row_ok E r)"

definition rows_keep :: "turn_env \<Rightarrow> gateway_db \<Rightarrow> gateway_db \<Rightarrow> bool" where
  "rows_keep E db db' \<longleftrightarrow> (turn_rows_ok E db \<longrightarrow> turn_rows_ok E db')"

lemma rows_keep_order [simp]: "reflp (rows_keep E)" "transp (rows_keep E)"
  by (auto simp: rows_keep_def reflp_def transp_def)

lemma turns_same_rows: "turns_same a b \<Longrightarrow> rows_keep E a b"
  by (simp add: turns_same_def rows_keep_def turn_rows_ok_def)

interpretation typed: turn_work "rows_keep E" for E
  by unfold_locales (auto intro: turns_same_rows only_turns_same)

section \<open>The statements on turn rows\<close>

lemma new_row_ok: "tu_state r = ''in_progress'' \<Longrightarrow> turn_row_ok E r"
  by (simp add: turn_row_ok_def)

lemma insert_turn_rows: "insert_turn k h db = Some (x, db') \<Longrightarrow> rows_keep E db db'"
  by (auto simp: insert_turn_def rows_keep_def turn_rows_ok_def new_row_ok split: option.splits if_splits)

lemma update_turn_rows:
  "(\<And>r. turn_row_ok E r \<Longrightarrow> turn_row_ok E (f r)) \<Longrightarrow> update_turn k p f db = Some (x, db') \<Longrightarrow>
   rows_keep E db db'"
  by (auto simp: update_turn_def rows_keep_def turn_rows_ok_def split: option.splits if_splits)

lemma expired_row_ok: "turn_row_ok E (r\<lparr>tu_state := ''expired'', tu_response_json := None\<rparr>)"
  by (simp add: turn_row_ok_def)

lemma completed_row_ok: "replayable E c \<Longrightarrow> turn_row_ok E (completed_row c now r)"
  by (simp add: turn_row_ok_def completed_row_def)

lemma failed_row_ok:
  assumes "reads_back E"
  shows "turn_row_ok E (failed_row (gc_enc_error (se_codec E) e) s r)"
    "turn_row_ok E ((failed_row (gc_enc_error (se_codec E) e) s r)\<lparr>tu_response_expires_at := x\<rparr>)"
  using assms by (auto simp: turn_row_ok_def failed_row_def reads_back_def)

lemma reserve_turn_rows: "keeps (within (rows_keep E)) (reserve_turn E' k h)"
proof -
  have e: "keeps (within (rows_keep E)) (pbind (sql E' (update_turn k (\<lambda>r. tu_state r = ''completed'')
      (\<lambda>r. r\<lparr>tu_state := ''expired'', tu_response_json := None\<rparr>))) (\<lambda>_. pret St_Expired))"
    by (intro keeps_rules) (auto elim!: update_turn_rows [rotated] intro: expired_row_ok)
  have "keeps (within (rows_keep E)) (stored_turn_of E' k h r)" for r
    unfolding stored_turn_of_def Let_def
    by (intro keeps_rules e; simp)
  then show ?thesis
    unfolding reserve_turn_def by (intro keeps_rules) (auto intro: insert_turn_rows)
qed

lemma complete_turn_rows:
  assumes "replayable E c"
  shows "keeps (within (rows_keep E)) (complete_turn E' k c response run_id turn)"
proof -
  have u: "keeps (within (rows_keep E)) (sql E' (update_turn k p (completed_row c now)))" for p now
    by (intro keeps_rules rows_keep_order, erule update_turn_rows [rotated], rule completed_row_ok, rule assms)
  note parts = u keeps_within_mono [OF keeps_record_completion turns_same_rows] keeps_rules
  show ?thesis
    unfolding complete_turn_def sqlite_complete_turn_def pg_complete_turn_def
    by (cases "se_backend E'"; simp only: persistent_store.case; intro parts; simp)
qed

lemma fail_turn_rows:
  assumes "reads_back E"
  shows "keeps (within (rows_keep E)) (fail_turn E k s e)"
  unfolding fail_turn_def sqlite_fail_turn_def pg_fail_turn_def
  by (cases "se_backend E"; simp only: persistent_store.case; intro keeps_rules;
      auto elim: update_turn_rows [rotated] intro: failed_row_ok [OF assms])

section \<open>A whole turn\<close>

text \<open>What a call answered is used for what follows it.\<close>

lemma keeps_pbind_value:
  assumes "reflp R" "transp R" "keeps R m" "\<And>w x w'. m w = (Inr x, w') \<Longrightarrow> keeps R (f x)"
  shows "keeps R (pbind m f)"
  unfolding keeps_def
proof
  fix w
  obtain a w1 where m: "m w = (a, w1)" by fastforce
  have first: "R w w1" using assms(3) m by (rule keepsD)
  show "R w (snd (pbind m f w))"
  proof (cases a)
    case (Inr x)
    with m have "R w1 (snd (f x w1))" using assms(4) [of w x w1] by (simp add: keeps_def)
    with first m Inr show ?thesis using assms(2) by (auto dest: transpD)
  qed (use m first in simp)
qed

lemma finish_turn_rows:
  assumes "reads_back E"
  shows "keeps (on_db (rows_keep E)) (finish_turn E r res)"
proof -
  have silent: "keeps (on_db (rows_keep E)) (encrypt_turn_response E x)" for x
    by (rule typed.keeps_same_db) (simp add: encrypt_turn_response_def)
  have sealed: "replayable E c" if "encrypt_turn_response E x w = (Inr c, w')" for x c w w'
    using that assms by (auto simp: encrypt_turn_response_def replayable_iff reads_back_def split: option.splits)
  have p: "keeps (on_db (rows_keep E)) (persist_turn E r res)"
  proof (cases res)
    case (Inl e)
    then show ?thesis
      by (simp add: persist_turn_def) (intro keeps_on_db fail_turn_rows assms)
  next
    case (Inr x)
    then show ?thesis
      by (simp add: persist_turn_def)
        (intro keeps_pbind_value keeps_on_db complete_turn_rows silent; simp add: sealed)
  qed
  have m: "keeps (on_db (rows_keep E)) (pmodify (\<lambda>w. w\<lparr>gw_memory := g w\<rparr>))" for g
    by (rule typed.keeps_same_db) simp
  show ?thesis
    unfolding finish_turn_def Let_def by (intro keeps_rules typed.order p m)
qed

lemma begin_turn_rows: "keeps (on_db (rows_keep E)) (begin_turn E r)"
proof -
  have v: "keeps (within (rows_keep E)) (validate_turn_request E r)"
    unfolding validate_turn_request_def by (intro keeps_rules; simp)
  have "keeps (within (rows_keep E)) (begin_turn E r)"
    unfolding begin_turn_def
    by (intro keeps_rules v keeps_stored reserve_turn_rows; (simp split: stored_turn.split)?)
       (auto intro!: keeps_rules split: stored_turn.split)
  then show ?thesis by (rule keeps_on_db)
qed

lemma wait_durable_rows:
  "others_within (rows_keep E) E \<Longrightarrow> keeps (on_db (rows_keep E)) (wait_for_durable_turn fuel E r)"
proof (induction fuel)
  case 0
  show ?case by (simp only: wait_for_durable_turn.simps, intro keeps_rules typed.order)
next
  case (Suc fuel)
  note again = Suc(1) [OF Suc(2)]
  have answer: "keeps (on_db (rows_keep E)) (case answer of
          St_Completed encrypted \<Rightarrow>
            pbind (plift (decrypt_turn_response E (gr_request_id r) encrypted)) (\<lambda>x. pret (Some x))
        | St_Failed status e \<Rightarrow> praise (stored_failure status e)
        | St_Expired \<Rightarrow> praise (idempotency_expired r)
        | St_Conflict \<Rightarrow> praise (idempotency_conflict r)
        | St_InProgress \<Rightarrow> wait_for_durable_turn fuel E r
        | St_Reserved \<Rightarrow> praise (gateway_error 503 (gr_request_id r) ''gateway_storage_unavailable''
            ''Gateway idempotency state changed unexpectedly'' True))" for answer
    by (cases answer; simp only: stored_turn.case; intro keeps_rules typed.order again)
  show ?case
    by (simp only: wait_for_durable_turn.simps, intro keeps_rules typed.order keeps_stored answer Suc(2)
        keeps_on_db [OF reserve_turn_rows])
qed

lemma claim_turn_rows:
  assumes "others_within (rows_keep E) E"
  shows "keeps (on_db (rows_keep E)) (claim_turn fuel E r)"
    "keeps (on_db (rows_keep E)) (wait_for_local_turn fuel E r)"
proof -
  have step: "on_db (rows_keep E) w w'" if "on_db (rows_keep E) (await_others E w) w'" for w w'
    using typed.await_within [OF assms, of w] that by (rule transpD [OF typed.order(2)])
  have same: "on_db (rows_keep E) w w'" if "sw_db w' = sw_db w" for w w'
    using that by (simp add: on_db_def rows_keep_def)
  have "on_db (rows_keep E) w (snd (claim_turn fuel E r w))" for w
    by (induction fuel arbitrary: w; subst claim_turn.simps)
      (auto simp: Let_def intro: step same split: option.split idempotency_entry.split)
  then show "keeps (on_db (rows_keep E)) (claim_turn fuel E r)" by (simp add: keeps_def)
  have "on_db (rows_keep E) w (snd (wait_for_local_turn fuel E r w))" for w
    by (induction fuel arbitrary: w; subst wait_for_local_turn.simps) (auto intro: step same)
  then show "keeps (on_db (rows_keep E)) (wait_for_local_turn fuel E r)" by (simp add: keeps_def)
qed

lemma run_turn_rows:
  "others_within (rows_keep E) E \<Longrightarrow> reads_back E \<Longrightarrow> keeps (on_db (rows_keep E)) (run_turn E r)"
  unfolding run_turn_def by (intro keeps_rules typed.order finish_turn_rows)

lemma execute_turn_rows:
  assumes "others_within (rows_keep E) E" "reads_back E"
  shows "keeps (on_db (rows_keep E)) (execute_turn fuel E r)"
proof (induction fuel rule: less_induct)
  case (less fuel)
  have claimed: "keeps (on_db (rows_keep E)) (case claim of
             Claim_Replay response \<Rightarrow> pret (Some response)
           | Claim_Waiting \<Rightarrow> pret None
           | Claimed \<Rightarrow> pbind (run_turn E r) (\<lambda>x. pret (Some x)))" for claim
    by (cases claim; simp only: turn_claim.case; intro keeps_rules typed.order run_turn_rows assms)
  have local: "keeps (on_db (rows_keep E)) (case fuel of 0 \<Rightarrow> pret None
      | Suc n \<Rightarrow> pbind (wait_for_local_turn n E r)
          (\<lambda>completed. if completed then execute_turn n E r else pret None))"
    using less by (cases fuel; simp only: nat.case; intro keeps_rules typed.order claim_turn_rows assms; simp)
  have start: "keeps (on_db (rows_keep E)) (case start of
        Turn_Replay response \<Rightarrow> pret (Some response)
      | Turn_Wait_Local \<Rightarrow> (case fuel of 0 \<Rightarrow> pret None
          | Suc n \<Rightarrow> pbind (wait_for_local_turn n E r)
              (\<lambda>completed. if completed then execute_turn n E r else pret None))
      | Turn_Wait_Durable \<Rightarrow> wait_for_durable_turn fuel E r
      | Turn_Reserved \<Rightarrow>
          pbind (claim_turn fuel E r) (\<lambda>claim. case claim of
             Claim_Replay response \<Rightarrow> pret (Some response)
           | Claim_Waiting \<Rightarrow> pret None
           | Claimed \<Rightarrow> pbind (run_turn E r) (\<lambda>x. pret (Some x))))" for start
    by (cases start; simp only: turn_start.case;
        intro keeps_rules typed.order local claimed wait_durable_rows claim_turn_rows assms)
  show ?case
    by (subst execute_turn.simps) (intro keeps_rules typed.order begin_turn_rows start)
qed

section \<open>Reading them\<close>

lemma stored_turn_reads:
  assumes "turn_row_ok E r" "stored_turn_of E k h r w = (res, w')"
  shows "case res of Inl e \<Rightarrow> e = Statement_failed
     | Inr (St_Completed c) \<Rightarrow> replayable E c | Inr _ \<Rightarrow> True"
  using assms unfolding stored_turn_of_def Let_def turn_row_ok_def
  by (auto simp: utc_now_def elim!: pbind_cases sql_cases split: if_splits option.splits)

text \<open>
  C31. A turn leaves the turn table readable. If every row can be read before, with texts that encryption and
  \<open>serde_json\<close> read back, then every row can be read after, however the turn ends and whichever of its
  statements fail; so a later reservation of any key, with any request hash, fails only when a statement
  fails, and the text of a completed turn decrypts and parses.
\<close>

theorem turn_rows_typed:
  assumes "reads_back E" "others_within (rows_keep E) E" "turn_rows_ok E (sw_db w)"
    and "execute_turn fuel E r w = (res, w')"
  shows "turn_rows_ok E (sw_db w')
    \<and> (\<forall>k h answer w''. reserve_turn E k h w' = (answer, w'') \<longrightarrow>
        (case answer of Inl e \<Rightarrow> e = Statement_failed
          | Inr (St_Completed c) \<Rightarrow> (\<exists>x. \<forall>request_id. decrypt_turn_response E request_id c = Inr x)
          | Inr _ \<Rightarrow> True))"
proof (intro conjI allI impI)
  have "on_db (rows_keep E) w w'" by (rule keepsD [OF execute_turn_rows [OF assms(2,1)] assms(4)])
  with assms(3) show ok: "turn_rows_ok E (sw_db w')" by (simp add: on_db_def rows_keep_def)
  fix k h answer w''
  assume run: "reserve_turn E k h w' = (answer, w'')"
  show "case answer of Inl e \<Rightarrow> e = Statement_failed
      | Inr (St_Completed c) \<Rightarrow> (\<exists>x. \<forall>request_id. decrypt_turn_response E request_id c = Inr x) | Inr _ \<Rightarrow> True"
  proof (cases rule: pbind_cases [OF run [unfolded reserve_turn_def]])
    case (1 e w1)
    then show ?thesis by (auto elim: sql_cases)
  next
    case (2 n w1)
    show ?thesis
    proof (cases "n = 1")
      case False
      have kept: "gd_turns (sw_db w1) = gd_turns (sw_db w')" "gd_turns (sw_db w1) k \<noteq> None"
        using 2(1) False by (auto elim!: sql_cases simp: insert_turn_def split: option.splits)
      obtain row where row: "gd_turns (sw_db w1) k = Some row" using kept(2) by blast
      with ok kept(1) have "turn_row_ok E row" by (auto simp: turn_rows_ok_def)
      with 2(2) False row show ?thesis
        by (auto simp: sql_query_def replayable_def elim!: pbind_cases sql_cases dest: stored_turn_reads
            split: sum.splits stored_turn.splits)
    qed (use 2(2) in auto)
  qed
qed

theorem turn_rows_typed_witness:
  "\<exists>res w'. execute_turn 1 live_env sample_turn_request
        (live_world\<lparr>sw_db := empty_gateway_db\<lparr>gd_turns := [''k'' \<mapsto>
           \<lparr>tu_request_hash = ''h'', tu_state = ''completed'', tu_response_json = Some ''c'', tu_error_json = None,
            tu_error_status = None, tu_response_expires_at = Some 0\<rparr>]\<rparr>\<rparr>) = (res, w')
    \<and> turn_rows_ok live_env (sw_db w')"
proof -
  let ?w = "live_world\<lparr>sw_db := empty_gateway_db\<lparr>gd_turns := [''k'' \<mapsto>
           \<lparr>tu_request_hash = ''h'', tu_state = ''completed'', tu_response_json = Some ''c'', tu_error_json = None,
            tu_error_status = None, tu_response_expires_at = Some 0\<rparr>]\<rparr>\<rparr>"
  have reads: "reads_back live_env"
    by (simp add: reads_back_def live_env_def sample_turn_env_def sample_codec_def)
  have others: "others_within (rows_keep live_env) live_env"
    by (simp add: others_within_def live_env_def sample_turn_env_def rows_keep_def)
  have rows: "turn_rows_ok live_env (sw_db ?w)"
    by (simp add: turn_rows_ok_def turn_row_ok_def replayable_iff live_env_def sample_turn_env_def)
  obtain res w' where run: "execute_turn 1 live_env sample_turn_request ?w = (res, w')" by fastforce
  from turn_rows_typed [OF reads others rows run] run show ?thesis by blast
qed

end
