(* ===== verification/GatewayAdmin.thy ===== *)
theory GatewayAdmin
  imports GatewayTurn
begin

text \<open>
  The administration of the provider gateway: who may use it, idempotent writes, the configuration in
  memory and its refresh from the database, and the handlers of provider connections. Every
  \<open>lock().await\<close> lets other requests of this gateway and other processes run first.
\<close>

section \<open>The gateway seen by its administration\<close>

text \<open>\<open>HeaderMap::get\<close> followed by \<open>to_str\<close>: a header whose value is visible ASCII.\<close>

type_synonym http_headers = "string \<Rightarrow> string option"

record connection_write =
  cw_schema_version :: string
  cw_id :: string
  cw_name :: string
  cw_kind :: model_resource_kind
  cw_base_url :: string
  cw_chat_completions_path :: string
  cw_enabled :: bool
  cw_api_key :: "string option"
  cw_expected_version :: "u64 option"

record credential_rotation =
  ro_api_key :: string
  ro_expected_version :: u64

record service_write =
  vw_schema_version :: string
  vw_id :: string
  vw_provider_connection_id :: string
  vw_display_name :: string
  vw_description :: string
  vw_physical_model :: string
  vw_capabilities :: provider_capabilities
  vw_defaults :: model_defaults
  vw_sort_order :: int
  vw_expected_revision :: "u64 option"

record resource_write =
  xw_resource :: model_resource
  xw_api_key :: "string option"
  xw_expected_revision :: "u64 option"

record policy_write =
  yw_policy :: model_selection_policy
  yw_expected_revision :: "u64 option"

record policy_activation =
  ya_expected_revision :: u64
  ya_revision_to_activate :: u64

record connection_view =
  cv_schema_version :: string
  cv_id :: string
  cv_name :: string
  cv_kind :: model_resource_kind
  cv_base_url :: string
  cv_chat_completions_path :: string
  cv_enabled :: bool
  cv_version :: u64
  cv_credential_configured :: bool
  cv_last_test_status :: "string option"
  cv_last_tested_at :: "string option"

record connection_test =
  ct_provider_connection_id :: string
  ct_version :: u64
  ct_status :: string
  ct_tested_at :: string
  ct_checks :: "string list"

record service_view =
  vv_schema_version :: string
  vv_id :: string
  vv_provider_connection_id :: string
  vv_display_name :: string
  vv_description :: string
  vv_physical_model :: string
  vv_capabilities :: provider_capabilities
  vv_defaults :: model_defaults
  vv_published :: bool
  vv_sort_order :: int
  vv_revision :: u64

record resource_auth_view =
  xa_auth_type :: string
  xa_secret_configured :: bool

record resource_view =
  xv_schema_version :: string
  xv_id :: string
  xv_display_name :: string
  xv_provider_connection_id :: "string option"
  xv_kind :: model_resource_kind
  xv_enabled :: bool
  xv_published :: bool
  xv_revision :: u64
  xv_endpoint :: provider_endpoint
  xv_auth :: resource_auth_view
  xv_physical_model :: string
  xv_capabilities :: provider_capabilities
  xv_defaults :: model_defaults

record resource_validation =
  rd_model_resource_id :: string
  rd_revision :: u64
  rd_valid :: bool
  rd_checks :: "string list"

record resource_readiness =
  re_model_resource_id :: string
  re_revision :: u64
  re_ready :: bool
  re_provider_request_id :: "string option"
  re_usage :: token_usage

record gitops_report =
  gp_config_digest :: string
  gp_changed_model_resources :: "string list"
  gp_changed_model_selection_policies :: "string list"

record change_context =
  ch_operator_id :: string
  ch_reason :: string
  ch_reference :: string

text \<open>The JSON texts of the payloads that are hashed and of the answers that are kept.\<close>

record admin_codec =
  ac_connection_write :: "connection_write \<Rightarrow> string"
  ac_rotation :: "credential_rotation \<Rightarrow> string"
  ac_version_request :: "u64 \<Rightarrow> string"
  ac_service_write :: "service_write \<Rightarrow> string"
  ac_revision_request :: "u64 \<Rightarrow> string"
  ac_resource_write :: "resource_write \<Rightarrow> string"
  ac_policy_write :: "policy_write \<Rightarrow> string"
  ac_activation :: "policy_activation \<Rightarrow> string"
  ac_gitops_request :: "string \<Rightarrow> string"
  ac_enc_connection :: "connection_view \<Rightarrow> string"
  ac_dec_connection :: "string \<Rightarrow> connection_view option"
  ac_enc_test :: "connection_test \<Rightarrow> string"
  ac_dec_test :: "string \<Rightarrow> connection_test option"
  ac_enc_service :: "service_view \<Rightarrow> string"
  ac_dec_service :: "string \<Rightarrow> service_view option"
  ac_enc_resource :: "resource_view \<Rightarrow> string"
  ac_dec_resource :: "string \<Rightarrow> resource_view option"
  ac_enc_readiness :: "resource_readiness \<Rightarrow> string"
  ac_dec_readiness :: "string \<Rightarrow> resource_readiness option"
  ac_enc_gitops :: "gitops_report \<Rightarrow> string"
  ac_dec_gitops :: "string \<Rightarrow> gitops_report option"

type_synonym gateway_configuration =
  "(string, model_resource) btree \<times> (string, provider_connection) btree
     \<times> model_selection_policy list \<times> u64"

text \<open>
  \<open>ae_read_config\<close> is the mounted configuration file, read and parsed; \<open>ae_write_file\<close> says whether the
  file effects of \<open>write_file_secret_ref\<close> succeed; \<open>ae_others\<close> is what other requests of this gateway do
  to its configuration meanwhile.
\<close>

record admin_env = turn_env +
  ae_admin_token :: "string option"
  ae_runtime_token :: "string option"
  ae_codec :: admin_codec
  ae_to_rfc3339 :: "time \<Rightarrow> string"
  ae_read_config :: "nat \<Rightarrow> (string \<times> model_resource list \<times> model_selection_policy list) option"
  ae_write_file :: "nat \<Rightarrow> string \<Rightarrow> bool"
  ae_others :: "nat \<Rightarrow> gateway_configuration \<Rightarrow> gateway_configuration"

record admin_world = gateway_world +
  aw_connections :: "(string, provider_connection) btree"
  aw_version :: u64
  aw_accepting :: bool
  aw_files :: "(string \<times> string) list"
  aw_config_reads :: nat

type_synonym 'a admin_proc = "(admin_world, gateway_api_error, 'a) proc"

text \<open>A procedure of \<open>execute_turn\<close>, run by a handler.\<close>

definition on_turn :: "(gateway_world, 'e, 'a) proc \<Rightarrow> (admin_world, 'e, 'a) proc" where
  "on_turn m w = (case m (gateway_world.truncate w) of
     (r, v) \<Rightarrow> (r, gateway_world.extend v (gateway_world.more w)))"

definition configuration_of :: "admin_world \<Rightarrow> gateway_configuration" where
  "configuration_of w = (gw_resources w, aw_connections w, gw_policies w, aw_version w)"

definition set_configuration :: "gateway_configuration \<Rightarrow> admin_world \<Rightarrow> admin_world" where
  "set_configuration c w = (case c of (resources, connections, policies, version) \<Rightarrow>
     w\<lparr>gw_resources := resources, gw_policies := policies, aw_connections := connections,
       aw_version := version\<rparr>)"

definition admin_others :: "admin_env \<Rightarrow> admin_world \<Rightarrow> admin_world" where
  "admin_others E w =
    (let n = gw_awaits w; (db, mem) = te_others E n (sw_db w, gw_memory w) in
     set_configuration (ae_others E n (configuration_of w))
       (w\<lparr>sw_db := db, gw_memory := mem, gw_awaits := Suc n\<rparr>))"

definition locked :: "admin_env \<Rightarrow> (admin_world, 'e, 'a) proc \<Rightarrow> (admin_world, 'e, 'a) proc" where
  "locked E m = pbind (pmodify (admin_others E)) (\<lambda>_. m)"

section \<open>Errors\<close>

definition admin_error :: "u16 \<Rightarrow> string \<Rightarrow> string \<Rightarrow> bool \<Rightarrow> gateway_api_error" where
  "admin_error status ecode message retryable = gateway_error status ''admin'' ecode message retryable"

text \<open>Whether a stored error is a conflict is read off its message.\<close>

definition admin_storage_error :: "gateway_store_error \<Rightarrow> gateway_api_error" where
  "admin_storage_error e =
    (if (case e of Store_message m \<Rightarrow> str_contains m ''revision conflict'' \<or> str_contains m ''version conflict''
           | _ \<Rightarrow> False)
     then admin_error 409 ''admin_revision_conflict'' ''The requested revision is no longer current'' False
     else admin_error 503 ''gateway_storage_unavailable''
            ''Gateway durable state is temporarily unavailable'' True)"

definition admin_stored :: "admin_env \<Rightarrow> (admin_world, gateway_store_error, 'a) proc \<Rightarrow> 'a admin_proc" where
  "admin_stored E m = pmap_err admin_storage_error (locked E m)"

definition invalid_provider_connection :: "string \<Rightarrow> gateway_api_error" where
  "invalid_provider_connection message = admin_error 422 ''invalid_provider_connection'' message False"

section \<open>Identity and change context\<close>

definition bearer :: "http_headers \<Rightarrow> string option" where
  "bearer h = Option.bind (h ''authorization'') (strip_prefix ''Bearer '')"

definition authorize_admin :: "admin_env \<Rightarrow> http_headers \<Rightarrow> gateway_api_error + unit" where
  "authorize_admin E h = (case ae_admin_token E of
      None \<Rightarrow> Inl (admin_error 401 ''admin_authentication_failed'' ''Admin API is not configured'' False)
    | Some expected \<Rightarrow>
        if bearer h = Some expected then Inr ()
        else Inl (admin_error 401 ''admin_authentication_failed'' ''Admin identity is invalid'' False))"

definition authorize :: "admin_env \<Rightarrow> http_headers \<Rightarrow> string \<Rightarrow> gateway_api_error + unit" where
  "authorize E h request_id = (case ae_runtime_token E of
      None \<Rightarrow> Inr ()
    | Some expected \<Rightarrow>
        if bearer h = Some expected then Inr ()
        else Inl (gateway_error 401 request_id ''runtime_authentication_failed''
               ''Runtime service identity is invalid'' False))"

definition idempotency_key :: "http_headers \<Rightarrow> string option" where
  "idempotency_key h = Option.bind (h ''idempotency-key'') (\<lambda>k. if is_blank k then None else Some k)"

definition require_admin_idempotency :: "http_headers \<Rightarrow> gateway_api_error + unit" where
  "require_admin_idempotency h = (case idempotency_key h of
      Some _ \<Rightarrow> Inr ()
    | None \<Rightarrow> Inl (admin_error 400 ''idempotency_key_required''
                ''Admin write operations require Idempotency-Key'' False))"

definition context_field :: "http_headers \<Rightarrow> string \<Rightarrow> string option" where
  "context_field h n = Option.bind (map_option trim_spaces (h n)) (\<lambda>v. if v = [] then None else Some v)"

definition require_admin_change_context :: "http_headers \<Rightarrow> gateway_api_error + change_context" where
  "require_admin_change_context h =
    (case (context_field h ''x-operator-id'', context_field h ''x-change-reason'',
           context_field h ''x-change-reference'') of
       (Some operator, Some reason, Some reference) \<Rightarrow>
         Inr \<lparr>ch_operator_id = operator, ch_reason = reason, ch_reference = reference\<rparr>
     | _ \<Rightarrow> Inl (admin_error 400 ''admin_change_context_required''
              ''Admin write operations require x-operator-id, x-change-reason, and x-change-reference'' False))"

section \<open>Idempotent writes\<close>

datatype 'v admin_reservation = Write_Reserved string | Write_Completed 'v

definition reserve_admin_write ::
    "admin_env \<Rightarrow> http_headers \<Rightarrow> string \<Rightarrow> string \<Rightarrow> (string \<Rightarrow> 'v option) \<Rightarrow> 'v admin_reservation admin_proc" where
  "reserve_admin_write E h operation payload dec = (case idempotency_key h of
      None \<Rightarrow> praise (admin_error 400 ''idempotency_key_required''
                ''Admin write operations require Idempotency-Key'' True)
    | Some k \<Rightarrow>
        let key = operation @ '':'' @ k in
        pbind (admin_stored E (reserve_admin_operation E key (sha256_hex (ge_digest E) payload)))
         (\<lambda>answer. case answer of
            Ao_Reserved \<Rightarrow> pret (Write_Reserved key)
          | Ao_Completed response \<Rightarrow> (case dec response of
               Some v \<Rightarrow> pret (Write_Completed v)
             | None \<Rightarrow> praise (admin_error 503 ''gateway_storage_unavailable''
                         ''Gateway durable state is temporarily unavailable'' True))
          | Ao_Conflict \<Rightarrow> praise (admin_error 409 ''idempotency_conflict''
              ''The idempotency key was already used for a different admin request'' False)
          | Ao_InProgress \<Rightarrow> praise (admin_error 503 ''admin_operation_in_progress''
              ''The same admin operation is still in progress'' True)))"

definition complete_admin_write :: "admin_env \<Rightarrow> string \<Rightarrow> string \<Rightarrow> unit admin_proc" where
  "complete_admin_write E key response = admin_stored E (complete_admin_operation E key response)"

text \<open>Its own failure is ignored.\<close>

definition discard_admin_write :: "admin_env \<Rightarrow> string \<Rightarrow> unit admin_proc" where
  "discard_admin_write E key =
     pbind (pattempt (locked E (discard_admin_operation E key))) (\<lambda>_. pret ())"

definition finish_admin_write ::
    "admin_env \<Rightarrow> string \<Rightarrow> ('v \<Rightarrow> string) \<Rightarrow> gateway_api_error + 'v \<Rightarrow> 'v admin_proc" where
  "finish_admin_write E key enc result = (case result of
      Inr v \<Rightarrow> pbind (complete_admin_write E key (enc v)) (\<lambda>_. pret v)
    | Inl e \<Rightarrow> pbind (discard_admin_write E key) (\<lambda>_. praise e))"

definition idempotent_write ::
    "admin_env \<Rightarrow> http_headers \<Rightarrow> string \<Rightarrow> string \<Rightarrow> ('v \<Rightarrow> string) \<Rightarrow> (string \<Rightarrow> 'v option)
      \<Rightarrow> 'v admin_proc \<Rightarrow> 'v admin_proc" where
  "idempotent_write E h operation payload enc dec body =
     pbind (reserve_admin_write E h operation payload dec) (\<lambda>reservation. case reservation of
        Write_Completed v \<Rightarrow> pret v
      | Write_Reserved key \<Rightarrow> pbind (pattempt body) (finish_admin_write E key enc))"

definition audit_provider_admin_change ::
    "admin_env \<Rightarrow> string \<Rightarrow> string \<Rightarrow> change_context \<Rightarrow> unit admin_proc" where
  "audit_provider_admin_change E event subject change =
     admin_stored E (audit_admin_operation E event subject (ch_operator_id change) (ch_reason change)
       (ch_reference change))"

section \<open>The configuration in memory\<close>

definition as_map :: "('a \<Rightarrow> string) \<Rightarrow> 'a list \<Rightarrow> (string, 'a) btree" where
  "as_map f xs = fold (\<lambda>x m. bt_insert (f x) x m) xs bt_empty"

definition resolve_provider_connection ::
    "'e gateway_env_scheme \<Rightarrow> (string, provider_connection) btree \<Rightarrow> model_resource
      \<Rightarrow> gateway_store_error + model_resource" where
  "resolve_provider_connection E connections r =
     res_bind (case mr_provider_connection_id r of
         Some i \<Rightarrow> (case bt_get connections i of
            None \<Rightarrow> Inl (Store_message (''model resource '' @ mr_id r
                      @ '' references missing provider connection '' @ i))
          | Some c \<Rightarrow> res_bind (err_into Store_message (validate_provider_connection E c)) (\<lambda>_.
              Inr (r\<lparr>mr_kind := cn_kind c, mr_endpoint := cn_endpoint c, mr_auth := cn_auth c,
                     mr_enabled := mr_enabled r \<and> mr_published r \<and> cn_enabled c\<rparr>)))
       | None \<Rightarrow> Inr (r\<lparr>mr_enabled := mr_enabled r \<and> mr_published r\<rparr>))
      (\<lambda>resolved. res_bind (err_into Store_message (validate_model_resource E resolved)) (\<lambda>_. Inr resolved))"

fun resolve_provider_connections ::
    "'e gateway_env_scheme \<Rightarrow> (string, provider_connection) btree \<Rightarrow> model_resource list
      \<Rightarrow> gateway_store_error + model_resource list" where
  "resolve_provider_connections E connections [] = Inr []"
| "resolve_provider_connections E connections (r # rs) =
     res_bind (resolve_provider_connection E connections r) (\<lambda>x.
     res_bind (resolve_provider_connections E connections rs) (\<lambda>xs. Inr (x # xs)))"

text \<open>
  One attempt to read the configuration, under the lock of this gateway. The version is read before and
  after, because other processes may write between its statements.
\<close>

type_synonym configuration_rows =
  "model_resource list \<times> provider_connection list \<times> model_selection_policy list \<times> u64 \<times> u64"

definition read_configuration ::
    "admin_env \<Rightarrow> (admin_world, gateway_store_error, configuration_rows) proc" where
  "read_configuration E =
     pbind (locked E (configuration_version E)) (\<lambda>before.
     pbind (locked E (current_model_resources E)) (\<lambda>resources.
     pbind (locked E (provider_connections E)) (\<lambda>connections.
     pbind (locked E (current_model_selection_policies E)) (\<lambda>policies.
     pbind (locked E (configuration_version E)) (\<lambda>after.
     pret (resources, connections, policies, before, after))))))"

fun stable_configuration ::
    "nat \<Rightarrow> admin_env \<Rightarrow> (admin_world, gateway_store_error, configuration_rows option) proc" where
  "stable_configuration 0 E = pret None"
| "stable_configuration (Suc n) E =
     pbind (read_configuration E) (\<lambda>(resources, connections, policies, before, after).
     if before = after then pret (Some (resources, connections, policies, before, after))
     else stable_configuration n E)"

definition checked_configuration ::
    "'e gateway_env_scheme \<Rightarrow> configuration_rows \<Rightarrow> gateway_store_error + gateway_configuration" where
  "checked_configuration E rows = (case rows of (resources, connections, policies, _, version) \<Rightarrow>
     let by_id = as_map cn_id connections in
     res_bind (resolve_provider_connections E by_id resources) (\<lambda>resolved.
     res_bind (err_into Store_message (first_failure (validate_model_resource E) resolved)) (\<lambda>_.
     res_bind (err_into Store_message
        (first_failure (\<lambda>p. validate_model_selection_policy p resolved) policies)) (\<lambda>_.
     Inr (as_map mr_id resolved, by_id, policies, version)))))"

definition refresh_configuration :: "admin_env \<Rightarrow> (admin_world, gateway_store_error, unit) proc" where
  "refresh_configuration E =
     pbind (stable_configuration 3 E) (\<lambda>found. case found of
        None \<Rightarrow> praise (Store_message ''Provider Gateway configuration changed repeatedly while loading'')
      | Some rows \<Rightarrow>
          pbind (plift (checked_configuration E rows)) (\<lambda>c.
          locked E (pmodify (set_configuration c))))"

definition refresh_configuration_if_stale ::
    "admin_env \<Rightarrow> (admin_world, gateway_store_error, bool) proc" where
  "refresh_configuration_if_stale E =
     pbind (locked E (configuration_version E)) (\<lambda>durable.
     pbind (pasks aw_version) (\<lambda>version.
     if durable \<le> version then pret False
     else pbind (refresh_configuration E) (\<lambda>_. pret True)))"

definition refresh :: "admin_env \<Rightarrow> unit admin_proc" where
  "refresh E = pmap_err admin_storage_error (refresh_configuration E)"

section \<open>Provider connections\<close>

definition connection_view_of :: "provider_connection \<Rightarrow> connection_view" where
  "connection_view_of c =
     \<lparr>cv_schema_version = cn_schema_version c, cv_id = cn_id c, cv_name = cn_name c, cv_kind = cn_kind c,
      cv_base_url = ep_base_url (cn_endpoint c),
      cv_chat_completions_path = ep_chat_completions_path (cn_endpoint c),
      cv_enabled = cn_enabled c, cv_version = cn_version c,
      cv_credential_configured = (\<not> is_blank (au_secret_ref (cn_auth c))),
      cv_last_test_status = cn_last_test_status c, cv_last_tested_at = cn_last_tested_at c\<rparr>"

definition load_provider_connection :: "admin_env \<Rightarrow> string \<Rightarrow> provider_connection admin_proc" where
  "load_provider_connection E wid =
     pbind (admin_stored E (load_connection E wid)) (\<lambda>found. case found of
        None \<Rightarrow> praise (admin_error 404 ''provider_connection_not_found''
                  ''Provider Connection does not exist'' False)
      | Some c \<Rightarrow> pret c)"

definition provider_connection_from_write ::
    "'e gateway_env_scheme \<Rightarrow> connection_write \<Rightarrow> provider_connection option
      \<Rightarrow> gateway_api_error + provider_connection" where
  "provider_connection_from_write E write existing =
    (if cw_schema_version write \<noteq> ''provider-connection@1''
     then Inl (invalid_provider_connection ''Unsupported Provider Connection schemaVersion'')
     else res_bind (err_into (\<lambda>_. invalid_provider_connection ''Provider Connection id is invalid'')
        (validate_database_secret_name (cw_id write))) (\<lambda>_.
     let connection =
       \<lparr>cn_schema_version = ''provider-connection@1'', cn_id = cw_id write, cn_name = cw_name write,
        cn_kind = cw_kind write,
        cn_endpoint = \<lparr>ep_base_url = cw_base_url write,
          ep_chat_completions_path = ensure_leading_slash (cw_chat_completions_path write)\<rparr>,
        cn_auth = \<lparr>au_auth_type = ''bearer'', au_secret_ref = (case existing of
            Some c \<Rightarrow> au_secret_ref (cn_auth c)
          | None \<Rightarrow> ''db:provider-connection-'' @ cw_id write)\<rparr>,
        cn_enabled = cw_enabled write,
        cn_version = (case existing of Some c \<Rightarrow> cn_version c | None \<Rightarrow> 0),
        cn_last_test_status = Option.bind existing cn_last_test_status,
        cn_last_tested_at = Option.bind existing cn_last_tested_at\<rparr> in
     res_bind (err_into (\<lambda>_. invalid_provider_connection ''Provider Connection configuration is invalid'')
        (validate_provider_connection E connection)) (\<lambda>_. Inr connection)))"

text \<open>The encrypted credential of a connection and the name it is kept under.\<close>

definition encrypt_admin_secret :: "admin_env \<Rightarrow> string \<Rightarrow> string option admin_proc" where
  "encrypt_admin_secret E plaintext w =
     (Inr (te_encrypt E (gw_seals w) plaintext), w\<lparr>gw_seals := Suc (gw_seals w)\<rparr>)"

definition seal_credential ::
    "admin_env \<Rightarrow> provider_connection \<Rightarrow> string \<Rightarrow> (string \<times> string) admin_proc" where
  "seal_credential E connection api_key =
     pbind (plift (case strip_prefix ''db:'' (au_secret_ref (cn_auth connection)) of
         None \<Rightarrow> Inl (invalid_provider_connection ''Provider credential storage is invalid'')
       | Some n \<Rightarrow> Inr n)) (\<lambda>secret_name.
     pbind (plift (err_into (\<lambda>_. invalid_provider_connection ''Provider credential storage is invalid'')
        (validate_database_secret_name secret_name))) (\<lambda>_.
     pbind (encrypt_admin_secret E api_key) (\<lambda>sealed. case sealed of
        None \<Rightarrow> praise (invalid_provider_connection ''Provider credential could not be encrypted'')
      | Some ciphertext \<Rightarrow> pret (secret_name, ciphertext))))"

text \<open>What ends every write of a connection: its audit event, the refresh, the answer.\<close>

definition connection_changed ::
    "admin_env \<Rightarrow> string \<Rightarrow> change_context \<Rightarrow> provider_connection \<Rightarrow> connection_view admin_proc" where
  "connection_changed E event change saved =
     pbind (audit_provider_admin_change E event (cn_id saved) change) (\<lambda>_.
     pbind (refresh E) (\<lambda>_. pret (connection_view_of saved)))"

definition admin_write_context :: "admin_env \<Rightarrow> http_headers \<Rightarrow> gateway_api_error + change_context" where
  "admin_write_context E h =
     res_bind (authorize_admin E h) (\<lambda>_. res_bind (require_admin_idempotency h)
       (\<lambda>_. require_admin_change_context h))"

definition list_provider_connections :: "admin_env \<Rightarrow> http_headers \<Rightarrow> connection_view list admin_proc" where
  "list_provider_connections E h =
     pbind (plift (authorize_admin E h)) (\<lambda>_.
     pbind (admin_stored E (provider_connections E)) (\<lambda>cs. pret (map connection_view_of cs)))"

definition get_provider_connection :: "admin_env \<Rightarrow> http_headers \<Rightarrow> string \<Rightarrow> connection_view admin_proc" where
  "get_provider_connection E h wid =
     pbind (plift (authorize_admin E h)) (\<lambda>_.
     pbind (load_provider_connection E wid) (\<lambda>c. pret (connection_view_of c)))"

definition create_provider_connection ::
    "admin_env \<Rightarrow> http_headers \<Rightarrow> connection_write \<Rightarrow> connection_view admin_proc" where
  "create_provider_connection E h write =
     pbind (plift (admin_write_context E h)) (\<lambda>change.
     idempotent_write E h ''provider-connection.create'' (ac_connection_write (ae_codec E) write)
       (ac_enc_connection (ae_codec E)) (ac_dec_connection (ae_codec E)) (
     case cw_api_key write of
       None \<Rightarrow> praise (invalid_provider_connection ''Creating a Provider Connection requires apiKey'')
     | Some api_key \<Rightarrow>
         pbind (plift (provider_connection_from_write E write None)) (\<lambda>connection.
         pbind (seal_credential E connection api_key) (\<lambda>(secret_name, ciphertext).
         pbind (admin_stored E (save_provider_connection_with_secret E connection
            (cw_expected_version write) secret_name ciphertext)) (\<lambda>saved.
         connection_changed E ''provider_connection.created'' change saved)))))"

definition update_provider_connection ::
    "admin_env \<Rightarrow> http_headers \<Rightarrow> string \<Rightarrow> connection_write \<Rightarrow> connection_view admin_proc" where
  "update_provider_connection E h wid write =
     pbind (plift (admin_write_context E h)) (\<lambda>change.
     if cw_id write \<noteq> wid
     then praise (invalid_provider_connection ''Provider Connection path id and payload id must match'')
     else if cw_api_key write \<noteq> None
     then praise (invalid_provider_connection ''Use rotate-credential to replace a Provider credential'')
     else idempotent_write E h (''provider-connection.update.'' @ wid)
       (ac_connection_write (ae_codec E) write)
       (ac_enc_connection (ae_codec E)) (ac_dec_connection (ae_codec E)) (
         pbind (load_provider_connection E wid) (\<lambda>existing.
         pbind (plift (provider_connection_from_write E write (Some existing))) (\<lambda>connection.
         pbind (admin_stored E (save_provider_connection E connection (cw_expected_version write))) (\<lambda>saved.
         connection_changed E ''provider_connection.updated'' change saved)))))"

definition set_provider_connection_enabled ::
    "admin_env \<Rightarrow> http_headers \<Rightarrow> string \<Rightarrow> u64 \<Rightarrow> bool \<Rightarrow> connection_view admin_proc" where
  "set_provider_connection_enabled E h wid expected enabled =
     pbind (plift (admin_write_context E h)) (\<lambda>change.
     idempotent_write E h (''provider-connection.'' @ (if enabled then ''enable'' else ''disable'') @ ''.'' @ wid)
       (ac_version_request (ae_codec E) expected)
       (ac_enc_connection (ae_codec E)) (ac_dec_connection (ae_codec E)) (
         pbind (load_provider_connection E wid) (\<lambda>connection.
         pbind (admin_stored E (save_provider_connection E (connection\<lparr>cn_enabled := enabled\<rparr>)
            (Some expected))) (\<lambda>saved.
         connection_changed E
           (if enabled then ''provider_connection.enabled'' else ''provider_connection.disabled'')
           change saved))))"

definition connection_version_conflict :: "string \<Rightarrow> u64 \<Rightarrow> provider_connection \<Rightarrow> gateway_api_error" where
  "connection_version_conflict wid expected c = admin_storage_error (Store_message
     (''provider connection version conflict for '' @ wid @ '': expected '' @ show_u64 expected
       @ '', current '' @ show_u64 (cn_version c)))"

definition rotate_provider_connection_credential ::
    "admin_env \<Rightarrow> http_headers \<Rightarrow> string \<Rightarrow> credential_rotation \<Rightarrow> connection_view admin_proc" where
  "rotate_provider_connection_credential E h wid rotation =
     pbind (plift (admin_write_context E h)) (\<lambda>change.
     idempotent_write E h (''provider-connection.rotate-credential.'' @ wid)
       (ac_rotation (ae_codec E) rotation)
       (ac_enc_connection (ae_codec E)) (ac_dec_connection (ae_codec E)) (
         if is_blank (ro_api_key rotation)
         then praise (invalid_provider_connection ''apiKey must not be empty'')
         else pbind (load_provider_connection E wid) (\<lambda>connection.
         if cn_version connection \<noteq> ro_expected_version rotation
         then praise (connection_version_conflict wid (ro_expected_version rotation) connection)
         else pbind (seal_credential E connection (ro_api_key rotation)) (\<lambda>(secret_name, ciphertext).
         pbind (admin_stored E (save_provider_connection_with_secret E connection
            (Some (ro_expected_version rotation)) secret_name ciphertext)) (\<lambda>saved.
         connection_changed E ''provider_connection.credential_rotated'' change saved)))))"

text \<open>The checks of a connection and the recording of their success.\<close>

definition connection_checks ::
    "admin_env \<Rightarrow> string \<Rightarrow> u64 \<Rightarrow> change_context \<Rightarrow> connection_test admin_proc" where
  "connection_checks E wid expected change =
     pbind (load_provider_connection E wid) (\<lambda>connection.
     if cn_version connection \<noteq> expected then praise (connection_version_conflict wid expected connection)
     else pbind (plift (err_into (\<lambda>_. invalid_provider_connection
        ''Provider Connection configuration is invalid'') (validate_provider_connection E connection))) (\<lambda>_.
     pbind (pmap_err (\<lambda>_. invalid_provider_connection ''Provider credential is unavailable'')
        (locked E (on_turn (resolve_secret_ref (turn_env.truncate E) (au_secret_ref (cn_auth connection)))))) (\<lambda>_.
     pbind (pmap_err (\<lambda>_. invalid_provider_connection ''Provider endpoint DNS validation failed'')
        (locked E (on_turn (validate_resource_endpoint_dns (turn_env.truncate E)
           (ep_base_url (cn_endpoint connection)))))) (\<lambda>_.
     pbind (utc_now E) (\<lambda>now.
     let tested_at = ae_to_rfc3339 E now in
     pbind (admin_stored E (save_provider_connection E
        (connection\<lparr>cn_last_test_status := Some ''ready'', cn_last_tested_at := Some tested_at\<rparr>)
        (Some expected))) (\<lambda>saved.
     pbind (audit_provider_admin_change E ''provider_connection.test_succeeded'' (cn_id saved) change) (\<lambda>_.
     pbind (refresh E) (\<lambda>_.
     pret \<lparr>ct_provider_connection_id = cn_id saved, ct_version = cn_version saved, ct_status = ''ready'',
       ct_tested_at = tested_at, ct_checks = [''schema'', ''url'', ''dns'', ''credential'']\<rparr>))))))))"

text \<open>A failed test of the version it was asked for is recorded too; what fails in that is ignored.\<close>

definition record_failed_test ::
    "admin_env \<Rightarrow> string \<Rightarrow> u64 \<Rightarrow> change_context \<Rightarrow> unit admin_proc" where
  "record_failed_test E wid expected change =
     pbind (pattempt (load_provider_connection E wid)) (\<lambda>found. case found of
        Inl _ \<Rightarrow> pret ()
      | Inr connection \<Rightarrow>
          if cn_version connection \<noteq> expected then pret ()
          else pbind (utc_now E) (\<lambda>now.
          pbind (pattempt (locked E (save_provider_connection E
             (connection\<lparr>cn_last_test_status := Some ''failed'',
                cn_last_tested_at := Some (ae_to_rfc3339 E now)\<rparr>) (Some expected)))) (\<lambda>saved. case saved of
             Inl _ \<Rightarrow> pret ()
           | Inr c \<Rightarrow>
               pbind (pattempt (audit_provider_admin_change E ''provider_connection.test_failed''
                  (cn_id c) change)) (\<lambda>_.
               pbind (pattempt (refresh_configuration E)) (\<lambda>_. pret ())))))"

definition test_provider_connection ::
    "admin_env \<Rightarrow> http_headers \<Rightarrow> string \<Rightarrow> u64 \<Rightarrow> connection_test admin_proc" where
  "test_provider_connection E h wid expected =
     pbind (plift (admin_write_context E h)) (\<lambda>change.
     pbind (reserve_admin_write E h (''provider-connection.test.'' @ wid)
        (ac_version_request (ae_codec E) expected) (ac_dec_test (ae_codec E))) (\<lambda>reservation.
     case reservation of
        Write_Completed v \<Rightarrow> pret v
      | Write_Reserved key \<Rightarrow>
          pbind (pattempt (connection_checks E wid expected change)) (\<lambda>result. case result of
             Inr v \<Rightarrow> finish_admin_write E key (ac_enc_test (ae_codec E)) (Inr v)
           | Inl e \<Rightarrow> pbind (record_failed_test E wid expected change)
               (\<lambda>_. finish_admin_write E key (ac_enc_test (ae_codec E)) (Inl e)))))"

end
