(* ===== verification/GatewayServices.thy ===== *)
theory GatewayServices
  imports GatewayAdmin
begin

text \<open>
  The gateway's model services and the policies that list them, its model resources with their probes,
  and its selection policies.
\<close>

section \<open>Model services\<close>

definition invalid_model_service :: "string \<Rightarrow> gateway_api_error" where
  "invalid_model_service message = admin_error 422 ''invalid_model_service'' message False"

definition model_service_not_found :: gateway_api_error where
  "model_service_not_found = admin_error 404 ''model_service_not_found'' ''Model Service does not exist'' False"

definition service_view_of :: "model_resource \<Rightarrow> gateway_api_error + service_view" where
  "service_view_of r = (case mr_provider_connection_id r of
      None \<Rightarrow> Inl model_service_not_found
    | Some i \<Rightarrow> Inr
        \<lparr>vv_schema_version = ''model-service@1'', vv_id = mr_id r, vv_provider_connection_id = i,
         vv_display_name = mr_display_name r, vv_description = mr_description r,
         vv_physical_model = mr_physical_model r, vv_capabilities = mr_capabilities r,
         vv_defaults = mr_defaults r, vv_published = mr_published r, vv_sort_order = mr_sort_order r,
         vv_revision = mr_revision r\<rparr>)"

definition load_raw_model_service :: "admin_env \<Rightarrow> string \<Rightarrow> model_resource admin_proc" where
  "load_raw_model_service E wid =
     pbind (admin_stored E (load_model_resource E wid None)) (\<lambda>found. case found of
        None \<Rightarrow> praise model_service_not_found
      | Some r \<Rightarrow> if mr_provider_connection_id r = None then praise model_service_not_found else pret r)"

definition model_service_from_write ::
    "admin_env \<Rightarrow> service_write \<Rightarrow> model_resource option \<Rightarrow> model_resource admin_proc" where
  "model_service_from_write E write existing =
    (if vw_schema_version write \<noteq> ''model-service@1''
     then praise (invalid_model_service ''Unsupported Model Service schemaVersion'')
     else pbind (plift (err_into (\<lambda>_. invalid_model_service ''Model Service id is invalid'')
        (validate_database_secret_name (vw_id write)))) (\<lambda>_.
     pbind (load_provider_connection E (vw_provider_connection_id write)) (\<lambda>connection.
     if (case existing of None \<Rightarrow> False | Some r \<Rightarrow> mr_published r) \<and> \<not> cn_enabled connection
     then praise (invalid_model_service ''A published Model Service must use an enabled Provider Connection'')
     else
       let resource =
         \<lparr>mr_schema_version = ''model-resource@1'', mr_id = vw_id write,
          mr_display_name = vw_display_name write, mr_description = vw_description write,
          mr_sort_order = vw_sort_order write, mr_provider_connection_id = Some (cn_id connection),
          mr_kind = cn_kind connection,
          mr_enabled = (case existing of None \<Rightarrow> True | Some r \<Rightarrow> mr_enabled r),
          mr_published = (case existing of None \<Rightarrow> False | Some r \<Rightarrow> mr_published r),
          mr_revision = (case existing of None \<Rightarrow> 0 | Some r \<Rightarrow> mr_revision r),
          mr_endpoint = cn_endpoint connection, mr_auth = cn_auth connection,
          mr_physical_model = vw_physical_model write, mr_capabilities = vw_capabilities write,
          mr_defaults = vw_defaults write\<rparr> in
       pbind (plift (err_into (\<lambda>_. invalid_model_service ''Model Service configuration is invalid'')
          (validate_model_resource E resource))) (\<lambda>_. pret resource))))"

definition list_model_services :: "admin_env \<Rightarrow> http_headers \<Rightarrow> service_view list admin_proc" where
  "list_model_services E h =
     pbind (plift (authorize_admin E h)) (\<lambda>_.
     pbind (admin_stored E (current_model_resources E)) (\<lambda>resources.
     let services = List.map_filter (\<lambda>r. if mr_provider_connection_id r = None then None
           else (case service_view_of r of Inl _ \<Rightarrow> None | Inr v \<Rightarrow> Some v)) resources in
     pret (sort_key vv_sort_order (sort_key vv_display_name (sort_key vv_id services)))))"

definition get_model_service :: "admin_env \<Rightarrow> http_headers \<Rightarrow> string \<Rightarrow> service_view admin_proc" where
  "get_model_service E h wid =
     pbind (plift (authorize_admin E h)) (\<lambda>_.
     pbind (load_raw_model_service E wid) (\<lambda>r. plift (service_view_of r)))"

text \<open>What ends every write of a service: its audit event, the refresh, the answer.\<close>

definition service_changed ::
    "admin_env \<Rightarrow> string \<Rightarrow> change_context \<Rightarrow> model_resource \<Rightarrow> service_view admin_proc" where
  "service_changed E event change saved =
     pbind (audit_provider_admin_change E event (mr_id saved) change) (\<lambda>_.
     pbind (refresh E) (\<lambda>_. plift (service_view_of saved)))"

definition create_model_service ::
    "admin_env \<Rightarrow> http_headers \<Rightarrow> service_write \<Rightarrow> service_view admin_proc" where
  "create_model_service E h write =
     pbind (plift (admin_write_context E h)) (\<lambda>change.
     idempotent_write E h ''model-service.create'' (ac_service_write (ae_codec E) write)
       (ac_enc_service (ae_codec E)) (ac_dec_service (ae_codec E)) (
         pbind (model_service_from_write E write None) (\<lambda>resource.
         pbind (admin_stored E (save_model_resource E resource (vw_expected_revision write))) (\<lambda>saved.
         service_changed E ''model_service.created'' change saved))))"

definition update_model_service ::
    "admin_env \<Rightarrow> http_headers \<Rightarrow> string \<Rightarrow> service_write \<Rightarrow> service_view admin_proc" where
  "update_model_service E h wid write =
     pbind (plift (admin_write_context E h)) (\<lambda>change.
     if vw_id write \<noteq> wid
     then praise (invalid_model_service ''Model Service path id and payload id must match'')
     else idempotent_write E h (''model-service.update.'' @ wid) (ac_service_write (ae_codec E) write)
       (ac_enc_service (ae_codec E)) (ac_dec_service (ae_codec E)) (
         pbind (load_raw_model_service E wid) (\<lambda>existing.
         pbind (model_service_from_write E write (Some existing)) (\<lambda>resource.
         pbind (admin_stored E (save_model_resource E resource (vw_expected_revision write))) (\<lambda>saved.
         service_changed E ''model_service.updated'' change saved)))))"

section \<open>The policies list the published services\<close>

definition published_service_ids ::
    "model_resource list \<Rightarrow> provider_connection list \<Rightarrow> string option \<Rightarrow> string list" where
  "published_service_ids resources connections publishing_id =
     sort (map mr_id (filter (\<lambda>r. (mr_published r \<or> publishing_id = Some (mr_id r)) \<and> mr_enabled r
       \<and> (case mr_provider_connection_id r of None \<Rightarrow> False
          | Some i \<Rightarrow> \<exists>c \<in> set connections. cn_enabled c \<and> cn_id c = i)) resources))"

text \<open>\<open>sort\<close> and \<open>dedup\<close> of the ids that are no services and the published ones.\<close>

definition projected_selection :: "model_resource list \<Rightarrow> string list \<Rightarrow> string list \<Rightarrow> string list" where
  "projected_selection resources published allowed =
     remdups_adj (sort (filter (\<lambda>i. \<not> (\<exists>r \<in> set resources.
       mr_provider_connection_id r \<noteq> None \<and> mr_id r = i)) allowed @ published))"

definition sync_published_model_policy_projection :: "admin_env \<Rightarrow> string option \<Rightarrow> unit admin_proc" where
  "sync_published_model_policy_projection E publishing_id =
     pbind (admin_stored E (current_model_resources E)) (\<lambda>resources.
     pbind (admin_stored E (provider_connections E)) (\<lambda>connections.
     pbind (admin_stored E (current_model_selection_policies E)) (\<lambda>policies.
     if policies = []
     then praise (invalid_model_service
            ''At least one active Model Selection Policy is required before publishing'')
     else
       let published = published_service_ids resources connections publishing_id in
       each (\<lambda>policy. pbind (admin_stored E (save_model_selection_policy E
            (policy\<lparr>mp_direct_selection := projected_selection resources published (mp_direct_selection policy)\<rparr>)
            (Some (mp_revision policy)))) (\<lambda>_. pret ())) policies)))"

text \<open>A service is listed before it becomes published, and leaves the lists after it no longer is.\<close>

definition before_publishing :: "admin_env \<Rightarrow> string \<Rightarrow> model_resource \<Rightarrow> unit admin_proc" where
  "before_publishing E wid resource = (case mr_provider_connection_id resource of
      None \<Rightarrow> praise (invalid_model_service ''Model Service has no Provider Connection'')
    | Some i \<Rightarrow> pbind (load_provider_connection E i) (\<lambda>connection.
        if \<not> cn_enabled connection
        then praise (invalid_model_service
               ''Provider Connection must be enabled before publishing a Model Service'')
        else sync_published_model_policy_projection E (Some wid)))"

definition resource_revision_conflict :: "string \<Rightarrow> u64 \<Rightarrow> model_resource \<Rightarrow> gateway_api_error" where
  "resource_revision_conflict wid expected r = admin_storage_error (Store_message
     (''resource revision conflict for '' @ wid @ '': expected '' @ show_u64 expected
       @ '', current '' @ show_u64 (mr_revision r)))"

definition set_model_service_published ::
    "admin_env \<Rightarrow> http_headers \<Rightarrow> string \<Rightarrow> u64 \<Rightarrow> bool \<Rightarrow> service_view admin_proc" where
  "set_model_service_published E h wid expected published =
     pbind (plift (admin_write_context E h)) (\<lambda>change.
     idempotent_write E h (''model-service.'' @ (if published then ''publish'' else ''unpublish'') @ ''.'' @ wid)
       (ac_revision_request (ae_codec E) expected)
       (ac_enc_service (ae_codec E)) (ac_dec_service (ae_codec E)) (
         pbind (load_raw_model_service E wid) (\<lambda>resource.
         if mr_revision resource \<noteq> expected then praise (resource_revision_conflict wid expected resource)
         else pbind (if published then before_publishing E wid resource else pret ()) (\<lambda>_.
         pbind (admin_stored E (save_model_resource E (resource\<lparr>mr_published := published\<rparr>)
            (Some expected))) (\<lambda>saved.
         pbind (if published then pret () else sync_published_model_policy_projection E None) (\<lambda>_.
         service_changed E (if published then ''model_service.published'' else ''model_service.unpublished'')
           change saved))))))"

section \<open>Model resources\<close>

definition resource_view_of :: "model_resource \<Rightarrow> resource_view" where
  "resource_view_of r =
     \<lparr>xv_schema_version = mr_schema_version r, xv_id = mr_id r, xv_display_name = mr_display_name r,
      xv_provider_connection_id = mr_provider_connection_id r, xv_kind = mr_kind r,
      xv_enabled = mr_enabled r, xv_published = mr_published r, xv_revision = mr_revision r,
      xv_endpoint = mr_endpoint r,
      xv_auth = \<lparr>xa_auth_type = au_auth_type (mr_auth r),
        xa_secret_configured = (\<not> is_blank (au_secret_ref (mr_auth r)))\<rparr>,
      xv_physical_model = mr_physical_model r, xv_capabilities = mr_capabilities r,
      xv_defaults = mr_defaults r\<rparr>"

definition model_resource_not_found :: "string \<Rightarrow> gateway_api_error" where
  "model_resource_not_found message = admin_error 404 ''model_resource_not_found'' message False"

definition invalid_model_resource :: gateway_api_error where
  "invalid_model_resource = admin_error 422 ''invalid_model_resource''
     ''Model resource endpoint, schema, or authentication is invalid'' False"

text \<open>A stored revision with the connection this gateway knows.\<close>

definition resolved_resource ::
    "admin_env \<Rightarrow> string \<Rightarrow> u64 option \<Rightarrow> string \<Rightarrow> model_resource admin_proc" where
  "resolved_resource E wid revision missing =
     pbind (admin_stored E (load_model_resource E wid revision)) (\<lambda>found. case found of
        None \<Rightarrow> praise (model_resource_not_found missing)
      | Some r \<Rightarrow>
          pbind (locked E (pasks aw_connections)) (\<lambda>connections.
          plift (err_into admin_storage_error (resolve_provider_connection E connections r))))"

definition list_model_resources :: "admin_env \<Rightarrow> http_headers \<Rightarrow> resource_view list admin_proc" where
  "list_model_resources E h =
     pbind (plift (authorize_admin E h)) (\<lambda>_.
     pbind (admin_stored E (current_model_resources E)) (\<lambda>rs. pret (map resource_view_of rs)))"

definition get_model_resource ::
    "admin_env \<Rightarrow> http_headers \<Rightarrow> string \<Rightarrow> u64 option \<Rightarrow> resource_view admin_proc" where
  "get_model_resource E h wid revision =
     pbind (plift (authorize_admin E h)) (\<lambda>_.
     pbind (resolved_resource E wid revision ''Model resource does not exist'') (\<lambda>r.
     pret (resource_view_of r)))"

definition validation_checks :: "string list" where
  "validation_checks = [''schema'', ''url'', ''dns'']"

definition validate_model_resource_endpoint ::
    "admin_env \<Rightarrow> http_headers \<Rightarrow> string \<Rightarrow> resource_validation admin_proc" where
  "validate_model_resource_endpoint E h wid =
     pbind (plift (authorize_admin E h)) (\<lambda>_.
     pbind (admin_stored E (load_model_resource E wid None)) (\<lambda>found. case found of
        None \<Rightarrow> praise (model_resource_not_found ''Model resource does not exist'')
      | Some r \<Rightarrow>
          pbind (plift (err_into (\<lambda>_. invalid_model_resource) (validate_model_resource E r))) (\<lambda>_.
          pbind (pmap_err (\<lambda>_. admin_error 422 ''invalid_model_resource_endpoint''
              ''Model resource endpoint does not resolve to an approved network'' False)
            (locked E (on_turn (validate_resource_endpoint_dns (turn_env.truncate E)
               (ep_base_url (mr_endpoint r)))))) (\<lambda>_.
          pbind (admin_stored E (audit_event E ''model_resource.validated'' (mr_id r)
             (gc_json (se_codec E) (JObject [(''revision'', json_word (mr_revision r)),
                (''checks'', JArray (map JString validation_checks))])))) (\<lambda>_.
          pret \<lparr>rd_model_resource_id = mr_id r, rd_revision = mr_revision r, rd_valid = True,
            rd_checks = validation_checks\<rparr>)))))"

definition readiness_id :: "model_resource \<Rightarrow> string" where
  "readiness_id r = ''readiness-'' @ mr_id r @ ''-'' @ show_u64 (mr_revision r)"

definition readiness_probe_request :: "admin_env \<Rightarrow> time \<Rightarrow> model_resource \<Rightarrow> turn_request" where
  "readiness_probe_request E now r =
     \<lparr>gr_schema_version = ''provider-gateway-turn-request@1'', gr_request_id = readiness_id r,
      gr_idempotency_key = readiness_id r, gr_deadline_at = ae_to_rfc3339 E (now + seconds 30),
      gr_scope = \<lparr>ts_workspace_id = ''ws-provider-admin'', ts_project_id = ''provider-gateway-readiness'',
        ts_run_id = readiness_id r, ts_turn = 1, ts_phase = ''readiness'',
        ts_agent_profile = ''gateway-readiness''\<rparr>,
      gr_routing = \<lparr>tr_model_resource_id = Some (mr_id r), tr_required_capabilities =
        \<lparr>rc_tool_calls = False, rc_strict_tool_schema = False, rc_streaming = False, rc_vision = False\<rparr>\<rparr>,
      gr_input = \<lparr>ti_system_prompt = ''Reply with READY.'', ti_messages = [], ti_tools = [],
        ti_deferred_tools = []\<rparr>\<rparr>"

text \<open>A probe is a call like those of a turn: circuit, bulkhead, provider, and what it says of the circuit.\<close>

definition probe_resource ::
    "admin_env \<Rightarrow> model_resource \<Rightarrow> turn_request \<Rightarrow> resource_readiness admin_proc" where
  "probe_resource E r request = (let T = turn_env.truncate E in
     pbind (locked E (on_turn (resource_circuit_allows T r request))) (\<lambda>allowed.
     if \<not> allowed
     then praise (admin_error 503 ''provider_unavailable'' ''Model resource circuit is open'' True)
     else pbind (locked E (on_turn (acquire_resource_bulkhead T r request))) (\<lambda>_.
     pbind (pattempt (on_turn (call_resource T r request))) (\<lambda>called. case called of
        Inl e \<Rightarrow>
          pbind (if is_retryable_upstream e
                 then locked E (on_turn (record_resource_retryable_failure T r request)) else pret ())
            (\<lambda>_. praise e)
      | Inr provider \<Rightarrow>
          pbind (locked E (on_turn (record_resource_success T r request))) (\<lambda>_.
          pret \<lparr>re_model_resource_id = mr_id r, re_revision = mr_revision r, re_ready = True,
            re_provider_request_id = pt_provider_request_id provider, re_usage = pt_usage provider\<rparr>)))))"

text \<open>An audit event that cannot be written leaves a successful probe reserved.\<close>

definition readiness_model_resource ::
    "admin_env \<Rightarrow> http_headers \<Rightarrow> string \<Rightarrow> u64 \<Rightarrow> resource_readiness admin_proc" where
  "readiness_model_resource E h wid expected =
     pbind (plift (admin_write_context E h)) (\<lambda>change.
     pbind (resolved_resource E wid (Some expected) ''Model resource revision does not exist'') (\<lambda>r.
     pbind (reserve_admin_write E h
        (''model-resource.readiness.'' @ mr_id r @ '':'' @ show_u64 (mr_revision r))
        (ac_revision_request (ae_codec E) expected) (ac_dec_readiness (ae_codec E))) (\<lambda>reservation.
     case reservation of
        Write_Completed v \<Rightarrow> pret v
      | Write_Reserved key \<Rightarrow>
          pbind (utc_now E) (\<lambda>now.
          pbind (pattempt (probe_resource E r (readiness_probe_request E now r))) (\<lambda>result. case result of
             Inr v \<Rightarrow>
               pbind (admin_stored E (audit_admin_operation E ''model_resource.readiness_succeeded'' (mr_id r)
                  (ch_operator_id change) (ch_reason change) (ch_reference change))) (\<lambda>_.
               pbind (admin_stored E (audit_event E ''model_resource.readiness_observed'' (mr_id r)
                  (gc_json (se_codec E) (JObject [(''revision'', json_word (re_revision v)),
                    (''providerRequestId'', json_opt JString (re_provider_request_id v)),
                    (''usage'', usage_json (re_usage v))])))) (\<lambda>_.
               pbind (complete_admin_write E key (ac_enc_readiness (ae_codec E) v)) (\<lambda>_. pret v)))
           | Inl e \<Rightarrow>
               pbind (pattempt (locked E (audit_event E ''model_resource.readiness_failed'' (mr_id r)
                  (gc_json (se_codec E) (JObject [(''revision'', json_word (mr_revision r)),
                    (''code'', JString (api_error_code e))]))))) (\<lambda>_.
               pbind (discard_admin_write E key) (\<lambda>_. praise e)))))))"

text \<open>The service is looked up before the caller's identity is checked.\<close>

definition test_model_service ::
    "admin_env \<Rightarrow> http_headers \<Rightarrow> string \<Rightarrow> u64 \<Rightarrow> resource_readiness admin_proc" where
  "test_model_service E h wid expected =
     pbind (load_raw_model_service E wid) (\<lambda>_. readiness_model_resource E h wid expected)"

definition write_secret_ref ::
    "admin_env \<Rightarrow> string \<Rightarrow> string \<Rightarrow> (admin_world, gateway_store_error, unit) proc" where
  "write_secret_ref E secret_ref api_key =
    (if is_blank api_key then praise (Store_message ''API key must not be empty'')
     else case strip_prefix ''db:'' secret_ref of
       Some n \<Rightarrow>
         pbind (plift (err_into Store_message (validate_database_secret_name n))) (\<lambda>_.
         pbind (pmap_err (\<lambda>_. Decode_failed) (encrypt_admin_secret E api_key)) (\<lambda>sealed. case sealed of
            None \<Rightarrow> praise (Store_message ''encrypting Provider Gateway protected data'')
          | Some ciphertext \<Rightarrow> locked E (save_encrypted_secret E n ciphertext)))
     | None \<Rightarrow> (case strip_prefix ''file:'' secret_ref of
         None \<Rightarrow> praise (Store_message ''only file: secret references are supported by this backend'')
       | Some path \<Rightarrow> (\<lambda>w.
           if ae_write_file E (length (aw_files w)) path
           then (Inr (), w\<lparr>aw_files := aw_files w @ [(path, api_key)]\<rparr>)
           else (Inl (Store_message ''secret file''), w))))"

definition create_model_resource ::
    "admin_env \<Rightarrow> http_headers \<Rightarrow> resource_write \<Rightarrow> resource_view admin_proc" where
  "create_model_resource E h write =
     pbind (plift (admin_write_context E h)) (\<lambda>change.
     idempotent_write E h ''model-resource.write'' (ac_resource_write (ae_codec E) write)
       (ac_enc_resource (ae_codec E)) (ac_dec_resource (ae_codec E)) (
         pbind (plift (err_into (\<lambda>_. invalid_model_resource) (validate_model_resource E (xw_resource write)))) (\<lambda>_.
         pbind (case xw_api_key write of
            None \<Rightarrow> pret ()
          | Some api_key \<Rightarrow> pmap_err (\<lambda>_. admin_error 422 ''invalid_secret_ref''
              ''Admin API could not write the API key to the approved secret backend'' False)
              (write_secret_ref E (au_secret_ref (mr_auth (xw_resource write))) api_key)) (\<lambda>_.
         pbind (admin_stored E (save_model_resource E (xw_resource write) (xw_expected_revision write))) (\<lambda>saved.
         pbind (audit_provider_admin_change E ''model_resource.admin_write'' (mr_id saved) change) (\<lambda>_.
         pbind (refresh E) (\<lambda>_. pret (resource_view_of saved))))))))"

definition set_resource_enabled ::
    "admin_env \<Rightarrow> http_headers \<Rightarrow> string \<Rightarrow> u64 \<Rightarrow> bool \<Rightarrow> resource_view admin_proc" where
  "set_resource_enabled E h wid expected enabled =
     pbind (plift (admin_write_context E h)) (\<lambda>change.
     idempotent_write E h (''model-resource.'' @ (if enabled then ''enable'' else ''disable'') @ ''.'' @ wid)
       (ac_revision_request (ae_codec E) expected)
       (ac_enc_resource (ae_codec E)) (ac_dec_resource (ae_codec E)) (
         pbind (admin_stored E (set_model_resource_enabled E wid enabled expected)) (\<lambda>saved.
         pbind (audit_provider_admin_change E
            (if enabled then ''model_resource.enabled'' else ''model_resource.disabled'') (mr_id saved) change) (\<lambda>_.
         pbind (refresh E) (\<lambda>_. pret (resource_view_of saved))))))"

section \<open>Selection policies\<close>

definition selection_policy_not_found :: "string \<Rightarrow> gateway_api_error" where
  "selection_policy_not_found message = admin_error 404 ''model_selection_policy_not_found'' message False"

definition invalid_selection_policy :: "string \<Rightarrow> gateway_api_error" where
  "invalid_selection_policy message = admin_error 422 ''invalid_model_selection_policy'' message False"

definition list_model_selection_policies ::
    "admin_env \<Rightarrow> http_headers \<Rightarrow> model_selection_policy list admin_proc" where
  "list_model_selection_policies E h =
     pbind (plift (authorize_admin E h)) (\<lambda>_. admin_stored E (current_model_selection_policies E))"

definition get_model_selection_policy ::
    "admin_env \<Rightarrow> http_headers \<Rightarrow> string \<Rightarrow> u64 option \<Rightarrow> model_selection_policy admin_proc" where
  "get_model_selection_policy E h wid revision =
     pbind (plift (authorize_admin E h)) (\<lambda>_.
     pbind (admin_stored E (load_selection_policy E wid revision)) (\<lambda>found. case found of
        None \<Rightarrow> praise (selection_policy_not_found ''Model selection policy does not exist'')
      | Some p \<Rightarrow> pret p))"

definition create_model_selection_policy ::
    "admin_env \<Rightarrow> http_headers \<Rightarrow> policy_write \<Rightarrow> model_selection_policy admin_proc" where
  "create_model_selection_policy E h write =
     pbind (plift (admin_write_context E h)) (\<lambda>change.
     idempotent_write E h ''model-selection-policy.write'' (ac_policy_write (ae_codec E) write)
       (gc_enc_policy (se_codec E)) (gc_dec_policy (se_codec E)) (
         pbind (admin_stored E (current_model_resources E)) (\<lambda>resources.
         pbind (plift (err_into (\<lambda>_. invalid_selection_policy
            ''Model selection policy refers to an unknown resource or has an invalid schema'')
            (validate_model_selection_policy (yw_policy write) resources))) (\<lambda>_.
         pbind (admin_stored E (save_model_selection_policy E (yw_policy write)
            (yw_expected_revision write))) (\<lambda>saved.
         pbind (audit_provider_admin_change E ''model_selection_policy.admin_write'' (mp_id saved) change) (\<lambda>_.
         pbind (refresh E) (\<lambda>_. pret saved)))))))"

definition activate_policy ::
    "admin_env \<Rightarrow> http_headers \<Rightarrow> string \<Rightarrow> policy_activation \<Rightarrow> model_selection_policy admin_proc" where
  "activate_policy E h wid activation =
     pbind (plift (admin_write_context E h)) (\<lambda>change.
     idempotent_write E h (''model-selection-policy.activate.'' @ wid) (ac_activation (ae_codec E) activation)
       (gc_enc_policy (se_codec E)) (gc_dec_policy (se_codec E)) (
         pbind (admin_stored E (current_model_resources E)) (\<lambda>resources.
         pbind (admin_stored E (load_selection_policy E wid (Some (ya_revision_to_activate activation)))) (\<lambda>found.
         case found of
           None \<Rightarrow> praise (selection_policy_not_found ''Model selection policy revision does not exist'')
         | Some target \<Rightarrow>
             pbind (plift (err_into (\<lambda>_. invalid_selection_policy
                ''Model selection policy is no longer valid against current resources'')
                (validate_model_selection_policy target resources))) (\<lambda>_.
             pbind (admin_stored E (activate_model_selection_policy E wid
                (ya_revision_to_activate activation) (ya_expected_revision activation))) (\<lambda>saved.
             pbind (audit_provider_admin_change E ''model_selection_policy.admin_activated''
                (mp_id saved) change) (\<lambda>_.
             pbind (refresh E) (\<lambda>_. pret saved))))))))"

end
