(* ===== verification/GatewayRouter.thy ===== *)
theory GatewayRouter
  imports GatewayServices
begin

text \<open>
  The mounted configuration file, audit events, the handlers for the runtime, start-up, and the router:
  one function from the requests of the gateway's HTTP interface to their answers.
\<close>

section \<open>The mounted configuration file\<close>

text \<open>Two configurations agree when they differ in the revision only.\<close>

definition same_resource_configuration :: "model_resource \<Rightarrow> model_resource \<Rightarrow> bool" where
  "same_resource_configuration a b \<longleftrightarrow> a\<lparr>mr_revision := 0\<rparr> = b\<lparr>mr_revision := 0\<rparr>"

definition same_policy_configuration :: "model_selection_policy \<Rightarrow> model_selection_policy \<Rightarrow> bool" where
  "same_policy_configuration a b \<longleftrightarrow> a\<lparr>mp_revision := 0\<rparr> = b\<lparr>mp_revision := 0\<rparr>"

definition read_gitops_config_file ::
    "admin_env \<Rightarrow> (admin_world, gateway_store_error,
        model_resource list \<times> model_selection_policy list \<times> string) proc" where
  "read_gitops_config_file E w =
    ((case ae_read_config E (aw_config_reads w) of
        None \<Rightarrow> Inl (Store_message ''reading Provider Gateway GitOps config'')
      | Some (contents, resources, policies) \<Rightarrow>
          res_bind (err_into Store_message (validate_config E resources policies))
            (\<lambda>_. Inr (resources, policies, sha256_hex (ge_digest E) contents))),
     w\<lparr>aw_config_reads := Suc (aw_config_reads w)\<rparr>)"

definition versioned_name :: "string \<Rightarrow> u64 \<Rightarrow> string" where
  "versioned_name wid rv = wid @ ''@'' @ show_u64 rv"

fun reconcile_resources ::
    "admin_env \<Rightarrow> model_resource list \<Rightarrow> (admin_world, gateway_store_error, string list) proc" where
  "reconcile_resources E [] = pret []"
| "reconcile_resources E (desired # rest) =
     pbind (locked E (load_model_resource E (mr_id desired) None)) (\<lambda>current.
     if (case current of None \<Rightarrow> False | Some c \<Rightarrow> same_resource_configuration c desired)
     then reconcile_resources E rest
     else pbind (locked E (save_model_resource E desired (map_option mr_revision current))) (\<lambda>saved.
          pbind (reconcile_resources E rest) (\<lambda>names.
          pret (versioned_name (mr_id saved) (mr_revision saved) # names))))"

fun reconcile_policies ::
    "admin_env \<Rightarrow> model_selection_policy list \<Rightarrow> (admin_world, gateway_store_error, string list) proc" where
  "reconcile_policies E [] = pret []"
| "reconcile_policies E (desired # rest) =
     pbind (locked E (load_selection_policy E (mp_id desired) None)) (\<lambda>current.
     if (case current of None \<Rightarrow> False | Some c \<Rightarrow> same_policy_configuration c desired)
     then reconcile_policies E rest
     else pbind (locked E (save_model_selection_policy E desired (map_option mp_revision current))) (\<lambda>saved.
          pbind (reconcile_policies E rest) (\<lambda>names.
          pret (versioned_name (mp_id saved) (mp_revision saved) # names))))"

definition reconcile_gitops_config ::
    "admin_env \<Rightarrow> model_resource list \<Rightarrow> model_selection_policy list \<Rightarrow> string
      \<Rightarrow> (admin_world, gateway_store_error, gitops_report) proc" where
  "reconcile_gitops_config E resources policies config_digest =
     pbind (reconcile_resources E resources) (\<lambda>changed_resources.
     pbind (reconcile_policies E policies) (\<lambda>changed_policies.
     pbind (refresh_configuration E) (\<lambda>_.
     pbind (locked E (audit_event E ''gitops_configuration.reconciled'' ''provider-gateway''
        (gc_json (se_codec E) (JObject [(''configDigest'', JString config_digest),
          (''changedModelResources'', JArray (map JString changed_resources)),
          (''changedModelSelectionPolicies'', JArray (map JString changed_policies))])))) (\<lambda>_.
     pret \<lparr>gp_config_digest = config_digest, gp_changed_model_resources = changed_resources,
       gp_changed_model_selection_policies = changed_policies\<rparr>))))"

definition reconcile_gitops_configuration :: "admin_env \<Rightarrow> http_headers \<Rightarrow> gitops_report admin_proc" where
  "reconcile_gitops_configuration E h =
     pbind (plift (admin_write_context E h)) (\<lambda>change.
     pbind (pmap_err (\<lambda>_. admin_error 422 ''gitops_configuration_invalid''
        ''Mounted GitOps configuration is unavailable or invalid'' False)
        (read_gitops_config_file E)) (\<lambda>(resources, policies, config_digest).
     pbind (reserve_admin_write E h ''gitops-configuration.reconcile''
        (ac_gitops_request (ae_codec E) config_digest) (ac_dec_gitops (ae_codec E))) (\<lambda>reservation.
     case reservation of
        Write_Completed v \<Rightarrow> pret v
      | Write_Reserved key \<Rightarrow>
          pbind (pattempt (reconcile_gitops_config E resources policies config_digest)) (\<lambda>result. case result of
             Inr v \<Rightarrow>
               pbind (admin_stored E (audit_admin_operation E ''gitops_configuration.admin_reconciled''
                  ''provider-gateway'' (ch_operator_id change) (ch_reason change) (ch_reference change))) (\<lambda>_.
               pbind (complete_admin_write E key (ac_enc_gitops (ae_codec E) v)) (\<lambda>_. pret v))
           | Inl _ \<Rightarrow>
               pbind (discard_admin_write E key) (\<lambda>_. praise (admin_error 503
                 ''gitops_configuration_reconcile_failed'' ''GitOps configuration could not be reconciled'' True))))))"

section \<open>Executions and audit events\<close>

text \<open>\<open>ORDER BY turn, created_at\<close>: rows are kept in the order they were made.\<close>

definition execution_snapshots_for_run ::
    "'e store_env_scheme \<Rightarrow> string \<Rightarrow> ('z, model_execution_summary list) store_proc" where
  "execution_snapshots_for_run E run_id =
     pbind (sql_query E (\<lambda>db. sort_key ex_turn (filter (\<lambda>r. ex_run_id r = run_id) (gd_snapshots db)))) (\<lambda>rows.
     case those (map (\<lambda>r. gc_dec_execution (se_codec E) (ex_snapshot_json r)) rows) of
        None \<Rightarrow> praise Decode_failed | Some ms \<Rightarrow> pret ms)"

definition list_model_executions ::
    "admin_env \<Rightarrow> http_headers \<Rightarrow> string \<Rightarrow> model_execution_summary list admin_proc" where
  "list_model_executions E h run_id =
     pbind (plift (authorize_admin E h)) (\<lambda>_. admin_stored E (execution_snapshots_for_run E run_id))"

definition sensitive_keys :: "string list" where
  "sensitive_keys = [''apikey'', ''authorization'', ''baseurl'', ''cookie'', ''endpoint'', ''secretref'',
     ''systemprompt'']"

fun redact_audit_metadata :: "json \<Rightarrow> json" where
  "redact_audit_metadata (JArray vs) = JArray (map redact_audit_metadata vs)"
| "redact_audit_metadata (JObject ms) =
     JObject (map (\<lambda>(k, v). (k, redact_audit_metadata v))
       (filter (\<lambda>(k, v). to_ascii_lowercase k \<notin> set sensitive_keys) ms))"
| "redact_audit_metadata v = v"

record audit_view =
  av_id :: int
  av_event_type :: string
  av_subject_id :: string
  av_metadata :: json

definition audit_view_of :: "audit_row \<times> json \<Rightarrow> audit_view" where
  "audit_view_of e = (case e of (row, metadata) \<Rightarrow>
     \<lparr>av_id = ar_id row, av_event_type = ar_event_type row, av_subject_id = ar_subject_id row,
      av_metadata = redact_audit_metadata metadata\<rparr>)"

record audit_query =
  aq_event_type :: "string option"
  aq_subject_id :: "string option"
  aq_before_id :: "int option"
  aq_limit :: "u16 option"

definition list_audit_events :: "admin_env \<Rightarrow> http_headers \<Rightarrow> audit_query \<Rightarrow> audit_view list admin_proc" where
  "list_audit_events E h q =
     pbind (plift (authorize_admin E h)) (\<lambda>_.
     let limit = (case aq_limit q of None \<Rightarrow> 50 | Some l \<Rightarrow> l) in
     if limit = 0 \<or> 100 < limit \<or> (case aq_before_id q of None \<Rightarrow> False | Some i \<Rightarrow> i \<le> 0)
     then praise (admin_error 400 ''invalid_audit_query'' ''Audit event pagination parameters are invalid'' False)
     else pbind (admin_stored E (audit_events E (aq_event_type q) (aq_subject_id q) (aq_before_id q) limit))
       (\<lambda>events. pret (map audit_view_of events)))"

section \<open>The handlers for the runtime\<close>

record available_service =
  al_id :: string
  al_display_name :: string
  al_description :: string
  al_capabilities :: provider_capabilities
  al_availability :: string

definition offered :: "model_selection_policy \<Rightarrow> model_resource \<Rightarrow> bool" where
  "offered policy r \<longleftrightarrow> mr_provider_connection_id r \<noteq> None \<and> mr_published r \<and> mr_enabled r
     \<and> mr_id r \<in> set (mp_direct_selection policy)"

definition available_service_of :: "model_resource \<Rightarrow> available_service" where
  "available_service_of r =
     \<lparr>al_id = mr_id r, al_display_name = mr_display_name r, al_description = mr_description r,
      al_capabilities = mr_capabilities r, al_availability = ''available''\<rparr>"

definition list_available_model_services ::
    "admin_env \<Rightarrow> http_headers \<Rightarrow> string \<Rightarrow> string \<Rightarrow> string \<Rightarrow> string \<Rightarrow> available_service list admin_proc" where
  "list_available_model_services E h workspace project phase agent_profile =
     pbind (plift (authorize E h ''model-services'')) (\<lambda>_.
     pbind (locked E (pasks (\<lambda>w. (resolve_policy (gw_policies w)
        \<lparr>ts_workspace_id = workspace, ts_project_id = project, ts_run_id = ''model-service-catalog'',
         ts_turn = 0, ts_phase = phase, ts_agent_profile = agent_profile\<rparr>, gw_resources w)))) (\<lambda>(found, resources).
     case found of
       None \<Rightarrow> praise (gateway_error 403 ''model-services'' ''model_resource_not_allowed''
                 ''No active model selection policy allows this scope'' False)
     | Some policy \<Rightarrow> pret
         (sort_key (\<lambda>a. case bt_get resources (al_id a) of None \<Rightarrow> 0 | Some r \<Rightarrow> mr_sort_order r)
           (sort_key al_display_name (sort_key al_id
             (map available_service_of (filter (offered policy) (bt_values resources))))))))"

definition turn_handler ::
    "nat \<Rightarrow> admin_env \<Rightarrow> http_headers \<Rightarrow> turn_request \<Rightarrow> turn_response option admin_proc" where
  "turn_handler fuel E h r =
     pbind (plift (authorize E h (gr_request_id r))) (\<lambda>_.
     pbind (pasks aw_accepting) (\<lambda>accepting.
     if \<not> accepting
     then praise (gateway_error 503 (gr_request_id r) ''gateway_draining''
            ''Gateway is draining and is not accepting new model turns'' True)
     else on_turn (execute_turn fuel (turn_env.truncate E) r)))"

definition begin_shutdown :: "admin_world \<Rightarrow> admin_world" where
  "begin_shutdown w = w\<lparr>aw_accepting := False\<rparr>"

fun any_ready ::
    "admin_env \<Rightarrow> (string, model_resource) btree \<Rightarrow> string list \<Rightarrow> (admin_world, gateway_api_error, bool) proc" where
  "any_ready E resources [] = pret False"
| "any_ready E resources (i # is) = (case bt_get resources i of
      None \<Rightarrow> any_ready E resources is
    | Some r \<Rightarrow>
        if \<not> mr_enabled r then any_ready E resources is
        else pbind (pattempt (locked E (on_turn (resolve_secret_ref (turn_env.truncate E)
               (au_secret_ref (mr_auth r)))))) (\<lambda>secret. case secret of
             Inr _ \<Rightarrow> pret True
           | Inl _ \<Rightarrow> any_ready E resources is))"

text \<open>The status is 200 or 503.\<close>

definition ready_handler :: "admin_env \<Rightarrow> (admin_world, gateway_api_error, bool) proc" where
  "ready_handler E =
     pbind (pasks aw_accepting) (\<lambda>accepting.
     if \<not> accepting then pret False
     else pbind (pattempt (locked E (pbind (current_model_resources E)
            (\<lambda>_. pbind (current_model_selection_policies E) (\<lambda>_. pret ()))))) (\<lambda>storage. case storage of
       Inl _ \<Rightarrow> pret False
     | Inr _ \<Rightarrow>
         pbind (locked E (pasks (\<lambda>w. (gw_policies w, gw_resources w)))) (\<lambda>(policies, resources).
         any_ready E resources (concat (map (\<lambda>p. map mc_model_resource_id (mp_candidates p)
           @ mp_direct_selection p) policies)))))"

section \<open>Start-up\<close>

text \<open>\<open>GatewayService::new\<close> after the database is open: the file fills an empty database.\<close>

definition open_gateway ::
    "admin_env \<Rightarrow> model_resource list \<Rightarrow> model_selection_policy list
      \<Rightarrow> (admin_world, gateway_store_error, unit) proc" where
  "open_gateway E resources policies =
     pbind (plift (err_into Store_message (validate_config E resources policies))) (\<lambda>_.
     pbind (configuration_version E) (\<lambda>version.
     pbind (initialize_configuration E resources policies) (\<lambda>(stored_resources, stored_policies).
     pbind (plift (err_into Store_message (first_failure (validate_model_resource E) stored_resources))) (\<lambda>_.
     pbind (plift (err_into Store_message
        (first_failure (\<lambda>p. validate_model_selection_policy p stored_resources) stored_policies))) (\<lambda>_.
     pbind (provider_connections E) (\<lambda>connections.
     let by_id = as_map cn_id connections in
     pbind (plift (resolve_provider_connections E by_id stored_resources)) (\<lambda>resolved.
     pmodify (\<lambda>w. set_configuration (as_map mr_id resolved, by_id, stored_policies, version)
       (w\<lparr>gw_memory := (\<lambda>_. None), gw_bulkheads := (\<lambda>_. None), aw_accepting := True\<rparr>)))))))))"

section \<open>The router\<close>

datatype admin_request =
    List_Connections | Get_Connection string | Create_Connection connection_write
  | Update_Connection string connection_write | Enable_Connection string u64 | Disable_Connection string u64
  | Rotate_Credential string credential_rotation | Test_Connection string u64
  | List_Services | Get_Service string | Create_Service service_write | Update_Service string service_write
  | Publish_Service string u64 | Unpublish_Service string u64 | Test_Service string u64
  | List_Resources | Get_Resource string "u64 option" | Validate_Resource string
  | Probe_Resource string u64 | Create_Resource resource_write | Enable_Resource string u64
  | Disable_Resource string u64
  | List_Policies | Get_Policy string "u64 option" | Create_Policy policy_write
  | Activate_Policy string policy_activation
  | List_Executions string | List_Audit audit_query | Reconcile_Configuration

datatype admin_reply =
    Rp_Connections "connection_view list" | Rp_Connection connection_view | Rp_Connection_Test connection_test
  | Rp_Services "service_view list" | Rp_Service service_view
  | Rp_Resources "resource_view list" | Rp_Resource resource_view | Rp_Validation resource_validation
  | Rp_Readiness resource_readiness
  | Rp_Policies "model_selection_policy list" | Rp_Policy model_selection_policy
  | Rp_Executions "model_execution_summary list" | Rp_Audit "audit_view list" | Rp_Gitops gitops_report

definition reply :: "('a \<Rightarrow> admin_reply) \<Rightarrow> 'a admin_proc \<Rightarrow> admin_reply admin_proc" where
  "reply f m = pbind m (\<lambda>x. pret (f x))"

fun handle_admin :: "admin_env \<Rightarrow> http_headers \<Rightarrow> admin_request \<Rightarrow> admin_reply admin_proc" where
  "handle_admin E h List_Connections = reply Rp_Connections (list_provider_connections E h)"
| "handle_admin E h (Get_Connection i) = reply Rp_Connection (get_provider_connection E h i)"
| "handle_admin E h (Create_Connection x) = reply Rp_Connection (create_provider_connection E h x)"
| "handle_admin E h (Update_Connection i x) = reply Rp_Connection (update_provider_connection E h i x)"
| "handle_admin E h (Enable_Connection i v) = reply Rp_Connection (set_provider_connection_enabled E h i v True)"
| "handle_admin E h (Disable_Connection i v) = reply Rp_Connection (set_provider_connection_enabled E h i v False)"
| "handle_admin E h (Rotate_Credential i x) = reply Rp_Connection (rotate_provider_connection_credential E h i x)"
| "handle_admin E h (Test_Connection i v) = reply Rp_Connection_Test (test_provider_connection E h i v)"
| "handle_admin E h List_Services = reply Rp_Services (list_model_services E h)"
| "handle_admin E h (Get_Service i) = reply Rp_Service (get_model_service E h i)"
| "handle_admin E h (Create_Service x) = reply Rp_Service (create_model_service E h x)"
| "handle_admin E h (Update_Service i x) = reply Rp_Service (update_model_service E h i x)"
| "handle_admin E h (Publish_Service i v) = reply Rp_Service (set_model_service_published E h i v True)"
| "handle_admin E h (Unpublish_Service i v) = reply Rp_Service (set_model_service_published E h i v False)"
| "handle_admin E h (Test_Service i v) = reply Rp_Readiness (test_model_service E h i v)"
| "handle_admin E h List_Resources = reply Rp_Resources (list_model_resources E h)"
| "handle_admin E h (Get_Resource i v) = reply Rp_Resource (get_model_resource E h i v)"
| "handle_admin E h (Validate_Resource i) = reply Rp_Validation (validate_model_resource_endpoint E h i)"
| "handle_admin E h (Probe_Resource i v) = reply Rp_Readiness (readiness_model_resource E h i v)"
| "handle_admin E h (Create_Resource x) = reply Rp_Resource (create_model_resource E h x)"
| "handle_admin E h (Enable_Resource i v) = reply Rp_Resource (set_resource_enabled E h i v True)"
| "handle_admin E h (Disable_Resource i v) = reply Rp_Resource (set_resource_enabled E h i v False)"
| "handle_admin E h List_Policies = reply Rp_Policies (list_model_selection_policies E h)"
| "handle_admin E h (Get_Policy i v) = reply Rp_Policy (get_model_selection_policy E h i v)"
| "handle_admin E h (Create_Policy x) = reply Rp_Policy (create_model_selection_policy E h x)"
| "handle_admin E h (Activate_Policy i x) = reply Rp_Policy (activate_policy E h i x)"
| "handle_admin E h (List_Executions run_id) = reply Rp_Executions (list_model_executions E h run_id)"
| "handle_admin E h (List_Audit q) = reply Rp_Audit (list_audit_events E h q)"
| "handle_admin E h Reconcile_Configuration = reply Rp_Gitops (reconcile_gitops_configuration E h)"

end
