(* ===== verification/GatewayAdminFrames.thy ===== *)
theory GatewayAdminFrames
  imports GatewayRouter GatewayCalls
begin

text \<open>
  What the requests of the administration do to the database, stated once for every relation on databases
  that the store's operations keep (locale \<open>admin_work\<close>).
\<close>

section \<open>The database seen by a handler\<close>

definition on_adb :: "(gateway_db \<Rightarrow> gateway_db \<Rightarrow> bool) \<Rightarrow> admin_world \<Rightarrow> admin_world \<Rightarrow> bool" where
  "on_adb Q w w' \<longleftrightarrow> Q (sw_db w) (sw_db w')"

lemma keeps_on_adb: "keeps (within Q) m \<Longrightarrow> keeps (on_adb Q) m"
  by (auto simp: keeps_def on_adb_def within_def)

lemma keeps_on_adb_mono: "keeps (within P) m \<Longrightarrow> (\<And>a b. P a b \<Longrightarrow> Q a b) \<Longrightarrow> keeps (on_adb Q) m"
  by (auto simp: keeps_def on_adb_def within_def)

lemma keeps_on_turn: "keeps (on_db Q) m \<Longrightarrow> keeps (on_adb Q) (on_turn m)"
  unfolding keeps_def on_adb_def on_turn_def on_db_def
proof
  fix w :: admin_world
  assume "\<forall>v. Q (sw_db v) (sw_db (snd (m v)))"
  then have "Q (sw_db (gateway_world.truncate w)) (sw_db (snd (m (gateway_world.truncate w))))" by blast
  then show "Q (sw_db w) (sw_db (snd (case m (gateway_world.truncate w) of
      (r, v) \<Rightarrow> (r, gateway_world.extend v (gateway_world.more w)))))"
    by (auto simp: gateway_world.defs split: prod.split)
qed

lemma truncated_others [simp]: "others_within Q (turn_env.truncate E) \<longleftrightarrow>
    (\<forall>n db mem. Q db (fst (te_others E n (db, mem))))"
  by (simp add: others_within_def turn_env.defs)

context turn_calls
begin

lemma keeps_bulkhead: "keeps (on_db Q) (acquire_resource_bulkhead E x r)"
  by (rule keeps_same_db) (simp add: acquire_resource_bulkhead_def Let_def)

lemma keeps_call_resource: "others_within Q E \<Longrightarrow> keeps (on_db Q) (call_resource E x r)"
proof -
  assume o: "others_within Q E"
  then have "keeps (on_db Q) (call_openai_compatible E x r)"
    unfolding call_openai_compatible_def by (intro keeps_rules; simp)
  then show ?thesis
    unfolding call_resource_def by (cases "mr_kind x") (auto intro: keeps_rules)
qed

end

section \<open>Handlers\<close>

text \<open>
  \<open>ok\<close> says of which gateways the relation is kept: first what reads, then what writes the configuration,
  then the idempotency records of administrative operations.
\<close>

locale admin_reads = turn_calls Q
  for Q :: "gateway_db \<Rightarrow> gateway_db \<Rightarrow> bool" +
  fixes ok :: "admin_env \<Rightarrow> bool"
  assumes others_Q: "ok E \<Longrightarrow> Q db (fst (te_others E t (db, mem)))"
begin

lemma admin_order [simp]: "reflp (on_adb Q)" "transp (on_adb Q)"
  using reflpD [OF reflQ] transpD [OF transQ] by (auto simp: reflp_def transp_def on_adb_def)

lemma keeps_same: "(\<And>w. sw_db (snd (m w)) = sw_db w) \<Longrightarrow> keeps (on_adb Q) m"
  using reflpD [OF reflQ] by (auto simp: keeps_def on_adb_def)

lemma keeps_turn_call [keeps_rules]:
  "keeps (on_adb Q) (on_turn (resolve_secret_ref F u))"
  "keeps (on_adb Q) (on_turn (validate_resource_endpoint_dns F u))"
  "keeps (on_adb Q) (on_turn (resource_circuit_allows F x r))"
  "keeps (on_adb Q) (on_turn (acquire_resource_bulkhead F x r))"
  "ok E \<Longrightarrow> keeps (on_adb Q) (on_turn (call_resource (turn_env.truncate E) x r))"
  "keeps (on_adb Q) (on_turn (record_resource_success F x r))"
  "keeps (on_adb Q) (on_turn (record_resource_retryable_failure F x r))"
  by (intro keeps_on_turn keeps_secret keeps_dns keeps_health_calls keeps_bulkhead keeps_call_resource;
      simp add: others_Q)+

lemma audit_keeps [keeps_rules]: "keeps (on_adb Q) (audit_event E a b c)"
  by (rule keeps_on_adb_mono [OF keeps_audit_only audit_Q])

lemma keeps_query [keeps_rules]: "keeps (on_adb Q) (sql_query E f)" "keeps (on_adb Q) (utc_now E)"
  by (rule keeps_on_adb, rule keeps_rules, rule reflQ)+

lemma keeps_read [keeps_rules]:
  "keeps (on_adb Q) (provider_connections E)" "keeps (on_adb Q) (load_connection E i)"
  "keeps (on_adb Q) (configuration_version E)" "keeps (on_adb Q) (current_model_resources E)"
  "keeps (on_adb Q) (current_model_selection_policies E)" "keeps (on_adb Q) (load_model_resource E i v)"
  "keeps (on_adb Q) (load_selection_policy E i v)" "keeps (on_adb Q) (execution_snapshots_for_run E i)"
  "keeps (on_adb Q) (audit_events E ev s b l)"
  unfolding provider_connections_def load_connection_def configuration_version_def
    current_model_resources_def current_model_selection_policies_def load_model_resource_def
    load_selection_policy_def load_revision_def execution_snapshots_for_run_def audit_events_def
  by (intro keeps_rules admin_order)+

lemma keeps_locked [keeps_rules]: "ok E \<Longrightarrow> keeps (on_adb Q) m \<Longrightarrow> keeps (on_adb Q) (locked E m)"
proof -
  assume e: "ok E" and m: "keeps (on_adb Q) m"
  have "on_adb Q w (admin_others E w)" for w
    using others_Q [OF e, of "sw_db w" "gw_awaits w" "gw_memory w"]
    by (simp add: on_adb_def admin_others_def Let_def set_configuration_def case_prod_beta)
  with m show ?thesis unfolding locked_def by (intro keeps_rules; simp)
qed

lemma keeps_admin_stored [keeps_rules]:
  "ok E \<Longrightarrow> keeps (on_adb Q) m \<Longrightarrow> keeps (on_adb Q) (admin_stored E m)"
  unfolding admin_stored_def by (intro keeps_rules)

lemma keeps_seal [keeps_rules]:
  "keeps (on_adb Q) (encrypt_admin_secret E s)" "keeps (on_adb Q) (seal_credential E c s)"
proof -
  show e: "keeps (on_adb Q) (encrypt_admin_secret E s)" for s
    by (rule keeps_same) (simp add: encrypt_admin_secret_def)
  show "keeps (on_adb Q) (seal_credential E c s)"
    unfolding seal_credential_def by (intro keeps_rules e admin_order)
qed

lemma keeps_each [keeps_rules]:
  "(\<And>x. keeps (on_adb Q) (f x)) \<Longrightarrow> keeps (on_adb Q) (each f xs)"
  by (induction xs) (auto intro!: keeps_rules)

lemma keeps_refresh [keeps_rules]:
  assumes "ok E"
  shows "keeps (on_adb Q) (refresh_configuration E)" "keeps (on_adb Q) (refresh E)"
proof -
  have "keeps (on_adb Q) (read_configuration E)"
    unfolding read_configuration_def by (intro assms keeps_rules admin_order)
  then have s: "keeps (on_adb Q) (stable_configuration n E)" for n
    by (induction n) (auto intro!: keeps_rules)
  have set: "keeps (on_adb Q) (pmodify (set_configuration c))" for c
    by (rule keeps_same) (simp add: set_configuration_def case_prod_beta)
  show r: "keeps (on_adb Q) (refresh_configuration E)"
    unfolding refresh_configuration_def by (intro assms keeps_rules s set admin_order)
  then show "keeps (on_adb Q) (refresh E)" unfolding refresh_def by (intro keeps_rules)
qed

lemma keeps_audit_change [keeps_rules]: "ok E \<Longrightarrow> keeps (on_adb Q) (audit_provider_admin_change E a b c)"
  unfolding audit_provider_admin_change_def audit_admin_operation_def by (intro keeps_rules)

lemma keeps_loads [keeps_rules]:
  assumes "ok E"
  shows "keeps (on_adb Q) (load_provider_connection E i)" "keeps (on_adb Q) (load_raw_model_service E i)"
    "keeps (on_adb Q) (resolved_resource E i rv m)"
  unfolding load_provider_connection_def load_raw_model_service_def resolved_resource_def
  by (intro assms keeps_rules admin_order)+

lemma keeps_changed [keeps_rules]:
  assumes "ok E"
  shows "keeps (on_adb Q) (connection_changed E a c s)" "keeps (on_adb Q) (service_changed E a c x)"
  unfolding connection_changed_def service_changed_def by (intro assms keeps_rules admin_order)+

end

locale admin_calls = admin_reads +
  assumes connection_Q: "ok E \<Longrightarrow> keeps (on_adb Q) (save_provider_connection E c v)"
    and sealed_connection_Q: "ok E \<Longrightarrow> keeps (on_adb Q) (save_provider_connection_with_secret E c v n s)"
    and resource_Q: "ok E \<Longrightarrow> keeps (on_adb Q) (save_model_resource E x v)"
    and policy_Q: "ok E \<Longrightarrow> keeps (on_adb Q) (save_model_selection_policy E p v)"
    and activate_Q: "ok E \<Longrightarrow> keeps (on_adb Q) (activate_model_selection_policy E i rv u)"
    and secret_Q: "ok E \<Longrightarrow> keeps (on_adb Q) (save_encrypted_secret E n s)"
begin

lemma keeps_write [keeps_rules]:
  assumes "ok E"
  shows "keeps (on_adb Q) (save_provider_connection E c v)"
    "keeps (on_adb Q) (save_provider_connection_with_secret E c v n s)"
    "keeps (on_adb Q) (save_model_resource E x v)" "keeps (on_adb Q) (save_model_selection_policy E p v)"
    "keeps (on_adb Q) (activate_model_selection_policy E i rv u)"
    "keeps (on_adb Q) (save_encrypted_secret E n s)" "keeps (on_adb Q) (audit_admin_operation E a1 a2 a3 a4 a5)"
  using assms unfolding audit_admin_operation_def
  by (intro connection_Q sealed_connection_Q resource_Q policy_Q activate_Q
      secret_Q audit_keeps; simp)+

lemma keeps_set_enabled [keeps_rules]: "ok E \<Longrightarrow> keeps (on_adb Q) (set_model_resource_enabled E i b v)"
  unfolding set_model_resource_enabled_def
  by (cases "se_backend E"; simp only: persistent_store.case; intro keeps_rules admin_order)

lemma keeps_write_secret [keeps_rules]: "ok E \<Longrightarrow> keeps (on_adb Q) (write_secret_ref E sr key)"
proof -
  assume e: "ok E"
  have "keeps (on_adb Q) (\<lambda>w. if ae_write_file E (length (aw_files w)) path
      then (Inr (), w\<lparr>aw_files := aw_files w @ [(path, key)]\<rparr>) else (Inl m, w))" for path m
    by (rule keeps_same) simp
  with e show ?thesis unfolding write_secret_ref_def by (intro keeps_rules admin_order)
qed

lemma keeps_service_writes [keeps_rules]:
  assumes "ok E"
  shows "keeps (on_adb Q) (model_service_from_write E vw x)"
    "keeps (on_adb Q) (sync_published_model_policy_projection E j)"
    "keeps (on_adb Q) (before_publishing E i y)"
proof -
  show "keeps (on_adb Q) (model_service_from_write E vw x)"
    unfolding model_service_from_write_def Let_def by (intro assms keeps_rules admin_order)
  have s: "keeps (on_adb Q) (sync_published_model_policy_projection E j)" for j
    unfolding sync_published_model_policy_projection_def Let_def by (intro assms keeps_rules admin_order)
  then show "keeps (on_adb Q) (sync_published_model_policy_projection E j)" .
  show "keeps (on_adb Q) (before_publishing E i y)"
    unfolding before_publishing_def by (intro assms keeps_rules s admin_order)
qed

lemma keeps_probe [keeps_rules]: "ok E \<Longrightarrow> keeps (on_adb Q) (probe_resource E x r)"
  unfolding probe_resource_def Let_def by (intro keeps_rules admin_order)

lemma keeps_listings [keeps_rules]:
  assumes "ok E"
  shows "keeps (on_adb Q) (list_model_executions E h i)" "keeps (on_adb Q) (list_audit_events E h aq)"
  unfolding list_model_executions_def list_audit_events_def Let_def
  by (intro assms keeps_rules admin_order)+

lemma keeps_reply [keeps_rules]: "keeps (on_adb Q) m \<Longrightarrow> keeps (on_adb Q) (reply f m)"
  unfolding reply_def by (intro keeps_rules admin_order)

lemma keeps_checks [keeps_rules]:
  assumes "ok E"
  shows "keeps (on_adb Q) (connection_checks E i u ch)" "keeps (on_adb Q) (record_failed_test E i u ch)"
  unfolding connection_checks_def record_failed_test_def Let_def
  by (intro assms keeps_rules admin_order)+

end

text \<open>The requests, with the idempotency records of their writes.\<close>

locale admin_work = admin_calls +
  assumes reserve_Q: "ok E \<Longrightarrow> keeps (on_adb Q) (reserve_admin_operation E k hsh)"
    and complete_Q: "ok E \<Longrightarrow> keeps (on_adb Q) (complete_admin_operation E k response)"
    and discard_Q: "ok E \<Longrightarrow> keeps (on_adb Q) (discard_admin_operation E k)"
begin

lemmas record_rules [keeps_rules] = reserve_Q complete_Q discard_Q

lemma keeps_idempotent [keeps_rules]:
  assumes "ok E"
  shows "keeps (on_adb Q) (reserve_admin_write E h op payload dec)"
    "keeps (on_adb Q) (discard_admin_write E k)" "keeps (on_adb Q) (complete_admin_write E k s)"
    "keeps (on_adb Q) (finish_admin_write E k enc res)"
    "keeps (on_adb Q) body \<Longrightarrow> keeps (on_adb Q) (idempotent_write E h op payload enc dec body)"
proof -
  show r: "keeps (on_adb Q) (reserve_admin_write E h op payload dec)"
    unfolding reserve_admin_write_def Let_def using assms
    by (intro keeps_rules admin_order; (simp split: stored_admin_operation.split)?; intro conjI allI impI
        keeps_rules admin_order)
  show d: "keeps (on_adb Q) (discard_admin_write E k)" for k
    unfolding discard_admin_write_def by (intro assms keeps_rules admin_order)
  show c: "keeps (on_adb Q) (complete_admin_write E k s)" for k s
    unfolding complete_admin_write_def by (intro assms keeps_rules)
  show f: "keeps (on_adb Q) (finish_admin_write E k enc res)" for k res
    unfolding finish_admin_write_def by (intro keeps_rules c d admin_order)
  assume b: "keeps (on_adb Q) body"
  have "keeps (on_adb Q) (case x of Write_Completed v \<Rightarrow> pret v
      | Write_Reserved key \<Rightarrow> pbind (pattempt body) (finish_admin_write E key enc))" for x
    by (cases x) (auto intro!: keeps_rules b f)
  with r show "keeps (on_adb Q) (idempotent_write E h op payload enc dec body)"
    unfolding idempotent_write_def by (intro keeps_rules admin_order)
qed

lemma keeps_connections [keeps_rules]:
  assumes "ok E"
  shows "keeps (on_adb Q) (list_provider_connections E h)" "keeps (on_adb Q) (get_provider_connection E h i)"
    "keeps (on_adb Q) (create_provider_connection E h cw)" "keeps (on_adb Q) (update_provider_connection E h i cw)"
    "keeps (on_adb Q) (set_provider_connection_enabled E h i u b)"
    "keeps (on_adb Q) (rotate_provider_connection_credential E h i rc)"
  unfolding list_provider_connections_def get_provider_connection_def create_provider_connection_def
    update_provider_connection_def set_provider_connection_enabled_def rotate_provider_connection_credential_def
  by (intro assms keeps_rules admin_order)+

lemma keeps_connection_test [keeps_rules]:
  assumes "ok E"
  shows "keeps (on_adb Q) (test_provider_connection E h i u)"
proof -
  have "keeps (on_adb Q) (case x of Write_Completed v \<Rightarrow> pret v
      | Write_Reserved key \<Rightarrow>
          pbind (pattempt (connection_checks E i u ch)) (\<lambda>result. case result of
             Inr v \<Rightarrow> finish_admin_write E key enc (Inr v)
           | Inl e \<Rightarrow> pbind (record_failed_test E i u ch) (\<lambda>_. finish_admin_write E key enc (Inl e))))" for x ch enc
    by (cases x) (auto intro!: keeps_rules assms)
  then show ?thesis
    unfolding test_provider_connection_def by (intro assms keeps_rules admin_order)
qed

lemma keeps_services [keeps_rules]:
  assumes "ok E"
  shows "keeps (on_adb Q) (list_model_services E h)" "keeps (on_adb Q) (get_model_service E h i)"
    "keeps (on_adb Q) (create_model_service E h vw)" "keeps (on_adb Q) (update_model_service E h i vw)"
    "keeps (on_adb Q) (set_model_service_published E h i u b)"
  unfolding list_model_services_def get_model_service_def create_model_service_def
    update_model_service_def set_model_service_published_def Let_def
  by (intro assms keeps_rules admin_order)+

lemma keeps_readiness [keeps_rules]:
  assumes "ok E"
  shows "keeps (on_adb Q) (readiness_model_resource E h i u)" "keeps (on_adb Q) (test_model_service E h i u)"
proof -
  have s: "keeps (on_adb Q) (case x of Write_Completed v \<Rightarrow> pret v | Write_Reserved key \<Rightarrow> m key)"
    if "\<And>key. keeps (on_adb Q) (m key)" for x and m :: "string \<Rightarrow> resource_readiness admin_proc"
    using that by (cases x) (auto intro!: keeps_rules)
  show r: "keeps (on_adb Q) (readiness_model_resource E h i u)"
    unfolding readiness_model_resource_def by (intro assms keeps_rules s admin_order)
  then show "keeps (on_adb Q) (test_model_service E h i u)"
    unfolding test_model_service_def by (intro assms keeps_rules admin_order)
qed

lemma keeps_resources [keeps_rules]:
  assumes "ok E"
  shows "keeps (on_adb Q) (list_model_resources E h)" "keeps (on_adb Q) (get_model_resource E h i rv)"
    "keeps (on_adb Q) (validate_model_resource_endpoint E h i)"
    "keeps (on_adb Q) (create_model_resource E h xw)" "keeps (on_adb Q) (set_resource_enabled E h i u b)"
  unfolding list_model_resources_def get_model_resource_def validate_model_resource_endpoint_def
    create_model_resource_def set_resource_enabled_def Let_def
  by (intro assms keeps_rules admin_order)+

lemma keeps_policies [keeps_rules]:
  assumes "ok E"
  shows "keeps (on_adb Q) (list_model_selection_policies E h)"
    "keeps (on_adb Q) (get_model_selection_policy E h i rv)"
    "keeps (on_adb Q) (create_model_selection_policy E h yw)" "keeps (on_adb Q) (activate_policy E h i ya)"
  unfolding list_model_selection_policies_def get_model_selection_policy_def
    create_model_selection_policy_def activate_policy_def
  by (intro assms keeps_rules admin_order)+

lemma keeps_gitops [keeps_rules]:
  assumes "ok E"
  shows "keeps (on_adb Q) (reconcile_gitops_configuration E h)"
proof -
  have r: "keeps (on_adb Q) (reconcile_resources E xs)" for xs
    using assms by (induction xs) (auto intro!: keeps_rules)
  have p: "keeps (on_adb Q) (reconcile_policies E ps)" for ps
    using assms by (induction ps) (auto intro!: keeps_rules)
  have g: "keeps (on_adb Q) (reconcile_gitops_config E xs ps d)" for xs ps d
    unfolding reconcile_gitops_config_def by (intro assms keeps_rules r p admin_order)
  have f: "keeps (on_adb Q) (read_gitops_config_file E)"
    by (rule keeps_same) (simp add: read_gitops_config_file_def)
  have s: "keeps (on_adb Q) (case x of Write_Completed v \<Rightarrow> pret v | Write_Reserved key \<Rightarrow> m key)"
    if "\<And>key. keeps (on_adb Q) (m key)" for x and m :: "string \<Rightarrow> gitops_report admin_proc"
    using that by (cases x) (auto intro!: keeps_rules)
  show ?thesis
    unfolding reconcile_gitops_configuration_def by (intro assms keeps_rules f g s admin_order)
qed

lemma keeps_handle_admin: "ok E \<Longrightarrow> keeps (on_adb Q) (handle_admin E h q)"
  by (cases q) (simp_all, (intro keeps_rules, assumption)+)

end

end
