(* ===== verification/GatewayAdminResults.thy ===== *)
theory GatewayAdminResults
  imports GatewayAdminFrames GatewayLimitsProps
begin

text \<open>
  What the handlers of the administration answer and leave when the statements of the database work and the
  others are quiet, and the configuration that a version of the database holds.
\<close>

section \<open>The others\<close>

abbreviation others_do :: "(gateway_db \<Rightarrow> gateway_db \<Rightarrow> bool) \<Rightarrow> admin_env \<Rightarrow> bool" where
  "others_do Q E \<equiv> (\<forall>t db mem. Q db (fst (te_others E t (db, mem))))"

definition quiet :: "admin_env \<Rightarrow> bool" where
  "quiet E \<longleftrightarrow> (\<forall>t db mem. fst (te_others E t (db, mem)) = db)"

lemma admin_others_fields [simp]:
  "gw_http_log (admin_others E w) = gw_http_log w" "aw_files (admin_others E w) = aw_files w"
  "sw_stmts (admin_others E w) = sw_stmts w"
  by (simp_all add: admin_others_def Let_def set_configuration_def case_prod_beta)

lemma others_db: "sw_db (admin_others E w) = fst (te_others E (gw_awaits w) (sw_db w, gw_memory w))"
  by (simp add: admin_others_def Let_def set_configuration_def case_prod_beta)

lemma locked_eq: "locked E m w = m (admin_others E w)"
  by (simp add: locked_def pbind_def)

section \<open>The configuration in the tables\<close>

definition stored_connections :: "'e store_env_scheme \<Rightarrow> gateway_db \<Rightarrow> gateway_store_error + provider_connection list" where
  "stored_connections E db =
    (case those (map (\<lambda>r. gc_dec_connection (se_codec E) (co_json r)) (sort_key co_id (gd_connections db))) of
       None \<Rightarrow> Inl Decode_failed | Some cs \<Rightarrow> Inr cs)"

definition configuration_in :: "admin_env \<Rightarrow> gateway_db \<Rightarrow> gateway_store_error + gateway_configuration" where
  "configuration_in E db =
     res_bind (decode_rows (gc_dec_resource (se_codec E)) (current_rows Resource_Revisions db)) (\<lambda>resources.
     res_bind (stored_connections E db) (\<lambda>connections.
     res_bind (decode_rows (gc_dec_policy (se_codec E)) (current_rows Policy_Revisions db)) (\<lambda>policies.
     res_bind (u64_of (gd_configuration_version db)) (\<lambda>version.
     checked_configuration E (resources, connections, policies, version, version)))))"

lemma read_query: "sql_query E f w = (Inr x, w') \<Longrightarrow> x = f (sw_db w) \<and> sw_db w' = sw_db w"
  by (auto simp: sql_query_def sql_def Let_def split: stmt_outcome.splits)

lemma reads:
  "configuration_version E w = (Inr v, w') \<Longrightarrow>
     u64_of (gd_configuration_version (sw_db w)) = Inr v \<and> sw_db w' = sw_db w"
  "current_model_resources E w = (Inr rs, w') \<Longrightarrow>
     decode_rows (gc_dec_resource (se_codec E)) (current_rows Resource_Revisions (sw_db w)) = Inr rs \<and> sw_db w' = sw_db w"
  "current_model_selection_policies E w = (Inr ps, w') \<Longrightarrow>
     decode_rows (gc_dec_policy (se_codec E)) (current_rows Policy_Revisions (sw_db w)) = Inr ps \<and> sw_db w' = sw_db w"
  "provider_connections E w = (Inr cs, w') \<Longrightarrow> stored_connections E (sw_db w) = Inr cs \<and> sw_db w' = sw_db w"
  by (auto simp: configuration_version_def current_model_resources_def current_model_selection_policies_def
      provider_connections_def stored_connections_def elim!: pbind_cases dest!: read_query split: option.splits)

section \<open>Results of handlers\<close>

definition leaves ::
    "(admin_world, 'e, 'a) proc \<Rightarrow> admin_world \<Rightarrow> 'e + 'a \<Rightarrow> gateway_db \<Rightarrow> bool" where
  "leaves m w r db \<longleftrightarrow> (\<exists>w'. m w = (r, w') \<and> sw_db w' = db)"

lemma leaves_gives: "gives m w r db \<Longrightarrow> leaves m w r db"
  by (auto simp: gives_def leaves_def)

lemma leaves_pure: "leaves (pret x) w (Inr x) (sw_db w)" "leaves (praise e) w (Inl e) (sw_db w)"
  by (simp_all add: leaves_def)

lemma leaves_bind:
  assumes "leaves m w (Inr x) db" "\<And>w1. sw_db w1 = db \<Longrightarrow> leaves (f x) w1 r db'"
  shows "leaves (pbind m f) w r db'"
  using assms by (auto simp: leaves_def)

lemma leaves_bind_fail: "leaves m w (Inl e) db \<Longrightarrow> leaves (pbind m f) w (Inl e) db"
  by (auto simp: leaves_def)

lemma leaves_map_err: "leaves m w r db \<Longrightarrow> leaves (pmap_err g m) w (err_into g r) db"
  by (auto simp: leaves_def pmap_err_def)

lemma leaves_attempt: "leaves m w r db \<Longrightarrow> leaves (pattempt m) w (Inr r) db"
  by (auto simp: leaves_def pattempt_def)

lemma leaves_locked:
  assumes "quiet E" "\<And>w1. sw_db w1 = sw_db w \<Longrightarrow> leaves m w1 r db"
  shows "leaves (locked E m) w r db"
  using assms(2) [of "admin_others E w"] assms(1)
  by (simp add: leaves_def locked_def pbind_def others_db quiet_def)

lemma leaves_stored:
  assumes "quiet E" "\<And>w1. sw_db w1 = sw_db w \<Longrightarrow> gives m w1 r db"
  shows "leaves (admin_stored E m) w (err_into admin_storage_error r) db"
  unfolding admin_stored_def by (intro leaves_map_err leaves_locked assms(1) leaves_gives assms(2))

lemma leaves_stored_ok:
  "quiet E \<Longrightarrow> (\<And>w1. sw_db w1 = sw_db w \<Longrightarrow> gives m w1 (Inr x) db) \<Longrightarrow> leaves (admin_stored E m) w (Inr x) db"
  using leaves_stored [of E w m "Inr x" db] by simp

lemma leaves_stored_fail:
  "quiet E \<Longrightarrow> (\<And>w1. sw_db w1 = sw_db w \<Longrightarrow> gives m w1 (Inl e) db) \<Longrightarrow>
     leaves (admin_stored E m) w (Inl (admin_storage_error e)) db"
  using leaves_stored [of E w m "Inl e" db] by simp

section \<open>Idempotent writes\<close>

definition record_of :: "string \<Rightarrow> admin_record" where
  "record_of hsh = \<lparr>ad_request_hash = hsh, ad_state = ''in_progress'', ad_response_json = None\<rparr>"

definition set_record :: "string \<Rightarrow> admin_record option \<Rightarrow> gateway_db \<Rightarrow> gateway_db" where
  "set_record k row db = db\<lparr>gd_admin := (gd_admin db)(k := row)\<rparr>"

lemma reserve_new:
  assumes "reliable E" "quiet E" "gd_admin (sw_db w) (op @ '':'' @ k) = None" "idempotency_key h = Some k"
  shows "leaves (reserve_admin_write E h op payload dec) w (Inr (Write_Reserved (op @ '':'' @ k)))
    (set_record (op @ '':'' @ k) (Some (record_of (sha256_hex (ge_digest E) payload))) (sw_db w))"
proof -
  let ?h = "sha256_hex (ge_digest E) payload"
  have "leaves (admin_stored E (reserve_admin_operation E (op @ '':'' @ k) ?h)) w (Inr Ao_Reserved)
      (set_record (op @ '':'' @ k) (Some (record_of ?h)) (sw_db w))"
    using assms(1,3)
    by (intro leaves_stored_ok [OF assms(2)])
      (auto simp: reserve_admin_operation_def insert_admin_def set_record_def record_of_def
        intro!: gives_sql_bind gives_ret)
  then show ?thesis
    unfolding reserve_admin_write_def assms(4)
    by (auto simp: Let_def intro!: leaves_bind leaves_pure(1) [unfolded leaves_def] simp: leaves_def)
qed

lemma discard_new:
  assumes "reliable E" "quiet E" "gd_admin (sw_db w) key = Some (record_of hsh)"
  shows "leaves (discard_admin_write E key) w (Inr ()) (set_record key None (sw_db w))"
proof -
  have d: "gives (discard_admin_operation E key) w1 (Inr ()) (set_record key None (sw_db w))"
    if "sw_db w1 = sw_db w" for w1 :: admin_world
    using that assms(3) gives_update [OF assms(1), of "\<lambda>db. case gd_admin db key of
       Some r \<Rightarrow> if ad_state r = ''in_progress'' then db\<lparr>gd_admin := (gd_admin db)(key := None)\<rparr> else db
     | None \<Rightarrow> db" w1]
    by (simp add: discard_admin_operation_def record_of_def set_record_def)
  have "leaves (pattempt (locked E (discard_admin_operation E key))) w (Inr (Inr ()))
      (set_record key None (sw_db w))"
    by (rule leaves_attempt [OF leaves_locked [OF assms(2) leaves_gives [OF d]]])
  then show ?thesis
    unfolding discard_admin_write_def by (rule leaves_bind) (simp add: leaves_def)
qed

text \<open>A write that fails leaves what its body did, and no record.\<close>

lemma write_fails:
  assumes "reliable E" "quiet E" "idempotency_key h = Some k"
    and "gd_admin (sw_db w) (op @ '':'' @ k) = None"
    and "\<And>w1. sw_db w1 = set_record (op @ '':'' @ k) (Some (record_of (sha256_hex (ge_digest E) payload))) (sw_db w)
      \<Longrightarrow> leaves body w1 (Inl e) db"
    and "gd_admin db (op @ '':'' @ k) = Some (record_of hsh)"
  shows "leaves (idempotent_write E h op payload enc dec body) w (Inl e) (set_record (op @ '':'' @ k) None db)"
  unfolding idempotent_write_def
  apply (rule leaves_bind [OF reserve_new [OF assms(1,2,4,3)]])
  apply (simp only: admin_reservation.case)
  apply (rule leaves_bind [OF leaves_attempt [OF assms(5)]], assumption)
  apply (simp only: finish_admin_write_def sum.case)
  apply (rule leaves_bind [OF discard_new [OF assms(1,2)]])
  using assms(6) apply (simp_all add: leaves_def)
  done

text \<open>A write that succeeds leaves what its body did, and its answer.\<close>

lemma complete_new:
  assumes "reliable E" "quiet E" "gd_admin (sw_db w) key = Some (record_of hsh)"
  shows "leaves (complete_admin_write E key x) w (Inr ()) (set_record key (Some
    \<lparr>ad_request_hash = hsh, ad_state = ''completed'', ad_response_json = Some x\<rparr>) (sw_db w))"
  unfolding complete_admin_write_def complete_admin_operation_def
  by (rule leaves_stored_ok [OF assms(2)], rule gives_sql_bind [OF assms(1)])
    (use assms(3) in \<open>auto simp: record_of_def set_record_def intro: gives_ret\<close>)

lemma write_leaves:
  assumes "reliable E" "quiet E" "idempotency_key h = Some k"
    and "gd_admin (sw_db w) (op @ '':'' @ k) = None"
    and "\<And>w1. sw_db w1 = set_record (op @ '':'' @ k) (Some (record_of (sha256_hex (ge_digest E) payload))) (sw_db w)
      \<Longrightarrow> leaves body w1 (Inr v) db"
    and "gd_admin db (op @ '':'' @ k) = Some (record_of hsh)"
  shows "leaves (idempotent_write E h op payload enc dec body) w (Inr v) (set_record (op @ '':'' @ k)
    (Some \<lparr>ad_request_hash = hsh, ad_state = ''completed'', ad_response_json = Some (enc v)\<rparr>) db)"
  unfolding idempotent_write_def
  apply (rule leaves_bind [OF reserve_new [OF assms(1,2,4,3)]])
  apply (simp only: admin_reservation.case)
  apply (rule leaves_bind [OF leaves_attempt [OF assms(5)]], assumption)
  apply (simp only: finish_admin_write_def sum.case)
  apply (rule leaves_bind [OF complete_new [OF assms(1,2)]])
  using assms(6) apply (simp_all add: leaves_def)
  done

section \<open>A refresh\<close>

lemma err_into_ok [simp]: "err_into f r = Inr x \<longleftrightarrow> r = Inr x"
  by (cases r) simp_all

lemma res_bind_ok: "res_bind m f = Inr y \<longleftrightarrow> (\<exists>x. m = Inr x \<and> f x = Inr y)"
  by (cases m) (simp_all add: res_bind_def)

lemma gives_reads:
  assumes "reliable E" "sw_db w = db"
  shows "u64_of (gd_configuration_version db) = Inr n \<Longrightarrow> gives (configuration_version E) w (Inr n) db"
    "decode_rows (gc_dec_resource (se_codec E)) (current_rows Resource_Revisions db) = Inr rs \<Longrightarrow>
       gives (current_model_resources E) w (Inr rs) db"
    "decode_rows (gc_dec_policy (se_codec E)) (current_rows Policy_Revisions db) = Inr ps \<Longrightarrow>
       gives (current_model_selection_policies E) w (Inr ps) db"
    "stored_connections E db = Inr cs \<Longrightarrow> gives (provider_connections E) w (Inr cs) db"
  unfolding configuration_version_def current_model_resources_def current_model_selection_policies_def
    provider_connections_def
  by (rule gives_query_bind [OF assms(1)];
      use assms(2) in \<open>auto simp: gives_def stored_connections_def split: option.splits\<close>)+

lemma refresh_leaves:
  assumes e: "reliable E" "quiet E" and c: "configuration_in E db = Inr c" and w: "sw_db w = db"
  shows "leaves (refresh_configuration E) w (Inr ()) db"
proof -
  from c obtain rs cs ps n where
      rows: "u64_of (gd_configuration_version db) = Inr n"
        "decode_rows (gc_dec_resource (se_codec E)) (current_rows Resource_Revisions db) = Inr rs"
        "decode_rows (gc_dec_policy (se_codec E)) (current_rows Policy_Revisions db) = Inr ps"
        "stored_connections E db = Inr cs"
    and ch: "checked_configuration E (rs, cs, ps, n, n) = Inr c"
    by (auto simp: configuration_in_def res_bind_ok)
  note g = gives_reads [OF e(1)]
  have "leaves (read_configuration E) w (Inr (rs, cs, ps, n, n)) db"
    unfolding read_configuration_def
    by (intro leaves_bind [OF leaves_locked [OF e(2) leaves_gives [OF g(1) [OF _ rows(1)]]]]
        leaves_bind [OF leaves_locked [OF e(2) leaves_gives [OF g(2) [OF _ rows(2)]]]]
        leaves_bind [OF leaves_locked [OF e(2) leaves_gives [OF g(3) [OF _ rows(3)]]]]
        leaves_bind [OF leaves_locked [OF e(2) leaves_gives [OF g(4) [OF _ rows(4)]]]])
      (simp_all add: w leaves_def)
  then have "leaves (stable_configuration (Suc 2) E) w (Inr (Some (rs, cs, ps, n, n))) db"
    unfolding stable_configuration.simps by (rule leaves_bind) (simp add: leaves_def)
  then have "leaves (stable_configuration 3 E) w (Inr (Some (rs, cs, ps, n, n))) db"
    by (simp add: numeral_3_eq_3)
  then show ?thesis
    unfolding refresh_configuration_def
    by (rule leaves_bind)
      (simp add: ch pbind_plift locked_eq leaves_def others_db e(2) [unfolded quiet_def] set_configuration_def case_prod_beta)
qed

end
