(* ===== verification/GatewayAdminSample.thy ===== *)
theory GatewayAdminSample
  imports GatewayAdminResults
begin

text \<open>A concrete gateway with its administration, on which the properties are applied.\<close>

section \<open>The gateway\<close>

definition sample_admin_codec :: admin_codec where
  "sample_admin_codec =
     \<lparr>ac_connection_write = cw_id, ac_rotation = ro_api_key, ac_version_request = show_u64,
      ac_service_write = vw_id, ac_revision_request = show_u64, ac_resource_write = (\<lambda>x. mr_id (xw_resource x)),
      ac_policy_write = (\<lambda>x. mp_id (yw_policy x)), ac_activation = (\<lambda>x. show_u64 (ya_revision_to_activate x)),
      ac_gitops_request = (\<lambda>d. d), ac_enc_connection = cv_id, ac_dec_connection = (\<lambda>_. None),
      ac_enc_test = ct_status, ac_dec_test = (\<lambda>_. None), ac_enc_service = vv_id, ac_dec_service = (\<lambda>_. None),
      ac_enc_resource = xv_id, ac_dec_resource = (\<lambda>_. Some (resource_view_of live_resource)),
      ac_enc_readiness = re_model_resource_id, ac_dec_readiness = (\<lambda>_. None),
      ac_enc_gitops = gp_config_digest, ac_dec_gitops = (\<lambda>_. None)\<rparr>"

definition sample_admin_env :: admin_env where
  "sample_admin_env = turn_env.extend live_env (admin_env.fields (Some ''t'') None sample_admin_codec
     (\<lambda>_. ''1970-01-01T00:00:00Z'') (\<lambda>_. None) (\<lambda>_ _. True) (\<lambda>_ c. c))"

definition sample_admin_world :: admin_world where
  "sample_admin_world = gateway_world.extend live_world (admin_world.fields [] 0 True [] 0)"

definition sample_headers :: http_headers where
  "sample_headers n = (if n = ''authorization'' then Some ''Bearer t'' else Some ''k'')"

definition sample_write :: resource_write where
  "sample_write = \<lparr>xw_resource = live_resource, xw_api_key = None, xw_expected_revision = None\<rparr>"

definition live_row :: revision_row where
  "live_row = \<lparr>rv_id = ''m'', rv_revision = 1, rv_current = True, rv_json = ''m''\<rparr>"

lemma sample_admin_simps [simp]:
  "turn_env.truncate sample_admin_env = live_env" "se_codec sample_admin_env = se_codec live_env"
  "se_backend sample_admin_env = Sqlite" "ae_codec sample_admin_env = sample_admin_codec"
  "te_others sample_admin_env = (\<lambda>_ s. s)" "se_stmt sample_admin_env = (\<lambda>_. Stmt_done)"
  "ae_admin_token sample_admin_env = Some ''t''"
  by (simp_all add: sample_admin_env_def turn_env.defs admin_env.defs live_env_def sample_turn_env_def)

lemma sample_reliable: "reliable sample_admin_env" "quiet sample_admin_env"
  by (simp_all add: reliable_def quiet_def)

lemma admin_sample_others [simp]: "reflp Q \<Longrightarrow> others_do Q sample_admin_env"
  by (simp add: reflp_def)

lemma admin_world_simps [simp]:
  "sw_db sample_admin_world = empty_gateway_db" "gateway_world.truncate sample_admin_world = live_world"
  "sw_stmts sample_admin_world = 0" "gw_http_log sample_admin_world = []"
  by (simp_all add: sample_admin_world_def gateway_world.defs admin_world.defs live_world_def sample_turn_world_def)

lemma sample_identity:
  "authorize_admin sample_admin_env sample_headers = Inr ()"
  "idempotency_key sample_headers = Some ''k''"
  "\<exists>ch. admin_write_context sample_admin_env sample_headers = Inr ch"
  "\<exists>e. authorize_admin sample_admin_env (\<lambda>_. None) = Inl e"
proof -
  show a: "authorize_admin sample_admin_env sample_headers = Inr ()"
    by (simp add: authorize_admin_def bearer_def sample_headers_def strip_prefix_def starts_with_def)
  show k: "idempotency_key sample_headers = Some ''k''"
    by (simp add: idempotency_key_def sample_headers_def is_blank_ascii)
  from a k show "\<exists>ch. admin_write_context sample_admin_env sample_headers = Inr ch"
    by (simp add: admin_write_context_def require_admin_idempotency_def require_admin_change_context_def
        context_field_def sample_headers_def res_bind_def trim_spaces_def string_defs)
  show "\<exists>e. authorize_admin sample_admin_env (\<lambda>_. None) = Inl e"
    by (simp add: authorize_admin_def bearer_def)
qed

lemma live_resource_valid: "validate_model_resource sample_admin_env live_resource = Inr ()"
  by (simp add: validate_model_resource_def live_resource_def is_blank_ascii sample_admin_env_def turn_env.defs
      admin_env.defs validate_secret_ref_def strip_prefix_def starts_with_def supports_vision_input_def
      validate_endpoint_def live_env_def string_defs)

section \<open>A resource is created\<close>

definition live_policy_row :: revision_row where
  "live_policy_row = \<lparr>rv_id = ''pol'', rv_revision = 1, rv_current = True, rv_json = ''pol''\<rparr>"

text \<open>The database with the resource and the policy in its tables.\<close>

definition live_db :: gateway_db where
  "live_db = empty_gateway_db\<lparr>gd_resources := [live_row], gd_policies := [live_policy_row]\<rparr>"

lemma live_tables:
  assumes "gd_resources db = [live_row]" "gd_connections db = []"
  shows "decode_rows (gc_dec_resource (se_codec live_env)) (current_rows Resource_Revisions db) = Inr [live_resource]"
    "stored_connections sample_admin_env db = Inr []"
proof -
  have "current_rows Resource_Revisions db = [live_row]"
    using assms by (simp add: current_rows_def revisions_def live_row_def)
  then show "decode_rows (gc_dec_resource (se_codec live_env)) (current_rows Resource_Revisions db) = Inr [live_resource]"
    by (simp add: decode_rows_def live_env_def)
  show "stored_connections sample_admin_env db = Inr []" using assms by (simp add: stored_connections_def)
qed

lemma live_resolved: "resolve_provider_connection sample_admin_env c live_resource = Inr live_resource"
  using live_resource_valid by (simp add: resolve_provider_connection_def live_resource_def res_bind_def)

lemma live_configuration:
  assumes "gd_resources db = [live_row]" "gd_policies db = []" "gd_connections db = []"
    "gd_configuration_version db = 1"
  shows "configuration_in sample_admin_env db = Inr ([(''m'', live_resource)], [], [], 1)"
proof -
  have "current_rows Policy_Revisions db = []" using assms by (simp add: current_rows_def revisions_def)
  moreover have "mr_id live_resource = ''m''" by (simp add: live_resource_def)
  ultimately show ?thesis
    using live_resource_valid live_tables [OF assms(1,3)] live_resolved assms(4)
    by (simp add: configuration_in_def decode_rows_def res_bind_def checked_configuration_def u64_of_def
        as_map_def bt_empty_def)
qed

lemma live_db_configuration:
  "configuration_in sample_admin_env live_db = Inr (configuration_of sample_admin_world)"
proof -
  have rows: "gd_resources live_db = [live_row]" "gd_connections live_db = []" "gd_configuration_version live_db = 0"
    by (simp_all add: live_db_def empty_gateway_db_def)
  have "current_rows Policy_Revisions live_db = [live_policy_row]"
    by (simp add: current_rows_def revisions_def live_db_def live_policy_row_def)
  then have "decode_rows (gc_dec_policy (se_codec live_env)) (current_rows Policy_Revisions live_db) = Inr [live_policy]"
    by (simp add: decode_rows_def live_env_def)
  moreover have "validate_model_selection_policy live_policy [live_resource] = Inr ()"
    by (simp add: validate_model_selection_policy_def live_policy_def live_resource_def is_blank_ascii string_defs)
  moreover have "mr_id live_resource = ''m''" by (simp add: live_resource_def)
  ultimately show ?thesis
    using live_resource_valid live_tables [OF rows(1,2)] live_resolved rows(3)
    by (simp add: configuration_in_def res_bind_def checked_configuration_def u64_of_def as_map_def bt_empty_def
        configuration_of_def sample_admin_world_def gateway_world.defs admin_world.defs live_world_def)
qed

definition tables_like :: "gateway_db \<Rightarrow> gateway_db \<Rightarrow> bool" where
  "tables_like db db' \<longleftrightarrow> gd_resources db' = gd_resources db \<and> gd_policies db' = gd_policies db
     \<and> gd_connections db' = gd_connections db \<and> gd_configuration_version db' = gd_configuration_version db
     \<and> gd_admin db' = gd_admin db"

lemma gives_audit:
  "reliable E \<Longrightarrow> sw_db w = db \<Longrightarrow> gives (audit_event E a b c) w (Inr ()) (insert_audit a b c db)"
  unfolding audit_event_def using gives_update by blast

lemma tables_audit [simp]: "tables_like db (insert_audit a b c db)"
  by (simp add: tables_like_def insert_audit_def)

definition with_live :: "gateway_db \<Rightarrow> gateway_db" where
  "with_live db = (let db2 = insert_audit ''model_resource.saved'' ''m''
      (gc_json (se_codec live_env) (saved_metadata live_resource)) (db\<lparr>gd_resources := [live_row]\<rparr>) in
     db2\<lparr>gd_configuration_version := gd_configuration_version db2 + 1\<rparr>)"

lemma first_save:
  fixes w :: "'a store_world_scheme"
  assumes "sw_db w = db" "gd_resources db = []" "gd_configuration_version db = 0"
  shows "gives (save_model_resource sample_admin_env live_resource None) w (Inr live_resource) (with_live db)
    \<and> tables_like (db\<lparr>gd_resources := [live_row], gd_configuration_version := 1\<rparr>) (with_live db)"
proof -
  let ?E = sample_admin_env
  have saved: "live_resource\<lparr>mr_revision := 1\<rparr> = live_resource" "mr_revision live_resource = 1"
      "mr_id live_resource = ''m''" by (simp_all add: live_resource_def)
  have shown: "gc_enc_resource (se_codec live_env) x = mr_id x" for x
    by (simp add: live_env_def sample_turn_env_def sample_codec_def)
  let ?meta = "gc_json (se_codec ?E) (saved_metadata live_resource)"
  let ?db1 = "db\<lparr>gd_resources := [live_row]\<rparr>"
  let ?db2 = "insert_audit ''model_resource.saved'' ''m'' ?meta ?db1"
  let ?db3 = "?db2\<lparr>gd_configuration_version := gd_configuration_version ?db2 + 1\<rparr>"
  have version: "gd_configuration_version ?db2 = 0" using assms(3) by (simp add: insert_audit_def)
  have bump: "gives (bump_version ?E) w (Inr 1) ?db3" if "sw_db w = ?db2" for w :: "'a store_world_scheme"
    unfolding bump_version_def bump_configuration_version_def configuration_version_def
      sample_admin_simps persistent_store.case
    apply (rule gives_update_bind [OF sample_reliable(1)])
    apply (rule gives_query_bind [OF sample_reliable(1)])
    using that version apply (simp add: u64_of_def gives_def)
    done
  have clear: "clear_current Resource_Revisions (is_current ''m'') db = (0, db)"
    using assms(2) by (simp add: clear_current_def revisions_def set_revisions_def)
  have ins: "insert_revision Resource_Revisions live_row db = Some ((), ?db1)"
    using assms(2) by (simp add: insert_revision_def revision_row_of_def current_row_def revisions_def
        set_revisions_def live_row_def)
  have "gives (replace_current ?E Resource_Revisions ''m'' 1 ''m'' ''model_resource.saved'' ?meta) w (Inr ()) ?db3"
    if "sw_db w = db" for w :: "'a store_world_scheme"
    unfolding replace_current_def
    apply (rule gives_sql_bind [OF sample_reliable(1)], simp add: that clear)
    apply (simp add: i64_of_def pbind_plift live_row_def [symmetric])
    apply (rule gives_sql_bind [OF sample_reliable(1)], simp add: ins)
    apply (rule gives_bind [OF gives_audit [OF sample_reliable(1) refl]])
    apply (rule gives_bind [OF bump], simp)
    apply (rule gives_ret, simp)
    done
  note rep = this
  have cur: "gives (current_revision ?E Resource_Revisions (mr_id live_resource)) w (Inr None) db"
    if "sw_db w = db" for w :: "'a store_world_scheme"
    unfolding current_revision_def
    by (rule gives_query_bind [OF sample_reliable(1)])
      (simp add: that current_row_def revisions_def assms(2) gives_def)
  have chk: "check_revision ''resource'' ''revision'' (mr_id live_resource) None None = Inr ()"
    by (simp add: check_revision_def)
  have "gives (save_model_resource ?E live_resource None) w (Inr live_resource) ?db3"
    unfolding save_model_resource_def config_transaction_def Let_def
    apply (simp only: sample_admin_simps persistent_store.case)
    apply (rule gives_bind [OF cur [OF assms(1)]])
    apply (simp only: chk pbind_plift)
    apply (simp add: next_revision_def saved shown)
    apply (rule gives_bind [OF rep [unfolded sample_admin_simps]], assumption)
    apply (rule gives_ret, simp)
    done
  moreover have "tables_like (db\<lparr>gd_resources := [live_row], gd_configuration_version := 1\<rparr>) ?db3"
    using version by (simp add: tables_like_def insert_audit_def)
  moreover have "with_live db = ?db3" by (simp add: with_live_def Let_def)
  ultimately show ?thesis by simp
qed

lemma sample_created:
  "\<exists>w'. handle_admin sample_admin_env sample_headers (Create_Resource sample_write) sample_admin_world
      = (Inr (Rp_Resource (resource_view_of live_resource)), w')
    \<and> configuration_in sample_admin_env (sw_db w') = Inr ([(''m'', live_resource)], [], [], 1)"
proof -
  let ?E = sample_admin_env and ?key = "''model-resource.write'' @ '':'' @ ''k''"
  let ?hsh = "sha256_hex (ge_digest ?E) (ac_resource_write (ae_codec ?E) sample_write)"
  obtain ch where ch: "admin_write_context ?E sample_headers = Inr ch" using sample_identity(3) by blast
  define db where "db = set_record ?key (Some (record_of ?hsh)) empty_gateway_db"
  have fresh: "gd_resources db = []" "gd_configuration_version db = 0" "gd_policies db = []"
      "gd_connections db = []" "gd_admin db ?key = Some (record_of ?hsh)"
    by (simp_all add: db_def set_record_def empty_gateway_db_def)
  define after where "after = insert_audit ''model_resource.admin_write'' (mr_id live_resource)
     (gc_json (se_codec ?E) (JObject [(''operatorId'', JString (ch_operator_id ch)),
        (''reason'', JString (ch_reason ch)), (''changeReference'', JString (ch_reference ch))])) (with_live db)"
  have like: "tables_like (db\<lparr>gd_resources := [live_row], gd_configuration_version := 1\<rparr>) after"
    using first_save [of "undefined\<lparr>sw_db := db\<rparr> :: admin_world" db] fresh
    by (simp add: after_def tables_like_def insert_audit_def)
  then have conf: "configuration_in ?E after = Inr ([(''m'', live_resource)], [], [], 1)"
    using fresh by (intro live_configuration) (simp_all add: tables_like_def)
  have save: "leaves (admin_stored ?E (save_model_resource ?E live_resource None)) w (Inr live_resource) (with_live db)"
    if "sw_db w = db" for w
    using first_save [OF _ fresh(1,2), THEN conjunct1] that by (intro leaves_stored_ok sample_reliable) simp
  have audit: "leaves (audit_provider_admin_change ?E ''model_resource.admin_write'' (mr_id live_resource) ch) w
      (Inr ()) after" if "sw_db w = with_live db" for w
    unfolding audit_provider_admin_change_def audit_admin_operation_def after_def
    using that by (intro leaves_stored_ok sample_reliable gives_audit) simp
  have refresh: "leaves (refresh ?E) w (Inr ()) after" if "sw_db w = after" for w
    using leaves_map_err [OF refresh_leaves [OF sample_reliable conf that]] by (simp add: refresh_def)
  have "leaves (handle_admin ?E sample_headers (Create_Resource sample_write)) sample_admin_world
      (Inr (Rp_Resource (resource_view_of live_resource)))
      (set_record ?key (Some \<lparr>ad_request_hash = ?hsh, ad_state = ''completed'',
         ad_response_json = Some (ac_enc_resource (ae_codec ?E) (resource_view_of live_resource))\<rparr>) after)"
    unfolding handle_admin.simps reply_def create_model_resource_def ch pbind_plift
    apply (rule leaves_bind)
     apply (rule write_leaves [OF sample_reliable sample_identity(2)])
       apply (simp add: empty_gateway_db_def)
      apply (simp only: sample_write_def resource_write.select_convs live_resource_valid err_into_simps
        pbind_plift option.case pbind_simps(3))
      apply (intro leaves_bind [OF save] leaves_bind [OF audit] leaves_bind [OF refresh])
    using like fresh
    apply (simp_all add: leaves_def db_def sample_write_def tables_like_def)
    done
  moreover have "configuration_in ?E (set_record k row db') = configuration_in ?E db'" for k row db'
    by (simp add: configuration_in_def set_record_def current_rows_def revisions_def stored_connections_def)
  ultimately show ?thesis using conf by (auto simp: leaves_def)
qed

end
