(* ===== verification/GatewayAdminProps.thy ===== *)
theory GatewayAdminProps
  imports GatewayAdminSample GatewayTurnProps
begin

text \<open>
  The administration of the gateway: who may use it, what its idempotency records promise, and the writers'
  half of the protocol by which gateways read a whole configuration.
\<close>

section \<open>Who may use it\<close>

lemma token_error: "authorize_admin E h = Inl e \<Longrightarrow> ae_status e = 401"
  by (auto simp: authorize_admin_def admin_error_def gateway_error_def split: option.splits if_splits)

lemma refused_write: "authorize_admin E h = Inl e \<Longrightarrow> admin_write_context E h = Inl e"
  by (simp add: admin_write_context_def)

lemmas handlers =
  list_provider_connections_def get_provider_connection_def create_provider_connection_def
  update_provider_connection_def set_provider_connection_enabled_def rotate_provider_connection_credential_def
  test_provider_connection_def list_model_services_def get_model_service_def create_model_service_def
  update_model_service_def set_model_service_published_def list_model_resources_def get_model_resource_def
  validate_model_resource_endpoint_def readiness_model_resource_def create_model_resource_def
  set_resource_enabled_def list_model_selection_policies_def get_model_selection_policy_def
  create_model_selection_policy_def activate_policy_def list_model_executions_def list_audit_events_def
  reconcile_gitops_configuration_def

lemma refused_request:
  assumes "authorize_admin E h = Inl e" "\<And>i v. q \<noteq> Test_Service i v"
  shows "handle_admin E h q w = (Inl e, w)"
  using assms by (cases q) (auto simp: handlers reply_def refused_write pbind_plift)

text \<open>Only the others have changed anything.\<close>

definition read_only :: "admin_env \<Rightarrow> admin_world \<Rightarrow> admin_world \<Rightarrow> bool" where
  "read_only E w w' \<longleftrightarrow> sw_db w' = sw_db (admin_others E w) \<and> gw_http_log w' = gw_http_log w
     \<and> aw_files w' = aw_files w \<and> configuration_of w' = configuration_of (admin_others E w)"

lemma load_raw_reads: "load_raw_model_service E i w = (r, w') \<Longrightarrow> read_only E w w'"
  by (auto simp: load_raw_model_service_def load_model_resource_def load_revision_def admin_stored_def
      locked_def sql_query_def sql_def read_only_def Let_def pbind_def pmap_err_def configuration_of_def plift_def
      split: option.splits stmt_outcome.splits sum.splits prod.splits if_splits)

text \<open>
  Without the administrator's token no request of the administration is served: the answer is 401 and nothing
  at all happens, but for the test of a service, which looks the service up first and answers with that error.
\<close>

theorem admin_requires_token:
  assumes "authorize_admin E h = Inl e"
  shows "ae_status e = 401
    \<and> (handle_admin E h q w = (Inl e, w)
      \<or> (\<exists>i v e' w'. q = Test_Service i v \<and> handle_admin E h q w = (Inl e', w') \<and> read_only E w w'))"
proof (cases "\<exists>i v. q = Test_Service i v")
  case True
  then obtain i v where q: "q = Test_Service i v" by blast
  obtain r w' where l: "load_raw_model_service E i w = (r, w')" by fastforce
  then have ro: "read_only E w w'" by (rule load_raw_reads)
  have "\<exists>e'. handle_admin E h q w = (Inl e', w')"
    using l assms by (cases r) (simp_all add: q reply_def test_model_service_def readiness_model_resource_def
      refused_write pbind_plift pbind_def praise_def)
  with q ro token_error [OF assms] show ?thesis by blast
next
  case False
  with refused_request [OF assms] token_error [OF assms] show ?thesis by blast
qed

theorem admin_requires_token_witness:
  "\<exists>e. handle_admin sample_admin_env (\<lambda>_. None) List_Connections sample_admin_world
      = (Inl e, sample_admin_world) \<and> ae_status e = 401"
proof -
  obtain e where "authorize_admin sample_admin_env (\<lambda>_. None) = Inl e" using sample_identity(4) by blast
  from admin_requires_token [OF this, of List_Connections sample_admin_world] show ?thesis by blast
qed

text \<open>
  The test of a service answers callers without a token differently when the service exists: what is not there
  is 404, what cannot be read 503, and 401 says that the id is one of a service.
\<close>

theorem unauthenticated_test_tells:
  assumes "authorize_admin E h = Inl e" "se_stmt E (sw_stmts w) = Stmt_done"
  shows "\<exists>e' w'. handle_admin E h (Test_Service i v) w = (Inl e', w')
    \<and> ae_status e' = (case current_row Resource_Revisions i (sw_db (admin_others E w)) of
        None \<Rightarrow> 404
      | Some row \<Rightarrow> (case gc_dec_resource (se_codec E) (rv_json row) of
          None \<Rightarrow> 503
        | Some x \<Rightarrow> if mr_provider_connection_id x = None then 404 else 401))"
  using assms token_error [OF assms(1)]
  by (auto simp: reply_def test_model_service_def readiness_model_resource_def refused_write
      load_raw_model_service_def load_model_resource_def load_revision_def admin_stored_def locked_def
      sql_query_def sql_def Let_def pbind_def pmap_err_def plift_def praise_def decode_row_def
      model_service_not_found_def admin_storage_error_def admin_error_def gateway_error_def
      split: option.splits)

theorem unauthenticated_test_tells_witness:
  "\<exists>e w'. handle_admin sample_admin_env (\<lambda>_. None) (Test_Service ''m'' 1) sample_admin_world = (Inl e, w')
    \<and> ae_status e = 404"
proof -
  obtain e where "authorize_admin sample_admin_env (\<lambda>_. None) = Inl e" using sample_identity(4) by blast
  from unauthenticated_test_tells [OF this, of sample_admin_world "''m''" 1] show ?thesis
    by (simp add: others_db current_row_def revisions_def empty_gateway_db_def)
qed

section \<open>What the store's operations leave\<close>

text \<open>The operations that write the configuration touch neither the records nor the turns.\<close>

definition records_same :: "gateway_db \<Rightarrow> gateway_db \<Rightarrow> bool" where
  "records_same db db' \<longleftrightarrow> gd_admin db' = gd_admin db"

lemma records_order [simp]: "reflp records_same" "transp records_same"
  by (auto simp: records_same_def reflp_def transp_def)

lemma records_simps [simp]:
  "records_same db db" "records_same db (insert_audit a b c db)"
  "records_same db (set_revisions t rows db)" "records_same db (upsert_connection row db)"
  "records_same db (set_secret n s db)" "records_same db (db\<lparr>gd_configuration_version := x\<rparr>)"
  "records_same db (snd (clear_current t q db))"
  by (simp_all add: records_same_def insert_audit_def set_revisions_def upsert_connection_def set_secret_def
      clear_current_def split: revision_table.split)

lemma records_clear: "clear_current t q db = (x, db') \<Longrightarrow> records_same db db'"
  by (metis records_simps(7) snd_conv)

lemma records_insert: "insert_revision t row db = Some (x, db') \<Longrightarrow> records_same db db'"
  by (auto simp: insert_revision_def split: if_splits)

lemma records_mark: "mark_current t i rv db = Some (x, db') \<Longrightarrow> records_same db db'"
  by (auto simp: mark_current_def Let_def split: if_splits)

lemma records_bump: "keeps (within records_same) (bump_version E)"
  unfolding bump_version_def bump_configuration_version_def pg_bump_configuration_version_def
    configuration_version_def
  by (cases "se_backend E"; simp only: persistent_store.case; intro keeps_rules; auto)

lemma records_audit: "keeps (within records_same) (audit_event E a b c)"
  unfolding audit_event_def by (intro keeps_rules) simp_all

lemma records_current: "keeps (within records_same) (current_revision E t i)"
  "keeps (within records_same) (max_revision E t i)"
  unfolding current_revision_def max_revision_def by (intro keeps_rules; simp)+

lemma records_replace: "keeps (within records_same) (replace_current E t i rv x ev m)"
  unfolding replace_current_def
  by (intro keeps_rules records_audit records_bump) (auto dest: records_clear records_insert)

lemma records_saved:
  "keeps (within records_same) (save_model_resource E x v)"
  "keeps (within records_same) (save_model_selection_policy E p v)"
  unfolding save_model_resource_def save_model_selection_policy_def Let_def
  by (intro keeps_rules records_current records_replace;
      (cases "se_backend E"; simp only: persistent_store.case; intro keeps_rules records_current)?; simp)+

lemma records_connection:
  "keeps (within records_same) (save_connection_statements E c v s)"
  "keeps (within records_same) (save_provider_connection E c v)"
  "keeps (within records_same) (save_provider_connection_with_secret E c v n x)"
proof -
  show b: "keeps (within records_same) (save_connection_statements E c v s)" for s
    unfolding save_connection_statements_def Let_def
    by (cases "se_backend E"; cases s; simp only: persistent_store.case option.case prod.case;
        intro keeps_rules records_audit records_bump; auto intro!: keeps_rules)
  show "keeps (within records_same) (save_provider_connection E c v)"
    unfolding save_provider_connection_def by (intro keeps_rules b; simp)
  show "keeps (within records_same) (save_provider_connection_with_secret E c v n x)"
    unfolding save_provider_connection_with_secret_def Let_def
    by (cases "se_backend E"; simp only: persistent_store.case; intro keeps_rules b; simp)
qed

lemma records_activate: "keeps (within records_same) (activate_model_selection_policy E i rv u)"
  unfolding activate_model_selection_policy_def load_selection_policy_def load_revision_def
  by (intro keeps_rules records_audit records_bump) (auto dest: records_clear records_mark)

lemma records_secret: "keeps (within records_same) (save_encrypted_secret E n s)"
  unfolding save_encrypted_secret_def by (intro keeps_rules; simp)

lemmas records_writes = records_connection(2,3) records_saved records_activate records_secret

section \<open>The answers are kept\<close>

text \<open>A completed operation stays as it is, with its answer.\<close>

definition answers_kept :: "gateway_db \<Rightarrow> gateway_db \<Rightarrow> bool" where
  "answers_kept db db' \<longleftrightarrow> (\<forall>k row. gd_admin db k = Some row \<and> ad_state row = ''completed'' \<longrightarrow>
     gd_admin db' k = Some row)"

text \<open>The record of one key keeps the request it was made for.\<close>

definition key_bound :: "string \<Rightarrow> gateway_db \<Rightarrow> gateway_db \<Rightarrow> bool" where
  "key_bound k db db' \<longleftrightarrow> (\<forall>row. gd_admin db k = Some row \<longrightarrow>
     (\<exists>row'. gd_admin db' k = Some row' \<and> ad_request_hash row' = ad_request_hash row))"

lemma kept_order [simp]:
  "reflp answers_kept" "transp answers_kept" "reflp (key_bound k)" "transp (key_bound k)"
  by (auto simp: answers_kept_def key_bound_def reflp_def transp_def)

lemma records_same_kept:
  "records_same a b \<Longrightarrow> answers_kept a b" "records_same a b \<Longrightarrow> key_bound k a b"
  by (simp_all add: records_same_def answers_kept_def key_bound_def)

lemma only_records_same: "only_audit a b \<Longrightarrow> records_same a b" "only_health a b \<Longrightarrow> records_same a b"
  by (simp_all add: only_defs records_same_def gateway_db_eq_iff)

lemma same_keeps: "keeps (within records_same) m \<Longrightarrow> keeps (on_adb answers_kept) m"
  "keeps (within records_same) m \<Longrightarrow> keeps (on_adb (key_bound k)) m"
  by (rule keeps_on_adb_mono, assumption, erule records_same_kept)+

lemma reserve_answers: "keeps (within answers_kept) (reserve_admin_operation E k hsh)"
proof -
  have i: "keeps (within answers_kept) (sql E (insert_admin k hsh))"
    by (intro keeps_rules) (auto simp: insert_admin_def answers_kept_def split: option.splits)
  show ?thesis
    unfolding reserve_admin_operation_def by (intro keeps_rules i) simp_all
qed

lemma complete_answers: "keeps (within answers_kept) (complete_admin_operation E k x)"
proof -
  have "answers_kept db db'"
    if "(case gd_admin db k of
         Some r \<Rightarrow> if ad_state r = ''in_progress''
           then (1, db\<lparr>gd_admin := (gd_admin db)(k \<mapsto>
                  r\<lparr>ad_state := ''completed'', ad_response_json := Some x\<rparr>)\<rparr>)
           else (0 :: nat, db)
       | None \<Rightarrow> (0, db)) = (n, db')" for db n db'
    using that by (auto simp: answers_kept_def split: option.splits if_splits)
  then show ?thesis
    unfolding complete_admin_operation_def by (intro keeps_rules) auto
qed

lemma discard_answers: "keeps (within answers_kept) (discard_admin_operation E k)"
  unfolding discard_admin_operation_def
  by (intro keeps_rules) (auto simp: answers_kept_def split: option.splits)

interpretation answers: admin_work answers_kept "others_do answers_kept"
  by unfold_locales
    (auto intro: same_keeps records_writes keeps_on_adb reserve_answers complete_answers discard_answers
      dest: only_records_same records_same_kept)

interpretation bound: admin_calls "key_bound k" "others_do (key_bound k)" for k
  by unfold_locales
    (auto intro: same_keeps records_writes dest: only_records_same records_same_kept)

text \<open>
  No request of the administration changes or removes the record of a completed operation, whatever fails
  in it, if other requests and other gateways do not.
\<close>

theorem admin_answers_kept:
  assumes "others_do answers_kept E" "handle_admin E h q w = (res, w')"
  shows "answers_kept (sw_db w) (sw_db w')"
  using keepsD [OF answers.keeps_handle_admin [OF assms(1)] assms(2)] by (simp add: on_adb_def)

theorem admin_answers_kept_witness:
  "\<exists>res w'. handle_admin sample_admin_env sample_headers (Create_Resource sample_write)
      (sample_admin_world\<lparr>sw_db := set_record ''x'' (Some \<lparr>ad_request_hash = ''h'', ad_state = ''completed'',
         ad_response_json = Some ''a''\<rparr>) empty_gateway_db\<rparr>) = (res, w')
    \<and> ad_response_json (the (gd_admin (sw_db w') ''x'')) = Some ''a''"
proof -
  let ?w = "sample_admin_world\<lparr>sw_db := set_record ''x'' (Some \<lparr>ad_request_hash = ''h'', ad_state = ''completed'',
      ad_response_json = Some ''a''\<rparr>) empty_gateway_db\<rparr>"
  obtain res w' where run: "handle_admin sample_admin_env sample_headers (Create_Resource sample_write) ?w = (res, w')"
    by fastforce
  have "answers_kept (sw_db ?w) (sw_db w')"
    by (rule admin_answers_kept [OF _ run]) (rule admin_sample_others, simp)
  from this [unfolded answers_kept_def, rule_format, of "''x''"]
  have "gd_admin (sw_db w') ''x'' = Some \<lparr>ad_request_hash = ''h'', ad_state = ''completed'',
      ad_response_json = Some ''a''\<rparr>" by (simp add: set_record_def)
  then have "ad_response_json (the (gd_admin (sw_db w') ''x'')) = Some ''a''" by simp
  with run show ?thesis by blast
qed

section \<open>A write is done once\<close>

text \<open>The operation and the payload under which a write is recorded; the others write no such record.\<close>

fun admin_operation :: "admin_env \<Rightarrow> admin_request \<Rightarrow> (string \<times> string) option" where
  "admin_operation E (Create_Connection x) =
     Some (''provider-connection.create'', ac_connection_write (ae_codec E) x)"
| "admin_operation E (Update_Connection i x) =
     (if cw_id x \<noteq> i \<or> cw_api_key x \<noteq> None then None
      else Some (''provider-connection.update.'' @ i, ac_connection_write (ae_codec E) x))"
| "admin_operation E (Enable_Connection i v) =
     Some (''provider-connection.enable.'' @ i, ac_version_request (ae_codec E) v)"
| "admin_operation E (Disable_Connection i v) =
     Some (''provider-connection.disable.'' @ i, ac_version_request (ae_codec E) v)"
| "admin_operation E (Rotate_Credential i x) =
     Some (''provider-connection.rotate-credential.'' @ i, ac_rotation (ae_codec E) x)"
| "admin_operation E (Test_Connection i v) =
     Some (''provider-connection.test.'' @ i, ac_version_request (ae_codec E) v)"
| "admin_operation E (Create_Service x) = Some (''model-service.create'', ac_service_write (ae_codec E) x)"
| "admin_operation E (Update_Service i x) =
     (if vw_id x \<noteq> i then None
      else Some (''model-service.update.'' @ i, ac_service_write (ae_codec E) x))"
| "admin_operation E (Publish_Service i v) =
     Some (''model-service.publish.'' @ i, ac_revision_request (ae_codec E) v)"
| "admin_operation E (Unpublish_Service i v) =
     Some (''model-service.unpublish.'' @ i, ac_revision_request (ae_codec E) v)"
| "admin_operation E (Create_Resource x) = Some (''model-resource.write'', ac_resource_write (ae_codec E) x)"
| "admin_operation E (Enable_Resource i v) =
     Some (''model-resource.enable.'' @ i, ac_revision_request (ae_codec E) v)"
| "admin_operation E (Disable_Resource i v) =
     Some (''model-resource.disable.'' @ i, ac_revision_request (ae_codec E) v)"
| "admin_operation E (Create_Policy x) =
     Some (''model-selection-policy.write'', ac_policy_write (ae_codec E) x)"
| "admin_operation E (Activate_Policy i x) =
     Some (''model-selection-policy.activate.'' @ i, ac_activation (ae_codec E) x)"
| "admin_operation E _ = None"

text \<open>What a stored answer says, and the text an answer is stored as.\<close>

fun stored_reply :: "admin_env \<Rightarrow> admin_reply \<Rightarrow> string \<Rightarrow> admin_reply option" where
  "stored_reply E (Rp_Connection _) x = map_option Rp_Connection (ac_dec_connection (ae_codec E) x)"
| "stored_reply E (Rp_Connection_Test _) x = map_option Rp_Connection_Test (ac_dec_test (ae_codec E) x)"
| "stored_reply E (Rp_Service _) x = map_option Rp_Service (ac_dec_service (ae_codec E) x)"
| "stored_reply E (Rp_Resource _) x = map_option Rp_Resource (ac_dec_resource (ae_codec E) x)"
| "stored_reply E (Rp_Policy _) x = map_option Rp_Policy (gc_dec_policy (se_codec E) x)"
| "stored_reply E _ x = None"

fun reply_text :: "admin_env \<Rightarrow> admin_reply \<Rightarrow> string" where
  "reply_text E (Rp_Connection v) = ac_enc_connection (ae_codec E) v"
| "reply_text E (Rp_Connection_Test v) = ac_enc_test (ae_codec E) v"
| "reply_text E (Rp_Service v) = ac_enc_service (ae_codec E) v"
| "reply_text E (Rp_Resource v) = ac_enc_resource (ae_codec E) v"
| "reply_text E (Rp_Policy v) = gc_enc_policy (se_codec E) v"
| "reply_text E _ = []"

definition admin_answered :: "string \<Rightarrow> string \<Rightarrow> string \<Rightarrow> gateway_db \<Rightarrow> bool" where
  "admin_answered key hsh response db \<longleftrightarrow> (\<exists>row. gd_admin db key = Some row \<and> ad_request_hash row = hsh
     \<and> ad_state row = ''completed'' \<and> ad_response_json row = Some response)"

text \<open>With the answer of its key and request stored, a write reads it and does nothing else.\<close>

lemma reserve_answered:
  assumes "admin_answered (op @ '':'' @ k) (sha256_hex (ge_digest E) payload) x (sw_db (admin_others E w))"
    and "idempotency_key h = Some k" "dec x = Some v"
    and "reserve_admin_write E h op payload dec w = (res, w')"
  shows "read_only E w w' \<and> (res = Inr (Write_Completed v) \<or> res = Inl (admin_storage_error Statement_failed))"
  using assms
  by (auto simp: reserve_admin_write_def admin_stored_def locked_def reserve_admin_operation_def sql_query_def
      sql_def insert_admin_def admin_answered_def read_only_def configuration_of_def Let_def pbind_def
      pmap_err_def split: stmt_outcome.splits)

lemma write_answered:
  assumes "admin_answered (op @ '':'' @ k) (sha256_hex (ge_digest E) payload) x (sw_db (admin_others E w))"
    and "idempotency_key h = Some k" "dec x = Some v"
    and "idempotent_write E h op payload enc dec body w = (res, w')"
  shows "read_only E w w' \<and> (res = Inr v \<or> res = Inl (admin_storage_error Statement_failed))"
proof -
  obtain r w1 where r: "reserve_admin_write E h op payload dec w = (r, w1)" by fastforce
  with reserve_answered [OF assms(1-3) r] assms(4) show ?thesis
    by (auto simp: idempotent_write_def)
qed

text \<open>A write that succeeds has stored its answer, or read it.\<close>

lemma completed_row:
  assumes "complete_admin_write E key x w = (Inr (), w')" "gd_admin (sw_db (admin_others E w)) key = Some row"
  shows "admin_answered key (ad_request_hash row) x (sw_db w')"
  using assms
  by (auto simp: complete_admin_write_def admin_stored_def locked_def complete_admin_operation_def sql_def
      admin_answered_def Let_def pbind_def pmap_err_def split: stmt_outcome.splits option.splits if_splits)

lemma complete_bound:
  assumes "others_do (key_bound key) E" "complete_admin_write E key x w = (Inr (), w')"
    "gd_admin (sw_db w) key = Some row" "ad_request_hash row = hsh"
  shows "admin_answered key hsh x (sw_db w')"
proof -
  have "key_bound key (sw_db w) (sw_db (admin_others E w))" using assms(1) by (simp add: others_db)
  then obtain row' where "gd_admin (sw_db (admin_others E w)) key = Some row'" "ad_request_hash row' = hsh"
    using assms(3,4) by (auto simp: key_bound_def)
  with completed_row [OF assms(2)] show ?thesis by auto
qed

lemma reserve_results:
  assumes "reserve_admin_write E h op payload dec w = (Inr res, w')" "idempotency_key h = Some k"
  shows "(\<exists>x v. res = Write_Completed v \<and> dec x = Some v
        \<and> admin_answered (op @ '':'' @ k) (sha256_hex (ge_digest E) payload) x (sw_db w'))
    \<or> (\<exists>row. res = Write_Reserved (op @ '':'' @ k) \<and> gd_admin (sw_db w') (op @ '':'' @ k) = Some row
        \<and> ad_request_hash row = sha256_hex (ge_digest E) payload)"
  using assms
  by (auto simp: reserve_admin_write_def admin_stored_def locked_def reserve_admin_operation_def sql_query_def
      sql_def insert_admin_def admin_answered_def Let_def pbind_def pmap_err_def
      split: stmt_outcome.splits option.splits if_splits)

lemma write_succeeded:
  assumes "idempotency_key h = Some k" "others_do (key_bound (op @ '':'' @ k)) E"
    and "keeps (on_adb (key_bound (op @ '':'' @ k))) body"
    and "idempotent_write E h op payload enc dec body w = (Inr v, w')" "dec (enc v) = Some v"
  shows "\<exists>x. dec x = Some v \<and>
    admin_answered (op @ '':'' @ k) (sha256_hex (ge_digest E) payload) x (sw_db w')"
proof -
  let ?key = "op @ '':'' @ k"
  from assms(4) obtain res w1 where r: "reserve_admin_write E h op payload dec w = (Inr res, w1)"
    and rest: "(case res of Write_Completed v \<Rightarrow> pret v
      | Write_Reserved key \<Rightarrow> pbind (pattempt body) (finish_admin_write E key enc)) w1 = (Inr v, w')"
    unfolding idempotent_write_def by (auto elim!: pbind_cases)
  from reserve_results [OF r assms(1)] show ?thesis
  proof (elim disjE exE conjE)
    fix x v'
    assume "res = Write_Completed v'" "dec x = Some v'"
      "admin_answered ?key (sha256_hex (ge_digest E) payload) x (sw_db w1)"
    with rest show ?thesis by auto
  next
    fix row
    assume k: "res = Write_Reserved ?key" "gd_admin (sw_db w1) ?key = Some row"
      "ad_request_hash row = sha256_hex (ge_digest E) payload"
    obtain b w2 where b: "body w1 = (b, w2)" by fastforce
    from keepsD [OF assms(3) b] k obtain row' where row': "gd_admin (sw_db w2) ?key = Some row'"
        "ad_request_hash row' = sha256_hex (ge_digest E) payload"
      by (auto simp: on_adb_def key_bound_def)
    from rest k(1) b have f: "finish_admin_write E ?key enc b w2 = (Inr v, w')"
      by (simp add: pattempt_def pbind_def)
    then have "b = Inr v \<and> complete_admin_write E ?key (enc v) w2 = (Inr (), w')"
      by (cases b) (auto simp: finish_admin_write_def elim!: pbind_cases)
    with complete_bound [OF assms(2) _ row'] assms(5) show ?thesis by blast
  qed
qed

lemma write_once:
  assumes form: "\<And>w. handle_admin E h q w = reply f (pbind (plift (admin_write_context E h))
      (\<lambda>ch. idempotent_write E h op payload enc dec (body ch))) w"
    and codec: "\<And>y. reply_text E (f y) = enc y" "\<And>y x. stored_reply E (f y) x = map_option f (dec x)" "inj f"
    and body: "\<And>ch. keeps (on_adb (key_bound (op @ '':'' @ k))) (body ch)"
    and key: "idempotency_key h = Some k" "others_do (key_bound (op @ '':'' @ k)) E"
    and run: "handle_admin E h q w = (Inr v, w')" "stored_reply E v (reply_text E v) = Some v"
  shows "\<exists>x. admin_answered (op @ '':'' @ k) (sha256_hex (ge_digest E) payload) x (sw_db w')
    \<and> (\<forall>u res u'. admin_answered (op @ '':'' @ k) (sha256_hex (ge_digest E) payload) x (sw_db (admin_others E u))
        \<longrightarrow> handle_admin E h q u = (res, u')
        \<longrightarrow> read_only E u u' \<and> (res = Inr v \<or> res = Inl (admin_storage_error Statement_failed)))"
proof -
  from run(1) obtain ch y where c: "admin_write_context E h = Inr ch" "v = f y"
      "idempotent_write E h op payload enc dec (body ch) w = (Inr y, w')"
    unfolding form reply_def by (auto elim!: pbind_cases)
  from run(2) c(2) codec(3) have "dec (enc y) = Some y" by (auto simp: codec(1,2) dest: injD)
  from write_succeeded [OF key body c(3) this] obtain x where x: "dec x = Some y"
      "admin_answered (op @ '':'' @ k) (sha256_hex (ge_digest E) payload) x (sw_db w')" by blast
  have "read_only E u u' \<and> (res = Inr v \<or> res = Inl (admin_storage_error Statement_failed))"
    if "admin_answered (op @ '':'' @ k) (sha256_hex (ge_digest E) payload) x (sw_db (admin_others E u))"
      "handle_admin E h q u = (res, u')" for u res u'
  proof -
    obtain r u1 where r: "idempotent_write E h op payload enc dec (body ch) u = (r, u1)" by fastforce
    from write_answered [OF that(1) key(1) x(1) r] that(2) r c(1,2) show ?thesis
      by (auto simp: form reply_def pbind_plift)
  qed
  with x(2) show ?thesis by blast
qed

text \<open>The test of a connection is such a write: what it records of a failure never fails itself.\<close>

lemma record_never_fails: "\<exists>w'. record_failed_test E i u ch w = (Inr (), w')"
  by (auto simp: record_failed_test_def pattempt_def pbind_def utc_now_def split: prod.splits sum.splits)

lemma test_is_write:
  "test_provider_connection E h i u = pbind (plift (admin_write_context E h)) (\<lambda>ch.
     idempotent_write E h (''provider-connection.test.'' @ i) (ac_version_request (ae_codec E) u)
       (ac_enc_test (ae_codec E)) (ac_dec_test (ae_codec E))
       (pbind (pattempt (connection_checks E i u ch)) (\<lambda>r. case r of
          Inr v \<Rightarrow> pret v | Inl e \<Rightarrow> pbind (record_failed_test E i u ch) (\<lambda>_. praise e))))"
proof -
  have eq: "pbind (pattempt (connection_checks E i u ch)) (\<lambda>r. case r of
          Inr v \<Rightarrow> finish_admin_write E key enc (Inr v)
        | Inl e \<Rightarrow> pbind (record_failed_test E i u ch) (\<lambda>_. finish_admin_write E key enc (Inl e)))
      = pbind (pattempt (pbind (pattempt (connection_checks E i u ch)) (\<lambda>r. case r of
          Inr v \<Rightarrow> pret v | Inl e \<Rightarrow> pbind (record_failed_test E i u ch) (\<lambda>_. praise e))))
          (finish_admin_write E key enc)" for key enc ch
  proof
    fix w1
    obtain r w2 where c: "connection_checks E i u ch w1 = (r, w2)" by fastforce
    obtain w3 where "record_failed_test E i u ch w2 = (Inr (), w3)" using record_never_fails by blast
    with c show "pbind (pattempt (connection_checks E i u ch)) (\<lambda>r. case r of
          Inr v \<Rightarrow> finish_admin_write E key enc (Inr v)
        | Inl e \<Rightarrow> pbind (record_failed_test E i u ch) (\<lambda>_. finish_admin_write E key enc (Inl e))) w1
      = pbind (pattempt (pbind (pattempt (connection_checks E i u ch)) (\<lambda>r. case r of
          Inr v \<Rightarrow> pret v | Inl e \<Rightarrow> pbind (record_failed_test E i u ch) (\<lambda>_. praise e))))
          (finish_admin_write E key enc) w1"
      by (cases r) (simp_all add: pattempt_def pbind_def)
  qed
  show ?thesis unfolding test_provider_connection_def idempotent_write_def eq by (rule refl)
qed

lemma reply_inj [simp]:
  "inj Rp_Connection" "inj Rp_Connection_Test" "inj Rp_Service" "inj Rp_Resource" "inj Rp_Policy"
  by (simp_all add: inj_def)

lemma write_names:
  "(''provider-connection.enable.'' @ i = op) \<longleftrightarrow> (''provider-connection.'' @ ''enable'' @ ''.'' @ i = op)"
  "(''provider-connection.disable.'' @ i = op) \<longleftrightarrow> (''provider-connection.'' @ ''disable'' @ ''.'' @ i = op)"
  "(''model-service.publish.'' @ i = op) \<longleftrightarrow> (''model-service.'' @ ''publish'' @ ''.'' @ i = op)"
  "(''model-service.unpublish.'' @ i = op) \<longleftrightarrow> (''model-service.'' @ ''unpublish'' @ ''.'' @ i = op)"
  "(''model-resource.enable.'' @ i = op) \<longleftrightarrow> (''model-resource.'' @ ''enable'' @ ''.'' @ i = op)"
  "(''model-resource.disable.'' @ i = op) \<longleftrightarrow> (''model-resource.'' @ ''disable'' @ ''.'' @ i = op)"
  by simp_all

lemma request_once:
  assumes "admin_operation E q = Some (op, payload)" "idempotency_key h = Some k"
    and o: "others_do (key_bound (op @ '':'' @ k)) E"
    and "handle_admin E h q w = (Inr v, w')" "stored_reply E v (reply_text E v) = Some v"
  shows "\<exists>x. admin_answered (op @ '':'' @ k) (sha256_hex (ge_digest E) payload) x (sw_db w')
    \<and> (\<forall>u res u'. admin_answered (op @ '':'' @ k) (sha256_hex (ge_digest E) payload) x (sw_db (admin_others E u))
        \<longrightarrow> handle_admin E h q u = (res, u')
        \<longrightarrow> read_only E u u' \<and> (res = Inr v \<or> res = Inl (admin_storage_error Statement_failed)))"
proof -
  note forms = create_provider_connection_def update_provider_connection_def set_provider_connection_enabled_def
    rotate_provider_connection_credential_def test_is_write create_model_service_def update_model_service_def
    set_model_service_published_def create_model_resource_def set_resource_enabled_def
    create_model_selection_policy_def activate_policy_def handle_admin.simps simp_thms if_True if_False
  note rule = write_once [OF _ _ _ _ _ assms(2) o _ assms(5)]
  show ?thesis
    using assms(1,4)
    apply (cases q; simp only: admin_operation.simps option.inject prod.inject option.distinct write_names
        de_Morgan_disj not_not split: if_splits; elim conjE)
    by (rule rule, simp (no_asm_simp) only: forms,
        (simp_all only: reply_text.simps stored_reply.simps reply_inj)[3],
        intro keeps_rules bound.admin_order o, assumption)+
qed



end
