(* ===== verification/GatewayRefreshProps.thy ===== *)
theory GatewayRefreshProps
  imports GatewayAdminProps
begin

text \<open>
  How a gateway reads its configuration while others change it: the readers' half of the protocol over the
  configuration's version, and the writers' half.
\<close>

section \<open>Versions of the configuration\<close>

definition same_configuration :: "gateway_db \<Rightarrow> gateway_db \<Rightarrow> bool" where
  "same_configuration db db' \<longleftrightarrow> gd_resources db' = gd_resources db \<and> gd_policies db' = gd_policies db
     \<and> gd_connections db' = gd_connections db"

text \<open>The version never falls, and the tables change only with it.\<close>

definition versioned :: "gateway_db \<Rightarrow> gateway_db \<Rightarrow> bool" where
  "versioned db db' \<longleftrightarrow> gd_configuration_version db \<le> gd_configuration_version db'
     \<and> (gd_configuration_version db' = gd_configuration_version db \<longrightarrow> same_configuration db db')"

lemma versioned_order [simp]: "reflp versioned" "transp versioned"
  by (auto simp: reflp_def transp_def versioned_def same_configuration_def)

lemma versioned_trans: "versioned a b \<Longrightarrow> versioned b c \<Longrightarrow> versioned a c"
  using versioned_order(2) by (rule transpD)

lemma versioned_refl [simp]: "versioned a a"
  using versioned_order(1) by (rule reflpD)

section \<open>Reading\<close>

lemma others_versioned: "others_do versioned E \<Longrightarrow> versioned (sw_db w) (sw_db (admin_others E w))"
  by (simp add: others_db)

lemma same_in:
  assumes "same_configuration a b"
  shows "current_rows t a = current_rows t b" "stored_connections E a = stored_connections E b"
  using assms by (auto simp: same_configuration_def current_rows_def revisions_def stored_connections_def
      split: revision_table.split)

text \<open>An attempt whose two versions agree has read the tables of one version.\<close>

lemma read_configuration_once:
  assumes o: "others_do versioned E" and "read_configuration E w = (Inr (rs, cs, ps, v, v), w')"
    and "gd_configuration_version (sw_db w') < 2 ^ 64"
  shows "versioned (sw_db w) (sw_db w')
    \<and> decode_rows (gc_dec_resource (se_codec E)) (current_rows Resource_Revisions (sw_db w')) = Inr rs
    \<and> stored_connections E (sw_db w') = Inr cs
    \<and> decode_rows (gc_dec_policy (se_codec E)) (current_rows Policy_Revisions (sw_db w')) = Inr ps
    \<and> u64_of (gd_configuration_version (sw_db w')) = Inr v"
proof -
  from assms(2) obtain w1 w2 w3 w4 where
      r1: "configuration_version E (admin_others E w) = (Inr v, w1)"
    and r2: "current_model_resources E (admin_others E w1) = (Inr rs, w2)"
    and r3: "provider_connections E (admin_others E w2) = (Inr cs, w3)"
    and r4: "current_model_selection_policies E (admin_others E w3) = (Inr ps, w4)"
    and r5: "configuration_version E (admin_others E w4) = (Inr v, w')"
    unfolding read_configuration_def locked_eq [abs_def] by (auto elim!: pbind_cases)
  note d = reads(1) [OF r1] reads(2) [OF r2] reads(4) [OF r3] reads(3) [OF r4] reads(1) [OF r5]
  have v: "versioned (sw_db w) (sw_db w1)" "versioned (sw_db w1) (sw_db w2)" "versioned (sw_db w2) (sw_db w3)"
      "versioned (sw_db w3) (sw_db w4)" "versioned (sw_db w4) (sw_db w')"
    using d others_versioned [OF o] by metis+
  have "gd_configuration_version (sw_db w1) = gd_configuration_version (sw_db w')"
  proof -
    have "gd_configuration_version (sw_db w1) \<le> gd_configuration_version (sw_db w')"
      using v by (simp add: versioned_def)
    moreover have "0 \<le> gd_configuration_version (sw_db w1)"
        "(word_of_int (gd_configuration_version (sw_db w1)) :: u64) = word_of_int (gd_configuration_version (sw_db w'))"
      using d by (auto simp: u64_of_def split: if_splits)
    ultimately show ?thesis
      using assms(3) by (simp add: word_of_int_eq_iff take_bit_int_eq_self)
  qed
  moreover note chain = v(5) versioned_trans [OF v(4,5)]
  moreover note chain3 = versioned_trans [OF v(3) versioned_trans [OF v(4,5)]]
  moreover note chain2 = versioned_trans [OF v(2) chain3]
  ultimately have same: "same_configuration (sw_db w2) (sw_db w')" "same_configuration (sw_db w3) (sw_db w')"
      "same_configuration (sw_db w4) (sw_db w')"
    using v by (auto simp: versioned_def)
  note same2 = same_in(1) [OF same(1), of Resource_Revisions] and same3 = same_in(2) [OF same(2), of E]
    and same4 = same_in(1) [OF same(3), of Policy_Revisions]
  have "versioned (sw_db w) (sw_db w')"
    by (intro versioned_trans [OF v(1)] versioned_trans [OF v(2)] versioned_trans [OF v(3)]
        versioned_trans [OF v(4) v(5)])
  with d same2 same3 same4 show ?thesis by simp
qed

interpretation versions: admin_reads versioned "others_do versioned"
  by unfold_locales (auto simp: only_defs gateway_db_eq_iff versioned_def same_configuration_def)

lemma read_versioned: "others_do versioned E \<Longrightarrow> keeps (on_adb versioned) (read_configuration E)"
  unfolding read_configuration_def by (intro keeps_rules versions.admin_order)

text \<open>The attempt that a refresh uses is one whose versions agree.\<close>

lemma stable_attempt:
  assumes "others_do versioned E"
  shows "stable_configuration n E w = (Inr (Some rows), w') \<Longrightarrow>
    \<exists>u rs cs ps v. versioned (sw_db w) (sw_db u) \<and> rows = (rs, cs, ps, v, v)
      \<and> read_configuration E u = (Inr rows, w')"
proof (induction n arbitrary: w)
  case (Suc n)
  from Suc(2) obtain rs cs ps b a w2 where r: "read_configuration E w = (Inr (rs, cs, ps, b, a), w2)"
    and rest: "(if b = a then pret (Some (rs, cs, ps, b, a)) else stable_configuration n E) w2 = (Inr (Some rows), w')"
    by (auto elim!: pbind_cases)
  show ?case
  proof (cases "b = a")
    case True
    with rest r show ?thesis by (intro exI [of _ w]) auto
  next
    case False
    have "versioned (sw_db w) (sw_db w2)"
      using keepsD [OF read_versioned [OF assms] r] by (simp add: on_adb_def)
    with False rest Suc(1) [of w2] versioned_trans show ?thesis by (fastforce dest: versioned_trans)
  qed
qed simp

text \<open>
  C35. A gateway that refreshes its configuration holds the configuration of one version of the database, a version
  between the one it found and the one it leaves, however the writers interleave with its five reads.
\<close>

theorem refresh_reads_one_version:
  assumes "others_do versioned E" "refresh_configuration E w = (Inr (), w')"
    and "gd_configuration_version (sw_db w') < 2 ^ 64"
  shows "\<exists>db. versioned (sw_db w) db \<and> versioned db (sw_db w')
    \<and> configuration_in E db = Inr (configuration_of w')"
proof -
  from assms(2) obtain rows w1 where
      s: "stable_configuration 3 E w = (Inr (Some rows), w1)"
    and rest: "pbind (plift (checked_configuration E rows)) (\<lambda>c. locked E (pmodify (set_configuration c))) w1
      = (Inr (), w')"
    unfolding refresh_configuration_def by (auto elim!: pbind_cases split: option.splits)
  from stable_attempt [OF assms(1) s] obtain u rs cs ps v where u: "versioned (sw_db w) (sw_db u)"
      "rows = (rs, cs, ps, v, v)" "read_configuration E u = (Inr (rs, cs, ps, v, v), w1)" by blast
  from rest u(2) obtain c where c: "checked_configuration E (rs, cs, ps, v, v) = Inr c"
    and w': "w' = set_configuration c (admin_others E w1)"
    by (auto simp: locked_eq elim!: pbind_cases)
  have db: "sw_db w' = sw_db (admin_others E w1)" and conf: "configuration_of w' = c"
    by (simp_all add: w' set_configuration_def configuration_of_def case_prod_beta)
  with others_versioned [OF assms(1), of w1] have after: "versioned (sw_db w1) (sw_db w')" by simp
  with assms(3) have "gd_configuration_version (sw_db w1) < 2 ^ 64" by (simp add: versioned_def)
  from read_configuration_once [OF assms(1) u(3) this] c u(1) after conf versioned_trans
  have "versioned (sw_db w) (sw_db w1)" "configuration_in E (sw_db w1) = Inr (configuration_of w')"
    by (auto simp: configuration_in_def res_bind_def)
  with after show ?thesis by blast
qed

theorem refresh_reads_one_version_witness:
  "\<exists>w' db. refresh_configuration sample_admin_env (sample_admin_world\<lparr>sw_db := live_db\<rparr>) = (Inr (), w')
    \<and> configuration_in sample_admin_env db = Inr (configuration_of w')"
proof -
  have "leaves (refresh_configuration sample_admin_env) (sample_admin_world\<lparr>sw_db := live_db\<rparr>) (Inr ()) live_db"
    by (rule refresh_leaves [OF sample_reliable live_db_configuration]) simp
  then obtain w' where w': "refresh_configuration sample_admin_env (sample_admin_world\<lparr>sw_db := live_db\<rparr>) = (Inr (), w')"
      "sw_db w' = live_db" by (auto simp: leaves_def)
  have "others_do versioned sample_admin_env" by (rule admin_sample_others) simp
  moreover have "gd_configuration_version (sw_db w') < 2 ^ 64" by (simp add: w'(2) live_db_def empty_gateway_db_def)
  ultimately show ?thesis using refresh_reads_one_version [OF _ w'(1)] w'(1) by blast
qed

section \<open>Writing\<close>

text \<open>What leaves the version as it is, and what raises it by one when it succeeds.\<close>

definition version_same :: "gateway_db \<Rightarrow> gateway_db \<Rightarrow> bool" where
  "version_same db db' \<longleftrightarrow> gd_configuration_version db' = gd_configuration_version db"

lemma version_same_order [simp]: "reflp version_same" "transp version_same"
  by (auto simp: reflp_def transp_def version_same_def)

definition raises :: "('z, 'a) store_proc \<Rightarrow> bool" where
  "raises m \<longleftrightarrow> (\<forall>w x w'. m w = (Inr x, w') \<longrightarrow>
     gd_configuration_version (sw_db w') = gd_configuration_version (sw_db w) + 1)"

named_theorems raises_rules \<open>a procedure raises the version when it succeeds\<close>

lemma raises_fail [raises_rules]: "raises (praise e)"
  by (simp add: raises_def)

lemma raises_later [raises_rules]:
  assumes "keeps (within version_same) m" "\<And>x. raises (f x)"
  shows "raises (pbind m f)"
  unfolding raises_def
  by (auto elim!: pbind_cases dest!: keepsD [OF assms(1)] assms(2) [unfolded raises_def, rule_format]
      simp: within_def version_same_def)

lemma raises_first:
  assumes "raises m" "\<And>x. keeps (within version_same) (f x)"
  shows "raises (pbind m f)"
  unfolding raises_def
  by (auto elim!: pbind_cases dest!: keepsD [OF assms(2)] assms(1) [unfolded raises_def, rule_format]
      simp: within_def version_same_def)

lemma raises_cases [raises_rules]:
  "(b \<Longrightarrow> raises m) \<Longrightarrow> (\<not> b \<Longrightarrow> raises n) \<Longrightarrow> raises (if b then m else n)"
  "(o' = None \<Longrightarrow> raises m) \<Longrightarrow> (\<And>x. o' = Some x \<Longrightarrow> raises (f x)) \<Longrightarrow>
     raises (case o' of None \<Rightarrow> m | Some x \<Rightarrow> f x)"
  by (simp_all split: option.splits)

lemma raises_bump: "se_backend E = Postgres \<Longrightarrow> raises (bump_version E)"
  by (auto simp: raises_def bump_version_def pg_bump_configuration_version_def sql_update_def sql_def Let_def
      elim!: pbind_cases split: stmt_outcome.splits)

lemma version_simps [simp]:
  "version_same db db" "version_same db (insert_audit a b c db)" "version_same db (set_revisions t rows db)"
  "version_same db (upsert_connection row db)" "version_same db (set_secret n s db)"
  by (simp_all add: version_same_def insert_audit_def set_revisions_def upsert_connection_def set_secret_def
      split: revision_table.split)

lemma steady_audit [keeps_rules]: "keeps (within version_same) (audit_event E a b c)"
  unfolding audit_event_def by (intro keeps_rules) simp_all

lemma steady_reads [keeps_rules]:
  "keeps (within version_same) (current_revision E t i)" "keeps (within version_same) (max_revision E t i)"
  unfolding current_revision_def max_revision_def by (intro keeps_rules; simp)+

lemma steady_rows:
  "insert_revision t row db = Some (x, db') \<Longrightarrow> version_same db db'"
  "mark_current t i rv db = Some (y, db') \<Longrightarrow> version_same db db'"
  "clear_current t q db = (y, db') \<Longrightarrow> version_same db db'"
  by (auto simp: insert_revision_def mark_current_def clear_current_def Let_def split: if_splits)

lemma raises_replace: "se_backend E = Postgres \<Longrightarrow> raises (replace_current E t i rv x ev m)"
  unfolding replace_current_def
  by (intro raises_rules raises_first [OF raises_bump] keeps_rules) (auto dest: steady_rows)

lemma transaction_versioned:
  assumes "raises m"
  shows "keeps (on_adb versioned) (pg_transaction E m)"
  unfolding keeps_def
proof
  fix w :: admin_world
  obtain r w1 where b: "sql_update E (\<lambda>db. db) w = (r, w1)" by fastforce
  then have w1: "sw_db w1 = sw_db w"
    by (auto simp: sql_update_def sql_def Let_def split: stmt_outcome.splits)
  obtain r2 w2 where m: "m w1 = (r2, w2)" by fastforce
  have "versioned (sw_db w) (sw_db w2)" if "r2 = Inr x" for x
    using assms m that w1 by (auto simp: raises_def versioned_def)
  with b m w1 show "on_adb versioned w (snd (pg_transaction E m w))"
    by (cases r; cases r2)
      (auto simp: pg_transaction_def on_adb_def split: stmt_outcome.split)
qed

lemma config_versioned:
  "se_backend E = Postgres \<Longrightarrow> raises m \<Longrightarrow> keeps (on_adb versioned) (config_transaction E m)"
  unfolding config_transaction_def
  by (simp, rule transaction_versioned, rule raises_later, intro keeps_rules) simp_all

lemma saved_versioned:
  assumes "se_backend E = Postgres"
  shows "keeps (on_adb versioned) (save_model_resource E x v)"
    "keeps (on_adb versioned) (save_model_selection_policy E p v)"
    "keeps (on_adb versioned) (activate_model_selection_policy E i rv u)"
    "keeps (on_adb versioned) (save_provider_connection E c v)"
    "keeps (on_adb versioned) (save_provider_connection_with_secret E c v n s)"
proof -
  note rep = raises_first [OF raises_replace [OF assms]] and bump = raises_first [OF raises_bump [OF assms]]
  show "keeps (on_adb versioned) (save_model_resource E x v)"
    unfolding save_model_resource_def Let_def
    by (intro config_versioned assms raises_rules rep keeps_rules; simp)
  show "keeps (on_adb versioned) (save_model_selection_policy E p v)"
    unfolding save_model_selection_policy_def Let_def assms persistent_store.case
    by (intro config_versioned assms raises_rules rep keeps_rules; simp)
  have a: "raises (pbind (load_selection_policy E i (Some rv)) (\<lambda>found. case found of
        None \<Rightarrow> praise (e1 :: gateway_store_error)
      | Some policy \<Rightarrow> f policy))"
    if "\<And>p. raises (f p)" for f :: "model_selection_policy \<Rightarrow> (_, model_selection_policy) store_proc" and e1
    unfolding load_selection_policy_def load_revision_def
    by (intro raises_rules keeps_rules that; simp)
  show "keeps (on_adb versioned) (activate_model_selection_policy E i rv u)"
    unfolding activate_model_selection_policy_def
    by (intro bump keeps_rules versions.admin_order config_versioned assms a raises_rules)
      (auto dest: steady_rows)
  have c: "raises (save_connection_statements E c v s)" for s
    unfolding save_connection_statements_def Let_def assms persistent_store.case prod.case
    by (cases s; simp only: option.case prod.case; intro bump [THEN raises_first] raises_rules keeps_rules) simp_all
  then show "keeps (on_adb versioned) (save_provider_connection E c v)"
    unfolding save_provider_connection_def by (rule config_versioned [OF assms])
  from c show "keeps (on_adb versioned) (save_provider_connection_with_secret E c v n s)"
    unfolding save_provider_connection_with_secret_def Let_def assms persistent_store.case
    by (rule config_versioned [OF assms])
qed

lemma unversioned:
  "gd_configuration_version db' = gd_configuration_version db \<Longrightarrow> same_configuration db db' \<Longrightarrow> versioned db db'"
  by (simp add: versioned_def)

lemma records_versioned:
  "keeps (on_adb versioned) (reserve_admin_operation E k hsh)"
  "keeps (on_adb versioned) (complete_admin_operation E k x)"
  "keeps (on_adb versioned) (discard_admin_operation E k)" "keeps (on_adb versioned) (save_encrypted_secret E n s)"
proof -
  have i: "keeps (within versioned) (sql E (insert_admin k hsh))"
    by (intro keeps_rules) (auto simp: insert_admin_def versioned_def same_configuration_def split: option.splits)
  show "keeps (on_adb versioned) (reserve_admin_operation E k hsh)"
    unfolding reserve_admin_operation_def by (rule keeps_on_adb) (intro keeps_rules i; simp)
  show "keeps (on_adb versioned) (complete_admin_operation E k x)"
    unfolding complete_admin_operation_def
    by (rule keeps_on_adb) (intro keeps_rules; auto intro!: unversioned simp: same_configuration_def
        split: option.splits if_splits)
  show "keeps (on_adb versioned) (discard_admin_operation E k)" "keeps (on_adb versioned) (save_encrypted_secret E n s)"
    unfolding discard_admin_operation_def save_encrypted_secret_def
    by (rule keeps_on_adb, intro keeps_rules; auto intro!: unversioned simp: same_configuration_def set_secret_def
        split: option.splits)+
qed

interpretation writers: admin_work versioned "\<lambda>E. se_backend E = Postgres \<and> others_do versioned E"
  by unfold_locales (auto intro: saved_versioned records_versioned)

text \<open>
  C36. With PostgreSQL no request of the administration changes the configuration without raising its version,
  whatever fails in it, if the others do not: the writers keep what \<open>refresh_configuration\<close> relies on.
\<close>

theorem configuration_changes_versioned:
  assumes "se_backend E = Postgres" "others_do versioned E" "handle_admin E h q w = (res, w')"
  shows "gd_configuration_version (sw_db w) \<le> gd_configuration_version (sw_db w')
    \<and> (gd_configuration_version (sw_db w') = gd_configuration_version (sw_db w) \<longrightarrow>
        same_configuration (sw_db w) (sw_db w'))"
  using keepsD [OF writers.keeps_handle_admin assms(3)] assms(1,2) by (simp add: on_adb_def versioned_def)

theorem configuration_changes_versioned_witness:
  "\<exists>res w'. handle_admin (sample_admin_env\<lparr>se_backend := Postgres\<rparr>) sample_headers (Create_Resource sample_write)
      (sample_admin_world\<lparr>sw_db := live_db\<rparr>) = (res, w')
    \<and> (gd_configuration_version (sw_db w') = 0 \<longrightarrow> gd_resources (sw_db w') = [live_row])"
proof -
  let ?E = "sample_admin_env\<lparr>se_backend := Postgres\<rparr>" and ?w = "sample_admin_world\<lparr>sw_db := live_db\<rparr>"
  obtain res w' where run: "handle_admin ?E sample_headers (Create_Resource sample_write) ?w = (res, w')" by fastforce
  have "se_backend ?E = Postgres" "others_do versioned ?E" by simp_all
  from configuration_changes_versioned [OF this run]
  have "gd_configuration_version (sw_db w') = 0 \<longrightarrow> gd_resources (sw_db w') = [live_row]"
    by (simp add: live_db_def empty_gateway_db_def same_configuration_def)
  with run show ?thesis by blast
qed

end
