(* ===== verification/GatewayConfigUseProps.thy ===== *)
theory GatewayConfigUseProps
  imports GatewayRefreshProps GatewaySendProps
begin

text \<open>From the tables of the configuration to the requests a turn sends.\<close>

section \<open>The configuration that was checked\<close>

lemma as_map_get:
  assumes "bt_get (as_map f xs) k = Some x"
  shows "x \<in> set xs \<and> f x = k"
proof -
  have "bt_get (fold (\<lambda>x m. bt_insert (f x) x m) xs m) k = Some x \<Longrightarrow>
      x \<in> set xs \<and> f x = k \<or> bt_get m k = Some x" for m
    by (induction xs arbitrary: m) (fastforce simp: bt_get_insert split: if_splits)+
  from this [of bt_empty] assms show ?thesis by (auto simp: as_map_def bt_empty_def)
qed

lemma as_map_wf: "bt_wf (as_map f xs)"
proof -
  have "bt_wf m \<Longrightarrow> bt_wf (fold (\<lambda>x m. bt_insert (f x) x m) xs m)" for m
    by (induction xs arbitrary: m) (auto intro: bt_wf_insert)
  from this [of bt_empty] show ?thesis by (simp add: as_map_def bt_empty_def bt_wf_def)
qed

lemma as_map_values: "x \<in> set (bt_values (as_map f xs)) \<Longrightarrow> x \<in> set xs"
  using as_map_get bt_get_iff [OF as_map_wf] by (fastforce simp: bt_values_def)

lemma first_failure_all: "first_failure f xs = Inr () \<Longrightarrow> x \<in> set xs \<Longrightarrow> f x = Inr ()"
  by (induction xs) (auto simp: res_bind_def split: sum.splits)

text \<open>What a resolved resource takes from its row and from its connection.\<close>

definition resolved_from ::
    "(string, provider_connection) btree \<Rightarrow> model_resource \<Rightarrow> model_resource \<Rightarrow> bool" where
  "resolved_from connections r x \<longleftrightarrow> mr_id x = mr_id r \<and> mr_physical_model x = mr_physical_model r
     \<and> (case mr_provider_connection_id r of
          None \<Rightarrow> mr_endpoint x = mr_endpoint r \<and> (mr_enabled x \<longleftrightarrow> mr_enabled r \<and> mr_published r)
        | Some i \<Rightarrow> \<exists>c. bt_get connections i = Some c \<and> mr_endpoint x = cn_endpoint c
            \<and> (mr_enabled x \<longleftrightarrow> mr_enabled r \<and> mr_published r \<and> cn_enabled c))"

lemma resolve_from: "resolve_provider_connection E connections r = Inr x \<Longrightarrow> resolved_from connections r x"
  by (auto simp: resolve_provider_connection_def resolved_from_def res_bind_ok split: option.splits)

lemma resolve_all:
  "resolve_provider_connections E connections rs = Inr xs \<Longrightarrow> x \<in> set xs \<Longrightarrow>
     \<exists>r \<in> set rs. resolved_from connections r x"
  by (induction rs arbitrary: xs) (auto simp: res_bind_ok dest: resolve_from)

lemma checked_configuration_ok:
  assumes "checked_configuration E (rs, cs, ps, b, v) = Inr (resources, connections, policies, version)"
  shows "\<forall>x \<in> set (bt_values resources). validate_model_resource E x = Inr ()
      \<and> (\<exists>r \<in> set rs. resolved_from connections r x)"
    and "bt_get connections i = Some c \<Longrightarrow> c \<in> set cs \<and> cn_id c = i"
proof -
  from assms obtain xs where x: "resolve_provider_connections E (as_map cn_id cs) rs = Inr xs"
      "first_failure (validate_model_resource E) xs = Inr ()" "resources = as_map mr_id xs"
      "connections = as_map cn_id cs"
    by (auto simp: checked_configuration_def Let_def res_bind_ok)
  then show "\<forall>x \<in> set (bt_values resources). validate_model_resource E x = Inr ()
      \<and> (\<exists>r \<in> set rs. resolved_from connections r x)"
    by (auto dest: as_map_values first_failure_all resolve_all)
  from x(4) show "bt_get connections i = Some c \<Longrightarrow> c \<in> set cs \<and> cn_id c = i"
    by (auto dest: as_map_get)
qed

section \<open>The rows behind a request\<close>

lemma those_member: "those (map f rows) = Some xs \<Longrightarrow> x \<in> set xs \<Longrightarrow> \<exists>r \<in> set rows. f r = Some x"
  by (induction rows arbitrary: xs) (auto split: option.splits)

text \<open>
  A current row of the tables that lets the resource be used: enabled, published, and with an enabled
  connection when it names one; the endpoint is the connection's then.
\<close>

definition usable_row :: "admin_env \<Rightarrow> gateway_db \<Rightarrow> http_request \<Rightarrow> bool" where
  "usable_row E db q \<longleftrightarrow> (\<exists>row \<in> set (gd_resources db). \<exists>r. rv_current row
     \<and> gc_dec_resource (se_codec E) (rv_json row) = Some r \<and> mr_enabled r \<and> mr_published r
     \<and> hq_resource_id q = mr_id r \<and> json_get ''model'' (hq_body q) = Some (JString (mr_physical_model r))
     \<and> (case mr_provider_connection_id r of
          None \<Rightarrow> hq_endpoint q = trim_end_slashes (ep_base_url (mr_endpoint r))
            @ ensure_leading_slash (ep_chat_completions_path (mr_endpoint r))
        | Some i \<Rightarrow> \<exists>co \<in> set (gd_connections db). \<exists>c.
            gc_dec_connection (se_codec E) (co_json co) = Some c \<and> cn_id c = i \<and> cn_enabled c
            \<and> hq_endpoint q = trim_end_slashes (ep_base_url (cn_endpoint c))
                @ ensure_leading_slash (ep_chat_completions_path (cn_endpoint c))))"

lemma validate_truncate: "validate_model_resource (turn_env.truncate E) x = validate_model_resource E x"
proof -
  have f: "ge_parse_url (turn_env.truncate E) = ge_parse_url E" "ge_parse_ipv6 (turn_env.truncate E) = ge_parse_ipv6 E"
      "ge_allow_loopback (turn_env.truncate E) = ge_allow_loopback E"
    by (simp_all add: turn_env.defs)
  show ?thesis
    unfolding validate_model_resource_def validate_endpoint_def unsafe_endpoint_host_def parse_ip_def f by (rule refl)
qed

lemma checked_in:
  assumes "configuration_in E db = Inr (resources, connections, policies, version)"
  shows "\<forall>x \<in> set (bt_values resources). validate_model_resource E x = Inr ()"
  using assms checked_configuration_ok(1) by (fastforce simp: configuration_in_def res_bind_ok)

lemma configuration_in_rows:
  assumes "configuration_in E db = Inr (resources, connections, policies, version)"
    and "x \<in> set (bt_values resources)" "mr_enabled x" "sent_to r x q"
  shows "usable_row E db q"
proof -
  from assms(1) obtain rs cs ps v where
      rs: "decode_rows (gc_dec_resource (se_codec E)) (current_rows Resource_Revisions db) = Inr rs"
    and cs: "stored_connections E db = Inr cs"
    and ch: "checked_configuration E (rs, cs, ps, v, v) = Inr (resources, connections, policies, version)"
    by (auto simp: configuration_in_def res_bind_ok)
  from checked_configuration_ok(1) [OF ch] assms(2) obtain m where
      m: "m \<in> set rs" "resolved_from connections m x" by blast
  from rs m(1) obtain row where row: "row \<in> set (gd_resources db)" "rv_current row"
      "gc_dec_resource (se_codec E) (rv_json row) = Some m"
    by (auto simp: decode_rows_def current_rows_def revisions_def dest!: those_member split: option.splits)
  have con: "\<exists>co \<in> set (gd_connections db). gc_dec_connection (se_codec E) (co_json co) = Some c \<and> cn_id c = i"
    if "bt_get connections i = Some c" for i c
    using checked_configuration_ok(2) [OF ch that] cs
    by (auto simp: stored_connections_def dest!: those_member split: option.splits)
  show ?thesis
    using m row con assms(3,4) unfolding usable_row_def
    by (intro bexI [OF _ row(1)] exI [of _ m])
      (fastforce simp: resolved_from_def sent_to_def split: option.splits)+
qed

text \<open>
  C37. A turn run on the configuration of a version of the database sends its requests only to resources whose row
  in that version is current, enabled and published, under their own model, and, when the row names a provider
  connection, only to the endpoint of that connection, which is enabled.
\<close>

theorem turn_uses_published:
  assumes "configuration_in E db = Inr (configuration_of w)"
    and "on_turn (execute_new_turn (turn_env.truncate E) r) w = (res, w')"
  shows "\<exists>qs. gw_http_log w' = gw_http_log w @ qs \<and> (\<forall>q \<in> set qs. usable_row E db q)"
proof -
  let ?w = "gateway_world.truncate w"
  have conf: "configuration_in E db = Inr (gw_resources ?w, aw_connections w, gw_policies ?w, aw_version w)"
    using assms(1) by (simp add: configuration_of_def gateway_world.defs)
  note rows = configuration_in_rows [OF conf]
  obtain w1 where t: "execute_new_turn (turn_env.truncate E) r ?w = (res, w1)"
    and log: "gw_http_log w' = gw_http_log w1" "gw_http_log ?w = gw_http_log w"
    using assms(2) by (auto simp: on_turn_def gateway_world.defs split: prod.splits)
  have valid: "\<forall>x \<in> set (bt_values (gw_resources ?w)). validate_model_resource (turn_env.truncate E) x = Inr ()"
    using checked_in [OF conf] by (simp add: validate_truncate)
  from new_turn_sends [OF valid t] obtain qs where qs: "gw_http_log w1 = gw_http_log ?w @ qs"
      "\<forall>q \<in> set qs. \<exists>policy x. may_use policy (gw_resources ?w) r x \<and> sent_to r x q" by fastforce
  have "usable_row E db q" if "may_use policy (gw_resources ?w) r x" "sent_to r x q" for policy x q
    using rows [OF may_use_stored [OF that(1)] _ that(2)] that(1) by (simp add: may_use_def)
  with qs log show ?thesis by auto
qed

theorem turn_uses_published_witness:
  "\<exists>resp w'. on_turn (execute_new_turn (turn_env.truncate sample_admin_env) sample_turn_request) sample_admin_world
      = (Inr resp, w')
    \<and> (\<forall>q \<in> set (gw_http_log w'). usable_row sample_admin_env live_db q)"
proof -
  obtain resp v where v: "execute_new_turn live_env sample_turn_request live_world = (Inr resp, v)"
    using live_new_turn by blast
  then have run: "on_turn (execute_new_turn (turn_env.truncate sample_admin_env) sample_turn_request) sample_admin_world
      = (Inr resp, gateway_world.extend v (gateway_world.more sample_admin_world))"
    by (simp add: on_turn_def)
  from turn_uses_published [OF live_db_configuration run] run show ?thesis by auto
qed

end
