(* ===== verification/GatewayAdminErrors.thy ===== *)
theory GatewayAdminErrors
  imports GatewayRefreshProps GatewayLimitsProps
begin

text \<open>What a request of the administration leaves behind when the database and everyone else behave.\<close>

section \<open>A refused write that replaces a credential\<close>

lemma gives_current_revision:
  assumes "reliable E" "current_row t i (sw_db w) = Some row" "0 \<le> rv_revision row"
  shows "gives (current_revision E t i) w (Inr (Some (word_of_int (rv_revision row)))) (sw_db w)"
  unfolding current_revision_def
  by (rule gives_query_bind [OF assms(1)]) (use assms(2,3) in \<open>auto simp: u64_of_def gives_def pbind_def\<close>)

lemma gives_save_stale:
  assumes "reliable E" "current_row Resource_Revisions (mr_id x) db = Some row" "0 \<le> rv_revision row"
    and "expected \<noteq> Some (word_of_int (rv_revision row))"
  shows "\<exists>m. \<forall>w :: 'z store_world_scheme. sw_db w = db \<longrightarrow> gives (save_model_resource E x expected) w
    (Inl (Store_message (''resource revision conflict'' @ m))) db"
proof -
  let ?c = "Some (word_of_int (rv_revision row))"
  obtain m e where e: "e = Store_message (''resource revision conflict'' @ m)"
    and m: "check_revision ''resource'' ''revision'' (mr_id x) ?c expected = Inl e"
    using assms(4) by (auto simp: check_revision_def)
  have body: "gives (pbind (current_revision E Resource_Revisions (mr_id x)) (\<lambda>current.
      pbind (plift (check_revision ''resource'' ''revision'' (mr_id x) current expected)) (f current))) w1
      (Inl e) db"
    if "sw_db w1 = db" for w1 :: "'z store_world_scheme" and f
  proof (rule gives_bind)
    show "gives (current_revision E Resource_Revisions (mr_id x)) w1 (Inr ?c) db"
      using gives_current_revision [OF assms(1), of Resource_Revisions "mr_id x" w1 row] assms(2,3) that by simp
  qed (simp only: m pbind_plift, simp add: gives_def)
  have t: "gives (pg_transaction E (pbind (sql_update E (\<lambda>db. db)) (\<lambda>_. b))) w (Inl e) db"
    if w: "sw_db w = db" and b: "\<And>w1. sw_db w1 = db \<Longrightarrow> gives b w1 (Inl e) db"
    for w and b :: "('z, model_resource) store_proc"
  proof -
    have "gives (pbind (sql_update E (\<lambda>db. db)) (\<lambda>_. b)) w1 (Inl e) db" if "sw_db w1 = sw_db w" for w1
      by (rule gives_update_bind [OF assms(1)]) (simp add: that w b)
    from gives_transaction [where w = w, OF assms(1) this] w show ?thesis by simp
  qed
  have "gives (save_model_resource E x expected) w (Inl e) db"
    if "sw_db w = db" for w :: "'z store_world_scheme"
    unfolding save_model_resource_def config_transaction_def Let_def
    by (cases "se_backend E"; simp only: persistent_store.case;
        ((rule body, rule that) | (rule t, rule that, rule body)))
  with e show ?thesis by blast
qed

lemma conflict_status: "ae_status (admin_storage_error (Store_message (''resource revision conflict'' @ m))) = 409"
proof -
  have "str_contains (''resource revision conflict'' @ m) ''revision conflict''"
    unfolding str_contains_iff by (rule exI [of _ "''resource ''"], rule exI [of _ m]) simp
  then show ?thesis by (simp only: admin_storage_error_def gateway_store_error.case if_True simp_thms)
      (simp add: admin_error_def gateway_error_def)
qed

lemma write_secret_stored:
  assumes "reliable E" "quiet E" "\<not> is_blank key" "validate_database_secret_name n = Inr ()"
    and "\<forall>t. te_encrypt E t key = Some sealed"
  shows "leaves (write_secret_ref E (''db:'' @ n) key) w (Inr ()) (set_secret n sealed (sw_db w))"
proof -
  have p: "strip_prefix ''db:'' (''db:'' @ n) = Some n" by (simp add: strip_prefix_def starts_with_def)
  have e: "leaves (pmap_err (\<lambda>_. Decode_failed) (encrypt_admin_secret E key)) w (Inr (Some sealed)) (sw_db w)"
    using assms(5) by (simp add: leaves_def encrypt_admin_secret_def pmap_err_def)
  have s: "leaves (locked E (save_encrypted_secret E n sealed)) w1 (Inr ()) (set_secret n sealed (sw_db w))"
    if "sw_db w1 = sw_db w" for w1
  proof (rule leaves_locked [OF assms(2) leaves_gives])
    fix w2
    assume "sw_db w2 = sw_db w1"
    with gives_update [OF assms(1), of "set_secret n sealed" w2] that
    show "gives (save_encrypted_secret E n sealed) w2 (Inr ()) (set_secret n sealed (sw_db w))"
      by (simp add: save_encrypted_secret_def)
  qed
  show ?thesis
    unfolding write_secret_ref_def p option.case assms(4) err_into_simps pbind_plift
    using assms(3) by (simp add: leaves_bind [OF e] s)
qed

text \<open>
  A write of a model resource that is refused because its expected revision is stale has already replaced the
  credential stored under the resource's name: the answer is 409, the revisions stay, no event is recorded
  and the idempotency record is gone, but the secret is the new one.
\<close>

theorem stale_write_replaces_secret:
  assumes "reliable E" "quiet E" "admin_write_context E h = Inr ch" "idempotency_key h = Some k"
    and "validate_model_resource E (xw_resource x) = Inr ()"
    and "xw_api_key x = Some key" "\<not> is_blank key" "\<forall>t. te_encrypt E t key = Some sealed"
    and "au_secret_ref (mr_auth (xw_resource x)) = ''db:'' @ n" "validate_database_secret_name n = Inr ()"
    and "current_row Resource_Revisions (mr_id (xw_resource x)) (sw_db w) = Some row" "0 \<le> rv_revision row"
    and "xw_expected_revision x \<noteq> Some (word_of_int (rv_revision row))"
    and "gd_admin (sw_db w) (''model-resource.write'' @ '':'' @ k) = None"
  shows "\<exists>e w'. handle_admin E h (Create_Resource x) w = (Inl e, w') \<and> ae_status e = 409
    \<and> sw_db w' = set_secret n sealed (sw_db w)"
proof -
  let ?key = "''model-resource.write'' @ '':'' @ k"
  let ?hsh = "sha256_hex (ge_digest E) (ac_resource_write (ae_codec E) x)"
  define db where "db = set_secret n sealed (set_record ?key (Some (record_of ?hsh)) (sw_db w))"
  have row: "current_row Resource_Revisions (mr_id (xw_resource x)) db = Some row"
    using assms(11) by (simp add: db_def set_secret_def set_record_def current_row_def revisions_def)
  obtain m where save: "\<forall>w1 :: admin_world. sw_db w1 = db \<longrightarrow>
      gives (save_model_resource E (xw_resource x) (xw_expected_revision x)) w1
        (Inl (Store_message (''resource revision conflict'' @ m))) db"
    using gives_save_stale [OF assms(1) row assms(12,13)] by blast
  define e where "e = admin_storage_error (Store_message (''resource revision conflict'' @ m))"
  let ?body = "pbind (plift (err_into (\<lambda>_. invalid_model_resource) (validate_model_resource E (xw_resource x)))) (\<lambda>_.
         pbind (case xw_api_key x of
            None \<Rightarrow> pret ()
          | Some api_key \<Rightarrow> pmap_err (\<lambda>_. admin_error 422 ''invalid_secret_ref''
              ''Admin API could not write the API key to the approved secret backend'' False)
              (write_secret_ref E (au_secret_ref (mr_auth (xw_resource x))) api_key)) (\<lambda>_.
         pbind (admin_stored E (save_model_resource E (xw_resource x) (xw_expected_revision x))) (\<lambda>saved.
         pbind (audit_provider_admin_change E ''model_resource.admin_write'' (mr_id saved) ch) (\<lambda>_.
         pbind (refresh E) (\<lambda>_. pret (resource_view_of saved))))))"
  have body: "leaves ?body w1 (Inl e) db" if "sw_db w1 = set_record ?key (Some (record_of ?hsh)) (sw_db w)" for w1
  proof -
    have "leaves (admin_stored E (save_model_resource E (xw_resource x) (xw_expected_revision x))) w2 (Inl e) db"
      if "sw_db w2 = db" for w2
      unfolding e_def using save that by (intro leaves_stored_fail [OF assms(2)]) simp
    note fail = leaves_bind_fail [OF this]
    have "leaves (pmap_err f (write_secret_ref E (''db:'' @ n) key)) w1 (Inr ()) db" for f :: "_ \<Rightarrow> gateway_api_error"
      using leaves_map_err [OF write_secret_stored [OF assms(1,2,7,10,8), of w1], of f] that by (simp add: db_def)
    note first = leaves_bind [OF this fail]
    show ?thesis
      unfolding assms(5,6,9) err_into_simps pbind_plift option.case by (rule first)
  qed
  have "gd_admin db ?key = Some (record_of ?hsh)" by (simp add: db_def set_secret_def set_record_def)
  from write_fails [OF assms(1,2,4,14) body this]
  have "leaves (handle_admin E h (Create_Resource x)) w (Inl e) (set_record ?key None db)"
    unfolding handle_admin.simps reply_def create_model_resource_def assms(3) pbind_plift
    by (intro leaves_bind_fail)
  moreover have "set_record ?key None db = set_secret n sealed (sw_db w)"
    using assms(14) by (simp add: db_def set_record_def set_secret_def fun_upd_idem)
  ultimately show ?thesis using conflict_status [of m] by (auto simp: leaves_def e_def)
qed

definition stale_write :: resource_write where
  "stale_write = \<lparr>xw_resource = live_resource\<lparr>mr_auth := \<lparr>au_auth_type = ''bearer'', au_secret_ref = ''db:n''\<rparr>\<rparr>,
     xw_api_key = Some ''new'', xw_expected_revision = None\<rparr>"

theorem stale_write_replaces_secret_witness:
  "\<exists>e w'. handle_admin sample_admin_env sample_headers (Create_Resource stale_write)
      (sample_admin_world\<lparr>sw_db := set_secret ''n'' ''old'' live_db\<rparr>) = (Inl e, w')
    \<and> ae_status e = 409 \<and> gd_secrets (sw_db w') ''n'' = Some ''new''"
proof -
  let ?w = "sample_admin_world\<lparr>sw_db := set_secret ''n'' ''old'' live_db\<rparr>"
  obtain ch where ch: "admin_write_context sample_admin_env sample_headers = Inr ch"
    using sample_identity(3) by blast
  have valid: "validate_model_resource sample_admin_env (xw_resource stale_write) = Inr ()"
    by (simp add: validate_model_resource_def live_resource_def is_blank_ascii sample_admin_env_def turn_env.defs
        admin_env.defs validate_secret_ref_def strip_prefix_def starts_with_def supports_vision_input_def
        validate_endpoint_def live_env_def string_defs stale_write_def validate_database_secret_name_def
        valid_secret_char_def)
  have row: "current_row Resource_Revisions (mr_id (xw_resource stale_write)) (sw_db ?w) = Some live_row"
    by (simp add: current_row_def revisions_def set_secret_def live_db_def live_row_def is_current_def
        stale_write_def live_resource_def)
  have "\<exists>e w'. handle_admin sample_admin_env sample_headers (Create_Resource stale_write) ?w = (Inl e, w')
      \<and> ae_status e = 409 \<and> sw_db w' = set_secret ''n'' ''new'' (sw_db ?w)"
    by (rule stale_write_replaces_secret [OF sample_reliable ch sample_identity(2) valid _ _ _ _ _ row])
      (simp_all add: stale_write_def is_blank_ascii string_defs validate_database_secret_name_def
        valid_secret_char_def live_row_def sample_admin_env_def turn_env.defs admin_env.defs live_env_def
        sample_turn_env_def live_db_def set_secret_def empty_gateway_db_def)
  then show ?thesis by (fastforce simp: set_secret_def)
qed

section \<open>A failed write that loses a resource\<close>

lemma find_none: "List.find q xs = None \<longleftrightarrow> (\<forall>x \<in> set xs. \<not> q x)"
  by (induction xs) auto

lemma find_some_in: "List.find q xs = Some x \<Longrightarrow> x \<in> set xs \<and> q x"
  by (induction xs) (auto split: if_splits)

lemma revisions_set [simp]: "revisions t (set_revisions t rows db) = rows"
  by (cases t) (simp_all add: revisions_def set_revisions_def)

lemma clear_current_none: "current_row t i (snd (clear_current t (is_current i) db)) = None"
  unfolding current_row_def find_none clear_current_def snd_conv revisions_set
  by (simp add: is_current_def ball_Un)

lemma clear_changes:
  assumes "current_row Resource_Revisions i db = Some row"
  shows "gd_resources (snd (clear_current Resource_Revisions (is_current i) db)) \<noteq> gd_resources db"
proof
  assume same: "gd_resources (snd (clear_current Resource_Revisions (is_current i) db)) = gd_resources db"
  have "current_row Resource_Revisions i (snd (clear_current Resource_Revisions (is_current i) db))
      = current_row Resource_Revisions i db"
    using same by (simp add: current_row_def revisions_def)
  with assms clear_current_none [of Resource_Revisions i db] show False by simp
qed

text \<open>
  In SQLite a write of a model resource is no transaction: when the statement that inserts the new revision
  fails, the old one is no longer current, so the resource is gone from the configuration that is read next,
  and the version has not changed.
\<close>

theorem sqlite_save_loses_resource:
  fixes w :: "'a store_world_scheme"
  assumes "se_backend E = Sqlite"
    and "current_row Resource_Revisions (mr_id x) (sw_db w) = Some row" "0 \<le> rv_revision row"
    and "expected = Some (word_of_int (rv_revision row))"
    and "se_stmt E (sw_stmts w) = Stmt_done" "se_stmt E (Suc (sw_stmts w)) = Stmt_done"
    and "se_stmt E (Suc (Suc (sw_stmts w))) = Stmt_failed"
  shows "\<exists>e w'. save_model_resource E x expected w = (Inl e, w')
    \<and> current_row Resource_Revisions (mr_id x) (sw_db w') = None \<and> \<not> versioned (sw_db w) (sw_db w')"
proof -
  let ?db = "snd (clear_current Resource_Revisions (is_current (mr_id x)) (sw_db w))"
  have lost: "gd_configuration_version ?db = gd_configuration_version (sw_db w)"
      "\<not> same_configuration (sw_db w) ?db"
    using clear_changes [OF assms(2)]
    by (simp_all add: clear_current_def set_revisions_def same_configuration_def)
  let ?c = "word_of_int (rv_revision row) :: u64"
  let ?w1 = "w\<lparr>sw_stmts := Suc (sw_stmts w)\<rparr>" and ?w2 = "w\<lparr>sw_stmts := Suc (Suc (sw_stmts w)), sw_db := ?db\<rparr>"
  have r: "current_revision E Resource_Revisions (mr_id x) w = (Inr (Some ?c), ?w1)"
    using assms(2,3,5) by (simp add: current_revision_def sql_query_def sql_def Let_def u64_of_def pbind_plift)
  have c: "check_revision ''resource'' ''revision'' (mr_id x) (Some ?c) expected = Inr ()"
    using assms(4) by (simp add: check_revision_def)
  have u: "sql E (\<lambda>db. Some (clear_current Resource_Revisions (is_current (mr_id x)) db)) ?w1
      = (Inr (fst (clear_current Resource_Revisions (is_current (mr_id x)) (sw_db w))), ?w2)"
    using assms(6) by (simp add: sql_def Let_def split: prod.split)
  have u': "pbind (sql E (\<lambda>db. Some (clear_current Resource_Revisions (is_current (mr_id x)) db))) f ?w1
      = f (fst (clear_current Resource_Revisions (is_current (mr_id x)) (sw_db w))) ?w2" for f :: "nat \<Rightarrow> (_, _, 'x) proc"
    using u by (rule pbind_simps(2))
  have r': "pbind (current_revision E Resource_Revisions (mr_id x)) f w = f (Some ?c) ?w1"
    for f :: "u64 option \<Rightarrow> (_, _, 'y) proc"
    using r by (rule pbind_simps(2))
  have f: "\<exists>e w'. sql E (insert_revision Resource_Revisions r) ?w2 = (Inl e, w') \<and> sw_db w' = ?db" for r
    using assms(7) by (simp add: sql_def Let_def split: option.split)
  have "\<exists>e w'. replace_current E Resource_Revisions (mr_id x) rv m ev me ?w1 = (Inl e, w') \<and> sw_db w' = ?db"
    for rv m ev me
    using f unfolding replace_current_def u'
    by (cases "i64_of rv") (auto simp: pbind_plift, metis pbind_simps(1))
  note failed = this
  have "\<exists>e w'. pbind (replace_current E Resource_Revisions (mr_id x) rv m ev me) g ?w1 = (Inl e, w') \<and> sw_db w' = ?db"
    for rv m ev me and g :: "unit \<Rightarrow> ('a, model_resource) store_proc"
    using failed [of rv m ev me] by (elim exE conjE) (intro exI conjI, rule pbind_simps(1), assumption+)
  then have "\<exists>e w'. save_model_resource E x expected w = (Inl e, w') \<and> sw_db w' = ?db"
    unfolding save_model_resource_def config_transaction_def assms(1) persistent_store.case r' c pbind_plift Let_def
    by simp
  with lost clear_current_none [of Resource_Revisions "mr_id x" "sw_db w"] show ?thesis
    by (auto simp: versioned_def)
qed

theorem sqlite_save_loses_resource_witness:
  "\<exists>e w'. save_model_resource (sample_admin_env\<lparr>se_stmt := (\<lambda>n. if n = 2 then Stmt_failed else Stmt_done)\<rparr>)
      live_resource (Some 1) (sample_admin_world\<lparr>sw_db := live_db\<rparr>) = (Inl e, w')
    \<and> current_row Resource_Revisions ''m'' (sw_db w') = None"
proof -
  let ?E = "sample_admin_env\<lparr>se_stmt := (\<lambda>n. if n = 2 then Stmt_failed else Stmt_done)\<rparr>"
  let ?w = "sample_admin_world\<lparr>sw_db := live_db\<rparr>"
  have m: "mr_id live_resource = ''m''" by (simp add: live_resource_def)
  have row: "current_row Resource_Revisions (mr_id live_resource) (sw_db ?w) = Some live_row"
    by (simp add: current_row_def revisions_def live_db_def live_row_def is_current_def m)
  have "\<exists>e w'. save_model_resource ?E live_resource (Some 1) ?w = (Inl e, w')
      \<and> current_row Resource_Revisions (mr_id live_resource) (sw_db w') = None \<and> \<not> versioned (sw_db ?w) (sw_db w')"
    by (rule sqlite_save_loses_resource [OF _ row]) (simp_all add: live_row_def)
  then show ?thesis unfolding m by blast
qed

end
