(* ===== verification/GatewayServiceProps.thy ===== *)
theory GatewayServiceProps
  imports GatewayAdminSample
begin

text \<open>What the administration shows of the audit events, and the policies that list the published services.\<close>

section \<open>Audit events\<close>

text \<open>No member of an object at any depth has a sensitive name.\<close>

fun no_secrets :: "json \<Rightarrow> bool" where
  "no_secrets (JArray vs) = list_all no_secrets vs"
| "no_secrets (JObject ms) = list_all (\<lambda>(k, v). to_ascii_lowercase k \<notin> set sensitive_keys \<and> no_secrets v) ms"
| "no_secrets _ = True"

lemma redact_no_secrets: "no_secrets (redact_audit_metadata v)"
  by (induction v rule: redact_audit_metadata.induct) (auto simp: list_all_iff simp del: set_simps)

lemma those_length: "those xs = Some ys \<Longrightarrow> length ys = length xs"
  by (induction xs arbitrary: ys) (auto split: option.splits)

lemma audit_events_bound: "audit_events E ty su be l u = (Inr events, u') \<Longrightarrow> length events \<le> unat l"
  by (auto simp: audit_events_def sql_query_def sql_def Let_def elim!: pbind_cases dest!: those_length
      split: option.splits stmt_outcome.splits)

text \<open>
  The listing of audit events shows at most the number of events asked for and never more than a hundred, and
  no member of their metadata, at any depth, has the name of a credential, an endpoint or a prompt.
\<close>

theorem audit_listing_redacted:
  assumes "handle_admin E h (List_Audit q) w = (Inr (Rp_Audit vs), w')"
  shows "length vs \<le> 100 \<and> (\<forall>v \<in> set vs. no_secrets (av_metadata v))
    \<and> (case aq_limit q of None \<Rightarrow> length vs \<le> 50 | Some l \<Rightarrow> length vs \<le> unat l)"
proof -
  let ?limit = "case aq_limit q of None \<Rightarrow> 50 | Some l \<Rightarrow> l"
  from assms have small: "\<not> 100 < ?limit"
    and vs: "\<exists>events (u :: admin_world) u'. audit_events E (aq_event_type q) (aq_subject_id q) (aq_before_id q) ?limit u
        = (Inr events, u') \<and> vs = map audit_view_of events"
    by (auto simp: reply_def list_audit_events_def Let_def admin_stored_def locked_eq pmap_err_def
        elim!: pbind_cases split: if_splits prod.splits sum.splits option.splits) blast+
  from vs audit_events_bound obtain events where
      events: "vs = map audit_view_of events" "length events \<le> unat ?limit" by blast
  have "unat ?limit \<le> 100" using small by (simp add: word_less_nat_alt)
  with events have "length vs \<le> unat ?limit" "length vs \<le> 100" by simp_all
  moreover have "\<forall>v \<in> set vs. no_secrets (av_metadata v)"
    by (auto simp: events(1) audit_view_of_def redact_no_secrets split: prod.splits)
  ultimately show ?thesis by (auto split: option.splits)
qed

theorem audit_listing_redacted_witness:
  "\<exists>vs w'. handle_admin sample_admin_env sample_headers
      (List_Audit \<lparr>aq_event_type = None, aq_subject_id = None, aq_before_id = None, aq_limit = Some 1\<rparr>)
      (sample_admin_world\<lparr>sw_db := insert_audit ''e'' ''s'' ''m'' (insert_audit ''e'' ''s'' ''m'' empty_gateway_db)\<rparr>)
      = (Inr (Rp_Audit vs), w') \<and> length vs \<le> 1 \<and> (\<forall>v \<in> set vs. no_secrets (av_metadata v))"
proof -
  let ?q = "\<lparr>aq_event_type = None, aq_subject_id = None, aq_before_id = None, aq_limit = Some 1\<rparr>"
  let ?w = "sample_admin_world\<lparr>sw_db := insert_audit ''e'' ''s'' ''m'' (insert_audit ''e'' ''s'' ''m'' empty_gateway_db)\<rparr>"
  have parse: "gc_parse (se_codec live_env) x = Some sample_answer" for x
    by (simp add: live_env_def)
  have "\<exists>vs w'. handle_admin sample_admin_env sample_headers (List_Audit ?q) ?w = (Inr (Rp_Audit vs), w')"
    using sample_identity(1)
    by (simp add: reply_def list_audit_events_def pbind_plift admin_stored_def locked_eq audit_events_def
        sql_query_def sql_def parse pbind_def pmap_err_def Let_def insert_audit_def empty_gateway_db_def others_db)
  then obtain vs w' where run: "handle_admin sample_admin_env sample_headers (List_Audit ?q) ?w = (Inr (Rp_Audit vs), w')"
    by blast
  from audit_listing_redacted [OF run] run show ?thesis by auto
qed

end
