(* ===== verification/GatewayPublishProps.thy ===== *)
theory GatewayPublishProps
  imports GatewayAdminSample
begin

text \<open>The policies list the published services: what publishing and its end leave in the tables.\<close>

section \<open>The rows a write leaves\<close>

definition tables_same :: "gateway_db \<Rightarrow> gateway_db \<Rightarrow> bool" where
  "tables_same db db' \<longleftrightarrow> gd_resources db' = gd_resources db \<and> gd_policies db' = gd_policies db
     \<and> gd_connections db' = gd_connections db"

lemma tables_same_order [simp]: "reflp tables_same" "transp tables_same"
  by (auto simp: reflp_def transp_def tables_same_def)

lemma tables_same_rows:
  "tables_same a b \<Longrightarrow> current_row t i b = current_row t i a"
  "tables_same a b \<Longrightarrow> current_rows t b = current_rows t a"
  "tables_same a b \<Longrightarrow> stored_connections E b = stored_connections E a"
  by (auto simp: tables_same_def current_row_def current_rows_def revisions_def stored_connections_def
      split: revision_table.split)

interpretation unwritten: admin_reads tables_same quiet
  by unfold_locales (auto simp: only_defs gateway_db_eq_iff tables_same_def quiet_def)

lemma unwritten_records [keeps_rules]:
  "quiet E \<Longrightarrow> keeps (on_adb tables_same) (reserve_admin_write E h op payload dec)"
  "quiet E \<Longrightarrow> keeps (on_adb tables_same) (complete_admin_write E k x)"
proof -
  assume q: "quiet E"
  have r: "keeps (on_adb tables_same) (reserve_admin_operation E k hsh)" for k hsh
  proof (rule keeps_on_adb)
    have i: "keeps (within tables_same) (sql E (insert_admin k hsh))"
      by (intro keeps_rules) (auto simp: insert_admin_def tables_same_def split: option.splits)
    show "keeps (within tables_same) (reserve_admin_operation E k hsh)"
      unfolding reserve_admin_operation_def by (intro keeps_rules i; simp)
  qed
  show "keeps (on_adb tables_same) (reserve_admin_write E h op payload dec)"
    unfolding reserve_admin_write_def Let_def
    by (intro keeps_rules unwritten.admin_order q r; (simp split: stored_admin_operation.split)?;
        intro conjI allI impI keeps_rules unwritten.admin_order)
  have c: "keeps (on_adb tables_same) (complete_admin_operation E k x)"
    unfolding complete_admin_operation_def
    by (rule keeps_on_adb, intro keeps_rules; auto simp: tables_same_def split: option.splits if_splits)
  show "keeps (on_adb tables_same) (complete_admin_write E k x)"
    unfolding complete_admin_write_def by (intro keeps_rules q c)
qed

text \<open>The current row of one id is replaced; the other current rows, and the other tables, stay.\<close>

definition replaced :: "revision_table \<Rightarrow> string \<Rightarrow> string \<Rightarrow> gateway_db \<Rightarrow> gateway_db \<Rightarrow> bool" where
  "replaced t i x db db' \<longleftrightarrow> (\<exists>row. rv_id row = i \<and> rv_current row \<and> rv_json row = x
       \<and> filter rv_current (revisions t db') = filter (\<lambda>r. rv_current r \<and> rv_id r \<noteq> i) (revisions t db) @ [row])
     \<and> (\<forall>u. u \<noteq> t \<longrightarrow> revisions u db' = revisions u db) \<and> gd_connections db' = gd_connections db"

lemma filter_cleared:
  "filter rv_current (map (\<lambda>r. if is_current i r then r\<lparr>rv_current := False\<rparr> else r) xs)
     = filter (\<lambda>r. rv_current r \<and> rv_id r \<noteq> i) xs"
  by (induction xs) (auto simp: is_current_def)

lemma revisions_set_same [simp]: "revisions t (set_revisions t rows db) = rows"
  by (cases t) (simp_all add: revisions_def set_revisions_def)

lemma revisions_set_other [simp]: "u \<noteq> t \<Longrightarrow> revisions u (set_revisions t rows db) = revisions u db"
  "gd_connections (set_revisions t rows db) = gd_connections db"
  by (cases t; cases u; simp add: revisions_def set_revisions_def)+

lemma replaced_rows:
  assumes "clear_current t (is_current i) db = (n, db1)" "insert_revision t row db1 = Some (u, db2)"
    "rv_id row = i" "rv_current row" "rv_json row = x"
  shows "replaced t i x db db2"
proof -
  let ?rows = "map (\<lambda>r. if is_current i r then r\<lparr>rv_current := False\<rparr> else r) (revisions t db)"
  from assms(1) have db1: "db1 = set_revisions t ?rows db" by (simp add: clear_current_def)
  from assms(2) have db2: "db2 = set_revisions t (?rows @ [row]) db1"
    by (auto simp: insert_revision_def db1 split: if_splits)
  have "filter rv_current (revisions t db2) = filter (\<lambda>r. rv_current r \<and> rv_id r \<noteq> i) (revisions t db) @ [row]"
    unfolding db2 revisions_set_same filter_append filter_cleared using assms(4) by simp
  with assms(3-5) show ?thesis unfolding replaced_def db2 db1 by auto
qed

lemma tables_revisions: "tables_same a b \<Longrightarrow> revisions t b = revisions t a"
  by (cases t) (simp_all add: tables_same_def revisions_def)

lemma replaced_same:
  assumes "replaced t i x db db'"
  shows "tables_same db' db'' \<Longrightarrow> replaced t i x db db''" "tables_same db0 db \<Longrightarrow> replaced t i x db0 db'"
proof -
  show "replaced t i x db db''" if "tables_same db' db''"
    using assms that tables_same_rows(1) [OF that] tables_revisions [OF that]
    by (simp add: replaced_def) (simp add: tables_same_def)
  show "replaced t i x db0 db'" if "tables_same db0 db"
    using assms that tables_same_rows(1) [OF that] tables_revisions [OF that]
    by (simp add: replaced_def) (simp add: tables_same_def)
qed

lemma steady_tables [keeps_rules]:
  "keeps (within tables_same) (audit_event E a b c)" "keeps (within tables_same) (bump_version E)"
  "keeps (within tables_same) (current_revision E t i)" "keeps (within tables_same) (max_revision E t i)"
  unfolding audit_event_def bump_version_def bump_configuration_version_def pg_bump_configuration_version_def
    configuration_version_def current_revision_def max_revision_def
  by ((intro keeps_rules; simp add: tables_same_def insert_audit_def),
      (cases "se_backend E"; simp only: persistent_store.case; intro keeps_rules; auto simp: tables_same_def),
      (intro keeps_rules; simp), (intro keeps_rules; simp))

lemma replace_current_replaces:
  assumes "replace_current E t i rv x ev m w = (Inr (), w')"
  shows "replaced t i x (sw_db w) (sw_db w')"
proof -
  from assms obtain n w1 rn w2 where
      c: "sql E (\<lambda>db. Some (clear_current t (is_current i) db)) w = (Inr n, w1)"
    and i: "sql E (insert_revision t \<lparr>rv_id = i, rv_revision = rn, rv_current = True, rv_json = x\<rparr>) w1 = (Inr (), w2)"
    and rest: "pbind (audit_event E ev i m) (\<lambda>_. pbind (bump_version E) (\<lambda>_. pret ())) w2 = (Inr (), w')"
    unfolding replace_current_def by (auto elim!: pbind_cases)
  from c have c': "clear_current t (is_current i) (sw_db w) = (n, sw_db w1)"
    by (cases rule: sql_cases) auto
  from i have i': "insert_revision t \<lparr>rv_id = i, rv_revision = rn, rv_current = True, rv_json = x\<rparr> (sw_db w1)
      = Some ((), sw_db w2)"
    by (cases rule: sql_cases) auto
  have "keeps (within tables_same) (pbind (audit_event E ev i m) (\<lambda>_. pbind (bump_version E) (\<lambda>_. pret ())))"
    by (intro keeps_rules tables_same_order) simp_all
  from keepsD [OF this rest] have "tables_same (sw_db w2) (sw_db w')" by (rule within_db)
  with replaced_rows [OF c' i'] show ?thesis by (auto intro: replaced_same)
qed

lemma config_transaction_ok:
  assumes "config_transaction E b w = (Inr x, w')"
  shows "\<exists>u u'. sw_db u = sw_db w \<and> b u = (Inr x, u') \<and> sw_db w' = sw_db u'"
proof (cases "se_backend E")
  case Sqlite
  with assms show ?thesis by (auto simp: config_transaction_def)
next
  case Postgres
  have keep: "sw_db u' = sw_db u" if "sql_update E (\<lambda>db. db) u = (r, u')" for u r u'
    using that by (auto simp: sql_update_def sql_def Let_def split: stmt_outcome.splits)
  from Postgres assms obtain w1 where
      "pbind (sql_update E (\<lambda>db. db)) (\<lambda>_. pbind (sql_update E (\<lambda>db. db)) (\<lambda>_. b)) w = (Inr x, w1)"
      "sw_db w' = sw_db w1"
    by (auto simp: config_transaction_def pg_transaction_def split: prod.splits sum.splits stmt_outcome.splits)
  then show ?thesis by (auto elim!: pbind_cases dest!: keep) metis
qed

lemma saved_resource:
  fixes w :: "'z store_world_scheme"
  assumes "save_model_resource E r e w = (Inr saved, w')"
  shows "(\<exists>v. saved = r\<lparr>mr_revision := v\<rparr>)
    \<and> replaced Resource_Revisions (mr_id r) (gc_enc_resource (se_codec E) saved) (sw_db w) (sw_db w')"
proof -
  obtain u u' :: "'z store_world_scheme" where u: "sw_db u = sw_db w" "sw_db w' = sw_db u'"
    and b: "pbind (current_revision E Resource_Revisions (mr_id r)) (\<lambda>current.
     pbind (plift (check_revision ''resource'' ''revision'' (mr_id r) current e)) (\<lambda>_.
     let saved = r\<lparr>mr_revision := next_revision (se_backend E) current\<rparr> in
     pbind (replace_current E Resource_Revisions (mr_id saved) (mr_revision saved)
        (gc_enc_resource (se_codec E) saved) ''model_resource.saved''
        (gc_json (se_codec E) (saved_metadata saved))) (\<lambda>_. pret saved))) u = (Inr saved, u')"
    using config_transaction_ok [OF assms [unfolded save_model_resource_def]] by blast
  from b obtain c u1 where c: "current_revision E Resource_Revisions (mr_id r) u = (Inr c, u1)"
    and saved: "saved = r\<lparr>mr_revision := next_revision (se_backend E) c\<rparr>"
    and rep: "replace_current E Resource_Revisions (mr_id saved) (mr_revision saved)
        (gc_enc_resource (se_codec E) saved) ''model_resource.saved''
        (gc_json (se_codec E) (saved_metadata saved)) u1 = (Inr (), u')"
    by (auto simp: Let_def elim!: pbind_cases)
  have "tables_same (sw_db u) (sw_db u1)" using keepsD [OF steady_tables(3) c] by (rule within_db)
  with replaced_same(2) [OF replace_current_replaces [OF rep]] u saved show ?thesis by auto
qed

lemma saved_policy:
  fixes w :: "'z store_world_scheme"
  assumes "save_model_selection_policy E p e w = (Inr saved, w')"
  shows "(\<exists>v. saved = p\<lparr>mp_revision := v\<rparr>)
    \<and> replaced Policy_Revisions (mp_id p) (gc_enc_policy (se_codec E) saved) (sw_db w) (sw_db w')"
proof -
  obtain u u' :: "'z store_world_scheme" where u: "sw_db u = sw_db w" "sw_db w' = sw_db u'"
    and b: "pbind (current_revision E Policy_Revisions (mp_id p)) (\<lambda>current.
     let check = plift (check_revision ''policy'' ''revision'' (mp_id p) current e);
         top = max_revision E Policy_Revisions (mp_id p) in
     pbind (case se_backend E of
         Sqlite \<Rightarrow> pbind top (\<lambda>m. pbind check (\<lambda>_. pret m))
       | Postgres \<Rightarrow> pbind check (\<lambda>_. top)) (\<lambda>m.
     let saved = p\<lparr>mp_revision := next_revision (se_backend E) m\<rparr> in
     pbind (replace_current E Policy_Revisions (mp_id saved) (mp_revision saved)
        (gc_enc_policy (se_codec E) saved) ''model_selection_policy.saved''
        (gc_enc_policy (se_codec E) saved)) (\<lambda>_. pret saved))) u = (Inr saved, u')"
    using config_transaction_ok [OF assms [unfolded save_model_selection_policy_def]] by blast
  let ?check = "\<lambda>c. plift (check_revision ''policy'' ''revision'' (mp_id p) c e)"
  let ?top = "max_revision E Policy_Revisions (mp_id p)"
  from b obtain c u1 m u2 where c: "current_revision E Policy_Revisions (mp_id p) u = (Inr c, u1)"
    and m: "(case se_backend E of Sqlite \<Rightarrow> pbind ?top (\<lambda>m. pbind (?check c) (\<lambda>_. pret m))
       | Postgres \<Rightarrow> pbind (?check c) (\<lambda>_. ?top)) u1 = (Inr m, u2)"
    and saved: "saved = p\<lparr>mp_revision := next_revision (se_backend E) m\<rparr>"
    and rep: "replace_current E Policy_Revisions (mp_id saved) (mp_revision saved)
        (gc_enc_policy (se_codec E) saved) ''model_selection_policy.saved''
        (gc_enc_policy (se_codec E) saved) u2 = (Inr (), u')"
    by (auto simp: Let_def elim!: pbind_cases)
  have "keeps (within tables_same) (case se_backend E of Sqlite \<Rightarrow> pbind ?top (\<lambda>m. pbind (?check c) (\<lambda>_. pret m))
       | Postgres \<Rightarrow> pbind (?check c) (\<lambda>_. ?top))"
    by (cases "se_backend E"; simp only: persistent_store.case; intro keeps_rules; simp)
  from keepsD [OF this m] keepsD [OF steady_tables(3) c]
  have "tables_same (sw_db u) (sw_db u2)" using transpD [OF tables_same_order(2)] within_db by metis
  with replaced_same(2) [OF replace_current_replaces [OF rep]] u saved show ?thesis by auto
qed

section \<open>The projection\<close>

text \<open>The current rows hold what they are named after.\<close>

definition rows_named :: "(string \<Rightarrow> 'b option) \<Rightarrow> ('b \<Rightarrow> string) \<Rightarrow> revision_table \<Rightarrow> gateway_db \<Rightarrow> bool" where
  "rows_named dec name t db \<longleftrightarrow> (\<forall>row \<in> set (filter rv_current (revisions t db)). \<forall>x.
     dec (rv_json row) = Some x \<longrightarrow> name x = rv_id row)"

lemma current_set: "set (current_rows t db) = set (filter rv_current (revisions t db))"
  by (simp add: current_rows_def)

lemma those_in: "those (map f rows) = Some xs \<Longrightarrow> x \<in> set xs \<longleftrightarrow> (\<exists>r \<in> set rows. f r = Some x)"
  by (induction rows arbitrary: xs) (fastforce split: option.splits)+

lemma those_all: "those (map f rows) = Some xs \<Longrightarrow> r \<in> set rows \<Longrightarrow> \<exists>x \<in> set xs. f r = Some x"
  by (induction rows arbitrary: xs) (fastforce split: option.splits)+

lemma decoded:
  assumes "decode_rows dec (current_rows t db) = Inr xs"
  shows "x \<in> set xs \<longleftrightarrow> (\<exists>row \<in> set (filter rv_current (revisions t db)). dec (rv_json row) = Some x)"
    and "row \<in> set (filter rv_current (revisions t db)) \<Longrightarrow> \<exists>x \<in> set xs. dec (rv_json row) = Some x"
  using assms those_in [of "\<lambda>r. dec (rv_json r)" "current_rows t db" xs x]
    those_all [of "\<lambda>r. dec (rv_json r)" "current_rows t db" xs row]
  by (auto simp: decode_rows_def current_set split: option.splits)

lemma stored_ok:
  assumes "quiet E" "admin_stored E m w = (Inr x, w')"
  shows "m (admin_others E w) = (Inr x, w') \<and> sw_db (admin_others E w) = sw_db w"
  using assms
  by (auto simp: admin_stored_def pmap_err_def locked_eq others_db quiet_def split: prod.splits)

definition projected_policy ::
    "model_resource list \<Rightarrow> string list \<Rightarrow> model_selection_policy \<Rightarrow> model_selection_policy" where
  "projected_policy rs published p =
     p\<lparr>mp_direct_selection := projected_selection rs published (mp_direct_selection p)\<rparr>"

text \<open>Every policy the projection went over is stored with the projected list, the other rows stay.\<close>

definition projected_rows ::
    "admin_env \<Rightarrow> model_resource list \<Rightarrow> string list \<Rightarrow> model_selection_policy list \<Rightarrow> gateway_db \<Rightarrow> gateway_db \<Rightarrow> bool" where
  "projected_rows E rs published ps db db' \<longleftrightarrow>
     (\<forall>row \<in> set (filter rv_current (revisions Policy_Revisions db')).
        (row \<in> set (filter rv_current (revisions Policy_Revisions db)) \<and> rv_id row \<notin> mp_id ` set ps)
        \<or> (\<exists>p \<in> set ps. \<exists>v. rv_id row = mp_id p
             \<and> rv_json row = gc_enc_policy (se_codec E) ((projected_policy rs published p)\<lparr>mp_revision := v\<rparr>)))
     \<and> gd_resources db' = gd_resources db"

lemma project_one:
  assumes "replaced Policy_Revisions (mp_id p)
      (gc_enc_policy (se_codec E) ((projected_policy rs published p)\<lparr>mp_revision := v\<rparr>)) db db1"
    and "projected_rows E rs published ps db1 db'"
  shows "projected_rows E rs published (p # ps) db db'"
  unfolding projected_rows_def
proof (intro conjI ballI)
  have "revisions Resource_Revisions db1 = revisions Resource_Revisions db"
    using assms(1) unfolding replaced_def by blast
  with assms(2) show "gd_resources db' = gd_resources db" by (simp add: projected_rows_def revisions_def)
  fix row
  assume row: "row \<in> set (filter rv_current (revisions Policy_Revisions db'))"
  with assms(2) consider
      "row \<in> set (filter rv_current (revisions Policy_Revisions db1))" "rv_id row \<notin> mp_id ` set ps"
    | "\<exists>p \<in> set ps. \<exists>v. rv_id row = mp_id p
        \<and> rv_json row = gc_enc_policy (se_codec E) ((projected_policy rs published p)\<lparr>mp_revision := v\<rparr>)"
    unfolding projected_rows_def by blast
  then show "(row \<in> set (filter rv_current (revisions Policy_Revisions db)) \<and> rv_id row \<notin> mp_id ` set (p # ps))
      \<or> (\<exists>p \<in> set (p # ps). \<exists>v. rv_id row = mp_id p
           \<and> rv_json row = gc_enc_policy (se_codec E) ((projected_policy rs published p)\<lparr>mp_revision := v\<rparr>))"
  proof cases
    case 1
    from assms(1) obtain new where new: "rv_id new = mp_id p"
        "rv_json new = gc_enc_policy (se_codec E) ((projected_policy rs published p)\<lparr>mp_revision := v\<rparr>)"
        "filter rv_current (revisions Policy_Revisions db1)
          = filter (\<lambda>r. rv_current r \<and> rv_id r \<noteq> mp_id p) (revisions Policy_Revisions db) @ [new]"
      unfolding replaced_def by blast
    from 1(1) new(3) have "row = new \<or> (row \<in> set (filter rv_current (revisions Policy_Revisions db)) \<and> rv_id row \<noteq> mp_id p)"
      by auto
    with 1(2) new(1,2) show ?thesis by auto
  next
    case 2
    then show ?thesis by auto
  qed
qed

lemma projection_saved:
  assumes q: "quiet E"
  shows "each (\<lambda>policy. pbind (admin_stored E (save_model_selection_policy E
        (policy\<lparr>mp_direct_selection := projected_selection rs published (mp_direct_selection policy)\<rparr>)
        (Some (mp_revision policy)))) (\<lambda>_. pret ())) ps w = (Inr (), w') \<Longrightarrow>
    projected_rows E rs published ps (sw_db w) (sw_db w')"
proof (induction ps arbitrary: w)
  case Nil
  then show ?case by (auto simp: projected_rows_def)
next
  case (Cons p ps)
  from Cons(2) obtain saved w1 where
      s: "admin_stored E (save_model_selection_policy E (projected_policy rs published p) (Some (mp_revision p))) w
        = (Inr saved, w1)"
    and rest: "projected_rows E rs published ps (sw_db w1) (sw_db w')"
    using Cons(1) by (auto simp: projected_policy_def elim!: pbind_cases)
  from stored_ok [OF q s] saved_policy [of E _ _ "admin_others E w" saved w1] obtain v where
      "replaced Policy_Revisions (mp_id p)
        (gc_enc_policy (se_codec E) ((projected_policy rs published p)\<lparr>mp_revision := v\<rparr>)) (sw_db w) (sw_db w1)"
    by (fastforce simp: projected_policy_def)
  from project_one [OF this rest] show ?case .
qed

section \<open>A service that is no longer published\<close>

lemma in_projection:
  "i \<in> set (projected_selection rs published al) \<longleftrightarrow> i \<in> set published
     \<or> (i \<in> set al \<and> \<not> (\<exists>r \<in> set rs. mr_provider_connection_id r \<noteq> None \<and> mr_id r = i))"
  by (auto simp: projected_selection_def)

lemma in_published:
  "i \<in> set (published_service_ids rs cs None) \<Longrightarrow> \<exists>r \<in> set rs. mr_id r = i \<and> mr_published r"
  by (auto simp: published_service_ids_def)

text \<open>Every current policy is the text of one that does not list the id.\<close>

definition unlisted :: "admin_env \<Rightarrow> string \<Rightarrow> gateway_db \<Rightarrow> bool" where
  "unlisted E i db \<longleftrightarrow> (\<forall>row \<in> set (filter rv_current (gd_policies db)).
     \<exists>p. rv_json row = gc_enc_policy (se_codec E) p \<and> i \<notin> set (mp_direct_selection p))"

text \<open>The id is one of a service, and no current row of it is published.\<close>

definition unpublished :: "admin_env \<Rightarrow> string \<Rightarrow> gateway_db \<Rightarrow> bool" where
  "unpublished E i db \<longleftrightarrow>
     (\<exists>row \<in> set (filter rv_current (gd_resources db)). \<exists>r. gc_dec_resource (se_codec E) (rv_json row) = Some r
        \<and> mr_id r = i \<and> mr_provider_connection_id r \<noteq> None)
     \<and> (\<forall>row \<in> set (filter rv_current (gd_resources db)). \<forall>r.
        gc_dec_resource (se_codec E) (rv_json row) = Some r \<and> mr_id r = i \<longrightarrow> \<not> mr_published r)"

lemma resource_rows: "revisions Resource_Revisions db = gd_resources db" "revisions Policy_Revisions db = gd_policies db"
  by (simp_all add: revisions_def)

lemma sync_unlists:
  assumes q: "quiet E"
    and named: "rows_named (gc_dec_policy (se_codec E)) mp_id Policy_Revisions (sw_db w)"
    and un: "unpublished E i (sw_db w)"
    and run: "sync_published_model_policy_projection E None w = (Inr (), w')"
  shows "unlisted E i (sw_db w') \<and> unpublished E i (sw_db w')"
proof -
  from run obtain rs w1 cs w2 ps w3 where
      s1: "admin_stored E (current_model_resources E) w = (Inr rs, w1)"
    and s2: "admin_stored E (provider_connections E) w1 = (Inr cs, w2)"
    and s3: "admin_stored E (current_model_selection_policies E) w2 = (Inr ps, w3)"
    and rest: "(if ps = [] then praise (invalid_model_service
            ''At least one active Model Selection Policy is required before publishing'')
      else each (\<lambda>policy. pbind (admin_stored E (save_model_selection_policy E
        (policy\<lparr>mp_direct_selection := projected_selection rs (published_service_ids rs cs None) (mp_direct_selection policy)\<rparr>)
        (Some (mp_revision policy)))) (\<lambda>_. pret ())) ps) w3 = (Inr (), w')"
    unfolding sync_published_model_policy_projection_def Let_def by (auto elim!: pbind_cases)
  note r1 = stored_ok [OF q s1] and r2 = stored_ok [OF q s2] and r3 = stored_ok [OF q s3]
  note d1 = reads(2) [OF r1 [THEN conjunct1]] and d2 = reads(4) [OF r2 [THEN conjunct1]]
    and d3 = reads(3) [OF r3 [THEN conjunct1]]
  have db: "sw_db w3 = sw_db w" using r1 r2 r3 d1 d2 d3 by simp
  have rs: "decode_rows (gc_dec_resource (se_codec E)) (current_rows Resource_Revisions (sw_db w)) = Inr rs"
    and ps: "decode_rows (gc_dec_policy (se_codec E)) (current_rows Policy_Revisions (sw_db w)) = Inr ps"
    using r1 r2 r3 d1 d2 d3 by simp_all
  let ?pub = "published_service_ids rs cs None"
  have proj: "projected_rows E rs ?pub ps (sw_db w) (sw_db w')"
    using rest projection_saved [OF q, of rs ?pub ps w3 w'] by (auto simp: db split: if_splits)
  have res: "unpublished E i (sw_db w')" using un proj by (simp add: projected_rows_def unpublished_def)
  from un decoded(1) [OF rs] have no: "i \<notin> set ?pub"
    unfolding unpublished_def resource_rows by (blast dest: in_published)
  from un decoded(1) [OF rs] have service: "\<exists>r \<in> set rs. mr_provider_connection_id r \<noteq> None \<and> mr_id r = i"
    unfolding unpublished_def resource_rows by blast
  have "\<exists>p. rv_json row = gc_enc_policy (se_codec E) p \<and> i \<notin> set (mp_direct_selection p)"
    if row: "row \<in> set (filter rv_current (gd_policies (sw_db w')))" for row
  proof -
    from proj row consider
        "row \<in> set (filter rv_current (gd_policies (sw_db w)))" "rv_id row \<notin> mp_id ` set ps"
      | p0 v where "rv_json row = gc_enc_policy (se_codec E) ((projected_policy rs ?pub p0)\<lparr>mp_revision := v\<rparr>)"
      unfolding projected_rows_def resource_rows by blast
    then show ?thesis
    proof cases
      case 1
      with decoded(2) [OF ps, of row] named show ?thesis
        unfolding rows_named_def resource_rows by (metis image_eqI)
    next
      case 2
      moreover have "i \<notin> set (mp_direct_selection ((projected_policy rs ?pub p0)\<lparr>mp_revision := v\<rparr>))"
        using no service by (auto simp: projected_policy_def in_projection)
      ultimately show ?thesis by blast
    qed
  qed
  with res show ?thesis by (auto simp: unlisted_def)
qed

lemma find_in: "List.find q xs = Some x \<Longrightarrow> x \<in> set xs \<and> q x"
  by (induction xs) (auto split: if_splits)

lemma written:
  "reply f (pbind (plift context) m) w = (Inr v, w') \<Longrightarrow> \<exists>ch x. context = Inr ch \<and> m ch w = (Inr x, w') \<and> v = f x"
  by (auto simp: reply_def elim!: pbind_cases)

lemma reserve_fresh:
  assumes "gd_admin (sw_db (admin_others E w)) (op @ '':'' @ k) = None" "idempotency_key h = Some k"
    "reserve_admin_write E h op payload dec w = (Inr res, w')"
  shows "res = Write_Reserved (op @ '':'' @ k)"
  using assms
  by (auto simp: reserve_admin_write_def admin_stored_def locked_eq reserve_admin_operation_def sql_query_def
      sql_def insert_admin_def Let_def pbind_def pmap_err_def split: stmt_outcome.splits)

lemma load_raw_ok:
  assumes "quiet E" "load_raw_model_service E i w = (Inr r, w')"
  shows "mr_provider_connection_id r \<noteq> None \<and> sw_db w' = sw_db w
    \<and> (\<exists>row. current_row Resource_Revisions i (sw_db w) = Some row \<and> gc_dec_resource (se_codec E) (rv_json row) = Some r)"
proof -
  from assms(2) have l: "admin_stored E (load_model_resource E i None) w = (Inr (Some r), w')"
    and c: "mr_provider_connection_id r \<noteq> None"
    by (auto simp: load_raw_model_service_def elim!: pbind_cases split: option.splits if_splits)
  from stored_ok [OF assms(1) l] c show ?thesis
    by (auto simp: load_model_resource_def load_revision_def decode_row_def elim!: pbind_cases dest!: read_query
        split: option.splits)
qed

lemma saved_unpublished:
  assumes trip: "gc_dec_resource (se_codec E) (gc_enc_resource (se_codec E)
      (r\<lparr>mr_published := False, mr_revision := v\<rparr>)) = Some (r\<lparr>mr_published := False, mr_revision := v\<rparr>)"
    and named: "rows_named (gc_dec_resource (se_codec E)) mr_id Resource_Revisions db"
    and row: "current_row Resource_Revisions i db = Some row" "gc_dec_resource (se_codec E) (rv_json row) = Some r"
    and c: "mr_provider_connection_id r \<noteq> None"
    and rep: "replaced Resource_Revisions (mr_id r)
      (gc_enc_resource (se_codec E) (r\<lparr>mr_published := False, mr_revision := v\<rparr>)) db db'"
  shows "unpublished E i db' \<and> revisions Policy_Revisions db' = revisions Policy_Revisions db"
proof -
  from row(1) have "row \<in> set (filter rv_current (revisions Resource_Revisions db))" "rv_id row = i"
    unfolding current_row_def by (auto dest!: find_in simp: is_current_def)
  with named row(2) have i: "mr_id r = i" unfolding rows_named_def by blast
  from rep obtain new where new: "rv_id new = i"
      "rv_json new = gc_enc_resource (se_codec E) (r\<lparr>mr_published := False, mr_revision := v\<rparr>)"
      "filter rv_current (gd_resources db') = filter (\<lambda>r. rv_current r \<and> rv_id r \<noteq> i) (gd_resources db) @ [new]"
    unfolding replaced_def resource_rows i by blast
  have "unpublished E i db'"
    unfolding unpublished_def new(3)
  proof (intro conjI ballI allI impI)
    show "\<exists>row \<in> set (filter (\<lambda>r. rv_current r \<and> rv_id r \<noteq> i) (gd_resources db) @ [new]).
        \<exists>r. gc_dec_resource (se_codec E) (rv_json row) = Some r \<and> mr_id r = i \<and> mr_provider_connection_id r \<noteq> None"
      using new(2) trip i c by (intro bexI [of _ new]) auto
    fix row' r'
    assume "row' \<in> set (filter (\<lambda>r. rv_current r \<and> rv_id r \<noteq> i) (gd_resources db) @ [new])"
      and d: "gc_dec_resource (se_codec E) (rv_json row') = Some r' \<and> mr_id r' = i"
    then consider "row' \<in> set (filter rv_current (gd_resources db))" "rv_id row' \<noteq> i" | "row' = new" by auto
    then show "\<not> mr_published r'"
    proof cases
      case 1
      with named d show ?thesis unfolding rows_named_def resource_rows by metis
    next
      case 2
      with d new(2) trip show ?thesis by auto
    qed
  qed
  moreover have "revisions Policy_Revisions db' = revisions Policy_Revisions db"
    using rep unfolding replaced_def by blast
  ultimately show ?thesis by blast
qed


section \<open>A gateway with a published service\<close>

definition sample_service :: model_resource where
  "sample_service = live_resource\<lparr>mr_provider_connection_id := Some ''c''\<rparr>"

definition sample_connection :: provider_connection where
  "sample_connection = \<lparr>cn_schema_version = ''provider-connection@1'', cn_id = ''c'', cn_name = ''C'',
     cn_kind = Openai_Compatible, cn_endpoint = mr_endpoint live_resource, cn_auth = mr_auth live_resource,
     cn_enabled = True, cn_version = 1, cn_last_test_status = None, cn_last_tested_at = None\<rparr>"

text \<open>Written rows are numbered by their revision; the others are the first ones.\<close>

definition numbered :: "u64 \<Rightarrow> string" where
  "numbered v = CHR ''v'' # show_u64 v"

definition number_of :: "string \<Rightarrow> u64" where
  "number_of s = of_nat (read_nat (tl s))"

definition service_codec :: gateway_codec where
  "service_codec = (se_codec live_env)\<lparr>gc_enc_resource := (\<lambda>r. numbered (mr_revision r)),
     gc_dec_resource := (\<lambda>s. Some (if hd s = CHR ''v''
       then sample_service\<lparr>mr_published := False, mr_revision := number_of s\<rparr> else sample_service)),
     gc_enc_policy := (\<lambda>p. numbered (mp_revision p)),
     gc_dec_policy := (\<lambda>s. Some (if hd s = CHR ''v''
       then live_policy\<lparr>mp_direct_selection := [], mp_revision := number_of s\<rparr> else live_policy)),
     gc_dec_connection := (\<lambda>_. Some sample_connection)\<rparr>"

definition service_env :: admin_env where
  "service_env = sample_admin_env\<lparr>se_codec := service_codec\<rparr>"

definition service_db :: gateway_db where
  "service_db = live_db\<lparr>gd_connections := [\<lparr>co_id = ''c'', co_version = 1, co_enabled = True, co_json = ''c''\<rparr>]\<rparr>"

lemma number_numbered [simp]: "number_of (numbered v) = v" "hd (numbered v) = CHR ''v''"
  by (simp_all add: number_of_def numbered_def show_u64_def read_show_nat)

lemma service_env_simps [simp]:
  "se_codec service_env = service_codec" "se_backend service_env = Sqlite"
  "te_others service_env = (\<lambda>_ s. s)" "se_stmt service_env = (\<lambda>_. Stmt_done)"
  "ae_codec service_env = sample_admin_codec" "authorize_admin service_env h = authorize_admin sample_admin_env h"
  "gc_enc_resource service_codec r = numbered (mr_revision r)" "gc_enc_policy service_codec q = numbered (mp_revision q)"
  by (simp_all add: service_env_def service_codec_def authorize_admin_def)

lemma service_reliable: "reliable service_env" "quiet service_env"
  by (simp_all add: reliable_def quiet_def)

lemma service_decoded [simp]:
  "gc_dec_resource service_codec (numbered v) = Some (sample_service\<lparr>mr_published := False, mr_revision := v\<rparr>)"
  "gc_dec_policy service_codec (numbered v) = Some (live_policy\<lparr>mp_direct_selection := [], mp_revision := v\<rparr>)"
  "gc_dec_resource service_codec ''m'' = Some sample_service"
  "gc_dec_policy service_codec ''pol'' = Some live_policy" "gc_dec_connection service_codec x = Some sample_connection"
  by (simp_all add: service_codec_def)

text \<open>What replacing the current row of an id by its second revision leaves.\<close>

definition second_row :: "string \<Rightarrow> revision_row" where
  "second_row i = \<lparr>rv_id = i, rv_revision = 2, rv_current = True, rv_json = numbered 2\<rparr>"

definition after_replace :: "revision_table \<Rightarrow> string \<Rightarrow> string \<Rightarrow> string \<Rightarrow> gateway_db \<Rightarrow> gateway_db" where
  "after_replace t i ev m db =
     (let rows = map (\<lambda>r. if is_current i r then r\<lparr>rv_current := False\<rparr> else r) (revisions t db) @ [second_row i];
          db2 = insert_audit ev i m (set_revisions t rows db) in
      db2\<lparr>gd_configuration_version := gd_configuration_version db2 + 1\<rparr>)"

text \<open>The id has one row, its first revision, and that is current.\<close>

definition first_only :: "revision_table \<Rightarrow> string \<Rightarrow> gateway_db \<Rightarrow> bool" where
  "first_only t i db \<longleftrightarrow> 0 \<le> gd_configuration_version db
     \<and> (\<exists>x. revisions t db = [\<lparr>rv_id = i, rv_revision = 1, rv_current = True, rv_json = x\<rparr>])"

lemma gives_second:
  fixes w :: "'a store_world_scheme"
  assumes "first_only t i db" "sw_db w = db"
  shows "gives (replace_current service_env t i 2 (numbered 2) ev m) w (Inr ()) (after_replace t i ev m db)"
proof -
  obtain x where rows: "revisions t db = [\<lparr>rv_id = i, rv_revision = 1, rv_current = True, rv_json = x\<rparr>]"
    and v: "0 \<le> gd_configuration_version db" using assms(1) by (auto simp: first_only_def)
  let ?old = "\<lparr>rv_id = i, rv_revision = 1, rv_current = False, rv_json = x\<rparr>"
  have clear: "clear_current t (is_current i) db = (1, set_revisions t [?old] db)"
    by (simp add: clear_current_def rows is_current_def)
  have ins: "insert_revision t (second_row i) (set_revisions t [?old] db)
      = Some ((), set_revisions t ([?old] @ [second_row i]) (set_revisions t [?old] db))"
    by (simp add: insert_revision_def revision_row_of_def current_row_def second_row_def is_current_def)
  have twice: "set_revisions t ys (set_revisions t xs db) = set_revisions t ys db" for xs ys
    by (cases t) (simp_all add: set_revisions_def)
  let ?db2 = "insert_audit ev i m (set_revisions t ([?old] @ [second_row i]) db)"
  have after: "after_replace t i ev m db = ?db2\<lparr>gd_configuration_version := gd_configuration_version ?db2 + 1\<rparr>"
    by (simp add: after_replace_def rows is_current_def Let_def)
  have version: "0 \<le> gd_configuration_version ?db2"
    using v by (cases t) (simp_all add: insert_audit_def set_revisions_def)
  have bump: "gives (bump_version service_env) w1 (Inr (word_of_int (gd_configuration_version ?db2 + 1)))
      (after_replace t i ev m db)"
    if "sw_db w1 = ?db2" for w1 :: "'a store_world_scheme"
    unfolding bump_version_def bump_configuration_version_def configuration_version_def service_env_simps
      persistent_store.case
    apply (rule gives_update_bind [OF service_reliable(1)])
    apply (rule gives_query_bind [OF service_reliable(1)])
    using that version apply (simp add: u64_of_def gives_def after)
    done
  show ?thesis
    unfolding replace_current_def
    apply (rule gives_sql_bind [OF service_reliable(1)], simp add: assms(2) clear)
    apply (simp add: i64_of_def pbind_plift second_row_def [symmetric])
    apply (rule gives_sql_bind [OF service_reliable(1)], simp add: ins twice)
    apply (rule gives_bind [OF gives_audit [OF service_reliable(1) refl]])
    apply (rule gives_bind [OF bump], simp)
    apply (rule gives_ret, simp)
    done
qed

lemma gives_first:
  fixes w :: "'a store_world_scheme"
  assumes "first_only t i db" "sw_db w = db"
  shows "gives (current_revision service_env t i) w (Inr (Some 1)) db"
    "gives (max_revision service_env t i) w (Inr (Some 1)) db"
proof -
  obtain x where rows: "revisions t db = [\<lparr>rv_id = i, rv_revision = 1, rv_current = True, rv_json = x\<rparr>]"
    using assms(1) by (auto simp: first_only_def)
  then have one: "current_row t i db = Some \<lparr>rv_id = i, rv_revision = 1, rv_current = True, rv_json = x\<rparr>"
    by (simp add: current_row_def is_current_def)
  show "gives (current_revision service_env t i) w (Inr (Some 1)) db"
    unfolding current_revision_def
    by (rule gives_query_bind [OF service_reliable(1)]) (simp add: assms(2) one u64_of_def pbind_plift gives_def)
  show "gives (max_revision service_env t i) w (Inr (Some 1)) db"
    unfolding max_revision_def
    by (rule gives_query_bind [OF service_reliable(1)]) (simp add: assms(2) rows u64_of_def pbind_plift gives_def)
qed

definition ended_service :: model_resource where
  "ended_service = sample_service\<lparr>mr_published := False, mr_revision := 2\<rparr>"

definition ended_policy :: model_selection_policy where
  "ended_policy = live_policy\<lparr>mp_direct_selection := [], mp_revision := 2\<rparr>"

lemma sample_ids [simp]:
  "mr_id sample_service = ''m''" "mr_revision sample_service = 1" "mr_id ended_service = ''m''"
  "mp_id live_policy = ''pol''" "mp_revision live_policy = 1" "mp_direct_selection live_policy = [''m'']"
  "mr_provider_connection_id sample_service = Some ''c''" "cn_id sample_connection = ''c''"
  "mr_provider_connection_id ended_service = Some ''c''" "\<not> mr_published ended_service" "mr_id live_resource = ''m''"
  by (simp_all add: sample_service_def live_resource_def live_policy_def sample_connection_def ended_service_def)

lemma service_saved:
  fixes w :: "'a store_world_scheme"
  assumes "first_only Resource_Revisions ''m'' db" "sw_db w = db"
  shows "gives (save_model_resource service_env (sample_service\<lparr>mr_published := False\<rparr>) (Some 1)) w
    (Inr ended_service) (after_replace Resource_Revisions ''m'' ''model_resource.saved''
      (gc_json service_codec (saved_metadata ended_service)) db)"
proof -
  have chk: "check_revision ''resource'' ''revision'' ''m'' (Some 1) (Some 1) = Inr ()"
    by (simp add: check_revision_def)
  have new: "sample_service\<lparr>mr_published := False, mr_revision := 2\<rparr> = ended_service" "mr_revision ended_service = 2"
    by (simp_all add: ended_service_def)
  have ids: "mr_id (sample_service\<lparr>mr_published := False\<rparr>) = ''m''" by simp
  show ?thesis
    unfolding save_model_resource_def config_transaction_def Let_def
    apply (simp only: service_env_simps persistent_store.case ids)
    apply (rule gives_bind [OF gives_first(1) [OF assms]])
    apply (simp only: chk pbind_plift)
    apply (simp add: next_revision_def new)
    apply (rule gives_bind [OF gives_second [OF assms(1)]], simp)
    apply (rule gives_ret, simp)
    done
qed

lemma policy_saved:
  fixes w :: "'a store_world_scheme"
  assumes "first_only Policy_Revisions ''pol'' db" "sw_db w = db"
  shows "gives (save_model_selection_policy service_env (live_policy\<lparr>mp_direct_selection := []\<rparr>) (Some 1)) w
    (Inr ended_policy) (after_replace Policy_Revisions ''pol'' ''model_selection_policy.saved'' (numbered 2) db)"
proof -
  have chk: "check_revision ''policy'' ''revision'' ''pol'' (Some 1) (Some 1) = Inr ()"
    by (simp add: check_revision_def)
  have new: "live_policy\<lparr>mp_direct_selection := [], mp_revision := 2\<rparr> = ended_policy" "mp_revision ended_policy = 2"
      "mp_id ended_policy = ''pol''"
    by (simp_all add: ended_policy_def)
  have ids: "mp_id (live_policy\<lparr>mp_direct_selection := []\<rparr>) = ''pol''" by simp
  have top: "gives (pbind (max_revision service_env Policy_Revisions ''pol'') (\<lambda>m. pbind (plift (Inr ())) (\<lambda>_. pret m))) w1
      (Inr (Some 1)) db" if "sw_db w1 = db" for w1 :: "'a store_world_scheme"
    by (rule gives_bind [OF gives_first(2) [OF assms(1) that]]) (simp add: pbind_plift gives_def)
  show ?thesis
    unfolding save_model_selection_policy_def config_transaction_def Let_def
    apply (simp only: service_env_simps persistent_store.case ids)
    apply (rule gives_bind [OF gives_first(1) [OF assms]])
    apply (simp only: chk)
    apply (rule gives_bind [OF top], assumption)
    apply (simp add: next_revision_def new)
    apply (rule gives_bind [OF gives_second [OF assms(1)]], simp)
    apply (rule gives_ret, simp)
    done
qed

section \<open>The end of its publication\<close>

lemma service_valid:
  "validate_model_resource service_env ended_service = Inr ()"
  "validate_provider_connection service_env sample_connection = Inr ()"
  "validate_model_resource service_env (ended_service\<lparr>mr_enabled := False\<rparr>) = Inr ()"
  by (simp_all add: validate_model_resource_def validate_provider_connection_def live_resource_def is_blank_ascii
      sample_admin_env_def turn_env.defs admin_env.defs validate_secret_ref_def strip_prefix_def starts_with_def
      supports_vision_input_def validate_endpoint_def live_env_def string_defs ended_service_def
      sample_service_def sample_connection_def service_env_def)

lemma service_tables:
  assumes "filter rv_current (gd_resources db) = [r]" "rv_json r = numbered 2"
    "gd_connections db = gd_connections service_db"
  shows "decode_rows (gc_dec_resource service_codec) (current_rows Resource_Revisions db) = Inr [ended_service]"
    "stored_connections service_env db = Inr [sample_connection]"
proof -
  have "current_rows Resource_Revisions db = [r]" using assms(1) by (simp add: current_rows_def revisions_def)
  then show "decode_rows (gc_dec_resource service_codec) (current_rows Resource_Revisions db) = Inr [ended_service]"
    by (simp add: decode_rows_def assms(2) ended_service_def)
  show "stored_connections service_env db = Inr [sample_connection]"
    by (simp add: stored_connections_def assms(3) service_db_def)
qed

lemma service_configuration:
  assumes "filter rv_current (gd_resources db) = [r]" "rv_json r = numbered 2"
    "gd_connections db = gd_connections service_db"
    "filter rv_current (gd_policies db) = [p]" "rv_json p = numbered 2" "0 \<le> gd_configuration_version db"
  shows "\<exists>c. configuration_in service_env db = Inr c"
proof -
  have "current_rows Policy_Revisions db = [p]" using assms(4) by (simp add: current_rows_def revisions_def)
  then have pol: "decode_rows (gc_dec_policy service_codec) (current_rows Policy_Revisions db) = Inr [ended_policy]"
    by (simp add: decode_rows_def assms(5) ended_policy_def)
  let ?x = "ended_service\<lparr>mr_kind := cn_kind sample_connection, mr_endpoint := cn_endpoint sample_connection,
     mr_auth := cn_auth sample_connection, mr_enabled := False\<rparr>"
  have x: "?x = ended_service\<lparr>mr_enabled := False\<rparr>"
    by (simp add: ended_service_def sample_service_def sample_connection_def live_resource_def)
  note valid = service_valid(3)
  have res: "resolve_provider_connection service_env [(''c'', sample_connection)] ended_service
      = Inr (ended_service\<lparr>mr_enabled := False\<rparr>)"
    using service_valid(2) valid x by (simp add: resolve_provider_connection_def res_bind_def)
  have "validate_model_selection_policy ended_policy [ended_service\<lparr>mr_enabled := False\<rparr>] = Inr ()"
    by (simp add: validate_model_selection_policy_def ended_policy_def live_policy_def is_blank_ascii string_defs)
  then show ?thesis
    using service_tables [OF assms(1-3)] pol res valid assms(6)
    by (simp add: configuration_in_def res_bind_def checked_configuration_def u64_of_def as_map_def bt_empty_def)
qed

lemma first_only_tables: "tables_same db db' \<Longrightarrow> gd_configuration_version db \<le> gd_configuration_version db' \<Longrightarrow>
    first_only t i db \<Longrightarrow> first_only t i db'"
  using tables_revisions [of db db' t] by (auto simp: first_only_def)

lemma after_replace_tables:
  "revisions t (after_replace t i ev m db) = map (\<lambda>r. if is_current i r then r\<lparr>rv_current := False\<rparr> else r) (revisions t db)
     @ [second_row i]"
  "u \<noteq> t \<Longrightarrow> revisions u (after_replace t i ev m db) = revisions u db"
  "gd_connections (after_replace t i ev m db) = gd_connections db"
  "gd_configuration_version (after_replace t i ev m db) = gd_configuration_version db + 1"
  "gd_admin (after_replace t i ev m db) = gd_admin db"
  by (cases t; cases u; simp add: after_replace_def Let_def insert_audit_def set_revisions_def revisions_def)+

lemma sample_unpublished:
  "\<exists>view w'. handle_admin service_env sample_headers (Unpublish_Service ''m'' 1)
      (sample_admin_world\<lparr>sw_db := service_db\<rparr>) = (Inr (Rp_Service view), w')"
proof -
  let ?E = service_env and ?op = "''model-service.'' @ ''unpublish'' @ ''.'' @ ''m''"
  let ?key = "?op @ '':'' @ ''k''" and ?w = "sample_admin_world\<lparr>sw_db := service_db\<rparr>"
  let ?hsh = "sha256_hex (ge_digest ?E) (ac_revision_request (ae_codec ?E) 1)"
  note e = service_reliable
  obtain ch where ch: "admin_write_context ?E sample_headers = Inr ch"
    using sample_identity(3) by (auto simp: admin_write_context_def)
  define d0 where "d0 = set_record ?key (Some (record_of ?hsh)) service_db"
  define d1 where "d1 = after_replace Resource_Revisions ''m'' ''model_resource.saved''
      (gc_json service_codec (saved_metadata ended_service)) d0"
  define d2 where "d2 = after_replace Policy_Revisions ''pol'' ''model_selection_policy.saved'' (numbered 2) d1"
  define d3 where "d3 = insert_audit ''model_service.unpublished'' ''m''
     (gc_json (se_codec ?E) (JObject [(''operatorId'', JString (ch_operator_id ch)),
        (''reason'', JString (ch_reason ch)), (''changeReference'', JString (ch_reference ch))])) d2"
  have d0: "revisions Resource_Revisions d0 = [live_row]" "revisions Policy_Revisions d0 = [live_policy_row]"
      "gd_connections d0 = gd_connections service_db" "gd_configuration_version d0 = 0"
      "gd_admin d0 ?key = Some (record_of ?hsh)"
    by (simp_all add: d0_def set_record_def service_db_def live_db_def empty_gateway_db_def revisions_def)
  have first: "first_only Resource_Revisions ''m'' d0" "first_only Policy_Revisions ''pol'' d1"
    by (simp_all add: first_only_def d0 d1_def after_replace_tables live_row_def live_policy_row_def)
  have rows: "filter rv_current (revisions Resource_Revisions d1) = [second_row ''m'']"
      "revisions Resource_Revisions d2 = revisions Resource_Revisions d1"
      "filter rv_current (revisions Policy_Revisions d2) = [second_row ''pol'']"
      "gd_connections d1 = gd_connections service_db" "gd_connections d2 = gd_connections service_db"
      "0 \<le> gd_configuration_version d2"
    by (simp_all add: d1_def d2_def after_replace_tables d0 live_row_def live_policy_row_def is_current_def second_row_def)
  have second: "rv_json (second_row i) = numbered 2" for i by (simp add: second_row_def)
  note t1 = service_tables [OF rows(1) [unfolded resource_rows] second rows(4)]
  have load: "leaves (load_raw_model_service ?E ''m'') w (Inr sample_service) d0" if "sw_db w = d0" for w
  proof -
    have "gives (load_model_resource ?E ''m'' None) w1 (Inr (Some sample_service)) d0" if "sw_db w1 = d0"
      for w1 :: admin_world
      unfolding load_model_resource_def load_revision_def option.case
      by (rule gives_query_bind [OF e(1)])
        (simp add: that current_row_def d0(1) live_row_def is_current_def decode_row_def pbind_plift gives_def)
    then have "leaves (admin_stored ?E (load_model_resource ?E ''m'' None)) w (Inr (Some sample_service)) d0"
      using that by (intro leaves_stored_ok e) simp
    then show ?thesis unfolding load_raw_model_service_def by (rule leaves_bind) (simp add: leaves_def)
  qed
  have save: "leaves (admin_stored ?E (save_model_resource ?E (sample_service\<lparr>mr_published := False\<rparr>) (Some 1))) w
      (Inr ended_service) d1" if "sw_db w = d0" for w
    using service_saved [OF first(1)] that by (intro leaves_stored_ok e) (simp add: d1_def)
  have sync: "leaves (sync_published_model_policy_projection ?E None) w (Inr ()) d2" if "sw_db w = d1" for w
  proof -
    have p1: "decode_rows (gc_dec_policy service_codec) (current_rows Policy_Revisions d1) = Inr [live_policy]"
      by (simp add: current_rows_def d1_def after_replace_tables d0 live_policy_row_def decode_rows_def)
    have none: "projected_selection [ended_service] (published_service_ids [ended_service] [sample_connection] None)
        (mp_direct_selection live_policy) = []"
      by (simp add: projected_selection_def published_service_ids_def)
    have "leaves (admin_stored ?E (save_model_selection_policy ?E (live_policy\<lparr>mp_direct_selection := []\<rparr>) (Some 1))) u
        (Inr ended_policy) d2" if "sw_db u = d1" for u
      using policy_saved [OF first(2)] that by (intro leaves_stored_ok e) (simp add: d2_def)
    note pol = leaves_bind [OF this]
    note g = gives_reads [OF e(1), unfolded service_env_simps]
    show ?thesis
      unfolding sync_published_model_policy_projection_def Let_def
      apply (rule leaves_bind [OF leaves_stored_ok [OF e(2) g(2) [OF _ t1(1)]]], simp add: that)
      apply (rule leaves_bind [OF leaves_stored_ok [OF e(2) g(4) [OF _ t1(2)]]], simp)
      apply (rule leaves_bind [OF leaves_stored_ok [OF e(2) g(3) [OF _ p1]]], simp)
      apply (simp add: none del: sample_ids(6))
      apply (rule leaves_bind [OF pol])
        apply (simp_all add: leaves_def)
      done
  qed
  have conf: "\<exists>c. configuration_in ?E d3 = Inr c"
    using rows second by (intro service_configuration [of _ "second_row ''m''" "second_row ''pol''"])
      (simp_all add: d3_def insert_audit_def resource_rows)
  then obtain c where c: "configuration_in ?E d3 = Inr c" by blast
  have audit: "leaves (audit_provider_admin_change ?E ''model_service.unpublished'' (mr_id ended_service) ch) w (Inr ()) d3"
    if "sw_db w = d2" for w
    unfolding audit_provider_admin_change_def audit_admin_operation_def d3_def sample_ids
    using that by (intro leaves_stored_ok e gives_audit) simp
  have refresh: "leaves (refresh ?E) w (Inr ()) d3" if "sw_db w = d3" for w
    using leaves_map_err [OF refresh_leaves [OF e c that]] by (simp add: refresh_def)
  obtain view where view: "service_view_of ended_service = Inr view" by (simp add: service_view_of_def)
  have changed: "leaves (service_changed ?E ''model_service.unpublished'' ch ended_service) w (Inr view) d3"
    if "sw_db w = d2" for w
    unfolding service_changed_def
    by (rule leaves_bind [OF audit [OF that]], rule leaves_bind [OF refresh], assumption)
      (simp add: view leaves_def)
  have body: "leaves (pbind (load_raw_model_service ?E ''m'') (\<lambda>resource.
         if mr_revision resource \<noteq> 1 then praise (resource_revision_conflict ''m'' 1 resource)
         else pbind (pret ()) (\<lambda>_.
         pbind (admin_stored ?E (save_model_resource ?E (resource\<lparr>mr_published := False\<rparr>) (Some 1))) (\<lambda>saved.
         pbind (sync_published_model_policy_projection ?E None) (\<lambda>_.
         service_changed ?E ''model_service.unpublished'' ch saved))))) w (Inr view) d3" if "sw_db w = d0" for w
    by (rule leaves_bind [OF load [OF that]])
      (simp, intro leaves_bind [OF save] leaves_bind [OF sync] changed)
  have fresh: "gd_admin (sw_db ?w) ?key = None"
    by (simp add: service_db_def live_db_def empty_gateway_db_def)
  have admin: "gd_admin d3 ?key = Some (record_of ?hsh)"
    using d0(5) by (simp add: d3_def d2_def d1_def insert_audit_def after_replace_tables)
  have "leaves (handle_admin ?E sample_headers (Unpublish_Service ''m'' 1)) ?w (Inr (Rp_Service view))
      (set_record ?key (Some \<lparr>ad_request_hash = ?hsh, ad_state = ''completed'',
         ad_response_json = Some (ac_enc_service (ae_codec ?E) view)\<rparr>) d3)"
    unfolding handle_admin.simps reply_def set_model_service_published_def ch pbind_plift if_False
    by (rule leaves_bind [OF write_leaves [OF e sample_identity(2) fresh body admin]])
      (simp_all add: d0_def leaves_def)
  then show ?thesis by (auto simp: leaves_def)
qed


end
