(* ===== verification/ToolLedger.thy ===== *)
theory ToolLedger
  imports JsonValue JsonLines Hashing
begin

text \<open>
  The ledger of tool executions: \<open>conversation.rs\<close>, from \<open>append_tool_execution_snapshot\<close> to
  \<open>complete_tool_execution\<close>, and its only caller, the tool executor of \<open>tools/runtime.rs\<close>. A call of a
  tool that changes anything is reserved under its run and tool-use id before it is made and completed
  after it, each time with a line of a log; the memory of the process is filled from the log once.
  The operations are cut where the code gives up its lock, and tasks interleave there.
\<close>

section \<open>Data\<close>

datatype tool_execution_status = Tx_Started | Tx_Completed

record tool_execution =
  tx_run_id :: string
  tx_tool_use_id :: string
  tx_tool_name :: string
  tx_input_hash :: string
  tx_status :: tool_execution_status
  tx_result_content :: "json option"
  tx_result_is_error :: bool
  tx_result_metadata :: "json option"
  tx_updated_at :: time

datatype tool_reservation =
    Tool_Reserved | Tool_Replay tool_execution | Tool_In_Doubt tool_execution
  | Tool_Conflict tool_execution

record tool_completion =
  tc_content :: json
  tc_is_error :: bool
  tc_metadata :: "json option"

type_synonym tool_key = "string \<times> string"

definition tx_key :: "tool_execution \<Rightarrow> tool_key" where
  "tx_key x = (tx_run_id x, tx_tool_use_id x)"

text \<open>The identity a caller claims: run, tool use, tool and the hash of its input.\<close>

record tool_request =
  tr_run_id :: string
  tr_tool_use_id :: string
  tr_tool_name :: string
  tr_input_hash :: string

definition tr_key :: "tool_request \<Rightarrow> tool_key" where
  "tr_key q = (tr_run_id q, tr_tool_use_id q)"

definition same_identity :: "tool_request \<Rightarrow> tool_execution \<Rightarrow> bool" where
  "same_identity q x \<longleftrightarrow> tx_tool_name x = tr_tool_name q \<and> tx_input_hash x = tr_input_hash q"

record ledger_env =
  le_ser :: "tool_execution \<Rightarrow> string"
  le_parse :: "string \<Rightarrow> string + tool_execution"
  le_digest :: digest
  le_json_text :: "json \<Rightarrow> string"

section \<open>The log\<close>

text \<open>
  \<open>read_tool_executions\<close>: a last line that does not parse and does not end is cut off the file, and its
  length is what the second component says.
\<close>

fun read_ledger_chunks ::
    "(string \<Rightarrow> string + tool_execution) \<Rightarrow> bool \<Rightarrow> string list \<Rightarrow> nat \<Rightarrow> (tool_key \<rightharpoonup> tool_execution)
      \<Rightarrow> string + (tool_key \<rightharpoonup> tool_execution) \<times> nat option" where
  "read_ledger_chunks parse torn [] valid m = Inr (m, None)"
| "read_ledger_chunks parse torn (ch # chs) valid m =
     (let line = strip_nl ch in
      if list_all is_ascii_whitespace line then read_ledger_chunks parse torn chs (valid + length ch) m
      else case parse line of
        Inr x \<Rightarrow> read_ledger_chunks parse torn chs (valid + length ch) (m(tx_key x \<mapsto> x))
      | Inl e \<Rightarrow> if chs = [] \<and> torn then Inr (m, Some valid) else Inl e)"

text \<open>What the file system does when the log is read: the read may fail, and so may the cut.\<close>

record ledger_io =
  li_read :: "string option"
  li_truncate :: replace_outcome

definition truncate_jsonl_tail :: "replace_outcome \<Rightarrow> nat \<Rightarrow> string \<Rightarrow> string option \<times> string" where
  "truncate_jsonl_tail oc valid bytes = (case oc of
      Replaced \<Rightarrow> (None, take valid bytes)
    | ReplaceFailed done_ e \<Rightarrow> (Some e, if done_ then take valid bytes else bytes))"

definition read_tool_executions ::
    "ledger_env \<Rightarrow> ledger_io \<Rightarrow> string option
      \<Rightarrow> (string + (tool_key \<rightharpoonup> tool_execution)) \<times> string option" where
  "read_tool_executions E io file = (case file of
      None \<Rightarrow> (Inr Map.empty, None)
    | Some bytes \<Rightarrow>
        (case li_read io of
           Some e \<Rightarrow> (Inl e, file)
         | None \<Rightarrow>
             (case read_ledger_chunks (le_parse E) (\<not> ends_with bytes [nl]) (split_inclusive_nl bytes) 0
                     Map.empty of
                Inl e \<Rightarrow> (Inl e, file)
              | Inr (m, None) \<Rightarrow> (Inr m, file)
              | Inr (m, Some valid) \<Rightarrow>
                  (case truncate_jsonl_tail (li_truncate io) valid bytes of
                     (None, b) \<Rightarrow> (Inr m, Some b)
                   | (Some e, b) \<Rightarrow> (Inl e, Some b)))))"

section \<open>The ledger\<close>

record tool_ledger =
  tl_file :: "string option"
  tl_executions :: "tool_key \<rightharpoonup> tool_execution"
  tl_hydrated :: bool

definition empty_ledger :: tool_ledger where
  "empty_ledger = \<lparr>tl_file = None, tl_executions = Map.empty, tl_hydrated = False\<rparr>"

definition hydrate_tool_executions ::
    "ledger_env \<Rightarrow> ledger_io \<Rightarrow> tool_ledger \<Rightarrow> string option \<times> tool_ledger" where
  "hydrate_tool_executions E io st =
     (if tl_hydrated st then (None, st)
      else case read_tool_executions E io (tl_file st) of
        (Inl e, f) \<Rightarrow> (Some e, st\<lparr>tl_file := f\<rparr>)
      | (Inr m, f) \<Rightarrow> (None, st\<lparr>tl_file := f, tl_executions := tl_executions st ++ m, tl_hydrated := True\<rparr>))"

definition append_tool_execution_snapshot ::
    "ledger_env \<Rightarrow> append_outcome \<Rightarrow> tool_execution \<Rightarrow> tool_ledger \<Rightarrow> string option \<times> tool_ledger" where
  "append_tool_execution_snapshot E oc x st =
     (let (e, f) = append_line oc (le_ser E x) (tl_file st) in (e, st\<lparr>tl_file := f\<rparr>))"

subsection \<open>Reservation\<close>

definition started_execution :: "tool_request \<Rightarrow> time \<Rightarrow> tool_execution" where
  "started_execution q now =
     \<lparr>tx_run_id = tr_run_id q, tx_tool_use_id = tr_tool_use_id q, tx_tool_name = tr_tool_name q,
      tx_input_hash = tr_input_hash q, tx_status = Tx_Started, tx_result_content = None,
      tx_result_is_error = False, tx_result_metadata = None, tx_updated_at = now\<rparr>"

text \<open>Under the lock: an answer from the memory, or a new execution, which is put there first.\<close>

definition reserve_lookup ::
    "ledger_env \<Rightarrow> ledger_io \<Rightarrow> time \<Rightarrow> tool_request \<Rightarrow> tool_ledger
      \<Rightarrow> (string + tool_reservation + tool_execution) \<times> tool_ledger" where
  "reserve_lookup E io now q st = (case hydrate_tool_executions E io st of
      (Some e, st) \<Rightarrow> (Inl e, st)
    | (None, st) \<Rightarrow>
        (case tl_executions st (tr_key q) of
           Some x \<Rightarrow>
             (Inr (Inl (if \<not> same_identity q x then Tool_Conflict x
                        else case tx_status x of
                          Tx_Completed \<Rightarrow> Tool_Replay x
                        | Tx_Started \<Rightarrow> Tool_In_Doubt x)), st)
         | None \<Rightarrow>
             (let x = started_execution q now in
              (Inr (Inr x), st\<lparr>tl_executions := (tl_executions st)(tr_key q \<mapsto> x)\<rparr>))))"

text \<open>After a failed append, under the lock again.\<close>

definition reserve_abandon :: "tool_execution \<Rightarrow> tool_ledger \<Rightarrow> tool_ledger" where
  "reserve_abandon x st = (case tl_executions st (tx_key x) of
      Some current \<Rightarrow>
        if tx_status current = Tx_Started \<and> tx_tool_name current = tx_tool_name x
          \<and> tx_input_hash current = tx_input_hash x \<and> tx_updated_at current = tx_updated_at x
        then st\<lparr>tl_executions := (tl_executions st)(tx_key x := None)\<rparr> else st
    | None \<Rightarrow> st)"

definition reserve_tool_execution ::
    "ledger_env \<Rightarrow> ledger_io \<Rightarrow> append_outcome \<Rightarrow> time \<Rightarrow> tool_request \<Rightarrow> tool_ledger
      \<Rightarrow> (string + tool_reservation) \<times> tool_ledger" where
  "reserve_tool_execution E io oc now q st = (case reserve_lookup E io now q st of
      (Inl e, st) \<Rightarrow> (Inl e, st)
    | (Inr (Inl answer), st) \<Rightarrow> (Inr answer, st)
    | (Inr (Inr x), st) \<Rightarrow>
        (case append_tool_execution_snapshot E oc x st of
           (Some e, st) \<Rightarrow> (Inl e, reserve_abandon x st)
         | (None, st) \<Rightarrow> (Inr Tool_Reserved, st)))"

subsection \<open>Completion\<close>

fun canonical_json_value :: "json \<Rightarrow> json" where
  "canonical_json_value (JObject ms) =
     JObject (sort_key fst (map (\<lambda>(k, v). (k, canonical_json_value v)) ms))"
| "canonical_json_value (JArray vs) = JArray (map canonical_json_value vs)"
| "canonical_json_value v = v"

definition canonical_json_hash :: "ledger_env \<Rightarrow> json \<Rightarrow> string" where
  "canonical_json_hash E v = sha256_hex (le_digest E) (le_json_text E (canonical_json_value v))"

definition json_bool :: "json \<Rightarrow> bool option" where
  "json_bool v = (case v of JBool b \<Rightarrow> Some b | _ \<Rightarrow> None)"

definition ledger_statuses :: "string list" where
  "ledger_statuses = [''completed'', ''partial'', ''blocked'', ''failed'', ''cancelled'']"

definition error_kind_kept :: "string \<Rightarrow> bool" where
  "error_kind_kept k \<longleftrightarrow> length k \<le> 128
     \<and> list_all (\<lambda>c. is_ascii_digit c \<or> is_ascii_lowercase c \<or> is_ascii_uppercase c
         \<or> c \<in> {CHR ''.'', CHR ''_'', CHR ''-''}) k"

definition completion_digest :: "ledger_env \<Rightarrow> tool_completion \<Rightarrow> string" where
  "completion_digest E r = canonical_json_hash E (JObject
     [(''content'', tc_content r), (''isError'', JBool (tc_is_error r)),
      (''metadata'', json_opt id (tc_metadata r))])"

text \<open>What is kept of a result: its digest, its status and a few facts, none of its output.\<close>

definition durable_tool_execution_completion :: "ledger_env \<Rightarrow> tool_completion \<Rightarrow> tool_completion" where
  "durable_tool_execution_completion E r =
     (let status = (case json_get_str ''status'' (tc_content r) of
            Some s \<Rightarrow> if s \<in> set ledger_statuses then [(''status'', JString s)] else []
          | None \<Rightarrow> []);
          recoverable = (case Option.bind (Option.bind (tc_metadata r) (json_get ''recoverable'')) json_bool of
            Some b \<Rightarrow> [(''recoverable'', JBool b)] | None \<Rightarrow> []);
          kind = (case Option.bind (tc_metadata r) (json_get_str ''errorKind'') of
            Some k \<Rightarrow> if error_kind_kept k then [(''errorKind'', JString k)] else [] | None \<Rightarrow> []);
          digest = JString (completion_digest E r)
      in \<lparr>tc_content = JObject ([(''replayed'', JBool True), (''resultDigest'', digest),
             (''summary'', JString (if tc_is_error r
                then ''The original tool error output was omitted from the durable execution ledger.''
                else ''The tool completed before restart; original output was omitted from the durable execution ledger.''))]
             @ status),
          tc_is_error = tc_is_error r,
          tc_metadata = Some (JObject ([(''durableProjection'', JBool True), (''resultDigest'', digest)]
             @ recoverable @ kind))\<rparr>)"

definition completed_execution ::
    "ledger_env \<Rightarrow> time \<Rightarrow> tool_completion \<Rightarrow> tool_execution \<Rightarrow> tool_execution" where
  "completed_execution E now r x =
     (let d = durable_tool_execution_completion E r in
      x\<lparr>tx_status := Tx_Completed, tx_result_content := Some (tc_content d),
        tx_result_is_error := tc_is_error d, tx_result_metadata := tc_metadata d, tx_updated_at := now\<rparr>)"

text \<open>Under the lock: an error, the execution that is already completed, or the one to record.\<close>

definition complete_lookup ::
    "ledger_env \<Rightarrow> ledger_io \<Rightarrow> time \<Rightarrow> tool_request \<Rightarrow> tool_completion \<Rightarrow> tool_ledger
      \<Rightarrow> (string + tool_execution + tool_execution) \<times> tool_ledger" where
  "complete_lookup E io now q r st = (case hydrate_tool_executions E io st of
      (Some e, st) \<Rightarrow> (Inl e, st)
    | (None, st) \<Rightarrow>
        (case tl_executions st (tr_key q) of
           None \<Rightarrow> (Inl (''tool execution was not reserved: '' @ tr_run_id q @ ''/'' @ tr_tool_use_id q), st)
         | Some x \<Rightarrow>
             if \<not> same_identity q x
             then (Inl (''tool execution identity changed for '' @ tr_run_id q @ ''/'' @ tr_tool_use_id q), st)
             else if tx_status x = Tx_Completed then (Inr (Inl x), st)
             else (Inr (Inr (completed_execution E now r x)), st)))"

definition complete_store :: "tool_execution \<Rightarrow> tool_ledger \<Rightarrow> tool_ledger" where
  "complete_store x st = st\<lparr>tl_executions := (tl_executions st)(tx_key x \<mapsto> x)\<rparr>"

definition complete_tool_execution ::
    "ledger_env \<Rightarrow> ledger_io \<Rightarrow> append_outcome \<Rightarrow> time \<Rightarrow> tool_request \<Rightarrow> tool_completion \<Rightarrow> tool_ledger
      \<Rightarrow> (string + tool_execution) \<times> tool_ledger" where
  "complete_tool_execution E io oc now q r st = (case complete_lookup E io now q r st of
      (Inl e, st) \<Rightarrow> (Inl e, st)
    | (Inr (Inl x), st) \<Rightarrow> (Inr x, st)
    | (Inr (Inr x), st) \<Rightarrow>
        (case append_tool_execution_snapshot E oc x st of
           (Some e, st) \<Rightarrow> (Inl e, st)
         | (None, st) \<Rightarrow> (Inr x, complete_store x st)))"

section \<open>Tasks of the executor\<close>

text \<open>
  A task reserves, calls its tool only if that is answered with \<open>Tool_Reserved\<close>, and completes. Other
  answers end it without a call. \<open>Act_Crash\<close> ends the process and everything in its memory; an append the
  crash interrupts is one that fails before it.
\<close>

datatype tool_task =
    Task_Reserving tool_request tool_execution | Task_Abandoning tool_execution
  | Task_Calling tool_request | Task_Returned tool_request tool_completion
  | Task_Recording tool_execution | Task_Storing tool_execution

datatype ledger_act =
    Act_Reserve nat tool_request ledger_io time | Act_Append nat append_outcome | Act_Abandon nat
  | Act_Call nat tool_completion | Act_Complete nat ledger_io time | Act_Record nat append_outcome
  | Act_Store nat | Act_Crash

text \<open>
  \<open>lw_called\<close> logs the keys whose tool was called, \<open>lw_done\<close> the completions that were acknowledged, and
  \<open>lw_written\<close> every record that an append was tried with.
\<close>

record ledger_world =
  lw_ledger :: tool_ledger
  lw_tasks :: "nat \<rightharpoonup> tool_task"
  lw_called :: "tool_key list"
  lw_done :: "tool_execution list"
  lw_written :: "tool_execution list"

definition initial_ledger_world :: "string option \<Rightarrow> ledger_world" where
  "initial_ledger_world file = \<lparr>lw_ledger = empty_ledger\<lparr>tl_file := file\<rparr>, lw_tasks = Map.empty, lw_called = [],
     lw_done = [], lw_written = []\<rparr>"

definition set_task :: "nat \<Rightarrow> tool_task option \<Rightarrow> tool_ledger \<Rightarrow> ledger_world \<Rightarrow> ledger_world" where
  "set_task t task st w = w\<lparr>lw_ledger := st, lw_tasks := (lw_tasks w)(t := task)\<rparr>"

fun ledger_step :: "ledger_env \<Rightarrow> ledger_act \<Rightarrow> ledger_world \<Rightarrow> ledger_world" where
  "ledger_step E (Act_Reserve t q io now) w = (case lw_tasks w t of
      None \<Rightarrow>
        (case reserve_lookup E io now q (lw_ledger w) of
           (Inr (Inr x), st) \<Rightarrow> set_task t (Some (Task_Reserving q x)) st w
         | (_, st) \<Rightarrow> set_task t None st w)
    | Some _ \<Rightarrow> w)"
| "ledger_step E (Act_Append t oc) w = (case lw_tasks w t of
      Some (Task_Reserving q x) \<Rightarrow>
        (case append_tool_execution_snapshot E oc x (lw_ledger w) of
           (None, st) \<Rightarrow> set_task t (Some (Task_Calling q)) st (w\<lparr>lw_written := x # lw_written w\<rparr>)
         | (Some _, st) \<Rightarrow> set_task t (Some (Task_Abandoning x)) st (w\<lparr>lw_written := x # lw_written w\<rparr>))
    | _ \<Rightarrow> w)"
| "ledger_step E (Act_Abandon t) w = (case lw_tasks w t of
      Some (Task_Abandoning x) \<Rightarrow> set_task t None (reserve_abandon x (lw_ledger w)) w
    | _ \<Rightarrow> w)"
| "ledger_step E (Act_Call t r) w = (case lw_tasks w t of
      Some (Task_Calling q) \<Rightarrow>
        set_task t (Some (Task_Returned q r)) (lw_ledger w) (w\<lparr>lw_called := tr_key q # lw_called w\<rparr>)
    | _ \<Rightarrow> w)"
| "ledger_step E (Act_Complete t io now) w = (case lw_tasks w t of
      Some (Task_Returned q r) \<Rightarrow>
        (case complete_lookup E io now q r (lw_ledger w) of
           (Inr (Inr x), st) \<Rightarrow> set_task t (Some (Task_Recording x)) st w
         | (_, st) \<Rightarrow> set_task t None st w)
    | _ \<Rightarrow> w)"
| "ledger_step E (Act_Record t oc) w = (case lw_tasks w t of
      Some (Task_Recording x) \<Rightarrow>
        (case append_tool_execution_snapshot E oc x (lw_ledger w) of
           (None, st) \<Rightarrow> set_task t (Some (Task_Storing x)) st (w\<lparr>lw_written := x # lw_written w\<rparr>)
         | (Some _, st) \<Rightarrow> set_task t None st (w\<lparr>lw_written := x # lw_written w\<rparr>))
    | _ \<Rightarrow> w)"
| "ledger_step E (Act_Store t) w = (case lw_tasks w t of
      Some (Task_Storing x) \<Rightarrow>
        set_task t None (complete_store x (lw_ledger w)) (w\<lparr>lw_done := x # lw_done w\<rparr>)
    | _ \<Rightarrow> w)"
| "ledger_step E Act_Crash w =
     w\<lparr>lw_ledger := (lw_ledger w)\<lparr>tl_executions := Map.empty, tl_hydrated := False\<rparr>, lw_tasks := Map.empty\<rparr>"

definition run_ledger :: "ledger_env \<Rightarrow> ledger_act list \<Rightarrow> ledger_world \<Rightarrow> ledger_world" where
  "run_ledger E acts w = fold (ledger_step E) acts w"

end
