(* ===== verification/ToolLedgerFile.thy ===== *)
theory ToolLedgerFile
  imports ToolLedger
begin

text \<open>
  What the file of the tool ledger holds after any sequence of appends, each of which may have been cut
  short, and what reading it gives.
\<close>

section \<open>The codec\<close>

definition ledger_pieces :: "tool_execution set \<Rightarrow> (tool_execution \<Rightarrow> string) \<Rightarrow> string set" where
  "ledger_pieces S ser = {p. p \<noteq> [] \<and> (\<exists>x \<in> S. \<exists>q. ser x = p @ q)}"

text \<open>
  What is used of \<open>serde_json\<close>: \<open>codec_ok\<close>, and that the beginnings of two or more objects in a row are
  no object.
\<close>

definition ledger_codec ::
    "tool_execution set \<Rightarrow> (tool_execution \<Rightarrow> string) \<Rightarrow> (string \<Rightarrow> string + tool_execution) \<Rightarrow> bool" where
  "ledger_codec S ser parse \<longleftrightarrow> codec_ok S ser parse
     \<and> (\<forall>ps. 2 \<le> length ps \<longrightarrow> set ps \<subseteq> ledger_pieces S ser \<longrightarrow> \<not> is_ok (parse (concat ps)))"

lemma ledger_codecD:
  assumes "ledger_codec S ser parse"
  shows "codec_ok S ser parse"
    "2 \<le> length ps \<Longrightarrow> set ps \<subseteq> ledger_pieces S ser \<Longrightarrow> parse (concat ps) = Inr x \<Longrightarrow> False"
  using assms by (fastforce simp: ledger_codec_def is_ok_ex)+

lemma ser_inj: "ledger_codec S ser parse \<Longrightarrow> x \<in> S \<Longrightarrow> y \<in> S \<Longrightarrow> ser x = ser y \<longleftrightarrow> x = y"
  using codec_okD(1) [OF ledger_codecD(1)] by (metis sum.inject(2))

lemma piece_ser: "ledger_codec S ser parse \<Longrightarrow> x \<in> S \<Longrightarrow> ser x \<in> ledger_pieces S ser"
  using codec_okD(3) [OF ledger_codecD(1), of S ser parse x]
  by (auto simp: ledger_pieces_def intro!: bexI [of _ x] exI [of _ "[]"])

lemma piece_take: "ledger_codec S ser parse \<Longrightarrow> x \<in> S \<Longrightarrow> 0 < n \<Longrightarrow> take n (ser x) \<in> ledger_pieces S ser"
  using codec_okD(3) [OF ledger_codecD(1), of S ser parse x]
  by (auto simp: ledger_pieces_def intro!: bexI [of _ x] exI [of _ "drop n (ser x)"])

lemma piece_facts:
  assumes "ledger_codec S ser parse" "p \<in> ledger_pieces S ser"
  shows "nl \<notin> set p" "\<exists>t. p = CHR 0x7B # t" "parse p = Inr x \<Longrightarrow> p = ser x \<and> x \<in> S"
proof -
  note c = ledger_codecD(1) [OF assms(1)]
  from assms(2) obtain y q where y: "y \<in> S" "ser y = p @ q" "p \<noteq> []" by (auto simp: ledger_pieces_def)
  show "nl \<notin> set p" using codec_okD(2) [OF c y(1)] y(2) by simp
  show "\<exists>t. p = CHR 0x7B # t" using codec_okD(3) [OF c y(1)] y(2,3) by (cases p) auto
  show "parse p = Inr x \<Longrightarrow> p = ser x \<and> x \<in> S"
    using codec_okD(1) [OF c y(1)] codec_okD(4) [OF c y(1) y(2)] y by (cases "q = []") (auto simp: is_ok_ex)
qed

text \<open>A line of pieces is no white space, and is a record only when it is one whole record.\<close>

lemma line_facts:
  assumes ok: "ledger_codec S ser parse" and ps: "set ps \<subseteq> ledger_pieces S ser" "ps \<noteq> []"
  shows "nl \<notin> set (concat ps)" "\<not> list_all is_ascii_whitespace (concat ps)" "concat ps \<noteq> []"
    "parse (concat ps) = Inr x \<Longrightarrow> ps = [ser x] \<and> x \<in> S"
proof -
  obtain p qs where p: "ps = p # qs" using ps(2) by (cases ps) auto
  obtain t where t: "p = CHR 0x7B # t" using piece_facts(2) [OF ok, of p] ps(1) p by auto
  show "nl \<notin> set (concat ps)" using piece_facts(1) [OF ok] ps(1) by auto
  show "\<not> list_all is_ascii_whitespace (concat ps)" using p t by (simp add: is_ascii_whitespace_def)
  show "concat ps \<noteq> []" using p t by simp
  assume x: "parse (concat ps) = Inr x"
  with ledger_codecD(2) [OF ok _ ps(1)] have "\<not> 2 \<le> length ps" by blast
  with p have "ps = [p]" by (cases qs) auto
  with x piece_facts(3) [OF ok, of p x] ps(1) show "ps = [ser x] \<and> x \<in> S" by simp
qed

section \<open>The file as lines of pieces\<close>

text \<open>
  A line that ends holds the remains of failed appends and then one whole record; what follows the last
  line holds remains only.
\<close>

definition line_text :: "(tool_execution \<Rightarrow> string) \<Rightarrow> string list \<times> tool_execution \<Rightarrow> string" where
  "line_text ser l = concat (fst l) @ ser (snd l) @ [nl]"

definition file_text ::
    "(tool_execution \<Rightarrow> string) \<Rightarrow> (string list \<times> tool_execution) list \<Rightarrow> string list \<Rightarrow> string" where
  "file_text ser L tail = concat (map (line_text ser) L) @ concat tail"

definition pieces_ok ::
    "tool_execution set \<Rightarrow> (tool_execution \<Rightarrow> string) \<Rightarrow> (string list \<times> tool_execution) list \<Rightarrow> string list
      \<Rightarrow> bool" where
  "pieces_ok S ser L tail \<longleftrightarrow> (\<forall>(ps, x) \<in> set L. set ps \<subseteq> ledger_pieces S ser \<and> x \<in> S)
     \<and> set tail \<subseteq> ledger_pieces S ser"

lemma split_file:
  assumes ok: "ledger_codec S ser parse"
  shows "pieces_ok S ser L tail \<Longrightarrow> split_inclusive_nl (file_text ser L tail) =
    map (line_text ser) L @ (if tail = [] then [] else [concat tail])"
proof (induction L)
  case Nil
  then show ?case
    using split_nl_tail [OF line_facts(1,3) [OF ok, of tail]]
    by (cases "tail = []") (auto simp: file_text_def pieces_ok_def)
next
  case (Cons l L)
  obtain ps x where l: "l = (ps, x)" by fastforce
  with Cons.prems have ps: "set (ps @ [ser x]) \<subseteq> ledger_pieces S ser" and rest: "pieces_ok S ser L tail"
    using piece_ser [OF ok, of x] by (auto simp: pieces_ok_def)
  have "nl \<notin> set (concat (ps @ [ser x]))" using line_facts(1) [OF ok ps] by simp
  then have "split_inclusive_nl (concat (ps @ [ser x]) @ nl # file_text ser L tail)
      = (concat (ps @ [ser x]) @ [nl]) # split_inclusive_nl (file_text ser L tail)"
    by (rule split_nl_line)
  with Cons.IH [OF rest] show ?case by (simp add: file_text_def line_text_def l)
qed

lemma torn_file:
  assumes ok: "ledger_codec S ser parse" and L: "pieces_ok S ser L tail"
  shows "tail \<noteq> [] \<Longrightarrow> \<not> ends_with (file_text ser L tail) [nl]"
    "tail = [] \<Longrightarrow> L \<noteq> [] \<Longrightarrow> ends_with (file_text ser L tail) [nl]"
proof -
  show "\<not> ends_with (file_text ser L tail) [nl]" if "tail \<noteq> []"
    using line_facts(1,3) [OF ok, of tail] L that last_in_set [of "concat tail"]
    by (auto simp: ends_with_nl_iff file_text_def pieces_ok_def)
  show "ends_with (file_text ser L tail) [nl]" if "tail = []" "L \<noteq> []"
    using that by (cases L rule: rev_cases) (auto simp: ends_with_nl_iff file_text_def line_text_def)
qed

section \<open>Reading it\<close>

definition latest :: "tool_execution list \<Rightarrow> tool_key \<rightharpoonup> tool_execution" where
  "latest xs = fold (\<lambda>x m. m(tx_key x \<mapsto> x)) xs Map.empty"

lemma latest_snoc [simp]: "latest (xs @ [x]) = (latest xs)(tx_key x \<mapsto> x)" "latest [] = Map.empty"
  by (simp_all add: latest_def)

lemma latest_key: "latest xs k = Some x \<Longrightarrow> x \<in> set xs \<and> tx_key x = k"
  by (induction xs rule: rev_induct) (auto split: if_splits)

lemma latest_last: "tx_key x \<notin> tx_key ` set B \<Longrightarrow> latest (A @ x # B) (tx_key x) = Some x"
proof (induction B rule: rev_induct)
  case (snoc y B)
  then have "latest ((A @ x # B) @ [y]) (tx_key x) = Some x" by (simp only: latest_snoc) auto
  then show ?case by simp
qed simp

lemma dom_latest: "dom (latest xs) = tx_key ` set xs"
proof (induction xs rule: rev_induct)
  case (snoc x xs)
  then show ?case by (simp only: latest_snoc dom_fun_upd option.simps if_False set_append image_Un) simp
qed simp

lemma read_whole_lines:
  assumes ok: "ledger_codec S ser parse" and "\<forall>(ps, x) \<in> set L. set ps \<subseteq> ledger_pieces S ser \<and> x \<in> S"
    and "read_ledger_chunks parse torn (map (line_text ser) L @ chs) v (latest xs) = Inr res"
    and "chs = [] \<longrightarrow> \<not> torn"
  shows "(\<forall>l \<in> set L. fst l = []) \<and>
    read_ledger_chunks parse torn chs (v + length (concat (map (line_text ser) L))) (latest (xs @ map snd L))
      = Inr res"
  using assms(2,3)
proof (induction L arbitrary: v xs)
  case (Cons l L)
  obtain ps x where l: "l = (ps, x)" by fastforce
  with Cons.prems have ps: "set (ps @ [ser x]) \<subseteq> ledger_pieces S ser" "ps @ [ser x] \<noteq> []" and x: "x \<in> S"
    using piece_ser [OF ok, of x] by auto
  have strip: "strip_nl (line_text ser l) = concat (ps @ [ser x])"
    using strip_nl_line [of "concat (ps @ [ser x])"] by (simp add: line_text_def l)
  have more: "\<not> (map (line_text ser) L @ chs = [] \<and> torn)" using assms(4) by auto
  have "parse (concat (ps @ [ser x])) = Inr y \<Longrightarrow> ps = [] \<and> y = x" for y
    using line_facts(4) [OF ok ps, of y] ser_inj [OF ok x, of y] by auto
  moreover have "\<exists>y. parse (concat (ps @ [ser x])) = Inr y"
    using Cons.prems(2) more line_facts(2) [OF ok ps]
    by (auto simp: strip Let_def simp del: concat_append split: if_splits sum.splits)
  ultimately have p: "parse (concat (ps @ [ser x])) = Inr x" "ps = []" by auto
  have "read_ledger_chunks parse torn (map (line_text ser) L @ chs) (v + length (line_text ser l))
      (latest (xs @ [x])) = Inr res"
    using Cons.prems(2) line_facts(2) [OF ok ps] p(1)
    by (simp add: strip Let_def del: concat_append)
  from Cons.IH [OF _ this] Cons.prems(1) p(2) l show ?case by (auto simp: add.assoc)
qed simp

text \<open>
  Whoever reads the file without an error gets the last record of every key, and learns of the tail
  whether it is a record; it is cut off when it is none.
\<close>

lemma read_file:
  assumes ok: "ledger_codec S ser parse" and L: "pieces_ok S ser L tail"
    and read: "read_ledger_chunks parse (\<not> ends_with (file_text ser L tail) [nl])
        (split_inclusive_nl (file_text ser L tail)) 0 Map.empty = Inr (m, rest_at)"
  shows "(\<forall>l \<in> set L. fst l = []) \<and>
    (tail = [] \<and> m = latest (map snd L) \<and> rest_at = None
      \<or> (\<exists>y \<in> S. tail = [ser y] \<and> m = latest (map snd L @ [y])) \<and> rest_at = None
      \<or> m = latest (map snd L) \<and> rest_at = Some (length (file_text ser L [])))"
proof -
  let ?torn = "\<not> ends_with (file_text ser L tail) [nl]" and ?chs = "if tail = [] then [] else [concat tail]"
  let ?n = "length (concat (map (line_text ser) L))"
  have lines: "\<forall>(ps, x) \<in> set L. set ps \<subseteq> ledger_pieces S ser \<and> x \<in> S" using L by (simp add: pieces_ok_def)
  show ?thesis
  proof (cases "tail = []")
    case True
    show ?thesis
    proof (cases "L = []")
      case True
      with \<open>tail = []\<close> read show ?thesis by (auto simp: file_text_def)
    next
      case False
      then have torn: "\<not> ?torn" using torn_file(2) [OF ok L] True by simp
      have "read_ledger_chunks parse ?torn (map (line_text ser) L @ []) 0 (latest []) = Inr (m, rest_at)"
        using read split_file [OF ok L] True by simp
      from read_whole_lines [OF ok lines this] torn True show ?thesis by simp
    qed
  next
    case False
    have torn: ?torn using torn_file(1) [OF ok L False] .
    have t: "set tail \<subseteq> ledger_pieces S ser" using L by (simp add: pieces_ok_def)
    have "read_ledger_chunks parse ?torn (map (line_text ser) L @ [concat tail]) 0 (latest []) = Inr (m, rest_at)"
      using read split_file [OF ok L] False by simp
    from read_whole_lines [OF ok lines this] have
      whole: "\<forall>l \<in> set L. fst l = []"
      and rest: "read_ledger_chunks parse ?torn [concat tail] ?n (latest (map snd L)) = Inr (m, rest_at)" by simp_all
    have strip: "strip_nl (concat tail) = concat tail" by (rule strip_nl_id [OF line_facts(1) [OF ok t False]])
    show ?thesis
    proof (cases "parse (concat tail)")
      case (Inl e)
      with rest torn line_facts(2) [OF ok t False] whole show ?thesis
        by (auto simp: strip Let_def file_text_def)
    next
      case (Inr y)
      with rest torn line_facts(2,4) [OF ok t False] whole show ?thesis
        by (auto simp: strip Let_def)
    qed
  qed
qed

lemma cut_file: "take (length (file_text ser L [])) (file_text ser L tail) = file_text ser L []"
  by (simp add: file_text_def)

section \<open>Appending\<close>

text \<open>An append ends a line with its record, or leaves a piece of it, or nothing.\<close>

lemma append_file:
  assumes ok: "ledger_codec S ser parse" and L: "pieces_ok S ser L tail" and x: "x \<in> S"
    and fl: "log_bytes file = file_text ser L tail"
    and app: "append_line oc (ser x) file = (r, file')"
  shows "\<exists>L' tail'. pieces_ok S ser L' tail' \<and> log_bytes file' = file_text ser L' tail'
    \<and> (L' = L @ [(tail, x)] \<and> tail' = []
      \<or> r \<noteq> None \<and> L' = L \<and> (tail' = tail \<or> (\<exists>n > 0. tail' = tail @ [take n (ser x)])))"
proof -
  have ended: "pieces_ok S ser (L @ [(tail, x)]) []" using L x by (auto simp: pieces_ok_def)
  have full: "file_text ser L tail @ ser x @ [nl] = file_text ser (L @ [(tail, x)]) []"
    by (simp add: file_text_def line_text_def)
  show ?thesis
  proof (cases oc)
    case Appended
    then have "log_bytes file' = file_text ser (L @ [(tail, x)]) []"
      using app fl full by (auto simp: append_line_def log_bytes_def)
    with ended show ?thesis by blast
  next
    case (AppendFailed n e)
    then have r: "r \<noteq> None" and f: "log_bytes file' = file_text ser L tail @ take n (ser x @ [nl])"
      using app fl by (auto simp: append_line_def log_bytes_def)
    consider "n = 0" | "0 < n" "n \<le> length (ser x)" | "length (ser x) < n" by linarith
    then show ?thesis
    proof cases
      case 1
      with f r L show ?thesis by auto
    next
      case 2
      then have "pieces_ok S ser L (tail @ [take n (ser x)])"
        using L piece_take [OF ok x 2(1)] by (auto simp: pieces_ok_def)
      moreover have "log_bytes file' = file_text ser L (tail @ [take n (ser x)])"
        using f 2 by (simp add: file_text_def)
      ultimately show ?thesis using r 2(1) by blast
    next
      case 3
      then have "log_bytes file' = file_text ser (L @ [(tail, x)]) []" using f full by simp
      with ended show ?thesis by blast
    qed
  qed
qed

end
