(* ===== verification/ToolLedgerInvariants.thy ===== *)
theory ToolLedgerInvariants
  imports ToolLedgerFile
begin

text \<open>
  The invariant of the tool ledger and of the tasks on it, kept by every step: no two tasks hold the same
  key, a key whose tool was called is in the log and in the memory, and an acknowledged completion is the
  last record of its key in both.
\<close>

section \<open>The invariant\<close>

definition settled_last ::
    "tool_execution set \<Rightarrow> (tool_execution \<Rightarrow> string) \<Rightarrow> (string list \<times> tool_execution) list \<Rightarrow> string list
      \<Rightarrow> tool_execution \<Rightarrow> bool" where
  "settled_last S ser L tail x \<longleftrightarrow> (\<exists>A B. map snd L = A @ x # B \<and> tx_key x \<notin> tx_key ` set B)
     \<and> (\<forall>y \<in> S. tail = [ser y] \<longrightarrow> tx_key y \<noteq> tx_key x)"

fun task_key :: "tool_task \<Rightarrow> tool_key" where
  "task_key (Task_Reserving q x) = tx_key x"
| "task_key (Task_Abandoning x) = tx_key x"
| "task_key (Task_Calling q) = tr_key q"
| "task_key (Task_Returned q r) = tr_key q"
| "task_key (Task_Recording x) = tx_key x"
| "task_key (Task_Storing x) = tx_key x"

definition logged :: "(string list \<times> tool_execution) list \<Rightarrow> tool_key set" where
  "logged L = tx_key ` snd ` set L"

fun task_ok ::
    "tool_execution set \<Rightarrow> (tool_execution \<Rightarrow> string) \<Rightarrow> (string list \<times> tool_execution) list \<Rightarrow> string list
      \<Rightarrow> tool_key list \<Rightarrow> tool_task \<Rightarrow> bool" where
  "task_ok S ser L tail called (Task_Reserving q x) \<longleftrightarrow> tr_key q = tx_key x \<and> tx_key x \<notin> set called"
| "task_ok S ser L tail called (Task_Abandoning x) \<longleftrightarrow> tx_key x \<notin> set called"
| "task_ok S ser L tail called (Task_Calling q) \<longleftrightarrow> tr_key q \<notin> set called \<and> tr_key q \<in> logged L"
| "task_ok S ser L tail called (Task_Returned q r) \<longleftrightarrow> tr_key q \<in> set called"
| "task_ok S ser L tail called (Task_Recording x) \<longleftrightarrow> tx_key x \<in> set called \<and> tx_status x = Tx_Completed"
| "task_ok S ser L tail called (Task_Storing x) \<longleftrightarrow>
     tx_key x \<in> set called \<and> tx_status x = Tx_Completed \<and> settled_last S ser L tail x"

definition ledger_inv ::
    "ledger_env \<Rightarrow> tool_execution set \<Rightarrow> (string list \<times> tool_execution) list \<Rightarrow> string list
      \<Rightarrow> ledger_world \<Rightarrow> bool" where
  "ledger_inv E S L tail w \<longleftrightarrow>
     pieces_ok S (le_ser E) L tail \<and> log_bytes (tl_file (lw_ledger w)) = file_text (le_ser E) L tail
   \<and> (\<not> tl_hydrated (lw_ledger w) \<longrightarrow> tl_executions (lw_ledger w) = Map.empty \<and> lw_tasks w = Map.empty)
   \<and> (\<forall>k x. tl_executions (lw_ledger w) k = Some x \<longrightarrow> tx_key x = k)
   \<and> (\<forall>t a. lw_tasks w t = Some a \<longrightarrow> task_ok S (le_ser E) L tail (lw_called w) a
        \<and> task_key a \<in> dom (tl_executions (lw_ledger w)))
   \<and> (\<forall>t u a b. lw_tasks w t = Some a \<longrightarrow> lw_tasks w u = Some b \<longrightarrow> task_key a = task_key b \<longrightarrow> t = u)
   \<and> distinct (lw_called w)
   \<and> (\<forall>k \<in> set (lw_called w). k \<in> logged L
        \<and> (tl_hydrated (lw_ledger w) \<longrightarrow> k \<in> dom (tl_executions (lw_ledger w))))
   \<and> (\<forall>x \<in> set (lw_done w). tx_status x = Tx_Completed \<and> tx_key x \<in> set (lw_called w)
        \<and> (\<forall>t a. lw_tasks w t = Some a \<longrightarrow> task_key a \<noteq> tx_key x) \<and> settled_last S (le_ser E) L tail x
        \<and> (tl_hydrated (lw_ledger w) \<longrightarrow> tl_executions (lw_ledger w) (tx_key x) = Some x))"

lemma ledger_invD:
  assumes "ledger_inv E S L tail w"
  shows "pieces_ok S (le_ser E) L tail" "log_bytes (tl_file (lw_ledger w)) = file_text (le_ser E) L tail"
    "\<not> tl_hydrated (lw_ledger w) \<Longrightarrow> tl_executions (lw_ledger w) = Map.empty"
    "\<not> tl_hydrated (lw_ledger w) \<Longrightarrow> lw_tasks w = Map.empty"
    "tl_executions (lw_ledger w) k = Some x \<Longrightarrow> tx_key x = k"
    "lw_tasks w t = Some a \<Longrightarrow> task_ok S (le_ser E) L tail (lw_called w) a"
    "lw_tasks w t = Some a \<Longrightarrow> task_key a \<in> dom (tl_executions (lw_ledger w))"
    "lw_tasks w t = Some a \<Longrightarrow> lw_tasks w u = Some b \<Longrightarrow> task_key a = task_key b \<Longrightarrow> t = u"
    "distinct (lw_called w)"
    "k \<in> set (lw_called w) \<Longrightarrow> k \<in> logged L"
    "k \<in> set (lw_called w) \<Longrightarrow> tl_hydrated (lw_ledger w) \<Longrightarrow> k \<in> dom (tl_executions (lw_ledger w))"
    "y \<in> set (lw_done w) \<Longrightarrow> tx_status y = Tx_Completed"
    "y \<in> set (lw_done w) \<Longrightarrow> tx_key y \<in> set (lw_called w)"
    "y \<in> set (lw_done w) \<Longrightarrow> lw_tasks w t = Some a \<Longrightarrow> task_key a \<noteq> tx_key y"
    "y \<in> set (lw_done w) \<Longrightarrow> settled_last S (le_ser E) L tail y"
    "y \<in> set (lw_done w) \<Longrightarrow> tl_hydrated (lw_ledger w) \<Longrightarrow> tl_executions (lw_ledger w) (tx_key y) = Some y"
  using assms unfolding ledger_inv_def by metis+

lemma initial_inv: "ledger_inv E S [] [] (initial_ledger_world None)"
  by (simp add: ledger_inv_def initial_ledger_world_def empty_ledger_def pieces_ok_def file_text_def log_bytes_def)

section \<open>Filling the memory\<close>

lemma settled_latest:
  assumes "settled_last S ser L tail x"
  shows "latest (map snd L) (tx_key x) = Some x"
    "y \<in> S \<Longrightarrow> tail = [ser y] \<Longrightarrow> latest (map snd L @ [y]) (tx_key x) = Some x"
proof -
  from assms obtain A B where "map snd L = A @ x # B" "tx_key x \<notin> tx_key ` set B"
    by (auto simp: settled_last_def)
  then show l: "latest (map snd L) (tx_key x) = Some x" by (simp add: latest_last)
  show "latest (map snd L @ [y]) (tx_key x) = Some x" if "y \<in> S" "tail = [ser y]"
    using assms that l by (auto simp: settled_last_def simp del: append_assoc)
qed

lemma settled_cut: "settled_last S ser L tail x \<Longrightarrow> settled_last S ser L [] x"
  by (simp add: settled_last_def)

lemma logged_latest: "k \<in> logged L \<Longrightarrow> k \<in> dom (latest (map snd L)) \<and> k \<in> dom (latest (map snd L @ [y]))"
  by (auto simp: logged_def dom_latest simp del: latest_snoc)

lemma hydrate_inv:
  assumes ok: "ledger_codec S (le_ser E) (le_parse E)" and inv: "ledger_inv E S L tail w"
    and h: "hydrate_tool_executions E io (lw_ledger w) = (r, st)"
  shows "\<exists>tail'. ledger_inv E S L tail' (w\<lparr>lw_ledger := st\<rparr>) \<and> (r = None \<longrightarrow> tl_hydrated st)"
proof (cases "tl_hydrated (lw_ledger w)")
  case True
  with h inv show ?thesis by (auto simp: hydrate_tool_executions_def)
next
  case False
  note I = ledger_invD [OF inv]
  let ?ser = "le_ser E"
  note e = I(3) [OF False] and t = I(4) [OF False]
  have same: "ledger_inv E S L tail' (w\<lparr>lw_ledger := (lw_ledger w)\<lparr>tl_file := f\<rparr>\<rparr>)"
    if "log_bytes f = file_text ?ser L tail'" "tail' = tail \<or> tail' = []" for f tail'
    using that False e t I(1,9,10,12,13,15) settled_cut [of S ?ser L tail]
    unfolding ledger_inv_def by (auto simp: pieces_ok_def)
  have filled: "ledger_inv E S L tail'
      (w\<lparr>lw_ledger := (lw_ledger w)\<lparr>tl_file := f, tl_executions := Map.empty ++ m, tl_hydrated := True\<rparr>\<rparr>)"
    if "log_bytes f = file_text ?ser L tail'" "tail' = tail \<or> tail' = []"
      and m: "m = latest (map snd L) \<or> (\<exists>y \<in> S. tail = [?ser y] \<and> m = latest (map snd L @ [y]))" for f tail' m
  proof -
    have "m k = Some x \<Longrightarrow> tx_key x = k" for k x using m latest_key by (metis)
    moreover have "k \<in> dom m" if "k \<in> logged L" for k using m logged_latest [OF that] by blast
    moreover have "m (tx_key x) = Some x" if "settled_last S ?ser L tail x" for x
      using m settled_latest [OF that] by blast
    ultimately show ?thesis
      using that(1,2) e t I(1,9,10,12,13,15) settled_cut [of S ?ser L tail]
      unfolding ledger_inv_def by (auto simp: pieces_ok_def)
  qed
  obtain res f where rd: "read_tool_executions E io (tl_file (lw_ledger w)) = (res, f)" by fastforce
  have "(\<exists>tail'. log_bytes f = file_text ?ser L tail' \<and> (tail' = tail \<or> tail' = []) \<and>
      (\<forall>m. res = Inr m \<longrightarrow> m = latest (map snd L) \<or> (\<exists>y \<in> S. tail = [?ser y] \<and> m = latest (map snd L @ [y]))))"
  proof (cases "tl_file (lw_ledger w)")
    case None
    then have "file_text ?ser L tail = []" using I(2) by (simp add: log_bytes_def)
    then have "L = []" by (cases L) (auto simp: file_text_def line_text_def)
    with None rd I(2) show ?thesis by (auto simp: read_tool_executions_def log_bytes_def)
  next
    case (Some bytes)
    then have b: "bytes = file_text ?ser L tail" using I(2) by (simp add: log_bytes_def)
    show ?thesis
      using rd Some read_file [OF ok I(1)] cut_file [of ?ser L tail]
      unfolding read_tool_executions_def truncate_jsonl_tail_def b
      by (fastforce simp: log_bytes_def split: option.splits sum.splits prod.splits replace_outcome.splits if_splits)
  qed
  then obtain tail' where f: "log_bytes f = file_text ?ser L tail'" "tail' = tail \<or> tail' = []"
    and m: "\<And>m. res = Inr m \<Longrightarrow> m = latest (map snd L) \<or> (\<exists>y \<in> S. tail = [?ser y] \<and> m = latest (map snd L @ [y]))"
    by blast
  show ?thesis
  proof (cases res)
    case (Inl x)
    then show ?thesis using h rd False same [OF f] by (auto simp: hydrate_tool_executions_def)
  next
    case (Inr x)
    then show ?thesis using h rd False e filled [OF f m [OF Inr]] by (auto simp: hydrate_tool_executions_def)
  qed
qed

section \<open>Appending\<close>

lemma settled_more:
  assumes ok: "ledger_codec S ser parse" and z: "z \<in> S" and s: "settled_last S ser L tail x" "tx_key x \<noteq> tx_key z"
    and more: "L' = L @ [(tail, z)] \<and> tail' = []
      \<or> L' = L \<and> (tail' = tail \<or> (\<exists>n > 0. tail' = tail @ [take n (ser z)]))"
  shows "settled_last S ser L' tail' x"
proof -
  have last: "tx_key y \<noteq> tx_key x" if "y \<in> S" "0 < n" "tail @ [take n (ser z)] = [ser y]" for n y
  proof -
    have "take n (ser z) = ser y" using that(3) by simp
    then have "parse (take n (ser z)) = Inr y" using codec_okD(1) [OF ledger_codecD(1) [OF ok] that(1)] by simp
    then have "take n (ser z) = ser z"
      using codec_okD(4) [OF ledger_codecD(1) [OF ok] z, of "take n (ser z)" "drop n (ser z)"]
      by (cases "drop n (ser z) = []") auto
    with \<open>take n (ser z) = ser y\<close> ser_inj [OF ok z that(1)] s(2) show ?thesis by auto
  qed
  from s(1) obtain A B where AB: "map snd L = A @ x # B" "tx_key x \<notin> tx_key ` set B"
    and tl: "\<forall>y \<in> S. tail = [ser y] \<longrightarrow> tx_key y \<noteq> tx_key x" by (auto simp: settled_last_def)
  from more show ?thesis
  proof (elim disjE conjE exE)
    assume L': "L' = L @ [(tail, z)]" "tail' = []"
    have "map snd L' = A @ x # (B @ [z])" "tx_key x \<notin> tx_key ` set (B @ [z])" using AB s(2) L' by auto
    with L'(2) show ?thesis unfolding settled_last_def by blast
  qed (use AB tl last in \<open>auto simp: settled_last_def\<close>)
qed

lemma append_inv:
  assumes ok: "ledger_codec S (le_ser E) (le_parse E)" and inv: "ledger_inv E S L tail w" and z: "z \<in> S"
    and app: "append_tool_execution_snapshot E oc z (lw_ledger w) = (r, st)"
  obtains L' tail' where "pieces_ok S (le_ser E) L' tail'" "log_bytes (tl_file st) = file_text (le_ser E) L' tail'"
    "tl_executions st = tl_executions (lw_ledger w)" "tl_hydrated st = tl_hydrated (lw_ledger w)"
    "logged L \<subseteq> logged L'"
    "\<And>x. settled_last S (le_ser E) L tail x \<Longrightarrow> tx_key x \<noteq> tx_key z \<Longrightarrow> settled_last S (le_ser E) L' tail' x"
    "r = None \<Longrightarrow> tx_key z \<in> logged L' \<and> settled_last S (le_ser E) L' tail' z"
proof -
  note I = ledger_invD [OF inv]
  obtain f where f: "append_line oc (le_ser E z) (tl_file (lw_ledger w)) = (r, f)"
    and st: "st = (lw_ledger w)\<lparr>tl_file := f\<rparr>"
    using app by (auto simp: append_tool_execution_snapshot_def split: prod.splits)
  from append_file [OF ok I(1) z I(2) f] obtain L' tail' where L': "pieces_ok S (le_ser E) L' tail'"
      "log_bytes f = file_text (le_ser E) L' tail'"
    and more: "L' = L @ [(tail, z)] \<and> tail' = []
      \<or> r \<noteq> None \<and> L' = L \<and> (tail' = tail \<or> (\<exists>n > 0. tail' = tail @ [take n (le_ser E z)]))" by blast
  show ?thesis
  proof (rule that [OF L'(1)])
    show "settled_last S (le_ser E) L' tail' x" if "settled_last S (le_ser E) L tail x" "tx_key x \<noteq> tx_key z" for x
      using settled_more [OF ok z that, of L' tail'] more by blast
    show "tx_key z \<in> logged L' \<and> settled_last S (le_ser E) L' tail' z" if "r = None"
    proof -
      have L': "L' = L @ [(tail, z)]" "tail' = []" using more that by auto
      then have "map snd L' = map snd L @ z # []" by simp
      then have "settled_last S (le_ser E) L' tail' z" unfolding settled_last_def L'(2) by fastforce
      with L' show ?thesis by (simp add: logged_def)
    qed
    next
    show "logged L \<subseteq> logged L'" using more unfolding logged_def
      by (elim disjE conjE exE) (simp_all add: subset_insertI)
  qed (use L' st in auto)
qed

section \<open>Every step keeps it\<close>

lemma task_ok_more:
  assumes "task_ok S ser L tail called a" "logged L \<subseteq> logged L'" "tx_key z \<noteq> task_key a"
    and "\<And>x. settled_last S ser L tail x \<Longrightarrow> tx_key x \<noteq> tx_key z \<Longrightarrow> settled_last S ser L' tail' x"
  shows "task_ok S ser L' tail' called a"
  using assms by (cases a) auto

text \<open>A task that appended its record moves on; the others do not notice.\<close>

lemma append_step_inv:
  assumes ok: "ledger_codec S (le_ser E) (le_parse E)" and inv: "ledger_inv E S L tail w" and z: "z \<in> S"
    and app: "append_tool_execution_snapshot E oc z (lw_ledger w) = (r, st)"
    and a: "lw_tasks w t = Some a" "task_key a = tx_key z"
    and b: "\<And>b L' tail'. nxt = Some b \<Longrightarrow> (r = None \<longrightarrow> tx_key z \<in> logged L' \<and> settled_last S (le_ser E) L' tail' z)
      \<Longrightarrow> task_ok S (le_ser E) L' tail' (lw_called w) b \<and> task_key b = tx_key z"
  shows "\<exists>L' tail'. ledger_inv E S L' tail' (set_task t nxt st (w\<lparr>lw_written := xs\<rparr>))"
proof -
  note I = ledger_invD [OF inv]
  from append_inv [OF ok inv z app] obtain L' tail' where L': "pieces_ok S (le_ser E) L' tail'"
      "log_bytes (tl_file st) = file_text (le_ser E) L' tail'"
      "tl_executions st = tl_executions (lw_ledger w)" "tl_hydrated st = tl_hydrated (lw_ledger w)"
      "logged L \<subseteq> logged L'"
    and se: "\<And>x. settled_last S (le_ser E) L tail x \<Longrightarrow> tx_key x \<noteq> tx_key z \<Longrightarrow> settled_last S (le_ser E) L' tail' x"
    and new: "r = None \<longrightarrow> tx_key z \<in> logged L' \<and> settled_last S (le_ser E) L' tail' z" by blast
  have other: "task_ok S (le_ser E) L' tail' (lw_called w) c" if "lw_tasks w u = Some c" "u \<noteq> t" for u c
    using task_ok_more [OF I(6) [OF that(1)] L'(5) _ se] I(8) [OF that(1) a(1)] a(2) that(2) by metis
  have dn: "settled_last S (le_ser E) L' tail' x" if "x \<in> set (lw_done w)" for x
    using se I(14,15) [OF that] a by metis
  have "ledger_inv E S L' tail' (set_task t nxt st (w\<lparr>lw_written := xs\<rparr>))"
    unfolding ledger_inv_def set_task_def
  proof (intro conjI, goal_cases)
    case 3
    show ?case using I(4) a(1) L'(4) by fastforce
  next
    case 5
    show ?case using other b [OF _ new] I(7) [OF a(1)] I(7) a(2) L'(3) by (auto split: if_splits)
  next
    case 6
    show ?case using I(8) a b [OF _ new] by (fastforce split: if_splits)
  next
    case 9
    show ?case using I(12,13,14,16) dn b [OF _ new] a L'(3,4) by (auto split: if_splits)
  qed (use L' I in auto)
  then show ?thesis by blast
qed

text \<open>A task that starts, ends or goes on, with a memory that lost nothing the others rely on.\<close>

lemma task_step_inv:
  assumes inv: "ledger_inv E S L tail w" and hyd: "tl_hydrated (lw_ledger w)"
    and m: "st = (lw_ledger w)\<lparr>tl_executions := m\<rparr>" "\<And>k x. m k = Some x \<Longrightarrow> tx_key x = k"
      "\<And>k. k \<noteq> key \<Longrightarrow> m k = tl_executions (lw_ledger w) k"
    and called: "called = lw_called w \<or> called = key # lw_called w \<and> key \<notin> set (lw_called w) \<and> key \<in> logged L"
    and key: "key \<in> set called \<longrightarrow> key \<in> dom m"
    and own: "\<And>u a. lw_tasks w u = Some a \<Longrightarrow> task_key a = key \<Longrightarrow> u = t"
    and nextok: "\<And>b. nxt = Some b \<Longrightarrow> task_ok S (le_ser E) L tail called b \<and> task_key b = key \<and> key \<in> dom m"
    and was: "\<And>a. lw_tasks w t = Some a \<Longrightarrow> task_key a = key"
    and d: "\<And>x. x \<in> set don \<Longrightarrow> x \<in> set (lw_done w) \<and> tx_key x \<noteq> key
      \<or> nxt = None \<and> m key = Some x \<and> tx_key x = key \<and> tx_status x = Tx_Completed
        \<and> key \<in> set called \<and> settled_last S (le_ser E) L tail x"
  shows "ledger_inv E S L tail (set_task t nxt st (w\<lparr>lw_called := called, lw_done := don\<rparr>))"
proof -
  note I = ledger_invD [OF inv]
  have other: "task_ok S (le_ser E) L tail called c" if "lw_tasks w u = Some c" "u \<noteq> t" for u c
    using I(6) [OF that(1)] called own [OF that(1)] that(2) by (cases c) auto
  have okey: "task_key c \<noteq> key" if "lw_tasks w u = Some c" "u \<noteq> t" for u c
    using own that by blast
  show ?thesis
    unfolding ledger_inv_def set_task_def
  proof (intro conjI, goal_cases)
    case 1
    show ?case using I(1) by simp
  next
    case 2
    show ?case using I(2) m(1) by simp
  next
    case 3
    show ?case using hyd m(1) by simp
  next
    case 4
    show ?case using m(1,2) by simp
  next
    case 5
    show ?case using other okey nextok I(7) m(1,3) by (auto split: if_splits simp: dom_def)
  next
    case 6
    show ?case using I(8) nextok okey by (auto split: if_splits) metis+
  next
    case 7
    show ?case using I(9) called by auto
  next
    case 8
    have "k \<in> logged L \<and> k \<in> dom m" if "k \<in> set called" for k
      using that I(10,11) [of k] called key m(3) [of k] hyd by (cases "k = key") (auto simp: dom_def)
    then show ?case using m(1) by simp
  next
    case 9
    have old: "tx_status x = Tx_Completed \<and> tx_key x \<in> set called
        \<and> (\<forall>u a. ((lw_tasks w)(t := nxt)) u = Some a \<longrightarrow> task_key a \<noteq> tx_key x)
        \<and> settled_last S (le_ser E) L tail x \<and> m (tx_key x) = Some x"
      if "x \<in> set (lw_done w)" "tx_key x \<noteq> key" for x
      using that I(12,13,14,15,16) called nextok m(3) hyd by (auto split: if_splits)
    have "tx_status x = Tx_Completed \<and> tx_key x \<in> set called
        \<and> (\<forall>u a. ((lw_tasks w)(t := nxt)) u = Some a \<longrightarrow> task_key a \<noteq> tx_key x)
        \<and> settled_last S (le_ser E) L tail x \<and> m (tx_key x) = Some x" if "x \<in> set don" for x
      using d [OF that]
    proof (elim disjE conjE)
      assume "x \<in> set (lw_done w)" "tx_key x \<noteq> key"
      then show ?thesis by (rule old)
    next
      assume "nxt = None" "m key = Some x" "tx_key x = key" "tx_status x = Tx_Completed" "key \<in> set called"
        "settled_last S (le_ser E) L tail x"
      then show ?thesis using okey by (auto split: if_splits)
    qed
    then show ?case using m(1) by auto
  qed
qed

lemma reserve_step_inv:
  assumes ok: "ledger_codec S (le_ser E) (le_parse E)" and inv: "ledger_inv E S L tail w"
  shows "\<exists>L' tail'. ledger_inv E S L' tail' (ledger_step E (Act_Reserve t q io now) w)"
proof (cases "lw_tasks w t")
  case None
  obtain r st where h: "hydrate_tool_executions E io (lw_ledger w) = (r, st)" by fastforce
  from hydrate_inv [OF ok inv h] obtain tail' where
    inv': "ledger_inv E S L tail' (w\<lparr>lw_ledger := st\<rparr>)" and hyd: "r = None \<Longrightarrow> tl_hydrated st" by blast
  have same: "set_task t None st w = w\<lparr>lw_ledger := st\<rparr>"
    using None by (simp add: set_task_def fun_upd_idem)
  show ?thesis
  proof (cases "r = None \<and> tl_executions st (tr_key q) = None")
    case False
    then have "ledger_step E (Act_Reserve t q io now) w = w\<lparr>lw_ledger := st\<rparr>"
      using None h same by (cases r) (auto simp: reserve_lookup_def split: option.splits)
    then show ?thesis using inv' by metis
  next
    case True
    let ?x = "started_execution q now" and ?w = "w\<lparr>lw_ledger := st\<rparr>"
    let ?m = "(tl_executions st)(tr_key q \<mapsto> ?x)"
    note I = ledger_invD [OF inv']
    have k: "tx_key ?x = tr_key q" by (simp add: tx_key_def tr_key_def started_execution_def)
    have fresh: "tr_key q \<notin> set (lw_called w)" using I(11) [of "tr_key q"] hyd True by auto
    have "ledger_inv E S L tail' (set_task t (Some (Task_Reserving q ?x)) (st\<lparr>tl_executions := ?m\<rparr>)
        (?w\<lparr>lw_called := lw_called w, lw_done := lw_done w\<rparr>))"
    proof (rule task_step_inv [OF inv', where m = ?m and key = "tr_key q"])
      show "u = t" if "lw_tasks ?w u = Some a" "task_key a = tr_key q" for u a
        using I(7) [OF that(1)] that(2) True by auto
      show "x \<in> set (lw_done ?w) \<and> tx_key x \<noteq> tr_key q \<or> P" if "x \<in> set (lw_done w)" for x P
        using I(13) [of x] fresh that by force
      show "tx_key x = k'" if "?m k' = Some x" for k' x using that k I(5) [of k' x] by (auto split: if_splits)
    qed (use hyd True k fresh None in auto)
    moreover have "ledger_step E (Act_Reserve t q io now) w
        = set_task t (Some (Task_Reserving q ?x)) (st\<lparr>tl_executions := ?m\<rparr>) (?w\<lparr>lw_called := lw_called w, lw_done := lw_done w\<rparr>)"
      using None h True by (simp add: reserve_lookup_def Let_def set_task_def)
    ultimately show ?thesis by metis
  qed
next
  case (Some a)
  then have "ledger_step E (Act_Reserve t q io now) w = w" by simp
  with inv show ?thesis by metis
qed

lemma abandon_step_inv:
  assumes inv: "ledger_inv E S L tail w"
  shows "ledger_inv E S L tail (ledger_step E (Act_Abandon t) w)"
proof (cases "\<exists>x. lw_tasks w t = Some (Task_Abandoning x)")
  case True
  then obtain x where x: "lw_tasks w t = Some (Task_Abandoning x)" by blast
  note I = ledger_invD [OF inv]
  let ?st = "reserve_abandon x (lw_ledger w)"
  have hyd: "tl_hydrated (lw_ledger w)" using I(4) x by fastforce
  have st: "?st = (lw_ledger w)\<lparr>tl_executions := tl_executions ?st\<rparr>"
    and m: "k \<noteq> tx_key x \<Longrightarrow> tl_executions ?st k = tl_executions (lw_ledger w) k"
      "tl_executions ?st k = Some y \<Longrightarrow> tl_executions (lw_ledger w) k = Some y" for k y
    by (auto simp: reserve_abandon_def split: option.splits if_splits)
  have fresh: "tx_key x \<notin> set (lw_called w)" using I(6) [OF x] by simp
  have "ledger_inv E S L tail (set_task t None ?st (w\<lparr>lw_called := lw_called w, lw_done := lw_done w\<rparr>))"
  proof (rule task_step_inv [OF inv hyd st, where key = "tx_key x"])
    show "u = t" if "lw_tasks w u = Some a" "task_key a = tx_key x" for u a
      using I(8) [OF that(1) x] that(2) by simp
    show "y \<in> set (lw_done w) \<and> tx_key y \<noteq> tx_key x \<or> P" if "y \<in> set (lw_done w)" for y P
      using I(13) [OF that] fresh that by metis
    show "tx_key y = k" if "tl_executions ?st k = Some y" for k y using I(5) [OF m(2) [OF that]] .
    show "tl_executions ?st k = tl_executions (lw_ledger w) k" if "k \<noteq> tx_key x" for k using m(1) [OF that] .
  qed (use fresh x in simp_all)
  then show ?thesis using x by simp
next
  case False
  then have "ledger_step E (Act_Abandon t) w = w" by (auto split: option.splits tool_task.splits)
  with inv show ?thesis by metis
qed

lemma call_step_inv:
  assumes inv: "ledger_inv E S L tail w"
  shows "ledger_inv E S L tail (ledger_step E (Act_Call t r) w)"
proof (cases "\<exists>q. lw_tasks w t = Some (Task_Calling q)")
  case True
  then obtain q where q: "lw_tasks w t = Some (Task_Calling q)" by blast
  note I = ledger_invD [OF inv]
  have hyd: "tl_hydrated (lw_ledger w)" using I(4) q by fastforce
  have fresh: "tr_key q \<notin> set (lw_called w)" "tr_key q \<in> logged L" using I(6) [OF q] by simp_all
  have mem: "tr_key q \<in> dom (tl_executions (lw_ledger w))" using I(7) [OF q] by simp
  have "ledger_inv E S L tail (set_task t (Some (Task_Returned q r)) (lw_ledger w)
      (w\<lparr>lw_called := tr_key q # lw_called w, lw_done := lw_done w\<rparr>))"
  proof (rule task_step_inv [OF inv hyd, where key = "tr_key q" and m = "tl_executions (lw_ledger w)"])
    show "u = t" if "lw_tasks w u = Some a" "task_key a = tr_key q" for u a
      using I(8) [OF that(1) q] that(2) by simp
    show "y \<in> set (lw_done w) \<and> tx_key y \<noteq> tr_key q \<or> P" if "y \<in> set (lw_done w)" for y P
      using I(13) [OF that] fresh that by metis
  qed (use I(5) fresh q mem in auto)
  then show ?thesis using q by simp
next
  case False
  then have "ledger_step E (Act_Call t r) w = w" by (auto split: option.splits tool_task.splits)
  with inv show ?thesis by metis
qed

lemma complete_step_inv:
  assumes ok: "ledger_codec S (le_ser E) (le_parse E)" and inv: "ledger_inv E S L tail w"
  shows "\<exists>L' tail'. ledger_inv E S L' tail' (ledger_step E (Act_Complete t io now) w)"
proof (cases "\<exists>q r. lw_tasks w t = Some (Task_Returned q r)")
  case True
  then obtain q r where q: "lw_tasks w t = Some (Task_Returned q r)" by blast
  note I = ledger_invD [OF inv]
  have hyd: "tl_hydrated (lw_ledger w)" using I(4) q by fastforce
  have h: "hydrate_tool_executions E io (lw_ledger w) = (None, lw_ledger w)"
    by (simp add: hydrate_tool_executions_def hyd)
  have called: "tr_key q \<in> set (lw_called w)" using I(6) [OF q] by simp
  have mem: "tr_key q \<in> dom (tl_executions (lw_ledger w))" using I(7) [OF q] by simp
  have step: "ledger_inv E S L tail (set_task t nxt (lw_ledger w) w)"
    if "\<And>b. nxt = Some b \<Longrightarrow> task_ok S (le_ser E) L tail (lw_called w) b \<and> task_key b = tr_key q" for nxt
  proof -
    have "ledger_inv E S L tail (set_task t nxt (lw_ledger w) (w\<lparr>lw_called := lw_called w, lw_done := lw_done w\<rparr>))"
    proof (rule task_step_inv [OF inv hyd, where key = "tr_key q" and m = "tl_executions (lw_ledger w)"])
      show "u = t" if "lw_tasks w u = Some a" "task_key a = tr_key q" for u a
        using I(8) [OF that(1) q] that(2) by simp
      show "y \<in> set (lw_done w) \<and> tx_key y \<noteq> tr_key q \<or> P" if "y \<in> set (lw_done w)" for y P
        using I(14) [OF that q] that by simp
    qed (use I(5) q mem that in auto)
    then show ?thesis by simp
  qed
  have ended: "ledger_inv E S L tail (set_task t None (lw_ledger w) w)" by (rule step) simp
  have rec: "ledger_inv E S L tail (set_task t (Some (Task_Recording (completed_execution E now r x))) (lw_ledger w) w)"
    if "tl_executions (lw_ledger w) (tr_key q) = Some x" for x
  proof (rule step)
    have "tx_key (completed_execution E now r x) = tr_key q"
      using I(5) [OF that] by (simp add: completed_execution_def Let_def tx_key_def)
    then show "task_ok S (le_ser E) L tail (lw_called w) b \<and> task_key b = tr_key q"
      if "Some (Task_Recording (completed_execution E now r x)) = Some b" for b
      using that called by (auto simp: completed_execution_def Let_def)
  qed
  show ?thesis
    using ended rec q h mem by (auto simp: complete_lookup_def split: option.splits)
next
  case False
  then have "ledger_step E (Act_Complete t io now) w = w" by (auto split: option.splits tool_task.splits)
  with inv show ?thesis by metis
qed

lemma store_step_inv:
  assumes inv: "ledger_inv E S L tail w"
  shows "ledger_inv E S L tail (ledger_step E (Act_Store t) w)"
proof (cases "\<exists>x. lw_tasks w t = Some (Task_Storing x)")
  case True
  then obtain x where x: "lw_tasks w t = Some (Task_Storing x)" by blast
  note I = ledger_invD [OF inv]
  let ?m = "(tl_executions (lw_ledger w))(tx_key x \<mapsto> x)"
  have hyd: "tl_hydrated (lw_ledger w)" using I(4) x by fastforce
  have ts: "tx_key x \<in> set (lw_called w)" "tx_status x = Tx_Completed" "settled_last S (le_ser E) L tail x"
    using I(6) [OF x] by simp_all
  have "ledger_inv E S L tail (set_task t None (complete_store x (lw_ledger w))
      (w\<lparr>lw_called := lw_called w, lw_done := x # lw_done w\<rparr>))"
  proof (rule task_step_inv [OF inv hyd, where key = "tx_key x" and m = ?m])
    show "u = t" if "lw_tasks w u = Some a" "task_key a = tx_key x" for u a
      using I(8) [OF that(1) x] that(2) by simp
    show "y \<in> set (lw_done w) \<and> tx_key y \<noteq> tx_key x
        \<or> None = None \<and> ?m (tx_key x) = Some y \<and> tx_key y = tx_key x \<and> tx_status y = Tx_Completed
          \<and> tx_key x \<in> set (lw_called w) \<and> settled_last S (le_ser E) L tail y" if "y \<in> set (x # lw_done w)" for y
      using ts I(14) [OF _ x, of y] that by auto
    show "tx_key y = k" if "?m k = Some y" for k y using that I(5) [of k y] by (auto split: if_splits)
  qed (use I(5) x ts in \<open>auto simp: complete_store_def\<close>)
  then show ?thesis using x by (simp add: set_task_def)
next
  case False
  then have "ledger_step E (Act_Store t) w = w" by (auto split: option.splits tool_task.splits)
  with inv show ?thesis by metis
qed

lemma crash_step_inv: "ledger_inv E S L tail w \<Longrightarrow> ledger_inv E S L tail (ledger_step E Act_Crash w)"
  unfolding ledger_inv_def by auto

lemma append_acts_inv:
  assumes ok: "ledger_codec S (le_ser E) (le_parse E)" and inv: "ledger_inv E S L tail w"
    and act: "act = Act_Append t oc \<or> act = Act_Record t oc"
    and sub: "set (lw_written (ledger_step E act w)) \<subseteq> S"
  shows "\<exists>L' tail'. ledger_inv E S L' tail' (ledger_step E act w)"
proof -
  note I = ledger_invD [OF inv]
  consider q x where "act = Act_Append t oc" "lw_tasks w t = Some (Task_Reserving q x)"
    | x where "act = Act_Record t oc" "lw_tasks w t = Some (Task_Recording x)"
    | "ledger_step E act w = w"
    using act that by (cases "lw_tasks w t"; cases "the (lw_tasks w t)") auto
  then show ?thesis
  proof cases
    case (1 q x)
    obtain r st where a: "append_tool_execution_snapshot E oc x (lw_ledger w) = (r, st)" by fastforce
    then have z: "x \<in> S" using sub 1 by (auto simp: set_task_def split: option.splits)
    let ?nxt = "Some (case r of None \<Rightarrow> Task_Calling q | Some _ \<Rightarrow> Task_Abandoning x)"
    have "\<exists>L' tail'. ledger_inv E S L' tail' (set_task t ?nxt st (w\<lparr>lw_written := x # lw_written w\<rparr>))"
      by (rule append_step_inv [OF ok inv z a 1(2)]) (use I(6) [OF 1(2)] in \<open>auto split: option.splits\<close>)
    then show ?thesis using 1 a by (auto split: option.splits)
  next
    case (2 x)
    obtain r st where a: "append_tool_execution_snapshot E oc x (lw_ledger w) = (r, st)" by fastforce
    then have z: "x \<in> S" using sub 2 by (auto simp: set_task_def split: option.splits)
    let ?nxt = "case r of None \<Rightarrow> Some (Task_Storing x) | Some _ \<Rightarrow> None"
    have "\<exists>L' tail'. ledger_inv E S L' tail' (set_task t ?nxt st (w\<lparr>lw_written := x # lw_written w\<rparr>))"
      by (rule append_step_inv [OF ok inv z a 2(2)]) (use I(6) [OF 2(2)] in \<open>auto split: option.splits\<close>)
    then show ?thesis using 2 a by (auto split: option.splits)
  qed (use inv in auto)
qed

lemma ledger_step_inv:
  assumes "ledger_codec S (le_ser E) (le_parse E)" "ledger_inv E S L tail w"
    and "set (lw_written (ledger_step E act w)) \<subseteq> S"
  shows "\<exists>L' tail'. ledger_inv E S L' tail' (ledger_step E act w)"
proof (cases act)
  case (Act_Reserve t q io now)
  then show ?thesis using reserve_step_inv [OF assms(1,2)] by blast
next
  case (Act_Complete t io now)
  then show ?thesis using complete_step_inv [OF assms(1,2)] by blast
next
  case (Act_Append t oc)
  then show ?thesis using append_acts_inv [OF assms(1,2) _ assms(3)] by blast
next
  case (Act_Record t oc)
  then show ?thesis using append_acts_inv [OF assms(1,2) _ assms(3)] by blast
next
  case (Act_Abandon t)
  then show ?thesis using abandon_step_inv [OF assms(2)] by blast
next
  case (Act_Call t r)
  then show ?thesis using call_step_inv [OF assms(2)] by blast
next
  case (Act_Store t)
  then show ?thesis using store_step_inv [OF assms(2)] by blast
next
  case Act_Crash
  then show ?thesis using crash_step_inv [OF assms(2)] by blast
qed

lemma written_grows: "set (lw_written w) \<subseteq> set (lw_written (ledger_step E act w))"
  by (cases act) (auto simp: set_task_def split: option.splits tool_task.splits prod.splits sum.splits)

lemma run_ledger_snoc [simp]:
  "run_ledger E (acts @ [act]) w = ledger_step E act (run_ledger E acts w)" "run_ledger E [] w = w"
  by (simp_all add: run_ledger_def)

lemma run_ledger_inv:
  assumes "ledger_codec S (le_ser E) (le_parse E)"
    and "set (lw_written (run_ledger E acts (initial_ledger_world None))) \<subseteq> S"
  shows "\<exists>L tail. ledger_inv E S L tail (run_ledger E acts (initial_ledger_world None))"
  using assms(2)
proof (induction acts rule: rev_induct)
  case Nil
  show ?case using initial_inv by (metis run_ledger_snoc(2))
next
  case (snoc act acts)
  let ?w = "run_ledger E acts (initial_ledger_world None)"
  have "set (lw_written (ledger_step E act ?w)) \<subseteq> S" using snoc.prems by simp
  moreover from this written_grows have "set (lw_written ?w) \<subseteq> S" by blast
  ultimately show ?case using snoc.IH ledger_step_inv [OF assms(1)] by (simp del: ledger_step.simps) blast
qed

end
