(* ===== verification/ToolLedgerProps.thy ===== *)
theory ToolLedgerProps
  imports ToolLedgerInvariants
begin

text \<open>
  What the ledger of tool executions promises, through failed appends, crashes and any interleaving of
  tasks, and where it stops working.
\<close>

section \<open>A concrete ledger\<close>

definition ledger_request :: "string \<Rightarrow> tool_request" where
  "ledger_request i = \<lparr>tr_run_id = ''r'', tr_tool_use_id = i, tr_tool_name = ''fs.write'', tr_input_hash = ''h''\<rparr>"

definition ledger_result :: tool_completion where
  "ledger_result = \<lparr>tc_content = JObject [(''status'', JString ''completed'')], tc_is_error = False,
     tc_metadata = None\<rparr>"

definition ledger_calm :: ledger_io where
  "ledger_calm = \<lparr>li_read = None, li_truncate = Replaced\<rparr>"

definition sample_tx_ser :: "tool_execution \<Rightarrow> string" where
  "sample_tx_ser x = CHR 0x7B # tx_tool_use_id x @ (case tx_status x of Tx_Started \<Rightarrow> ''S'' | Tx_Completed \<Rightarrow> ''C'') @ ''}''"

definition sample_done :: tool_execution where
  "sample_done = completed_execution \<lparr>le_ser = sample_tx_ser, le_parse = (\<lambda>_. Inl ''''), le_digest = id,
     le_json_text = (\<lambda>_. '''')\<rparr> 2 ledger_result (started_execution (ledger_request ''u'') 1)"

definition sample_parse :: "string \<Rightarrow> string + tool_execution" where
  "sample_parse s =
     (if s = ''{uS}'' then Inr (started_execution (ledger_request ''u'') 1)
      else if s = ''{vS}'' then Inr (started_execution (ledger_request ''v'') 1)
      else if s = ''{uC}'' then Inr sample_done else Inl ''expected a record'')"

definition sample_ledger_env :: ledger_env where
  "sample_ledger_env = \<lparr>le_ser = sample_tx_ser, le_parse = sample_parse, le_digest = id, le_json_text = (\<lambda>_. '''')\<rparr>"

definition sample_records :: "tool_execution set" where
  "sample_records = {started_execution (ledger_request ''u'') 1, started_execution (ledger_request ''v'') 1,
     sample_done}"

lemma sample_texts:
  "sample_tx_ser (started_execution (ledger_request ''u'') 1) = ''{uS}''"
  "sample_tx_ser (started_execution (ledger_request ''v'') 1) = ''{vS}''"
  "sample_tx_ser sample_done = ''{uC}''"
  by (simp_all add: sample_tx_ser_def sample_done_def completed_execution_def Let_def started_execution_def
      ledger_request_def)

lemma sample_texts_shape: "x \<in> sample_records \<Longrightarrow> \<exists>a b. sample_tx_ser x = [CHR ''{'', a, b, CHR ''}''] \<and> a \<noteq> CHR ''{'' \<and> b \<noteq> CHR ''{''"
  by (auto simp: sample_records_def sample_texts)

lemma sample_ledger_codec: "ledger_codec sample_records (le_ser sample_ledger_env) (le_parse sample_ledger_env)"
proof -
  have "codec_ok sample_records sample_tx_ser sample_parse"
    by (auto simp: codec_ok_def sample_records_def sample_texts sample_parse_def less_Suc_eq numeral_eq_Suc)
  moreover have "\<not> is_ok (sample_parse (concat ps))"
    if "2 \<le> length ps" "set ps \<subseteq> ledger_pieces sample_records sample_tx_ser" for ps
  proof -
    have hd: "\<exists>t. p = CHR ''{'' # t" if "p \<in> ledger_pieces sample_records sample_tx_ser" for p
      using that sample_texts_shape by (cases p) (fastforce simp: ledger_pieces_def)+
    from that(1) obtain p q qs where ps: "ps = p # q # qs" by (cases ps; cases "tl ps") auto
    with that(2) hd [of p] hd [of q] obtain s t where "p = CHR ''{'' # s" "q = CHR ''{'' # t" by auto
    with ps have c: "concat ps = CHR ''{'' # s @ CHR ''{'' # t @ concat qs" by simp
    have "CHR ''{'' \<in> set (tl (concat ps))" using c by simp
    then show ?thesis by (auto simp: sample_parse_def)
  qed
  ultimately show ?thesis by (simp add: ledger_codec_def sample_ledger_env_def)
qed

lemma ledger_codec_subset: "ledger_codec S ser parse \<Longrightarrow> T \<subseteq> S \<Longrightarrow> ledger_codec T ser parse"
  by (fastforce simp: ledger_codec_def codec_ok_def ledger_pieces_def)

section \<open>At most one call\<close>

text \<open>
  C39. However tasks interleave, appends fail and the process crashes, the tool of a tool use is called at most
  once.
\<close>

theorem tool_called_once:
  assumes "ledger_codec (set (lw_written (run_ledger E acts (initial_ledger_world None)))) (le_ser E) (le_parse E)"
  shows "distinct (lw_called (run_ledger E acts (initial_ledger_world None)))"
  using run_ledger_inv [OF assms order_refl] by (auto dest: ledger_invD(9))

text \<open>A reservation that fails, one that is called, a crash in its completion, and a repetition.\<close>

definition sample_acts :: "ledger_act list" where
  "sample_acts = [Act_Reserve 0 (ledger_request ''u'') ledger_calm 1, Act_Append 0 (AppendFailed 0 ''disk full''),
     Act_Abandon 0, Act_Reserve 1 (ledger_request ''u'') ledger_calm 1, Act_Append 1 Appended,
     Act_Call 1 ledger_result, Act_Complete 1 ledger_calm 2, Act_Record 1 (AppendFailed 2 ''killed''), Act_Crash,
     Act_Reserve 2 (ledger_request ''u'') ledger_calm 3, Act_Append 2 Appended, Act_Call 2 ledger_result]"

lemmas ledger_eval = set_task_def reserve_lookup_def hydrate_tool_executions_def read_tool_executions_def
  append_tool_execution_snapshot_def append_line_def log_bytes_def reserve_abandon_def complete_lookup_def
  complete_store_def truncate_jsonl_tail_def initial_ledger_world_def empty_ledger_def tx_key_def tr_key_def
  same_identity_def ledger_calm_def

theorem tool_called_once_witness:
  "lw_called (run_ledger sample_ledger_env sample_acts (initial_ledger_world None)) = [(''r'', ''u'')]
   \<and> distinct (lw_called (run_ledger sample_ledger_env sample_acts (initial_ledger_world None)))"
proof -
  let ?w = "run_ledger sample_ledger_env sample_acts (initial_ledger_world None)"
  have "lw_called ?w = [(''r'', ''u'')] \<and> set (lw_written ?w) \<subseteq> sample_records"
    by code_simp
  then have w: "lw_called ?w = [(''r'', ''u'')]" and sub: "set (lw_written ?w) \<subseteq> sample_records" by simp_all
  have "distinct (lw_called ?w)"
    by (rule tool_called_once) (rule ledger_codec_subset [OF sample_ledger_codec sub])
  with w show ?thesis by simp
qed

section \<open>Answers after a completion\<close>

text \<open>
  C40. Once a completion is acknowledged, every later reservation of its tool use, in this process or after any
  number of restarts, is answered with the completed record, as a replay when tool and input are the same and
  as a conflict when they are not, or fails because the log cannot be read.
\<close>

theorem tool_result_replayed:
  assumes "ledger_codec (set (lw_written (run_ledger E acts (initial_ledger_world None)))) (le_ser E) (le_parse E)"
    and "x \<in> set (lw_done (run_ledger E acts (initial_ledger_world None)))" "tr_key q = tx_key x"
    and "reserve_lookup E io now q (lw_ledger (run_ledger E acts (initial_ledger_world None))) = (res, st)"
  shows "tx_status x = Tx_Completed
    \<and> (res = Inr (Inl (if same_identity q x then Tool_Replay x else Tool_Conflict x))
      \<or> is_ok res = False \<and> \<not> tl_hydrated (lw_ledger (run_ledger E acts (initial_ledger_world None))))"
proof -
  let ?w = "run_ledger E acts (initial_ledger_world None)"
  obtain L tail where inv: "ledger_inv E (set (lw_written ?w)) L tail ?w"
    using run_ledger_inv [OF assms(1) order_refl] by blast
  obtain r st' where h: "hydrate_tool_executions E io (lw_ledger ?w) = (r, st')" by fastforce
  from hydrate_inv [OF assms(1) inv h] obtain tail' where
    inv': "ledger_inv E (set (lw_written ?w)) L tail' (?w\<lparr>lw_ledger := st'\<rparr>)"
    and hyd: "r = None \<Longrightarrow> tl_hydrated st'" by blast
  have mem: "tl_executions st' (tx_key x) = Some x" if "r = None"
    using ledger_invD(16) [OF inv', of x] assms(2) hyd [OF that] by simp
  have completed: "tx_status x = Tx_Completed" using ledger_invD(12) [OF inv assms(2)] .
  show ?thesis
  proof (cases r)
    case None
    then show ?thesis using assms(3,4) h mem completed by (auto simp: reserve_lookup_def)
  next
    case (Some e)
    then have "\<not> tl_hydrated (lw_ledger ?w)" using h by (auto simp: hydrate_tool_executions_def)
    then show ?thesis using assms(4) h Some completed by (auto simp: reserve_lookup_def)
  qed
qed

definition sample_done_acts :: "ledger_act list" where
  "sample_done_acts = [Act_Reserve 1 (ledger_request ''u'') ledger_calm 1, Act_Append 1 Appended,
     Act_Call 1 ledger_result, Act_Complete 1 ledger_calm 2, Act_Record 1 Appended, Act_Store 1, Act_Crash]"

theorem tool_result_replayed_witness:
  "fst (reserve_lookup sample_ledger_env ledger_calm 9 (ledger_request ''u'')
      (lw_ledger (run_ledger sample_ledger_env sample_done_acts (initial_ledger_world None))))
    = Inr (Inl (Tool_Replay sample_done))"
proof -
  let ?w = "run_ledger sample_ledger_env sample_done_acts (initial_ledger_world None)"
  have w: "lw_done ?w = [sample_done]" "set (lw_written ?w) \<subseteq> sample_records"
    "is_ok (fst (reserve_lookup sample_ledger_env ledger_calm 9 (ledger_request ''u'') (lw_ledger ?w)))"
    by code_simp+
  obtain res st where r: "reserve_lookup sample_ledger_env ledger_calm 9 (ledger_request ''u'') (lw_ledger ?w) = (res, st)"
    by fastforce
  have id: "tr_key (ledger_request ''u'') = tx_key sample_done" "same_identity (ledger_request ''u'') sample_done"
    by code_simp+
  have "res = Inr (Inl (if same_identity (ledger_request ''u'') sample_done then Tool_Replay sample_done
      else Tool_Conflict sample_done)) \<or> is_ok res = False \<and> \<not> tl_hydrated (lw_ledger ?w)"
    using tool_result_replayed [OF ledger_codec_subset [OF sample_ledger_codec w(2)] _ id(1) r] w(1) by simp
  with id(2) w(3) r show ?thesis by auto
qed

section \<open>A torn line\<close>

lemma unreadable_file:
  assumes "ledger_codec S (le_ser E) (le_parse E)" "pieces_ok S (le_ser E) L tail" "l \<in> set L" "fst l \<noteq> []"
    and "log_bytes f = file_text (le_ser E) L tail"
  shows "\<exists>e. read_tool_executions E io f = (Inl e, f)"
proof -
  from assms(3) have "file_text (le_ser E) L tail \<noteq> []"
    by (cases L) (auto simp: file_text_def line_text_def)
  with assms(5) obtain bytes where f: "f = Some bytes" "bytes = file_text (le_ser E) L tail"
    by (cases f) (auto simp: log_bytes_def)
  have "read_ledger_chunks (le_parse E) (\<not> ends_with bytes [nl]) (split_inclusive_nl bytes) 0 Map.empty \<noteq> Inr (m, c)"
    for m c using read_file [OF assms(1,2), of m c] assms(3,4) f(2) by blast
  then show ?thesis
    using f(1) by (auto simp: read_tool_executions_def split: option.splits sum.splits)
qed

text \<open>
  When the append of a reservation stops in the middle of its line, the next reservation is granted and its
  tool called, but its line continues the broken one: after the next restart every reservation is refused,
  whatever it is for, and the file never becomes readable again by itself.
\<close>

theorem torn_reservation_blocks_tools:
  assumes "ledger_codec S (le_ser E) (le_parse E)" "insert (started_execution q1 t1) (insert (started_execution q2 t2) (set xs)) \<subseteq> S"
    and "tl_hydrated st" "log_bytes (tl_file st) = journal_of (le_ser E) xs"
    and "tl_executions st (tr_key q1) = None" "tl_executions st (tr_key q2) = None" "tr_key q1 \<noteq> tr_key q2"
    and "0 < n" "n \<le> length (le_ser E (started_execution q1 t1))"
    and "reserve_tool_execution E io1 (AppendFailed n e) t1 q1 st = (r1, st1)"
    and "reserve_tool_execution E io2 Appended t2 q2 st1 = (r2, st2)"
  shows "r1 = Inl e \<and> r2 = Inr Tool_Reserved
    \<and> (\<forall>io oc t q. \<exists>e st3. reserve_tool_execution E io oc t q
          (st2\<lparr>tl_executions := Map.empty, tl_hydrated := False\<rparr>) = (Inl e, st3) \<and> tl_file st3 = tl_file st2)"
proof -
  let ?ser = "le_ser E" and ?x1 = "started_execution q1 t1" and ?x2 = "started_execution q2 t2"
  let ?L = "map (Pair []) xs" and ?p = "take n (le_ser E (started_execution q1 t1))"
  have k: "tx_key ?x1 = tr_key q1" "tx_key ?x2 = tr_key q2"
    by (simp_all add: tx_key_def tr_key_def started_execution_def)
  have f0: "journal_of ?ser xs = file_text ?ser ?L []"
    by (simp add: file_text_def journal_of_def line_text_def journal_line_def [abs_def] comp_def)
  have r1: "r1 = Inl e" and st1: "tl_hydrated st1" "log_bytes (tl_file st1) = file_text ?ser ?L [?p]"
      "tl_executions st1 (tr_key q2) = None"
    using assms(3-10) k f0
    by (auto simp: reserve_tool_execution_def reserve_lookup_def hydrate_tool_executions_def Let_def
        append_tool_execution_snapshot_def append_line_def reserve_abandon_def log_bytes_def file_text_def
        split: option.splits if_splits)
  have r2: "r2 = Inr Tool_Reserved" and st2: "log_bytes (tl_file st2) = file_text ?ser (?L @ [([?p], ?x2)]) []"
    using assms(11) st1
    by (auto simp: reserve_tool_execution_def reserve_lookup_def hydrate_tool_executions_def Let_def
        append_tool_execution_snapshot_def append_line_def log_bytes_def file_text_def line_text_def)
  have ok: "pieces_ok S ?ser (?L @ [([?p], ?x2)]) []"
    using assms(2) piece_take [OF assms(1) _ assms(8), of ?x1] by (auto simp: pieces_ok_def)
  have "\<exists>e st3. reserve_tool_execution E io oc t q (st2\<lparr>tl_executions := Map.empty, tl_hydrated := False\<rparr>)
      = (Inl e, st3) \<and> tl_file st3 = tl_file st2" for io oc t q
  proof -
    have "\<exists>e. read_tool_executions E io (tl_file st2) = (Inl e, tl_file st2)"
      by (rule unreadable_file [OF assms(1) ok _ _ st2, of "([?p], ?x2)"]) (use assms(8) in simp_all)
    then show ?thesis
      by (auto simp: reserve_tool_execution_def reserve_lookup_def hydrate_tool_executions_def)
  qed
  with r1 r2 show ?thesis by blast
qed

definition sample_ledger :: tool_ledger where
  "sample_ledger = \<lparr>tl_file = None, tl_executions = Map.empty, tl_hydrated = True\<rparr>"

theorem torn_reservation_blocks_tools_witness:
  "\<exists>st1 st2. reserve_tool_execution sample_ledger_env ledger_calm (AppendFailed 2 ''disk full'') 1
        (ledger_request ''u'') sample_ledger = (Inl ''disk full'', st1)
    \<and> reserve_tool_execution sample_ledger_env ledger_calm Appended 1 (ledger_request ''v'') st1
        = (Inr Tool_Reserved, st2)
    \<and> (\<forall>io oc t q. \<exists>e st3. reserve_tool_execution sample_ledger_env io oc t q
          (st2\<lparr>tl_executions := Map.empty, tl_hydrated := False\<rparr>) = (Inl e, st3))"
proof -
  let ?u = "ledger_request ''u''" and ?v = "ledger_request ''v''"
  obtain r1 st1 where 1: "reserve_tool_execution sample_ledger_env ledger_calm (AppendFailed 2 ''disk full'') 1 ?u
      sample_ledger = (r1, st1)" by fastforce
  obtain r2 st2 where 2: "reserve_tool_execution sample_ledger_env ledger_calm Appended 1 ?v st1 = (r2, st2)"
    by fastforce
  have "r1 = Inl ''disk full'' \<and> r2 = Inr Tool_Reserved
    \<and> (\<forall>io oc t q. \<exists>e st3. reserve_tool_execution sample_ledger_env io oc t q
          (st2\<lparr>tl_executions := Map.empty, tl_hydrated := False\<rparr>) = (Inl e, st3) \<and> tl_file st3 = tl_file st2)"
  proof (rule torn_reservation_blocks_tools [OF sample_ledger_codec _ _ _ _ _ _ _ _ 1 2])
    show "insert (started_execution ?u 1) (insert (started_execution ?v 1) (set [])) \<subseteq> sample_records"
      by (simp add: sample_records_def)
    show "2 \<le> length (le_ser sample_ledger_env (started_execution ?u 1))"
      by (simp add: sample_ledger_env_def sample_texts)
  qed (simp_all add: sample_ledger_def log_bytes_def journal_of_def tr_key_def ledger_request_def)
  with 1 2 show ?thesis by blast
qed

end
