(* ===== verification/Spec2Isabelle.thy ===== *)
theory Spec2Isabelle
  imports ControllerProps ReleaseRecovery PublishWorkflowControllerProps PermissionProps
    GatewayProps GatewayQuotaProps GatewaySendProps GatewayWaitProps GatewayToolProps GatewayTypeProps
    GatewayConfigUseProps GatewayAdminErrors GatewayServiceProps GatewayPublishProps
    ToolLedgerProps
begin

text \<open>
  Control plane of the zeronDesign runtime service (\<open>services/runtime/src\<close>) and its provider gateway
  (\<open>services/provider-gateway/src\<close>).

  A project's website is built, packaged into a signed image (a \<^emph>\<open>work release\<close>) and then published:
  a client commits an intent, the store turns it into a new desired generation of the project's
  runtime state and an outbox event, and a controller reconciles the cluster with it and records what
  it observed. All of it must survive a crash at any point, and no stale or unsafe result may
  overwrite a newer one. This library models that control plane.

  \<^bold>\<open>Theories.\<close>
  \<^item> \<open>Prelude\<close>: byte strings, machine words with saturating increment, results, clocks.
  \<^item> \<open>OrdMap\<close>: \<open>BTreeMap\<close> as a sorted association list, behind the locale \<open>keyed_map\<close>.
  \<^item> \<open>Hashing\<close>: the framing and hexadecimal text around SHA-256; the digest itself is a parameter.
  \<^item> \<open>Journal\<close>: the JSON-lines journal as bytes, the checkpoint file, their failures, and start-up by
    replay behind the locale \<open>journaled\<close>. The JSON codecs are parameters with named laws.
  \<^item> \<open>ReleaseModel\<close>, \<open>ReleaseStore\<close>: \<open>release/model.rs\<close>, \<open>manifest.rs\<close>, \<open>store.rs\<close>.
    \<open>ReleaseInvariants\<close>, \<open>ReleaseSafety\<close>, \<open>ReleaseProps\<close>: the step relation of the store, its invariant
    and properties. \<open>ReleaseRecovery\<close>: crashes and start-up.
  \<^item> \<open>ReleasePackager\<close>, \<open>PackagerProps\<close>: \<open>release/packager.rs\<close>, \<open>controller.rs\<close>,
    \<open>garbage_collector.rs\<close>, \<open>protection.rs\<close>.
  \<^item> \<open>PublicationModel\<close>, \<open>PublicationStore\<close>, \<open>PublicationReconcile\<close>: \<open>publication/model.rs\<close>, \<open>store.rs\<close>,
    \<open>store_reconcile.rs\<close>. \<open>PublicationInvariants\<close>, \<open>PublicationProgress\<close>, \<open>PublicationProps\<close>: steps,
    invariant, successful runs and properties. \<open>PublicationRecovery\<close>: crashes and start-up.
  \<^item> \<open>PublicationController\<close>, \<open>ControllerProps\<close>: \<open>publication/backend.rs\<close>, \<open>controller.rs\<close>,
    \<open>kubernetes_release_protection.rs\<close>: what the backend is asked to deploy, one pass of the
    controller, and the protection snapshot the garbage collector reads.
  \<^item> \<open>JsonLines\<close>: append-only logs of whole records, read line by line as \<open>BufRead::lines\<close> does, behind
    the locale \<open>jsonl_log\<close>.
  \<^item> \<open>PublishWorkflowModel\<close>, \<open>PublishWorkflowStore\<close>: \<open>publish_workflow/store.rs\<close> with its records of
    \<open>visual_contracts.rs\<close>. \<open>PublishWorkflowInvariants\<close>, \<open>PublishWorkflowRestart\<close>,
    \<open>PublishWorkflowProps\<close>: steps, invariant, start-up and properties.
  \<^item> \<open>DraftPreview\<close>, \<open>DraftPreviewProps\<close>: \<open>draft_preview.rs\<close>, the single-writer sessions whose durable
    revisions are published.
  \<^item> \<open>ArtifactPublish\<close>: project versions and the promotion of their artifacts, from
    \<open>conversation.rs\<close>.
  \<^item> \<open>PublishWorkflowController\<close>, \<open>PublishWorkflowControllerProps\<close>: \<open>publish_workflow/controller.rs\<close>,
    which drives a workflow through all the stores above: freeze the source, build and promote a version, package a release, commit the
    publication intent, follow it, roll it back.
  \<^item> \<open>PermissionEngine\<close>, \<open>PermissionProps\<close>: the rules, hooks and command policy of \<open>permission.rs\<close>.
  \<^item> \<open>ToolLedger\<close>: the ledger of tool executions in \<open>conversation.rs\<close> and its use by \<open>tools/runtime.rs\<close>, cut into
    the steps that tasks interleave. \<open>ToolLedgerFile\<close>: its log after torn appends. \<open>ToolLedgerInvariants\<close>,
    \<open>ToolLedgerProps\<close>: a tool use is called at most once.

  The agents of a project call language models through the gateway: one turn is one request, answered
  once, by a resource a selection policy allows, within the limits of the project.
  \<^item> \<open>JsonValue\<close>: \<open>serde_json::Value\<close> and its accessors. \<open>GatewayModel\<close>: the data of \<open>lib.rs\<close>, and the
    procedures the gateway is written in.
  \<^item> \<open>GatewayStore\<close>, \<open>GatewayLimits\<close>, \<open>GatewayConfigStore\<close>: \<open>storage.rs\<close> and \<open>postgres_store.rs\<close>, each
    operation for both databases: turn records, audit events and snapshots; circuits, daily tokens and
    leases; revisions of the configuration, connections, secrets and administrative operations.
  \<^item> \<open>GatewayPolicy\<close>: validation, the choice of a policy and the order of its candidates, deadlines and
    retries. \<open>GatewayMessages\<close>, \<open>GatewayProvider\<close>: the provider's request and its response.
  \<^item> \<open>GatewayTurn\<close>: \<open>GatewayService::execute_turn\<close> and all it calls.
  \<^item> \<open>GatewayFrames\<close>, \<open>GatewayCalls\<close>: which tables each operation changes, and the locales \<open>turn_calls\<close>
    and \<open>turn_work\<close> that carry a relation on databases through a turn. \<open>GatewayTurnProps\<close>,
    \<open>GatewayProps\<close>: many gateways on one database behind the locale \<open>claim_ledger\<close>.
    \<open>GatewayLimitsProps\<close>, \<open>GatewayQuotaProps\<close>: circuits, leases and usage. \<open>GatewaySendProps\<close>: what a
    turn sends to providers. \<open>GatewayToolProps\<close>: tool names and responses. \<open>GatewayTypeProps\<close>: the rows
    of the turn table. \<open>GatewayWaitProps\<close>: how long a turn waits for another. \<open>GatewaySample\<close>: a concrete
    gateway, one of whose turns runs to the end.

  \<^item> \<open>GatewayAdmin\<close>, \<open>GatewayServices\<close>, \<open>GatewayRouter\<close>: the administration of the gateway: identity and
    idempotent writes, the configuration in memory, connections, services, resources and policies, the
    mounted configuration file, audit events, the handlers for the runtime, start-up and the router.
  \<^item> \<open>GatewayAdminFrames\<close>: the locales \<open>admin_reads\<close>, \<open>admin_calls\<close> and \<open>admin_work\<close>, each an extension of the one
    before, carry a relation on databases through every request of the administration. \<open>GatewayAdminResults\<close>:
    what the handlers answer when the statements work. \<open>GatewayAdminProps\<close>: who may use them, and that a write
    runs once. \<open>GatewayRefreshProps\<close>, \<open>GatewayConfigUseProps\<close>: readers and writers of the configuration's
    version, down to the requests of a turn. \<open>GatewayAdminErrors\<close>: writes that leave half of their work.
    \<open>GatewayServiceProps\<close>, \<open>GatewayPublishProps\<close>: what audit listings show, and the end of a publication.
    \<open>GatewayAdminSample\<close>: a concrete gateway with its administrator.

  \<^bold>\<open>Conventions.\<close> \<open>Result\<close> is a sum with \<open>Inl\<close> the error. An operation on a store takes the store and
  returns its result with the store it leaves, also on errors. Every file effect may fail at any
  point: an \<open>io_plan\<close> says where. \<open>Utc::now()\<close> reads a clock argument; \<open>rand::random\<close> is a function of the
  draw. Code outside the repository (SHA-256, serde, the container builder, Kubernetes) is a parameter.
  The gateway's database is a record of tables; a statement is a function of it that may refuse, fail,
  or take effect and lose its answer, and a transaction undoes its statements when one of them fails.
  What other turns and processes do while a turn awaits is a function of its environment.

  \<^bold>\<open>Bounds.\<close> The packager's loop of eight iterations is a fuel of eight; six are shown to suffice. The
  gateway's loops that wait for another turn take fuel, one unit for each time they wait. Waiting on the
  database ends with the deadline, and \<open>durable_wait_ends\<close> says how much fuel that takes; waiting on a turn
  of the same process has no such bound (\<open>abandoned_turn_hangs\<close>). Every other property holds for any fuel.

  \<^bold>\<open>Not modelled.\<close> The agent loop, tools, HTTP handlers and object storage; the metrics of the provider gateway,
  the task that polls its configuration, the wire level of its databases and SQLite's sums that leave 64 bits; the
  Kubernetes calls of the publication backend; building a site and staging its files, which the
  publish workflow controller takes as functions of its environment; the broadcast of draft preview
  events to live subscribers; the path policy of \<open>permission.rs\<close>; mutex locking (each store operation
  is atomic, as the single lock of each store makes it).
\<close>

end
